(* ===== verification/Go_Prelude.thy ===== *)
theory Go_Prelude
  imports Main "HOL-Library.Word" "HOL-Library.AList" "HOL-Library.Signed_Division"
    "HOL-Library.List_Lexorder" "HOL-Library.Char_ord" "HOL-Library.Multiset"
begin

section \<open>The fragment of Go the components share\<close>

text \<open>
  Values, results and containers of Go as the component theories use them.

  \<^item> Fixed-width integers are words of the source's width. Signed comparisons are
    written on \<^term>\<open>sint\<close>, unsigned ones on the word order; \<open>i32_div\<close> and
    \<open>i32_rem\<close> are Go's truncating division.
  \<^item> A byte slice is a \<open>string option\<close>: \<^term>\<open>None\<close> is the nil slice, which
    \<^verbatim>\<open>bytes.Equal\<close> does not tell from the empty one but \<^verbatim>\<open>== nil\<close> does.
  \<^item> A computation that may panic returns \<open>gopanic + 'a\<close>.
  \<^item> A map the code only looks up is a HOL map; a map the code ranges over is an association
    list with distinct keys, in the order in which the range visits it (Go leaves the order
    open; the lemmas hold for every order).
\<close>

named_theorems go_defs \<open>definitions of the small Go helpers\<close>
named_theorems go_split \<open>case rules for results of Go computations\<close>

type_synonym u32 = "32 word"
type_synonym i32 = "32 word"
type_synonym u64 = "64 word"
type_synonym i64 = "64 word"
type_synonym gobytes = "string option"

subsection \<open>Panics\<close>

datatype gopanic =
    NilDeref
  | DivideByZero
  | IndexOutOfRange
  | RoundAlreadyExists i32
  | InvalidVoteType i32
  | ShouldNotHappen
  | CommitWithoutMajority
  | BlockMatchFailed
  | UnmarshalFailed
  | MarshalFailed
  | LogFatal
  | NilMapWrite
  | StoreFailed
  | FilterFailed
  | RollBackFailed

type_synonym 'a go = "gopanic + 'a"

definition go_bind :: "'a go \<Rightarrow> ('a \<Rightarrow> 'b go) \<Rightarrow> 'b go" where
  "go_bind m f = (case m of Inl e \<Rightarrow> Inl e | Inr a \<Rightarrow> f a)"

lemma go_bind_simps [simp]:
  "go_bind (Inl e) f = Inl e"
  "go_bind (Inr a) f = f a"
  by (simp_all add: go_bind_def)

lemma go_bind_Inr_iff: "go_bind m f = Inr b \<longleftrightarrow> (\<exists>a. m = Inr a \<and> f a = Inr b)"
  by (cases m) simp_all

lemma go_bind_Inl_iff:
  "go_bind m f = Inl e \<longleftrightarrow> m = Inl e \<or> (\<exists>a. m = Inr a \<and> f a = Inl e)"
  by (cases m) auto

lemma go_bind_InrE [elim]:
  assumes "go_bind m f = Inr b"
  obtains a where "m = Inr a" and "f a = Inr b"
  using assms by (auto simp: go_bind_Inr_iff)

lemma go_bind_assoc: "go_bind (go_bind m f) g = go_bind m (\<lambda>a. go_bind (f a) g)"
  by (cases m) simp_all

text \<open>The dereference of a pointer that may be nil.\<close>

definition deref :: "'a option \<Rightarrow> 'a go" where
  "deref p = (case p of None \<Rightarrow> Inl NilDeref | Some x \<Rightarrow> Inr x)"

lemma deref_simps [simp]: "deref None = Inl NilDeref" "deref (Some x) = Inr x"
  by (simp_all add: deref_def)

lemma deref_eq_Inr [simp]: "deref p = Inr x \<longleftrightarrow> p = Some x"
  by (cases p) simp_all

subsection \<open>Integers\<close>

definition i32_div :: "i32 \<Rightarrow> i32 \<Rightarrow> i32" where
  "i32_div a b = word_of_int (sint a sdiv sint b)"

definition i32_rem :: "i32 \<Rightarrow> i32 \<Rightarrow> i32" where
  "i32_rem a b = word_of_int (sint a smod sint b)"

text \<open>The conversions \<^verbatim>\<open>int32(len(xs))\<close> and \<^verbatim>\<open>uint64(x)\<close> of an \<^verbatim>\<open>int32\<close>.\<close>

definition i32_of_nat :: "nat \<Rightarrow> i32" where
  "i32_of_nat n = word_of_nat n"

definition u64_of_i32 :: "i32 \<Rightarrow> u64" where
  "u64_of_i32 x = word_of_int (sint x)"

lemma sint_i32_small:
  assumes "0 \<le> k" and "k < 2 ^ 31"
  shows "sint (word_of_int k :: i32) = k"
  using assms by (simp add: signed_take_bit_int_eq_self sint_sbintrunc')

lemma sint_i32_of_nat: "n < 2 ^ 31 \<Longrightarrow> sint (i32_of_nat n) = int n"
  unfolding i32_of_nat_def using sint_i32_small [of "int n"] by simp

lemma u64_of_i32_small:
  "0 \<le> sint x \<Longrightarrow> u64_of_i32 x = word_of_nat (nat (sint x))"
  by (simp add: u64_of_i32_def)

lemma i32_div_nat:
  assumes "m < 2 ^ 31" and "k < 2 ^ 31"
  shows "i32_div (i32_of_nat m) (i32_of_nat k) = i32_of_nat (m div k)"
proof -
  have "int m sdiv int k = int (m div k)"
    by (simp add: signed_divide_int_def sgn_if zdiv_int)
  then show ?thesis
    using assms by (simp add: i32_div_def sint_i32_of_nat) (simp add: i32_of_nat_def)
qed

lemma i32_rem_nat:
  assumes "m < 2 ^ 31" and "k < 2 ^ 31"
  shows "i32_rem (i32_of_nat m) (i32_of_nat k) = i32_of_nat (m mod k)"
proof -
  have "int m smod int k = int (m mod k)"
    by (simp add: signed_modulo_int_def signed_divide_int_def sgn_if zmod_int zdiv_int
        minus_div_mult_eq_mod)
  then show ?thesis
    using assms by (simp add: i32_rem_def sint_i32_of_nat) (simp add: i32_of_nat_def)
qed

lemma i32_of_nat_arith:
  "i32_of_nat m + i32_of_nat n = i32_of_nat (m + n)"
  "i32_of_nat m * i32_of_nat n = i32_of_nat (m * n)"
  by (simp_all add: i32_of_nat_def)

lemma i32_of_nat_numeral:
  "i32_of_nat 0 = 0" "i32_of_nat 1 = 1" "i32_of_nat (numeral k) = numeral k"
  by (simp_all add: i32_of_nat_def)

lemma i32_of_nat_inj: "m < 2 ^ 31 \<Longrightarrow> n < 2 ^ 31 \<Longrightarrow> i32_of_nat m = i32_of_nat n \<longleftrightarrow> m = n"
  by (metis of_nat_eq_iff sint_i32_of_nat)

lemma u64_of_i32_of_nat: "n < 2 ^ 31 \<Longrightarrow> u64_of_i32 (i32_of_nat n) = word_of_nat n"
  by (simp add: u64_of_i32_def sint_i32_of_nat)

lemma unat_u64_of_nat: "n < 2 ^ 64 \<Longrightarrow> unat (word_of_nat n :: u64) = n"
  by (simp add: unat_of_nat take_bit_nat_eq_self)

subsection \<open>Byte slices\<close>

definition bytes_content :: "gobytes \<Rightarrow> string" where
  "bytes_content b = (case b of None \<Rightarrow> [] | Some s \<Rightarrow> s)"

definition bytes_Equal :: "gobytes \<Rightarrow> gobytes \<Rightarrow> bool" where
  "bytes_Equal a b \<longleftrightarrow> bytes_content a = bytes_content b"

lemma bytes_content_simps [simp]: "bytes_content None = []" "bytes_content (Some s) = s"
  by (simp_all add: bytes_content_def)

lemma bytes_Equal_refl [simp]: "bytes_Equal a a"
  by (simp add: bytes_Equal_def)

lemma bytes_Equal_sym: "bytes_Equal a b \<Longrightarrow> bytes_Equal b a"
  by (simp add: bytes_Equal_def)

lemma bytes_Equal_trans: "bytes_Equal a b \<Longrightarrow> bytes_Equal b c \<Longrightarrow> bytes_Equal a c"
  by (simp add: bytes_Equal_def)

subsection \<open>Maps\<close>

text \<open>The lookup \<^verbatim>\<open>m[k]\<close>, which gives the zero value for a missing key.\<close>

definition map_get0 :: "('k \<Rightarrow> 'v option) \<Rightarrow> 'k \<Rightarrow> 'v::zero" where
  "map_get0 m k = (case m k of None \<Rightarrow> 0 | Some v \<Rightarrow> v)"

lemma map_get0_simps [simp]:
  "map_get0 (m(k \<mapsto> v)) k' = (if k' = k then v else map_get0 m k')"
  "map_get0 (\<lambda>_. None) k' = 0"
  by (simp_all add: map_get0_def)

text \<open>A map that may be nil: it reads as the empty map, and a write to it is a panic.\<close>

definition entries :: "('k \<times> 'v) list option \<Rightarrow> ('k \<times> 'v) list" where
  "entries m = (case m of None \<Rightarrow> [] | Some al \<Rightarrow> al)"

definition map_write :: "'k \<Rightarrow> 'v \<Rightarrow> ('k \<times> 'v) list option \<Rightarrow> ('k \<times> 'v) list option go" where
  "map_write k v m = (case m of None \<Rightarrow> Inl NilMapWrite | Some al \<Rightarrow> Inr (Some (AList.update k v al)))"

lemma entries_simps [simp]: "entries None = []" "entries (Some al) = al"
  by (simp_all add: entries_def)

lemma map_write_Some [simp]: "map_write k v (Some al) = Inr (Some (AList.update k v al))"
  by (simp add: map_write_def)

lemma map_write_InrE:
  assumes "map_write k v m = Inr m'"
  obtains al where "m = Some al" and "m' = Some (AList.update k v al)"
  using assms by (auto simp: map_write_def split: option.splits)

text \<open>Association lists as maps the code ranges over.\<close>

abbreviation wf_alist :: "('k \<times> 'v) list \<Rightarrow> bool" where
  "wf_alist al \<equiv> distinct (map fst al)"

lemma update_new: "map_of al k = None \<Longrightarrow> AList.update k v al = al @ [(k, v)]"
  by (induction al) (auto split: if_splits)

lemma map_of_update [simp]: "map_of (AList.update k v al) = (map_of al)(k \<mapsto> v)"
  by (rule update_conv')

lemma wf_alist_update [simp]: "wf_alist al \<Longrightarrow> wf_alist (AList.update k v al)"
  by (rule distinct_update)

lemma set_update_wf:
  assumes "wf_alist al"
  shows "set (AList.update k v al) = insert (k, v) {p \<in> set al. fst p \<noteq> k}"
  using assms by (induction al) (auto simp: image_iff)

lemma set_update_sub: "set (AList.update k v al) \<subseteq> insert (k, v) (set al)"
  by (induction al) auto

lemma fold_update_triv:
  assumes "\<forall>(k, v) \<in> set upd. map_of al k = Some v"
  shows "fold (\<lambda>(k, v) m. AList.update k v m) upd al = al"
  using assms by (induction upd) (auto simp: update_triv)

lemma map_of_filter_key:
  "map_of (filter (\<lambda>(k, v). P k) al) k = (if P k then map_of al k else None)"
  by (induction al) auto

lemma wf_alist_filter: "wf_alist al \<Longrightarrow> wf_alist (filter P al)"
  by (induction al) auto

subsection \<open>Counting\<close>

text \<open>The number of entries of a list, as the loops that count entries compute it.\<close>

definition count_if :: "('a \<Rightarrow> bool) \<Rightarrow> 'a list \<Rightarrow> nat" where
  "count_if P xs = length (filter P xs)"

lemma count_if_simps [simp]:
  "count_if P [] = 0"
  "count_if P (x # xs) = (if P x then Suc (count_if P xs) else count_if P xs)"
  "count_if P (xs @ ys) = count_if P xs + count_if P ys"
  by (simp_all add: count_if_def)

lemma count_if_le: "count_if P xs \<le> length xs"
  by (simp add: count_if_def)

lemma count_if_mono: "(\<And>x. x \<in> set xs \<Longrightarrow> P x \<Longrightarrow> Q x) \<Longrightarrow> count_if P xs \<le> count_if Q xs"
  by (induction xs) auto

lemma count_if_disjoint:
  assumes "\<And>x. x \<in> set xs \<Longrightarrow> \<not> (P x \<and> Q x)"
  shows "count_if P xs + count_if Q xs \<le> length xs"
  using assms by (induction xs) (auto simp: le_SucI)

end
