(* ===== verification/Go_Strconv.thy ===== *)
theory Go_Strconv
  imports Go_Prelude
begin

section \<open>Number parsing (Go's strconv)\<close>

text \<open>
  The conversions the configuration code uses: \<open>ParseUint\<close> in base 10 with a bit size,
  \<open>Atoi\<close> and \<open>ParseBool\<close>. A conversion error is \<^term>\<open>None\<close>. \<open>show_nat\<close> is the decimal form;
  both parsers read it back.
\<close>

definition digit_val :: "char \<Rightarrow> nat option" where
  "digit_val c = (if CHR ''0'' \<le> c \<and> c \<le> CHR ''9'' then Some (of_char c - 48) else None)"

fun parse_digits :: "nat \<Rightarrow> string \<Rightarrow> nat option" where
  "parse_digits acc [] = Some acc"
| "parse_digits acc (c # s) =
     (case digit_val c of None \<Rightarrow> None | Some d \<Rightarrow> parse_digits (acc * 10 + d) s)"

definition ParseUint10 :: "nat \<Rightarrow> string \<Rightarrow> u64 option" where
  "ParseUint10 bitSize s =
     (if s = [] then None
      else case parse_digits 0 s of None \<Rightarrow> None
        | Some n \<Rightarrow> if n < 2 ^ bitSize then Some (word_of_nat n) else None)"

definition Atoi :: "string \<Rightarrow> int option" where
  "Atoi s =
     (let (neg, s') = (case s of [] \<Rightarrow> (False, [])
            | c # t \<Rightarrow> if c = CHR ''-'' then (True, t) else if c = CHR ''+'' then (False, t) else (False, s))
      in if s' = [] then None
         else case parse_digits 0 s' of None \<Rightarrow> None
           | Some n \<Rightarrow>
             if neg then (if n \<le> 2 ^ 63 then Some (- int n) else None)
             else (if n < 2 ^ 63 then Some (int n) else None))"

definition ParseBool :: "string \<Rightarrow> bool option" where
  "ParseBool s =
     (if s \<in> {''1'', ''t'', ''T'', ''TRUE'', ''true'', ''True''} then Some True
      else if s \<in> {''0'', ''f'', ''F'', ''FALSE'', ''false'', ''False''} then Some False
      else None)"

definition digit_char :: "nat \<Rightarrow> char" where
  "digit_char d = char_of (48 + d)"

fun show_nat :: "nat \<Rightarrow> string" where
  "show_nat n = (if n < 10 then [digit_char n] else show_nat (n div 10) @ [digit_char (n mod 10)])"

declare show_nat.simps [simp del]

lemma digit_val_char [simp]: "d < 10 \<Longrightarrow> digit_val (digit_char d) = Some d"
  by (simp add: digit_val_def digit_char_def less_eq_char_def)

lemma parse_digits_append:
  "parse_digits acc (s @ t) = (case parse_digits acc s of None \<Rightarrow> None | Some n \<Rightarrow> parse_digits n t)"
  by (induction s arbitrary: acc) (simp_all split: option.split)

lemma parse_digits_show_nat: "parse_digits 0 (show_nat n) = Some n"
proof (induction n rule: show_nat.induct)
  case (1 n)
  then show ?case
    by (subst show_nat.simps) (simp add: parse_digits_append)
qed

lemma show_nat_nonempty [simp]: "show_nat n \<noteq> []"
  by (subst show_nat.simps) simp

lemma ParseUint10_show_nat: "n < 2 ^ bitSize \<Longrightarrow> ParseUint10 bitSize (show_nat n) = Some (word_of_nat n)"
  by (simp add: ParseUint10_def parse_digits_show_nat)

lemma ParseUint10_bound:
  assumes "ParseUint10 bitSize s = Some w" and "bitSize \<le> 64"
  shows "unat w < 2 ^ bitSize"
proof -
  obtain n where n: "n < 2 ^ bitSize" "w = word_of_nat n"
    using assms(1) by (auto simp: ParseUint10_def split: if_splits option.splits)
  have "n < 2 ^ 64" using n(1) power_increasing [OF assms(2), of "2 :: nat"] by simp
  then show ?thesis using n by (simp add: unat_u64_of_nat)
qed

end
