(* ===== verification/Validator_Set.thy ===== *)
theory Validator_Set
  imports Go_Prelude
begin

section \<open>The validator set (consensus-tbft-master/validator.go)\<close>

text \<open>
  The set of consensus nodes of the current height: membership, the rotation of the proposer,
  the update at a height switch and the check whether a lagging node may propose. The
  mutex that guards each method makes a method one atomic step; loggers are left out.
  \<open>GetProposer\<close> divides by \<open>blocksPerProposer\<close> and by the number of validators; both
  divisions are checked, so a zero divisor is the run-time panic it is in Go.
\<close>

record validatorSet =
  Validators :: "string list"
  validatorsHeight :: "string \<rightharpoonup> u64"
  validatorsBeatTime :: "string \<rightharpoonup> i64"
  blocksPerProposer :: u64

datatype valError = ErrInvalidIndex

subsection \<open>Construction and membership\<close>

definition newValidatorSet :: "string list \<Rightarrow> u64 \<Rightarrow> validatorSet" where
  "newValidatorSet validators bpp =
     \<lparr>Validators = sort validators, validatorsHeight = Map.empty,
      validatorsBeatTime = Map.empty, blocksPerProposer = bpp\<rparr>"

definition isNilOrEmpty :: "validatorSet option \<Rightarrow> bool" where
  "isNilOrEmpty p = (case p of None \<Rightarrow> True | Some valSet \<Rightarrow> length (Validators valSet) = 0)"

definition Size :: "validatorSet option \<Rightarrow> i32" where
  "Size p = (case p of None \<Rightarrow> 0 | Some valSet \<Rightarrow> i32_of_nat (length (Validators valSet)))"

fun hasValidator_loop :: "string list \<Rightarrow> string \<Rightarrow> bool" where
  "hasValidator_loop [] validator = False"
| "hasValidator_loop (val # vals) validator =
     (if val = validator then True else hasValidator_loop vals validator)"

definition hasValidator :: "validatorSet \<Rightarrow> string \<Rightarrow> bool" where
  "hasValidator valSet validator = hasValidator_loop (Validators valSet) validator"

definition HasValidator :: "validatorSet option \<Rightarrow> string \<Rightarrow> bool" where
  "HasValidator p validator =
     (case p of None \<Rightarrow> False | Some valSet \<Rightarrow> hasValidator valSet validator)"

subsection \<open>The proposer of a height and round\<close>

text \<open>Go's \<^verbatim>\<open>%\<close> and \<^verbatim>\<open>/\<close> panic on a zero divisor.\<close>

definition i32_rem_chk :: "i32 \<Rightarrow> i32 \<Rightarrow> i32 go" where
  "i32_rem_chk a b = (if b = 0 then Inl DivideByZero else Inr (i32_rem a b))"

definition getByIndex :: "validatorSet \<Rightarrow> i32 \<Rightarrow> valError + string" where
  "getByIndex valSet index =
     (if sint index < 0 \<or> sint index \<ge> sint (Size (Some valSet)) then Inl ErrInvalidIndex
      else Inr (Validators valSet ! nat (sint index)))"

fun getIndexByString_loop :: "string list \<Rightarrow> nat \<Rightarrow> string \<Rightarrow> i32" where
  "getIndexByString_loop [] i preProposer = 0"
| "getIndexByString_loop (validator # vals) i preProposer =
     (if validator = preProposer then i32_of_nat i
      else getIndexByString_loop vals (Suc i) preProposer)"

definition getIndexByString :: "validatorSet \<Rightarrow> string \<Rightarrow> i32" where
  "getIndexByString valSet preProposer = getIndexByString_loop (Validators valSet) 0 preProposer"

definition GetProposerV230 ::
    "validatorSet \<Rightarrow> u64 \<Rightarrow> i32 \<Rightarrow> (valError + string) go" where
  "GetProposerV230 valSet height round =
     (if isNilOrEmpty (Some valSet) then Inr (Inl ErrInvalidIndex)
      else if blocksPerProposer valSet = 0 then Inl DivideByZero
      else
        (let heightOffset = ucast ((height + 1) div blocksPerProposer valSet) :: i32;
             size = Size (Some valSet) in
         go_bind (i32_rem_chk round size) (\<lambda>roundOffset.
         go_bind (i32_rem_chk (heightOffset + roundOffset) size) (\<lambda>proposerIndex.
         Inr (getByIndex valSet proposerIndex)))))"

definition blockVersion231 :: u32 where
  "blockVersion231 = 2030100"

definition GetProposer ::
    "validatorSet \<Rightarrow> u32 \<Rightarrow> string \<Rightarrow> u64 \<Rightarrow> i32 \<Rightarrow> (valError + string) go" where
  "GetProposer valSet blockVersion preProposer height round =
     (if blockVersion < blockVersion231 then GetProposerV230 valSet height round
      else if isNilOrEmpty (Some valSet) then Inr (Inl ErrInvalidIndex)
      else
        (let proposerOffset = getIndexByString valSet preProposer in
         if blocksPerProposer valSet = 0 then Inl DivideByZero
         else
           (let proposerOffset' = (if height mod blocksPerProposer valSet = 0
                                   then proposerOffset + 1 else proposerOffset);
                size = Size (Some valSet) in
            go_bind (i32_rem_chk round size) (\<lambda>roundOffset.
            go_bind (i32_rem_chk (roundOffset + proposerOffset') size) (\<lambda>proposerIndex.
            Inr (getByIndex valSet proposerIndex))))))"

subsection \<open>Updates\<close>

text \<open>
  The loop over the new validators: \<open>removed\<close> is the key set of
  \<^verbatim>\<open>removedValidatorsMap\<close>, from which every new validator is deleted.
\<close>

fun updateValidators_loop ::
    "validatorSet \<Rightarrow> string list \<Rightarrow> string list \<Rightarrow> string list \<Rightarrow> string list \<times> string list" where
  "updateValidators_loop valSet [] added removed = (added, removed)"
| "updateValidators_loop valSet (v # vs) added removed =
     updateValidators_loop valSet vs
       (if \<not> hasValidator valSet v then added @ [v] else added) (removeAll v removed)"

definition updateValidators ::
    "validatorSet \<Rightarrow> string list \<Rightarrow> validatorSet \<times> string list \<times> string list" where
  "updateValidators valSet validators =
     (let (added, removed) =
            updateValidators_loop valSet validators [] (remdups (Validators valSet))
      in (valSet\<lparr>Validators := sort validators\<rparr>, sort added, sort removed))"

definition updateBlocksPerProposer :: "validatorSet \<Rightarrow> u64 \<Rightarrow> validatorSet" where
  "updateBlocksPerProposer valSet blocks = valSet\<lparr>blocksPerProposer := blocks\<rparr>"

subsection \<open>Whether the local node may propose\<close>

fun checkProposed_loop :: "validatorSet \<Rightarrow> u64 \<Rightarrow> string list \<Rightarrow> nat \<Rightarrow> bool" where
  "checkProposed_loop valSet height [] quorum = True"
| "checkProposed_loop valSet height (v # vs) quorum =
     (let validatorHeight = map_get0 (validatorsHeight valSet) v;
          quorum' = (if validatorHeight > height then quorum + 1 else quorum)
      in if quorum' \<ge> length (Validators valSet) div 3 + 1 then False
         else checkProposed_loop valSet height vs quorum')"

definition checkProposed :: "validatorSet option \<Rightarrow> u64 \<Rightarrow> bool" where
  "checkProposed p height =
     (case p of None \<Rightarrow> False
      | Some valSet \<Rightarrow> checkProposed_loop valSet height (Validators valSet) 0)"

subsection \<open>Membership\<close>

lemma hasValidator_iff [simp]: "hasValidator V x \<longleftrightarrow> x \<in> set (Validators V)"
proof -
  have "hasValidator_loop vs x \<longleftrightarrow> x \<in> set vs" for vs
    by (induction vs) auto
  then show ?thesis by (simp add: hasValidator_def)
qed

lemma HasValidator_Some [simp]: "HasValidator (Some V) x \<longleftrightarrow> x \<in> set (Validators V)"
  by (simp add: HasValidator_def)

lemma isNilOrEmpty_Some [simp]: "isNilOrEmpty (Some V) \<longleftrightarrow> Validators V = []"
  by (simp add: isNilOrEmpty_def)

lemma Size_Some: "Size (Some V) = i32_of_nat (length (Validators V))"
  by (simp add: Size_def)

text \<open>
  The validator sets the results speak about: fewer than \<open>2\<^sup>3\<^sup>0\<close> validators, so that the
  \<^verbatim>\<open>int32\<close> arithmetic on their number does not overflow.
\<close>

definition small_valset :: "validatorSet \<Rightarrow> bool" where
  "small_valset V \<longleftrightarrow> length (Validators V) < 2 ^ 30"

lemma sint_Size: "small_valset V \<Longrightarrow> sint (Size (Some V)) = int (length (Validators V))"
  by (simp add: Size_Some small_valset_def sint_i32_of_nat)

lemma Size_zero_iff: "small_valset V \<Longrightarrow> Size (Some V) = 0 \<longleftrightarrow> Validators V = []"
  using i32_of_nat_inj [of "length (Validators V)" 0]
  by (simp add: Size_Some small_valset_def i32_of_nat_numeral)

subsection \<open>The proposer\<close>

lemma getByIndex_mem:
  assumes "small_valset V" and "getByIndex V i = Inr p"
  shows "p \<in> set (Validators V)"
  using assms by (auto simp: getByIndex_def sint_Size split: if_splits)

lemma getByIndex_nat:
  assumes "small_valset V" and "i < length (Validators V)"
  shows "getByIndex V (i32_of_nat i) = Inr (Validators V ! i)"
proof -
  have "sint (i32_of_nat i) = int i"
    using assms by (simp add: small_valset_def sint_i32_of_nat)
  with assms show ?thesis by (simp add: getByIndex_def sint_Size)
qed

lemma GetProposer_mem:
  assumes "small_valset V" and "GetProposer V bv pre h r = Inr (Inr p)"
  shows "p \<in> set (Validators V)"
  using assms
  by (auto simp: GetProposer_def GetProposerV230_def Let_def i32_rem_chk_def
      elim!: go_bind_InrE split: if_splits dest: getByIndex_mem)

text \<open>The index of the previous proposer: its position, or 0 for a name not in the set.\<close>

definition index_or_0 :: "string list \<Rightarrow> string \<Rightarrow> nat" where
  "index_or_0 vs p = (if p \<in> set vs then length (takeWhile (\<lambda>v. v \<noteq> p) vs) else 0)"

lemma getIndexByString_index: "getIndexByString V p = i32_of_nat (index_or_0 (Validators V) p)"
proof -
  have "getIndexByString_loop vs i p =
      (if p \<in> set vs then i32_of_nat (i + length (takeWhile (\<lambda>v. v \<noteq> p) vs)) else 0)" for vs i
    by (induction vs arbitrary: i) auto
  then show ?thesis
    by (simp add: getIndexByString_def index_or_0_def i32_of_nat_numeral)
qed

lemma takeWhile_neq_less: "p \<in> set vs \<Longrightarrow> length (takeWhile (\<lambda>v. v \<noteq> p) vs) < length vs"
  by (induction vs) auto

lemma index_or_0_less: "vs \<noteq> [] \<Longrightarrow> index_or_0 vs p < length vs"
  by (simp add: index_or_0_def takeWhile_neq_less)

lemma nth_index_or_0: "p \<in> set vs \<Longrightarrow> vs ! index_or_0 vs p = p"
  using nth_length_takeWhile [of "\<lambda>v. v \<noteq> p" vs] takeWhile_neq_less [of p vs]
  by (simp add: index_or_0_def)

lemma index_or_0_nth: "distinct vs \<Longrightarrow> i < length vs \<Longrightarrow> index_or_0 vs (vs ! i) = i"
  by (metis index_or_0_less length_0_conv less_zeroE nth_eq_iff_index_eq nth_index_or_0 nth_mem)

text \<open>
  From version 2.3.1 on: the proposer is at the previous proposer's position, moved by the
  round and, at the heights that are multiples of \<open>blocksPerProposer\<close>, by one more.
\<close>

definition height_shift :: "validatorSet \<Rightarrow> u64 \<Rightarrow> nat" where
  "height_shift V h = (if h mod blocksPerProposer V = 0 then 1 else 0)"

lemma GetProposer_index:
  assumes small: "small_valset V" and ne: "Validators V \<noteq> []" and bpp: "blocksPerProposer V \<noteq> 0"
    and ver: "\<not> bv < blockVersion231" and r: "r < 2 ^ 31"
  shows "GetProposer V bv pre h (i32_of_nat r) =
    Inr (Inr (Validators V !
      ((r + index_or_0 (Validators V) pre + height_shift V h) mod length (Validators V))))"
proof -
  let ?n = "length (Validators V)"
  let ?k = "index_or_0 (Validators V) pre"
  let ?j = "r mod ?n + (?k + height_shift V h)"
  have n: "?n < 2 ^ 31" "0 < ?n"
    using small ne by (simp_all add: small_valset_def)
  have k: "?k < ?n" using index_or_0_less [OF ne] .
  have j: "?j < 2 ^ 31"
    using k small mod_less_divisor [OF n(2), of r]
    unfolding small_valset_def height_shift_def by simp
  have rem1: "i32_rem (i32_of_nat r) (Size (Some V)) = i32_of_nat (r mod ?n)"
    using i32_rem_nat [OF r n(1)] by (simp add: Size_Some)
  have off: "(if h mod blocksPerProposer V = 0 then getIndexByString V pre + 1
      else getIndexByString V pre) = i32_of_nat (?k + height_shift V h)"
    by (simp add: getIndexByString_index height_shift_def i32_of_nat_def)
  have rem2: "i32_rem (i32_of_nat (r mod ?n) + i32_of_nat (?k + height_shift V h)) (Size (Some V))
      = i32_of_nat (?j mod ?n)"
    using i32_rem_nat [OF j n(1)] by (simp add: Size_Some i32_of_nat_arith)
  have idx: "?j mod ?n = (r + ?k + height_shift V h) mod ?n"
    by (simp add: mod_simps add.assoc)
  show ?thesis
    using ver ne bpp small n(2)
    by (simp add: GetProposer_def Let_def i32_rem_chk_def off rem1 rem2 Size_zero_iff
        getByIndex_nat idx)
qed

lemma mod_shift_surj:
  assumes "i < (n::nat)"
  shows "\<exists>k < n. (a + k) mod n = i"
proof -
  have "(a + (i + n - a mod n) mod n) mod n = i"
  proof -
    have "(a + (i + n - a mod n) mod n) mod n = (a mod n + (i + n - a mod n)) mod n"
      by (simp add: mod_simps)
    also have "a mod n + (i + n - a mod n) = i + n"
      using assms by (simp add: le_add_diff_inverse mod_le_divisor trans_le_add2 less_imp_le)
    finally show ?thesis using assms by simp
  qed
  moreover have "(i + n - a mod n) mod n < n" using assms by simp
  ultimately show ?thesis by blast
qed

text \<open>Every validator gets a turn within \<open>n\<close> consecutive rounds.\<close>

lemma GetProposer_fair:
  assumes "small_valset V" and "blocksPerProposer V \<noteq> 0" and "\<not> bv < blockVersion231"
    and "r + length (Validators V) \<le> 2 ^ 31" and "v \<in> set (Validators V)"
  shows "\<exists>k < length (Validators V). GetProposer V bv pre h (i32_of_nat (r + k)) = Inr (Inr v)"
proof -
  from assms(5) obtain i where i: "i < length (Validators V)" and v: "Validators V ! i = v"
    by (auto simp: in_set_conv_nth)
  let ?a = "r + index_or_0 (Validators V) pre + height_shift V h"
  obtain k where k: "k < length (Validators V)" and ki: "(?a + k) mod length (Validators V) = i"
    using mod_shift_surj [OF i] by blast
  have "Validators V \<noteq> []" using i by auto
  moreover have "r + k < 2 ^ 31" using assms(4) k by simp
  moreover have "(r + k + index_or_0 (Validators V) pre + height_shift V h)
      mod length (Validators V) = i"
    using ki by (simp add: ac_simps)
  ultimately have "GetProposer V bv pre h (i32_of_nat (r + k)) = Inr (Inr v)"
    using GetProposer_index [OF assms(1) _ assms(2,3), of "r + k" pre h] v by simp
  with k show ?thesis by blast
qed

subsection \<open>Updates\<close>

lemma updateValidators_loop_spec:
  "updateValidators_loop V vs added removed =
     (added @ filter (\<lambda>v. v \<notin> set (Validators V)) vs, filter (\<lambda>v. v \<notin> set vs) removed)"
  by (induction vs arbitrary: added removed)
    (auto simp: removeAll_filter_not_eq intro: filter_cong)

lemma updateValidators_spec:
  assumes "updateValidators V new = (V', added, removed)"
  shows "Validators V' = sort new"
    and "added = sort (filter (\<lambda>v. v \<notin> set (Validators V)) new)"
    and "removed = sort (filter (\<lambda>v. v \<notin> set new) (remdups (Validators V)))"
    and "validatorSet.more V' = validatorSet.more V" and "validatorsHeight V' = validatorsHeight V"
    and "validatorsBeatTime V' = validatorsBeatTime V"
    and "blocksPerProposer V' = blocksPerProposer V"
  using assms by (auto simp: updateValidators_def updateValidators_loop_spec Let_def)

subsection \<open>The proposal check\<close>

lemma checkProposed_loop_iff:
  assumes "q < length (Validators V) div 3 + 1"
  shows "checkProposed_loop V h vs q \<longleftrightarrow>
    q + count_if (\<lambda>v. map_get0 (validatorsHeight V) v > h) vs < length (Validators V) div 3 + 1"
  using assms by (induction vs arbitrary: q) (auto simp: Let_def)

lemma checkProposed_iff:
  "checkProposed (Some V) h \<longleftrightarrow>
    count_if (\<lambda>v. map_get0 (validatorsHeight V) v > h) (Validators V)
      < length (Validators V) div 3 + 1"
  by (simp add: checkProposed_def checkProposed_loop_iff)

end
