(* ===== verification/Base64.thy ===== *)
theory Base64
  imports Go_Prelude
begin

section \<open>Standard base64 encoding\<close>

text \<open>
  \<^verbatim>\<open>base64.StdEncoding.EncodeToString\<close>, which the vote sets use to turn a block hash
  into a map key. The grouping of votes by block is sound because the encoding is injective,
  which is the result of this theory.
\<close>

definition b64_alphabet :: string where
  "b64_alphabet = ''ABCDEFGHIJKLMNOPQRSTUVWXYZabcdefghijklmnopqrstuvwxyz0123456789+/''"

definition b64_digit :: "nat \<Rightarrow> char" where
  "b64_digit n = b64_alphabet ! n"

abbreviation byte :: "char \<Rightarrow> nat" where
  "byte c \<equiv> of_char c"

fun EncodeToString :: "string \<Rightarrow> string" where
  "EncodeToString [] = []"
| "EncodeToString [a] =
     [b64_digit (byte a div 4), b64_digit (byte a mod 4 * 16), CHR ''='', CHR ''='']"
| "EncodeToString [a, b] =
     [b64_digit (byte a div 4), b64_digit (byte a mod 4 * 16 + byte b div 16),
      b64_digit (byte b mod 16 * 4), CHR ''='']"
| "EncodeToString (a # b # c # cs) =
     b64_digit (byte a div 4) # b64_digit (byte a mod 4 * 16 + byte b div 16) #
     b64_digit (byte b mod 16 * 4 + byte c div 64) # b64_digit (byte c mod 64) #
     EncodeToString cs"

lemma b64_alphabet_distinct: "distinct b64_alphabet"
  by (simp add: b64_alphabet_def)

lemma b64_alphabet_length: "length b64_alphabet = 64"
  by (simp add: b64_alphabet_def)

lemma b64_digit_inj: "m < 64 \<Longrightarrow> n < 64 \<Longrightarrow> b64_digit m = b64_digit n \<longleftrightarrow> m = n"
  by (simp add: b64_digit_def nth_eq_iff_index_eq b64_alphabet_distinct b64_alphabet_length)

lemma b64_digit_not_pad: "n < 64 \<Longrightarrow> b64_digit n \<noteq> CHR ''=''"
proof -
  assume "n < 64"
  then have "b64_digit n \<in> set b64_alphabet"
    by (simp add: b64_digit_def b64_alphabet_length)
  moreover have "CHR ''='' \<notin> set b64_alphabet"
    by (simp add: b64_alphabet_def)
  ultimately show ?thesis by metis
qed

lemma byte_less: "byte c < 256"
  by (rule nat_of_char_less_256)

text \<open>The four sextets of a group are digits, and they determine the bytes.\<close>

lemma sextet_bounds [simp]:
  "byte a div 4 < 64"
  "byte a mod 4 * 16 < 64"
  "byte a mod 4 * 16 + byte b div 16 < 64"
  "byte b mod 16 * 4 < 64"
  "byte b mod 16 * 4 + byte c div 64 < 64"
  "byte c mod 64 < 64"
  using byte_less [of a] byte_less [of b] byte_less [of c] by linarith+

lemma div_mod_inj: "(x::nat) div k = y div k \<Longrightarrow> x mod k = y mod k \<Longrightarrow> x = y"
  by (metis div_mult_mod_eq)

lemma mult_add_inj:
  assumes "(p::nat) * k + m = p' * k + m'" and "m < k" and "m' < k"
  shows "p = p' \<and> m = m'"
proof -
  have "(p * k + m) div k = p" "(p * k + m) mod k = m"
    "(p' * k + m') div k = p'" "(p' * k + m') mod k = m'"
    using assms(2,3) by simp_all
  with assms(1) show ?thesis by metis
qed

lemma sextets_first:
  assumes "byte a div 4 = byte a' div 4"
    and "byte a mod 4 * 16 + m = byte a' mod 4 * 16 + m'" and "m < 16" and "m' < 16"
  shows "a = a' \<and> m = m'"
  using mult_add_inj [OF assms(2-4)] div_mod_inj [OF assms(1)] by simp

lemma sextets_second:
  assumes "byte b div 16 = byte b' div 16"
    and "byte b mod 16 * 4 + m = byte b' mod 16 * 4 + m'" and "m < 4" and "m' < 4"
  shows "b = b' \<and> m = m'"
  using mult_add_inj [OF assms(2-4)] div_mod_inj [OF assms(1)] by simp

lemma sextets_third:
  assumes "byte c div 64 = byte c' div 64" and "byte c mod 64 = byte c' mod 64"
  shows "c = c'"
  using div_mod_inj [OF assms] by simp

lemma byte_div_bounds [simp]: "byte b div 16 < 16" "byte c div 64 < 4"
  using byte_less [of b] byte_less [of c] by linarith+

lemma group1_inj:
  "EncodeToString [a] = EncodeToString [a'] \<Longrightarrow> a = a'"
  using sextets_first [of a a' 0 0] by (simp add: b64_digit_inj)

lemma group2_inj:
  assumes "EncodeToString [a, b] = EncodeToString [a', b']"
  shows "a = a' \<and> b = b'"
proof -
  have "a = a' \<and> byte b div 16 = byte b' div 16"
    using assms by (intro sextets_first) (simp_all add: b64_digit_inj)
  then show ?thesis
    using assms sextets_second [of b b' 0 0] by (simp add: b64_digit_inj)
qed

lemma group3_inj:
  assumes "EncodeToString (a # b # c # cs) = EncodeToString (a' # b' # c' # cs')"
  shows "a = a' \<and> b = b' \<and> c = c' \<and> EncodeToString cs = EncodeToString cs'"
proof -
  have 1: "a = a' \<and> byte b div 16 = byte b' div 16"
    using assms by (intro sextets_first) (simp_all add: b64_digit_inj)
  then have 2: "b = b' \<and> byte c div 64 = byte c' div 64"
    using assms by (intro sextets_second) (simp_all add: b64_digit_inj)
  then have "c = c'"
    using assms by (intro sextets_third) (simp_all add: b64_digit_inj)
  with 1 2 show ?thesis using assms by simp
qed

text \<open>The four shapes of a string, and that no two shapes have the same encoding.\<close>

lemma EncodeToString_shape:
  obtains "s = ([] :: string)" | a where "s = [a]" | a b where "s = [a, b]"
  | a b c cs where "s = a # b # c # cs"
  by (cases s rule: EncodeToString.cases) blast+

lemma b64_pad_not_digit: "n < 64 \<Longrightarrow> CHR ''='' \<noteq> b64_digit n"
  using b64_digit_not_pad by metis

theorem EncodeToString_inj: "EncodeToString s = EncodeToString t \<longleftrightarrow> s = t"
proof
  show "EncodeToString s = EncodeToString t \<Longrightarrow> s = t"
  proof (induction s arbitrary: t rule: EncodeToString.induct)
    case 1
    then show ?case by (cases t rule: EncodeToString_shape) auto
  next
    case (2 a)
    show ?case
    proof (cases t rule: EncodeToString_shape)
      case (2 a')
      then show ?thesis using group1_inj [of a a'] "2.prems" by simp
    qed (use "2.prems" in \<open>simp_all add: b64_pad_not_digit\<close>)
  next
    case (3 a b)
    show ?case
    proof (cases t rule: EncodeToString_shape)
      case (3 a' b')
      then show ?thesis using group2_inj [of a b a' b'] "3.prems" by simp
    qed (use "3.prems" in \<open>simp_all add: b64_digit_not_pad b64_pad_not_digit\<close>)
  next
    case (4 a b c cs)
    show ?case
    proof (cases t rule: EncodeToString_shape)
      case (4 a' b' c' cs')
      then show ?thesis
        using group3_inj [of a b c cs a' b' c' cs'] "4.prems" "4.IH" by simp
    qed (use "4.prems" in \<open>simp_all add: b64_digit_not_pad\<close>)
  qed
qed simp

end
