(* ===== verification/Tbft_Types.thy ===== *)
theory Tbft_Types
  imports Validator_Set Base64
begin

section \<open>Messages and blocks (pb-go-master)\<close>

text \<open>
  The protobuf messages the consensus module exchanges, as records. A message pointer that
  may be nil is an \<open>option\<close>; an enumeration keeps the values a peer may put on the wire that
  have no name. Transactions, DAG and read-write sets are opaque strings: consensus only
  passes them on. The fields of a block header that consensus does not read are one opaque
  field.
\<close>

datatype VoteType = VOTE_PREVOTE | VOTE_PRECOMMIT | VOTE_OTHER i32

datatype Step =
    NEW_HEIGHT | NEW_ROUND | PROPOSE | PREVOTE | PREVOTE_WAIT | PRECOMMIT | PRECOMMIT_WAIT | COMMIT

text \<open>The order of the steps is the order of their numbers.\<close>

fun step_num :: "Step \<Rightarrow> nat" where
  "step_num NEW_HEIGHT = 0"
| "step_num NEW_ROUND = 1"
| "step_num PROPOSE = 2"
| "step_num PREVOTE = 3"
| "step_num PREVOTE_WAIT = 4"
| "step_num PRECOMMIT = 5"
| "step_num PRECOMMIT_WAIT = 6"
| "step_num COMMIT = 7"

lemma step_num_inj: "step_num s = step_num t \<longleftrightarrow> s = t"
  by (cases s; cases t) simp_all

instantiation Step :: linorder
begin

definition less_eq_Step :: "Step \<Rightarrow> Step \<Rightarrow> bool" where
  "less_eq_Step s t \<longleftrightarrow> step_num s \<le> step_num t"

definition less_Step :: "Step \<Rightarrow> Step \<Rightarrow> bool" where
  "less_Step s t \<longleftrightarrow> step_num s < step_num t"

instance
  by standard (auto simp: less_eq_Step_def less_Step_def step_num_inj)

end

lemmas Step_order_defs = less_eq_Step_def less_Step_def

record Member =
  OrgId :: string
  MemberType :: i32
  MemberInfo :: string

record EndorsementEntry =
  Signer :: "Member option"
  Signature :: gobytes

record Vote =
  v_Type :: VoteType
  v_Voter :: string
  v_Height :: u64
  v_Round :: i32
  v_Hash :: gobytes
  v_Endorsement :: "EndorsementEntry option"
  v_InvalidTxs :: "string list"

record BlockHeader =
  BlockVersion :: u32
  BlockHeight :: u64
  BlockHash :: gobytes
  PreBlockHash :: gobytes
  Proposer :: "Member option"
  h_Signature :: gobytes
  h_Other :: string

record Block =
  b_Header :: "BlockHeader option"
  b_Dag :: string
  b_Txs :: "string list"
  b_AdditionalData :: "(string \<rightharpoonup> gobytes) option"

type_synonym RwSets = "(string \<times> string) list option"

record Proposal =
  p_Voter :: string
  p_Height :: u64
  p_Round :: i32
  p_PolRound :: i32
  p_Block :: "Block option"
  p_Endorsement :: "EndorsementEntry option"
  p_TxsRwSet :: RwSets
  p_Qc :: "Vote list option"

text \<open>
  \<^verbatim>\<open>Block.Header.BlockHash\<close> and \<^verbatim>\<open>Block.Hash()\<close>: a panic when the block or its
  header is nil. \<open>proposal_hash\<close> is the same read for a proposal that the consensus state
  stores; the invariant \<open>has_header\<close> of the stored proposals makes it the value of the
  checked read.
\<close>

definition header_of :: "Block option \<Rightarrow> BlockHeader go" where
  "header_of b = go_bind (deref b) (\<lambda>b. deref (b_Header b))"

definition Block_Hash :: "Block option \<Rightarrow> gobytes go" where
  "Block_Hash b = go_bind (header_of b) (\<lambda>h. Inr (BlockHash h))"

definition proposal_hash :: "Proposal \<Rightarrow> gobytes" where
  "proposal_hash p = (case header_of (p_Block p) of Inl _ \<Rightarrow> None | Inr h \<Rightarrow> BlockHash h)"

definition has_header :: "Proposal \<Rightarrow> bool" where
  "has_header p \<longleftrightarrow> (\<exists>h. header_of (p_Block p) = Inr h)"

lemma header_of_simps [simp]:
  "header_of None = Inl NilDeref"
  "header_of (Some b) = deref (b_Header b)"
  by (simp_all add: header_of_def)

lemma has_header_hash: "has_header p \<Longrightarrow> Block_Hash (p_Block p) = Inr (proposal_hash p)"
  by (auto simp: has_header_def Block_Hash_def proposal_hash_def)

text \<open>The hash of a vote for nothing, and the test for it.\<close>

definition nilHash :: gobytes where
  "nilHash = Some ''NilHash''"

definition isNilHash :: "gobytes \<Rightarrow> bool" where
  "isNilHash hash \<longleftrightarrow> length (bytes_content hash) = 0 \<or> bytes_Equal hash nilHash"

lemma isNilHash_simps [simp]: "isNilHash None" "isNilHash nilHash"
  by (simp_all add: isNilHash_def)

lemma isNilHash_cong: "bytes_Equal a b \<Longrightarrow> isNilHash a \<longleftrightarrow> isNilHash b"
  by (simp add: isNilHash_def bytes_Equal_def)

subsection \<open>Constructors (consensus-tbft-master/vote.go)\<close>

definition NewProposal :: "string \<Rightarrow> u64 \<Rightarrow> i32 \<Rightarrow> i32 \<Rightarrow> Block \<Rightarrow> Proposal" where
  "NewProposal voter height round polRound block =
     \<lparr>p_Voter = voter, p_Height = height, p_Round = round, p_PolRound = polRound,
      p_Block = Some block, p_Endorsement = None, p_TxsRwSet = None, p_Qc = None\<rparr>"

text \<open>The copy that is signed and verified: the header only. A nil block is a panic.\<close>

definition CopyProposalWithBlockHeader :: "Proposal \<Rightarrow> Proposal go" where
  "CopyProposalWithBlockHeader p =
     go_bind (deref (p_Block p)) (\<lambda>b.
     Inr \<lparr>p_Voter = p_Voter p, p_Height = p_Height p, p_Round = p_Round p,
          p_PolRound = p_PolRound p,
          p_Block = Some \<lparr>b_Header = b_Header b, b_Dag = [], b_Txs = [], b_AdditionalData = None\<rparr>,
          p_Endorsement = None, p_TxsRwSet = None, p_Qc = None\<rparr>)"

definition CopyBlock :: "Block \<Rightarrow> Block" where
  "CopyBlock block =
     \<lparr>b_Header = b_Header block, b_Dag = b_Dag block, b_Txs = b_Txs block,
      b_AdditionalData = b_AdditionalData block\<rparr>"

definition NewVote :: "VoteType \<Rightarrow> string \<Rightarrow> u64 \<Rightarrow> i32 \<Rightarrow> gobytes \<Rightarrow> Vote" where
  "NewVote typ voter height round hash =
     \<lparr>v_Type = typ, v_Voter = voter, v_Height = height, v_Round = round, v_Hash = hash,
      v_Endorsement = None, v_InvalidTxs = []\<rparr>"

lemma NewVote_simps [simp]:
  "v_Type (NewVote t v h r x) = t" "v_Voter (NewVote t v h r x) = v"
  "v_Height (NewVote t v h r x) = h" "v_Round (NewVote t v h r x) = r"
  "v_Hash (NewVote t v h r x) = x" "v_InvalidTxs (NewVote t v h r x) = []"
  by (simp_all add: NewVote_def)

end
