(* ===== verification/Chain_Config.thy ===== *)
theory Chain_Config
  imports Go_Strconv Tbft_Types
begin

section \<open>The consensus part of the chain configuration\<close>

text \<open>
  The configuration messages consensus reads, the block version encoded in the chain's
  version string (\<open>pb-go-master/config/chain_config_ext.go\<close>), the list of validators
  (\<open>utils.go\<close>) and the extension entries that tune TBFT (\<open>extractConsensusConfig\<close> of
  \<open>consensus_tbft_impl.go\<close>). Durations are nanoseconds in 64 bits. \<^verbatim>\<open>time.ParseDuration\<close> is
  the argument \<open>parseDur\<close>: only its success and its value are used. The write-ahead log library
  is outside the repository: its mode constants and \<open>Open\<close> are arguments.
\<close>

record ConfigKeyValue =
  kv_Key :: string
  kv_Value :: string

record ConsensusConfig =
  cc_Type :: i32
  cc_Nodes :: "string list list"
  cc_ExtConfig :: "ConfigKeyValue list"

record TrustMemberConfig =
  tm_MemberInfo :: string
  tm_NodeId :: string

record ChainConfig =
  cfg_ChainId :: string
  cfg_Version :: string
  cfg_Consensus :: ConsensusConfig
  cfg_CryptoHash :: string
  cfg_TrustMembers :: "TrustMemberConfig list"

subsection \<open>Access control\<close>

text \<open>The access control provider of the node, as consensus calls it.\<close>

type_synonym Principal = string

record accessControl =
  ac_CreatePrincipal :: "EndorsementEntry option \<Rightarrow> string \<Rightarrow> Principal option"
  ac_VerifyMsgPrincipal :: "Principal \<Rightarrow> u32 \<Rightarrow> bool option"
  ac_NewMember :: "Member \<Rightarrow> string option"

subsection \<open>Block version\<close>

definition specialVersionMapping :: "string \<rightharpoonup> u32" where
  "specialVersionMapping =
     [''v2.2.0_alpha'' \<mapsto> 220, ''v2.2.0'' \<mapsto> 2201, ''v2.3.1'' \<mapsto> 2030100]"

definition str_at :: "string \<Rightarrow> nat \<Rightarrow> char go" where
  "str_at s i = (if i < length s then Inr (s ! i) else Inl IndexOutOfRange)"

definition HasSuffix :: "string \<Rightarrow> string \<Rightarrow> bool" where
  "HasSuffix s suf \<longleftrightarrow> length suf \<le> length s \<and> drop (length s - length suf) s = suf"

text \<open>
  \<^verbatim>\<open>string(cfgVersion[i])\<close> converts a byte to the string of that code point; on the ASCII
  versions the mapping is meant for, that is the character. A character above 127 would make
  the number unreadable in both forms, and the conversion error is a panic.
\<close>

definition getBlockHeaderVersion :: "string \<Rightarrow> u32 go" where
  "getBlockHeaderVersion cfgVersion =
     (case specialVersionMapping cfgVersion of Some version \<Rightarrow> Inr version
      | None \<Rightarrow>
        if cfgVersion > ''v2.2.0'' then
          go_bind (str_at cfgVersion 1) (\<lambda>a.
          go_bind (str_at cfgVersion 3) (\<lambda>b.
          go_bind (str_at cfgVersion 5) (\<lambda>c.
            (let version = [a, b, c] @ (if HasSuffix cfgVersion ''.0'' then ''1'' else ''0'')
             in case Atoi version of None \<Rightarrow> Inl UnmarshalFailed
               | Some v \<Rightarrow> Inr (word_of_int v)))))
        else Inr 20)"

definition GetBlockVersion :: "ChainConfig \<Rightarrow> u32 go" where
  "GetBlockVersion c =
     (case cfg_Version c of [] \<Rightarrow> Inr 0
      | v # _ \<Rightarrow>
        if v = CHR ''v'' then getBlockHeaderVersion (cfg_Version c)
        else (case Atoi (cfg_Version c) of None \<Rightarrow> Inr 0 | Some n \<Rightarrow> Inr (word_of_int n)))"

subsection \<open>Validators\<close>

definition ConsensusType_TBFT :: i32 where
  "ConsensusType_TBFT = 1"

fun concat_nodes :: "string list \<Rightarrow> string list list \<Rightarrow> string list" where
  "concat_nodes validators [] = validators"
| "concat_nodes validators (node # nodes) = concat_nodes (validators @ node) nodes"

definition GetValidatorListFromConfig :: "ChainConfig \<Rightarrow> string list option" where
  "GetValidatorListFromConfig chainConfig = Some (concat_nodes [] (cc_Nodes (cfg_Consensus chainConfig)))"

definition GetValidatorList :: "ChainConfig \<Rightarrow> string list option" where
  "GetValidatorList chainConfig =
     (if cc_Type (cfg_Consensus chainConfig) = ConsensusType_TBFT
      then GetValidatorListFromConfig chainConfig else None)"

lemma GetValidatorListFromConfig_concat:
  "GetValidatorListFromConfig c = Some (concat (cc_Nodes (cfg_Consensus c)))"
proof -
  have "concat_nodes vs ns = vs @ concat ns" for vs ns
    by (induction ns arbitrary: vs) simp_all
  then show ?thesis by (simp add: GetValidatorListFromConfig_def)
qed

subsection \<open>Extension entries\<close>

record TbftConfig =
  tc_timeoutPropose :: i64
  tc_timeoutProposeDelta :: i64
  tc_blocksPerProposer :: u64
  tc_proposeOptimal :: bool
  tc_timeoutProposeOptimal :: i64

definition default_TbftConfig :: TbftConfig where
  "default_TbftConfig =
     \<lparr>tc_timeoutPropose = 30000000000, tc_timeoutProposeDelta = 1000000000,
      tc_blocksPerProposer = 1, tc_proposeOptimal = False,
      tc_timeoutProposeOptimal = 2000000000\<rparr>"

definition extractProposeTimeout :: "(string \<Rightarrow> i64 option) \<Rightarrow> string \<Rightarrow> i64 option" where
  "extractProposeTimeout parseDur v = parseDur v"

definition extractProposeTimeoutDelta :: "(string \<Rightarrow> i64 option) \<Rightarrow> string \<Rightarrow> i64 option" where
  "extractProposeTimeoutDelta parseDur v = parseDur v"

definition extractBlocksPerProposer :: "string \<Rightarrow> u64 option" where
  "extractBlocksPerProposer v =
     (case ParseUint10 32 v of None \<Rightarrow> None
      | Some n \<Rightarrow> if n \<le> 0 then None else Some n)"

definition extractTimeoutProposeOptimal :: "(string \<Rightarrow> i64 option) \<Rightarrow> string \<Rightarrow> i64 option" where
  "extractTimeoutProposeOptimal parseDur v = parseDur v"

definition extractProposeOptimal :: "string \<Rightarrow> bool option" where
  "extractProposeOptimal v = ParseBool v"

fun extract_entries ::
    "(string \<Rightarrow> i64 option) \<Rightarrow> TbftConfig \<Rightarrow> ConfigKeyValue list \<Rightarrow> TbftConfig option" where
  "extract_entries parseDur tc [] = Some tc"
| "extract_entries parseDur tc (v # vs) =
     (let r =
        (if kv_Key v = ''TBFT_propose_timeout'' then
           map_option (\<lambda>d. tc\<lparr>tc_timeoutPropose := d\<rparr>) (extractProposeTimeout parseDur (kv_Value v))
         else if kv_Key v = ''TBFT_propose_delta_timeout'' then
           map_option (\<lambda>d. tc\<lparr>tc_timeoutProposeDelta := d\<rparr>) (extractProposeTimeoutDelta parseDur (kv_Value v))
         else if kv_Key v = ''TBFT_blocks_per_proposer'' then
           map_option (\<lambda>n. tc\<lparr>tc_blocksPerProposer := n\<rparr>) (extractBlocksPerProposer (kv_Value v))
         else if kv_Key v = ''TBFT_propose_optimal'' then
           map_option (\<lambda>b. tc\<lparr>tc_proposeOptimal := b\<rparr>) (extractProposeOptimal (kv_Value v))
         else if kv_Key v = ''TBFT_propose_timeout_optimal'' then
           map_option (\<lambda>d. tc\<lparr>tc_timeoutProposeOptimal := d\<rparr>) (extractTimeoutProposeOptimal parseDur (kv_Value v))
         else Some tc)
      in case r of None \<Rightarrow> None | Some tc' \<Rightarrow> extract_entries parseDur tc' vs)"

text \<open>
  The validators come from the chain's current configuration \<open>current\<close>, the entries from the
  configuration that is passed in.
\<close>

definition extractConsensusConfig ::
    "(string \<Rightarrow> i64 option) \<Rightarrow> ChainConfig \<Rightarrow> ConsensusConfig \<Rightarrow> (string list \<times> TbftConfig) option" where
  "extractConsensusConfig parseDur current config =
     (case GetValidatorListFromConfig current of None \<Rightarrow> None
      | Some validators \<Rightarrow>
        (case extract_entries parseDur default_TbftConfig (cc_ExtConfig config) of
           None \<Rightarrow> None | Some tc \<Rightarrow> Some (validators, tc)))"

text \<open>\<open>Verify\<close>: whether a new chain configuration is acceptable to TBFT.\<close>

definition Verify :: "(string \<Rightarrow> i64 option) \<Rightarrow> ChainConfig \<Rightarrow> i32 \<Rightarrow> ChainConfig \<Rightarrow> bool" where
  "Verify parseDur current consensusType chainConfig =
     (if consensusType \<noteq> ConsensusType_TBFT then False
      else extractConsensusConfig parseDur current (cfg_Consensus chainConfig) \<noteq> None)"

lemma extractBlocksPerProposer_pos:
  "extractBlocksPerProposer s = Some n \<Longrightarrow> 0 < n \<and> n < 2 ^ 32"
  using ParseUint10_bound [of 32 s n]
  by (auto simp: extractBlocksPerProposer_def word_less_nat_alt unat_gt_0 split: option.splits if_splits)

lemma extract_entries_bpp:
  "extract_entries parseDur tc kvs = Some tc' \<Longrightarrow> 0 < tc_blocksPerProposer tc \<Longrightarrow>
    0 < tc_blocksPerProposer tc'"
  by (induction kvs arbitrary: tc)
    (auto simp: Let_def extractBlocksPerProposer_pos split: option.splits if_splits)

text \<open>An accepted configuration never makes the proposer rotation divide by zero.\<close>

lemma extractConsensusConfig_bpp:
  "extractConsensusConfig parseDur current config = Some (vs, tc) \<Longrightarrow> 0 < tc_blocksPerProposer tc"
  by (auto simp: extractConsensusConfig_def default_TbftConfig_def
      dest: extract_entries_bpp split: option.splits)

subsection \<open>The write-ahead log's mode\<close>

datatype lwsError = LwsNoError | LwsOpenFailed

text \<open>
  \<open>InitLWS\<close>: the loop over the entries returns early on a value that is no number, with the
  error variable as it is then, which is nil. \<open>openLws\<close> says whether the log could be opened.
  The result: whether there is a log, the write mode, the error.
\<close>

fun walMode_entries :: "string \<Rightarrow> int \<Rightarrow> ConfigKeyValue list \<Rightarrow> int option" where
  "walMode_entries key walMode [] = Some walMode"
| "walMode_entries key walMode (v # vs) =
     (if kv_Key v = key then
        (case Atoi (kv_Value v) of None \<Rightarrow> None | Some val \<Rightarrow> walMode_entries key val vs)
      else walMode_entries key walMode vs)"

definition InitLWS ::
    "string \<Rightarrow> int \<Rightarrow> bool \<Rightarrow> ConsensusConfig \<Rightarrow> bool \<times> int \<times> lwsError" where
  "InitLWS walWriteModeKey nonWalWrite openLws config =
     (case walMode_entries walWriteModeKey 0 (cc_ExtConfig config) of
        None \<Rightarrow> (False, nonWalWrite, LwsNoError)
      | Some walMode \<Rightarrow>
        if \<not> openLws then (False, nonWalWrite, LwsOpenFailed)
        else (True, walMode, LwsNoError))"

end
