(* ===== verification/Vote_Set.thy ===== *)
theory Vote_Set
  imports Tbft_Types
begin

section \<open>Vote sets (consensus-tbft-master/vote.go)\<close>

text \<open>
  The votes of one type, height and round (\<open>VoteSet\<close>), the pair of a round
  (\<open>roundVoteSet\<close>) and the rounds of a height (\<open>heightRoundVoteSet\<close>).

  A vote set holds a pointer to the validator set of the consensus instance, which a height
  switch updates in place. The operations therefore take the validator set as an argument
  \<open>V\<close>, the value the pointer has at the call, and the records leave the pointer out. The
  methods with a nil receiver check take an \<open>option\<close>. A vote set reached through a map of
  pointers is updated in place; the model writes it back into the map.
\<close>

datatype voteError =
  ErrVoteNil | ErrUnexceptedStep | ErrInvalidValidator | ErrVoteForDifferentHash

record BlockVotes =
  bv_Votes :: "(string \<times> Vote) list"
  bv_Sum :: u64

record VoteSet =
  vs_Type :: VoteType
  vs_Height :: u64
  vs_Round :: i32
  vs_Sum :: u64
  vs_Maj23 :: gobytes
  vs_Votes :: "(string \<times> Vote) list"
  vs_VotesByBlock :: "(string \<times> BlockVotes) list"
  vs_invalidTx :: "(string \<times> i32) list"
  vs_needToDelTxs :: "string list"

subsection \<open>Votes for one block\<close>

definition NewBlockVotes :: BlockVotes where
  "NewBlockVotes = \<lparr>bv_Votes = [], bv_Sum = 0\<rparr>"

definition bv_addVote :: "BlockVotes \<Rightarrow> Vote \<Rightarrow> BlockVotes" where
  "bv_addVote bv vote =
     bv\<lparr>bv_Votes := AList.update (v_Voter vote) vote (bv_Votes bv), bv_Sum := bv_Sum bv + 1\<rparr>"

subsection \<open>Adding votes\<close>

definition NewVoteSet :: "VoteType \<Rightarrow> u64 \<Rightarrow> i32 \<Rightarrow> VoteSet" where
  "NewVoteSet voteType height round =
     \<lparr>vs_Type = voteType, vs_Height = height, vs_Round = round, vs_Sum = 0, vs_Maj23 = None,
      vs_Votes = [], vs_VotesByBlock = [], vs_invalidTx = [], vs_needToDelTxs = []\<rparr>"

definition checkVoteMatched :: "VoteSet \<Rightarrow> Vote \<Rightarrow> bool" where
  "checkVoteMatched vs vote =
     (if v_Type vote \<noteq> vs_Type vs \<or> v_Height vote \<noteq> vs_Height vs \<or> v_Round vote \<noteq> vs_Round vs
      then False else True)"

definition hash_key :: "gobytes \<Rightarrow> string" where
  "hash_key h = EncodeToString (bytes_content h)"

text \<open>\<^verbatim>\<open>uint64(vs.validators.Size()*2/3 + 1)\<close>\<close>

definition quorum :: "validatorSet \<Rightarrow> u64" where
  "quorum V = u64_of_i32 (i32_div (Size (Some V) * 2) 3 + 1)"

text \<open>The loop over the invalid transactions of a prevote.\<close>

fun addInvalidTxs :: "validatorSet \<Rightarrow> VoteSet \<Rightarrow> string list \<Rightarrow> VoteSet" where
  "addInvalidTxs V vs [] = vs"
| "addInvalidTxs V vs (tx # txs) =
     (let n = map_get0 (map_of (vs_invalidTx vs)) tx + 1;
          vs1 = vs\<lparr>vs_invalidTx := AList.update tx n (vs_invalidTx vs)\<rparr>
      in if sint n \<ge> sint (i32_div (Size (Some V) * 1) 3 + 1)
         then addInvalidTxs V
           (vs1\<lparr>vs_needToDelTxs := vs_needToDelTxs vs1 @ [tx],
                vs_invalidTx := AList.update tx (n - Size (Some V)) (vs_invalidTx vs1)\<rparr>) txs
         else addInvalidTxs V vs1 txs)"

definition AddVote ::
    "validatorSet \<Rightarrow> VoteSet \<Rightarrow> Vote option \<Rightarrow> bool \<Rightarrow> VoteSet \<times> bool \<times> voteError option" where
  "AddVote V vs pvote countInvalidTx =
     (case pvote of None \<Rightarrow> (vs, False, Some ErrVoteNil)
      | Some vote \<Rightarrow>
        if \<not> checkVoteMatched vs vote then (vs, False, Some ErrUnexceptedStep)
        else if \<not> HasValidator (Some V) (v_Voter vote) then (vs, False, Some ErrInvalidValidator)
        else
          (case map_of (vs_Votes vs) (v_Voter vote) of
             Some v \<Rightarrow>
               if bytes_Equal (v_Hash vote) (v_Hash v) then (vs, False, None)
               else (vs, False, Some ErrVoteForDifferentHash)
           | None \<Rightarrow>
               (let vs1 = vs\<lparr>vs_Votes := AList.update (v_Voter vote) vote (vs_Votes vs),
                             vs_Sum := vs_Sum vs + 1\<rparr>;
                    hashStr = hash_key (v_Hash vote);
                    votesByBlock = (case map_of (vs_VotesByBlock vs1) hashStr of
                        Some bv \<Rightarrow> bv | None \<Rightarrow> NewBlockVotes);
                    oldSum = bv_Sum votesByBlock;
                    votesByBlock' = bv_addVote votesByBlock vote;
                    vs2 = vs1\<lparr>vs_VotesByBlock :=
                        AList.update hashStr votesByBlock' (vs_VotesByBlock vs1)\<rparr>;
                    vs3 = (if oldSum < quorum V \<and> quorum V \<le> bv_Sum votesByBlock'
                              \<and> vs_Maj23 vs2 = None
                           then vs2\<lparr>vs_Maj23 := v_Hash vote,
                                    vs_Votes := fold (\<lambda>(k, v) m. AList.update k v m)
                                      (bv_Votes votesByBlock') (vs_Votes vs2)\<rparr>
                           else vs2);
                    vs4 = (if v_Type vote = VOTE_PREVOTE \<and> countInvalidTx
                           then addInvalidTxs V vs3 (v_InvalidTxs vote) else vs3)
                in (vs4, True, None))))"

definition AddVoteForConsistent ::
    "VoteSet \<Rightarrow> Vote option \<Rightarrow> VoteSet \<times> bool \<times> voteError option" where
  "AddVoteForConsistent vs pvote =
     (case pvote of None \<Rightarrow> (vs, False, Some ErrVoteNil)
      | Some vote \<Rightarrow>
        if \<not> checkVoteMatched vs vote then (vs, False, Some ErrUnexceptedStep)
        else
          (case map_of (vs_Votes vs) (v_Voter vote) of
             Some v \<Rightarrow>
               if bytes_Equal (v_Hash vote) (v_Hash v) then (vs, False, None)
               else (vs, False, Some ErrVoteForDifferentHash)
           | None \<Rightarrow>
               (vs\<lparr>vs_Votes := AList.update (v_Voter vote) vote (vs_Votes vs),
                   vs_Sum := vs_Sum vs + 1\<rparr>, True, None)))"

subsection \<open>Queries\<close>

record RwSetVerifyFailTxs =
  fail_BlockHeight :: u64
  fail_TxIds :: "string list"

definition delInvalidTx :: "VoteSet option \<Rightarrow> u64 \<Rightarrow> RwSetVerifyFailTxs option" where
  "delInvalidTx pvs blockHeight =
     (case pvs of None \<Rightarrow> None
      | Some vs \<Rightarrow>
        if vs_needToDelTxs vs = [] then None
        else Some \<lparr>fail_BlockHeight = blockHeight, fail_TxIds = vs_needToDelTxs vs\<rparr>)"

definition twoThirdsMajority :: "VoteSet option \<Rightarrow> gobytes \<times> bool" where
  "twoThirdsMajority pvs =
     (case pvs of None \<Rightarrow> (None, False)
      | Some vs \<Rightarrow> if vs_Maj23 vs \<noteq> None then (vs_Maj23 vs, True) else (None, False))"

definition HasTwoThirdsMajority :: "VoteSet option \<Rightarrow> bool" where
  "HasTwoThirdsMajority pvs = (case pvs of None \<Rightarrow> False | Some vs \<Rightarrow> vs_Maj23 vs \<noteq> None)"

definition hasTwoThirdsAny :: "validatorSet \<Rightarrow> VoteSet option \<Rightarrow> bool" where
  "hasTwoThirdsAny V pvs =
     (case pvs of None \<Rightarrow> False
      | Some vs \<Rightarrow>
        (let leftSum = u64_of_i32 (Size (Some V)) - vs_Sum vs
         in list_all (\<lambda>(k, v). \<not> (bv_Sum v + leftSum \<ge> quorum V)) (vs_VotesByBlock vs)))"

definition hasTwoThirdsNoMajority :: "validatorSet \<Rightarrow> VoteSet option \<Rightarrow> bool" where
  "hasTwoThirdsNoMajority V pvs =
     (case pvs of None \<Rightarrow> False | Some vs \<Rightarrow> vs_Sum vs \<ge> quorum V)"

definition VoteSet_Size :: "validatorSet \<Rightarrow> VoteSet option \<Rightarrow> i32" where
  "VoteSet_Size V pvs = (case pvs of None \<Rightarrow> 0 | Some vs \<Rightarrow> Size (Some V))"

subsection \<open>Protobuf images\<close>

text \<open>In a message that comes off the wire a map value may be missing, that is nil.\<close>

record ProtoBlockVotes =
  pbv_Votes :: "(string \<times> Vote option) list"
  pbv_Sum :: u64

record ProtoVoteSet =
  pvs_Type :: VoteType
  pvs_Height :: u64
  pvs_Round :: i32
  pvs_Sum :: u64
  pvs_Maj23 :: gobytes
  pvs_Votes :: "(string \<times> Vote option) list"
  pvs_VotesByBlock :: "(string \<times> ProtoBlockVotes) list"

definition BlockVotes_ToProto :: "BlockVotes \<Rightarrow> ProtoBlockVotes" where
  "BlockVotes_ToProto bv =
     \<lparr>pbv_Votes = map (\<lambda>(k, v). (k, Some v)) (bv_Votes bv), pbv_Sum = bv_Sum bv\<rparr>"

definition VoteSet_ToProto :: "VoteSet option \<Rightarrow> ProtoVoteSet option" where
  "VoteSet_ToProto pvs =
     (case pvs of None \<Rightarrow> None
      | Some vs \<Rightarrow>
        Some \<lparr>pvs_Type = vs_Type vs, pvs_Height = vs_Height vs, pvs_Round = vs_Round vs,
              pvs_Sum = vs_Sum vs, pvs_Maj23 = vs_Maj23 vs,
              pvs_Votes = map (\<lambda>(k, v). (k, Some v)) (vs_Votes vs),
              pvs_VotesByBlock = map (\<lambda>(k, v). (k, BlockVotes_ToProto v)) (vs_VotesByBlock vs)\<rparr>)"

fun AddVotes :: "validatorSet \<Rightarrow> VoteSet \<Rightarrow> Vote option list \<Rightarrow> VoteSet" where
  "AddVotes V vs [] = vs"
| "AddVotes V vs (v # votes) = AddVotes V (fst (AddVote V vs v False)) votes"

definition NewVoteSetFromProto :: "ProtoVoteSet \<Rightarrow> validatorSet \<Rightarrow> VoteSet" where
  "NewVoteSetFromProto vsProto V =
     AddVotes V (NewVoteSet (pvs_Type vsProto) (pvs_Height vsProto) (pvs_Round vsProto))
       (map snd (pvs_Votes vsProto))"

subsection \<open>The votes of a round and of a height\<close>

record roundVoteSet =
  rvs_Height :: u64
  rvs_Round :: i32
  rvs_Prevotes :: "VoteSet option"
  rvs_Precommits :: "VoteSet option"

definition newRoundVoteSet ::
    "u64 \<Rightarrow> i32 \<Rightarrow> VoteSet option \<Rightarrow> VoteSet option \<Rightarrow> roundVoteSet" where
  "newRoundVoteSet height round prevotes precommits =
     \<lparr>rvs_Height = height, rvs_Round = round, rvs_Prevotes = prevotes,
      rvs_Precommits = precommits\<rparr>"

record ProtoRoundVoteSet =
  prvs_Height :: u64
  prvs_Round :: i32
  prvs_Prevotes :: "ProtoVoteSet option"
  prvs_Precommits :: "ProtoVoteSet option"

definition roundVoteSet_ToProto :: "roundVoteSet option \<Rightarrow> ProtoRoundVoteSet option" where
  "roundVoteSet_ToProto prvs =
     (case prvs of None \<Rightarrow> None
      | Some rvs \<Rightarrow>
        Some \<lparr>prvs_Height = rvs_Height rvs, prvs_Round = rvs_Round rvs,
              prvs_Prevotes = VoteSet_ToProto (rvs_Prevotes rvs),
              prvs_Precommits = VoteSet_ToProto (rvs_Precommits rvs)\<rparr>)"

record heightRoundVoteSet =
  hvs_Height :: u64
  hvs_Round :: i32
  hvs_RoundVoteSets :: "(i32 \<times> roundVoteSet) list"

definition newHeightRoundVoteSet :: "u64 \<Rightarrow> i32 \<Rightarrow> heightRoundVoteSet" where
  "newHeightRoundVoteSet height round =
     \<lparr>hvs_Height = height, hvs_Round = round, hvs_RoundVoteSets = []\<rparr>"

record ProtoHeightRoundVoteSet =
  phvs_Height :: u64
  phvs_Round :: i32
  phvs_RoundVoteSets :: "(i32 \<times> ProtoRoundVoteSet option) list"

definition heightRoundVoteSet_ToProto ::
    "heightRoundVoteSet option \<Rightarrow> ProtoHeightRoundVoteSet option" where
  "heightRoundVoteSet_ToProto phvs =
     (case phvs of None \<Rightarrow> None
      | Some hvs \<Rightarrow>
        Some \<lparr>phvs_Height = hvs_Height hvs, phvs_Round = hvs_Round hvs,
              phvs_RoundVoteSets =
                map (\<lambda>(k, v). (k, roundVoteSet_ToProto (Some v))) (hvs_RoundVoteSets hvs)\<rparr>)"

definition addRound :: "heightRoundVoteSet \<Rightarrow> i32 \<Rightarrow> heightRoundVoteSet go" where
  "addRound hvs round =
     (case map_of (hvs_RoundVoteSets hvs) round of
        Some _ \<Rightarrow> Inl (RoundAlreadyExists round)
      | None \<Rightarrow>
        (let prevotes = NewVoteSet VOTE_PREVOTE (hvs_Height hvs) round;
             precommits = NewVoteSet VOTE_PRECOMMIT (hvs_Height hvs) round
         in Inr (hvs\<lparr>hvs_RoundVoteSets := AList.update round
              (newRoundVoteSet (hvs_Height hvs) round (Some prevotes) (Some precommits))
              (hvs_RoundVoteSets hvs)\<rparr>)))"

definition getRoundVoteSet :: "heightRoundVoteSet \<Rightarrow> i32 \<Rightarrow> roundVoteSet option" where
  "getRoundVoteSet hvs round = map_of (hvs_RoundVoteSets hvs) round"

definition getVoteSet :: "heightRoundVoteSet \<Rightarrow> i32 \<Rightarrow> VoteType \<Rightarrow> VoteSet option go" where
  "getVoteSet hvs round voteType =
     (case map_of (hvs_RoundVoteSets hvs) round of None \<Rightarrow> Inr None
      | Some rvs \<Rightarrow>
        (case voteType of
           VOTE_PREVOTE \<Rightarrow> Inr (rvs_Prevotes rvs)
         | VOTE_PRECOMMIT \<Rightarrow> Inr (rvs_Precommits rvs)
         | VOTE_OTHER n \<Rightarrow> Inl (InvalidVoteType n)))"

definition prevotes :: "heightRoundVoteSet \<Rightarrow> i32 \<Rightarrow> VoteSet option" where
  "prevotes hvs round =
     (case getVoteSet hvs round VOTE_PREVOTE of Inl _ \<Rightarrow> None | Inr m \<Rightarrow> m)"

definition precommits :: "heightRoundVoteSet \<Rightarrow> i32 \<Rightarrow> VoteSet option" where
  "precommits hvs round =
     (case getVoteSet hvs round VOTE_PRECOMMIT of Inl _ \<Rightarrow> None | Inr m \<Rightarrow> m)"

text \<open>The write through the pointer that \<open>getVoteSet\<close> returned.\<close>

definition putVoteSet ::
    "heightRoundVoteSet \<Rightarrow> i32 \<Rightarrow> VoteType \<Rightarrow> VoteSet \<Rightarrow> heightRoundVoteSet" where
  "putVoteSet hvs round voteType vs =
     (case map_of (hvs_RoundVoteSets hvs) round of None \<Rightarrow> hvs
      | Some rvs \<Rightarrow>
        hvs\<lparr>hvs_RoundVoteSets := AList.update round
          (case voteType of
             VOTE_PREVOTE \<Rightarrow> rvs\<lparr>rvs_Prevotes := Some vs\<rparr>
           | VOTE_PRECOMMIT \<Rightarrow> rvs\<lparr>rvs_Precommits := Some vs\<rparr>
           | VOTE_OTHER n \<Rightarrow> rvs) (hvs_RoundVoteSets hvs)\<rparr>)"

definition hvs_addVote ::
    "validatorSet \<Rightarrow> heightRoundVoteSet \<Rightarrow> Vote option
      \<Rightarrow> (heightRoundVoteSet \<times> bool \<times> voteError option) go" where
  "hvs_addVote V hvs pvote =
     go_bind (deref pvote) (\<lambda>vote.
     go_bind (getVoteSet hvs (v_Round vote) (v_Type vote)) (\<lambda>voteSet.
     go_bind (if voteSet = None then addRound hvs (v_Round vote) else Inr hvs) (\<lambda>hvs1.
     go_bind (getVoteSet hvs1 (v_Round vote) (v_Type vote)) (\<lambda>voteSet1.
     go_bind (deref voteSet1) (\<lambda>vs.
       (case AddVote V vs (Some vote) True of (vs', added, err) \<Rightarrow>
          Inr (putVoteSet hvs1 (v_Round vote) (v_Type vote) vs', added, err)))))))"

definition isRequired ::
    "validatorSet \<Rightarrow> heightRoundVoteSet \<Rightarrow> i32 \<Rightarrow> Vote option \<Rightarrow> bool go" where
  "isRequired V hvs round pvote =
     (case pvote of None \<Rightarrow> Inr False
      | Some vote \<Rightarrow>
        go_bind (getVoteSet hvs round (v_Type vote)) (\<lambda>voteSet.
          (case voteSet of None \<Rightarrow> Inr True
           | Some vs \<Rightarrow>
             if \<not> HasValidator (Some V) (v_Voter vote) then Inr False
             else Inr (map_of (vs_Votes vs) (v_Voter vote) = None))))"

end
