(* ===== verification/Quorums.thy ===== *)
theory Quorums
  imports Go_Prelude
begin

section \<open>Quorums\<close>

text \<open>
  The threshold of more than two thirds that both consensus modules compute in 32 bits, and the
  overlap of two quorums (locale \<open>quorum_system\<close>).
\<close>

definition quorum_nat :: "nat \<Rightarrow> nat" where
  "quorum_nat n = n * 2 div 3 + 1"

lemma i32_third:
  assumes "n < 2 ^ 30"
  shows "i32_div (i32_of_nat n * 2) 3 + 1 = i32_of_nat (quorum_nat n)"
    and "i32_div (i32_of_nat n * 1) 3 + 1 = i32_of_nat (n div 3 + 1)"
proof -
  have "i32_div (i32_of_nat (n * 2)) (i32_of_nat 3) = i32_of_nat (n * 2 div 3)"
    using assms by (intro i32_div_nat) simp_all
  then show "i32_div (i32_of_nat n * 2) 3 + 1 = i32_of_nat (quorum_nat n)"
    by (simp add: quorum_nat_def i32_of_nat_def)
  have "i32_div (i32_of_nat n) (i32_of_nat 3) = i32_of_nat (n div 3)"
    using assms by (intro i32_div_nat) simp_all
  then show "i32_div (i32_of_nat n * 1) 3 + 1 = i32_of_nat (n div 3 + 1)"
    by (simp add: i32_of_nat_def)
qed

lemma quorum_nat_le: "n < 2 ^ 30 \<Longrightarrow> quorum_nat n < 2 ^ 31"
  by (simp add: quorum_nat_def)

lemma of_nat_u64_less: "a < 2 ^ 64 \<Longrightarrow> b < 2 ^ 64 \<Longrightarrow> (word_of_nat a :: u64) < word_of_nat b \<longleftrightarrow> a < b"
  by (simp add: word_less_nat_alt unat_u64_of_nat)

lemma of_nat_u64_le: "a < 2 ^ 64 \<Longrightarrow> b < 2 ^ 64 \<Longrightarrow> (word_of_nat a :: u64) \<le> word_of_nat b \<longleftrightarrow> a \<le> b"
  by (simp add: word_le_nat_alt unat_u64_of_nat)

text \<open>Two quorums overlap in more than a third of the members.\<close>

locale quorum_system =
  fixes members :: "'a set" and threshold :: nat
  assumes finite_members: "finite members"
    and two_thirds: "card members * 2 < threshold * 3"
begin

definition is_quorum :: "'a set \<Rightarrow> bool" where
  "is_quorum Q \<longleftrightarrow> Q \<subseteq> members \<and> threshold \<le> card Q"

lemma quorum_overlap:
  assumes "is_quorum P" and "is_quorum Q"
  shows "card members < 3 * card (P \<inter> Q)"
proof -
  have fin: "finite P" "finite Q"
    using assms finite_members finite_subset by (auto simp: is_quorum_def)
  have "card P + card Q = card (P \<union> Q) + card (P \<inter> Q)"
    using card_Un_Int [OF fin] .
  moreover have "card (P \<union> Q) \<le> card members"
    using assms finite_members by (auto simp: is_quorum_def intro: card_mono)
  ultimately show ?thesis
    using assms two_thirds by (auto simp: is_quorum_def)
qed

lemma quorum_intersect: "is_quorum P \<Longrightarrow> is_quorum Q \<Longrightarrow> P \<inter> Q \<noteq> {}"
  using quorum_overlap [of P Q] by auto

lemma quorum_mono: "is_quorum P \<Longrightarrow> P \<subseteq> Q \<Longrightarrow> Q \<subseteq> members \<Longrightarrow> is_quorum Q"
  using finite_members card_mono [of Q P] finite_subset [of Q members]
  by (auto simp: is_quorum_def)

text \<open>If at most a third of the members is faulty, two quorums share a correct member.\<close>

lemma quorum_correct_member:
  assumes "is_quorum P" and "is_quorum Q" and "3 * card F \<le> card members" and "finite F"
  obtains p where "p \<in> P" and "p \<in> Q" and "p \<notin> F"
proof -
  have "\<not> P \<inter> Q \<subseteq> F"
    using quorum_overlap [OF assms(1,2)] assms(3) card_mono [OF assms(4), of "P \<inter> Q"] by auto
  with that show ?thesis by auto
qed

end

lemma quorum_nat_two_thirds: "card (set vs) * 2 < quorum_nat (length vs) * 3"
  using card_length [of vs] by (simp add: quorum_nat_def)

end
