(* ===== verification/Vote_Laws.thy ===== *)
theory Vote_Laws
  imports Vote_Set Quorums
begin

section \<open>What a vote set keeps\<close>

text \<open>
  The invariant of a vote set under its validators: one vote per validator, all of the set's
  type, height and round; the counters count; the votes are grouped by the hash they are for;
  and \<open>Maj23\<close> is the hash with a quorum, if there is one. The results: \<open>AddVote\<close> keeps the
  invariant on every branch, a quorum is unique, and two quorums share more than a third
  of the validators.
\<close>

subsection \<open>Quorum arithmetic\<close>

abbreviation num_validators :: "validatorSet \<Rightarrow> nat" where
  "num_validators V \<equiv> length (Validators V)"

lemma quorum_eq: "small_valset V \<Longrightarrow> quorum V = word_of_nat (quorum_nat (num_validators V))"
  using quorum_nat_le [of "num_validators V"]
  unfolding quorum_def Size_Some small_valset_def by (simp add: i32_third(1) u64_of_i32_of_nat)

lemma Size_u64: "small_valset V \<Longrightarrow> u64_of_i32 (Size (Some V)) = word_of_nat (num_validators V)"
  by (simp add: Size_Some small_valset_def u64_of_i32_of_nat)

lemma quorum_less: "small_valset V \<Longrightarrow> a < 2 ^ 32 \<Longrightarrow>
    word_of_nat a < quorum V \<longleftrightarrow> a < quorum_nat (num_validators V)"
  using quorum_nat_le [of "num_validators V"]
  by (simp add: quorum_eq of_nat_u64_less small_valset_def)

lemma quorum_le: "small_valset V \<Longrightarrow> a < 2 ^ 32 \<Longrightarrow>
    quorum V \<le> word_of_nat a \<longleftrightarrow> quorum_nat (num_validators V) \<le> a"
  using quorum_nat_le [of "num_validators V"]
  by (simp add: quorum_eq of_nat_u64_le small_valset_def)

interpretation val_quorum: quorum_system "set (Validators V)" "quorum_nat (num_validators V)" for V
  by unfold_locales (simp_all add: quorum_nat_two_thirds)

subsection \<open>The invariant\<close>

definition votes_for :: "VoteSet \<Rightarrow> string \<Rightarrow> (string \<times> Vote) list" where
  "votes_for vs s = filter (\<lambda>(k, v). bytes_content (v_Hash v) = s) (vs_Votes vs)"

definition voters_for :: "VoteSet \<Rightarrow> string \<Rightarrow> string set" where
  "voters_for vs s = fst ` set (votes_for vs s)"

definition block_votes :: "(string \<times> Vote) list \<Rightarrow> BlockVotes option" where
  "block_votes al =
     (if al = [] then None else Some \<lparr>bv_Votes = al, bv_Sum = word_of_nat (length al)\<rparr>)"

definition votes_ok :: "validatorSet \<Rightarrow> VoteSet \<Rightarrow> bool" where
  "votes_ok V vs \<longleftrightarrow> wf_alist (vs_Votes vs) \<and>
     (\<forall>(k, v) \<in> set (vs_Votes vs).
        v_Voter v = k \<and> checkVoteMatched vs v \<and> k \<in> set (Validators V)) \<and>
     vs_Sum vs = word_of_nat (length (vs_Votes vs))"

definition blocks_ok :: "VoteSet \<Rightarrow> bool" where
  "blocks_ok vs \<longleftrightarrow> wf_alist (vs_VotesByBlock vs) \<and>
     (\<forall>s. map_of (vs_VotesByBlock vs) (EncodeToString s) = block_votes (votes_for vs s)) \<and>
     (\<forall>k \<in> fst ` set (vs_VotesByBlock vs). \<exists>s. k = EncodeToString s)"

definition maj_ok :: "validatorSet \<Rightarrow> VoteSet \<Rightarrow> bool" where
  "maj_ok V vs \<longleftrightarrow>
     (\<forall>s. vs_Maj23 vs = Some s \<longrightarrow> quorum_nat (num_validators V) \<le> length (votes_for vs s)) \<and>
     (\<forall>s. s \<noteq> [] \<longrightarrow> quorum_nat (num_validators V) \<le> length (votes_for vs s)
        \<longrightarrow> vs_Maj23 vs = Some s)"

definition wf_voteset :: "validatorSet \<Rightarrow> VoteSet \<Rightarrow> bool" where
  "wf_voteset V vs \<longleftrightarrow> votes_ok V vs \<and> blocks_ok vs \<and> maj_ok V vs"

lemma maj_ok_quorum:
  "maj_ok V vs \<Longrightarrow> vs_Maj23 vs = Some s \<Longrightarrow>
    quorum_nat (num_validators V) \<le> length (votes_for vs s)"
  by (simp add: maj_ok_def)

lemma maj_ok_Some:
  "maj_ok V vs \<Longrightarrow> s \<noteq> [] \<Longrightarrow> quorum_nat (num_validators V) \<le> length (votes_for vs s) \<Longrightarrow>
    vs_Maj23 vs = Some s"
  unfolding maj_ok_def by blast

lemma wf_NewVoteSet [simp]: "wf_voteset V (NewVoteSet t h r)"
  by (simp add: wf_voteset_def votes_ok_def blocks_ok_def maj_ok_def NewVoteSet_def votes_for_def
      block_votes_def quorum_nat_def)

subsection \<open>Counting voters\<close>

lemma votes_ok_keys: "votes_ok V vs \<Longrightarrow> fst ` set (vs_Votes vs) \<subseteq> set (Validators V)"
  by (auto simp: votes_ok_def)

lemma votes_ok_length: "votes_ok V vs \<Longrightarrow> length (vs_Votes vs) \<le> num_validators V"
proof -
  assume ok: "votes_ok V vs"
  have "length (vs_Votes vs) = card (fst ` set (vs_Votes vs))"
    using ok by (metis distinct_card length_map set_map votes_ok_def)
  also have "\<dots> \<le> card (set (Validators V))"
    using votes_ok_keys [OF ok] by (simp add: card_mono)
  also have "\<dots> \<le> num_validators V" by (rule card_length)
  finally show ?thesis .
qed

lemma votes_ok_new_length:
  assumes "votes_ok V vs" and "k \<in> set (Validators V)" and "map_of (vs_Votes vs) k = None"
  shows "length (vs_Votes vs) < num_validators V"
proof -
  have sub: "insert k (fst ` set (vs_Votes vs)) \<subseteq> set (Validators V)"
    using votes_ok_keys [OF assms(1)] assms(2) by simp
  have new: "k \<notin> fst ` set (vs_Votes vs)"
    using assms(3) by (simp add: map_of_eq_None_iff)
  have "length (vs_Votes vs) = card (fst ` set (vs_Votes vs))"
    using assms(1) by (metis distinct_card length_map set_map votes_ok_def)
  then have "Suc (length (vs_Votes vs)) = card (insert k (fst ` set (vs_Votes vs)))"
    using new by simp
  also have "\<dots> \<le> card (set (Validators V))"
    using sub by (simp add: card_mono)
  also have "\<dots> \<le> num_validators V" by (rule card_length)
  finally show ?thesis by simp
qed

lemma votes_for_le: "length (votes_for vs s) \<le> length (vs_Votes vs)"
  by (simp add: votes_for_def)

lemma votes_for_disjoint:
  "s \<noteq> t \<Longrightarrow> length (votes_for vs s) + length (votes_for vs t) \<le> length (vs_Votes vs)"
  using count_if_disjoint [of "vs_Votes vs" "\<lambda>(k, v). bytes_content (v_Hash v) = s"
      "\<lambda>(k, v). bytes_content (v_Hash v) = t"]
  by (auto simp: votes_for_def count_if_def)

lemma card_voters_for: "votes_ok V vs \<Longrightarrow> card (voters_for vs s) = length (votes_for vs s)"
  using distinct_card [of "map fst (votes_for vs s)"]
  by (simp add: voters_for_def votes_for_def votes_ok_def wf_alist_filter)

lemma voters_for_quorum:
  assumes "votes_ok V vs" and "quorum_nat (num_validators V) \<le> length (votes_for vs s)"
  shows "val_quorum.is_quorum V (voters_for vs s)"
  using assms votes_ok_keys [OF assms(1)] card_voters_for [OF assms(1)]
  by (auto simp: val_quorum.is_quorum_def voters_for_def votes_for_def)

lemma quorum_unique:
  assumes "votes_ok V vs"
    and "quorum_nat (num_validators V) \<le> length (votes_for vs s)"
    and "quorum_nat (num_validators V) \<le> length (votes_for vs t)"
  shows "s = t"
proof (rule ccontr)
  assume "s \<noteq> t"
  then have "2 * quorum_nat (num_validators V) \<le> num_validators V"
    using votes_for_disjoint [of s t vs] votes_ok_length [OF assms(1)] assms(2,3) by linarith
  then show False by (simp add: quorum_nat_def)
qed

subsection \<open>Adding a vote\<close>

definition accepts :: "validatorSet \<Rightarrow> VoteSet \<Rightarrow> Vote \<Rightarrow> bool" where
  "accepts V vs vote \<longleftrightarrow> checkVoteMatched vs vote \<and> v_Voter vote \<in> set (Validators V) \<and>
     map_of (vs_Votes vs) (v_Voter vote) = None"

lemma addInvalidTxs_fields [simp]:
  "vs_Type (addInvalidTxs V vs txs) = vs_Type vs"
  "vs_Height (addInvalidTxs V vs txs) = vs_Height vs"
  "vs_Round (addInvalidTxs V vs txs) = vs_Round vs"
  "vs_Sum (addInvalidTxs V vs txs) = vs_Sum vs"
  "vs_Maj23 (addInvalidTxs V vs txs) = vs_Maj23 vs"
  "vs_Votes (addInvalidTxs V vs txs) = vs_Votes vs"
  "vs_VotesByBlock (addInvalidTxs V vs txs) = vs_VotesByBlock vs"
  by (induction txs arbitrary: vs) (simp_all add: Let_def)

lemma checkVoteMatched_iff:
  "checkVoteMatched vs v \<longleftrightarrow>
    v_Type v = vs_Type vs \<and> v_Height v = vs_Height vs \<and> v_Round v = vs_Round vs"
  by (simp add: checkVoteMatched_def)

lemma AddVote_reject:
  "\<not> accepts V vs vote \<Longrightarrow> \<exists>err. AddVote V vs (Some vote) c = (vs, False, err)"
  by (auto simp: AddVote_def accepts_def)

lemma AddVote_nil: "AddVote V vs None c = (vs, False, Some ErrVoteNil)"
  by (simp add: AddVote_def)

text \<open>What an accepted vote does, in terms of the votes that are there.\<close>

definition add_core :: "validatorSet \<Rightarrow> VoteSet \<Rightarrow> Vote \<Rightarrow> VoteSet" where
  "add_core V vs vote =
     (let s = bytes_content (v_Hash vote); n = Suc (length (votes_for vs s)) in
      vs\<lparr>vs_Votes := vs_Votes vs @ [(v_Voter vote, vote)],
         vs_Sum := vs_Sum vs + 1,
         vs_VotesByBlock := AList.update (EncodeToString s)
           \<lparr>bv_Votes = votes_for vs s @ [(v_Voter vote, vote)], bv_Sum = word_of_nat n\<rparr>
           (vs_VotesByBlock vs),
         vs_Maj23 := (if n = quorum_nat (num_validators V) \<and> vs_Maj23 vs = None
                      then v_Hash vote else vs_Maj23 vs)\<rparr>)"

lemma add_core_fields [simp]:
  "vs_Type (add_core V vs vote) = vs_Type vs"
  "vs_Height (add_core V vs vote) = vs_Height vs"
  "vs_Round (add_core V vs vote) = vs_Round vs"
  "vs_Votes (add_core V vs vote) = vs_Votes vs @ [(v_Voter vote, vote)]"
  "vs_Sum (add_core V vs vote) = vs_Sum vs + 1"
  by (simp_all add: add_core_def Let_def)

lemma votes_for_add_core:
  "votes_for (add_core V vs vote) s =
     votes_for vs s @ (if bytes_content (v_Hash vote) = s then [(v_Voter vote, vote)] else [])"
  by (simp add: votes_for_def)

lemma bv_update:
  assumes "map_of (bv_Votes bv) (v_Voter vote) = None"
  shows "bv_addVote bv vote =
    \<lparr>bv_Votes = bv_Votes bv @ [(v_Voter vote, vote)], bv_Sum = bv_Sum bv + 1\<rparr>"
  using assms by (cases bv) (simp add: bv_addVote_def update_new)

lemma map_of_votes_for_None:
  "map_of (vs_Votes vs) k = None \<Longrightarrow> map_of (votes_for vs s) k = None"
  by (auto simp: map_of_eq_None_iff votes_for_def)

lemma fold_votes_triv:
  assumes "wf_alist (vs_Votes vs)" and "map_of (vs_Votes vs) k = None"
  shows "fold (\<lambda>(k, v) m. AList.update k v m) (votes_for vs s @ [(k, v)]) (vs_Votes vs @ [(k, v)])
    = vs_Votes vs @ [(k, v)]"
proof (rule fold_update_triv)
  have "wf_alist (vs_Votes vs @ [(k, v)])"
    using assms by (auto simp: map_of_eq_None_iff)
  then show "\<forall>(k', v') \<in> set (votes_for vs s @ [(k, v)]).
      map_of (vs_Votes vs @ [(k, v)]) k' = Some v'"
    by (auto simp: votes_for_def intro!: map_of_is_SomeI simp del: map_of_append)
qed

lemma voteset_upd_order:
  "vs\<lparr>vs_Sum := a, vs_VotesByBlock := b, vs_Maj23 := m, vs_Votes := x\<rparr> =
    vs\<lparr>vs_Votes := x, vs_Sum := a, vs_VotesByBlock := b, vs_Maj23 := m\<rparr>"
  "vs\<lparr>vs_Votes := x, vs_Sum := a, vs_VotesByBlock := b, vs_Maj23 := vs_Maj23 vs\<rparr> =
    vs\<lparr>vs_Votes := x, vs_Sum := a, vs_VotesByBlock := b\<rparr>"
  by (cases vs; simp)+

lemma AddVote_accept:
  assumes wf: "wf_voteset V vs" and small: "small_valset V" and acc: "accepts V vs vote"
  shows "AddVote V vs (Some vote) c =
    ((if v_Type vote = VOTE_PREVOTE \<and> c then addInvalidTxs V (add_core V vs vote) (v_InvalidTxs vote)
      else add_core V vs vote), True, None)"
proof -
  let ?s = "bytes_content (v_Hash vote)"
  let ?l = "length (votes_for vs ?s)"
  let ?bv = "case map_of (vs_VotesByBlock vs) (EncodeToString ?s) of Some bv \<Rightarrow> bv | None \<Rightarrow> NewBlockVotes"
  have ok: "votes_ok V vs" and blocks: "map_of (vs_VotesByBlock vs) (EncodeToString ?s) = block_votes (votes_for vs ?s)"
    using wf by (auto simp: wf_voteset_def blocks_ok_def)
  have None': "map_of (vs_Votes vs) (v_Voter vote) = None" using acc by (simp add: accepts_def)
  have bv: "?bv = \<lparr>bv_Votes = votes_for vs ?s, bv_Sum = word_of_nat ?l\<rparr>"
    by (simp add: blocks block_votes_def NewBlockVotes_def)
  have add: "bv_addVote ?bv vote = \<lparr>bv_Votes = votes_for vs ?s @ [(v_Voter vote, vote)],
      bv_Sum = word_of_nat (Suc ?l)\<rparr>"
    unfolding bv using map_of_votes_for_None [OF None', of ?s] by (simp add: bv_update add.commute)
  have len: "Suc ?l < 2 ^ 32"
    using votes_for_le [of vs ?s] votes_ok_length [OF ok] small by (simp add: small_valset_def)
  have cross: "(word_of_nat ?l < quorum V \<and> quorum V \<le> word_of_nat (Suc ?l) \<and> vs_Maj23 vs = None)
      \<longleftrightarrow> Suc ?l = quorum_nat (num_validators V) \<and> vs_Maj23 vs = None"
    using len quorum_less [OF small, of ?l] quorum_le [OF small, of "Suc ?l"] by auto
  have triv: "fold (\<lambda>(k, v) m. AList.update k v m) (votes_for vs ?s @ [(v_Voter vote, vote)])
      (vs_Votes vs @ [(v_Voter vote, vote)]) = vs_Votes vs @ [(v_Voter vote, vote)]"
    using fold_votes_triv [OF _ None', of ?s vote] ok by (simp add: votes_ok_def)
  show ?thesis
    using acc None'
    by (simp add: AddVote_def accepts_def Let_def hash_key_def update_new bv add [unfolded bv] cross triv
        voteset_upd_order add_core_def del: of_nat_Suc fold_append)
qed

lemma votes_ok_add_core:
  assumes "votes_ok V vs" and "accepts V vs vote"
  shows "votes_ok V (add_core V vs vote)"
  using assms
  by (auto simp: votes_ok_def accepts_def checkVoteMatched_iff map_of_eq_None_iff split: prod.splits)

lemma blocks_ok_add_core:
  assumes "blocks_ok vs"
  shows "blocks_ok (add_core V vs vote)"
proof -
  let ?s = "bytes_content (v_Hash vote)"
  have old: "map_of (vs_VotesByBlock vs) (EncodeToString t) = block_votes (votes_for vs t)" for t
    using assms by (simp add: blocks_ok_def)
  have "vs_VotesByBlock (add_core V vs vote) = AList.update (EncodeToString ?s)
      \<lparr>bv_Votes = votes_for vs ?s @ [(v_Voter vote, vote)],
       bv_Sum = word_of_nat (Suc (length (votes_for vs ?s)))\<rparr> (vs_VotesByBlock vs)"
    by (simp add: add_core_def Let_def)
  then have "map_of (vs_VotesByBlock (add_core V vs vote)) (EncodeToString t) =
      block_votes (votes_for (add_core V vs vote) t)" for t
    by (simp add: EncodeToString_inj old block_votes_def votes_for_add_core)
  moreover have "fst ` set (vs_VotesByBlock (add_core V vs vote)) =
      insert (EncodeToString ?s) (fst ` set (vs_VotesByBlock vs))"
    by (simp add: add_core_def Let_def dom_update)
  moreover have "wf_alist (vs_VotesByBlock (add_core V vs vote))"
    using assms by (simp add: blocks_ok_def add_core_def Let_def)
  ultimately show ?thesis using assms by (auto simp: blocks_ok_def)
qed

lemma maj_ok_add_core:
  assumes wf: "wf_voteset V vs" and acc: "accepts V vs vote"
  shows "maj_ok V (add_core V vs vote)"
proof -
  let ?q = "quorum_nat (num_validators V)" and ?s = "bytes_content (v_Hash vote)"
  let ?vs = "add_core V vs vote"
  let ?n = "\<lambda>t. length (votes_for ?vs t)"
  have maj: "maj_ok V vs" and ok: "votes_ok V ?vs"
    using wf votes_ok_add_core [OF _ acc] by (simp_all add: wf_voteset_def)
  have mono: "length (votes_for vs t) \<le> ?n t" for t
    by (simp add: votes_for_add_core)
  have Maj: "vs_Maj23 ?vs =
      (if ?n ?s = ?q \<and> vs_Maj23 vs = None then v_Hash vote else vs_Maj23 vs)"
    by (simp add: add_core_def Let_def votes_for_def)
  have sound: "?q \<le> ?n t" if "vs_Maj23 ?vs = Some t" for t
  proof (cases "?n ?s = ?q \<and> vs_Maj23 vs = None")
    case True
    then show ?thesis using that Maj by simp
  next
    case False
    then have "vs_Maj23 vs = Some t" using that by (simp only: Maj if_False)
    then show ?thesis using maj_ok_quorum [OF maj] mono [of t] by (meson le_trans)
  qed
  have complete: "vs_Maj23 ?vs = Some t" if t: "t \<noteq> []" "?q \<le> ?n t" for t
  proof (cases "?q \<le> length (votes_for vs t)")
    case True
    with t maj have "vs_Maj23 vs = Some t" by (blast intro: maj_ok_Some)
    then show ?thesis by (simp add: Maj)
  next
    case False
    then have ts: "t = ?s" and nq: "?n ?s = ?q"
      using t by (auto simp: votes_for_add_core split: if_splits)
    have "vs_Maj23 vs = None"
    proof (rule ccontr)
      assume "vs_Maj23 vs \<noteq> None"
      then obtain u where u: "vs_Maj23 vs = Some u" by auto
      then have "?q \<le> length (votes_for vs u)" using maj by (blast intro: maj_ok_quorum)
      moreover from this have "u = ?s"
        using quorum_unique [OF ok, of u ?s] mono [of u] nq by simp
      ultimately show False using False ts by simp
    qed
    then show ?thesis using Maj nq ts t by (cases "v_Hash vote") auto
  qed
  show ?thesis unfolding maj_ok_def using sound complete by blast
qed

lemma wf_add_core:
  "wf_voteset V vs \<Longrightarrow> accepts V vs vote \<Longrightarrow> wf_voteset V (add_core V vs vote)"
  using votes_ok_add_core blocks_ok_add_core maj_ok_add_core by (auto simp: wf_voteset_def)

lemma wf_voteset_cong:
  assumes "vs_Type vs' = vs_Type vs" "vs_Height vs' = vs_Height vs" "vs_Round vs' = vs_Round vs"
    "vs_Sum vs' = vs_Sum vs" "vs_Maj23 vs' = vs_Maj23 vs" "vs_Votes vs' = vs_Votes vs"
    "vs_VotesByBlock vs' = vs_VotesByBlock vs"
  shows "wf_voteset V vs' = wf_voteset V vs"
  using assms by (simp add: wf_voteset_def votes_ok_def blocks_ok_def maj_ok_def votes_for_def checkVoteMatched_def)

lemma wf_addInvalidTxs [simp]: "wf_voteset V (addInvalidTxs V vs txs) = wf_voteset V vs"
  by (rule wf_voteset_cong) simp_all

lemma AddVote_wf:
  assumes "wf_voteset V vs" and "small_valset V"
  shows "wf_voteset V (fst (AddVote V vs pvote c))"
proof (cases pvote)
  case None
  then show ?thesis using assms by (simp add: AddVote_nil)
next
  case (Some vote)
  then show ?thesis
  proof (cases "accepts V vs vote")
    case True
    then show ?thesis
      using assms Some by (simp add: AddVote_accept wf_add_core)
  next
    case False
    then show ?thesis using AddVote_reject [OF False, of c] assms Some by auto
  qed
qed

subsection \<open>The majority\<close>

lemma Maj23_iff:
  assumes "wf_voteset V vs" and "s \<noteq> []"
  shows "vs_Maj23 vs = Some s \<longleftrightarrow> quorum_nat (num_validators V) \<le> card (voters_for vs s)"
  using assms maj_ok_quorum maj_ok_Some card_voters_for unfolding wf_voteset_def by metis

lemma Maj23_quorum:
  assumes "wf_voteset V vs" and "vs_Maj23 vs = Some s"
  shows "val_quorum.is_quorum V (voters_for vs s)"
  using assms voters_for_quorum maj_ok_quorum unfolding wf_voteset_def by blast

lemma Maj23_conflict:
  assumes "wf_voteset V vs1" and "wf_voteset V vs2"
    and "vs_Maj23 vs1 = Some s1" and "vs_Maj23 vs2 = Some s2"
  shows "card (set (Validators V)) < 3 * card (voters_for vs1 s1 \<inter> voters_for vs2 s2)"
  using assms by (intro val_quorum.quorum_overlap Maj23_quorum)

lemma voters_for_mem:
  assumes "votes_ok V vs" and "k \<in> voters_for vs s"
  obtains v where "map_of (vs_Votes vs) k = Some v" and "v_Voter v = k" and "bytes_content (v_Hash v) = s"
proof -
  from assms(2) obtain v where "(k, v) \<in> set (vs_Votes vs)" and h: "bytes_content (v_Hash v) = s"
    by (auto simp: voters_for_def votes_for_def)
  with assms(1) that show ?thesis by (auto simp: votes_ok_def)
qed

text \<open>
  \<open>hasTwoThirdsAny\<close>: when votes are in, it says that no hash can reach a quorum any more,
  however the missing validators vote.
\<close>

lemma left_sum:
  assumes "votes_ok V vs" and "small_valset V"
  shows "word_of_nat m + (u64_of_i32 (Size (Some V)) - vs_Sum vs) =
    (word_of_nat (m + (num_validators V - length (vs_Votes vs))) :: u64)"
  using assms votes_ok_length [OF assms(1)] by (simp add: Size_u64 votes_ok_def of_nat_diff)

lemma bv_reaches_iff:
  assumes "votes_ok V vs" and "small_valset V" and "m \<le> length (vs_Votes vs)"
  shows "quorum V \<le> word_of_nat m + (u64_of_i32 (Size (Some V)) - vs_Sum vs) \<longleftrightarrow>
    quorum_nat (num_validators V) \<le> m + (num_validators V - length (vs_Votes vs))"
proof -
  have "m + (num_validators V - length (vs_Votes vs)) < 2 ^ 32"
    using assms votes_ok_length [OF assms(1)] by (simp add: small_valset_def)
  then show ?thesis
    unfolding left_sum [OF assms(1,2)] by (rule quorum_le [OF assms(2)])
qed

lemma hasTwoThirdsAny_iff:
  assumes wf: "wf_voteset V vs" and small: "small_valset V" and ne: "vs_Votes vs \<noteq> []"
  shows "hasTwoThirdsAny V (Some vs) \<longleftrightarrow>
    (\<forall>s. length (votes_for vs s) + (num_validators V - length (vs_Votes vs))
      < quorum_nat (num_validators V))" (is "_ \<longleftrightarrow> (\<forall>s. ?out s)")
proof -
  have ok: "votes_ok V vs" and blocks: "blocks_ok vs" using wf by (simp_all add: wf_voteset_def)
  have reach: "\<not> quorum V \<le> bv_Sum bv + (u64_of_i32 (Size (Some V)) - vs_Sum vs) \<longleftrightarrow> ?out s"
    if "block_votes (votes_for vs s) = Some bv" for bv s
    using that bv_reaches_iff [OF ok small votes_for_le, of s]
    by (auto simp: block_votes_def not_le split: if_splits)
  have entry: "\<exists>s. block_votes (votes_for vs s) = Some bv" if "(k, bv) \<in> set (vs_VotesByBlock vs)" for k bv
    using that blocks unfolding blocks_ok_def by (metis fst_conv image_eqI map_of_is_SomeI)
  have entry': "\<exists>k. (k, bv) \<in> set (vs_VotesByBlock vs)" if "block_votes (votes_for vs s) = Some bv" for s bv
    using that blocks unfolding blocks_ok_def by (metis map_of_SomeD)
  obtain k v where "(k, v) \<in> set (vs_Votes vs)" using ne by (cases "vs_Votes vs") auto
  then have some: "votes_for vs (bytes_content (v_Hash v)) \<noteq> []" (is "votes_for vs ?t \<noteq> []")
    by (auto simp: votes_for_def filter_empty_conv)
  have zero: "?out s" if "votes_for vs s = []" and "?out ?t" for s
    using that some by (cases "votes_for vs ?t") simp_all
  have any: "hasTwoThirdsAny V (Some vs) \<longleftrightarrow> (\<forall>(k, bv) \<in> set (vs_VotesByBlock vs).
      \<not> quorum V \<le> bv_Sum bv + (u64_of_i32 (Size (Some V)) - vs_Sum vs))"
    by (simp add: hasTwoThirdsAny_def list_all_iff)
  show ?thesis
  proof
    assume H: "hasTwoThirdsAny V (Some vs)"
    have nz: "?out s" if "votes_for vs s \<noteq> []" for s
    proof -
      from that obtain bv where b: "block_votes (votes_for vs s) = Some bv"
        by (simp add: block_votes_def)
      with entry' obtain k where "(k, bv) \<in> set (vs_VotesByBlock vs)" by blast
      with H have "\<not> quorum V \<le> bv_Sum bv + (u64_of_i32 (Size (Some V)) - vs_Sum vs)"
        unfolding any by blast
      with reach [OF b] show ?thesis by simp
    qed
    show "\<forall>s. ?out s" using nz zero some by metis
  next
    assume "\<forall>s. ?out s"
    with entry reach show "hasTwoThirdsAny V (Some vs)" unfolding any by blast
  qed
qed

subsection \<open>Stores of votes\<close>

text \<open>
  What the users of a vote container rely on: a recorded vote is never replaced, and what is
  new in the container is the vote that was added. Vote sets, the consistency engine's copies
  and the vote sets of a height are such stores; their keys differ.
\<close>

locale vote_store =
  fixes add :: "'s \<Rightarrow> Vote option \<Rightarrow> 's" and look :: "'s \<Rightarrow> 'k \<Rightarrow> Vote option"
    and key :: "Vote \<Rightarrow> 'k" and inv :: "'s \<Rightarrow> bool"
  assumes inv_add: "inv s \<Longrightarrow> inv (add s pv)"
    and look_keep: "inv s \<Longrightarrow> look s k = Some w \<Longrightarrow> look (add s pv) k = Some w"
    and look_new: "inv s \<Longrightarrow> look s k = None \<Longrightarrow> look (add s pv) k = Some w \<Longrightarrow>
        pv = Some w \<and> key w = k"
begin

lemma foldl_inv: "inv s \<Longrightarrow> inv (foldl add s pvs)"
  by (induction pvs arbitrary: s) (simp_all add: inv_add)

text \<open>No equivocation: the first vote recorded under a key stays.\<close>

lemma foldl_keep: "inv s \<Longrightarrow> look s k = Some w \<Longrightarrow> look (foldl add s pvs) k = Some w"
  by (induction pvs arbitrary: s) (simp_all add: inv_add look_keep)

text \<open>Nothing is made up: a recorded vote was there or was among the added ones.\<close>

lemma foldl_origin:
  "inv s \<Longrightarrow> look (foldl add s pvs) k = Some w \<Longrightarrow>
    look s k = Some w \<or> (Some w \<in> set pvs \<and> key w = k)"
proof (induction pvs arbitrary: s)
  case (Cons pv pvs)
  then have "look (add s pv) k = Some w \<or> (Some w \<in> set pvs \<and> key w = k)"
    by (simp add: inv_add)
  then show ?case
    using Cons.prems look_keep [of s k] look_new [of s k pv w] by (cases "look s k") auto
qed simp

end

lemma look_AddVote:
  assumes "wf_voteset V vs" and "small_valset V"
  shows "map_of (vs_Votes (fst (AddVote V vs pv c))) k =
    (case pv of None \<Rightarrow> map_of (vs_Votes vs) k
     | Some v \<Rightarrow> if accepts V vs v \<and> k = v_Voter v then Some v else map_of (vs_Votes vs) k)"
proof (cases pv)
  case (Some v)
  show ?thesis
  proof (cases "accepts V vs v")
    case True
    then have "map_of (vs_Votes vs) (v_Voter v) = None" by (simp add: accepts_def)
    then show ?thesis
      using True Some assms
      by (simp add: AddVote_accept map_add_def split: option.splits)
  next
    case False
    then show ?thesis using AddVote_reject [OF False, of c] Some by auto
  qed
qed (simp add: AddVote_nil)

interpretation voteset_store: vote_store
  "\<lambda>vs pv. fst (AddVote V vs pv c)" "\<lambda>vs. map_of (vs_Votes vs)" v_Voter
  "\<lambda>vs. wf_voteset V vs \<and> small_valset V" for V c
  by unfold_locales
    (auto simp: AddVote_wf look_AddVote accepts_def split: option.splits if_splits)

lemma look_AddVoteForConsistent:
  "map_of (vs_Votes (fst (AddVoteForConsistent vs pv))) k =
    (case pv of None \<Rightarrow> map_of (vs_Votes vs) k
     | Some v \<Rightarrow> if checkVoteMatched vs v \<and> map_of (vs_Votes vs) (v_Voter v) = None \<and> k = v_Voter v
         then Some v else map_of (vs_Votes vs) k)"
  by (auto simp: AddVoteForConsistent_def split: option.splits)

interpretation consistent_store: vote_store
  "\<lambda>vs pv. fst (AddVoteForConsistent vs pv)" "\<lambda>vs. map_of (vs_Votes vs)" v_Voter "\<lambda>_. True"
  by unfold_locales (auto simp: look_AddVoteForConsistent split: option.splits if_splits)

end
