(* ===== verification/Vote_Tally.thy ===== *)
theory Vote_Tally
  imports Vote_Laws
begin

section \<open>Votes through protobuf, and the invalid transactions of prevotes\<close>

text \<open>
  Two results on whole sequences of votes: a vote set rebuilt from its protobuf image has the
  same votes and the same majority, in whatever order the range over the message's map visits
  the votes; and the transactions a set of prevotes marks for deletion are those that more
  than a third of the validators report, each once.
\<close>

subsection \<open>Rebuilding a vote set from votes\<close>

lemma accepts_add_core:
  assumes "accepts V vs w" and "v_Voter w \<noteq> v_Voter v"
  shows "accepts V (add_core V vs v) w"
  using assms by (simp add: accepts_def checkVoteMatched_iff map_add_def)

lemma AddVotes_accepted:
  assumes "wf_voteset V vs" and "small_valset V" and "\<forall>w \<in> set ws. accepts V vs w"
    and "distinct (map v_Voter ws)"
  shows "vs_Votes (AddVotes V vs (map Some ws)) = vs_Votes vs @ map (\<lambda>w. (v_Voter w, w)) ws \<and>
    wf_voteset V (AddVotes V vs (map Some ws))"
  using assms
proof (induction ws arbitrary: vs)
  case (Cons w ws)
  have acc: "accepts V vs w" using Cons.prems(3) by simp
  have step: "fst (AddVote V vs (Some w) False) = add_core V vs w"
    using AddVote_accept [OF Cons.prems(1,2) acc] by simp
  have "wf_voteset V (add_core V vs w)" using wf_add_core [OF Cons.prems(1) acc] .
  moreover have "\<forall>x \<in> set ws. accepts V (add_core V vs w) x"
  proof
    fix x assume x: "x \<in> set ws"
    then have "v_Voter x \<in> v_Voter ` set ws" by (rule imageI)
    then have "v_Voter x \<noteq> v_Voter w" using Cons.prems(4) by auto
    then show "accepts V (add_core V vs w) x"
      using accepts_add_core Cons.prems(3) x by simp
  qed
  ultimately show ?case
    using Cons.IH [of "add_core V vs w"] Cons.prems(2,4) step by simp
qed simp

lemma AddVotes_fields [simp]:
  "vs_Type (AddVotes V vs pvs) = vs_Type vs"
  "vs_Height (AddVotes V vs pvs) = vs_Height vs"
  "vs_Round (AddVotes V vs pvs) = vs_Round vs"
  by (induction pvs arbitrary: vs)
    (simp_all add: AddVote_def Let_def split: option.splits)

lemma AddVotes_wf:
  "wf_voteset V vs \<Longrightarrow> small_valset V \<Longrightarrow> wf_voteset V (AddVotes V vs pvs)"
  by (induction pvs arbitrary: vs) (simp_all add: AddVote_wf)

lemma NewVoteSetFromProto_wf: "small_valset V \<Longrightarrow> wf_voteset V (NewVoteSetFromProto ps V)"
  by (simp add: NewVoteSetFromProto_def AddVotes_wf)

lemma votes_ok_map_voter:
  "votes_ok V vs \<Longrightarrow> map (\<lambda>w. (v_Voter w, w)) (map snd (vs_Votes vs)) = vs_Votes vs"
  by (auto simp: votes_ok_def comp_def intro!: map_idI)

lemma accepts_NewVoteSet:
  assumes "votes_ok V vs" and "(k, w) \<in> set (vs_Votes vs)"
  shows "accepts V (NewVoteSet (vs_Type vs) (vs_Height vs) (vs_Round vs)) w"
  using assms by (auto simp: votes_ok_def accepts_def checkVoteMatched_iff NewVoteSet_def)

lemma proto_roundtrip_votes:
  assumes wf: "wf_voteset V vs" and small: "small_valset V"
    and perm: "mset ws = mset (map snd (vs_Votes vs))"
  defines "vs' \<equiv> AddVotes V (NewVoteSet (vs_Type vs) (vs_Height vs) (vs_Round vs)) (map Some ws)"
  shows "mset (vs_Votes vs') = mset (vs_Votes vs)" and "wf_voteset V vs'"
proof -
  have ok: "votes_ok V vs" using wf by (simp add: wf_voteset_def)
  have voters: "mset (map (\<lambda>w. (v_Voter w, w)) ws) = mset (vs_Votes vs)"
    using perm votes_ok_map_voter [OF ok] by (metis mset_map)
  have "set ws = snd ` set (vs_Votes vs)"
    using perm by (metis list.set_map mset_eq_setD)
  then have acc: "\<forall>w \<in> set ws. accepts V (NewVoteSet (vs_Type vs) (vs_Height vs) (vs_Round vs)) w"
    using accepts_NewVoteSet [OF ok] by fastforce
  have "mset (map v_Voter ws) = mset (map fst (vs_Votes vs))"
    using voters by (metis (no_types, lifting) comp_apply fst_conv map_eq_conv map_map mset_map)
  then have dist: "distinct (map v_Voter ws)"
    using ok by (metis distinct_count_atmost_1 mset_eq_imp_distinct_iff votes_ok_def)
  have res: "vs_Votes vs' = map (\<lambda>w. (v_Voter w, w)) ws \<and> wf_voteset V vs'"
    using AddVotes_accepted [OF wf_NewVoteSet small acc dist]
    by (simp add: vs'_def NewVoteSet_def)
  then show "mset (vs_Votes vs') = mset (vs_Votes vs)" and "wf_voteset V vs'"
    using voters by simp_all
qed

lemma voters_for_mset:
  "mset (vs_Votes vs') = mset (vs_Votes vs) \<Longrightarrow> voters_for vs' s = voters_for vs s"
  unfolding voters_for_def votes_for_def by (metis mset_eq_setD mset_filter)

lemma proto_roundtrip:
  assumes wf: "wf_voteset V vs" and small: "small_valset V"
    and proto: "VoteSet_ToProto (Some vs) = Some p"
    and perm: "mset pvotes = mset (pvs_Votes p)"
  defines "vs' \<equiv> NewVoteSetFromProto (p\<lparr>pvs_Votes := pvotes\<rparr>) V"
  shows "mset (vs_Votes vs') = mset (vs_Votes vs)" and "vs_Sum vs' = vs_Sum vs"
    and "\<And>s. s \<noteq> [] \<Longrightarrow> vs_Maj23 vs' = Some s \<longleftrightarrow> vs_Maj23 vs = Some s"
proof -
  have p: "pvs_Votes p = map (\<lambda>(k, v). (k, Some v)) (vs_Votes vs)"
    "pvs_Type p = vs_Type vs" "pvs_Height p = vs_Height vs" "pvs_Round p = vs_Round vs"
    using proto by (auto simp: VoteSet_ToProto_def)
  have snd: "map snd (pvs_Votes p) = map Some (map snd (vs_Votes vs))"
    by (simp add: p(1) case_prod_beta)
  have eq: "mset (map snd pvotes) = mset (map Some (map snd (vs_Votes vs)))"
    unfolding snd [symmetric] mset_map by (simp add: perm)
  define ws where "ws = map the (map snd pvotes)"
  have "set (map snd pvotes) = set (map Some (map snd (vs_Votes vs)))"
    using eq by (rule mset_eq_setD)
  then have ws: "map snd pvotes = map Some ws"
    unfolding ws_def map_map [of Some the] by (intro map_idI [symmetric]) auto
  have "mset ws = mset (map the (map Some (map snd (vs_Votes vs))))"
    unfolding ws_def mset_map [of the] eq by simp
  then have "mset ws = mset (map snd (vs_Votes vs))" by (simp add: comp_def)
  note rt = proto_roundtrip_votes [OF wf small this]
  have vs': "vs' = AddVotes V (NewVoteSet (vs_Type vs) (vs_Height vs) (vs_Round vs)) (map Some ws)"
    by (simp add: vs'_def NewVoteSetFromProto_def p ws)
  show votes: "mset (vs_Votes vs') = mset (vs_Votes vs)" using rt(1) by (simp add: vs')
  have wf': "wf_voteset V vs'" using rt(2) by (simp add: vs')
  show "vs_Sum vs' = vs_Sum vs"
    using wf wf' mset_eq_length [OF votes] by (simp add: wf_voteset_def votes_ok_def)
  show "vs_Maj23 vs' = Some s \<longleftrightarrow> vs_Maj23 vs = Some s" if "s \<noteq> []" for s
    using that Maj23_iff [OF wf] Maj23_iff [OF wf'] voters_for_mset [OF votes] by simp
qed

subsection \<open>Invalid transactions\<close>

text \<open>
  The state the tally keeps of one transaction: its counter and how often it is on the list of
  transactions to delete.
\<close>

definition tx_state :: "VoteSet \<Rightarrow> string \<Rightarrow> i32 \<times> nat" where
  "tx_state vs tx = (map_get0 (map_of (vs_invalidTx vs)) tx, count_list (vs_needToDelTxs vs) tx)"

definition tx_bump :: "validatorSet \<Rightarrow> i32 \<times> nat \<Rightarrow> i32 \<times> nat" where
  "tx_bump V st = (let n = fst st + 1 in
     if sint n \<ge> sint (i32_div (Size (Some V) * 1) 3 + 1) then (n - Size (Some V), Suc (snd st))
     else (n, snd st))"

lemma tx_state_single:
  "tx_state (addInvalidTxs V vs [tx]) tx' = (if tx' = tx then tx_bump V (tx_state vs tx) else tx_state vs tx')"
  by (simp add: tx_state_def tx_bump_def Let_def)

lemma addInvalidTxs_Cons: "addInvalidTxs V vs (tx # txs) = addInvalidTxs V (addInvalidTxs V vs [tx]) txs"
  by (simp add: Let_def)

lemma tx_state_addInvalidTxs:
  assumes "distinct txs"
  shows "tx_state (addInvalidTxs V vs txs) tx =
    (if tx \<in> set txs then tx_bump V (tx_state vs tx) else tx_state vs tx)"
  using assms
proof (induction txs arbitrary: vs)
  case (Cons t txs)
  have "tx_state (addInvalidTxs V vs (t # txs)) tx =
      tx_state (addInvalidTxs V (addInvalidTxs V vs [t]) txs) tx"
    by (subst addInvalidTxs_Cons) simp
  also have "\<dots> = (if tx \<in> set txs then tx_bump V (tx_state (addInvalidTxs V vs [t]) tx)
      else tx_state (addInvalidTxs V vs [t]) tx)"
    using Cons by simp
  finally show ?case using Cons.prems by (simp add: tx_state_single del: addInvalidTxs.simps)
qed simp

text \<open>The counter and the list entry of a transaction that \<open>c\<close> validators report.\<close>

definition third_nat :: "nat \<Rightarrow> nat" where
  "third_nat n = n div 3 + 1"

definition tally_of :: "nat \<Rightarrow> nat \<Rightarrow> i32 \<times> nat" where
  "tally_of n c = (if c < third_nat n then (word_of_int (int c), 0) else (word_of_int (int c - int n), 1))"

lemma sint_i32: "- (2 ^ 31) \<le> k \<Longrightarrow> k < 2 ^ 31 \<Longrightarrow> sint (word_of_int k :: i32) = k"
  by (simp add: signed_take_bit_int_eq_self sint_sbintrunc')

lemma sint_third:
  "small_valset V \<Longrightarrow> sint (i32_div (Size (Some V) * 1) 3 + 1) = int (third_nat (num_validators V))"
  unfolding Size_Some small_valset_def third_nat_def
  by (simp only: i32_third(2)) (simp add: sint_i32_of_nat)

lemma tx_bump_tally:
  assumes small: "small_valset V" and c: "c < num_validators V"
  shows "tx_bump V (tally_of (num_validators V) c) = tally_of (num_validators V) (Suc c)"
proof -
  let ?n = "num_validators V"
  have n: "?n < 2 ^ 30" using small by (simp add: small_valset_def)
  have size: "Size (Some V) = word_of_int (int ?n)" by (simp add: Size_Some i32_of_nat_def)
  show ?thesis
  proof (cases "c < third_nat ?n")
    case True
    have "sint (word_of_int (int c) + 1 :: i32) = int (Suc c)"
      using sint_i32 [of "int (Suc c)"] c n by (simp add: add.commute)
    then show ?thesis
      using True sint_third [OF small]
      by (auto simp: tx_bump_def tally_of_def Let_def size algebra_simps)
  next
    case False
    have "sint (word_of_int (int c - int ?n) + 1 :: i32) = int c - int ?n + 1"
      using sint_i32 [of "int c - int ?n + 1"] c n by (simp add: algebra_simps)
    then have "\<not> sint (word_of_int (int c - int ?n) + 1 :: i32) \<ge> int (third_nat ?n)"
      using c by (simp add: third_nat_def)
    then show ?thesis
      using False sint_third [OF small]
      by (auto simp: tx_bump_def tally_of_def Let_def algebra_simps)
  qed
qed

definition reports :: "VoteSet \<Rightarrow> string \<Rightarrow> nat" where
  "reports vs tx = count_if (\<lambda>(k, v). tx \<in> set (v_InvalidTxs v)) (vs_Votes vs)"

definition tally_ok :: "validatorSet \<Rightarrow> VoteSet \<Rightarrow> bool" where
  "tally_ok V vs \<longleftrightarrow> (\<forall>tx. tx_state vs tx = tally_of (num_validators V) (reports vs tx))"

lemma tally_ok_NewVoteSet [simp]: "tally_ok V (NewVoteSet t h r)"
  by (simp add: tally_ok_def tx_state_def tally_of_def reports_def NewVoteSet_def third_nat_def map_get0_def)

lemma AddVote_tally:
  assumes wf: "wf_voteset V vs" and small: "small_valset V" and tally: "tally_ok V vs"
    and ptype: "vs_Type vs = VOTE_PREVOTE" and dist: "distinct (v_InvalidTxs vote)"
  shows "tally_ok V (fst (AddVote V vs (Some vote) True))"
proof (cases "accepts V vs vote")
  case True
  have vtype: "v_Type vote = VOTE_PREVOTE" using True ptype by (simp add: accepts_def checkVoteMatched_iff)
  have new: "fst (AddVote V vs (Some vote) True) = addInvalidTxs V (add_core V vs vote) (v_InvalidTxs vote)"
    using AddVote_accept [OF wf small True] vtype by simp
  have core: "tx_state (add_core V vs vote) tx = tally_of (num_validators V) (reports vs tx)" for tx
    using tally by (simp add: tally_ok_def tx_state_def add_core_def Let_def)
  have "reports vs tx < num_validators V" for tx
  proof -
    have "length (vs_Votes vs) < num_validators V"
      using wf True by (intro votes_ok_new_length [of V vs "v_Voter vote"]) (simp_all add: accepts_def wf_voteset_def)
    then show ?thesis unfolding reports_def by (rule le_less_trans [OF count_if_le])
  qed
  then have "tx_state (addInvalidTxs V (add_core V vs vote) (v_InvalidTxs vote)) tx =
      tally_of (num_validators V) (if tx \<in> set (v_InvalidTxs vote) then Suc (reports vs tx) else reports vs tx)" for tx
    by (simp add: tx_state_addInvalidTxs dist core tx_bump_tally small)
  then show ?thesis
    unfolding new tally_ok_def by (simp add: reports_def)
next
  case False
  then show ?thesis using AddVote_reject [OF False, of True] tally by auto
qed

lemma tally_needToDelTxs:
  assumes "tally_ok V vs"
  shows "distinct (vs_needToDelTxs vs)"
    and "tx \<in> set (vs_needToDelTxs vs) \<longleftrightarrow> num_validators V div 3 < reports vs tx"
proof -
  have count: "count_list (vs_needToDelTxs vs) t =
      (if reports vs t < third_nat (num_validators V) then 0 else 1)" for t
    using assms by (auto simp: tally_ok_def tx_state_def tally_of_def dest!: spec [of _ t] split: if_splits)
  then show "distinct (vs_needToDelTxs vs)"
    by (metis (full_types) count_list_0_iff count_mset distinct_count_atmost_1 zero_neq_one)
  show "tx \<in> set (vs_needToDelTxs vs) \<longleftrightarrow> num_validators V div 3 < reports vs tx"
    using count [of tx] count_list_0_iff [of "vs_needToDelTxs vs" tx] by (simp add: third_nat_def split: if_splits)
qed

end
