(* ===== verification/Height_Votes.thy ===== *)
theory Height_Votes
  imports Vote_Tally
begin

section \<open>What the votes of a height keep\<close>

text \<open>
  \<open>heightRoundVoteSet\<close> keeps one pair of vote sets per round. The invariant says that every
  round's sets are well formed and carry the height, round and type they are filed under;
  \<open>hvs_addVote\<close> keeps it. It panics on a nil vote and on a vote whose type is not one of the
  two named ones, and on nothing else. As a store of votes under (round, type, voter), it
  never replaces a vote.
\<close>

definition round_ok :: "validatorSet \<Rightarrow> u64 \<Rightarrow> i32 \<Rightarrow> roundVoteSet \<Rightarrow> bool" where
  "round_ok V h r rvs \<longleftrightarrow> rvs_Height rvs = h \<and> rvs_Round rvs = r \<and>
     (\<exists>pv pc. rvs_Prevotes rvs = Some pv \<and> rvs_Precommits rvs = Some pc \<and>
       wf_voteset V pv \<and> vs_Type pv = VOTE_PREVOTE \<and> vs_Height pv = h \<and> vs_Round pv = r \<and>
       wf_voteset V pc \<and> vs_Type pc = VOTE_PRECOMMIT \<and> vs_Height pc = h \<and> vs_Round pc = r)"

definition wf_hvs :: "validatorSet \<Rightarrow> heightRoundVoteSet \<Rightarrow> bool" where
  "wf_hvs V hvs \<longleftrightarrow>
     (\<forall>r rvs. map_of (hvs_RoundVoteSets hvs) r = Some rvs \<longrightarrow> round_ok V (hvs_Height hvs) r rvs)"

definition named_type :: "VoteType \<Rightarrow> bool" where
  "named_type t \<longleftrightarrow> t = VOTE_PREVOTE \<or> t = VOTE_PRECOMMIT"

definition hvs_set :: "heightRoundVoteSet \<Rightarrow> i32 \<Rightarrow> VoteType \<Rightarrow> VoteSet option" where
  "hvs_set hvs r t = (case getVoteSet hvs r t of Inl _ \<Rightarrow> None | Inr m \<Rightarrow> m)"

lemma named_type_simps [simp]:
  "named_type VOTE_PREVOTE" "named_type VOTE_PRECOMMIT" "\<not> named_type (VOTE_OTHER n)"
  by (simp_all add: named_type_def)

lemma NewVoteSet_fields [simp]:
  "vs_Type (NewVoteSet t h r) = t" "vs_Height (NewVoteSet t h r) = h" "vs_Round (NewVoteSet t h r) = r"
  "vs_Votes (NewVoteSet t h r) = []" "vs_Maj23 (NewVoteSet t h r) = None"
  by (simp_all add: NewVoteSet_def)

lemma wf_hvs_round:
  "wf_hvs V hvs \<Longrightarrow> map_of (hvs_RoundVoteSets hvs) r = Some rvs \<Longrightarrow> round_ok V (hvs_Height hvs) r rvs"
  by (simp add: wf_hvs_def)

lemma wf_newHeightRoundVoteSet [simp]: "wf_hvs V (newHeightRoundVoteSet h r)"
  by (simp add: wf_hvs_def newHeightRoundVoteSet_def)

lemma hvs_set_prevotes: "hvs_set hvs r VOTE_PREVOTE = prevotes hvs r"
  and hvs_set_precommits: "hvs_set hvs r VOTE_PRECOMMIT = precommits hvs r"
  by (simp_all add: hvs_set_def prevotes_def precommits_def)

lemma getVoteSet_named: "named_type t \<Longrightarrow> getVoteSet hvs r t = Inr (hvs_set hvs r t)"
  by (auto simp: named_type_def getVoteSet_def hvs_set_def split: option.split)

lemma hvs_set_other [simp]: "hvs_set hvs r (VOTE_OTHER n) = None"
  by (simp add: hvs_set_def getVoteSet_def split: option.split)

lemma hvs_set_ok:
  assumes "wf_hvs V hvs" and "hvs_set hvs r t = Some vs"
  shows "wf_voteset V vs" and "vs_Type vs = t" and "vs_Height vs = hvs_Height hvs" and "vs_Round vs = r"
  using assms
  by (auto simp: round_ok_def hvs_set_def getVoteSet_def dest!: wf_hvs_round
      split: option.splits VoteType.splits sum.splits)

lemma hvs_set_None_iff:
  assumes "wf_hvs V hvs" and "named_type t"
  shows "hvs_set hvs r t = None \<longleftrightarrow> map_of (hvs_RoundVoteSets hvs) r = None"
  using assms
  by (cases "map_of (hvs_RoundVoteSets hvs) r")
    (auto simp: round_ok_def hvs_set_def getVoteSet_def named_type_def dest!: wf_hvs_round)

subsection \<open>Adding a round and writing a set back\<close>

definition fresh_set :: "heightRoundVoteSet \<Rightarrow> i32 \<Rightarrow> VoteType \<Rightarrow> VoteSet option" where
  "fresh_set hvs r t = (if named_type t then Some (NewVoteSet t (hvs_Height hvs) r) else None)"

lemma addRound_new:
  assumes "map_of (hvs_RoundVoteSets hvs) r = None" and "wf_hvs V hvs"
  obtains hvs' where "addRound hvs r = Inr hvs'" and "wf_hvs V hvs'" and "hvs_Height hvs' = hvs_Height hvs"
    and "\<And>r' t. hvs_set hvs' r' t = (if r' = r then fresh_set hvs r t else hvs_set hvs r' t)"
proof -
  obtain hvs' where add: "addRound hvs r = Inr hvs'" using assms by (simp add: addRound_def)
  have rounds: "map_of (hvs_RoundVoteSets hvs') r' = (if r' = r
      then Some (newRoundVoteSet (hvs_Height hvs) r (fresh_set hvs r VOTE_PREVOTE) (fresh_set hvs r VOTE_PRECOMMIT))
      else map_of (hvs_RoundVoteSets hvs) r')" and height: "hvs_Height hvs' = hvs_Height hvs" for r'
    using add assms by (auto simp: addRound_def fresh_set_def)
  have "round_ok V (hvs_Height hvs) r
      (newRoundVoteSet (hvs_Height hvs) r (fresh_set hvs r VOTE_PREVOTE) (fresh_set hvs r VOTE_PRECOMMIT))"
    by (simp add: round_ok_def newRoundVoteSet_def fresh_set_def)
  then have "wf_hvs V hvs'"
    using assms by (simp add: wf_hvs_def rounds height)
  moreover have "hvs_set hvs' r' t = (if r' = r then fresh_set hvs r t else hvs_set hvs r' t)" for r' t
    by (cases t) (simp_all add: hvs_set_def getVoteSet_def rounds newRoundVoteSet_def fresh_set_def)
  ultimately show ?thesis using that add height by blast
qed

lemma putVoteSet_sets:
  assumes "wf_hvs V hvs" and "named_type t" and "hvs_set hvs r t = Some old"
  shows "hvs_set (putVoteSet hvs r t vs) r' t' = (if r' = r \<and> t' = t then Some vs else hvs_set hvs r' t')"
    and "hvs_Height (putVoteSet hvs r t vs) = hvs_Height hvs"
    and "map_of (hvs_RoundVoteSets (putVoteSet hvs r t vs)) r' = None \<longleftrightarrow> map_of (hvs_RoundVoteSets hvs) r' = None"
proof -
  obtain rvs where rvs: "map_of (hvs_RoundVoteSets hvs) r = Some rvs"
    using assms hvs_set_None_iff [OF assms(1,2), of r] by auto
  then show "hvs_set (putVoteSet hvs r t vs) r' t' = (if r' = r \<and> t' = t then Some vs else hvs_set hvs r' t')"
    using assms(2)
    by (cases t'; auto simp: named_type_def hvs_set_def getVoteSet_def putVoteSet_def split: option.splits)
  show "hvs_Height (putVoteSet hvs r t vs) = hvs_Height hvs"
    by (simp add: putVoteSet_def split: option.split)
  show "map_of (hvs_RoundVoteSets (putVoteSet hvs r t vs)) r' = None \<longleftrightarrow> map_of (hvs_RoundVoteSets hvs) r' = None"
    using rvs by (simp add: putVoteSet_def)
qed

lemma wf_putVoteSet:
  assumes wf: "wf_hvs V hvs" and "named_type t" and "hvs_set hvs r t = Some old"
    and "wf_voteset V vs" "vs_Type vs = t" "vs_Height vs = hvs_Height hvs" "vs_Round vs = r"
  shows "wf_hvs V (putVoteSet hvs r t vs)"
proof -
  obtain rvs where rvs: "map_of (hvs_RoundVoteSets hvs) r = Some rvs"
    using assms hvs_set_None_iff [OF assms(1,2), of r] by auto
  then have "round_ok V (hvs_Height hvs) r rvs" using wf by (simp add: wf_hvs_def)
  then have "round_ok V (hvs_Height hvs) r (case t of VOTE_PREVOTE \<Rightarrow> rvs\<lparr>rvs_Prevotes := Some vs\<rparr>
      | VOTE_PRECOMMIT \<Rightarrow> rvs\<lparr>rvs_Precommits := Some vs\<rparr> | VOTE_OTHER n \<Rightarrow> rvs)"
    using assms by (auto simp: round_ok_def named_type_def)
  then show ?thesis
    using wf rvs by (simp add: wf_hvs_def putVoteSet_def)
qed

subsection \<open>Adding a vote\<close>

lemma AddVote_fields:
  assumes "wf_voteset V vs" and "small_valset V"
  shows "vs_Type (fst (AddVote V vs pv c)) = vs_Type vs"
    and "vs_Height (fst (AddVote V vs pv c)) = vs_Height vs"
    and "vs_Round (fst (AddVote V vs pv c)) = vs_Round vs"
proof -
  have "let vs' = fst (AddVote V vs pv c) in
      vs_Type vs' = vs_Type vs \<and> vs_Height vs' = vs_Height vs \<and> vs_Round vs' = vs_Round vs"
  proof (cases pv)
    case (Some vote)
    show ?thesis
    proof (cases "accepts V vs vote")
      case True
      then show ?thesis using assms Some by (simp add: AddVote_accept add_core_def Let_def)
    next
      case False
      then show ?thesis using AddVote_reject [OF False, of c] Some by auto
    qed
  qed (simp add: AddVote_nil)
  then show "vs_Type (fst (AddVote V vs pv c)) = vs_Type vs"
    "vs_Height (fst (AddVote V vs pv c)) = vs_Height vs" "vs_Round (fst (AddVote V vs pv c)) = vs_Round vs"
    by (simp_all add: Let_def)
qed

text \<open>The vote set a vote meets: the one of its round and type, or a new one.\<close>

definition target_set :: "heightRoundVoteSet \<Rightarrow> Vote \<Rightarrow> VoteSet" where
  "target_set hvs vote =
     (case hvs_set hvs (v_Round vote) (v_Type vote) of
        Some vs \<Rightarrow> vs | None \<Rightarrow> NewVoteSet (v_Type vote) (hvs_Height hvs) (v_Round vote))"

lemma target_set_ok:
  assumes "wf_hvs V hvs"
  shows "wf_voteset V (target_set hvs vote)" and "vs_Type (target_set hvs vote) = v_Type vote"
    and "vs_Height (target_set hvs vote) = hvs_Height hvs" and "vs_Round (target_set hvs vote) = v_Round vote"
  using hvs_set_ok [OF assms] by (auto simp: target_set_def split: option.split)

definition sets_after :: "validatorSet \<Rightarrow> heightRoundVoteSet \<Rightarrow> Vote \<Rightarrow> i32 \<Rightarrow> VoteType \<Rightarrow> VoteSet option" where
  "sets_after V hvs vote r t =
     (if r = v_Round vote then
        if t = v_Type vote then Some (fst (AddVote V (target_set hvs vote) (Some vote) True))
        else if hvs_set hvs r (v_Type vote) = None then fresh_set hvs r t else hvs_set hvs r t
      else hvs_set hvs r t)"

lemma addRound_if_missing:
  assumes wf: "wf_hvs V hvs" and named: "named_type t"
  obtains hvs1 where "(if hvs_set hvs r t = None then addRound hvs r else Inr hvs) = Inr hvs1"
    and "wf_hvs V hvs1" and "hvs_Height hvs1 = hvs_Height hvs"
    and "hvs_set hvs1 = (\<lambda>r' t'. if r' = r \<and> hvs_set hvs r t = None then fresh_set hvs r t' else hvs_set hvs r' t')"
proof (cases "hvs_set hvs r t = None")
  case True
  then have "map_of (hvs_RoundVoteSets hvs) r = None" using hvs_set_None_iff [OF wf named] by simp
  then obtain hvs1 where "addRound hvs r = Inr hvs1" "wf_hvs V hvs1" "hvs_Height hvs1 = hvs_Height hvs"
    and "\<And>r' t'. hvs_set hvs1 r' t' = (if r' = r then fresh_set hvs r t' else hvs_set hvs r' t')"
    using addRound_new [OF _ wf] by blast
  then show ?thesis using True by (intro that [of hvs1]) auto
next
  case False
  then show ?thesis using wf by (intro that [of hvs]) auto
qed

lemma hvs_addVote_named:
  assumes wf: "wf_hvs V hvs" and small: "small_valset V" and named: "named_type (v_Type vote)"
  obtains hvs' where
    "hvs_addVote V hvs (Some vote) = Inr (hvs', snd (AddVote V (target_set hvs vote) (Some vote) True))"
    and "wf_hvs V hvs'" and "hvs_Height hvs' = hvs_Height hvs" and "hvs_set hvs' = sets_after V hvs vote"
proof -
  let ?r = "v_Round vote" and ?t = "v_Type vote"
  let ?new = "AddVote V (target_set hvs vote) (Some vote) True"
  obtain hvs1 where step1: "(if hvs_set hvs ?r ?t = None then addRound hvs ?r else Inr hvs) = Inr hvs1"
    and wf1: "wf_hvs V hvs1" and h1: "hvs_Height hvs1 = hvs_Height hvs"
    and sets1: "hvs_set hvs1 = (\<lambda>r' t'. if r' = ?r \<and> hvs_set hvs ?r ?t = None
        then fresh_set hvs ?r t' else hvs_set hvs r' t')"
    by (rule addRound_if_missing [OF wf named])
  have get1: "hvs_set hvs1 ?r ?t = Some (target_set hvs vote)"
    using named by (auto simp: sets1 target_set_def fresh_set_def split: option.split)
  let ?hvs' = "putVoteSet hvs1 ?r ?t (fst ?new)"
  have eq: "hvs_addVote V hvs (Some vote) = Inr (?hvs', snd ?new)"
    using step1 by (simp add: hvs_addVote_def getVoteSet_named [OF named] get1 case_prod_unfold)
  have wf': "wf_hvs V ?hvs'"
    using target_set_ok [OF wf, of vote] AddVote_fields [OF _ small] AddVote_wf [OF _ small] h1
    by (intro wf_putVoteSet [OF wf1 named get1]) simp_all
  have "hvs_set ?hvs' r t = sets_after V hvs vote r t" for r t
    by (simp add: putVoteSet_sets(1) [OF wf1 named get1] sets_after_def) (simp add: sets1)
  then have "hvs_set ?hvs' = sets_after V hvs vote" by blast
  with eq wf' show ?thesis
    using that putVoteSet_sets(2) [OF wf1 named get1] h1 by simp
qed

text \<open>A majority stays.\<close>

definition has_majority :: "heightRoundVoteSet \<Rightarrow> i32 \<Rightarrow> VoteType \<Rightarrow> string \<Rightarrow> bool" where
  "has_majority hvs r t s \<longleftrightarrow> (\<exists>vs. hvs_set hvs r t = Some vs \<and> vs_Maj23 vs = Some s)"

lemma AddVote_keeps_majority:
  assumes "wf_voteset V vs" and "small_valset V" and "vs_Maj23 vs = Some s"
  shows "vs_Maj23 (fst (AddVote V vs pv c)) = Some s"
proof (cases pv)
  case (Some vote)
  show ?thesis
  proof (cases "accepts V vs vote")
    case True
    then show ?thesis using assms Some by (simp add: AddVote_accept add_core_def Let_def)
  next
    case False
    then show ?thesis using AddVote_reject [OF False, of c] assms(3) Some by auto
  qed
qed (simp add: AddVote_nil assms(3))

lemma sets_after_majority:
  assumes "wf_hvs V hvs" and "small_valset V" and "named_type (v_Type vote)"
    and "hvs_set hvs' = sets_after V hvs vote" and "has_majority hvs r t s"
  shows "has_majority hvs' r t s"
proof -
  from assms(5) obtain vs where vs: "hvs_set hvs r t = Some vs" "vs_Maj23 vs = Some s"
    by (auto simp: has_majority_def)
  show ?thesis
  proof (cases "r = v_Round vote \<and> t = v_Type vote")
    case True
    then show ?thesis
      using vs AddVote_keeps_majority [OF hvs_set_ok(1) [OF assms(1) vs(1)] assms(2) vs(2)]
      by (simp add: has_majority_def assms(4) sets_after_def target_set_def)
  next
    case False
    moreover have "hvs_set hvs r (v_Type vote) \<noteq> None"
      using vs(1) hvs_set_None_iff [OF assms(1)] assms(3)
      by (metis hvs_set_other named_type_def option.distinct(1) VoteType.exhaust)
    ultimately show ?thesis using vs by (auto simp: has_majority_def assms(4) sets_after_def)
  qed
qed

lemma hvs_addVote_other:
  assumes "v_Type vote = VOTE_OTHER n"
  shows "\<exists>e. hvs_addVote V hvs (Some vote) = Inl e"
  using assms
  by (auto simp: hvs_addVote_def getVoteSet_def addRound_def newRoundVoteSet_def Let_def split: option.split)

lemma hvs_addVote_nil: "hvs_addVote V hvs None = Inl NilDeref"
  by (simp add: hvs_addVote_def)

definition hvs_add :: "validatorSet \<Rightarrow> heightRoundVoteSet \<Rightarrow> Vote option \<Rightarrow> heightRoundVoteSet" where
  "hvs_add V hvs pv = (case hvs_addVote V hvs pv of Inl _ \<Rightarrow> hvs | Inr (hvs', _) \<Rightarrow> hvs')"

definition hvs_look :: "heightRoundVoteSet \<Rightarrow> i32 \<times> VoteType \<times> string \<Rightarrow> Vote option" where
  "hvs_look hvs = (\<lambda>(r, t, k). case hvs_set hvs r t of None \<Rightarrow> None | Some vs \<Rightarrow> map_of (vs_Votes vs) k)"

lemma hvs_look_addVote:
  assumes wf: "wf_hvs V hvs" and small: "small_valset V" and named: "named_type (v_Type vote)"
  shows "hvs_look (hvs_add V hvs (Some vote)) (r, t, k) =
    (if r = v_Round vote \<and> t = v_Type vote \<and> k = v_Voter vote \<and> accepts V (target_set hvs vote) vote
     then Some vote else hvs_look hvs (r, t, k))"
proof -
  obtain hvs' where add: "hvs_addVote V hvs (Some vote) =
      Inr (hvs', snd (AddVote V (target_set hvs vote) (Some vote) True))"
    and sets: "hvs_set hvs' = sets_after V hvs vote"
    by (rule hvs_addVote_named [OF assms])
  have missing: "hvs_set hvs r t = None" if "hvs_set hvs r (v_Type vote) = None"
    using that hvs_set_None_iff [OF wf named, of r] by (auto simp: hvs_set_def getVoteSet_def)
  have empty: "map_of (vs_Votes (NewVoteSet t h r)) k = None" for t h r by (simp add: NewVoteSet_def)
  have tgt: "map_of (vs_Votes (target_set hvs vote)) k = hvs_look hvs (v_Round vote, v_Type vote, k)" for k
    by (simp add: target_set_def hvs_look_def empty split: option.split)
  have look: "map_of (vs_Votes (fst (AddVote V (target_set hvs vote) (Some vote) True))) k =
      (if accepts V (target_set hvs vote) vote \<and> k = v_Voter vote then Some vote
       else hvs_look hvs (v_Round vote, v_Type vote, k))" for k
    by (simp add: look_AddVote [OF target_set_ok(1) [OF wf] small] tgt)
  show ?thesis
    using missing by (auto simp: hvs_add_def add hvs_look_def sets sets_after_def look fresh_set_def empty)
qed

lemma hvs_add_unnamed: "\<not> named_type (v_Type vote) \<Longrightarrow> hvs_add V hvs (Some vote) = hvs"
  using hvs_addVote_other [of vote _ V hvs] by (cases "v_Type vote") (auto simp: hvs_add_def)

lemma wf_hvs_add:
  assumes "wf_hvs V hvs" and "small_valset V"
  shows "wf_hvs V (hvs_add V hvs pv)"
proof (cases pv)
  case (Some vote)
  show ?thesis
  proof (cases "named_type (v_Type vote)")
    case True
    show ?thesis
      by (rule hvs_addVote_named [OF assms True]) (simp add: hvs_add_def Some)
  qed (use assms Some in \<open>simp add: hvs_add_unnamed\<close>)
qed (use assms in \<open>simp add: hvs_add_def hvs_addVote_nil\<close>)

interpretation height_store: vote_store
  "hvs_add V" hvs_look "\<lambda>v. (v_Round v, v_Type v, v_Voter v)" "\<lambda>hvs. wf_hvs V hvs \<and> small_valset V" for V
proof
  fix hvs pv and k :: "i32 \<times> VoteType \<times> string" and w :: Vote
  assume inv: "wf_hvs V hvs \<and> small_valset V"
  show "wf_hvs V (hvs_add V hvs pv) \<and> small_valset V" using inv wf_hvs_add by blast
  obtain r t x where k: "k = (r, t, x)" by (cases k)
  have step: "hvs_look (hvs_add V hvs pv) k = hvs_look hvs k \<or>
      (hvs_look hvs k = None \<and> (\<exists>v. pv = Some v \<and> hvs_look (hvs_add V hvs pv) k = Some v \<and>
        k = (v_Round v, v_Type v, v_Voter v)))"
  proof (cases pv)
    case None
    then show ?thesis by (simp add: hvs_add_def hvs_addVote_nil)
  next
    case (Some v)
    then show ?thesis
    proof (cases "named_type (v_Type v)")
      case True
      have "map_of (vs_Votes (target_set hvs v)) (v_Voter v) = hvs_look hvs (v_Round v, v_Type v, v_Voter v)"
        by (simp add: target_set_def hvs_look_def NewVoteSet_def split: option.split)
      then show ?thesis
        using hvs_look_addVote [OF _ _ True] inv Some by (auto simp: k accepts_def)
    qed (simp add: hvs_add_unnamed)
  qed
  show "hvs_look (hvs_add V hvs pv) k = Some w" if "hvs_look hvs k = Some w" using step that by auto
  show "pv = Some w \<and> (v_Round w, v_Type w, v_Voter w) = k"
    if "hvs_look hvs k = None" "hvs_look (hvs_add V hvs pv) k = Some w" using step that by auto
qed

end
