(* ===== verification/Qc_Verify.thy ===== *)
theory Qc_Verify
  imports Chain_Config Height_Votes
begin

section \<open>Quorum certificates (consensus-tbft-master/utils.go)\<close>

text \<open>
  The checks of a certificate: of a block (\<open>VerifyBlockSignatures\<close>), of a round
  (\<open>VerifyRoundQc\<close>) and of the prevotes of a re-proposed block (\<open>VerifyQcFromVotes\<close>).

  The access-control service and the protobuf encoding are outside the modelled code: the
  records \<open>accessControl\<close> and \<open>codec\<close> hold the operations the code calls, and the
  definitions take them as arguments.

  \<open>verifyVotes\<close> starts one goroutine per vote. A goroutine's deferred function calls
  \<^verbatim>\<open>wg.Done()\<close> before it stores its error, so that the waiting function may return
  before the store. The argument \<open>late\<close> says for which votes the store comes too late; the
  sound behaviour is \<^term>\<open>\<lambda>_. False\<close>.
\<close>

record codec =
  marshalVote :: "Vote \<Rightarrow> string"
  marshalProposal :: "Proposal \<Rightarrow> string"
  marshalVoteSet :: "ProtoVoteSet option \<Rightarrow> string"
  unmarshalVoteSet :: "string \<Rightarrow> ProtoVoteSet option"

datatype qcError =
    ErrInvalidBlock
  | ErrNoExtraData
  | ErrUnmarshal
  | ErrChainConfig
  | ErrValidatorList
  | ErrWithoutMajority
  | ErrUnmatchQC
  | ErrInvalidVotes
  | ErrCreatePrincipal
  | ErrVerifyPrincipal
  | ErrVerifyResult
  | ErrAddVote voteError

definition TBFTAddtionalDataKey :: string where
  "TBFTAddtionalDataKey = ''TBFTAddtionalDataKey''"

text \<open>The body of one goroutine.\<close>

definition verify_one :: "accessControl \<Rightarrow> codec \<Rightarrow> u32 \<Rightarrow> Vote \<Rightarrow> qcError option" where
  "verify_one ac cd blockVersion v =
     (let message = marshalVote cd (v\<lparr>v_Endorsement := None\<rparr>) in
      case ac_CreatePrincipal ac (v_Endorsement v) message of
        None \<Rightarrow> Some ErrCreatePrincipal
      | Some pr \<Rightarrow>
        (case ac_VerifyMsgPrincipal ac pr blockVersion of
           None \<Rightarrow> Some ErrVerifyPrincipal
         | Some result \<Rightarrow> if \<not> result then Some ErrVerifyResult else None))"

fun verifyVotes_loop ::
    "accessControl \<Rightarrow> codec \<Rightarrow> u32 \<Rightarrow> (Vote \<Rightarrow> bool) \<Rightarrow> qcError option \<Rightarrow> (string \<times> Vote) list \<Rightarrow> qcError option" where
  "verifyVotes_loop ac cd blockVersion late retErr [] = retErr"
| "verifyVotes_loop ac cd blockVersion late retErr ((k, v) # votes) =
     (case verify_one ac cd blockVersion v of
        None \<Rightarrow> verifyVotes_loop ac cd blockVersion late retErr votes
      | Some err \<Rightarrow>
        verifyVotes_loop ac cd blockVersion late (if late v then retErr else Some err) votes)"

definition verifyVotes ::
    "accessControl \<Rightarrow> codec \<Rightarrow> (Vote \<Rightarrow> bool) \<Rightarrow> (string \<times> Vote) list option \<Rightarrow> u32 \<Rightarrow> qcError option" where
  "verifyVotes ac cd late pvotes blockVersion =
     (case pvotes of None \<Rightarrow> Some ErrInvalidVotes
      | Some votes \<Rightarrow> verifyVotes_loop ac cd blockVersion late None votes)"

definition DefaultBlocksPerProposer :: u64 where
  "DefaultBlocksPerProposer = 1"

text \<open>
  \<^verbatim>\<open>voteSet.VotesByBlock[hashStr].Votes\<close>: a nil dereference when the key is missing.
\<close>

definition votesOfHash :: "VoteSet \<Rightarrow> gobytes \<Rightarrow> (string \<times> Vote) list go" where
  "votesOfHash vs hash =
     go_bind (deref (map_of (vs_VotesByBlock vs) (hash_key hash))) (\<lambda>bv. Inr (bv_Votes bv))"

definition VerifyBlockSignatures ::
    "(u64 \<Rightarrow> ChainConfig option) \<Rightarrow> accessControl \<Rightarrow> codec \<Rightarrow> (Vote \<Rightarrow> bool)
      \<Rightarrow> (ChainConfig \<Rightarrow> string list option) \<Rightarrow> Block option \<Rightarrow> qcError option go" where
  "VerifyBlockSignatures getConfig ac cd late validatorListFunc pblock =
     (case pblock of None \<Rightarrow> Inr (Some ErrInvalidBlock)
      | Some block \<Rightarrow>
        (case (b_Header block, b_AdditionalData block) of
           (Some header, Some extra) \<Rightarrow>
             (case extra TBFTAddtionalDataKey of None \<Rightarrow> Inr (Some ErrNoExtraData)
              | Some blockVoteSet \<Rightarrow>
                (case unmarshalVoteSet cd (bytes_content blockVoteSet) of None \<Rightarrow> Inr (Some ErrUnmarshal)
                 | Some voteSetProto \<Rightarrow>
                   (case getConfig (BlockHeight header) of None \<Rightarrow> Inr (Some ErrChainConfig)
                    | Some chainConfig \<Rightarrow>
                      (case validatorListFunc chainConfig of None \<Rightarrow> Inr (Some ErrValidatorList)
                       | Some validators \<Rightarrow>
                         (let V = newValidatorSet validators DefaultBlocksPerProposer;
                              voteSet = NewVoteSetFromProto voteSetProto V;
                              (hash, ok) = twoThirdsMajority (Some voteSet)
                          in if \<not> ok then Inr (Some ErrWithoutMajority)
                             else if \<not> bytes_Equal hash (BlockHash header) then Inr (Some ErrUnmatchQC)
                             else go_bind (votesOfHash voteSet hash) (\<lambda>votes.
                               Inr (verifyVotes ac cd late (Some votes) (BlockVersion header))))))))
         | _ \<Rightarrow> Inr (Some ErrInvalidBlock)))"

record RoundQC =
  qc_Id :: string
  qc_Height :: u64
  qc_Round :: i32
  qc_Qc :: "ProtoVoteSet option"

definition VerifyRoundQc ::
    "accessControl \<Rightarrow> codec \<Rightarrow> (Vote \<Rightarrow> bool) \<Rightarrow> validatorSet \<Rightarrow> RoundQC \<Rightarrow> u32 \<Rightarrow> qcError option go" where
  "VerifyRoundQc ac cd late V roundQC blockVersion =
     go_bind (deref (qc_Qc roundQC)) (\<lambda>qc.
       (let voteSet = NewVoteSetFromProto qc V;
            (hash, ok) = twoThirdsMajority (Some voteSet)
        in if \<not> ok \<or> pvs_Type qc \<noteq> vs_Type voteSet then Inr (Some ErrWithoutMajority)
           else go_bind (votesOfHash voteSet hash) (\<lambda>votes.
             Inr (verifyVotes ac cd late (Some votes) blockVersion))))"

fun addQcVotes :: "validatorSet \<Rightarrow> VoteSet \<Rightarrow> Vote list \<Rightarrow> voteError + VoteSet" where
  "addQcVotes V vs [] = Inr vs"
| "addQcVotes V vs (v # votes) =
     (case AddVote V vs (Some v) False of (vs', added, err) \<Rightarrow>
        (case err of Some e \<Rightarrow> Inl e | None \<Rightarrow> addQcVotes V vs' votes))"

definition VerifyQcFromVotes ::
    "accessControl \<Rightarrow> codec \<Rightarrow> (Vote \<Rightarrow> bool) \<Rightarrow> Vote list option \<Rightarrow> validatorSet \<Rightarrow> VoteType \<Rightarrow> u32
      \<Rightarrow> (qcError + VoteSet) go" where
  "VerifyQcFromVotes ac cd late pvs V voteType blockVersion =
     (case pvs of None \<Rightarrow> Inr (Inl ErrInvalidVotes)
      | Some [] \<Rightarrow> Inr (Inl ErrInvalidVotes)
      | Some (v0 # vs) \<Rightarrow>
        if voteType \<noteq> v_Type v0 then Inr (Inl ErrInvalidVotes)
        else
          (case addQcVotes V (NewVoteSet (v_Type v0) (v_Height v0) (v_Round v0)) (v0 # vs) of
             Inl e \<Rightarrow> Inr (Inl (ErrAddVote e))
           | Inr voteSet \<Rightarrow>
             (let (hash, ok) = twoThirdsMajority (Some voteSet)
              in if \<not> ok then Inr (Inl ErrWithoutMajority)
                 else go_bind (votesOfHash voteSet hash) (\<lambda>votes.
                   (case verifyVotes ac cd late (Some votes) blockVersion of
                      Some err \<Rightarrow> Inr (Inl err)
                    | None \<Rightarrow> Inr (Inr voteSet))))))"

subsection \<open>What an accepted certificate shows\<close>

lemma verifyVotes_loop_None:
  "verifyVotes_loop ac cd bv late None votes = None \<longleftrightarrow>
    (\<forall>(k, v) \<in> set votes. verify_one ac cd bv v = None \<or> late v)"
proof -
  have "\<exists>e'. verifyVotes_loop ac cd bv late (Some e) vs = Some e'" for e vs
    by (induction vs arbitrary: e) (auto split: option.split)
  then have some: "verifyVotes_loop ac cd bv late (Some e) vs \<noteq> None" for e vs
    by (metis option.distinct(1))
  show ?thesis
    by (induction votes) (auto simp: some split: option.splits if_splits)
qed

lemma verifyVotes_None:
  "verifyVotes ac cd late (Some votes) bv = None \<longleftrightarrow>
    (\<forall>(k, v) \<in> set votes. verify_one ac cd bv v = None \<or> late v)"
  by (simp add: verifyVotes_def verifyVotes_loop_None)

lemma votesOfHash_majority:
  assumes wf: "wf_voteset V vs" and maj: "vs_Maj23 vs = Some s"
  shows "votesOfHash vs (Some s) = Inr (votes_for vs s)" and "val_quorum.is_quorum V (voters_for vs s)"
proof -
  have q: "quorum_nat (num_validators V) \<le> length (votes_for vs s)"
    using wf maj maj_ok_quorum unfolding wf_voteset_def by blast
  then have "votes_for vs s \<noteq> []" by (auto simp: quorum_nat_def)
  then show "votesOfHash vs (Some s) = Inr (votes_for vs s)"
    using wf by (simp add: votesOfHash_def hash_key_def wf_voteset_def blocks_ok_def block_votes_def)
  show "val_quorum.is_quorum V (voters_for vs s)" using Maj23_quorum [OF wf maj] .
qed

definition certified :: "accessControl \<Rightarrow> codec \<Rightarrow> u32 \<Rightarrow> validatorSet \<Rightarrow> VoteSet \<Rightarrow> string \<Rightarrow> bool" where
  "certified ac cd bv V vs s \<longleftrightarrow>
     wf_voteset V vs \<and> val_quorum.is_quorum V (voters_for vs s) \<and>
     (\<forall>(k, v) \<in> set (votes_for vs s). verify_one ac cd bv v = None)"

lemma twoThirdsMajority_simps:
  "twoThirdsMajority (Some vs) = (vs_Maj23 vs, vs_Maj23 vs \<noteq> None)"
  by (simp add: twoThirdsMajority_def)

lemma small_newValidatorSet: "length vs < 2 ^ 30 \<Longrightarrow> small_valset (newValidatorSet vs b)"
  by (simp add: small_valset_def newValidatorSet_def)

text \<open>
  What an accepted block carries. The clause \<open>late v\<close> is the race of \<^verbatim>\<open>verifyVotes\<close>: an error that
  arrives after the result has been read is lost.
\<close>

lemma VerifyBlockSignatures_certified:
  assumes acc: "VerifyBlockSignatures getConfig ac cd late validatorListFunc (Some block) = Inr None"
    and header: "b_Header block = Some header"
    and conf: "getConfig (BlockHeight header) = Some cfg" and vals: "validatorListFunc cfg = Some validators"
    and small: "length validators < 2 ^ 30"
  defines "V \<equiv> newValidatorSet validators DefaultBlocksPerProposer" and "s \<equiv> bytes_content (BlockHash header)"
  obtains vs where "wf_voteset V vs" "val_quorum.is_quorum V (voters_for vs s)"
    "\<forall>(k, v) \<in> set (votes_for vs s). verify_one ac cd (BlockVersion header) v = None \<or> late v"
proof -
  from acc header conf vals obtain p h where
    maj: "vs_Maj23 (NewVoteSetFromProto p V) = Some h" and eq: "bytes_Equal (Some h) (BlockHash header)"
    and ver: "go_bind (votesOfHash (NewVoteSetFromProto p V) (Some h)) (\<lambda>votes.
      Inr (verifyVotes ac cd late (Some votes) (BlockVersion header))) = Inr None"
    by (auto simp: VerifyBlockSignatures_def V_def Let_def twoThirdsMajority_simps split: option.splits if_splits)
  have wf: "wf_voteset V (NewVoteSetFromProto p V)"
    using small by (simp add: NewVoteSetFromProto_wf small_newValidatorSet V_def)
  have "h = s" using eq by (simp add: bytes_Equal_def s_def)
  then show ?thesis
    using that [OF wf] ver votesOfHash_majority [OF wf maj] by (simp add: verifyVotes_None)
qed

text \<open>
  A certificate that a node builds from its own vote set is accepted: the encoded vote set,
  read back in any order, gives the same majority.
\<close>

text \<open>The votes of a well-formed set survive the message, in whatever order the map arrives.\<close>

lemma rebuilt_votes:
  assumes wf: "wf_voteset V vs" and small: "small_valset V" and maj: "vs_Maj23 vs = Some s" "s \<noteq> []"
    and votes: "\<forall>(k, v) \<in> set (vs_Votes vs). verify_one ac cd bv v = None"
    and p: "VoteSet_ToProto (Some vs) = Some p" and perm: "mset pvotes = mset (pvs_Votes p)"
  defines "vs' \<equiv> NewVoteSetFromProto (p\<lparr>pvs_Votes := pvotes\<rparr>) V"
  shows "vs_Maj23 vs' = Some s" and "votesOfHash vs' (Some s) = Inr (votes_for vs' s)"
    and "verifyVotes ac cd late (Some (votes_for vs' s)) bv = None"
proof -
  have wf': "wf_voteset V vs'" unfolding vs'_def using small by (rule NewVoteSetFromProto_wf)
  show maj': "vs_Maj23 vs' = Some s"
    using proto_roundtrip(3) [OF wf small p perm maj(2)] maj(1) by (simp add: vs'_def)
  show "votesOfHash vs' (Some s) = Inr (votes_for vs' s)" using votesOfHash_majority(1) [OF wf' maj'] .
  have "set (vs_Votes vs') = set (vs_Votes vs)"
    using proto_roundtrip(1) [OF wf small p perm] unfolding vs'_def by (rule mset_eq_setD)
  then have "\<forall>(k, v) \<in> set (votes_for vs' s). verify_one ac cd bv v = None"
    using votes by (auto simp: votes_for_def)
  then show "verifyVotes ac cd late (Some (votes_for vs' s)) bv = None" by (auto simp: verifyVotes_None)
qed

lemma VerifyBlockSignatures_own:
  assumes wf: "wf_voteset (newValidatorSet validators DefaultBlocksPerProposer) vs"
    and small: "length validators < 2 ^ 30"
    and maj: "vs_Maj23 vs = Some s" "s \<noteq> []"
    and votes: "\<forall>(k, v) \<in> set (vs_Votes vs). verify_one ac cd (BlockVersion header) v = None"
    and codec: "\<And>p. VoteSet_ToProto (Some vs) = Some p \<Longrightarrow>
      \<exists>pvotes. mset pvotes = mset (pvs_Votes p) \<and>
        unmarshalVoteSet cd (marshalVoteSet cd (Some p)) = Some (p\<lparr>pvs_Votes := pvotes\<rparr>)"
    and block: "b_Header block = Some header" "bytes_content (BlockHash header) = s"
      "b_AdditionalData block = Some extra"
      "extra TBFTAddtionalDataKey = Some (Some (marshalVoteSet cd (VoteSet_ToProto (Some vs))))"
    and conf: "getConfig (BlockHeight header) = Some cfg" "validatorListFunc cfg = Some validators"
  shows "VerifyBlockSignatures getConfig ac cd late validatorListFunc (Some block) = Inr None"
proof -
  let ?V = "newValidatorSet validators DefaultBlocksPerProposer"
  have smallV: "small_valset ?V" using small by (rule small_newValidatorSet)
  obtain p where p: "VoteSet_ToProto (Some vs) = Some p" by (simp add: VoteSet_ToProto_def)
  with codec obtain pvotes where perm: "mset pvotes = mset (pvs_Votes p)"
    and um: "unmarshalVoteSet cd (marshalVoteSet cd (Some p)) = Some (p\<lparr>pvs_Votes := pvotes\<rparr>)" by blast
  note own = rebuilt_votes [OF wf smallV maj votes p perm]
  show ?thesis
    using block conf um p own(1) own(2,3)
    by (simp add: VerifyBlockSignatures_def Let_def twoThirdsMajority_simps bytes_Equal_def)
qed

text \<open>The same for a certificate of a round.\<close>

lemma VerifyRoundQc_own:
  assumes "wf_voteset V vs" and "small_valset V" and "vs_Maj23 vs = Some s" "s \<noteq> []"
    and "\<forall>(k, v) \<in> set (vs_Votes vs). verify_one ac cd bv v = None"
    and "VoteSet_ToProto (Some vs) = Some p" and "mset pvotes = mset (pvs_Votes p)"
  shows "VerifyRoundQc ac cd late V \<lparr>qc_Id = i, qc_Height = h, qc_Round = r, qc_Qc = Some (p\<lparr>pvs_Votes := pvotes\<rparr>)\<rparr> bv = Inr None"
  using rebuilt_votes [OF assms]
  by (simp add: VerifyRoundQc_def Let_def twoThirdsMajority_simps) (simp add: NewVoteSetFromProto_def)

lemma VerifyRoundQc_certified:
  assumes acc: "VerifyRoundQc ac cd (\<lambda>_. False) V roundQC bv = Inr None"
    and qc: "qc_Qc roundQC = Some qc" and small: "small_valset V"
  obtains s where "vs_Maj23 (NewVoteSetFromProto qc V) = Some s"
    and "certified ac cd bv V (NewVoteSetFromProto qc V) s"
proof -
  let ?vs = "NewVoteSetFromProto qc V"
  obtain s where maj: "vs_Maj23 ?vs = Some s"
    and ver: "go_bind (votesOfHash ?vs (Some s)) (\<lambda>votes. Inr (verifyVotes ac cd (\<lambda>_. False) (Some votes) bv)) = Inr None"
    using acc qc by (auto simp: VerifyRoundQc_def Let_def twoThirdsMajority_simps split: if_splits)
  have wf: "wf_voteset V ?vs" using small by (rule NewVoteSetFromProto_wf)
  have "certified ac cd bv V ?vs s"
    using ver wf votesOfHash_majority [OF wf maj] by (simp add: certified_def verifyVotes_None)
  then show ?thesis using that maj by blast
qed

lemma addQcVotes_wf:
  "addQcVotes V vs votes = Inr vs' \<Longrightarrow> wf_voteset V vs \<Longrightarrow> small_valset V \<Longrightarrow>
    wf_voteset V vs' \<and> vs_Type vs' = vs_Type vs \<and> vs_Height vs' = vs_Height vs \<and> vs_Round vs' = vs_Round vs"
proof (induction votes arbitrary: vs)
  case (Cons v votes)
  let ?vs1 = "fst (AddVote V vs (Some v) False)"
  have "addQcVotes V ?vs1 votes = Inr vs'"
    using Cons.prems(1) by (auto split: prod.splits option.splits)
  then show ?case
    using Cons.IH [of ?vs1] Cons.prems AddVote_wf AddVote_fields [OF Cons.prems(2,3)] by simp
qed simp

lemma VerifyQcFromVotes_certified:
  assumes acc: "VerifyQcFromVotes ac cd (\<lambda>_. False) pvs V voteType bv = Inr (Inr vs)"
    and small: "small_valset V"
  obtains s where "vs_Maj23 vs = Some s" and "certified ac cd bv V vs s" and "vs_Type vs = voteType"
proof -
  obtain v0 rest where pvs: "pvs = Some (v0 # rest)" and vt: "voteType = v_Type v0"
    and add: "addQcVotes V (NewVoteSet (v_Type v0) (v_Height v0) (v_Round v0)) (v0 # rest) = Inr vs"
    using acc by (auto simp: VerifyQcFromVotes_def Let_def split: option.splits list.splits if_splits
        sum.splits prod.splits simp del: addQcVotes.simps elim!: go_bind_InrE)
  have wf: "wf_voteset V vs" and vtype: "vs_Type vs = voteType"
    using addQcVotes_wf [OF add wf_NewVoteSet small] vt by simp_all
  obtain s where maj: "vs_Maj23 vs = Some s"
    using acc by (auto simp: VerifyQcFromVotes_def pvs vt add twoThirdsMajority_simps Let_def
        simp del: addQcVotes.simps split: if_splits)
  have "verifyVotes ac cd (\<lambda>_. False) (Some (votes_for vs s)) bv = None"
    using acc votesOfHash_majority(1) [OF wf maj]
    by (auto simp: VerifyQcFromVotes_def pvs vt add twoThirdsMajority_simps Let_def maj
        simp del: addQcVotes.simps split: if_splits option.splits)
  then have "certified ac cd bv V vs s"
    using wf votesOfHash_majority(2) [OF wf maj] by (simp add: certified_def verifyVotes_None)
  then show ?thesis using that maj vtype by blast
qed

end
