(* ===== verification/Consensus_State.thy ===== *)
theory Consensus_State
  imports Height_Votes
begin

section \<open>The state of a height and its caches (consensus-tbft-master/state.go)\<close>

text \<open>
  The consensus state of the current height, the cache of messages for heights and rounds to
  come, and the cache of the states of past heights.

  Proposals are shared objects: the proposal of a round, the locked one and the valid one may
  be the same object, and an append to the valid one's votes is seen through the others. The
  state therefore holds references (\<open>pref\<close>) into a heap of proposals, a total function, which
  the consensus instance owns. The caches keep proposals by value: a cached proposal is handed
  to the message channel once and is not read from the cache again after that.
\<close>

type_synonym pref = nat
type_synonym pheap = "pref \<Rightarrow> Proposal"

record TBFTProposal =
  PbMsg :: pref
  Bytes :: gobytes

record ConsensusState =
  cs_Id :: string
  cs_Height :: u64
  cs_Round :: i32
  cs_Step :: Step
  cs_Proposal :: "TBFTProposal option"
  cs_VerifingProposal :: "TBFTProposal option"
  cs_LockedRound :: i32
  cs_LockedProposal :: "pref option"
  cs_ValidRound :: i32
  cs_ValidProposal :: "pref option"
  cs_heightRoundVoteSet :: "heightRoundVoteSet option"

definition NewConsensusState :: "string \<Rightarrow> ConsensusState" where
  "NewConsensusState nid =
     \<lparr>cs_Id = nid, cs_Height = 0, cs_Round = 0, cs_Step = NEW_HEIGHT, cs_Proposal = None,
      cs_VerifingProposal = None, cs_LockedRound = 0, cs_LockedProposal = None,
      cs_ValidRound = 0, cs_ValidProposal = None, cs_heightRoundVoteSet = None\<rparr>"

record ProtoConsensusState =
  pcs_Id :: string
  pcs_Height :: u64
  pcs_Round :: i32
  pcs_Step :: Step
  pcs_Proposal :: "Proposal option"
  pcs_VerifingProposal :: "Proposal option"
  pcs_HeightRoundVoteSet :: "ProtoHeightRoundVoteSet option"

definition toProto :: "pheap \<Rightarrow> ConsensusState option \<Rightarrow> ProtoConsensusState option" where
  "toProto heap pcs =
     (case pcs of None \<Rightarrow> None
      | Some cs \<Rightarrow>
        (let proposal = map_option (\<lambda>p. heap (PbMsg p)) (cs_Proposal cs);
             verifyingProposal = map_option (\<lambda>p. heap (PbMsg p)) (cs_VerifingProposal cs)
         in Some \<lparr>pcs_Id = cs_Id cs, pcs_Height = cs_Height cs, pcs_Round = cs_Round cs,
                  pcs_Step = cs_Step cs, pcs_Proposal = proposal,
                  pcs_VerifingProposal = verifyingProposal,
                  pcs_HeightRoundVoteSet = heightRoundVoteSet_ToProto (cs_heightRoundVoteSet cs)\<rparr>))"

subsection \<open>Messages of the future\<close>

record ConsensusFutureMsg =
  fm_Proposal :: "i32 \<rightharpoonup> Proposal"
  fm_heightRoundVoteSet :: heightRoundVoteSet

record ConsensusFutureMsgCache =
  fc_size :: u64
  fc_consensusHeight :: u64
  fc_cache :: "u64 \<rightharpoonup> ConsensusFutureMsg"

definition newConsensusFutureMsgCache :: "u64 \<Rightarrow> u64 \<Rightarrow> ConsensusFutureMsgCache" where
  "newConsensusFutureMsgCache sz height =
     \<lparr>fc_size = sz, fc_consensusHeight = height, fc_cache = Map.empty\<rparr>"

definition NewConsensusFutureMsg :: "u64 \<Rightarrow> i32 \<Rightarrow> ConsensusFutureMsg" where
  "NewConsensusFutureMsg height round =
     \<lparr>fm_Proposal = Map.empty, fm_heightRoundVoteSet = newHeightRoundVoteSet height round\<rparr>"

text \<open>A range that deletes the keys below the height; the order does not matter.\<close>

definition fc_gc :: "ConsensusFutureMsgCache \<Rightarrow> ConsensusFutureMsgCache" where
  "fc_gc cfc =
     (if fc_consensusHeight cfc mod 10 \<noteq> 0 then cfc
      else cfc\<lparr>fc_cache := (\<lambda>k. if k < fc_consensusHeight cfc then None else fc_cache cfc k)\<rparr>)"

definition updateConsensusHeight :: "ConsensusFutureMsgCache \<Rightarrow> u64 \<Rightarrow> ConsensusFutureMsgCache" where
  "updateConsensusHeight cfc height = fc_gc (cfc\<lparr>fc_consensusHeight := height\<rparr>)"

definition addFutureProposal ::
    "ConsensusFutureMsgCache \<Rightarrow> Proposal \<Rightarrow> ConsensusFutureMsgCache go" where
  "addFutureProposal cfc proposal =
     (if fc_consensusHeight cfc + fc_size cfc < p_Height proposal
         \<or> p_Height proposal < fc_consensusHeight cfc
      then Inr cfc
      else
        (let cs = (case fc_cache cfc (p_Height proposal) of
                     None \<Rightarrow> NewConsensusFutureMsg (p_Height proposal) (p_Round proposal)
                   | Some cs \<Rightarrow> cs);
             cs' = cs\<lparr>fm_Proposal := (fm_Proposal cs)(p_Round proposal \<mapsto> proposal)\<rparr>
         in go_bind (Block_Hash (p_Block proposal)) (\<lambda>_.
              Inr (cfc\<lparr>fc_cache := (fc_cache cfc)(p_Height proposal \<mapsto> cs')\<rparr>))))"

definition addFutureVote ::
    "validatorSet \<Rightarrow> ConsensusFutureMsgCache \<Rightarrow> Vote \<Rightarrow> ConsensusFutureMsgCache go" where
  "addFutureVote V cfc vote =
     (if fc_consensusHeight cfc + fc_size cfc < v_Height vote
         \<or> v_Height vote \<le> fc_consensusHeight cfc
      then Inr cfc
      else
        (let cs = (case fc_cache cfc (v_Height vote) of
                     None \<Rightarrow> NewConsensusFutureMsg (v_Height vote) (v_Round vote)
                   | Some cs \<Rightarrow> cs)
         in go_bind (hvs_addVote V (fm_heightRoundVoteSet cs) (Some vote)) (\<lambda>(hvs, added, err).
              Inr (cfc\<lparr>fc_cache := (fc_cache cfc)
                (v_Height vote \<mapsto> cs\<lparr>fm_heightRoundVoteSet := hvs\<rparr>)\<rparr>))))"

definition getConsensusFutureProposal ::
    "ConsensusFutureMsgCache \<Rightarrow> u64 \<Rightarrow> i32 \<Rightarrow> Proposal option" where
  "getConsensusFutureProposal cfc height round =
     (case fc_cache cfc height of Some state \<Rightarrow> fm_Proposal state round | None \<Rightarrow> None)"

definition getConsensusFutureVote ::
    "ConsensusFutureMsgCache \<Rightarrow> u64 \<Rightarrow> i32 \<Rightarrow> roundVoteSet option" where
  "getConsensusFutureVote cfc height round =
     (case fc_cache cfc height of
        Some state \<Rightarrow> getRoundVoteSet (fm_heightRoundVoteSet state) round | None \<Rightarrow> None)"

subsection \<open>States of past heights\<close>

record consensusStateCache =
  sc_size :: u64
  sc_cache :: "u64 \<rightharpoonup> ConsensusState"

definition newConsensusStateCache :: "u64 \<Rightarrow> consensusStateCache" where
  "newConsensusStateCache sz = \<lparr>sc_size = sz, sc_cache = Map.empty\<rparr>"

definition sc_gc :: "consensusStateCache \<Rightarrow> u64 \<Rightarrow> consensusStateCache" where
  "sc_gc cache height =
     cache\<lparr>sc_cache := (\<lambda>k. if k + sc_size cache \<le> height then None else sc_cache cache k)\<rparr>"

definition addConsensusState ::
    "consensusStateCache \<Rightarrow> ConsensusState option \<Rightarrow> consensusStateCache" where
  "addConsensusState cache pstate =
     (case pstate of None \<Rightarrow> cache
      | Some state \<Rightarrow>
        if cs_Height state \<le> 0 then cache
        else sc_gc (cache\<lparr>sc_cache := (sc_cache cache)(cs_Height state \<mapsto> state)\<rparr>) (cs_Height state))"

definition getConsensusState :: "consensusStateCache \<Rightarrow> u64 \<Rightarrow> ConsensusState option" where
  "getConsensusState cache height = (case sc_cache cache height of Some state \<Rightarrow> Some state | None \<Rightarrow> None)"

text \<open>The write through a pointer that \<open>getConsensusState\<close> returned.\<close>

definition putConsensusState :: "consensusStateCache \<Rightarrow> ConsensusState \<Rightarrow> consensusStateCache" where
  "putConsensusState cache state = cache\<lparr>sc_cache := (sc_cache cache)(cs_Height state \<mapsto> state)\<rparr>"

subsection \<open>What the caches keep\<close>

text \<open>
  The laws of a cache of things filed under a height of which only those in a window are
  kept: what was put in the window is found, the rest of the window is untouched, and nothing
  else appears. The lemma inside gives the content after any sequence of insertions.
\<close>

locale height_cache =
  fixes look :: "'c \<Rightarrow> u64 \<Rightarrow> 'v option" and put :: "'c \<Rightarrow> 'v \<Rightarrow> 'c"
    and height_of :: "'v \<Rightarrow> u64" and drops :: "'v \<Rightarrow> u64 \<Rightarrow> bool" and ok :: "'c \<Rightarrow> bool"
  assumes ok_put: "ok c \<Longrightarrow> ok (put c v)"
    and look_put: "ok c \<Longrightarrow> look (put c v) k =
      (if drops v k then None else if k = height_of v then Some v else look c k)"
begin

lemma look_puts_origin:
  "ok c \<Longrightarrow> look (foldl put c vs) k = Some v \<Longrightarrow> look c k = Some v \<or> (v \<in> set vs \<and> height_of v = k)"
proof (induction vs arbitrary: c)
  case (Cons a vs)
  then have "look (put c a) k = Some v \<or> (v \<in> set vs \<and> height_of v = k)"
    by (simp add: ok_put)
  then show ?case using Cons.prems by (auto simp: look_put split: if_splits)
qed simp

lemma look_puts_last:
  assumes "ok c" and "\<not> drops v (height_of v)"
    and "\<forall>w \<in> set ws. height_of w \<noteq> height_of v \<and> \<not> drops w (height_of v)"
  shows "look (foldl put (put c v) ws) (height_of v) = Some v"
proof -
  have "look (foldl put d ws) (height_of v) = look d (height_of v)" if "ok d" for d
    using that assms(3) by (induction ws arbitrary: d) (auto simp: ok_put look_put)
  then show ?thesis using assms by (simp add: ok_put look_put)
qed

end

lemma sc_size_gc [simp]: "sc_size (sc_gc c h) = sc_size c"
  by (simp add: sc_gc_def)

lemma addConsensusState_size [simp]: "sc_size (addConsensusState c s) = sc_size c"
  by (simp add: addConsensusState_def split: option.split)

interpretation state_cache: height_cache
  "\<lambda>c k. if k = 0 then None else getConsensusState c k" "\<lambda>c s. addConsensusState c (Some s)" cs_Height
  "\<lambda>s k. k = 0 \<or> (cs_Height s \<noteq> 0 \<and> k + n \<le> cs_Height s)" "\<lambda>c. sc_size c = n" for n
  by unfold_locales
    (auto simp: getConsensusState_def addConsensusState_def sc_gc_def split: option.splits)

text \<open>At most the last \<open>size\<close> heights are kept.\<close>

lemma addConsensusState_window:
  assumes "cs_Height s \<noteq> 0" and "sc_size c \<le> cs_Height s"
    and "\<forall>k. sc_cache c k \<noteq> None \<longrightarrow> k \<le> cs_Height s"
  shows "dom (sc_cache (addConsensusState c (Some s))) \<subseteq> {cs_Height s - sc_size c <.. cs_Height s}"
proof
  fix k assume k: "k \<in> dom (sc_cache (addConsensusState c (Some s)))"
  then have "k = cs_Height s \<or> sc_cache c k \<noteq> None" and gt: "\<not> k + sc_size c \<le> cs_Height s"
    using assms by (auto simp: addConsensusState_def sc_gc_def split: if_splits)
  then have le: "k \<le> cs_Height s" using assms by auto
  have "\<not> k \<le> cs_Height s - sc_size c"
  proof
    assume "k \<le> cs_Height s - sc_size c"
    with assms(2) have "k + sc_size c \<le> cs_Height s" by uint_arith
    with gt show False by simp
  qed
  with le show "k \<in> {cs_Height s - sc_size c <.. cs_Height s}" by simp
qed

end
