(* ===== verification/Timesched.thy ===== *)
theory Timesched
  imports Tbft_Types "HOL-Library.Product_Lexorder"
begin

section \<open>The timeout scheduler (consensus-tbft-master/timesched.go)\<close>

text \<open>
  One goroutine (\<open>handle\<close>) selects between the channel of requested timeouts, the timer and
  the stop channel. The state holds the two channels, the latest request \<open>ti\<close>, whether the
  timer is running, and whether its channel \<^verbatim>\<open>timer.C\<close> (of capacity one) holds an expiry that
  has not been received. \<^verbatim>\<open>timer.Stop()\<close> stops the timer but does not drain that channel
  (the module's Go versions, before 1.23, leave this to the caller).

  A step that has to wait (an empty or a full channel) is \<^term>\<open>None\<close>.
\<close>

record TimeoutInfo =
  ti_Duration :: i64
  ti_Height :: u64
  ti_Round :: i32
  ti_Step :: Step

record timeScheduler =
  ts_bufferC :: "TimeoutInfo list"
  ts_timeoutC :: "TimeoutInfo list"
  ts_ti :: TimeoutInfo
  ts_running :: bool
  ts_expired :: bool

definition defaultTimeSchedulerBufferSize :: nat where
  "defaultTimeSchedulerBufferSize = 10"

definition newTimeSheduler :: timeScheduler where
  "newTimeSheduler =
     \<lparr>ts_bufferC = [], ts_timeoutC = [],
      ts_ti = \<lparr>ti_Duration = 0, ti_Height = 0, ti_Round = 0, ti_Step = NEW_HEIGHT\<rparr>,
      ts_running = False, ts_expired = False\<rparr>"

definition stopTimer :: "timeScheduler \<Rightarrow> timeScheduler" where
  "stopTimer ts = ts\<lparr>ts_running := False\<rparr>"

definition AddTimeoutInfo :: "TimeoutInfo \<Rightarrow> timeScheduler \<Rightarrow> timeScheduler option" where
  "AddTimeoutInfo ti ts =
     (if length (ts_bufferC ts) < defaultTimeSchedulerBufferSize
      then Some (ts\<lparr>ts_bufferC := ts_bufferC ts @ [ti]\<rparr>) else None)"

text \<open>The consumer's receive from \<^verbatim>\<open>GetTimeoutC()\<close>.\<close>

definition takeTimeout :: "timeScheduler \<Rightarrow> (TimeoutInfo \<times> timeScheduler) option" where
  "takeTimeout ts =
     (case ts_timeoutC ts of [] \<Rightarrow> None | t # q \<Rightarrow> Some (t, ts\<lparr>ts_timeoutC := q\<rparr>))"

definition outdated :: "TimeoutInfo \<Rightarrow> TimeoutInfo \<Rightarrow> bool" where
  "outdated t ti =
     (if ti_Height t < ti_Height ti then True
      else if ti_Height t = ti_Height ti then
        if sint (ti_Round t) < sint (ti_Round ti) then True
        else if ti_Round t = ti_Round ti \<and> ti_Step t \<le> ti_Step ti then True
        else False
      else False)"

datatype ts_case = RecvBuffer | RecvTimer

text \<open>One iteration of the select loop, by the case that is taken.\<close>

definition ts_handle :: "ts_case \<Rightarrow> timeScheduler \<Rightarrow> timeScheduler option" where
  "ts_handle c ts =
     (case c of
        RecvBuffer \<Rightarrow>
          (case ts_bufferC ts of [] \<Rightarrow> None
           | t # q \<Rightarrow>
             (let ts1 = ts\<lparr>ts_bufferC := q\<rparr> in
              if outdated t (ts_ti ts) then Some ts1
              else
                (let ts2 = stopTimer ts1;
                     ts3 = ts2\<lparr>ts_ti := t\<rparr>
                 in Some (ts3\<lparr>ts_running := True\<rparr>))))
      | RecvTimer \<Rightarrow>
          if \<not> ts_expired ts \<or> defaultTimeSchedulerBufferSize \<le> length (ts_timeoutC ts) then None
          else Some (ts\<lparr>ts_expired := False, ts_timeoutC := ts_timeoutC ts @ [ts_ti ts]\<rparr>))"

text \<open>The runtime's side: a running timer expires and puts one value into its channel.\<close>

definition timer_expires :: "timeScheduler \<Rightarrow> timeScheduler option" where
  "timer_expires ts =
     (if ts_running ts then Some (ts\<lparr>ts_running := False, ts_expired := True\<rparr>) else None)"

subsection \<open>Runs of the scheduler\<close>

text \<open>
  The scheduler with its clients, with the timeouts requested so far and the timeouts
  delivered so far.
\<close>

inductive ts_reach :: "timeScheduler \<Rightarrow> TimeoutInfo list \<Rightarrow> TimeoutInfo list \<Rightarrow> bool" where
  init: "ts_reach newTimeSheduler [] []"
| add: "ts_reach ts req del \<Longrightarrow> AddTimeoutInfo t ts = Some ts' \<Longrightarrow> ts_reach ts' (req @ [t]) del"
| handle: "ts_reach ts req del \<Longrightarrow> ts_handle c ts = Some ts' \<Longrightarrow> ts_reach ts' req del"
| expire: "ts_reach ts req del \<Longrightarrow> timer_expires ts = Some ts' \<Longrightarrow> ts_reach ts' req del"
| take: "ts_reach ts req del \<Longrightarrow> takeTimeout ts = Some (t, ts') \<Longrightarrow> ts_reach ts' req (del @ [t])"

definition ti_key :: "TimeoutInfo \<Rightarrow> nat \<times> int \<times> nat" where
  "ti_key t = (unat (ti_Height t), sint (ti_Round t), step_num (ti_Step t))"

lemma outdated_iff: "outdated t ti \<longleftrightarrow> ti_key t \<le> ti_key ti"
proof -
  have "ti_Round t = ti_Round ti \<longleftrightarrow> sint (ti_Round t) = sint (ti_Round ti)"
    by (rule word_eq_iff_signed)
  moreover have "ti_Height t = ti_Height ti \<longleftrightarrow> unat (ti_Height t) = unat (ti_Height ti)"
    by (rule word_eq_iff_unsigned)
  ultimately show ?thesis
    unfolding outdated_def ti_key_def less_eq_Step_def word_less_nat_alt by (auto simp: less_eq_prod_def)
qed

lemma sorted_raise_last:
  assumes "sorted (xs @ [a])" and "(a :: 'a :: linorder) \<le> b"
  shows "sorted (xs @ [b])"
proof -
  have "sorted xs" and "\<forall>x \<in> set xs. x \<le> a" using assms(1) by (simp_all add: sorted_append)
  then show ?thesis using order_trans [OF _ assms(2)] by (simp add: sorted_append)
qed

definition ts_inv :: "timeScheduler \<Rightarrow> TimeoutInfo list \<Rightarrow> TimeoutInfo list \<Rightarrow> bool" where
  "ts_inv ts req del \<longleftrightarrow>
     sorted (map ti_key (del @ ts_timeoutC ts @ [ts_ti ts])) \<and>
     set (ts_bufferC ts @ ts_timeoutC ts @ del) \<subseteq> set req \<and>
     (ts_running ts \<or> ts_expired ts \<longrightarrow> ts_ti ts \<in> set req) \<and>
     (\<forall>t \<in> set req. t \<in> set (ts_bufferC ts) \<or> ti_key t \<le> ti_key (ts_ti ts))"

lemma ts_inv_handle:
  assumes "ts_inv ts req del" and "ts_handle c ts = Some ts'"
  shows "ts_inv ts' req del"
proof (cases c)
  case RecvBuffer
  with assms(2) obtain t q where q: "ts_bufferC ts = t # q"
    by (auto simp: ts_handle_def split: list.splits)
  show ?thesis
  proof (cases "outdated t (ts_ti ts)")
    case True
    then show ?thesis
      using assms q RecvBuffer by (auto simp: ts_inv_def ts_handle_def outdated_iff)
  next
    case False
    then have lt: "ti_key (ts_ti ts) < ti_key t" by (simp add: outdated_iff)
    have le: "ti_key x \<le> ti_key t" if "ti_key x \<le> ti_key (ts_ti ts)" for x
      using that lt by (meson order.trans less_imp_le)
    have ts': "ts' = ts\<lparr>ts_bufferC := q, ts_ti := t, ts_running := True\<rparr>"
      using assms q RecvBuffer False by (simp add: ts_handle_def stopTimer_def)
    have inv: "sorted (map ti_key (del @ ts_timeoutC ts @ [ts_ti ts]))"
      "set (ts_bufferC ts @ ts_timeoutC ts @ del) \<subseteq> set req"
      "\<forall>u \<in> set req. u \<in> set (ts_bufferC ts) \<or> ti_key u \<le> ti_key (ts_ti ts)"
      using assms(1) unfolding ts_inv_def by blast+
    have "sorted (map ti_key (del @ ts_timeoutC ts @ [t]))"
      using sorted_raise_last [of "map ti_key (del @ ts_timeoutC ts)" "ti_key (ts_ti ts)" "ti_key t"] inv(1) lt
      by (simp only: map_append append_assoc list.map order.strict_implies_order)
    moreover have "\<forall>u \<in> set req. u \<in> set q \<or> ti_key u \<le> ti_key t"
      using inv(3) le q by (metis order_refl set_ConsD)
    ultimately show ?thesis using inv(2) q unfolding ts' ts_inv_def by simp
  qed
next
  case RecvTimer
  then show ?thesis
    using assms by (auto simp: ts_inv_def ts_handle_def sorted_append split: if_splits)
qed

lemma ts_reach_inv: "ts_reach ts req del \<Longrightarrow> ts_inv ts req del"
proof (induction rule: ts_reach.induct)
  case init
  then show ?case by (simp add: ts_inv_def newTimeSheduler_def)
next
  case (add ts req del t ts')
  then show ?case by (auto simp: ts_inv_def AddTimeoutInfo_def split: if_splits)
next
  case (handle ts req del c ts')
  then show ?case by (blast intro: ts_inv_handle)
next
  case (expire ts req del ts')
  then show ?case by (auto simp: ts_inv_def timer_expires_def split: if_splits)
next
  case (take ts req del t ts')
  then show ?case by (auto simp: ts_inv_def takeTimeout_def split: list.splits)
qed

end
