(* ===== verification/Tbft_Core.thy ===== *)
theory Tbft_Core
  imports Qc_Verify Consensus_State Timesched
begin

section \<open>The consensus instance (consensus-tbft-master/consensus_tbft_impl.go)\<close>

text \<open>
  The state of \<open>ConsensusTBFTImpl\<close> and what its handlers call.

  \<^item> The fields keep their meaning. The five channels are queues of capacity
    \<open>defaultChanCap\<close>; a send inside a \<^verbatim>\<open>select\<close> with a default branch drops the message when
    the queue is full.
  \<^item> \<open>heap\<close> and \<open>hnext\<close> hold the proposal objects.
  \<^item> Every call to another component (message bus, time scheduler, signer, log, consistency
    engine) is appended to \<open>outs\<close>, in order.
  \<^item> What other components answer during a call is the environment \<open>env\<close>: the chain
    configuration and last block at that time, the access control, the network's certificate
    table, the signer, the clock, the block verifier and the extension handler.

  The instance's mutex makes a handler one atomic step. Metrics, gauges and logging are left
  out; an expression that is evaluated for a log line and may panic is kept.
\<close>

datatype TBFTMsgType =
    MSG_PROPOSE | MSG_PREVOTE | MSG_PRECOMMIT | MSG_STATE | MSG_FETCH_ROUNDQC | MSG_SEND_ROUND_QC
  | MSG_OTHER i32

record TBFTMsg =
  m_Type :: TBFTMsgType
  m_Msg :: gobytes

record GossipState =
  gs_Id :: string
  gs_Height :: u64
  gs_Round :: i32
  gs_Step :: Step
  gs_Proposal :: gobytes
  gs_VerifingProposal :: gobytes
  gs_RoundVoteSet :: "ProtoRoundVoteSet option"

datatype ConsensusMsg =
    MsgPropose "Proposal option"
  | MsgPrevote Vote
  | MsgPrecommit Vote
  | MsgState GossipState
  | MsgFetchRoundQC
  | MsgRoundQC "RoundQC option"

record ProposalBlock =
  pb_Block :: "Block option"
  pb_TxsRwSet :: RwSets
  pb_CutBlock :: "Block option"

record proposedProposal =
  pp_proposedBlock :: ProposalBlock
  pp_qc :: "Vote list option"

record VerifyResult =
  vr_VerifiedBlock :: "Block option"
  vr_Code :: i32
  vr_TxsRwSet :: RwSets
  vr_RwSetVerifyFailTxs :: "RwSetVerifyFailTxs option"

definition VerifyResult_FAIL :: i32 where
  "VerifyResult_FAIL = 1"

datatype Out =
    ProposeState bool
  | VerifyBlock Block
  | CommitBlock Block
  | ConsensusFailTxs RwSetVerifyFailTxs
  | NetMsg TBFTMsg string
  | Timeout TimeoutInfo
  | SignVote Vote
  | WalWrite u64 Proposal
  | PutRemoter string
  | RemoveRemoter string

record extendHandler =
  x_GetValidators :: "string list option"
  x_CreateRWSet :: "gobytes \<Rightarrow> Block \<Rightarrow> RwSets \<Rightarrow> (Block \<times> RwSets) option"
  x_VerifyConsensusArgs :: "Block option \<Rightarrow> RwSets \<Rightarrow> bool"

record env =
  e_ChainConfig :: ChainConfig
  e_ParseDuration :: "string \<Rightarrow> i64 option"
  e_LastCommittedBlock :: "Block option"
  e_ac :: accessControl
  e_codec :: codec
  e_late :: "Vote \<Rightarrow> bool"
  e_GetNodeUidByCertId :: "string \<Rightarrow> string option"
  e_Sign :: "string \<Rightarrow> string \<Rightarrow> string option"
  e_GetMember :: "Member option"
  e_SignBlock :: "string \<Rightarrow> Block \<Rightarrow> (string \<times> gobytes) option"
  e_extendHandler :: "extendHandler option"
  e_VerifyBlockWithRwSets :: "Block \<Rightarrow> string list \<Rightarrow> bool"
  e_nowMilli :: i64
  e_NonWalWrite :: int
  e_walWriteOk :: bool

record TBFT =
  Id :: string
  lastHeightProposer :: string
  blockVersion :: u32
  walWriteMode :: int
  valSet :: validatorSet
  cState :: ConsensusState
  stateCache :: consensusStateCache
  futureCache :: ConsensusFutureMsgCache
  proposedBlockC :: "proposedProposal list"
  verifyResultC :: "VerifyResult list"
  blockHeightC :: "u64 list"
  externalMsgC :: "ConsensusMsg list"
  internalMsgC :: "ConsensusMsg list"
  invalidTxs :: "string list"
  TimeoutPropose :: i64
  TimeoutProposeDelta :: i64
  TimeoutProposeOptimal :: i64
  ProposeOptimal :: bool
  ProposeOptimalTimer :: bool
  heap :: pheap
  hnext :: pref
  outs :: "Out list"
  started :: bool

abbreviation Height :: "TBFT \<Rightarrow> u64" where "Height c \<equiv> cs_Height (cState c)"
abbreviation Round :: "TBFT \<Rightarrow> i32" where "Round c \<equiv> cs_Round (cState c)"
abbreviation StepOf :: "TBFT \<Rightarrow> Step" where "StepOf c \<equiv> cs_Step (cState c)"

definition defaultChanCap :: nat where
  "defaultChanCap = 1000"

definition upd_state :: "(ConsensusState \<Rightarrow> ConsensusState) \<Rightarrow> TBFT \<Rightarrow> TBFT" where
  "upd_state f c = c\<lparr>cState := f (cState c)\<rparr>"

definition emit :: "Out \<Rightarrow> TBFT \<Rightarrow> TBFT" where
  "emit o1 c = c\<lparr>outs := outs c @ [o1]\<rparr>"

text \<open>A new proposal object, and the write to an object.\<close>

definition alloc :: "Proposal \<Rightarrow> TBFT \<Rightarrow> pref \<times> TBFT" where
  "alloc p c = (hnext c, c\<lparr>heap := (heap c)(hnext c := p), hnext := Suc (hnext c)\<rparr>)"

definition hwrite :: "pref \<Rightarrow> (Proposal \<Rightarrow> Proposal) \<Rightarrow> TBFT \<Rightarrow> TBFT" where
  "hwrite r f c = c\<lparr>heap := (heap c)(r := f (heap c r))\<rparr>"

definition hvs_of :: "TBFT \<Rightarrow> heightRoundVoteSet go" where
  "hvs_of c = deref (cs_heightRoundVoteSet (cState c))"

definition put_hvs :: "heightRoundVoteSet \<Rightarrow> TBFT \<Rightarrow> TBFT" where
  "put_hvs hvs = upd_state (\<lambda>s. s\<lparr>cs_heightRoundVoteSet := Some hvs\<rparr>)"

definition ref_hash :: "TBFT \<Rightarrow> pref \<Rightarrow> gobytes" where
  "ref_hash c r = proposal_hash (heap c r)"

text \<open>Sends that are dropped when the queue is full.\<close>

definition trySendInternal :: "ConsensusMsg \<Rightarrow> TBFT \<Rightarrow> TBFT" where
  "trySendInternal m c =
     (if length (internalMsgC c) < defaultChanCap
      then c\<lparr>internalMsgC := internalMsgC c @ [m]\<rparr> else c)"

definition trySendExternal :: "ConsensusMsg \<Rightarrow> TBFT \<Rightarrow> bool \<times> TBFT" where
  "trySendExternal m c =
     (if length (externalMsgC c) < defaultChanCap
      then (True, c\<lparr>externalMsgC := externalMsgC c @ [m]\<rparr>) else (False, c))"

subsection \<open>Messages out\<close>

definition NewTBFTProposal :: "env \<Rightarrow> TBFT \<Rightarrow> pref \<Rightarrow> bool \<Rightarrow> TBFTProposal" where
  "NewTBFTProposal e c proposal marshal =
     \<lparr>PbMsg = proposal,
      Bytes = (if marshal then Some (marshalProposal (e_codec e) (heap c proposal)) else None)\<rparr>"

definition sendProposeState :: "bool \<Rightarrow> TBFT \<Rightarrow> TBFT" where
  "sendProposeState isProposer = emit (ProposeState isProposer)"

fun send_to :: "TBFTMsg \<Rightarrow> string list \<Rightarrow> TBFT \<Rightarrow> TBFT" where
  "send_to msg [] c = c"
| "send_to msg (v # vs) c = send_to msg vs (if v = Id c then c else emit (NetMsg msg v) c)"

definition sendConsensusMsg :: "TBFTMsg \<Rightarrow> string \<Rightarrow> TBFT \<Rightarrow> TBFT" where
  "sendConsensusMsg msg to c =
     send_to msg (if to \<noteq> [] then [to] else Validators (valSet c)) c"

definition createProposalTBFTMsg :: "TBFTProposal \<Rightarrow> TBFTMsg" where
  "createProposalTBFTMsg proposal = \<lparr>m_Type = MSG_PROPOSE, m_Msg = Bytes proposal\<rparr>"

definition createPrevoteTBFTMsg :: "env \<Rightarrow> Vote \<Rightarrow> TBFTMsg" where
  "createPrevoteTBFTMsg e prevote = \<lparr>m_Type = MSG_PREVOTE, m_Msg = Some (marshalVote (e_codec e) prevote)\<rparr>"

definition createPrecommitTBFTMsg :: "env \<Rightarrow> Vote \<Rightarrow> TBFTMsg" where
  "createPrecommitTBFTMsg e precommit = \<lparr>m_Type = MSG_PRECOMMIT, m_Msg = Some (marshalVote (e_codec e) precommit)\<rparr>"

definition sendConsensusProposal :: "TBFTProposal option \<Rightarrow> string \<Rightarrow> TBFT \<Rightarrow> TBFT" where
  "sendConsensusProposal proposal to c =
     (case proposal of None \<Rightarrow> c
      | Some p \<Rightarrow> if Bytes p = None then c else sendConsensusMsg (createProposalTBFTMsg p) to c)"

text \<open>
  A vote of neither type leaves the message pointer nil; the first peer's goroutine then
  panics when it encodes it.
\<close>

definition sendConsensusVote :: "env \<Rightarrow> Vote \<Rightarrow> string \<Rightarrow> TBFT \<Rightarrow> TBFT go" where
  "sendConsensusVote e vote to c =
     (case v_Type vote of
        VOTE_PREVOTE \<Rightarrow> Inr (sendConsensusMsg (createPrevoteTBFTMsg e vote) to c)
      | VOTE_PRECOMMIT \<Rightarrow> Inr (sendConsensusMsg (createPrecommitTBFTMsg e vote) to c)
      | VOTE_OTHER _ \<Rightarrow>
        if \<exists>v \<in> set (if to \<noteq> [] then [to] else Validators (valSet c)). v \<noteq> Id c
        then Inl MarshalFailed else Inr c)"

definition createPrevoteConsensusMsg :: "Vote \<Rightarrow> ConsensusMsg" where
  "createPrevoteConsensusMsg prevote =
     MsgPrevote \<lparr>v_Type = v_Type prevote, v_Voter = v_Voter prevote, v_Height = v_Height prevote,
       v_Round = v_Round prevote, v_Hash = v_Hash prevote, v_Endorsement = v_Endorsement prevote,
       v_InvalidTxs = v_InvalidTxs prevote\<rparr>"

definition createPrecommitConsensusMsg :: "Vote \<Rightarrow> ConsensusMsg" where
  "createPrecommitConsensusMsg precommit =
     MsgPrecommit \<lparr>v_Type = v_Type precommit, v_Voter = v_Voter precommit, v_Height = v_Height precommit,
       v_Round = v_Round precommit, v_Hash = v_Hash precommit, v_Endorsement = v_Endorsement precommit,
       v_InvalidTxs = []\<rparr>"

subsection \<open>Signing and verifying\<close>

definition signProposal :: "env \<Rightarrow> Proposal \<Rightarrow> Proposal option go" where
  "signProposal e proposal =
     go_bind (CopyProposalWithBlockHeader proposal) (\<lambda>copy.
     (case e_Sign e (cfg_CryptoHash (e_ChainConfig e)) (marshalProposal (e_codec e) copy) of
        None \<Rightarrow> Inr None
      | Some sig \<Rightarrow>
        (case e_GetMember e of None \<Rightarrow> Inr None
         | Some member \<Rightarrow>
           Inr (Some (proposal\<lparr>p_Endorsement := Some \<lparr>Signer = Some member, Signature = Some sig\<rparr>\<rparr>)))))"

text \<open>The vote after the call: it is endorsed, or left as it was when signing failed.\<close>

definition signVote :: "env \<Rightarrow> Vote \<Rightarrow> Vote" where
  "signVote e vote =
     (case e_Sign e (cfg_CryptoHash (e_ChainConfig e)) (marshalVote (e_codec e) vote) of
        None \<Rightarrow> vote
      | Some sig \<Rightarrow>
        (case e_GetMember e of None \<Rightarrow> vote
         | Some member \<Rightarrow> vote\<lparr>v_Endorsement := Some \<lparr>Signer = Some member, Signature = Some sig\<rparr>\<rparr>))"

lemma signVote_fields [simp]:
  "v_Type (signVote e v) = v_Type v" "v_Voter (signVote e v) = v_Voter v"
  "v_Height (signVote e v) = v_Height v" "v_Round (signVote e v) = v_Round v"
  "v_Hash (signVote e v) = v_Hash v" "v_InvalidTxs (signVote e v) = v_InvalidTxs v"
  by (simp_all add: signVote_def split: option.split)

datatype msgError =
    ErrNilEndorsement | ErrPrincipal | ErrPolicy | ErrPolicyResult | ErrNewMember | ErrNodeUid | ErrUnmatchUid

definition block_version_of :: "Block option \<Rightarrow> u32" where
  "block_version_of pb =
     (case pb of None \<Rightarrow> 0 | Some b \<Rightarrow> (case b_Header b of None \<Rightarrow> 0 | Some h \<Rightarrow> BlockVersion h))"

definition verifyProposal :: "env \<Rightarrow> Proposal \<Rightarrow> msgError option go" where
  "verifyProposal e proposal =
     (case p_Endorsement proposal of None \<Rightarrow> Inr (Some ErrNilEndorsement)
      | Some en \<Rightarrow>
        if Signer en = None then Inr (Some ErrNilEndorsement)
        else go_bind (CopyProposalWithBlockHeader proposal) (\<lambda>copy.
          (case ac_CreatePrincipal (e_ac e) (p_Endorsement proposal) (marshalProposal (e_codec e) copy) of
             None \<Rightarrow> Inr (Some ErrPrincipal)
           | Some pr \<Rightarrow>
             (case ac_VerifyMsgPrincipal (e_ac e) pr (block_version_of (p_Block proposal)) of
                None \<Rightarrow> Inr (Some ErrPolicy)
              | Some result \<Rightarrow> if \<not> result then Inr (Some ErrPolicyResult) else Inr None))))"

fun trust_member_uid :: "TrustMemberConfig list \<Rightarrow> string \<Rightarrow> string" where
  "trust_member_uid [] info = []"
| "trust_member_uid (v # vs) info = (if tm_MemberInfo v = info then tm_NodeId v else trust_member_uid vs info)"

definition verifyVote :: "env \<Rightarrow> u32 \<Rightarrow> Vote \<Rightarrow> msgError option" where
  "verifyVote e bv voteProto =
     (case v_Endorsement voteProto of None \<Rightarrow> Some ErrNilEndorsement
      | Some en \<Rightarrow>
        (case Signer en of None \<Rightarrow> Some ErrNilEndorsement
         | Some signer \<Rightarrow>
           (let message = marshalVote (e_codec e) (voteProto\<lparr>v_Endorsement := None\<rparr>) in
            case ac_CreatePrincipal (e_ac e) (Some en) message of
              None \<Rightarrow> Some ErrPrincipal
            | Some pr \<Rightarrow>
              (case ac_VerifyMsgPrincipal (e_ac e) pr bv of
                 None \<Rightarrow> Some ErrPolicy
               | Some result \<Rightarrow>
                 if \<not> result then Some ErrPolicyResult
                 else
                   (case ac_NewMember (e_ac e) signer of None \<Rightarrow> Some ErrNewMember
                    | Some certId \<Rightarrow>
                      (let uid = trust_member_uid (cfg_TrustMembers (e_ChainConfig e)) (MemberInfo signer) in
                       case (if uid = [] then e_GetNodeUidByCertId e certId else Some uid) of
                         None \<Rightarrow> Some ErrNodeUid
                       | Some uid' \<Rightarrow> if uid' \<noteq> v_Voter voteProto then Some ErrUnmatchUid else None))))))"

subsection \<open>The proposer\<close>

definition proposer_of :: "TBFT \<Rightarrow> u64 \<Rightarrow> i32 \<Rightarrow> string go" where
  "proposer_of c height round =
     go_bind (GetProposer (valSet c) (blockVersion c) (lastHeightProposer c) height round) (\<lambda>r.
       Inr (case r of Inl _ \<Rightarrow> [] | Inr p \<Rightarrow> p))"

definition isProposer :: "TBFT \<Rightarrow> u64 \<Rightarrow> i32 \<Rightarrow> bool go" where
  "isProposer c height round = go_bind (proposer_of c height round) (\<lambda>p. Inr (p = Id c))"

definition getLastBlockProposer :: "env \<Rightarrow> string go" where
  "getLastBlockProposer e =
     (case e_LastCommittedBlock e of None \<Rightarrow> Inr []
      | Some lastBlock \<Rightarrow>
        go_bind (deref (b_Header lastBlock)) (\<lambda>header.
          (case Proposer header of None \<Rightarrow> Inr []
           | Some m \<Rightarrow>
             (case ac_NewMember (e_ac e) m of None \<Rightarrow> Inr []
              | Some certId \<Rightarrow>
                (case e_GetNodeUidByCertId e certId of None \<Rightarrow> Inr [] | Some uid \<Rightarrow> Inr uid)))))"

subsection \<open>Timeouts\<close>

definition i64_of_i32 :: "i32 \<Rightarrow> i64" where
  "i64_of_i32 r = word_of_int (sint r)"

definition ProposeTimeout :: "TBFT \<Rightarrow> i32 \<Rightarrow> i64" where
  "ProposeTimeout c round = TimeoutPropose c + TimeoutProposeDelta c * i64_of_i32 round"

definition PrevoteTimeout :: "i32 \<Rightarrow> i64" where
  "PrevoteTimeout round = 30000000000 + 1000000000 * i64_of_i32 round"

definition PrecommitTimeout :: "i32 \<Rightarrow> i64" where
  "PrecommitTimeout round = 30000000000 + 1000000000 * i64_of_i32 round"

definition CommitTimeout :: "i32 \<Rightarrow> i64" where
  "CommitTimeout round = 30000000000 * i64_of_i32 round"

definition AddTimeout :: "i64 \<Rightarrow> u64 \<Rightarrow> i32 \<Rightarrow> Step \<Rightarrow> TBFT \<Rightarrow> TBFT" where
  "AddTimeout duration height round step =
     emit (Timeout \<lparr>ti_Duration = duration, ti_Height = height, ti_Round = round, ti_Step = step\<rparr>)"

definition TimeDisconnet :: i64 where
  "TimeDisconnet = 3000"

definition beatTime :: "TBFT \<Rightarrow> string \<Rightarrow> i64" where
  "beatTime c validator = map_get0 (validatorsBeatTime (valSet c)) validator"

text \<open>
  The proposer's share of time. With the optimisation a proposer that lags or is silent gets a
  short timeout, otherwise the timer for the next look at it is started; without it the
  timeout shrinks with the proposer's lag, to two seconds at least.
\<close>

definition getProposeTimeout :: "env \<Rightarrow> TBFT \<Rightarrow> string \<Rightarrow> u64 \<Rightarrow> u64 \<Rightarrow> i32 \<Rightarrow> i64 \<times> TBFT" where
  "getProposeTimeout e c validator validatorHeight height round =
     (let timeout = ProposeTimeout c round in
      if ProposeOptimal c then
        if validator = Id c \<or> height \<le> 1 then (timeout, c)
        else if validatorHeight + word_of_nat (length (Validators (valSet c))) < height
            \<or> sint (e_nowMilli e) > sint (beatTime c validator + TimeDisconnet)
          then (TimeoutProposeOptimal c, c)
          else (timeout, c\<lparr>ProposeOptimalTimer := True\<rparr>)
      else
        (let t = (if height \<le> validatorHeight then 1 else height - validatorHeight);
             timeout' = timeout div t
         in (if sint timeout' < 2000000000 then 2000000000 else timeout', c)))"

end
