(* ===== verification/Tbft_Steps.thy ===== *)
theory Tbft_Steps
  imports Tbft_Core
begin

section \<open>The steps of a height (consensus_tbft_impl.go)\<close>

text \<open>
  The transitions between the steps of a round, rounds and heights, and the processing of a
  vote that was added to the vote sets. Each definition is one method, with its guard and all
  its calls; a transition whose guard fails leaves the state as it is (up to the stop of the
  proposal timer, which comes first).
\<close>

subsection \<open>Committing\<close>

definition commitBlock :: "env \<Rightarrow> pref \<Rightarrow> ProtoVoteSet option \<Rightarrow> TBFT \<Rightarrow> TBFT go" where
  "commitBlock e r voteSet c =
     go_bind (deref (p_Block (heap c r))) (\<lambda>block.
     go_bind (deref (b_Header block)) (\<lambda>_.
       (let qc = marshalVoteSet (e_codec e) voteSet;
            extra = (case b_AdditionalData block of None \<Rightarrow> Map.empty | Some m \<Rightarrow> m);
            block' = block\<lparr>b_AdditionalData := Some (extra(TBFTAddtionalDataKey \<mapsto> Some qc))\<rparr>;
            c1 = hwrite r (\<lambda>p. p\<lparr>p_Block := Some block'\<rparr>) c
        in Inr (emit (CommitBlock block') c1))))"

subsection \<open>Prevote\<close>

text \<open>The hash to prevote: the locked proposal's, else the proposal's, else nil.\<close>

definition prevote_hash :: "TBFT \<Rightarrow> gobytes" where
  "prevote_hash c =
     (case cs_LockedProposal (cState c) of
        Some p \<Rightarrow> ref_hash c p
      | None \<Rightarrow> (case cs_Proposal (cState c) of Some tp \<Rightarrow> ref_hash c (PbMsg tp) | None \<Rightarrow> nilHash))"

definition castPrevote :: "env \<Rightarrow> gobytes \<Rightarrow> TBFT \<Rightarrow> TBFT" where
  "castPrevote e hash c =
     (let prevote = NewVote VOTE_PREVOTE (Id c) (Height c) (Round c) hash;
          prevote1 = (if bytes_Equal hash nilHash then prevote\<lparr>v_InvalidTxs := invalidTxs c\<rparr> else prevote);
          c1 = emit (SignVote prevote1) c;
          prevote2 = signVote e prevote1
      in trySendInternal (createPrevoteConsensusMsg prevote2) c1)"

definition enterPrevote :: "env \<Rightarrow> u64 \<Rightarrow> i32 \<Rightarrow> TBFT \<Rightarrow> TBFT" where
  "enterPrevote e height round c0 =
     (let c = c0\<lparr>ProposeOptimalTimer := False\<rparr> in
      if Height c \<noteq> height \<or> sint (Round c) > sint round
         \<or> (Round c = round \<and> StepOf c \<noteq> PROPOSE)
      then c
      else
        (let c1 = upd_state (\<lambda>s. s\<lparr>cs_Step := PREVOTE\<rparr>) c;
             c2 = sendProposeState False c1
         in castPrevote e (prevote_hash c2) c2))"

subsection \<open>Precommit\<close>

definition delInvalidTxs :: "VoteSet option \<Rightarrow> gobytes \<Rightarrow> TBFT \<Rightarrow> TBFT" where
  "delInvalidTxs vs hash c =
     (if isNilHash hash then
        (case delInvalidTx vs (Height c) of None \<Rightarrow> c
         | Some payload \<Rightarrow> emit (ConsensusFailTxs payload) c)
      else c)"

definition unlock :: "ConsensusState \<Rightarrow> ConsensusState" where
  "unlock s = s\<lparr>cs_LockedRound := -1, cs_LockedProposal := None\<rparr>"

text \<open>The switch over the majority of the prevotes: the new lock and the hash to precommit.\<close>

definition precommit_lock :: "TBFT \<Rightarrow> i32 \<Rightarrow> gobytes \<Rightarrow> TBFT \<times> gobytes" where
  "precommit_lock c round hash =
     (let s = cState c in
      if isNilHash hash then
        (if cs_LockedProposal s = None then (c, hash) else (upd_state unlock c, hash))
      else if (case cs_LockedProposal s of None \<Rightarrow> False | Some p \<Rightarrow> bytes_Equal hash (ref_hash c p)) then
        (upd_state (\<lambda>s. s\<lparr>cs_LockedRound := round\<rparr>) c, hash)
      else
        (case cs_Proposal s of
           Some tp \<Rightarrow>
             if bytes_Equal hash (ref_hash c (PbMsg tp))
             then (upd_state (\<lambda>s. s\<lparr>cs_LockedRound := round, cs_LockedProposal := Some (PbMsg tp)\<rparr>) c, hash)
             else (upd_state unlock c, nilHash)
         | None \<Rightarrow> (upd_state unlock c, nilHash)))"

definition castPrecommit :: "env \<Rightarrow> gobytes \<Rightarrow> TBFT \<Rightarrow> TBFT" where
  "castPrecommit e hash c =
     (let precommit = NewVote VOTE_PRECOMMIT (Id c) (Height c) (Round c) hash;
          c1 = emit (SignVote precommit) c;
          precommit' = signVote e precommit
      in trySendInternal (createPrecommitConsensusMsg precommit') c1)"

definition enterPrecommit :: "env \<Rightarrow> u64 \<Rightarrow> i32 \<Rightarrow> TBFT \<Rightarrow> TBFT go" where
  "enterPrecommit e height round c =
     (if Height c \<noteq> height \<or> sint (Round c) > sint round
         \<or> (Round c = round \<and> StepOf c \<noteq> PREVOTE)
      then Inr c
      else
        (let c1 = upd_state (\<lambda>s. s\<lparr>cs_Step := PRECOMMIT\<rparr>) c in
         go_bind (hvs_of c1) (\<lambda>hvs.
           (let voteSet = prevotes hvs (Round c1);
                (hash, ok) = twoThirdsMajority voteSet;
                c2 = delInvalidTxs voteSet hash c1
            in go_bind
                 (if \<not> ok then
                    if hasTwoThirdsAny (valSet c2) voteSet \<or> hasTwoThirdsNoMajority (valSet c2) voteSet
                    then Inr (c2, nilHash) else Inl ShouldNotHappen
                  else Inr (precommit_lock c2 round hash))
                 (\<lambda>(c3, hash'). Inr (castPrecommit e hash' c3))))))"

subsection \<open>Propose and new rounds\<close>

fun sendFuturePrevotes :: "(string \<times> Vote) list \<Rightarrow> TBFT \<Rightarrow> bool \<times> TBFT" where
  "sendFuturePrevotes [] c = (True, c)"
| "sendFuturePrevotes ((k, prevote) # vs) c =
     (case trySendExternal (MsgPrevote prevote) c of
        (True, c1) \<Rightarrow> sendFuturePrevotes vs c1 | (False, c1) \<Rightarrow> (False, c1))"

fun sendFuturePrecommits :: "(string \<times> Vote) list \<Rightarrow> TBFT \<Rightarrow> bool \<times> TBFT" where
  "sendFuturePrecommits [] c = (True, c)"
| "sendFuturePrecommits ((k, precommit) # vs) c =
     (case trySendExternal (MsgPrecommit precommit) c of
        (True, c1) \<Rightarrow> sendFuturePrecommits vs c1 | (False, c1) \<Rightarrow> (False, c1))"

definition sendFutureVotes :: "roundVoteSet \<Rightarrow> TBFT \<Rightarrow> TBFT go" where
  "sendFutureVotes roundVs c =
     go_bind (deref (rvs_Prevotes roundVs)) (\<lambda>pv.
       (case sendFuturePrevotes (vs_Votes pv) c of
          (False, c1) \<Rightarrow> Inr c1
        | (True, c1) \<Rightarrow>
          go_bind (deref (rvs_Precommits roundVs)) (\<lambda>pc.
            Inr (snd (sendFuturePrecommits (vs_Votes pc) c1)))))"

definition getFutureMsgFromCache :: "u64 \<Rightarrow> i32 \<Rightarrow> TBFT \<Rightarrow> TBFT go" where
  "getFutureMsgFromCache height round c =
     go_bind
       (case getConsensusFutureProposal (futureCache c) height round of
          None \<Rightarrow> Inr (True, c)
        | Some proposal \<Rightarrow>
          (let r = trySendExternal (MsgPropose (Some proposal)) c
           in go_bind (Block_Hash (p_Block proposal)) (\<lambda>_. Inr r)))
       (\<lambda>(go_on, c1).
         if \<not> go_on then Inr c1
         else
           (case getConsensusFutureVote (futureCache c1) height round of
              None \<Rightarrow> Inr c1
            | Some roundVs \<Rightarrow> sendFutureVotes roundVs c1))"

text \<open>
  What the proposer does at its turn: it offers its valid proposal again, or asks the core
  engine for a block. The flag says whether to go on: a full \<open>proposedBlockC\<close> makes
  \<open>enterPropose\<close> return.
\<close>

definition offer_block :: "bool \<Rightarrow> TBFT \<Rightarrow> bool \<times> TBFT" where
  "offer_block mine c =
     (if mine then
        (case cs_ValidProposal (cState c) of
           Some r \<Rightarrow>
             (let pb = \<lparr>pb_Block = p_Block (heap c r), pb_TxsRwSet = p_TxsRwSet (heap c r), pb_CutBlock = None\<rparr>;
                  pp = \<lparr>pp_proposedBlock = pb, pp_qc = p_Qc (heap c r)\<rparr>
              in if length (proposedBlockC c) < defaultChanCap
                 then (True, c\<lparr>proposedBlockC := proposedBlockC c @ [pp]\<rparr>)
                 else (False, c))
         | None \<Rightarrow>
             (True, if checkProposed (Some (valSet c)) (Height c) then sendProposeState True c else c))
      else (True, sendProposeState False c))"

text \<open>The part of \<open>enterPropose\<close> between the guard and the cached messages.\<close>

definition propose_turn :: "env \<Rightarrow> u64 \<Rightarrow> i32 \<Rightarrow> TBFT \<Rightarrow> (bool \<times> TBFT) go" where
  "propose_turn e height round c =
     (let c1 = upd_state (\<lambda>s. s\<lparr>cs_Step := PROPOSE\<rparr>) c in
      go_bind (proposer_of c1 height round) (\<lambda>validator.
        (let validatorHeight = map_get0 (validatorsHeight (valSet c1)) validator;
             (timeout, c2) = getProposeTimeout e c1 validator validatorHeight height round;
             c3 = AddTimeout timeout height round PREVOTE c2
         in go_bind (isProposer c3 height round) (\<lambda>mine. Inr (offer_block mine c3)))))"

definition enterPropose :: "env \<Rightarrow> u64 \<Rightarrow> i32 \<Rightarrow> TBFT \<Rightarrow> TBFT go" where
  "enterPropose e height round c0 =
     (let c = c0\<lparr>ProposeOptimalTimer := False\<rparr> in
      if Height c \<noteq> height \<or> sint (Round c) > sint round
         \<or> (Round c = round \<and> StepOf c \<noteq> NEW_ROUND)
      then Inr c
      else
        go_bind (propose_turn e height round c) (\<lambda>(go_on, c1).
          if go_on then getFutureMsgFromCache (Height c1) (Round c1) c1 else Inr c1))"

definition refresh_config :: "env \<Rightarrow> TBFT \<Rightarrow> TBFT go" where
  "refresh_config e c =
     go_bind (GetBlockVersion (e_ChainConfig e)) (\<lambda>bv.
       (let c1 = c\<lparr>blockVersion := bv\<rparr> in
        if bv \<ge> blockVersion231
        then go_bind (getLastBlockProposer e) (\<lambda>p. Inr (c1\<lparr>lastHeightProposer := p\<rparr>))
        else Inr c1))"

definition enterNewRound :: "env \<Rightarrow> u64 \<Rightarrow> i32 \<Rightarrow> TBFT \<Rightarrow> TBFT go" where
  "enterNewRound e height round c0 =
     go_bind (refresh_config e c0) (\<lambda>c.
       if Height c > height \<or> sint (Round c) > sint round
          \<or> (Round c = round \<and> StepOf c \<noteq> NEW_HEIGHT)
       then Inr c
       else
         (let c1 = upd_state (\<lambda>s. s\<lparr>cs_Height := height, cs_Round := round, cs_Step := NEW_ROUND,
                                   cs_Proposal := None, cs_VerifingProposal := None\<rparr>) c;
              c2 = c1\<lparr>invalidTxs := []\<rparr>
          in enterPropose e height round c2))"

subsection \<open>Commit\<close>

text \<open>The proposal that is committed: the locked one, when the precommits are for it.\<close>

definition commit_proposal :: "env \<Rightarrow> gobytes \<Rightarrow> TBFT \<Rightarrow> TBFT go" where
  "commit_proposal e hash c =
     (case cs_LockedProposal (cState c) of
        None \<Rightarrow> Inr c
      | Some lp \<Rightarrow>
        if \<not> bytes_Equal hash (ref_hash c lp) then Inr c
        else if (case cs_Proposal (cState c) of None \<Rightarrow> True
                 | Some tp \<Rightarrow> \<not> bytes_Equal (ref_hash c (PbMsg tp)) (ref_hash c lp))
        then go_bind (isProposer c (Height c) (Round c)) (\<lambda>mine.
               Inr (upd_state (\<lambda>s. s\<lparr>cs_Proposal := Some (NewTBFTProposal e c lp mine)\<rparr>) c))
        else Inr c)"

text \<open>The end of \<open>enterCommit\<close>: the block is committed, or a new round begins.\<close>

definition finishCommit :: "env \<Rightarrow> i32 \<Rightarrow> gobytes \<Rightarrow> VoteSet option \<Rightarrow> TBFT \<Rightarrow> TBFT go" where
  "finishCommit e round hash voteSet c =
     (let hash' = (case cs_Proposal (cState c) of None \<Rightarrow> hash
            | Some tp \<Rightarrow> if \<not> bytes_Equal hash (ref_hash c (PbMsg tp)) then nilHash else hash)
      in if isNilHash hash' then enterNewRound e (Height c) (round + 1) c
         else (case cs_Proposal (cState c) of
            None \<Rightarrow> enterNewRound e (Height c) (round + 1) c
          | Some tp \<Rightarrow>
            if \<not> bytes_Equal hash' (ref_hash c (PbMsg tp)) then Inl BlockMatchFailed
            else commitBlock e (PbMsg tp) (VoteSet_ToProto voteSet) c))"

definition enterCommit :: "env \<Rightarrow> u64 \<Rightarrow> i32 \<Rightarrow> TBFT \<Rightarrow> TBFT go" where
  "enterCommit e height round c =
     (if Height c \<noteq> height \<or> sint (Round c) > sint round
         \<or> (Round c = round \<and> StepOf c \<noteq> PRECOMMIT)
      then Inr c
      else
        (let c1 = upd_state (\<lambda>s. s\<lparr>cs_Step := COMMIT\<rparr>) c in
         go_bind (hvs_of c1) (\<lambda>hvs.
           (let voteSet = precommits hvs (Round c1);
                (hash, ok) = twoThirdsMajority voteSet
            in if \<not> isNilHash hash \<and> \<not> ok then Inl CommitWithoutMajority
               else go_bind (commit_proposal e hash c1) (\<lambda>c2. finishCommit e round hash voteSet c2)))))"

subsection \<open>New heights\<close>

definition updateChainConfig :: "env \<Rightarrow> TBFT \<Rightarrow> TBFT \<times> string list \<times> string list" where
  "updateChainConfig e c =
     (case extractConsensusConfig (e_ParseDuration e) (e_ChainConfig e) (cfg_Consensus (e_ChainConfig e)) of
        None \<Rightarrow> (c, [], [])
      | Some (validators, tc) \<Rightarrow>
        (let c1 = c\<lparr>ProposeOptimal := tc_proposeOptimal tc,
                    TimeoutProposeOptimal := tc_timeoutProposeOptimal tc,
                    TimeoutPropose := tc_timeoutPropose tc,
                    TimeoutProposeDelta := tc_timeoutProposeDelta tc\<rparr> in
         case (case e_extendHandler e of
                 Some x \<Rightarrow> map_option (\<lambda>vs. (vs, valSet c1)) (x_GetValidators x)
               | None \<Rightarrow> Some (validators, updateBlocksPerProposer (valSet c1) (tc_blocksPerProposer tc))) of
           None \<Rightarrow> (c1, [], [])
         | Some (vs, V) \<Rightarrow>
           (case updateValidators V vs of (V', added, removed) \<Rightarrow> (c1\<lparr>valSet := V'\<rparr>, added, removed))))"

fun emit_all :: "Out list \<Rightarrow> TBFT \<Rightarrow> TBFT" where
  "emit_all [] c = c"
| "emit_all (o1 # os) c = emit_all os (emit o1 c)"

text \<open>The state with which a height begins: configuration, archive, caches and vote sets.\<close>

definition newHeightState :: "env \<Rightarrow> u64 \<Rightarrow> TBFT \<Rightarrow> TBFT" where
  "newHeightState e height c =
     (let (c1, added, removed) = updateChainConfig e c;
          c2 = emit_all (map PutRemoter added @ map RemoveRemoter removed) c1;
          c3 = c2\<lparr>stateCache := addConsensusState (stateCache c2) (Some (cState c2))\<rparr>;
          c4 = c3\<lparr>cState := (NewConsensusState (Id c3))\<lparr>cs_Height := height\<rparr>\<rparr>;
          c5 = c4\<lparr>futureCache := updateConsensusHeight (futureCache c4) height\<rparr>;
          c6 = c5\<lparr>valSet := (valSet c5)\<lparr>validatorsHeight := (validatorsHeight (valSet c5))(Id c5 \<mapsto> height)\<rparr>\<rparr>
      in upd_state (\<lambda>s. s\<lparr>cs_Round := 0, cs_LockedRound := -1, cs_LockedProposal := None,
           cs_ValidRound := -1, cs_ValidProposal := None, cs_Step := NEW_HEIGHT,
           cs_heightRoundVoteSet := Some (newHeightRoundVoteSet height 0)\<rparr>) c6)"

definition enterNewHeight :: "env \<Rightarrow> u64 \<Rightarrow> TBFT \<Rightarrow> TBFT go" where
  "enterNewHeight e height c =
     (if Height c \<ge> height then Inr c else enterNewRound e height 0 (newHeightState e height c))"

subsection \<open>A vote that was added\<close>

text \<open>The votes of a hash, appended to the certificate of a proposal.\<close>

definition append_qc :: "pref \<Rightarrow> (string \<times> Vote) list \<Rightarrow> TBFT \<Rightarrow> TBFT" where
  "append_qc r votes = hwrite r (\<lambda>p. p\<lparr>p_Qc :=
     (if votes = [] then p_Qc p
      else Some ((case p_Qc p of None \<Rightarrow> [] | Some q \<Rightarrow> q) @ map snd votes))\<rparr>)"

text \<open>The valid proposal follows the majority, or the round's proposal is dropped.\<close>

definition update_valid :: "VoteSet option \<Rightarrow> gobytes \<Rightarrow> Vote \<Rightarrow> TBFTProposal \<Rightarrow> TBFT \<Rightarrow> TBFT go" where
  "update_valid voteSet hash vote tp c =
     (if \<not> isNilHash hash \<and> sint (cs_ValidRound (cState c)) < sint (v_Round vote) \<and> v_Round vote = Round c then
        (if bytes_Equal hash (ref_hash c (PbMsg tp)) then
           go_bind (deref voteSet) (\<lambda>vs.
           go_bind (votesOfHash vs hash) (\<lambda>votes.
             Inr (append_qc (PbMsg tp) votes
               (upd_state (\<lambda>s. s\<lparr>cs_ValidRound := v_Round vote, cs_ValidProposal := Some (PbMsg tp)\<rparr>) c))))
         else Inr (upd_state (\<lambda>s. s\<lparr>cs_Proposal := None\<rparr>) c))
      else Inr c)"

text \<open>The lock is given up for a majority of prevotes for another block in a higher round.\<close>

definition unlock_on_majority :: "gobytes \<Rightarrow> Vote \<Rightarrow> TBFT \<Rightarrow> TBFT" where
  "unlock_on_majority hash vote c =
     (case cs_LockedProposal (cState c) of None \<Rightarrow> c
      | Some lp \<Rightarrow>
        if sint (cs_LockedRound (cState c)) < sint (v_Round vote)
           \<and> sint (v_Round vote) \<le> sint (Round c) \<and> \<not> bytes_Equal hash (ref_hash c lp)
        then upd_state unlock c else c)"

definition follow_prevotes :: "env \<Rightarrow> VoteSet option \<Rightarrow> gobytes \<Rightarrow> Vote \<Rightarrow> TBFT \<Rightarrow> TBFT go" where
  "follow_prevotes e voteSet hash vote c0 =
     (let c = unlock_on_majority hash vote c0 in
      case cs_Proposal (cState c) of
        Some tp \<Rightarrow>
          go_bind (update_valid voteSet hash vote tp c) (\<lambda>c1. enterPrecommit e (Height c1) (Round c1) c1)
      | None \<Rightarrow> enterPrecommit e (Height c) (Round c) c)"

definition addPrevoteVote :: "env \<Rightarrow> Vote \<Rightarrow> TBFT \<Rightarrow> TBFT go" where
  "addPrevoteVote e vote c =
     (if StepOf c \<noteq> PREVOTE then Inr c
      else go_bind (hvs_of c) (\<lambda>hvs.
        (let voteSet = prevotes hvs (v_Round vote);
             (hash, ok) = twoThirdsMajority voteSet
         in if \<not> ok \<or> map_option vs_Round voteSet \<noteq> Some (Round c) then
              (if Round c = v_Round vote \<and> hasTwoThirdsAny (valSet c) voteSet
               then enterPrecommit e (Height c) (Round c) c
               else if Round c = v_Round vote \<and> hasTwoThirdsNoMajority (valSet c) voteSet
               then Inr (AddTimeout (PrevoteTimeout (Round c)) (Height c) (Round c) PRECOMMIT c)
               else Inr c)
            else follow_prevotes e voteSet hash vote c)))"

definition addPrecommitVote :: "env \<Rightarrow> Vote \<Rightarrow> TBFT \<Rightarrow> TBFT go" where
  "addPrecommitVote e vote c =
     (if StepOf c \<noteq> PRECOMMIT then Inr c
      else go_bind (hvs_of c) (\<lambda>hvs.
        (let voteSet = precommits hvs (v_Round vote);
             (hash, ok) = twoThirdsMajority voteSet
         in if \<not> ok \<or> map_option vs_Round voteSet \<noteq> Some (Round c) then
              (if Round c = v_Round vote \<and> hasTwoThirdsAny (valSet c) voteSet
               then enterCommit e (Height c) (Round c) c
               else if Round c = v_Round vote \<and> hasTwoThirdsNoMajority (valSet c) voteSet
               then Inr (AddTimeout (PrecommitTimeout (Round c)) (Height c) (Round c) COMMIT c)
               else Inr c)
            else
              (case cs_Proposal (cState c) of
                 Some tp \<Rightarrow>
                   if isNilHash hash \<or> bytes_Equal hash (ref_hash c (PbMsg tp))
                   then enterCommit e (Height c) (Round c) c else Inr c
               | None \<Rightarrow> enterCommit e (Height c) (Round c) c))))"

subsection \<open>The write-ahead log\<close>

definition saveWalEntry :: "env \<Rightarrow> Proposal \<Rightarrow> TBFT \<Rightarrow> TBFT go" where
  "saveWalEntry e entry c =
     (if walWriteMode c = e_NonWalWrite e then Inr c
      else if \<not> e_walWriteOk e then Inl LogFatal
      else Inr (emit (WalWrite (Height c) entry) c))"

text \<open>The log entry that goes with the node's own precommit for its proposal.\<close>

definition save_precommit :: "env \<Rightarrow> Vote \<Rightarrow> TBFT \<Rightarrow> TBFT go" where
  "save_precommit e vote c =
     (case cs_Proposal (cState c) of None \<Rightarrow> Inr c
      | Some tp \<Rightarrow>
        (case p_Block (heap c (PbMsg tp)) of None \<Rightarrow> Inr c
         | Some b \<Rightarrow>
           if \<not> bytes_Equal (ref_hash c (PbMsg tp)) (v_Hash vote) then Inr c
           else go_bind (hvs_of c) (\<lambda>hvs.
             (let voteSet = prevotes hvs (Round c);
                  (hash, ok) = twoThirdsMajority voteSet
              in if ok \<and> \<not> bytes_Equal hash nilHash then
                   go_bind
                     (if p_Qc (heap c (PbMsg tp)) = Some [] then
                        go_bind (deref voteSet) (\<lambda>vs.
                        go_bind (votesOfHash vs hash) (\<lambda>votes. Inr (append_qc (PbMsg tp) votes c)))
                      else Inr c)
                     (\<lambda>c1. saveWalEntry e (heap c1 (PbMsg tp)) c1)
                 else Inr c))))"

definition addVote :: "env \<Rightarrow> Vote \<Rightarrow> bool \<Rightarrow> TBFT \<Rightarrow> TBFT go" where
  "addVote e vote replayMode c =
     go_bind (hvs_of c) (\<lambda>hvs.
     go_bind (hvs_addVote (valSet c) hvs (Some vote)) (\<lambda>(hvs', added, err).
       (let c1 = put_hvs hvs' c in
        if err \<noteq> None then Inr c1
        else
          go_bind
            (case v_Type vote of
               VOTE_PREVOTE \<Rightarrow> addPrevoteVote e vote c1
             | VOTE_PRECOMMIT \<Rightarrow> addPrecommitVote e vote c1
             | VOTE_OTHER _ \<Rightarrow> Inr c1)
            (\<lambda>c2.
              if Id c2 = v_Voter vote then
                go_bind (if v_Type vote = VOTE_PRECOMMIT \<and> \<not> replayMode then save_precommit e vote c2 else Inr c2)
                  (\<lambda>c3. sendConsensusVote e vote [] c3)
              else Inr c2))))"

end
