(* ===== verification/Tbft_Handlers.thy ===== *)
theory Tbft_Handlers
  imports Tbft_Steps
begin

section \<open>The handlers of the consensus loop (consensus_tbft_impl.go)\<close>

text \<open>
  The handlers that the loop \<open>handle\<close> calls for the messages of its channels, the entry
  points that fill the channels, the replay of the log at the start, and the loop itself as
  one step per selected channel.

  A cut block (a block without the bodies of its transactions) shares the header object of the
  block it was cut from, so that the signed hash is written into both.
\<close>

subsection \<open>A block from the core engine\<close>

definition set_header :: "BlockHeader \<Rightarrow> Block \<Rightarrow> Block" where
  "set_header h b = b\<lparr>b_Header := Some h\<rparr>"

text \<open>The extension's consensus arguments; None is the early return after an error.\<close>

definition create_rwset :: "env \<Rightarrow> Block \<Rightarrow> RwSets \<Rightarrow> (Block \<times> RwSets) option" where
  "create_rwset e block rw =
     (case e_extendHandler e of None \<Rightarrow> Some (block, rw)
      | Some x \<Rightarrow>
        (case b_Header block of None \<Rightarrow> None | Some h \<Rightarrow> x_CreateRWSet x (PreBlockHash h) block rw))"

text \<open>The header that is proposed: signed anew, or as it was when the proposal has a certificate.\<close>

definition proposal_header :: "env \<Rightarrow> Vote list option \<Rightarrow> Block \<Rightarrow> BlockHeader \<Rightarrow> BlockHeader option" where
  "proposal_header e qc block header =
     (case qc of
        Some _ \<Rightarrow> Some header
      | None \<Rightarrow>
        (case e_SignBlock e (cfg_CryptoHash (e_ChainConfig e)) block of None \<Rightarrow> None
         | Some (hash, sig) \<Rightarrow> Some (header\<lparr>BlockHash := Some hash, h_Signature := sig\<rparr>)))"

text \<open>
  The proposal that is signed: the block, or the cut block when there is one; a certificate
  travels with the read-write sets.
\<close>

definition build_proposal ::
    "TBFT \<Rightarrow> proposedProposal \<Rightarrow> Block \<Rightarrow> RwSets \<Rightarrow> BlockHeader \<Rightarrow> Proposal" where
  "build_proposal c pp block rw header =
     (let proposal0 = NewProposal (Id c) (Height c) (Round c) (-1) (set_header header block);
          proposal1 = (if pp_qc pp = None then proposal0
                       else proposal0\<lparr>p_TxsRwSet := rw, p_Qc := pp_qc pp\<rparr>)
      in case pb_CutBlock (pp_proposedBlock pp) of None \<Rightarrow> proposal1
         | Some b \<Rightarrow> proposal1\<lparr>p_Block := Some (set_header header b)\<rparr>)"

text \<open>
  The signed proposal becomes the round's: it is encoded as signed, gets back the whole block
  and the read-write sets, and is sent; then the node prevotes.
\<close>

definition publish_proposal :: "env \<Rightarrow> Proposal \<Rightarrow> Block option \<Rightarrow> RwSets \<Rightarrow> TBFT \<Rightarrow> TBFT" where
  "publish_proposal e proposal whole rw c =
     (let (r, c1) = alloc proposal c;
          tp = NewTBFTProposal e c1 r True;
          c2 = upd_state (\<lambda>s. s\<lparr>cs_Proposal := Some tp\<rparr>) c1;
          c3 = (case whole of None \<Rightarrow> c2 | Some b \<Rightarrow> hwrite r (\<lambda>p. p\<lparr>p_Block := Some b\<rparr>) c2);
          c4 = hwrite r (\<lambda>p. p\<lparr>p_TxsRwSet := rw\<rparr>) c3;
          c5 = sendConsensusProposal (Some tp) [] c4
      in enterPrevote e (Height c5) (Round c5) c5)"

definition handleProposedBlock :: "env \<Rightarrow> proposedProposal \<Rightarrow> TBFT \<Rightarrow> TBFT go" where
  "handleProposedBlock e pp c =
     go_bind (deref (pb_Block (pp_proposedBlock pp))) (\<lambda>oriBlock.
     go_bind (deref (b_Header oriBlock)) (\<lambda>header0.
     go_bind (isProposer c (Height c) (Round c)) (\<lambda>mine.
       if BlockHeight header0 \<noteq> Height c then Inr c
       else if \<not> mine then Inr c
       else if StepOf c \<noteq> PROPOSE then Inr c
       else
         (let c1 = sendProposeState False c in
          case create_rwset e (CopyBlock oriBlock) (pb_TxsRwSet (pp_proposedBlock pp)) of
            None \<Rightarrow> Inr c1
          | Some (block, rw) \<Rightarrow>
            go_bind (deref (b_Header block)) (\<lambda>header1.
            (case proposal_header e (pp_qc pp) block header1 of
               None \<Rightarrow> Inr c1
             | Some header \<Rightarrow>
               go_bind (signProposal e (build_proposal c1 pp block rw header)) (\<lambda>signed.
                 (case signed of None \<Rightarrow> Inr c1
                  | Some proposal \<Rightarrow>
                    Inr (publish_proposal e proposal
                      (if pb_CutBlock (pp_proposedBlock pp) = None then None
                       else Some (set_header header oriBlock)) rw c1)))))))))"

subsection \<open>The result of a verification\<close>

text \<open>The block failed: its invalid transactions, if there are any, go into a nil prevote.\<close>

definition rejectVerified :: "env \<Rightarrow> VerifyResult \<Rightarrow> TBFT \<Rightarrow> TBFT" where
  "rejectVerified e vr c0 =
     (let c = upd_state (\<lambda>s. s\<lparr>cs_VerifingProposal := None\<rparr>) c0 in
      case vr_RwSetVerifyFailTxs vr of
        Some f \<Rightarrow>
          if fail_TxIds f \<noteq> []
          then enterPrevote e (Height c) (Round c) (c\<lparr>invalidTxs := fail_TxIds f\<rparr>)
          else c
      | None \<Rightarrow> c)"

text \<open>The block passed, and no certificate waits for it.\<close>

definition acceptVerified :: "env \<Rightarrow> VerifyResult \<Rightarrow> gobytes \<Rightarrow> TBFTProposal \<Rightarrow> TBFT \<Rightarrow> TBFT" where
  "acceptVerified e vr hash vp c0 =
     (let c = c0\<lparr>invalidTxs := []\<rparr> in
      if StepOf c \<noteq> PROPOSE \<or> \<not> bytes_Equal (ref_hash c (PbMsg vp)) hash
      then upd_state (\<lambda>s. s\<lparr>cs_VerifingProposal := None\<rparr>) c
      else if (case e_extendHandler e of None \<Rightarrow> False
               | Some x \<Rightarrow> \<not> x_VerifyConsensusArgs x (vr_VerifiedBlock vr) (vr_TxsRwSet vr))
      then c
      else
        (let c1 = upd_state (\<lambda>s. s\<lparr>cs_Proposal := Some vp\<rparr>) c;
             c2 = hwrite (PbMsg vp) (\<lambda>p. p\<lparr>p_Block := vr_VerifiedBlock vr, p_TxsRwSet := vr_TxsRwSet vr\<rparr>) c1
         in enterPrevote e (Height c2) (Round c2) c2))"

definition handleVerifyResult :: "env \<Rightarrow> VerifyResult \<Rightarrow> TBFT \<Rightarrow> TBFT go" where
  "handleVerifyResult e vr c =
     go_bind (header_of (vr_VerifiedBlock vr)) (\<lambda>header.
       (let height = BlockHeight header; hash = BlockHash header in
        case cs_VerifingProposal (cState c) of None \<Rightarrow> Inr c
        | Some vp \<Rightarrow>
          if Height c = height \<and> Round c = p_Round (heap c (PbMsg vp)) \<and> vr_Code vr = VerifyResult_FAIL
          then Inr (rejectVerified e vr c)
          else
            (let voteSet = (case cs_heightRoundVoteSet (cState c) of None \<Rightarrow> None
                            | Some hvs \<Rightarrow> precommits hvs (Round c));
                 (quorumHash, ok) = twoThirdsMajority voteSet
             in if bytes_Equal (ref_hash c (PbMsg vp)) hash \<and> ok
                   \<and> bytes_Equal quorumHash (ref_hash c (PbMsg vp))
                then commitBlock e (PbMsg vp) (VoteSet_ToProto voteSet)
                       (upd_state (\<lambda>s. s\<lparr>cs_Proposal := Some vp\<rparr>) c)
                else Inr (acceptVerified e vr hash vp c))))"

definition handleBlockHeight :: "env \<Rightarrow> u64 \<Rightarrow> TBFT \<Rightarrow> TBFT go" where
  "handleBlockHeight e height c =
     (if Height c > height then Inr c else enterNewHeight e (height + 1) c)"

subsection \<open>A proposal from a peer\<close>

text \<open>The result: whether the block was accepted, and the proposal, whose extra data is cleared.\<close>

definition procVerifyBlockWithRwSets :: "env \<Rightarrow> Proposal \<Rightarrow> TBFT \<Rightarrow> (bool \<times> Proposal) go" where
  "procVerifyBlockWithRwSets e proposal c =
     go_bind (VerifyQcFromVotes (e_ac e) (e_codec e) (e_late e) (p_Qc proposal) (valSet c) VOTE_PREVOTE
                (block_version_of (p_Block proposal))) (\<lambda>r.
       (case r of
          Inl _ \<Rightarrow> go_bind (Block_Hash (p_Block proposal)) (\<lambda>_. Inr (False, proposal))
        | Inr vs \<Rightarrow>
          go_bind (deref (p_Block proposal)) (\<lambda>block.
            (let txsRwSet = (case p_TxsRwSet proposal of None \<Rightarrow> [] | Some m \<Rightarrow> map snd m);
                 qc = marshalVoteSet (e_codec e) (VoteSet_ToProto (Some vs));
                 extra = (case b_AdditionalData block of None \<Rightarrow> Map.empty | Some m \<Rightarrow> m);
                 block1 = block\<lparr>b_AdditionalData := Some (extra(TBFTAddtionalDataKey \<mapsto> Some qc))\<rparr>;
                 ok = e_VerifyBlockWithRwSets e block1 txsRwSet
             in Inr (ok, proposal\<lparr>p_Block := Some (block\<lparr>b_AdditionalData := None\<rparr>)\<rparr>)))))"

definition procPropose :: "env \<Rightarrow> Proposal option \<Rightarrow> TBFT \<Rightarrow> TBFT go" where
  "procPropose e pproposal c =
     (case pproposal of None \<Rightarrow> Inr c
      | Some proposal \<Rightarrow>
        (case p_Block proposal of None \<Rightarrow> Inr c
         | Some block \<Rightarrow>
           go_bind (deref (b_Header block)) (\<lambda>header.
             if Height c < p_Height proposal
                \<or> (Height c = p_Height proposal \<and> sint (Round c) < sint (p_Round proposal)) then
               go_bind (addFutureProposal (futureCache c) proposal) (\<lambda>fc. Inr (c\<lparr>futureCache := fc\<rparr>))
             else if Height c \<noteq> BlockHeight header \<or> Round c \<noteq> p_Round proposal \<or> StepOf c \<noteq> PROPOSE then Inr c
             else
               go_bind (proposer_of c (p_Height proposal) (p_Round proposal)) (\<lambda>proposer.
                 if proposer \<noteq> p_Voter proposal then Inr c
                 else if cs_Proposal (cState c) \<noteq> None then Inr c
                 else if cs_VerifingProposal (cState c) \<noteq> None then Inr c
                 else if p_Qc proposal \<noteq> None \<and> p_TxsRwSet proposal \<noteq> None then
                   go_bind (procVerifyBlockWithRwSets e proposal c) (\<lambda>(ok, proposal').
                     if \<not> ok then Inr c
                     else
                       (let (r, c1) = alloc proposal' c;
                            c2 = upd_state (\<lambda>s. s\<lparr>cs_Proposal := Some (NewTBFTProposal e c1 r False)\<rparr>) c1
                        in Inr (enterPrevote e (Height c2) (Round c2) c2)))
                 else
                   (let (r, c1) = alloc proposal c;
                        c2 = upd_state (\<lambda>s. s\<lparr>cs_VerifingProposal := Some (NewTBFTProposal e c1 r False)\<rparr>) c1
                    in Inr (emit (VerifyBlock block) c2))))))"

subsection \<open>Votes from peers and from the node itself\<close>

definition updateValidatorHeight :: "env \<Rightarrow> Vote \<Rightarrow> validatorSet \<Rightarrow> validatorSet" where
  "updateValidatorHeight e vote V =
     (let height = map_get0 (validatorsHeight V) (v_Voter vote);
          V1 = (if height < v_Height vote
                then V\<lparr>validatorsHeight := (validatorsHeight V)(v_Voter vote \<mapsto> v_Height vote)\<rparr> else V)
      in V1\<lparr>validatorsBeatTime := (validatorsBeatTime V1)(v_Voter vote \<mapsto> e_nowMilli e)\<rparr>)"

definition procLocalVote :: "env \<Rightarrow> Vote \<Rightarrow> TBFT \<Rightarrow> TBFT go" where
  "procLocalVote e vote c =
     (if v_Voter vote \<noteq> Id c then Inr c
      else if v_Height vote = Height c then
        go_bind (hvs_of c) (\<lambda>hvs.
        go_bind (hvs_addVote (valSet c) hvs (Some vote)) (\<lambda>(hvs', added, err).
          if err \<noteq> None then Inr (put_hvs hvs' c) else sendConsensusVote e vote [] (put_hvs hvs' c)))
      else
        (case getConsensusState (stateCache c) (v_Height vote) of
           None \<Rightarrow> sendConsensusVote e vote [] c
         | Some cache \<Rightarrow>
           go_bind (deref (cs_heightRoundVoteSet cache)) (\<lambda>hvs.
           go_bind (hvs_addVote (valSet c) hvs (Some vote)) (\<lambda>(hvs', added, err).
             (let c1 = c\<lparr>stateCache := putConsensusState (stateCache c)
                          (cache\<lparr>cs_heightRoundVoteSet := Some hvs'\<rparr>)\<rparr>
              in if err \<noteq> None then Inr c1 else sendConsensusVote e vote [] c1)))))"

text \<open>
  The common part of \<open>procPrevote\<close> and \<open>procPrecommit\<close>, which differ in the last step in
  which a vote of the round is still counted.
\<close>

definition procVote :: "env \<Rightarrow> Step \<Rightarrow> Vote \<Rightarrow> TBFT \<Rightarrow> TBFT go" where
  "procVote e lastStep vote c0 =
     (let c = c0\<lparr>valSet := updateValidatorHeight e vote (valSet c0)\<rparr> in
      if Height c < v_Height vote then
        go_bind (addFutureVote (valSet c) (futureCache c) vote) (\<lambda>fc. Inr (c\<lparr>futureCache := fc\<rparr>))
      else if Height c \<noteq> v_Height vote
           \<or> sint (cs_LockedRound (cState c)) > sint (v_Round vote)
           \<or> sint (Round c) > sint (v_Round vote)
           \<or> (Round c = v_Round vote \<and> StepOf c > lastStep) then
        procLocalVote e vote c
      else
        go_bind (hvs_of c) (\<lambda>hvs.
        go_bind (isRequired (valSet c) hvs (v_Round vote) (Some vote)) (\<lambda>required.
          if \<not> required \<and> v_Voter vote \<noteq> Id c then Inr c
          else addVote e vote False c)))"

definition procPrevote :: "env \<Rightarrow> Vote \<Rightarrow> TBFT \<Rightarrow> TBFT go" where
  "procPrevote e prevote = procVote e PREVOTE prevote"

definition procPrecommit :: "env \<Rightarrow> Vote \<Rightarrow> TBFT \<Rightarrow> TBFT go" where
  "procPrecommit e precommit = procVote e PRECOMMIT precommit"

subsection \<open>Certificates of rounds\<close>

text \<open>The loop over the votes of a certificate; the result says whether it ended without an error.\<close>

fun addQcToHeight :: "validatorSet \<Rightarrow> heightRoundVoteSet \<Rightarrow> Vote option list \<Rightarrow> (heightRoundVoteSet \<times> bool) go" where
  "addQcToHeight V hvs [] = Inr (hvs, True)"
| "addQcToHeight V hvs (vote # votes) =
     go_bind (hvs_addVote V hvs vote) (\<lambda>(hvs', added, err).
       if err \<noteq> None then Inr (hvs', False) else addQcToHeight V hvs' votes)"

text \<open>The state after the votes of a certificate were added.\<close>

definition followRoundQC :: "env \<Rightarrow> RoundQC \<Rightarrow> ProtoVoteSet \<Rightarrow> TBFT \<Rightarrow> TBFT go" where
  "followRoundQC e roundQC qc c1 =
     (if pvs_Type qc = VOTE_PREVOTE then
        (let c2 = upd_state (\<lambda>s. s\<lparr>cs_Round := qc_Round roundQC, cs_Step := PREVOTE\<rparr>) c1
         in enterPrecommit e (Height c2) (qc_Round roundQC) c2)
      else if bytes_Equal (pvs_Maj23 qc) nilHash
      then enterNewRound e (Height c1) (qc_Round roundQC + 1) c1
      else Inr c1)"

definition procRoundQC :: "env \<Rightarrow> RoundQC option \<Rightarrow> TBFT \<Rightarrow> TBFT go" where
  "procRoundQC e proundQC c =
     (case proundQC of None \<Rightarrow> Inr c
      | Some roundQC \<Rightarrow>
        (case qc_Qc roundQC of None \<Rightarrow> Inr c
         | Some qc \<Rightarrow>
           if qc_Height roundQC \<noteq> Height c \<or> sint (qc_Round roundQC) < sint (Round c)
              \<or> (qc_Round roundQC = Round c \<and> pvs_Type qc \<noteq> VOTE_PRECOMMIT) then Inr c
           else
             go_bind (VerifyRoundQc (e_ac e) (e_codec e) (e_late e) (valSet c) roundQC (blockVersion c)) (\<lambda>err.
               if err \<noteq> None then Inr c
               else
                 go_bind (hvs_of c) (\<lambda>hvs.
                 go_bind (addQcToHeight (valSet c) hvs (map snd (pvs_Votes qc))) (\<lambda>(hvs', done_all).
                   (let c1 = put_hvs hvs' c in
                    if \<not> done_all then Inr c1 else followRoundQC e roundQC qc c1))))))"

definition handleConsensusMsg :: "env \<Rightarrow> ConsensusMsg \<Rightarrow> TBFT \<Rightarrow> TBFT go" where
  "handleConsensusMsg e msg c =
     (case msg of
        MsgPropose p \<Rightarrow> procPropose e p c
      | MsgPrevote v \<Rightarrow> procPrevote e v c
      | MsgPrecommit v \<Rightarrow> procPrecommit e v c
      | MsgState _ \<Rightarrow> Inr c
      | MsgFetchRoundQC \<Rightarrow> Inr c
      | MsgRoundQC q \<Rightarrow> procRoundQC e q c)"

subsection \<open>Timers\<close>

definition handleProposeOptimalTimeout :: "env \<Rightarrow> TBFT \<Rightarrow> TBFT go" where
  "handleProposeOptimalTimeout e c =
     (if StepOf c \<noteq> PROPOSE then Inr (c\<lparr>ProposeOptimalTimer := False\<rparr>)
      else
        go_bind (proposer_of c (Height c) (Round c)) (\<lambda>validator.
          if sint (e_nowMilli e) > sint (beatTime c validator + TimeDisconnet)
          then Inr (enterPrevote e (Height c) (Round c) c)
          else Inr (c\<lparr>ProposeOptimalTimer := True\<rparr>)))"

definition handleTimeout :: "env \<Rightarrow> TimeoutInfo \<Rightarrow> TBFT \<Rightarrow> TBFT go" where
  "handleTimeout e ti c =
     (if ti_Step ti = PREVOTE then Inr (enterPrevote e (ti_Height ti) (ti_Round ti) c)
      else if ti_Step ti = PRECOMMIT then enterPrecommit e (ti_Height ti) (ti_Round ti) c
      else if ti_Step ti = COMMIT then enterCommit e (ti_Height ti) (ti_Round ti) c
      else Inr c)"

subsection \<open>The loop\<close>

text \<open>
  One iteration of \<open>handle\<close>, by the selected case; None when the channel is empty. The proposal
  timer's channel may hold an expiry from before the timer was stopped, so that case is always
  possible; the timeouts that can be selected are the time scheduler's.
\<close>

datatype selected = SelProposed | SelVerify | SelHeight | SelExternal | SelInternal
  | SelTimeout TimeoutInfo | SelOptimal

definition handle_once :: "env \<Rightarrow> selected \<Rightarrow> TBFT \<Rightarrow> TBFT go option" where
  "handle_once e sel c =
     (case sel of
        SelProposed \<Rightarrow> (case proposedBlockC c of [] \<Rightarrow> None
          | m # q \<Rightarrow> Some (handleProposedBlock e m (c\<lparr>proposedBlockC := q\<rparr>)))
      | SelVerify \<Rightarrow> (case verifyResultC c of [] \<Rightarrow> None
          | m # q \<Rightarrow> Some (handleVerifyResult e m (c\<lparr>verifyResultC := q\<rparr>)))
      | SelHeight \<Rightarrow> (case blockHeightC c of [] \<Rightarrow> None
          | m # q \<Rightarrow> Some (handleBlockHeight e m (c\<lparr>blockHeightC := q\<rparr>)))
      | SelExternal \<Rightarrow> (case externalMsgC c of [] \<Rightarrow> None
          | m # q \<Rightarrow> Some (handleConsensusMsg e m (c\<lparr>externalMsgC := q\<rparr>)))
      | SelInternal \<Rightarrow> (case internalMsgC c of [] \<Rightarrow> None
          | m # q \<Rightarrow> Some (handleConsensusMsg e m (c\<lparr>internalMsgC := q\<rparr>)))
      | SelTimeout ti \<Rightarrow> Some (handleTimeout e ti c)
      | SelOptimal \<Rightarrow> Some (handleProposeOptimalTimeout e c))"

end
