(* ===== verification/Tbft_Entry.thy ===== *)
theory Tbft_Entry
  imports Tbft_Handlers
begin

section \<open>Construction, entry points and replay (consensus_tbft_impl.go)\<close>

text \<open>
  \<open>New\<close>, \<open>Start\<close> with the replay of the write-ahead log, \<open>Stop\<close>, the message-bus callback
  \<open>OnMessage\<close> with the decoding and verification of network messages, and the read-only queries.
  The decoders of the protobuf messages are the record \<open>wire\<close>; a decoder that fails makes
  \<^verbatim>\<open>mustUnmarshal\<close> panic. A send to a full channel waits: the result is then \<^term>\<open>None\<close>.
\<close>

record wire =
  w_TBFTMsg :: "string \<Rightarrow> TBFTMsg option"
  w_Proposal :: "string \<Rightarrow> Proposal option"
  w_Vote :: "string \<Rightarrow> Vote option"
  w_GossipState :: "string \<Rightarrow> GossipState option"
  w_FetchRoundQC :: "string \<Rightarrow> bool"
  w_RoundQC :: "string \<Rightarrow> RoundQC option"

definition mustUnmarshal :: "(string \<Rightarrow> 'a option) \<Rightarrow> gobytes \<Rightarrow> 'a go" where
  "mustUnmarshal f b = (case f (bytes_content b) of None \<Rightarrow> Inl UnmarshalFailed | Some m \<Rightarrow> Inr m)"

subsection \<open>Messages in\<close>

definition createConsensusMsgFromTBFTMsgBz ::
    "env \<Rightarrow> wire \<Rightarrow> TBFT \<Rightarrow> gobytes \<Rightarrow> ConsensusMsg option go" where
  "createConsensusMsgFromTBFTMsgBz e w c tbftMsgBz =
     go_bind (mustUnmarshal (w_TBFTMsg w) tbftMsgBz) (\<lambda>tbftMsg.
       (case m_Type tbftMsg of
          MSG_PROPOSE \<Rightarrow>
            go_bind (mustUnmarshal (w_Proposal w) (m_Msg tbftMsg)) (\<lambda>proposal.
            go_bind (verifyProposal e proposal) (\<lambda>err.
              Inr (if err \<noteq> None then None else Some (MsgPropose (Some proposal)))))
        | MSG_PREVOTE \<Rightarrow>
            go_bind (mustUnmarshal (w_Vote w) (m_Msg tbftMsg)) (\<lambda>prevote.
              Inr (if verifyVote e (blockVersion c) prevote \<noteq> None then None else Some (MsgPrevote prevote)))
        | MSG_PRECOMMIT \<Rightarrow>
            go_bind (mustUnmarshal (w_Vote w) (m_Msg tbftMsg)) (\<lambda>precommit.
              Inr (if verifyVote e (blockVersion c) precommit \<noteq> None then None else Some (MsgPrecommit precommit)))
        | MSG_STATE \<Rightarrow>
            go_bind (mustUnmarshal (w_GossipState w) (m_Msg tbftMsg)) (\<lambda>state. Inr (Some (MsgState state)))
        | MSG_FETCH_ROUNDQC \<Rightarrow>
            if w_FetchRoundQC w (bytes_content (m_Msg tbftMsg)) then Inr (Some MsgFetchRoundQC) else Inl UnmarshalFailed
        | MSG_SEND_ROUND_QC \<Rightarrow>
            go_bind (mustUnmarshal (w_RoundQC w) (m_Msg tbftMsg)) (\<lambda>roundQC. Inr (Some (MsgRoundQC (Some roundQC))))
        | MSG_OTHER _ \<Rightarrow> Inr None))"

definition createStateMsgFromTBFTMsgBz :: "wire \<Rightarrow> gobytes \<Rightarrow> ConsensusMsg option go" where
  "createStateMsgFromTBFTMsgBz w tbftMsgBz =
     go_bind (mustUnmarshal (w_TBFTMsg w) tbftMsgBz) (\<lambda>tbftMsg.
       if m_Type tbftMsg = MSG_STATE then
         go_bind (mustUnmarshal (w_GossipState w) (m_Msg tbftMsg)) (\<lambda>state. Inr (Some (MsgState state)))
       else Inr None)"

datatype busMessage =
    BusProposedBlock ProposalBlock
  | BusVerifyResult VerifyResult
  | BusRecvConsensusMsg gobytes
  | BusRecvConsistentMsg gobytes
  | BusBlockInfo "Block option option"
  | BusOther

definition recv_external :: "env \<Rightarrow> wire \<Rightarrow> gobytes \<Rightarrow> TBFT \<Rightarrow> TBFT option go" where
  "recv_external e w payload c =
     go_bind (createConsensusMsgFromTBFTMsgBz e w c payload) (\<lambda>m.
       (case m of None \<Rightarrow> Inr (Some c)
        | Some msg \<Rightarrow>
          Inr (if length (externalMsgC c) < defaultChanCap
               then Some (c\<lparr>externalMsgC := externalMsgC c @ [msg]\<rparr>) else None)))"

definition OnMessage :: "env \<Rightarrow> wire \<Rightarrow> busMessage \<Rightarrow> TBFT \<Rightarrow> TBFT option go" where
  "OnMessage e w message c =
     (case message of
        BusProposedBlock b \<Rightarrow>
          Inr (if length (proposedBlockC c) < defaultChanCap
               then Some (c\<lparr>proposedBlockC := proposedBlockC c @ [\<lparr>pp_proposedBlock = b, pp_qc = None\<rparr>]\<rparr>)
               else None)
      | BusVerifyResult r \<Rightarrow>
          Inr (if length (verifyResultC c) < defaultChanCap
               then Some (c\<lparr>verifyResultC := verifyResultC c @ [r]\<rparr>) else None)
      | BusRecvConsensusMsg payload \<Rightarrow> recv_external e w payload c
      | BusRecvConsistentMsg payload \<Rightarrow> recv_external e w payload c
      | BusBlockInfo info \<Rightarrow>
          (case info of None \<Rightarrow> Inr (Some c)
           | Some None \<Rightarrow> Inr (Some c)
           | Some (Some block) \<Rightarrow>
             go_bind (deref (b_Header block)) (\<lambda>h.
               Inr (if length (blockHeightC c) < defaultChanCap
                    then Some (c\<lparr>blockHeightC := blockHeightC c @ [BlockHeight h]\<rparr>) else None)))
      | BusOther \<Rightarrow> Inr (Some c))"

subsection \<open>Replay of the log\<close>

datatype WalEntryType = TIMEOUT_ENTRY | PROPOSAL_ENTRY | VOTE_ENTRY | PROPOSAL_VOTE_ENTRY | ENTRY_OTHER i32

record WalEntry =
  we_Height :: u64
  we_Type :: WalEntryType
  we_Data :: gobytes

text \<open>What the log's iterator gives: no iterator, no entry, an unreadable entry, the last entry's bytes.\<close>

datatype walLast = WalNoIterator | WalEmpty | WalReadError | WalBytes string

datatype replayError = ErrCurrentHeight | ErrReadWal | ErrDataNull | ErrProposalVote | ErrReplayAddVote

fun addReplayVotes :: "validatorSet \<Rightarrow> heightRoundVoteSet \<Rightarrow> Vote list \<Rightarrow> (heightRoundVoteSet \<times> bool) go" where
  "addReplayVotes V hvs [] = Inr (hvs, True)"
| "addReplayVotes V hvs (v # vs) =
     go_bind (hvs_addVote V hvs (Some v)) (\<lambda>(hvs', added, err).
       if err \<noteq> None then Inr (hvs', False) else addReplayVotes V hvs' vs)"

text \<open>The state of the logged proposal: locked on it, with its prevotes, at the precommit of its round.\<close>

definition lockFromWal :: "env \<Rightarrow> Proposal \<Rightarrow> Vote list \<Rightarrow> TBFT \<Rightarrow> (TBFT \<times> replayError option) go" where
  "lockFromWal e proposal qc c =
     (let (r, c1) = alloc proposal c;
          c2 = upd_state (\<lambda>s. s\<lparr>cs_Step := PREVOTE, cs_Proposal := Some (NewTBFTProposal e c1 r False),
                 cs_Round := p_Round proposal, cs_LockedProposal := Some r,
                 cs_LockedRound := p_Round proposal, cs_ValidProposal := Some r,
                 cs_ValidRound := p_Round proposal\<rparr>) c1
      in go_bind (hvs_of c2) (\<lambda>hvs.
         go_bind (addReplayVotes (valSet c2) hvs qc) (\<lambda>(hvs', ok).
           (let c3 = put_hvs hvs' c2 in
            if \<not> ok then Inr (c3, Some ErrReplayAddVote)
            else go_bind (enterPrecommit e (Height c3) (p_Round proposal) c3) (\<lambda>c4. Inr (c4, None))))))"

definition enterPrecommitFromReplayWal :: "env \<Rightarrow> Proposal \<Rightarrow> TBFT \<Rightarrow> (TBFT \<times> replayError option) go" where
  "enterPrecommitFromReplayWal e proposal c =
     (case p_Qc proposal of None \<Rightarrow> Inr (c, Some ErrDataNull)
      | Some qc \<Rightarrow>
        if p_TxsRwSet proposal = None then Inr (c, Some ErrDataNull)
        else
          go_bind (Block_Hash (p_Block proposal)) (\<lambda>hash.
          go_bind (if bytes_Equal hash nilHash then Inr True
                   else (case qc of [] \<Rightarrow> Inl IndexOutOfRange | q # _ \<Rightarrow> Inr (\<not> bytes_Equal hash (v_Hash q)))) (\<lambda>bad.
            if bad then Inr (c, Some ErrProposalVote) else lockFromWal e proposal qc c)))"

definition replayWal ::
    "env \<Rightarrow> wire \<Rightarrow> (string \<Rightarrow> WalEntry option) \<Rightarrow> u64 option \<Rightarrow> walLast \<Rightarrow> TBFT \<Rightarrow> (TBFT \<times> replayError option) go" where
  "replayWal e w unmarshalWal pcurrentHeight wal c =
     (case pcurrentHeight of None \<Rightarrow> Inr (c, Some ErrCurrentHeight)
      | Some currentHeight \<Rightarrow>
        if walWriteMode c = e_NonWalWrite e \<or> wal = WalNoIterator then
          go_bind (enterNewHeight e (currentHeight + 1) c) (\<lambda>c1. Inr (c1, None))
        else if wal = WalReadError then Inr (c, Some ErrReadWal)
        else
          go_bind
            (case wal of
               WalBytes b \<Rightarrow> mustUnmarshal unmarshalWal (Some b)
             | _ \<Rightarrow> Inr \<lparr>we_Height = 0, we_Type = TIMEOUT_ENTRY, we_Data = None\<rparr>) (\<lambda>lastEntry.
            (let height = we_Height lastEntry in
             if currentHeight + 1 < height then Inl LogFatal
             else if currentHeight \<ge> height then
               go_bind (enterNewHeight e (currentHeight + 1) c) (\<lambda>c1. Inr (c1, None))
             else
               go_bind (enterNewHeight e height c) (\<lambda>c1.
                 if we_Type lastEntry = PROPOSAL_ENTRY then
                   go_bind (mustUnmarshal (w_Proposal w) (we_Data lastEntry)) (\<lambda>proposal.
                     enterPrecommitFromReplayWal e proposal c1)
                 else Inr (c1, None)))))"

subsection \<open>Construction, start and stop\<close>

definition nil_proposal :: Proposal where
  "nil_proposal =
     \<lparr>p_Voter = [], p_Height = 0, p_Round = 0, p_PolRound = 0, p_Block = None, p_Endorsement = None,
      p_TxsRwSet = None, p_Qc = None\<rparr>"

definition New :: "string \<Rightarrow> string \<Rightarrow> int \<Rightarrow> bool \<Rightarrow> ChainConfig \<Rightarrow> TBFT option" where
  "New nodeId walWriteModeKey nonWalWrite openLws cfg =
     (case InitLWS walWriteModeKey nonWalWrite openLws (cfg_Consensus cfg) of (wal, mode, err) \<Rightarrow>
        if err \<noteq> LwsNoError then None
        else
          (case GetValidatorListFromConfig cfg of None \<Rightarrow> None
           | Some validators \<Rightarrow>
             Some \<lparr>Id = nodeId, lastHeightProposer = [], blockVersion = 0, walWriteMode = mode,
               valSet = newValidatorSet validators DefaultBlocksPerProposer,
               cState = NewConsensusState nodeId,
               stateCache = newConsensusStateCache 10, futureCache = newConsensusFutureMsgCache 10 0,
               proposedBlockC = [], verifyResultC = [], blockHeightC = [], externalMsgC = [],
               internalMsgC = [], invalidTxs = [], TimeoutPropose = 0, TimeoutProposeDelta = 0,
               TimeoutProposeOptimal = 0, ProposeOptimal = False, ProposeOptimalTimer = False,
               heap = (\<lambda>_. nil_proposal), hnext = 0, outs = [], started = False\<rparr>))"

text \<open>\<open>InitConsistentEngine\<close>: every other validator becomes a remote of the consistency engine.\<close>

definition InitConsistentEngine :: "TBFT \<Rightarrow> TBFT" where
  "InitConsistentEngine c =
     emit_all (map PutRemoter (filter (\<lambda>v. v \<noteq> Id c) (Validators (valSet c)))) c"

text \<open>
  \<open>Start\<close>: the goroutine's body after the wait for the block synchronisation. The flag in the
  result says whether the loop \<open>handle\<close> is started. \<open>stopped\<close>: \<open>Stop\<close> was called meanwhile.
\<close>

definition Start ::
    "env \<Rightarrow> wire \<Rightarrow> (string \<Rightarrow> WalEntry option) \<Rightarrow> u64 option \<Rightarrow> walLast \<Rightarrow> bool \<Rightarrow> bool \<Rightarrow> TBFT \<Rightarrow> (TBFT \<times> bool) go" where
  "Start e w unmarshalWal currentHeight wal engineStarts stopped c =
     (let c0 = c\<lparr>started := True\<rparr> in
      if stopped then Inr (c0\<lparr>started := False\<rparr>, False)
      else
        go_bind (replayWal e w unmarshalWal currentHeight wal (InitConsistentEngine c0)) (\<lambda>(c1, err).
          Inr (c1, err = None \<and> engineStarts)))"

definition Stop :: "TBFT \<Rightarrow> TBFT" where
  "Stop c = c\<lparr>started := False\<rparr>"

subsection \<open>Queries\<close>

definition ToGossipStateProto :: "TBFT \<Rightarrow> GossipState go" where
  "ToGossipStateProto c =
     (let proposal = (case cs_Proposal (cState c) of None \<Rightarrow> None | Some tp \<Rightarrow> ref_hash c (PbMsg tp));
          verifingProposal = (case cs_Proposal (cState c) of None \<Rightarrow> None | Some tp \<Rightarrow> ref_hash c (PbMsg tp))
      in go_bind (hvs_of c) (\<lambda>hvs.
           Inr \<lparr>gs_Id = Id c, gs_Height = Height c, gs_Round = Round c, gs_Step = StepOf c,
                gs_Proposal = proposal, gs_VerifingProposal = verifingProposal,
                gs_RoundVoteSet = roundVoteSet_ToProto (getRoundVoteSet hvs (Round c))\<rparr>))"

definition GetValidators :: "TBFT \<Rightarrow> string list option" where
  "GetValidators c = (if \<not> started c then None else Some (Validators (valSet c)))"

definition GetLastHeight :: "TBFT \<Rightarrow> u64" where
  "GetLastHeight c = (if \<not> started c then - 1 else Height c)"

definition GetConsensusStateJSON :: "(ProtoConsensusState option \<Rightarrow> string) \<Rightarrow> TBFT \<Rightarrow> string option" where
  "GetConsensusStateJSON marshalState c =
     (if \<not> started c then None else Some (marshalState (toProto (heap c) (Some (cState c)))))"

end
