(* ===== verification/Tbft_Inv.thy ===== *)
theory Tbft_Inv
  imports Tbft_Entry
begin

section \<open>What every transition keeps\<close>

text \<open>
  The position of an instance is its (height, round, step), ordered lexicographically. The
  invariant \<open>inv V\<close> of an instance whose validators are those of \<open>V\<close>: the vote sets of the
  height are well formed, the votes signed so far have strictly increasing positions that are
  not ahead of the instance, no requested timeout is for a round ahead of it, and the signed
  precommits are backed by prevotes.

  A transition (\<open>trans\<close>) moves the position forward only, keeps the invariant, and justifies
  every output: a signed vote is a prevote or a precommit, a committed block has a quorum of
  precommits, which it carries.
\<close>

type_synonym position = "nat \<times> int \<times> nat"

definition position_of :: "TBFT \<Rightarrow> position" where
  "position_of c = (unat (Height c), sint (Round c), step_num (StepOf c))"

definition vote_position :: "Vote \<Rightarrow> position" where
  "vote_position v = (unat (v_Height v), sint (v_Round v),
     step_num (if v_Type v = VOTE_PREVOTE then PREVOTE else PRECOMMIT))"

definition signed_votes :: "Out list \<Rightarrow> Vote list" where
  "signed_votes os = List.map_filter (\<lambda>o1. case o1 of SignVote v \<Rightarrow> Some v | _ \<Rightarrow> None) os"

definition signed_ok :: "TBFT \<Rightarrow> bool" where
  "signed_ok c \<longleftrightarrow> sorted_wrt (<) (map vote_position (signed_votes (outs c))) \<and>
     (\<forall>v \<in> set (signed_votes (outs c)). vote_position v \<le> position_of c)"

definition timeouts_ok :: "TBFT \<Rightarrow> bool" where
  "timeouts_ok c \<longleftrightarrow> (\<forall>ti. Timeout ti \<in> set (outs c) \<longrightarrow>
     (unat (ti_Height ti), sint (ti_Round ti)) \<le> (unat (Height c), sint (Round c)))"

definition votes_inv :: "validatorSet \<Rightarrow> TBFT \<Rightarrow> bool" where
  "votes_inv V c \<longleftrightarrow> (\<exists>hvs. cs_heightRoundVoteSet (cState c) = Some hvs \<and> wf_hvs V hvs \<and>
     hvs_Height hvs = Height c)"

definition same_validators :: "validatorSet \<Rightarrow> TBFT \<Rightarrow> bool" where
  "same_validators V c \<longleftrightarrow> Validators (valSet c) = Validators V \<and> small_valset V"

text \<open>
  Every precommit for a block that was signed at this height has a quorum of prevotes for the
  block in the node's own vote sets.
\<close>

definition backed :: "TBFT \<Rightarrow> bool" where
  "backed c \<longleftrightarrow> (\<forall>hvs v. cs_heightRoundVoteSet (cState c) = Some hvs \<and> v \<in> set (signed_votes (outs c)) \<and>
     v_Height v = Height c \<and> v_Type v = VOTE_PRECOMMIT \<and> \<not> isNilHash (v_Hash v) \<longrightarrow>
     has_majority hvs (v_Round v) VOTE_PREVOTE (bytes_content (v_Hash v)))"

definition inv :: "validatorSet \<Rightarrow> TBFT \<Rightarrow> bool" where
  "inv V c \<longleftrightarrow> same_validators V c \<and> votes_inv V c \<and> signed_ok c \<and> timeouts_ok c \<and> backed c"

definition quorum_set :: "validatorSet \<Rightarrow> VoteType \<Rightarrow> u64 \<Rightarrow> i32 \<Rightarrow> string \<Rightarrow> VoteSet \<Rightarrow> bool" where
  "quorum_set V t h r s vs \<longleftrightarrow> wf_voteset V vs \<and> vs_Type vs = t \<and> vs_Height vs = h \<and> vs_Round vs = r \<and>
     vs_Maj23 vs = Some s"

fun justified :: "codec \<Rightarrow> validatorSet \<Rightarrow> Out \<Rightarrow> bool" where
  "justified cd V (SignVote v) \<longleftrightarrow>
     named_type (v_Type v)"
| "justified cd V (CommitBlock b) \<longleftrightarrow>
     (\<exists>header height round vs extra. b_Header b = Some header \<and>
       quorum_set V VOTE_PRECOMMIT height round (bytes_content (BlockHash header)) vs \<and>
       b_AdditionalData b = Some extra \<and>
       extra TBFTAddtionalDataKey = Some (Some (marshalVoteSet cd (VoteSet_ToProto (Some vs)))))"
| "justified cd V _ \<longleftrightarrow> True"

text \<open>
  The outputs are justified under the validators \<open>W\<close> at the start of the handler; a handler that
  switches the height ends under others, but outputs no votes and no block.
\<close>

definition trans :: "codec \<Rightarrow> validatorSet \<Rightarrow> validatorSet \<Rightarrow> TBFT \<Rightarrow> TBFT \<Rightarrow> bool" where
  "trans cd W V c c' \<longleftrightarrow> inv V c' \<and> position_of c \<le> position_of c' \<and> Id c' = Id c \<and>
     (\<exists>new. outs c' = outs c @ new \<and> (\<forall>o1 \<in> set new. justified cd W o1))"

lemma trans_refl: "inv V c \<Longrightarrow> trans cd W V c c"
  by (simp add: trans_def)

lemma trans_trans: "trans cd W V c c' \<Longrightarrow> trans cd W V c' c'' \<Longrightarrow> trans cd W V c c''"
  unfolding trans_def by (metis (no_types, opaque_lifting) Un_iff append_assoc order_trans set_append)

lemma trans_inv: "trans cd W V c c' \<Longrightarrow> inv V c'"
  by (simp add: trans_def)

lemma signed_votes_append [simp]: "signed_votes (xs @ ys) = signed_votes xs @ signed_votes ys"
  by (simp add: signed_votes_def map_filter_def)

lemma signed_votes_simps [simp]:
  "signed_votes [] = []"
  "signed_votes (SignVote v # os) = v # signed_votes os"
  "(\<And>v. o1 \<noteq> SignVote v) \<Longrightarrow> signed_votes (o1 # os) = signed_votes os"
  by (simp_all add: signed_votes_def map_filter_simps split: Out.split)

text \<open>Transitions of the parts of the state that the invariant does not read.\<close>

definition same_view :: "TBFT \<Rightarrow> TBFT \<Rightarrow> bool" where
  "same_view c c' \<longleftrightarrow> Height c' = Height c \<and> Round c' = Round c \<and> StepOf c' = StepOf c \<and>
     cs_heightRoundVoteSet (cState c') = cs_heightRoundVoteSet (cState c) \<and>
     outs c' = outs c \<and> Validators (valSet c') = Validators (valSet c) \<and> Id c' = Id c"

lemma trans_silent:
  assumes "inv V c" and "same_view c c'"
  shows "trans cd W V c c'"
  using assms
  by (auto simp: trans_def same_view_def inv_def same_validators_def votes_inv_def signed_ok_def
      timeouts_ok_def position_of_def backed_def)

lemma trans_emit:
  assumes "inv V c" and "\<And>v. o1 \<noteq> SignVote v" and "justified cd W o1"
    and "\<And>ti. o1 = Timeout ti \<Longrightarrow> (unat (ti_Height ti), sint (ti_Round ti)) \<le> (unat (Height c), sint (Round c))"
  shows "trans cd W V c (emit o1 c)"
  using assms
  by (auto simp: trans_def emit_def inv_def same_validators_def votes_inv_def signed_ok_def
      timeouts_ok_def position_of_def backed_def)

text \<open>A move forward, with the vote sets and outputs as they are.\<close>

lemma timeouts_ok_later:
  assumes "timeouts_ok c" and "position_of c \<le> position_of c'"
    and "\<And>ti. Timeout ti \<in> set (outs c') \<Longrightarrow> Timeout ti \<in> set (outs c)"
  shows "timeouts_ok c'"
  unfolding timeouts_ok_def
proof (intro allI impI)
  fix ti assume "Timeout ti \<in> set (outs c')"
  then have "(unat (ti_Height ti), sint (ti_Round ti)) \<le> (unat (Height c), sint (Round c))"
    using assms(1,3) by (simp add: timeouts_ok_def)
  also have "\<dots> \<le> (unat (Height c'), sint (Round c'))"
    using assms(2) by (auto simp: position_of_def less_eq_prod_def)
  finally show "(unat (ti_Height ti), sint (ti_Round ti)) \<le> (unat (Height c'), sint (Round c'))" .
qed

lemma signed_ok_later:
  assumes "signed_ok c" and "position_of c \<le> position_of c'" and "signed_votes (outs c') = signed_votes (outs c)"
  shows "signed_ok c'"
  using assms(1,3) order_trans [OF _ assms(2)] by (auto simp: signed_ok_def)

lemma trans_move:
  assumes inv: "inv V c" and le: "position_of c \<le> position_of c'"
    and eqs: "Height c' = Height c" "cs_heightRoundVoteSet (cState c') = cs_heightRoundVoteSet (cState c)"
    "outs c' = outs c" "Validators (valSet c') = Validators (valSet c)" "Id c' = Id c"
  shows "trans cd W V c c'"
proof -
  have "signed_ok c'" and "timeouts_ok c'"
    using inv le eqs(3) by (auto simp: inv_def intro: signed_ok_later timeouts_ok_later)
  then show ?thesis
    using inv le eqs by (auto simp: trans_def inv_def same_validators_def votes_inv_def backed_def)
qed

text \<open>A vote is signed at the position the instance just moved to.\<close>

lemma trans_sign:
  assumes inv: "inv V c" and lt: "position_of c < position_of c1"
    and eqs: "Height c1 = Height c" "cs_heightRoundVoteSet (cState c1) = cs_heightRoundVoteSet (cState c)"
    "outs c1 = outs c @ new" "Validators (valSet c1) = Validators (valSet c)" "Id c1 = Id c"
    and new: "signed_votes new = []" "\<And>ti. Timeout ti \<notin> set new" "\<forall>o1 \<in> set new. justified cd W o1"
    and vote: "vote_position v = position_of c1" and just: "justified cd W (SignVote v)"
    and polka: "v_Type v = VOTE_PRECOMMIT \<and> \<not> isNilHash (v_Hash v) \<longrightarrow>
      (\<forall>hvs. cs_heightRoundVoteSet (cState c) = Some hvs \<longrightarrow>
        has_majority hvs (v_Round v) VOTE_PREVOTE (bytes_content (v_Hash v)))"
  shows "trans cd W V c (emit (SignVote v) c1)"
proof -
  let ?c' = "emit (SignVote v) c1"
  have pos: "position_of ?c' = position_of c1" and outs: "outs ?c' = outs c @ new @ [SignVote v]"
    by (simp_all add: position_of_def emit_def eqs)
  have old: "\<forall>w \<in> set (signed_votes (outs c)). vote_position w < position_of c1"
    using inv le_less_trans [OF _ lt] by (auto simp: inv_def signed_ok_def)
  have "signed_ok ?c'"
    using inv old new(1) unfolding inv_def signed_ok_def pos
    by (auto simp: outs sorted_wrt_append vote less_imp_le)
  moreover have "timeouts_ok ?c'"
    using inv lt new(2) pos by (auto simp: inv_def outs intro!: timeouts_ok_later [of c ?c'])
  moreover have "backed ?c'"
    using inv polka new(1) by (auto simp: inv_def backed_def outs eqs) (simp_all add: emit_def eqs)
  ultimately show ?thesis
    using inv lt eqs new(3) just pos outs
    by (auto simp: trans_def inv_def same_validators_def votes_inv_def emit_def)
qed

end
