(* ===== verification/Tbft_Trans.thy ===== *)
theory Tbft_Trans
  imports Tbft_Inv
begin

section \<open>The methods as transitions\<close>

text \<open>
  Every method that changes the instance is a transition in the sense of \<open>trans\<close>. The methods
  that enter a step of a given round need that the round is not ahead of the instance, which
  holds for their callers and for the timeouts that were requested.
\<close>

subsection \<open>Votes under equal validators\<close>

lemma vote_ops_cong:
  assumes "Validators V = Validators W"
  shows "AddVote V vs pv c = AddVote W vs pv c" and "hvs_addVote V hvs pv = hvs_addVote W hvs pv"
    and "hasTwoThirdsAny V pvs = hasTwoThirdsAny W pvs"
proof -
  have size: "Size (Some V) = Size (Some W)" and quo: "quorum V = quorum W"
    using assms by (simp_all add: Size_def quorum_def)
  have inval: "addInvalidTxs V vs txs = addInvalidTxs W vs txs" for vs txs
    by (induction txs arbitrary: vs) (simp_all add: size Let_def)
  show add: "AddVote V vs pv c = AddVote W vs pv c" for vs pv c
    unfolding AddVote_def inval quo HasValidator_Some assms ..
  show "hvs_addVote V hvs pv = hvs_addVote W hvs pv" unfolding hvs_addVote_def add ..
  show "hasTwoThirdsAny V pvs = hasTwoThirdsAny W pvs" unfolding hasTwoThirdsAny_def size quo ..
qed

lemma hvs_addVote_keeps:
  assumes "hvs_addVote V hvs pv = Inr (hvs', r)" and "wf_hvs V hvs" and "small_valset V"
  shows "wf_hvs V hvs'" and "hvs_Height hvs' = hvs_Height hvs"
    and "\<forall>q t s. has_majority hvs q t s \<longrightarrow> has_majority hvs' q t s"
proof -
  obtain vote where pv: "pv = Some vote" using assms(1) by (cases pv) (simp_all add: hvs_addVote_nil)
  have named: "named_type (v_Type vote)"
    using assms(1) pv hvs_addVote_other [of vote _ V hvs] by (cases "v_Type vote") auto
  obtain hvs1 where "hvs_addVote V hvs (Some vote) =
      Inr (hvs1, snd (AddVote V (target_set hvs vote) (Some vote) True))"
    and "wf_hvs V hvs1" and "hvs_Height hvs1 = hvs_Height hvs" and "hvs_set hvs1 = sets_after V hvs vote"
    by (rule hvs_addVote_named [OF assms(2,3) named])
  with assms(1) pv show "wf_hvs V hvs'" and "hvs_Height hvs' = hvs_Height hvs"
    and "\<forall>q t s. has_majority hvs q t s \<longrightarrow> has_majority hvs' q t s"
    using sets_after_majority [OF assms(2,3) named] by simp_all
qed

lemma inv_hvs:
  assumes "inv V c" and "hvs_of c = Inr hvs"
  shows "wf_hvs V hvs" and "hvs_Height hvs = Height c"
  using assms by (auto simp: inv_def votes_inv_def hvs_of_def)

lemma trans_hvs:
  assumes "inv V c" and "wf_hvs V hvs'" and "hvs_Height hvs' = Height c" and "hvs_of c = Inr hvs"
    and "\<forall>q t s. has_majority hvs q t s \<longrightarrow> has_majority hvs' q t s"
  shows "trans cd W V c (put_hvs hvs' c)"
  using assms
  by (auto simp: trans_def inv_def same_validators_def votes_inv_def signed_ok_def timeouts_ok_def
      position_of_def put_hvs_def upd_state_def backed_def hvs_of_def)

lemma trans_put_hvs:
  assumes inv: "inv V c" and "hvs_of c = Inr hvs" and add: "hvs_addVote (valSet c) hvs pv = Inr (hvs', r)"
  shows "trans cd W V c (put_hvs hvs' c)"
proof -
  have same: "Validators (valSet c) = Validators V" and small: "small_valset V"
    using inv by (simp_all add: inv_def same_validators_def)
  have "hvs_addVote V hvs pv = Inr (hvs', r)" using add vote_ops_cong(2) [OF same] by simp
  note keeps = hvs_addVote_keeps [OF this inv_hvs(1) [OF inv assms(2)] small]
  show ?thesis
    using keeps inv_hvs(2) [OF inv assms(2)] by (intro trans_hvs [OF inv _ _ assms(2)]) simp_all
qed

lemma prevotes_quorum:
  assumes "inv V c" and "hvs_of c = Inr hvs" and "twoThirdsMajority (prevotes hvs r) = (hash, True)"
  obtains vs s where "prevotes hvs r = Some vs" and "hash = Some s"
    and "quorum_set V VOTE_PREVOTE (Height c) r s vs"
proof -
  obtain vs s where "prevotes hvs r = Some vs" and "vs_Maj23 vs = Some s" and "hash = Some s"
    using assms(3) by (cases "prevotes hvs r"; cases hash) (auto simp: twoThirdsMajority_def split: if_splits)
  then show ?thesis
    using that inv_hvs [OF assms(1,2)] hvs_set_ok [of V hvs r VOTE_PREVOTE vs]
    by (auto simp: hvs_set_prevotes quorum_set_def)
qed

lemma precommits_quorum:
  assumes "inv V c" and "hvs_of c = Inr hvs" and "twoThirdsMajority (precommits hvs r) = (hash, True)"
  obtains vs s where "precommits hvs r = Some vs" and "hash = Some s"
    and "quorum_set V VOTE_PRECOMMIT (Height c) r s vs"
proof -
  obtain vs s where "precommits hvs r = Some vs" and "vs_Maj23 vs = Some s" and "hash = Some s"
    using assms(3) by (cases "precommits hvs r"; cases hash) (auto simp: twoThirdsMajority_def split: if_splits)
  then show ?thesis
    using that inv_hvs [OF assms(1,2)] hvs_set_ok [of V hvs r VOTE_PRECOMMIT vs]
    by (auto simp: hvs_set_precommits quorum_set_def)
qed

subsection \<open>Prevote\<close>

lemma same_view_refl [simp]: "same_view c c"
  by (simp add: same_view_def)

lemma same_view_trySendInternal: "same_view c (trySendInternal m c)"
  by (simp add: same_view_def trySendInternal_def)

lemma same_view_trySendExternal: "same_view c (snd (trySendExternal m c))"
  by (simp add: same_view_def trySendExternal_def)

lemma same_view_hwrite [simp]: "same_view c (hwrite r f c)"
  by (simp add: same_view_def hwrite_def)

lemma trans_then_silent: "trans cd W V c c' \<Longrightarrow> same_view c' c'' \<Longrightarrow> trans cd W V c c''"
  by (meson trans_inv trans_silent trans_trans)

lemma sint_eq_word: "sint (a :: 'a :: len word) = sint b \<longleftrightarrow> a = b"
  by (metis word_eq_iff_signed)

definition not_ahead :: "u64 \<Rightarrow> i32 \<Rightarrow> TBFT \<Rightarrow> bool" where
  "not_ahead height round c \<longleftrightarrow> (height = Height c \<longrightarrow> sint round \<le> sint (Round c))"

lemma castPrevote_view:
  obtains v m where "v_Type v = VOTE_PREVOTE" and "v_Height v = Height c" and "v_Round v = Round c"
    and "v_Hash v = hash" and "castPrevote e hash c = trySendInternal m (emit (SignVote v) c)"
proof (rule that)
  let ?v = "NewVote VOTE_PREVOTE (Id c) (Height c) (Round c) hash"
  let ?v1 = "if bytes_Equal hash nilHash then ?v\<lparr>v_InvalidTxs := invalidTxs c\<rparr> else ?v"
  show "castPrevote e hash c = trySendInternal (createPrevoteConsensusMsg (signVote e ?v1)) (emit (SignVote ?v1) c)"
    by (simp add: castPrevote_def Let_def)
qed simp_all

lemma castPrecommit_view:
  "castPrecommit e hash c = trySendInternal
    (createPrecommitConsensusMsg (signVote e (NewVote VOTE_PRECOMMIT (Id c) (Height c) (Round c) hash)))
    (emit (SignVote (NewVote VOTE_PRECOMMIT (Id c) (Height c) (Round c) hash)) c)"
  by (simp add: castPrecommit_def Let_def)

lemma enterPrevote_trans:
  assumes inv: "inv V c" and ahead: "not_ahead height round c"
  shows "trans cd W V c (enterPrevote e height round c)"
proof (cases "Height c \<noteq> height \<or> sint (Round c) > sint round \<or> (Round c = round \<and> StepOf c \<noteq> PROPOSE)")
  case True
  then have "enterPrevote e height round c = c\<lparr>ProposeOptimalTimer := False\<rparr>"
    by (auto simp: enterPrevote_def Let_def)
  then show ?thesis using inv by (simp add: trans_silent same_view_def)
next
  case False
  then have "Round c = round" and step: "StepOf c = PROPOSE"
    using ahead by (auto simp: not_ahead_def sint_eq_word [symmetric])
  let ?c2 = "sendProposeState False (upd_state (\<lambda>s. s\<lparr>cs_Step := PREVOTE\<rparr>) (c\<lparr>ProposeOptimalTimer := False\<rparr>))"
  obtain v m where v: "v_Type v = VOTE_PREVOTE" "v_Height v = Height ?c2" "v_Round v = Round ?c2"
    and cast: "castPrevote e (prevote_hash ?c2) ?c2 = trySendInternal m (emit (SignVote v) ?c2)"
    by (rule castPrevote_view)
  have eq: "enterPrevote e height round c = trySendInternal m (emit (SignVote v) ?c2)"
    unfolding cast [symmetric] using False by (auto simp: enterPrevote_def Let_def)
  have "position_of c < position_of ?c2" and vp: "vote_position v = position_of ?c2"
    by (simp_all add: position_of_def vote_position_def sendProposeState_def emit_def upd_state_def step v
        less_prod_def)
  then have "trans cd W V c (emit (SignVote v) ?c2)"
    by (intro trans_sign [OF inv, of ?c2 "[ProposeState False]"])
      (simp_all add: sendProposeState_def emit_def upd_state_def v)
  then show ?thesis unfolding eq by (rule trans_then_silent [OF _ same_view_trySendInternal])
qed

subsection \<open>Precommit\<close>

lemma delInvalidTxs_view:
  obtains new where "delInvalidTxs vs hash c = c\<lparr>outs := outs c @ new\<rparr>" and "signed_votes new = []"
    and "\<And>ti. Timeout ti \<notin> set new" and "\<forall>o1 \<in> set new. justified cd W o1"
proof (cases "isNilHash hash \<and> delInvalidTx vs (Height c) \<noteq> None")
  case True
  then obtain p where "delInvalidTx vs (Height c) = Some p" by auto
  then show ?thesis using True that [of "[ConsensusFailTxs p]"] by (simp add: delInvalidTxs_def emit_def)
next
  case False
  then show ?thesis using that [of "[]"] by (auto simp: delInvalidTxs_def split: option.splits)
qed

lemma precommit_lock_view:
  "same_view c (fst (precommit_lock c round hash))"
  "snd (precommit_lock c round hash) = hash \<or> snd (precommit_lock c round hash) = nilHash"
  by (auto simp: precommit_lock_def Let_def same_view_def upd_state_def unlock_def split: option.split)

lemma enterPrecommit_trans:
  assumes inv: "inv V c" and ahead: "not_ahead height round c" and run: "enterPrecommit e height round c = Inr c'"
  shows "trans cd V V c c'"
proof (cases "Height c \<noteq> height \<or> sint (Round c) > sint round \<or> (Round c = round \<and> StepOf c \<noteq> PREVOTE)")
  case True
  then have "enterPrecommit e height round c = Inr c" by (auto simp: enterPrecommit_def)
  then show ?thesis using inv run by (simp add: trans_refl)
next
  case False
  then have step: "StepOf c = PREVOTE"
    using ahead by (auto simp: not_ahead_def sint_eq_word [symmetric])
  let ?c1 = "upd_state (\<lambda>s. s\<lparr>cs_Step := PRECOMMIT\<rparr>) c"
  obtain hvs where hvs: "hvs_of c = Inr hvs" using inv by (auto simp: inv_def votes_inv_def hvs_of_def)
  let ?vs = "prevotes hvs (Round c)"
  obtain hash ok where maj: "twoThirdsMajority ?vs = (hash, ok)" by (cases "twoThirdsMajority ?vs")
  obtain new where del: "delInvalidTxs ?vs hash ?c1 = ?c1\<lparr>outs := outs ?c1 @ new\<rparr>" (is "_ = ?c2")
    and new: "signed_votes new = []" "\<And>ti. Timeout ti \<notin> set new" "\<forall>o1 \<in> set new. justified cd V o1"
    using delInvalidTxs_view [of ?vs hash ?c1] by metis
  have hvs1: "hvs_of ?c1 = Inr hvs" and rnd: "Round ?c1 = Round c"
    using hvs by (simp_all add: hvs_of_def upd_state_def)
  have body: "enterPrecommit e height round c =
      go_bind (if \<not> ok then
          if hasTwoThirdsAny (valSet ?c2) ?vs \<or> hasTwoThirdsNoMajority (valSet ?c2) ?vs
          then Inr (?c2, nilHash) else Inl ShouldNotHappen
        else Inr (precommit_lock ?c2 round hash))
      (\<lambda>(c3, hash'). Inr (castPrecommit e hash' c3))"
    unfolding enterPrecommit_def using False
    by (simp only: Let_def hvs1 go_bind_simps rnd maj prod.case del if_False)
  have "\<exists>c3 hash'. same_view ?c2 c3 \<and> (hash' = nilHash \<or> (ok \<and> hash' = hash)) \<and> c' = castPrecommit e hash' c3"
    using run precommit_lock_view [of ?c2 round hash] unfolding body
    by (auto simp: case_prod_unfold split: if_splits intro: same_view_refl)
  then obtain c3 hash' where c3: "same_view ?c2 c3" and hash': "hash' = nilHash \<or> (ok \<and> hash' = hash)"
    and c': "c' = castPrecommit e hash' c3" by blast
  let ?v = "NewVote VOTE_PRECOMMIT (Id c3) (Height c3) (Round c3) hash'"
  have view: "Height c3 = Height c" "Round c3 = Round c" "StepOf c3 = PRECOMMIT"
    "cs_heightRoundVoteSet (cState c3) = cs_heightRoundVoteSet (cState c)"
    "outs c3 = outs c @ new" "Validators (valSet c3) = Validators (valSet c)" "Id c3 = Id c"
    using c3 by (simp_all add: same_view_def upd_state_def)
  have polka: "has_majority hvs (Round c) VOTE_PREVOTE (bytes_content hash')" if "\<not> isNilHash hash'"
  proof -
    have "twoThirdsMajority ?vs = (hash, True)" and "hash' = hash" using hash' maj that by auto
    then show ?thesis
      using prevotes_quorum [OF inv hvs]
      by (metis bytes_content_simps(2) has_majority_def hvs_set_prevotes quorum_set_def)
  qed
  have "position_of c < position_of c3" and "vote_position ?v = position_of c3"
    by (simp_all add: position_of_def vote_position_def view step less_prod_def)
  then have "trans cd V V c (emit (SignVote ?v) c3)"
    using view new polka hvs by (intro trans_sign [OF inv]) (auto simp: hvs_of_def)
  then show ?thesis unfolding c' castPrecommit_view by (rule trans_then_silent [OF _ same_view_trySendInternal])
qed

subsection \<open>Rounds\<close>

lemma same_view_trans: "same_view c c' \<Longrightarrow> same_view c' c'' \<Longrightarrow> same_view c c''"
  by (simp add: same_view_def)

lemma same_view_sendFuture:
  "same_view c (snd (sendFuturePrevotes votes c))" "same_view c (snd (sendFuturePrecommits votes c))"
proof -
  have "\<forall>m. same_view c (snd (trySendExternal m c))" for c by (simp add: same_view_trySendExternal)
  then show "same_view c (snd (sendFuturePrevotes votes c))" "same_view c (snd (sendFuturePrecommits votes c))"
    by (induction votes arbitrary: c)
      (auto split: prod.split bool.split, (metis same_view_trans snd_conv)+)
qed

lemma same_view_sendFutureVotes:
  assumes "sendFutureVotes rvs c = Inr c'"
  shows "same_view c c'"
proof -
  obtain pv where pv: "rvs_Prevotes rvs = Some pv"
    using assms by (cases "rvs_Prevotes rvs") (simp_all add: sendFutureVotes_def)
  obtain ok c1 where sent: "sendFuturePrevotes (vs_Votes pv) c = (ok, c1)"
    by (cases "sendFuturePrevotes (vs_Votes pv) c")
  have "c' = c1 \<or> (\<exists>pc :: VoteSet. c' = snd (sendFuturePrecommits (vs_Votes pc) c1))"
    using assms pv sent by (cases ok) (auto simp: sendFutureVotes_def elim!: go_bind_InrE)
  then show ?thesis
    using same_view_sendFuture(1) [of c "vs_Votes pv"] same_view_sendFuture(2) [of c1] sent same_view_trans
    by auto
qed

lemma same_view_getFutureMsgFromCache:
  assumes "getFutureMsgFromCache height round c = Inr c'"
  shows "same_view c c'"
proof -
  obtain go_on c1 where p: "(case getConsensusFutureProposal (futureCache c) height round of None \<Rightarrow> Inr (True, c)
      | Some proposal \<Rightarrow> (let r = trySendExternal (MsgPropose (Some proposal)) c
           in go_bind (Block_Hash (p_Block proposal)) (\<lambda>_. Inr r))) = Inr (go_on, c1)"
    and rest: "(if \<not> go_on then Inr c1
         else (case getConsensusFutureVote (futureCache c1) height round of
              None \<Rightarrow> Inr c1 | Some roundVs \<Rightarrow> sendFutureVotes roundVs c1)) = Inr c'"
    using assms unfolding getFutureMsgFromCache_def by (rule go_bind_InrE) (auto split: prod.splits)
  have "same_view c c1"
    using p same_view_trySendExternal [of c]
    by (auto simp: Let_def elim!: go_bind_InrE split: option.splits) (metis snd_conv)
  moreover have "same_view c1 c'"
    using rest same_view_sendFutureVotes by (auto split: if_splits option.splits)
  ultimately show ?thesis by (rule same_view_trans)
qed

lemma same_view_refresh_config: "refresh_config e c = Inr c' \<Longrightarrow> same_view c c'"
  by (auto simp: refresh_config_def Let_def go_bind_Inr_iff same_view_def split: if_splits)

lemma same_view_getProposeTimeout: "same_view c (snd (getProposeTimeout e c v vh h r))"
  by (simp add: getProposeTimeout_def Let_def same_view_def)

lemma trans_ProposeState: "inv V c \<Longrightarrow> trans cd W V c (sendProposeState b c)"
  unfolding sendProposeState_def by (rule trans_emit) simp_all

lemma trans_AddTimeout:
  assumes "inv V c" and "height = Height c" and "round = Round c"
  shows "trans cd W V c (AddTimeout d height round step c)"
  unfolding AddTimeout_def using assms by (intro trans_emit) auto

lemma offer_block_trans: "inv V c \<Longrightarrow> trans cd W V c (snd (offer_block mine c))"
  using trans_ProposeState trans_refl
  by (auto simp: offer_block_def Let_def same_view_def intro: trans_silent split: option.split)

lemma propose_turn_trans:
  assumes inv: "inv V c" and step: "StepOf c < PROPOSE"
    and run: "propose_turn e (Height c) (Round c) c = Inr (go_on, c')"
  shows "trans cd W V c c'"
proof -
  let ?h = "Height c" and ?r = "Round c"
  let ?c1 = "upd_state (\<lambda>s. s\<lparr>cs_Step := PROPOSE\<rparr>) c"
  have c1: "trans cd W V c ?c1"
    using step by (intro trans_move [OF inv])
      (auto simp: position_of_def upd_state_def less_Step_def less_eq_prod_def)
  obtain v where rest: "(let validatorHeight = map_get0 (validatorsHeight (valSet ?c1)) v;
             (timeout, c2) = getProposeTimeout e ?c1 v validatorHeight ?h ?r;
             c3 = AddTimeout timeout ?h ?r PREVOTE c2
         in go_bind (isProposer c3 ?h ?r) (\<lambda>mine. Inr (offer_block mine c3))) = Inr (go_on, c')"
    using run unfolding propose_turn_def Let_def [of "upd_state _ _"] by (rule go_bind_InrE)
  let ?vh = "map_get0 (validatorsHeight (valSet ?c1)) v"
  obtain t c2 where c2: "getProposeTimeout e ?c1 v ?vh ?h ?r = (t, c2)"
    by (cases "getProposeTimeout e ?c1 v ?vh ?h ?r")
  obtain mine where mine: "offer_block mine (AddTimeout t ?h ?r PREVOTE c2) = (go_on, c')"
    using rest c2 by (auto simp: Let_def go_bind_Inr_iff)
  have v2: "same_view ?c1 c2" using same_view_getProposeTimeout [of ?c1 e v ?vh ?h ?r] c2 by simp
  then have t2: "trans cd W V c c2" using c1 by (rule trans_then_silent [rotated])
  have "Height c2 = ?h" "Round c2 = ?r" using v2 by (simp_all add: same_view_def upd_state_def)
  then have t3: "trans cd W V c (AddTimeout t ?h ?r PREVOTE c2)"
    using t2 trans_AddTimeout [OF trans_inv [OF t2]] by (auto intro: trans_trans)
  have "trans cd W V (AddTimeout t ?h ?r PREVOTE c2) (snd (offer_block mine (AddTimeout t ?h ?r PREVOTE c2)))"
    using trans_inv [OF t3] by (rule offer_block_trans)
  then show ?thesis using t3 mine by (auto intro: trans_trans)
qed

lemma enterPropose_trans:
  assumes inv: "inv V c" and step: "StepOf c = NEW_ROUND"
    and run: "enterPropose e (Height c) (Round c) c = Inr c'"
  shows "trans cd W V c c'"
proof -
  let ?c = "c\<lparr>ProposeOptimalTimer := False\<rparr>"
  have t0: "trans cd W V c ?c" using inv by (simp add: trans_silent same_view_def)
  obtain go_on c1 where turn: "propose_turn e (Height ?c) (Round ?c) ?c = Inr (go_on, c1)"
    and rest: "(if go_on then getFutureMsgFromCache (Height c1) (Round c1) c1 else Inr c1) = Inr c'"
    using run step by (auto simp: enterPropose_def Let_def)
  have "trans cd W V ?c c1"
    using propose_turn_trans [OF trans_inv [OF t0] _ turn] step by (simp add: less_Step_def)
  then have "trans cd W V c c1" using t0 by (rule trans_trans [rotated])
  moreover have "same_view c1 c'"
    using rest same_view_getFutureMsgFromCache by (auto split: if_splits)
  ultimately show ?thesis by (rule trans_then_silent)
qed

lemma enterNewRound_trans:
  assumes inv: "inv V c" and run: "enterNewRound e (Height c) round c = Inr c'"
  shows "trans cd W V c c'"
proof -
  obtain c1 where refresh: "refresh_config e c = Inr c1" using run by (auto simp: enterNewRound_def)
  have v1: "same_view c c1" using same_view_refresh_config [OF refresh] .
  then have t1: "trans cd W V c c1" using inv by (rule trans_silent [rotated])
  have h: "Height c1 = Height c" using v1 by (simp add: same_view_def)
  show ?thesis
  proof (cases "Height c1 > Height c \<or> sint (Round c1) > sint round \<or> (Round c1 = round \<and> StepOf c1 \<noteq> NEW_HEIGHT)")
    case True
    then have "c' = c1" using run refresh by (auto simp: enterNewRound_def)
    then show ?thesis using t1 by simp
  next
    case False
    let ?c2 = "(upd_state (\<lambda>s. s\<lparr>cs_Height := Height c, cs_Round := round, cs_Step := NEW_ROUND,
        cs_Proposal := None, cs_VerifingProposal := None\<rparr>) c1)\<lparr>invalidTxs := []\<rparr>"
    have "position_of c1 \<le> position_of ?c2"
      using False h by (auto simp: position_of_def upd_state_def less_eq_prod_def less_le sint_eq_word)
    then have t2: "trans cd W V c1 ?c2"
      using trans_inv [OF t1] h by (intro trans_move) (simp_all add: upd_state_def)
    have "enterPropose e (Height ?c2) (Round ?c2) ?c2 = Inr c'"
      using run refresh False by (auto simp: enterNewRound_def Let_def upd_state_def)
    then have "trans cd W V ?c2 c'"
      by (intro enterPropose_trans [OF trans_inv [OF t2]]) (simp_all add: upd_state_def)
    then show ?thesis using t1 t2 by (blast intro: trans_trans)
  qed
qed

end
