(* ===== verification/Tbft_Handler_Trans.thy ===== *)
theory Tbft_Handler_Trans
  imports Tbft_Trans
begin

section \<open>The handlers as transitions\<close>

text \<open>
  Commits, votes, certificates and the remaining handlers are transitions too. A new height
  starts with new vote sets under the validators of the configuration.
\<close>

subsection \<open>Commit\<close>

lemma commitBlock_trans:
  assumes inv: "inv V c" and quorum: "quorum_set V VOTE_PRECOMMIT h r s vs"
    and hash: "bytes_content (ref_hash c p) = s"
    and run: "commitBlock e p (VoteSet_ToProto (Some vs)) c = Inr c'"
  shows "trans (e_codec e) V V c c'"
proof -
  obtain block header where block: "p_Block (heap c p) = Some block" and header: "b_Header block = Some header"
    using run by (auto simp: commitBlock_def elim!: go_bind_InrE)
  have eq: "BlockHash header = ref_hash c p"
    using block header by (simp add: ref_hash_def proposal_hash_def)
  let ?m = "(case b_AdditionalData block of None \<Rightarrow> Map.empty | Some m \<Rightarrow> m)
      (TBFTAddtionalDataKey \<mapsto> Some (marshalVoteSet (e_codec e) (VoteSet_ToProto (Some vs))))"
  let ?b = "block\<lparr>b_AdditionalData := Some ?m\<rparr>"
  let ?c1 = "hwrite p (\<lambda>q. q\<lparr>p_Block := Some ?b\<rparr>) c"
  have c': "c' = emit (CommitBlock ?b) ?c1"
    using run block header by (simp add: commitBlock_def Let_def)
  have t1: "trans (e_codec e) V V c ?c1" using inv by (simp add: trans_silent)
  have "justified (e_codec e) V (CommitBlock ?b)"
    using quorum hash header eq by auto
  then have "trans (e_codec e) V V ?c1 c'"
    unfolding c' using trans_inv [OF t1] by (intro trans_emit) simp_all
  then show ?thesis using t1 by (rule trans_trans [rotated])
qed

lemma same_view_commit_proposal: "commit_proposal e hash c = Inr c' \<Longrightarrow> same_view c c'"
  by (auto simp: commit_proposal_def same_view_def upd_state_def elim!: go_bind_InrE
      split: option.splits if_splits)

text \<open>The part of \<open>enterCommit\<close> after the choice of the proposal.\<close>

lemma finishCommit_trans:
  assumes inv: "inv V c2" and maj: "ok \<Longrightarrow> \<exists>s vs h r. hash = Some s \<and> voteSet = Some vs \<and> quorum_set V VOTE_PRECOMMIT h r s vs"
    and nok: "\<not> ok \<Longrightarrow> isNilHash hash" and run0: "finishCommit e round hash voteSet c2 = Inr c'"
  shows "trans (e_codec e) V V c2 c'"
proof -
  define hash' where hash': "hash' = (case cs_Proposal (cState c2) of None \<Rightarrow> hash
      | Some tp \<Rightarrow> if \<not> bytes_Equal hash (ref_hash c2 (PbMsg tp)) then nilHash else hash)"
  have run: "(if isNilHash hash' then enterNewRound e (Height c2) (round + 1) c2
       else (case cs_Proposal (cState c2) of None \<Rightarrow> enterNewRound e (Height c2) (round + 1) c2
        | Some tp \<Rightarrow> if \<not> bytes_Equal hash' (ref_hash c2 (PbMsg tp)) then Inl BlockMatchFailed
            else commitBlock e (PbMsg tp) (VoteSet_ToProto voteSet) c2)) = Inr c'"
    using run0 unfolding finishCommit_def Let_def hash' .
  show ?thesis
  proof (cases "isNilHash hash' \<or> cs_Proposal (cState c2) = None")
    case True
    then have "enterNewRound e (Height c2) (round + 1) c2 = Inr c'"
      using run by (auto split: if_splits)
    then show ?thesis by (rule enterNewRound_trans [OF inv])
  next
    case False
    then obtain tp where tp: "cs_Proposal (cState c2) = Some tp" by auto
    then have eq: "bytes_Equal hash' (ref_hash c2 (PbMsg tp))"
      and commit: "commitBlock e (PbMsg tp) (VoteSet_ToProto voteSet) c2 = Inr c'"
      using run False by (auto split: if_splits)
    have "hash' = hash" using hash' tp False by (auto split: if_splits)
    then have ok using nok False by blast
    then obtain s vs h r where "hash = Some s" "voteSet = Some vs" "quorum_set V VOTE_PRECOMMIT h r s vs"
      using maj by blast
    then show ?thesis
      using commit eq False \<open>hash' = hash\<close> isNilHash_cong [OF eq]
      by (intro commitBlock_trans [OF inv, of h r s vs]) (auto simp: bytes_Equal_def)
  qed
qed

lemma enterCommit_trans:
  assumes inv: "inv V c" and ahead: "not_ahead height round c" and run: "enterCommit e height round c = Inr c'"
  shows "trans (e_codec e) V V c c'"
proof (cases "Height c \<noteq> height \<or> sint (Round c) > sint round \<or> (Round c = round \<and> StepOf c \<noteq> PRECOMMIT)")
  case True
  then have "enterCommit e height round c = Inr c" by (auto simp: enterCommit_def)
  then show ?thesis using inv run by (simp add: trans_refl)
next
  case False
  then have step: "StepOf c = PRECOMMIT"
    using ahead by (auto simp: not_ahead_def sint_eq_word [symmetric])
  let ?c1 = "upd_state (\<lambda>s. s\<lparr>cs_Step := COMMIT\<rparr>) c"
  have t1: "trans (e_codec e) V V c ?c1"
    using step by (intro trans_move [OF inv]) (auto simp: position_of_def upd_state_def less_eq_prod_def)
  obtain hvs where hvs: "hvs_of ?c1 = Inr hvs"
    using inv by (auto simp: inv_def votes_inv_def hvs_of_def upd_state_def)
  let ?vs = "precommits hvs (Round ?c1)"
  obtain hash ok where maj: "twoThirdsMajority ?vs = (hash, ok)" by (cases "twoThirdsMajority ?vs")
  have nok: "isNilHash hash" if "\<not> ok"
    using maj that by (auto simp: twoThirdsMajority_def split: option.splits if_splits)
  have body: "enterCommit e height round c =
      (if \<not> isNilHash hash \<and> \<not> ok then Inl CommitWithoutMajority
       else go_bind (commit_proposal e hash ?c1) (\<lambda>c2. finishCommit e round hash ?vs c2))"
    unfolding enterCommit_def using False by (simp only: Let_def hvs go_bind_simps maj prod.case if_False)
  obtain c2 where c2: "commit_proposal e hash ?c1 = Inr c2" and rest: "finishCommit e round hash ?vs c2 = Inr c'"
    using run unfolding body by (auto split: if_splits elim!: go_bind_InrE)
  have t2: "trans (e_codec e) V V c c2"
    using t1 same_view_commit_proposal [OF c2] by (rule trans_then_silent)
  have "\<exists>s vs h r. hash = Some s \<and> ?vs = Some vs \<and> quorum_set V VOTE_PRECOMMIT h r s vs" if ok
    using precommits_quorum [OF trans_inv [OF t1] hvs, of "Round ?c1" hash] maj that by (metis (full_types))
  then have "trans (e_codec e) V V c2 c'"
    using finishCommit_trans [OF trans_inv [OF t2] _ _ rest] nok by blast
  then show ?thesis using t2 by (rule trans_trans [rotated])
qed

subsection \<open>New heights\<close>

definition env_ok :: "env \<Rightarrow> bool" where
  "env_ok e \<longleftrightarrow> length (concat (cc_Nodes (cfg_Consensus (e_ChainConfig e)))) < 2 ^ 30 \<and>
     (\<forall>x vs. e_extendHandler e = Some x \<and> x_GetValidators x = Some vs \<longrightarrow> length vs < 2 ^ 30)"

definition log_ok :: "TBFT \<Rightarrow> bool" where
  "log_ok c \<longleftrightarrow> signed_ok c \<and> timeouts_ok c \<and> small_valset (valSet c)"

lemma small_valset_cong: "Validators V = Validators W \<Longrightarrow> small_valset V = small_valset W"
  by (simp add: small_valset_def)

lemma inv_log_ok: "inv V c \<Longrightarrow> log_ok c"
  by (auto simp: inv_def log_ok_def same_validators_def small_valset_def)

lemma updateValidators_Validators: "Validators (fst (updateValidators V vs)) = sort vs"
  by (simp add: updateValidators_def case_prod_unfold Let_def)

lemma updateChainConfig_view:
  assumes "env_ok e" and "small_valset (valSet c)" and "updateChainConfig e c = (c1, added, removed)"
  shows "cState c1 = cState c" and "outs c1 = outs c" and "Id c1 = Id c" and "small_valset (valSet c1)"
proof -
  let ?x = "extractConsensusConfig (e_ParseDuration e) (e_ChainConfig e) (cfg_Consensus (e_ChainConfig e))"
  show "cState c1 = cState c" and "outs c1 = outs c" and "Id c1 = Id c"
    using assms(3) by (auto simp: updateChainConfig_def Let_def split: option.splits prod.splits)
  have vals: "length vs < 2 ^ 30" if "?x = Some (vs, tc)" for vs tc
    using that assms(1)
    by (auto simp: extractConsensusConfig_def GetValidatorListFromConfig_concat env_ok_def split: option.splits)
  have small: "small_valset W" if "updateValidators U vs = (W, added, removed)" and "length vs < 2 ^ 30" for U W vs
    using updateValidators_Validators [of U vs] that by (simp add: small_valset_def)
  show "small_valset (valSet c1)"
    using assms vals small unfolding updateChainConfig_def
    by (auto simp: Let_def env_ok_def split: option.splits prod.splits)
qed

lemma emit_all_eq: "emit_all os c = c\<lparr>outs := outs c @ os\<rparr>"
  by (induction os arbitrary: c) (simp_all add: emit_def)

lemma signed_votes_remoters:
  "signed_votes (map PutRemoter xs) = []" "signed_votes (map RemoveRemoter xs) = []"
  by (simp_all add: signed_votes_def List.map_filter_def filter_empty_conv)

lemma newHeightState_view:
  assumes "env_ok e" and "small_valset (valSet c)"
  obtains new where "outs (newHeightState e height c) = outs c @ new" and "signed_votes new = []"
    and "\<forall>ti. Timeout ti \<notin> set new" and "\<forall>o1 \<in> set new. \<forall>cd W. justified cd W o1"
    and "small_valset (valSet (newHeightState e height c))" and "Id (newHeightState e height c) = Id c"
    and "Height (newHeightState e height c) = height"
    and "cs_heightRoundVoteSet (cState (newHeightState e height c)) = Some (newHeightRoundVoteSet height 0)"
proof -
  obtain c1 added removed where up: "updateChainConfig e c = (c1, added, removed)"
    by (cases "updateChainConfig e c")
  note view = updateChainConfig_view [OF assms up]
  have small: "small_valset (v\<lparr>validatorsHeight := m\<rparr>) = small_valset v" for v m
    by (simp add: small_valset_def)
  show ?thesis
    by (rule that [of "map PutRemoter added @ map RemoveRemoter removed"])
      (use view in \<open>auto simp: newHeightState_def up Let_def emit_all_eq upd_state_def signed_votes_remoters small\<close>)
qed

lemma enterNewHeight_trans:
  assumes log: "log_ok c" and env: "env_ok e" and lt: "Height c < height"
    and run: "enterNewHeight e height c = Inr c'"
  shows "\<exists>V. \<forall>cd W. trans cd W V c c'"
proof -
  let ?c = "newHeightState e height c"
  have small: "small_valset (valSet c)" using log by (simp add: log_ok_def)
  obtain new where o7: "outs ?c = outs c @ new" "signed_votes new = []" "\<forall>ti. Timeout ti \<notin> set new"
      "\<forall>o1 \<in> set new. \<forall>cd W. justified cd W o1"
    and view: "small_valset (valSet ?c)" "Id ?c = Id c" and h7: "Height ?c = height"
    and hvs: "cs_heightRoundVoteSet (cState ?c) = Some (newHeightRoundVoteSet height 0)"
    by (rule newHeightState_view [OF env small, where height = height])
  have run7: "enterNewRound e (Height ?c) 0 ?c = Inr c'"
    using run lt unfolding enterNewHeight_def h7 by (simp add: not_le [symmetric])
  have le: "position_of c \<le> position_of ?c"
    using lt h7 by (simp add: position_of_def word_less_nat_alt less_eq_prod_def)
  have "signed_ok ?c" and "timeouts_ok ?c"
    using log le o7 by (auto simp: log_ok_def intro: signed_ok_later [of c] timeouts_ok_later [of c])
  moreover have "votes_inv (valSet ?c) ?c"
    by (simp add: votes_inv_def hvs h7 newHeightRoundVoteSet_def wf_hvs_def)
  moreover have "backed ?c"
  proof -
    have "v_Height v \<noteq> height" if "v \<in> set (signed_votes (outs c))" for v
      using log lt that
      by (auto simp: log_ok_def signed_ok_def vote_position_def position_of_def less_eq_prod_def word_less_nat_alt)
    then show ?thesis using o7 h7 by (auto simp: backed_def)
  qed
  ultimately have inv7: "inv (valSet ?c) ?c" using view by (simp add: inv_def same_validators_def)
  then have "trans cd W (valSet ?c) c ?c" for cd W
    using le view o7 by (auto simp: trans_def)
  then show ?thesis
    using enterNewRound_trans [OF inv7 run7] trans_trans by blast
qed

subsection \<open>Messages out\<close>

lemma send_to_trans: "inv V c \<Longrightarrow> trans cd W V c (send_to msg vs c)"
proof (induction vs arbitrary: c)
  case (Cons v vs)
  have "trans cd W V c (if v = Id c then c else emit (NetMsg msg v) c)"
    using Cons.prems by (auto intro: trans_refl trans_emit)
  then show ?case using Cons.IH trans_inv trans_trans by (metis send_to.simps(2))
qed (simp add: trans_refl)

lemma sendConsensusMsg_trans: "inv V c \<Longrightarrow> trans cd W V c (sendConsensusMsg msg to c)"
  unfolding sendConsensusMsg_def by (rule send_to_trans)

lemma sendConsensusVote_trans: "inv V c \<Longrightarrow> sendConsensusVote e v to c = Inr c' \<Longrightarrow> trans cd W V c c'"
  by (auto simp: sendConsensusVote_def sendConsensusMsg_trans trans_refl
      split: VoteType.splits if_splits)

lemma sendConsensusProposal_trans: "inv V c \<Longrightarrow> trans cd W V c (sendConsensusProposal p to c)"
  by (auto simp: sendConsensusProposal_def sendConsensusMsg_trans trans_refl split: option.split)

subsection \<open>Votes\<close>

lemma not_ahead_refl [simp]: "not_ahead (Height c) (Round c) c"
  by (simp add: not_ahead_def)

lemma same_view_update_valid: "update_valid voteSet hash vote tp c = Inr c' \<Longrightarrow> same_view c c'"
  by (auto simp: update_valid_def append_qc_def hwrite_def upd_state_def same_view_def elim!: go_bind_InrE
      split: if_splits)

lemma follow_prevotes_trans:
  assumes inv: "inv V c" and run: "follow_prevotes e voteSet hash vote c = Inr c'"
  shows "trans cd V V c c'"
proof -
  let ?c1 = "unlock_on_majority hash vote c"
  have v1: "same_view c ?c1"
    by (simp add: unlock_on_majority_def same_view_def upd_state_def unlock_def split: option.split)
  obtain c2 where v2: "same_view ?c1 c2" and pre: "enterPrecommit e (Height c2) (Round c2) c2 = Inr c'"
  proof (cases "cs_Proposal (cState ?c1)")
    case None
    then show ?thesis using run that [of ?c1] by (simp add: follow_prevotes_def Let_def)
  next
    case (Some tp)
    then have "go_bind (update_valid voteSet hash vote tp ?c1) (\<lambda>c2. enterPrecommit e (Height c2) (Round c2) c2) = Inr c'"
      using run by (simp add: follow_prevotes_def Let_def)
    then show ?thesis by (rule go_bind_InrE) (rule that [OF same_view_update_valid])
  qed
  have t2: "trans cd V V c c2"
    using trans_silent [OF inv v1] v2 by (rule trans_then_silent)
  then show ?thesis
    using enterPrecommit_trans [OF trans_inv [OF t2] not_ahead_refl pre] by (rule trans_trans)
qed

lemma addPrevoteVote_trans:
  assumes inv: "inv V c" and run: "addPrevoteVote e vote c = Inr c'"
  shows "trans cd V V c c'"
proof -
  have "enterPrecommit e (Height c) (Round c) c = Inr c' \<or>
      c' = AddTimeout (PrevoteTimeout (Round c)) (Height c) (Round c) PRECOMMIT c \<or> c' = c \<or>
      (\<exists>voteSet hash. follow_prevotes e voteSet hash vote c = Inr c')"
    using run by (auto simp: addPrevoteVote_def Let_def elim!: go_bind_InrE split: if_splits prod.splits)
  then show ?thesis
    using enterPrecommit_trans [OF inv not_ahead_refl] trans_AddTimeout [OF inv] trans_refl [OF inv]
      follow_prevotes_trans [OF inv] by auto
qed

lemma addPrecommitVote_trans:
  assumes inv: "inv V c" and run: "addPrecommitVote e vote c = Inr c'"
  shows "trans (e_codec e) V V c c'"
proof -
  have "enterCommit e (Height c) (Round c) c = Inr c' \<or>
      c' = AddTimeout (PrecommitTimeout (Round c)) (Height c) (Round c) COMMIT c \<or> c' = c"
    using run by (auto simp: addPrecommitVote_def Let_def elim!: go_bind_InrE split: if_splits prod.splits option.splits)
  then show ?thesis
    using enterCommit_trans [OF inv not_ahead_refl] trans_AddTimeout [OF inv] trans_refl [OF inv] by auto
qed

lemma saveWalEntry_trans: "inv V c \<Longrightarrow> saveWalEntry e p c = Inr c' \<Longrightarrow> trans cd W V c c'"
  by (auto simp: saveWalEntry_def trans_refl split: if_splits intro: trans_emit)

lemma save_precommit_trans:
  assumes inv: "inv V c" and run: "save_precommit e vote c = Inr c'"
  shows "trans cd W V c c'"
proof -
  have "c' = c \<or> (\<exists>c1 p. same_view c c1 \<and> saveWalEntry e p c1 = Inr c')"
    using run
    by (auto simp: save_precommit_def Let_def elim!: go_bind_InrE split: option.splits if_splits prod.splits)
      (auto simp: append_qc_def intro: same_view_hwrite)
  then show ?thesis
  proof
    assume "\<exists>c1 p. same_view c c1 \<and> saveWalEntry e p c1 = Inr c'"
    then obtain c1 p where "same_view c c1" and save: "saveWalEntry e p c1 = Inr c'" by blast
    then have t1: "trans cd W V c c1" using trans_silent [OF inv] by blast
    then show ?thesis using saveWalEntry_trans [OF trans_inv [OF t1] save] by (rule trans_trans)
  qed (simp add: trans_refl inv)
qed

lemma addVote_trans:
  assumes inv: "inv V c" and run: "addVote e vote replay c = Inr c'"
  shows "trans (e_codec e) V V c c'"
proof -
  obtain hvs hvs' added err where hvs: "hvs_of c = Inr hvs"
    and add: "hvs_addVote (valSet c) hvs (Some vote) = Inr (hvs', added, err)"
    using run by (auto simp: addVote_def elim!: go_bind_InrE)
  let ?c1 = "put_hvs hvs' c"
  have t1: "trans (e_codec e) V V c ?c1" by (rule trans_put_hvs [OF inv hvs add])
  show ?thesis
  proof (cases "err = None")
    case False
    then have "c' = ?c1" using run hvs add by (simp add: addVote_def)
    then show ?thesis using t1 by simp
  next
    case True
    obtain c2 where proc: "(case v_Type vote of VOTE_PREVOTE \<Rightarrow> addPrevoteVote e vote ?c1
        | VOTE_PRECOMMIT \<Rightarrow> addPrecommitVote e vote ?c1 | VOTE_OTHER _ \<Rightarrow> Inr ?c1) = Inr c2"
      and rest: "(if Id c2 = v_Voter vote then
          go_bind (if v_Type vote = VOTE_PRECOMMIT \<and> \<not> replay then save_precommit e vote c2 else Inr c2)
            (\<lambda>c3. sendConsensusVote e vote [] c3) else Inr c2) = Inr c'"
      using run hvs add True by (auto simp: addVote_def Let_def elim!: go_bind_InrE)
    have "trans (e_codec e) V V ?c1 c2"
      using proc addPrevoteVote_trans [OF trans_inv [OF t1]] addPrecommitVote_trans [OF trans_inv [OF t1]]
        trans_refl [OF trans_inv [OF t1]] by (auto split: VoteType.splits)
    with t1 have t2: "trans (e_codec e) V V c c2" by (rule trans_trans)
    have "c' = c2 \<or> (\<exists>c3. trans (e_codec e) V V c2 c3 \<and> sendConsensusVote e vote [] c3 = Inr c')"
      using rest save_precommit_trans [OF trans_inv [OF t2]] trans_refl [OF trans_inv [OF t2]]
      by (auto elim!: go_bind_InrE split: if_splits)
    then show ?thesis
      using t2 sendConsensusVote_trans trans_inv trans_trans by meson
  qed
qed

end
