(* ===== verification/Tbft_Status.thy ===== *)
theory Tbft_Status
  imports Tbft_Entry
begin

section \<open>The status exchange (tbft_status.go, tbft_status_broadcaster.go)\<close>

text \<open>
  The consistency engine calls the decoder for every state message of a peer and the broadcaster
  for every remote node at each tick. The decoder files the peer's height and hands the votes the
  peer knows to the instance; the broadcaster sends the node's state, and what the remote node
  lacks: the proposal, the node's own votes and, to a node in an older round, a certificate.

  The engine itself is outside the repository. The encoders of the two messages that only the
  broadcaster builds are the record \<open>statusCodec\<close>. A send to the full internal queue waits: the
  result is then \<^term>\<open>None\<close>.
\<close>

subsection \<open>Nodes and their status\<close>

definition TypeRemoteTBFTState :: int where
  "TypeRemoteTBFTState = 1"

definition TypeLocalTBFTState :: int where
  "TypeLocalTBFTState = 2"

record RemoteState =
  r_Id :: string
  r_Height :: u64
  r_Round :: i32
  r_Step :: Step
  r_Proposal :: gobytes
  r_VerifingProposal :: gobytes
  r_LockedRound :: i32
  r_LockedProposal :: "pref option"
  r_ValidRound :: i32
  r_ValidProposal :: "pref option"
  r_RoundVoteSet :: "roundVoteSet option"

text \<open>A status is the local instance, a remote node's state or one of another component.\<close>

datatype Status = LocalStatus | RemoteStatus RemoteState | OtherStatus int

definition Status_Type :: "Status \<Rightarrow> int" where
  "Status_Type s =
     (case s of LocalStatus \<Rightarrow> TypeLocalTBFTState | RemoteStatus _ \<Rightarrow> TypeRemoteTBFTState | OtherStatus t \<Rightarrow> t)"

definition RemoteState_Update :: "RemoteState \<Rightarrow> Status \<Rightarrow> RemoteState" where
  "RemoteState_Update r state =
     (case state of
        RemoteStatus local \<Rightarrow>
          if r_Id local \<noteq> r_Id r then r
          else r\<lparr>r_Height := r_Height local, r_Round := r_Round local, r_Step := r_Step local,
                 r_Proposal := r_Proposal local, r_ValidProposal := r_ValidProposal local,
                 r_RoundVoteSet := r_RoundVoteSet local\<rparr>
      | _ \<Rightarrow> r)"

record Node =
  n_id :: string
  n_status :: "int \<rightharpoonup> Status"

text \<open>A missing entry is a nil interface, whose method call panics. \<open>Update\<close> of the local status only logs.\<close>

definition UpdateStatus :: "Node \<Rightarrow> Status \<Rightarrow> Node go" where
  "UpdateStatus l s =
     (case n_status l (Status_Type s) of
        None \<Rightarrow> Inl NilDeref
      | Some (RemoteStatus r) \<Rightarrow>
          Inr (l\<lparr>n_status := (n_status l)(Status_Type s \<mapsto> RemoteStatus (RemoteState_Update r s))\<rparr>)
      | Some _ \<Rightarrow> Inr l)"

definition StatusInterceptor_Handle :: "Status \<Rightarrow> bool" where
  "StatusInterceptor_Handle s \<longleftrightarrow> \<not> (Status_Type s \<noteq> TypeLocalTBFTState \<and> Status_Type s \<noteq> TypeRemoteTBFTState)"

subsection \<open>The decoder\<close>

fun addVotesForConsistent :: "VoteSet \<Rightarrow> Vote option list \<Rightarrow> VoteSet" where
  "addVotesForConsistent vs [] = vs"
| "addVotesForConsistent vs (v # votes) = addVotesForConsistent (fst (AddVoteForConsistent vs v)) votes"

definition newVoteSet_status :: "ProtoVoteSet option \<Rightarrow> VoteSet option" where
  "newVoteSet_status pvs =
     (case pvs of None \<Rightarrow> None
      | Some vs \<Rightarrow>
        Some (addVotesForConsistent (NewVoteSet (pvs_Type vs) (pvs_Height vs) (pvs_Round vs)) (map snd (pvs_Votes vs))))"

definition newRoundVoteSet_status :: "ProtoRoundVoteSet option \<Rightarrow> roundVoteSet option" where
  "newRoundVoteSet_status prvs =
     (case prvs of None \<Rightarrow> None
      | Some rvs \<Rightarrow>
        Some \<lparr>rvs_Height = prvs_Height rvs, rvs_Round = prvs_Round rvs,
          rvs_Prevotes = newVoteSet_status (prvs_Prevotes rvs),
          rvs_Precommits = newVoteSet_status (prvs_Precommits rvs)\<rparr>)"

text \<open>
  The loop over the validators, for the prevotes (\<open>mk\<close> the prevote message, \<open>limit\<close> the
  precommit step) and for the precommits.
\<close>

primrec offer_votes ::
    "env \<Rightarrow> (Vote \<Rightarrow> ConsensusMsg) \<Rightarrow> Step \<Rightarrow> i32 \<Rightarrow> (string \<times> Vote) list \<Rightarrow> string list \<Rightarrow> TBFT \<Rightarrow> TBFT option go" where
  "offer_votes e mk limit stateRound votes [] c = Inr (Some c)"
| "offer_votes e mk limit stateRound votes (voter # voters) c =
     (case map_of votes voter of None \<Rightarrow> offer_votes e mk limit stateRound votes voters c
      | Some vote \<Rightarrow>
        if StepOf c < limit \<and> Id c \<noteq> v_Voter vote then
          go_bind (hvs_of c) (\<lambda>hvs.
          go_bind (isRequired (valSet c) hvs stateRound (Some vote)) (\<lambda>required.
            if required \<and> verifyVote e (blockVersion c) vote = None then
              (if length (internalMsgC c) < defaultChanCap
               then offer_votes e mk limit stateRound votes voters (c\<lparr>internalMsgC := internalMsgC c @ [mk vote]\<rparr>)
               else Inr None)
            else offer_votes e mk limit stateRound votes voters c))
        else offer_votes e mk limit stateRound votes voters c)"

definition updateVoteWithProto :: "env \<Rightarrow> roundVoteSet \<Rightarrow> i32 \<Rightarrow> TBFT \<Rightarrow> TBFT option go" where
  "updateVoteWithProto e voteSet stateRound c =
     (let validators = Validators (valSet c) in
      go_bind
        (case rvs_Prevotes voteSet of None \<Rightarrow> Inr (Some c)
         | Some pv \<Rightarrow> offer_votes e createPrevoteConsensusMsg PRECOMMIT stateRound (vs_Votes pv) validators c) (\<lambda>r.
        (case r of None \<Rightarrow> Inr None
         | Some c1 \<Rightarrow>
           (case rvs_Precommits voteSet of None \<Rightarrow> Inr (Some c1)
            | Some pc \<Rightarrow> offer_votes e createPrecommitConsensusMsg COMMIT stateRound (vs_Votes pc) validators c1))))"

text \<open>The heights and times of the validators that a state message updates.\<close>

definition fileHeight :: "env \<Rightarrow> GossipState \<Rightarrow> validatorSet \<Rightarrow> validatorSet" where
  "fileHeight e state V =
     (let V1 = (if map_get0 (validatorsHeight V) (gs_Id state) < gs_Height state
                then V\<lparr>validatorsHeight := (validatorsHeight V)(gs_Id state \<mapsto> gs_Height state)\<rparr> else V)
      in V1\<lparr>validatorsBeatTime := (validatorsBeatTime V1)(gs_Id state \<mapsto> e_nowMilli e)\<rparr>)"

definition remoteStateOf :: "GossipState \<Rightarrow> RemoteState" where
  "remoteStateOf state =
     \<lparr>r_Id = gs_Id state, r_Height = gs_Height state, r_Round = gs_Round state, r_Step = gs_Step state,
      r_Proposal = gs_Proposal state, r_VerifingProposal = gs_VerifingProposal state, r_LockedRound = 0,
      r_LockedProposal = None, r_ValidRound = 0, r_ValidProposal = None,
      r_RoundVoteSet = newRoundVoteSet_status (gs_RoundVoteSet state)\<rparr>"

datatype NetMsgType = CONSENSUS_MSG | CONSISTENT_MSG | NET_OTHER i32

text \<open>\<open>Decode\<close> of a network message: the node whose status was read, if it was a state message.\<close>

definition Decode :: "env \<Rightarrow> wire \<Rightarrow> NetMsgType \<Rightarrow> gobytes \<Rightarrow> TBFT \<Rightarrow> (TBFT \<times> Node option) option go" where
  "Decode e w msgType payload c =
     (if msgType \<noteq> CONSISTENT_MSG then Inr (Some (c, None))
      else go_bind (createStateMsgFromTBFTMsgBz w payload) (\<lambda>m.
        (case m of
           Some (MsgState state) \<Rightarrow>
             (let rs = remoteStateOf state;
                  c1 = c\<lparr>valSet := fileHeight e state (valSet c)\<rparr>;
                  info = \<lparr>n_id = gs_Id state, n_status = [TypeRemoteTBFTState \<mapsto> RemoteStatus rs]\<rparr>
              in case r_RoundVoteSet rs of
                   Some rvs \<Rightarrow>
                     if r_Height rs = Height c1 \<and> r_Round rs = Round c1 then
                       go_bind (updateVoteWithProto e rvs (r_Round rs) c1) (\<lambda>r.
                         Inr (case r of None \<Rightarrow> None | Some c2 \<Rightarrow> Some (c2, Some info)))
                     else Inr (Some (c1, Some info))
                 | None \<Rightarrow> Inr (Some (c1, Some info)))
         | _ \<Rightarrow> Inr (Some (c, None)))))"

subsection \<open>The broadcaster\<close>

record statusCodec =
  marshalGossipState :: "GossipState \<Rightarrow> string"
  marshalRoundQC :: "RoundQC \<Rightarrow> string"

text \<open>A message of the consistency layer: its content, before encoding, and its receiver.\<close>

type_synonym statusMsg = "TBFTMsg \<times> string"

definition sendState :: "statusCodec \<Rightarrow> TBFT \<Rightarrow> string \<Rightarrow> statusMsg list go" where
  "sendState sc local remoteId =
     (let proposal = (case cs_Proposal (cState local) of None \<Rightarrow> None | Some tp \<Rightarrow> ref_hash local (PbMsg tp));
          verifingProposal = (case cs_Proposal (cState local) of None \<Rightarrow> None | Some tp \<Rightarrow> ref_hash local (PbMsg tp))
      in go_bind (hvs_of local) (\<lambda>hvs.
         Inr [(\<lparr>m_Type = MSG_STATE, m_Msg = Some (marshalGossipState sc
            \<lparr>gs_Id = Id local, gs_Height = Height local, gs_Round = Round local, gs_Step = StepOf local,
             gs_Proposal = proposal, gs_VerifingProposal = verifingProposal,
             gs_RoundVoteSet = roundVoteSet_ToProto (getRoundVoteSet hvs (Round local))\<rparr>)\<rparr>, remoteId)]))"

definition sendProposalOf :: "ConsensusState \<Rightarrow> string \<Rightarrow> statusMsg list" where
  "sendProposalOf state remoteId =
     (case cs_Proposal state of None \<Rightarrow> []
      | Some tp \<Rightarrow> if Bytes tp = None then [] else [(createProposalTBFTMsg tp, remoteId)])"

text \<open>The node's own vote in \<open>voteSet\<close>, when the remote node's vote set \<open>known\<close> lacks it.\<close>

definition missingVote :: "string \<Rightarrow> VoteSet option \<Rightarrow> VoteSet option \<Rightarrow> Vote option" where
  "missingVote localId voteSet known =
     (case voteSet of None \<Rightarrow> None
      | Some vs \<Rightarrow>
        (case map_of (vs_Votes vs) localId of None \<Rightarrow> None
         | Some vote \<Rightarrow>
           (case known of None \<Rightarrow> None
            | Some rs \<Rightarrow> if map_of (vs_Votes rs) localId = None then Some vote else None)))"

definition known_sets :: "(roundVoteSet \<Rightarrow> VoteSet option) \<Rightarrow> RemoteState \<Rightarrow> VoteSet option" where
  "known_sets sel remoter = (case r_RoundVoteSet remoter of None \<Rightarrow> None | Some rvs \<Rightarrow> sel rvs)"

definition sendPrevoteOf :: "env \<Rightarrow> string \<Rightarrow> heightRoundVoteSet \<Rightarrow> RemoteState \<Rightarrow> string \<Rightarrow> statusMsg list" where
  "sendPrevoteOf e localId hvs remoter remoteId =
     (case missingVote localId (prevotes hvs (r_Round remoter)) (known_sets rvs_Prevotes remoter) of
        None \<Rightarrow> [] | Some vote \<Rightarrow> [(createPrevoteTBFTMsg e vote, remoteId)])"

definition sendPrecommitOf :: "env \<Rightarrow> string \<Rightarrow> heightRoundVoteSet \<Rightarrow> RemoteState \<Rightarrow> string \<Rightarrow> statusMsg list" where
  "sendPrecommitOf e localId hvs remoter remoteId =
     (case missingVote localId (precommits hvs (r_Round remoter)) (known_sets rvs_Precommits remoter) of
        None \<Rightarrow> [] | Some vote \<Rightarrow> [(createPrecommitTBFTMsg e vote, remoteId)])"

text \<open>The same for an archived state of an older height, sent to the node that the remote state names.\<close>

definition sendProposalInState :: "ConsensusState \<Rightarrow> RemoteState \<Rightarrow> statusMsg list" where
  "sendProposalInState state remoter = sendProposalOf state (r_Id remoter)"

definition sendPrevoteInState :: "env \<Rightarrow> TBFT \<Rightarrow> ConsensusState \<Rightarrow> RemoteState \<Rightarrow> statusMsg list go" where
  "sendPrevoteInState e local state remoter =
     go_bind (deref (cs_heightRoundVoteSet state)) (\<lambda>hvs.
       Inr (sendPrevoteOf e (Id local) hvs remoter (r_Id remoter)))"

definition sendPrecommitInState :: "env \<Rightarrow> TBFT \<Rightarrow> ConsensusState \<Rightarrow> RemoteState \<Rightarrow> statusMsg list go" where
  "sendPrecommitInState e local state remoter =
     go_bind (deref (cs_heightRoundVoteSet state)) (\<lambda>hvs.
       Inr (sendPrecommitOf e (Id local) hvs remoter (r_Id remoter)))"

text \<open>The majority of a round: of its precommits, else of its prevotes.\<close>

definition roundMajority :: "roundVoteSet option \<Rightarrow> VoteSet option" where
  "roundMajority prvs =
     (case prvs of None \<Rightarrow> None
      | Some rvs \<Rightarrow>
        if snd (twoThirdsMajority (rvs_Precommits rvs)) then rvs_Precommits rvs
        else if snd (twoThirdsMajority (rvs_Prevotes rvs)) then rvs_Prevotes rvs
        else None)"

text \<open>
  The loop from the local round down to the remote one. The counter is 32 bits wide; the result
  \<^term>\<open>None\<close> is a loop that does not end.
\<close>

partial_function (option) findRoundQC :: "heightRoundVoteSet \<Rightarrow> i32 \<Rightarrow> i32 \<Rightarrow> VoteSet option option" where
  "findRoundQC hvs remoteRound round =
     (if sint round \<ge> sint remoteRound then
        (case roundMajority (getRoundVoteSet hvs round) of
           Some vs \<Rightarrow> Some (Some vs)
         | None \<Rightarrow> findRoundQC hvs remoteRound (round - 1))
      else Some None)"

definition sendRoundQC :: "statusCodec \<Rightarrow> TBFT \<Rightarrow> heightRoundVoteSet \<Rightarrow> RemoteState \<Rightarrow> string \<Rightarrow> statusMsg list option" where
  "sendRoundQC sc local hvs remoter remoteId =
     (if Height local = r_Height remoter \<and> sint (Round local) > sint (r_Round remoter) then
        (case findRoundQC hvs (r_Round remoter) (Round local) of
           None \<Rightarrow> None
         | Some None \<Rightarrow> Some []
         | Some (Some vs) \<Rightarrow>
           Some [(\<lparr>m_Type = MSG_SEND_ROUND_QC, m_Msg = Some (marshalRoundQC sc
             \<lparr>qc_Id = Id local, qc_Height = vs_Height vs, qc_Round = vs_Round vs,
              qc_Qc = VoteSet_ToProto (Some vs)\<rparr>)\<rparr>, remoteId)])
      else Some [])"

text \<open>
  \<open>PreBroadcaster\<close> for the instance and a remote node; \<^term>\<open>None\<close> does not return. A
  remote node without a state makes \<open>sendState\<close> panic in its log line.
\<close>

definition PreBroadcaster :: "env \<Rightarrow> statusCodec \<Rightarrow> TBFT \<Rightarrow> string \<Rightarrow> RemoteState option \<Rightarrow> statusMsg list option go" where
  "PreBroadcaster e sc local remoteId premoter =
     (if Id local = [] \<or> remoteId = [] then Inr (Some [])
      else
        go_bind (sendState sc local remoteId) (\<lambda>stateMsgs.
        go_bind (deref premoter) (\<lambda>remoter.
          if r_Height remoter = 0 \<or> Height local < r_Height remoter then Inr (Some stateMsgs)
          else if Height local = r_Height remoter then
            go_bind (hvs_of local) (\<lambda>hvs.
              Inr (case sendRoundQC sc local hvs remoter remoteId of None \<Rightarrow> None
                | Some qcMsgs \<Rightarrow>
                  Some (stateMsgs @ sendProposalOf (cState local) remoteId @
                    sendPrevoteOf e (Id local) hvs remoter remoteId @
                    sendPrecommitOf e (Id local) hvs remoter remoteId @ qcMsgs)))
          else
            (case getConsensusState (stateCache local) (r_Height remoter) of
               None \<Rightarrow> Inr (Some stateMsgs)
             | Some state \<Rightarrow>
               go_bind (sendPrevoteInState e local state remoter) (\<lambda>prevoteMsgs.
               go_bind (sendPrecommitInState e local state remoter) (\<lambda>precommitMsgs.
                 Inr (Some (stateMsgs @ sendProposalInState state remoter @ prevoteMsgs @ precommitMsgs))))))))"

subsection \<open>The search for a certificate\<close>

text \<open>
  The loop ends for every remote round but the least one; there it does not end unless a majority
  is found, because the counter wraps around.
\<close>

lemma sint_pred:
  assumes "- (2 ^ 31) < sint (r :: i32)"
  shows "sint (r - 1) = sint r - 1"
proof -
  have eq: "r - 1 = word_of_int (sint r - 1)" by (simp only: of_int_diff of_int_1 of_int_sint scast_id)
  have "sint r < 2 ^ 31" using sint_lt [of r] by simp
  then have "sint (word_of_int (sint r - 1) :: i32) = sint r - 1" using assms by (intro sint_i32) linarith+
  then show ?thesis by (simp only: eq)
qed

lemma findRoundQC_ends:
  assumes "- (2 ^ 31) < sint remoteRound"
  shows "\<exists>res. findRoundQC hvs remoteRound round = Some res"
proof (induction "nat (sint round - sint remoteRound + 1)" arbitrary: round rule: less_induct)
  case less
  show ?case
  proof (cases "sint round \<ge> sint remoteRound")
    case True
    then have "sint (round - 1) = sint round - 1" using assms by (intro sint_pred) linarith
    then have "nat (sint (round - 1) - sint remoteRound + 1) < nat (sint round - sint remoteRound + 1)"
      using True by linarith
    from less [OF this] obtain res where "findRoundQC hvs remoteRound (round - 1) = Some res" by blast
    then show ?thesis
      using True by (subst findRoundQC.simps) (cases "roundMajority (getRoundVoteSet hvs round)", simp_all)
  next
    case False
    then show ?thesis by (subst findRoundQC.simps) simp
  qed
qed

lemma findRoundQC_diverges:
  assumes "sint remoteRound = - (2 ^ 31)" and "\<forall>r. roundMajority (getRoundVoteSet hvs r) = None"
  shows "findRoundQC hvs remoteRound round = None"
proof (rule ccontr)
  have le: "sint remoteRound \<le> sint (r :: i32)" for r using assms(1) sint_ge [of r] by simp
  assume "findRoundQC hvs remoteRound round \<noteq> None"
  then obtain res where res: "findRoundQC hvs remoteRound round = Some res" by blast
  have "\<not> ((\<forall>r. roundMajority (getRoundVoteSet hvs r) = None) \<and> (\<forall>r :: i32. sint remoteRound \<le> sint r))"
    by (rule findRoundQC.raw_induct [where P = "\<lambda>hvs rr r res. \<not> ((\<forall>r. roundMajority (getRoundVoteSet hvs r) = None)
          \<and> (\<forall>r :: i32. sint rr \<le> sint r))", OF _ res])
      (auto split: if_splits option.splits)
  then show False using assms(2) le by blast
qed

lemma findRoundQC_found:
  assumes "findRoundQC hvs remoteRound round = Some (Some vs)"
  shows "\<exists>r. sint remoteRound \<le> sint r \<and> roundMajority (getRoundVoteSet hvs r) = Some vs"
proof -
  have "\<forall>ws. Some vs = Some ws \<longrightarrow> (\<exists>r. sint remoteRound \<le> sint r \<and> roundMajority (getRoundVoteSet hvs r) = Some ws)"
    by (rule findRoundQC.raw_induct [where P = "\<lambda>hvs rr r res. \<forall>ws. res = Some ws \<longrightarrow>
          (\<exists>r. sint rr \<le> sint r \<and> roundMajority (getRoundVoteSet hvs r) = Some ws)", OF _ assms])
      (auto split: if_splits option.splits)
  then show ?thesis by simp
qed

end
