(* ===== verification/Tbft_Machine.thy ===== *)
theory Tbft_Machine
  imports Tbft_Handler_Trans Tbft_Status
begin

section \<open>The instance as a machine\<close>

text \<open>
  Each handler of the loop is a transition from every state that satisfies the invariant; the
  states of a running instance (\<open>reachable\<close>) satisfy it.
\<close>

subsection \<open>Handlers\<close>

lemma same_view_alloc: "alloc p c = (r, c') \<Longrightarrow> same_view c c'"
  by (auto simp: alloc_def same_view_def)

lemma enterPrevote_here_trans: "inv V c \<Longrightarrow> trans cd W V c (enterPrevote e (Height c) (Round c) c)"
  by (rule enterPrevote_trans) simp_all

lemma trans_step: "trans cd W V c c1 \<Longrightarrow> (inv V c1 \<Longrightarrow> trans cd W V c1 c2) \<Longrightarrow> trans cd W V c c2"
  by (meson trans_inv trans_trans)

lemma publish_proposal_trans:
  assumes "inv V c"
  shows "trans cd W V c (publish_proposal e p whole rw c)"
proof -
  obtain r c1 where al: "alloc p c = (r, c1)" by (cases "alloc p c")
  let ?tp = "NewTBFTProposal e c1 r True"
  let ?c2 = "upd_state (\<lambda>s. s\<lparr>cs_Proposal := Some ?tp\<rparr>) c1"
  let ?c4 = "hwrite r (\<lambda>p. p\<lparr>p_TxsRwSet := rw\<rparr>)
      (case whole of None \<Rightarrow> ?c2 | Some b \<Rightarrow> hwrite r (\<lambda>p. p\<lparr>p_Block := Some b\<rparr>) ?c2)"
  have "same_view c ?c4"
    using same_view_alloc [OF al] by (auto simp: same_view_def hwrite_def upd_state_def split: option.split)
  then have "trans cd W V c ?c4" by (rule trans_silent [OF assms])
  then have "trans cd W V c (sendConsensusProposal (Some ?tp) [] ?c4)"
    by (rule trans_step) (rule sendConsensusProposal_trans)
  then have "trans cd W V c (let c5 = sendConsensusProposal (Some ?tp) [] ?c4
      in enterPrevote e (Height c5) (Round c5) c5)"
    unfolding Let_def by (rule trans_step) (rule enterPrevote_here_trans)
  then show ?thesis by (simp add: publish_proposal_def al Let_def)
qed

lemma handleProposedBlock_trans:
  assumes inv: "inv V c" and run: "handleProposedBlock e pp c = Inr c'"
  shows "trans cd W V c c'"
proof -
  let ?c1 = "sendProposeState False c"
  have "c' = c \<or> c' = ?c1 \<or> (\<exists>(p :: Proposal) (whole :: Block option) rw. c' = publish_proposal e p whole rw ?c1)"
    using run by (auto simp: handleProposedBlock_def Let_def elim!: go_bind_InrE
        split: if_splits option.splits) blast+
  moreover have t1: "trans cd W V c ?c1" by (rule trans_ProposeState [OF inv])
  ultimately show ?thesis
    using trans_refl [OF inv] trans_step [OF t1 publish_proposal_trans] by auto
qed

lemma rejectVerified_trans: "inv V c \<Longrightarrow> trans cd W V c (rejectVerified e vr c)"
proof -
  assume inv: "inv V c"
  let ?c = "upd_state (\<lambda>s. s\<lparr>cs_VerifingProposal := None\<rparr>) c"
  have t: "trans cd W V c (?c\<lparr>invalidTxs := txs\<rparr>)" "trans cd W V c ?c" for txs
    using inv by (auto intro!: trans_silent simp: same_view_def upd_state_def)
  have "trans cd W V c (enterPrevote e (Height ?c) (Round ?c) (?c\<lparr>invalidTxs := txs\<rparr>))" for txs
    using trans_step [OF t(1) [of txs] enterPrevote_here_trans] by (simp add: upd_state_def)
  then show ?thesis using t by (auto simp: rejectVerified_def Let_def split: option.split)
qed

lemma acceptVerified_trans: "inv V c \<Longrightarrow> trans cd W V c (acceptVerified e vr hash vp c)"
proof -
  assume inv: "inv V c"
  let ?c = "c\<lparr>invalidTxs := []\<rparr>"
  let ?c2 = "hwrite (PbMsg vp) (\<lambda>p. p\<lparr>p_Block := vr_VerifiedBlock vr, p_TxsRwSet := vr_TxsRwSet vr\<rparr>)
      (upd_state (\<lambda>s. s\<lparr>cs_Proposal := Some vp\<rparr>) ?c)"
  have t: "trans cd W V c ?c" "trans cd W V c (upd_state (\<lambda>s. s\<lparr>cs_VerifingProposal := None\<rparr>) ?c)"
    "trans cd W V c ?c2"
    using inv by (auto intro!: trans_silent simp: same_view_def upd_state_def hwrite_def)
  have "trans cd W V c (enterPrevote e (Height ?c2) (Round ?c2) ?c2)"
    using t(3) enterPrevote_here_trans by (rule trans_step)
  then show ?thesis using t by (auto simp: acceptVerified_def Let_def)
qed

lemma handleVerifyResult_trans:
  assumes inv: "inv V c" and run: "handleVerifyResult e vr c = Inr c'"
  shows "trans (e_codec e) V V c c'"
proof -
  obtain header where header: "header_of (vr_VerifiedBlock vr) = Inr header"
    using run by (auto simp: handleVerifyResult_def elim!: go_bind_InrE)
  obtain hvs where hvs: "hvs_of c = Inr hvs" "cs_heightRoundVoteSet (cState c) = Some hvs"
    using inv by (auto simp: inv_def votes_inv_def hvs_of_def)
  obtain hash ok where maj: "twoThirdsMajority (precommits hvs (Round c)) = (hash, ok)"
    by (cases "twoThirdsMajority (precommits hvs (Round c))")
  show ?thesis
  proof (cases "cs_VerifingProposal (cState c)")
    case None
    then show ?thesis using run header trans_refl [OF inv] by (simp add: handleVerifyResult_def)
  next
    case (Some vp)
    let ?c1 = "upd_state (\<lambda>s. s\<lparr>cs_Proposal := Some vp\<rparr>) c"
    have "c' = rejectVerified e vr c \<or> c' = acceptVerified e vr (BlockHash header) vp c \<or>
        (ok \<and> bytes_Equal hash (ref_hash c (PbMsg vp)) \<and>
          commitBlock e (PbMsg vp) (VoteSet_ToProto (precommits hvs (Round c))) ?c1 = Inr c')"
      using run header hvs maj Some
      by (auto simp: handleVerifyResult_def Let_def split: if_splits prod.splits)
    then show ?thesis
    proof (elim disjE)
      assume commit: "ok \<and> bytes_Equal hash (ref_hash c (PbMsg vp)) \<and>
          commitBlock e (PbMsg vp) (VoteSet_ToProto (precommits hvs (Round c))) ?c1 = Inr c'"
      then obtain vs s where vs: "precommits hvs (Round c) = Some vs" "hash = Some s"
        "quorum_set V VOTE_PRECOMMIT (Height c) (Round c) s vs"
        using precommits_quorum [OF inv hvs(1), of "Round c" hash] maj by auto
      have t1: "trans (e_codec e) V V c ?c1"
        using inv by (auto intro!: trans_silent simp: same_view_def upd_state_def)
      have "ref_hash ?c1 (PbMsg vp) = ref_hash c (PbMsg vp)" by (simp add: ref_hash_def upd_state_def)
      then show ?thesis
        using commit vs
        by (intro trans_step [OF t1 commitBlock_trans [OF _ vs(3)]]) (auto simp: bytes_Equal_def)
    qed (use rejectVerified_trans acceptVerified_trans inv in auto)
  qed
qed

lemma handleBlockHeight_trans:
  assumes inv: "inv V c" and env: "env_ok e" and run: "handleBlockHeight e height c = Inr c'"
  shows "\<exists>V'. trans cd W V' c c'"
proof (cases "Height c > height \<or> Height c \<ge> height + 1")
  case True
  then have "c' = c" using run by (auto simp: handleBlockHeight_def enterNewHeight_def split: if_splits)
  then show ?thesis using inv trans_refl by blast
next
  case False
  then have "enterNewHeight e (height + 1) c = Inr c'" using run by (simp add: handleBlockHeight_def)
  moreover have "Height c < height + 1" using False by (simp add: not_le)
  ultimately show ?thesis using enterNewHeight_trans [OF inv_log_ok [OF inv] env] by blast
qed

lemma procPropose_trans:
  assumes inv: "inv V c" and run: "procPropose e p c = Inr c'"
  shows "trans cd W V c c'"
proof -
  have "same_view c c' \<or>
      (\<exists>(q :: Proposal) c1 r. alloc q c = (r, c1) \<and>
        (let c2 = upd_state (\<lambda>s. s\<lparr>cs_Proposal := Some (NewTBFTProposal e c1 r False)\<rparr>) c1
         in c' = enterPrevote e (Height c2) (Round c2) c2)) \<or>
      (\<exists>(q :: Proposal) c1 r (b :: Block). alloc q c = (r, c1) \<and>
        c' = emit (VerifyBlock b) (upd_state (\<lambda>s. s\<lparr>cs_VerifingProposal := Some (NewTBFTProposal e c1 r False)\<rparr>) c1))"
    using run
    by (auto simp: procPropose_def Let_def same_view_def elim!: go_bind_InrE split: option.splits if_splits prod.splits) blast+
  then show ?thesis
  proof (elim disjE exE conjE)
    fix q c1 r assume al: "alloc (q :: Proposal) c = (r, c1)"
      and c': "let c2 = upd_state (\<lambda>s. s\<lparr>cs_Proposal := Some (NewTBFTProposal e c1 r False)\<rparr>) c1
         in c' = enterPrevote e (Height c2) (Round c2) c2"
    let ?c2 = "upd_state (\<lambda>s. s\<lparr>cs_Proposal := Some (NewTBFTProposal e c1 r False)\<rparr>) c1"
    have "same_view c ?c2" using same_view_alloc [OF al] by (simp add: same_view_def upd_state_def)
    then have "trans cd W V c ?c2" by (rule trans_silent [OF inv])
    then show ?thesis using c' unfolding Let_def by (auto intro: trans_step enterPrevote_here_trans)
  next
    fix q c1 r b assume al: "alloc (q :: Proposal) c = (r, c1)"
      and c': "c' = emit (VerifyBlock b) (upd_state (\<lambda>s. s\<lparr>cs_VerifingProposal := Some (NewTBFTProposal e c1 r False)\<rparr>) c1)"
    let ?c2 = "upd_state (\<lambda>s. s\<lparr>cs_VerifingProposal := Some (NewTBFTProposal e c1 r False)\<rparr>) c1"
    have "same_view c ?c2" using same_view_alloc [OF al] by (simp add: same_view_def upd_state_def)
    then have "trans cd W V c ?c2" by (rule trans_silent [OF inv])
    then show ?thesis unfolding c' by (rule trans_step) (rule trans_emit, simp_all)
  qed (rule trans_silent [OF inv])
qed

lemma procLocalVote_trans:
  assumes inv: "inv V c" and run: "procLocalVote e vote c = Inr c'"
  shows "trans cd W V c c'"
proof -
  have step: "trans cd W V c c'" if "trans cd W V c c1" "c' = c1 \<or> sendConsensusVote e vote [] c1 = Inr c'" for c1
    using that by (auto intro: trans_step sendConsensusVote_trans)
  consider "v_Voter vote \<noteq> Id c" | "v_Voter vote = Id c" "v_Height vote = Height c"
    | "v_Voter vote = Id c" "v_Height vote \<noteq> Height c" "getConsensusState (stateCache c) (v_Height vote) = None"
    | cache where "v_Voter vote = Id c" "v_Height vote \<noteq> Height c"
        "getConsensusState (stateCache c) (v_Height vote) = Some cache"
    by (cases "getConsensusState (stateCache c) (v_Height vote)") blast+
  then show ?thesis
  proof cases
    case 1
    then show ?thesis using run trans_refl [OF inv] by (simp add: procLocalVote_def)
  next
    case 2
    then obtain hvs hvs' r where "hvs_of c = Inr hvs" "hvs_addVote (valSet c) hvs (Some vote) = Inr (hvs', r)"
      "c' = put_hvs hvs' c \<or> sendConsensusVote e vote [] (put_hvs hvs' c) = Inr c'"
      using run by (auto simp: procLocalVote_def elim!: go_bind_InrE split: if_splits)
    then show ?thesis using trans_put_hvs [OF inv] by (intro step)
  next
    case 3
    then show ?thesis using run trans_refl [OF inv] by (intro step) (auto simp: procLocalVote_def)
  next
    case 4
    then obtain sc where "c' = c\<lparr>stateCache := sc\<rparr> \<or> sendConsensusVote e vote [] (c\<lparr>stateCache := sc\<rparr>) = Inr c'"
      using run by (auto simp: procLocalVote_def Let_def elim!: go_bind_InrE split: if_splits) blast+
    then show ?thesis by (intro step trans_silent [OF inv]) (auto simp: same_view_def)
  qed
qed

lemma inv_updateValidatorHeight: "inv V c \<Longrightarrow> trans cd W V c (c\<lparr>valSet := updateValidatorHeight e vote (valSet c)\<rparr>)"
  by (auto intro!: trans_silent simp: same_view_def updateValidatorHeight_def Let_def)

lemma procVote_trans:
  assumes inv: "inv V c" and run: "procVote e lastStep vote c = Inr c'"
  shows "trans (e_codec e) V V c c'"
proof -
  let ?c = "c\<lparr>valSet := updateValidatorHeight e vote (valSet c)\<rparr>"
  have t: "trans (e_codec e) V V c ?c" by (rule inv_updateValidatorHeight [OF inv])
  have "(\<exists>fc. c' = ?c\<lparr>futureCache := fc\<rparr>) \<or> procLocalVote e vote ?c = Inr c' \<or> c' = ?c \<or>
      addVote e vote False ?c = Inr c'"
    using run by (auto simp: procVote_def Let_def elim!: go_bind_InrE split: if_splits)
  then have "trans (e_codec e) V V ?c c'"
    using trans_inv [OF t] procLocalVote_trans addVote_trans trans_refl
    by (auto intro: trans_silent simp: same_view_def)
  with t show ?thesis by (rule trans_trans)
qed

subsection \<open>Certificates\<close>

lemma addQcToHeight_keeps:
  assumes "addQcToHeight V hvs votes = Inr (hvs', ok)" and "wf_hvs V hvs" and "small_valset V"
  shows "wf_hvs V hvs' \<and> hvs_Height hvs' = hvs_Height hvs \<and>
    (\<forall>q t s. has_majority hvs q t s \<longrightarrow> has_majority hvs' q t s)"
  using assms
proof (induction votes arbitrary: hvs)
  case (Cons v votes)
  then obtain hvs1 r err where add: "hvs_addVote V hvs v = Inr (hvs1, r, err)"
    by (auto elim!: go_bind_InrE)
  note keeps = hvs_addVote_keeps [OF add Cons.prems(2,3)]
  show ?case
    using Cons.IH [of hvs1] Cons.prems keeps add by (auto split: if_splits)
qed simp

lemma addQcToHeight_cong:
  assumes "Validators V = Validators W"
  shows "addQcToHeight V hvs votes = addQcToHeight W hvs votes"
proof (induction votes arbitrary: hvs)
  case (Cons v votes)
  show ?case
    unfolding addQcToHeight.simps vote_ops_cong(2) [OF assms] Cons.IH ..
qed simp

lemma followRoundQC_trans:
  assumes inv: "inv V c" and ahead: "pvs_Type qc = VOTE_PREVOTE \<Longrightarrow> sint (Round c) < sint (qc_Round roundQC)"
    and run: "followRoundQC e roundQC qc c = Inr c'"
  shows "trans cd V V c c'"
proof (cases "pvs_Type qc = VOTE_PREVOTE")
  case True
  let ?c2 = "upd_state (\<lambda>s. s\<lparr>cs_Round := qc_Round roundQC, cs_Step := PREVOTE\<rparr>) c"
  have t: "trans cd V V c ?c2"
    using ahead [OF True]
    by (intro trans_move [OF inv]) (auto simp: upd_state_def position_of_def less_eq_prod_def)
  have "enterPrecommit e (Height ?c2) (Round ?c2) ?c2 = Inr c'"
    using run True by (simp add: followRoundQC_def Let_def upd_state_def)
  then show ?thesis
    using trans_step [OF t] enterPrecommit_trans [OF _ not_ahead_refl] by blast
next
  case False
  then have "enterNewRound e (Height c) (qc_Round roundQC + 1) c = Inr c' \<or> c' = c"
    using run by (auto simp: followRoundQC_def split: if_splits)
  then show ?thesis using enterNewRound_trans [OF inv] trans_refl [OF inv] by auto
qed

lemma procRoundQC_trans:
  assumes inv: "inv V c" and run: "procRoundQC e q c = Inr c'"
  shows "trans cd V V c c'"
proof -
  have same: "Validators (valSet c) = Validators V" and small: "small_valset V"
    using inv by (simp_all add: inv_def same_validators_def)
  have "c' = c \<or> (\<exists>(roundQC :: RoundQC) (qc :: ProtoVoteSet) hvs hvs' ok. hvs_of c = Inr hvs \<and>
      addQcToHeight V hvs (map snd (pvs_Votes qc)) = Inr (hvs', ok) \<and>
      (pvs_Type qc = VOTE_PREVOTE \<longrightarrow> sint (Round c) < sint (qc_Round roundQC)) \<and>
      (c' = put_hvs hvs' c \<or> followRoundQC e roundQC qc (put_hvs hvs' c) = Inr c'))"
  proof (cases "\<exists>roundQC qc. q = Some roundQC \<and> qc_Qc roundQC = Some qc")
    case True
    then obtain roundQC :: RoundQC and qc :: ProtoVoteSet where q: "q = Some roundQC" "qc_Qc roundQC = Some qc" by blast
    show ?thesis
    proof (cases "qc_Height roundQC \<noteq> Height c \<or> sint (qc_Round roundQC) < sint (Round c)
        \<or> (qc_Round roundQC = Round c \<and> pvs_Type qc \<noteq> VOTE_PRECOMMIT)")
      case True
      then show ?thesis using run q by (auto simp: procRoundQC_def)
    next
      case False
      then have round: "pvs_Type qc = VOTE_PREVOTE \<longrightarrow> sint (Round c) < sint (qc_Round roundQC)"
        by (auto simp: less_le sint_eq_word)
      obtain err where "VerifyRoundQc (e_ac e) (e_codec e) (e_late e) (valSet c) roundQC (blockVersion c) = Inr err"
        and rest: "(if err \<noteq> None then Inr c else go_bind (hvs_of c) (\<lambda>hvs.
            go_bind (addQcToHeight (valSet c) hvs (map snd (pvs_Votes qc))) (\<lambda>(hvs', done_all).
              if \<not> done_all then Inr (put_hvs hvs' c) else followRoundQC e roundQC qc (put_hvs hvs' c)))) = Inr c'"
        using run q False unfolding procRoundQC_def Let_def by (auto elim!: go_bind_InrE)
      show ?thesis
      proof (cases "err = None")
        case True
        then obtain hvs hvs' ok where "hvs_of c = Inr hvs"
          "addQcToHeight V hvs (map snd (pvs_Votes qc)) = Inr (hvs', ok)"
          "c' = put_hvs hvs' c \<or> followRoundQC e roundQC qc (put_hvs hvs' c) = Inr c'"
          using rest addQcToHeight_cong [OF same] by (auto elim!: go_bind_InrE split: if_splits)
        then show ?thesis using round by blast
      qed (use rest in simp)
    qed
  qed (use run in \<open>auto simp: procRoundQC_def split: option.splits\<close>)
  then show ?thesis
  proof (elim disjE exE conjE)
    fix roundQC :: RoundQC and qc :: ProtoVoteSet and hvs hvs' ok
    assume hvs: "hvs_of c = Inr hvs" and add: "addQcToHeight V hvs (map snd (pvs_Votes qc)) = Inr (hvs', ok)"
      and round: "pvs_Type qc = VOTE_PREVOTE \<longrightarrow> sint (Round c) < sint (qc_Round roundQC)"
    note keeps = addQcToHeight_keeps [OF add inv_hvs(1) [OF inv hvs] small]
    have t: "trans cd V V c (put_hvs hvs' c)"
      using keeps inv_hvs(2) [OF inv hvs] hvs by (intro trans_hvs [OF inv]) auto
    { assume "c' = put_hvs hvs' c" then show ?thesis using t by simp }
    assume "followRoundQC e roundQC qc (put_hvs hvs' c) = Inr c'"
    then have "trans cd V V (put_hvs hvs' c) c'"
      using round by (intro followRoundQC_trans [OF trans_inv [OF t]]) (simp_all add: put_hvs_def upd_state_def)
    with t show ?thesis by (rule trans_trans)
  qed (simp add: trans_refl inv)
qed

subsection \<open>The loop\<close>

lemma handleConsensusMsg_trans:
  assumes "inv V c" and "handleConsensusMsg e msg c = Inr c'"
  shows "trans (e_codec e) V V c c'"
  using assms procPropose_trans procVote_trans procRoundQC_trans trans_refl
  by (auto simp: handleConsensusMsg_def procPrevote_def procPrecommit_def split: ConsensusMsg.splits)

lemma handleProposeOptimalTimeout_trans:
  assumes inv: "inv V c" and run: "handleProposeOptimalTimeout e c = Inr c'"
  shows "trans cd W V c c'"
proof -
  have "(\<exists>b. c' = c\<lparr>ProposeOptimalTimer := b\<rparr>) \<or> c' = enterPrevote e (Height c) (Round c) c"
    using run by (auto simp: handleProposeOptimalTimeout_def elim!: go_bind_InrE split: if_splits)
  then show ?thesis
    using enterPrevote_here_trans [OF inv] trans_silent [OF inv] by (auto simp: same_view_def)
qed

lemma requested_not_ahead:
  "inv V c \<Longrightarrow> Timeout ti \<in> set (outs c) \<Longrightarrow> not_ahead (ti_Height ti) (ti_Round ti) c"
  by (auto simp: inv_def timeouts_ok_def not_ahead_def less_eq_prod_def)

lemma handleTimeout_trans:
  assumes inv: "inv V c" and req: "Timeout ti \<in> set (outs c)" and run: "handleTimeout e ti c = Inr c'"
  shows "trans (e_codec e) V V c c'"
  using run requested_not_ahead [OF inv req] enterPrevote_trans [OF inv] enterPrecommit_trans [OF inv]
    enterCommit_trans [OF inv] trans_refl [OF inv]
  by (auto simp: handleTimeout_def split: if_splits)

lemma trans_switch: "trans cd W V c c' \<Longrightarrow> trans cd W V' c' c'' \<Longrightarrow> trans cd W V' c c''"
  unfolding trans_def by (metis (no_types, opaque_lifting) Un_iff append_assoc order_trans set_append)

lemma silent_then:
  assumes "inv V c" and "same_view c c1" and "inv V c1 \<Longrightarrow> \<exists>V'. trans cd W V' c1 c'"
  shows "\<exists>V'. trans cd W V' c c'"
  using assms trans_silent [OF assms(1,2)] trans_inv trans_switch by meson

lemma handle_once_trans:
  assumes inv: "inv V c" and env: "env_ok e" and step: "handle_once e sel c = Some (Inr c')"
    and req: "\<And>ti. sel = SelTimeout ti \<Longrightarrow> Timeout ti \<in> set (outs c)"
  shows "\<exists>V'. trans (e_codec e) V V' c c'"
proof (cases sel)
  case SelProposed
  then obtain m q where "handleProposedBlock e m (c\<lparr>proposedBlockC := q\<rparr>) = Inr c'"
    using step by (auto simp: handle_once_def split: list.splits)
  then show ?thesis
    using handleProposedBlock_trans by (intro silent_then [OF inv, of "c\<lparr>proposedBlockC := q\<rparr>"])
      (simp add: same_view_def, blast)
next
  case SelVerify
  then obtain m q where "handleVerifyResult e m (c\<lparr>verifyResultC := q\<rparr>) = Inr c'"
    using step by (auto simp: handle_once_def split: list.splits)
  then show ?thesis
    using handleVerifyResult_trans by (intro silent_then [OF inv, of "c\<lparr>verifyResultC := q\<rparr>"])
      (simp add: same_view_def, blast)
next
  case SelHeight
  then obtain m q where "handleBlockHeight e m (c\<lparr>blockHeightC := q\<rparr>) = Inr c'"
    using step by (auto simp: handle_once_def split: list.splits)
  then show ?thesis
    using handleBlockHeight_trans [OF _ env] by (intro silent_then [OF inv, of "c\<lparr>blockHeightC := q\<rparr>"])
      (simp add: same_view_def, blast)
next
  case SelExternal
  then obtain m q where "handleConsensusMsg e m (c\<lparr>externalMsgC := q\<rparr>) = Inr c'"
    using step by (auto simp: handle_once_def split: list.splits)
  then show ?thesis
    using handleConsensusMsg_trans by (intro silent_then [OF inv, of "c\<lparr>externalMsgC := q\<rparr>"])
      (simp add: same_view_def, blast)
next
  case SelInternal
  then obtain m q where "handleConsensusMsg e m (c\<lparr>internalMsgC := q\<rparr>) = Inr c'"
    using step by (auto simp: handle_once_def split: list.splits)
  then show ?thesis
    using handleConsensusMsg_trans by (intro silent_then [OF inv, of "c\<lparr>internalMsgC := q\<rparr>"])
      (simp add: same_view_def, blast)
next
  case (SelTimeout ti)
  then show ?thesis using step handleTimeout_trans [OF inv req] by (auto simp: handle_once_def)
next
  case SelOptimal
  then show ?thesis
    using step handleProposeOptimalTimeout_trans [OF inv] by (simp add: handle_once_def) blast
qed

lemma OnMessage_same_view:
  assumes "OnMessage e w m c = Inr (Some c')"
  shows "same_view c c'"
  using assms
  by (auto simp: OnMessage_def recv_external_def same_view_def elim!: go_bind_InrE
      split: busMessage.splits option.splits if_splits)

lemma offer_votes_same_view:
  "offer_votes e mk limit r votes voters c = Inr (Some c') \<Longrightarrow> same_view c c'"
proof (induction voters arbitrary: c)
  case (Cons voter voters)
  have "same_view c (c\<lparr>internalMsgC := q\<rparr>)" for q by (simp add: same_view_def)
  moreover have "offer_votes e mk limit r votes voters c = Inr (Some c') \<or>
      (\<exists>q. offer_votes e mk limit r votes voters (c\<lparr>internalMsgC := q\<rparr>) = Inr (Some c'))"
    using Cons.prems by (auto elim!: go_bind_InrE split: option.splits if_splits)
  ultimately show ?case using Cons.IH same_view_trans by blast
qed simp

lemma updateVoteWithProto_same_view:
  assumes "updateVoteWithProto e rvs r c = Inr (Some c')"
  shows "same_view c c'"
proof -
  obtain c1 where "(case rvs_Prevotes rvs of None \<Rightarrow> Inr (Some c)
         | Some pv \<Rightarrow> offer_votes e createPrevoteConsensusMsg PRECOMMIT r (vs_Votes pv) (Validators (valSet c)) c) = Inr (Some c1)"
    and "(case rvs_Precommits rvs of None \<Rightarrow> Inr (Some c1)
         | Some pc \<Rightarrow> offer_votes e createPrecommitConsensusMsg COMMIT r (vs_Votes pc) (Validators (valSet c)) c1) = Inr (Some c')"
    using assms unfolding updateVoteWithProto_def Let_def by (auto elim!: go_bind_InrE split: option.splits)
  then show ?thesis
    using offer_votes_same_view same_view_trans same_view_refl by (auto split: option.splits) blast+
qed

lemma Decode_same_view:
  assumes "Decode e w t payload c = Inr (Some (c', info))"
  shows "same_view c c'"
proof -
  let ?c1 = "\<lambda>state. c\<lparr>valSet := fileHeight e state (valSet c)\<rparr>"
  have "same_view c (?c1 state)" for state by (simp add: same_view_def fileHeight_def Let_def)
  moreover have "c' = c \<or> (\<exists>state. c' = ?c1 state \<or> (\<exists>rvs r. updateVoteWithProto e rvs r (?c1 state) = Inr (Some c')))"
    using assms unfolding Decode_def Let_def
    by (auto elim!: go_bind_InrE split: option.splits if_splits ConsensusMsg.splits)
  ultimately show ?thesis using updateVoteWithProto_same_view same_view_trans same_view_refl by blast
qed

subsection \<open>The start\<close>

lemma propose_turn_ends:
  assumes "propose_turn e h r c = Inr (go_on, c')"
  shows "Height c' = Height c" and "Round c' = Round c" and "StepOf c' = PROPOSE"
  using assms
  by (auto simp: propose_turn_def Let_def offer_block_def sendProposeState_def AddTimeout_def emit_def
      getProposeTimeout_def upd_state_def elim!: go_bind_InrE split: prod.splits if_splits option.splits)

lemma enterNewHeight_ends:
  assumes "enterNewHeight e height c = Inr c'" and "Height c < height"
  shows "Round c' = 0" and "StepOf c' = PROPOSE"
proof -
  let ?c = "newHeightState e height c"
  have c0: "Height ?c = height" "Round ?c = 0" "StepOf ?c = NEW_HEIGHT"
    by (simp_all add: newHeightState_def Let_def upd_state_def split: prod.split)
  have run: "enterNewRound e height 0 ?c = Inr c'" using assms by (simp add: enterNewHeight_def not_le [symmetric])
  then obtain c1 where c1: "refresh_config e ?c = Inr c1" "same_view ?c c1"
    using same_view_refresh_config by (auto simp: enterNewRound_def)
  let ?c2 = "(upd_state (\<lambda>s. s\<lparr>cs_Height := height, cs_Round := 0, cs_Step := NEW_ROUND,
        cs_Proposal := None, cs_VerifingProposal := None\<rparr>) c1)\<lparr>invalidTxs := []\<rparr>"
  have "enterPropose e height 0 ?c2 = Inr c'"
    using run c0 c1 by (auto simp: enterNewRound_def same_view_def Let_def)
  then obtain go_on c3 where turn: "propose_turn e height 0 (?c2\<lparr>ProposeOptimalTimer := False\<rparr>) = Inr (go_on, c3)"
    and rest: "(if go_on then getFutureMsgFromCache (Height c3) (Round c3) c3 else Inr c3) = Inr c'"
    by (auto simp: enterPropose_def Let_def upd_state_def elim!: go_bind_InrE)
  have "same_view c3 c'" using rest same_view_getFutureMsgFromCache by (auto split: if_splits)
  then show "Round c' = 0" and "StepOf c' = PROPOSE"
    using propose_turn_ends [OF turn] by (simp_all add: same_view_def upd_state_def)
qed

lemma addReplayVotes_eq: "addReplayVotes V hvs votes = addQcToHeight V hvs (map Some votes)"
proof (induction votes arbitrary: hvs)
  case (Cons v votes)
  show ?case unfolding addReplayVotes.simps list.map addQcToHeight.simps Cons.IH ..
qed simp

lemma addQc_put_trans:
  assumes inv: "inv V c" and hvs: "hvs_of c = Inr hvs" and add: "addQcToHeight (valSet c) hvs votes = Inr (hvs', ok)"
  shows "trans cd W V c (put_hvs hvs' c)"
proof -
  have same: "Validators (valSet c) = Validators V" and small: "small_valset V"
    using inv by (simp_all add: inv_def same_validators_def)
  have "addQcToHeight V hvs votes = Inr (hvs', ok)" using add addQcToHeight_cong [OF same] by simp
  note keeps = addQcToHeight_keeps [OF this inv_hvs(1) [OF inv hvs] small]
  then show ?thesis
    using inv_hvs(2) [OF inv hvs] hvs by (intro trans_hvs [OF inv]) auto
qed

lemma enterPrecommitFromReplayWal_trans:
  assumes inv: "inv V c" and at: "Round c = 0" "StepOf c = PROPOSE" and round: "0 \<le> sint (p_Round p)"
    and run: "enterPrecommitFromReplayWal e p c = Inr (c', None)"
  shows "trans cd V V c c'"
proof -
  obtain r c1 where al: "alloc p c = (r, c1)" by (cases "alloc p c")
  let ?c2 = "upd_state (\<lambda>s. s\<lparr>cs_Step := PREVOTE, cs_Proposal := Some (NewTBFTProposal e c1 r False),
      cs_Round := p_Round p, cs_LockedProposal := Some r, cs_LockedRound := p_Round p,
      cs_ValidProposal := Some r, cs_ValidRound := p_Round p\<rparr>) c1"
  obtain qc where "lockFromWal e p qc c = Inr (c', None)"
    using run by (auto simp: enterPrecommitFromReplayWal_def elim!: go_bind_InrE split: option.splits if_splits)
  then obtain hvs hvs' where hvs: "hvs_of ?c2 = Inr hvs" "addReplayVotes (valSet ?c2) hvs qc = Inr (hvs', True)"
    and pre: "enterPrecommit e (Height (put_hvs hvs' ?c2)) (p_Round p) (put_hvs hvs' ?c2) = Inr c'"
    using al unfolding lockFromWal_def Let_def by (auto elim!: go_bind_InrE split: if_splits)
  have v1: "same_view c c1" using same_view_alloc [OF al] .
  have t2: "trans cd V V c ?c2"
    using v1 at round
    by (intro trans_move [OF inv]) (auto simp: same_view_def upd_state_def position_of_def less_eq_prod_def)
  have t3: "trans cd V V c (put_hvs hvs' ?c2)" (is "trans _ _ _ _ ?c3")
    using t2 addQc_put_trans [OF trans_inv [OF t2] hvs(1)] hvs(2) unfolding addReplayVotes_eq by (blast intro: trans_trans)
  have "p_Round p = Round ?c3" by (simp add: put_hvs_def upd_state_def)
  then show ?thesis
    using trans_step [OF t3] enterPrecommit_trans [OF _ not_ahead_refl] pre by metis
qed

text \<open>What the start relies on: a chain that has room for another block, and a log of the node's own making.\<close>

definition start_ok :: "env \<Rightarrow> wire \<Rightarrow> (string \<Rightarrow> WalEntry option) \<Rightarrow> u64 option \<Rightarrow> walLast \<Rightarrow> bool" where
  "start_ok e w unmarshalWal height wal \<longleftrightarrow> env_ok e \<and> height \<noteq> Some (- 1) \<and>
     (\<forall>b entry p. wal = WalBytes b \<and> unmarshalWal b = Some entry \<and>
        w_Proposal w (bytes_content (we_Data entry)) = Some p \<longrightarrow> 0 \<le> sint (p_Round p))"

lemma New_log_ok:
  assumes "New nodeId key nonWal lws cfg = Some c" and "length (concat (cc_Nodes (cfg_Consensus cfg))) < 2 ^ 30"
  shows "log_ok c" and "Height c = 0" and "outs c = []"
  using assms
  by (auto simp: New_def GetValidatorListFromConfig_concat log_ok_def signed_ok_def timeouts_ok_def
      small_valset_def newValidatorSet_def NewConsensusState_def split: prod.splits if_splits option.splits)

lemma log_ok_InitConsistentEngine: "log_ok c \<Longrightarrow> log_ok (InitConsistentEngine c)"
  by (auto simp: log_ok_def InitConsistentEngine_def emit_all_eq signed_ok_def timeouts_ok_def position_of_def
      signed_votes_remoters)

lemma log_ok_started [simp]: "log_ok (c\<lparr>started := b\<rparr>) = log_ok c"
  by (simp add: log_ok_def signed_ok_def timeouts_ok_def position_of_def)

lemma replayWal_cases:
  assumes "replayWal e w um (Some h) wal c = Inr (c', None)"
  obtains "enterNewHeight e (h + 1) c = Inr c'"
  | height where "h < height" and "enterNewHeight e height c = Inr c'"
  | b entry p c1 where "h < we_Height entry" and "wal = WalBytes b" and "um b = Some entry"
      and "w_Proposal w (bytes_content (we_Data entry)) = Some p"
      and "enterNewHeight e (we_Height entry) c = Inr c1" and "enterPrecommitFromReplayWal e p c1 = Inr (c', None)"
proof (cases "walWriteMode c = e_NonWalWrite e \<or> wal = WalNoIterator")
  case True
  then show ?thesis using assms that(1) by (auto simp: replayWal_def elim!: go_bind_InrE)
next
  case False
  then obtain entry where entry: "(case wal of WalBytes b \<Rightarrow> mustUnmarshal um (Some b)
        | _ \<Rightarrow> Inr \<lparr>we_Height = 0, we_Type = TIMEOUT_ENTRY, we_Data = None\<rparr>) = Inr entry"
    and rest: "(if h \<ge> we_Height entry then go_bind (enterNewHeight e (h + 1) c) (\<lambda>c1. Inr (c1, None))
       else go_bind (enterNewHeight e (we_Height entry) c) (\<lambda>c1.
         if we_Type entry = PROPOSAL_ENTRY then
           go_bind (mustUnmarshal (w_Proposal w) (we_Data entry)) (\<lambda>proposal.
             enterPrecommitFromReplayWal e proposal c1)
         else Inr (c1, None))) = Inr (c', None)"
    using assms by (auto simp: replayWal_def Let_def elim!: go_bind_InrE split: if_splits)
  show ?thesis
  proof (cases "h \<ge> we_Height entry")
    case True
    then show ?thesis using rest that(1) by (auto elim!: go_bind_InrE)
  next
    case later: False
    then obtain c1 where c1: "enterNewHeight e (we_Height entry) c = Inr c1"
      and logged: "(if we_Type entry = PROPOSAL_ENTRY then
           go_bind (mustUnmarshal (w_Proposal w) (we_Data entry)) (\<lambda>proposal.
             enterPrecommitFromReplayWal e proposal c1)
         else Inr (c1, None)) = Inr (c', None)"
      using rest by (auto elim!: go_bind_InrE)
    show ?thesis
    proof (cases "we_Type entry = PROPOSAL_ENTRY")
      case False
      then show ?thesis using c1 logged later that(2) by (auto simp: not_le)
    next
      case True
      then obtain p where p: "w_Proposal w (bytes_content (we_Data entry)) = Some p"
        "enterPrecommitFromReplayWal e p c1 = Inr (c', None)"
        using logged by (auto simp: mustUnmarshal_def elim!: go_bind_InrE split: option.splits)
      obtain b where "wal = WalBytes b" "um b = Some entry"
        using entry True by (auto simp: mustUnmarshal_def split: walLast.splits option.splits)
      then show ?thesis using that(3) p c1 later by (auto simp: not_le)
    qed
  qed
qed

lemma replayWal_trans:
  assumes log: "log_ok c" and ok: "start_ok e w um height wal" and zero: "Height c = 0"
    and run: "replayWal e w um height wal c = Inr (c', None)"
  shows "\<exists>V. trans cd V V c c'"
proof -
  have env: "env_ok e" using ok by (simp add: start_ok_def)
  obtain h where h: "height = Some h" using run by (cases height) (simp_all add: replayWal_def)
  have "h + 1 \<noteq> 0" using ok h by (auto simp: start_ok_def add_eq_0_iff2)
  then have next_height: "Height c < h + 1" using zero by (simp add: word_gt_0)
  have later: "Height c < k" if "h < k" for k using that zero by (metis word_gt_0 word_not_simps(1))
  note new = enterNewHeight_trans [OF log env]
  from run show ?thesis
    unfolding h
  proof (cases rule: replayWal_cases)
    case 1
    then show ?thesis using new [OF next_height] by blast
  next
    case (2 height)
    then show ?thesis using new later by blast
  next
    case (3 b entry p c1)
    then obtain V where V: "trans cd V' V c c1" for V' using new later by blast
    have "0 \<le> sint (p_Round p)" using ok 3 by (simp add: start_ok_def)
    then have "trans cd V V c1 c'"
      using enterPrecommitFromReplayWal_trans trans_inv [OF V] enterNewHeight_ends [OF 3(5) later [OF 3(1)]] 3(6)
      by blast
    then show ?thesis using V trans_switch by blast
  qed
qed

lemma Start_inv:
  assumes "New nodeId key nonWal lws cfg = Some c0" and "length (concat (cc_Nodes (cfg_Consensus cfg))) < 2 ^ 30"
    and "start_ok e w um height wal" and "Start e w um height wal engine stopped c0 = Inr (c, True)"
  shows "\<exists>V. inv V c"
proof -
  let ?c = "InitConsistentEngine (c0\<lparr>started := True\<rparr>)"
  note new = New_log_ok [OF assms(1,2)]
  have "log_ok ?c" and "Height ?c = 0"
    using new log_ok_InitConsistentEngine [of "c0\<lparr>started := True\<rparr>"]
    by (auto simp: InitConsistentEngine_def emit_all_eq)
  moreover have "replayWal e w um height wal ?c = Inr (c, None)"
    using assms(4) by (auto simp: Start_def Let_def elim!: go_bind_InrE split: if_splits)
  ultimately show ?thesis using replayWal_trans assms(3) trans_inv by blast
qed

text \<open>
  The states of a node: started, then driven by its loop, by the message bus and by the status
  messages of its peers. The loop takes
  the timeouts that were requested (theorem \<open>ts_reach_inv\<close> of the time scheduler); the chain's
  configuration, the clock and the other services may change between the steps.
\<close>

inductive running :: "TBFT \<Rightarrow> bool" where
  running_start: "New nodeId key nonWal lws cfg = Some c0 \<Longrightarrow> length (concat (cc_Nodes (cfg_Consensus cfg))) < 2 ^ 30 \<Longrightarrow>
    start_ok e w um height wal \<Longrightarrow> Start e w um height wal engine stopped c0 = Inr (c, True) \<Longrightarrow> running c"
| running_handle: "running c \<Longrightarrow> env_ok e \<Longrightarrow> (\<forall>ti. sel = SelTimeout ti \<longrightarrow> Timeout ti \<in> set (outs c)) \<Longrightarrow>
    handle_once e sel c = Some (Inr c') \<Longrightarrow> running c'"
| running_message: "running c \<Longrightarrow> OnMessage e w m c = Inr (Some c') \<Longrightarrow> running c'"
| running_status: "running c \<Longrightarrow> Decode e w t payload c = Inr (Some (c', info)) \<Longrightarrow> running c'"

lemma running_inv: "running c \<Longrightarrow> \<exists>V. inv V c"
proof (induction rule: running.induct)
  case (running_start nodeId key nonWal lws cfg c0 e w um height wal engine stopped c)
  then show ?case using Start_inv by blast
next
  case (running_handle c e sel c')
  then show ?case using handle_once_trans trans_inv by blast
next
  case (running_message c e w m c')
  then show ?case using trans_silent OnMessage_same_view trans_inv by blast
next
  case (running_status c e w t payload c' info)
  then show ?case using trans_silent Decode_same_view trans_inv by blast
qed

end
