(* ===== verification/Tbft_Example.thy ===== *)
theory Tbft_Example
  imports Tbft_Machine
begin

section \<open>A run\<close>

text \<open>
  A node that is the only validator of its chain, from its construction to its first committed
  block: it starts without a log, the core engine hands it a block, it proposes the block,
  prevotes, precommits on its own prevote and commits on its own precommit. Every step is the
  model's own function, evaluated by the simplifier; the states serve as witnesses.
\<close>

definition ex_cfg :: ChainConfig where
  "ex_cfg = \<lparr>cfg_ChainId = ''chain'', cfg_Version = '''',
     cfg_Consensus = \<lparr>cc_Type = 1, cc_Nodes = [[''A'']], cc_ExtConfig = []\<rparr>,
     cfg_CryptoHash = ''SHA256'', cfg_TrustMembers = []\<rparr>"

definition ex_env :: env where
  "ex_env = \<lparr>e_ChainConfig = ex_cfg, e_ParseDuration = (\<lambda>_. None), e_LastCommittedBlock = None,
     e_ac = \<lparr>ac_CreatePrincipal = (\<lambda>e m. Some m), ac_VerifyMsgPrincipal = (\<lambda>p v. Some True), ac_NewMember = (\<lambda>_. None)\<rparr>,
     e_codec = \<lparr>marshalVote = (\<lambda>_. ''vote''), marshalProposal = (\<lambda>_. ''prop''), marshalVoteSet = (\<lambda>_. ''qc''),
       unmarshalVoteSet = (\<lambda>_. None)\<rparr>,
     e_late = (\<lambda>_. False), e_GetNodeUidByCertId = (\<lambda>_. None), e_Sign = (\<lambda>_ _. Some ''sig''),
     e_GetMember = Some \<lparr>OrgId = [], MemberType = 0, MemberInfo = []\<rparr>, e_SignBlock = (\<lambda>_ _. Some (''H'', None)), e_extendHandler = None,
     e_VerifyBlockWithRwSets = (\<lambda>_ _. True), e_nowMilli = 0, e_NonWalWrite = 2, e_walWriteOk = True\<rparr>"

definition ex_wire :: wire where
  "ex_wire = \<lparr>w_TBFTMsg = (\<lambda>_. None), w_Proposal = (\<lambda>_. None), w_Vote = (\<lambda>_. None), w_GossipState = (\<lambda>_. None),
     w_FetchRoundQC = (\<lambda>_. False), w_RoundQC = (\<lambda>_. None)\<rparr>"

definition ex_header :: BlockHeader where
  "ex_header = \<lparr>BlockVersion = 0, BlockHeight = 1, BlockHash = None, PreBlockHash = None, Proposer = None,
     h_Signature = None, h_Other = []\<rparr>"

definition ex_block :: Block where
  "ex_block = \<lparr>b_Header = Some ex_header, b_Dag = [], b_Txs = [''t''], b_AdditionalData = None\<rparr>"

definition ex_bus :: busMessage where
  "ex_bus = BusProposedBlock \<lparr>pb_Block = Some ex_block, pb_TxsRwSet = Some [], pb_CutBlock = None\<rparr>"

subsection \<open>The states\<close>

definition ex_vote :: "VoteType \<Rightarrow> Vote" where
  "ex_vote t = NewVote t ''A'' 1 0 (Some ''H'')"

definition ex_endorsement :: EndorsementEntry where
  "ex_endorsement = \<lparr>Signer = Some \<lparr>OrgId = [], MemberType = 0, MemberInfo = []\<rparr>, Signature = Some ''sig''\<rparr>"

definition ex_signed :: "VoteType \<Rightarrow> Vote" where
  "ex_signed t = (ex_vote t)\<lparr>v_Endorsement := Some ex_endorsement\<rparr>"

definition ex_voteset :: "VoteType \<Rightarrow> VoteSet" where
  "ex_voteset t = \<lparr>vs_Type = t, vs_Height = 1, vs_Round = 0, vs_Sum = 1, vs_Maj23 = Some ''H'',
     vs_Votes = [(''A'', ex_signed t)],
     vs_VotesByBlock = [(EncodeToString ''H'', \<lparr>bv_Votes = [(''A'', ex_signed t)], bv_Sum = 1\<rparr>)],
     vs_invalidTx = [], vs_needToDelTxs = []\<rparr>"

definition ex_hvs :: "VoteSet \<Rightarrow> VoteSet \<Rightarrow> heightRoundVoteSet" where
  "ex_hvs pv pc = \<lparr>hvs_Height = 1, hvs_Round = 0, hvs_RoundVoteSets =
     [(0, \<lparr>rvs_Height = 1, rvs_Round = 0, rvs_Prevotes = Some pv, rvs_Precommits = Some pc\<rparr>)]\<rparr>"

definition ex0 :: TBFT where
  "ex0 = \<lparr>Id = ''A'',
     lastHeightProposer = [], blockVersion = 0,
     walWriteMode = 0,
     valSet = \<lparr>Validators = [''A''], validatorsHeight = [''A'' \<mapsto> 1], validatorsBeatTime = Map.empty, blocksPerProposer = 1\<rparr>,
     cState = \<lparr>cs_Id = ''A'', cs_Height = 1, cs_Round = 0, cs_Step = PROPOSE,
     cs_Proposal = None, cs_VerifingProposal = None,
     cs_LockedRound = - 1, cs_LockedProposal = None, cs_ValidRound = - 1, cs_ValidProposal = None,
     cs_heightRoundVoteSet = Some \<lparr>hvs_Height = 1, hvs_Round = 0, hvs_RoundVoteSets = []\<rparr>\<rparr>,
     stateCache = \<lparr>sc_size = 10, sc_cache = Map.empty\<rparr>,
     futureCache = \<lparr>fc_size = 10, fc_consensusHeight = 1, fc_cache = Map.empty\<rparr>,
     proposedBlockC = [], verifyResultC = [], blockHeightC = [],
     externalMsgC = [], internalMsgC = [], invalidTxs = [],
     TimeoutPropose = 30000000000, TimeoutProposeDelta = 1000000000, TimeoutProposeOptimal = 2000000000,
     ProposeOptimal = False, ProposeOptimalTimer = False,
     heap = (\<lambda>_. nil_proposal),
     hnext = 0,
     outs = [Timeout \<lparr>ti_Duration = 30000000000, ti_Height = 1, ti_Round = 0, ti_Step = PREVOTE\<rparr>, ProposeState True],
     started = True\<rparr>"

definition ex_proposal :: "(string \<rightharpoonup> gobytes) option \<Rightarrow> Vote list option \<Rightarrow> Proposal" where
  "ex_proposal extra qc = \<lparr>p_Voter = ''A'', p_Height = 1, p_Round = 0, p_PolRound = - 1,
     p_Block = Some (ex_block\<lparr>b_Header := Some (ex_header\<lparr>BlockHash := Some ''H''\<rparr>), b_AdditionalData := extra\<rparr>),
     p_Endorsement = Some ex_endorsement, p_TxsRwSet = Some [], p_Qc = qc\<rparr>"

definition ex_extra :: "(string \<rightharpoonup> gobytes) option" where
  "ex_extra = Some [TBFTAddtionalDataKey \<mapsto> Some ''qc'']"

definition ex1 :: TBFT where
  "ex1 = ex0\<lparr>proposedBlockC :=
     [\<lparr>pp_proposedBlock = \<lparr>pb_Block = Some ex_block, pb_TxsRwSet = Some [], pb_CutBlock = None\<rparr>, pp_qc = None\<rparr>]\<rparr>"

text \<open>After the proposal: the prevote is signed and waits in the internal queue.\<close>

definition ex2 :: TBFT where
  "ex2 = ex0\<lparr>cState := (cState ex0)\<lparr>cs_Step := PREVOTE, cs_Proposal := Some \<lparr>PbMsg = 0, Bytes = Some ''prop''\<rparr>\<rparr>,
     internalMsgC := [MsgPrevote (ex_signed VOTE_PREVOTE)],
     heap := (\<lambda>_. nil_proposal)(0 := ex_proposal None None), hnext := Suc 0,
     outs := outs ex0 @ [ProposeState False, ProposeState False, SignVote (ex_vote VOTE_PREVOTE)]\<rparr>"

text \<open>After the prevote: the node is locked on the block and has signed its precommit.\<close>

definition ex3 :: TBFT where
  "ex3 = ex2\<lparr>valSet := (valSet ex2)\<lparr>validatorsBeatTime := [''A'' \<mapsto> 0]\<rparr>,
     cState := (cState ex2)\<lparr>cs_Step := PRECOMMIT, cs_LockedRound := 0, cs_LockedProposal := Some 0,
       cs_ValidRound := 0, cs_ValidProposal := Some 0,
       cs_heightRoundVoteSet := Some (ex_hvs (ex_voteset VOTE_PREVOTE) (NewVoteSet VOTE_PRECOMMIT 1 0))\<rparr>,
     internalMsgC := [MsgPrecommit (ex_signed VOTE_PRECOMMIT)],
     heap := (\<lambda>_. nil_proposal)(0 := ex_proposal None (Some [ex_signed VOTE_PREVOTE])),
     outs := outs ex2 @ [SignVote (ex_vote VOTE_PRECOMMIT)]\<rparr>"

text \<open>After the precommit: the block is committed with its certificate, and the log is written.\<close>

definition ex4 :: TBFT where
  "ex4 = ex3\<lparr>
     cState := (cState ex3)\<lparr>cs_Step := COMMIT,
       cs_heightRoundVoteSet := Some (ex_hvs (ex_voteset VOTE_PREVOTE) (ex_voteset VOTE_PRECOMMIT))\<rparr>,
     internalMsgC := [],
     heap := (\<lambda>_. nil_proposal)(0 := ex_proposal ex_extra (Some [ex_signed VOTE_PREVOTE])),
     outs := outs ex3 @ [CommitBlock (the (p_Block (ex_proposal ex_extra None))),
       WalWrite 1 (ex_proposal ex_extra (Some [ex_signed VOTE_PREVOTE]))]\<rparr>"

subsection \<open>The steps\<close>

lemma ex_env_simps [simp]:
  "e_ChainConfig ex_env = ex_cfg" "e_LastCommittedBlock ex_env = None" "e_late ex_env = (\<lambda>_. False)"
  "e_Sign ex_env = (\<lambda>_ _. Some ''sig'')"
  "e_GetMember ex_env = Some \<lparr>OrgId = [], MemberType = 0, MemberInfo = []\<rparr>"
  "e_SignBlock ex_env = (\<lambda>_ _. Some (''H'', None))" "e_extendHandler ex_env = None" "e_nowMilli ex_env = 0"
  "e_NonWalWrite ex_env = 2" "e_walWriteOk ex_env"
  "e_codec ex_env = \<lparr>marshalVote = (\<lambda>_. ''vote''), marshalProposal = (\<lambda>_. ''prop''),
     marshalVoteSet = (\<lambda>_. ''qc''), unmarshalVoteSet = (\<lambda>_. None)\<rparr>"
  by (simp_all add: ex_env_def)

lemmas ex_data = ex_cfg_def ex_wire_def ex_header_def ex_block_def ex_bus_def ex_vote_def ex_endorsement_def
  ex_signed_def ex_voteset_def ex_hvs_def ex_proposal_def ex_extra_def

lemmas code_defs =
  newValidatorSet_def isNilOrEmpty_def Size_def hasValidator_def HasValidator_def
  i32_rem_chk_def getByIndex_def getIndexByString_def GetProposerV230_def blockVersion231_def
  GetProposer_def updateValidators_def updateBlocksPerProposer_def checkProposed_def
  header_of_def Block_Hash_def proposal_hash_def nilHash_def isNilHash_def NewProposal_def
  CopyProposalWithBlockHeader_def CopyBlock_def NewVote_def NewBlockVotes_def bv_addVote_def
  NewVoteSet_def checkVoteMatched_def hash_key_def quorum_def AddVote_def
  AddVoteForConsistent_def delInvalidTx_def twoThirdsMajority_def HasTwoThirdsMajority_def
  hasTwoThirdsAny_def hasTwoThirdsNoMajority_def VoteSet_Size_def BlockVotes_ToProto_def
  VoteSet_ToProto_def NewVoteSetFromProto_def newRoundVoteSet_def roundVoteSet_ToProto_def
  newHeightRoundVoteSet_def heightRoundVoteSet_ToProto_def addRound_def getRoundVoteSet_def
  getVoteSet_def prevotes_def precommits_def putVoteSet_def hvs_addVote_def isRequired_def
  NewConsensusState_def toProto_def newConsensusFutureMsgCache_def NewConsensusFutureMsg_def
  fc_gc_def updateConsensusHeight_def addFutureProposal_def addFutureVote_def
  getConsensusFutureProposal_def getConsensusFutureVote_def newConsensusStateCache_def sc_gc_def
  addConsensusState_def getConsensusState_def putConsensusState_def
  defaultTimeSchedulerBufferSize_def newTimeSheduler_def stopTimer_def AddTimeoutInfo_def
  takeTimeout_def outdated_def ts_handle_def timer_expires_def specialVersionMapping_def
  str_at_def HasSuffix_def getBlockHeaderVersion_def GetBlockVersion_def ConsensusType_TBFT_def
  GetValidatorListFromConfig_def GetValidatorList_def default_TbftConfig_def
  extractProposeTimeout_def extractProposeTimeoutDelta_def extractBlocksPerProposer_def
  extractTimeoutProposeOptimal_def extractProposeOptimal_def extractConsensusConfig_def
  Verify_def InitLWS_def TBFTAddtionalDataKey_def verify_one_def verifyVotes_def
  DefaultBlocksPerProposer_def votesOfHash_def VerifyBlockSignatures_def VerifyRoundQc_def
  VerifyQcFromVotes_def VerifyResult_FAIL_def defaultChanCap_def upd_state_def emit_def
  alloc_def hwrite_def hvs_of_def put_hvs_def ref_hash_def trySendInternal_def
  trySendExternal_def NewTBFTProposal_def sendProposeState_def sendConsensusMsg_def
  createProposalTBFTMsg_def createPrevoteTBFTMsg_def createPrecommitTBFTMsg_def
  sendConsensusProposal_def sendConsensusVote_def createPrevoteConsensusMsg_def
  createPrecommitConsensusMsg_def signProposal_def signVote_def block_version_of_def
  verifyProposal_def verifyVote_def proposer_of_def isProposer_def getLastBlockProposer_def
  i64_of_i32_def ProposeTimeout_def PrevoteTimeout_def PrecommitTimeout_def CommitTimeout_def
  AddTimeout_def TimeDisconnet_def beatTime_def getProposeTimeout_def commitBlock_def
  prevote_hash_def castPrevote_def enterPrevote_def delInvalidTxs_def unlock_def
  precommit_lock_def castPrecommit_def enterPrecommit_def sendFutureVotes_def
  getFutureMsgFromCache_def offer_block_def propose_turn_def enterPropose_def refresh_config_def
  enterNewRound_def commit_proposal_def finishCommit_def enterCommit_def updateChainConfig_def
  newHeightState_def enterNewHeight_def append_qc_def update_valid_def unlock_on_majority_def
  follow_prevotes_def addPrevoteVote_def addPrecommitVote_def saveWalEntry_def
  save_precommit_def addVote_def set_header_def create_rwset_def proposal_header_def
  build_proposal_def publish_proposal_def handleProposedBlock_def rejectVerified_def
  acceptVerified_def handleVerifyResult_def handleBlockHeight_def procVerifyBlockWithRwSets_def
  procPropose_def updateValidatorHeight_def procLocalVote_def procVote_def procPrevote_def
  procPrecommit_def followRoundQC_def procRoundQC_def handleConsensusMsg_def
  handleProposeOptimalTimeout_def handleTimeout_def handle_once_def mustUnmarshal_def
  createConsensusMsgFromTBFTMsgBz_def createStateMsgFromTBFTMsgBz_def recv_external_def
  OnMessage_def lockFromWal_def enterPrecommitFromReplayWal_def replayWal_def nil_proposal_def
  New_def InitConsistentEngine_def Start_def Stop_def ToGossipStateProto_def GetValidators_def
  GetLastHeight_def GetConsensusStateJSON_def

lemmas run_simps = code_defs ex_data go_bind_def deref_def bytes_content_def bytes_Equal_def map_get0_def
  less_eq_Step_def less_Step_def GetValidatorListFromConfig_concat Let_def i32_of_nat_def i32_rem_def i32_div_def
  u64_of_i32_def signed_modulo_int_def signed_divide_int_def

lemma ex_start:
  "\<exists>c. New ''A'' ''wal'' 2 True ex_cfg = Some c \<and>
    Start ex_env ex_wire (\<lambda>_. None) (Some 0) WalNoIterator True False c = Inr (ex0, True)"
  by (simp add: run_simps ex0_def)

lemma ex_propose: "OnMessage ex_env ex_wire ex_bus ex0 = Inr (Some ex1)"
  by (simp add: run_simps ex0_def ex1_def)

lemma ex_step2: "handle_once ex_env SelProposed ex1 = Some (Inr ex2)"
  by (simp add: run_simps ex0_def ex1_def ex2_def)

lemma ex_step3: "handle_once ex_env SelInternal ex2 = Some (Inr ex3)"
  by (simp add: run_simps ex0_def ex2_def ex3_def)

lemma ex_step4: "handle_once ex_env SelInternal ex3 = Some (Inr ex4)"
  by (simp add: run_simps ex0_def ex2_def ex3_def ex4_def)

lemma ex_env_ok: "env_ok ex_env"
  by (simp add: env_ok_def ex_cfg_def)

lemma ex_running: "running ex0" "running ex1" "running ex2" "running ex3" "running ex4"
proof -
  obtain c where new: "New ''A'' ''wal'' 2 True ex_cfg = Some c"
    and start: "Start ex_env ex_wire (\<lambda>_. None) (Some 0) WalNoIterator True False c = Inr (ex0, True)"
    using ex_start by blast
  show r0: "running ex0"
    by (rule running_start [OF new _ _ start]) (simp_all add: start_ok_def ex_env_ok ex_cfg_def)
  from running_message [OF r0 ex_propose] show r1: "running ex1" .
  from running_handle [OF r1 ex_env_ok _ ex_step2] show r2: "running ex2" by simp
  from running_handle [OF r2 ex_env_ok _ ex_step3] show r3: "running ex3" by simp
  from running_handle [OF r3 ex_env_ok _ ex_step4] show "running ex4" by simp
qed

end
