(* ===== verification/Tbft_Claims.thy ===== *)
theory Tbft_Claims
  imports Tbft_Example Vote_Tally
begin

section \<open>Properties of TBFT\<close>

text \<open>
  The properties of the consensus module, each with its witness: first those of a running node,
  then those of votes, certificates, validators, caches and timeouts.
\<close>

subsection \<open>Example data with four validators\<close>

definition four :: validatorSet where
  "four = newValidatorSet [''A'', ''B'', ''C'', ''D''] 1"

definition four_vote :: "string \<Rightarrow> string \<Rightarrow> Vote" where
  "four_vote voter hash = NewVote VOTE_PRECOMMIT voter 5 0 (Some hash)"

definition add_all :: "validatorSet \<Rightarrow> VoteSet \<Rightarrow> Vote option list \<Rightarrow> VoteSet" where
  "add_all V = foldl (\<lambda>vs pv. fst (AddVote V vs pv True))"

definition four_set :: "string list \<Rightarrow> string \<Rightarrow> VoteSet" where
  "four_set voters hash = add_all four (NewVoteSet VOTE_PRECOMMIT 5 0) (map (\<lambda>k. Some (four_vote k hash)) voters)"

lemma four_small: "small_valset four"
  by (simp add: small_valset_def four_def newValidatorSet_def)

lemma wf_add_all: "wf_voteset V vs \<Longrightarrow> small_valset V \<Longrightarrow> wf_voteset V (add_all V vs pvs)"
  unfolding add_all_def using voteset_store.foldl_inv by fastforce

lemma four_set_wf: "wf_voteset four (four_set voters hash)"
  by (simp add: four_set_def wf_add_all four_small)

lemma four_Validators [simp]: "Validators four = [''A'', ''B'', ''C'', ''D'']"
  by (simp add: four_def newValidatorSet_def)

lemma four_set_votes:
  assumes "distinct voters" and "set voters \<subseteq> {''A'', ''B'', ''C'', ''D''}"
  shows "vs_Votes (four_set voters hash) = map (\<lambda>k. (k, four_vote k hash)) voters \<and>
    vs_Type (four_set voters hash) = VOTE_PRECOMMIT \<and> vs_Height (four_set voters hash) = 5 \<and>
    vs_Round (four_set voters hash) = 0"
  using assms
proof (induction voters rule: rev_induct)
  case (snoc x xs)
  let ?vs = "four_set xs hash" and ?v = "four_vote x hash"
  have step: "four_set (xs @ [x]) hash = fst (AddVote four ?vs (Some ?v) True)"
    by (simp add: four_set_def add_all_def)
  have "map_of (map (\<lambda>k. (k, four_vote k hash)) xs) x = None"
    using snoc.prems by (auto simp: map_of_eq_None_iff)
  then have "accepts four ?vs ?v"
    using snoc by (simp add: accepts_def checkVoteMatched_iff four_vote_def)
  then have "four_set (xs @ [x]) hash = add_core four ?vs ?v"
    using AddVote_accept [OF four_set_wf four_small, of xs hash ?v True] step by (simp add: four_vote_def)
  then show ?case using snoc by (simp add: four_vote_def)
qed (simp add: four_set_def add_all_def)

lemma four_set_voters:
  assumes "distinct voters" and "set voters \<subseteq> {''A'', ''B'', ''C'', ''D''}"
  shows "voters_for (four_set voters hash) hash = set voters" and "length (votes_for (four_set voters hash) hash) = length voters"
  using four_set_votes [OF assms, of hash]
  by (simp_all add: voters_for_def votes_for_def four_vote_def filter_True image_image)

lemma four_set_majority:
  assumes "distinct voters" and "set voters \<subseteq> {''A'', ''B'', ''C'', ''D''}" and "3 \<le> length voters" and "hash \<noteq> []"
  shows "vs_Maj23 (four_set voters hash) = Some hash"
  using Maj23_iff [OF four_set_wf assms(4), of voters hash] four_set_voters(1) [OF assms(1,2), of hash]
    distinct_card [OF assms(1)] assms(3) by (simp add: quorum_nat_def)

subsection \<open>A running node\<close>

lemma running_step:
  assumes "running c" and "env_ok e" and "\<forall>ti. sel = SelTimeout ti \<longrightarrow> Timeout ti \<in> set (outs c)"
    and "handle_once e sel c = Some (Inr c')"
  obtains V V' where "inv V c" and "trans (e_codec e) V V' c c'"
  using assms running_inv handle_once_trans by meson

lemma quorum_numbers:
  "val_quorum.is_quorum V Q \<Longrightarrow> Q \<subseteq> set (Validators V) \<and> 2 * num_validators V < 3 * card Q"
  unfolding val_quorum.is_quorum_def unfolding quorum_nat_def by (intro conjI) (simp, linarith)

lemma trans_outs:
  "trans cd W V c c' \<Longrightarrow> o1 \<in> set (drop (length (outs c)) (outs c')) \<Longrightarrow> justified cd W o1"
  by (auto simp: trans_def simp del: justified.simps)

text \<open>
  C1: a block that a step of the loop commits carries, in its additional data, the encoding of
  a set of precommits in which more than two thirds of the node's current validators voted for
  the block's hash.
\<close>

theorem commit_certified:
  assumes "running c" and "env_ok e" and "\<forall>ti. sel = SelTimeout ti \<longrightarrow> Timeout ti \<in> set (outs c)"
    and "handle_once e sel c = Some (Inr c')" and "CommitBlock b \<in> set (drop (length (outs c)) (outs c'))"
  shows "\<exists>header vs extra. b_Header b = Some header \<and> vs_Type vs = VOTE_PRECOMMIT \<and>
    voters_for vs (bytes_content (BlockHash header)) \<subseteq> set (Validators (valSet c)) \<and>
    2 * length (Validators (valSet c)) < 3 * card (voters_for vs (bytes_content (BlockHash header))) \<and>
    b_AdditionalData b = Some extra \<and>
    extra TBFTAddtionalDataKey = Some (Some (marshalVoteSet (e_codec e) (VoteSet_ToProto (Some vs))))"
proof -
  obtain V V' where inv: "inv V c" and tr: "trans (e_codec e) V V' c c'"
    using running_step [OF assms(1-4)] .
  have "justified (e_codec e) V (CommitBlock b)" using tr assms(5) by (rule trans_outs)
  then obtain header vs h r extra where cert: "b_Header b = Some header" "b_AdditionalData b = Some extra"
      "extra TBFTAddtionalDataKey = Some (Some (marshalVoteSet (e_codec e) (VoteSet_ToProto (Some vs))))"
    and q: "quorum_set V VOTE_PRECOMMIT h r (bytes_content (BlockHash header)) vs"
    by (auto simp del: fun_upd_apply)
  have "val_quorum.is_quorum V (voters_for vs (bytes_content (BlockHash header)))"
    using q Maj23_quorum by (simp add: quorum_set_def)
  note quorum_numbers [OF this]
  moreover have "Validators (valSet c) = Validators V" using inv by (simp add: inv_def same_validators_def)
  ultimately show ?thesis
    using cert q by (intro exI [of _ header] exI [of _ vs] exI [of _ extra])
      (auto simp: quorum_set_def)
qed

theorem commit_certified_witness:
  "\<exists>b header vs extra. CommitBlock b \<in> set (outs ex4) \<and> b_Header b = Some header \<and> vs_Type vs = VOTE_PRECOMMIT \<and>
    2 * length (Validators (valSet ex3)) < 3 * card (voters_for vs (bytes_content (BlockHash header))) \<and>
    b_AdditionalData b = Some extra \<and>
    extra TBFTAddtionalDataKey = Some (Some (marshalVoteSet (e_codec ex_env) (VoteSet_ToProto (Some vs))))"
proof -
  let ?b = "the (p_Block (ex_proposal ex_extra None))"
  have b: "CommitBlock ?b \<in> set (drop (length (outs ex3)) (outs ex4))" by (simp add: ex4_def)
  show ?thesis
    using commit_certified [OF ex_running(4) ex_env_ok _ ex_step4 b] in_set_dropD [OF b] by blast
qed

text \<open>
  C2: a node never signs two votes of the same type for the same height and round, in the whole
  of its run.
\<close>

theorem no_double_signing:
  assumes "running c"
  shows "distinct (map (\<lambda>v. (v_Type v, v_Height v, v_Round v)) (signed_votes (outs c)))"
proof -
  obtain V where "inv V c" using running_inv [OF assms] by blast
  then have "sorted_wrt (<) (map vote_position (signed_votes (outs c)))" by (simp add: inv_def signed_ok_def)
  then have "distinct (map vote_position (signed_votes (outs c)))" by (simp add: strict_sorted_iff)
  then show ?thesis by (auto simp: distinct_map vote_position_def inj_on_def)
qed

theorem no_double_signing_witness:
  "length (signed_votes (outs ex4)) = 2 \<and>
    distinct (map (\<lambda>v. (v_Type v, v_Height v, v_Round v)) (signed_votes (outs ex4)))"
  using no_double_signing [OF ex_running(5)] by (simp add: ex4_def ex3_def ex2_def ex0_def)

text \<open>
  C10: a node that signed a precommit for a block at its current height has, in its own vote sets,
  prevotes for that block from more than two thirds of its validators, in the round of the
  precommit.
\<close>

theorem precommit_needs_prevotes:
  assumes "running c" and "v \<in> set (signed_votes (outs c))" and "v_Type v = VOTE_PRECOMMIT"
    and "v_Height v = Height c" and "\<not> isNilHash (v_Hash v)"
  shows "\<exists>hvs vs. cs_heightRoundVoteSet (cState c) = Some hvs \<and> prevotes hvs (v_Round v) = Some vs \<and>
    voters_for vs (bytes_content (v_Hash v)) \<subseteq> set (Validators (valSet c)) \<and>
    2 * length (Validators (valSet c)) < 3 * card (voters_for vs (bytes_content (v_Hash v)))"
proof -
  obtain V where inv: "inv V c" using running_inv [OF assms(1)] by blast
  then obtain hvs where hvs: "cs_heightRoundVoteSet (cState c) = Some hvs" "wf_hvs V hvs"
    and same: "Validators (valSet c) = Validators V"
    by (auto simp: inv_def votes_inv_def same_validators_def)
  have "has_majority hvs (v_Round v) VOTE_PREVOTE (bytes_content (v_Hash v))"
    using inv hvs assms by (auto simp: inv_def backed_def)
  then obtain vs where vs: "prevotes hvs (v_Round v) = Some vs" "vs_Maj23 vs = Some (bytes_content (v_Hash v))"
    by (auto simp: has_majority_def hvs_set_prevotes)
  have "wf_voteset V vs" using hvs_set_ok(1) [OF hvs(2)] vs(1) by (simp add: hvs_set_prevotes [symmetric])
  then have "val_quorum.is_quorum V (voters_for vs (bytes_content (v_Hash v)))" using vs(2) by (rule Maj23_quorum)
  then show ?thesis using quorum_numbers hvs vs same by auto
qed

theorem precommit_needs_prevotes_witness:
  "\<exists>hvs vs. cs_heightRoundVoteSet (cState ex4) = Some hvs \<and> prevotes hvs 0 = Some vs \<and>
    2 * length (Validators (valSet ex4)) < 3 * card (voters_for vs ''H'')"
  using precommit_needs_prevotes [OF ex_running(5), of "ex_vote VOTE_PRECOMMIT"]
  by (simp add: ex4_def ex3_def ex2_def ex0_def ex_vote_def isNilHash_def nilHash_def bytes_Equal_def) blast

text \<open>
  C13: a step of the loop never moves the node back: its height, round and step only grow, in
  the lexicographic order, and what it has sent stays sent.
\<close>

theorem position_never_decreases:
  assumes "running c" and "env_ok e" and "\<forall>ti. sel = SelTimeout ti \<longrightarrow> Timeout ti \<in> set (outs c)"
    and "handle_once e sel c = Some (Inr c')"
  shows "position_of c \<le> position_of c' \<and> (\<exists>new. outs c' = outs c @ new)"
proof -
  obtain V V' where "trans (e_codec e) V V' c c'" using running_step [OF assms] .
  then show ?thesis by (auto simp: trans_def)
qed

theorem position_never_decreases_witness: "position_of ex1 \<le> position_of ex2 \<and> position_of ex1 \<noteq> position_of ex2"
  using position_never_decreases [OF ex_running(2) ex_env_ok _ ex_step2]
  by (simp add: position_of_def ex2_def ex1_def ex0_def)

text \<open>
  C14: a locked node prevotes for the block it is locked on, whatever was proposed: the vote that
  \<open>enterPrevote\<close> signs has the locked block's hash.
\<close>

theorem prevote_follows_lock:
  assumes "cs_LockedProposal (cState c) = Some lp" and "StepOf c = PROPOSE"
  shows "\<exists>v. signed_votes (outs (enterPrevote e (Height c) (Round c) c)) = signed_votes (outs c) @ [v] \<and>
    v_Type v = VOTE_PREVOTE \<and> v_Height v = Height c \<and> v_Round v = Round c \<and>
    v_Hash v = proposal_hash (heap c lp)"
proof -
  let ?c2 = "sendProposeState False (upd_state (\<lambda>s. s\<lparr>cs_Step := PREVOTE\<rparr>) (c\<lparr>ProposeOptimalTimer := False\<rparr>))"
  obtain v m where v: "v_Type v = VOTE_PREVOTE" "v_Height v = Height ?c2" "v_Round v = Round ?c2"
    "v_Hash v = prevote_hash ?c2" "castPrevote e (prevote_hash ?c2) ?c2 = trySendInternal m (emit (SignVote v) ?c2)"
    by (rule castPrevote_view)
  have "enterPrevote e (Height c) (Round c) c = trySendInternal m (emit (SignVote v) ?c2)"
    using assms(2) v(5) by (simp add: enterPrevote_def Let_def)
  then show ?thesis
    using v assms(1) by (intro exI [of _ v])
      (simp add: trySendInternal_def emit_def sendProposeState_def upd_state_def prevote_hash_def ref_hash_def)
qed

definition locked_ex :: TBFT where
  "locked_ex = ex3\<lparr>cState := (cState ex3)\<lparr>cs_Step := PROPOSE, cs_Proposal := None\<rparr>\<rparr>"

theorem prevote_follows_lock_witness:
  "\<exists>v. signed_votes (outs (enterPrevote ex_env 1 0 locked_ex)) = signed_votes (outs locked_ex) @ [v] \<and>
    v_Hash v = Some ''H''"
  using prevote_follows_lock [of locked_ex 0 ex_env]
  by (auto simp: locked_ex_def ex3_def ex2_def ex0_def ex_proposal_def proposal_hash_def ex_block_def)

text \<open>
  C15: at the precommit step, a majority of precommits for the round's proposal makes
  \<open>enterCommit\<close> return and commit exactly that block.
\<close>

theorem majority_commits:
  assumes "StepOf c = PRECOMMIT" and "hvs_of c = Inr hvs"
    and "precommits hvs (Round c) = Some vs" and "vs_Maj23 vs = Some s" and "\<not> isNilHash (Some s)"
    and "cs_Proposal (cState c) = Some tp" and "p_Block (heap c (PbMsg tp)) = Some block"
    and "b_Header block = Some header" and "BlockHash header = Some s"
  shows "\<exists>c' extra. enterCommit e (Height c) (Round c) c = Inr c' \<and>
    outs c' = outs c @ [CommitBlock (block\<lparr>b_AdditionalData := Some extra\<rparr>)]"
proof -
  let ?c1 = "upd_state (\<lambda>s. s\<lparr>cs_Step := COMMIT\<rparr>) c"
  have hash: "ref_hash ?c1 (PbMsg tp) = Some s"
    using assms(7-9) by (simp add: ref_hash_def upd_state_def proposal_hash_def)
  have "commit_proposal e (Some s) ?c1 = Inr ?c1"
    using assms(6) hash by (auto simp: commit_proposal_def upd_state_def bytes_Equal_def split: option.split)
  then have "enterCommit e (Height c) (Round c) c = commitBlock e (PbMsg tp) (VoteSet_ToProto (Some vs)) ?c1"
    using assms hash
    by (simp add: enterCommit_def Let_def hvs_of_def twoThirdsMajority_def finishCommit_def upd_state_def)
  then show ?thesis
    using assms(7,8) by (auto simp: commitBlock_def Let_def emit_def upd_state_def hwrite_def)
qed

theorem majority_commits_witness:
  "\<exists>c' extra. enterCommit ex_env 1 0 (ex4\<lparr>cState := (cState ex4)\<lparr>cs_Step := PRECOMMIT\<rparr>\<rparr>) = Inr c' \<and>
    last (outs c') = CommitBlock (ex_block\<lparr>b_Header := Some (ex_header\<lparr>BlockHash := Some ''H''\<rparr>), b_AdditionalData := Some extra\<rparr>)"
  using majority_commits [of "ex4\<lparr>cState := (cState ex4)\<lparr>cs_Step := PRECOMMIT\<rparr>\<rparr>" "ex_hvs (ex_voteset VOTE_PREVOTE) (ex_voteset VOTE_PRECOMMIT)"
    "ex_voteset VOTE_PRECOMMIT" "''H''" "\<lparr>PbMsg = 0, Bytes = Some ''prop''\<rparr>"
    "ex_block\<lparr>b_Header := Some (ex_header\<lparr>BlockHash := Some ''H''\<rparr>), b_AdditionalData := ex_extra\<rparr>"
    "ex_header\<lparr>BlockHash := Some ''H''\<rparr>" ex_env]
  by (auto simp: ex4_def ex3_def ex2_def ex0_def ex_hvs_def ex_voteset_def ex_proposal_def hvs_of_def deref_def
      precommits_def getVoteSet_def isNilHash_def nilHash_def bytes_Equal_def)

subsection \<open>Votes\<close>

text \<open>
  C16: in a vote set that votes were added to, in any order and whether or not they were accepted,
  the recorded majority is a hash exactly when more than two thirds of the validators have a
  recorded vote for it.
\<close>

theorem majority_iff_two_thirds:
  assumes "small_valset V" and "s \<noteq> []"
  shows "vs_Maj23 (add_all V (NewVoteSet t h r) pvs) = Some s \<longleftrightarrow>
    2 * length (Validators V) < 3 * card (voters_for (add_all V (NewVoteSet t h r) pvs) s)"
proof -
  have "wf_voteset V (add_all V (NewVoteSet t h r) pvs)" using assms(1) by (simp add: wf_add_all)
  from Maj23_iff [OF this assms(2)] show ?thesis by (auto simp: quorum_nat_def)
qed

theorem majority_iff_two_thirds_witness:
  "vs_Maj23 (four_set [''A'', ''B'', ''C''] ''H'') = Some ''H'' \<and>
    2 * length (Validators four) < 3 * card (voters_for (four_set [''A'', ''B'', ''C''] ''H'') ''H'')"
proof -
  have "vs_Maj23 (four_set [''A'', ''B'', ''C''] ''H'') = Some ''H''" by (simp add: four_set_majority)
  then show ?thesis using majority_iff_two_thirds [OF four_small, of "''H''" VOTE_PRECOMMIT 5 0] unfolding four_set_def by blast
qed

text \<open>
  C11: two vote sets of the same validators with different majorities convict more than a third of
  the validators: each of them has a vote for a different hash in either set.
\<close>

theorem conflicting_majorities:
  assumes "small_valset V"
    and "vs1 = add_all V (NewVoteSet t1 h1 r1) pvs1" and "vs2 = add_all V (NewVoteSet t2 h2 r2) pvs2"
    and "vs_Maj23 vs1 = Some s1" and "vs_Maj23 vs2 = Some s2" and "s1 \<noteq> s2"
  shows "card (set (Validators V)) < 3 * card {k. \<exists>v1 v2. map_of (vs_Votes vs1) k = Some v1 \<and>
    map_of (vs_Votes vs2) k = Some v2 \<and> bytes_content (v_Hash v1) \<noteq> bytes_content (v_Hash v2)}" (is "_ < 3 * card ?E")
proof -
  have wf: "wf_voteset V vs1" "wf_voteset V vs2" using assms(1-3) by (simp_all add: wf_add_all)
  then have ok: "votes_ok V vs1" "votes_ok V vs2" by (simp_all add: wf_voteset_def)
  have "voters_for vs1 s1 \<inter> voters_for vs2 s2 \<subseteq> ?E"
  proof
    fix k assume k: "k \<in> voters_for vs1 s1 \<inter> voters_for vs2 s2"
    obtain v1 where "map_of (vs_Votes vs1) k = Some v1" "bytes_content (v_Hash v1) = s1"
      using voters_for_mem [OF ok(1)] k by (metis IntD1)
    moreover obtain v2 where "map_of (vs_Votes vs2) k = Some v2" "bytes_content (v_Hash v2) = s2"
      using voters_for_mem [OF ok(2)] k by (metis IntD2)
    ultimately show "k \<in> ?E" using assms(6) by blast
  qed
  moreover have "finite ?E"
    by (rule finite_subset [of _ "dom (map_of (vs_Votes vs1))"]) (auto simp: finite_dom_map_of)
  ultimately have "card (voters_for vs1 s1 \<inter> voters_for vs2 s2) \<le> card ?E" by (simp add: card_mono)
  then show ?thesis using Maj23_conflict [OF wf assms(4,5)] by linarith
qed

theorem conflicting_majorities_witness:
  "4 < 3 * card {k. \<exists>v1 v2. map_of (vs_Votes (four_set [''A'', ''B'', ''C''] ''H'')) k = Some v1 \<and>
    map_of (vs_Votes (four_set [''B'', ''C'', ''D''] ''I'')) k = Some v2 \<and>
    bytes_content (v_Hash v1) \<noteq> bytes_content (v_Hash v2)}"
proof -
  have "vs_Maj23 (four_set [''A'', ''B'', ''C''] ''H'') = Some ''H''"
    "vs_Maj23 (four_set [''B'', ''C'', ''D''] ''I'') = Some ''I''" by (simp_all add: four_set_majority)
  from conflicting_majorities [OF four_small four_set_def four_set_def this]
  show ?thesis by simp
qed

text \<open>
  C18: \<open>hasTwoThirdsAny\<close>, on a vote set that is not empty: no hash can still get a majority, even
  if all validators that have not voted vote for it.
\<close>

theorem no_majority_possible_iff:
  assumes "small_valset V" and "vs = add_all V (NewVoteSet t h r) pvs" and "vs_Votes vs \<noteq> []"
  shows "hasTwoThirdsAny V (Some vs) \<longleftrightarrow>
    (\<forall>s. 3 * (length (votes_for vs s) + (length (Validators V) - length (vs_Votes vs))) \<le> 2 * length (Validators V))"
proof -
  have "a < quorum_nat n \<longleftrightarrow> 3 * a \<le> 2 * n" for a n by (auto simp: quorum_nat_def)
  then show ?thesis
    using assms hasTwoThirdsAny_iff [of V vs] by (simp add: wf_add_all)
qed

theorem no_majority_possible_iff_witness:
  "\<exists>vs. vs_Votes vs \<noteq> [] \<and> \<not> hasTwoThirdsAny four (Some vs) \<and>
    (\<exists>s. 2 * length (Validators four) < 3 * (length (votes_for vs s) + (length (Validators four) - length (vs_Votes vs))))"
proof -
  let ?vs = "four_set [''A''] ''H''"
  have ne: "vs_Votes ?vs \<noteq> []" by (simp add: four_set_votes)
  have ex: "2 * length (Validators four) < 3 * (length (votes_for ?vs ''H'') + (length (Validators four) - length (vs_Votes ?vs)))"
    by (simp add: four_set_votes four_set_voters)
  then have "\<not> hasTwoThirdsAny four (Some ?vs)"
    using no_majority_possible_iff [OF four_small four_set_def ne] not_le by blast
  then show ?thesis using ne ex by blast
qed

text \<open>
  The first vote of a voter stays: whatever votes are added later, the vote that is recorded
  for a voter is never replaced.
\<close>

theorem first_vote_stays:
  assumes "small_valset V" and "map_of (vs_Votes (add_all V (NewVoteSet t h r) pvs)) k = Some v"
  shows "map_of (vs_Votes (add_all V (NewVoteSet t h r) (pvs @ pvs'))) k = Some v \<and> Some v \<in> set pvs"
proof -
  let ?vs = "add_all V (NewVoteSet t h r) pvs"
  have wf: "wf_voteset V ?vs \<and> small_valset V" using assms(1) by (simp add: wf_add_all)
  have "map_of (vs_Votes (add_all V ?vs pvs')) k = Some v"
    unfolding add_all_def using voteset_store.foldl_keep [OF wf assms(2)] by (simp add: add_all_def)
  moreover have "map_of (vs_Votes (NewVoteSet t h r)) k = Some v \<or> (Some v \<in> set pvs \<and> v_Voter v = k)"
    using voteset_store.foldl_origin [of V "NewVoteSet t h r" True pvs k v] assms by (simp add: add_all_def)
  ultimately show ?thesis by (simp add: add_all_def)
qed

theorem first_vote_stays_witness:
  "map_of (vs_Votes (add_all four (NewVoteSet VOTE_PRECOMMIT 5 0) ([Some (four_vote ''A'' ''H'')] @ [Some (four_vote ''A'' ''I'')]))) ''A''
    = Some (four_vote ''A'' ''H'')"
proof -
  have "map_of (vs_Votes (add_all four (NewVoteSet VOTE_PRECOMMIT 5 0) [Some (four_vote ''A'' ''H'')])) ''A'' = Some (four_vote ''A'' ''H'')"
    using four_set_votes [of "[''A'']" "''H''"] by (simp add: four_set_def)
  from first_vote_stays [OF four_small this] show ?thesis by blast
qed

text \<open>
  C17: a vote set survives the message encoding: rebuilt from its message, with the votes of the
  map in any order, it has the same votes, the same sum and the same majority.
\<close>

theorem voteset_message_roundtrip:
  assumes "small_valset V" and "vs = add_all V (NewVoteSet t h r) pvs"
    and "VoteSet_ToProto (Some vs) = Some p" and "mset pvotes = mset (pvs_Votes p)" and "s \<noteq> []"
  shows "mset (vs_Votes (NewVoteSetFromProto (p\<lparr>pvs_Votes := pvotes\<rparr>) V)) = mset (vs_Votes vs) \<and>
    vs_Sum (NewVoteSetFromProto (p\<lparr>pvs_Votes := pvotes\<rparr>) V) = vs_Sum vs \<and>
    (vs_Maj23 (NewVoteSetFromProto (p\<lparr>pvs_Votes := pvotes\<rparr>) V) = Some s \<longleftrightarrow> vs_Maj23 vs = Some s)"
  using proto_roundtrip [of V vs p pvotes] assms by (simp add: wf_add_all)

theorem voteset_message_roundtrip_witness:
  "\<exists>p. VoteSet_ToProto (Some (four_set [''A'', ''B'', ''C''] ''H'')) = Some p \<and>
    vs_Maj23 (NewVoteSetFromProto (p\<lparr>pvs_Votes := rev (pvs_Votes p)\<rparr>) four) = Some ''H''"
proof -
  have maj: "vs_Maj23 (four_set [''A'', ''B'', ''C''] ''H'') = Some ''H''" by (simp add: four_set_majority)
  obtain p where p: "VoteSet_ToProto (Some (four_set [''A'', ''B'', ''C''] ''H'')) = Some p"
    by (simp add: VoteSet_ToProto_def)
  show ?thesis
    using voteset_message_roundtrip [OF four_small four_set_def p, of "rev (pvs_Votes p)" "''H''"] p maj by auto
qed

text \<open>
  The transactions a set of prevotes asks to delete: without repetition, those that more than
  a third of the validators reported, if no prevote names a transaction twice.
\<close>

theorem deleted_transactions:
  assumes "small_valset V" and "\<forall>v. Some v \<in> set pvs \<longrightarrow> distinct (v_InvalidTxs v)"
    and "vs = add_all V (NewVoteSet VOTE_PREVOTE h r) pvs"
  shows "distinct (vs_needToDelTxs vs) \<and>
    (tx \<in> set (vs_needToDelTxs vs) \<longleftrightarrow> length (Validators V) div 3 < reports vs tx)"
proof -
  have "wf_voteset V (add_all V (NewVoteSet VOTE_PREVOTE h r) pvs) \<and> tally_ok V (add_all V (NewVoteSet VOTE_PREVOTE h r) pvs) \<and>
    vs_Type (add_all V (NewVoteSet VOTE_PREVOTE h r) pvs) = VOTE_PREVOTE"
    using assms(2)
  proof (induction pvs rule: rev_induct)
    case (snoc pv pvs)
    let ?vs = "add_all V (NewVoteSet VOTE_PREVOTE h r) pvs"
    have ih: "wf_voteset V ?vs" "tally_ok V ?vs" "vs_Type ?vs = VOTE_PREVOTE" using snoc by auto
    have step: "add_all V (NewVoteSet VOTE_PREVOTE h r) (pvs @ [pv]) = fst (AddVote V ?vs pv True)"
      by (simp add: add_all_def)
    have "tally_ok V (fst (AddVote V ?vs pv True))"
    proof (cases pv)
      case (Some v)
      then show ?thesis using AddVote_tally [OF ih(1) assms(1) ih(2,3)] snoc.prems by simp
    qed (simp add: AddVote_nil ih)
    then show ?case
      unfolding step using ih AddVote_wf [OF ih(1) assms(1)] AddVote_fields(1) [OF ih(1) assms(1)] by simp
  qed (simp add: add_all_def)
  then show ?thesis using tally_needToDelTxs(1) [of V vs] tally_needToDelTxs(2) [of V vs tx] assms(3) by blast
qed

theorem deleted_transactions_witness:
  "\<exists>vs. vs = add_all four (NewVoteSet VOTE_PREVOTE 5 0) [None] \<and> distinct (vs_needToDelTxs vs) \<and>
    (''t'' \<in> set (vs_needToDelTxs vs) \<longleftrightarrow> length (Validators four) div 3 < reports vs ''t'')"
  using deleted_transactions [OF four_small, of "[None]"] by simp

subsection \<open>Certificates\<close>

text \<open>
  C12: a block that passes \<open>VerifyBlockSignatures\<close> carries votes for its hash by more than two
  thirds of the validators of its height's configuration, each with a valid signature, except
  for those votes whose error is lost: the goroutines that verify the votes race with the reader
  of their result, and \<open>late\<close> is the set of votes that lose this race, an arbitrary one.
\<close>

theorem accepted_block_is_certified:
  assumes "VerifyBlockSignatures getConfig ac cd late validatorListFunc (Some block) = Inr None"
    and "b_Header block = Some header" and "getConfig (BlockHeight header) = Some cfg"
    and "validatorListFunc cfg = Some validators" and "length validators < 2 ^ 30"
  shows "\<exists>votes. set (map fst votes) \<subseteq> set validators \<and> distinct (map fst votes) \<and>
    2 * length validators < 3 * length votes \<and>
    (\<forall>(k, v) \<in> set votes. v_Voter v = k \<and> bytes_content (v_Hash v) = bytes_content (BlockHash header) \<and>
      (verify_one ac cd (BlockVersion header) v = None \<or> late v))"
proof -
  let ?V = "newValidatorSet validators DefaultBlocksPerProposer" and ?s = "bytes_content (BlockHash header)"
  obtain vs where cert: "wf_voteset ?V vs" "val_quorum.is_quorum ?V (voters_for vs ?s)"
    "\<forall>(k, v) \<in> set (votes_for vs ?s). verify_one ac cd (BlockVersion header) v = None \<or> late v"
    using VerifyBlockSignatures_certified [OF assms] .
  have ok: "votes_ok ?V vs" using cert(1) by (simp add: wf_voteset_def)
  show ?thesis
    using ok cert(3) quorum_numbers [OF cert(2)] card_voters_for [OF ok, of ?s]
    by (intro exI [of _ "votes_for vs ?s"])
      (fastforce simp: votes_ok_def voters_for_def votes_for_def newValidatorSet_def wf_alist_filter)
qed

text \<open>Data of the witnesses: a block of height 5 whose certificate has the precommits of three validators.\<close>

definition four_ac :: accessControl where
  "four_ac = \<lparr>ac_CreatePrincipal = (\<lambda>e m. Some m), ac_VerifyMsgPrincipal = (\<lambda>p v. Some True),
     ac_NewMember = (\<lambda>_. None)\<rparr>"

definition four_cert :: VoteSet where
  "four_cert = four_set [''A'', ''B'', ''C''] ''H''"

definition four_codec :: codec where
  "four_codec = \<lparr>marshalVote = (\<lambda>_. ''vote''), marshalProposal = (\<lambda>_. ''prop''), marshalVoteSet = (\<lambda>_. ''qc''),
     unmarshalVoteSet = (\<lambda>_. VoteSet_ToProto (Some four_cert))\<rparr>"

definition four_header :: BlockHeader where
  "four_header = \<lparr>BlockVersion = 0, BlockHeight = 5, BlockHash = Some ''H'', PreBlockHash = None, Proposer = None,
     h_Signature = None, h_Other = []\<rparr>"

definition four_block :: Block where
  "four_block = \<lparr>b_Header = Some four_header, b_Dag = [], b_Txs = [],
     b_AdditionalData = Some [TBFTAddtionalDataKey \<mapsto> Some ''qc'']\<rparr>"

definition four_list :: "ChainConfig \<Rightarrow> string list option" where
  "four_list cfg = Some [''A'', ''B'', ''C'', ''D'']"

lemma four_verify_one: "verify_one four_ac cd bv v = None"
  by (simp add: verify_one_def four_ac_def)

text \<open>
  A node accepts the certificates that nodes make: a block that carries a majority of
  precommits for its hash, as \<open>commitBlock\<close> attaches it, with valid signatures, passes
  \<open>VerifyBlockSignatures\<close>; the encoding may permute the votes of the map.
\<close>

theorem own_certificate_accepted:
  assumes "vs = add_all (newValidatorSet validators DefaultBlocksPerProposer) (NewVoteSet t h r) pvs"
    and "length validators < 2 ^ 30"
    and "vs_Maj23 vs = Some s" and "s \<noteq> []"
    and "\<forall>(k, v) \<in> set (vs_Votes vs). verify_one ac cd (BlockVersion header) v = None"
    and "VoteSet_ToProto (Some vs) = Some p" and "mset pvotes = mset (pvs_Votes p)"
    and "unmarshalVoteSet cd (marshalVoteSet cd (Some p)) = Some (p\<lparr>pvs_Votes := pvotes\<rparr>)"
    and "b_Header block = Some header" and "bytes_content (BlockHash header) = s"
    and "b_AdditionalData block = Some extra"
    and "extra TBFTAddtionalDataKey = Some (Some (marshalVoteSet cd (VoteSet_ToProto (Some vs))))"
    and "getConfig (BlockHeight header) = Some cfg" and "validatorListFunc cfg = Some validators"
  shows "VerifyBlockSignatures getConfig ac cd late validatorListFunc (Some block) = Inr None"
proof (rule VerifyBlockSignatures_own)
  show "wf_voteset (newValidatorSet validators DefaultBlocksPerProposer) vs"
    unfolding assms(1) by (intro wf_add_all small_newValidatorSet assms(2)) simp
  show "\<exists>pvotes. mset pvotes = mset (pvs_Votes q) \<and>
      unmarshalVoteSet cd (marshalVoteSet cd (Some q)) = Some (q\<lparr>pvs_Votes := pvotes\<rparr>)"
    if "VoteSet_ToProto (Some vs) = Some q" for q
    using that assms(6-8) by auto
qed (fact assms)+

lemma four_cert_eq:
  "four_cert = add_all (newValidatorSet [''A'', ''B'', ''C'', ''D''] DefaultBlocksPerProposer) (NewVoteSet VOTE_PRECOMMIT 5 0)
    (map (\<lambda>k. Some (four_vote k ''H'')) [''A'', ''B'', ''C''])"
  unfolding four_cert_def four_set_def four_def DefaultBlocksPerProposer_def ..

theorem own_certificate_accepted_witness:
  "VerifyBlockSignatures (\<lambda>_. Some ex_cfg) four_ac four_codec (\<lambda>_. False) four_list (Some four_block) = Inr None"
proof -
  obtain p where p: "VoteSet_ToProto (Some four_cert) = Some p" by (simp add: VoteSet_ToProto_def)
  have maj: "vs_Maj23 four_cert = Some ''H''" by (simp add: four_cert_def four_set_majority)
  have votes: "\<forall>(k, v) \<in> set (vs_Votes four_cert). verify_one four_ac four_codec (BlockVersion four_header) v = None"
    by (simp add: four_verify_one)
  show ?thesis
    by (rule own_certificate_accepted [OF four_cert_eq _ maj _ votes p, where pvotes = "pvs_Votes p"
          and block = four_block and cfg = ex_cfg
          and extra = "[TBFTAddtionalDataKey \<mapsto> Some ''qc'']"])
      (simp_all add: four_codec_def p four_block_def four_header_def four_list_def)
qed

lemma four_accepted: "VerifyBlockSignatures (\<lambda>_. Some ex_cfg) four_ac four_codec (\<lambda>_. False) four_list (Some four_block) = Inr None"
proof -
  obtain p where p: "VoteSet_ToProto (Some four_cert) = Some p" by (simp add: VoteSet_ToProto_def)
  have "small_valset (newValidatorSet [''A'', ''B'', ''C'', ''D''] DefaultBlocksPerProposer)"
    by (rule small_newValidatorSet) simp
  then have "wf_voteset (newValidatorSet [''A'', ''B'', ''C'', ''D''] DefaultBlocksPerProposer) four_cert"
    unfolding four_cert_eq by (intro wf_add_all) simp_all
  then show ?thesis
    by (rule VerifyBlockSignatures_own [where s = "''H''" and header = four_header and cfg = ex_cfg
          and extra = "[TBFTAddtionalDataKey \<mapsto> Some ''qc'']"])
      (auto simp: four_verify_one four_cert_def four_set_majority four_codec_def four_block_def four_header_def
        four_list_def)
qed

theorem accepted_block_is_certified_witness:
  "\<exists>votes :: (string \<times> Vote) list. set (map fst votes) \<subseteq> {''A'', ''B'', ''C'', ''D''} \<and> 2 * 4 < 3 * length votes \<and>
    (\<forall>(k, v) \<in> set votes. v_Voter v = k \<and> bytes_content (v_Hash v) = ''H'')"
proof -
  have "b_Header four_block = Some four_header" and "four_list ex_cfg = Some [''A'', ''B'', ''C'', ''D'']"
    by (simp_all add: four_block_def four_list_def)
  from accepted_block_is_certified [OF four_accepted this(1) refl this(2)]
  obtain votes where votes: "set (map fst votes) \<subseteq> set [''A'', ''B'', ''C'', ''D'']"
      "2 * length [''A'', ''B'', ''C'', ''D''] < 3 * length votes"
      "\<forall>(k, v) \<in> set votes. v_Voter v = k \<and> bytes_content (v_Hash v) = bytes_content (BlockHash four_header) \<and>
        (verify_one four_ac four_codec (BlockVersion four_header) v = None \<or> False)"
    by auto
  then show ?thesis by (intro exI [of _ votes]) (auto simp: four_header_def)
qed

text \<open>
  \<open>VerifyQcFromVotes\<close> accepts only votes of the asked type with validly signed votes of more
  than two thirds of the validators for one hash.
\<close>

theorem accepted_prevotes_are_certified:
  assumes "VerifyQcFromVotes ac cd (\<lambda>_. False) pvs V voteType bv = Inr (Inr vs)" and "small_valset V"
  shows "\<exists>s. vs_Maj23 vs = Some s \<and> vs_Type vs = voteType \<and>
    voters_for vs s \<subseteq> set (Validators V) \<and> 2 * length (Validators V) < 3 * card (voters_for vs s) \<and>
    (\<forall>(k, v) \<in> set (votes_for vs s). verify_one ac cd bv v = None)"
proof -
  obtain s where s: "vs_Maj23 vs = Some s" "certified ac cd bv V vs s" "vs_Type vs = voteType"
    using VerifyQcFromVotes_certified [OF assms] .
  then show ?thesis using quorum_numbers [of V "voters_for vs s"] by (auto simp: certified_def)
qed

theorem accepted_prevotes_are_certified_witness:
  "\<exists>vs s. VerifyQcFromVotes four_ac four_codec (\<lambda>_. False) (Some [ex_signed VOTE_PREVOTE]) (valSet ex0) VOTE_PREVOTE 0 = Inr (Inr vs) \<and>
    vs_Maj23 vs = Some s \<and> 2 * 1 < 3 * card (voters_for vs s)"
proof -
  have run: "VerifyQcFromVotes four_ac four_codec (\<lambda>_. False) (Some [ex_signed VOTE_PREVOTE]) (valSet ex0) VOTE_PREVOTE 0
      = Inr (Inr (ex_voteset VOTE_PREVOTE))"
    by (simp add: run_simps ex0_def four_ac_def)
  have small: "small_valset (valSet ex0)" by (simp add: small_valset_def ex0_def)
  show ?thesis using accepted_prevotes_are_certified [OF run small] run by (auto simp: ex0_def)
qed

text \<open>C19: a certificate of a round that passes \<open>VerifyRoundQc\<close> has a validly signed majority.\<close>

theorem accepted_round_certificate:
  assumes "VerifyRoundQc ac cd (\<lambda>_. False) V roundQC bv = Inr None" and "qc_Qc roundQC = Some qc" and "small_valset V"
  shows "\<exists>s. vs_Maj23 (NewVoteSetFromProto qc V) = Some s \<and>
    2 * length (Validators V) < 3 * card (voters_for (NewVoteSetFromProto qc V) s) \<and>
    (\<forall>(k, v) \<in> set (votes_for (NewVoteSetFromProto qc V) s). verify_one ac cd bv v = None)"
proof -
  obtain s where s: "vs_Maj23 (NewVoteSetFromProto qc V) = Some s" "certified ac cd bv V (NewVoteSetFromProto qc V) s"
    using VerifyRoundQc_certified [OF assms] .
  then show ?thesis using quorum_numbers [of V "voters_for (NewVoteSetFromProto qc V) s"] by (auto simp: certified_def)
qed

definition one_qc :: ProtoVoteSet where
  "one_qc = the (VoteSet_ToProto (Some (ex_voteset VOTE_PREVOTE)))"

theorem accepted_round_certificate_witness:
  "\<exists>s. vs_Maj23 (NewVoteSetFromProto one_qc (valSet ex0)) = Some s \<and>
    2 * 1 < 3 * card (voters_for (NewVoteSetFromProto one_qc (valSet ex0)) s)"
proof -
  have run: "VerifyRoundQc four_ac four_codec (\<lambda>_. False) (valSet ex0)
      \<lparr>qc_Id = [], qc_Height = 1, qc_Round = 0, qc_Qc = Some one_qc\<rparr> 0 = Inr None"
    by (simp add: run_simps ex0_def four_ac_def one_qc_def)
  have small: "small_valset (valSet ex0)" by (simp add: small_valset_def ex0_def)
  show ?thesis using accepted_round_certificate [OF run _ small] by (auto simp: ex0_def)
qed

subsection \<open>Validators, proposers and configuration\<close>

text \<open>
  C19: every validator gets its turn: from any round of a height on, each validator is the
  proposer of one of the next rounds, as many as there are validators. This is the rotation of
  block version 2.3.1 and later (\<open>GetProposerV230\<close> is the one of earlier versions), with a positive number
  of blocks per proposer and rounds that are not negative and do not overflow 32 bits.
\<close>

theorem proposer_rotation_fair:
  assumes "small_valset V" and "blocksPerProposer V \<noteq> 0" and "\<not> bv < blockVersion231"
    and "r + length (Validators V) \<le> 2 ^ 31" and "v \<in> set (Validators V)"
  shows "\<exists>k < length (Validators V). GetProposer V bv pre h (i32_of_nat (r + k)) = Inr (Inr v)"
  using assms by (rule GetProposer_fair)

theorem proposer_rotation_fair_witness:
  "\<exists>k < length (Validators four). GetProposer four blockVersion231 ''B'' 7 (i32_of_nat (2 + k)) = Inr (Inr ''A'')"
  by (rule proposer_rotation_fair [OF four_small]) (simp_all, simp add: four_def newValidatorSet_def)

text \<open>
  \<open>updateValidators\<close> installs the sorted new list and reports exactly the validators that
  joined and those that left.
\<close>

theorem validators_updated:
  assumes "updateValidators V new = (V', added, removed)"
  shows "Validators V' = sort new \<and> set added = set new - set (Validators V) \<and>
    set removed = set (Validators V) - set new \<and> sorted added \<and> sorted removed \<and>
    blocksPerProposer V' = blocksPerProposer V \<and> validatorsHeight V' = validatorsHeight V"
  using updateValidators_spec [OF assms] by (auto simp: set_eq_iff)

theorem validators_updated_witness:
  "\<exists>V' added removed. updateValidators four [''E'', ''A''] = (V', added, removed) \<and>
    Validators V' = sort [''E'', ''A''] \<and> set added = set [''E'', ''A''] - set (Validators four) \<and>
    set removed = set (Validators four) - set [''E'', ''A'']"
proof -
  obtain V' added removed where up: "updateValidators four [''E'', ''A''] = (V', added, removed)"
    by (cases "updateValidators four [''E'', ''A'']")
  show ?thesis using validators_updated [OF up] up by blast
qed

text \<open>
  The configuration never sets a proposer period of zero, so that the rotation never divides
  by zero, whatever the entries are.
\<close>

theorem proposer_period_positive:
  assumes "extractConsensusConfig parseDur current config = Some (vs, tc)"
  shows "0 < tc_blocksPerProposer tc"
  using assms by (rule extractConsensusConfig_bpp)

theorem proposer_period_positive_witness:
  "\<exists>vs tc. extractConsensusConfig (\<lambda>_. None) ex_cfg (cfg_Consensus ex_cfg) = Some (vs, tc) \<and> 0 < tc_blocksPerProposer tc"
proof -
  obtain vs tc where run: "extractConsensusConfig (\<lambda>_. None) ex_cfg (cfg_Consensus ex_cfg) = Some (vs, tc)"
    by (auto simp: extractConsensusConfig_def GetValidatorListFromConfig_concat ex_cfg_def)
  from proposer_period_positive [OF this] run show ?thesis by blast
qed

subsection \<open>Caches and timeouts\<close>

text \<open>
  C21: the archive of consensus states keeps a window: after a state is added, no height at or
  below the added height minus the cache size is left, and the added state is found (unless the
  sum of height and size overflows).
\<close>

theorem state_cache_window:
  assumes "cs_Height s \<noteq> 0" and "sc_size c \<le> cs_Height s" and "\<forall>k. sc_cache c k \<noteq> None \<longrightarrow> k \<le> cs_Height s"
  shows "dom (sc_cache (addConsensusState c (Some s))) \<subseteq> {cs_Height s - sc_size c <.. cs_Height s} \<and>
    (cs_Height s < cs_Height s + sc_size c \<longrightarrow> getConsensusState (addConsensusState c (Some s)) (cs_Height s) = Some s)"
  using addConsensusState_window [OF assms] assms(1)
  by (auto simp: getConsensusState_def addConsensusState_def sc_gc_def)

theorem state_cache_window_witness:
  "getConsensusState (addConsensusState (newConsensusStateCache 10) (Some ((NewConsensusState ''A'')\<lparr>cs_Height := 12\<rparr>))) 12 =
    Some ((NewConsensusState ''A'')\<lparr>cs_Height := 12\<rparr>)"
  using state_cache_window [of "(NewConsensusState ''A'')\<lparr>cs_Height := 12\<rparr>" "newConsensusStateCache 10"]
  by (simp add: newConsensusStateCache_def)

text \<open>
  C20: the time scheduler delivers only timeouts that were requested, in the order of height,
  round and step.
\<close>

theorem timeouts_delivered_in_order:
  assumes "ts_reach ts requested delivered"
  shows "set delivered \<subseteq> set requested \<and> sorted (map ti_key delivered)"
  using ts_reach_inv [OF assms] by (auto simp: ts_inv_def sorted_append)

theorem timeouts_delivered_in_order_witness:
  "\<exists>ts t. ts_reach ts [t] [t] \<and> set [t] \<subseteq> set [t] \<and> sorted (map ti_key [t])"
proof -
  let ?t = "\<lparr>ti_Duration = 1, ti_Height = 1, ti_Round = 0, ti_Step = PREVOTE\<rparr>"
  let ?ts = newTimeSheduler
  have t1: "AddTimeoutInfo ?t ?ts = Some (?ts\<lparr>ts_bufferC := [?t]\<rparr>)"
    by (simp add: AddTimeoutInfo_def newTimeSheduler_def defaultTimeSchedulerBufferSize_def)
  let ?ts2 = "?ts\<lparr>ts_bufferC := [], ts_ti := ?t, ts_running := True\<rparr>"
  have t2: "ts_handle RecvBuffer (?ts\<lparr>ts_bufferC := [?t]\<rparr>) = Some ?ts2"
    by (simp add: ts_handle_def newTimeSheduler_def outdated_def stopTimer_def Let_def)
  let ?ts3 = "?ts2\<lparr>ts_running := False, ts_expired := True\<rparr>"
  have t3: "timer_expires ?ts2 = Some ?ts3" by (simp add: timer_expires_def)
  let ?ts4 = "?ts3\<lparr>ts_expired := False, ts_timeoutC := [?t]\<rparr>"
  have t4: "ts_handle RecvTimer ?ts3 = Some ?ts4"
    by (simp add: ts_handle_def newTimeSheduler_def defaultTimeSchedulerBufferSize_def)
  have t5: "takeTimeout ?ts4 = Some (?t, ?ts4\<lparr>ts_timeoutC := []\<rparr>)" by (simp add: takeTimeout_def)
  have "ts_reach (?ts4\<lparr>ts_timeoutC := []\<rparr>) ([] @ [?t]) ([] @ [?t])"
    by (rule ts_reach.take [OF ts_reach.handle [OF ts_reach.expire [OF ts_reach.handle [OF ts_reach.add [OF ts_reach.init t1] t2] t3] t4] t5])
  then have "ts_reach (?ts4\<lparr>ts_timeoutC := []\<rparr>) [?t] [?t]" by simp
  from timeouts_delivered_in_order [OF this] this show ?thesis by blast
qed

end
