(* ===== verification/Status_Claims.thy ===== *)
theory Status_Claims
  imports Tbft_Claims
begin

section \<open>Properties of the status exchange\<close>

text \<open>
  What the broadcaster sends to a remote node: the search for a round certificate ends for every
  remote round but the least, and the certificate found is one that the remote node accepts.
\<close>

subsection \<open>Example remote states\<close>

definition ex_remote :: "i32 \<Rightarrow> RemoteState" where
  "ex_remote r = \<lparr>r_Id = ''B'', r_Height = 1, r_Round = r, r_Step = PROPOSE, r_Proposal = None, r_VerifingProposal = None,
     r_LockedRound = 0, r_LockedProposal = None, r_ValidRound = 0, r_ValidProposal = None, r_RoundVoteSet = None\<rparr>"

lemma ex_remote_simps [simp]: "r_Round (ex_remote r) = r" "r_Height (ex_remote r) = 1"
  by (simp_all add: ex_remote_def)

subsection \<open>Certificates for lagging peers\<close>

lemma wf_voteset_same: "Validators W = Validators V \<Longrightarrow> wf_voteset W vs = wf_voteset V vs"
  by (simp add: wf_voteset_def votes_ok_def maj_ok_def)

lemma roundMajority_set:
  assumes "roundMajority (getRoundVoteSet hvs r) = Some vs"
  obtains t s where "hvs_set hvs r t = Some vs" and "named_type t" and "vs_Maj23 vs = Some s"
proof -
  obtain rvs where rvs: "getRoundVoteSet hvs r = Some rvs" using assms by (auto simp: roundMajority_def split: option.splits)
  then have sets: "hvs_set hvs r VOTE_PRECOMMIT = rvs_Precommits rvs" "hvs_set hvs r VOTE_PREVOTE = rvs_Prevotes rvs"
    by (simp_all add: hvs_set_def getVoteSet_def getRoundVoteSet_def)
  consider "rvs_Precommits rvs = Some vs" "snd (twoThirdsMajority (Some vs))"
    | "rvs_Prevotes rvs = Some vs" "snd (twoThirdsMajority (Some vs))"
    using assms rvs by (auto simp: roundMajority_def split: if_splits)
  then show ?thesis
  proof cases
    case 1
    then obtain s where "vs_Maj23 vs = Some s" by (auto simp: twoThirdsMajority_simps)
    with 1 sets that [of VOTE_PRECOMMIT s] show ?thesis by simp
  next
    case 2
    then obtain s where "vs_Maj23 vs = Some s" by (auto simp: twoThirdsMajority_simps)
    with 2 sets that [of VOTE_PREVOTE s] show ?thesis by simp
  qed
qed

text \<open>
  C22: the broadcaster's search for a round certificate ends for every round that a remote node may
  report, except the least 32-bit integer, and a message it sends then is made of a vote set with
  a majority in a round from the remote one on.
\<close>

theorem round_certificate_search_ends:
  assumes "sint (r_Round remoter) \<noteq> - (2 ^ 31)"
  shows "\<exists>msgs. sendRoundQC sc local hvs remoter remoteId = Some msgs \<and>
    (\<forall>(m, receiver) \<in> set msgs. receiver = remoteId \<and>
      (\<exists>r t vs s. sint (r_Round remoter) \<le> sint r \<and> hvs_set hvs r t = Some vs \<and> vs_Maj23 vs = Some s \<and>
        m = \<lparr>m_Type = MSG_SEND_ROUND_QC, m_Msg = Some (marshalRoundQC sc
          \<lparr>qc_Id = Id local, qc_Height = vs_Height vs, qc_Round = vs_Round vs, qc_Qc = VoteSet_ToProto (Some vs)\<rparr>)\<rparr>))"
proof -
  have "- (2 ^ 31) < sint (r_Round remoter)" using assms sint_ge [of "r_Round remoter"] by simp
  then obtain res where res: "findRoundQC hvs (r_Round remoter) (Round local) = Some res"
    using findRoundQC_ends by blast
  show ?thesis
  proof (cases res)
    case None
    then show ?thesis using res by (simp add: sendRoundQC_def)
  next
    case (Some vs)
    then obtain r where r: "sint (r_Round remoter) \<le> sint r" "roundMajority (getRoundVoteSet hvs r) = Some vs"
      using findRoundQC_found res by blast
    obtain t s where "hvs_set hvs r t = Some vs" "vs_Maj23 vs = Some s" using roundMajority_set [OF r(2)] .
    then show ?thesis using res Some r(1) by (auto simp: sendRoundQC_def)
  qed
qed

theorem round_certificate_search_ends_witness:
  "\<exists>msgs. sendRoundQC \<lparr>marshalGossipState = (\<lambda>_. ''state''), marshalRoundQC = (\<lambda>_. ''qc'')\<rparr> ex3
    (ex_hvs (ex_voteset VOTE_PREVOTE) (NewVoteSet VOTE_PRECOMMIT 1 0)) (ex_remote (- 5)) ''B'' = Some msgs"
proof -
  have "sint (r_Round (ex_remote (- 5))) \<noteq> - (2 ^ 31)" by simp
  from round_certificate_search_ends [OF this] show ?thesis by blast
qed

text \<open>
  C23: a remote node that reports the least 32-bit integer as its round, at the height of a node
  without any majority, makes the broadcaster of that node loop for ever: the counter wraps
  around, and the broadcaster never returns.
\<close>

theorem round_certificate_search_hangs:
  assumes "sint (r_Round remoter) = - (2 ^ 31)" and "r_Height remoter = Height local" and "r_Height remoter \<noteq> 0"
    and "sint (Round local) \<noteq> - (2 ^ 31)" and "Id local \<noteq> []" and "remoteId \<noteq> []"
    and "cs_heightRoundVoteSet (cState local) = Some hvs" and "\<forall>r. roundMajority (getRoundVoteSet hvs r) = None"
  shows "PreBroadcaster e sc local remoteId (Some remoter) = Inr None"
proof -
  have "findRoundQC hvs (r_Round remoter) (Round local) = None"
    using assms(1,8) by (rule findRoundQC_diverges)
  moreover have "sint (r_Round remoter) < sint (Round local)"
    using assms(1,4) sint_ge [of "Round local"] by simp
  ultimately have "sendRoundQC sc local hvs remoter remoteId = None" using assms(2) by (simp add: sendRoundQC_def)
  then show ?thesis using assms by (simp add: PreBroadcaster_def sendState_def Let_def hvs_of_def)
qed

theorem round_certificate_search_hangs_witness:
  "PreBroadcaster ex_env \<lparr>marshalGossipState = (\<lambda>_. ''state''), marshalRoundQC = (\<lambda>_. ''qc'')\<rparr> ex0 ''B''
    (Some (ex_remote 0x80000000)) = Inr None"
  by (rule round_certificate_search_hangs [where hvs = "\<lparr>hvs_Height = 1, hvs_Round = 0, hvs_RoundVoteSets = []\<rparr>"])
    (simp_all add: ex0_def roundMajority_def getRoundVoteSet_def)

text \<open>
  A round certificate that a running node finds for a peer is accepted by \<open>VerifyRoundQc\<close> of
  every node with the same validators, in whatever order the votes of the map arrive, provided
  that the votes carry valid signatures.
\<close>

theorem sent_round_certificate_accepted:
  assumes "running c" and "cs_heightRoundVoteSet (cState c) = Some hvs"
    and "findRoundQC hvs remoteRound (Round c) = Some (Some vs)" and "vs_Maj23 vs \<noteq> Some []"
    and "Validators W = Validators (valSet c)" and "VoteSet_ToProto (Some vs) = Some p" and "mset pvotes = mset (pvs_Votes p)"
    and "\<forall>(k, v) \<in> set (vs_Votes vs). verify_one ac cd bv v = None"
  shows "VerifyRoundQc ac cd late W \<lparr>qc_Id = Id c, qc_Height = vs_Height vs, qc_Round = vs_Round vs,
    qc_Qc = Some (p\<lparr>pvs_Votes := pvotes\<rparr>)\<rparr> bv = Inr None"
proof -
  obtain V where inv: "inv V c" using running_inv [OF assms(1)] by blast
  then have hvs: "wf_hvs V hvs" and same: "Validators (valSet c) = Validators V" and smallV: "small_valset V"
    using assms(2) by (auto simp: inv_def votes_inv_def same_validators_def)
  obtain r where "roundMajority (getRoundVoteSet hvs r) = Some vs" using findRoundQC_found [OF assms(3)] by blast
  then obtain t s where set: "hvs_set hvs r t = Some vs" and maj: "vs_Maj23 vs = Some s" by (rule roundMajority_set)
  have wf: "wf_voteset W vs" and small: "small_valset W"
    using hvs_set_ok(1) [OF hvs set] same assms(5) smallV wf_voteset_same [of W V vs] by (auto simp: small_valset_def)
  show ?thesis using maj assms(4) by (intro VerifyRoundQc_own [OF wf small maj _ assms(8,6,7)]) simp
qed

theorem sent_round_certificate_accepted_witness:
  "VerifyRoundQc four_ac four_codec (\<lambda>_. False) (valSet ex3) \<lparr>qc_Id = ''A'', qc_Height = 1, qc_Round = 0,
    qc_Qc = VoteSet_ToProto (Some (ex_voteset VOTE_PREVOTE))\<rparr> 0 = Inr None"
proof -
  obtain p where p: "VoteSet_ToProto (Some (ex_voteset VOTE_PREVOTE)) = Some p" by (simp add: VoteSet_ToProto_def)
  have found: "findRoundQC (ex_hvs (ex_voteset VOTE_PREVOTE) (NewVoteSet VOTE_PRECOMMIT 1 0)) 0 (Round ex3)
      = Some (Some (ex_voteset VOTE_PREVOTE))"
    by (subst findRoundQC.simps) (simp add: ex3_def ex2_def ex0_def ex_hvs_def getRoundVoteSet_def roundMajority_def
      twoThirdsMajority_def NewVoteSet_def ex_voteset_def)
  show ?thesis
    using sent_round_certificate_accepted [OF ex_running(4) _ found _ refl p refl, of four_ac four_codec 0 "\<lambda>_. False"]
    by (simp add: p ex3_def ex2_def ex0_def ex_voteset_def four_ac_def run_simps)
qed

end
