(* ===== verification/Shard_Map.thy ===== *)
theory Shard_Map
  imports Go_Prelude
begin

section \<open>The sharded key table (module/snapshot/shard_map.go)\<close>

text \<open>
  A snapshot keeps the keys that its transactions read and wrote in two tables of 64 shards; a key
  is in the shard that its FNV hash selects. The contract of a key table is the locale
  \<open>key_table\<close>; the sharded table implements it, whatever the hash is.
\<close>

unbundle bit_operations_syntax

subsection \<open>Hash, shard, set of shards\<close>

text \<open>The value of a key with the position of the transaction that wrote or read it.\<close>

record sv =
  sv_seq :: int
  sv_value :: gobytes

definition Prime32 :: u32 where
  "Prime32 = 16777619"

definition ShardNum :: nat where
  "ShardNum = 64"

primrec fnv32_loop :: "u32 \<Rightarrow> string \<Rightarrow> u32" where
  "fnv32_loop hash [] = hash"
| "fnv32_loop hash (c # key) = fnv32_loop ((hash * Prime32) XOR of_char c) key"

definition fnv32 :: "string \<Rightarrow> u32" where
  "fnv32 key = fnv32_loop 2166136261 key"

definition shardNum :: "string \<Rightarrow> nat \<Rightarrow> nat" where
  "shardNum key shardedNum = unat (fnv32 key mod word_of_nat shardedNum)"

type_synonym Shard = "string \<rightharpoonup> sv"

definition newShard :: Shard where
  "newShard = Map.empty"

definition Shard_getByLock :: "Shard \<Rightarrow> string \<Rightarrow> sv option" where
  "Shard_getByLock s k = s k"

definition Shard_putByLock :: "Shard \<Rightarrow> string \<Rightarrow> sv \<Rightarrow> Shard" where
  "Shard_putByLock s k kv = s(k \<mapsto> kv)"

record ShardSet =
  ss_shardNum :: nat
  ss_shards :: "Shard list"

definition newShardSet :: ShardSet where
  "newShardSet = \<lparr>ss_shardNum = ShardNum, ss_shards = replicate ShardNum newShard\<rparr>"

definition getByLock :: "ShardSet \<Rightarrow> string \<Rightarrow> sv option" where
  "getByLock s k = Shard_getByLock (ss_shards s ! shardNum k (ss_shardNum s)) k"

definition putByLock :: "ShardSet \<Rightarrow> string \<Rightarrow> sv \<Rightarrow> ShardSet" where
  "putByLock s k v =
     (let i = shardNum k (ss_shardNum s)
      in s\<lparr>ss_shards := (ss_shards s)[i := Shard_putByLock (ss_shards s ! i) k v]\<rparr>)"

subsection \<open>The contract of a key table\<close>

locale key_table =
  fixes empty :: 't and look :: "'t \<Rightarrow> string \<Rightarrow> 'v option" and put :: "'t \<Rightarrow> string \<Rightarrow> 'v \<Rightarrow> 't"
    and ok :: "'t \<Rightarrow> bool"
  assumes ok_empty: "ok empty" and ok_put: "ok t \<Longrightarrow> ok (put t k v)"
    and look_empty: "look empty k = None"
    and look_put: "ok t \<Longrightarrow> look (put t k v) k' = (if k' = k then Some v else look t k')"
begin

definition put_all :: "'t \<Rightarrow> (string \<times> 'v) list \<Rightarrow> 't" where
  "put_all t kvs = fold (\<lambda>(k, v) t. put t k v) kvs t"

lemma put_all_simps [simp]: "put_all t [] = t" "put_all t ((k, v) # kvs) = put_all (put t k v) kvs"
  by (simp_all add: put_all_def)

lemma ok_put_all: "ok t \<Longrightarrow> ok (put_all t kvs)"
  by (induction kvs arbitrary: t) (auto simp: ok_put)

lemma look_put_all:
  "ok t \<Longrightarrow> look (put_all t kvs) k = (case map_of (rev kvs) k of None \<Rightarrow> look t k | Some v \<Rightarrow> Some v)"
proof (induction kvs arbitrary: t)
  case (Cons p kvs)
  obtain a b where p: "p = (a, b)" by (cases p)
  show ?case using Cons by (simp add: p ok_put look_put map_add_def split: option.split)
qed simp

lemma look_put_all_alist:
  assumes "ok t" and "wf_alist kvs"
  shows "look (put_all t kvs) k = (case map_of kvs k of None \<Rightarrow> look t k | Some v \<Rightarrow> Some v)"
proof -
  have "map_of (rev kvs) = map_of kvs"
    using assms(2) by (intro map_of_inject_set [THEN iffD2]) (simp_all add: rev_map [symmetric])
  then show ?thesis using look_put_all [OF assms(1)] by simp
qed

end

subsection \<open>The sharded table implements it\<close>

definition shards_ok :: "ShardSet \<Rightarrow> bool" where
  "shards_ok s \<longleftrightarrow> ss_shardNum s = ShardNum \<and> length (ss_shards s) = ShardNum"

lemma shardNum_bound: "shardNum k ShardNum < ShardNum"
  by (simp add: shardNum_def ShardNum_def unat_mod)

interpretation shard_table: key_table newShardSet getByLock putByLock shards_ok
proof
  fix t k k' v
  assume ok: "shards_ok t"
  show "getByLock (putByLock t k v) k' = (if k' = k then Some v else getByLock t k')"
    using ok shardNum_bound [of k] shardNum_bound [of k']
    by (auto simp: getByLock_def putByLock_def Let_def shards_ok_def Shard_putByLock_def Shard_getByLock_def nth_list_update)
next
  show "getByLock newShardSet k = None" for k
    using shardNum_bound [of k] by (simp add: getByLock_def newShardSet_def newShard_def Shard_getByLock_def)
qed (auto simp: shards_ok_def newShardSet_def putByLock_def Let_def)

text \<open>The abstract table, and that the operations refine those of a map.\<close>

definition table_of :: "ShardSet \<Rightarrow> string \<rightharpoonup> sv" where
  "table_of s = getByLock s"

lemma table_of_put: "shards_ok s \<Longrightarrow> table_of (putByLock s k v) = (table_of s)(k \<mapsto> v)"
  by (auto simp: table_of_def shard_table.look_put)

text \<open>Two tables with the same shards keep the same keys: the table is determined by its map.\<close>

definition shards_tidy :: "ShardSet \<Rightarrow> bool" where
  "shards_tidy s \<longleftrightarrow> shards_ok s \<and> (\<forall>i < ShardNum. \<forall>k y. (ss_shards s ! i) k = Some y \<longrightarrow> shardNum k ShardNum = i)"

lemma shards_tidy_new: "shards_tidy newShardSet"
  by (simp add: shards_tidy_def shards_ok_def newShardSet_def newShard_def)

lemma shards_tidy_put: "shards_tidy s \<Longrightarrow> shards_tidy (putByLock s k v)"
  using shardNum_bound [of k]
  by (auto simp: shards_tidy_def shards_ok_def putByLock_def Let_def Shard_putByLock_def nth_list_update split: if_splits)

lemma shards_tidy_ok [simp]: "shards_tidy s \<Longrightarrow> shards_ok s"
  by (simp add: shards_tidy_def)

lemma tidy_None: "shards_tidy s \<Longrightarrow> i < ShardNum \<Longrightarrow> shardNum k ShardNum \<noteq> i \<Longrightarrow> (ss_shards s ! i) k = None"
  by (cases "(ss_shards s ! i) k") (auto simp: shards_tidy_def)

lemma table_of_inject:
  assumes "shards_tidy s" and "shards_tidy t" and "table_of s = table_of t"
  shows "s = t"
proof -
  have "ss_shards s ! i = ss_shards t ! i" if i: "i < ShardNum" for i
  proof
    fix k
    show "(ss_shards s ! i) k = (ss_shards t ! i) k"
    proof (cases "shardNum k ShardNum = i")
      case True
      then show ?thesis using fun_cong [OF assms(3), of k] assms(1,2)
        by (simp add: table_of_def getByLock_def Shard_getByLock_def shards_tidy_def shards_ok_def)
    next
      case False
      then have "(ss_shards s ! i) k = None" "(ss_shards t ! i) k = None" using assms(1,2) i by (simp_all add: tidy_None)
      then show ?thesis by simp
    qed
  qed
  then have "ss_shards s = ss_shards t"
    using assms(1,2) by (intro nth_equalityI) (auto simp: shards_tidy_def shards_ok_def)
  then show ?thesis using assms(1,2) by (simp add: shards_tidy_def shards_ok_def)
qed

end
