(* ===== verification/Snapshot.thy ===== *)
theory Snapshot
  imports Shard_Map
begin

section \<open>Snapshots (module/snapshot/snapshot_impl.go)\<close>

text \<open>
  A snapshot is the cache of the transactions of a block that is being built or verified: the
  tables of keys read and written, the applied transactions with their read and write sets, and a
  reference to the snapshot of the block before. Snapshots refer to each other, so they live in a
  heap \<open>snapshots\<close>; an operation on one snapshot is a function on the record.

  Code outside the repository is an argument: the store (\<open>blockchainStore\<close>), the simulation
  context of a transaction (\<open>txSimContext\<close>, the results of its getters), the bitmaps
  (\<open>bitmap\<close>) and \<open>protocol.GetKeyStr\<close>. The payloads of transactions are not nil.
\<close>

subsection \<open>Messages\<close>

record TxRead =
  rd_Key :: gobytes
  rd_Value :: gobytes
  rd_ContractName :: string

record TxWrite =
  wr_Key :: gobytes
  wr_Value :: gobytes
  wr_ContractName :: string

record TxRWSet =
  rw_TxId :: string
  TxReads :: "TxRead list"
  TxWrites :: "TxWrite list"

datatype TxStatusCode = TxStatus_SUCCESS | TxStatus_OTHER i32

record TxResult =
  res_Code :: TxStatusCode
  res_Rest :: string

record Transaction =
  tx_TxId :: string
  tx_Result :: "TxResult option"
  tx_ContractName :: string
  tx_Method :: string
  tx_TxType :: i32
  tx_Rest :: string

text \<open>The neighbours of each vertex; a received graph may have nil vertices.\<close>

record DAG =
  Vertexes :: "u32 list option list"

record BlockHeader_core =
  hd_ChainId :: string
  hd_BlockHeight :: u64
  hd_BlockVersion :: u32
  hd_BlockTimestamp :: i64
  hd_Proposer :: gobytes
  hd_PreBlockHash :: gobytes
  hd_TxRoot :: gobytes
  hd_DagHash :: gobytes
  hd_RwSetRoot :: gobytes
  hd_BlockHash :: gobytes
  hd_BlockType :: u32
  hd_TxCount :: u32
  hd_PreConfHeight :: u64
  hd_ConsensusArgs :: gobytes
  hd_Signature :: gobytes

record Block_core =
  bk_Header :: BlockHeader_core
  bk_Txs :: "Transaction list"
  bk_Dag :: "DAG option"
  bk_AdditionalData :: "(string \<rightharpoonup> gobytes) option"

record BatchKey =
  bat_Key :: string
  bat_Field :: string
  bat_Value :: gobytes
  bat_ContractName :: string

subsection \<open>Code outside the repository\<close>

record blockchainStore =
  st_ReadObject :: "string \<Rightarrow> string \<Rightarrow> gobytes option"
  st_ReadObjects :: "string \<Rightarrow> string list \<Rightarrow> gobytes list option"
  st_LastBlock :: "BlockHeader_core option"
  st_LastChainConfig :: "string option"

record txSimContext =
  sim_Tx :: Transaction
  sim_TxExecSeq :: int
  sim_TxRWSet :: "bool \<Rightarrow> TxRWSet"
  sim_TxResult :: "TxResult option"

record 'b bitmap =
  bm_new :: 'b
  bm_Set :: "'b \<Rightarrow> nat \<Rightarrow> 'b"
  bm_Has :: "'b \<Rightarrow> nat \<Rightarrow> bool"
  bm_Or :: "'b \<Rightarrow> 'b \<Rightarrow> 'b"
  bm_Pos1 :: "'b \<Rightarrow> nat list"

datatype ExecOrderTxType = ExecOrderTxTypeNormal | ExecOrderTxTypeIterator | ExecOrderTxTypeChargeGas

subsection \<open>The snapshot\<close>

type_synonym sref = nat

record SnapshotImpl =
  sn_sealed :: "bool option"
  sn_chainId :: string
  sn_blockTimestamp :: i64
  sn_blockProposer :: gobytes
  sn_blockHeight :: u64
  sn_blockVersion :: u32
  sn_preBlockHash :: gobytes
  sn_preSnapshot :: "sref option"
  sn_blockFingerprint :: string
  sn_lastChainConfig :: string
  txRWSetTable :: "TxRWSet list"
  txTable :: "Transaction list"
  specialTxTable :: "Transaction list"
  txResultMap :: "string \<rightharpoonup> TxResult option"
  readTable :: ShardSet
  writeTable :: ShardSet
  sn_txRoot :: gobytes
  sn_dagHash :: gobytes
  sn_rwSetHash :: gobytes

text \<open>A query snapshot has no \<open>sealed\<close> flag: its pointer is nil.\<close>

definition NewQuerySnapshot :: "blockchainStore \<Rightarrow> SnapshotImpl option" where
  "NewQuerySnapshot store =
     (case st_LastBlock store of None \<Rightarrow> None
      | Some h \<Rightarrow>
        (case st_LastChainConfig store of None \<Rightarrow> None
         | Some cfg \<Rightarrow>
           Some \<lparr>sn_sealed = None, sn_chainId = hd_ChainId h, sn_blockTimestamp = hd_BlockTimestamp h,
             sn_blockProposer = hd_Proposer h, sn_blockHeight = hd_BlockHeight h, sn_blockVersion = hd_BlockVersion h,
             sn_preBlockHash = hd_PreBlockHash h, sn_preSnapshot = None, sn_blockFingerprint = [],
             sn_lastChainConfig = cfg, txRWSetTable = [], txTable = [], specialTxTable = [], txResultMap = Map.empty,
             readTable = newShardSet, writeTable = newShardSet, sn_txRoot = hd_TxRoot h, sn_dagHash = hd_DagHash h,
             sn_rwSetHash = hd_RwSetRoot h\<rparr>))"

definition SetPreSnapshot :: "SnapshotImpl \<Rightarrow> sref option \<Rightarrow> SnapshotImpl" where
  "SetPreSnapshot s snapshot = s\<lparr>sn_preSnapshot := snapshot\<rparr>"

definition SetBlockFingerprint :: "SnapshotImpl \<Rightarrow> string \<Rightarrow> SnapshotImpl" where
  "SetBlockFingerprint s fp = s\<lparr>sn_blockFingerprint := fp\<rparr>"

definition GetSnapshotSize :: "SnapshotImpl \<Rightarrow> nat" where
  "GetSnapshotSize s = length (txTable s)"

definition IsSealed :: "SnapshotImpl \<Rightarrow> bool go" where
  "IsSealed s = deref (sn_sealed s)"

definition Seal :: "SnapshotImpl \<Rightarrow> SnapshotImpl go" where
  "Seal s = go_bind (deref (sn_sealed s)) (\<lambda>_. Inr (s\<lparr>sn_sealed := Some True\<rparr>))"

definition constructKey :: "string \<Rightarrow> gobytes \<Rightarrow> string" where
  "constructKey contractName key = contractName @ bytes_content key"

subsection \<open>Reading keys\<close>

text \<open>The value of a key in the tables of one snapshot: the written value first.\<close>

definition localKey :: "SnapshotImpl \<Rightarrow> string \<Rightarrow> gobytes option" where
  "localKey s finalKey =
     (case getByLock (writeTable s) finalKey of
        Some sv \<Rightarrow> Some (sv_value sv)
      | None \<Rightarrow> (case getByLock (readTable s) finalKey of Some sv \<Rightarrow> Some (sv_value sv) | None \<Rightarrow> None))"

text \<open>
  \<open>GetKey\<close> (flag \<^term>\<open>True\<close>) and the loop over the earlier snapshots in it (flag \<^term>\<open>False\<close>).
  The outer \<^term>\<open>None\<close> does not return; an inner \<^term>\<open>None\<close> is the error of the store.
\<close>

type_synonym snapshots = "sref \<Rightarrow> SnapshotImpl"

partial_function (option) findKey ::
    "snapshots \<Rightarrow> blockchainStore \<Rightarrow> string \<Rightarrow> gobytes \<Rightarrow> bool \<Rightarrow> sref option \<Rightarrow> gobytes option option" where
  "findKey hp store contractName key enter iter =
     (case iter of
        None \<Rightarrow> Some (st_ReadObject store contractName (bytes_content key))
      | Some r \<Rightarrow>
        if enter then
          (case localKey (hp r) (constructKey contractName key) of
             Some value \<Rightarrow> Some (Some value)
           | None \<Rightarrow> findKey hp store contractName key False (sn_preSnapshot (hp r)))
        else
          Option.bind (findKey hp store contractName key True (Some r)) (\<lambda>res.
            (case res of
               Some value \<Rightarrow> Some (Some value)
             | None \<Rightarrow> findKey hp store contractName key False (sn_preSnapshot (hp r)))))"

definition GetKey :: "snapshots \<Rightarrow> blockchainStore \<Rightarrow> sref \<Rightarrow> string \<Rightarrow> gobytes \<Rightarrow> gobytes option option" where
  "GetKey hp store s contractName key = findKey hp store contractName key True (Some s)"

text \<open>The split of a batch into the keys a table has, with their values, and the others.\<close>

definition getBatch ::
    "(string \<Rightarrow> string \<Rightarrow> string) \<Rightarrow> ShardSet \<Rightarrow> BatchKey list \<Rightarrow> BatchKey list \<times> BatchKey list \<times> bool" where
  "getBatch GetKeyStr table keys =
     (let finalKey = (\<lambda>key. constructKey (bat_ContractName key) (Some (GetKeyStr (bat_Key key) (bat_Field key))));
          hit = (\<lambda>key. getByLock table (finalKey key));
          found = map (\<lambda>key. key\<lparr>bat_Value := sv_value (the (hit key))\<rparr>) (filter (\<lambda>key. hit key \<noteq> None) keys);
          missing = filter (\<lambda>key. hit key = None) keys
      in (found, missing, missing = []))"

definition getBatchFromWriteSet ::
    "(string \<Rightarrow> string \<Rightarrow> string) \<Rightarrow> SnapshotImpl \<Rightarrow> BatchKey list \<Rightarrow> BatchKey list \<times> BatchKey list \<times> bool" where
  "getBatchFromWriteSet GetKeyStr s keys = getBatch GetKeyStr (writeTable s) keys"

definition getBatchFromReadSet ::
    "(string \<Rightarrow> string \<Rightarrow> string) \<Rightarrow> SnapshotImpl \<Rightarrow> BatchKey list \<Rightarrow> BatchKey list \<times> BatchKey list \<times> bool" where
  "getBatchFromReadSet GetKeyStr s keys = getBatch GetKeyStr (readTable s) keys"

text \<open>
  \<open>getObjects\<close> reads all keys from the contract of the first one; an answer of the store with more
  values than keys would dereference a nil key.
\<close>

definition getObjects ::
    "(string \<Rightarrow> string \<Rightarrow> string) \<Rightarrow> blockchainStore \<Rightarrow> BatchKey list \<Rightarrow> BatchKey list option go" where
  "getObjects GetKeyStr store keys =
     (let contractName = (case keys of [] \<Rightarrow> [] | key # _ \<Rightarrow> bat_ContractName key);
          inputKeys = map (\<lambda>key. GetKeyStr (bat_Key key) (bat_Field key)) keys
      in case st_ReadObjects store contractName inputKeys of
           None \<Rightarrow> Inr None
         | Some readObjects \<Rightarrow>
           if length readObjects > length keys then Inl NilDeref
           else Inr (Some (map (\<lambda>(key, value). key\<lparr>bat_Value := value\<rparr>) (zip keys readObjects))))"

partial_function (option) findKeys ::
    "(string \<Rightarrow> string \<Rightarrow> string) \<Rightarrow> snapshots \<Rightarrow> blockchainStore \<Rightarrow> BatchKey list \<Rightarrow> bool \<Rightarrow> sref option
      \<Rightarrow> BatchKey list option go option" where
  "findKeys GetKeyStr hp store keys enter iter =
     (case iter of
        None \<Rightarrow> Some (getObjects GetKeyStr store keys)
      | Some r \<Rightarrow>
        if enter then
          (let (writeSetValues, emptyWriteSetKeys, done1) = getBatchFromWriteSet GetKeyStr (hp r) keys;
               (readSetValues, emptyReadSetKeys, done2) = getBatchFromReadSet GetKeyStr (hp r) emptyWriteSetKeys
           in if done1 then Some (Inr (Some writeSetValues))
              else if done2 then Some (Inr (Some (readSetValues @ writeSetValues)))
              else
                Option.bind (findKeys GetKeyStr hp store emptyReadSetKeys False (sn_preSnapshot (hp r))) (\<lambda>res.
                  (case res of
                     Inl p \<Rightarrow> Some (Inl p)
                   | Inr None \<Rightarrow> Some (Inr None)
                   | Inr (Some values) \<Rightarrow> Some (Inr (Some (values @ readSetValues @ writeSetValues))))))
        else
          Option.bind (findKeys GetKeyStr hp store keys True (Some r)) (\<lambda>res.
            (case res of
               Inl p \<Rightarrow> Some (Inl p)
             | Inr (Some values) \<Rightarrow> Some (Inr (Some values))
             | Inr None \<Rightarrow> findKeys GetKeyStr hp store keys False (sn_preSnapshot (hp r)))))"

definition GetKeys ::
    "(string \<Rightarrow> string \<Rightarrow> string) \<Rightarrow> snapshots \<Rightarrow> blockchainStore \<Rightarrow> sref \<Rightarrow> BatchKey list
      \<Rightarrow> BatchKey list option go option" where
  "GetKeys GetKeyStr hp store s keys = findKeys GetKeyStr hp store keys True (Some s)"

subsection \<open>Applying transactions\<close>

text \<open>The maps from final keys to values; a later entry of a read or write set replaces an earlier one.\<close>

definition kv_map :: "(string \<times> gobytes) list \<Rightarrow> (string \<times> sv) list" where
  "kv_map kvs = fold (\<lambda>(k, v) m. AList.update k \<lparr>sv_seq = 0, sv_value = v\<rparr> m) kvs []"

definition read_kvs :: "TxRWSet \<Rightarrow> (string \<times> gobytes) list" where
  "read_kvs txRWSet = map (\<lambda>r. (constructKey (rd_ContractName r) (rd_Key r), rd_Value r)) (TxReads txRWSet)"

definition write_kvs :: "TxRWSet \<Rightarrow> (string \<times> gobytes) list" where
  "write_kvs txRWSet = map (\<lambda>w. (constructKey (wr_ContractName w) (wr_Key w), wr_Value w)) (TxWrites txRWSet)"

definition buildKVMaps :: "TxRWSet \<Rightarrow> (string \<times> sv) list \<times> (string \<times> sv) list" where
  "buildKVMaps txRWSet = (kv_map (read_kvs txRWSet), kv_map (write_kvs txRWSet))"

definition put_seq :: "int \<Rightarrow> (string \<times> sv) list \<Rightarrow> ShardSet \<Rightarrow> ShardSet" where
  "put_seq applySeq kvs table = fold (\<lambda>(k, v) t. putByLock t k (v\<lparr>sv_seq := applySeq\<rparr>)) kvs table"

definition append_tx :: "Transaction \<Rightarrow> TxRWSet \<Rightarrow> TxResult option \<Rightarrow> SnapshotImpl \<Rightarrow> SnapshotImpl" where
  "append_tx tx txRWSet txResult s =
     s\<lparr>txRWSetTable := txRWSetTable s @ [txRWSet], txResultMap := (txResultMap s)(tx_TxId tx \<mapsto> txResult),
       txTable := txTable s @ [tx]\<rparr>"

definition applyOptimize ::
    "Transaction \<Rightarrow> TxRWSet \<Rightarrow> TxResult option \<Rightarrow> bool \<Rightarrow> (string \<times> sv) list \<Rightarrow> (string \<times> sv) list
      \<Rightarrow> SnapshotImpl \<Rightarrow> SnapshotImpl" where
  "applyOptimize tx txRWSet txResult runVmSuccess finalReadKvs finalWriteKvs s =
     (let applySeq = int (length (txTable s));
          s1 = (if sn_blockVersion s < 2201 \<or> runVmSuccess
                then s\<lparr>readTable := put_seq applySeq finalReadKvs (readTable s)\<rparr> else s);
          s2 = s1\<lparr>writeTable := put_seq applySeq finalWriteKvs (writeTable s1)\<rparr>
      in append_tx tx txRWSet txResult s2)"

definition apply_tx :: "Transaction \<Rightarrow> TxRWSet \<Rightarrow> TxResult option \<Rightarrow> bool \<Rightarrow> SnapshotImpl \<Rightarrow> SnapshotImpl" where
  "apply_tx tx txRWSet txResult runVmSuccess s =
     (let applySeq = int (GetSnapshotSize s);
          put = (\<lambda>(k, v) t. putByLock t k \<lparr>sv_seq = applySeq, sv_value = v\<rparr>);
          s1 = (if sn_blockVersion s < 2201 \<or> runVmSuccess
                then s\<lparr>readTable := fold put (read_kvs txRWSet) (readTable s)\<rparr> else s);
          s2 = s1\<lparr>writeTable := fold put (write_kvs txRWSet) (writeTable s1)\<rparr>
      in append_tx tx txRWSet txResult s2)"

text \<open>A read key that a transaction applied at or after \<open>txExecSeq\<close> has written.\<close>

definition conflicted :: "SnapshotImpl \<Rightarrow> int \<Rightarrow> string \<Rightarrow> bool" where
  "conflicted s txExecSeq finalKey \<longleftrightarrow>
     (case getByLock (writeTable s) finalKey of None \<Rightarrow> False | Some sv \<Rightarrow> sv_seq sv \<ge> txExecSeq)"

text \<open>
  The result of the apply operations: whether the transaction was applied, the number of applied
  transactions, and the snapshot.

  A normal transaction is checked twice: first without the lock, in the snapshot \<open>s0\<close> of that
  moment, and then with the lock, in the snapshot \<open>s\<close>.
\<close>

definition applyNormalTxSimContext ::
    "SnapshotImpl \<Rightarrow> Transaction \<Rightarrow> txSimContext \<Rightarrow> bool \<Rightarrow> SnapshotImpl \<Rightarrow> (bool \<times> nat \<times> SnapshotImpl) go" where
  "applyNormalTxSimContext s0 tx sim runVmSuccess s =
     go_bind (IsSealed s0) (\<lambda>sealed0.
       if sealed0 then Inr (False, GetSnapshotSize s0, s)
       else
         let txExecSeq = sim_TxExecSeq sim;
             txRWSet = sim_TxRWSet sim runVmSuccess;
             (finalReadKvs, finalWriteKvs) = buildKVMaps txRWSet
         in if list_ex (\<lambda>(k, v). conflicted s0 txExecSeq k) (read_kvs txRWSet)
            then Inr (False, GetSnapshotSize s0 + length (specialTxTable s0), s)
            else
              go_bind (IsSealed s) (\<lambda>sealed1.
                if sealed1 then Inr (False, GetSnapshotSize s, s)
                else if txExecSeq < int (GetSnapshotSize s) \<and> list_ex (\<lambda>(k, v). conflicted s txExecSeq k) finalReadKvs
                then Inr (False, GetSnapshotSize s + length (specialTxTable s), s)
                else
                  let s1 = applyOptimize tx txRWSet (sim_TxResult sim) runVmSuccess finalReadKvs finalWriteKvs s
                  in Inr (True, GetSnapshotSize s1 + length (specialTxTable s1), s1)))"

definition applyIteratorFirstRun :: "Transaction \<Rightarrow> SnapshotImpl \<Rightarrow> (bool \<times> nat \<times> SnapshotImpl) go" where
  "applyIteratorFirstRun tx s =
     go_bind (IsSealed s) (\<lambda>sealed.
       if sealed then Inr (False, GetSnapshotSize s, s)
       else
         let s1 = s\<lparr>specialTxTable := specialTxTable s @ [tx]\<rparr>
         in Inr (True, GetSnapshotSize s1 + length (specialTxTable s1), s1))"

definition applyIteratorSecondRun ::
    "Transaction \<Rightarrow> txSimContext \<Rightarrow> bool \<Rightarrow> SnapshotImpl \<Rightarrow> bool \<times> nat \<times> SnapshotImpl" where
  "applyIteratorSecondRun tx sim runVmSuccess s =
     (let txRWSet = sim_TxRWSet sim runVmSuccess;
          (finalReadKvs, finalWriteKvs) = buildKVMaps txRWSet;
          s1 = applyOptimize tx txRWSet (sim_TxResult sim) runVmSuccess finalReadKvs finalWriteKvs s
      in (True, GetSnapshotSize s1, s1))"

definition applyGasTxSimContext ::
    "Transaction \<Rightarrow> txSimContext \<Rightarrow> bool \<Rightarrow> SnapshotImpl \<Rightarrow> bool \<times> nat \<times> SnapshotImpl" where
  "applyGasTxSimContext tx sim runVmSuccess s =
     (let txRWSet = sim_TxRWSet sim runVmSuccess;
          (finalReadKvs, finalWriteKvs) = buildKVMaps txRWSet;
          s1 = applyOptimize tx txRWSet (sim_TxResult sim) runVmSuccess finalReadKvs finalWriteKvs s
      in (True, GetSnapshotSize s1, s1))"

definition ApplyTxSimContext ::
    "SnapshotImpl \<Rightarrow> txSimContext \<Rightarrow> ExecOrderTxType \<Rightarrow> bool \<Rightarrow> bool \<Rightarrow> SnapshotImpl
      \<Rightarrow> (bool \<times> nat \<times> SnapshotImpl) go" where
  "ApplyTxSimContext s0 sim specialTxType runVmSuccess applySpecialTx s =
     (let tx = sim_Tx sim
      in if \<not> applySpecialTx \<and> specialTxType = ExecOrderTxTypeIterator then applyIteratorFirstRun tx s
         else if applySpecialTx \<and> specialTxType = ExecOrderTxTypeIterator
         then Inr (applyIteratorSecondRun tx sim runVmSuccess s)
         else if specialTxType = ExecOrderTxTypeChargeGas then Inr (applyGasTxSimContext tx sim runVmSuccess s)
         else applyNormalTxSimContext s0 tx sim runVmSuccess s)"

text \<open>\<open>ApplyBlock\<close>: the map of read and write sets is ranged over by the transactions of the block.\<close>

primrec apply_all :: "(string \<rightharpoonup> TxRWSet) \<Rightarrow> Transaction list \<Rightarrow> SnapshotImpl \<Rightarrow> SnapshotImpl go" where
  "apply_all txRWSetMap [] s = Inr s"
| "apply_all txRWSetMap (tx # txs) s =
     go_bind (deref (tx_Result tx)) (\<lambda>result.
     go_bind (deref (txRWSetMap (tx_TxId tx))) (\<lambda>txRWSet.
       apply_all txRWSetMap txs (apply_tx tx txRWSet (tx_Result tx) (res_Code result = TxStatus_SUCCESS) s)))"

definition ApplyBlock :: "Block_core \<Rightarrow> (string \<times> TxRWSet) list \<Rightarrow> SnapshotImpl \<Rightarrow> SnapshotImpl go" where
  "ApplyBlock block txRWSetMap s =
     (if length (bk_Txs block) \<noteq> length txRWSetMap then Inr s
      else apply_all (map_of txRWSetMap) (bk_Txs block) s)"

end
