(* ===== verification/Snapshot_Serial.thy ===== *)
theory Snapshot_Serial
  imports Snapshot
begin

section \<open>Optimistic execution of transactions is serial\<close>

text \<open>
  Transactions run concurrently: a transaction notes the size of the snapshot when it starts,
  reads keys while others are applied, and is applied only if no key it read was written since.
  The theory describes these interleavings as an inductive relation over the operations of
  \<open>Snapshot\<close> and shows that every applied transaction has read what a serial execution in the
  order of the table gives. It also shows that the two ways of applying a transaction agree.
\<close>

subsection \<open>Maps of final keys\<close>

lemma kv_map_snoc: "kv_map (kvs @ [(k, v)]) = AList.update k \<lparr>sv_seq = 0, sv_value = v\<rparr> (kv_map kvs)"
  by (simp add: kv_map_def)

lemma kv_map_Nil [simp]: "kv_map [] = []"
  by (simp add: kv_map_def)

lemma wf_kv_map: "wf_alist (kv_map kvs)"
  by (induction kvs rule: rev_induct) (auto simp: kv_map_snoc simp del: map_of_update)

lemma map_of_kv_map: "map_of (kv_map kvs) k = map_option (\<lambda>v. \<lparr>sv_seq = 0, sv_value = v\<rparr>) (map_of (rev kvs) k)"
  by (induction kvs rule: rev_induct) (auto simp: kv_map_snoc)

lemma keys_kv_map: "fst ` set (kv_map kvs) = fst ` set kvs"
proof -
  have "k \<in> fst ` set (kv_map kvs) \<longleftrightarrow> k \<in> fst ` set kvs" for k
    using map_of_eq_None_iff [of "kv_map kvs" k] map_of_eq_None_iff [of "rev kvs" k] by (simp add: map_of_kv_map)
  then show ?thesis by blast
qed

lemma put_seq_put_all: "put_seq n kvs t = shard_table.put_all t (map (\<lambda>(k, v). (k, v\<lparr>sv_seq := n\<rparr>)) kvs)"
  by (induction kvs arbitrary: t) (auto simp: put_seq_def shard_table.put_all_def)

lemma shards_ok_put_seq: "shards_ok t \<Longrightarrow> shards_ok (put_seq n kvs t)"
  by (simp add: put_seq_put_all shard_table.ok_put_all)

lemma getByLock_put_seq:
  assumes "shards_ok t"
  shows "getByLock (put_seq n (kv_map kvs) t) k =
    (case map_of (rev kvs) k of None \<Rightarrow> getByLock t k | Some v \<Rightarrow> Some \<lparr>sv_seq = n, sv_value = v\<rparr>)"
proof -
  let ?f = "\<lambda>(k, v). (k, v\<lparr>sv_seq := n\<rparr>)"
  have fst: "map fst (map ?f (kv_map kvs)) = map fst (kv_map kvs)" by (simp add: case_prod_beta)
  have "map_of (map ?f (kv_map kvs)) k = map_option (\<lambda>v. v\<lparr>sv_seq := n\<rparr>) (map_of (kv_map kvs) k)"
    by (simp add: map_of_map)
  moreover have "wf_alist (map ?f (kv_map kvs))" unfolding fst by (rule wf_kv_map)
  from shard_table.look_put_all_alist [OF assms this, of k]
  have "getByLock (put_seq n (kv_map kvs) t) k =
      (case map_of (map ?f (kv_map kvs)) k of None \<Rightarrow> getByLock t k | Some v \<Rightarrow> Some v)"
    by (simp add: put_seq_put_all)
  ultimately show ?thesis by (simp add: map_of_kv_map split: option.split)
qed

subsection \<open>The two ways of applying a transaction\<close>

definition snapshot_ok :: "SnapshotImpl \<Rightarrow> bool" where
  "snapshot_ok s \<longleftrightarrow> shards_tidy (readTable s) \<and> shards_tidy (writeTable s) \<and> length (txRWSetTable s) = length (txTable s)"

lemma shards_tidy_fold:
  "shards_tidy t \<Longrightarrow> shards_tidy (fold (\<lambda>(k, v) t. putByLock t k (f v)) kvs t)"
  by (induction kvs arbitrary: t) (auto simp: shards_tidy_put)

lemma fold_put_put_seq:
  assumes "shards_tidy t"
  shows "fold (\<lambda>(k, v) t. putByLock t k \<lparr>sv_seq = n, sv_value = v\<rparr>) kvs t = put_seq n (kv_map kvs) t"
proof (rule table_of_inject)
  show "shards_tidy (fold (\<lambda>(k, v) t. putByLock t k \<lparr>sv_seq = n, sv_value = v\<rparr>) kvs t)"
    using assms by (rule shards_tidy_fold)
  show "shards_tidy (put_seq n (kv_map kvs) t)" unfolding put_seq_def using assms by (rule shards_tidy_fold)
  have ok: "shards_ok t" using assms by simp
  have "fold (\<lambda>(k, v) t. putByLock t k \<lparr>sv_seq = n, sv_value = v\<rparr>) kvs t =
      shard_table.put_all t (map (\<lambda>(k, v). (k, \<lparr>sv_seq = n, sv_value = v\<rparr>)) kvs)"
    by (induction kvs arbitrary: t) (auto simp: shard_table.put_all_def)
  then show "table_of (fold (\<lambda>(k, v) t. putByLock t k \<lparr>sv_seq = n, sv_value = v\<rparr>) kvs t) = table_of (put_seq n (kv_map kvs) t)"
    by (simp add: table_of_def fun_eq_iff getByLock_put_seq [OF ok] shard_table.look_put_all [OF ok] rev_map
        map_of_map split: option.split)
qed

lemma apply_tx_applyOptimize:
  assumes "snapshot_ok s"
  shows "apply_tx tx rw res ok s = applyOptimize tx rw res ok (kv_map (read_kvs rw)) (kv_map (write_kvs rw)) s"
  using assms
  by (auto simp: apply_tx_def applyOptimize_def Let_def GetSnapshotSize_def snapshot_ok_def fold_put_put_seq)

lemma applyOptimize_fields [simp]:
  "txRWSetTable (applyOptimize tx rw res ok rk wk s) = txRWSetTable s @ [rw]"
  "txTable (applyOptimize tx rw res ok rk wk s) = txTable s @ [tx]"
  "specialTxTable (applyOptimize tx rw res ok rk wk s) = specialTxTable s"
  "sn_sealed (applyOptimize tx rw res ok rk wk s) = sn_sealed s"
  "writeTable (applyOptimize tx rw res ok rk wk s) = put_seq (int (length (txTable s))) wk (writeTable s)"
  "readTable (applyOptimize tx rw res ok rk wk s) =
     (if sn_blockVersion s < 2201 \<or> ok then put_seq (int (length (txTable s))) rk (readTable s) else readTable s)"
  by (simp_all add: applyOptimize_def append_tx_def Let_def)

lemma snapshot_ok_applyOptimize: "snapshot_ok s \<Longrightarrow> snapshot_ok (applyOptimize tx rw res ok rk wk s)"
  by (auto simp: snapshot_ok_def put_seq_def intro!: shards_tidy_fold)

subsection \<open>The serial execution\<close>

text \<open>The last write to a final key among the first transactions, with its position.\<close>

primrec last_write :: "TxRWSet list \<Rightarrow> string \<Rightarrow> nat \<Rightarrow> (nat \<times> gobytes) option" where
  "last_write rws fk 0 = None"
| "last_write rws fk (Suc i) =
     (case map_of (rev (write_kvs (rws ! i))) fk of Some v \<Rightarrow> Some (i, v) | None \<Rightarrow> last_write rws fk i)"

text \<open>The value of a key after the first \<open>i\<close> transactions, over the values before the block.\<close>

definition serial_value ::
    "(string \<Rightarrow> string \<Rightarrow> gobytes option) \<Rightarrow> TxRWSet list \<Rightarrow> nat \<Rightarrow> string \<Rightarrow> gobytes \<Rightarrow> gobytes option" where
  "serial_value base rws i c k =
     (case last_write rws (constructKey c k) i of Some (j, v) \<Rightarrow> Some v | None \<Rightarrow> base c (bytes_content k))"

lemma last_write_append: "i \<le> length rws \<Longrightarrow> last_write (rws @ ys) fk i = last_write rws fk i"
  by (induction i) (auto simp: nth_append split: option.split)

lemma last_write_less: "last_write rws fk n = Some (j, v) \<Longrightarrow> j < n"
  by (induction n) (auto split: option.splits)

lemma last_write_stable:
  assumes "m \<le> n" and "\<forall>j v. last_write rws fk n = Some (j, v) \<longrightarrow> j < m"
  shows "last_write rws fk m = last_write rws fk n"
  using assms by (induction n rule: dec_induct) (auto split: option.splits)

lemma serial_value_append: "i \<le> length rws \<Longrightarrow> serial_value base (rws @ ys) i c k = serial_value base rws i c k"
  by (simp add: serial_value_def last_write_append)

lemma serial_value_stable:
  assumes "m \<le> n" and "\<forall>j v. last_write rws (constructKey c k) n = Some (j, v) \<longrightarrow> j < m"
  shows "serial_value base rws m c k = serial_value base rws n c k"
  using last_write_stable [OF assms] by (simp add: serial_value_def)

subsection \<open>Interleavings\<close>

text \<open>What a transaction sees of a key: the tables of the snapshot, then the values before the block.\<close>

definition value_in :: "(string \<Rightarrow> string \<Rightarrow> gobytes option) \<Rightarrow> SnapshotImpl \<Rightarrow> string \<Rightarrow> gobytes \<Rightarrow> gobytes option" where
  "value_in base s c k =
     (case localKey s (constructKey c k) of Some v \<Rightarrow> Some v | None \<Rightarrow> base c (bytes_content k))"

text \<open>A transaction that is being executed: the size noted at its start and the keys read so far.\<close>

record execution =
  ex_seq :: int
  ex_reads :: "(string \<times> gobytes \<times> gobytes) list"

definition fresh :: "SnapshotImpl \<Rightarrow> bool" where
  "fresh s \<longleftrightarrow> readTable s = newShardSet \<and> writeTable s = newShardSet \<and> txTable s = [] \<and> txRWSetTable s = []"

text \<open>
  \<open>K\<close> holds the pairs of contract and key in use. The reads of a read set were made by the
  execution; iterator and gas transactions run alone, after the others.
\<close>

inductive interleaving ::
    "(string \<Rightarrow> string \<Rightarrow> gobytes option) \<Rightarrow> (string \<times> string) set \<Rightarrow> SnapshotImpl \<Rightarrow> execution list \<Rightarrow> bool"
  for base K where
  il_init: "fresh s \<Longrightarrow> interleaving base K s []"
| il_start: "interleaving base K s es \<Longrightarrow> interleaving base K s (es @ [\<lparr>ex_seq = int (GetSnapshotSize s), ex_reads = []\<rparr>])"
| il_read: "interleaving base K s es \<Longrightarrow> i < length es \<Longrightarrow> (c, bytes_content k) \<in> K \<Longrightarrow> value_in base s c k = Some v \<Longrightarrow>
    interleaving base K s (es[i := (es ! i)\<lparr>ex_reads := ex_reads (es ! i) @ [(c, k, v)]\<rparr>])"
| il_apply: "interleaving base K s es \<Longrightarrow> i < length es \<Longrightarrow> sim_TxExecSeq sim = ex_seq (es ! i) \<Longrightarrow>
    \<forall>r \<in> set (TxReads (sim_TxRWSet sim ok)). (rd_ContractName r, rd_Key r, rd_Value r) \<in> set (ex_reads (es ! i)) \<Longrightarrow>
    orderType = ExecOrderTxTypeNormal \<or> ex_seq (es ! i) = int (GetSnapshotSize s) \<Longrightarrow>
    ApplyTxSimContext s0 sim orderType ok special s = Inr (applied, num, s') \<Longrightarrow>
    interleaving base K s' es"
| il_seal: "interleaving base K s es \<Longrightarrow> Seal s = Inr s' \<Longrightarrow> interleaving base K s' es"

text \<open>
  The tables agree with the read and write sets; every execution read values of the serial
  execution between its start and now; every applied transaction read the serial values.
\<close>

definition serial_inv ::
    "(string \<Rightarrow> string \<Rightarrow> gobytes option) \<Rightarrow> (string \<times> string) set \<Rightarrow> SnapshotImpl \<Rightarrow> execution list \<Rightarrow> bool" where
  "serial_inv base K s es \<longleftrightarrow>
     (let rws = txRWSetTable s; n = length rws in
      snapshot_ok s \<and>
      (\<forall>fk. getByLock (writeTable s) fk = map_option (\<lambda>(j, v). \<lparr>sv_seq = int j, sv_value = v\<rparr>) (last_write rws fk n)) \<and>
      (\<forall>c k x. (c, bytes_content k) \<in> K \<longrightarrow> getByLock (readTable s) (constructKey c k) = Some x \<longrightarrow>
         last_write rws (constructKey c k) n = None \<longrightarrow> base c (bytes_content k) = Some (sv_value x)) \<and>
      (\<forall>e \<in> set es. 0 \<le> ex_seq e \<and> ex_seq e \<le> int n \<and>
         (\<forall>(c, k, v) \<in> set (ex_reads e). (c, bytes_content k) \<in> K \<and>
           (\<exists>m \<le> n. ex_seq e \<le> int m \<and> serial_value base rws m c k = Some v))) \<and>
      (\<forall>i < n. \<forall>r \<in> set (TxReads (rws ! i)).
         serial_value base rws i (rd_ContractName r) (rd_Key r) = Some (rd_Value r)))"

subsection \<open>Every interleaving is serial\<close>

lemmas serial_invD = serial_inv_def [THEN iffD1, unfolded Let_def]

lemma value_in_serial:
  assumes "serial_inv base K s es" and "(c, bytes_content k) \<in> K" and "value_in base s c k = Some v"
  shows "serial_value base (txRWSetTable s) (length (txRWSetTable s)) c k = Some v"
proof (cases "last_write (txRWSetTable s) (constructKey c k) (length (txRWSetTable s))")
  case (Some p)
  then show ?thesis using assms(1,3) by (cases p) (auto simp: serial_inv_def Let_def value_in_def localKey_def serial_value_def)
next
  case None
  then show ?thesis using assms
    by (auto simp: serial_inv_def Let_def value_in_def localKey_def serial_value_def split: option.splits)
qed

text \<open>A transaction is applied, or the tables stay as they are.\<close>

lemma ApplyTxSimContext_cases:
  assumes "ApplyTxSimContext s0 sim orderType ok special s = Inr (applied, num, s')"
  obtains (same) "readTable s' = readTable s" "writeTable s' = writeTable s" "txTable s' = txTable s"
      "txRWSetTable s' = txRWSetTable s"
    | (applied) rw where "rw = sim_TxRWSet sim ok"
      "s' = applyOptimize (sim_Tx sim) rw (sim_TxResult sim) ok (kv_map (read_kvs rw)) (kv_map (write_kvs rw)) s"
      "orderType = ExecOrderTxTypeNormal \<Longrightarrow> sim_TxExecSeq sim < int (length (txTable s)) \<Longrightarrow>
        \<forall>k \<in> fst ` set (read_kvs rw). \<not> conflicted s (sim_TxExecSeq sim) k"
proof -
  let ?rw = "sim_TxRWSet sim ok"
  have keys: "list_ex (\<lambda>(k, v). conflicted s q k) (kv_map (read_kvs ?rw)) \<longleftrightarrow> (\<exists>k \<in> fst ` set (read_kvs ?rw). conflicted s q k)" for q
    unfolding keys_kv_map [symmetric] by (simp add: list_ex_iff case_prod_beta)
  show ?thesis
  proof (cases orderType)
    case ExecOrderTxTypeNormal
    then have n: "applyNormalTxSimContext s0 (sim_Tx sim) sim ok s = Inr (applied, num, s')"
      using assms by (simp add: ApplyTxSimContext_def)
    show ?thesis
    proof (cases "s' = s")
      case True
      then show ?thesis using same by simp
    next
      case False
      then have "s' = applyOptimize (sim_Tx sim) ?rw (sim_TxResult sim) ok (kv_map (read_kvs ?rw)) (kv_map (write_kvs ?rw)) s"
        and "\<not> (sim_TxExecSeq sim < int (GetSnapshotSize s) \<and> (\<exists>k \<in> fst ` set (read_kvs ?rw). conflicted s (sim_TxExecSeq sim) k))"
        unfolding keys [symmetric] using n by (auto simp: applyNormalTxSimContext_def buildKVMaps_def Let_def elim!: go_bind_InrE split: if_splits)
      then show ?thesis using applied [OF refl] by (simp add: GetSnapshotSize_def)
    qed
  next
    case ExecOrderTxTypeIterator
    then show ?thesis using assms same applied [OF refl]
      by (auto simp: ApplyTxSimContext_def applyIteratorFirstRun_def applyIteratorSecondRun_def buildKVMaps_def Let_def
          elim!: go_bind_InrE split: if_splits)
  next
    case ExecOrderTxTypeChargeGas
    then show ?thesis using assms applied [OF refl]
      by (auto simp: ApplyTxSimContext_def applyGasTxSimContext_def buildKVMaps_def Let_def)
  qed
qed

lemma serial_inv_same:
  assumes "serial_inv base K s es" and "readTable s' = readTable s" "writeTable s' = writeTable s" "txTable s' = txTable s"
    "txRWSetTable s' = txRWSetTable s"
  shows "serial_inv base K s' es"
  using assms by (simp add: serial_inv_def snapshot_ok_def)

text \<open>The reads of a transaction that passes the check are those of the serial execution now.\<close>

lemma reads_are_current:
  assumes inv: "serial_inv base K s es" and e: "e \<in> set es" and read: "(c, k, v) \<in> set (ex_reads e)"
    and check: "ex_seq e < int (length (txTable s)) \<Longrightarrow> \<not> conflicted s (ex_seq e) (constructKey c k)"
  shows "serial_value base (txRWSetTable s) (length (txRWSetTable s)) c k = Some v"
proof -
  let ?rws = "txRWSetTable s" and ?n = "length (txRWSetTable s)"
  have len: "length (txTable s) = ?n" using inv by (simp add: serial_inv_def snapshot_ok_def Let_def)
  obtain m where m: "m \<le> ?n" "ex_seq e \<le> int m" "serial_value base ?rws m c k = Some v" and seq: "ex_seq e \<le> int ?n"
    using inv e read by (fastforce simp: serial_inv_def Let_def)
  have "\<forall>j w. last_write ?rws (constructKey c k) ?n = Some (j, w) \<longrightarrow> j < m"
  proof (intro allI impI)
    fix j w assume lw: "last_write ?rws (constructKey c k) ?n = Some (j, w)"
    then have tab: "getByLock (writeTable s) (constructKey c k) = Some \<lparr>sv_seq = int j, sv_value = w\<rparr>"
      using inv by (simp add: serial_inv_def Let_def)
    show "j < m"
    proof (cases "ex_seq e < int ?n")
      case True
      then have "int j < ex_seq e" using check len tab by (auto simp: conflicted_def)
      then show ?thesis using m(2) by linarith
    next
      case False
      then have "m = ?n" using m(1,2) by linarith
      then show ?thesis using last_write_less [OF lw] by simp
    qed
  qed
  then show ?thesis using serial_value_stable [OF m(1)] m(3) by metis
qed

lemma last_write_snoc:
  "last_write (rws @ [rw]) fk (Suc (length rws)) =
    (case map_of (rev (write_kvs rw)) fk of Some v \<Rightarrow> Some (length rws, v) | None \<Rightarrow> last_write rws fk (length rws))"
  by (simp add: last_write_append split: option.split)

lemma serial_inv_apply:
  assumes inv: "serial_inv base K s es" and inj: "inj_on (\<lambda>(c, k). constructKey c (Some k)) K"
    and K: "\<forall>r \<in> set (TxReads rw). (rd_ContractName r, bytes_content (rd_Key r)) \<in> K"
    and reads: "\<forall>r \<in> set (TxReads rw).
      serial_value base (txRWSetTable s) (length (txRWSetTable s)) (rd_ContractName r) (rd_Key r) = Some (rd_Value r)"
    and s': "s' = applyOptimize tx rw res ok (kv_map (read_kvs rw)) (kv_map (write_kvs rw)) s"
  shows "serial_inv base K s' es"
proof -
  let ?rws = "txRWSetTable s" and ?n = "length (txRWSetTable s)" and ?rws' = "txRWSetTable s @ [rw]"
  note inv' = serial_invD [OF inv]
  have ok: "snapshot_ok s" and len: "length (txTable s) = ?n" using inv' by (auto simp: snapshot_ok_def)
  have okW: "shards_ok (writeTable s)" and okR: "shards_ok (readTable s)" using ok by (auto simp: snapshot_ok_def)
  have tables: "txRWSetTable s' = ?rws'" "length (txRWSetTable s') = Suc ?n" by (simp_all add: s')
  have ok': "snapshot_ok s'" unfolding s' using ok by (rule snapshot_ok_applyOptimize)
  have oldW: "getByLock (writeTable s) fk = map_option (\<lambda>(j, v). \<lparr>sv_seq = int j, sv_value = v\<rparr>) (last_write ?rws fk ?n)" for fk
    using inv' by blast
  have tabW: "getByLock (writeTable s') fk = map_option (\<lambda>(j, v). \<lparr>sv_seq = int j, sv_value = v\<rparr>) (last_write ?rws' fk (Suc ?n))" for fk
    using oldW by (simp add: s' getByLock_put_seq [OF okW] last_write_append len split: option.split)
  have "base c (bytes_content k) = Some (sv_value x)"
    if ck: "(c, bytes_content k) \<in> K" and x: "getByLock (readTable s') (constructKey c k) = Some x"
      and none: "last_write ?rws' (constructKey c k) (Suc ?n) = None" for c k x
  proof -
    have old: "last_write ?rws (constructKey c k) ?n = None" using none by (simp add: last_write_append split: option.splits)
    show ?thesis
    proof (cases "getByLock (readTable s) (constructKey c k) = Some x")
      case True
      then show ?thesis using inv' ck old by blast
    next
      case False
      then have "map_of (rev (read_kvs rw)) (constructKey c k) = Some (sv_value x)"
        using x by (auto simp: s' getByLock_put_seq [OF okR] split: if_splits option.splits)
      then obtain r where r: "r \<in> set (TxReads rw)" "constructKey c k = constructKey (rd_ContractName r) (rd_Key r)" "sv_value x = rd_Value r"
        by (auto simp: read_kvs_def dest!: map_of_SomeD)
      then have "c = rd_ContractName r \<and> bytes_content k = bytes_content (rd_Key r)"
        using inj_onD [OF inj, of "(c, bytes_content k)" "(rd_ContractName r, bytes_content (rd_Key r))"] ck K
        by (auto simp: constructKey_def)
      then show ?thesis using reads r old by (auto simp: serial_value_def)
    qed
  qed
  note tabR = this
  have oldE: "\<forall>e \<in> set es. 0 \<le> ex_seq e \<and> ex_seq e \<le> int ?n \<and> (\<forall>(c, k, v) \<in> set (ex_reads e). (c, bytes_content k) \<in> K \<and>
      (\<exists>m \<le> ?n. ex_seq e \<le> int m \<and> serial_value base ?rws m c k = Some v))" and oldS: "\<forall>i < ?n. \<forall>r \<in> set (TxReads (?rws ! i)).
      serial_value base ?rws i (rd_ContractName r) (rd_Key r) = Some (rd_Value r)"
    using inv' by blast+
  have exec: "0 \<le> ex_seq e \<and> ex_seq e \<le> int (Suc ?n) \<and> (\<forall>(c, k, v) \<in> set (ex_reads e). (c, bytes_content k) \<in> K \<and>
      (\<exists>m \<le> Suc ?n. ex_seq e \<le> int m \<and> serial_value base ?rws' m c k = Some v))" if e: "e \<in> set es" for e
  proof (intro conjI ballI; (clarify)?)
    show "0 \<le> ex_seq e" "ex_seq e \<le> int (Suc ?n)" using oldE e by force+
    fix c k v assume "(c, k, v) \<in> set (ex_reads e)"
    then have "(c, bytes_content k) \<in> K" and "\<exists>m \<le> ?n. ex_seq e \<le> int m \<and> serial_value base ?rws m c k = Some v"
      using oldE e by blast+
    then show "(c, bytes_content k) \<in> K \<and> (\<exists>m \<le> Suc ?n. ex_seq e \<le> int m \<and> serial_value base ?rws' m c k = Some v)"
      by (metis le_SucI serial_value_append)
  qed
  have serial: "serial_value base ?rws' i (rd_ContractName r) (rd_Key r) = Some (rd_Value r)"
    if "i < Suc ?n" "r \<in> set (TxReads (?rws' ! i))" for i r
    using that oldS reads by (cases "i = ?n") (auto simp: serial_value_append nth_append)
  show ?thesis
    unfolding serial_inv_def Let_def tables(2) unfolding tables(1)
    using tabW tabR exec serial ok' by blast
qed

lemma serial_inv_execution:
  assumes "serial_inv base K s es" and "0 \<le> ex_seq e" "ex_seq e \<le> int (length (txRWSetTable s))"
    and "\<forall>(c, k, v) \<in> set (ex_reads e). (c, bytes_content k) \<in> K \<and>
      (\<exists>m \<le> length (txRWSetTable s). ex_seq e \<le> int m \<and> serial_value base (txRWSetTable s) m c k = Some v)"
    and "set es' \<subseteq> insert e (set es)"
  shows "serial_inv base K s es'"
  using assms unfolding serial_inv_def Let_def by blast

theorem interleaving_inv:
  assumes "interleaving base K s es" and inj: "inj_on (\<lambda>(c, k). constructKey c (Some k)) K"
  shows "serial_inv base K s es"
  using assms(1)
proof induction
  case (il_init s)
  then show ?case by (simp add: serial_inv_def fresh_def snapshot_ok_def shards_tidy_new shard_table.look_empty)
next
  case (il_start s es)
  then have "length (txTable s) = length (txRWSetTable s)" by (simp add: serial_inv_def snapshot_ok_def Let_def)
  then show ?case
    by (intro serial_inv_execution [OF il_start.IH, of "\<lparr>ex_seq = int (GetSnapshotSize s), ex_reads = []\<rparr>"])
      (auto simp: GetSnapshotSize_def)
next
  case (il_read s es i c k v)
  let ?e = "(es ! i)\<lparr>ex_reads := ex_reads (es ! i) @ [(c, k, v)]\<rparr>"
  have i: "es ! i \<in> set es" using il_read.hyps(2) by simp
  have now: "serial_value base (txRWSetTable s) (length (txRWSetTable s)) c k = Some v"
    using value_in_serial [OF il_read.IH il_read.hyps(3,4)] .
  have e: "0 \<le> ex_seq (es ! i) \<and> ex_seq (es ! i) \<le> int (length (txRWSetTable s)) \<and>
      (\<forall>(c, k, v) \<in> set (ex_reads (es ! i)). (c, bytes_content k) \<in> K \<and>
        (\<exists>m \<le> length (txRWSetTable s). ex_seq (es ! i) \<le> int m \<and> serial_value base (txRWSetTable s) m c k = Some v))"
    using il_read.IH i unfolding serial_inv_def Let_def by blast
  show ?case
  proof (rule serial_inv_execution [OF il_read.IH, of ?e])
    show "set (es[i := ?e]) \<subseteq> insert ?e (set es)" by (rule set_update_subset_insert)
  qed (use e now il_read.hyps(3) in auto)
next
  case (il_apply s es i sim ok orderType s0 special applied num s')
  have i: "es ! i \<in> set es" using il_apply.hyps(2) by simp
  from il_apply.hyps(6) show ?case
  proof (cases rule: ApplyTxSimContext_cases)
    case same
    then show ?thesis using serial_inv_same [OF il_apply.IH] by blast
  next
    case (applied rw)
    have K: "\<forall>r \<in> set (TxReads rw). (rd_ContractName r, bytes_content (rd_Key r)) \<in> K"
      using il_apply.IH il_apply.hyps(4) i applied(1) by (fastforce simp: serial_inv_def Let_def)
    have "serial_value base (txRWSetTable s) (length (txRWSetTable s)) (rd_ContractName r) (rd_Key r) = Some (rd_Value r)"
      if r: "r \<in> set (TxReads rw)" for r
    proof (rule reads_are_current [OF il_apply.IH i])
      show "(rd_ContractName r, rd_Key r, rd_Value r) \<in> set (ex_reads (es ! i))"
        using il_apply.hyps(4) r applied(1) by blast
      show "\<not> conflicted s (ex_seq (es ! i)) (constructKey (rd_ContractName r) (rd_Key r))"
        if "ex_seq (es ! i) < int (length (txTable s))"
        using applied(3) that r il_apply.hyps(3,5) by (force simp: read_kvs_def GetSnapshotSize_def)
    qed
    then show ?thesis using serial_inv_apply [OF il_apply.IH inj K _ applied(2)] by blast
  qed
next
  case (il_seal s es s')
  then show ?case using serial_inv_same [of base K s es s'] by (auto simp: Seal_def elim!: go_bind_InrE)
qed

end
