(* ===== verification/Snapshot_Dag.thy ===== *)
theory Snapshot_Dag
  imports Snapshot
begin

section \<open>The dependency graph of a block (BuildDAG in module/snapshot/snapshot_impl.go)\<close>

text \<open>
  The graph has an edge from a transaction to the earlier ones it conflicts with, less those it
  reaches already through other edges. The code finds the earlier transactions by dictionaries
  from keys to the positions of their readers and writers, and keeps for each transaction the
  bitmap of all transactions it reaches.

  The bitmaps are outside the repository: their laws are \<open>bitmap_laws\<close>. Positions are 32-bit
  integers; \<open>u32n\<close> is the conversion of a length.
\<close>

subsection \<open>Dictionaries\<close>

definition u32n :: "nat \<Rightarrow> nat" where
  "u32n n = unat (word_of_nat n :: u32)"

lemma u32n_small [simp]: "n < 2 ^ 32 \<Longrightarrow> u32n n = n"
  by (simp add: u32n_def unat_of_nat take_bit_nat_eq_self)

record keyDicts =
  readKeyDict :: "string \<Rightarrow> nat list"
  writeKeyDict :: "string \<Rightarrow> nat list"
  readPos :: "nat \<Rightarrow> string \<rightharpoonup> nat"
  writePos :: "nat \<Rightarrow> string \<rightharpoonup> nat"

definition readKeys :: "TxRWSet \<Rightarrow> string list" where
  "readKeys rw = map (\<lambda>r. bytes_content (rd_Key r)) (TxReads rw)"

definition writeKeys :: "TxRWSet \<Rightarrow> string list" where
  "writeKeys rw = map (\<lambda>w. bytes_content (wr_Key w)) (TxWrites rw)"

definition add_read :: "nat \<Rightarrow> string \<Rightarrow> keyDicts \<Rightarrow> keyDicts" where
  "add_read i key d =
     d\<lparr>readPos := (readPos d)(i := (readPos d i)(key \<mapsto> u32n (length (readKeyDict d key)))),
       writePos := (writePos d)(i := (writePos d i)(key \<mapsto> u32n (length (writeKeyDict d key)))),
       readKeyDict := (readKeyDict d)(key := readKeyDict d key @ [i])\<rparr>"

definition add_write :: "nat \<Rightarrow> string \<Rightarrow> keyDicts \<Rightarrow> keyDicts" where
  "add_write i key d =
     d\<lparr>writePos := (writePos d)(i := (writePos d i)(key \<mapsto> u32n (length (writeKeyDict d key)))),
       readPos := (if readPos d i key = None
         then (readPos d)(i := (readPos d i)(key \<mapsto> u32n (length (readKeyDict d key)))) else readPos d),
       writeKeyDict := (writeKeyDict d)(key := writeKeyDict d key @ [i])\<rparr>"

definition add_tx :: "TxRWSet list \<Rightarrow> nat \<Rightarrow> keyDicts \<Rightarrow> keyDicts" where
  "add_tx rws i d =
     (let d1 = d\<lparr>readPos := (readPos d)(i := Map.empty), writePos := (writePos d)(i := Map.empty)\<rparr>
      in fold (add_write i) (writeKeys (rws ! i)) (fold (add_read i) (readKeys (rws ! i)) d1))"

definition buildDictAndPos :: "TxRWSet list \<Rightarrow> keyDicts" where
  "buildDictAndPos rws =
     fold (add_tx rws) [0..<u32n (length rws)]
       \<lparr>readKeyDict = (\<lambda>_. []), writeKeyDict = (\<lambda>_. []), readPos = (\<lambda>_. Map.empty), writePos = (\<lambda>_. Map.empty)\<rparr>"

subsection \<open>Reachability\<close>

definition index_go :: "'a list \<Rightarrow> nat \<Rightarrow> 'a go" where
  "index_go xs j = (if j < length xs then Inr (xs ! j) else Inl IndexOutOfRange)"

text \<open>The last writer of a key before transaction \<open>i\<close>, if there is one.\<close>

definition lastWriter :: "keyDicts \<Rightarrow> nat \<Rightarrow> string \<Rightarrow> nat list go" where
  "lastWriter d i key =
     (let pos = map_get0 (writePos d i) key
      in if writeKeyDict d key = [] \<or> pos = 0 then Inr []
         else go_bind (index_go (writeKeyDict d key) (pos - 1)) (\<lambda>j. Inr [j]))"

text \<open>The readers of a key before transaction \<open>i\<close>, from the last to the first.\<close>

definition allReaders :: "keyDicts \<Rightarrow> nat \<Rightarrow> string \<Rightarrow> nat list go" where
  "allReaders d i key =
     (let pos = map_get0 (readPos d i) key
      in if readKeyDict d key = [] \<or> pos = 0 then Inr []
         else if pos \<le> length (readKeyDict d key) then Inr (rev (take pos (readKeyDict d key)))
         else Inl IndexOutOfRange)"

definition writeConflicts :: "keyDicts \<Rightarrow> nat \<Rightarrow> string \<Rightarrow> nat list go" where
  "writeConflicts d i key =
     go_bind (allReaders d i key) (\<lambda>rs. go_bind (lastWriter d i key) (\<lambda>ws. Inr (rs @ ws)))"

text \<open>\<open>acc\<close> is the bitmap of all reached transactions and the bitmap of the direct edges.\<close>

primrec visit_txs :: "('b, 'm) bitmap_scheme \<Rightarrow> (nat \<rightharpoonup> 'b) \<Rightarrow> nat list \<Rightarrow> 'b \<times> 'b \<Rightarrow> ('b \<times> 'b) go" where
  "visit_txs bm reachMap [] acc = Inr acc"
| "visit_txs bm reachMap (j # js) acc =
     (if bm_Has bm (fst acc) j then visit_txs bm reachMap js acc
      else go_bind (deref (reachMap j)) (\<lambda>r.
        visit_txs bm reachMap js (bm_Or bm (fst acc) r, bm_Set bm (snd acc) j)))"

primrec visit_keys ::
    "('b, 'm) bitmap_scheme \<Rightarrow> (nat \<rightharpoonup> 'b) \<Rightarrow> (string \<Rightarrow> nat list go) \<Rightarrow> string list \<Rightarrow> 'b \<times> 'b \<Rightarrow> ('b \<times> 'b) go" where
  "visit_keys bm reachMap txsOf [] acc = Inr acc"
| "visit_keys bm reachMap txsOf (key # keys) acc =
     go_bind (txsOf key) (\<lambda>js. go_bind (visit_txs bm reachMap js acc) (visit_keys bm reachMap txsOf keys))"

definition buildReachMap ::
    "('b, 'm) bitmap_scheme \<Rightarrow> nat \<Rightarrow> TxRWSet \<Rightarrow> keyDicts \<Rightarrow> (nat \<rightharpoonup> 'b) \<Rightarrow> ('b \<times> (nat \<rightharpoonup> 'b)) go" where
  "buildReachMap bm i rw d reachMap =
     go_bind (visit_keys bm reachMap (lastWriter d i) (readKeys rw) (bm_Set bm (bm_new bm) i, bm_new bm)) (\<lambda>acc.
     go_bind (visit_keys bm reachMap (writeConflicts d i) (writeKeys rw) acc) (\<lambda>acc'.
       Inr (snd acc', reachMap(i \<mapsto> fst acc'))))"

primrec buildVertexes ::
    "('b, 'm) bitmap_scheme \<Rightarrow> TxRWSet list \<Rightarrow> keyDicts \<Rightarrow> nat list \<Rightarrow> u32 list option list \<Rightarrow> (nat \<rightharpoonup> 'b)
      \<Rightarrow> u32 list option list go" where
  "buildVertexes bm rws d [] vs reachMap = Inr vs"
| "buildVertexes bm rws d (i # is) vs reachMap =
     go_bind (buildReachMap bm i (rws ! i) d reachMap) (\<lambda>(direct, reachMap').
       buildVertexes bm rws d is (vs @ [Some (map word_of_nat (bm_Pos1 bm direct))]) reachMap')"

definition BuildDAG :: "('b, 'm) bitmap_scheme \<Rightarrow> bool \<Rightarrow> TxRWSet list option \<Rightarrow> SnapshotImpl \<Rightarrow> DAG go" where
  "BuildDAG bm isSql table s =
     (let txRWSets = (case table of None \<Rightarrow> txRWSetTable s | Some t \<Rightarrow> t);
          txCount = u32n (length txRWSets)
      in if isSql then
           Inr \<lparr>Vertexes = map (\<lambda>i. Some (if i = 0 then [] else [word_of_nat (i - 1)])) [0..<txCount]\<rparr>
         else
           go_bind (buildVertexes bm txRWSets (buildDictAndPos txRWSets) [0..<txCount] [] Map.empty)
             (\<lambda>vs. Inr \<lparr>Vertexes = vs\<rparr>))"

subsection \<open>What the dictionaries hold\<close>

lemma fold_add_read:
  "readKeyDict (fold (add_read i) ks d) k = readKeyDict d k @ replicate (count_list ks k) i"
  "writeKeyDict (fold (add_read i) ks d) = writeKeyDict d"
  "i' \<noteq> i \<Longrightarrow> readPos (fold (add_read i) ks d) i' = readPos d i'"
  "i' \<noteq> i \<Longrightarrow> writePos (fold (add_read i) ks d) i' = writePos d i'"
  "writePos (fold (add_read i) ks d) i k =
     (if k \<in> set ks then Some (u32n (length (writeKeyDict d k))) else writePos d i k)"
  "readPos (fold (add_read i) ks d) i k =
     (if k \<in> set ks then Some (u32n (length (readKeyDict d k) + (count_list ks k - 1))) else readPos d i k)"
proof (induction ks arbitrary: d)
  case (Cons a ks)
  {
    case 1 then show ?case by (simp add: Cons.IH(1)) (simp add: add_read_def replicate_app_Cons_same)
  next
    case 2 then show ?case by (simp add: Cons.IH(2)) (simp add: add_read_def)
  next
    case 3 then show ?case by (simp add: Cons.IH(3)) (simp add: add_read_def)
  next
    case 4 then show ?case by (simp add: Cons.IH(4)) (simp add: add_read_def)
  next
    case 5 then show ?case by (simp add: Cons.IH(5)) (simp add: add_read_def)
  next
    case 6
    have "count_list ks a = 0 \<longleftrightarrow> a \<notin> set ks" by (simp add: count_list_0_iff)
    then show ?case by (auto simp: Cons.IH(6)) (auto simp: add_read_def)
  }
qed simp_all

lemma fold_add_write:
  assumes "distinct ks"
  shows "writeKeyDict (fold (add_write i) ks d) k = writeKeyDict d k @ (if k \<in> set ks then [i] else [])"
    and "readKeyDict (fold (add_write i) ks d) = readKeyDict d"
    and "i' \<noteq> i \<Longrightarrow> readPos (fold (add_write i) ks d) i' = readPos d i'"
    and "i' \<noteq> i \<Longrightarrow> writePos (fold (add_write i) ks d) i' = writePos d i'"
    and "writePos (fold (add_write i) ks d) i k =
     (if k \<in> set ks then Some (u32n (length (writeKeyDict d k))) else writePos d i k)"
    and "readPos (fold (add_write i) ks d) i k =
     (if k \<in> set ks \<and> readPos d i k = None then Some (u32n (length (readKeyDict d k))) else readPos d i k)"
  using assms
proof (induction ks arbitrary: d)
  case (Cons a ks)
  {
    case 1 with Cons.IH(1) show ?case by (simp add: add_write_def)
  next
    case 2 with Cons.IH(2) show ?case by (simp add: add_write_def)
  next
    case 3 with Cons.IH(3) show ?case by (simp add: add_write_def)
  next
    case 4 with Cons.IH(4) show ?case by (simp add: add_write_def)
  next
    case 5 with Cons.IH(5) show ?case by (auto simp: add_write_def)
  next
    case 6 with Cons.IH(6) show ?case by (auto simp: add_write_def)
  }
qed simp_all


text \<open>The writers and the readers of a key among the first \<open>m\<close> transactions.\<close>

definition writersOf :: "TxRWSet list \<Rightarrow> nat \<Rightarrow> string \<Rightarrow> nat list" where
  "writersOf rws m k = filter (\<lambda>j. k \<in> set (writeKeys (rws ! j))) [0..<m]"

definition readersOf :: "TxRWSet list \<Rightarrow> nat \<Rightarrow> string \<Rightarrow> nat list" where
  "readersOf rws m k = concat (map (\<lambda>j. replicate (count_list (readKeys (rws ! j)) k) j) [0..<m])"

lemma writersOf_Suc: "writersOf rws (Suc m) k = writersOf rws m k @ (if k \<in> set (writeKeys (rws ! m)) then [m] else [])"
  by (simp add: writersOf_def)

lemma readersOf_Suc: "readersOf rws (Suc m) k = readersOf rws m k @ replicate (count_list (readKeys (rws ! m)) k) m"
  by (simp add: readersOf_def)

lemma set_writersOf: "j \<in> set (writersOf rws m k) \<longleftrightarrow> j < m \<and> k \<in> set (writeKeys (rws ! j))"
  by (auto simp: writersOf_def)

lemma set_readersOf: "j \<in> set (readersOf rws m k) \<longleftrightarrow> j < m \<and> k \<in> set (readKeys (rws ! j))"
  by (auto simp: readersOf_def count_list_0_iff)

lemma writersOf_split: "i \<le> m \<Longrightarrow> \<exists>rest. writersOf rws m k = writersOf rws i k @ rest"
  by (induction rule: dec_induct) (auto simp: writersOf_Suc)

lemma readersOf_split: "i \<le> m \<Longrightarrow> \<exists>rest. readersOf rws m k = readersOf rws i k @ rest"
  by (induction rule: dec_induct) (auto simp: readersOf_Suc)

definition dict_inv :: "TxRWSet list \<Rightarrow> nat \<Rightarrow> keyDicts \<Rightarrow> bool" where
  "dict_inv rws m d \<longleftrightarrow>
     (\<forall>k. writeKeyDict d k = writersOf rws m k \<and> readKeyDict d k = readersOf rws m k \<and>
       (\<forall>i < m. (k \<in> set (readKeys (rws ! i)) \<union> set (writeKeys (rws ! i)) \<longrightarrow>
           writePos d i k = Some (u32n (length (writersOf rws i k)))) \<and>
         (k \<in> set (writeKeys (rws ! i)) \<longrightarrow>
           readPos d i k = Some (u32n (length (readersOf rws i k) + (count_list (readKeys (rws ! i)) k - 1))))))"

lemma add_tx_inv:
  assumes inv: "dict_inv rws m d" and dist: "distinct (writeKeys (rws ! m))"
  shows "dict_inv rws (Suc m) (add_tx rws m d)"
  using inv
  by (auto simp: dict_inv_def add_tx_def Let_def fold_add_read fold_add_write [OF dist] writersOf_Suc readersOf_Suc
      less_Suc_eq count_list_0_iff)

lemma buildDictAndPos_inv:
  assumes "length rws < 2 ^ 32" and "\<forall>rw \<in> set rws. distinct (writeKeys rw)"
  shows "dict_inv rws (length rws) (buildDictAndPos rws)"
proof -
  let ?d0 = "\<lparr>readKeyDict = (\<lambda>_. []), writeKeyDict = (\<lambda>_. []), readPos = (\<lambda>_. Map.empty), writePos = (\<lambda>_. Map.empty)\<rparr> :: keyDicts"
  have "dict_inv rws m (fold (add_tx rws) [0..<m] ?d0)" if "m \<le> length rws" for m
    using that
  proof (induction m)
    case 0
    show ?case by (simp add: dict_inv_def writersOf_def readersOf_def)
  next
    case (Suc m)
    then have "distinct (writeKeys (rws ! m))" using assms(2) by simp
    then show ?case using Suc add_tx_inv by simp
  qed
  then show ?thesis using assms(1) by (simp add: buildDictAndPos_def)
qed

subsection \<open>The earlier transactions that are visited\<close>

text \<open>The numbers of transactions and of read entries fit in 32 bits.\<close>

definition fits_u32 :: "TxRWSet list \<Rightarrow> bool" where
  "fits_u32 rws \<longleftrightarrow> length rws + sum_list (map (\<lambda>rw. length (TxReads rw)) rws) < 2 ^ 32"

lemma count_list_le_length: "count_list xs x \<le> length xs"
  by (induction xs) (auto simp: le_SucI)

lemma length_readersOf:
  assumes "m \<le> length rws"
  shows "length (readersOf rws m k) \<le> sum_list (map (\<lambda>rw. length (TxReads rw)) (take m rws))"
  using assms
proof (induction m)
  case (Suc m)
  have "count_list (readKeys (rws ! m)) k \<le> length (TxReads (rws ! m))"
    using count_list_le_length [of "readKeys (rws ! m)" k] by (simp add: readKeys_def)
  then show ?case using Suc by (simp add: readersOf_Suc take_Suc_conv_app_nth)
qed (simp add: readersOf_def)

lemma readersOf_fits: "fits_u32 rws \<Longrightarrow> length (readersOf rws (length rws) k) < 2 ^ 32"
  using length_readersOf [of "length rws" rws k] by (simp add: fits_u32_def)

lemma readersOf_take:
  assumes "i < n" and "c = count_list (readKeys (rws ! i)) k"
  shows "take (length (readersOf rws i k) + (c - 1)) (readersOf rws n k) = readersOf rws i k @ replicate (c - 1) i"
    and "length (readersOf rws i k) + (c - 1) \<le> length (readersOf rws n k)"
proof -
  obtain rest where "readersOf rws n k = readersOf rws (Suc i) k @ rest"
    using readersOf_split [of "Suc i" n rws k] assms(1) by auto
  then have *: "readersOf rws n k = readersOf rws i k @ replicate c i @ rest" by (simp add: readersOf_Suc assms(2))
  show "take (length (readersOf rws i k) + (c - 1)) (readersOf rws n k) = readersOf rws i k @ replicate (c - 1) i"
    by (simp add: * take_append min_def)
  show "length (readersOf rws i k) + (c - 1) \<le> length (readersOf rws n k)" by (simp add: *)
qed

definition lastOf :: "'a list \<Rightarrow> 'a list" where
  "lastOf xs = (if xs = [] then [] else [last xs])"

lemma lastWriter_eq:
  assumes inv: "dict_inv rws n d" and n: "n < 2 ^ 32" and i: "i < n"
    and k: "k \<in> set (readKeys (rws ! i)) \<union> set (writeKeys (rws ! i))"
  shows "lastWriter d i k = Inr (lastOf (writersOf rws i k))"
proof -
  have len: "length (writersOf rws i k) \<le> i" using length_filter_le [of _ "[0..<i]"] by (simp add: writersOf_def)
  have pos: "map_get0 (writePos d i) k = length (writersOf rws i k)"
    using inv i k len n by (auto simp: dict_inv_def map_get0_def)
  have dict: "writeKeyDict d k = writersOf rws n k" using inv by (simp add: dict_inv_def)
  obtain rest where rest: "writersOf rws n k = writersOf rws i k @ rest"
    using writersOf_split [of i n rws k] i by auto
  show ?thesis
  proof (cases "writersOf rws i k = []")
    case True
    then show ?thesis by (simp add: lastWriter_def Let_def pos lastOf_def)
  next
    case False
    then have "length (writersOf rws i k) - 1 < length (writersOf rws i k) + length rest" by (cases "writersOf rws i k") simp_all
    with False show ?thesis
      by (simp add: lastWriter_def Let_def pos dict rest index_go_def lastOf_def nth_append last_conv_nth)
  qed
qed

definition earlierReaders :: "TxRWSet list \<Rightarrow> nat \<Rightarrow> string \<Rightarrow> nat list" where
  "earlierReaders rws i k = readersOf rws i k @ replicate (count_list (readKeys (rws ! i)) k - 1) i"

lemma allReaders_eq:
  assumes inv: "dict_inv rws n d" and n: "n = length rws" "fits_u32 rws" and i: "i < n"
    and k: "k \<in> set (writeKeys (rws ! i))"
  shows "allReaders d i k = Inr (rev (earlierReaders rws i k))"
proof -
  let ?c = "count_list (readKeys (rws ! i)) k"
  have dict: "readKeyDict d k = readersOf rws n k" using inv by (simp add: dict_inv_def)
  have small: "length (readersOf rws i k) + (?c - 1) < 2 ^ 32"
    using readersOf_take(2) [OF i refl, of rws k] readersOf_fits [OF n(2), of k] n(1) by simp
  have pos: "map_get0 (readPos d i) k = length (readersOf rws i k) + (?c - 1)"
    using inv i k small by (auto simp: dict_inv_def map_get0_def)
  show ?thesis
    using readersOf_take [OF i refl, of rws k]
    by (auto simp: allReaders_def Let_def pos dict earlierReaders_def)
qed

lemma writeConflicts_eq:
  assumes "dict_inv rws n d" and "n = length rws" "fits_u32 rws" and "i < n" and "k \<in> set (writeKeys (rws ! i))"
  shows "writeConflicts d i k = Inr (rev (earlierReaders rws i k) @ lastOf (writersOf rws i k))"
proof -
  have "n < 2 ^ 32" using assms(2,3) by (simp add: fits_u32_def)
  then show ?thesis
    using allReaders_eq [OF assms] lastWriter_eq [OF assms(1) _ assms(4)] assms(5) by (simp add: writeConflicts_def)
qed

text \<open>The candidates for an edge of transaction \<open>i\<close>.\<close>

definition candidates :: "TxRWSet list \<Rightarrow> nat \<Rightarrow> nat set" where
  "candidates rws i =
     (\<Union>k \<in> set (readKeys (rws ! i)). set (lastOf (writersOf rws i k))) \<union>
     (\<Union>k \<in> set (writeKeys (rws ! i)). set (rev (earlierReaders rws i k) @ lastOf (writersOf rws i k)))"

definition conflict :: "TxRWSet \<Rightarrow> TxRWSet \<Rightarrow> bool" where
  "conflict a b \<longleftrightarrow>
     set (writeKeys a) \<inter> set (readKeys b) \<noteq> {} \<or> set (readKeys a) \<inter> set (writeKeys b) \<noteq> {} \<or>
     set (writeKeys a) \<inter> set (writeKeys b) \<noteq> {}"

lemma lastOf_member: "j \<in> set (lastOf xs) \<Longrightarrow> j \<in> set xs"
  by (auto simp: lastOf_def split: if_splits)

lemma candidates_conflict:
  assumes "j \<in> candidates rws i"
  shows "j = i \<or> (j < i \<and> conflict (rws ! i) (rws ! j))"
proof -
  consider k where "k \<in> set (readKeys (rws ! i)) \<union> set (writeKeys (rws ! i))" "j \<in> set (writersOf rws i k)"
    | k where "k \<in> set (writeKeys (rws ! i))" "j \<in> set (earlierReaders rws i k)"
    using assms by (auto simp: candidates_def dest: lastOf_member)
  then show ?thesis
  proof cases
    case 1
    then show ?thesis by (auto simp: set_writersOf conflict_def)
  next
    case 2
    then show ?thesis by (auto simp: earlierReaders_def set_readersOf conflict_def)
  qed
qed

lemma last_writersOf:
  assumes "j \<in> set (writersOf rws i k)"
  obtains w where "w \<in> set (lastOf (writersOf rws i k))" and "j \<le> w"
proof -
  have ne: "writersOf rws i k \<noteq> []" using assms by auto
  have sorted: "sorted (writersOf rws i k)" unfolding writersOf_def by (intro sorted_wrt_filter) simp
  have "j \<le> last (writersOf rws i k)"
    using assms ne sorted by (metis append_butlast_last_id in_set_conv_decomp last_appendR last_in_set list.distinct(1)
        last_ConsR last_ConsL sorted_append sorted_simps(2) order_refl)
  then show ?thesis using that [of "last (writersOf rws i k)"] ne by (simp add: lastOf_def)
qed

lemma conflict_candidates:
  assumes "j < i" and "conflict (rws ! i) (rws ! j)"
  shows "j \<in> candidates rws i \<or> (\<exists>w \<in> candidates rws i. j < w \<and> w < i \<and> conflict (rws ! w) (rws ! j))"
proof -
  consider k where "k \<in> set (writeKeys (rws ! i))" "k \<in> set (readKeys (rws ! j))"
    | k where "k \<in> set (readKeys (rws ! i)) \<union> set (writeKeys (rws ! i))" "k \<in> set (writeKeys (rws ! j))"
    using assms(2) by (auto simp: conflict_def)
  then show ?thesis
  proof cases
    case 1
    then have "j \<in> set (earlierReaders rws i k)" using assms(1) by (auto simp: earlierReaders_def set_readersOf)
    then show ?thesis using 1(1) by (auto simp: candidates_def)
  next
    case 2
    then have "j \<in> set (writersOf rws i k)" using assms(1) by (simp add: set_writersOf)
    then obtain w where w: "w \<in> set (lastOf (writersOf rws i k))" "j \<le> w" by (rule last_writersOf)
    then have "w \<in> candidates rws i" using 2(1) by (auto simp: candidates_def)
    moreover have "w < i" and "k \<in> set (writeKeys (rws ! w))" using lastOf_member [OF w(1)] by (simp_all add: set_writersOf)
    moreover from this have "conflict (rws ! w) (rws ! j)" using 2(2) by (auto simp: conflict_def)
    ultimately show ?thesis using w(2) by (cases "j = w") auto
  qed
qed

subsection \<open>Bitmaps of reached transactions\<close>

text \<open>What the code relies on of bitmaps, with \<open>mem\<close> the set of a bitmap.\<close>

definition bitmap_laws :: "('b, 'm) bitmap_scheme \<Rightarrow> ('b \<Rightarrow> nat set) \<Rightarrow> bool" where
  "bitmap_laws bm mem \<longleftrightarrow>
     mem (bm_new bm) = {} \<and> (\<forall>b i. mem (bm_Set bm b i) = insert i (mem b)) \<and>
     (\<forall>b i. bm_Has bm b i \<longleftrightarrow> i \<in> mem b) \<and> (\<forall>a b. mem (bm_Or bm a b) = mem a \<union> mem b) \<and>
     (\<forall>b. finite (mem b) \<longrightarrow> sorted_wrt (<) (bm_Pos1 bm b) \<and> set (bm_Pos1 bm b) = mem b)"

text \<open>
  The state of the search of transaction \<open>i\<close> after it has visited the transactions \<open>P\<close>: it has
  reached what its direct neighbours reach, and all of \<open>P\<close>.
\<close>

definition visited :: "('b \<Rightarrow> nat set) \<Rightarrow> (nat \<rightharpoonup> 'b) \<Rightarrow> nat \<Rightarrow> nat set \<Rightarrow> 'b \<times> 'b \<Rightarrow> bool" where
  "visited mem reachMap i P acc \<longleftrightarrow>
     mem (fst acc) = insert i (\<Union>c \<in> mem (snd acc). mem (the (reachMap c))) \<and>
     mem (snd acc) \<subseteq> P - {i} \<and> P \<subseteq> mem (fst acc)"

definition known :: "('b \<Rightarrow> nat set) \<Rightarrow> (nat \<rightharpoonup> 'b) \<Rightarrow> nat \<Rightarrow> nat \<Rightarrow> bool" where
  "known mem reachMap i j \<longleftrightarrow> j = i \<or> (\<exists>r. reachMap j = Some r \<and> j \<in> mem r)"

lemma visit_txs_visited:
  assumes laws: "bitmap_laws bm mem" and "\<forall>j \<in> set js. known mem reachMap i j" and "visited mem reachMap i P acc"
  shows "\<exists>acc'. visit_txs bm reachMap js acc = Inr acc' \<and> visited mem reachMap i (P \<union> set js) acc'"
  using assms(2,3)
proof (induction js arbitrary: P acc)
  case Nil
  then show ?case by simp
next
  case (Cons j js)
  show ?case
  proof (cases "bm_Has bm (fst acc) j")
    case True
    then have "visited mem reachMap i (insert j P) acc"
      using Cons.prems(2) laws by (auto simp: visited_def bitmap_laws_def)
    from Cons.IH [OF _ this] Cons.prems(1) True show ?thesis by simp
  next
    case False
    then have out: "j \<notin> mem (fst acc)" using laws by (simp add: bitmap_laws_def)
    then have ji: "j \<noteq> i" using Cons.prems(2) by (auto simp: visited_def)
    then obtain r where r: "reachMap j = Some r" "j \<in> mem r" using Cons.prems(1) by (auto simp: known_def)
    have "visited mem reachMap i (insert j P) (bm_Or bm (fst acc) r, bm_Set bm (snd acc) j)"
      using Cons.prems(2) laws r ji by (auto simp: visited_def bitmap_laws_def)
    from Cons.IH [OF _ this] Cons.prems(1) False r(1) show ?thesis by simp
  qed
qed

lemma visit_keys_visited:
  assumes laws: "bitmap_laws bm mem" and "\<forall>k \<in> set ks. txsOf k = Inr (js k) \<and> (\<forall>j \<in> set (js k). known mem reachMap i j)"
    and "visited mem reachMap i P acc"
  shows "\<exists>acc'. visit_keys bm reachMap txsOf ks acc = Inr acc' \<and>
    visited mem reachMap i (P \<union> (\<Union>k \<in> set ks. set (js k))) acc'"
  using assms(2,3)
proof (induction ks arbitrary: P acc)
  case Nil
  then show ?case by simp
next
  case (Cons k ks)
  then obtain acc1 where acc1: "visit_txs bm reachMap (js k) acc = Inr acc1" "visited mem reachMap i (P \<union> set (js k)) acc1"
    using visit_txs_visited [OF laws, of "js k" reachMap i P acc] by auto
  from Cons.IH [OF _ acc1(2)] Cons.prems(1) acc1(1) show ?case by (simp add: Un_assoc)
qed

lemma buildReachMap_visited:
  assumes laws: "bitmap_laws bm mem" and inv: "dict_inv rws n d" and n: "n = length rws" "fits_u32 rws" and i: "i < n"
    and known: "\<forall>j < i. known mem reachMap i j"
  shows "\<exists>direct all. buildReachMap bm i (rws ! i) d reachMap = Inr (direct, reachMap(i \<mapsto> all)) \<and>
    visited mem reachMap i (candidates rws i) (all, direct)"
proof -
  have small: "n < 2 ^ 32" using n by (simp add: fits_u32_def)
  let ?acc = "(bm_Set bm (bm_new bm) i, bm_new bm)"
  have cand: "known mem reachMap i j" if "j \<in> candidates rws i" for j
    using that known candidates_conflict by (auto simp: known_def)
  have start: "visited mem reachMap i {} ?acc" using laws by (simp add: visited_def bitmap_laws_def)
  have reads: "\<forall>k \<in> set (readKeys (rws ! i)). lastWriter d i k = Inr (lastOf (writersOf rws i k)) \<and>
      (\<forall>j \<in> set (lastOf (writersOf rws i k)). known mem reachMap i j)"
    using lastWriter_eq [OF inv small i] cand by (auto simp: candidates_def)
  obtain acc1 where acc1: "visit_keys bm reachMap (lastWriter d i) (readKeys (rws ! i)) ?acc = Inr acc1"
      "visited mem reachMap i (\<Union>k \<in> set (readKeys (rws ! i)). set (lastOf (writersOf rws i k))) acc1"
    using visit_keys_visited [OF laws reads start] by auto
  have "\<forall>k \<in> set (writeKeys (rws ! i)). writeConflicts d i k = Inr (rev (earlierReaders rws i k) @ lastOf (writersOf rws i k)) \<and>
      (\<forall>j \<in> set (rev (earlierReaders rws i k) @ lastOf (writersOf rws i k)). known mem reachMap i j)"
  proof
    fix k assume k: "k \<in> set (writeKeys (rws ! i))"
    have "set (rev (earlierReaders rws i k) @ lastOf (writersOf rws i k)) \<subseteq> candidates rws i"
      using k by (auto simp: candidates_def)
    then show "writeConflicts d i k = Inr (rev (earlierReaders rws i k) @ lastOf (writersOf rws i k)) \<and>
      (\<forall>j \<in> set (rev (earlierReaders rws i k) @ lastOf (writersOf rws i k)). known mem reachMap i j)"
      using writeConflicts_eq [OF inv n i k] cand by blast
  qed
  from visit_keys_visited [OF laws this acc1(2)] obtain acc2 where
    acc2: "visit_keys bm reachMap (writeConflicts d i) (writeKeys (rws ! i)) acc1 = Inr acc2"
      "visited mem reachMap i (candidates rws i) acc2"
    by (auto simp: candidates_def)
  then show ?thesis using acc1(1) by (intro exI [of _ "snd acc2"] exI [of _ "fst acc2"]) (simp add: buildReachMap_def)
qed

subsection \<open>The graph\<close>

definition dag_edges :: "DAG \<Rightarrow> (nat \<times> nat) set" where
  "dag_edges dag = {(i, unat w) | i w ns. i < length (Vertexes dag) \<and> Vertexes dag ! i = Some ns \<and> w \<in> set ns}"

definition vertexes_inv ::
    "('b, 'm) bitmap_scheme \<Rightarrow> ('b \<Rightarrow> nat set) \<Rightarrow> TxRWSet list \<Rightarrow> nat \<Rightarrow> u32 list option list \<Rightarrow> (nat \<rightharpoonup> 'b) \<Rightarrow> bool" where
  "vertexes_inv bm mem rws m vs reachMap \<longleftrightarrow> length vs = m \<and>
     (\<forall>i < m. \<exists>direct all. vs ! i = Some (map word_of_nat (bm_Pos1 bm direct)) \<and> reachMap i = Some all \<and>
       visited mem reachMap i (candidates rws i) (all, direct))"

lemma candidates_below: "c \<in> candidates rws i - {i} \<Longrightarrow> c < i"
  using candidates_conflict by blast

lemma visited_upd:
  assumes "visited mem reachMap i (candidates rws i) (all, direct)" and "i \<le> m"
  shows "visited mem (reachMap(m \<mapsto> r)) i (candidates rws i) (all, direct)"
proof -
  have "c < i" if "c \<in> mem direct" for c
    using that assms(1) by (intro candidates_below) (auto simp: visited_def)
  then have "c \<noteq> m" if "c \<in> mem direct" for c using that assms(2) by fastforce
  then have "(\<Union>c \<in> mem direct. mem (the ((reachMap(m \<mapsto> r)) c))) = (\<Union>c \<in> mem direct. mem (the (reachMap c)))"
    by (intro SUP_cong) auto
  then show ?thesis using assms(1) unfolding visited_def by (metis fst_conv snd_conv)
qed

lemma buildVertexes_inv:
  assumes laws: "bitmap_laws bm mem" and inv: "dict_inv rws n d" and n: "n = length rws" "fits_u32 rws"
    and "m \<le> n" and "vertexes_inv bm mem rws m vs reachMap"
  shows "\<exists>vs' reachMap'. buildVertexes bm rws d [m..<n] vs reachMap = Inr vs' \<and> vertexes_inv bm mem rws n vs' reachMap'"
  using assms(5,6)
proof (induction "n - m" arbitrary: m vs reachMap)
  case 0
  then show ?case by auto
next
  case (Suc x)
  then have m: "m < n" by simp
  have "\<forall>j < m. known mem reachMap m j"
    using Suc.prems(2) by (fastforce simp: vertexes_inv_def known_def visited_def)
  from buildReachMap_visited [OF laws inv n m this] obtain direct all where
    step: "buildReachMap bm m (rws ! m) d reachMap = Inr (direct, reachMap(m \<mapsto> all))"
    and vis: "visited mem reachMap m (candidates rws m) (all, direct)" by blast
  let ?vs = "vs @ [Some (map word_of_nat (bm_Pos1 bm direct))]" and ?rm = "reachMap(m \<mapsto> all)"
  have "vertexes_inv bm mem rws (Suc m) ?vs ?rm"
    unfolding vertexes_inv_def
  proof (intro conjI allI impI)
    show "length ?vs = Suc m" using Suc.prems(2) by (simp add: vertexes_inv_def)
    fix i assume "i < Suc m"
    show "\<exists>direct all. ?vs ! i = Some (map word_of_nat (bm_Pos1 bm direct)) \<and> ?rm i = Some all \<and>
        visited mem ?rm i (candidates rws i) (all, direct)"
    proof (cases "i = m")
      case True
      then show ?thesis using visited_upd [OF vis] Suc.prems(2)
        by (intro exI [of _ direct] exI [of _ all]) (simp add: vertexes_inv_def nth_append)
    next
      case False
      with \<open>i < Suc m\<close> have i: "i < m" by simp
      with Suc.prems(2) obtain direct' all' where "vs ! i = Some (map word_of_nat (bm_Pos1 bm direct'))" "reachMap i = Some all'"
        "visited mem reachMap i (candidates rws i) (all', direct')" by (auto simp: vertexes_inv_def)
      then show ?thesis using i visited_upd [of mem reachMap i rws all' direct' m all] Suc.prems(2)
        by (intro exI [of _ direct'] exI [of _ all']) (simp add: vertexes_inv_def nth_append)
    qed
  qed
  moreover have "x = n - Suc m" and "Suc m \<le> n" using Suc.hyps(2) m by simp_all
  ultimately have "\<exists>vs' reachMap'. buildVertexes bm rws d [Suc m..<n] ?vs ?rm = Inr vs' \<and> vertexes_inv bm mem rws n vs' reachMap'"
    using Suc.hyps(1) by blast
  then show ?case using m step by (simp add: upt_conv_Cons)
qed

text \<open>The neighbours of a vertex, its reached set, and that the reached set is the reachability of the graph.\<close>

lemma vertex_neighbours:
  assumes laws: "bitmap_laws bm mem" and vs: "vertexes_inv bm mem rws n vs reachMap" and n: "n \<le> 2 ^ 32" and i: "i < n"
  obtains ns all where "vs ! i = Some ns" and "sorted_wrt (<) ns" and "reachMap i = Some all"
    and "\<forall>w \<in> set ns. unat w < i \<and> unat w \<in> candidates rws i"
    and "mem all = insert i (\<Union>c \<in> unat ` set ns. mem (the (reachMap c)))" and "candidates rws i \<subseteq> mem all"
proof -
  obtain direct all where d: "vs ! i = Some (map word_of_nat (bm_Pos1 bm direct))" "reachMap i = Some all"
    "visited mem reachMap i (candidates rws i) (all, direct)" using vs i by (auto simp: vertexes_inv_def)
  have below: "c < i \<and> c \<in> candidates rws i" if "c \<in> mem direct" for c
    using that d(3) candidates_below [of c rws i] by (auto simp: visited_def)
  then have "finite (mem direct)" by (meson finite_lessThan finite_subset lessThan_iff subsetI)
  then have pos: "sorted_wrt (<) (bm_Pos1 bm direct)" "set (bm_Pos1 bm direct) = mem direct"
    using laws by (simp_all add: bitmap_laws_def)
  have unat: "unat (word_of_nat c :: u32) = c" if "c \<in> mem direct" for c
    using below [OF that] i n by (simp add: unat_of_nat take_bit_nat_eq_self)
  then have img: "unat ` set (map (word_of_nat :: nat \<Rightarrow> u32) (bm_Pos1 bm direct)) = mem direct"
    by (auto simp: pos(2) image_image)
  have "sorted_wrt (\<lambda>x y. word_of_nat x < (word_of_nat y :: u32)) (bm_Pos1 bm direct)"
    using pos(1) by (rule sorted_wrt_mono_rel [rotated]) (auto simp: pos(2) word_less_nat_alt unat)
  then have "sorted_wrt (<) (map (word_of_nat :: nat \<Rightarrow> u32) (bm_Pos1 bm direct))" by (simp add: sorted_wrt_map)
  then show ?thesis using that [OF d(1) _ d(2)] d(3) below img unat
    by (auto simp: visited_def pos(2))
qed

lemma reach_rtrancl:
  assumes laws: "bitmap_laws bm mem" and vs: "vertexes_inv bm mem rws n vs reachMap" and n: "n \<le> 2 ^ 32"
  shows "i < n \<Longrightarrow> j \<in> mem (the (reachMap i)) \<Longrightarrow> (i, j) \<in> (dag_edges \<lparr>Vertexes = vs\<rparr>)\<^sup>*"
proof (induction i rule: less_induct)
  case (less i)
  obtain ns all where v: "vs ! i = Some ns" "reachMap i = Some all" "\<forall>w \<in> set ns. unat w < i \<and> unat w \<in> candidates rws i"
      "mem all = insert i (\<Union>c \<in> unat ` set ns. mem (the (reachMap c)))"
    using vertex_neighbours [OF laws vs n less.prems(1)] by metis
  show ?case
  proof (cases "j = i")
    case False
    then obtain w where w: "w \<in> set ns" "j \<in> mem (the (reachMap (unat w)))" using less.prems(2) v(2,4) by auto
    have "unat w < i" using v(3) w(1) by blast
    with less.IH [OF this _ w(2)] less.prems(1) have "(unat w, j) \<in> (dag_edges \<lparr>Vertexes = vs\<rparr>)\<^sup>*" by simp
    moreover have "(i, unat w) \<in> dag_edges \<lparr>Vertexes = vs\<rparr>"
      using w(1) v(1) less.prems(1) vs by (auto simp: dag_edges_def vertexes_inv_def)
    ultimately show ?thesis by (rule converse_rtrancl_into_rtrancl [rotated])
  qed simp
qed

lemma reach_mono:
  assumes laws: "bitmap_laws bm mem" and vs: "vertexes_inv bm mem rws n vs reachMap" and n: "n \<le> 2 ^ 32"
  shows "i < n \<Longrightarrow> c \<in> mem (the (reachMap i)) \<Longrightarrow> mem (the (reachMap c)) \<subseteq> mem (the (reachMap i))"
proof (induction i rule: less_induct)
  case (less i)
  obtain ns all where v: "vs ! i = Some ns" "reachMap i = Some all" "\<forall>w \<in> set ns. unat w < i \<and> unat w \<in> candidates rws i"
      "mem all = insert i (\<Union>c \<in> unat ` set ns. mem (the (reachMap c)))"
    using vertex_neighbours [OF laws vs n less.prems(1)] by metis
  show ?case
  proof (cases "c = i")
    case False
    then obtain w where w: "w \<in> set ns" "c \<in> mem (the (reachMap (unat w)))" using less.prems(2) v(2,4) by auto
    have "unat w < i" using v(3) w(1) by blast
    with less.IH [OF this _ w(2)] less.prems(1) have "mem (the (reachMap c)) \<subseteq> mem (the (reachMap (unat w)))" by simp
    then show ?thesis using w(1) v(2,4) by auto
  qed simp
qed

lemma conflict_reached:
  assumes laws: "bitmap_laws bm mem" and vs: "vertexes_inv bm mem rws n vs reachMap" and n: "n \<le> 2 ^ 32"
  shows "i < n \<Longrightarrow> j < i \<Longrightarrow> conflict (rws ! i) (rws ! j) \<Longrightarrow> j \<in> mem (the (reachMap i))"
proof (induction i rule: less_induct)
  case (less i)
  obtain all where all: "reachMap i = Some all" "candidates rws i \<subseteq> mem all"
    using vertex_neighbours [OF laws vs n less.prems(1)] by metis
  consider "j \<in> candidates rws i" | w where "w \<in> candidates rws i" "j < w" "w < i" "conflict (rws ! w) (rws ! j)"
    using conflict_candidates [OF less.prems(2,3)] by blast
  then show ?case
  proof cases
    case 1
    then show ?thesis using all by auto
  next
    case 2
    then have "j \<in> mem (the (reachMap w))" using less.IH less.prems(1) by simp
    moreover have "w \<in> mem (the (reachMap i))" using 2(1) all by auto
    ultimately show ?thesis using reach_mono [OF laws vs n less.prems(1)] by blast
  qed
qed

text \<open>The graph that \<open>BuildDAG\<close> returns.\<close>

definition good_dag :: "TxRWSet list \<Rightarrow> DAG \<Rightarrow> bool" where
  "good_dag rws dag \<longleftrightarrow> length (Vertexes dag) = length rws \<and>
     (\<forall>i < length rws. \<exists>ns. Vertexes dag ! i = Some ns \<and> sorted_wrt (<) ns \<and> (\<forall>w \<in> set ns. unat w < i)) \<and>
     (\<forall>(i, j) \<in> dag_edges dag. conflict (rws ! i) (rws ! j)) \<and>
     (\<forall>i < length rws. \<forall>j < i. conflict (rws ! i) (rws ! j) \<longrightarrow> (i, j) \<in> (dag_edges dag)\<^sup>+)"

lemma BuildDAG_good:
  assumes laws: "bitmap_laws bm mem" and fits: "fits_u32 rws" and dist: "\<forall>rw \<in> set rws. distinct (writeKeys rw)"
  shows "\<exists>dag. BuildDAG bm False (Some rws) s = Inr dag \<and> good_dag rws dag"
proof -
  let ?n = "length rws" and ?d = "buildDictAndPos rws"
  have n: "?n < 2 ^ 32" using fits by (simp add: fits_u32_def)
  have inv: "dict_inv rws ?n ?d" using buildDictAndPos_inv [OF n dist] .
  have "vertexes_inv bm mem rws 0 [] Map.empty" by (simp add: vertexes_inv_def)
  from buildVertexes_inv [OF laws inv refl fits _ this] obtain vs reachMap
    where run: "buildVertexes bm rws ?d [0..<?n] [] Map.empty = Inr vs" and vs: "vertexes_inv bm mem rws ?n vs reachMap"
    by auto
  have nle: "?n \<le> 2 ^ 32" using n by simp
  note nb = vertex_neighbours [OF laws vs nle]
  have len: "length vs = ?n" using vs by (simp add: vertexes_inv_def)
  have "good_dag rws \<lparr>Vertexes = vs\<rparr>"
    unfolding good_dag_def
  proof (intro conjI ballI allI impI)
    show "length (Vertexes \<lparr>Vertexes = vs\<rparr>) = ?n" using len by simp
    show "\<exists>ns. Vertexes \<lparr>Vertexes = vs\<rparr> ! i = Some ns \<and> sorted_wrt (<) ns \<and> (\<forall>w \<in> set ns. unat w < i)" if "i < ?n" for i
      using nb [OF that] by (metis DAG.select_convs(1))
    show "case p of (i, j) \<Rightarrow> conflict (rws ! i) (rws ! j)" if p: "p \<in> dag_edges \<lparr>Vertexes = vs\<rparr>" for p
    proof -
      obtain i w ns where e: "p = (i, unat w)" "i < ?n" "vs ! i = Some ns" "w \<in> set ns"
        using p len by (auto simp: dag_edges_def)
      obtain ns' where "vs ! i = Some ns'" "\<forall>w \<in> set ns'. unat w < i \<and> unat w \<in> candidates rws i" using nb [OF e(2)] by metis
      then show ?thesis using e candidates_conflict [of "unat w" rws i] by auto
    qed
    show "(i, j) \<in> (dag_edges \<lparr>Vertexes = vs\<rparr>)\<^sup>+" if "i < ?n" "j < i" "conflict (rws ! i) (rws ! j)" for i j
      using reach_rtrancl [OF laws vs nle that(1) conflict_reached [OF laws vs nle that]] that(2)
      by (auto simp: rtrancl_eq_or_trancl)
  qed
  then show ?thesis using run n by (auto simp: BuildDAG_def Let_def)
qed

end
