(* ===== verification/Snapshot_Manager.thy ===== *)
theory Snapshot_Manager
  imports Snapshot_Dag
begin

section \<open>The managers of snapshots (snapshot_manager.go, snapshot_mananger_delegate.go, snapshot_manager_evidence.go)\<close>

text \<open>
  A manager keeps the snapshots of the blocks that are not committed yet by the fingerprints of
  the blocks, and links each to the snapshot of the block before. The fingerprints are computed
  outside the repository (\<open>fingerprints\<close>). The snapshots are kept in a heap; a new snapshot gets
  the next free reference.
\<close>

record fingerprints =
  CalcBlockFingerPrint :: "Block_core \<Rightarrow> string"
  CalcBlockFingerPrintWithoutTx :: "Block_core \<Rightarrow> string"
  CalcFingerPrint :: "string \<Rightarrow> u64 \<Rightarrow> i64 \<Rightarrow> gobytes \<Rightarrow> gobytes \<Rightarrow> gobytes \<Rightarrow> gobytes \<Rightarrow> gobytes \<Rightarrow> string"

record ManagerImpl =
  mg_snapshots :: "(string \<times> sref) list"
  mg_heap :: snapshots
  mg_next :: sref

definition NewSnapshotManager :: "snapshots \<Rightarrow> ManagerImpl" where
  "NewSnapshotManager hp = \<lparr>mg_snapshots = [], mg_heap = hp, mg_next = 0\<rparr>"

subsection \<open>The delegate\<close>

definition calcSnapshotFingerPrint :: "fingerprints \<Rightarrow> SnapshotImpl \<Rightarrow> string" where
  "calcSnapshotFingerPrint fps s =
     CalcFingerPrint fps (sn_chainId s) (sn_blockHeight s) (sn_blockTimestamp s) (sn_blockProposer s) (sn_preBlockHash s)
       (sn_txRoot s) (sn_dagHash s) (sn_rwSetHash s)"

definition calcSnapshotFingerPrintWithoutTx :: "fingerprints \<Rightarrow> SnapshotImpl \<Rightarrow> string" where
  "calcSnapshotFingerPrintWithoutTx fps s =
     CalcFingerPrint fps (sn_chainId s) (sn_blockHeight s) (sn_blockTimestamp s) (sn_blockProposer s) (sn_preBlockHash s)
       None None None"

text \<open>Without a chain configuration there is no snapshot: the pointer is nil.\<close>

definition makeSnapshotImpl :: "blockchainStore \<Rightarrow> Block_core \<Rightarrow> SnapshotImpl option" where
  "makeSnapshotImpl store block =
     (case st_LastChainConfig store of None \<Rightarrow> None
      | Some cfg \<Rightarrow>
        (let h = bk_Header block in
         Some \<lparr>sn_sealed = Some False, sn_chainId = hd_ChainId h, sn_blockTimestamp = hd_BlockTimestamp h,
           sn_blockProposer = hd_Proposer h, sn_blockHeight = hd_BlockHeight h, sn_blockVersion = hd_BlockVersion h,
           sn_preBlockHash = hd_PreBlockHash h, sn_preSnapshot = None, sn_blockFingerprint = [],
           sn_lastChainConfig = cfg, txRWSetTable = [], txTable = [], specialTxTable = [], txResultMap = Map.empty,
           readTable = newShardSet, writeTable = newShardSet, sn_txRoot = hd_TxRoot h, sn_dagHash = hd_DagHash h,
           sn_rwSetHash = hd_RwSetRoot h\<rparr>))"

subsection \<open>The manager of ordinary snapshots\<close>

definition update_snapshot :: "(SnapshotImpl \<Rightarrow> SnapshotImpl) \<Rightarrow> sref \<Rightarrow> ManagerImpl \<Rightarrow> ManagerImpl" where
  "update_snapshot f r m = m\<lparr>mg_heap := (mg_heap m)(r := f (mg_heap m r))\<rparr>"

text \<open>The new snapshot is stored before the one of the block before is looked up.\<close>

definition storeAndLinkSnapshotImpl :: "sref \<Rightarrow> string \<Rightarrow> string \<Rightarrow> ManagerImpl \<Rightarrow> ManagerImpl" where
  "storeAndLinkSnapshotImpl r prevFingerPrint fingerPrint m =
     (let m1 = m\<lparr>mg_snapshots := AList.update fingerPrint r (mg_snapshots m)\<rparr>
      in case map_of (mg_snapshots m1) prevFingerPrint of
           None \<Rightarrow> m1
         | Some prev \<Rightarrow> update_snapshot (\<lambda>s. SetPreSnapshot s (Some prev)) r m1)"

text \<open>\<open>NewSnapshot\<close> for the fingerprints of the two blocks; a nil snapshot is dereferenced.\<close>

definition new_snapshot ::
    "blockchainStore \<Rightarrow> string \<Rightarrow> string \<Rightarrow> Block_core \<Rightarrow> ManagerImpl \<Rightarrow> (sref \<times> ManagerImpl) go" where
  "new_snapshot store prevFingerPrint fingerPrint block m =
     go_bind (deref (makeSnapshotImpl store block)) (\<lambda>snapshotImpl.
       let r = mg_next m;
           m1 = m\<lparr>mg_heap := (mg_heap m)(r := snapshotImpl), mg_next := r + 1\<rparr>;
           m2 = storeAndLinkSnapshotImpl r prevFingerPrint fingerPrint m1
       in Inr (r, update_snapshot (\<lambda>s. SetBlockFingerprint s fingerPrint) r m2))"

definition NewSnapshot ::
    "fingerprints \<Rightarrow> blockchainStore \<Rightarrow> Block_core \<Rightarrow> Block_core \<Rightarrow> ManagerImpl \<Rightarrow> (sref \<times> ManagerImpl) go" where
  "NewSnapshot fps store prevBlock block m =
     new_snapshot store (CalcBlockFingerPrintWithoutTx fps prevBlock) (CalcBlockFingerPrintWithoutTx fps block) block m"

definition GetSnapshot ::
    "fingerprints \<Rightarrow> blockchainStore \<Rightarrow> Block_core \<Rightarrow> Block_core \<Rightarrow> ManagerImpl \<Rightarrow> (sref \<times> ManagerImpl) go" where
  "GetSnapshot fps store prevBlock block m =
     (case map_of (mg_snapshots m) (CalcBlockFingerPrintWithoutTx fps block) of
        None \<Rightarrow> NewSnapshot fps store prevBlock block m
      | Some r \<Rightarrow> Inr (r, m))"

definition calcNotConsensusFingerPrint :: "fingerprints \<Rightarrow> Block_core \<Rightarrow> string" where
  "calcNotConsensusFingerPrint fps block =
     (let h = bk_Header block in
      CalcBlockFingerPrintWithoutTx fps
        \<lparr>bk_Header = \<lparr>hd_ChainId = hd_ChainId h, hd_BlockHeight = hd_BlockHeight h, hd_BlockVersion = 0,
           hd_BlockTimestamp = hd_BlockTimestamp h, hd_Proposer = hd_Proposer h, hd_PreBlockHash = hd_PreBlockHash h,
           hd_TxRoot = None, hd_DagHash = None, hd_RwSetRoot = None, hd_BlockHash = None, hd_BlockType = 0, hd_TxCount = 0, hd_PreConfHeight = 0,
           hd_ConsensusArgs = None, hd_Signature = None\<rparr>,
         bk_Txs = [], bk_Dag = None, bk_AdditionalData = None\<rparr>)"

text \<open>A snapshot whose predecessor has the fingerprint of the committed block is cut off from it.\<close>

definition unlink :: "(SnapshotImpl \<Rightarrow> string) \<Rightarrow> string \<Rightarrow> sref \<Rightarrow> ManagerImpl \<Rightarrow> ManagerImpl" where
  "unlink fpOf deleteFp r m =
     (case sn_preSnapshot (mg_heap m r) of
        None \<Rightarrow> m
      | Some pre \<Rightarrow>
        if deleteFp = fpOf (mg_heap m pre) then update_snapshot (\<lambda>s. SetPreSnapshot s None) r m else m)"

text \<open>Snapshots more than eight blocks behind the committed one are dropped; the subtraction is of 64-bit signed integers.\<close>

definition tooOld :: "Block_core \<Rightarrow> SnapshotImpl \<Rightarrow> bool" where
  "tooOld block s \<longleftrightarrow> sint (hd_BlockHeight (bk_Header block) - sn_blockHeight s) > 8"

definition collect :: "Block_core \<Rightarrow> string \<times> sref \<Rightarrow> ManagerImpl \<Rightarrow> ManagerImpl" where
  "collect block entry m =
     (case entry of (finger, r) \<Rightarrow>
        if tooOld block (mg_heap m r)
        then update_snapshot (\<lambda>s. SetPreSnapshot s None) r (m\<lparr>mg_snapshots := AList.delete finger (mg_snapshots m)\<rparr>)
        else m)"

definition NotifyBlockCommitted :: "fingerprints \<Rightarrow> Block_core \<Rightarrow> ManagerImpl \<Rightarrow> ManagerImpl" where
  "NotifyBlockCommitted fps block m =
     (let deleteFp = CalcBlockFingerPrintWithoutTx fps block;
          deleteFpEx = calcNotConsensusFingerPrint fps block;
          m1 = fold (\<lambda>(_, r). unlink (calcSnapshotFingerPrintWithoutTx fps) deleteFp r) (mg_snapshots m) m;
          m2 = m1\<lparr>mg_snapshots := AList.delete deleteFpEx (AList.delete deleteFp (mg_snapshots m1))\<rparr>
      in fold (collect block) (mg_snapshots m2) m2)"

definition ClearSnapshot :: "fingerprints \<Rightarrow> Block_core \<Rightarrow> ManagerImpl \<Rightarrow> ManagerImpl" where
  "ClearSnapshot fps block m =
     m\<lparr>mg_snapshots := AList.delete (calcNotConsensusFingerPrint fps block)
       (AList.delete (CalcBlockFingerPrintWithoutTx fps block) (mg_snapshots m))\<rparr>"

subsection \<open>The manager of evidence snapshots\<close>

text \<open>An evidence snapshot delegates to an ordinary one, and has a graph without edges.\<close>

definition SnapshotEvidence_BuildDAG :: "bool \<Rightarrow> SnapshotImpl \<Rightarrow> DAG" where
  "SnapshotEvidence_BuildDAG isSql s =
     \<lparr>Vertexes = map (\<lambda>i. Some (if isSql \<and> i \<noteq> 0 then [word_of_nat (i - 1)] else [])) [0..<length (txTable s)]\<rparr>"

definition ManagerEvidence_NewSnapshot ::
    "fingerprints \<Rightarrow> blockchainStore \<Rightarrow> Block_core \<Rightarrow> Block_core \<Rightarrow> ManagerImpl \<Rightarrow> (sref \<times> ManagerImpl) go" where
  "ManagerEvidence_NewSnapshot fps store prevBlock block m =
     new_snapshot store (CalcBlockFingerPrint fps prevBlock) (CalcBlockFingerPrint fps block) block m"

definition ManagerEvidence_GetSnapshot ::
    "fingerprints \<Rightarrow> blockchainStore \<Rightarrow> Block_core \<Rightarrow> Block_core \<Rightarrow> ManagerImpl \<Rightarrow> (sref \<times> ManagerImpl) go" where
  "ManagerEvidence_GetSnapshot fps store prevBlock block m =
     (case map_of (mg_snapshots m) (CalcBlockFingerPrint fps block) of
        None \<Rightarrow> ManagerEvidence_NewSnapshot fps store prevBlock block m
      | Some r \<Rightarrow> Inr (r, m))"

text \<open>Here the predecessor of a snapshot is tested, and the subtraction is of unsigned integers.\<close>

definition collectEvidence :: "fingerprints \<Rightarrow> Block_core \<Rightarrow> sref \<Rightarrow> ManagerImpl \<Rightarrow> ManagerImpl" where
  "collectEvidence fps block r m =
     (case sn_preSnapshot (mg_heap m r) of
        None \<Rightarrow> m
      | Some pre \<Rightarrow>
        if hd_BlockHeight (bk_Header block) - sn_blockHeight (mg_heap m pre) > 8
        then update_snapshot (\<lambda>s. SetPreSnapshot s None) r
          (m\<lparr>mg_snapshots := AList.delete (calcSnapshotFingerPrint fps (mg_heap m pre)) (mg_snapshots m)\<rparr>)
        else m)"

definition ManagerEvidence_NotifyBlockCommitted :: "fingerprints \<Rightarrow> Block_core \<Rightarrow> ManagerImpl \<Rightarrow> ManagerImpl" where
  "ManagerEvidence_NotifyBlockCommitted fps block m =
     (let deleteFp = CalcBlockFingerPrint fps block;
          m1 = fold (\<lambda>(_, r). unlink (calcSnapshotFingerPrint fps) deleteFp r) (mg_snapshots m) m;
          m2 = m1\<lparr>mg_snapshots := AList.delete deleteFp (mg_snapshots m1)\<rparr>
      in fold (\<lambda>(_, r). collectEvidence fps block r) (mg_snapshots m2) m2)"

definition ManagerEvidence_ClearSnapshot :: "fingerprints \<Rightarrow> Block_core \<Rightarrow> ManagerImpl \<Rightarrow> ManagerImpl" where
  "ManagerEvidence_ClearSnapshot fps block m = ClearSnapshot fps block m"

subsection \<open>Chains of snapshots\<close>

text \<open>A snapshot is linked to an older one only, so that a search along the links ends.\<close>

definition linked_back :: "ManagerImpl \<Rightarrow> bool" where
  "linked_back m \<longleftrightarrow> (\<forall>(fp, r) \<in> set (mg_snapshots m). r < mg_next m) \<and>
     (\<forall>r < mg_next m. \<forall>p. sn_preSnapshot (mg_heap m r) = Some p \<longrightarrow> p < r)"

lemma linked_back_new: "linked_back (NewSnapshotManager hp)"
  by (simp add: linked_back_def NewSnapshotManager_def)

lemma set_delete_sub: "set (AList.delete k al) \<subseteq> set al"
  by (induction al) auto

lemma linked_back_new_snapshot:
  assumes ok: "linked_back m" and run: "new_snapshot store prevFp fp block m = Inr (r, m')" and ne: "prevFp \<noteq> fp"
  shows "linked_back m'"
proof -
  obtain s where s: "makeSnapshotImpl store block = Some s" using run by (auto simp: new_snapshot_def elim!: go_bind_InrE)
  then have pre: "sn_preSnapshot s = None" by (auto simp: makeSnapshotImpl_def Let_def split: option.splits)
  have prev: "p < mg_next m" if "map_of (mg_snapshots m) prevFp = Some p" for p
    using ok map_of_SomeD [OF that] by (auto simp: linked_back_def)
  have "set (mg_snapshots m') \<subseteq> insert (fp, mg_next m) (set (mg_snapshots m))" and "mg_next m' = Suc (mg_next m)"
    using run s set_update_sub [of fp "mg_next m" "mg_snapshots m"]
    by (auto simp: new_snapshot_def Let_def storeAndLinkSnapshotImpl_def update_snapshot_def split: option.splits)
  moreover have "p < r'" if "r' < mg_next m'" "sn_preSnapshot (mg_heap m' r') = Some p" for r' p
    using that run s ok ne pre prev
    by (auto simp: new_snapshot_def Let_def storeAndLinkSnapshotImpl_def update_snapshot_def linked_back_def
        SetPreSnapshot_def SetBlockFingerprint_def less_Suc_eq split: option.splits if_splits)
  ultimately show ?thesis using ok by (fastforce simp: linked_back_def)
qed

text \<open>The other operations only remove entries and links.\<close>

definition fewer :: "ManagerImpl \<Rightarrow> ManagerImpl \<Rightarrow> bool" where
  "fewer m m' \<longleftrightarrow> set (mg_snapshots m') \<subseteq> set (mg_snapshots m) \<and> mg_next m' = mg_next m \<and>
     (\<forall>r. sn_preSnapshot (mg_heap m' r) = sn_preSnapshot (mg_heap m r) \<or> sn_preSnapshot (mg_heap m' r) = None)"

lemma fewer_refl [simp]: "fewer m m"
  by (simp add: fewer_def)

lemma fewer_trans: "fewer a b \<Longrightarrow> fewer b c \<Longrightarrow> fewer a c"
  unfolding fewer_def by (metis subset_trans)

lemma fewer_linked_back: "fewer m m' \<Longrightarrow> linked_back m \<Longrightarrow> linked_back m'"
proof -
  assume f: "fewer m m'" and ok: "linked_back m"
  have "p < r" if "r < mg_next m'" "sn_preSnapshot (mg_heap m' r) = Some p" for r p
  proof -
    have "sn_preSnapshot (mg_heap m r) = Some p" using f that(2) unfolding fewer_def by (metis option.distinct(1))
    then show ?thesis using f ok that(1) by (simp add: fewer_def linked_back_def)
  qed
  then show "linked_back m'" using f ok by (auto simp: fewer_def linked_back_def)
qed

lemma fewer_unlink: "fewer m (update_snapshot (\<lambda>s. SetPreSnapshot s None) r m)"
  by (simp add: fewer_def update_snapshot_def SetPreSnapshot_def)

lemma fewer_delete: "fewer m (m\<lparr>mg_snapshots := AList.delete k (mg_snapshots m)\<rparr>)"
  using set_delete_sub by (fastforce simp: fewer_def)

lemma fewer_fold: "(\<And>x m. fewer m (f x m)) \<Longrightarrow> fewer m (fold f xs m)"
  by (induction xs arbitrary: m) (auto intro: fewer_trans)

lemma fewer_step:
  "fewer m (unlink fpOf fp r m)" "fewer m (collect block p m)" "fewer m (collectEvidence fps block r m)"
  by (auto simp: unlink_def collect_def collectEvidence_def fewer_unlink intro: fewer_trans [OF fewer_delete fewer_unlink]
      split: option.split prod.split)

lemma fewer_ops:
  "fewer m (NotifyBlockCommitted fps block m)" "fewer m (ClearSnapshot fps block m)"
  "fewer m (ManagerEvidence_NotifyBlockCommitted fps block m)" "fewer m (ManagerEvidence_ClearSnapshot fps block m)"
proof -
  have del2: "fewer m (m\<lparr>mg_snapshots := AList.delete k (AList.delete k' (mg_snapshots m))\<rparr>)" for k k' m
    using fewer_trans [OF fewer_delete [of m k'] fewer_delete [of _ k]] by simp
  have unl: "fewer m (fold (\<lambda>(_, r). unlink fpOf fp r) xs m)" for fpOf fp m and xs :: "(string \<times> sref) list"
    by (rule fewer_fold) (auto simp: fewer_step split: prod.split)
  have col: "fewer m (fold (\<lambda>(_, r). collectEvidence fps block r) xs m)" for m and xs :: "(string \<times> sref) list"
    by (rule fewer_fold) (auto simp: fewer_step split: prod.split)
  show "fewer m (NotifyBlockCommitted fps block m)"
    unfolding NotifyBlockCommitted_def Let_def
    by (intro fewer_trans [OF fewer_trans [OF unl del2] fewer_fold]) (rule fewer_step)
  show "fewer m (ManagerEvidence_NotifyBlockCommitted fps block m)"
    unfolding ManagerEvidence_NotifyBlockCommitted_def Let_def
    by (rule fewer_trans [OF fewer_trans [OF unl fewer_delete] col])
  show "fewer m (ClearSnapshot fps block m)" "fewer m (ManagerEvidence_ClearSnapshot fps block m)"
    by (simp_all add: ClearSnapshot_def ManagerEvidence_ClearSnapshot_def del2)
qed

text \<open>Applying a transaction to a snapshot, or sealing it, leaves its link.\<close>

lemma ApplyTxSimContext_link:
  "ApplyTxSimContext s0 sim ty ok special s = Inr (applied, n, s') \<Longrightarrow> sn_preSnapshot s' = sn_preSnapshot s"
  by (auto simp: ApplyTxSimContext_def applyNormalTxSimContext_def applyIteratorFirstRun_def applyIteratorSecondRun_def
      applyGasTxSimContext_def applyOptimize_def append_tx_def IsSealed_def deref_def Let_def
      split: if_splits option.splits prod.splits)

lemma Seal_link: "Seal s = Inr s' \<Longrightarrow> sn_preSnapshot s' = sn_preSnapshot s"
  by (auto simp: Seal_def deref_def split: option.splits)

lemma fewer_same_link: "sn_preSnapshot s' = sn_preSnapshot (mg_heap m r) \<Longrightarrow> fewer m (update_snapshot (\<lambda>_. s') r m)"
  by (simp add: fewer_def update_snapshot_def)

subsection \<open>The value of a key along a chain\<close>

fun is_chain :: "snapshots \<Rightarrow> sref option \<Rightarrow> sref list \<Rightarrow> bool" where
  "is_chain hp None rs \<longleftrightarrow> rs = []"
| "is_chain hp (Some r) [] \<longleftrightarrow> False"
| "is_chain hp (Some r) (r' # rs) \<longleftrightarrow> r = r' \<and> is_chain hp (sn_preSnapshot (hp r)) rs"

text \<open>The first snapshot of the chain that has the key decides, and the store if none has it.\<close>

primrec chain_value :: "snapshots \<Rightarrow> blockchainStore \<Rightarrow> string \<Rightarrow> gobytes \<Rightarrow> sref list \<Rightarrow> gobytes option" where
  "chain_value hp store c k [] = st_ReadObject store c (bytes_content k)"
| "chain_value hp store c k (r # rs) =
     (case localKey (hp r) (constructKey c k) of Some v \<Rightarrow> Some v | None \<Rightarrow> chain_value hp store c k rs)"

lemma findKey_chain:
  assumes "is_chain hp iter rs"
  shows "findKey hp store c k False iter = Some (chain_value hp store c k rs)"
  using assms
proof (induction rs arbitrary: iter)
  case Nil
  then have "iter = None" by (cases iter) simp_all
  then show ?case by (subst findKey.simps) simp
next
  case (Cons r rs)
  then have iter: "iter = Some r" and pre: "is_chain hp (sn_preSnapshot (hp r)) rs" by (cases iter; simp)+
  note rest = Cons.IH [OF pre]
  have "findKey hp store c k True (Some r) = Some (chain_value hp store c k (r # rs))"
    by (subst findKey.simps) (simp add: rest split: option.split)
  then show ?case unfolding iter
    by (subst findKey.simps) (simp add: rest split: option.split)
qed

lemma GetKey_chain:
  assumes "is_chain hp (Some r) rs"
  shows "GetKey hp store r c k = Some (chain_value hp store c k rs)"
proof -
  obtain rs' where rs: "rs = r # rs'" and pre: "is_chain hp (sn_preSnapshot (hp r)) rs'" using assms by (cases rs) simp_all
  show ?thesis unfolding GetKey_def rs
    by (subst findKey.simps) (simp add: findKey_chain [OF pre] split: option.split)
qed

lemma chain_exists:
  assumes ok: "linked_back m"
  shows "r < mg_next m \<Longrightarrow> \<exists>rs. is_chain (mg_heap m) (Some r) rs"
proof (induction r rule: less_induct)
  case (less r)
  show ?case
  proof (cases "sn_preSnapshot (mg_heap m r)")
    case None
    then show ?thesis by (intro exI [of _ "[r]"]) simp
  next
    case (Some p)
    then have "p < r" using ok less.prems by (simp add: linked_back_def)
    then obtain rs where "is_chain (mg_heap m) (Some p) rs" using less by auto
    then show ?thesis using Some by (intro exI [of _ "r # rs"]) simp
  qed
qed

end
