(* ===== verification/Dag_Scheduler.thy ===== *)
theory Dag_Scheduler
  imports Snapshot_Dag
begin

section \<open>Execution along the dependency graph (module/core/common/scheduler/scheduler.go)\<close>

text \<open>
  A verifier executes the transactions of a block along the graph of the block: a transaction is
  started when all its neighbours are done. The bookkeeping is \<open>initSimulateDag\<close> and
  \<open>shrinkDag\<close>; the goroutines of \<open>SimulateWithDag\<close> are the step relation \<open>sim_step\<close>. The graph
  of the transactions that are executed one by one after the others (iterator and gas
  transactions) is appended to it; the proposer does so while executing them, the verifier in one
  go (\<open>appendSpecialTxsToDag\<close>), and compares the graphs (\<open>compareDag\<close>).
\<close>

datatype dagError = NilNeighbor | NotIncreasing | NeighborNotBefore

subsection \<open>Reading the graph\<close>

record simDag =
  txIndexBatch :: "nat list"
  dagRemain :: "nat \<rightharpoonup> nat set"
  reverseDagRemain :: "nat \<Rightarrow> nat list"

definition add_reverse :: "nat \<Rightarrow> nat \<Rightarrow> (nat \<Rightarrow> nat list) \<Rightarrow> nat \<Rightarrow> nat list" where
  "add_reverse neighbor txIndex reverse =
     (if txIndex \<in> set (reverse neighbor) then reverse else reverse(neighbor := reverse neighbor @ [txIndex]))"

text \<open>The loop over the neighbours of a vertex: \<open>prev\<close> is the neighbour before, if any.\<close>

primrec readNeighbors ::
    "nat \<Rightarrow> u32 option \<Rightarrow> u32 list \<Rightarrow> nat set \<Rightarrow> (nat \<Rightarrow> nat list) \<Rightarrow> dagError + nat set \<times> (nat \<Rightarrow> nat list)" where
  "readNeighbors txIndex prev [] dn reverse = Inr (dn, reverse)"
| "readNeighbors txIndex prev (neighbor # ns) dn reverse =
     (if (case prev of None \<Rightarrow> False | Some p \<Rightarrow> p \<ge> neighbor) then Inl NotIncreasing
      else if unat neighbor \<ge> txIndex then Inl NeighborNotBefore
      else readNeighbors txIndex (Some neighbor) ns (insert (unat neighbor) dn) (add_reverse (unat neighbor) txIndex reverse))"

definition readVertex :: "nat \<Rightarrow> u32 list option \<Rightarrow> simDag \<Rightarrow> dagError + simDag" where
  "readVertex txIndex vertex d =
     (case vertex of
        None \<Rightarrow> Inl NilNeighbor
      | Some [] \<Rightarrow> Inr (d\<lparr>txIndexBatch := txIndexBatch d @ [txIndex]\<rparr>)
      | Some ns \<Rightarrow>
        (case readNeighbors txIndex None ns {} (reverseDagRemain d) of
           Inl e \<Rightarrow> Inl e
         | Inr (dn, reverse) \<Rightarrow> Inr (d\<lparr>dagRemain := (dagRemain d)(txIndex \<mapsto> dn), reverseDagRemain := reverse\<rparr>)))"

primrec readVertexes :: "nat \<Rightarrow> u32 list option list \<Rightarrow> simDag \<Rightarrow> dagError + simDag" where
  "readVertexes txIndex [] d = Inr d"
| "readVertexes txIndex (v # vs) d =
     (case readVertex txIndex v d of Inl e \<Rightarrow> Inl e | Inr d1 \<Rightarrow> readVertexes (Suc txIndex) vs d1)"

definition initSimulateDag :: "DAG \<Rightarrow> dagError + simDag" where
  "initSimulateDag dag =
     readVertexes 0 (Vertexes dag) \<lparr>txIndexBatch = [], dagRemain = Map.empty, reverseDagRemain = (\<lambda>_. [])\<rparr>"

text \<open>
  A vertex \<open>k\<close> that waits for \<open>txIndex\<close> waits for it no longer, and is ready when it waits for
  none; a vertex without entry has an empty set of neighbours.
\<close>

definition shrink :: "nat \<Rightarrow> nat \<Rightarrow> nat list \<times> (nat \<rightharpoonup> nat set) \<Rightarrow> nat list \<times> (nat \<rightharpoonup> nat set)" where
  "shrink txIndex k acc =
     (case acc of (batch, remain) \<Rightarrow>
        let left = (case remain k of None \<Rightarrow> {} | Some dn \<Rightarrow> dn - {txIndex})
        in if left = {} then (batch @ [k], remain(k := None)) else (batch, remain(k \<mapsto> left)))"

definition shrinkDag :: "nat \<Rightarrow> simDag \<Rightarrow> simDag" where
  "shrinkDag txIndex d =
     (let (batch, remain) = fold (shrink txIndex) (reverseDagRemain d txIndex) ([], dagRemain d)
      in d\<lparr>txIndexBatch := batch, dagRemain := remain, reverseDagRemain := (reverseDagRemain d)(txIndex := [])\<rparr>)"

subsection \<open>The loop of SimulateWithDag\<close>

text \<open>
  The channels, the transactions in the pool, and what the loop has done: \<open>sim_started\<close> and
  \<open>sim_done\<close> list the transactions in the order in which they were submitted and shrunk.
\<close>

record simLoop =
  sim_dag :: simDag
  sim_running :: "nat list"
  sim_pool :: "nat list"
  sim_results :: "(nat \<times> bool \<times> nat) list"
  sim_failed :: nat
  sim_finish :: bool
  sim_returned :: bool
  sim_started :: "nat list"
  sim_done :: "nat list"

definition sim_init :: "simDag \<Rightarrow> simLoop" where
  "sim_init d =
     \<lparr>sim_dag = d, sim_running = txIndexBatch d, sim_pool = [], sim_results = [], sim_failed = 0, sim_finish = False,
      sim_returned = False, sim_started = [], sim_done = []\<rparr>"

definition sim_submit :: "simLoop \<Rightarrow> simLoop option" where
  "sim_submit l =
     (if sim_returned l then None
      else case sim_running l of [] \<Rightarrow> None
        | tx # rest \<Rightarrow> Some (l\<lparr>sim_running := rest, sim_pool := sim_pool l @ [tx], sim_started := sim_started l @ [tx]\<rparr>))"

text \<open>A goroutine of the pool ends and sends whether the transaction was applied, and the number of applied ones.\<close>

definition sim_report :: "nat \<Rightarrow> bool \<Rightarrow> nat \<Rightarrow> simLoop \<Rightarrow> simLoop option" where
  "sim_report tx applied applySize l =
     (if tx \<in> set (sim_pool l)
      then Some (l\<lparr>sim_pool := remove1 tx (sim_pool l), sim_results := sim_results l @ [(tx, applied, applySize)]\<rparr>)
      else None)"

definition sim_result :: "nat \<Rightarrow> simLoop \<Rightarrow> simLoop option" where
  "sim_result txBatchSize l =
     (if sim_returned l then None
      else case sim_results l of [] \<Rightarrow> None
        | (tx, applied, applySize) # rest \<Rightarrow>
          (let failed = (if applied then sim_failed l else sim_failed l + 1);
               d = shrinkDag tx (sim_dag l)
           in Some (l\<lparr>sim_results := rest, sim_failed := failed, sim_dag := d,
                sim_running := sim_running l @ txIndexBatch d, sim_done := sim_done l @ [tx],
                sim_finish := sim_finish l \<or> applySize + failed \<ge> txBatchSize\<rparr>)))"

text \<open>The loop returns on the finish signal, and at any time on the timeout.\<close>

inductive sim_step :: "nat \<Rightarrow> simLoop \<Rightarrow> simLoop \<Rightarrow> bool" for txBatchSize where
  ss_submit: "sim_submit l = Some l' \<Longrightarrow> sim_step txBatchSize l l'"
| ss_report: "sim_report tx applied applySize l = Some l' \<Longrightarrow> sim_step txBatchSize l l'"
| ss_result: "sim_result txBatchSize l = Some l' \<Longrightarrow> sim_step txBatchSize l l'"
| ss_finish: "sim_finish l \<Longrightarrow> sim_step txBatchSize l (l\<lparr>sim_returned := True\<rparr>)"
| ss_timeout: "sim_step txBatchSize l (l\<lparr>sim_returned := True\<rparr>)"

inductive_cases sim_stepE: "sim_step n l l'"

inductive sim_reach :: "DAG \<Rightarrow> simLoop \<Rightarrow> bool" for dag where
  sr_init: "initSimulateDag dag = Inr d \<Longrightarrow> sim_reach dag (sim_init d)"
| sr_step: "sim_reach dag l \<Longrightarrow> sim_step (length (Vertexes dag)) l l' \<Longrightarrow> sim_reach dag l'"

subsection \<open>The transactions after the others\<close>

definition appendSpecialTxsToDag :: "DAG \<Rightarrow> u32 \<Rightarrow> DAG" where
  "appendSpecialTxsToDag dag specialCount =
     (let normalCount = word_of_nat (length (Vertexes dag)) :: u32;
          first = map word_of_nat [0..<unat normalCount];
          others = map (\<lambda>i. Some [normalCount + word_of_nat i - 1]) [1..<unat specialCount]
      in \<lparr>Vertexes = Vertexes dag @ Some first # others\<rparr>)"

text \<open>The vertex that \<open>simulateSpecialTxs\<close> appends after it has applied a transaction.\<close>

definition appendSpecialTx :: "bool \<Rightarrow> nat \<Rightarrow> DAG \<Rightarrow> DAG" where
  "appendSpecialTx isFirst snapshotSize dag =
     \<lparr>Vertexes = Vertexes dag @ [Some
       (if isFirst then map word_of_nat [0..<u32n (snapshotSize - 1)] else [word_of_nat snapshotSize - 2])]\<rparr>"

text \<open>The special transactions are applied one after the other; each grows the snapshot by one.\<close>

primrec appendSpecialTxs :: "bool \<Rightarrow> nat \<Rightarrow> nat \<Rightarrow> DAG \<Rightarrow> DAG" where
  "appendSpecialTxs isFirst snapshotSize 0 dag = dag"
| "appendSpecialTxs isFirst snapshotSize (Suc k) dag =
     appendSpecialTxs False (Suc snapshotSize) k (appendSpecialTx isFirst (Suc snapshotSize) dag)"

definition appendChargeGasTxToDAG :: "DAG \<Rightarrow> SnapshotImpl \<Rightarrow> DAG" where
  "appendChargeGasTxToDAG dag s =
     \<lparr>Vertexes = Vertexes dag @ [Some (map word_of_nat [0..<u32n (GetSnapshotSize s - 1)])]\<rparr>"

subsection \<open>Comparing graphs\<close>

datatype compareError =
    NoExecOrderType | UnexpectedChargeGas | ChargeGasCount | TableSize | DagEqualFailed | DagNotEqual

record typeCounts =
  cnt_normal :: nat
  cnt_iterator :: nat
  cnt_chargeGas :: nat

primrec countTypes ::
    "nat \<Rightarrow> (string \<rightharpoonup> ExecOrderTxType) \<Rightarrow> nat \<Rightarrow> Transaction list \<Rightarrow> typeCounts \<Rightarrow> compareError + typeCounts" where
  "countTypes txCount types i [] c = Inr c"
| "countTypes txCount types i (tx # txs) c =
     (case types (tx_TxId tx) of
        None \<Rightarrow> Inl NoExecOrderType
      | Some ExecOrderTxTypeNormal \<Rightarrow>
          if cnt_iterator c = 0 then countTypes txCount types (Suc i) txs (c\<lparr>cnt_normal := cnt_normal c + 1\<rparr>)
          else countTypes txCount types (Suc i) txs (c\<lparr>cnt_iterator := cnt_iterator c + 1\<rparr>)
      | Some ExecOrderTxTypeIterator \<Rightarrow> countTypes txCount types (Suc i) txs (c\<lparr>cnt_iterator := cnt_iterator c + 1\<rparr>)
      | Some ExecOrderTxTypeChargeGas \<Rightarrow>
          if u32n (i + 1) \<noteq> u32n txCount then Inl UnexpectedChargeGas
          else countTypes txCount types (Suc i) txs (c\<lparr>cnt_chargeGas := cnt_chargeGas c + 1\<rparr>))"

definition verifyExecOrderTxType ::
    "bool \<Rightarrow> Transaction list \<Rightarrow> (string \<rightharpoonup> ExecOrderTxType) \<Rightarrow> compareError + typeCounts" where
  "verifyExecOrderTxType optimizeChargeGas txs types =
     (case countTypes (length txs) types 0 txs \<lparr>cnt_normal = 0, cnt_iterator = 0, cnt_chargeGas = 0\<rparr> of
        Inl e \<Rightarrow> Inl e
      | Inr c \<Rightarrow>
        if (optimizeChargeGas \<and> cnt_chargeGas c \<noteq> 1) \<or> (\<not> optimizeChargeGas \<and> cnt_chargeGas c \<noteq> 0)
        then Inl ChargeGasCount else Inr c)"

text \<open>
  \<open>RearrangeRWSet\<close> (the read and write sets in the order of the block) and \<open>IsDagEqual\<close> are
  outside the repository.
\<close>

definition compareDag ::
    "('b, 'm) bitmap_scheme \<Rightarrow> (Block_core \<Rightarrow> (string \<rightharpoonup> TxRWSet) \<Rightarrow> TxRWSet list) \<Rightarrow> (DAG \<Rightarrow> DAG \<Rightarrow> bool option)
      \<Rightarrow> bool \<Rightarrow> bool \<Rightarrow> Block_core \<Rightarrow> DAG \<Rightarrow> SnapshotImpl \<Rightarrow> (string \<rightharpoonup> TxRWSet) \<Rightarrow> (string \<rightharpoonup> ExecOrderTxType)
      \<Rightarrow> compareError option go" where
  "compareDag bm RearrangeRWSet IsDagEqual isSql optimizeChargeGas block blockDag s txRWSetMap types =
     (if hd_BlockVersion (bk_Header block) < 2300 then Inr None
      else
        (case verifyExecOrderTxType optimizeChargeGas (bk_Txs block) types of
           Inl e \<Rightarrow> Inr (Some e)
         | Inr c \<Rightarrow>
           let table = RearrangeRWSet block txRWSetMap
           in if u32n (length table) \<noteq> u32n (cnt_normal c + cnt_iterator c + cnt_chargeGas c) then Inr (Some TableSize)
              else
                go_bind (BuildDAG bm isSql (Some (take (cnt_normal c) table)) s) (\<lambda>dag.
                  let dag1 = (if cnt_iterator c > 0 then appendSpecialTxsToDag dag (word_of_nat (cnt_iterator c)) else dag);
                      dag2 = (if optimizeChargeGas \<and> GetSnapshotSize s > 0 then appendChargeGasTxToDAG dag1 s else dag1)
                  in Inr (case IsDagEqual blockDag dag2 of
                       None \<Rightarrow> Some DagEqualFailed
                     | Some equal \<Rightarrow> if equal then None else Some DagNotEqual))))"

subsection \<open>A graph that is read\<close>

definition nbrs :: "DAG \<Rightarrow> nat \<Rightarrow> nat set" where
  "nbrs dag i = (case Vertexes dag ! i of None \<Rightarrow> {} | Some ns \<Rightarrow> unat ` set ns)"

definition valid_dag :: "DAG \<Rightarrow> bool" where
  "valid_dag dag \<longleftrightarrow> (\<forall>i < length (Vertexes dag). \<exists>ns. Vertexes dag ! i = Some ns \<and> sorted_wrt (<) ns \<and> (\<forall>w \<in> set ns. unat w < i))"

lemma set_add_reverse [simp]:
  "set (add_reverse j i reverse k) = (if k = j then insert i (set (reverse k)) else set (reverse k))"
  "distinct (add_reverse j i reverse k) \<longleftrightarrow> distinct (reverse k)"
  by (auto simp: add_reverse_def)

lemma readNeighbors_Inr:
  assumes "readNeighbors i prev ns dn reverse = Inr (dn', reverse')"
  shows "sorted_wrt (<) (case prev of None \<Rightarrow> ns | Some p \<Rightarrow> p # ns) \<and> (\<forall>w \<in> set ns. unat w < i) \<and> dn' = dn \<union> unat ` set ns \<and>
    (\<forall>k. set (reverse' k) = set (reverse k) \<union> (if k \<in> unat ` set ns then {i} else {}) \<and> (distinct (reverse' k) \<longleftrightarrow> distinct (reverse k)))"
  using assms
proof (induction ns arbitrary: prev dn reverse)
  case Nil
  then show ?case by (simp split: option.splits)
next
  case (Cons w ns)
  have prev: "\<forall>p. prev = Some p \<longrightarrow> p < w" and w: "unat w < i"
    and rest: "readNeighbors i (Some w) ns (insert (unat w) dn) (add_reverse (unat w) i reverse) = Inr (dn', reverse')"
    using Cons.prems by (auto split: if_splits option.splits)
  note ih = Cons.IH [OF rest]
  have "sorted_wrt (<) (case prev of None \<Rightarrow> w # ns | Some p \<Rightarrow> p # w # ns)"
    using ih prev by (auto split: option.split)
  then show ?case using ih w by auto
qed

lemma readNeighbors_ok:
  assumes "sorted_wrt (<) (case prev of None \<Rightarrow> ns | Some p \<Rightarrow> p # ns)" and "\<forall>w \<in> set ns. unat w < i"
  shows "\<exists>r. readNeighbors i prev ns dn reverse = Inr r"
  using assms
proof (induction ns arbitrary: prev dn reverse)
  case (Cons w ns)
  then have "\<exists>r. readNeighbors i (Some w) ns (insert (unat w) dn) (add_reverse (unat w) i reverse) = Inr r"
    by (intro Cons.IH) (auto split: option.splits)
  moreover have "\<not> (case prev of None \<Rightarrow> False | Some p \<Rightarrow> w \<le> p)" using Cons.prems(1) by (auto split: option.splits)
  ultimately show ?case using Cons.prems(2) by auto
qed simp

text \<open>The bookkeeping after the first \<open>m\<close> vertices.\<close>

definition dag_read :: "DAG \<Rightarrow> nat \<Rightarrow> simDag \<Rightarrow> bool" where
  "dag_read dag m d \<longleftrightarrow>
     txIndexBatch d = filter (\<lambda>i. nbrs dag i = {}) [0..<m] \<and>
     (\<forall>i. dagRemain d i = (if i < m \<and> nbrs dag i \<noteq> {} then Some (nbrs dag i) else None)) \<and>
     (\<forall>k. distinct (reverseDagRemain d k) \<and> set (reverseDagRemain d k) = {i. i < m \<and> k \<in> nbrs dag i})"

lemma readVertex_read:
  assumes "readVertex m (Vertexes dag ! m) d = Inr d'" and "dag_read dag m d"
  shows "dag_read dag (Suc m) d' \<and> (\<exists>ns. Vertexes dag ! m = Some ns \<and> sorted_wrt (<) ns \<and> (\<forall>w \<in> set ns. unat w < m))"
proof -
  obtain ns where ns: "Vertexes dag ! m = Some ns" using assms(1) by (auto simp: readVertex_def split: option.splits)
  have nb: "nbrs dag m = unat ` set ns" by (simp add: nbrs_def ns)
  show ?thesis
  proof (cases ns)
    case Nil
    then have "d' = d\<lparr>txIndexBatch := txIndexBatch d @ [m]\<rparr>" using assms(1) ns by (simp add: readVertex_def)
    then show ?thesis using assms(2) Nil nb ns by (auto simp: dag_read_def less_Suc_eq)
  next
    case (Cons w ws)
    then obtain dn reverse where run: "readNeighbors m None ns {} (reverseDagRemain d) = Inr (dn, reverse)"
      and d': "d' = d\<lparr>dagRemain := (dagRemain d)(m \<mapsto> dn), reverseDagRemain := reverse\<rparr>"
      using assms(1) ns by (auto simp: readVertex_def simp del: readNeighbors.simps split: sum.splits)
    note r = readNeighbors_Inr [OF run, simplified]
    have "nbrs dag m \<noteq> {}" using nb Cons by simp
    then show ?thesis using assms(2) r nb ns d' by (auto simp: dag_read_def less_Suc_eq)
  qed
qed

lemma readVertexes_read:
  assumes "readVertexes m (drop m (Vertexes dag)) d = Inr d'" and "dag_read dag m d" and "m \<le> length (Vertexes dag)"
  shows "dag_read dag (length (Vertexes dag)) d' \<and>
    (\<forall>i. m \<le> i \<and> i < length (Vertexes dag) \<longrightarrow> (\<exists>ns. Vertexes dag ! i = Some ns \<and> sorted_wrt (<) ns \<and> (\<forall>w \<in> set ns. unat w < i)))"
  using assms
proof (induction "length (Vertexes dag) - m" arbitrary: m d)
  case 0
  then show ?case by auto
next
  case (Suc x)
  then have m: "m < length (Vertexes dag)" by simp
  then have drop: "drop m (Vertexes dag) = Vertexes dag ! m # drop (Suc m) (Vertexes dag)" by (simp add: Cons_nth_drop_Suc)
  then obtain d1 where d1: "readVertex m (Vertexes dag ! m) d = Inr d1" "readVertexes (Suc m) (drop (Suc m) (Vertexes dag)) d1 = Inr d'"
    using Suc.prems(1) by (auto split: sum.splits)
  note step = readVertex_read [OF d1(1) Suc.prems(2)]
  have "x = length (Vertexes dag) - Suc m" using Suc.hyps(2) by simp
  from Suc.hyps(1) [OF this d1(2)] step m show ?case by (metis Suc_leI le_antisym not_less_eq_eq)
qed

lemma initSimulateDag_read:
  assumes "initSimulateDag dag = Inr d"
  shows "dag_read dag (length (Vertexes dag)) d" and "valid_dag dag"
  using readVertexes_read [of 0 dag "\<lparr>txIndexBatch = [], dagRemain = Map.empty, reverseDagRemain = (\<lambda>_. [])\<rparr>" d] assms
  by (auto simp: initSimulateDag_def dag_read_def valid_dag_def)

lemma readVertexes_ok:
  assumes "\<forall>i < length vs. \<exists>ns. vs ! i = Some ns \<and> sorted_wrt (<) ns \<and> (\<forall>w \<in> set ns. unat w < m + i)"
  shows "\<exists>d'. readVertexes m vs d = Inr d'"
  using assms
proof (induction vs arbitrary: m d)
  case (Cons v vs)
  obtain ns where ns: "v = Some ns" "sorted_wrt (<) ns" "\<forall>w \<in> set ns. unat w < m" using Cons.prems by force
  then obtain r where "readNeighbors m None ns {} (reverseDagRemain d) = Inr r" using readNeighbors_ok [where prev = None and ns = ns and i = m] by force
  then have "\<exists>d1. readVertex m v d = Inr d1" using ns(1)
    by (cases ns) (auto simp: readVertex_def simp del: readNeighbors.simps split: prod.split)
  moreover have "\<exists>d'. readVertexes (Suc m) vs d1 = Inr d'" for d1
    using Cons.prems by (intro Cons.IH) force
  ultimately show ?case by auto
qed simp

lemma initSimulateDag_ok: "valid_dag dag \<Longrightarrow> \<exists>d. initSimulateDag dag = Inr d"
  unfolding initSimulateDag_def by (rule readVertexes_ok) (auto simp: valid_dag_def)

subsection \<open>The loop runs every transaction once, after its neighbours\<close>

abbreviation sim_waiting :: "simLoop \<Rightarrow> nat set" where
  "sim_waiting l \<equiv> dom (dagRemain (sim_dag l))"

definition sim_active :: "simLoop \<Rightarrow> nat multiset" where
  "sim_active l = mset (sim_pool l) + mset (map fst (sim_results l)) + mset (sim_done l)"

text \<open>
  Every transaction is in one place: it waits, it is queued, in the pool, reported or done. What
  waits has neighbours that are not done; what does not wait has only neighbours that are done.
\<close>

definition sim_inv :: "DAG \<Rightarrow> simLoop \<Rightarrow> bool" where
  "sim_inv dag l \<longleftrightarrow> (let n = length (Vertexes dag) in
     finite (sim_waiting l) \<and>
     mset_set (sim_waiting l) + mset (sim_running l) + sim_active l = mset_set {0..<n} \<and>
     mset (sim_started l) = sim_active l \<and>
     (\<forall>i \<in> sim_waiting l. dagRemain (sim_dag l) i = Some (nbrs dag i - set (sim_done l)) \<and> nbrs dag i - set (sim_done l) \<noteq> {}) \<and>
     (\<forall>i \<in># mset (sim_running l) + sim_active l. nbrs dag i \<subseteq> set (sim_done l)) \<and>
     (\<forall>k. k \<notin> set (sim_done l) \<longrightarrow> distinct (reverseDagRemain (sim_dag l) k) \<and>
        set (reverseDagRemain (sim_dag l) k) = {i. i < n \<and> k \<in> nbrs dag i}))"

lemma sim_inv_init:
  assumes "initSimulateDag dag = Inr d"
  shows "sim_inv dag (sim_init d)"
proof -
  let ?n = "length (Vertexes dag)"
  have r: "dag_read dag ?n d" using initSimulateDag_read [OF assms] by simp
  have dom: "dom (dagRemain d) = {i. i < ?n \<and> nbrs dag i \<noteq> {}}" using r by (auto simp: dag_read_def split: if_splits)
  have batch: "mset (txIndexBatch d) = mset_set {i. i < ?n \<and> nbrs dag i = {}}"
    using r by (simp add: dag_read_def mset_filter mset_upt filter_mset_mset_set)
  have split: "{0..<?n} = {i. i < ?n \<and> nbrs dag i \<noteq> {}} \<union> {i. i < ?n \<and> nbrs dag i = {}}" by auto
  have "mset_set (dom (dagRemain d)) + mset (txIndexBatch d) = mset_set {0..<?n}"
    unfolding dom batch split by (rule mset_set_Union [symmetric]) auto
  then show ?thesis using r dom by (auto simp: sim_inv_def sim_init_def sim_active_def dag_read_def Let_def)
qed

text \<open>The fold of \<open>shrinkDag\<close> over the transactions that wait for \<open>tx\<close>.\<close>

lemma shrink_fold:
  fixes tx :: nat
  assumes "distinct ks" and "\<forall>k \<in> set ks. \<exists>dn. remain k = Some dn"
  defines "left \<equiv> \<lambda>k. the (remain k) - {tx}"
  shows "fold (shrink tx) ks (batch, remain) =
    (batch @ filter (\<lambda>k. left k = {}) ks,
     \<lambda>k. if k \<in> set ks then (if left k = {} then None else Some (left k)) else remain k)"
  unfolding left_def using assms(1,2)
proof (induction ks arbitrary: batch remain)
  case (Cons a ks)
  obtain dn where dn: "remain a = Some dn" using Cons.prems(2) by auto
  let ?r = "if dn - {tx} = {} then remain(a := None) else remain(a \<mapsto> dn - {tx})"
  have same: "k \<noteq> a \<Longrightarrow> ?r k = remain k" for k by auto
  have "\<forall>k \<in> set ks. \<exists>dn. ?r k = Some dn" using Cons.prems same by (metis distinct.simps(2) list.set_intros(2))
  note ih = Cons.IH [OF _ this]
  have flt: "filter (\<lambda>k. the (?r k) - {tx} = {}) ks = filter (\<lambda>k. the (remain k) - {tx} = {}) ks"
    using Cons.prems(1) by (intro filter_cong) auto
  have "fold (shrink tx) (a # ks) (batch, remain) =
      fold (shrink tx) ks (if dn - {tx} = {} then batch @ [a] else batch, ?r)"
    by (simp add: shrink_def dn Let_def)
  also have "\<dots> = ((if dn - {tx} = {} then batch @ [a] else batch) @ filter (\<lambda>k. the (remain k) - {tx} = {}) ks,
      \<lambda>k. if k \<in> set ks then (if the (?r k) - {tx} = {} then None else Some (the (?r k) - {tx})) else ?r k)"
    using ih Cons.prems(1) unfolding flt by simp
  also have "\<dots> = (batch @ filter (\<lambda>k. the (remain k) - {tx} = {}) (a # ks),
      \<lambda>k. if k \<in> set (a # ks) then (if the (remain k) - {tx} = {} then None else Some (the (remain k) - {tx})) else remain k)"
    using Cons.prems(1) dn by (auto simp: fun_eq_iff)
  finally show ?case .
qed simp

lemma sim_place:
  assumes "sim_inv dag l"
  shows "(if i \<in> sim_waiting l then 1 else 0) + count (mset (sim_running l)) i + count (sim_active l) i =
    (if i < length (Vertexes dag) then 1 else 0)"
proof -
  have fin: "finite (sim_waiting l)"
    and eq: "mset_set (sim_waiting l) + mset (sim_running l) + sim_active l = mset_set {0..<length (Vertexes dag)}"
    using assms by (simp_all add: sim_inv_def Let_def)
  have "count (mset_set (sim_waiting l)) i = (if i \<in> sim_waiting l then 1 else 0)" using fin by (simp add: count_mset_set')
  moreover have "count (mset_set {0..<length (Vertexes dag)}) i = (if i < length (Vertexes dag) then 1 else 0)"
    by (simp add: count_mset_set')
  ultimately show ?thesis using arg_cong [OF eq, of "\<lambda>M. count M i"] by simp
qed

lemma sim_somewhere:
  assumes "sim_inv dag l" and "i < length (Vertexes dag)"
  shows "i \<in> sim_waiting l \<longleftrightarrow> \<not> i \<in># mset (sim_running l) + sim_active l"
proof -
  have "count (mset (sim_running l) + sim_active l) i = (if i \<in> sim_waiting l then 0 else 1)"
    using sim_place [OF assms(1), of i] assms(2)
    by (cases "i \<in> sim_waiting l"; simp only: if_True if_False simp_thms count_union; linarith)
  then show ?thesis by (metis (full_types) count_greater_zero_iff less_irrefl zero_less_one)
qed

lemma sim_inv_result:
  assumes inv: "sim_inv dag l" and step: "sim_result m l = Some l'"
  shows "sim_inv dag l'"
proof -
  let ?n = "length (Vertexes dag)" and ?R = "dagRemain (sim_dag l)"
  obtain tx applied num rest where res: "sim_results l = (tx, applied, num) # rest"
    using step by (auto simp: sim_result_def split: if_splits list.splits)
  let ?ks = "reverseDagRemain (sim_dag l) tx" and ?done = "insert tx (set (sim_done l))"
  have act: "count (sim_active l) tx \<ge> 1" using res by (simp add: sim_active_def)
  have "count (sim_active l) tx = 1 \<and> tx < ?n"
    using act sim_place [OF inv, of tx]
    by (cases "tx < ?n"; cases "tx \<in> sim_waiting l"; simp only: if_True if_False simp_thms; linarith)
  then have one: "count (sim_active l) tx = 1" and txn: "tx < ?n" by simp_all
  then have nd: "tx \<notin> set (sim_done l)" using res by (auto simp: sim_active_def count_eq_zero_iff split: if_splits)
  have ks: "distinct ?ks" "set ?ks = {i. i < ?n \<and> tx \<in> nbrs dag i}" using inv nd by (auto simp: sim_inv_def Let_def)
  have wait: "?R k = Some (nbrs dag k - set (sim_done l))" if "k \<in> set ?ks" for k
  proof -
    have k: "k < ?n" "tx \<in> nbrs dag k" using that ks by auto
    have "k \<notin># mset (sim_running l) + sim_active l"
      using inv k(2) nd by (auto simp: sim_inv_def Let_def)
    then have "k \<in> sim_waiting l" using sim_somewhere [OF inv k(1)] by simp
    then show ?thesis using inv by (simp add: sim_inv_def Let_def)
  qed
  define batch where "batch = filter (\<lambda>k. nbrs dag k \<subseteq> ?done) ?ks"
  define remain where "remain = (\<lambda>k. if k \<in> set ?ks then (if nbrs dag k \<subseteq> ?done then None else Some (nbrs dag k - ?done)) else ?R k)"
  have left: "the (?R k) - {tx} = nbrs dag k - ?done" if "k \<in> set ?ks" for k using wait [OF that] by auto
  have "fold (shrink tx) ?ks ([], ?R) = (batch, remain)"
    unfolding shrink_fold [OF ks(1), of ?R tx "[]"] using wait shrink_fold [OF ks(1), of ?R tx "[]"] left
    by (auto simp: batch_def remain_def fun_eq_iff intro!: filter_cong)
  then have d: "shrinkDag tx (sim_dag l) = (sim_dag l)\<lparr>txIndexBatch := batch, dagRemain := remain,
      reverseDagRemain := (reverseDagRemain (sim_dag l))(tx := [])\<rparr>"
    by (simp add: shrinkDag_def)
  have l': "sim_dag l' = shrinkDag tx (sim_dag l)" "sim_running l' = sim_running l @ batch" "sim_done l' = sim_done l @ [tx]"
      "sim_active l' = sim_active l" "sim_started l' = sim_started l"
    using step res d by (auto simp: sim_result_def Let_def sim_active_def split: if_splits)
  have dom': "dom remain = sim_waiting l - set batch" and sub: "set batch \<subseteq> sim_waiting l"
    using wait by (auto simp: remain_def batch_def split: if_splits)
  show ?thesis
    unfolding sim_inv_def Let_def
  proof (intro conjI)
    have fin: "finite (sim_waiting l)" using inv by (simp add: sim_inv_def Let_def)
    then show "finite (sim_waiting l')" by (simp add: l' d dom')
    have "mset_set (sim_waiting l) = mset_set (dom remain) + mset_set (set batch)"
      unfolding dom' using fin sub by (subst mset_set_Union [symmetric]) (auto intro: finite_subset simp: Un_absorb2)
    moreover have "mset_set (set batch) = mset batch" using ks(1) by (intro mset_set_set) (simp add: batch_def)
    ultimately show "mset_set (sim_waiting l') + mset (sim_running l') + sim_active l' = mset_set {0..<?n}"
      using inv by (simp add: l' d sim_inv_def Let_def ac_simps)
    show "mset (sim_started l') = sim_active l'" using inv by (simp add: l' sim_inv_def Let_def)
    show "\<forall>i \<in> sim_waiting l'. dagRemain (sim_dag l') i = Some (nbrs dag i - set (sim_done l')) \<and> nbrs dag i - set (sim_done l') \<noteq> {}"
    proof
      fix i assume i: "i \<in> sim_waiting l'"
      show "dagRemain (sim_dag l') i = Some (nbrs dag i - set (sim_done l')) \<and> nbrs dag i - set (sim_done l') \<noteq> {}"
      proof (cases "i \<in> set ?ks")
        case True
        then show ?thesis using i by (auto simp: l' d remain_def split: if_splits)
      next
        case False
        then have w: "i \<in> sim_waiting l" using i by (auto simp: l' d remain_def)
        then have "i < ?n" using sim_place [OF inv, of i] by (auto split: if_splits)
        then have "tx \<notin> nbrs dag i" using False ks(2) by auto
        then show ?thesis using inv w False by (auto simp: l' d remain_def sim_inv_def Let_def)
      qed
    qed
    show "\<forall>i \<in># mset (sim_running l') + sim_active l'. nbrs dag i \<subseteq> set (sim_done l')"
      using inv by (auto simp: l' batch_def sim_inv_def Let_def)
    show "\<forall>k. k \<notin> set (sim_done l') \<longrightarrow> distinct (reverseDagRemain (sim_dag l') k) \<and>
        set (reverseDagRemain (sim_dag l') k) = {i. i < ?n \<and> k \<in> nbrs dag i}"
      using inv by (auto simp: l' d sim_inv_def Let_def)
  qed
qed

lemma sim_inv_step:
  assumes inv: "sim_inv dag l" and step: "sim_step m l l'"
  shows "sim_inv dag l'"
  using step
proof cases
  case ss_submit
  then obtain tx rest where "sim_running l = tx # rest" "l' = l\<lparr>sim_running := rest, sim_pool := sim_pool l @ [tx], sim_started := sim_started l @ [tx]\<rparr>"
    by (auto simp: sim_submit_def split: if_splits list.splits)
  then show ?thesis using inv by (auto simp: sim_inv_def Let_def sim_active_def)
next
  case (ss_report tx applied num)
  then have tx: "tx \<in> set (sim_pool l)" and l': "l' = l\<lparr>sim_pool := remove1 tx (sim_pool l), sim_results := sim_results l @ [(tx, applied, num)]\<rparr>"
    by (auto simp: sim_report_def split: if_splits)
  then have "sim_active l' = sim_active l" by (simp add: sim_active_def)
  then show ?thesis using inv by (simp add: l' sim_inv_def Let_def)
next
  case ss_result
  then show ?thesis using sim_inv_result [OF inv] by blast
qed (use inv in \<open>auto simp: sim_inv_def Let_def sim_active_def\<close>)

lemma sim_reach_inv: "sim_reach dag l \<Longrightarrow> sim_inv dag l"
  by (induction rule: sim_reach.induct) (auto intro: sim_inv_init sim_inv_step)

lemma dag_edges_nbrs: "(i, j) \<in> dag_edges dag \<longleftrightarrow> i < length (Vertexes dag) \<and> j \<in> nbrs dag i"
  by (auto simp: dag_edges_def nbrs_def split: option.splits)

lemma sim_started_after:
  assumes "sim_reach dag l" and "i \<in> set (sim_started l)" and "(i, j) \<in> (dag_edges dag)\<^sup>+"
  shows "j \<in> set (sim_done l)"
proof -
  have inv: "sim_inv dag l" using assms(1) by (rule sim_reach_inv)
  have act: "set_mset (sim_active l) = set (sim_started l)" using inv by (metis set_mset_mset sim_inv_def)
  have nb: "nbrs dag k \<subseteq> set (sim_done l)" if "k \<in> set (sim_started l)" for k
    using inv that act by (auto simp: sim_inv_def Let_def)
  have started: "k \<in> set (sim_started l)" if "k \<in> set (sim_done l)" for k
    using that act by (auto simp: sim_active_def)
  show ?thesis using assms(3,2)
  proof (induction rule: converse_trancl_induct)
    case (base i)
    then show ?case using nb by (auto simp: dag_edges_nbrs)
  next
    case (step i k)
    then show ?case using nb started by (auto simp: dag_edges_nbrs)
  qed
qed

lemma sim_started_once:
  assumes "sim_reach dag l"
  shows "distinct (sim_started l)"
proof -
  have inv: "sim_inv dag l" using assms by (rule sim_reach_inv)
  have "count (mset (sim_started l)) i \<le> 1" for i
  proof -
    have "mset (sim_started l) = sim_active l" using inv by (simp add: sim_inv_def Let_def)
    moreover have "count (sim_active l) i \<le> 1" using sim_place [OF inv, of i] by (auto split: if_splits)
    ultimately show ?thesis by simp
  qed
  then show ?thesis by (metis count_eq_zero_iff distinct_count_atmost_1 le_less less_one set_mset_mset)
qed

lemma sim_all_done:
  assumes "sim_reach dag l" and "sim_running l = []" and "sim_pool l = []" and "sim_results l = []"
  shows "set (sim_done l) = {0..<length (Vertexes dag)}"
proof -
  let ?n = "length (Vertexes dag)"
  have inv: "sim_inv dag l" using assms(1) by (rule sim_reach_inv)
  have act: "sim_active l = mset (sim_done l)" using assms(3,4) by (simp add: sim_active_def)
  have valid: "valid_dag dag" using assms(1) by (induction rule: sim_reach.induct) (auto dest: initSimulateDag_read)
  have place: "(i \<in> sim_waiting l) \<noteq> (i \<in> set (sim_done l))" if "i < ?n" for i
    using sim_somewhere [OF inv that] act assms(2) by simp
  have "i \<in> set (sim_done l)" if "i < ?n" for i
    using that
  proof (induction i rule: less_induct)
    case (less i)
    have "nbrs dag i \<subseteq> set (sim_done l)"
      using valid less by (fastforce simp: valid_dag_def nbrs_def)
    then have "i \<notin> sim_waiting l" using inv by (auto simp: sim_inv_def Let_def)
    then show ?case using place [OF less.prems] by blast
  qed
  moreover have "i < ?n" if "i \<in> set (sim_done l)" for i
  proof (rule ccontr)
    assume "\<not> i < ?n"
    then have "count (sim_active l) i = 0" using sim_place [OF inv, of i] by simp
    then show False using that act by (simp add: count_eq_zero_iff)
  qed
  ultimately show ?thesis by auto
qed

lemma good_dag_valid: "good_dag rws dag \<Longrightarrow> valid_dag dag"
  by (simp add: good_dag_def valid_dag_def)

subsection \<open>The special transactions of proposer and verifier\<close>

lemma appendSpecialTxs_others:
  assumes "m + k < 2 ^ 32" and "1 \<le> m"
  shows "appendSpecialTxs False m k dag = \<lparr>Vertexes = Vertexes dag @ map (\<lambda>i. Some [word_of_nat (m + i) - 1]) [0..<k]\<rparr>"
  using assms
proof (induction k arbitrary: m dag)
  case (Suc k)
  have "appendSpecialTxs False m (Suc k) dag = appendSpecialTxs False (Suc m) k (appendSpecialTx False (Suc m) dag)" by simp
  also have "\<dots> = \<lparr>Vertexes = Vertexes (appendSpecialTx False (Suc m) dag) @ map (\<lambda>i. Some [word_of_nat (Suc m + i) - 1]) [0..<k]\<rparr>"
    using Suc by (intro Suc.IH) simp_all
  also have "Vertexes (appendSpecialTx False (Suc m) dag) = Vertexes dag @ [Some [word_of_nat m - 1]]"
    by (simp add: appendSpecialTx_def)
  also have "map (\<lambda>i. Some [word_of_nat (Suc m + i) - 1 :: u32]) [0..<k] = map (\<lambda>i. Some [word_of_nat (m + i) - 1]) [1..<Suc k]"
    by (simp add: map_Suc_upt [symmetric] comp_def del: upt_Suc)
  finally show ?case by (simp add: upt_conv_Cons del: upt_Suc)
qed simp

lemma special_graphs_agree:
  assumes "length (Vertexes dag) = m" and "0 < k" and "m + k < 2 ^ 32"
  shows "appendSpecialTxs True m k dag = appendSpecialTxsToDag dag (word_of_nat k)"
proof -
  obtain j where j: "k = Suc j" using assms(2) by (cases k) auto
  have first: "appendSpecialTx True (Suc m) dag = \<lparr>Vertexes = Vertexes dag @ [Some (map word_of_nat [0..<m])]\<rparr>"
    using assms by (simp add: appendSpecialTx_def)
  have "appendSpecialTxs True m k dag =
      \<lparr>Vertexes = Vertexes dag @ Some (map word_of_nat [0..<m]) # map (\<lambda>i. Some [word_of_nat (Suc m + i) - 1]) [0..<j]\<rparr>"
    using assms(3) j by (simp add: first appendSpecialTxs_others)
  moreover have "map (\<lambda>i. Some [word_of_nat (Suc m + i) - 1 :: u32]) [0..<j] = map (\<lambda>i. Some [word_of_nat m + word_of_nat i - 1]) [1..<k]"
    by (simp add: j map_Suc_upt [symmetric] comp_def ac_simps del: upt_Suc)
  moreover have "unat (word_of_nat m :: u32) = m" "unat (word_of_nat k :: u32) = k"
    using assms(3) by (simp_all add: unat_of_nat take_bit_nat_eq_self)
  ultimately show ?thesis using assms(1) by (simp add: appendSpecialTxsToDag_def Let_def)
qed

end
