(* ===== verification/Dag_Replay.thy ===== *)
theory Dag_Replay
  imports Dag_Scheduler
begin

section \<open>Every execution along the graph gives the serial result\<close>

text \<open>
  The composition of the two halves: the graph built by the proposer and the loop of the verifier.
  An order of the transactions in which conflicting ones keep their positions shows every
  transaction the values of the serial execution and ends in the serial state.
\<close>

text \<open>The writes of a transaction by contract and key, and the state after a list of transactions.\<close>

definition kv_writes :: "TxRWSet \<Rightarrow> ((string \<times> string) \<times> gobytes) list" where
  "kv_writes rw = map (\<lambda>w. ((wr_ContractName w, bytes_content (wr_Key w)), wr_Value w)) (TxWrites rw)"

definition kv_reads :: "TxRWSet \<Rightarrow> (string \<times> string) list" where
  "kv_reads rw = map (\<lambda>r. (rd_ContractName r, bytes_content (rd_Key r))) (TxReads rw)"

definition state_after :: "TxRWSet list \<Rightarrow> nat list \<Rightarrow> (string \<times> string) \<rightharpoonup> gobytes" where
  "state_after rws order = fold (\<lambda>i m. m ++ map_of (rev (kv_writes (rws ! i)))) order Map.empty"

definition writes_key :: "TxRWSet list \<Rightarrow> string \<times> string \<Rightarrow> nat \<Rightarrow> bool" where
  "writes_key rws q i \<longleftrightarrow> q \<in> fst ` set (kv_writes (rws ! i))"

text \<open>An order in which every transaction comes after the earlier ones that it conflicts with.\<close>

definition conflict_order :: "TxRWSet list \<Rightarrow> nat list \<Rightarrow> bool" where
  "conflict_order rws order \<longleftrightarrow> distinct order \<and> set order = {0..<length rws} \<and>
     (\<forall>a < length order. \<forall>j < order ! a. conflict (rws ! (order ! a)) (rws ! j) \<longrightarrow> j \<in> set (take a order))"

lemma state_after_snoc: "state_after rws (xs @ [i]) = state_after rws xs ++ map_of (rev (kv_writes (rws ! i)))"
  by (simp add: state_after_def)

lemma state_after_key:
  "state_after rws xs q =
     (case filter (writes_key rws q) xs of [] \<Rightarrow> None | ys \<Rightarrow> map_of (rev (kv_writes (rws ! last ys))) q)"
proof (induction xs rule: rev_induct)
  case (snoc i xs)
  have "writes_key rws q i \<longleftrightarrow> map_of (rev (kv_writes (rws ! i))) q \<noteq> None"
    by (simp add: writes_key_def map_of_eq_None_iff)
  then show ?case
    using snoc by (auto simp: state_after_snoc map_add_def split: option.splits list.splits)
qed (simp add: state_after_def)

lemma raw_keys:
  "writes_key rws q i \<Longrightarrow> snd q \<in> set (writeKeys (rws ! i))" "q \<in> set (kv_reads rw) \<Longrightarrow> snd q \<in> set (readKeys rw)"
  by (auto simp: writes_key_def kv_writes_def writeKeys_def kv_reads_def readKeys_def)

lemma writes_conflict:
  assumes "writes_key rws q i" and "writes_key rws q j"
  shows "conflict (rws ! i) (rws ! j)"
proof -
  have "snd q \<in> set (writeKeys (rws ! i))" "snd q \<in> set (writeKeys (rws ! j))"
    using assms by (simp_all add: raw_keys)
  then show ?thesis by (auto simp: conflict_def)
qed

lemma read_conflict:
  assumes "q \<in> set (kv_reads (rws ! i))" and "writes_key rws q j"
  shows "conflict (rws ! i) (rws ! j)" and "conflict (rws ! j) (rws ! i)"
proof -
  have "snd q \<in> set (readKeys (rws ! i))" "snd q \<in> set (writeKeys (rws ! j))"
    using assms by (simp_all add: raw_keys)
  then show "conflict (rws ! i) (rws ! j)" "conflict (rws ! j) (rws ! i)" by (auto simp: conflict_def)
qed

lemma distinct_take_nth: "distinct xs \<Longrightarrow> b < length xs \<Longrightarrow> xs ! b \<in> set (take a xs) \<longleftrightarrow> b < a"
  by (auto simp: in_set_conv_nth nth_eq_iff_index_eq)

lemma writers_sorted:
  assumes "conflict_order rws order"
  shows "sorted_wrt (<) (filter (writes_key rws q) order)"
proof -
  let ?P = "\<lambda>x y. writes_key rws q x \<and> writes_key rws q y \<longrightarrow> x < y"
  have "sorted_wrt ?P order"
    unfolding sorted_wrt_iff_nth_less
  proof (intro allI impI)
    fix a b assume ab: "a < b" "b < length order" and w: "writes_key rws q (order ! a) \<and> writes_key rws q (order ! b)"
    show "order ! a < order ! b"
    proof (rule ccontr)
      assume "\<not> order ! a < order ! b"
      moreover have "order ! a \<noteq> order ! b" using assms ab by (simp add: conflict_order_def nth_eq_iff_index_eq)
      ultimately have "order ! b < order ! a" by simp
      then have "order ! b \<in> set (take a order)"
        using assms ab w writes_conflict [of rws q "order ! a" "order ! b"] by (auto simp: conflict_order_def)
      then show False using assms ab distinct_take_nth [of order b a] by (simp add: conflict_order_def)
    qed
  qed
  then have "sorted_wrt ?P (filter (writes_key rws q) order)" by (rule sorted_wrt_filter)
  then show ?thesis by (rule sorted_wrt_mono_rel [rotated]) auto
qed

lemma writers_before:
  assumes ord: "conflict_order rws order" and p: "p < length order"
    and q: "q \<in> set (kv_reads (rws ! (order ! p)))"
  shows "filter (writes_key rws q) (take p order) = filter (writes_key rws q) [0..<order ! p]"
proof (rule strict_sorted_equal)
  let ?i = "order ! p"
  have dist: "distinct order" and i: "?i < length rws" using ord p by (auto simp: conflict_order_def)
  show "sorted_wrt (<) (filter (writes_key rws q) [0..<?i])" by (intro sorted_wrt_filter) simp
  have "filter (writes_key rws q) order = filter (writes_key rws q) (take p order) @ filter (writes_key rws q) (drop p order)"
    by (metis append_take_drop_id filter_append)
  then show "sorted_wrt (<) (filter (writes_key rws q) (take p order))"
    using writers_sorted [OF ord, of q] by (simp add: sorted_wrt_append)
  show "set (filter (writes_key rws q) (take p order)) = set (filter (writes_key rws q) [0..<?i])"
  proof (intro set_eqI iffI)
    fix j assume "j \<in> set (filter (writes_key rws q) [0..<?i])"
    then show "j \<in> set (filter (writes_key rws q) (take p order))"
      using ord p read_conflict(1) [OF q] by (auto simp: conflict_order_def)
  next
    fix j assume "j \<in> set (filter (writes_key rws q) (take p order))"
    then obtain b where b: "b < p" "j = order ! b" and w: "writes_key rws q j" using p by (auto simp: in_set_conv_nth)
    have "j < ?i"
    proof (rule ccontr)
      assume "\<not> j < ?i"
      moreover have "j \<noteq> ?i" using b p dist by (simp add: nth_eq_iff_index_eq)
      ultimately have "?i < order ! b" using b(2) by simp
      then have "?i \<in> set (take b order)"
        using ord b p read_conflict(2) [OF q w] by (auto simp: conflict_order_def)
      then show False using distinct_take_nth [OF dist p, of b] b(1) by simp
    qed
    then show "j \<in> set (filter (writes_key rws q) [0..<?i])" using w by simp
  qed
qed

lemma replay_serial:
  assumes ord: "conflict_order rws order"
  shows "p < length order \<Longrightarrow> q \<in> set (kv_reads (rws ! (order ! p))) \<Longrightarrow>
      state_after rws (take p order) q = state_after rws [0..<order ! p] q"
    and "state_after rws order = state_after rws [0..<length rws]"
proof -
  show "p < length order \<Longrightarrow> q \<in> set (kv_reads (rws ! (order ! p))) \<Longrightarrow>
      state_after rws (take p order) q = state_after rws [0..<order ! p] q"
    by (simp add: state_after_key writers_before [OF ord])
  show "state_after rws order = state_after rws [0..<length rws]"
  proof
    fix q
    have "filter (writes_key rws q) order = filter (writes_key rws q) [0..<length rws]"
    proof (rule strict_sorted_equal)
      show "sorted_wrt (<) (filter (writes_key rws q) order)" using ord by (rule writers_sorted)
      show "sorted_wrt (<) (filter (writes_key rws q) [0..<length rws])" by (intro sorted_wrt_filter) simp
      show "set (filter (writes_key rws q) order) = set (filter (writes_key rws q) [0..<length rws])"
        using ord by (simp add: conflict_order_def)
    qed
    then show "state_after rws order q = state_after rws [0..<length rws] q" by (simp add: state_after_key)
  qed
qed

subsection \<open>The order of the loop\<close>

lemma sim_done_ordered:
  assumes "sim_reach dag l"
  shows "\<forall>a < length (sim_done l). nbrs dag (sim_done l ! a) \<subseteq> set (take a (sim_done l))"
  using assms
proof (induction rule: sim_reach.induct)
  case (sr_init d)
  then show ?case by (simp add: sim_init_def)
next
  case (sr_step l l')
  have inv: "sim_inv dag l" using sr_step.hyps(1) by (rule sim_reach_inv)
  show ?case
    using sr_step.hyps(2)
  proof cases
    case ss_result
    then obtain tx applied num rest where res: "sim_results l = (tx, applied, num) # rest" and dn: "sim_done l' = sim_done l @ [tx]"
      by (auto simp: sim_result_def Let_def split: if_splits list.splits)
    have "nbrs dag tx \<subseteq> set (sim_done l)" using inv res by (auto simp: sim_inv_def Let_def sim_active_def)
    then show ?thesis using sr_step.IH dn by (auto simp: nth_append less_Suc_eq)
  next
    case ss_submit
    then have "sim_done l' = sim_done l" by (auto simp: sim_submit_def split: if_splits list.splits)
    then show ?thesis using sr_step.IH by simp
  next
    case (ss_report tx applied num)
    then have "sim_done l' = sim_done l" by (auto simp: sim_report_def split: if_splits)
    then show ?thesis using sr_step.IH by simp
  qed (use sr_step.IH in simp_all)
qed

lemma sim_done_closed:
  assumes "sim_reach dag l" and "(i, j) \<in> (dag_edges dag)\<^sup>+" and "a < length (sim_done l)" and "i = sim_done l ! a"
  shows "j \<in> set (take a (sim_done l))"
  using assms(2,3,4)
proof (induction arbitrary: a rule: converse_trancl_induct)
  case (base i)
  then show ?case using sim_done_ordered [OF assms(1)] by (auto simp: dag_edges_nbrs)
next
  case (step i k)
  then have "k \<in> set (take a (sim_done l))" using sim_done_ordered [OF assms(1)] by (auto simp: dag_edges_nbrs)
  then obtain b where b: "b < a" "k = sim_done l ! b" using step.prems(1) by (auto simp: in_set_conv_nth)
  then have "j \<in> set (take b (sim_done l))" using step.IH step.prems(1) by simp
  then show ?case using b(1) set_take_subset_set_take [of b a "sim_done l"] by auto
qed

lemma sim_done_conflict_order:
  assumes good: "good_dag rws dag" and reach: "sim_reach dag l"
    and "sim_running l = []" "sim_pool l = []" "sim_results l = []"
  shows "conflict_order rws (sim_done l)"
  unfolding conflict_order_def
proof (intro conjI allI impI)
  have inv: "sim_inv dag l" using reach by (rule sim_reach_inv)
  have "mset (sim_started l) = mset (sim_done l)" using inv assms(4,5) by (simp add: sim_inv_def Let_def sim_active_def)
  then show "distinct (sim_done l)" using sim_started_once [OF reach] mset_eq_imp_distinct_iff by blast
  have len: "length (Vertexes dag) = length rws" using good by (simp add: good_dag_def)
  then show set: "set (sim_done l) = {0..<length rws}" using sim_all_done [OF reach assms(3-5)] by simp
  fix a j assume a: "a < length (sim_done l)" and j: "j < sim_done l ! a"
    and c: "conflict (rws ! (sim_done l ! a)) (rws ! j)"
  have "sim_done l ! a \<in> set (sim_done l)" using a by simp
  then have "sim_done l ! a < length rws" using set by auto
  then have "(sim_done l ! a, j) \<in> (dag_edges dag)\<^sup>+" using good j c by (simp add: good_dag_def)
  then show "j \<in> set (take a (sim_done l))" using sim_done_closed [OF reach _ a refl] by blast
qed

end
