(* ===== verification/Snapshot_Claims.thy ===== *)
theory Snapshot_Claims
  imports Snapshot_Serial Snapshot_Manager Dag_Replay
begin

section \<open>Properties of snapshots and of the execution along the graph\<close>

text \<open>
  The properties of the key tables, of snapshots and their managers, of the dependency graph and
  of its execution, each with its witness.
\<close>

subsection \<open>Example data\<close>

definition set_bitmap :: "nat set bitmap" where
  "set_bitmap = \<lparr>bm_new = {}, bm_Set = (\<lambda>b i. insert i b), bm_Has = (\<lambda>b i. i \<in> b), bm_Or = (\<union>), bm_Pos1 = sorted_list_of_set\<rparr>"

lemma set_bitmap_laws: "bitmap_laws set_bitmap id"
  by (simp add: bitmap_laws_def set_bitmap_def)

definition ex_store :: blockchainStore where
  "ex_store = \<lparr>st_ReadObject = (\<lambda>c k. Some None), st_ReadObjects = (\<lambda>c ks. Some (map (\<lambda>_. None) ks)),
     st_LastBlock = None, st_LastChainConfig = Some ''cfg''\<rparr>"

definition ex_core_header :: BlockHeader_core where
  "ex_core_header = \<lparr>hd_ChainId = ''c'', hd_BlockHeight = 1, hd_BlockVersion = 2300, hd_BlockTimestamp = 0, hd_Proposer = None,
     hd_PreBlockHash = None, hd_TxRoot = None, hd_DagHash = None, hd_RwSetRoot = None, hd_BlockHash = None, hd_BlockType = 0, hd_TxCount = 0, hd_PreConfHeight = 0,
     hd_ConsensusArgs = None, hd_Signature = None\<rparr>"

definition ex_snapshot :: SnapshotImpl where
  "ex_snapshot = the (makeSnapshotImpl ex_store \<lparr>bk_Header = ex_core_header, bk_Txs = [], bk_Dag = None, bk_AdditionalData = None\<rparr>)"

lemma ex_snapshot_fresh: "fresh ex_snapshot" "sn_sealed ex_snapshot = Some False" "txTable ex_snapshot = []"
    "writeTable ex_snapshot = newShardSet" "readTable ex_snapshot = newShardSet" "txRWSetTable ex_snapshot = []"
  by (simp_all add: ex_snapshot_def makeSnapshotImpl_def ex_store_def ex_core_header_def Let_def fresh_def)

lemma ex_snapshot_ok: "snapshot_ok ex_snapshot"
  using ex_snapshot_fresh by (simp add: snapshot_ok_def shards_tidy_new)

text \<open>A transaction that writes a key and one that reads it.\<close>

definition ex_write :: TxRWSet where
  "ex_write = \<lparr>rw_TxId = ''t0'', TxReads = [], TxWrites = [\<lparr>wr_Key = Some ''k'', wr_Value = Some ''v'', wr_ContractName = ''A''\<rparr>]\<rparr>"

definition ex_read :: TxRWSet where
  "ex_read = \<lparr>rw_TxId = ''t1'', TxReads = [\<lparr>rd_Key = Some ''k'', rd_Value = Some ''v'', rd_ContractName = ''A''\<rparr>], TxWrites = []\<rparr>"

definition ex_dag :: DAG where
  "ex_dag = \<lparr>Vertexes = [Some [], Some [0]]\<rparr>"

lemmas dag_eval = BuildDAG_def Let_def buildDictAndPos_def add_tx_def add_read_def add_write_def readKeys_def writeKeys_def
  buildReachMap_def lastWriter_def writeConflicts_def allReaders_def index_go_def map_get0_def upt_rec

lemma ex_BuildDAG: "BuildDAG set_bitmap False (Some [ex_write, ex_read]) s = Inr ex_dag"
  by (simp add: dag_eval set_bitmap_def ex_write_def ex_read_def ex_dag_def)

subsection \<open>Key tables\<close>

text \<open>
  C24: the sharded table implements a map: what \<open>getByLock\<close> returns after a sequence of puts into
  an empty table is what the map of the puts has, for every key and whatever shards the keys
  fall into.
\<close>

theorem shard_table_refines_map:
  "getByLock (fold (\<lambda>(k, v) t. putByLock t k v) kvs newShardSet) k = fold (\<lambda>(k, v) m. m(k \<mapsto> v)) kvs Map.empty k"
proof -
  have "shards_ok t \<Longrightarrow> table_of (fold (\<lambda>(k, v) t. putByLock t k v) kvs t) = fold (\<lambda>(k, v) m. m(k \<mapsto> v)) kvs (table_of t)" for t
    by (induction kvs arbitrary: t) (auto simp: table_of_put shard_table.ok_put)
  moreover have "table_of newShardSet = Map.empty" by (simp add: table_of_def fun_eq_iff shard_table.look_empty)
  ultimately show ?thesis using shard_table.ok_empty by (metis table_of_def)
qed

subsection \<open>Applying transactions\<close>


definition ex_sim :: "TxRWSet \<Rightarrow> int \<Rightarrow> txSimContext" where
  "ex_sim rw q = \<lparr>sim_Tx = \<lparr>tx_TxId = rw_TxId rw, tx_Result = None, tx_ContractName = [], tx_Method = [], tx_TxType = 0, tx_Rest = []\<rparr>, sim_TxExecSeq = q, sim_TxRWSet = (\<lambda>_. rw), sim_TxResult = None\<rparr>"

definition ex_applied :: "TxRWSet \<Rightarrow> SnapshotImpl \<Rightarrow> SnapshotImpl" where
  "ex_applied rw s = applyOptimize (sim_Tx (ex_sim rw 0)) rw None True (kv_map (read_kvs rw)) (kv_map (write_kvs rw)) s"



text \<open>
  C25: \<open>applyOptimize\<close> with the maps of \<open>buildKVMaps\<close>, which the concurrent code uses, has the
  same effect on a snapshot as \<open>apply\<close>, which writes the read and write sets entry by entry.
\<close>

theorem apply_agrees_with_applyOptimize:
  assumes "snapshot_ok s" and "buildKVMaps rw = (finalReadKvs, finalWriteKvs)"
  shows "apply_tx tx rw res runVmSuccess s = applyOptimize tx rw res runVmSuccess finalReadKvs finalWriteKvs s"
  using apply_tx_applyOptimize [OF assms(1)] assms(2) by (auto simp: buildKVMaps_def)

theorem apply_agrees_with_applyOptimize_witness:
  "apply_tx (sim_Tx (ex_sim ex_write 0)) ex_write None True ex_snapshot =
    applyOptimize (sim_Tx (ex_sim ex_write 0)) ex_write None True [] [(''Ak'', \<lparr>sv_seq = 0, sv_value = Some ''v''\<rparr>)] ex_snapshot"
  by (rule apply_agrees_with_applyOptimize [OF ex_snapshot_ok])
    (simp add: buildKVMaps_def read_kvs_def write_kvs_def ex_write_def constructKey_def kv_map_def)

text \<open>
  The final key of a contract and a key is their concatenation without a separator, so that
  different contracts share final keys: a snapshot in which contract \<open>A\<close> wrote the key \<open>Bk\<close>
  answers a read of the key \<open>k\<close> of contract \<open>AB\<close> with the value of \<open>A\<close>.
\<close>

theorem contract_keys_collide:
  "\<exists>s. txRWSetTable s = [\<lparr>rw_TxId = [], TxReads = [], TxWrites = [\<lparr>wr_Key = Some ''Bk'', wr_Value = Some ''secret'', wr_ContractName = ''A''\<rparr>]\<rparr>] \<and>
    GetKey (\<lambda>_. s) ex_store 0 ''AB'' (Some ''k'') = Some (Some (Some ''secret''))"
proof -
  let ?rw = "\<lparr>rw_TxId = [], TxReads = [], TxWrites = [\<lparr>wr_Key = Some ''Bk'', wr_Value = Some ''secret'', wr_ContractName = ''A''\<rparr>]\<rparr>"
  let ?s = "ex_applied ?rw ex_snapshot"
  have "getByLock (writeTable ?s) ''ABk'' = Some \<lparr>sv_seq = 0, sv_value = Some ''secret''\<rparr>"
    by (simp add: ex_applied_def getByLock_put_seq ex_snapshot_fresh shard_table.ok_empty write_kvs_def constructKey_def)
  then have "GetKey (\<lambda>_. ?s) ex_store 0 ''AB'' (Some ''k'') = Some (Some (Some ''secret''))"
    unfolding GetKey_def by (subst findKey.simps) (simp add: localKey_def constructKey_def)
  moreover have "txRWSetTable ?s = [?rw]" by (simp add: ex_applied_def ex_snapshot_fresh)
  ultimately show ?thesis by blast
qed

subsection \<open>Chains of snapshots\<close>

text \<open>
  The states of a manager and its snapshots: blocks are announced with fingerprints different from
  those of their predecessors, transactions are applied to the snapshots, which are sealed, and
  blocks are committed or given up.
\<close>

inductive manager :: "fingerprints \<Rightarrow> blockchainStore \<Rightarrow> ManagerImpl \<Rightarrow> bool" for fps store where
  mg_start: "manager fps store (NewSnapshotManager hp)"
| mg_get: "manager fps store m \<Longrightarrow> GetSnapshot fps store prevBlock block m = Inr (r, m') \<Longrightarrow>
    CalcBlockFingerPrintWithoutTx fps prevBlock \<noteq> CalcBlockFingerPrintWithoutTx fps block \<Longrightarrow> manager fps store m'"
| mg_apply: "manager fps store m \<Longrightarrow>
    ApplyTxSimContext s0 sim specialTxType runVmSuccess applySpecialTx (mg_heap m r) = Inr (applied, n, s') \<Longrightarrow>
    manager fps store (update_snapshot (\<lambda>_. s') r m)"
| mg_seal: "manager fps store m \<Longrightarrow> Seal (mg_heap m r) = Inr s' \<Longrightarrow> manager fps store (update_snapshot (\<lambda>_. s') r m)"
| mg_commit: "manager fps store m \<Longrightarrow> manager fps store (NotifyBlockCommitted fps block m)"
| mg_clear: "manager fps store m \<Longrightarrow> manager fps store (ClearSnapshot fps block m)"

lemma manager_linked_back: "manager fps store m \<Longrightarrow> linked_back m"
proof (induction rule: manager.induct)
  case (mg_get m prevBlock block r m')
  then show ?case
    using linked_back_new_snapshot [of m store "CalcBlockFingerPrintWithoutTx fps prevBlock" "CalcBlockFingerPrintWithoutTx fps block" block r m']
    by (auto simp: GetSnapshot_def NewSnapshot_def split: option.splits)
qed (auto simp: linked_back_new intro: fewer_linked_back [OF fewer_ops(1)] fewer_linked_back [OF fewer_ops(2)]
    fewer_linked_back [OF fewer_same_link [OF ApplyTxSimContext_link]] fewer_linked_back [OF fewer_same_link [OF Seal_link]])

text \<open>
  \<open>GetKey\<close> returns for every snapshot of a manager, with whatever transactions have been applied
  to the snapshots: the search along the earlier ones ends, and its result is the value in the first snapshot of the chain that has the key, or that of the
  store.
\<close>

theorem GetKey_returns:
  assumes "manager fps store m" and "(fp, r) \<in> set (mg_snapshots m)"
  shows "\<exists>rs. is_chain (mg_heap m) (Some r) rs \<and>
    GetKey (mg_heap m) store r contractName key = Some (chain_value (mg_heap m) store contractName key rs)"
proof -
  have ok: "linked_back m" using assms(1) by (rule manager_linked_back)
  then have "r < mg_next m" using assms(2) by (auto simp: linked_back_def)
  then obtain rs where "is_chain (mg_heap m) (Some r) rs" using chain_exists [OF ok] by blast
  then show ?thesis using GetKey_chain by blast
qed

definition ex_fps :: fingerprints where
  "ex_fps = \<lparr>CalcBlockFingerPrint = (\<lambda>b. if hd_BlockHeight (bk_Header b) = 1 then ''1'' else ''0''),
     CalcBlockFingerPrintWithoutTx = (\<lambda>b. if hd_BlockHeight (bk_Header b) = 1 then ''1'' else ''0''),
     CalcFingerPrint = (\<lambda>_ h _ _ _ _ _ _. if h = 1 then ''1'' else ''0'')\<rparr>"

theorem GetKey_returns_witness:
  "\<exists>(m :: ManagerImpl) rs. (''1'', 0) \<in> set (mg_snapshots m) \<and>
    GetKey (mg_heap m) ex_store 0 ''A'' (Some ''k'') = Some (chain_value (mg_heap m) ex_store ''A'' (Some ''k'') rs)"
proof -
  let ?b1 = "\<lparr>bk_Header = ex_core_header, bk_Txs = [], bk_Dag = None, bk_AdditionalData = None\<rparr>" and ?b0 = "\<lparr>bk_Header = ex_core_header\<lparr>hd_BlockHeight := 0\<rparr>, bk_Txs = [], bk_Dag = None, bk_AdditionalData = None\<rparr>"
  obtain m where m: "GetSnapshot ex_fps ex_store ?b0 ?b1 (NewSnapshotManager (\<lambda>_. ex_snapshot)) = Inr (0, m)" "(''1'', 0) \<in> set (mg_snapshots m)"
    by (simp add: GetSnapshot_def NewSnapshot_def new_snapshot_def NewSnapshotManager_def makeSnapshotImpl_def ex_store_def
        storeAndLinkSnapshotImpl_def update_snapshot_def ex_fps_def ex_core_header_def Let_def)
  have "manager ex_fps ex_store m"
    by (rule mg_get [OF mg_start m(1)]) (simp add: ex_fps_def ex_core_header_def)
  from GetKey_returns [OF this m(2), of "''A''" "Some ''k''"] m(2) show ?thesis by blast
qed

subsection \<open>The dependency graph\<close>

text \<open>
  \<open>BuildDAG\<close> returns a graph with a vertex per transaction, whose edges go to earlier
  transactions in increasing order and only between conflicting ones, and in which every
  transaction reaches all earlier ones that it conflicts with. No transaction writes the same key
  twice, and the numbers of transactions and reads fit in 32 bits.
\<close>

theorem dag_orders_conflicts:
  assumes "bitmap_laws bm mem" and "fits_u32 rws" and "\<forall>rw \<in> set rws. distinct (writeKeys rw)"
  shows "\<exists>dag. BuildDAG bm False (Some rws) s = Inr dag \<and> length (Vertexes dag) = length rws \<and>
    (\<forall>i < length rws. \<exists>ns. Vertexes dag ! i = Some ns \<and> sorted_wrt (<) ns \<and> (\<forall>w \<in> set ns. unat w < i)) \<and>
    (\<forall>(i, j) \<in> dag_edges dag. conflict (rws ! i) (rws ! j)) \<and>
    (\<forall>i < length rws. \<forall>j < i. conflict (rws ! i) (rws ! j) \<longrightarrow> (i, j) \<in> (dag_edges dag)\<^sup>+)"
  using BuildDAG_good [OF assms] by (simp add: good_dag_def)

theorem dag_orders_conflicts_witness:
  "\<exists>dag. BuildDAG set_bitmap False (Some [ex_write, ex_read]) ex_snapshot = Inr dag \<and> (1, 0) \<in> (dag_edges dag)\<^sup>+"
proof -
  have "fits_u32 [ex_write, ex_read]" "\<forall>rw \<in> set [ex_write, ex_read]. distinct (writeKeys rw)"
    by (simp_all add: fits_u32_def writeKeys_def ex_write_def ex_read_def)
  from dag_orders_conflicts [OF set_bitmap_laws this] obtain dag where
    "BuildDAG set_bitmap False (Some [ex_write, ex_read]) ex_snapshot = Inr dag"
    "\<forall>i < length [ex_write, ex_read]. \<forall>j < i. conflict ([ex_write, ex_read] ! i) ([ex_write, ex_read] ! j) \<longrightarrow> (i, j) \<in> (dag_edges dag)\<^sup>+"
    by blast
  moreover have "conflict ([ex_write, ex_read] ! 1) ([ex_write, ex_read] ! 0)"
    by (simp add: conflict_def readKeys_def writeKeys_def ex_read_def ex_write_def)
  moreover have "(1 :: nat) < length [ex_write, ex_read]" "(0 :: nat) < 1" by simp_all
  ultimately show ?thesis by blast
qed

text \<open>
  A transaction that writes the same key in two contracts hides its conflicts: the position in
  the dictionary of writers that \<open>buildDictAndPos\<close> notes is then that of the transaction itself,
  and the graph has no edge to an earlier writer of the key.
\<close>

theorem dag_misses_conflict:
  assumes "bitmap_laws bm mem"
    and "rws = [\<lparr>rw_TxId = ''t0'', TxReads = [], TxWrites = [\<lparr>wr_Key = Some ''k'', wr_Value = v0, wr_ContractName = ''A''\<rparr>]\<rparr>,
      \<lparr>rw_TxId = ''t1'', TxReads = [], TxWrites = [\<lparr>wr_Key = Some ''k'', wr_Value = v1, wr_ContractName = ''A''\<rparr>,
        \<lparr>wr_Key = Some ''k'', wr_Value = v2, wr_ContractName = ''B''\<rparr>]\<rparr>]"
  shows "BuildDAG bm False (Some rws) s = Inr \<lparr>Vertexes = [Some [], Some []]\<rparr> \<and> conflict (rws ! 1) (rws ! 0)"
proof -
  have mem0: "mem (bm_new bm) = {}" using assms(1) by (simp add: bitmap_laws_def)
  then have "bm_Pos1 bm (bm_new bm) = []" using assms(1) unfolding bitmap_laws_def by (metis finite.emptyI set_empty)
  moreover have "bm_Has bm (bm_Set bm (bm_new bm) i) i" for i using assms(1) by (simp add: bitmap_laws_def)
  ultimately show ?thesis by (simp add: dag_eval assms(2) conflict_def)
qed

theorem dag_misses_conflict_witness:
  "\<exists>rws s. BuildDAG set_bitmap False (Some rws) s = Inr \<lparr>Vertexes = [Some [], Some []]\<rparr> \<and> conflict (rws ! 1) (rws ! 0)"
  using dag_misses_conflict [OF set_bitmap_laws refl] by blast

subsection \<open>Execution along the graph\<close>

text \<open>
  In the loop of \<open>SimulateWithDag\<close> every transaction is started at most once and only when all
  transactions it depends on are done; and when nothing is queued, running or reported any more,
  all transactions are done.
\<close>

theorem dag_execution_order:
  assumes "sim_reach dag l"
  shows "distinct (sim_started l) \<and>
    (\<forall>i \<in> set (sim_started l). \<forall>j. (i, j) \<in> (dag_edges dag)\<^sup>+ \<longrightarrow> j \<in> set (sim_done l)) \<and>
    (sim_running l = [] \<and> sim_pool l = [] \<and> sim_results l = [] \<longrightarrow> set (sim_done l) = {0..<length (Vertexes dag)})"
  using sim_started_once [OF assms] sim_started_after [OF assms] sim_all_done [OF assms] by blast

text \<open>The whole run of the example graph.\<close>

definition ex_loop :: simLoop where
  "ex_loop = \<lparr>sim_dag = \<lparr>txIndexBatch = [], dagRemain = Map.empty, reverseDagRemain = (\<lambda>_. [])\<rparr>, sim_running = [], sim_pool = [],
     sim_results = [], sim_failed = 0, sim_finish = True, sim_returned = False, sim_started = [0, 1], sim_done = [0, 1]\<rparr>"

lemma ex_loop_reach: "sim_reach ex_dag ex_loop"
proof -
  let ?d0 = "\<lparr>txIndexBatch = [0], dagRemain = [1 \<mapsto> {0}], reverseDagRemain = (\<lambda>_. [])(0 := [1])\<rparr>"
  let ?l0 = "sim_init ?d0" and ?d1 = "\<lparr>txIndexBatch = [1], dagRemain = Map.empty, reverseDagRemain = (\<lambda>_. [])\<rparr>"
  have "initSimulateDag ex_dag = Inr ?d0"
    by (simp add: initSimulateDag_def ex_dag_def readVertex_def add_reverse_def fun_eq_iff)
  then have r0: "sim_reach ex_dag ?l0" by (rule sr_init)
  let ?l1 = "?l0\<lparr>sim_running := [], sim_pool := [0], sim_started := [0]\<rparr>"
  have r1: "sim_reach ex_dag ?l1"
    by (rule sr_step [OF r0], rule ss_submit) (simp add: sim_submit_def sim_init_def)
  let ?l2 = "?l1\<lparr>sim_pool := [], sim_results := [(0, True, 1)]\<rparr>"
  have r2: "sim_reach ex_dag ?l2"
    by (rule sr_step [OF r1], rule ss_report [of 0 True 1]) (simp add: sim_report_def sim_init_def)
  let ?l3 = "?l2\<lparr>sim_results := [], sim_dag := ?d1, sim_running := [1], sim_done := [0]\<rparr>"
  have r3: "sim_reach ex_dag ?l3"
    by (rule sr_step [OF r2], rule ss_result)
      (simp add: sim_result_def sim_init_def shrinkDag_def shrink_def ex_dag_def Let_def fun_eq_iff)
  let ?l4 = "?l3\<lparr>sim_running := [], sim_pool := [1], sim_started := [0, 1]\<rparr>"
  have r4: "sim_reach ex_dag ?l4"
    by (rule sr_step [OF r3], rule ss_submit) (simp add: sim_submit_def sim_init_def)
  let ?l5 = "?l4\<lparr>sim_pool := [], sim_results := [(1, True, 2)]\<rparr>"
  have r5: "sim_reach ex_dag ?l5"
    by (rule sr_step [OF r4], rule ss_report [of 1 True 2]) (simp add: sim_report_def sim_init_def)
  show ?thesis
    by (rule sr_step [OF r5], rule ss_result)
      (simp add: sim_result_def sim_init_def shrinkDag_def ex_dag_def ex_loop_def Let_def fun_eq_iff)
qed

theorem dag_execution_order_witness:
  "distinct (sim_started ex_loop) \<and> set (sim_done ex_loop) = {0..<length (Vertexes ex_dag)}"
proof -
  have "sim_running ex_loop = [] \<and> sim_pool ex_loop = [] \<and> sim_results ex_loop = []" by (simp add: ex_loop_def)
  then show ?thesis using dag_execution_order [OF ex_loop_reach] by blast
qed

text \<open>
  C5: the verifier's execution refines the serial one: when the loop has run a graph that
  \<open>BuildDAG\<close> built from the read and write sets of the block, in whatever interleaving, every
  transaction saw for each key that it reads the state of the transactions before it in the
  block, and the final state is that of the block executed in order. No transaction of the block
  writes a key twice (the graph loses conflicts otherwise, \<open>dag_misses_conflict\<close>), the numbers of
  transactions and reads fit in 32 bits, and the block has no contract on an SQL database.
\<close>

theorem verifier_refines_serial_execution:
  assumes "bitmap_laws bm mem" and "fits_u32 rws" and "\<forall>rw \<in> set rws. distinct (writeKeys rw)"
    and "BuildDAG bm False (Some rws) s = Inr dag" and "sim_reach dag l"
    and "sim_running l = []" and "sim_pool l = []" and "sim_results l = []"
  shows "(\<forall>p < length (sim_done l). \<forall>q \<in> set (kv_reads (rws ! (sim_done l ! p))).
      state_after rws (take p (sim_done l)) q = state_after rws [0..<sim_done l ! p] q) \<and>
    state_after rws (sim_done l) = state_after rws [0..<length rws]"
proof -
  have "good_dag rws dag" using BuildDAG_good [OF assms(1-3), of s] assms(4) by auto
  then have "conflict_order rws (sim_done l)" using sim_done_conflict_order assms(5-8) by blast
  then show ?thesis using replay_serial by blast
qed

theorem verifier_refines_serial_execution_witness:
  "state_after [ex_write, ex_read] (sim_done ex_loop) = state_after [ex_write, ex_read] [0..<length [ex_write, ex_read]]"
proof -
  have "fits_u32 [ex_write, ex_read]" "\<forall>rw \<in> set [ex_write, ex_read]. distinct (writeKeys rw)"
    by (simp_all add: fits_u32_def writeKeys_def ex_write_def ex_read_def)
  moreover have "sim_running ex_loop = []" "sim_pool ex_loop = []" "sim_results ex_loop = []" by (simp_all add: ex_loop_def)
  ultimately show ?thesis
    using verifier_refines_serial_execution [OF set_bitmap_laws _ _ ex_BuildDAG ex_loop_reach] by blast
qed

text \<open>
  The vertices that the proposer appends one by one while it executes the special transactions
  of a block are those that the verifier appends with \<open>appendSpecialTxsToDag\<close>.
\<close>

theorem special_transactions_same_graph:
  assumes "length (Vertexes dag) = GetSnapshotSize s" and "0 < k" and "GetSnapshotSize s + k < 2 ^ 32"
  shows "appendSpecialTxs True (GetSnapshotSize s) k dag = appendSpecialTxsToDag dag (word_of_nat k)"
  using special_graphs_agree [OF assms(1,2,3)] .

theorem special_transactions_same_graph_witness:
  "appendSpecialTxs True (GetSnapshotSize ex_snapshot) 2 \<lparr>Vertexes = []\<rparr> = appendSpecialTxsToDag \<lparr>Vertexes = []\<rparr> (word_of_nat 2)"
  by (rule special_transactions_same_graph) (simp_all add: GetSnapshotSize_def ex_snapshot_fresh)

end
