(* ===== verification/Pbft_Types.thy ===== *)
theory Pbft_Types
  imports Chain_Config Quorums
begin

section \<open>PBFT: messages, validators and votes (consensus-pbft-master)\<close>

text \<open>
  The messages of the PBFT module (\<open>pb-go-master/consensus/pbft\<close>), its validator set
  (\<open>validator.go\<close>), its vote sets (\<open>vote.go\<close>) and its consensus state with the archive of past
  states (\<open>state.go\<close>). The names of the module are those of the TBFT module in many places; the
  definitions are its own.
\<close>

subsection \<open>Messages\<close>

datatype PBFTStep =
    PBFTStep_NEW_HEIGHT | PBFTStep_PRE_PREPARE | PBFTStep_PREPARE | PBFTStep_COMMIT
  | PBFTStep_COMMITTED | PBFTStep_VIEW_CHANGE | PBFTStep_NEW_VIEW

datatype PBFTMsgType =
    PBFTMsgType_MSG_PREPREPARE | PBFTMsgType_MSG_PREPARE | PBFTMsgType_MSG_COMMIT
  | PBFTMsgType_MSG_VIEWCHANGE | PBFTMsgType_MSG_NEWVIEW | PBFTMsgType_OTHER i32

record PrePrepare =
  pp_Primary :: string
  pp_View :: u64
  pp_Sequence :: u64
  pp_Digest :: gobytes
  pp_Block :: "Block option"
  pp_Endorsement :: "EndorsementEntry option"
  pp_TxsRwSet :: RwSets

record Prepare =
  pr_NodeId :: string
  pr_View :: u64
  pr_Sequence :: u64
  pr_Digest :: gobytes
  pr_Endorsement :: "EndorsementEntry option"

record Commit =
  cm_NodeId :: string
  cm_View :: u64
  cm_Sequence :: u64
  cm_Digest :: gobytes
  cm_Endorsement :: "EndorsementEntry option"

record ViewChange =
  vc_NodeId :: string
  vc_CurView :: u64
  vc_NextView :: u64
  vc_Sequence :: u64
  vc_Endorsement :: "EndorsementEntry option"

record NewView =
  nv_NodeId :: string
  nv_CurView :: u64
  nv_NextView :: u64
  nv_NewSequence :: u64
  nv_ViewChangeMessages :: "ViewChange list"
  nv_Endorsement :: "EndorsementEntry option"

text \<open>The vote sets as messages, which the consensus state holds; their map may be nil.\<close>

record ProtoPrepareVoteSet =
  ppv_View :: u64
  ppv_Sequence :: u64
  ppv_Digest :: gobytes
  ppv_Votes :: "(string \<times> Prepare) list option"
  ppv_Sum :: u64

record ProtoCommitVoteSet =
  pcv_View :: u64
  pcv_Sequence :: u64
  pcv_Digest :: gobytes
  pcv_Votes :: "(string \<times> Commit) list option"
  pcv_Sum :: u64

record TimeoutInfo =
  ti_Duration :: i64
  ti_Height :: u64
  ti_Round :: u64
  ti_Step :: PBFTStep

subsection \<open>Validators\<close>

record validatorSet =
  Validators :: "string list"
  validatorsHeight :: "string \<rightharpoonup> u64"
  validatorsBeatTime :: "string \<rightharpoonup> i64"

datatype valError = ErrInvalidIndex

definition newValidatorSet :: "string list \<Rightarrow> validatorSet" where
  "newValidatorSet validators =
     \<lparr>Validators = sort validators, validatorsHeight = Map.empty, validatorsBeatTime = Map.empty\<rparr>"

definition isNilOrEmpty :: "validatorSet option \<Rightarrow> bool" where
  "isNilOrEmpty p = (case p of None \<Rightarrow> True | Some valSet \<Rightarrow> length (Validators valSet) = 0)"

definition Size :: "validatorSet option \<Rightarrow> i32" where
  "Size p = (case p of None \<Rightarrow> 0 | Some valSet \<Rightarrow> i32_of_nat (length (Validators valSet)))"

fun hasValidator_loop :: "string list \<Rightarrow> string \<Rightarrow> bool" where
  "hasValidator_loop [] validator = False"
| "hasValidator_loop (val # vals) validator = (if val = validator then True else hasValidator_loop vals validator)"

definition hasValidator :: "validatorSet \<Rightarrow> string \<Rightarrow> bool" where
  "hasValidator valSet validator = hasValidator_loop (Validators valSet) validator"

definition HasValidator :: "validatorSet option \<Rightarrow> string \<Rightarrow> bool" where
  "HasValidator p validator = (case p of None \<Rightarrow> False | Some valSet \<Rightarrow> hasValidator valSet validator)"

text \<open>The sum of view and height wraps around in 64 bits.\<close>

definition GetPrimary :: "validatorSet option \<Rightarrow> u64 \<Rightarrow> u64 \<Rightarrow> valError + string" where
  "GetPrimary p view blockNumber =
     (if isNilOrEmpty p then Inl ErrInvalidIndex
      else let vs = Validators (the p) in Inr (vs ! (unat (view + blockNumber) mod length vs)))"

fun updateValidators_loop ::
    "validatorSet \<Rightarrow> string list \<Rightarrow> string list \<Rightarrow> string list \<Rightarrow> string list \<times> string list" where
  "updateValidators_loop valSet [] added removed = (added, removed)"
| "updateValidators_loop valSet (v # vs) added removed =
     updateValidators_loop valSet vs (if \<not> hasValidator valSet v then added @ [v] else added) (removeAll v removed)"

definition updateValidators :: "validatorSet \<Rightarrow> string list \<Rightarrow> validatorSet \<times> string list \<times> string list" where
  "updateValidators valSet validators =
     (let (added, removed) = updateValidators_loop valSet validators [] (remdups (Validators valSet))
      in (valSet\<lparr>Validators := sort validators\<rparr>, sort added, sort removed))"

definition getByIndex :: "validatorSet \<Rightarrow> i32 \<Rightarrow> valError + string" where
  "getByIndex valSet index =
     (if sint index < 0 \<or> sint index \<ge> sint (Size (Some valSet)) then Inl ErrInvalidIndex
      else Inr (Validators valSet ! nat (sint index)))"

fun getIndexByString_loop :: "string list \<Rightarrow> nat \<Rightarrow> string \<Rightarrow> i32" where
  "getIndexByString_loop [] i validator = - 1"
| "getIndexByString_loop (val # vals) i validator =
     (if val = validator then i32_of_nat i else getIndexByString_loop vals (Suc i) validator)"

definition getIndexByString :: "validatorSet \<Rightarrow> string \<Rightarrow> i32" where
  "getIndexByString valSet validator = getIndexByString_loop (Validators valSet) 0 validator"

text \<open>The number of votes that make a majority, in 32 bits: \<^verbatim>\<open>Size()*2/3 + 1\<close>.\<close>

definition majority_i32 :: "validatorSet \<Rightarrow> i32" where
  "majority_i32 valSet = i32_div (Size (Some valSet) * 2) 3 + 1"

lemma pbft_HasValidator [simp]: "HasValidator (Some V) x \<longleftrightarrow> x \<in> set (Validators V)"
proof -
  have "hasValidator_loop vs x \<longleftrightarrow> x \<in> set vs" for vs by (induction vs) auto
  then show ?thesis by (simp add: HasValidator_def hasValidator_def)
qed

lemma GetPrimary_member: "GetPrimary (Some V) view blockNumber = Inr p \<Longrightarrow> p \<in> set (Validators V)"
  by (auto simp: GetPrimary_def isNilOrEmpty_def Let_def split: if_splits)

lemma pbft_updateValidators [simp]: "Validators (fst (updateValidators V vs)) = sort vs"
  by (simp add: updateValidators_def split: prod.split)

subsection \<open>Vote sets\<close>

datatype voteError = ErrVoteNil | ErrViewSequence | ErrDigest | ErrInvalidValidator

record PrepareVoteSet =
  pvs_View :: u64
  pvs_Sequence :: u64
  pvs_Digest :: gobytes
  pvs_Votes :: "(string \<times> Prepare) list"
  pvs_Sum :: u64
  pvs_validators :: validatorSet

definition NewPrepareVoteSet :: "u64 \<Rightarrow> u64 \<Rightarrow> gobytes \<Rightarrow> validatorSet \<Rightarrow> PrepareVoteSet" where
  "NewPrepareVoteSet view sequence digest validators =
     \<lparr>pvs_View = view, pvs_Sequence = sequence, pvs_Digest = digest, pvs_Votes = [], pvs_Sum = 0,
      pvs_validators = validators\<rparr>"

definition PrepareVoteSet_AddVote ::
    "Prepare option \<Rightarrow> PrepareVoteSet \<Rightarrow> PrepareVoteSet \<times> bool \<times> voteError option" where
  "PrepareVoteSet_AddVote vote pvs =
     (case vote of None \<Rightarrow> (pvs, False, Some ErrVoteNil)
      | Some prepare \<Rightarrow>
        if pr_View prepare \<noteq> pvs_View pvs \<or> pr_Sequence prepare \<noteq> pvs_Sequence pvs then (pvs, False, Some ErrViewSequence)
        else if \<not> bytes_Equal (pr_Digest prepare) (pvs_Digest pvs) then (pvs, False, Some ErrDigest)
        else if \<not> HasValidator (Some (pvs_validators pvs)) (pr_NodeId prepare) then (pvs, False, Some ErrInvalidValidator)
        else if map_of (pvs_Votes pvs) (pr_NodeId prepare) \<noteq> None then (pvs, False, None)
        else (pvs\<lparr>pvs_Votes := AList.update (pr_NodeId prepare) prepare (pvs_Votes pvs), pvs_Sum := pvs_Sum pvs + 1\<rparr>, True, None))"

definition PrepareVoteSet_HasTwoThirdsMajority :: "PrepareVoteSet option \<Rightarrow> bool" where
  "PrepareVoteSet_HasTwoThirdsMajority p =
     (case p of None \<Rightarrow> False | Some pvs \<Rightarrow> pvs_Sum pvs \<ge> u64_of_i32 (majority_i32 (pvs_validators pvs)))"

record CommitVoteSet =
  cvs_View :: u64
  cvs_Sequence :: u64
  cvs_Digest :: gobytes
  cvs_Votes :: "(string \<times> Commit) list"
  cvs_Sum :: u64
  cvs_validators :: validatorSet

definition NewCommitVoteSet :: "u64 \<Rightarrow> u64 \<Rightarrow> gobytes \<Rightarrow> validatorSet \<Rightarrow> CommitVoteSet" where
  "NewCommitVoteSet view sequence digest validators =
     \<lparr>cvs_View = view, cvs_Sequence = sequence, cvs_Digest = digest, cvs_Votes = [], cvs_Sum = 0,
      cvs_validators = validators\<rparr>"

definition CommitVoteSet_AddVote ::
    "Commit option \<Rightarrow> CommitVoteSet \<Rightarrow> CommitVoteSet \<times> bool \<times> voteError option" where
  "CommitVoteSet_AddVote vote cvs =
     (case vote of None \<Rightarrow> (cvs, False, Some ErrVoteNil)
      | Some commit \<Rightarrow>
        if cm_View commit \<noteq> cvs_View cvs \<or> cm_Sequence commit \<noteq> cvs_Sequence cvs then (cvs, False, Some ErrViewSequence)
        else if \<not> bytes_Equal (cm_Digest commit) (cvs_Digest cvs) then (cvs, False, Some ErrDigest)
        else if \<not> HasValidator (Some (cvs_validators cvs)) (cm_NodeId commit) then (cvs, False, Some ErrInvalidValidator)
        else if map_of (cvs_Votes cvs) (cm_NodeId commit) \<noteq> None then (cvs, False, None)
        else (cvs\<lparr>cvs_Votes := AList.update (cm_NodeId commit) commit (cvs_Votes cvs), cvs_Sum := cvs_Sum cvs + 1\<rparr>, True, None))"

definition CommitVoteSet_HasTwoThirdsMajority :: "CommitVoteSet option \<Rightarrow> bool" where
  "CommitVoteSet_HasTwoThirdsMajority p =
     (case p of None \<Rightarrow> False | Some cvs \<Rightarrow> cvs_Sum cvs \<ge> u64_of_i32 (majority_i32 (cvs_validators cvs)))"

subsection \<open>What a vote set counts\<close>

text \<open>
  The contract of both kinds of vote sets: a vote that fits the set is added when its sender has
  none yet. The sum is then the number of senders of fitting votes.
\<close>

locale ballot_box =
  fixes add :: "'v \<Rightarrow> 's \<Rightarrow> 's" and fits :: "'s \<Rightarrow> 'v \<Rightarrow> bool" and sender :: "'v \<Rightarrow> string"
    and senders :: "'s \<Rightarrow> string set" and total :: "'s \<Rightarrow> u64"
  assumes senders_add: "senders (add v s) = (if fits s v then insert (sender v) (senders s) else senders s)"
    and total_add: "total (add v s) = (if fits s v \<and> sender v \<notin> senders s then total s + 1 else total s)"
    and fits_add: "fits (add v s) = fits s"
begin

lemma fits_fold: "fits (fold add vs s) = fits s"
  by (induction vs arbitrary: s) (simp_all add: fits_add)

lemma senders_fold: "senders (fold add vs s) = senders s \<union> sender ` {v \<in> set vs. fits s v}"
  by (induction vs arbitrary: s) (auto simp: senders_add fits_add)

lemma total_fold:
  assumes "total s = word_of_nat (card (senders s))" and "finite (senders s)"
  shows "total (fold add vs s) = word_of_nat (card (senders s \<union> sender ` {v \<in> set vs. fits s v}))"
  using assms
proof (induction vs arbitrary: s)
  case (Cons v vs)
  have "total (add v s) = word_of_nat (card (senders (add v s)))" and "finite (senders (add v s))"
    using Cons.prems by (auto simp: total_add senders_add insert_absorb card_insert_if)
  from Cons.IH [OF this] have "total (fold add vs (add v s)) =
      word_of_nat (card (senders (add v s) \<union> sender ` {v' \<in> set vs. fits s v'}))" by (simp add: fits_add)
  moreover have "senders (add v s) \<union> sender ` {v' \<in> set vs. fits s v'} = senders s \<union> sender ` {v' \<in> set (v # vs). fits s v'}"
    by (auto simp: senders_add)
  ultimately show ?case by simp
qed simp

lemma total_count:
  assumes "total s = 0" and "senders s = {}"
  shows "total (fold add vs s) = word_of_nat (card (sender ` {v \<in> set vs. fits s v}))"
  using total_fold [of s vs] assms by simp

end

definition prepare_fits :: "PrepareVoteSet \<Rightarrow> Prepare \<Rightarrow> bool" where
  "prepare_fits s v \<longleftrightarrow> pr_View v = pvs_View s \<and> pr_Sequence v = pvs_Sequence s \<and>
     bytes_Equal (pr_Digest v) (pvs_Digest s) \<and> pr_NodeId v \<in> set (Validators (pvs_validators s))"

definition commit_fits :: "CommitVoteSet \<Rightarrow> Commit \<Rightarrow> bool" where
  "commit_fits s v \<longleftrightarrow> cm_View v = cvs_View s \<and> cm_Sequence v = cvs_Sequence s \<and>
     bytes_Equal (cm_Digest v) (cvs_Digest s) \<and> cm_NodeId v \<in> set (Validators (cvs_validators s))"

interpretation prepares: ballot_box "\<lambda>v s. fst (PrepareVoteSet_AddVote (Some v) s)" prepare_fits pr_NodeId
    "\<lambda>s. fst ` set (pvs_Votes s)" pvs_Sum
  by unfold_locales
    (auto simp: PrepareVoteSet_AddVote_def prepare_fits_def fun_eq_iff update_new map_of_eq_None_iff image_iff)

interpretation commits: ballot_box "\<lambda>v s. fst (CommitVoteSet_AddVote (Some v) s)" commit_fits cm_NodeId
    "\<lambda>s. fst ` set (cvs_Votes s)" cvs_Sum
  by unfold_locales
    (auto simp: CommitVoteSet_AddVote_def commit_fits_def fun_eq_iff update_new map_of_eq_None_iff image_iff)

lemma majority_i32_nat:
  assumes "length (Validators V) < 2 ^ 30"
  shows "majority_i32 V = i32_of_nat (quorum_nat (length (Validators V)))"
    and "u64_of_i32 (majority_i32 V) = word_of_nat (quorum_nat (length (Validators V)))"
    and "sint (majority_i32 V) = int (quorum_nat (length (Validators V)))"
proof -
  show m: "majority_i32 V = i32_of_nat (quorum_nat (length (Validators V)))"
    using i32_third(1) [OF assms] by (simp add: majority_i32_def Size_def)
  have "quorum_nat (length (Validators V)) < 2 ^ 31" using quorum_nat_le [OF assms] .
  then show "u64_of_i32 (majority_i32 V) = word_of_nat (quorum_nat (length (Validators V)))"
    and "sint (majority_i32 V) = int (quorum_nat (length (Validators V)))"
    by (simp_all add: m u64_of_i32_of_nat sint_i32_of_nat)
qed

text \<open>A majority is counted exactly when more than two thirds of the validators have a fitting vote.\<close>

lemma majority_count:
  assumes "length (Validators V) < 2 ^ 30" and "S \<subseteq> set (Validators V)"
  shows "(word_of_nat (card S) :: u64) \<ge> u64_of_i32 (majority_i32 V) \<longleftrightarrow> quorum_nat (length (Validators V)) \<le> card S"
proof -
  have "card S \<le> length (Validators V)" using assms(2) by (meson card_length card_mono finite_set le_trans)
  then show ?thesis
    using assms(1) quorum_nat_le [OF assms(1)] by (simp add: majority_i32_nat(2) of_nat_u64_le)
qed

interpretation pbft_quorum: quorum_system "set (Validators V)" "quorum_nat (length (Validators V))" for V
  by unfold_locales (simp_all add: quorum_nat_two_thirds)

subsection \<open>The consensus state and its archive\<close>

text \<open>
  The maps of view-change and new-view messages are made before they are written, so that a nil
  map is the empty one.
\<close>

record ConsensusState =
  cs_Id :: string
  View :: u64
  Sequence :: u64
  Step :: PBFTStep
  cs_PrePrepare :: "PrePrepare option"
  cs_PrepareVoteSet :: "ProtoPrepareVoteSet option"
  cs_CommitVoteSet :: "ProtoCommitVoteSet option"
  cs_ViewChangeVotes :: "(string \<times> ViewChange) list"
  cs_NewViewVotes :: "(string \<times> NewView) list"

definition NewConsensusState :: "string \<Rightarrow> ConsensusState" where
  "NewConsensusState id0 =
     \<lparr>cs_Id = id0, View = 0, Sequence = 0, Step = PBFTStep_NEW_HEIGHT, cs_PrePrepare = None, cs_PrepareVoteSet = None,
      cs_CommitVoteSet = None, cs_ViewChangeVotes = [], cs_NewViewVotes = []\<rparr>"

text \<open>
  The archive stores pointers. An instance has one state object, which its methods change in
  place: \<open>TheState\<close> is its address.
\<close>

datatype stateRef = TheState

record consensusStateCache =
  csc_size :: u64
  csc_cache :: "u64 \<rightharpoonup> stateRef"

definition newConsensusStateCache :: "u64 \<Rightarrow> consensusStateCache" where
  "newConsensusStateCache size1 = \<lparr>csc_size = size1, csc_cache = Map.empty\<rparr>"

definition csc_gc :: "u64 \<Rightarrow> consensusStateCache \<Rightarrow> consensusStateCache" where
  "csc_gc sequence cache =
     cache\<lparr>csc_cache := (\<lambda>k. if k + csc_size cache \<le> sequence then None else csc_cache cache k)\<rparr>"

definition addConsensusState :: "(stateRef \<Rightarrow> 's ConsensusState_scheme) \<Rightarrow> stateRef option \<Rightarrow> consensusStateCache \<Rightarrow> consensusStateCache" where
  "addConsensusState heap state cache =
     (case state of None \<Rightarrow> cache
      | Some r \<Rightarrow>
        if Sequence (heap r) \<le> 0 then cache
        else csc_gc (Sequence (heap r)) (cache\<lparr>csc_cache := (csc_cache cache)(Sequence (heap r) \<mapsto> r)\<rparr>))"

definition getConsensusState :: "u64 \<Rightarrow> consensusStateCache \<Rightarrow> stateRef option" where
  "getConsensusState sequence cache = csc_cache cache sequence"

end
