(* ===== verification/Pbft_Core.thy ===== *)
theory Pbft_Core
  imports Pbft_Types
begin

section \<open>The PBFT instance (consensus-pbft-master)\<close>

text \<open>
  The state of \<open>ConsensusPBFTImpl\<close> and the methods of a round: signing and verifying
  (\<open>consensus_pbft_impl.go\<close>), sending (\<open>pbft_msg.go\<close>), the three phases and the change of view.

  The struct embeds its consensus state, as the record extends it. Calls to other components are
  appended to \<open>outs\<close>, with an entry \<open>Signed\<close> for every message that was signed; what other
  components answer is the argument \<open>env\<close>. The encoders of protocol buffers are the record
  \<open>pbftCodec\<close>; they do not fail. The instance's mutex makes a handler one atomic step.
\<close>

datatype pbftMessage =
    MPrePrepare PrePrepare | MPrepare Prepare | MCommit Commit | MViewChange ViewChange | MNewView NewView

record PBFTMsg =
  m_Type :: PBFTMsgType
  m_Msg :: gobytes

datatype WalEntryType =
    WalEntryType_PREPREPARE_ENTRY | WalEntryType_PREPARE_ENTRY | WalEntryType_COMMIT_ENTRY | WalEntryType_OTHER i32

record WalEntry =
  we_Type :: WalEntryType
  we_Height :: u64
  we_Data :: gobytes

datatype Out =
    ProposeState bool
  | VerifyBlock Block
  | CommitBlock Block
  | NetMsg PBFTMsg string
  | AddTimeout TimeoutInfo
  | WalWrite WalEntry
  | Signed pbftMessage

record pbftCodec =
  marshalMessage :: "pbftMessage \<Rightarrow> string"
  marshalPrepareVoteSet :: "ProtoPrepareVoteSet \<Rightarrow> string"
  marshalCommitVoteSet :: "ProtoCommitVoteSet \<Rightarrow> string"

record env =
  e_ChainConfig :: ChainConfig
  e_ParseDuration :: "string \<Rightarrow> i64 option"
  e_ac :: accessControl
  e_codec :: pbftCodec
  e_Sign :: "string \<Rightarrow> string \<Rightarrow> string option"
  e_GetMember :: "Member option"
  e_SignBlock :: "string \<Rightarrow> Block \<Rightarrow> (string \<times> gobytes) option"
  e_NonWalWrite :: int

record proposedProposal =
  pb_Block :: "Block option"
  pb_TxsRwSet :: RwSets

record VerifyResult =
  vr_VerifiedBlock :: "Block option"
  vr_Code :: i32
  vr_TxsRwSet :: RwSets

record ConsensusPBFTImpl = ConsensusState +
  Id :: string
  blockVersion :: u32
  walWriteMode :: int
  valSet :: validatorSet
  stateCache :: consensusStateCache
  proposedBlockC :: "proposedProposal list"
  verifyResultC :: "VerifyResult list"
  blockHeightC :: "u64 list"
  externalMsgC :: "pbftMessage list"
  TimeoutPrePrepare :: i64
  TimeoutPrepare :: i64
  TimeoutCommit :: i64
  TimeoutViewChange :: i64
  outs :: "Out list"
  started :: bool

definition defaultChanCap :: nat where
  "defaultChanCap = 1000"

definition PBFTAdditionalDataKey :: string where
  "PBFTAdditionalDataKey = ''PBFTAdditionalDataKey''"

definition emit :: "Out \<Rightarrow> ConsensusPBFTImpl \<Rightarrow> ConsensusPBFTImpl" where
  "emit o1 c = c\<lparr>outs := outs c @ [o1]\<rparr>"

definition isPrimary :: "ConsensusPBFTImpl \<Rightarrow> bool" where
  "isPrimary c = (case GetPrimary (Some (valSet c)) (View c) (Sequence c) of Inl _ \<Rightarrow> False | Inr primary \<Rightarrow> primary = Id c)"

subsection \<open>Signing and verifying\<close>

text \<open>
  The five sign methods sign a copy of the message without endorsement; the result is the
  endorsement, or none when the signer fails.
\<close>

definition unsigned :: "pbftMessage \<Rightarrow> pbftMessage" where
  "unsigned m =
     (case m of
        MPrePrepare p \<Rightarrow> MPrePrepare (p\<lparr>pp_Endorsement := None\<rparr>)
      | MPrepare p \<Rightarrow> MPrepare (p\<lparr>pr_Endorsement := None\<rparr>)
      | MCommit p \<Rightarrow> MCommit (p\<lparr>cm_Endorsement := None\<rparr>)
      | MViewChange p \<Rightarrow> MViewChange (p\<lparr>vc_Endorsement := None\<rparr>)
      | MNewView p \<Rightarrow> MNewView (p\<lparr>nv_Endorsement := None\<rparr>))"

definition endorse :: "env \<Rightarrow> pbftMessage \<Rightarrow> EndorsementEntry option" where
  "endorse e m =
     (case e_Sign e (cfg_CryptoHash (e_ChainConfig e)) (marshalMessage (e_codec e) (unsigned m)) of
        None \<Rightarrow> None
      | Some sig \<Rightarrow>
        (case e_GetMember e of None \<Rightarrow> None
         | Some serializeMember \<Rightarrow> Some \<lparr>Signer = Some serializeMember, Signature = Some sig\<rparr>))"

definition signPrePrepare :: "env \<Rightarrow> PrePrepare \<Rightarrow> PrePrepare option" where
  "signPrePrepare e p = map_option (\<lambda>en. p\<lparr>pp_Endorsement := Some en\<rparr>) (endorse e (MPrePrepare p))"

definition signPrepare :: "env \<Rightarrow> Prepare \<Rightarrow> Prepare option" where
  "signPrepare e p = map_option (\<lambda>en. p\<lparr>pr_Endorsement := Some en\<rparr>) (endorse e (MPrepare p))"

definition signCommit :: "env \<Rightarrow> Commit \<Rightarrow> Commit option" where
  "signCommit e p = map_option (\<lambda>en. p\<lparr>cm_Endorsement := Some en\<rparr>) (endorse e (MCommit p))"

definition signViewChange :: "env \<Rightarrow> ViewChange \<Rightarrow> ViewChange option" where
  "signViewChange e p = map_option (\<lambda>en. p\<lparr>vc_Endorsement := Some en\<rparr>) (endorse e (MViewChange p))"

definition signNewView :: "env \<Rightarrow> NewView \<Rightarrow> NewView option" where
  "signNewView e p = map_option (\<lambda>en. p\<lparr>nv_Endorsement := Some en\<rparr>) (endorse e (MNewView p))"

datatype verifyError = NoEndorsement | PrincipalFailed | PolicyFailed | VerificationFailed

text \<open>The five verify methods: the endorsement of the message without endorsement.\<close>

definition verify_endorsed ::
    "accessControl \<Rightarrow> pbftCodec \<Rightarrow> u32 \<Rightarrow> EndorsementEntry option \<Rightarrow> pbftMessage \<Rightarrow> verifyError option" where
  "verify_endorsed ac cd version endorsement m =
     (if endorsement = None then Some NoEndorsement
      else
        (case ac_CreatePrincipal ac endorsement (marshalMessage cd (unsigned m)) of
           None \<Rightarrow> Some PrincipalFailed
         | Some prc \<Rightarrow>
           (case ac_VerifyMsgPrincipal ac prc version of
              None \<Rightarrow> Some PolicyFailed
            | Some result \<Rightarrow> if \<not> result then Some VerificationFailed else None)))"

definition verifyPrePrepare :: "env \<Rightarrow> u32 \<Rightarrow> PrePrepare \<Rightarrow> verifyError option" where
  "verifyPrePrepare e version p = verify_endorsed (e_ac e) (e_codec e) version (pp_Endorsement p) (MPrePrepare p)"

definition verifyPrepare :: "env \<Rightarrow> u32 \<Rightarrow> Prepare \<Rightarrow> verifyError option" where
  "verifyPrepare e version p = verify_endorsed (e_ac e) (e_codec e) version (pr_Endorsement p) (MPrepare p)"

definition verifyCommit :: "env \<Rightarrow> u32 \<Rightarrow> Commit \<Rightarrow> verifyError option" where
  "verifyCommit e version p = verify_endorsed (e_ac e) (e_codec e) version (cm_Endorsement p) (MCommit p)"

definition verifyViewChange :: "env \<Rightarrow> u32 \<Rightarrow> ViewChange \<Rightarrow> verifyError option" where
  "verifyViewChange e version p = verify_endorsed (e_ac e) (e_codec e) version (vc_Endorsement p) (MViewChange p)"

definition verifyNewView :: "env \<Rightarrow> u32 \<Rightarrow> NewView \<Rightarrow> verifyError option" where
  "verifyNewView e version p = verify_endorsed (e_ac e) (e_codec e) version (nv_Endorsement p) (MNewView p)"

subsection \<open>Sending\<close>

definition getPBFTMsgType :: "pbftMessage \<Rightarrow> PBFTMsgType" where
  "getPBFTMsgType m =
     (case m of
        MPrePrepare _ \<Rightarrow> PBFTMsgType_MSG_PREPREPARE
      | MPrepare _ \<Rightarrow> PBFTMsgType_MSG_PREPARE
      | MCommit _ \<Rightarrow> PBFTMsgType_MSG_COMMIT
      | MViewChange _ \<Rightarrow> PBFTMsgType_MSG_VIEWCHANGE
      | MNewView _ \<Rightarrow> PBFTMsgType_MSG_NEWVIEW)"

text \<open>One goroutine per receiver: one output per receiver, in the order of the validators.\<close>

fun send_to :: "PBFTMsg \<Rightarrow> string list \<Rightarrow> ConsensusPBFTImpl \<Rightarrow> ConsensusPBFTImpl" where
  "send_to msg [] c = c"
| "send_to msg (v # vs) c = send_to msg vs (if v = Id c then c else emit (NetMsg msg v) c)"

definition sendConsensusMsg :: "env \<Rightarrow> pbftMessage \<Rightarrow> string \<Rightarrow> ConsensusPBFTImpl \<Rightarrow> ConsensusPBFTImpl" where
  "sendConsensusMsg e m to c =
     send_to \<lparr>m_Type = getPBFTMsgType m, m_Msg = Some (marshalMessage (e_codec e) m)\<rparr>
       (if to \<noteq> [] then [to] else Validators (valSet c)) c"

definition sendProposeState :: "bool \<Rightarrow> ConsensusPBFTImpl \<Rightarrow> ConsensusPBFTImpl" where
  "sendProposeState primary = emit (ProposeState primary)"

definition saveWalEntry :: "env \<Rightarrow> WalEntryType \<Rightarrow> u64 \<Rightarrow> string \<Rightarrow> ConsensusPBFTImpl \<Rightarrow> ConsensusPBFTImpl" where
  "saveWalEntry e entryType sequence data c =
     (if walWriteMode c = e_NonWalWrite e then c
      else emit (WalWrite \<lparr>we_Type = entryType, we_Height = sequence, we_Data = Some data\<rparr>) c)"

definition addTimeout :: "i64 \<Rightarrow> PBFTStep \<Rightarrow> ConsensusPBFTImpl \<Rightarrow> ConsensusPBFTImpl" where
  "addTimeout duration step c =
     emit (AddTimeout \<lparr>ti_Duration = duration, ti_Height = Sequence c, ti_Round = View c, ti_Step = step\<rparr>) c"

subsection \<open>Quorums\<close>

text \<open>The recount of the stored votes in a fresh vote set for the digest of the pre-prepare.\<close>

definition countPrepares :: "ConsensusPBFTImpl \<Rightarrow> gobytes \<Rightarrow> (string \<times> Prepare) list \<Rightarrow> PrepareVoteSet" where
  "countPrepares c digest votes =
     fold (\<lambda>v s. fst (PrepareVoteSet_AddVote (Some v) s)) (map snd votes)
       (NewPrepareVoteSet (View c) (Sequence c) digest (valSet c))"

definition countCommits :: "ConsensusPBFTImpl \<Rightarrow> gobytes \<Rightarrow> (string \<times> Commit) list \<Rightarrow> CommitVoteSet" where
  "countCommits c digest votes =
     fold (\<lambda>v s. fst (CommitVoteSet_AddVote (Some v) s)) (map snd votes)
       (NewCommitVoteSet (View c) (Sequence c) digest (valSet c))"

definition hasPrepareQuorum :: "ConsensusPBFTImpl \<Rightarrow> bool go" where
  "hasPrepareQuorum c =
     (case cs_PrepareVoteSet c of None \<Rightarrow> Inr False
      | Some s \<Rightarrow>
        go_bind (deref (cs_PrePrepare c)) (\<lambda>pp.
          Inr (PrepareVoteSet_HasTwoThirdsMajority (Some (countPrepares c (pp_Digest pp) (entries (ppv_Votes s)))))))"

definition hasCommitQuorum :: "ConsensusPBFTImpl \<Rightarrow> bool go" where
  "hasCommitQuorum c =
     (case cs_CommitVoteSet c of None \<Rightarrow> Inr False
      | Some s \<Rightarrow>
        go_bind (deref (cs_PrePrepare c)) (\<lambda>pp.
          Inr (CommitVoteSet_HasTwoThirdsMajority (Some (countCommits c (pp_Digest pp) (entries (pcv_Votes s)))))))"

subsection \<open>Committing\<close>

definition commitBlock :: "env \<Rightarrow> Block \<Rightarrow> ProtoCommitVoteSet \<Rightarrow> ConsensusPBFTImpl \<Rightarrow> (Block \<times> ConsensusPBFTImpl) go" where
  "commitBlock e block commitVoteSet c =
     go_bind (deref (b_Header block)) (\<lambda>header.
       (let extra = (case b_AdditionalData block of None \<Rightarrow> Map.empty | Some x \<Rightarrow> x);
            qc = marshalCommitVoteSet (e_codec e) commitVoteSet;
            block1 = block\<lparr>b_AdditionalData := Some (extra(PBFTAdditionalDataKey \<mapsto> Some qc))\<rparr>;
            c1 = saveWalEntry e WalEntryType_COMMIT_ENTRY (Sequence c) qc c
        in Inr (block1, emit (CommitBlock block1) c1)))"

text \<open>The block that is committed is the one the pre-prepare points to.\<close>

definition enterCommitted :: "env \<Rightarrow> ConsensusPBFTImpl \<Rightarrow> ConsensusPBFTImpl go" where
  "enterCommitted e c =
     go_bind (hasCommitQuorum c) (\<lambda>quorum.
       if cs_CommitVoteSet c = None \<or> \<not> quorum then Inr c
       else
         (case (cs_PrePrepare c, cs_CommitVoteSet c) of
            (Some pp, Some votes) \<Rightarrow>
              (case pp_Block pp of None \<Rightarrow> Inr c
               | Some block \<Rightarrow>
                 go_bind (commitBlock e block votes (c\<lparr>Step := PBFTStep_COMMITTED\<rparr>)) (\<lambda>(block1, c1).
                   Inr (c1\<lparr>cs_PrePrepare := Some (pp\<lparr>pp_Block := Some block1\<rparr>)\<rparr>)))
          | _ \<Rightarrow> Inr c))"

subsection \<open>The commit phase\<close>

definition initCommitVoteSet :: "ConsensusPBFTImpl \<Rightarrow> gobytes \<Rightarrow> ProtoCommitVoteSet" where
  "initCommitVoteSet c digest =
     (case cs_CommitVoteSet c of Some s \<Rightarrow> s
      | None \<Rightarrow> \<lparr>pcv_View = View c, pcv_Sequence = Sequence c, pcv_Digest = digest, pcv_Votes = Some [], pcv_Sum = 0\<rparr>)"

definition addCommit :: "string \<Rightarrow> Commit \<Rightarrow> ProtoCommitVoteSet \<Rightarrow> ProtoCommitVoteSet go" where
  "addCommit node commit s =
     go_bind (map_write node commit (pcv_Votes s)) (\<lambda>votes. Inr (s\<lparr>pcv_Votes := votes, pcv_Sum := pcv_Sum s + 1\<rparr>))"

definition ownCommit :: "ConsensusPBFTImpl \<Rightarrow> gobytes \<Rightarrow> Commit" where
  "ownCommit c digest =
     \<lparr>cm_NodeId = Id c, cm_View = View c, cm_Sequence = Sequence c, cm_Digest = digest, cm_Endorsement = None\<rparr>"

text \<open>After a vote was added: commit with a majority, else ask for a timeout if \<open>wait\<close>.\<close>

definition followCommits :: "env \<Rightarrow> bool \<Rightarrow> gobytes \<Rightarrow> ConsensusPBFTImpl \<Rightarrow> ConsensusPBFTImpl go" where
  "followCommits e wait digest c =
     (if CommitVoteSet_HasTwoThirdsMajority
           (Some (countCommits c digest (case cs_CommitVoteSet c of None \<Rightarrow> [] | Some s \<Rightarrow> entries (pcv_Votes s))))
      then enterCommitted e c
      else Inr (if wait then addTimeout (TimeoutCommit c) PBFTStep_COMMIT c else c))"

definition enterCommit :: "env \<Rightarrow> ConsensusPBFTImpl \<Rightarrow> ConsensusPBFTImpl go" where
  "enterCommit e c =
     go_bind (hasPrepareQuorum c) (\<lambda>quorum.
       if cs_PrepareVoteSet c = None \<or> \<not> quorum then Inr c
       else
         go_bind (deref (cs_PrePrepare c)) (\<lambda>pp.
           (let c1 = c\<lparr>Step := PBFTStep_COMMIT, cs_CommitVoteSet := Some (initCommitVoteSet c (pp_Digest pp))\<rparr>
            in case signCommit e (ownCommit c (pp_Digest pp)) of
                 None \<Rightarrow> Inr c1
               | Some commit \<Rightarrow>
                 go_bind (addCommit (Id c) commit (initCommitVoteSet c (pp_Digest pp))) (\<lambda>s.
                   followCommits e True (pp_Digest pp)
                     (sendConsensusMsg e (MCommit commit) []
                       ((emit (Signed (MCommit commit)) c1)\<lparr>cs_CommitVoteSet := Some s\<rparr>))))))"

subsection \<open>The prepare phase\<close>

definition initPrepareVoteSet :: "ConsensusPBFTImpl \<Rightarrow> gobytes \<Rightarrow> ProtoPrepareVoteSet" where
  "initPrepareVoteSet c digest =
     (case cs_PrepareVoteSet c of Some s \<Rightarrow> s
      | None \<Rightarrow> \<lparr>ppv_View = View c, ppv_Sequence = Sequence c, ppv_Digest = digest, ppv_Votes = Some [], ppv_Sum = 0\<rparr>)"

definition addPrepare :: "string \<Rightarrow> Prepare \<Rightarrow> ProtoPrepareVoteSet \<Rightarrow> ProtoPrepareVoteSet go" where
  "addPrepare node prepare s =
     go_bind (map_write node prepare (ppv_Votes s)) (\<lambda>votes. Inr (s\<lparr>ppv_Votes := votes, ppv_Sum := ppv_Sum s + 1\<rparr>))"

definition ownPrepare :: "ConsensusPBFTImpl \<Rightarrow> gobytes \<Rightarrow> Prepare" where
  "ownPrepare c digest =
     \<lparr>pr_NodeId = Id c, pr_View = View c, pr_Sequence = Sequence c, pr_Digest = digest, pr_Endorsement = None\<rparr>"

definition followPrepares :: "env \<Rightarrow> bool \<Rightarrow> gobytes \<Rightarrow> ConsensusPBFTImpl \<Rightarrow> ConsensusPBFTImpl go" where
  "followPrepares e wait digest c =
     (if PrepareVoteSet_HasTwoThirdsMajority
           (Some (countPrepares c digest (case cs_PrepareVoteSet c of None \<Rightarrow> [] | Some s \<Rightarrow> entries (ppv_Votes s))))
      then enterCommit e c
      else Inr (if wait then addTimeout (TimeoutPrepare c) PBFTStep_PREPARE c else c))"

definition enterPrepare :: "env \<Rightarrow> ConsensusPBFTImpl \<Rightarrow> ConsensusPBFTImpl go" where
  "enterPrepare e c =
     (case cs_PrePrepare c of None \<Rightarrow> Inr c
      | Some pp \<Rightarrow>
        (let c1 = c\<lparr>Step := PBFTStep_PREPARE, cs_PrepareVoteSet := Some (initPrepareVoteSet c (pp_Digest pp))\<rparr>
         in case signPrepare e (ownPrepare c (pp_Digest pp)) of
              None \<Rightarrow> Inr c1
            | Some prepare \<Rightarrow>
              go_bind (addPrepare (Id c) prepare (initPrepareVoteSet c (pp_Digest pp))) (\<lambda>s.
                followPrepares e True (pp_Digest pp)
                  (sendConsensusMsg e (MPrepare prepare) []
                    (saveWalEntry e WalEntryType_PREPARE_ENTRY (Sequence c) (marshalPrepareVoteSet (e_codec e) s)
                      ((emit (Signed (MPrepare prepare)) c1)\<lparr>cs_PrepareVoteSet := Some s\<rparr>))))))"

subsection \<open>The change of view\<close>

definition resetVotes :: "ConsensusPBFTImpl \<Rightarrow> ConsensusPBFTImpl" where
  "resetVotes c =
     c\<lparr>cs_PrePrepare := None, cs_PrepareVoteSet := None, cs_CommitVoteSet := None, cs_ViewChangeVotes := [],
       cs_NewViewVotes := []\<rparr>"

definition enterViewChange :: "env \<Rightarrow> ConsensusPBFTImpl \<Rightarrow> ConsensusPBFTImpl" where
  "enterViewChange e c =
     (let c1 = resetVotes (c\<lparr>View := View c + 1, Step := PBFTStep_VIEW_CHANGE\<rparr>);
          viewChange = \<lparr>vc_NodeId = Id c, vc_CurView = View c1 - 1, vc_NextView = View c1, vc_Sequence = Sequence c,
            vc_Endorsement = None\<rparr>
      in case signViewChange e viewChange of None \<Rightarrow> c1
         | Some vc \<Rightarrow>
           addTimeout (TimeoutViewChange c) PBFTStep_VIEW_CHANGE
             (sendConsensusMsg e (MViewChange vc) []
               ((emit (Signed (MViewChange vc)) c1)\<lparr>cs_ViewChangeVotes := AList.update (Id c) vc (cs_ViewChangeVotes c1)\<rparr>)))"

definition enterNewView :: "NewView \<Rightarrow> ConsensusPBFTImpl \<Rightarrow> ConsensusPBFTImpl" where
  "enterNewView newView c =
     (let c1 = resetVotes (c\<lparr>View := nv_NextView newView, Step := PBFTStep_NEW_HEIGHT\<rparr>)
      in sendProposeState (isPrimary c1) c1)"

definition enoughVotes :: "nat \<Rightarrow> validatorSet \<Rightarrow> bool" where
  "enoughVotes n valSet1 \<longleftrightarrow> int n \<ge> sint (majority_i32 valSet1)"

definition createAndBroadcastNewView :: "env \<Rightarrow> ConsensusPBFTImpl \<Rightarrow> ConsensusPBFTImpl" where
  "createAndBroadcastNewView e c =
     (if \<not> enoughVotes (length (cs_ViewChangeVotes c)) (valSet c) then c
      else
        (let newView = \<lparr>nv_NodeId = Id c, nv_CurView = View c - 1, nv_NextView = View c, nv_NewSequence = Sequence c,
               nv_ViewChangeMessages = map snd (cs_ViewChangeVotes c), nv_Endorsement = None\<rparr>
         in case signNewView e newView of None \<Rightarrow> c
            | Some nv \<Rightarrow>
              (let c1 = sendConsensusMsg e (MNewView nv) [] (emit (Signed (MNewView nv)) c);
                   c2 = c1\<lparr>cs_NewViewVotes := AList.update (Id c) nv (cs_NewViewVotes c1)\<rparr>
               in enterNewView nv c2)))"

end
