(* ===== verification/Pbft_Handlers.thy ===== *)
theory Pbft_Handlers
  imports Pbft_Core
begin

section \<open>PBFT: handlers, start and certificates\<close>

text \<open>
  The processing of messages, results and timeouts by the loop \<open>handle\<close>, the switch to a new
  height, construction, start with the replay of the log, the entry from the message bus
  (\<open>consensus_pbft_impl.go\<close>), and the check of a block's certificate (\<open>utils.go\<close>).
\<close>

subsection \<open>Messages of peers\<close>

definition procPrePrepare :: "env \<Rightarrow> PrePrepare \<Rightarrow> ConsensusPBFTImpl \<Rightarrow> ConsensusPBFTImpl" where
  "procPrePrepare e prePrepare c =
     (if isPrimary c then c
      else if pp_Sequence prePrepare > Sequence c then c
      else if pp_Sequence prePrepare \<noteq> Sequence c \<or> pp_View prePrepare \<noteq> View c then c
      else if GetPrimary (Some (valSet c)) (View c) (Sequence c) \<noteq> Inr (pp_Primary prePrepare) then c
      else if verifyPrePrepare e (blockVersion c) prePrepare \<noteq> None then c
      else if cs_PrePrepare c \<noteq> None then c
      else
        (let c1 = c\<lparr>cs_PrePrepare := Some prePrepare, Step := PBFTStep_PRE_PREPARE\<rparr>
         in case pp_Block prePrepare of
              Some block \<Rightarrow> emit (VerifyBlock block) c1
            | None \<Rightarrow> c1\<lparr>cs_PrePrepare := None\<rparr>))"

definition procPrepare :: "env \<Rightarrow> Prepare \<Rightarrow> ConsensusPBFTImpl \<Rightarrow> ConsensusPBFTImpl go" where
  "procPrepare e prepare c =
     (if pr_Sequence prepare > Sequence c then Inr c
      else if pr_Sequence prepare \<noteq> Sequence c \<or> pr_View prepare \<noteq> View c then Inr c
      else if \<not> HasValidator (Some (valSet c)) (pr_NodeId prepare) then Inr c
      else if verifyPrepare e (blockVersion c) prepare \<noteq> None then Inr c
      else
        (case cs_PrePrepare c of None \<Rightarrow> Inr c
         | Some pp \<Rightarrow>
           if \<not> bytes_Equal (pr_Digest prepare) (pp_Digest pp) then Inr c
           else
             (let s = initPrepareVoteSet c (pp_Digest pp); c1 = c\<lparr>cs_PrepareVoteSet := Some s\<rparr>
              in if map_of (entries (ppv_Votes s)) (pr_NodeId prepare) \<noteq> None then Inr c1
                 else
                   go_bind (addPrepare (pr_NodeId prepare) prepare s) (\<lambda>s1.
                     followPrepares e (Step c = PBFTStep_PREPARE) (pp_Digest pp) (c1\<lparr>cs_PrepareVoteSet := Some s1\<rparr>)))))"

definition procCommit :: "env \<Rightarrow> Commit \<Rightarrow> ConsensusPBFTImpl \<Rightarrow> ConsensusPBFTImpl go" where
  "procCommit e commit c =
     (if cm_Sequence commit > Sequence c then Inr c
      else if cm_Sequence commit \<noteq> Sequence c \<or> cm_View commit \<noteq> View c then Inr c
      else if \<not> HasValidator (Some (valSet c)) (cm_NodeId commit) then Inr c
      else if verifyCommit e (blockVersion c) commit \<noteq> None then Inr c
      else
        (case cs_PrePrepare c of None \<Rightarrow> Inr c
         | Some pp \<Rightarrow>
           if \<not> bytes_Equal (cm_Digest commit) (pp_Digest pp) then Inr c
           else
             (let s = initCommitVoteSet c (pp_Digest pp); c1 = c\<lparr>cs_CommitVoteSet := Some s\<rparr>
              in if map_of (entries (pcv_Votes s)) (cm_NodeId commit) \<noteq> None then Inr c1
                 else
                   go_bind (addCommit (cm_NodeId commit) commit s) (\<lambda>s1.
                     followCommits e (Step c = PBFTStep_COMMIT) (pp_Digest pp) (c1\<lparr>cs_CommitVoteSet := Some s1\<rparr>)))))"

definition procViewChange :: "env \<Rightarrow> ViewChange \<Rightarrow> ConsensusPBFTImpl \<Rightarrow> ConsensusPBFTImpl" where
  "procViewChange e viewChange c =
     (if Step c \<noteq> PBFTStep_VIEW_CHANGE then c
      else if vc_NextView viewChange \<noteq> View c then c
      else if \<not> HasValidator (Some (valSet c)) (vc_NodeId viewChange) then c
      else if verifyViewChange e (blockVersion c) viewChange \<noteq> None then c
      else if map_of (cs_ViewChangeVotes c) (vc_NodeId viewChange) \<noteq> None then c
      else
        (let c1 = c\<lparr>cs_ViewChangeVotes := AList.update (vc_NodeId viewChange) viewChange (cs_ViewChangeVotes c)\<rparr>
         in if enoughVotes (length (cs_ViewChangeVotes c1)) (valSet c1) \<and>
               GetPrimary (Some (valSet c1)) (View c1) (Sequence c1) = Inr (Id c1)
            then createAndBroadcastNewView e c1 else c1))"

definition procNewView :: "env \<Rightarrow> NewView \<Rightarrow> ConsensusPBFTImpl \<Rightarrow> ConsensusPBFTImpl" where
  "procNewView e newView c =
     (if Step c \<noteq> PBFTStep_VIEW_CHANGE then c
      else if nv_NextView newView \<noteq> View c then c
      else if GetPrimary (Some (valSet c)) (View c) (Sequence c) \<noteq> Inr (nv_NodeId newView) then c
      else if verifyNewView e (blockVersion c) newView \<noteq> None then c
      else if \<not> enoughVotes (length (nv_ViewChangeMessages newView)) (valSet c) then c
      else if list_ex (\<lambda>vc. verifyViewChange e (blockVersion c) vc \<noteq> None) (nv_ViewChangeMessages newView) then c
      else if map_of (cs_NewViewVotes c) (nv_NodeId newView) \<noteq> None then c
      else
        (let c1 = c\<lparr>cs_NewViewVotes := AList.update (nv_NodeId newView) newView (cs_NewViewVotes c)\<rparr>
         in if length (cs_NewViewVotes c1) \<ge> 1 then enterNewView newView c1 else c1))"

definition handleConsensusMsg :: "env \<Rightarrow> pbftMessage \<Rightarrow> ConsensusPBFTImpl \<Rightarrow> ConsensusPBFTImpl go" where
  "handleConsensusMsg e m c =
     (case m of
        MPrePrepare p \<Rightarrow> Inr (procPrePrepare e p c)
      | MPrepare p \<Rightarrow> procPrepare e p c
      | MCommit p \<Rightarrow> procCommit e p c
      | MViewChange p \<Rightarrow> Inr (procViewChange e p c)
      | MNewView p \<Rightarrow> Inr (procNewView e p c))"

subsection \<open>Configuration and new heights\<close>

definition GetValidatorListFromConfig :: "ChainConfig \<Rightarrow> string list" where
  "GetValidatorListFromConfig chainConfig = fold (\<lambda>node vs. vs @ node) (cc_Nodes (cfg_Consensus chainConfig)) []"

record PbftConfig =
  pc_timeoutPrePrepare :: i64
  pc_timeoutPrepare :: i64
  pc_timeoutCommit :: i64
  pc_timeoutViewChange :: i64

definition default_PbftConfig :: PbftConfig where
  "default_PbftConfig =
     \<lparr>pc_timeoutPrePrepare = 30000000000, pc_timeoutPrepare = 30000000000, pc_timeoutCommit = 30000000000,
      pc_timeoutViewChange = 60000000000\<rparr>"

text \<open>A value that is no duration sets the timeout to zero: \<^verbatim>\<open>ParseDuration\<close> returns it with the error.\<close>

definition extract_entry :: "(string \<Rightarrow> i64 option) \<Rightarrow> ConfigKeyValue \<Rightarrow> PbftConfig \<Rightarrow> PbftConfig" where
  "extract_entry parseDur v cfg =
     (let d = (case parseDur (kv_Value v) of None \<Rightarrow> 0 | Some d \<Rightarrow> d)
      in if kv_Key v = ''PBFT_timeout_preprepare'' then cfg\<lparr>pc_timeoutPrePrepare := d\<rparr>
         else if kv_Key v = ''PBFT_timeout_prepare'' then cfg\<lparr>pc_timeoutPrepare := d\<rparr>
         else if kv_Key v = ''PBFT_timeout_commit'' then cfg\<lparr>pc_timeoutCommit := d\<rparr>
         else if kv_Key v = ''PBFT_timeout_viewchange'' then cfg\<lparr>pc_timeoutViewChange := d\<rparr>
         else cfg)"

definition extractConsensusConfig :: "env \<Rightarrow> ConsensusConfig \<Rightarrow> string list \<times> PbftConfig" where
  "extractConsensusConfig e cfg =
     (GetValidatorListFromConfig (e_ChainConfig e), fold (extract_entry (e_ParseDuration e)) (cc_ExtConfig cfg) default_PbftConfig)"

definition updateChainConfig :: "env \<Rightarrow> ConsensusPBFTImpl \<Rightarrow> ConsensusPBFTImpl" where
  "updateChainConfig e c =
     (let (validators, cfg) = extractConsensusConfig e (cfg_Consensus (e_ChainConfig e))
      in c\<lparr>TimeoutPrePrepare := pc_timeoutPrePrepare cfg, TimeoutPrepare := pc_timeoutPrepare cfg,
           TimeoutCommit := pc_timeoutCommit cfg, TimeoutViewChange := pc_timeoutViewChange cfg,
           valSet := fst (updateValidators (valSet c) validators)\<rparr>)"

definition ConsensusType_PBFT :: i32 where
  "ConsensusType_PBFT = 7"

definition Verify :: "env \<Rightarrow> i32 \<Rightarrow> ChainConfig \<Rightarrow> bool" where
  "Verify e consensusType chainConfig \<longleftrightarrow> consensusType = ConsensusType_PBFT"

definition enterNewSequence :: "env \<Rightarrow> u64 \<Rightarrow> ConsensusPBFTImpl \<Rightarrow> ConsensusPBFTImpl go" where
  "enterNewSequence e sequence c =
     (if Sequence c \<ge> sequence then Inr c
      else
        (let c1 = (if Sequence c > 0
                   then c\<lparr>stateCache := addConsensusState (\<lambda>_. c) (Some TheState) (stateCache c)\<rparr> else c);
             c2 = updateChainConfig e c1;
             c3 = resetVotes (c2\<lparr>Sequence := sequence, Step := PBFTStep_NEW_HEIGHT\<rparr>)
         in go_bind (GetBlockVersion (e_ChainConfig e)) (\<lambda>version.
              (let c4 = c3\<lparr>blockVersion := version\<rparr> in Inr (sendProposeState (isPrimary c4) c4)))))"

definition handleBlockHeight :: "env \<Rightarrow> u64 \<Rightarrow> ConsensusPBFTImpl \<Rightarrow> ConsensusPBFTImpl go" where
  "handleBlockHeight e height c = (if Sequence c > height then Inr c else enterNewSequence e (height + 1) c)"

subsection \<open>Blocks, results and timeouts\<close>

definition handleProposedBlock :: "env \<Rightarrow> proposedProposal \<Rightarrow> ConsensusPBFTImpl \<Rightarrow> ConsensusPBFTImpl go" where
  "handleProposedBlock e pb c =
     go_bind (deref (pb_Block pb)) (\<lambda>block.
     go_bind (deref (b_Header block)) (\<lambda>header.
       if BlockHeight header \<noteq> Sequence c then Inr c
       else if \<not> isPrimary c then Inr c
       else if Step c \<noteq> PBFTStep_NEW_HEIGHT \<and> Step c \<noteq> PBFTStep_PRE_PREPARE then Inr c
       else
         (case e_SignBlock e (cfg_CryptoHash (e_ChainConfig e)) block of None \<Rightarrow> Inr c
          | Some (hash, sig) \<Rightarrow>
            (let block1 = block\<lparr>b_Header := Some (header\<lparr>BlockHash := Some hash, h_Signature := sig\<rparr>)\<rparr>;
                 prePrepare = \<lparr>pp_Primary = Id c, pp_View = View c, pp_Sequence = Sequence c, pp_Digest = Some hash,
                   pp_Block = Some block1, pp_Endorsement = None, pp_TxsRwSet = pb_TxsRwSet pb\<rparr>
             in case signPrePrepare e prePrepare of None \<Rightarrow> Inr c
                | Some pp \<Rightarrow>
                  (let c1 = (emit (Signed (MPrePrepare pp)) c)\<lparr>cs_PrePrepare := Some pp, Step := PBFTStep_PRE_PREPARE\<rparr>;
                       c2 = saveWalEntry e WalEntryType_PREPREPARE_ENTRY (Sequence c) (marshalMessage (e_codec e) (MPrePrepare pp)) c1;
                       c3 = addTimeout (TimeoutPrePrepare c) PBFTStep_PRE_PREPARE c2;
                       c4 = sendConsensusMsg e (MPrePrepare pp) [] c3
                   in enterPrepare e (sendProposeState False c4))))))"

definition VerifyResult_FAIL :: i32 where
  "VerifyResult_FAIL = 1"

definition handleVerifyResult :: "env \<Rightarrow> VerifyResult \<Rightarrow> ConsensusPBFTImpl \<Rightarrow> ConsensusPBFTImpl go" where
  "handleVerifyResult e vr c =
     go_bind (deref (vr_VerifiedBlock vr)) (\<lambda>block.
     go_bind (deref (b_Header block)) (\<lambda>header.
       if Sequence c \<noteq> BlockHeight header then Inr c
       else
         (case cs_PrePrepare c of None \<Rightarrow> Inr c
          | Some pp \<Rightarrow>
            if \<not> bytes_Equal (pp_Digest pp) (BlockHash header) then Inr c
            else if vr_Code vr = VerifyResult_FAIL then Inr (enterViewChange e (c\<lparr>cs_PrePrepare := None\<rparr>))
            else
              enterPrepare e (c\<lparr>cs_PrePrepare :=
                Some (pp\<lparr>pp_Block := Some block, pp_TxsRwSet := vr_TxsRwSet vr, pp_Digest := BlockHash header\<rparr>)\<rparr>))))"

definition handleTimeout :: "env \<Rightarrow> TimeoutInfo \<Rightarrow> ConsensusPBFTImpl \<Rightarrow> ConsensusPBFTImpl" where
  "handleTimeout e ti c =
     (if ti_Height ti \<noteq> Sequence c then c
      else if ti_Step ti \<in> {PBFTStep_PRE_PREPARE, PBFTStep_PREPARE, PBFTStep_COMMIT, PBFTStep_VIEW_CHANGE}
      then enterViewChange e c else c)"

subsection \<open>The loop\<close>

datatype selected = SelProposed | SelVerify | SelHeight | SelExternal | SelTimeout TimeoutInfo

text \<open>One iteration; none when the queue of the case is empty.\<close>

definition handle_once :: "env \<Rightarrow> selected \<Rightarrow> ConsensusPBFTImpl \<Rightarrow> ConsensusPBFTImpl go option" where
  "handle_once e sel c =
     (case sel of
        SelProposed \<Rightarrow>
          (case proposedBlockC c of [] \<Rightarrow> None | p # q \<Rightarrow> Some (handleProposedBlock e p (c\<lparr>proposedBlockC := q\<rparr>)))
      | SelVerify \<Rightarrow>
          (case verifyResultC c of [] \<Rightarrow> None | v # q \<Rightarrow> Some (handleVerifyResult e v (c\<lparr>verifyResultC := q\<rparr>)))
      | SelHeight \<Rightarrow>
          (case blockHeightC c of [] \<Rightarrow> None | h # q \<Rightarrow> Some (handleBlockHeight e h (c\<lparr>blockHeightC := q\<rparr>)))
      | SelExternal \<Rightarrow>
          (case externalMsgC c of [] \<Rightarrow> None | m # q \<Rightarrow> Some (handleConsensusMsg e m (c\<lparr>externalMsgC := q\<rparr>)))
      | SelTimeout ti \<Rightarrow> Some (Inr (handleTimeout e ti c)))"

subsection \<open>The message bus\<close>

record wire =
  w_PBFTMsg :: "string \<Rightarrow> PBFTMsg option"
  w_PrePrepare :: "string \<Rightarrow> PrePrepare option"
  w_Prepare :: "string \<Rightarrow> Prepare option"
  w_Commit :: "string \<Rightarrow> Commit option"
  w_ViewChange :: "string \<Rightarrow> ViewChange option"
  w_NewView :: "string \<Rightarrow> NewView option"

definition createConsensusMsgFromPBFTMsgBz :: "wire \<Rightarrow> gobytes \<Rightarrow> pbftMessage option" where
  "createConsensusMsgFromPBFTMsgBz w msgBz =
     (if bytes_content msgBz = [] then None
      else
        (case w_PBFTMsg w (bytes_content msgBz) of None \<Rightarrow> None
         | Some pbftMsg \<Rightarrow>
           (let msg = bytes_content (m_Msg pbftMsg)
            in case m_Type pbftMsg of
                 PBFTMsgType_MSG_PREPREPARE \<Rightarrow> map_option MPrePrepare (w_PrePrepare w msg)
               | PBFTMsgType_MSG_PREPARE \<Rightarrow> map_option MPrepare (w_Prepare w msg)
               | PBFTMsgType_MSG_COMMIT \<Rightarrow> map_option MCommit (w_Commit w msg)
               | PBFTMsgType_MSG_VIEWCHANGE \<Rightarrow> map_option MViewChange (w_ViewChange w msg)
               | PBFTMsgType_MSG_NEWVIEW \<Rightarrow> map_option MNewView (w_NewView w msg)
               | PBFTMsgType_OTHER _ \<Rightarrow> None)))"

datatype busMessage =
    BusProposedBlock proposedProposal
  | BusVerifyResult VerifyResult
  | BusRecvConsensusMsg gobytes
  | BusBlockInfo "Block option"
  | BusOther

text \<open>A send to a full channel waits: the result is then none.\<close>

definition OnMessage :: "wire \<Rightarrow> busMessage \<Rightarrow> ConsensusPBFTImpl \<Rightarrow> ConsensusPBFTImpl option go" where
  "OnMessage w message c =
     (case message of
        BusProposedBlock p \<Rightarrow>
          Inr (if length (proposedBlockC c) < defaultChanCap then Some (c\<lparr>proposedBlockC := proposedBlockC c @ [p]\<rparr>) else None)
      | BusVerifyResult v \<Rightarrow>
          Inr (if length (verifyResultC c) < defaultChanCap then Some (c\<lparr>verifyResultC := verifyResultC c @ [v]\<rparr>) else None)
      | BusRecvConsensusMsg payload \<Rightarrow>
          (case createConsensusMsgFromPBFTMsgBz w payload of None \<Rightarrow> Inr (Some c)
           | Some m \<Rightarrow>
             Inr (if length (externalMsgC c) < defaultChanCap then Some (c\<lparr>externalMsgC := externalMsgC c @ [m]\<rparr>) else None))
      | BusBlockInfo block \<Rightarrow>
          (case block of None \<Rightarrow> Inr (Some c)
           | Some b \<Rightarrow>
             go_bind (deref (b_Header b)) (\<lambda>header.
               Inr (if length (blockHeightC c) < defaultChanCap
                    then Some (c\<lparr>blockHeightC := blockHeightC c @ [BlockHeight header]\<rparr>) else None)))
      | BusOther \<Rightarrow> Inr (Some c))"

subsection \<open>Construction, start and stop\<close>

fun walMode_entries :: "string \<Rightarrow> int \<Rightarrow> ConfigKeyValue list \<Rightarrow> int option" where
  "walMode_entries key walMode [] = Some walMode"
| "walMode_entries key walMode (v # vs) =
     (if kv_Key v = key then (case Atoi (kv_Value v) of None \<Rightarrow> None | Some val \<Rightarrow> walMode_entries key val vs)
      else walMode_entries key walMode vs)"

text \<open>The write mode and whether there is an error; an unreadable mode is no error.\<close>

definition InitLWS :: "string \<Rightarrow> int \<Rightarrow> bool \<Rightarrow> ConsensusConfig \<Rightarrow> int option" where
  "InitLWS walWriteModeKey nonWalWrite openLws config =
     (case walMode_entries walWriteModeKey 0 (cc_ExtConfig config) of
        None \<Rightarrow> Some nonWalWrite
      | Some walMode \<Rightarrow> if \<not> openLws then None else Some walMode)"

definition New :: "string \<Rightarrow> string \<Rightarrow> int \<Rightarrow> bool \<Rightarrow> ChainConfig \<Rightarrow> ConsensusPBFTImpl option go" where
  "New nodeId walWriteModeKey nonWalWrite openLws cfg =
     (case InitLWS walWriteModeKey nonWalWrite openLws (cfg_Consensus cfg) of None \<Rightarrow> Inr None
      | Some mode \<Rightarrow>
        go_bind (GetBlockVersion cfg) (\<lambda>version.
          Inr (Some (ConsensusState.extend (NewConsensusState nodeId)
            \<lparr>Id = nodeId, blockVersion = version, walWriteMode = mode,
             valSet = newValidatorSet (GetValidatorListFromConfig cfg), stateCache = newConsensusStateCache 10,
             proposedBlockC = [], verifyResultC = [], blockHeightC = [], externalMsgC = [],
             TimeoutPrePrepare = pc_timeoutPrePrepare default_PbftConfig, TimeoutPrepare = pc_timeoutPrepare default_PbftConfig,
             TimeoutCommit = pc_timeoutCommit default_PbftConfig, TimeoutViewChange = pc_timeoutViewChange default_PbftConfig,
             outs = [], started = False\<rparr>))))"

datatype walLast = WalNoIterator | WalEmpty | WalReadError | WalBytes string

record walCodec =
  um_WalEntry :: "string \<Rightarrow> WalEntry option"
  um_PrePrepare :: "string \<Rightarrow> PrePrepare option"
  um_PrepareVoteSet :: "string \<Rightarrow> ProtoPrepareVoteSet option"
  um_CommitVoteSet :: "string \<Rightarrow> ProtoCommitVoteSet option"

definition mustUnmarshal :: "(string \<Rightarrow> 'm option) \<Rightarrow> gobytes \<Rightarrow> 'm go" where
  "mustUnmarshal um b = (case um (bytes_content b) of None \<Rightarrow> Inl UnmarshalFailed | Some m \<Rightarrow> Inr m)"

definition enterPrepareFromReplayWal :: "env \<Rightarrow> PrePrepare \<Rightarrow> ConsensusPBFTImpl \<Rightarrow> (ConsensusPBFTImpl \<times> bool) go" where
  "enterPrepareFromReplayWal e prePrepare c =
     (if pp_Block prePrepare = None then Inr (c, False)
      else go_bind (enterPrepare e (c\<lparr>cs_PrePrepare := Some prePrepare, Step := PBFTStep_PRE_PREPARE\<rparr>)) (\<lambda>c1. Inr (c1, True)))"

text \<open>\<open>True\<close> is a nil error.\<close>

definition replayWal :: "env \<Rightarrow> walCodec \<Rightarrow> u64 option \<Rightarrow> walLast \<Rightarrow> ConsensusPBFTImpl \<Rightarrow> (ConsensusPBFTImpl \<times> bool) go" where
  "replayWal e um height wal c =
     (case height of None \<Rightarrow> Inr (c, False)
      | Some currentHeight \<Rightarrow>
        if walWriteMode c = e_NonWalWrite e \<or> wal = WalNoIterator then
          go_bind (enterNewSequence e (currentHeight + 1) c) (\<lambda>c1. Inr (c1, True))
        else if wal = WalReadError then Inr (c, False)
        else
          go_bind (case wal of WalBytes b \<Rightarrow> mustUnmarshal (um_WalEntry um) (Some b)
                   | _ \<Rightarrow> Inr \<lparr>we_Type = WalEntryType_OTHER 0, we_Height = 0, we_Data = None\<rparr>) (\<lambda>lastEntry.
            (let sequence = we_Height lastEntry
             in if currentHeight + 1 < sequence then Inr (c, False)
                else if currentHeight \<ge> sequence then
                  go_bind (enterNewSequence e (currentHeight + 1) c) (\<lambda>c1. Inr (c1, True))
                else
                  go_bind (enterNewSequence e sequence c) (\<lambda>c1.
                    (case we_Type lastEntry of
                       WalEntryType_PREPREPARE_ENTRY \<Rightarrow>
                         go_bind (mustUnmarshal (um_PrePrepare um) (we_Data lastEntry)) (\<lambda>pp. enterPrepareFromReplayWal e pp c1)
                     | WalEntryType_PREPARE_ENTRY \<Rightarrow>
                         go_bind (mustUnmarshal (um_PrepareVoteSet um) (we_Data lastEntry)) (\<lambda>s.
                           Inr (c1\<lparr>cs_PrepareVoteSet := Some s, Step := PBFTStep_PREPARE\<rparr>, True))
                     | WalEntryType_COMMIT_ENTRY \<Rightarrow>
                         go_bind (mustUnmarshal (um_CommitVoteSet um) (we_Data lastEntry)) (\<lambda>s.
                           Inr (c1\<lparr>cs_CommitVoteSet := Some s, Step := PBFTStep_COMMIT\<rparr>, True))
                     | WalEntryType_OTHER _ \<Rightarrow> Inr (c1, True))))))"

text \<open>
  The goroutine of \<open>Start\<close>: \<open>stopped\<close> says that \<open>Stop\<close> came first. The result is the instance and
  whether the loop is started.
\<close>

definition Start ::
    "env \<Rightarrow> walCodec \<Rightarrow> u64 option \<Rightarrow> walLast \<Rightarrow> bool \<Rightarrow> ConsensusPBFTImpl \<Rightarrow> (ConsensusPBFTImpl \<times> bool) go" where
  "Start e um height wal stopped c =
     (if stopped then Inr (c\<lparr>started := False\<rparr>, False) else replayWal e um height wal (c\<lparr>started := True\<rparr>))"

definition Stop :: "ConsensusPBFTImpl \<Rightarrow> ConsensusPBFTImpl" where
  "Stop c = c\<lparr>started := False\<rparr>"

subsection \<open>Queries\<close>

definition GetValidators :: "ConsensusPBFTImpl \<Rightarrow> string list option" where
  "GetValidators c = (if \<not> started c then None else Some (Validators (valSet c)))"

definition GetLastHeight :: "ConsensusPBFTImpl \<Rightarrow> u64" where
  "GetLastHeight c = (if \<not> started c then - 1 else Sequence c)"

definition toProto :: "'s ConsensusState_scheme option \<Rightarrow> ConsensusState option" where
  "toProto cs = map_option ConsensusState.truncate cs"

definition GetConsensusStateJSON :: "(ConsensusState \<Rightarrow> string) \<Rightarrow> ConsensusPBFTImpl \<Rightarrow> string option" where
  "GetConsensusStateJSON marshalState c =
     (if \<not> started c then None else map_option marshalState (toProto (Some c)))"

definition ToProto :: "ConsensusPBFTImpl \<Rightarrow> ConsensusState option" where
  "ToProto c = toProto (Some c)"

subsection \<open>Certificates of blocks\<close>

datatype blockError =
    InvalidBlock | NoVoteSet | UnmarshalVotes | NoChainConfig | NoValidatorList | UnmatchedDigest | VoteOfStranger
  | VoteRejected verifyError

definition GetValidatorList :: "ChainConfig \<Rightarrow> string list option" where
  "GetValidatorList chainConfig =
     (if cc_Type (cfg_Consensus chainConfig) = ConsensusType_PBFT then Some (GetValidatorListFromConfig chainConfig) else None)"

definition verify_vote :: "accessControl \<Rightarrow> pbftCodec \<Rightarrow> u32 \<Rightarrow> validatorSet \<Rightarrow> Commit \<Rightarrow> blockError option" where
  "verify_vote ac cd version valSet1 commit =
     (if \<not> HasValidator (Some valSet1) (cm_NodeId commit) then Some VoteOfStranger
      else if cm_Endorsement commit = None then None
      else map_option VoteRejected (verify_endorsed ac cd version (cm_Endorsement commit) (MCommit commit)))"

fun verify_votes :: "accessControl \<Rightarrow> pbftCodec \<Rightarrow> u32 \<Rightarrow> validatorSet \<Rightarrow> (string \<times> Commit) list \<Rightarrow> blockError option" where
  "verify_votes ac cd version valSet1 [] = None"
| "verify_votes ac cd version valSet1 ((nodeId, commit) # votes) =
     (case verify_vote ac cd version valSet1 commit of
        Some err \<Rightarrow> Some err | None \<Rightarrow> verify_votes ac cd version valSet1 votes)"

definition VerifyBlockSignatures ::
    "(u64 \<Rightarrow> ChainConfig option) \<Rightarrow> accessControl \<Rightarrow> pbftCodec \<Rightarrow> (string \<Rightarrow> ProtoCommitVoteSet option) \<Rightarrow>
      (ChainConfig \<Rightarrow> string list option) \<Rightarrow> Block option \<Rightarrow> blockError option" where
  "VerifyBlockSignatures configOf ac cd unmarshal validatorListFunc block =
     (case block of None \<Rightarrow> Some InvalidBlock
      | Some b \<Rightarrow>
        (case (b_Header b, b_AdditionalData b) of
           (Some header, Some extra) \<Rightarrow>
             (case extra PBFTAdditionalDataKey of None \<Rightarrow> Some NoVoteSet
              | Some blockVoteSet \<Rightarrow>
                (case unmarshal (bytes_content blockVoteSet) of None \<Rightarrow> Some UnmarshalVotes
                 | Some votes \<Rightarrow>
                   (case configOf (BlockHeight header) of None \<Rightarrow> Some NoChainConfig
                    | Some chainConfig \<Rightarrow>
                      (case validatorListFunc chainConfig of None \<Rightarrow> Some NoValidatorList
                       | Some validators \<Rightarrow>
                         if pcv_Digest votes \<noteq> None \<and> \<not> bytes_Equal (pcv_Digest votes) (BlockHash header)
                         then Some UnmatchedDigest
                         else verify_votes ac cd (BlockVersion header) (newValidatorSet validators) (entries (pcv_Votes votes))))))
         | _ \<Rightarrow> Some InvalidBlock))"

text \<open>
  The check of a set of votes by one goroutine per vote: an error that is stored too late
  (\<open>late\<close>) is lost.
\<close>

definition verifyPrepareVotes ::
    "accessControl \<Rightarrow> pbftCodec \<Rightarrow> u32 \<Rightarrow> (Prepare \<Rightarrow> bool) \<Rightarrow> (string \<times> Prepare) list option \<Rightarrow> bool" where
  "verifyPrepareVotes ac cd version late votes \<longleftrightarrow>
     votes \<noteq> None \<and>
     list_all (\<lambda>(_, v). late v \<or>
       (case ac_CreatePrincipal ac (pr_Endorsement v) (marshalMessage cd (unsigned (MPrepare v))) of None \<Rightarrow> False
        | Some prc \<Rightarrow> ac_VerifyMsgPrincipal ac prc version = Some True)) (entries votes)"

definition verifyCommitVotes ::
    "accessControl \<Rightarrow> pbftCodec \<Rightarrow> u32 \<Rightarrow> (Commit \<Rightarrow> bool) \<Rightarrow> (string \<times> Commit) list option \<Rightarrow> bool" where
  "verifyCommitVotes ac cd version late votes \<longleftrightarrow>
     votes \<noteq> None \<and>
     list_all (\<lambda>(_, v). late v \<or>
       (case ac_CreatePrincipal ac (cm_Endorsement v) (marshalMessage cd (unsigned (MCommit v))) of None \<Rightarrow> False
        | Some prc \<Rightarrow> ac_VerifyMsgPrincipal ac prc version = Some True)) (entries votes)"

end
