(* ===== verification/Pbft_Inv.thy ===== *)
theory Pbft_Inv
  imports Pbft_Handlers
begin

section \<open>PBFT: what the phases and handlers keep\<close>

text \<open>
  The votes of a node at a sequence number and view are its signed pre-prepares, prepares and
  commits. The invariant of an instance: its votes are not ahead of its position, those at its
  position are for the digest of its pre-prepare, votes at the same position agree, there is no
  pre-prepare before a proposal and during a change of view, and the stored votes of others are
  verified.
\<close>

subsection \<open>Votes and certificates\<close>

fun vote_of :: "pbftMessage \<Rightarrow> (u64 \<times> u64 \<times> gobytes) option" where
  "vote_of (MPrePrepare p) = Some (pp_Sequence p, pp_View p, pp_Digest p)"
| "vote_of (MPrepare p) = Some (pr_Sequence p, pr_View p, pr_Digest p)"
| "vote_of (MCommit p) = Some (cm_Sequence p, cm_View p, cm_Digest p)"
| "vote_of _ = None"

definition votes :: "Out list \<Rightarrow> (u64 \<times> u64 \<times> gobytes) set" where
  "votes os = {x. \<exists>m. Signed m \<in> set os \<and> vote_of m = Some x}"

lemma votes_append [simp]: "votes (xs @ ys) = votes xs \<union> votes ys"
  by (auto simp: votes_def)

lemma votes_simps [simp]:
  "votes [] = {}"
  "votes (Signed m # os) = set_option (vote_of m) \<union> votes os"
  "(\<And>m. o1 \<noteq> Signed m) \<Longrightarrow> votes (o1 # os) = votes os"
  by (auto simp: votes_def)

text \<open>A vote of the node itself, or one whose endorsement the access control accepted.\<close>

definition backed_prepare :: "accessControl \<Rightarrow> pbftCodec \<Rightarrow> Out list \<Rightarrow> Prepare \<Rightarrow> bool" where
  "backed_prepare ac cd os v \<longleftrightarrow>
     (\<exists>version. verify_endorsed ac cd version (pr_Endorsement v) (MPrepare v) = None) \<or> Signed (MPrepare v) \<in> set os"

definition backed_commit :: "accessControl \<Rightarrow> pbftCodec \<Rightarrow> Out list \<Rightarrow> Commit \<Rightarrow> bool" where
  "backed_commit ac cd os v \<longleftrightarrow>
     (\<exists>version. verify_endorsed ac cd version (cm_Endorsement v) (MCommit v) = None) \<or> Signed (MCommit v) \<in> set os"

definition votes_ok :: "accessControl \<Rightarrow> pbftCodec \<Rightarrow> ConsensusPBFTImpl \<Rightarrow> bool" where
  "votes_ok ac cd c \<longleftrightarrow>
     (\<forall>s. cs_PrepareVoteSet c = Some s \<longrightarrow> (\<forall>v \<in> snd ` set (entries (ppv_Votes s)). backed_prepare ac cd (outs c) v)) \<and>
     (\<forall>s. cs_CommitVoteSet c = Some s \<longrightarrow> (\<forall>v \<in> snd ` set (entries (pcv_Votes s)). backed_commit ac cd (outs c) v))"

definition prepare_voters :: "ConsensusPBFTImpl \<Rightarrow> gobytes \<Rightarrow> ProtoPrepareVoteSet \<Rightarrow> string set" where
  "prepare_voters c digest s = pr_NodeId ` {v \<in> snd ` set (entries (ppv_Votes s)).
     pr_View v = View c \<and> pr_Sequence v = Sequence c \<and> bytes_Equal (pr_Digest v) digest \<and> pr_NodeId v \<in> set (Validators (valSet c))}"

definition commit_voters :: "ConsensusPBFTImpl \<Rightarrow> gobytes \<Rightarrow> ProtoCommitVoteSet \<Rightarrow> string set" where
  "commit_voters c digest s = cm_NodeId ` {v \<in> snd ` set (entries (pcv_Votes s)).
     cm_View v = View c \<and> cm_Sequence v = Sequence c \<and> bytes_Equal (cm_Digest v) digest \<and> cm_NodeId v \<in> set (Validators (valSet c))}"

lemma countPrepares_majority:
  assumes "length (Validators (valSet c)) < 2 ^ 30"
  shows "PrepareVoteSet_HasTwoThirdsMajority (Some (countPrepares c digest (entries (ppv_Votes s)))) \<longleftrightarrow>
    quorum_nat (length (Validators (valSet c))) \<le> card (prepare_voters c digest s)"
proof -
  let ?N = "NewPrepareVoteSet (View c) (Sequence c) digest (valSet c)"
  have validators: "pvs_validators (countPrepares c digest vs) = valSet c" for vs
  proof -
    have "pvs_validators (fold (\<lambda>v s. fst (PrepareVoteSet_AddVote (Some v) s)) xs t) = pvs_validators t" for xs t
      by (induction xs arbitrary: t) (simp_all add: PrepareVoteSet_AddVote_def)
    then show ?thesis by (simp add: countPrepares_def NewPrepareVoteSet_def)
  qed
  have "pvs_Sum (countPrepares c digest (entries (ppv_Votes s))) = word_of_nat (card (prepare_voters c digest s))"
    unfolding countPrepares_def prepare_voters_def
    using prepares.total_count [of ?N "map snd (entries (ppv_Votes s))"]
    by (simp add: NewPrepareVoteSet_def prepare_fits_def)
  then show ?thesis
    using majority_count [OF assms, of "prepare_voters c digest s"]
    by (auto simp: PrepareVoteSet_HasTwoThirdsMajority_def validators prepare_voters_def)
qed

lemma countCommits_majority:
  assumes "length (Validators (valSet c)) < 2 ^ 30"
  shows "CommitVoteSet_HasTwoThirdsMajority (Some (countCommits c digest (entries (pcv_Votes s)))) \<longleftrightarrow>
    quorum_nat (length (Validators (valSet c))) \<le> card (commit_voters c digest s)"
proof -
  let ?N = "NewCommitVoteSet (View c) (Sequence c) digest (valSet c)"
  have validators: "cvs_validators (countCommits c digest vs) = valSet c" for vs
  proof -
    have "cvs_validators (fold (\<lambda>v s. fst (CommitVoteSet_AddVote (Some v) s)) xs t) = cvs_validators t" for xs t
      by (induction xs arbitrary: t) (simp_all add: CommitVoteSet_AddVote_def)
    then show ?thesis by (simp add: countCommits_def NewCommitVoteSet_def)
  qed
  have "cvs_Sum (countCommits c digest (entries (pcv_Votes s))) = word_of_nat (card (commit_voters c digest s))"
    unfolding countCommits_def commit_voters_def
    using commits.total_count [of ?N "map snd (entries (pcv_Votes s))"]
    by (simp add: NewCommitVoteSet_def commit_fits_def)
  then show ?thesis
    using majority_count [OF assms, of "commit_voters c digest s"]
    by (auto simp: CommitVoteSet_HasTwoThirdsMajority_def validators commit_voters_def)
qed

text \<open>
  A block that is committed carries a vote set in which more than two thirds of the validators
  have backed commits for the position and digest.
\<close>

definition certified :: "accessControl \<Rightarrow> pbftCodec \<Rightarrow> ConsensusPBFTImpl \<Rightarrow> gobytes \<Rightarrow> Block \<Rightarrow> bool" where
  "certified ac cd c digest b \<longleftrightarrow>
     (\<exists>extra s. b_AdditionalData b = Some extra \<and>
       extra PBFTAdditionalDataKey = Some (Some (marshalCommitVoteSet cd s)) \<and>
       (\<forall>v \<in> snd ` set (entries (pcv_Votes s)). backed_commit ac cd (outs c) v) \<and>
       quorum_nat (length (Validators (valSet c))) \<le> card (commit_voters c digest s))"

text \<open>A commit that the node signs has more than two thirds of the validators' backed prepares.\<close>

definition prepared :: "accessControl \<Rightarrow> pbftCodec \<Rightarrow> ConsensusPBFTImpl \<Rightarrow> gobytes \<Rightarrow> bool" where
  "prepared ac cd c digest \<longleftrightarrow>
     (\<exists>s. (\<forall>v \<in> snd ` set (entries (ppv_Votes s)). backed_prepare ac cd (outs c) v) \<and>
       quorum_nat (length (Validators (valSet c))) \<le> card (prepare_voters c digest s))"

subsection \<open>Phases\<close>

definition within :: "ConsensusPBFTImpl \<Rightarrow> ConsensusPBFTImpl \<Rightarrow> bool" where
  "within c c' \<longleftrightarrow> Sequence c' = Sequence c \<and> View c' = View c \<and> Id c' = Id c \<and> valSet c' = valSet c"

definition running_step :: "PBFTStep \<Rightarrow> bool" where
  "running_step st \<longleftrightarrow> st \<in> {PBFTStep_PREPARE, PBFTStep_COMMIT, PBFTStep_COMMITTED}"

text \<open>
  A phase keeps the position and the digest; it signs only for them, commits only with a
  certificate and signs commits only when it is prepared.
\<close>

definition phase :: "accessControl \<Rightarrow> pbftCodec \<Rightarrow> gobytes \<Rightarrow> ConsensusPBFTImpl \<Rightarrow> ConsensusPBFTImpl \<Rightarrow> bool" where
  "phase ac cd digest c c' \<longleftrightarrow> within c c' \<and> (\<exists>pp. cs_PrePrepare c' = Some pp \<and> pp_Digest pp = digest) \<and>
     (Step c' = Step c \<or> running_step (Step c')) \<and> votes_ok ac cd c' \<and>
     (\<exists>new. outs c' = outs c @ new \<and> votes new \<subseteq> {(Sequence c, View c, digest)} \<and>
       (\<forall>b. CommitBlock b \<in> set new \<longrightarrow> certified ac cd c' digest b) \<and>
       (\<forall>v. Signed (MCommit v) \<in> set new \<longrightarrow> prepared ac cd c' digest))"

lemma backed_mono:
  "backed_prepare ac cd os v \<Longrightarrow> set os \<subseteq> set os' \<Longrightarrow> backed_prepare ac cd os' v"
  "backed_commit ac cd os w \<Longrightarrow> set os \<subseteq> set os' \<Longrightarrow> backed_commit ac cd os' w"
  by (auto simp: backed_prepare_def backed_commit_def)

lemma voters_within:
  "within c c' \<Longrightarrow> prepare_voters c' d s = prepare_voters c d s"
  "within c c' \<Longrightarrow> commit_voters c' d t = commit_voters c d t"
  by (simp_all add: within_def prepare_voters_def commit_voters_def)

lemma later:
  assumes "within c c'" and "set (outs c) \<subseteq> set (outs c')"
  shows "certified ac cd c d b \<Longrightarrow> certified ac cd c' d b" and "prepared ac cd c d \<Longrightarrow> prepared ac cd c' d"
proof -
  have V: "valSet c' = valSet c" using assms(1) by (simp add: within_def)
  show "certified ac cd c' d b" if "certified ac cd c d b"
    using that backed_mono(2) [OF _ assms(2)] unfolding certified_def voters_within [OF assms(1)] V by fast
  show "prepared ac cd c' d" if "prepared ac cd c d"
    using that backed_mono(1) [OF _ assms(2)] unfolding prepared_def voters_within [OF assms(1)] V by fast
qed

lemma phase_refl: "votes_ok ac cd c \<Longrightarrow> cs_PrePrepare c = Some pp \<Longrightarrow> phase ac cd (pp_Digest pp) c c"
  by (simp add: phase_def within_def)

lemma phase_trans:
  assumes "phase ac cd d c c'" and "phase ac cd d c' c''"
  shows "phase ac cd d c c''"
proof -
  obtain new new' where o1: "outs c' = outs c @ new" "votes new \<subseteq> {(Sequence c, View c, d)}"
      "\<forall>b. CommitBlock b \<in> set new \<longrightarrow> certified ac cd c' d b" "\<forall>v. Signed (MCommit v) \<in> set new \<longrightarrow> prepared ac cd c' d"
    and o2: "outs c'' = outs c' @ new'" "votes new' \<subseteq> {(Sequence c', View c', d)}"
      "\<forall>b. CommitBlock b \<in> set new' \<longrightarrow> certified ac cd c'' d b" "\<forall>v. Signed (MCommit v) \<in> set new' \<longrightarrow> prepared ac cd c'' d"
    using assms unfolding phase_def by blast
  have w: "within c' c''" and w': "within c c'" using assms by (simp_all add: phase_def)
  have sub: "set (outs c') \<subseteq> set (outs c'')" using o2(1) by simp
  have "outs c'' = outs c @ (new @ new')" using o1(1) o2(1) by simp
  moreover have "votes (new @ new') \<subseteq> {(Sequence c, View c, d)}" using o1(2) o2(2) w' by (simp add: within_def)
  moreover have "\<forall>b. CommitBlock b \<in> set (new @ new') \<longrightarrow> certified ac cd c'' d b"
    using o1(3) o2(3) later(1) [OF w sub] by auto
  moreover have "\<forall>v. Signed (MCommit v) \<in> set (new @ new') \<longrightarrow> prepared ac cd c'' d"
    using o1(4) o2(4) later(2) [OF w sub] by auto
  ultimately show ?thesis using assms w w' unfolding phase_def within_def by metis
qed

text \<open>The parts of the state that a phase may change freely, and plain outputs.\<close>

lemma phase_quiet:
  assumes "phase ac cd d c c'" and "within c' c''" and "cs_PrePrepare c'' = cs_PrePrepare c'"
    and "Step c'' = Step c' \<or> running_step (Step c'')" and "votes_ok ac cd c''" and "outs c'' = outs c'"
  shows "phase ac cd d c c''"
proof -
  have "phase ac cd d c' c''" using assms unfolding phase_def by simp
  then show ?thesis using assms(1) phase_trans by blast
qed

definition plain :: "Out \<Rightarrow> bool" where
  "plain o1 \<longleftrightarrow> (\<forall>m. o1 \<noteq> Signed m) \<and> (\<forall>b. o1 \<noteq> CommitBlock b)"

lemma votes_okD:
  "votes_ok ac cd c \<Longrightarrow> cs_PrepareVoteSet c = Some s \<Longrightarrow> v \<in> snd ` set (entries (ppv_Votes s)) \<Longrightarrow> backed_prepare ac cd (outs c) v"
  "votes_ok ac cd c \<Longrightarrow> cs_CommitVoteSet c = Some t \<Longrightarrow> w \<in> snd ` set (entries (pcv_Votes t)) \<Longrightarrow> backed_commit ac cd (outs c) w"
  unfolding votes_ok_def by blast+

lemma votes_ok_outs:
  assumes "votes_ok ac cd c" and "cs_PrepareVoteSet c' = cs_PrepareVoteSet c" and "cs_CommitVoteSet c' = cs_CommitVoteSet c"
    and "set (outs c) \<subseteq> set (outs c')"
  shows "votes_ok ac cd c'"
  unfolding votes_ok_def
proof (intro conjI allI impI ballI)
  show "backed_prepare ac cd (outs c') v" if "cs_PrepareVoteSet c' = Some s" "v \<in> snd ` set (entries (ppv_Votes s))" for s v
    using backed_mono(1) [OF votes_okD(1) [OF assms(1)] assms(4)] that assms(2) by simp
  show "backed_commit ac cd (outs c') v" if "cs_CommitVoteSet c' = Some s" "v \<in> snd ` set (entries (pcv_Votes s))" for s v
    using backed_mono(2) [OF votes_okD(2) [OF assms(1)] assms(4)] that assms(3) by simp
qed

lemma phase_plain:
  assumes "phase ac cd d c c'" and "\<forall>o1 \<in> set new. plain o1"
  shows "phase ac cd d c (c'\<lparr>outs := outs c' @ new\<rparr>)"
proof -
  have "votes_ok ac cd (c'\<lparr>outs := outs c' @ new\<rparr>)"
    using votes_ok_outs [of ac cd c' "c'\<lparr>outs := outs c' @ new\<rparr>"] assms(1) by (simp add: phase_def)
  moreover have "votes new = {}" using assms(2) by (auto simp: votes_def plain_def)
  ultimately have "phase ac cd d c' (c'\<lparr>outs := outs c' @ new\<rparr>)"
    using assms by (auto simp: phase_def within_def plain_def)
  then show ?thesis using assms(1) phase_trans by blast
qed

lemma sends_plain:
  "\<exists>new. sendConsensusMsg e m to c = c\<lparr>outs := outs c @ new\<rparr> \<and> (\<forall>o1 \<in> set new. plain o1)"
  "\<exists>new. saveWalEntry e t sq d c = c\<lparr>outs := outs c @ new\<rparr> \<and> (\<forall>o1 \<in> set new. plain o1)"
  "\<exists>new. addTimeout dur st c = c\<lparr>outs := outs c @ new\<rparr> \<and> (\<forall>o1 \<in> set new. plain o1)"
  "\<exists>new. sendProposeState p c = c\<lparr>outs := outs c @ new\<rparr> \<and> (\<forall>o1 \<in> set new. plain o1)"
proof -
  have "\<exists>new. send_to msg vs c = c\<lparr>outs := outs c @ new\<rparr> \<and> (\<forall>o1 \<in> set new. plain o1)" for msg vs
  proof (induction vs arbitrary: c)
    case (Cons v vs)
    obtain new where n: "send_to msg vs (if v = Id c then c else emit (NetMsg msg v) c) =
        (if v = Id c then c else emit (NetMsg msg v) c)\<lparr>outs := outs (if v = Id c then c else emit (NetMsg msg v) c) @ new\<rparr>"
      and p: "\<forall>o1 \<in> set new. plain o1"
      using Cons.IH by blast
    show ?case
      by (rule exI [of _ "(if v = Id c then [] else [NetMsg msg v]) @ new"]) (use n p in \<open>simp add: emit_def plain_def\<close>)
  qed (rule exI [of _ "[]"], simp)
  then show "\<exists>new. sendConsensusMsg e m to c = c\<lparr>outs := outs c @ new\<rparr> \<and> (\<forall>o1 \<in> set new. plain o1)"
    by (simp add: sendConsensusMsg_def)
  show "\<exists>new. saveWalEntry e t sq d c = c\<lparr>outs := outs c @ new\<rparr> \<and> (\<forall>o1 \<in> set new. plain o1)"
    by (rule exI [of _ "if walWriteMode c = e_NonWalWrite e then [] else [WalWrite \<lparr>we_Type = t, we_Height = sq, we_Data = Some d\<rparr>]"])
      (simp add: saveWalEntry_def emit_def plain_def)
  show "\<exists>new. addTimeout dur st c = c\<lparr>outs := outs c @ new\<rparr> \<and> (\<forall>o1 \<in> set new. plain o1)"
    by (rule exI [of _ "[AddTimeout \<lparr>ti_Duration = dur, ti_Height = Sequence c, ti_Round = View c, ti_Step = st\<rparr>]"])
      (simp add: addTimeout_def emit_def plain_def)
  show "\<exists>new. sendProposeState p c = c\<lparr>outs := outs c @ new\<rparr> \<and> (\<forall>o1 \<in> set new. plain o1)"
    by (rule exI [of _ "[ProposeState p]"]) (simp add: sendProposeState_def emit_def plain_def)
qed

lemma phase_sends:
  assumes "phase ac cd d c c'"
  shows "phase ac cd d c (sendConsensusMsg e m to c')" and "phase ac cd d c (saveWalEntry e t sq x c')"
    and "phase ac cd d c (addTimeout dur st c')" and "phase ac cd d c (sendProposeState p c')"
  using sends_plain [where c = c'] phase_plain [OF assms] by metis+

subsection \<open>The phases are phases\<close>

text \<open>Storing a backed vote.\<close>

lemma map_write_values:
  "map_write k v m = Inr m' \<Longrightarrow> snd ` set (entries m') \<subseteq> insert v (snd ` set (entries m))"
  using set_update_sub by (elim map_write_InrE) fastforce

lemma votes_ok_commit:
  assumes "votes_ok ac cd c" and "addCommit k v (initCommitVoteSet c d) = Inr s" and "backed_commit ac cd (outs c) v"
  shows "votes_ok ac cd (c\<lparr>cs_CommitVoteSet := Some s\<rparr>)"
proof -
  have "\<forall>w \<in> snd ` set (entries (pcv_Votes (initCommitVoteSet c d))). backed_commit ac cd (outs c) w"
    using votes_okD(2) [OF assms(1)] by (cases "cs_CommitVoteSet c") (simp_all add: initCommitVoteSet_def)
  moreover have "snd ` set (entries (pcv_Votes s)) \<subseteq> insert v (snd ` set (entries (pcv_Votes (initCommitVoteSet c d))))"
  proof -
    obtain m where m: "map_write k v (pcv_Votes (initCommitVoteSet c d)) = Inr m" and "pcv_Votes s = m"
      using assms(2) unfolding addCommit_def by (elim go_bind_InrE) auto
    with map_write_values [OF m] show ?thesis by simp
  qed
  ultimately have "\<forall>w \<in> snd ` set (entries (pcv_Votes s)). backed_commit ac cd (outs c) w" using assms(3) by blast
  then show ?thesis using assms(1) by (simp add: votes_ok_def)
qed

lemma votes_ok_prepare:
  assumes "votes_ok ac cd c" and "addPrepare k v (initPrepareVoteSet c d) = Inr s" and "backed_prepare ac cd (outs c) v"
  shows "votes_ok ac cd (c\<lparr>cs_PrepareVoteSet := Some s\<rparr>)"
proof -
  have "\<forall>w \<in> snd ` set (entries (ppv_Votes (initPrepareVoteSet c d))). backed_prepare ac cd (outs c) w"
    using votes_okD(1) [OF assms(1)] by (cases "cs_PrepareVoteSet c") (simp_all add: initPrepareVoteSet_def)
  moreover have "snd ` set (entries (ppv_Votes s)) \<subseteq> insert v (snd ` set (entries (ppv_Votes (initPrepareVoteSet c d))))"
  proof -
    obtain m where m: "map_write k v (ppv_Votes (initPrepareVoteSet c d)) = Inr m" and "ppv_Votes s = m"
      using assms(2) unfolding addPrepare_def by (elim go_bind_InrE) auto
    with map_write_values [OF m] show ?thesis by simp
  qed
  ultimately have "\<forall>w \<in> snd ` set (entries (ppv_Votes s)). backed_prepare ac cd (outs c) w" using assms(3) by blast
  then show ?thesis using assms(1) by (simp add: votes_ok_def)
qed

lemma votes_ok_init:
  "votes_ok ac cd c \<Longrightarrow> votes_ok ac cd (c\<lparr>cs_CommitVoteSet := Some (initCommitVoteSet c d)\<rparr>)"
  "votes_ok ac cd c \<Longrightarrow> votes_ok ac cd (c\<lparr>cs_PrepareVoteSet := Some (initPrepareVoteSet c d)\<rparr>)"
  by (auto simp: votes_ok_def initCommitVoteSet_def initPrepareVoteSet_def split: option.splits)

abbreviation few_validators :: "ConsensusPBFTImpl \<Rightarrow> bool" where
  "few_validators c \<equiv> length (Validators (valSet c)) < 2 ^ 30"

lemma enterCommitted_phase:
  assumes "enterCommitted e c = Inr c'" and "cs_PrePrepare c = Some pp" and "votes_ok ac (e_codec e) c" and "few_validators c"
  shows "phase ac (e_codec e) (pp_Digest pp) c c'"
proof (cases "\<exists>s block header. cs_CommitVoteSet c = Some s \<and> hasCommitQuorum c = Inr True \<and> pp_Block pp = Some block \<and>
    b_Header block = Some header")
  case False
  then have "c' = c"
    using assms(1,2) by (auto simp: enterCommitted_def commitBlock_def elim!: go_bind_InrE split: if_splits option.splits prod.splits)
  then show ?thesis using phase_refl [OF assms(3,2)] by simp
next
  case True
  then obtain s block header where s: "cs_CommitVoteSet c = Some s" and q: "hasCommitQuorum c = Inr True"
    and b: "pp_Block pp = Some block" "b_Header block = Some header" by blast
  let ?d = "pp_Digest pp" and ?qc = "marshalCommitVoteSet (e_codec e) s"
  define extra where "extra = (case b_AdditionalData block of None \<Rightarrow> Map.empty | Some x \<Rightarrow> x)"
  define block1 where "block1 = block\<lparr>b_AdditionalData := Some (extra(PBFTAdditionalDataKey \<mapsto> Some ?qc))\<rparr>"
  define c1 where "c1 = saveWalEntry e WalEntryType_COMMIT_ENTRY (Sequence c) ?qc (c\<lparr>Step := PBFTStep_COMMITTED\<rparr>)"
  have c': "c' = c1\<lparr>outs := outs c1 @ [CommitBlock block1], cs_PrePrepare := Some (pp\<lparr>pp_Block := Some block1\<rparr>)\<rparr>"
    using assms(1,2) s q b by (simp add: enterCommitted_def commitBlock_def Let_def block1_def extra_def c1_def emit_def)
  have "quorum_nat (length (Validators (valSet c))) \<le> card (commit_voters c ?d s)"
    using q s assms(2) countCommits_majority [OF assms(4)] by (simp add: hasCommitQuorum_def)
  then have cert: "certified ac (e_codec e) c ?d block1"
    using assms(3) s unfolding certified_def votes_ok_def block1_def by auto
  have p1: "phase ac (e_codec e) ?d c c1" unfolding c1_def
    by (rule phase_sends(2), rule phase_quiet [OF phase_refl [OF assms(3,2)]])
      (use assms(3) in \<open>simp_all add: within_def running_step_def votes_ok_def\<close>)
  then have w: "within c c'" "set (outs c) \<subseteq> set (outs c')" by (auto simp: c' phase_def within_def)
  have "votes_ok ac (e_codec e) c'"
    by (rule votes_ok_outs [of _ _ c1]) (use p1 in \<open>auto simp: c' phase_def\<close>)
  moreover have "certified ac (e_codec e) c' ?d block1" using later(1) [OF w] cert .
  ultimately have "phase ac (e_codec e) ?d c1 c'"
    unfolding phase_def by (simp add: c' within_def)
  then show ?thesis using p1 phase_trans by blast
qed

lemma followCommits_phase:
  assumes "followCommits e wait (pp_Digest pp) c = Inr c'" and "cs_PrePrepare c = Some pp" and "votes_ok ac (e_codec e) c"
    and "few_validators c"
  shows "phase ac (e_codec e) (pp_Digest pp) c c'"
  using assms(1) enterCommitted_phase [OF _ assms(2-4)] phase_refl [OF assms(3,2)] phase_sends(3) [OF phase_refl [OF assms(3,2)]]
  by (auto simp: followCommits_def split: if_splits)

lemma enterCommit_phase:
  assumes "enterCommit e c = Inr c'" and "cs_PrePrepare c = Some pp" and "votes_ok ac (e_codec e) c" and "few_validators c"
  shows "phase ac (e_codec e) (pp_Digest pp) c c'"
proof (cases "cs_PrepareVoteSet c = None \<or> hasPrepareQuorum c \<noteq> Inr True")
  case True
  then have "c' = c" using assms(1) by (auto simp: enterCommit_def elim!: go_bind_InrE)
  then show ?thesis using phase_refl [OF assms(3,2)] by simp
next
  case False
  let ?cd = "e_codec e" and ?d = "pp_Digest pp"
  obtain t where t: "cs_PrepareVoteSet c = Some t" and q: "hasPrepareQuorum c = Inr True" using False by auto
  have "quorum_nat (length (Validators (valSet c))) \<le> card (prepare_voters c ?d t)"
    using q t assms(2) countPrepares_majority [OF assms(4)] by (simp add: hasPrepareQuorum_def)
  then have prep: "prepared ac ?cd c ?d" using votes_okD(1) [OF assms(3) t] unfolding prepared_def by blast
  define c1 where "c1 = c\<lparr>Step := PBFTStep_COMMIT, cs_CommitVoteSet := Some (initCommitVoteSet c ?d)\<rparr>"
  have ok1: "votes_ok ac ?cd c1"
    using votes_ok_init(1) [OF assms(3), of ?d] by (simp add: votes_ok_def c1_def)
  have p1: "phase ac ?cd ?d c c1"
    by (rule phase_quiet [OF phase_refl [OF assms(3,2)]]) (use ok1 in \<open>simp_all add: c1_def within_def running_step_def\<close>)
  show ?thesis
  proof (cases "signCommit e (ownCommit c ?d)")
    case None
    then have "c' = c1" using assms(1,2) t q by (simp add: enterCommit_def c1_def Let_def)
    then show ?thesis using p1 by simp
  next
    case (Some commit)
    then have run: "go_bind (addCommit (Id c) commit (initCommitVoteSet c ?d)) (\<lambda>s. followCommits e True ?d
        (sendConsensusMsg e (MCommit commit) [] ((emit (Signed (MCommit commit)) c1)\<lparr>cs_CommitVoteSet := Some s\<rparr>))) = Inr c'"
      using assms(1,2) t q by (simp add: enterCommit_def c1_def Let_def)
    then obtain s where s: "addCommit (Id c) commit (initCommitVoteSet c ?d) = Inr s"
      and run: "followCommits e True ?d
        (sendConsensusMsg e (MCommit commit) [] ((emit (Signed (MCommit commit)) c1)\<lparr>cs_CommitVoteSet := Some s\<rparr>)) = Inr c'"
      by (elim go_bind_InrE)
    define c2 where "c2 = (emit (Signed (MCommit commit)) c1)\<lparr>cs_CommitVoteSet := Some s\<rparr>"
    have vote: "vote_of (MCommit commit) = Some (Sequence c, View c, ?d)"
      using Some by (auto simp: signCommit_def ownCommit_def)
    have "votes_ok ac ?cd (emit (Signed (MCommit commit)) c1)"
      by (rule votes_ok_outs [OF ok1]) (auto simp: emit_def)
    moreover have "addCommit (Id c) commit (initCommitVoteSet (emit (Signed (MCommit commit)) c1) ?d) = Inr s"
      using s by (simp add: initCommitVoteSet_def c1_def emit_def)
    ultimately have ok2: "votes_ok ac ?cd c2"
      unfolding c2_def by (rule votes_ok_commit) (simp add: backed_commit_def emit_def)
    have w: "within c c2" "set (outs c) \<subseteq> set (outs c2)" by (auto simp: c2_def c1_def emit_def within_def)
    have "phase ac ?cd ?d c c2"
      unfolding phase_def using ok2 vote w assms(2) later(2) [OF w prep]
      by (auto simp: c2_def c1_def emit_def running_step_def)
    then have p3: "phase ac ?cd ?d c (sendConsensusMsg e (MCommit commit) [] c2)" by (rule phase_sends(1))
    then obtain pp2 where pp2: "cs_PrePrepare (sendConsensusMsg e (MCommit commit) [] c2) = Some pp2" "pp_Digest pp2 = ?d"
      and "votes_ok ac ?cd (sendConsensusMsg e (MCommit commit) [] c2)" "few_validators (sendConsensusMsg e (MCommit commit) [] c2)"
      using assms(4) by (auto simp: phase_def within_def)
    then show ?thesis using followCommits_phase [of e True pp2 _ c'] run p3 phase_trans unfolding c2_def by metis
  qed
qed

lemma followPrepares_phase:
  assumes "followPrepares e wait (pp_Digest pp) c = Inr c'" and "cs_PrePrepare c = Some pp" and "votes_ok ac (e_codec e) c"
    and "few_validators c"
  shows "phase ac (e_codec e) (pp_Digest pp) c c'"
  using assms(1) enterCommit_phase [OF _ assms(2-4)] phase_refl [OF assms(3,2)] phase_sends(3) [OF phase_refl [OF assms(3,2)]]
  by (auto simp: followPrepares_def split: if_splits)

lemma enterPrepare_phase:
  assumes "enterPrepare e c = Inr c'" and "cs_PrePrepare c = Some pp" and "votes_ok ac (e_codec e) c" and "few_validators c"
  shows "phase ac (e_codec e) (pp_Digest pp) c c'" and "running_step (Step c')"
proof -
  let ?cd = "e_codec e" and ?d = "pp_Digest pp"
  define c1 where "c1 = c\<lparr>Step := PBFTStep_PREPARE, cs_PrepareVoteSet := Some (initPrepareVoteSet c ?d)\<rparr>"
  have ok1: "votes_ok ac ?cd c1"
    using votes_ok_init(2) [OF assms(3), of ?d] by (simp add: votes_ok_def c1_def)
  have p1: "phase ac ?cd ?d c c1"
    by (rule phase_quiet [OF phase_refl [OF assms(3,2)]]) (use ok1 in \<open>simp_all add: c1_def within_def running_step_def\<close>)
  have "phase ac ?cd ?d c c' \<and> running_step (Step c')"
  proof (cases "signPrepare e (ownPrepare c ?d)")
    case None
    then have "c' = c1" using assms(1,2) by (simp add: enterPrepare_def c1_def Let_def)
    then show ?thesis using p1 by (simp add: c1_def running_step_def)
  next
    case (Some prepare)
    then obtain s where s: "addPrepare (Id c) prepare (initPrepareVoteSet c ?d) = Inr s"
      and run: "followPrepares e True ?d (sendConsensusMsg e (MPrepare prepare) []
        (saveWalEntry e WalEntryType_PREPARE_ENTRY (Sequence c) (marshalPrepareVoteSet ?cd s)
          ((emit (Signed (MPrepare prepare)) c1)\<lparr>cs_PrepareVoteSet := Some s\<rparr>))) = Inr c'"
      using assms(1,2) by (auto simp: enterPrepare_def c1_def Let_def elim!: go_bind_InrE)
    define c2 where "c2 = (emit (Signed (MPrepare prepare)) c1)\<lparr>cs_PrepareVoteSet := Some s\<rparr>"
    define c3 where "c3 = sendConsensusMsg e (MPrepare prepare) []
      (saveWalEntry e WalEntryType_PREPARE_ENTRY (Sequence c) (marshalPrepareVoteSet ?cd s) c2)"
    have vote: "vote_of (MPrepare prepare) = Some (Sequence c, View c, ?d)"
      using Some by (auto simp: signPrepare_def ownPrepare_def)
    have "votes_ok ac ?cd (emit (Signed (MPrepare prepare)) c1)"
      by (rule votes_ok_outs [OF ok1]) (auto simp: emit_def)
    moreover have "addPrepare (Id c) prepare (initPrepareVoteSet (emit (Signed (MPrepare prepare)) c1) ?d) = Inr s"
      using s by (simp add: initPrepareVoteSet_def c1_def emit_def)
    ultimately have ok2: "votes_ok ac ?cd c2"
      unfolding c2_def by (rule votes_ok_prepare) (simp add: backed_prepare_def emit_def)
    have "phase ac ?cd ?d c1 c2"
      unfolding phase_def using ok2 vote assms(2) by (auto simp: c2_def c1_def emit_def running_step_def within_def)
    then have p3: "phase ac ?cd ?d c1 c3" unfolding c3_def by (intro phase_sends(1,2))
    then obtain pp3 where pp3: "cs_PrePrepare c3 = Some pp3" "pp_Digest pp3 = ?d" and "votes_ok ac ?cd c3" "few_validators c3"
      using assms(4) by (auto simp: phase_def within_def c1_def)
    then have p4: "phase ac ?cd ?d c3 c'"
      using followPrepares_phase [of e True pp3 c3 c' ac] run unfolding c3_def c2_def by simp
    have "running_step (Step c')" using p3 p4 by (auto simp: phase_def c1_def running_step_def)
    then show ?thesis using p1 p3 p4 phase_trans by blast
  qed
  then show "phase ac ?cd ?d c c'" and "running_step (Step c')" by simp_all
qed

lemma procPrepare_phase:
  assumes "procPrepare e prepare c = Inr c'" and "votes_ok (e_ac e) (e_codec e) c" and "few_validators c"
  shows "c' = c \<or> (\<exists>pp. cs_PrePrepare c = Some pp \<and> phase (e_ac e) (e_codec e) (pp_Digest pp) c c')"
proof (cases "cs_PrePrepare c")
  case None
  then show ?thesis using assms(1) by (simp add: procPrepare_def split: if_splits)
next
  case (Some pp)
  let ?d = "pp_Digest pp"
  define s where "s = initPrepareVoteSet c ?d"
  have "phase (e_ac e) (e_codec e) ?d c (c\<lparr>cs_PrepareVoteSet := Some s\<rparr>)"
    by (rule phase_quiet [OF phase_refl [OF assms(2) Some]])
      (use votes_ok_init(2) [OF assms(2), of ?d] in \<open>simp_all add: within_def s_def\<close>)
  moreover have "phase (e_ac e) (e_codec e) ?d c c'"
    if s1: "addPrepare (pr_NodeId prepare) prepare s = Inr s1" and v: "verifyPrepare e (blockVersion c) prepare = None"
      and run: "followPrepares e w ?d (c\<lparr>cs_PrepareVoteSet := Some s1\<rparr>) = Inr c'" for s1 w
  proof -
    have ok: "votes_ok (e_ac e) (e_codec e) (c\<lparr>cs_PrepareVoteSet := Some s1\<rparr>)"
      by (rule votes_ok_prepare [OF assms(2) s1 [unfolded s_def]]) (use v in \<open>auto simp: backed_prepare_def verifyPrepare_def\<close>)
    have "phase (e_ac e) (e_codec e) ?d c (c\<lparr>cs_PrepareVoteSet := Some s1\<rparr>)"
      by (rule phase_quiet [OF phase_refl [OF assms(2) Some]]) (use ok in \<open>simp_all add: within_def\<close>)
    then show ?thesis using followPrepares_phase [OF run _ ok] Some assms(3) phase_trans by simp
  qed
  ultimately show ?thesis
    using assms(1) Some by (auto simp: procPrepare_def Let_def s_def [symmetric] elim!: go_bind_InrE split: if_splits)
qed

lemma procCommit_phase:
  assumes "procCommit e commit c = Inr c'" and "votes_ok (e_ac e) (e_codec e) c" and "few_validators c"
  shows "c' = c \<or> (\<exists>pp. cs_PrePrepare c = Some pp \<and> phase (e_ac e) (e_codec e) (pp_Digest pp) c c')"
proof (cases "cs_PrePrepare c")
  case None
  then show ?thesis using assms(1) by (simp add: procCommit_def split: if_splits)
next
  case (Some pp)
  let ?d = "pp_Digest pp"
  define s where "s = initCommitVoteSet c ?d"
  have "phase (e_ac e) (e_codec e) ?d c (c\<lparr>cs_CommitVoteSet := Some s\<rparr>)"
    by (rule phase_quiet [OF phase_refl [OF assms(2) Some]])
      (use votes_ok_init(1) [OF assms(2), of ?d] in \<open>simp_all add: within_def s_def\<close>)
  moreover have "phase (e_ac e) (e_codec e) ?d c c'"
    if s1: "addCommit (cm_NodeId commit) commit s = Inr s1" and v: "verifyCommit e (blockVersion c) commit = None"
      and run: "followCommits e w ?d (c\<lparr>cs_CommitVoteSet := Some s1\<rparr>) = Inr c'" for s1 w
  proof -
    have ok: "votes_ok (e_ac e) (e_codec e) (c\<lparr>cs_CommitVoteSet := Some s1\<rparr>)"
      by (rule votes_ok_commit [OF assms(2) s1 [unfolded s_def]]) (use v in \<open>auto simp: backed_commit_def verifyCommit_def\<close>)
    have "phase (e_ac e) (e_codec e) ?d c (c\<lparr>cs_CommitVoteSet := Some s1\<rparr>)"
      by (rule phase_quiet [OF phase_refl [OF assms(2) Some]]) (use ok in \<open>simp_all add: within_def\<close>)
    then show ?thesis using followCommits_phase [OF run _ ok] Some assms(3) phase_trans by simp
  qed
  ultimately show ?thesis
    using assms(1) Some by (auto simp: procCommit_def Let_def s_def [symmetric] elim!: go_bind_InrE split: if_splits)
qed

end
