(* ===== verification/Pbft_Machine.thy ===== *)
theory Pbft_Machine
  imports Pbft_Inv
begin

section \<open>PBFT: running nodes\<close>

text \<open>
  The invariant of an instance, that every handler and the start keep it, and the states of a
  running node as the inductive predicate \<open>pbft_running\<close>. The view counter of a running node has
  not reached its maximum: at one view per timeout that takes longer than any node runs.
\<close>

subsection \<open>The invariant\<close>

definition position_ok :: "ConsensusPBFTImpl \<Rightarrow> u64 \<Rightarrow> u64 \<Rightarrow> gobytes \<Rightarrow> bool" where
  "position_ok c s v d \<longleftrightarrow> s < Sequence c \<or> s = Sequence c \<and> v < View c \<or>
     s = Sequence c \<and> v = View c \<and> (\<exists>pp. cs_PrePrepare c = Some pp \<and> bytes_Equal d (pp_Digest pp))"

definition votes_inv :: "accessControl \<Rightarrow> pbftCodec \<Rightarrow> ConsensusPBFTImpl \<Rightarrow> bool" where
  "votes_inv ac cd c \<longleftrightarrow> few_validators c \<and> votes_ok ac cd c \<and>
     (\<forall>s v d. (s, v, d) \<in> votes (outs c) \<longrightarrow> position_ok c s v d) \<and>
     (\<forall>s v d d'. (s, v, d) \<in> votes (outs c) \<and> (s, v, d') \<in> votes (outs c) \<longrightarrow> bytes_Equal d d')"

definition steps_inv :: "ConsensusPBFTImpl \<Rightarrow> bool" where
  "steps_inv c \<longleftrightarrow>
     (Step c \<in> {PBFTStep_NEW_HEIGHT, PBFTStep_VIEW_CHANGE} \<longrightarrow> cs_PrePrepare c = None) \<and>
     (Step c = PBFTStep_PRE_PREPARE \<longrightarrow> \<not> isPrimary c)"

definition pbft_inv :: "accessControl \<Rightarrow> pbftCodec \<Rightarrow> ConsensusPBFTImpl \<Rightarrow> bool" where
  "pbft_inv ac cd c \<longleftrightarrow> votes_inv ac cd c \<and> steps_inv c"

lemma isPrimary_within: "within c c' \<Longrightarrow> isPrimary c' = isPrimary c"
  by (simp add: within_def isPrimary_def split: sum.split)

lemma votes_inv_phase:
  assumes "votes_inv ac cd c" and "cs_PrePrepare c = Some pp" and "phase ac cd (pp_Digest pp) c c'"
  shows "votes_inv ac cd c'"
proof -
  obtain new pp' where new: "outs c' = outs c @ new" "votes new \<subseteq> {(Sequence c, View c, pp_Digest pp)}"
    and pp': "cs_PrePrepare c' = Some pp'" "pp_Digest pp' = pp_Digest pp" and w: "within c c'" and ok: "votes_ok ac cd c'"
    using assms(3) unfolding phase_def by blast
  have cases: "(s, v, d) \<in> votes (outs c) \<or> s = Sequence c \<and> v = View c \<and> d = pp_Digest pp"
    if "(s, v, d) \<in> votes (outs c')" for s v d
    using that new by auto
  have pos: "position_ok c s v d" and agree: "(s, v, d') \<in> votes (outs c) \<Longrightarrow> bytes_Equal d d'"
    if "(s, v, d) \<in> votes (outs c)" for s v d d'
    using assms(1) that unfolding votes_inv_def by blast+
  have here: "bytes_Equal d (pp_Digest pp)" if "(Sequence c, View c, d) \<in> votes (outs c)" for d
    using pos [OF that] assms(2) by (auto simp: position_ok_def)
  have "bytes_Equal d d'" if "(s, v, d) \<in> votes (outs c')" "(s, v, d') \<in> votes (outs c')" for s v d d'
    using cases [OF that(1)] cases [OF that(2)] here agree bytes_Equal_sym bytes_Equal_refl by metis
  moreover have "position_ok c' s v d" if "(s, v, d) \<in> votes (outs c')" for s v d
  proof -
    have "position_ok c s v d \<or> s = Sequence c \<and> v = View c \<and> d = pp_Digest pp" using cases [OF that] pos by blast
    then show ?thesis using pp' w assms(2) by (auto simp: position_ok_def within_def)
  qed
  moreover have "few_validators c'" using assms(1) w by (simp add: votes_inv_def within_def)
  ultimately show ?thesis using ok unfolding votes_inv_def by blast
qed

lemma steps_inv_phase:
  assumes "steps_inv c" and "cs_PrePrepare c = Some pp" and "phase ac cd d c c'"
  shows "steps_inv c'"
proof -
  have "Step c' = Step c \<or> running_step (Step c')" and "within c c'" using assms(3) by (simp_all add: phase_def)
  then show ?thesis using assms(1,2) isPrimary_within by (auto simp: steps_inv_def running_step_def)
qed

text \<open>A move to a later position, or within the same one with the digest of the pre-prepare as it is.\<close>

definition moved :: "ConsensusPBFTImpl \<Rightarrow> ConsensusPBFTImpl \<Rightarrow> bool" where
  "moved c c' \<longleftrightarrow> Sequence c < Sequence c' \<or>
     Sequence c' = Sequence c \<and> (View c < View c' \<or> View c' = View c \<and>
       (\<forall>pp. cs_PrePrepare c = Some pp \<longrightarrow> (\<exists>pp'. cs_PrePrepare c' = Some pp' \<and> bytes_Equal (pp_Digest pp) (pp_Digest pp'))))"

lemma votes_inv_moved:
  assumes "votes_inv ac cd c" and "moved c c'" and "outs c' = outs c @ new" and "votes new = {}"
    and "votes_ok ac cd c'" and "few_validators c'"
  shows "votes_inv ac cd c'"
proof -
  have same: "votes (outs c') = votes (outs c)" using assms(3,4) by simp
  have "position_ok c' s v d" if "position_ok c s v d" for s v d
    using that assms(2) unfolding moved_def position_ok_def by (elim disjE conjE) (auto intro: bytes_Equal_trans)
  then show ?thesis using assms(1,5,6) unfolding votes_inv_def same by blast
qed

text \<open>The fields that the invariant does not read.\<close>

lemma pbft_inv_cong:
  assumes "pbft_inv ac cd c" and "within c c'" and "Step c' = Step c" and "cs_PrePrepare c' = cs_PrePrepare c"
    and "cs_PrepareVoteSet c' = cs_PrepareVoteSet c" and "cs_CommitVoteSet c' = cs_CommitVoteSet c" and "outs c' = outs c"
  shows "pbft_inv ac cd c'"
proof -
  have "position_ok c' = position_ok c" using assms(2,4) by (simp add: position_ok_def fun_eq_iff within_def)
  moreover have "votes_ok ac cd c'" using votes_ok_outs [OF _ assms(5,6)] assms(1,7) by (simp add: pbft_inv_def votes_inv_def)
  ultimately have "votes_inv ac cd c'" using assms(1,2,7) by (simp add: pbft_inv_def votes_inv_def within_def)
  then show ?thesis using assms(1,3,4) isPrimary_within [OF assms(2)] by (simp add: pbft_inv_def steps_inv_def)
qed

text \<open>The result of a chain of early returns.\<close>

lemma if_mem: "(b \<Longrightarrow> x \<in> S) \<Longrightarrow> (\<not> b \<Longrightarrow> y \<in> S) \<Longrightarrow> (if b then x else y) \<in> S"
  by simp

subsection \<open>Handlers\<close>

lemma view_less: "View c \<noteq> - 1 \<Longrightarrow> View c < View c + 1"
  by (metis add.commute add_eq_0_iff2 lessI unatSuc word_less_nat_alt)

lemma enterViewChange_inv:
  assumes "votes_inv ac cd c" and "View c \<noteq> - 1"
  shows "pbft_inv ac cd (enterViewChange e c)"
proof -
  let ?c1 = "resetVotes (c\<lparr>View := View c + 1, Step := PBFTStep_VIEW_CHANGE\<rparr>)"
  let ?c' = "enterViewChange e c"
  have "\<exists>new. outs ?c' = outs c @ new \<and> votes new = {} \<and> valSet ?c' = valSet c \<and> Sequence ?c' = Sequence c \<and> View ?c' = View c + 1 \<and>
      Step ?c' = PBFTStep_VIEW_CHANGE \<and> cs_PrePrepare ?c' = None \<and> cs_PrepareVoteSet ?c' = None \<and> cs_CommitVoteSet ?c' = None"
  proof (cases "signViewChange e \<lparr>vc_NodeId = Id c, vc_CurView = View ?c1 - 1, vc_NextView = View ?c1, vc_Sequence = Sequence c,
      vc_Endorsement = None\<rparr>")
    case None
    then show ?thesis by (simp add: enterViewChange_def resetVotes_def Let_def)
  next
    case (Some vc)
    let ?c2 = "(emit (Signed (MViewChange vc)) ?c1)\<lparr>cs_ViewChangeVotes := AList.update (Id c) vc (cs_ViewChangeVotes ?c1)\<rparr>"
    obtain new where n1: "sendConsensusMsg e (MViewChange vc) [] ?c2 = ?c2\<lparr>outs := outs ?c2 @ new\<rparr>" "\<forall>o1 \<in> set new. plain o1"
      using sends_plain(1) by blast
    then have "votes new = {}" by (auto simp: votes_def plain_def)
    moreover have "?c' = addTimeout (TimeoutViewChange c) PBFTStep_VIEW_CHANGE (?c2\<lparr>outs := outs ?c2 @ new\<rparr>)"
      using Some n1(1) by (simp add: enterViewChange_def Let_def)
    ultimately show ?thesis by (simp add: addTimeout_def emit_def resetVotes_def)
  qed
  then obtain new where n: "outs ?c' = outs c @ new" "votes new = {}" and f: "valSet ?c' = valSet c" "Sequence ?c' = Sequence c"
      "View ?c' = View c + 1" "Step ?c' = PBFTStep_VIEW_CHANGE" "cs_PrePrepare ?c' = None" "cs_PrepareVoteSet ?c' = None"
      "cs_CommitVoteSet ?c' = None" by blast
  have "votes_inv ac cd ?c'"
    by (rule votes_inv_moved [OF assms(1) _ n])
      (use f view_less [OF assms(2)] assms(1) in \<open>simp_all add: moved_def votes_ok_def votes_inv_def\<close>)
  then show ?thesis using f by (simp add: pbft_inv_def steps_inv_def)
qed

lemma enterNewView_inv:
  assumes "votes_inv ac cd c" and "cs_PrePrepare c = None" and "nv_NextView nv = View c"
  shows "pbft_inv ac cd (enterNewView nv c)"
proof -
  let ?c' = "enterNewView nv c"
  have f: "outs ?c' = outs c @ [ProposeState (isPrimary (resetVotes (c\<lparr>View := nv_NextView nv, Step := PBFTStep_NEW_HEIGHT\<rparr>)))]"
    "valSet ?c' = valSet c" "Sequence ?c' = Sequence c" "View ?c' = View c" "Step ?c' = PBFTStep_NEW_HEIGHT"
    "cs_PrePrepare ?c' = None" "cs_PrepareVoteSet ?c' = None" "cs_CommitVoteSet ?c' = None"
    using assms(3) by (simp_all add: enterNewView_def sendProposeState_def emit_def resetVotes_def Let_def)
  have "votes_inv ac cd ?c'"
    by (rule votes_inv_moved [OF assms(1) _ f(1)])
      (use f assms in \<open>simp_all add: moved_def votes_ok_def votes_inv_def\<close>)
  then show ?thesis using f by (simp add: pbft_inv_def steps_inv_def)
qed

lemma pbft_validators_concat: "GetValidatorListFromConfig cfg = concat (cc_Nodes (cfg_Consensus cfg))"
proof -
  have "fold (\<lambda>node vs. vs @ node) ns vs = vs @ concat ns" for ns and vs :: "string list"
    by (induction ns arbitrary: vs) simp_all
  then show ?thesis by (simp add: GetValidatorListFromConfig_def)
qed

lemma enterNewSequence_inv:
  assumes "enterNewSequence e sequence c = Inr c'" and "pbft_inv ac cd c"
    and "length (concat (cc_Nodes (cfg_Consensus (e_ChainConfig e)))) < 2 ^ 30"
  shows "pbft_inv ac cd c'"
proof (cases "Sequence c \<ge> sequence")
  case True
  then show ?thesis using assms by (simp add: enterNewSequence_def)
next
  case False
  obtain b where f: "outs c' = outs c @ [ProposeState b]" "Sequence c' = sequence" "Step c' = PBFTStep_NEW_HEIGHT"
    "cs_PrePrepare c' = None" "cs_PrepareVoteSet c' = None" "cs_CommitVoteSet c' = None"
    "length (Validators (valSet c')) = length (concat (cc_Nodes (cfg_Consensus (e_ChainConfig e))))"
    using assms(1) False
    by (auto simp: enterNewSequence_def Let_def sendProposeState_def emit_def resetVotes_def updateChainConfig_def
        extractConsensusConfig_def pbft_validators_concat elim!: go_bind_InrE)
  have "votes_inv ac cd c'"
    by (rule votes_inv_moved [OF _ _ f(1)])
      (use f False assms(2,3) in \<open>simp_all add: moved_def votes_ok_def pbft_inv_def not_le\<close>)
  then show ?thesis using f by (simp add: pbft_inv_def steps_inv_def)
qed

lemma procPrePrepare_inv:
  assumes "pbft_inv ac cd c"
  shows "pbft_inv ac cd (procPrePrepare e pp c)"
proof -
  let ?c' = "procPrePrepare e pp c"
  show ?thesis
  proof (cases "?c' = c")
    case False
    then have guards: "\<not> isPrimary c" "cs_PrePrepare c = None"
      and run: "?c' = (let c1 = c\<lparr>cs_PrePrepare := Some pp, Step := PBFTStep_PRE_PREPARE\<rparr>
         in case pp_Block pp of Some block \<Rightarrow> emit (VerifyBlock block) c1 | None \<Rightarrow> c1\<lparr>cs_PrePrepare := None\<rparr>)"
      unfolding procPrePrepare_def by (simp_all split: if_split_asm)
    obtain new where new: "outs ?c' = outs c @ new" "votes new = {}"
      unfolding run by (cases "pp_Block pp") (simp_all add: emit_def)
    have f: "within c ?c'" "Step ?c' = PBFTStep_PRE_PREPARE" "cs_PrepareVoteSet ?c' = cs_PrepareVoteSet c"
      "cs_CommitVoteSet ?c' = cs_CommitVoteSet c"
      unfolding run by (simp_all add: Let_def within_def emit_def split: option.split)
    have ok: "votes_ok ac cd ?c'" using votes_ok_outs [of ac cd c ?c'] assms f new(1) by (simp add: pbft_inv_def votes_inv_def)
    have "votes_inv ac cd ?c'"
      by (rule votes_inv_moved [OF _ _ new ok]) (use assms guards f in \<open>simp_all add: moved_def within_def pbft_inv_def votes_inv_def\<close>)
    then show ?thesis using guards f isPrimary_within by (simp add: pbft_inv_def steps_inv_def)
  qed (use assms in simp)
qed

lemma procViewChange_inv:
  assumes "pbft_inv ac cd c"
  shows "pbft_inv ac cd (procViewChange e vc c)"
proof (cases "procViewChange e vc c = c")
  case False
  define c1 where "c1 = c\<lparr>cs_ViewChangeVotes := AList.update (vc_NodeId vc) vc (cs_ViewChangeVotes c)\<rparr>"
  have step: "Step c = PBFTStep_VIEW_CHANGE" and cases: "procViewChange e vc c = c1 \<or> procViewChange e vc c = createAndBroadcastNewView e c1"
    using False by (auto simp: procViewChange_def c1_def Let_def split: if_splits)
  have none: "cs_PrePrepare c1 = None" using assms step by (simp add: pbft_inv_def steps_inv_def c1_def)
  have inv1: "pbft_inv ac cd c1"
    by (rule pbft_inv_cong [OF assms]) (simp_all add: c1_def within_def)
  have "pbft_inv ac cd (createAndBroadcastNewView e c1)"
  proof (cases "createAndBroadcastNewView e c1 = c1")
    case False
    then obtain nv where nv: "signNewView e \<lparr>nv_NodeId = Id c1, nv_CurView = View c1 - 1, nv_NextView = View c1,
          nv_NewSequence = Sequence c1, nv_ViewChangeMessages = map snd (cs_ViewChangeVotes c1), nv_Endorsement = None\<rparr> = Some nv"
        "createAndBroadcastNewView e c1 = enterNewView nv ((sendConsensusMsg e (MNewView nv) [] (emit (Signed (MNewView nv)) c1))
          \<lparr>cs_NewViewVotes := AList.update (Id c1) nv (cs_NewViewVotes (sendConsensusMsg e (MNewView nv) [] (emit (Signed (MNewView nv)) c1)))\<rparr>)"
      unfolding createAndBroadcastNewView_def Let_def by (simp split: if_split_asm option.split_asm)
    have next_view: "nv_NextView nv = View c1" using nv(1) by (auto simp: signNewView_def)
    obtain new where new: "sendConsensusMsg e (MNewView nv) [] (emit (Signed (MNewView nv)) c1) =
        (emit (Signed (MNewView nv)) c1)\<lparr>outs := outs (emit (Signed (MNewView nv)) c1) @ new\<rparr>" "\<forall>o1 \<in> set new. plain o1"
      using sends_plain(1) by blast
    have "votes new = {}" using new(2) by (auto simp: votes_def plain_def)
    then have v: "votes ([Signed (MNewView nv)] @ new) = {}" by simp
    define c2 where "c2 = c1\<lparr>outs := outs c1 @ ([Signed (MNewView nv)] @ new), cs_NewViewVotes := AList.update (Id c1) nv (cs_NewViewVotes c1)\<rparr>"
    have "votes_ok ac cd c2" using votes_ok_outs [of ac cd c1 c2] inv1 by (auto simp: pbft_inv_def votes_inv_def c2_def)
    then have "votes_inv ac cd c2"
      using votes_inv_moved [of ac cd c1 c2, OF _ _ _ v] inv1 none by (simp add: pbft_inv_def c2_def moved_def votes_inv_def)
    then have "pbft_inv ac cd (enterNewView nv c2)"
      by (rule enterNewView_inv) (use none next_view in \<open>simp_all add: c2_def\<close>)
    then show ?thesis using nv(2) new(1) by (simp add: c2_def emit_def)
  qed (use inv1 in simp)
  then show ?thesis using cases inv1 by auto
qed (use assms in simp)

lemma procNewView_inv:
  assumes "pbft_inv ac cd c"
  shows "pbft_inv ac cd (procNewView e nv c)"
proof (cases "procNewView e nv c = c")
  case False
  define c1 where "c1 = c\<lparr>cs_NewViewVotes := AList.update (nv_NodeId nv) nv (cs_NewViewVotes c)\<rparr>"
  have step: "Step c = PBFTStep_VIEW_CHANGE" "nv_NextView nv = View c"
    using False by (rule contrapos_np, simp add: procNewView_def)+
  have cases: "procNewView e nv c \<in> {c, c1, enterNewView nv c1}"
    unfolding procNewView_def c1_def Let_def by (intro if_mem) simp_all
  have inv1: "pbft_inv ac cd c1"
    by (rule pbft_inv_cong [OF assms]) (simp_all add: c1_def within_def)
  then have "pbft_inv ac cd (enterNewView nv c1)"
    using enterNewView_inv [of ac cd c1 nv] step by (simp add: pbft_inv_def steps_inv_def c1_def)
  then show ?thesis using cases inv1 assms by auto
qed (use assms in simp)

lemma phase_inv:
  assumes "pbft_inv ac cd c" and "cs_PrePrepare c = Some pp" and "phase ac cd (pp_Digest pp) c c'"
  shows "pbft_inv ac cd c'"
  using assms votes_inv_phase steps_inv_phase unfolding pbft_inv_def by blast

text \<open>The prepare phase with a pre-prepare that is new or has the digest of the one before.\<close>

lemma enterPrepare_inv:
  assumes "votes_inv ac (e_codec e) c" and "cs_PrePrepare c = Some pp" and "enterPrepare e c = Inr c'"
  shows "pbft_inv ac (e_codec e) c'"
proof -
  have ok: "votes_ok ac (e_codec e) c" "few_validators c" using assms(1) by (simp_all add: votes_inv_def)
  note ph = enterPrepare_phase [OF assms(3,2) ok]
  have "votes_inv ac (e_codec e) c'" using votes_inv_phase [OF assms(1,2) ph(1)] .
  then show ?thesis using ph(2) by (auto simp: pbft_inv_def steps_inv_def running_step_def)
qed

lemma handleVerifyResult_inv:
  assumes "handleVerifyResult e vr c = Inr c'" and "pbft_inv ac (e_codec e) c" and "View c \<noteq> - 1"
  shows "pbft_inv ac (e_codec e) c'"
proof -
  obtain block header where b: "vr_VerifiedBlock vr = Some block" "b_Header block = Some header"
    using assms(1) by (auto simp: handleVerifyResult_def elim!: go_bind_InrE)
  show ?thesis
  proof (cases "c' = c")
    case False
    then obtain pp where pp: "cs_PrePrepare c = Some pp" "bytes_Equal (pp_Digest pp) (BlockHash header)"
      and run: "(if vr_Code vr = VerifyResult_FAIL then Inr (enterViewChange e (c\<lparr>cs_PrePrepare := None\<rparr>))
         else enterPrepare e (c\<lparr>cs_PrePrepare :=
           Some (pp\<lparr>pp_Block := Some block, pp_TxsRwSet := vr_TxsRwSet vr, pp_Digest := BlockHash header\<rparr>)\<rparr>)) = Inr c'"
      using assms(1) b by (simp add: handleVerifyResult_def split: if_split_asm option.split_asm)
    have inv: "votes_inv ac (e_codec e) c" using assms(2) by (simp add: pbft_inv_def)
    show ?thesis
    proof (cases "vr_Code vr = VerifyResult_FAIL")
      case True
      have "enterViewChange e (c\<lparr>cs_PrePrepare := None\<rparr>) = enterViewChange e c"
        by (simp add: enterViewChange_def resetVotes_def Let_def split: option.split)
      then show ?thesis using True run enterViewChange_inv [OF inv assms(3), of e] by simp
    next
      case False
      define pp' where "pp' = pp\<lparr>pp_Block := Some block, pp_TxsRwSet := vr_TxsRwSet vr, pp_Digest := BlockHash header\<rparr>"
      have "votes_inv ac (e_codec e) (c\<lparr>cs_PrePrepare := Some pp'\<rparr>)"
        by (rule votes_inv_moved [OF inv, of _ "[]"])
          (use inv pp in \<open>simp_all add: moved_def pp'_def votes_inv_def votes_ok_def\<close>)
      from enterPrepare_inv [OF this] False run show ?thesis by (simp add: pp'_def)
    qed
  qed (use assms(2) in simp)
qed

lemma handleProposedBlock_phase:
  assumes "handleProposedBlock e pb c = Inr c'" and "pbft_inv ac (e_codec e) c" and "c' \<noteq> c"
  obtains pp where "votes_inv ac (e_codec e) (c\<lparr>cs_PrePrepare := Some pp, Step := PBFTStep_PRE_PREPARE\<rparr>)"
    and "phase ac (e_codec e) (pp_Digest pp) (c\<lparr>cs_PrePrepare := Some pp, Step := PBFTStep_PRE_PREPARE\<rparr>) c'"
    and "running_step (Step c')"
proof -
  obtain block header where b: "pb_Block pb = Some block" "b_Header block = Some header"
    using assms(1) by (auto simp: handleProposedBlock_def elim!: go_bind_InrE)
  obtain hash sig pp where guards: "isPrimary c" "Step c = PBFTStep_NEW_HEIGHT \<or> Step c = PBFTStep_PRE_PREPARE"
    and sign: "signPrePrepare e \<lparr>pp_Primary = Id c, pp_View = View c, pp_Sequence = Sequence c, pp_Digest = Some hash,
        pp_Block = Some (block\<lparr>b_Header := Some (header\<lparr>BlockHash := Some hash, h_Signature := sig\<rparr>)\<rparr>),
        pp_Endorsement = None, pp_TxsRwSet = pb_TxsRwSet pb\<rparr> = Some pp"
    and run: "enterPrepare e (sendProposeState False (sendConsensusMsg e (MPrePrepare pp) [] (addTimeout (TimeoutPrePrepare c) PBFTStep_PRE_PREPARE
        (saveWalEntry e WalEntryType_PREPREPARE_ENTRY (Sequence c) (marshalMessage (e_codec e) (MPrePrepare pp))
          ((emit (Signed (MPrePrepare pp)) c)\<lparr>cs_PrePrepare := Some pp, Step := PBFTStep_PRE_PREPARE\<rparr>))))) = Inr c'"
    using assms(1,3) b by (simp add: handleProposedBlock_def Let_def split: if_split_asm option.split_asm prod.split_asm)
  have none: "cs_PrePrepare c = None" using guards assms(2) by (auto simp: pbft_inv_def steps_inv_def)
  define c0 where "c0 = c\<lparr>cs_PrePrepare := Some pp, Step := PBFTStep_PRE_PREPARE\<rparr>"
  have inv0: "votes_inv ac (e_codec e) c0"
    by (rule votes_inv_moved [of _ _ c _ "[]"])
      (use assms(2) none in \<open>simp_all add: c0_def moved_def pbft_inv_def votes_inv_def votes_ok_def\<close>)
  define c1 where "c1 = c0\<lparr>outs := outs c0 @ [Signed (MPrePrepare pp)]\<rparr>"
  have vote: "vote_of (MPrePrepare pp) = Some (Sequence c, View c, pp_Digest pp)" using sign by (auto simp: signPrePrepare_def)
  have "votes_ok ac (e_codec e) c1" using votes_ok_outs [of ac "e_codec e" c0 c1] inv0 by (auto simp: c1_def votes_inv_def)
  then have "phase ac (e_codec e) (pp_Digest pp) c0 c1"
    using vote by (simp add: phase_def c1_def c0_def within_def)
  then have ph: "phase ac (e_codec e) (pp_Digest pp) c0 (sendProposeState False (sendConsensusMsg e (MPrePrepare pp) []
      (addTimeout (TimeoutPrePrepare c) PBFTStep_PRE_PREPARE (saveWalEntry e WalEntryType_PREPREPARE_ENTRY (Sequence c)
        (marshalMessage (e_codec e) (MPrePrepare pp)) c1))))" (is "phase _ _ _ _ ?c2")
    by (intro phase_sends)
  then obtain pp2 where pp2: "cs_PrePrepare ?c2 = Some pp2" "pp_Digest pp2 = pp_Digest pp" and ok2: "votes_ok ac (e_codec e) ?c2"
    and few: "few_validators ?c2"
    using inv0 by (auto simp: phase_def within_def votes_inv_def)
  have "(emit (Signed (MPrePrepare pp)) c)\<lparr>cs_PrePrepare := Some pp, Step := PBFTStep_PRE_PREPARE\<rparr> = c1"
    by (rule ConsensusPBFTImpl.equality) (simp_all add: c1_def c0_def emit_def)
  then have "enterPrepare e ?c2 = Inr c'" using run by simp
  from enterPrepare_phase [OF this pp2(1) ok2 few] have "phase ac (e_codec e) (pp_Digest pp) c0 c'" "running_step (Step c')"
    using ph pp2(2) phase_trans by auto
  then show ?thesis using that inv0 by (simp add: c0_def)
qed

lemma handleProposedBlock_inv:
  assumes "handleProposedBlock e pb c = Inr c'" and "pbft_inv ac (e_codec e) c"
  shows "pbft_inv ac (e_codec e) c'"
proof (cases "c' = c")
  case False
  obtain pp where inv: "votes_inv ac (e_codec e) (c\<lparr>cs_PrePrepare := Some pp, Step := PBFTStep_PRE_PREPARE\<rparr>)"
    and ph: "phase ac (e_codec e) (pp_Digest pp) (c\<lparr>cs_PrePrepare := Some pp, Step := PBFTStep_PRE_PREPARE\<rparr>) c'"
    and step: "running_step (Step c')"
    using handleProposedBlock_phase [OF assms False] by blast
  have "votes_inv ac (e_codec e) c'" by (rule votes_inv_phase [OF inv _ ph]) simp
  then show ?thesis using step by (auto simp: pbft_inv_def steps_inv_def running_step_def)
qed (use assms in simp)

subsection \<open>Running nodes\<close>

definition env_ok :: "accessControl \<Rightarrow> pbftCodec \<Rightarrow> env \<Rightarrow> bool" where
  "env_ok ac cd e \<longleftrightarrow> e_ac e = ac \<and> e_codec e = cd \<and> length (concat (cc_Nodes (cfg_Consensus (e_ChainConfig e)))) < 2 ^ 30"

text \<open>The log of the node holds votes that were verified before they were written.\<close>

definition log_ok :: "accessControl \<Rightarrow> pbftCodec \<Rightarrow> walCodec \<Rightarrow> bool" where
  "log_ok ac cd um \<longleftrightarrow>
     (\<forall>b s. um_PrepareVoteSet um b = Some s \<longrightarrow> (\<forall>v \<in> snd ` set (entries (ppv_Votes s)). backed_prepare ac cd [] v)) \<and>
     (\<forall>b s. um_CommitVoteSet um b = Some s \<longrightarrow> (\<forall>v \<in> snd ` set (entries (pcv_Votes s)). backed_commit ac cd [] v))"

lemma handle_once_inv:
  assumes "handle_once e sel c = Some (Inr c')" and "pbft_inv ac cd c" and "env_ok ac cd e" and "View c \<noteq> - 1"
  shows "pbft_inv ac cd c'"
proof -
  have e: "e_ac e = ac" "e_codec e = cd" "length (concat (cc_Nodes (cfg_Consensus (e_ChainConfig e)))) < 2 ^ 30"
    using assms(3) by (simp_all add: env_ok_def)
  have queue: "pbft_inv ac cd (c\<lparr>proposedBlockC := a\<rparr>)" "pbft_inv ac cd (c\<lparr>verifyResultC := b\<rparr>)"
    "pbft_inv ac cd (c\<lparr>blockHeightC := h\<rparr>)" "pbft_inv ac cd (c\<lparr>externalMsgC := x\<rparr>)" for a b h x
    by (rule pbft_inv_cong [OF assms(2)]; simp add: within_def)+
  show ?thesis
  proof (cases sel)
    case SelProposed
    then obtain p q where "handleProposedBlock e p (c\<lparr>proposedBlockC := q\<rparr>) = Inr c'"
      using assms(1) by (auto simp: handle_once_def split: list.splits)
    then show ?thesis using handleProposedBlock_inv queue(1) e(2) by blast
  next
    case SelVerify
    then obtain v q where "handleVerifyResult e v (c\<lparr>verifyResultC := q\<rparr>) = Inr c'"
      using assms(1) by (auto simp: handle_once_def split: list.splits)
    then show ?thesis using handleVerifyResult_inv [of e v "c\<lparr>verifyResultC := q\<rparr>" c' ac] queue(2) e(2) assms(4) by simp
  next
    case SelHeight
    then obtain h q where "handleBlockHeight e h (c\<lparr>blockHeightC := q\<rparr>) = Inr c'"
      using assms(1) by (auto simp: handle_once_def split: list.splits)
    then show ?thesis
      using enterNewSequence_inv [OF _ queue(3) e(3)] queue(3) by (auto simp: handleBlockHeight_def split: if_splits)
  next
    case SelExternal
    then obtain m q where run: "handleConsensusMsg e m (c\<lparr>externalMsgC := q\<rparr>) = Inr c'"
      using assms(1) by (auto simp: handle_once_def split: list.splits)
    have inv: "pbft_inv ac cd (c\<lparr>externalMsgC := q\<rparr>)" by (rule queue(4))
    then have ok: "votes_ok (e_ac e) (e_codec e) (c\<lparr>externalMsgC := q\<rparr>)" "few_validators (c\<lparr>externalMsgC := q\<rparr>)"
      using e by (simp_all add: pbft_inv_def votes_inv_def)
    show ?thesis
    proof (cases m)
      case (MPrepare p)
      then show ?thesis using run procPrepare_phase [OF _ ok] inv phase_inv [OF inv] e unfolding handleConsensusMsg_def by auto
    next
      case (MCommit p)
      then show ?thesis using run procCommit_phase [OF _ ok] inv phase_inv [OF inv] e unfolding handleConsensusMsg_def by auto
    qed (use run inv procPrePrepare_inv procViewChange_inv procNewView_inv in \<open>auto simp: handleConsensusMsg_def\<close>)
  next
    case (SelTimeout ti)
    then have "c' = c \<or> c' = enterViewChange e c" using assms(1) by (auto simp: handle_once_def handleTimeout_def split: if_splits)
    then show ?thesis using enterViewChange_inv [of ac cd c e] assms(2,4) by (auto simp: pbft_inv_def)
  qed
qed

lemma OnMessage_inv:
  assumes "OnMessage w m c = Inr (Some c')" and "pbft_inv ac cd c"
  shows "pbft_inv ac cd c'"
proof -
  have "within c c' \<and> Step c' = Step c \<and> cs_PrePrepare c' = cs_PrePrepare c \<and> cs_PrepareVoteSet c' = cs_PrepareVoteSet c \<and>
      cs_CommitVoteSet c' = cs_CommitVoteSet c \<and> outs c' = outs c"
    using assms(1) by (cases m) (auto simp: OnMessage_def within_def elim!: go_bind_InrE split: if_splits option.splits)
  then show ?thesis using pbft_inv_cong [OF assms(2)] by blast
qed

lemma New_inv:
  assumes "New nodeId key nonWal openLws cfg = Inr (Some c0)" and "length (concat (cc_Nodes (cfg_Consensus cfg))) < 2 ^ 30"
  shows "pbft_inv ac cd (c0\<lparr>started := b\<rparr>)" and "View c0 = 0"
proof -
  obtain version mode where "c0 = ConsensusState.extend (NewConsensusState nodeId)
      \<lparr>Id = nodeId, blockVersion = version, walWriteMode = mode,
       valSet = newValidatorSet (GetValidatorListFromConfig cfg), stateCache = newConsensusStateCache 10,
       proposedBlockC = [], verifyResultC = [], blockHeightC = [], externalMsgC = [],
       TimeoutPrePrepare = pc_timeoutPrePrepare default_PbftConfig, TimeoutPrepare = pc_timeoutPrepare default_PbftConfig,
       TimeoutCommit = pc_timeoutCommit default_PbftConfig, TimeoutViewChange = pc_timeoutViewChange default_PbftConfig,
       outs = [], started = False\<rparr>"
    using assms(1) by (auto simp: New_def elim!: go_bind_InrE split: option.splits)
  then show "pbft_inv ac cd (c0\<lparr>started := b\<rparr>)" and "View c0 = 0"
    using assms(2)
    by (simp_all add: ConsensusState.extend_def NewConsensusState_def pbft_inv_def votes_inv_def steps_inv_def votes_ok_def
        newValidatorSet_def pbft_validators_concat)
qed

lemma replayed_inv:
  assumes "pbft_inv ac cd c" and "log_ok ac cd um" and "Step c = PBFTStep_NEW_HEIGHT"
  shows "um_PrepareVoteSet um b = Some s \<Longrightarrow> pbft_inv ac cd (c\<lparr>cs_PrepareVoteSet := Some s, Step := PBFTStep_PREPARE\<rparr>)"
    and "um_CommitVoteSet um b = Some t \<Longrightarrow> pbft_inv ac cd (c\<lparr>cs_CommitVoteSet := Some t, Step := PBFTStep_COMMIT\<rparr>)"
proof -
  have none: "cs_PrePrepare c = None" using assms(1,3) by (simp add: pbft_inv_def steps_inv_def)
  have ok: "votes_ok ac cd c" and few: "few_validators c" and inv: "votes_inv ac cd c"
    using assms(1) by (simp_all add: pbft_inv_def votes_inv_def)
  show "pbft_inv ac cd (c\<lparr>cs_PrepareVoteSet := Some s, Step := PBFTStep_PREPARE\<rparr>)" (is "pbft_inv _ _ ?c1") if "um_PrepareVoteSet um b = Some s"
  proof -
    have "\<forall>v \<in> snd ` set (entries (ppv_Votes s)). backed_prepare ac cd (outs c) v"
      using assms(2) that backed_mono(1) [of ac cd "[]" _ "outs c"] unfolding log_ok_def by auto
    then have "votes_ok ac cd ?c1" using ok by (simp add: votes_ok_def)
    then have "votes_inv ac cd ?c1"
      by (intro votes_inv_moved [OF inv, of _ "[]"]) (use few none in \<open>simp_all add: moved_def\<close>)
    then show ?thesis by (simp add: pbft_inv_def steps_inv_def)
  qed
  show "pbft_inv ac cd (c\<lparr>cs_CommitVoteSet := Some t, Step := PBFTStep_COMMIT\<rparr>)" (is "pbft_inv _ _ ?c1") if "um_CommitVoteSet um b = Some t"
  proof -
    have "\<forall>v \<in> snd ` set (entries (pcv_Votes t)). backed_commit ac cd (outs c) v"
      using assms(2) that backed_mono(2) [of ac cd "[]" _ "outs c"] unfolding log_ok_def by auto
    then have "votes_ok ac cd ?c1" using ok by (simp add: votes_ok_def)
    then have "votes_inv ac cd ?c1"
      by (intro votes_inv_moved [OF inv, of _ "[]"]) (use few none in \<open>simp_all add: moved_def\<close>)
    then show ?thesis by (simp add: pbft_inv_def steps_inv_def)
  qed
qed

lemma enterPrepareFromReplayWal_inv:
  assumes "enterPrepareFromReplayWal e pp c = Inr (c', b)" and "pbft_inv ac (e_codec e) c" and "Step c = PBFTStep_NEW_HEIGHT"
  shows "pbft_inv ac (e_codec e) c'"
proof (cases "pp_Block pp = None")
  case False
  let ?c1 = "c\<lparr>cs_PrePrepare := Some pp, Step := PBFTStep_PRE_PREPARE\<rparr>"
  have none: "cs_PrePrepare c = None" using assms(2,3) by (simp add: pbft_inv_def steps_inv_def)
  have run: "enterPrepare e ?c1 = Inr c'"
    using assms(1) False by (auto simp: enterPrepareFromReplayWal_def elim!: go_bind_InrE)
  have "votes_inv ac (e_codec e) ?c1"
    by (rule votes_inv_moved [of _ _ c _ "[]"])
      (use assms(2) none in \<open>simp_all add: moved_def pbft_inv_def votes_inv_def votes_ok_def\<close>)
  from enterPrepare_inv [OF this _ run] show ?thesis by simp
qed (use assms in \<open>simp add: enterPrepareFromReplayWal_def\<close>)

lemma enterNewSequence_step:
  assumes "enterNewSequence e sequence c = Inr c'" and "Step c = PBFTStep_NEW_HEIGHT"
  shows "Step c' = PBFTStep_NEW_HEIGHT"
  using assms
  by (auto simp: enterNewSequence_def Let_def sendProposeState_def emit_def resetVotes_def elim!: go_bind_InrE split: if_splits)

lemma pbft_Start_inv:
  assumes "Start e um height wal False c0 = Inr (c, True)" and "pbft_inv ac cd (c0\<lparr>started := True\<rparr>)" and "Step c0 = PBFTStep_NEW_HEIGHT"
    and "env_ok ac cd e" and "log_ok ac cd um"
  shows "pbft_inv ac cd c"
proof -
  let ?c0 = "c0\<lparr>started := True\<rparr>"
  have e: "e_codec e = cd" "length (concat (cc_Nodes (cfg_Consensus (e_ChainConfig e)))) < 2 ^ 30"
    using assms(4) by (simp_all add: env_ok_def)
  have new: "pbft_inv ac cd c1" "Step c1 = PBFTStep_NEW_HEIGHT" if "enterNewSequence e sq ?c0 = Inr c1" for sq c1
    using enterNewSequence_inv [OF that assms(2) e(2)] enterNewSequence_step [OF that] assms(3) by simp_all
  show ?thesis
    using assms(1) new replayed_inv [OF _ assms(5)] enterPrepareFromReplayWal_inv [where e = e and ac = ac, unfolded e(1)]
    unfolding Start_def replayWal_def mustUnmarshal_def Let_def
    by (auto elim!: go_bind_InrE split: if_split_asm option.split_asm WalEntryType.split_asm walLast.split_asm)
qed

inductive pbft_running :: "accessControl \<Rightarrow> pbftCodec \<Rightarrow> ConsensusPBFTImpl \<Rightarrow> bool" for ac cd where
  pr_start: "New nodeId key nonWal openLws cfg = Inr (Some c0) \<Longrightarrow> length (concat (cc_Nodes (cfg_Consensus cfg))) < 2 ^ 30 \<Longrightarrow>
    env_ok ac cd e \<Longrightarrow> log_ok ac cd um \<Longrightarrow> Start e um height wal False c0 = Inr (c, True) \<Longrightarrow> pbft_running ac cd c"
| pr_handle: "pbft_running ac cd c \<Longrightarrow> env_ok ac cd e \<Longrightarrow> View c \<noteq> - 1 \<Longrightarrow>
    (\<forall>ti. sel = SelTimeout ti \<longrightarrow> AddTimeout ti \<in> set (outs c)) \<Longrightarrow> handle_once e sel c = Some (Inr c') \<Longrightarrow> pbft_running ac cd c'"
| pr_message: "pbft_running ac cd c \<Longrightarrow> OnMessage w m c = Inr (Some c') \<Longrightarrow> pbft_running ac cd c'"

lemma pbft_running_inv: "pbft_running ac cd c \<Longrightarrow> pbft_inv ac cd c"
proof (induction rule: pbft_running.induct)
  case (pr_start nodeId key nonWal openLws cfg c0 e um height wal c)
  have "Step c0 = PBFTStep_NEW_HEIGHT"
    using pr_start(1) by (auto simp: New_def ConsensusState.extend_def NewConsensusState_def elim!: go_bind_InrE split: option.splits)
  then show ?case using pbft_Start_inv [OF pr_start(5) New_inv(1) [OF pr_start(1,2)]] pr_start(3,4) by blast
next
  case (pr_handle c e sel c')
  then show ?case using handle_once_inv by blast
next
  case (pr_message c w m c')
  then show ?case using OnMessage_inv by blast
qed

text \<open>A message on the bus, and its handling, as one step of a node whose queue is empty.\<close>

lemma running_queued:
  assumes "pbft_running ac cd c" and "externalMsgC c = []"
  shows "pbft_running ac cd (c\<lparr>externalMsgC := [m]\<rparr>)"
    and "handle_once e SelExternal (c\<lparr>externalMsgC := [m]\<rparr>) = Some (handleConsensusMsg e m c)"
proof -
  let ?w = "\<lparr>w_PBFTMsg = (\<lambda>_. Some \<lparr>m_Type = getPBFTMsgType m, m_Msg = None\<rparr>),
    w_PrePrepare = (\<lambda>_. case m of MPrePrepare p \<Rightarrow> Some p | _ \<Rightarrow> None), w_Prepare = (\<lambda>_. case m of MPrepare p \<Rightarrow> Some p | _ \<Rightarrow> None),
    w_Commit = (\<lambda>_. case m of MCommit p \<Rightarrow> Some p | _ \<Rightarrow> None), w_ViewChange = (\<lambda>_. case m of MViewChange p \<Rightarrow> Some p | _ \<Rightarrow> None),
    w_NewView = (\<lambda>_. case m of MNewView p \<Rightarrow> Some p | _ \<Rightarrow> None)\<rparr>"
  have "createConsensusMsgFromPBFTMsgBz ?w (Some ''m'') = Some m"
    by (cases m) (simp_all add: createConsensusMsgFromPBFTMsgBz_def getPBFTMsgType_def Let_def)
  then have "OnMessage ?w (BusRecvConsensusMsg (Some ''m'')) c = Inr (Some (c\<lparr>externalMsgC := [m]\<rparr>))"
    using assms(2) by (simp add: OnMessage_def defaultChanCap_def)
  then show "pbft_running ac cd (c\<lparr>externalMsgC := [m]\<rparr>)" by (rule pr_message [OF assms(1)])
  have "c\<lparr>externalMsgC := []\<rparr> = c" using assms(2) by simp
  then show "handle_once e SelExternal (c\<lparr>externalMsgC := [m]\<rparr>) = Some (handleConsensusMsg e m c)" by (simp add: handle_once_def)
qed

lemma running_external:
  assumes "pbft_running ac cd c" and "env_ok ac cd e" and "View c \<noteq> - 1" and "externalMsgC c = []"
    and "handleConsensusMsg e m c = Inr c'"
  shows "pbft_running ac cd c'"
  using pr_handle [OF running_queued(1) [OF assms(1,4), of m] assms(2), of SelExternal c'] running_queued(2) [OF assms(1,4)] assms(3,5)
  by simp

lemma running_bus:
  assumes "pbft_running ac cd c" and "env_ok ac cd e" and "View c \<noteq> - 1"
  shows "proposedBlockC c = [] \<Longrightarrow> handleProposedBlock e pb c = Inr c' \<Longrightarrow> pbft_running ac cd c'"
    and "verifyResultC c = [] \<Longrightarrow> handleVerifyResult e vr c = Inr c' \<Longrightarrow> pbft_running ac cd c'"
proof -
  show "pbft_running ac cd c'" if q: "proposedBlockC c = []" and h: "handleProposedBlock e pb c = Inr c'"
  proof -
    have "OnMessage w (BusProposedBlock pb) c = Inr (Some (c\<lparr>proposedBlockC := [pb]\<rparr>))" for w
      using q by (simp add: OnMessage_def defaultChanCap_def)
    then have r: "pbft_running ac cd (c\<lparr>proposedBlockC := [pb]\<rparr>)" by (rule pr_message [OF assms(1)])
    have "c\<lparr>proposedBlockC := []\<rparr> = c" using q by simp
    then have "handle_once e SelProposed (c\<lparr>proposedBlockC := [pb]\<rparr>) = Some (Inr c')" using h by (simp add: handle_once_def)
    then show ?thesis using pr_handle [OF r assms(2), of SelProposed c'] assms(3) by simp
  qed
  show "pbft_running ac cd c'" if q: "verifyResultC c = []" and h: "handleVerifyResult e vr c = Inr c'"
  proof -
    have "OnMessage w (BusVerifyResult vr) c = Inr (Some (c\<lparr>verifyResultC := [vr]\<rparr>))" for w
      using q by (simp add: OnMessage_def defaultChanCap_def)
    then have r: "pbft_running ac cd (c\<lparr>verifyResultC := [vr]\<rparr>)" by (rule pr_message [OF assms(1)])
    have "c\<lparr>verifyResultC := []\<rparr> = c" using q by simp
    then have "handle_once e SelVerify (c\<lparr>verifyResultC := [vr]\<rparr>) = Some (Inr c')" using h by (simp add: handle_once_def)
    then show ?thesis using pr_handle [OF r assms(2), of SelVerify c'] assms(3) by simp
  qed
qed

end
