(* ===== verification/Pbft_Example.thy ===== *)
theory Pbft_Example
  imports Pbft_Machine
begin

section \<open>PBFT: a run\<close>

text \<open>
  A node of a chain with four validators, from its construction: it is the primary of the first
  view, proposes a block, collects votes and commits the block; then its timeout for the commit
  phase expires before the core engine reports the block, and the node takes part in the next
  view. Every step is the model's own function, evaluated by the simplifier.
\<close>

subsection \<open>Data\<close>

definition px_cfg :: ChainConfig where
  "px_cfg = \<lparr>cfg_ChainId = ''chain'', cfg_Version = '''',
     cfg_Consensus = \<lparr>cc_Type = 7, cc_Nodes = [[''A''], [''B''], [''C''], [''D'']], cc_ExtConfig = []\<rparr>,
     cfg_CryptoHash = ''SHA256'', cfg_TrustMembers = []\<rparr>"

definition px_ac :: accessControl where
  "px_ac = \<lparr>ac_CreatePrincipal = (\<lambda>e m. Some m), ac_VerifyMsgPrincipal = (\<lambda>p v. Some True), ac_NewMember = (\<lambda>_. None)\<rparr>"

definition px_codec :: pbftCodec where
  "px_codec = \<lparr>marshalMessage = (\<lambda>_. ''msg''), marshalPrepareVoteSet = (\<lambda>_. ''prepares''), marshalCommitVoteSet = (\<lambda>_. ''qc'')\<rparr>"

definition px_env :: env where
  "px_env = \<lparr>e_ChainConfig = px_cfg, e_ParseDuration = (\<lambda>_. None), e_ac = px_ac, e_codec = px_codec,
     e_Sign = (\<lambda>_ _. Some ''sig''), e_GetMember = Some \<lparr>OrgId = [], MemberType = 0, MemberInfo = []\<rparr>,
     e_SignBlock = (\<lambda>_ _. Some (''X'', None)), e_NonWalWrite = 0\<rparr>"

definition px_en :: "EndorsementEntry option" where
  "px_en = Some \<lparr>Signer = Some \<lparr>OrgId = [], MemberType = 0, MemberInfo = []\<rparr>, Signature = Some ''sig''\<rparr>"

definition px_block :: "gobytes \<Rightarrow> Block" where
  "px_block hash = \<lparr>b_Header = Some \<lparr>BlockVersion = 0, BlockHeight = 1, BlockHash = hash, PreBlockHash = None, Proposer = None,
     h_Signature = None, h_Other = []\<rparr>, b_Dag = [], b_Txs = [], b_AdditionalData = None\<rparr>"

definition px_committed :: "gobytes \<Rightarrow> Block" where
  "px_committed hash = (px_block hash)\<lparr>b_AdditionalData := Some [PBFTAdditionalDataKey \<mapsto> Some ''qc'']\<rparr>"

definition px_pp :: "string \<Rightarrow> u64 \<Rightarrow> gobytes \<Rightarrow> PrePrepare" where
  "px_pp primary view hash = \<lparr>pp_Primary = primary, pp_View = view, pp_Sequence = 1, pp_Digest = hash,
     pp_Block = Some (px_block hash), pp_Endorsement = px_en, pp_TxsRwSet = None\<rparr>"

definition px_prepare :: "u64 \<Rightarrow> gobytes \<Rightarrow> string \<Rightarrow> Prepare" where
  "px_prepare view hash node = \<lparr>pr_NodeId = node, pr_View = view, pr_Sequence = 1, pr_Digest = hash, pr_Endorsement = px_en\<rparr>"

definition px_commit :: "u64 \<Rightarrow> gobytes \<Rightarrow> string \<Rightarrow> Commit" where
  "px_commit view hash node = \<lparr>cm_NodeId = node, cm_View = view, cm_Sequence = 1, cm_Digest = hash, cm_Endorsement = px_en\<rparr>"

definition px_vc :: "string \<Rightarrow> ViewChange" where
  "px_vc node = \<lparr>vc_NodeId = node, vc_CurView = 0, vc_NextView = 1, vc_Sequence = 1, vc_Endorsement = px_en\<rparr>"

definition px_nv :: NewView where
  "px_nv = \<lparr>nv_NodeId = ''C'', nv_CurView = 0, nv_NextView = 1, nv_NewSequence = 1,
     nv_ViewChangeMessages = map px_vc [''B'', ''C'', ''A''], nv_Endorsement = px_en\<rparr>"

definition px_prepares :: "u64 \<Rightarrow> gobytes \<Rightarrow> string list \<Rightarrow> ProtoPrepareVoteSet" where
  "px_prepares view hash nodes = \<lparr>ppv_View = view, ppv_Sequence = 1, ppv_Digest = hash,
     ppv_Votes = Some (map (\<lambda>n. (n, px_prepare view hash n)) nodes), ppv_Sum = word_of_nat (length nodes)\<rparr>"

definition px_commits :: "u64 \<Rightarrow> gobytes \<Rightarrow> string list \<Rightarrow> ProtoCommitVoteSet" where
  "px_commits view hash nodes = \<lparr>pcv_View = view, pcv_Sequence = 1, pcv_Digest = hash,
     pcv_Votes = Some (map (\<lambda>n. (n, px_commit view hash n)) nodes), pcv_Sum = word_of_nat (length nodes)\<rparr>"

definition px_state ::
    "u64 \<Rightarrow> PBFTStep \<Rightarrow> PrePrepare option \<Rightarrow> ProtoPrepareVoteSet option \<Rightarrow> ProtoCommitVoteSet option \<Rightarrow> (string \<times> ViewChange) list \<Rightarrow>
      Out list \<Rightarrow> ConsensusPBFTImpl" where
  "px_state view step pp prepares commits vcs os =
     \<lparr>cs_Id = ''B'', View = view, Sequence = 1, Step = step, cs_PrePrepare = pp, cs_PrepareVoteSet = prepares,
      cs_CommitVoteSet = commits, cs_ViewChangeVotes = vcs, cs_NewViewVotes = [],
      Id = ''B'', blockVersion = 0, walWriteMode = 0,
      valSet = \<lparr>Validators = [''A'', ''B'', ''C'', ''D''], validatorsHeight = Map.empty, validatorsBeatTime = Map.empty\<rparr>,
      stateCache = \<lparr>csc_size = 10, csc_cache = Map.empty\<rparr>, proposedBlockC = [], verifyResultC = [], blockHeightC = [],
      externalMsgC = [], TimeoutPrePrepare = 30000000000, TimeoutPrepare = 30000000000, TimeoutCommit = 30000000000,
      TimeoutViewChange = 60000000000, outs = os, started = True\<rparr>"

definition px_timeout :: "i64 \<Rightarrow> u64 \<Rightarrow> PBFTStep \<Rightarrow> Out" where
  "px_timeout d view step = AddTimeout \<lparr>ti_Duration = d, ti_Height = 1, ti_Round = view, ti_Step = step\<rparr>"

definition px_sent :: "PBFTMsgType \<Rightarrow> Out list" where
  "px_sent t = map (NetMsg \<lparr>m_Type = t, m_Msg = Some ''msg''\<rparr>) [''A'', ''C'', ''D'']"

subsection \<open>Steps\<close>

lemmas px_data = px_cfg_def px_ac_def px_codec_def px_env_def px_en_def px_block_def px_committed_def px_pp_def px_prepare_def
  px_commit_def px_vc_def px_nv_def px_prepares_def px_commits_def px_state_def px_timeout_def px_sent_def

lemmas pbft_code_defs = New_def InitLWS_def ConsensusState.extend_def NewConsensusState_def newValidatorSet_def newConsensusStateCache_def
  GetBlockVersion_def default_PbftConfig_def Start_def replayWal_def enterNewSequence_def updateChainConfig_def extractConsensusConfig_def
  GetValidatorListFromConfig_def updateValidators_def hasValidator_def resetVotes_def sendProposeState_def emit_def isPrimary_def
  GetPrimary_def isNilOrEmpty_def handleProposedBlock_def signPrePrepare_def endorse_def unsigned_def saveWalEntry_def addTimeout_def
  sendConsensusMsg_def getPBFTMsgType_def enterPrepare_def initPrepareVoteSet_def signPrepare_def ownPrepare_def addPrepare_def map_write_def
  followPrepares_def countPrepares_def PrepareVoteSet_HasTwoThirdsMajority_def majority_i32_def Size_def NewPrepareVoteSet_def
  PrepareVoteSet_AddVote_def enterCommit_def hasPrepareQuorum_def initCommitVoteSet_def signCommit_def ownCommit_def addCommit_def
  followCommits_def countCommits_def CommitVoteSet_HasTwoThirdsMajority_def NewCommitVoteSet_def CommitVoteSet_AddVote_def
  enterCommitted_def hasCommitQuorum_def commitBlock_def enterViewChange_def signViewChange_def enterNewView_def enoughVotes_def
  handleConsensusMsg_def procPrePrepare_def procPrepare_def procCommit_def procNewView_def verifyPrePrepare_def verifyPrepare_def
  verifyCommit_def verifyViewChange_def verifyNewView_def verify_endorsed_def handleVerifyResult_def VerifyResult_FAIL_def
  handleTimeout_def handle_once_def

lemma three_le_one: "\<not> (3 :: u64) \<le> 1" "\<not> (3 :: i32) \<le> 1"
  by (simp_all add: word_le_nat_alt)

lemmas pbft_run_simps = pbft_code_defs px_data go_bind_def deref_def bytes_content_def bytes_Equal_def Let_def i32_of_nat_def
  i32_div_def u64_of_i32_def signed_divide_int_def entries_def three_le_one

lemma px_start:
  "\<exists>c. New ''B'' ''wal'' 0 True px_cfg = Inr (Some c) \<and>
    Start px_env um (Some 0) WalNoIterator False c = Inr (px_state 0 PBFTStep_NEW_HEIGHT None None None [] [ProposeState True], True)"
  by (simp add: pbft_run_simps)

definition px_proposed :: "u64 \<Rightarrow> gobytes \<Rightarrow> Out list" where
  "px_proposed view hash = Signed (MPrepare (px_prepare view hash ''B'')) # px_sent PBFTMsgType_MSG_PREPARE
     @ [px_timeout 30000000000 view PBFTStep_PREPARE]"

definition px_os1 :: "Out list" where
  "px_os1 = [ProposeState True, Signed (MPrePrepare (px_pp ''B'' 0 (Some ''X''))), px_timeout 30000000000 0 PBFTStep_PRE_PREPARE]
     @ px_sent PBFTMsgType_MSG_PREPREPARE @ [ProposeState False] @ px_proposed 0 (Some ''X'')"

lemma px_propose:
  "handleProposedBlock px_env \<lparr>pb_Block = Some (px_block None), pb_TxsRwSet = None\<rparr>
      (px_state 0 PBFTStep_NEW_HEIGHT None None None [] [ProposeState True]) =
    Inr (px_state 0 PBFTStep_PREPARE (Some (px_pp ''B'' 0 (Some ''X''))) (Some (px_prepares 0 (Some ''X'') [''B''])) None [] px_os1)"
  by (simp add: pbft_run_simps px_os1_def px_proposed_def)

text \<open>The votes of two other validators, in view \<open>view\<close> and for the block \<open>hash\<close>.\<close>

definition px_voted :: "u64 \<Rightarrow> gobytes \<Rightarrow> Out list" where
  "px_voted view hash = [px_timeout 30000000000 view PBFTStep_PREPARE, Signed (MCommit (px_commit view hash ''B''))]
     @ px_sent PBFTMsgType_MSG_COMMIT @ [px_timeout 30000000000 view PBFTStep_COMMIT, px_timeout 30000000000 view PBFTStep_COMMIT]"

definition px_after :: "string \<Rightarrow> u64 \<Rightarrow> gobytes \<Rightarrow> Out list \<Rightarrow> ConsensusPBFTImpl" where
  "px_after primary view hash os = px_state view PBFTStep_COMMITTED (Some ((px_pp primary view hash)\<lparr>pp_Block := Some (px_committed hash)\<rparr>))
     (Some (px_prepares view hash [''B'', ''A'', ''C''])) (Some (px_commits view hash [''B'', ''A'', ''C''])) []
     (os @ px_voted view hash @ [CommitBlock (px_committed hash)])"

lemma px_prepare1:
  "procPrepare px_env (px_prepare view hash ''A'')
      (px_state view PBFTStep_PREPARE (Some (px_pp primary view hash)) (Some (px_prepares view hash [''B''])) None [] os) =
    Inr (px_state view PBFTStep_PREPARE (Some (px_pp primary view hash)) (Some (px_prepares view hash [''B'', ''A''])) None []
      (os @ [px_timeout 30000000000 view PBFTStep_PREPARE]))"
  by (simp add: pbft_run_simps)

lemma px_prepare2:
  "procPrepare px_env (px_prepare view hash ''C'')
      (px_state view PBFTStep_PREPARE (Some (px_pp primary view hash)) (Some (px_prepares view hash [''B'', ''A''])) None [] os) =
    Inr (px_state view PBFTStep_COMMIT (Some (px_pp primary view hash)) (Some (px_prepares view hash [''B'', ''A'', ''C'']))
      (Some (px_commits view hash [''B''])) []
      (os @ [Signed (MCommit (px_commit view hash ''B''))] @ px_sent PBFTMsgType_MSG_COMMIT @ [px_timeout 30000000000 view PBFTStep_COMMIT]))"
  by (simp add: pbft_run_simps)

lemma px_commit1:
  "procCommit px_env (px_commit view hash ''A'')
      (px_state view PBFTStep_COMMIT (Some (px_pp primary view hash)) pvs (Some (px_commits view hash [''B''])) [] os) =
    Inr (px_state view PBFTStep_COMMIT (Some (px_pp primary view hash)) pvs (Some (px_commits view hash [''B'', ''A''])) []
      (os @ [px_timeout 30000000000 view PBFTStep_COMMIT]))"
  by (simp add: pbft_run_simps)

lemma px_commit2:
  "procCommit px_env (px_commit view hash ''C'')
      (px_state view PBFTStep_COMMIT (Some (px_pp primary view hash)) pvs (Some (px_commits view hash [''B'', ''A''])) [] os) =
    Inr (px_state view PBFTStep_COMMITTED (Some ((px_pp primary view hash)\<lparr>pp_Block := Some (px_committed hash)\<rparr>)) pvs
      (Some (px_commits view hash [''B'', ''A'', ''C''])) [] (os @ [CommitBlock (px_committed hash)]))"
  by (simp add: pbft_run_simps)

lemma px_view_change:
  "handleTimeout px_env \<lparr>ti_Duration = 30000000000, ti_Height = 1, ti_Round = 0, ti_Step = PBFTStep_COMMIT\<rparr>
      (px_state 0 step pp pvs cvs [] os) =
    px_state 1 PBFTStep_VIEW_CHANGE None None None [(''B'', px_vc ''B'')]
      (os @ [Signed (MViewChange (px_vc ''B''))] @ px_sent PBFTMsgType_MSG_VIEWCHANGE @ [px_timeout 60000000000 1 PBFTStep_VIEW_CHANGE])"
  by (simp add: pbft_run_simps)

lemma px_new_view:
  "procNewView px_env px_nv (px_state 1 PBFTStep_VIEW_CHANGE None None None vcs os) =
    px_state 1 PBFTStep_NEW_HEIGHT None None None [] (os @ [ProposeState False])"
  by (simp add: pbft_run_simps)

lemma px_preprepare:
  "procPrePrepare px_env (px_pp ''C'' 1 hash) (px_state 1 PBFTStep_NEW_HEIGHT None None None [] os) =
    px_state 1 PBFTStep_PRE_PREPARE (Some (px_pp ''C'' 1 hash)) None None [] (os @ [VerifyBlock (px_block hash)])"
  by (simp add: pbft_run_simps)

lemma px_verified:
  "handleVerifyResult px_env \<lparr>vr_VerifiedBlock = Some (px_block hash), vr_Code = 0, vr_TxsRwSet = None\<rparr>
      (px_state 1 PBFTStep_PRE_PREPARE (Some (px_pp ''C'' 1 hash)) None None [] os) =
    Inr (px_state 1 PBFTStep_PREPARE (Some (px_pp ''C'' 1 hash)) (Some (px_prepares 1 hash [''B''])) None [] (os @ px_proposed 1 hash))"
  by (simp add: pbft_run_simps px_proposed_def)

subsection \<open>The run\<close>

lemma px_env_ok: "env_ok px_ac px_codec px_env"
  by (simp add: env_ok_def px_env_def px_cfg_def)

definition px_um :: walCodec where
  "px_um = \<lparr>um_WalEntry = (\<lambda>_. None), um_PrePrepare = (\<lambda>_. None), um_PrepareVoteSet = (\<lambda>_. None), um_CommitVoteSet = (\<lambda>_. None)\<rparr>"

lemma px_um_ok: "log_ok px_ac px_codec px_um"
  by (simp add: log_ok_def px_um_def)

lemma px_run0: "pbft_running px_ac px_codec (px_state 0 PBFTStep_NEW_HEIGHT None None None [] [ProposeState True])"
proof -
  obtain c where c: "New ''B'' ''wal'' 0 True px_cfg = Inr (Some c)"
      "Start px_env px_um (Some 0) WalNoIterator False c = Inr (px_state 0 PBFTStep_NEW_HEIGHT None None None [] [ProposeState True], True)"
    using px_start by blast
  show ?thesis by (rule pr_start [OF c(1) _ px_env_ok px_um_ok c(2)]) (simp add: px_cfg_def)
qed

lemma px_step:
  assumes "pbft_running px_ac px_codec (px_state view step pp pvs cvs vcs os)" and "view \<noteq> - 1"
  shows "handleConsensusMsg px_env m (px_state view step pp pvs cvs vcs os) = Inr c' \<Longrightarrow> pbft_running px_ac px_codec c'"
    and "handleProposedBlock px_env pb (px_state view step pp pvs cvs vcs os) = Inr c' \<Longrightarrow> pbft_running px_ac px_codec c'"
    and "handleVerifyResult px_env vr (px_state view step pp pvs cvs vcs os) = Inr c' \<Longrightarrow> pbft_running px_ac px_codec c'"
  using running_external [OF assms(1) px_env_ok] running_bus [OF assms(1) px_env_ok] assms(2) by (simp_all add: px_state_def)

lemma px_run1:
  "pbft_running px_ac px_codec
     (px_state 0 PBFTStep_PREPARE (Some (px_pp ''B'' 0 (Some ''X''))) (Some (px_prepares 0 (Some ''X'') [''B''])) None [] px_os1)"
  by (rule px_step(2) [OF px_run0 _ px_propose]) simp

text \<open>The votes in one view, up to the last commit vote.\<close>

lemma px_votes:
  assumes "pbft_running px_ac px_codec
      (px_state view PBFTStep_PREPARE (Some (px_pp primary view hash)) (Some (px_prepares view hash [''B''])) None [] os)"
    and "view \<noteq> - 1"
  shows "pbft_running px_ac px_codec
      (px_state view PBFTStep_PREPARE (Some (px_pp primary view hash)) (Some (px_prepares view hash [''B'', ''A''])) None []
        (os @ [px_timeout 30000000000 view PBFTStep_PREPARE]))" (is ?one)
    and "pbft_running px_ac px_codec
      (px_state view PBFTStep_COMMIT (Some (px_pp primary view hash)) (Some (px_prepares view hash [''B'', ''A'', ''C'']))
        (Some (px_commits view hash [''B'', ''A''])) [] (os @ px_voted view hash))" (is ?two)
    and "pbft_running px_ac px_codec (px_after primary view hash os)" (is ?three)
proof -
  note run = px_step(1) [OF _ assms(2)]
  show one: ?one by (rule run [OF assms(1), of "MPrepare (px_prepare view hash ''A'')"]) (simp add: handleConsensusMsg_def px_prepare1)
  have "pbft_running px_ac px_codec
      (px_state view PBFTStep_COMMIT (Some (px_pp primary view hash)) (Some (px_prepares view hash [''B'', ''A'', ''C'']))
      (Some (px_commits view hash [''B''])) []
      ((os @ [px_timeout 30000000000 view PBFTStep_PREPARE]) @ [Signed (MCommit (px_commit view hash ''B''))]
        @ px_sent PBFTMsgType_MSG_COMMIT @ [px_timeout 30000000000 view PBFTStep_COMMIT]))"
    by (rule run [OF one, of "MPrepare (px_prepare view hash ''C'')"]) (simp only: handleConsensusMsg_def px_prepare2 pbftMessage.case)
  from run [OF this, of "MCommit (px_commit view hash ''A'')"]
  show two: ?two by (simp add: handleConsensusMsg_def px_commit1 px_voted_def)
  show ?three using run [OF two, of "MCommit (px_commit view hash ''C'')"] by (simp add: handleConsensusMsg_def px_commit2 px_after_def)
qed

lemma px_run2: "pbft_running px_ac px_codec (px_after ''B'' 0 (Some ''X'') px_os1)"
  by (rule px_votes(3) [OF px_run1]) simp

text \<open>The second view: what the node has output when it votes for the block of the next primary.\<close>

definition px_os2 :: "Out list" where
  "px_os2 = px_os1 @ px_voted 0 (Some ''X'') @ [CommitBlock (px_committed (Some ''X'')), Signed (MViewChange (px_vc ''B''))]
     @ px_sent PBFTMsgType_MSG_VIEWCHANGE @ [px_timeout 60000000000 1 PBFTStep_VIEW_CHANGE, ProposeState False]"

lemma px_run3: "pbft_running px_ac px_codec (px_state 1 PBFTStep_NEW_HEIGHT None None None [] px_os2)"
proof -
  let ?ti = "\<lparr>ti_Duration = 30000000000, ti_Height = 1, ti_Round = 0, ti_Step = PBFTStep_COMMIT\<rparr>"
  let ?c = "px_after ''B'' 0 (Some ''X'') px_os1"
  have "handle_once px_env (SelTimeout ?ti) ?c = Some (Inr (handleTimeout px_env ?ti ?c))" by (simp add: handle_once_def)
  moreover have "View ?c \<noteq> - 1" "AddTimeout ?ti \<in> set (outs ?c)" by (simp_all add: px_after_def px_state_def px_voted_def px_timeout_def)
  ultimately have "pbft_running px_ac px_codec (handleTimeout px_env ?ti ?c)" using pr_handle [OF px_run2 px_env_ok] by blast
  from px_step(1) [OF this [unfolded px_after_def px_view_change], of "MNewView px_nv"]
  show ?thesis by (simp add: handleConsensusMsg_def px_new_view px_os2_def)
qed

lemma px_run4:
  "pbft_running px_ac px_codec (px_state 1 PBFTStep_PREPARE (Some (px_pp ''C'' 1 hash)) (Some (px_prepares 1 hash [''B''])) None []
     ((px_os2 @ [VerifyBlock (px_block hash)]) @ px_proposed 1 hash))"
proof -
  have "pbft_running px_ac px_codec (px_state 1 PBFTStep_PRE_PREPARE (Some (px_pp ''C'' 1 hash)) None None [] (px_os2 @ [VerifyBlock (px_block hash)]))"
    by (rule px_step(1) [OF px_run3, of "MPrePrepare (px_pp ''C'' 1 hash)"]) (simp_all add: handleConsensusMsg_def px_preprepare)
  from px_step(3) [OF this _ px_verified] show ?thesis by simp
qed

lemma px_run5: "pbft_running px_ac px_codec (px_after ''C'' 1 hash ((px_os2 @ [VerifyBlock (px_block hash)]) @ px_proposed 1 hash))"
  by (rule px_votes(3) [OF px_run4]) simp

end
