(* ===== verification/Pbft_Timesched.thy ===== *)
theory Pbft_Timesched
  imports Pbft_Types "HOL-Library.Product_Lexorder"
begin

section \<open>PBFT: the timeout scheduler (consensus-pbft-master/timesched.go)\<close>

text \<open>
  The scheduler of the PBFT module has the goroutine of the TBFT one, over the PBFT timeouts: their
  height is a sequence number and their round, an unsigned 64-bit number, a view. A step that has
  to wait is \<^term>\<open>None\<close>; the timer's channel is not drained when the timer is stopped.
\<close>

record timeScheduler =
  ts_bufferC :: "TimeoutInfo list"
  ts_timeoutC :: "TimeoutInfo list"
  ts_ti :: TimeoutInfo
  ts_running :: bool
  ts_expired :: bool

definition defaultTimeSchedulerBufferSize :: nat where
  "defaultTimeSchedulerBufferSize = 10"

definition newTimeScheduler :: timeScheduler where
  "newTimeScheduler =
     \<lparr>ts_bufferC = [], ts_timeoutC = [],
      ts_ti = \<lparr>ti_Duration = 0, ti_Height = 0, ti_Round = 0, ti_Step = PBFTStep_NEW_HEIGHT\<rparr>,
      ts_running = False, ts_expired = False\<rparr>"

definition stopTimer :: "timeScheduler \<Rightarrow> timeScheduler" where
  "stopTimer ts = ts\<lparr>ts_running := False\<rparr>"

definition AddTimeoutInfo :: "TimeoutInfo \<Rightarrow> timeScheduler \<Rightarrow> timeScheduler option" where
  "AddTimeoutInfo ti ts =
     (if length (ts_bufferC ts) < defaultTimeSchedulerBufferSize
      then Some (ts\<lparr>ts_bufferC := ts_bufferC ts @ [ti]\<rparr>) else None)"

definition GetTimeoutC :: "timeScheduler \<Rightarrow> (TimeoutInfo \<times> timeScheduler) option" where
  "GetTimeoutC ts = (case ts_timeoutC ts of [] \<Rightarrow> None | t # q \<Rightarrow> Some (t, ts\<lparr>ts_timeoutC := q\<rparr>))"

primrec PBFTStep_value :: "PBFTStep \<Rightarrow> nat" where
  "PBFTStep_value PBFTStep_NEW_HEIGHT = 0"
| "PBFTStep_value PBFTStep_PRE_PREPARE = 1"
| "PBFTStep_value PBFTStep_PREPARE = 2"
| "PBFTStep_value PBFTStep_COMMIT = 3"
| "PBFTStep_value PBFTStep_COMMITTED = 4"
| "PBFTStep_value PBFTStep_VIEW_CHANGE = 5"
| "PBFTStep_value PBFTStep_NEW_VIEW = 6"

definition outdated :: "TimeoutInfo \<Rightarrow> TimeoutInfo \<Rightarrow> bool" where
  "outdated t ti =
     (if ti_Height t < ti_Height ti then True
      else if ti_Height t = ti_Height ti then
        if ti_Round t < ti_Round ti then True
        else if ti_Round t = ti_Round ti \<and> PBFTStep_value (ti_Step t) \<le> PBFTStep_value (ti_Step ti) then True
        else False
      else False)"

datatype ts_case = RecvBuffer | RecvTimer

definition ts_handle :: "ts_case \<Rightarrow> timeScheduler \<Rightarrow> timeScheduler option" where
  "ts_handle c ts =
     (case c of
        RecvBuffer \<Rightarrow>
          (case ts_bufferC ts of [] \<Rightarrow> None
           | t # q \<Rightarrow>
             (let ts1 = ts\<lparr>ts_bufferC := q\<rparr>
              in if outdated t (ts_ti ts) then Some ts1
                 else Some ((stopTimer ts1)\<lparr>ts_ti := t, ts_running := True\<rparr>)))
      | RecvTimer \<Rightarrow>
          if \<not> ts_expired ts \<or> defaultTimeSchedulerBufferSize \<le> length (ts_timeoutC ts) then None
          else Some (ts\<lparr>ts_expired := False, ts_timeoutC := ts_timeoutC ts @ [ts_ti ts]\<rparr>))"

subsection \<open>Order of timeouts\<close>

definition ti_key :: "TimeoutInfo \<Rightarrow> nat \<times> nat \<times> nat" where
  "ti_key t = (unat (ti_Height t), unat (ti_Round t), PBFTStep_value (ti_Step t))"

lemma pbft_outdated_iff: "outdated t ti \<longleftrightarrow> ti_key t \<le> ti_key ti"
  using word_eq_iff_unsigned [of "ti_Height t" "ti_Height ti"] word_eq_iff_unsigned [of "ti_Round t" "ti_Round ti"]
  unfolding outdated_def ti_key_def word_less_nat_alt by (auto simp: less_eq_prod_def)

text \<open>The latest timeout only grows, and what the timer delivers is the latest timeout.\<close>

lemma pbft_latest_grows:
  assumes "ts_handle c ts = Some ts'"
  shows "ti_key (ts_ti ts) \<le> ti_key (ts_ti ts')"
    and "ts_timeoutC ts' = ts_timeoutC ts \<or> ts_timeoutC ts' = ts_timeoutC ts @ [ts_ti ts']"
  using assms by (auto simp: ts_handle_def stopTimer_def Let_def pbft_outdated_iff split: ts_case.splits list.splits if_splits)

text \<open>A view change in a later view overrides every timeout of the views before it.\<close>

lemma pbft_view_change_overrides:
  assumes "ti_Height t = ti_Height (ts_ti ts)" and "ti_Round (ts_ti ts) < ti_Round t" and "ts_bufferC ts = t # q"
  shows "\<exists>ts'. ts_handle RecvBuffer ts = Some ts' \<and> ts_ti ts' = t \<and> ts_running ts'"
  using assms by (auto simp: ts_handle_def outdated_def stopTimer_def Let_def)

end
