(* ===== verification/Pbft_Claims.thy ===== *)
theory Pbft_Claims
  imports Pbft_Example Pbft_Timesched
begin

section \<open>Properties of the PBFT module\<close>

text \<open>
  What a running PBFT node guarantees: it signs at most one digest per sequence number and view,
  commits only with a certificate, and signs commits only when it is prepared; and what it does
  not guarantee: agreement across views, and certificates in the blocks that others accept.
\<close>

subsection \<open>What handlers output\<close>

definition harmless :: "Out \<Rightarrow> bool" where
  "harmless o1 \<longleftrightarrow> (\<forall>b. o1 \<noteq> CommitBlock b) \<and> (\<forall>v. o1 \<noteq> Signed (MCommit v))"

definition justified :: "accessControl \<Rightarrow> pbftCodec \<Rightarrow> ConsensusPBFTImpl \<Rightarrow> ConsensusPBFTImpl \<Rightarrow> Out list \<Rightarrow> bool" where
  "justified ac cd c c' new \<longleftrightarrow> list_all harmless new \<or>
     within c c' \<and> (\<exists>pp. cs_PrePrepare c' = Some pp \<and>
       (\<forall>b. CommitBlock b \<in> set new \<longrightarrow> certified ac cd c' (pp_Digest pp) b) \<and>
       (\<forall>v. Signed (MCommit v) \<in> set new \<longrightarrow> prepared ac cd c' (pp_Digest pp)))"

definition outputs_ok :: "accessControl \<Rightarrow> pbftCodec \<Rightarrow> ConsensusPBFTImpl \<Rightarrow> ConsensusPBFTImpl \<Rightarrow> bool" where
  "outputs_ok ac cd c c' \<longleftrightarrow> (\<exists>new. outs c' = outs c @ new \<and> justified ac cd c c' new)"

lemma outputs_ok_refl: "outs c' = outs c \<Longrightarrow> outputs_ok ac cd c c'"
  by (simp add: outputs_ok_def justified_def)

lemma outputs_ok_phase: "phase ac cd d c c' \<Longrightarrow> outputs_ok ac cd c c'"
  unfolding phase_def outputs_ok_def justified_def by blast

lemma outputs_ok_harmless: "outs c' = outs c @ new \<Longrightarrow> list_all harmless new \<Longrightarrow> outputs_ok ac cd c c'"
  by (simp add: outputs_ok_def justified_def)

lemma plain_harmless: "\<forall>o1 \<in> set new. plain o1 \<Longrightarrow> list_all harmless new"
  by (auto simp: list_all_iff plain_def harmless_def)

lemma enterViewChange_outputs: "\<exists>new. outs (enterViewChange e c) = outs c @ new \<and> list_all harmless new"
proof -
  let ?c1 = "resetVotes (c\<lparr>View := View c + 1, Step := PBFTStep_VIEW_CHANGE\<rparr>)"
  show ?thesis
  proof (cases "signViewChange e \<lparr>vc_NodeId = Id c, vc_CurView = View ?c1 - 1, vc_NextView = View ?c1, vc_Sequence = Sequence c,
      vc_Endorsement = None\<rparr>")
    case (Some vc)
    let ?c2 = "(emit (Signed (MViewChange vc)) ?c1)\<lparr>cs_ViewChangeVotes := AList.update (Id c) vc (cs_ViewChangeVotes ?c1)\<rparr>"
    obtain new where n1: "sendConsensusMsg e (MViewChange vc) [] ?c2 = ?c2\<lparr>outs := outs ?c2 @ new\<rparr>" "\<forall>o1 \<in> set new. plain o1"
      using sends_plain(1) by blast
    moreover have "enterViewChange e c = addTimeout (TimeoutViewChange c) PBFTStep_VIEW_CHANGE (?c2\<lparr>outs := outs ?c2 @ new\<rparr>)"
      using Some n1(1) by (simp add: enterViewChange_def Let_def)
    ultimately show ?thesis
      using plain_harmless [OF n1(2)] by (simp add: addTimeout_def emit_def resetVotes_def harmless_def)
  qed (simp add: enterViewChange_def Let_def resetVotes_def)
qed

lemma enterNewView_outputs: "\<exists>new. outs (enterNewView nv c) = outs c @ new \<and> list_all harmless new"
  by (simp add: enterNewView_def sendProposeState_def emit_def resetVotes_def Let_def harmless_def)

lemma createAndBroadcastNewView_outputs: "\<exists>new. outs (createAndBroadcastNewView e c) = outs c @ new \<and> list_all harmless new"
proof (cases "createAndBroadcastNewView e c = c")
  case False
  then obtain nv where "createAndBroadcastNewView e c = enterNewView nv ((sendConsensusMsg e (MNewView nv) [] (emit (Signed (MNewView nv)) c))
      \<lparr>cs_NewViewVotes := AList.update (Id c) nv (cs_NewViewVotes (sendConsensusMsg e (MNewView nv) [] (emit (Signed (MNewView nv)) c)))\<rparr>)"
    unfolding createAndBroadcastNewView_def Let_def by (simp split: if_split_asm option.split_asm)
  moreover obtain new where "sendConsensusMsg e (MNewView nv) [] (emit (Signed (MNewView nv)) c) =
      (emit (Signed (MNewView nv)) c)\<lparr>outs := outs (emit (Signed (MNewView nv)) c) @ new\<rparr>" "\<forall>o1 \<in> set new. plain o1"
    using sends_plain(1) by blast
  ultimately obtain c1 where c1: "createAndBroadcastNewView e c = enterNewView nv c1"
    "outs c1 = outs c @ Signed (MNewView nv) # new" "list_all harmless (Signed (MNewView nv) # new)"
    using plain_harmless [of new] by (simp add: emit_def harmless_def)
  obtain new' where "outs (enterNewView nv c1) = outs c1 @ new'" "list_all harmless new'" using enterNewView_outputs by blast
  then show ?thesis using c1 by (intro exI [of _ "(Signed (MNewView nv) # new) @ new'"]) simp
qed (rule exI [of _ "[]"], simp)

lemma procViewChange_outputs: "outputs_ok ac cd c (procViewChange e vc c)"
proof -
  define c1 where "c1 = c\<lparr>cs_ViewChangeVotes := AList.update (vc_NodeId vc) vc (cs_ViewChangeVotes c)\<rparr>"
  have "procViewChange e vc c \<in> {c, c1, createAndBroadcastNewView e c1}"
    unfolding procViewChange_def c1_def Let_def by (intro if_mem) simp_all
  then show ?thesis
    using createAndBroadcastNewView_outputs [of e c1] outputs_ok_refl outputs_ok_harmless by (auto simp: c1_def)
qed

lemma procNewView_outputs: "outputs_ok ac cd c (procNewView e nv c)"
proof -
  define c1 where "c1 = c\<lparr>cs_NewViewVotes := AList.update (nv_NodeId nv) nv (cs_NewViewVotes c)\<rparr>"
  have "procNewView e nv c \<in> {c, c1, enterNewView nv c1}"
    unfolding procNewView_def c1_def Let_def by (intro if_mem) simp_all
  then show ?thesis
    using enterNewView_outputs [of nv c1] outputs_ok_refl outputs_ok_harmless by (auto simp: c1_def)
qed

lemma procPrePrepare_outputs: "outputs_ok ac cd c (procPrePrepare e pp c)"
proof -
  define c1 where "c1 = c\<lparr>cs_PrePrepare := Some pp, Step := PBFTStep_PRE_PREPARE\<rparr>"
  have "procPrePrepare e pp c \<in> {c, case pp_Block pp of Some block \<Rightarrow> emit (VerifyBlock block) c1 | None \<Rightarrow> c1\<lparr>cs_PrePrepare := None\<rparr>}"
    unfolding procPrePrepare_def c1_def Let_def by (intro if_mem) simp_all
  then have "outs (procPrePrepare e pp c) = outs c \<or> (\<exists>block. outs (procPrePrepare e pp c) = outs c @ [VerifyBlock block])"
    by (auto simp: c1_def emit_def split: option.splits)
  then show ?thesis using outputs_ok_refl outputs_ok_harmless [of "procPrePrepare e pp c" c] by (auto simp: harmless_def)
qed

lemma handleVerifyResult_outputs:
  assumes "handleVerifyResult e vr c = Inr c'" and "votes_ok ac (e_codec e) c" and "few_validators c"
  shows "outputs_ok ac (e_codec e) c c'"
proof -
  obtain block header where b: "vr_VerifiedBlock vr = Some block" "b_Header block = Some header"
    using assms(1) by (auto simp: handleVerifyResult_def elim!: go_bind_InrE)
  consider "c' = c" | "c' = enterViewChange e (c\<lparr>cs_PrePrepare := None\<rparr>)" |
    pp where "enterPrepare e (c\<lparr>cs_PrePrepare := Some pp\<rparr>) = Inr c'"
  proof -
    have "handleVerifyResult e vr c \<in> {Inr c, Inr (enterViewChange e (c\<lparr>cs_PrePrepare := None\<rparr>))} \<union>
        range (\<lambda>pp. enterPrepare e (c\<lparr>cs_PrePrepare := Some pp\<rparr>))"
      using b by (cases "cs_PrePrepare c") (simp_all add: handleVerifyResult_def)
    then show ?thesis using assms(1) that by auto
  qed
  then show ?thesis
  proof cases
    case 2
    then show ?thesis using enterViewChange_outputs [of e "c\<lparr>cs_PrePrepare := None\<rparr>"] outputs_ok_harmless by auto
  next
    case (3 pp)
    have "votes_ok ac (e_codec e) (c\<lparr>cs_PrePrepare := Some pp\<rparr>)" using assms(2) by (simp add: votes_ok_def)
    then have "phase ac (e_codec e) (pp_Digest pp) (c\<lparr>cs_PrePrepare := Some pp\<rparr>) c'"
      using enterPrepare_phase(1) [OF 3] assms(3) by simp
    then have "outputs_ok ac (e_codec e) (c\<lparr>cs_PrePrepare := Some pp\<rparr>) c'" by (rule outputs_ok_phase)
    then show ?thesis by (simp add: outputs_ok_def justified_def within_def)
  qed (simp add: outputs_ok_refl)
qed

lemma handle_once_outputs:
  assumes "handle_once e sel c = Some (Inr c')" and "pbft_inv ac cd c" and "env_ok ac cd e"
  shows "outputs_ok ac cd c c'"
proof -
  have e: "e_ac e = ac" "e_codec e = cd" using assms(3) by (simp_all add: env_ok_def)
  have shift: "outputs_ok ac cd c c'" if "outputs_ok ac cd c1 c'" "within c c1" "outs c1 = outs c" for c1
    using that by (simp add: outputs_ok_def justified_def within_def)
  have ok: "votes_ok ac cd c" "few_validators c" using assms(2) by (simp_all add: pbft_inv_def votes_inv_def)
  show ?thesis
  proof (cases sel)
    case SelProposed
    then obtain p q where run: "handleProposedBlock e p (c\<lparr>proposedBlockC := q\<rparr>) = Inr c'"
      using assms(1) by (auto simp: handle_once_def split: list.splits)
    have inv: "pbft_inv ac (e_codec e) (c\<lparr>proposedBlockC := q\<rparr>)"
      by (rule pbft_inv_cong) (use assms(2) e in \<open>simp_all add: within_def\<close>)
    show ?thesis
    proof (cases "c' = c\<lparr>proposedBlockC := q\<rparr>")
      case False
      then obtain pp where "phase ac cd (pp_Digest pp) (c\<lparr>proposedBlockC := q, cs_PrePrepare := Some pp, Step := PBFTStep_PRE_PREPARE\<rparr>) c'"
        using handleProposedBlock_phase [OF run inv False] e(2) by blast
      from outputs_ok_phase [OF this] show ?thesis by (rule shift) (simp_all add: within_def)
    qed (simp add: outputs_ok_refl)
  next
    case SelVerify
    then obtain v q where run: "handleVerifyResult e v (c\<lparr>verifyResultC := q\<rparr>) = Inr c'"
      using assms(1) by (auto simp: handle_once_def split: list.splits)
    have "outputs_ok ac cd (c\<lparr>verifyResultC := q\<rparr>) c'"
      using handleVerifyResult_outputs [OF run, of ac] ok e(2) by (simp add: votes_ok_def)
    then show ?thesis by (rule shift) (simp_all add: within_def)
  next
    case SelHeight
    then obtain h q where "handleBlockHeight e h (c\<lparr>blockHeightC := q\<rparr>) = Inr c'"
      using assms(1) by (auto simp: handle_once_def split: list.splits)
    then have "outs c' = outs c \<or> (\<exists>b. outs c' = outs c @ [ProposeState b])"
      by (auto simp: handleBlockHeight_def enterNewSequence_def Let_def sendProposeState_def emit_def resetVotes_def updateChainConfig_def
          extractConsensusConfig_def elim!: go_bind_InrE split: if_splits)
    then show ?thesis using outputs_ok_refl outputs_ok_harmless [of c' c] by (auto simp: harmless_def)
  next
    case SelExternal
    then obtain m q where run: "handleConsensusMsg e m (c\<lparr>externalMsgC := q\<rparr>) = Inr c'"
      using assms(1) by (auto simp: handle_once_def split: list.splits)
    let ?c1 = "c\<lparr>externalMsgC := q\<rparr>"
    have ok1: "votes_ok (e_ac e) (e_codec e) ?c1" "few_validators ?c1" using ok e by (simp_all add: votes_ok_def)
    have "outputs_ok ac cd ?c1 c'"
    proof (cases m)
      case (MPrepare p)
      then have "procPrepare e p ?c1 = Inr c'" using run by (simp add: handleConsensusMsg_def)
      from procPrepare_phase [OF this ok1] show ?thesis unfolding e using outputs_ok_phase outputs_ok_refl by blast
    next
      case (MCommit p)
      then have "procCommit e p ?c1 = Inr c'" using run by (simp add: handleConsensusMsg_def)
      from procCommit_phase [OF this ok1] show ?thesis unfolding e using outputs_ok_phase outputs_ok_refl by blast
    qed (use run procPrePrepare_outputs procViewChange_outputs procNewView_outputs in \<open>auto simp: handleConsensusMsg_def\<close>)
    then show ?thesis by (rule shift) (simp_all add: within_def)
  next
    case (SelTimeout ti)
    then have "c' = c \<or> c' = enterViewChange e c" using assms(1) by (auto simp: handle_once_def handleTimeout_def split: if_splits)
    then show ?thesis using enterViewChange_outputs [of e c] outputs_ok_harmless outputs_ok_refl by auto
  qed
qed

subsection \<open>Certificates and votes\<close>

text \<open>
  C26: a block that a running node hands to the core engine carries, under the key of the PBFT
  module, a set of commit votes in which more than two thirds of the validators have votes for the
  node's view and sequence number and for the digest of its pre-prepare; every vote in the set was
  accepted by the access control, or signed by the node itself.
\<close>

theorem pbft_commit_certified:
  assumes "pbft_running ac cd c" and "env_ok ac cd e" and "View c \<noteq> - 1" and "handle_once e sel c = Some (Inr c')"
    and "outs c' = outs c @ new" and "CommitBlock b \<in> set new"
  shows "\<exists>pp extra s. cs_PrePrepare c' = Some pp \<and> b_AdditionalData b = Some extra \<and>
    extra PBFTAdditionalDataKey = Some (Some (marshalCommitVoteSet cd s)) \<and>
    (\<forall>v \<in> snd ` set (entries (pcv_Votes s)).
      (\<exists>version. verify_endorsed ac cd version (cm_Endorsement v) (MCommit v) = None) \<or> Signed (MCommit v) \<in> set (outs c')) \<and>
    2 * length (Validators (valSet c)) < 3 * card (cm_NodeId ` {v \<in> snd ` set (entries (pcv_Votes s)).
      cm_View v = View c \<and> cm_Sequence v = Sequence c \<and> bytes_Equal (cm_Digest v) (pp_Digest pp) \<and> cm_NodeId v \<in> set (Validators (valSet c))})"
proof -
  have "outputs_ok ac cd c c'" using handle_once_outputs [OF assms(4) pbft_running_inv [OF assms(1)] assms(2)] .
  then have "justified ac cd c c' new" using assms(5) by (auto simp: outputs_ok_def)
  then obtain pp where w: "within c c'" and pp: "cs_PrePrepare c' = Some pp" and cert: "certified ac cd c' (pp_Digest pp) b"
    using assms(6) by (auto simp: justified_def list_all_iff harmless_def)
  obtain extra s where s: "b_AdditionalData b = Some extra" "extra PBFTAdditionalDataKey = Some (Some (marshalCommitVoteSet cd s))"
      "\<forall>v \<in> snd ` set (entries (pcv_Votes s)). backed_commit ac cd (outs c') v"
      "quorum_nat (length (Validators (valSet c))) \<le> card (commit_voters c (pp_Digest pp) s)"
    using cert w unfolding certified_def voters_within [OF w] by (auto simp: within_def)
  have "2 * length (Validators (valSet c)) < 3 * card (commit_voters c (pp_Digest pp) s)"
    using s(4) by (simp add: quorum_nat_def)
  then show ?thesis using pp s(1-3) unfolding backed_commit_def commit_voters_def by blast
qed

theorem pbft_commit_certified_witness:
  "\<exists>c. handle_once px_env SelExternal c = Some (Inr (px_after ''B'' 0 (Some ''X'') px_os1)) \<and>
    (\<exists>pp extra s. cs_PrePrepare (px_after ''B'' 0 (Some ''X'') px_os1) = Some pp \<and>
      b_AdditionalData (px_committed (Some ''X'')) = Some extra \<and>
      extra PBFTAdditionalDataKey = Some (Some (marshalCommitVoteSet px_codec s)) \<and>
      2 * 4 < 3 * card (cm_NodeId ` {v \<in> snd ` set (entries (pcv_Votes s)).
        cm_View v = 0 \<and> cm_Sequence v = 1 \<and> bytes_Equal (cm_Digest v) (pp_Digest pp) \<and> cm_NodeId v \<in> {''A'', ''B'', ''C'', ''D''}}))"
proof -
  let ?c = "px_state 0 PBFTStep_COMMIT (Some (px_pp ''B'' 0 (Some ''X''))) (Some (px_prepares 0 (Some ''X'') [''B'', ''A'', ''C'']))
    (Some (px_commits 0 (Some ''X'') [''B'', ''A''])) [] (px_os1 @ px_voted 0 (Some ''X''))"
  let ?m = "MCommit (px_commit 0 (Some ''X'') ''C'')"
  have run: "pbft_running px_ac px_codec ?c" by (rule px_votes(2) [OF px_run1]) simp
  have q: "externalMsgC ?c = []" "View ?c = 0" "Sequence ?c = 1" "Validators (valSet ?c) = [''A'', ''B'', ''C'', ''D'']"
    by (simp_all add: px_state_def)
  have h: "handle_once px_env SelExternal (?c\<lparr>externalMsgC := [?m]\<rparr>) = Some (Inr (px_after ''B'' 0 (Some ''X'') px_os1))"
    by (simp add: running_queued(2) [OF run q(1)] handleConsensusMsg_def px_commit2 px_after_def)
  have o: "outs (px_after ''B'' 0 (Some ''X'') px_os1) = outs (?c\<lparr>externalMsgC := [?m]\<rparr>) @ [CommitBlock (px_committed (Some ''X''))]"
    by (simp add: px_after_def px_state_def)
  from pbft_commit_certified [OF running_queued(1) [OF run q(1)] px_env_ok _ h o, of "px_committed (Some ''X'')"] h
  show ?thesis by (simp add: q) blast
qed

text \<open>
  C27: a running node never signs two pre-prepares, prepares or commits with different digests for
  the same sequence number and view.
\<close>

theorem pbft_no_double_signing:
  assumes "pbft_running ac cd c" and "Signed m \<in> set (outs c)" and "Signed m' \<in> set (outs c)"
    and "vote_of m = Some (sequence, view, d)" and "vote_of m' = Some (sequence, view, d')"
  shows "bytes_Equal d d'"
proof -
  have "(sequence, view, d) \<in> votes (outs c)" "(sequence, view, d') \<in> votes (outs c)"
    using assms(2-5) unfolding votes_def by blast+
  then show ?thesis using pbft_running_inv [OF assms(1)] unfolding pbft_inv_def votes_inv_def by blast
qed

theorem pbft_no_double_signing_witness:
  "Signed (MPrePrepare (px_pp ''B'' 0 (Some ''X''))) \<in> set (outs (px_after ''B'' 0 (Some ''X'') px_os1)) \<and>
   Signed (MCommit (px_commit 0 (Some ''X'') ''B'')) \<in> set (outs (px_after ''B'' 0 (Some ''X'') px_os1)) \<and>
   bytes_Equal (Some ''X'') (Some ''X'')"
proof -
  let ?c = "px_after ''B'' 0 (Some ''X'') px_os1"
  have s: "Signed (MPrePrepare (px_pp ''B'' 0 (Some ''X''))) \<in> set (outs ?c)" "Signed (MCommit (px_commit 0 (Some ''X'') ''B'')) \<in> set (outs ?c)"
    by (simp_all add: px_after_def px_state_def px_os1_def px_voted_def)
  have "bytes_Equal (Some ''X'') (Some ''X'')"
    by (rule pbft_no_double_signing [OF px_run2 s, of 1 0]) (simp_all add: px_pp_def px_commit_def)
  then show ?thesis using s by simp
qed

text \<open>
  C28: a running node signs a commit only when more than two thirds of the validators have prepare
  votes for its view, sequence number and digest, each accepted by the access control or signed by
  the node itself.
\<close>

theorem pbft_commit_needs_prepares:
  assumes "pbft_running ac cd c" and "env_ok ac cd e" and "View c \<noteq> - 1" and "handle_once e sel c = Some (Inr c')"
    and "outs c' = outs c @ new" and "Signed (MCommit v) \<in> set new"
  shows "\<exists>pp (s :: ProtoPrepareVoteSet). cs_PrePrepare c' = Some pp \<and>
    (\<forall>v \<in> snd ` set (entries (ppv_Votes s)).
      (\<exists>version. verify_endorsed ac cd version (pr_Endorsement v) (MPrepare v) = None) \<or> Signed (MPrepare v) \<in> set (outs c')) \<and>
    2 * length (Validators (valSet c)) < 3 * card (pr_NodeId ` {v \<in> snd ` set (entries (ppv_Votes s)).
      pr_View v = View c \<and> pr_Sequence v = Sequence c \<and> bytes_Equal (pr_Digest v) (pp_Digest pp) \<and> pr_NodeId v \<in> set (Validators (valSet c))})"
proof -
  have "outputs_ok ac cd c c'" using handle_once_outputs [OF assms(4) pbft_running_inv [OF assms(1)] assms(2)] .
  then have "justified ac cd c c' new" using assms(5) by (auto simp: outputs_ok_def)
  then obtain pp where w: "within c c'" and pp: "cs_PrePrepare c' = Some pp" and prep: "prepared ac cd c' (pp_Digest pp)"
    using assms(6) by (auto simp: justified_def list_all_iff harmless_def)
  obtain s where s: "\<forall>v \<in> snd ` set (entries (ppv_Votes s)). backed_prepare ac cd (outs c') v"
      "quorum_nat (length (Validators (valSet c))) \<le> card (prepare_voters c (pp_Digest pp) s)"
    using prep w unfolding prepared_def voters_within [OF w] by (auto simp: within_def)
  have "2 * length (Validators (valSet c)) < 3 * card (prepare_voters c (pp_Digest pp) s)"
    using s(2) by (simp add: quorum_nat_def)
  then show ?thesis using pp s(1) unfolding backed_prepare_def prepare_voters_def by blast
qed

theorem pbft_commit_needs_prepares_witness:
  "\<exists>c c'. pbft_running px_ac px_codec c \<and> handle_once px_env SelExternal c = Some (Inr c') \<and>
    Signed (MCommit (px_commit 0 (Some ''X'') ''B'')) \<in> set (outs c') \<and>
    (\<exists>pp (s :: ProtoPrepareVoteSet). cs_PrePrepare c' = Some pp \<and>
      2 * 4 < 3 * card (pr_NodeId ` {v \<in> snd ` set (entries (ppv_Votes s)).
        pr_View v = 0 \<and> pr_Sequence v = 1 \<and> bytes_Equal (pr_Digest v) (pp_Digest pp) \<and> pr_NodeId v \<in> {''A'', ''B'', ''C'', ''D''}}))"
proof -
  let ?os = "px_os1 @ [px_timeout 30000000000 0 PBFTStep_PREPARE]"
  let ?new = "[Signed (MCommit (px_commit 0 (Some ''X'') ''B''))] @ px_sent PBFTMsgType_MSG_COMMIT @ [px_timeout 30000000000 0 PBFTStep_COMMIT]"
  let ?c = "px_state 0 PBFTStep_PREPARE (Some (px_pp ''B'' 0 (Some ''X''))) (Some (px_prepares 0 (Some ''X'') [''B'', ''A''])) None [] ?os"
  let ?c' = "px_state 0 PBFTStep_COMMIT (Some (px_pp ''B'' 0 (Some ''X''))) (Some (px_prepares 0 (Some ''X'') [''B'', ''A'', ''C'']))
    (Some (px_commits 0 (Some ''X'') [''B''])) [] (?os @ ?new)"
  let ?m = "MPrepare (px_prepare 0 (Some ''X'') ''C'')"
  have run: "pbft_running px_ac px_codec ?c" by (rule px_votes(1) [OF px_run1]) simp
  have q: "externalMsgC ?c = []" "View ?c = 0" "Sequence ?c = 1" "Validators (valSet ?c) = [''A'', ''B'', ''C'', ''D'']"
    by (simp_all add: px_state_def)
  have h: "handle_once px_env SelExternal (?c\<lparr>externalMsgC := [?m]\<rparr>) = Some (Inr ?c')"
    by (simp only: running_queued(2) [OF run q(1)] handleConsensusMsg_def px_prepare2 pbftMessage.case)
  have o: "outs ?c' = outs (?c\<lparr>externalMsgC := [?m]\<rparr>) @ ?new" by (simp add: px_state_def)
  have "Signed (MCommit (px_commit 0 (Some ''X'') ''B'')) \<in> set ?new" by simp
  from pbft_commit_needs_prepares [OF running_queued(1) [OF run q(1)] px_env_ok _ h o this]
  have "\<exists>pp (s :: ProtoPrepareVoteSet). cs_PrePrepare ?c' = Some pp \<and>
      2 * 4 < 3 * card (pr_NodeId ` {v \<in> snd ` set (entries (ppv_Votes s)).
        pr_View v = 0 \<and> pr_Sequence v = 1 \<and> bytes_Equal (pr_Digest v) (pp_Digest pp) \<and> pr_NodeId v \<in> {''A'', ''B'', ''C'', ''D''}})"
    by (simp add: q) blast
  moreover have "Signed (MCommit (px_commit 0 (Some ''X'') ''B'')) \<in> set (outs ?c')" by (simp add: px_state_def)
  ultimately show ?thesis using running_queued(1) [OF run q(1)] h by blast
qed

subsection \<open>What is not guaranteed\<close>

text \<open>
  C29: agreement across views does not hold even at one node: a node of a chain with four validators
  runs to a state in which it has handed two blocks of height 1 with different hashes to the core
  engine. The timeout of the commit phase is handled although the node has committed, and neither
  the view change nor the new view says what was prepared before.
\<close>

theorem pbft_commits_two_blocks:
  "\<exists>c h h'. pbft_running px_ac px_codec c \<and> CommitBlock (px_committed h) \<in> set (outs c) \<and> CommitBlock (px_committed h') \<in> set (outs c) \<and>
     map_option BlockHeight (b_Header (px_committed h)) = map_option BlockHeight (b_Header (px_committed h')) \<and>
     map_option BlockHash (b_Header (px_committed h)) \<noteq> map_option BlockHash (b_Header (px_committed h'))"
proof -
  let ?c = "px_after ''C'' 1 (Some ''Y'') ((px_os2 @ [VerifyBlock (px_block (Some ''Y''))]) @ px_proposed 1 (Some ''Y''))"
  have "CommitBlock (px_committed (Some ''X'')) \<in> set (outs ?c)" "CommitBlock (px_committed (Some ''Y'')) \<in> set (outs ?c)"
    by (simp_all add: px_after_def px_state_def px_os2_def)
  moreover have "map_option BlockHeight (b_Header (px_committed (Some ''X''))) = map_option BlockHeight (b_Header (px_committed (Some ''Y'')))"
      "map_option BlockHash (b_Header (px_committed (Some ''X''))) \<noteq> map_option BlockHash (b_Header (px_committed (Some ''Y'')))"
    by (simp_all add: px_committed_def px_block_def)
  ultimately show ?thesis using px_run5 by blast
qed

text \<open>
  The certificate of a block is accepted with no vote in it: a block of a PBFT chain whose vote
  set is empty, and names no digest, passes the check that the core engine makes of its
  signatures, whatever the access control answers.
\<close>

theorem pbft_empty_certificate_accepted:
  assumes "b_Header b = Some header" and "b_AdditionalData b = Some extra" and "extra PBFTAdditionalDataKey = Some qc"
    and "unmarshal (bytes_content qc) = Some s" and "entries (pcv_Votes s) = []" and "pcv_Digest s = None"
    and "configOf (BlockHeight header) = Some cfg" and "cc_Type (cfg_Consensus cfg) = ConsensusType_PBFT"
  shows "VerifyBlockSignatures configOf ac cd unmarshal GetValidatorList (Some b) = None"
  using assms by (simp add: VerifyBlockSignatures_def GetValidatorList_def)

theorem pbft_empty_certificate_accepted_witness:
  "VerifyBlockSignatures (\<lambda>_. Some px_cfg) px_ac px_codec
     (\<lambda>_. Some \<lparr>pcv_View = 0, pcv_Sequence = 0, pcv_Digest = None, pcv_Votes = None, pcv_Sum = 0\<rparr>) GetValidatorList
     (Some (px_committed (Some ''Z''))) = None"
  by (rule pbft_empty_certificate_accepted [of _ _ _ "Some ''qc''"])
    (simp add: px_committed_def px_block_def entries_def px_cfg_def ConsensusType_PBFT_def; fail)+

end
