(* ===== verification/Core_Cache.thy ===== *)
theory Core_Cache
  imports Snapshot_Manager
begin

section \<open>The caches of the core engine (module/core/cache, module/core/common/lock_helper.go)\<close>

text \<open>
  The ledger cache holds the last committed block; the proposal cache holds the blocks that were
  proposed or verified and are not committed yet, by height and fingerprint. The cached proposals
  are changed only through the cache, so they are values here. The lock of a cache makes an
  operation one step.
\<close>

datatype coreError =
    ErrNoCommittedBlock
  | ErrBlockHadBeenCommited
  | ErrInvalidHeight
  | ErrHeight | ErrPreHash | ErrBlockHash | ErrHashCalculation
  | ErrTxCount | ErrTxCapacity | ErrTxDuplicate | ErrTxRoot | ErrDagHash | ErrRwSetRoot | ErrTxEmpty | ErrDagNotEmpty
  | ErrTimestamp | ErrSignature | ErrSimulate | ErrSimulateCount | ErrTxVerify
  | ErrNoPreBlock | ErrRecover | ErrConcurrentVerify | ErrEmptyBlock | ErrGasTx | ErrVotes
  | ErrNotVerified | ErrBatchInfo | ErrGovernance | ErrChainConf

record ContractEvent =
  ce_Topic :: string
  ce_TxId :: string
  ce_ContractName :: string
  ce_ContractVersion :: string
  ce_EventData :: "string list"

type_synonym rwSetMap = "(string \<times> TxRWSet) list option"
type_synonym eventMap = "(string \<rightharpoonup> ContractEvent list) option"

subsection \<open>The ledger cache\<close>

record LedgerCache =
  lc_chainId :: string
  lc_lastCommittedBlock :: "Block_core option"

definition NewLedgerCache :: "string \<Rightarrow> LedgerCache" where
  "NewLedgerCache chainId = \<lparr>lc_chainId = chainId, lc_lastCommittedBlock = None\<rparr>"

definition GetLastCommittedBlock :: "LedgerCache \<Rightarrow> Block_core option" where
  "GetLastCommittedBlock lc = lc_lastCommittedBlock lc"

definition SetLastCommittedBlock :: "Block_core option \<Rightarrow> LedgerCache \<Rightarrow> LedgerCache" where
  "SetLastCommittedBlock b lc = lc\<lparr>lc_lastCommittedBlock := b\<rparr>"

text \<open>The height, with the error: without a block the height is the greatest one.\<close>

definition CurrentHeight :: "LedgerCache \<Rightarrow> u64 \<times> coreError option" where
  "CurrentHeight lc =
     (case lc_lastCommittedBlock lc of
        None \<Rightarrow> (- 1, Some ErrNoCommittedBlock)
      | Some b \<Rightarrow> (hd_BlockHeight (bk_Header b), None))"

subsection \<open>The proposal cache\<close>

record blockProposal =
  bp_block :: Block_core
  bp_rwSetMap :: rwSetMap
  bp_contractEventInfoMap :: eventMap
  bp_isSelfProposed :: bool
  bp_hasProposedThisRound :: bool

type_synonym ProposalCache = "(u64 \<times> (string \<times> blockProposal) list) list"

definition NewProposalCache :: ProposalCache where
  "NewProposalCache = []"

definition proposals_at :: "u64 \<Rightarrow> ProposalCache \<Rightarrow> (string \<times> blockProposal) list" where
  "proposals_at height pc = (case map_of pc height of None \<Rightarrow> [] | Some ps \<Rightarrow> ps)"

definition ClearProposedBlockAt :: "u64 \<Rightarrow> ProposalCache \<Rightarrow> ProposalCache" where
  "ClearProposedBlockAt height pc = AList.delete height pc"

definition GetProposedBlock :: "fingerprints \<Rightarrow> Block_core \<Rightarrow> ProposalCache \<Rightarrow> (Block_core \<times> rwSetMap \<times> eventMap) option" where
  "GetProposedBlock fps b pc =
     (let fingerPrint = CalcBlockFingerPrint fps b
      in map_option (\<lambda>p. (bp_block p, bp_rwSetMap p, bp_contractEventInfoMap p))
           (map_of (proposals_at (hd_BlockHeight (bk_Header b)) pc) fingerPrint))"

definition GetProposedBlocksAt :: "u64 \<Rightarrow> ProposalCache \<Rightarrow> Block_core list" where
  "GetProposedBlocksAt height pc = map (bp_block \<circ> snd) (proposals_at height pc)"

definition GetProposedBlockByHashAndHeight :: "gobytes \<Rightarrow> u64 \<Rightarrow> ProposalCache \<Rightarrow> (Block_core \<times> rwSetMap) option" where
  "GetProposedBlockByHashAndHeight hash height pc =
     (if hash = None then None
      else map_option (\<lambda>(_, p). (bp_block p, bp_rwSetMap p))
             (List.find (\<lambda>(_, p). bytes_Equal (hd_BlockHash (bk_Header (bp_block p))) hash) (proposals_at height pc)))"

definition SetProposedBlock ::
    "fingerprints \<Rightarrow> LedgerCache \<Rightarrow> Block_core \<Rightarrow> rwSetMap \<Rightarrow> eventMap \<Rightarrow> bool \<Rightarrow> ProposalCache \<Rightarrow> coreError option \<times> ProposalCache" where
  "SetProposedBlock fps lc b rwSetMap1 contractEventMap selfPropose pc =
     (let height = hd_BlockHeight (bk_Header b)
      in case CurrentHeight lc of
           (_, Some err) \<Rightarrow> (Some err, pc)
         | (currentHeight, None) \<Rightarrow>
           if currentHeight \<ge> height \<and> height \<noteq> 0 then (Some ErrInvalidHeight, pc)
           else
             (let bs = \<lparr>bp_block = b, bp_rwSetMap = rwSetMap1, bp_contractEventInfoMap = contractEventMap,
                    bp_isSelfProposed = selfPropose, bp_hasProposedThisRound = True\<rparr>
              in (None, AList.update height (AList.update (CalcBlockFingerPrint fps b) bs (proposals_at height pc)) pc)))"

definition ClearTheBlock :: "fingerprints \<Rightarrow> Block_core \<Rightarrow> ProposalCache \<Rightarrow> ProposalCache" where
  "ClearTheBlock fps block pc =
     (let height = hd_BlockHeight (bk_Header block)
      in case map_of pc height of None \<Rightarrow> pc
         | Some ps \<Rightarrow> AList.update height (AList.delete (CalcBlockFingerPrint fps block) ps) pc)"

definition GetSelfProposedBlockAt :: "u64 \<Rightarrow> ProposalCache \<Rightarrow> Block_core option" where
  "GetSelfProposedBlockAt height pc =
     map_option (\<lambda>(_, p). bp_block p) (List.find (\<lambda>(_, p). bp_isSelfProposed p) (proposals_at height pc))"

definition HasProposedBlockAt :: "u64 \<Rightarrow> ProposalCache \<Rightarrow> bool" where
  "HasProposedBlockAt height pc \<longleftrightarrow> map_of pc height \<noteq> None"

definition IsProposedAt :: "u64 \<Rightarrow> ProposalCache \<Rightarrow> bool" where
  "IsProposedAt height pc \<longleftrightarrow> list_ex (\<lambda>(_, p). bp_isSelfProposed p \<and> bp_hasProposedThisRound p) (proposals_at height pc)"

text \<open>The first proposal of the node itself gets the flag.\<close>

fun mark_first :: "bool \<Rightarrow> (string \<times> blockProposal) list \<Rightarrow> (string \<times> blockProposal) list" where
  "mark_first flag [] = []"
| "mark_first flag ((fp, p) # ps) =
     (if bp_isSelfProposed p then (fp, p\<lparr>bp_hasProposedThisRound := flag\<rparr>) # ps else (fp, p) # mark_first flag ps)"

definition mark_at :: "bool \<Rightarrow> u64 \<Rightarrow> ProposalCache \<Rightarrow> ProposalCache" where
  "mark_at flag height pc =
     (case map_of pc height of None \<Rightarrow> pc | Some ps \<Rightarrow> AList.update height (mark_first flag ps) pc)"

definition SetProposedAt :: "u64 \<Rightarrow> ProposalCache \<Rightarrow> ProposalCache" where
  "SetProposedAt height pc = mark_at True height pc"

definition ResetProposedAt :: "u64 \<Rightarrow> ProposalCache \<Rightarrow> ProposalCache" where
  "ResetProposedAt height pc = mark_at False height pc"

text \<open>
  The range over the proposals of a height, in which entries are deleted under the fingerprint that
  is computed again; an entry that was deleted before it is reached is not visited.
\<close>

fun keep_loop ::
    "fingerprints \<Rightarrow> gobytes \<Rightarrow> string list \<Rightarrow> (string \<times> blockProposal) list \<Rightarrow> Block_core list \<times> (string \<times> blockProposal) list" where
  "keep_loop fps hash [] ps = ([], ps)"
| "keep_loop fps hash (k # ks) ps =
     (case map_of ps k of None \<Rightarrow> keep_loop fps hash ks ps
      | Some p \<Rightarrow>
        if bytes_Equal hash (hd_BlockHash (bk_Header (bp_block p))) then keep_loop fps hash ks ps
        else
          (let (blocks, ps1) = keep_loop fps hash ks (AList.delete (CalcBlockFingerPrint fps (bp_block p)) ps)
           in (bp_block p # blocks, ps1)))"

definition KeepProposedBlock :: "fingerprints \<Rightarrow> gobytes \<Rightarrow> u64 \<Rightarrow> ProposalCache \<Rightarrow> Block_core list \<times> ProposalCache" where
  "KeepProposedBlock fps hash height pc =
     (case map_of pc height of None \<Rightarrow> ([], pc)
      | Some ps \<Rightarrow>
        (let (blocks, ps1) = keep_loop fps hash (map fst ps) ps
         in (blocks, AList.update height ps1 pc)))"

definition DiscardBlocks :: "u64 \<Rightarrow> ProposalCache \<Rightarrow> Block_core list \<times> ProposalCache" where
  "DiscardBlocks baseHeight pc =
     (concat (map (\<lambda>(height, ps). if height \<le> baseHeight then [] else map (bp_block \<circ> snd) ps) pc),
      filter (\<lambda>(height, ps). height \<le> baseHeight) pc)"

subsection \<open>Locks by block hash\<close>

type_synonym ReentrantLocks = "string set"

definition Lock :: "string \<Rightarrow> ReentrantLocks \<Rightarrow> bool \<times> ReentrantLocks" where
  "Lock key l = (if key \<notin> l then (True, insert key l) else (False, l))"

definition Unlock :: "string \<Rightarrow> ReentrantLocks \<Rightarrow> ReentrantLocks" where
  "Unlock key l = l - {key}"

subsection \<open>The invariant of the proposal cache\<close>

text \<open>Every proposal is filed under its own height and fingerprint, once.\<close>

definition filed :: "fingerprints \<Rightarrow> u64 \<Rightarrow> (string \<times> blockProposal) list \<Rightarrow> bool" where
  "filed fps height ps \<longleftrightarrow> distinct (map fst ps) \<and>
     (\<forall>(fp, p) \<in> set ps. fp = CalcBlockFingerPrint fps (bp_block p) \<and> hd_BlockHeight (bk_Header (bp_block p)) = height)"

definition cache_inv :: "fingerprints \<Rightarrow> ProposalCache \<Rightarrow> bool" where
  "cache_inv fps pc \<longleftrightarrow> distinct (map fst pc) \<and> (\<forall>(height, ps) \<in> set pc. filed fps height ps)"

lemma cache_inv_new: "cache_inv fps NewProposalCache"
  by (simp add: cache_inv_def NewProposalCache_def)

lemma filed_at: "cache_inv fps pc \<Longrightarrow> filed fps height (proposals_at height pc)"
  by (auto simp: cache_inv_def proposals_at_def filed_def [of _ _ "[]"] split: option.split dest!: map_of_SomeD)

lemma cache_inv_update: "cache_inv fps pc \<Longrightarrow> filed fps height ps \<Longrightarrow> cache_inv fps (AList.update height ps pc)"
  unfolding cache_inv_def by (auto simp: distinct_update dest!: set_update_sub [THEN subsetD])

lemma cache_inv_sub: "cache_inv fps pc \<Longrightarrow> distinct (map fst pc') \<Longrightarrow> set pc' \<subseteq> set pc \<Longrightarrow> cache_inv fps pc'"
  unfolding cache_inv_def by blast

lemma proposals_at_update [simp]: "proposals_at h (AList.update height ps pc) = (if h = height then ps else proposals_at h pc)"
  by (simp add: proposals_at_def update_conv')

lemma filed_delete: "filed fps height ps \<Longrightarrow> filed fps height (AList.delete fp ps)"
  unfolding filed_def using set_delete_sub [of fp ps] by (auto simp: distinct_delete)

lemma cache_inv_ClearProposedBlockAt: "cache_inv fps pc \<Longrightarrow> cache_inv fps (ClearProposedBlockAt height pc)"
  unfolding ClearProposedBlockAt_def
  by (rule cache_inv_sub [OF _ _ set_delete_sub]) (auto simp: cache_inv_def distinct_delete)

lemma cache_inv_DiscardBlocks: "cache_inv fps pc \<Longrightarrow> cache_inv fps (snd (DiscardBlocks height pc))"
  unfolding DiscardBlocks_def by (auto intro!: cache_inv_sub [of fps pc] distinct_map_filter simp: cache_inv_def)

lemma cache_inv_ClearTheBlock: "cache_inv fps pc \<Longrightarrow> cache_inv fps (ClearTheBlock fps block pc)"
  unfolding ClearTheBlock_def Let_def
  by (auto split: option.split intro!: cache_inv_update filed_delete) (auto simp: cache_inv_def dest!: map_of_SomeD)

lemma cache_inv_SetProposedBlock:
  assumes "cache_inv fps pc"
  shows "cache_inv fps (snd (SetProposedBlock fps lc b rw ev self pc))"
proof -
  let ?h = "hd_BlockHeight (bk_Header b)"
  have "filed fps ?h (AList.update (CalcBlockFingerPrint fps b) p (proposals_at ?h pc))" if "bp_block p = b" for p
    using filed_at [OF assms, of ?h] that unfolding filed_def
    by (auto simp: distinct_update dest!: set_update_sub [THEN subsetD])
  then show ?thesis
    using assms by (auto simp: SetProposedBlock_def Let_def split: prod.split option.split intro!: cache_inv_update)
qed

lemma mark_first_keys: "map (\<lambda>(fp, p). (fp, bp_block p)) (mark_first flag ps) = map (\<lambda>(fp, p). (fp, bp_block p)) ps"
  by (induction flag ps rule: mark_first.induct) auto

lemma filed_view:
  "filed fps height ps \<longleftrightarrow> distinct (map fst (map (\<lambda>(fp, p). (fp, bp_block p)) ps)) \<and>
     (\<forall>(fp, b) \<in> set (map (\<lambda>(fp, p). (fp, bp_block p)) ps). fp = CalcBlockFingerPrint fps b \<and> hd_BlockHeight (bk_Header b) = height)"
proof -
  have "map fst (map (\<lambda>(fp, p). (fp, bp_block p)) ps) = map fst ps" by (induction ps) auto
  then show ?thesis unfolding filed_def by (simp add: case_prod_unfold del: map_map)
qed

lemma cache_inv_mark_at: "cache_inv fps pc \<Longrightarrow> cache_inv fps (mark_at flag height pc)"
  unfolding mark_at_def
  by (auto split: option.split intro!: cache_inv_update simp: filed_view mark_first_keys)
    (auto simp: cache_inv_def filed_view dest!: map_of_SomeD)

subsection \<open>The loop that keeps the blocks with a hash\<close>

text \<open>On proposals that are filed under their fingerprints the loop is a filter.\<close>

lemma filed_entry:
  assumes "filed fps height ps" and "(fp, p) \<in> set ps" and "(fp, q) \<in> set ps"
  shows "p = q"
  using assms by (metis filed_def eq_key_imp_eq_value)

lemma keep_loop_filter:
  assumes "filed fps height ps" and "distinct ks"
    and "\<forall>(fp, p) \<in> set ps. fp \<notin> set ks \<longrightarrow> bytes_Equal hash (hd_BlockHash (bk_Header (bp_block p)))"
  shows "snd (keep_loop fps hash ks ps) = filter (\<lambda>(fp, p). bytes_Equal hash (hd_BlockHash (bk_Header (bp_block p)))) ps \<and>
    set (fst (keep_loop fps hash ks ps)) =
      {bp_block p |fp p. (fp, p) \<in> set ps \<and> \<not> bytes_Equal hash (hd_BlockHash (bk_Header (bp_block p)))}"
  using assms
proof (induction ks arbitrary: ps)
  case Nil
  then show ?case by (force simp: filter_id_conv)
next
  case (Cons k ks)
  let ?eq = "\<lambda>p. bytes_Equal hash (hd_BlockHash (bk_Header (bp_block p)))"
  show ?case
  proof (cases "map_of ps k")
    case None
    then have "\<forall>(fp, p) \<in> set ps. fp \<notin> set ks \<longrightarrow> ?eq p" using Cons.prems(3) by (force simp: map_of_eq_None_iff)
    then show ?thesis using Cons.IH Cons.prems None by simp
  next
    case (Some p)
    then have p: "(k, p) \<in> set ps" by (rule map_of_SomeD)
    note only = filed_entry [OF Cons.prems(1) p]
    show ?thesis
    proof (cases "?eq p")
      case True
      then have "\<forall>(fp, q) \<in> set ps. fp \<notin> set ks \<longrightarrow> ?eq q" using Cons.prems(3) only by fastforce
      then show ?thesis using Cons.IH Cons.prems Some True by simp
    next
      case False
      let ?ps = "AList.delete k ps"
      have fp: "CalcBlockFingerPrint fps (bp_block p) = k" using Cons.prems(1) p by (auto simp: filed_def)
      have sub: "(fp, q) \<in> set ?ps \<longleftrightarrow> (fp, q) \<in> set ps \<and> fp \<noteq> k" for fp q by (auto simp: AList.delete_eq)
      have "\<forall>(fp, q) \<in> set ?ps. fp \<notin> set ks \<longrightarrow> ?eq q" using Cons.prems(3) sub by fastforce
      then have IH: "snd (keep_loop fps hash ks ?ps) = filter (\<lambda>(fp, p). ?eq p) ?ps"
          "set (fst (keep_loop fps hash ks ?ps)) = {bp_block p |fp p. (fp, p) \<in> set ?ps \<and> \<not> ?eq p}"
        using Cons.IH [OF filed_delete [OF Cons.prems(1)]] Cons.prems(2) by simp_all
      have "filter (\<lambda>(fp, p). ?eq p) ?ps = filter (\<lambda>(fp, p). ?eq p) ps"
        unfolding AList.delete_eq filter_filter using only False by (intro filter_cong) auto
      moreover have "insert (bp_block p) {bp_block p |fp p. (fp, p) \<in> set ?ps \<and> \<not> ?eq p} =
          {bp_block p |fp p. (fp, p) \<in> set ps \<and> \<not> ?eq p}"
        unfolding sub using p False only by blast
      ultimately show ?thesis using Some False IH by (simp add: fp case_prod_unfold)
    qed
  qed
qed

lemma cache_inv_KeepProposedBlock:
  assumes "cache_inv fps pc"
  shows "cache_inv fps (snd (KeepProposedBlock fps hash height pc))"
proof (cases "map_of pc height")
  case (Some ps)
  then have f: "filed fps height ps" using assms by (auto simp: cache_inv_def dest!: map_of_SomeD)
  have "snd (keep_loop fps hash (map fst ps) ps) = filter (\<lambda>(fp, p). bytes_Equal hash (hd_BlockHash (bk_Header (bp_block p)))) ps"
    using keep_loop_filter [OF f, of "map fst ps"] f by (force simp: filed_def)
  then have "filed fps height (snd (keep_loop fps hash (map fst ps) ps))"
    using f by (auto simp: filed_def distinct_map_filter)
  then show ?thesis using Some assms by (auto simp: KeepProposedBlock_def case_prod_unfold Let_def intro!: cache_inv_update)
qed (simp add: KeepProposedBlock_def assms)

lemmas cache_inv_intros = cache_inv_new cache_inv_ClearProposedBlockAt cache_inv_DiscardBlocks cache_inv_ClearTheBlock
  cache_inv_SetProposedBlock cache_inv_mark_at cache_inv_KeepProposedBlock

subsection \<open>What the cache returns\<close>

lemma GetProposedBlock_after_Set:
  assumes "SetProposedBlock fps lc b rw ev self pc = (None, pc')"
    and "CalcBlockFingerPrint fps b' = CalcBlockFingerPrint fps b" and "hd_BlockHeight (bk_Header b') = hd_BlockHeight (bk_Header b)"
  shows "GetProposedBlock fps b' pc' = Some (b, rw, ev)"
  using assms by (auto simp: SetProposedBlock_def GetProposedBlock_def Let_def update_conv' split: prod.splits option.splits if_splits)

lemma GetProposedBlock_filed:
  assumes "cache_inv fps pc" and "GetProposedBlock fps b pc = Some (b1, rw, ev)"
  shows "CalcBlockFingerPrint fps b1 = CalcBlockFingerPrint fps b" and "hd_BlockHeight (bk_Header b1) = hd_BlockHeight (bk_Header b)"
proof -
  obtain p where "(CalcBlockFingerPrint fps b, p) \<in> set (proposals_at (hd_BlockHeight (bk_Header b)) pc)" "bp_block p = b1"
    using assms(2) by (auto simp: GetProposedBlock_def Let_def dest: map_of_SomeD)
  then show "CalcBlockFingerPrint fps b1 = CalcBlockFingerPrint fps b" "hd_BlockHeight (bk_Header b1) = hd_BlockHeight (bk_Header b)"
    using filed_at [OF assms(1), of "hd_BlockHeight (bk_Header b)"] by (auto simp: filed_def)
qed

lemma GetProposedBlockByHashAndHeight_filed:
  assumes "cache_inv fps pc" and "GetProposedBlockByHashAndHeight hash height pc = Some (b, rw)"
  shows "hd_BlockHeight (bk_Header b) = height" and "bytes_Equal (hd_BlockHash (bk_Header b)) hash"
proof -
  obtain fp p where "(fp, p) \<in> set (proposals_at height pc)" "bp_block p = b" "bytes_Equal (hd_BlockHash (bk_Header b)) hash"
    using assms(2) by (auto simp: GetProposedBlockByHashAndHeight_def find_Some_iff split: if_splits) (metis nth_mem)
  then show "hd_BlockHeight (bk_Header b) = height" "bytes_Equal (hd_BlockHash (bk_Header b)) hash"
    using filed_at [OF assms(1), of height] by (auto simp: filed_def)
qed

end
