(* ===== verification/Block_Checks.thy ===== *)
theory Block_Checks
  imports Core_Cache
begin

section \<open>Checks and recovery of blocks (module/core/common/block_helper.go, coinbasemgr)\<close>

text \<open>
  The record \<open>coreEnv\<close> holds what the core engine gets from outside: the functions of the packages
  \<open>utils\<close> and \<open>hash\<close>, which are not in the repository, the configuration of the chain and of the
  node, and the answers of the transaction pool, the network, the virtual machine and the access
  control. An answer \<^term>\<open>None\<close> of a function that returns a value and an error is the error.
\<close>

datatype VerifyMode = CONSENSUS_VERIFY | SYNC_VERIFY

record turboConfig =
  tc_ConsensusMessageTurbo :: bool
  tc_RetryTime :: u64
  tc_RetryInterval :: u64

record coreConfig =
  kc_EnableOptimizeChargeGas :: bool
  kc_ConsensusTurboConfig :: "turboConfig option"

record TxBatchInfo =
  bi_BatchIds :: "string list"
  bi_Index :: "u32 list"

record coreEnv =
  cu_fps :: fingerprints
  cu_CalcBlockHash :: "string \<Rightarrow> Block_core \<Rightarrow> gobytes option"
  cu_GetMerkleRoot :: "string \<Rightarrow> gobytes list \<Rightarrow> gobytes option"
  cu_CalcDagHash :: "string \<Rightarrow> DAG option \<Rightarrow> gobytes option"
  cu_CalcRWSetRoot :: "string \<Rightarrow> Transaction list \<Rightarrow> gobytes option"
  cu_VerifyBlockSig :: "string \<Rightarrow> Block_core \<Rightarrow> bool option"
  cu_IsEmptyBlock :: "Block_core \<Rightarrow> bool"
  cu_CanProposeEmptyBlock :: "i32 \<Rightarrow> bool"
  cu_IsNativeTx :: "Transaction \<Rightarrow> bool"
  cu_HasDPosTxWrites :: "Block_core \<Rightarrow> bool"
  cu_RearrangeRWSet :: "Block_core \<Rightarrow> rwSetMap \<Rightarrow> TxRWSet list"
  cu_UnmarshalTxBatchInfo :: "gobytes \<Rightarrow> TxBatchInfo option"
  cu_UnmarshalGovernance :: "gobytes \<Rightarrow> string option option"
  cf_Hash :: string
  cf_ConsensusType :: i32
  cf_BlockTimestampVerify :: bool
  cf_BlockTimeout :: u32
  cf_BlockTxCapacity :: u32
  cf_EnableGas :: "bool option"
  cf_Core :: "coreConfig option"
  cf_EnableSqlSupport :: bool
  cf_batchPool :: bool
  cf_txFilter :: bool
  cf_sqlStore :: bool
  cf_monitor :: bool
  cn_now :: i64
  cn_store :: blockchainStore
  cn_GetProposerId :: "gobytes \<Rightarrow> string option"
  cn_GetAllTxsByTxIds :: "string list \<Rightarrow> string \<Rightarrow> u64 \<Rightarrow> (string \<rightharpoonup> Transaction) option"
  cn_GetAllTxsByBatchIds :: "string list \<Rightarrow> string \<Rightarrow> u64 \<Rightarrow> Transaction list list option"
  cn_SimulateWithDag :: "Block_core \<Rightarrow> sref \<Rightarrow> ManagerImpl \<Rightarrow> ((string \<times> TxRWSet) list \<times> (string \<times> TxResult) list) option \<times> ManagerImpl"
  cn_EventsOf :: "TxResult \<Rightarrow> ContractEvent list option"
  cn_verifierTxs :: "Block_core \<Rightarrow> VerifyMode \<Rightarrow> (string \<times> TxRWSet) list \<Rightarrow> (string \<times> TxResult) list \<Rightarrow> string list option + gobytes list"
  cn_verifierTxsWithRWSet :: "Block_core \<Rightarrow> (string \<times> TxRWSet) list \<Rightarrow> (string \<times> TxResult) list \<Rightarrow> gobytes list option"
  cn_VerifyOptimizeChargeGasTx :: "Block_core \<Rightarrow> sref \<Rightarrow> ManagerImpl \<Rightarrow> bool"
  cn_VerifyBlockSignatures :: "Block_core \<Rightarrow> bool"
  cn_CompleteBlock :: "Block_core \<Rightarrow> bool"
  cn_PutBlock :: "Block_core \<Rightarrow> bool"
  cn_AddsAndSetHeight :: "string list \<Rightarrow> u64 \<Rightarrow> bool"
  cn_RollBack :: "Block_core \<Rightarrow> bool"

abbreviation (input) blockHeight :: "Block_core \<Rightarrow> u64" where
  "blockHeight b \<equiv> hd_BlockHeight (bk_Header b)"

subsection \<open>Gas and coinbase\<close>

definition IsOptimizeChargeGasEnabled :: "coreEnv \<Rightarrow> bool" where
  "IsOptimizeChargeGasEnabled e =
     (case cf_EnableGas e of None \<Rightarrow> False
      | Some enableGas \<Rightarrow> (case cf_Core e of None \<Rightarrow> False | Some core \<Rightarrow> enableGas \<and> kc_EnableOptimizeChargeGas core))"

definition ConsensusType_SOLO :: i32 where "ConsensusType_SOLO = 0"
definition ConsensusType_RAFT :: i32 where "ConsensusType_RAFT = 4"
definition ConsensusType_DPOS :: i32 where "ConsensusType_DPOS = 5"
definition ConsensusType_MAXBFT :: i32 where "ConsensusType_MAXBFT = 3"

definition CheckCoinbaseEnable :: "coreEnv \<Rightarrow> bool" where
  "CheckCoinbaseEnable e \<longleftrightarrow> IsOptimizeChargeGasEnabled e \<or> cf_ConsensusType e = ConsensusType_DPOS"

definition IsGasTx :: "Transaction \<Rightarrow> bool" where
  "IsGasTx tx \<longleftrightarrow>
     \<not> (tx_ContractName tx \<noteq> ''ACCOUNT_MANAGER'' \<or> tx_Method tx \<noteq> ''CHARGE_GAS_FOR_MULTI_ACCOUNT'' \<or> tx_TxType tx \<noteq> 0)"

definition FilterCoinBaseTxOrGasTx :: "Transaction list \<Rightarrow> Transaction list" where
  "FilterCoinBaseTxOrGasTx txs =
     (if length txs = 0 then txs
      else (let lastTx = txs ! (length txs - 1) in if \<not> IsGasTx lastTx then txs else take (length txs - 1) txs))"

subsection \<open>Checks\<close>

definition IsTxCountValid :: "Block_core \<Rightarrow> coreError option" where
  "IsTxCountValid block = (if hd_TxCount (bk_Header block) \<noteq> word_of_nat (length (bk_Txs block)) then Some ErrTxCount else None)"

definition IsHeightValid :: "Block_core \<Rightarrow> u64 \<Rightarrow> coreError option" where
  "IsHeightValid block currentHeight = (if currentHeight + 1 \<noteq> blockHeight block then Some ErrHeight else None)"

definition IsPreHashValid :: "Block_core \<Rightarrow> gobytes \<Rightarrow> coreError option" where
  "IsPreHashValid block preHash = (if \<not> bytes_Equal preHash (hd_PreBlockHash (bk_Header block)) then Some ErrPreHash else None)"

definition IsBlockHashValid :: "coreEnv \<Rightarrow> Block_core \<Rightarrow> string \<Rightarrow> coreError option" where
  "IsBlockHashValid e block hashType =
     (case cu_CalcBlockHash e hashType block of None \<Rightarrow> Some ErrHashCalculation
      | Some hash \<Rightarrow> if \<not> bytes_Equal hash (hd_BlockHash (bk_Header block)) then Some ErrBlockHash else None)"

text \<open>The set of seen identifiers and the list of the duplicated ones.\<close>

fun duplicate_loop :: "Transaction list \<Rightarrow> string set \<Rightarrow> string list \<Rightarrow> string set \<times> string list" where
  "duplicate_loop [] txSet dup = (txSet, dup)"
| "duplicate_loop (tx # txs) txSet dup =
     (if tx_TxId tx \<in> txSet then duplicate_loop txs txSet (dup @ [tx_TxId tx @ '' duplicated''])
      else duplicate_loop txs (insert (tx_TxId tx) txSet) dup)"

definition IsTxDuplicate :: "Transaction list \<Rightarrow> bool \<times> string list" where
  "IsTxDuplicate txs = (let (txSet, duplicateTxs) = duplicate_loop txs {} [] in (card txSet < length txs, duplicateTxs))"

definition IsMerkleRootValid :: "coreEnv \<Rightarrow> Block_core \<Rightarrow> gobytes list \<Rightarrow> string \<Rightarrow> coreError option" where
  "IsMerkleRootValid e block txHashes hashType =
     (case cu_GetMerkleRoot e hashType txHashes of None \<Rightarrow> Some ErrTxRoot
      | Some txRoot \<Rightarrow> if \<not> bytes_Equal txRoot (hd_TxRoot (bk_Header block)) then Some ErrTxRoot else None)"

definition IsDagHashValid :: "coreEnv \<Rightarrow> Block_core \<Rightarrow> string \<Rightarrow> coreError option" where
  "IsDagHashValid e block hashType =
     (case cu_CalcDagHash e hashType (bk_Dag block) of None \<Rightarrow> Some ErrDagHash
      | Some dagHash \<Rightarrow> if \<not> bytes_Equal dagHash (hd_DagHash (bk_Header block)) then Some ErrDagHash else None)"

definition IsRWSetHashValid :: "coreEnv \<Rightarrow> Block_core \<Rightarrow> string \<Rightarrow> coreError option" where
  "IsRWSetHashValid e block hashType =
     (case cu_CalcRWSetRoot e hashType (bk_Txs block) of None \<Rightarrow> Some ErrRwSetRoot
      | Some rwSetRoot \<Rightarrow> if \<not> bytes_Equal rwSetRoot (hd_RwSetRoot (bk_Header block)) then Some ErrRwSetRoot else None)"

definition VerifyHeight :: "u64 \<Rightarrow> LedgerCache \<Rightarrow> coreError option" where
  "VerifyHeight height lc =
     (case CurrentHeight lc of (_, Some err) \<Rightarrow> Some err
      | (currentHeight, None) \<Rightarrow> if currentHeight + 1 \<noteq> height then Some ErrHeight else None)"

definition CheckBlockDigests :: "coreEnv \<Rightarrow> Block_core \<Rightarrow> gobytes list \<Rightarrow> string \<Rightarrow> coreError option" where
  "CheckBlockDigests e block txHashes hashType =
     (case IsMerkleRootValid e block txHashes hashType of Some err \<Rightarrow> Some err
      | None \<Rightarrow>
        (case IsDagHashValid e block hashType of Some err \<Rightarrow> Some err
         | None \<Rightarrow> IsRWSetHashValid e block hashType))"

definition CheckVacuumBlock :: "coreEnv \<Rightarrow> Block_core \<Rightarrow> i32 \<Rightarrow> coreError option" where
  "CheckVacuumBlock e block consensusType =
     (if hd_TxCount (bk_Header block) = 0 then if cu_CanProposeEmptyBlock e consensusType then None else Some ErrTxEmpty else None)"

definition CheckPreBlock :: "Block_core \<Rightarrow> gobytes \<Rightarrow> u64 \<Rightarrow> coreError option" where
  "CheckPreBlock block lastBlockHash proposedHeight =
     (case IsHeightValid block proposedHeight of Some err \<Rightarrow> Some err | None \<Rightarrow> IsPreHashValid block lastBlockHash)"

definition FetchLastBlock :: "LedgerCache \<Rightarrow> ProposalCache \<Rightarrow> Block_core \<Rightarrow> coreError + Block_core" where
  "FetchLastBlock lc pc block =
     (let currentHeight = fst (CurrentHeight lc)
      in if currentHeight \<ge> blockHeight block then Inl ErrBlockHadBeenCommited
         else
           (case (if currentHeight + 1 = blockHeight block then GetLastCommittedBlock lc
                  else map_option fst (GetProposedBlockByHashAndHeight (hd_PreBlockHash (bk_Header block)) (blockHeight block - 1) pc)) of
              None \<Rightarrow> Inl ErrNoPreBlock
            | Some lastBlock \<Rightarrow> Inr lastBlock))"

subsection \<open>Blocks without their transactions\<close>

definition BatchPoolAddtionalDataKey :: string where
  "BatchPoolAddtionalDataKey = ''BatchPoolAddtionalDataKey''"

definition GetBatchIds :: "coreEnv \<Rightarrow> Block_core \<Rightarrow> (coreError + string list \<times> u32 list) go" where
  "GetBatchIds e block =
     go_bind (deref (bk_AdditionalData block)) (\<lambda>extra.
       Inr (case extra BatchPoolAddtionalDataKey of None \<Rightarrow> Inr ([], [])
            | Some batchIdsByte \<Rightarrow>
              (case cu_UnmarshalTxBatchInfo e batchIdsByte of None \<Rightarrow> Inl ErrBatchInfo
               | Some info \<Rightarrow> Inr (bi_BatchIds info, bi_Index info))))"

definition IfOpenConsensusMessageTurbo :: "coreEnv \<Rightarrow> bool go" where
  "IfOpenConsensusMessageTurbo e =
     go_bind (deref (cf_Core e)) (\<lambda>core.
       Inr (case kc_ConsensusTurboConfig core of None \<Rightarrow> False
            | Some turbo \<Rightarrow> tc_ConsensusMessageTurbo turbo \<and> cf_ConsensusType e \<noteq> ConsensusType_SOLO))"

definition index_at :: "'a list \<Rightarrow> nat \<Rightarrow> 'a go" where
  "index_at xs i = (if i < length xs then Inr (xs ! i) else Inl IndexOutOfRange)"

fun mapM_go :: "('a \<Rightarrow> 'b go) \<Rightarrow> 'a list \<Rightarrow> 'b list go" where
  "mapM_go f [] = Inr []"
| "mapM_go f (x # xs) = go_bind (f x) (\<lambda>y. go_bind (mapM_go f xs) (\<lambda>ys. Inr (y # ys)))"

text \<open>
  A block that carries the identifiers of batches: the transactions are taken from the pool at the
  positions that the proposer sent.
\<close>

definition recoverBlockByBatch :: "coreEnv \<Rightarrow> VerifyMode \<Rightarrow> Block_core \<Rightarrow> (coreError + Block_core \<times> string list) go" where
  "recoverBlockByBatch e mode block =
     (if hd_TxCount (bk_Header block) \<noteq> 0 \<and> mode \<noteq> SYNC_VERIFY \<and> cf_ConsensusType e \<noteq> ConsensusType_RAFT then
        go_bind (deref (cf_Core e)) (\<lambda>core.
        go_bind (deref (kc_ConsensusTurboConfig core)) (\<lambda>turbo.
        (case cn_GetProposerId e (hd_Proposer (bk_Header block)) of None \<Rightarrow> Inr (Inl ErrRecover)
         | Some proposerId \<Rightarrow>
           go_bind (GetBatchIds e block) (\<lambda>ids.
           (case ids of Inl err \<Rightarrow> Inr (Inl err)
            | Inr (batchIds, indexes) \<Rightarrow>
              (let expectedCount = length indexes + (if CheckCoinbaseEnable e then 1 else 0)
               in if expectedCount \<noteq> unat (hd_TxCount (bk_Header block)) then Inr (Inl ErrRecover)
                  else if length batchIds = 0 then Inr (Inr (block, batchIds))
                  else
                    (case cn_GetAllTxsByBatchIds e batchIds proposerId (blockHeight block) of None \<Rightarrow> Inr (Inl ErrRecover)
                     | Some txs \<Rightarrow>
                       (let newTxs = concat txs
                        in if length newTxs \<noteq> length indexes then Inr (Inl ErrRecover)
                           else
                             go_bind (mapM_go (\<lambda>v. index_at newTxs (unat v)) indexes) (\<lambda>found.
                             if CheckCoinbaseEnable e then
                               (case bk_Txs block of [] \<Rightarrow> Inr (Inl ErrRecover)
                                | coinbase # _ \<Rightarrow> Inr (Inr (block\<lparr>bk_Txs := found @ [coinbase]\<rparr>, batchIds)))
                             else Inr (Inr (block\<lparr>bk_Txs := found\<rparr>, batchIds)))))))))))
      else
        go_bind (GetBatchIds e block) (\<lambda>ids.
          Inr (case ids of Inl err \<Rightarrow> Inl err | Inr (batchIds, _) \<Rightarrow> Inr (block, batchIds))))"

text \<open>A transaction of the pool gets the result from the block; a missing one is a nil pointer.\<close>

definition fetched :: "(string \<rightharpoonup> Transaction) \<Rightarrow> Transaction \<Rightarrow> Transaction go" where
  "fetched txsMap tx = go_bind (deref (txsMap (tx_TxId tx))) (\<lambda>found. Inr (found\<lparr>tx_Result := tx_Result tx\<rparr>))"

text \<open>A slot of the new list of transactions that is not filled is a nil pointer.\<close>

definition nil_tx :: Transaction where
  "nil_tx = \<lparr>tx_TxId = [], tx_Result = None, tx_ContractName = [], tx_Method = [], tx_TxType = 0, tx_Rest = []\<rparr>"

definition recoverBlockWithCoinBaseTx :: "coreEnv \<Rightarrow> string list \<Rightarrow> string \<Rightarrow> Block_core \<Rightarrow> (coreError + Block_core \<times> string list) go" where
  "recoverBlockWithCoinBaseTx e txIds proposerId block =
     (let n = unat (hd_TxCount (bk_Header block) - 1)
      in go_bind (index_at (bk_Txs block) n) (\<lambda>coinbase.
           if \<not> IsGasTx coinbase then Inr (Inl ErrRecover)
           else
             (case cn_GetAllTxsByTxIds e (butlast txIds) proposerId (blockHeight block) of None \<Rightarrow> Inr (Inl ErrRecover)
              | Some txsMap \<Rightarrow>
                go_bind (mapM_go (fetched txsMap) (take n (bk_Txs block))) (\<lambda>found.
                  Inr (Inr (block\<lparr>bk_Txs := found @ coinbase # replicate (length (bk_Txs block) - n - 1) nil_tx\<rparr>, []))))))"

definition recoverBlock :: "coreEnv \<Rightarrow> VerifyMode \<Rightarrow> Block_core \<Rightarrow> (coreError + Block_core \<times> string list) go" where
  "recoverBlock e mode block =
     go_bind (IfOpenConsensusMessageTurbo e) (\<lambda>turboOpen.
       if turboOpen \<and> mode \<noteq> SYNC_VERIFY \<and> length (bk_Txs block) \<noteq> 0 then
         (let txIds = map tx_TxId (bk_Txs block)
          in case cn_GetProposerId e (hd_Proposer (bk_Header block)) of None \<Rightarrow> Inr (Inl ErrRecover)
             | Some proposerId \<Rightarrow>
               if CheckCoinbaseEnable e then recoverBlockWithCoinBaseTx e txIds proposerId block
               else
                 (case cn_GetAllTxsByTxIds e txIds proposerId (blockHeight block) of None \<Rightarrow> Inr (Inl ErrRecover)
                  | Some txsMap \<Rightarrow>
                    go_bind (mapM_go (fetched txsMap) (bk_Txs block)) (\<lambda>found.
                      Inr (Inr (block\<lparr>bk_Txs := found\<rparr>, [])))))
       else Inr (Inr (block, [])))"

definition RecoverBlock :: "coreEnv \<Rightarrow> VerifyMode \<Rightarrow> Block_core \<Rightarrow> (coreError + Block_core \<times> string list) go" where
  "RecoverBlock e mode block =
     (if hd_TxCount (bk_Header block) = 0 then Inr (Inr (block, []))
      else if cf_batchPool e then recoverBlockByBatch e mode block
      else recoverBlock e mode block)"

subsection \<open>What the checks decide\<close>

lemma duplicate_loop_set: "fst (duplicate_loop txs S dup) = S \<union> tx_TxId ` set txs"
  by (induction txs S dup rule: duplicate_loop.induct) auto

lemma IsTxDuplicate_iff: "fst (IsTxDuplicate txs) \<longleftrightarrow> \<not> distinct (map tx_TxId txs)"
proof -
  have "fst (IsTxDuplicate txs) \<longleftrightarrow> card (set (map tx_TxId txs)) < length (map tx_TxId txs)"
    using duplicate_loop_set [of txs "{}" "[]"] by (simp add: IsTxDuplicate_def case_prod_unfold)
  then show ?thesis using card_length [of "map tx_TxId txs"] card_distinct distinct_card by (metis less_le)
qed

lemma CheckPreBlock_None:
  "CheckPreBlock block hash height = None \<longleftrightarrow> blockHeight block = height + 1 \<and> bytes_Equal hash (hd_PreBlockHash (bk_Header block))"
  by (auto simp: CheckPreBlock_def IsHeightValid_def IsPreHashValid_def)

lemma IsBlockHashValid_None:
  "IsBlockHashValid e block hashType = None \<longleftrightarrow>
     (\<exists>hash. cu_CalcBlockHash e hashType block = Some hash \<and> bytes_Equal hash (hd_BlockHash (bk_Header block)))"
  by (auto simp: IsBlockHashValid_def split: option.split)

lemma mapM_go_length: "mapM_go f xs = Inr ys \<Longrightarrow> length ys = length xs"
  by (induction xs arbitrary: ys) (auto elim!: go_bind_InrE)

text \<open>Recovery changes the transactions only.\<close>

lemma RecoverBlock_header:
  assumes "RecoverBlock e mode block = Inr (Inr (newBlock, batchIds))"
  shows "bk_Header newBlock = bk_Header block" and "bk_AdditionalData newBlock = bk_AdditionalData block" and "bk_Dag newBlock = bk_Dag block"
  using assms
  by (auto simp: RecoverBlock_def recoverBlockByBatch_def recoverBlock_def recoverBlockWithCoinBaseTx_def Let_def
      elim!: go_bind_InrE split: if_splits option.splits sum.splits prod.splits list.splits)

text \<open>A block that is synchronised comes with its transactions.\<close>

lemma RecoverBlock_sync: "RecoverBlock e SYNC_VERIFY block = Inr (Inr (newBlock, batchIds)) \<Longrightarrow> newBlock = block"
  by (auto simp: RecoverBlock_def recoverBlockByBatch_def recoverBlock_def elim!: go_bind_InrE split: if_splits sum.splits prod.splits)

text \<open>A recovered block has as many transactions as its header says, when it is recovered from batches.\<close>

lemma recoverBlockByBatch_count:
  assumes "recoverBlockByBatch e CONSENSUS_VERIFY block = Inr (Inr (newBlock, batchIds))" and "batchIds \<noteq> []"
    and "hd_TxCount (bk_Header block) \<noteq> 0" and "cf_ConsensusType e \<noteq> ConsensusType_RAFT"
  shows "length (bk_Txs newBlock) = unat (hd_TxCount (bk_Header block))"
  using assms
  by (auto simp: recoverBlockByBatch_def Let_def elim!: go_bind_InrE dest!: mapM_go_length
      split: if_splits option.splits sum.splits prod.splits list.splits)

end
