(* ===== verification/Block_Verifier.thy ===== *)
theory Block_Verifier
  imports Block_Checks
begin

section \<open>The block verifier (block_helper.go, module/core/syncmode/verifier)\<close>

text \<open>
  The state of the core engine: its caches, the snapshots, the hashes of the blocks under
  verification, the blocks in the store and what was sent to other components. A call of the
  verifier runs from the lock of its block hash to the unlock as one step.
\<close>

datatype coreOut =
    VerifyResultMsg Block_core bool rwSetMap "string list option"
  | PendingTxs "Transaction list" u64
  | PendingBatches "string list" u64
  | DbBegin Block_core
  | RolledBack Block_core
  | FilterAdds "string list" u64
  | RetryAndRemove "Transaction list" "Transaction list"
  | RetryAndRemoveBatches "string list" "string list"
  | ContractEventMsg u64 "ContractEvent list"
  | TopicMsg int "string list"
  | BlockInfoMsg "(Block_core \<times> TxRWSet list) option"
  | GovernanceMsg string

record coreState =
  cr_ledger :: LedgerCache
  cr_proposals :: ProposalCache
  cr_snapshots :: ManagerImpl
  cr_locks :: ReentrantLocks
  cr_chain :: "Block_core list"
  cr_outs :: "coreOut list"

definition emit_core :: "coreOut \<Rightarrow> coreState \<Rightarrow> coreState" where
  "emit_core o1 c = c\<lparr>cr_outs := cr_outs c @ [o1]\<rparr>"

text \<open>The rollback of the store: nothing for a key-value store.\<close>

definition RollBack :: "coreEnv \<Rightarrow> Block_core \<Rightarrow> coreState \<Rightarrow> bool \<times> coreState" where
  "RollBack e block c = (if cf_sqlStore e then (cn_RollBack e block, emit_core (RolledBack block) c) else (True, c))"

subsection \<open>Validation\<close>

type_synonym validated = "rwSetMap \<times> eventMap \<times> string list option \<times> coreError option"

definition invalid :: "coreError \<Rightarrow> coreState \<Rightarrow> (validated \<times> coreState) go" where
  "invalid err c = Inr ((None, None, None, Some err), c)"

text \<open>The events of the transactions by their results; a result without contract result is dereferenced.\<close>

fun contractEvents :: "coreEnv \<Rightarrow> (string \<times> TxResult) list \<Rightarrow> Transaction list \<Rightarrow> (string \<rightharpoonup> ContractEvent list) go" where
  "contractEvents e results [] = Inr Map.empty"
| "contractEvents e results (tx # txs) =
     go_bind (case map_of results (tx_TxId tx) of None \<Rightarrow> Inr [] | Some r \<Rightarrow> deref (cn_EventsOf e r)) (\<lambda>events.
     go_bind (contractEvents e results txs) (\<lambda>m.
       Inr (if tx_TxId tx \<in> dom m then m else m(tx_TxId tx \<mapsto> events))))"

definition tooFar :: "coreEnv \<Rightarrow> Block_core \<Rightarrow> bool" where
  "tooFar e block \<longleftrightarrow>
     sint (cn_now e - hd_BlockTimestamp (bk_Header block)) > uint (cf_BlockTimeout e) \<or>
     sint (hd_BlockTimestamp (bk_Header block) - cn_now e) > uint (cf_BlockTimeout e)"

definition ValidateBlock :: "coreEnv \<Rightarrow> Block_core \<Rightarrow> Block_core \<Rightarrow> VerifyMode \<Rightarrow> coreState \<Rightarrow> (validated \<times> coreState) go" where
  "ValidateBlock e block lastBlock mode c =
     (let hashType = cf_Hash e
      in if cf_BlockTimestampVerify e \<and> mode = CONSENSUS_VERIFY \<and> tooFar e block then invalid ErrTimestamp c
         else
           (case IsBlockHashValid e block hashType of Some err \<Rightarrow> invalid err c
            | None \<Rightarrow>
              if cu_VerifyBlockSig e hashType block \<noteq> Some True then invalid ErrSignature c
              else
                (case CheckVacuumBlock e block (cf_ConsensusType e) of Some err \<Rightarrow> invalid err c
                 | None \<Rightarrow>
                   go_bind (NewSnapshot (cu_fps e) (cn_store e) lastBlock block (cr_snapshots c)) (\<lambda>(r, m).
                     (let c1 = c\<lparr>cr_snapshots := m\<rparr>
                      in if length (bk_Txs block) = 0 then
                           go_bind (deref (bk_Dag block)) (\<lambda>dag.
                             if length (Vertexes dag) \<noteq> 0 then invalid ErrDagNotEmpty c1
                             else Inr ((None, None, None, CheckBlockDigests e block [] hashType), c1))
                         else if fst (IsTxDuplicate (bk_Txs block)) then invalid ErrTxDuplicate c1
                         else
                           (let c2 = (if cf_sqlStore e then emit_core (DbBegin block) c1 else c1)
                            in case cn_SimulateWithDag e block r m of
                                 (None, m1) \<Rightarrow> invalid ErrSimulate (c2\<lparr>cr_snapshots := m1\<rparr>)
                               | (Some (txRWSetMap, txResults), m1) \<Rightarrow>
                                 (let c3 = c2\<lparr>cr_snapshots := m1\<rparr>; n = hd_TxCount (bk_Header block)
                                  in if n \<noteq> word_of_nat (length txRWSetMap) \<or> n \<noteq> word_of_nat (length txResults)
                                     then invalid ErrSimulateCount c3
                                     else
                                       (case cn_verifierTxs e block mode txRWSetMap txResults of
                                          Inl failed \<Rightarrow> Inr ((None, None, failed, Some ErrTxVerify), c3)
                                        | Inr txHashes \<Rightarrow>
                                          go_bind (contractEvents e txResults (bk_Txs block)) (\<lambda>events.
                                            Inr ((Some txRWSetMap, Some events, None,
                                              CheckBlockDigests e block txHashes hashType), c3))))))))))"

definition results_of :: "Transaction list \<Rightarrow> (string \<times> TxResult) list" where
  "results_of txs = fold (\<lambda>tx m. case tx_Result tx of None \<Rightarrow> m | Some r \<Rightarrow> AList.update (tx_TxId tx) r m) txs []"

text \<open>
  Blocks with read and write sets are not executed. When the signature is wrong without an error,
  the message of the nil error is asked for.
\<close>

definition ValidateBlockWithRWSets ::
    "coreEnv \<Rightarrow> Block_core \<Rightarrow> (string \<times> TxRWSet) list \<Rightarrow> (eventMap \<times> coreError option) go" where
  "ValidateBlockWithRWSets e block txRWSetMap =
     (let hashType = cf_Hash e
      in case IsBlockHashValid e block hashType of Some err \<Rightarrow> Inr (None, Some err)
         | None \<Rightarrow>
           (let txResults = results_of (bk_Txs block)
            in case cu_VerifyBlockSig e hashType block of
                 None \<Rightarrow> Inr (None, Some ErrSignature)
               | Some False \<Rightarrow> Inl NilDeref
               | Some True \<Rightarrow>
                 if length (bk_Txs block) = 0 then Inr (None, CheckBlockDigests e block [] hashType)
                 else
                   (case cn_verifierTxsWithRWSet e block txRWSetMap txResults of None \<Rightarrow> Inr (None, Some ErrTxVerify)
                    | Some txHashes \<Rightarrow>
                      go_bind (contractEvents e txResults (bk_Txs block)) (\<lambda>events.
                        Inr (Some events, CheckBlockDigests e block txHashes hashType)))))"

definition validateBlock :: "coreEnv \<Rightarrow> Block_core \<Rightarrow> Block_core \<Rightarrow> VerifyMode \<Rightarrow> coreState \<Rightarrow> (validated \<times> coreState) go" where
  "validateBlock e block lastBlock mode c =
     (let txCapacity = (if IsOptimizeChargeGasEnabled e then cf_BlockTxCapacity e + 1 else cf_BlockTxCapacity e)
      in if hd_TxCount (bk_Header block) > txCapacity then invalid ErrTxCapacity c
         else
           (case IsTxCountValid block of Some err \<Rightarrow> invalid err c
            | None \<Rightarrow>
              (case CheckPreBlock block (hd_BlockHash (bk_Header lastBlock)) (blockHeight lastBlock) of Some err \<Rightarrow> invalid err c
               | None \<Rightarrow> ValidateBlock e block lastBlock mode c)))"

definition validateBlockWithRWSets ::
    "coreEnv \<Rightarrow> Block_core \<Rightarrow> Block_core \<Rightarrow> (string \<times> TxRWSet) list \<Rightarrow> (eventMap \<times> coreError option) go" where
  "validateBlockWithRWSets e block lastBlock txRWSetMap =
     (case CheckPreBlock block (hd_BlockHash (bk_Header lastBlock)) (blockHeight lastBlock) of Some err \<Rightarrow> Inr (None, Some err)
      | None \<Rightarrow> ValidateBlockWithRWSets e block txRWSetMap)"

subsection \<open>Blocks that were verified before\<close>

definition RetryAndRemoveTxs :: "Transaction list \<Rightarrow> Transaction list \<Rightarrow> coreState \<Rightarrow> coreState" where
  "RetryAndRemoveTxs txsRetry txsRem c =
     emit_core (RetryAndRemove (FilterCoinBaseTxOrGasTx txsRetry) (FilterCoinBaseTxOrGasTx txsRem)) c"

fun cut_batches :: "coreEnv \<Rightarrow> string set \<Rightarrow> Block_core list \<Rightarrow> string list go" where
  "cut_batches e keep [] = Inr []"
| "cut_batches e keep (b # bs) =
     go_bind (GetBatchIds e b) (\<lambda>ids.
     go_bind (cut_batches e keep bs) (\<lambda>rest.
       Inr (case ids of Inl _ \<Rightarrow> rest | Inr (batchIds, _) \<Rightarrow> filter (\<lambda>i. i \<notin> keep) batchIds @ rest)))"

definition cutBlocksForBatchPool :: "coreEnv \<Rightarrow> Block_core list \<Rightarrow> Block_core \<Rightarrow> coreState \<Rightarrow> coreState go" where
  "cutBlocksForBatchPool e blocksToCut blockToKeep c =
     go_bind (GetBatchIds e blockToKeep) (\<lambda>ids.
       case ids of Inl _ \<Rightarrow> Inr c
       | Inr (batchIds, _) \<Rightarrow>
         go_bind (cut_batches e (set batchIds) blocksToCut) (\<lambda>finalCutBatchIds.
           Inr (if length finalCutBatchIds > 0 then emit_core (RetryAndRemoveBatches finalCutBatchIds []) c else c)))"

definition cutBlocks :: "coreEnv \<Rightarrow> Block_core list \<Rightarrow> Block_core \<Rightarrow> coreState \<Rightarrow> coreState go" where
  "cutBlocks e blocksToCut blockToKeep c =
     (if cf_batchPool e then cutBlocksForBatchPool e blocksToCut blockToKeep c
      else
        (let keep = tx_TxId ` set (bk_Txs blockToKeep);
             cutTxs = filter (\<lambda>tx. tx_TxId tx \<notin> keep) (concat (map bk_Txs blocksToCut))
         in Inr (if length cutTxs > 0 then RetryAndRemoveTxs cutTxs [] c else c)))"

definition verifyRepeat :: "coreEnv \<Rightarrow> Block_core \<Rightarrow> VerifyMode \<Rightarrow> coreState \<Rightarrow> (bool \<times> coreState) go" where
  "verifyRepeat e block mode c =
     (case GetProposedBlock (cu_fps e) block (cr_proposals c) of None \<Rightarrow> Inr (False, c)
      | Some (b, txRwSet, _) \<Rightarrow>
        if ConsensusType_SOLO \<noteq> cf_ConsensusType e \<or> cf_EnableSqlSupport e then
          (let c1 = (if mode = CONSENSUS_VERIFY then emit_core (VerifyResultMsg block True txRwSet None) c else c)
           in case GetProposedBlockByHashAndHeight (hd_PreBlockHash (bk_Header block)) (blockHeight block - 1) (cr_proposals c) of
                None \<Rightarrow> Inr (True, c1)
              | Some (lastBlock, _) \<Rightarrow>
                (let (cut, pc) = KeepProposedBlock (cu_fps e) (hd_BlockHash (bk_Header lastBlock)) (blockHeight lastBlock) (cr_proposals c);
                     c2 = c1\<lparr>cr_proposals := pc\<rparr>
                 in if length cut > 0 then go_bind (cutBlocks e cut lastBlock c2) (\<lambda>c3. Inr (True, c3)) else Inr (True, c2)))
        else Inr (False, c))"

subsection \<open>Verification\<close>

definition publish_failed :: "VerifyMode \<Rightarrow> Block_core \<Rightarrow> rwSetMap \<Rightarrow> string list option \<Rightarrow> coreState \<Rightarrow> coreState" where
  "publish_failed mode block rw failed c =
     (if mode = CONSENSUS_VERIFY then emit_core (VerifyResultMsg block False rw failed) c else c)"

text \<open>The end of both verifications: the votes of a synchronised block, the cache and the pool.\<close>

definition accept_block ::
    "coreEnv \<Rightarrow> VerifyMode \<Rightarrow> bool \<Rightarrow> Block_core \<Rightarrow> string list \<Rightarrow> rwSetMap \<Rightarrow> eventMap \<Rightarrow> coreState \<Rightarrow> coreError option \<times> coreState" where
  "accept_block e mode publish newBlock batchIds rw events c =
     (if mode = SYNC_VERIFY \<and> \<not> cn_VerifyBlockSignatures e newBlock then (Some ErrVotes, c)
      else
        (case SetProposedBlock (cu_fps e) (cr_ledger c) newBlock rw events False (cr_proposals c) of
           (Some err, _) \<Rightarrow> (Some err, c)
         | (None, pc) \<Rightarrow>
           (let c1 = c\<lparr>cr_proposals := pc\<rparr>;
                c2 = emit_core (if cf_batchPool e then PendingBatches batchIds (blockHeight newBlock)
                                else PendingTxs (FilterCoinBaseTxOrGasTx (bk_Txs newBlock)) (blockHeight newBlock)) c1
            in (None, if publish \<and> mode = CONSENSUS_VERIFY then emit_core (VerifyResultMsg newBlock True rw None) c2 else c2))))"

definition verify_new :: "coreEnv \<Rightarrow> VerifyMode \<Rightarrow> Block_core \<Rightarrow> coreState \<Rightarrow> (coreError option \<times> coreState) go" where
  "verify_new e mode block c =
     (case FetchLastBlock (cr_ledger c) (cr_proposals c) block of Inl err \<Rightarrow> Inr (Some err, c)
      | Inr lastBlock \<Rightarrow>
        go_bind (RecoverBlock e mode block) (\<lambda>recovered.
          case recovered of Inl err \<Rightarrow> Inr (Some err, c)
          | Inr (newBlock, batchIds) \<Rightarrow>
            go_bind (validateBlock e newBlock lastBlock mode c) (\<lambda>((rw, events, failed, err), c1).
              case err of
                Some err1 \<Rightarrow>
                  (let c2 = snd (RollBack e newBlock (publish_failed mode newBlock rw failed c1))
                   in Inr (Some err1, c2\<lparr>cr_snapshots := ClearSnapshot (cu_fps e) newBlock (cr_snapshots c2)\<rparr>))
              | None \<Rightarrow>
                go_bind (GetSnapshot (cu_fps e) (cn_store e) lastBlock newBlock (cr_snapshots c1)) (\<lambda>(r, m).
                  (let c2 = c1\<lparr>cr_snapshots := m\<rparr>
                   in if IsOptimizeChargeGasEnabled e \<and> \<not> cn_VerifyOptimizeChargeGasTx e newBlock r m
                      then Inr (Some ErrGasTx, publish_failed mode newBlock rw failed c2)
                      else Inr (accept_block e mode True newBlock batchIds rw events c2))))))"

definition verify_new_rwsets ::
    "coreEnv \<Rightarrow> VerifyMode \<Rightarrow> Block_core \<Rightarrow> (string \<times> TxRWSet) list \<Rightarrow> coreState \<Rightarrow> (coreError option \<times> coreState) go" where
  "verify_new_rwsets e mode block txRWSetMap c =
     (case FetchLastBlock (cr_ledger c) (cr_proposals c) block of Inl err \<Rightarrow> Inr (Some err, c)
      | Inr lastBlock \<Rightarrow>
        go_bind (RecoverBlock e mode block) (\<lambda>recovered.
          case recovered of Inl err \<Rightarrow> Inr (Some err, c)
          | Inr (newBlock, batchIds) \<Rightarrow>
            go_bind (validateBlockWithRWSets e newBlock lastBlock txRWSetMap) (\<lambda>(events, err).
              case err of Some err1 \<Rightarrow> Inr (Some err1, snd (RollBack e newBlock c))
              | None \<Rightarrow> Inr (accept_block e mode False newBlock batchIds (Some txRWSetMap) events c))))"

text \<open>The lock of the block hash around a verification.\<close>

definition with_lock ::
    "Block_core \<Rightarrow> (coreState \<Rightarrow> (coreError option \<times> coreState) go) \<Rightarrow> coreState \<Rightarrow> (coreError option \<times> coreState) go" where
  "with_lock block body c =
     (let key = bytes_content (hd_BlockHash (bk_Header block))
      in case Lock key (cr_locks c) of
           (False, _) \<Rightarrow> Inr (Some ErrConcurrentVerify, c)
         | (True, l) \<Rightarrow> go_bind (body (c\<lparr>cr_locks := l\<rparr>)) (\<lambda>(err, c1). Inr (err, c1\<lparr>cr_locks := Unlock key (cr_locks c1)\<rparr>)))"

definition VerifyBlock :: "coreEnv \<Rightarrow> Block_core \<Rightarrow> VerifyMode \<Rightarrow> coreState \<Rightarrow> (coreError option \<times> coreState) go" where
  "VerifyBlock e block mode c =
     (if cu_IsEmptyBlock e block then Inr (Some ErrEmptyBlock, c)
      else with_lock block (\<lambda>c1.
        go_bind (verifyRepeat e block mode c1) (\<lambda>(isRepeat, c2).
          if isRepeat then Inr (None, c2) else verify_new e mode block c2)) c)"

definition rwSets_of :: "TxRWSet option list \<Rightarrow> (string \<times> TxRWSet) list" where
  "rwSets_of rwsets = fold (\<lambda>rw m. case rw of None \<Rightarrow> m | Some s \<Rightarrow> AList.update (rw_TxId s) s m) rwsets []"

definition VerifyBlockWithRwSets ::
    "coreEnv \<Rightarrow> Block_core \<Rightarrow> TxRWSet option list \<Rightarrow> VerifyMode \<Rightarrow> coreState \<Rightarrow> (coreError option \<times> coreState) go" where
  "VerifyBlockWithRwSets e block rwsets mode c =
     (if cu_IsEmptyBlock e block then Inr (Some ErrEmptyBlock, c)
      else with_lock block (\<lambda>c1.
        go_bind (verifyRepeat e block mode c1) (\<lambda>(isRepeat, c2).
          if isRepeat then Inr (None, c2) else verify_new_rwsets e mode block (rwSets_of rwsets) c2)) c)"

end
