(* ===== verification/Block_Committer.thy ===== *)
theory Block_Committer
  imports Block_Verifier Go_Strconv
begin

section \<open>The block committer (block_helper.go, module/core/common/committer.go)\<close>

text \<open>
  \<open>AddBlock\<close> takes a block that consensus or synchronisation has decided on, finds the verified
  block with its read and write sets in the proposal cache, puts it into the store and tells the
  other components. A panic of the store or of the transaction filter is a panic of \<open>AddBlock\<close>.
\<close>

subsection \<open>Committing\<close>

definition rearrangeContractEvent :: "Block_core \<Rightarrow> eventMap \<Rightarrow> ContractEvent list" where
  "rearrangeContractEvent block conEventMap =
     (case conEventMap of None \<Rightarrow> []
      | Some m \<Rightarrow> concat (map (\<lambda>tx. case m (tx_TxId tx) of None \<Rightarrow> [] | Some event \<Rightarrow> event) (bk_Txs block)))"

fun notify_events :: "ContractEvent list \<Rightarrow> coreState \<Rightarrow> coreState" where
  "notify_events [] c = c"
| "notify_events (event # events) c =
     notify_events events
       (if length (ce_EventData event) = 0 then c
        else (case Atoi (ce_Topic event) of None \<Rightarrow> c | Some topic \<Rightarrow> emit_core (TopicMsg topic (ce_EventData event)) c))"

definition NotifyMessage :: "coreEnv \<Rightarrow> Block_core \<Rightarrow> ContractEvent list \<Rightarrow> coreState \<Rightarrow> coreState" where
  "NotifyMessage e block events c =
     (case bk_Txs block of [] \<Rightarrow> c
      | tx # _ \<Rightarrow> if \<not> cu_IsNativeTx e tx then c else notify_events events c)"

text \<open>The notification of blocks before version 2.3.0; its error is the error of the chain configuration.\<close>

definition NotifyChainConf :: "coreEnv \<Rightarrow> Block_core \<Rightarrow> coreError option" where
  "NotifyChainConf e block =
     (case bk_Txs block of [] \<Rightarrow> None
      | tx # _ \<Rightarrow>
        if cu_IsNativeTx e tx \<or> cu_HasDPosTxWrites e block then if cn_CompleteBlock e block then None else Some ErrChainConf else None)"

definition publishContractEvent :: "Block_core \<Rightarrow> ContractEvent list \<Rightarrow> coreState \<Rightarrow> coreState" where
  "publishContractEvent block events c = emit_core (ContractEventMsg (blockHeight block) events) c"

definition blockVersion230 :: u32 where
  "blockVersion230 = 2300"

definition CommitBlock ::
    "coreEnv \<Rightarrow> Block_core \<Rightarrow> rwSetMap \<Rightarrow> eventMap \<Rightarrow> coreState \<Rightarrow> (coreError option \<times> (Block_core \<times> TxRWSet list) option \<times> coreState) go" where
  "CommitBlock e block rwSetMap1 conEventMap c =
     (let rwSet = cu_RearrangeRWSet e block rwSetMap1;
          events = rearrangeContractEvent block conEventMap;
          c1 = (if hd_BlockVersion (bk_Header block) \<ge> blockVersion230 then NotifyMessage e block events c else c)
      in if \<not> cn_PutBlock e block then Inl StoreFailed
         else
           (let c2 = c1\<lparr>cr_chain := cr_chain c1 @ [block], cr_ledger := SetLastCommittedBlock (Some block) (cr_ledger c1)\<rparr>;
                txIds = map tx_TxId (bk_Txs block)
            in if cf_txFilter e \<and> \<not> cn_AddsAndSetHeight e txIds (blockHeight block) then Inl FilterFailed
               else
                 (let c3 = (if cf_txFilter e then emit_core (FilterAdds txIds (blockHeight block)) c2 else c2);
                      c4 = c3\<lparr>cr_snapshots := NotifyBlockCommitted (cu_fps e) block (cr_snapshots c3)\<rparr>
                  in case (if hd_BlockVersion (bk_Header block) < blockVersion230 then NotifyChainConf e block else None) of
                       Some err \<Rightarrow> Inr (Some err, None, c4)
                     | None \<Rightarrow> Inr (None, Some (block, rwSet), publishContractEvent block events c4))))"

subsection \<open>Adding a block\<close>

definition isBlockLegal :: "coreEnv \<Rightarrow> Block_core \<Rightarrow> coreState \<Rightarrow> coreError option" where
  "isBlockLegal e blk c =
     (case GetLastCommittedBlock (cr_ledger c) of None \<Rightarrow> Some ErrNoCommittedBlock
      | Some lastBlock \<Rightarrow>
        if blockHeight lastBlock \<ge> blockHeight blk then Some ErrBlockHadBeenCommited
        else if blockHeight blk \<noteq> blockHeight lastBlock + 1 then Some ErrHeight
        else if \<not> bytes_Equal (hd_PreBlockHash (bk_Header blk)) (hd_BlockHash (bk_Header lastBlock)) then Some ErrPreHash
        else
          (case cu_CalcBlockHash e (cf_Hash e) blk of None \<Rightarrow> Some ErrBlockHash
           | Some blkHash \<Rightarrow> if \<not> bytes_Equal (hd_BlockHash (bk_Header blk)) blkHash then Some ErrBlockHash else None))"

definition getCommittedBlock :: "coreEnv \<Rightarrow> Block_core \<Rightarrow> Block_core \<Rightarrow> Block_core go" where
  "getCommittedBlock e lastProposed block =
     go_bind (IfOpenConsensusMessageTurbo e) (\<lambda>turbo.
     go_bind (deref (bk_AdditionalData lastProposed)) (\<lambda>proposedExtra.
     go_bind (deref (bk_AdditionalData block)) (\<lambda>extra.
       (let commitBlock = (if turbo then lastProposed\<lparr>bk_Header := bk_Header block\<rparr> else lastProposed);
            base = (case proposedExtra BatchPoolAddtionalDataKey of None \<Rightarrow> Map.empty | Some v \<Rightarrow> [BatchPoolAddtionalDataKey \<mapsto> v])
        in Inr (commitBlock\<lparr>bk_AdditionalData := Some (base ++ extra)\<rparr>)))))"

definition checkLastProposedBlock ::
    "coreEnv \<Rightarrow> Block_core \<Rightarrow> coreState \<Rightarrow> ((coreError + Block_core \<times> rwSetMap \<times> eventMap) \<times> coreState) go" where
  "checkLastProposedBlock e block c =
     go_bind (VerifyBlock e block SYNC_VERIFY c) (\<lambda>(err, c1).
       Inr (case err of Some err1 \<Rightarrow> (Inl err1, c1)
            | None \<Rightarrow>
              (case GetProposedBlock (cu_fps e) block (cr_proposals c1) of
                 None \<Rightarrow> (Inl ErrNotVerified, c1) | Some found \<Rightarrow> (Inr found, c1))))"

fun retry_batches :: "coreEnv \<Rightarrow> gobytes \<Rightarrow> string set \<Rightarrow> Block_core list \<Rightarrow> (coreError + string list) go" where
  "retry_batches e hash keep [] = Inr (Inr [])"
| "retry_batches e hash keep (b # bs) =
     (if bytes_Equal (hd_BlockHash (bk_Header b)) hash then retry_batches e hash keep bs
      else
        go_bind (GetBatchIds e b) (\<lambda>ids.
          case ids of Inl err \<Rightarrow> Inr (Inl err)
          | Inr (retryBatchIds, _) \<Rightarrow>
            go_bind (retry_batches e hash keep bs) (\<lambda>rest.
              Inr (case rest of Inl err \<Rightarrow> Inl err | Inr ids1 \<Rightarrow> Inr (filter (\<lambda>i. i \<notin> keep) retryBatchIds @ ids1)))))"

text \<open>The transactions and the batches to retry, and the batches to remove.\<close>

definition syncWithTxPool ::
    "coreEnv \<Rightarrow> Block_core \<Rightarrow> u64 \<Rightarrow> coreState \<Rightarrow> (coreError + Transaction list \<times> string list \<times> string list) go" where
  "syncWithTxPool e block height c =
     (let proposedBlocks = GetProposedBlocksAt height (cr_proposals c); hash = hd_BlockHash (bk_Header block)
      in if cf_batchPool e then
           go_bind (GetBatchIds e block) (\<lambda>ids.
             case ids of Inl err \<Rightarrow> Inr (Inl err)
             | Inr (batchIds, _) \<Rightarrow>
               go_bind (retry_batches e hash (set batchIds) proposedBlocks) (\<lambda>retry.
                 Inr (case retry of Inl err \<Rightarrow> Inl err | Inr batchRetry \<Rightarrow> Inr ([], batchRetry, batchIds))))
         else
           (let keepTxs = tx_TxId ` set (bk_Txs block);
                others = filter (\<lambda>b. \<not> bytes_Equal (hd_BlockHash (bk_Header b)) hash) proposedBlocks
            in Inr (Inr (filter (\<lambda>tx. tx_TxId tx \<notin> keepTxs) (concat (map bk_Txs others)), [], []))))"

definition add_committed :: "coreEnv \<Rightarrow> Block_core \<Rightarrow> Block_core \<Rightarrow> rwSetMap \<Rightarrow> eventMap \<Rightarrow> coreState \<Rightarrow> (coreError option \<times> coreState) go" where
  "add_committed e block commitBlock rw events c =
     (let height = blockHeight block
      in go_bind (CommitBlock e commitBlock rw events c) (\<lambda>(commitErr, blockInfo, c1).
         go_bind (syncWithTxPool e commitBlock height c1) (\<lambda>pool.
           case pool of Inl err \<Rightarrow> Inr (Some err, c1)
           | Inr (txRetry, batchRetry, batchIds) \<Rightarrow>
             (let c2 = (if cf_batchPool e then emit_core (RetryAndRemoveBatches batchRetry batchIds) c1
                        else RetryAndRemoveTxs txRetry (bk_Txs commitBlock) c1);
                  c3 = c2\<lparr>cr_proposals := ClearProposedBlockAt height (cr_proposals c2)\<rparr>;
                  c4 = emit_core (BlockInfoMsg blockInfo) c3
              in case (if cf_ConsensusType e = ConsensusType_MAXBFT then cu_UnmarshalGovernance e (hd_ConsensusArgs (bk_Header block))
                       else Some None) of
                   None \<Rightarrow> Inr (Some ErrGovernance, c4)
                 | Some governance \<Rightarrow>
                   (let c5 = (case governance of None \<Rightarrow> c4 | Some g \<Rightarrow> emit_core (GovernanceMsg g) c4)
                    in if cf_monitor e \<and> blockInfo = None then Inl NilDeref else Inr (None, c5))))))"

definition add_block :: "coreEnv \<Rightarrow> Block_core \<Rightarrow> coreState \<Rightarrow> (coreError option \<times> coreState) go" where
  "add_block e block c =
     (case isBlockLegal e block c of Some err \<Rightarrow> Inr (Some err, c)
      | None \<Rightarrow>
        go_bind (case GetProposedBlock (cu_fps e) block (cr_proposals c) of
                   Some found \<Rightarrow> Inr (Inr found, c) | None \<Rightarrow> checkLastProposedBlock e block c) (\<lambda>(found, c1).
          case found of Inl err \<Rightarrow> Inr (Some err, c1)
          | Inr (lastProposed, rw, events) \<Rightarrow>
            go_bind (getCommittedBlock e lastProposed block) (\<lambda>commitBlock.
              add_committed e block commitBlock rw events c1)))"

definition AddBlock :: "coreEnv \<Rightarrow> Block_core \<Rightarrow> coreState \<Rightarrow> (coreError option \<times> coreState) go" where
  "AddBlock e block c =
     go_bind (add_block e block c) (\<lambda>(err, c1).
       if err = None \<or> err = Some ErrBlockHadBeenCommited then Inr (err, c1)
       else (case RollBack e block c1 of (True, c2) \<Rightarrow> Inr (err, c2) | (False, _) \<Rightarrow> Inl RollBackFailed))"

end
