(* ===== verification/Core_Laws.thy ===== *)
theory Core_Laws
  imports Block_Committer
begin

section \<open>What verification and commitment change\<close>

text \<open>
  The verifier changes neither the ledger nor the store and keeps the proposal cache in order; the
  committer appends at most one block, which extends the last one.
\<close>

subsection \<open>Frames\<close>

definition same_core :: "coreState \<Rightarrow> coreState \<Rightarrow> bool" where
  "same_core c c' \<longleftrightarrow> cr_ledger c' = cr_ledger c \<and> cr_chain c' = cr_chain c \<and> cr_proposals c' = cr_proposals c \<and> cr_locks c' = cr_locks c"

definition same_ledger :: "fingerprints \<Rightarrow> coreState \<Rightarrow> coreState \<Rightarrow> bool" where
  "same_ledger fps c c' \<longleftrightarrow> cr_ledger c' = cr_ledger c \<and> cr_chain c' = cr_chain c \<and>
     (cache_inv fps (cr_proposals c) \<longrightarrow> cache_inv fps (cr_proposals c'))"

lemma same_core_simps [simp]:
  "same_core c c" "same_core c (emit_core o1 c') \<longleftrightarrow> same_core c c'" "same_core c (c'\<lparr>cr_snapshots := m\<rparr>) \<longleftrightarrow> same_core c c'"
  "same_core c (publish_failed mode b rw failed c') \<longleftrightarrow> same_core c c'" "same_core c (snd (RollBack e b c')) \<longleftrightarrow> same_core c c'"
  "same_core c (RetryAndRemoveTxs xs ys c') \<longleftrightarrow> same_core c c'"
  by (auto simp: same_core_def emit_core_def publish_failed_def RollBack_def RetryAndRemoveTxs_def)

lemma same_core_trans: "same_core a b \<Longrightarrow> same_core b c \<Longrightarrow> same_core a c"
  by (simp add: same_core_def)

lemma same_ledger_refl [simp]: "same_ledger fps c c"
  by (simp add: same_ledger_def)

lemma same_ledger_trans: "same_ledger fps a b \<Longrightarrow> same_ledger fps b c \<Longrightarrow> same_ledger fps a c"
  by (simp add: same_ledger_def)

lemma same_core_ledger: "same_core c c' \<Longrightarrow> same_ledger fps c c'"
  by (simp add: same_core_def same_ledger_def)

lemma same_ledger_simps [simp]:
  "same_ledger fps c (emit_core o1 c') \<longleftrightarrow> same_ledger fps c c'" "same_ledger fps c (c'\<lparr>cr_locks := l\<rparr>) \<longleftrightarrow> same_ledger fps c c'"
  "same_ledger fps (c\<lparr>cr_locks := l\<rparr>) c' \<longleftrightarrow> same_ledger fps c c'"
  "same_ledger fps c (RetryAndRemoveTxs xs ys c') \<longleftrightarrow> same_ledger fps c c'"
  "same_ledger fps c (c'\<lparr>cr_snapshots := m\<rparr>) \<longleftrightarrow> same_ledger fps c c'" "same_ledger fps (c\<lparr>cr_snapshots := m\<rparr>) c' \<longleftrightarrow> same_ledger fps c c'"
  "same_ledger fps c (publish_failed mode b rw failed c') \<longleftrightarrow> same_ledger fps c c'"
  "same_ledger fps c (snd (RollBack e b c')) \<longleftrightarrow> same_ledger fps c c'"
  by (auto simp: same_ledger_def emit_core_def RetryAndRemoveTxs_def publish_failed_def RollBack_def)

subsection \<open>The verifier\<close>

lemma invalid_frame: "invalid err c = Inr ((rw, events, failed, err1), c') \<Longrightarrow> c' = c \<and> err1 = Some err"
  by (auto simp: invalid_def)

lemma ValidateBlock_frame:
  assumes "ValidateBlock e block lastBlock mode c = Inr ((rw, events, failed, err), c')"
  shows "same_core c c'"
    and "err = None \<Longrightarrow> IsBlockHashValid e block (cf_Hash e) = None \<and> cu_VerifyBlockSig e (cf_Hash e) block = Some True"
  using assms
  by (auto simp: ValidateBlock_def Let_def invalid_def elim!: go_bind_InrE
      split: if_split_asm option.split_asm prod.split_asm sum.split_asm)

lemma validateBlock_frame:
  assumes "validateBlock e block lastBlock mode c = Inr ((rw, events, failed, err), c')"
  shows "same_core c c'"
    and "err = None \<Longrightarrow> IsBlockHashValid e block (cf_Hash e) = None \<and> cu_VerifyBlockSig e (cf_Hash e) block = Some True \<and>
      CheckPreBlock block (hd_BlockHash (bk_Header lastBlock)) (blockHeight lastBlock) = None"
  using assms ValidateBlock_frame
  by (auto simp: validateBlock_def Let_def dest!: invalid_frame split: if_split_asm option.split_asm)

lemma validateBlock_ledger:
  "validateBlock e block lastBlock mode c = Inr ((rw, events, failed, err), c') \<Longrightarrow> same_ledger (cu_fps e) c c'"
  by (rule same_core_ledger [OF validateBlock_frame(1)])

lemma validateBlockWithRWSets_ok:
  assumes "validateBlockWithRWSets e block lastBlock rws = Inr (events, None)"
  shows "IsBlockHashValid e block (cf_Hash e) = None" "cu_VerifyBlockSig e (cf_Hash e) block = Some True"
    "CheckPreBlock block (hd_BlockHash (bk_Header lastBlock)) (blockHeight lastBlock) = None"
  using assms
  by (auto simp: validateBlockWithRWSets_def ValidateBlockWithRWSets_def Let_def elim!: go_bind_InrE
      split: option.split_asm bool.split_asm)

lemma cutBlocks_frame: "cutBlocks e bs b c = Inr c' \<Longrightarrow> same_core c c'"
  by (auto simp: cutBlocks_def cutBlocksForBatchPool_def Let_def elim!: go_bind_InrE split: if_split_asm sum.split_asm prod.split_asm)

lemma verifyRepeat_frame:
  assumes "verifyRepeat e block mode c = Inr (isRepeat, c')"
  shows "same_ledger (cu_fps e) c c'" and "\<not> isRepeat \<Longrightarrow> c' = c"
    and "isRepeat \<Longrightarrow> GetProposedBlock (cu_fps e) block (cr_proposals c) \<noteq> None"
proof -
  show "same_ledger (cu_fps e) c c'"
    using assms
    by (auto simp: verifyRepeat_def Let_def case_prod_unfold same_ledger_def same_core_def emit_core_def
        elim!: go_bind_InrE dest!: cutBlocks_frame intro: cache_inv_KeepProposedBlock split: option.split_asm if_split_asm)
  show "\<not> isRepeat \<Longrightarrow> c' = c" "isRepeat \<Longrightarrow> GetProposedBlock (cu_fps e) block (cr_proposals c) \<noteq> None"
    using assms by (auto simp: verifyRepeat_def Let_def case_prod_unfold elim!: go_bind_InrE split: option.split_asm if_split_asm)
qed

lemma accept_block_frame:
  assumes "accept_block e mode publish newBlock batchIds rw events c = (err, c')"
  shows "same_ledger (cu_fps e) c c'"
    and "err = None \<Longrightarrow> mode = SYNC_VERIFY \<Longrightarrow> cn_VerifyBlockSignatures e newBlock"
proof -
  obtain r pc where sp: "SetProposedBlock (cu_fps e) (cr_ledger c) newBlock rw events False (cr_proposals c) = (r, pc)" by force
  then have "cache_inv (cu_fps e) (cr_proposals c) \<Longrightarrow> cache_inv (cu_fps e) pc"
    using cache_inv_SetProposedBlock [of "cu_fps e" "cr_proposals c" "cr_ledger c" newBlock rw events False] by simp
  then have "same_ledger (cu_fps e) c (c\<lparr>cr_proposals := pc\<rparr>)" by (simp add: same_ledger_def)
  then show "same_ledger (cu_fps e) c c'"
    using assms sp by (auto simp: accept_block_def Let_def split: if_split_asm option.split_asm)
  show "err = None \<Longrightarrow> mode = SYNC_VERIFY \<Longrightarrow> cn_VerifyBlockSignatures e newBlock"
    using assms by (auto simp: accept_block_def split: if_split_asm)
qed

text \<open>A block that the verifier accepts and that was not verified before is valid and extends its predecessor.\<close>

definition well_verified :: "coreEnv \<Rightarrow> VerifyMode \<Rightarrow> Block_core \<Rightarrow> Block_core \<Rightarrow> bool" where
  "well_verified e mode lastBlock block \<longleftrightarrow>
     (\<exists>hash. cu_CalcBlockHash e (cf_Hash e) block = Some hash \<and> bytes_Equal hash (hd_BlockHash (bk_Header block))) \<and>
     cu_VerifyBlockSig e (cf_Hash e) block = Some True \<and>
     blockHeight block = blockHeight lastBlock + 1 \<and> bytes_Equal (hd_BlockHash (bk_Header lastBlock)) (hd_PreBlockHash (bk_Header block)) \<and>
     (mode = SYNC_VERIFY \<longrightarrow> cn_VerifyBlockSignatures e block)"

lemma verify_new_frame:
  assumes "verify_new e mode block c = Inr (err, c')"
  shows "same_ledger (cu_fps e) c c'"
    and "err = None \<Longrightarrow> \<exists>lastBlock newBlock batchIds. FetchLastBlock (cr_ledger c) (cr_proposals c) block = Inr lastBlock \<and>
      RecoverBlock e mode block = Inr (Inr (newBlock, batchIds)) \<and> well_verified e mode lastBlock newBlock"
proof -
  show "same_ledger (cu_fps e) c c'"
    using assms
    by (auto simp: verify_new_def Let_def elim!: go_bind_InrE
        dest!: validateBlock_ledger accept_block_frame(1)
        split: sum.split_asm prod.split_asm option.split_asm if_split_asm) (erule same_ledger_trans, assumption)+
  show "\<exists>lastBlock newBlock batchIds. FetchLastBlock (cr_ledger c) (cr_proposals c) block = Inr lastBlock \<and>
      RecoverBlock e mode block = Inr (Inr (newBlock, batchIds)) \<and> well_verified e mode lastBlock newBlock" if "err = None"
    using assms that
    by (fastforce simp: verify_new_def Let_def well_verified_def CheckPreBlock_None IsBlockHashValid_None elim!: go_bind_InrE
        dest!: validateBlock_frame(2) accept_block_frame(2)
        split: sum.split_asm prod.split_asm option.split_asm if_split_asm)
qed

lemma verify_new_rwsets_frame:
  assumes "verify_new_rwsets e mode block rws c = Inr (err, c')"
  shows "same_ledger (cu_fps e) c c'"
  using assms
  by (auto simp: verify_new_rwsets_def Let_def elim!: go_bind_InrE dest!: accept_block_frame(1) intro: same_core_ledger
      split: sum.split_asm prod.split_asm option.split_asm if_split_asm)

lemma with_lock_frame:
  assumes "with_lock block body c = Inr (err, c')" and "\<And>c1 err1 c2. body c1 = Inr (err1, c2) \<Longrightarrow> same_ledger fps c1 c2"
  shows "same_ledger fps c c'"
  using assms(1) by (auto simp: with_lock_def Let_def elim!: go_bind_InrE dest!: assms(2) split: prod.split_asm bool.split_asm)

lemma VerifyBlock_frame: "VerifyBlock e block mode c = Inr (err, c') \<Longrightarrow> same_ledger (cu_fps e) c c'"
  unfolding VerifyBlock_def
  by (auto elim!: with_lock_frame go_bind_InrE dest!: verifyRepeat_frame(1) verify_new_frame(1)
      intro: same_ledger_trans split: if_split_asm prod.split_asm)

lemma VerifyBlockWithRwSets_frame: "VerifyBlockWithRwSets e block rws mode c = Inr (err, c') \<Longrightarrow> same_ledger (cu_fps e) c c'"
  unfolding VerifyBlockWithRwSets_def
  by (auto elim!: with_lock_frame go_bind_InrE dest!: verifyRepeat_frame(1) verify_new_rwsets_frame
      intro: same_ledger_trans split: if_split_asm prod.split_asm)

subsection \<open>The committer\<close>

lemma notify_events_frame [simp]: "same_core c (notify_events events c') \<longleftrightarrow> same_core c c'"
  by (induction events arbitrary: c') (auto split: option.split)

lemma NotifyMessage_frame: "same_core c (NotifyMessage e block events c)"
  by (simp add: NotifyMessage_def split: list.split)

text \<open>One more block in the store, which is the last committed one.\<close>

definition appended :: "fingerprints \<Rightarrow> Block_core \<Rightarrow> coreState \<Rightarrow> coreState \<Rightarrow> bool" where
  "appended fps b c c' \<longleftrightarrow> cr_chain c' = cr_chain c @ [b] \<and> GetLastCommittedBlock (cr_ledger c') = Some b \<and>
     (cache_inv fps (cr_proposals c) \<longrightarrow> cache_inv fps (cr_proposals c'))"

lemma appended_simps [simp]:
  "appended fps b c (emit_core o1 c') \<longleftrightarrow> appended fps b c c'" "appended fps b c (RetryAndRemoveTxs xs ys c') \<longleftrightarrow> appended fps b c c'"
  "appended fps b c (snd (RollBack e b' c')) \<longleftrightarrow> appended fps b c c'"
  by (auto simp: appended_def emit_core_def RetryAndRemoveTxs_def RollBack_def)

lemma CommitBlock_appended:
  assumes "CommitBlock e block rw events c = Inr (err, info, c')"
  shows "appended fps block c c'" and "cr_proposals c' = cr_proposals c"
    and "err = None \<longleftrightarrow> info \<noteq> None"
proof -
  let ?c1 = "if hd_BlockVersion (bk_Header block) \<ge> blockVersion230 then NotifyMessage e block (rearrangeContractEvent block events) c else c"
  have c1: "same_core c ?c1" by (simp add: NotifyMessage_frame)
  then show "appended fps block c c'" "cr_proposals c' = cr_proposals c"
    using assms
    by (auto simp: CommitBlock_def Let_def appended_def same_core_def emit_core_def publishContractEvent_def SetLastCommittedBlock_def
        GetLastCommittedBlock_def split: if_split_asm option.split_asm)
  show "err = None \<longleftrightarrow> info \<noteq> None"
    using assms by (auto simp: CommitBlock_def Let_def split: if_split_asm option.split_asm dest: sym)
qed

lemma add_committed_appended:
  assumes "add_committed e block b rw events c = Inr (err, c')"
  shows "appended fps b c c'"
proof -
  obtain err1 info c1 where c1: "CommitBlock e b rw events c = Inr (err1, info, c1)" "appended fps b c c1"
    using assms CommitBlock_appended(1) by (auto simp: add_committed_def Let_def elim!: go_bind_InrE)
  have "appended fps b c (c2\<lparr>cr_proposals := ClearProposedBlockAt h (cr_proposals c2)\<rparr>)" if "appended fps b c c2" for c2 h
    using that cache_inv_ClearProposedBlockAt by (simp add: appended_def)
  then show ?thesis
    using assms c1
    by (auto simp: add_committed_def Let_def elim!: go_bind_InrE split: sum.split_asm prod.split_asm if_split_asm option.split_asm)
qed

lemma getCommittedBlock_header:
  assumes "getCommittedBlock e lastProposed block = Inr b"
  shows "bk_Header b = bk_Header block \<or> bk_Header b = bk_Header lastProposed" and "bk_Txs b = bk_Txs lastProposed"
    and "IfOpenConsensusMessageTurbo e = Inr False \<Longrightarrow> bk_Header b = bk_Header lastProposed"
  using assms by (auto simp: getCommittedBlock_def Let_def elim!: go_bind_InrE split: if_split_asm option.split_asm)

lemma isBlockLegal_None:
  assumes "isBlockLegal e block c = None"
  shows "\<exists>lastBlock. GetLastCommittedBlock (cr_ledger c) = Some lastBlock \<and> blockHeight block = blockHeight lastBlock + 1 \<and>
    blockHeight lastBlock < blockHeight block \<and> bytes_Equal (hd_PreBlockHash (bk_Header block)) (hd_BlockHash (bk_Header lastBlock))"
  using assms by (auto simp: isBlockLegal_def split: option.split_asm if_split_asm)

text \<open>
  What is assumed of the fingerprints, which are computed outside the repository: blocks with the
  same fingerprint have the same hash of the block before.
\<close>

definition fp_ok :: "fingerprints \<Rightarrow> bool" where
  "fp_ok fps \<longleftrightarrow> (\<forall>b b'. CalcBlockFingerPrint fps b = CalcBlockFingerPrint fps b' \<longrightarrow>
     bytes_Equal (hd_PreBlockHash (bk_Header b)) (hd_PreBlockHash (bk_Header b')))"

definition extends :: "Block_core \<Rightarrow> Block_core \<Rightarrow> bool" where
  "extends lastBlock b \<longleftrightarrow> blockHeight b = blockHeight lastBlock + 1 \<and> blockHeight lastBlock < blockHeight b \<and>
     bytes_Equal (hd_PreBlockHash (bk_Header b)) (hd_BlockHash (bk_Header lastBlock))"

lemma checkLastProposedBlock_frame:
  assumes "checkLastProposedBlock e block c = Inr (found, c1)"
  shows "same_ledger (cu_fps e) c c1" and "found = Inr f \<Longrightarrow> GetProposedBlock (cu_fps e) block (cr_proposals c1) = Some f"
  using assms by (auto simp: checkLastProposedBlock_def elim!: go_bind_InrE dest!: VerifyBlock_frame split: option.split_asm)

lemma add_block_cases:
  assumes "add_block e block c = Inr (err, c')" and "fp_ok (cu_fps e)" and "cache_inv (cu_fps e) (cr_proposals c)"
  shows "err \<noteq> None \<and> same_ledger (cu_fps e) c c' \<or>
    (\<exists>lastBlock b. GetLastCommittedBlock (cr_ledger c) = Some lastBlock \<and> extends lastBlock b \<and> blockHeight b = blockHeight block \<and>
      appended (cu_fps e) b c c')"
proof (cases "isBlockLegal e block c")
  case None
  let ?get = "\<lambda>c. GetProposedBlock (cu_fps e) block (cr_proposals c)"
  let ?find = "case ?get c of Some found \<Rightarrow> Inr (Inr found, c) | None \<Rightarrow> checkLastProposedBlock e block c"
  let ?rest = "\<lambda>(found, c1). case found of Inl err \<Rightarrow> Inr (Some err, c1) | Inr (lastProposed, rw, events) \<Rightarrow>
      go_bind (getCommittedBlock e lastProposed block) (\<lambda>commitBlock. add_committed e block commitBlock rw events c1)"
  have "go_bind ?find ?rest = Inr (err, c')" using assms(1) None by (simp add: add_block_def)
  then obtain q where q: "?find = Inr q" "?rest q = Inr (err, c')" by (rule go_bind_InrE)
  obtain found c1 where "q = (found, c1)" by (cases q)
  then have f: "?find = Inr (found, c1)" and rest: "?rest (found, c1) = Inr (err, c')" using q by simp_all
  have sl: "same_ledger (cu_fps e) c c1" and got: "\<And>x. found = Inr x \<Longrightarrow> ?get c1 = Some x"
    using f checkLastProposedBlock_frame(1) [of e block c found c1] checkLastProposedBlock_frame(2) [of e block c found c1]
    by (cases "?get c", simp, simp)+
  show ?thesis
  proof (cases found)
    case (Inr x)
    obtain lastProposed rw events where x: "x = (lastProposed, rw, events)" by (cases x)
    have "go_bind (getCommittedBlock e lastProposed block) (\<lambda>commitBlock. add_committed e block commitBlock rw events c1) = Inr (err, c')"
      using rest Inr x by simp
    then obtain b where b: "getCommittedBlock e lastProposed block = Inr b" "add_committed e block b rw events c1 = Inr (err, c')"
      by (rule go_bind_InrE)
    have "cache_inv (cu_fps e) (cr_proposals c1)" using sl assms(3) by (simp add: same_ledger_def)
    note filed = GetProposedBlock_filed [OF this got [OF Inr, unfolded x]]
    have "bytes_Equal (hd_PreBlockHash (bk_Header lastProposed)) (hd_PreBlockHash (bk_Header block))"
      using assms(2) filed(1) unfolding fp_ok_def by blast
    then have same: "bytes_Equal (hd_PreBlockHash (bk_Header b)) (hd_PreBlockHash (bk_Header block))" "blockHeight b = blockHeight block"
      using getCommittedBlock_header(1) [OF b(1)] filed(2) by auto
    obtain lastBlock where l: "GetLastCommittedBlock (cr_ledger c) = Some lastBlock" "extends lastBlock b"
      using isBlockLegal_None [OF None] same by (auto simp: extends_def intro: bytes_Equal_trans)
    have "appended (cu_fps e) b c1 c'" by (rule add_committed_appended [OF b(2)])
    then have "appended (cu_fps e) b c c'" using sl by (simp add: appended_def same_ledger_def)
    then show ?thesis using l same(2) by blast
  next
    case (Inl err1)
    then have "err = Some err1" "c' = c1" using rest by simp_all
    then show ?thesis using sl by simp
  qed
next
  case (Some err1)
  then have "err = Some err1" "c' = c" using assms(1) by (simp_all add: add_block_def)
  then show ?thesis by simp
qed

lemma AddBlock_cases:
  assumes "AddBlock e block c = Inr (err, c')" and "fp_ok (cu_fps e)" and "cache_inv (cu_fps e) (cr_proposals c)"
  shows "err \<noteq> None \<and> same_ledger (cu_fps e) c c' \<or>
    (\<exists>lastBlock b. GetLastCommittedBlock (cr_ledger c) = Some lastBlock \<and> extends lastBlock b \<and> blockHeight b = blockHeight block \<and>
      appended (cu_fps e) b c c')"
proof -
  obtain c1 where c1: "add_block e block c = Inr (err, c1)" "c' = c1 \<or> c' = snd (RollBack e block c1)"
    using assms(1) by (auto simp: AddBlock_def elim!: go_bind_InrE split: if_split_asm prod.split_asm bool.split_asm)
  from add_block_cases [OF c1(1) assms(2,3)] c1(2) show ?thesis by auto
qed

end
