(* ===== verification/Core_Claims.thy ===== *)
theory Core_Claims
  imports Core_Laws
begin

section \<open>Properties of the core engine\<close>

text \<open>
  The runs of the core engine: verifications of proposed and of synchronised blocks, additions of
  blocks, and the operations of the proposer on the proposal cache, in any order. The environment
  (answers, configuration, clock) may differ from step to step; the fingerprints are fixed.
\<close>

inductive core_reach :: "fingerprints \<Rightarrow> Block_core \<Rightarrow> coreState \<Rightarrow> bool" for fps genesis where
  cr_start: "core_reach fps genesis \<lparr>cr_ledger = SetLastCommittedBlock (Some genesis) (NewLedgerCache chainId),
    cr_proposals = NewProposalCache, cr_snapshots = m, cr_locks = {}, cr_chain = [genesis], cr_outs = []\<rparr>"
| cr_verify: "core_reach fps genesis c \<Longrightarrow> cu_fps e = fps \<Longrightarrow> VerifyBlock e block mode c = Inr (err, c') \<Longrightarrow> core_reach fps genesis c'"
| cr_verify_rwsets: "core_reach fps genesis c \<Longrightarrow> cu_fps e = fps \<Longrightarrow> VerifyBlockWithRwSets e block rws mode c = Inr (err, c') \<Longrightarrow>
    core_reach fps genesis c'"
| cr_add: "core_reach fps genesis c \<Longrightarrow> cu_fps e = fps \<Longrightarrow> AddBlock e block c = Inr (err, c') \<Longrightarrow> core_reach fps genesis c'"
| cr_propose: "core_reach fps genesis c \<Longrightarrow>
    pc \<in> {snd (SetProposedBlock fps (cr_ledger c) block rw events True (cr_proposals c)), ClearProposedBlockAt height (cr_proposals c),
      ClearTheBlock fps block (cr_proposals c), SetProposedAt height (cr_proposals c), ResetProposedAt height (cr_proposals c),
      snd (KeepProposedBlock fps hash height (cr_proposals c)), snd (DiscardBlocks height (cr_proposals c))} \<Longrightarrow>
    core_reach fps genesis (c\<lparr>cr_proposals := pc\<rparr>)"

definition core_inv :: "fingerprints \<Rightarrow> Block_core \<Rightarrow> coreState \<Rightarrow> bool" where
  "core_inv fps genesis c \<longleftrightarrow> cache_inv fps (cr_proposals c) \<and> cr_chain c \<noteq> [] \<and> hd (cr_chain c) = genesis \<and>
     GetLastCommittedBlock (cr_ledger c) = Some (last (cr_chain c)) \<and>
     (\<forall>i. Suc i < length (cr_chain c) \<longrightarrow> extends (cr_chain c ! i) (cr_chain c ! Suc i))"

lemma core_inv_same: "core_inv fps genesis c \<Longrightarrow> same_ledger fps c c' \<Longrightarrow> core_inv fps genesis c'"
  by (simp add: core_inv_def same_ledger_def)

lemma core_inv_appended:
  assumes "core_inv fps genesis c" and "appended fps b c c'" and "extends (last (cr_chain c)) b"
  shows "core_inv fps genesis c'"
proof -
  have "extends (cr_chain c' ! i) (cr_chain c' ! Suc i)" if "Suc i < length (cr_chain c')" for i
  proof (cases "Suc i = length (cr_chain c)")
    case True
    then have "i < length (cr_chain c)" "i = length (cr_chain c) - 1" by simp_all
    moreover have "last (cr_chain c) = cr_chain c ! (length (cr_chain c) - 1)"
      using assms(1) by (intro last_conv_nth) (simp add: core_inv_def)
    ultimately have "cr_chain c' ! i = last (cr_chain c)" using assms(2) by (simp add: appended_def nth_append)
    then show ?thesis using True assms(2,3) by (simp add: appended_def)
  next
    case False
    then show ?thesis using assms(1,2) that by (simp add: core_inv_def appended_def nth_append)
  qed
  then show ?thesis using assms(1,2) by (auto simp: core_inv_def appended_def)
qed

lemma core_reach_inv:
  assumes "core_reach fps genesis c" and "fp_ok fps"
  shows "core_inv fps genesis c"
  using assms(1)
proof (induction rule: core_reach.induct)
  case (cr_start chainId m)
  then show ?case by (simp add: core_inv_def cache_inv_new SetLastCommittedBlock_def GetLastCommittedBlock_def)
next
  case (cr_verify c e block mode err c')
  then show ?case using VerifyBlock_frame core_inv_same by blast
next
  case (cr_verify_rwsets c e block rws mode err c')
  then show ?case using VerifyBlockWithRwSets_frame core_inv_same by blast
next
  case (cr_add c e block err c')
  then have "cache_inv (cu_fps e) (cr_proposals c)" "GetLastCommittedBlock (cr_ledger c) = Some (last (cr_chain c))"
    by (simp_all add: core_inv_def)
  with AddBlock_cases [OF cr_add(3)] cr_add(2) assms(2)
  have "same_ledger fps c c' \<or> (\<exists>b. extends (last (cr_chain c)) b \<and> appended fps b c c')" by auto
  then show ?case using cr_add.IH core_inv_same core_inv_appended by blast
next
  case (cr_propose c pc block rw events height hash)
  then have "cache_inv fps (cr_proposals c)" by (simp add: core_inv_def)
  then have "cache_inv fps pc" using cr_propose(2) cache_inv_intros by (auto simp: SetProposedAt_def ResetProposedAt_def)
  then show ?case using cr_propose.IH by (simp add: core_inv_def)
qed

subsection \<open>A chain of two blocks\<close>

definition ex_core_fps :: fingerprints where
  "ex_core_fps = \<lparr>CalcBlockFingerPrint = (\<lambda>b. bytes_content (hd_PreBlockHash (bk_Header b))),
     CalcBlockFingerPrintWithoutTx = (\<lambda>b. bytes_content (hd_PreBlockHash (bk_Header b))),
     CalcFingerPrint = (\<lambda>_ _ _ _ preHash _ _ _. bytes_content preHash)\<rparr>"

lemma ex_core_fps_ok: "fp_ok ex_core_fps"
  by (simp add: fp_ok_def ex_core_fps_def bytes_Equal_def)

definition ex_env :: coreEnv where
  "ex_env = \<lparr>cu_fps = ex_core_fps, cu_CalcBlockHash = (\<lambda>_ b. Some (hd_BlockHash (bk_Header b))), cu_GetMerkleRoot = (\<lambda>_ _. Some None),
     cu_CalcDagHash = (\<lambda>_ _. Some None), cu_CalcRWSetRoot = (\<lambda>_ _. Some None), cu_VerifyBlockSig = (\<lambda>_ _. Some True),
     cu_IsEmptyBlock = (\<lambda>_. False), cu_CanProposeEmptyBlock = (\<lambda>_. True), cu_IsNativeTx = (\<lambda>_. True), cu_HasDPosTxWrites = (\<lambda>_. False),
     cu_RearrangeRWSet = (\<lambda>_ _. []), cu_UnmarshalTxBatchInfo = (\<lambda>_. None), cu_UnmarshalGovernance = (\<lambda>_. Some None),
     cf_Hash = ''SHA256'', cf_ConsensusType = 1, cf_BlockTimestampVerify = False, cf_BlockTimeout = 10, cf_BlockTxCapacity = 100,
     cf_EnableGas = None, cf_Core = Some \<lparr>kc_EnableOptimizeChargeGas = False, kc_ConsensusTurboConfig = None\<rparr>, cf_EnableSqlSupport = False,
     cf_batchPool = False, cf_txFilter = False, cf_sqlStore = False, cf_monitor = False, cn_now = 0,
     cn_store = \<lparr>st_ReadObject = (\<lambda>c k. Some None), st_ReadObjects = (\<lambda>c ks. Some (map (\<lambda>_. None) ks)),
       st_LastBlock = None, st_LastChainConfig = Some ''cfg''\<rparr>,
     cn_GetProposerId = (\<lambda>_. None), cn_GetAllTxsByTxIds = (\<lambda>_ _ _. None), cn_GetAllTxsByBatchIds = (\<lambda>_ _ _. None),
     cn_SimulateWithDag = (\<lambda>_ _ m. (Some ([], []), m)), cn_EventsOf = (\<lambda>_. Some []), cn_verifierTxs = (\<lambda>_ _ _ _. Inr []),
     cn_verifierTxsWithRWSet = (\<lambda>_ _ _. Some []), cn_VerifyOptimizeChargeGasTx = (\<lambda>_ _ _. True), cn_VerifyBlockSignatures = (\<lambda>_. True),
     cn_CompleteBlock = (\<lambda>_. False), cn_PutBlock = (\<lambda>_. True), cn_AddsAndSetHeight = (\<lambda>_ _. True), cn_RollBack = (\<lambda>_. True)\<rparr>"

definition ex_block :: "u64 \<Rightarrow> u32 \<Rightarrow> gobytes \<Rightarrow> gobytes \<Rightarrow> Transaction list \<Rightarrow> Block_core" where
  "ex_block height version preHash hash txs = \<lparr>bk_Header = \<lparr>hd_ChainId = ''c'', hd_BlockHeight = height, hd_BlockVersion = version,
     hd_BlockTimestamp = 0, hd_Proposer = None, hd_PreBlockHash = preHash, hd_TxRoot = None, hd_DagHash = None, hd_RwSetRoot = None,
     hd_BlockHash = hash, hd_BlockType = 0, hd_TxCount = 0, hd_PreConfHeight = 0, hd_ConsensusArgs = None, hd_Signature = None\<rparr>,
     bk_Txs = txs, bk_Dag = Some \<lparr>Vertexes = []\<rparr>, bk_AdditionalData = Some Map.empty\<rparr>"

definition ex_tx :: "string \<Rightarrow> Transaction" where
  "ex_tx txId = \<lparr>tx_TxId = txId, tx_Result = None, tx_ContractName = ''A'', tx_Method = ''m'', tx_TxType = 0, tx_Rest = []\<rparr>"

definition ex_b0 :: Block_core where "ex_b0 = ex_block 0 2300 None (Some ''h0'') []"
definition ex_b1 :: Block_core where "ex_b1 = ex_block 1 2300 (Some ''h0'') (Some ''h1'') []"

text \<open>The state after the start, and the same with the block of height 1 as a proposal.\<close>

definition ex_start :: "ManagerImpl \<Rightarrow> coreState" where
  "ex_start m = \<lparr>cr_ledger = SetLastCommittedBlock (Some ex_b0) (NewLedgerCache ''c''),
    cr_proposals = NewProposalCache, cr_snapshots = m, cr_locks = {}, cr_chain = [ex_b0], cr_outs = []\<rparr>"

definition ex_proposed :: "Block_core \<Rightarrow> ManagerImpl \<Rightarrow> coreState" where
  "ex_proposed b m = (ex_start m)\<lparr>cr_proposals := [(1, [(bytes_content (hd_PreBlockHash (bk_Header b)),
     \<lparr>bp_block = b, bp_rwSetMap = None, bp_contractEventInfoMap = None, bp_isSelfProposed = True, bp_hasProposedThisRound = True\<rparr>)])]\<rparr>"

lemmas ex_core_simps = ex_proposed_def ex_start_def ex_b0_def ex_b1_def ex_block_def ex_env_def ex_core_fps_def ex_tx_def
  NewProposalCache_def NewLedgerCache_def SetLastCommittedBlock_def GetLastCommittedBlock_def CurrentHeight_def proposals_at_def
  GetProposedBlock_def bytes_Equal_def

lemma ex_proposed_reach: "core_reach ex_core_fps ex_b0 (ex_proposed ex_b1 m)"
proof -
  have "core_reach ex_core_fps ex_b0 (ex_start m)" unfolding ex_start_def by (rule cr_start)
  moreover have "cr_proposals (ex_proposed ex_b1 m) =
      snd (SetProposedBlock ex_core_fps (cr_ledger (ex_start m)) ex_b1 None None True (cr_proposals (ex_start m)))"
    by (simp add: SetProposedBlock_def ex_core_simps)
  ultimately have "core_reach ex_core_fps ex_b0 ((ex_start m)\<lparr>cr_proposals := cr_proposals (ex_proposed ex_b1 m)\<rparr>)"
    by (intro cr_propose) auto
  then show ?thesis by (simp add: ex_proposed_def)
qed

lemmas ex_add_simps = AddBlock_def add_block_def isBlockLegal_def getCommittedBlock_def IfOpenConsensusMessageTurbo_def
  add_committed_def CommitBlock_def syncWithTxPool_def NotifyMessage_def NotifyChainConf_def publishContractEvent_def
  rearrangeContractEvent_def RetryAndRemoveTxs_def emit_core_def ConsensusType_MAXBFT_def blockVersion230_def Let_def

lemma ex_b1_added: "\<exists>c'. AddBlock ex_env ex_b1 (ex_proposed ex_b1 m) = Inr (None, c') \<and> cr_chain c' = [ex_b0, ex_b1]"
  by (simp add: ex_add_simps ex_core_simps)

definition ex_old :: Block_core where "ex_old = ex_block 1 2201 (Some ''h0'') (Some ''h1'') [ex_tx ''t'']"

lemma ex_old_added: "\<exists>c'. AddBlock ex_env ex_old (ex_proposed ex_old m) = Inr (None, c')"
  by (simp add: ex_add_simps ex_core_simps ex_old_def)

subsection \<open>The chain\<close>

text \<open>
  C3: the blocks that the core engine has put into the store are a chain: each has the height after
  the one before, and carries its hash. This holds in every run, whatever blocks are offered by
  consensus, by synchronisation and by the proposer, if the fingerprint of a block determines the
  hash of the block before.
\<close>

theorem committed_chain_linked:
  assumes "core_reach fps genesis c" and "fp_ok fps" and "Suc i < length (cr_chain c)"
  shows "hd_BlockHeight (bk_Header (cr_chain c ! Suc i)) = hd_BlockHeight (bk_Header (cr_chain c ! i)) + 1 \<and>
    bytes_Equal (hd_PreBlockHash (bk_Header (cr_chain c ! Suc i))) (hd_BlockHash (bk_Header (cr_chain c ! i))) \<and>
    GetLastCommittedBlock (cr_ledger c) = Some (last (cr_chain c)) \<and> cr_chain c ! 0 = genesis"
proof -
  have inv: "core_inv fps genesis c" by (rule core_reach_inv [OF assms(1,2)])
  then have "extends (cr_chain c ! i) (cr_chain c ! Suc i)" "cr_chain c \<noteq> []" "hd (cr_chain c) = genesis"
      "GetLastCommittedBlock (cr_ledger c) = Some (last (cr_chain c))"
    using assms(3) unfolding core_inv_def by blast+
  then show ?thesis by (simp add: extends_def hd_conv_nth)
qed

theorem committed_chain_linked_witness:
  "\<exists>c. core_reach ex_core_fps ex_b0 c \<and> length (cr_chain c) = 2 \<and>
    hd_BlockHeight (bk_Header (cr_chain c ! 1)) = hd_BlockHeight (bk_Header (cr_chain c ! 0)) + 1"
proof -
  obtain m :: ManagerImpl where True by simp
  obtain c' where c': "AddBlock ex_env ex_b1 (ex_proposed ex_b1 m) = Inr (None, c')" "cr_chain c' = [ex_b0, ex_b1]"
    using ex_b1_added by blast
  have r: "core_reach ex_core_fps ex_b0 c'"
    by (rule cr_add [OF ex_proposed_reach _ c'(1)]) (simp add: ex_env_def)
  from committed_chain_linked [OF this ex_core_fps_ok, of 0] c'(2) show ?thesis by (intro exI [of _ c'] conjI r) simp_all
qed

text \<open>
  C30: the check of the votes is skipped for a block that is in the proposal cache: a proposal that
  the node has verified, and on which consensus has not decided, is accepted as a synchronised block
  whatever votes it carries, and then committed.
\<close>

theorem undecided_block_committed:
  assumes "GetProposedBlock (cu_fps e) block (cr_proposals c) = Some (block, rw, events)" and "\<not> cn_VerifyBlockSignatures e block"
    and "isBlockLegal e block c = None" and "bk_AdditionalData block = Some extra"
    and "\<not> cu_IsEmptyBlock e block" and "cr_locks c = {}" and "cf_ConsensusType e \<noteq> ConsensusType_SOLO"
    and "GetProposedBlockByHashAndHeight (hd_PreBlockHash (bk_Header block)) (hd_BlockHeight (bk_Header block) - 1) (cr_proposals c) = None"
    and "IfOpenConsensusMessageTurbo e = Inr False" and "cn_PutBlock e = (\<lambda>_. True)" and "\<not> cf_txFilter e" and "\<not> cf_batchPool e"
    and "cf_ConsensusType e \<noteq> ConsensusType_MAXBFT" and "hd_BlockVersion (bk_Header block) \<ge> blockVersion230"
  shows "\<exists>c' b. VerifyBlock e block SYNC_VERIFY c = Inr (None, c) \<and> AddBlock e block c = Inr (None, c') \<and>
    GetLastCommittedBlock (cr_ledger c') = Some b \<and> bk_Header b = bk_Header block"
proof -
  let ?key = "bytes_content (hd_BlockHash (bk_Header block))"
  have r: "verifyRepeat e block SYNC_VERIFY (c\<lparr>cr_locks := {?key}\<rparr>) = Inr (True, c\<lparr>cr_locks := {?key}\<rparr>)"
    using assms(1,7,8) by (simp add: verifyRepeat_def)
  have "c\<lparr>cr_locks := {}\<rparr> = c" using assms(6) by simp
  then have v: "VerifyBlock e block SYNC_VERIFY c = Inr (None, c)"
    using assms(5,6) r by (simp add: VerifyBlock_def with_lock_def Lock_def Unlock_def Let_def)
  obtain b where b: "getCommittedBlock e block block = Inr b" "bk_Header b = bk_Header block"
    using assms(4,9) by (auto simp: getCommittedBlock_def Let_def)
  have "\<not> hd_BlockVersion (bk_Header b) < blockVersion230" using assms(14) b(2) by simp
  then obtain info c1 where c1: "CommitBlock e b rw events c = Inr (None, Some info, c1)"
    using assms(10,11) by (simp add: CommitBlock_def Let_def)
  then obtain c' where a: "add_committed e block b rw events c = Inr (None, c')"
    using assms(12,13) by (auto simp: add_committed_def syncWithTxPool_def Let_def)
  have "AddBlock e block c = Inr (None, c')" using a b assms(1,3) by (simp add: AddBlock_def add_block_def)
  moreover have "GetLastCommittedBlock (cr_ledger c') = Some b"
    using add_committed_appended [OF a] by (simp add: appended_def)
  ultimately show ?thesis using v b(2) by blast
qed

theorem undecided_block_committed_witness:
  "\<exists>c' b. AddBlock (ex_env\<lparr>cn_VerifyBlockSignatures := \<lambda>_. False\<rparr>) ex_b1 (ex_proposed ex_b1 (NewSnapshotManager (\<lambda>_. undefined))) = Inr (None, c') \<and>
    GetLastCommittedBlock (cr_ledger c') = Some b \<and> bk_Header b = bk_Header ex_b1"
  using undecided_block_committed [of "ex_env\<lparr>cn_VerifyBlockSignatures := \<lambda>_. False\<rparr>" ex_b1 "ex_proposed ex_b1 (NewSnapshotManager (\<lambda>_. undefined))" None None Map.empty]
  by (force simp: isBlockLegal_def GetProposedBlockByHashAndHeight_def IfOpenConsensusMessageTurbo_def ConsensusType_SOLO_def
      ConsensusType_MAXBFT_def blockVersion230_def ex_core_simps)

text \<open>
  An error of the configuration is lost: when a verified block before version 2.3.0 is added and
  the chain configuration rejects it, \<open>AddBlock\<close> has put it into the store, returns no error, and
  publishes a nil block.
\<close>

theorem configuration_error_lost:
  assumes "AddBlock e block c = Inr (None, c')" and "GetProposedBlock (cu_fps e) block (cr_proposals c) = Some (lastProposed, rw, events)"
    and "getCommittedBlock e lastProposed block = Inr b" and "hd_BlockVersion (bk_Header b) < blockVersion230"
    and "NotifyChainConf e b \<noteq> None" and "cf_ConsensusType e \<noteq> ConsensusType_MAXBFT"
  shows "cr_chain c' = cr_chain c @ [b] \<and> last (cr_outs c') = BlockInfoMsg None"
proof -
  have "add_block e block c = Inr (None, c')"
    using assms(1) by (auto simp: AddBlock_def elim!: go_bind_InrE split: if_split_asm prod.split_asm bool.split_asm)
  then have a: "add_committed e block b rw events c = Inr (None, c')"
    using assms(2,3) by (auto simp: add_block_def split: option.split_asm)
  then obtain err info c1 where c1: "CommitBlock e b rw events c = Inr (err, info, c1)"
    by (auto simp: add_committed_def Let_def elim!: go_bind_InrE)
  have "info = None" using c1 assms(4,5) by (auto simp: CommitBlock_def Let_def split: if_split_asm option.split_asm)
  then have "last (cr_outs c') = BlockInfoMsg None"
    using a assms(6) c1 by (auto simp: add_committed_def Let_def emit_core_def elim!: go_bind_InrE split: sum.split_asm if_split_asm)
  then show ?thesis using add_committed_appended [OF a] by (simp add: appended_def)
qed

theorem configuration_error_lost_witness:
  "\<exists>c'. AddBlock ex_env ex_old (ex_proposed ex_old (NewSnapshotManager (\<lambda>_. undefined))) = Inr (None, c') \<and>
    last (cr_outs c') = BlockInfoMsg None"
proof -
  let ?c = "ex_proposed ex_old (NewSnapshotManager (\<lambda>_. undefined))"
  obtain c' where c': "AddBlock ex_env ex_old ?c = Inr (None, c')" using ex_old_added by blast
  have "GetProposedBlock (cu_fps ex_env) ex_old (cr_proposals ?c) = Some (ex_old, None, None)"
    "getCommittedBlock ex_env ex_old ex_old = Inr ex_old" "hd_BlockVersion (bk_Header ex_old) < blockVersion230"
    "NotifyChainConf ex_env ex_old \<noteq> None" "cf_ConsensusType ex_env \<noteq> ConsensusType_MAXBFT"
    by (simp_all add: ex_core_simps ex_old_def ex_add_simps)
  from configuration_error_lost [OF c' this] c' show ?thesis by blast
qed

end
