(* ===== verification/Sync_Types.thy ===== *)
theory Sync_Types
  imports Core_Claims
begin

section \<open>Block synchronisation: messages, events and routines (module/sync)\<close>

text \<open>
  The messages that the nodes exchange, the events of the scheduler and the processor with their
  priorities (\<open>event.go\<close>), the list of known nodes (\<open>node_list.go\<close>), the configuration
  (\<open>conf.go\<close>) and the goroutine that serves a queue of events (\<open>routine.go\<close>).

  A time is a number of nanoseconds since 1970, and a duration a number of nanoseconds. The
  priority queue and the encoding of messages are outside the repository.
\<close>

subsection \<open>Time\<close>

definition time_zero :: int where
  "time_zero = - 62135596800 * 1000000000"

text \<open>\<open>time.Since\<close>, which stays at the ends of the range of a duration.\<close>

definition Since :: "int \<Rightarrow> int \<Rightarrow> int" where
  "Since now t = max (- (2 ^ 63)) (min (2 ^ 63 - 1) (now - t))"

definition Second :: int where "Second = 1000000000"
definition Millisecond :: int where "Millisecond = 1000000"

subsection \<open>Messages\<close>

datatype SyncMsg_MsgType = SyncMsg_NODE_STATUS_REQ | SyncMsg_NODE_STATUS_RESP | SyncMsg_BLOCK_SYNC_REQ | SyncMsg_BLOCK_SYNC_RESP | SyncMsg_Other i32

record SyncMsg =
  sm_Type :: SyncMsg_MsgType
  sm_Payload :: gobytes

record BlockHeightBCM =
  bcm_BlockHeight :: u64
  bcm_ArchivedHeight :: u64

record BlockSyncReq =
  rq_BlockHeight :: u64
  rq_BatchSize :: u64
  rq_WithRwset :: bool

text \<open>A received block may be missing, or have no header.\<close>

datatype netBlock = NilBlock | NoHeader | NetBlock Block_core

record BlockInfo =
  bi_Block :: netBlock
  bi_RwsetList :: "TxRWSet option list"

datatype SyncData = NoData | BlockBatch "netBlock list" | BlockinfoBatch "BlockInfo list"

record SyncBlockBatch =
  sb_Data :: SyncData
  sb_WithRwset :: bool

definition net_block :: "netBlock \<Rightarrow> Block_core go" where
  "net_block b = (case b of NetBlock blk \<Rightarrow> Inr blk | _ \<Rightarrow> Inl NilDeref)"

lemma net_block_Inr [simp]: "net_block b = Inr blk \<longleftrightarrow> b = NetBlock blk"
  by (cases b) (simp_all add: net_block_def)

subsection \<open>Events\<close>

datatype blockState = newBlock | pendingBlock | receivedBlock

datatype processedBlockStatus = status_ok | dbErr | addErr | hasProcessed | validateFailed

datatype syncEvent =
    SyncedBlockMsg gobytes string
  | NodeStatusMsg BlockHeightBCM string
  | SchedulerMsg
  | LivenessMsg
  | ReceivedBlockInfos SyncBlockBatch string
  | ProcessBlockMsg
  | DataDetection
  | ProcessedBlockResp u64 processedBlockStatus string
  | StopSyncMsg
  | StartSyncMsg

definition priorityTop :: int where "priorityTop = 3"
definition priorityMiddle :: int where "priorityMiddle = 2"
definition priorityLow :: int where "priorityLow = 1"

fun Level :: "syncEvent \<Rightarrow> int" where
  "Level (SyncedBlockMsg _ _) = priorityMiddle"
| "Level (NodeStatusMsg _ _) = priorityLow"
| "Level SchedulerMsg = priorityLow"
| "Level LivenessMsg = priorityLow"
| "Level (ReceivedBlockInfos _ _) = priorityTop"
| "Level ProcessBlockMsg = priorityTop"
| "Level DataDetection = priorityLow"
| "Level (ProcessedBlockResp _ _ _) = priorityTop"
| "Level StopSyncMsg = priorityLow"
| "Level StartSyncMsg = priorityLow"

definition Compare :: "syncEvent \<Rightarrow> syncEvent \<Rightarrow> int" where
  "Compare parent other = (if Level parent < Level other then 1 else if Level parent = Level other then 0 else - 1)"

text \<open>
  The priority queue gives out an item that is not greater than another one; events of one level
  come out in any order.
\<close>

definition takeable :: "syncEvent \<Rightarrow> syncEvent list \<Rightarrow> bool" where
  "takeable e q \<longleftrightarrow> e \<in> set q \<and> list_all (\<lambda>x. Compare e x \<le> 0) q"

lemma takeable_Level: "takeable e q \<longleftrightarrow> e \<in> set q \<and> (\<forall>x \<in> set q. Level x \<le> Level e)"
  by (force simp: takeable_def Compare_def list_all_iff)

lemma takeable_exists: "q \<noteq> [] \<Longrightarrow> \<exists>e. takeable e q"
proof (induction q)
  case (Cons x q)
  show ?case
  proof (cases "q = []")
    case False
    then obtain e where "takeable e q" using Cons.IH by blast
    then have "takeable e (x # q) \<or> takeable x (x # q)" by (force simp: takeable_Level)
    then show ?thesis by blast
  qed (auto simp: takeable_Level)
qed simp

subsection \<open>Routines\<close>

record Routine =
  ro_start :: bool
  ro_queue :: "syncEvent list"
  ro_out :: "syncEvent option"

definition NewRoutine :: Routine where
  "NewRoutine = \<lparr>ro_start = False, ro_queue = [], ro_out = None\<rparr>"

text \<open>\<open>begin\<close> fails when the routine runs; \<open>end\<close> disposes of the queue.\<close>

definition routine_begin :: "Routine \<Rightarrow> bool \<times> Routine" where
  "routine_begin r = (if ro_start r then (False, r) else (True, r\<lparr>ro_start := True\<rparr>))"

definition addTask :: "syncEvent \<Rightarrow> Routine \<Rightarrow> Routine" where
  "addTask event r = (if \<not> ro_start r then r else r\<lparr>ro_queue := ro_queue r @ [event]\<rparr>)"

definition routine_end :: "Routine \<Rightarrow> Routine" where
  "routine_end r = (if ro_start r then r\<lparr>ro_start := False, ro_queue := [], ro_out := None\<rparr> else r)"

lemma addTask_simps [simp]:
  "ro_start (addTask e r) = ro_start r" "ro_out (addTask e r) = ro_out r"
  "set (ro_queue (addTask e r)) = (if ro_start r then insert e (set (ro_queue r)) else set (ro_queue r))"
  by (auto simp: addTask_def)

subsection \<open>The list of nodes\<close>

record NodeState =
  ns_NodeId :: string
  ns_Height :: u64
  ns_ArchivedHeight :: u64
  ns_ReceiveTime :: int

type_synonym NodeList = "(string \<times> NodeState) list"

definition NewNodeList :: NodeList where "NewNodeList = []"

definition AddNode :: "int \<Rightarrow> string \<Rightarrow> u64 \<Rightarrow> u64 \<Rightarrow> NodeList \<Rightarrow> NodeList" where
  "AddNode now nodeId height archived nl =
     AList.update nodeId \<lparr>ns_NodeId = nodeId, ns_Height = height, ns_ArchivedHeight = archived, ns_ReceiveTime = now div Second\<rparr> nl"

definition GetAll :: "NodeList \<Rightarrow> NodeState list" where
  "GetAll nl = map snd nl"

subsection \<open>The configuration\<close>

record BlockSyncServerConf =
  bc_timeOut :: int
  bc_reqTimeThreshold :: int
  bc_processBlockTick :: int
  bc_livenessTick :: int
  bc_schedulerTick :: int
  bc_nodeStatusTick :: int
  bc_dataDetectionTick :: int
  bc_blockRequestTime :: int
  bc_blockPoolSize :: u64
  bc_batchSizeFromOneNode :: u64
  bc_minLagThreshold :: u64
  bc_minLagThresholdTime :: int
  bc_preferenceNodes :: "string list"
  bc_broadcastStatusPerBlocksCommitted :: i64

definition bufferSize :: u64 where "bufferSize = 128"

definition NewBlockSyncServerConf :: BlockSyncServerConf where
  "NewBlockSyncServerConf = \<lparr>bc_timeOut = 30 * Second, bc_reqTimeThreshold = 1 * Second, bc_processBlockTick = 20 * Millisecond,
     bc_livenessTick = 1 * Second, bc_schedulerTick = 20 * Millisecond, bc_nodeStatusTick = 2 * Second, bc_dataDetectionTick = 60 * Second,
     bc_blockRequestTime = 5 * Second, bc_blockPoolSize = bufferSize, bc_batchSizeFromOneNode = 1, bc_minLagThreshold = 5,
     bc_minLagThresholdTime = 3 * Second, bc_preferenceNodes = [], bc_broadcastStatusPerBlocksCommitted = 3\<rparr>"

end
