(* ===== verification/Sync_Scheduler.thy ===== *)
theory Sync_Scheduler
  imports Sync_Types
begin

section \<open>The scheduler of block synchronisation (module/sync/scheduler.go)\<close>

text \<open>
  The scheduler asks other nodes for the blocks that this node lacks. The record \<open>syncEnv\<close> holds
  what a handler gets from outside: the clock, random numbers, the encoding of messages, whether a
  goroutine listens for the signal that the node has caught up, and the ledger. The result of a
  handler is the event for the other routine, the error, the new state and what was sent.
\<close>

record syncEnv =
  se_now :: int
  se_listening :: bool
  se_rand :: "nat \<Rightarrow> nat option"
  se_FastSync :: bool
  se_MarshalMsg :: "SyncMsg \<Rightarrow> gobytes option"
  se_UnmarshalMsg :: "gobytes \<Rightarrow> SyncMsg option"
  se_MarshalReq :: "BlockSyncReq \<Rightarrow> gobytes option"
  se_UnmarshalReq :: "gobytes \<Rightarrow> BlockSyncReq option"
  se_MarshalBCM :: "BlockHeightBCM \<Rightarrow> gobytes option"
  se_UnmarshalBCM :: "gobytes \<Rightarrow> BlockHeightBCM option"
  se_MarshalBatch :: "SyncBlockBatch \<Rightarrow> gobytes option"
  se_UnmarshalBatch :: "gobytes \<Rightarrow> SyncBlockBatch option"
  se_SendMsg :: "gobytes \<Rightarrow> string \<Rightarrow> bool"
  se_GetBlock :: "u64 \<Rightarrow> Block_core option option"
  se_GetBlockWithRWSets :: "u64 \<Rightarrow> (Block_core \<times> TxRWSet option list) option option"
  se_ArchivedPivot :: u64

datatype syncOut = NetSend gobytes string | NetBroadcast gobytes | MinLagReached

datatype syncError = ErrMarshal | ErrUnmarshal | ErrDb | ErrAddBlock | ErrNetSend | ErrStore | ErrLedger | ErrNotStarted | ErrMsgType | ErrStarted

record scheduler =
  peers :: "(string \<times> u64) list"
  blockStates :: "(u64 \<times> blockState) list"
  pendingTime :: "(u64 \<times> int) list"
  pendingBlocks :: "(u64 \<times> string) list"
  receivedBlocks :: "(u64 \<times> string) list"
  lastRequest :: int
  pendingRecvHeight :: u64
  maxPendingBlocks :: u64
  BatchesizeInEachReq :: u64
  peerReqTimeout :: int
  reqTimeThreshold :: int
  startTime :: int
  thresholdTime :: int
  thresholdBlocks :: u64
  stopSyncBlock :: bool
  preferenceNodes :: "string list option"

definition newScheduler :: "syncEnv \<Rightarrow> LedgerCache \<Rightarrow> BlockSyncServerConf \<Rightarrow> scheduler option" where
  "newScheduler env lc conf =
     (case CurrentHeight lc of (_, Some err) \<Rightarrow> None
      | (currHeight, None) \<Rightarrow>
        Some \<lparr>peers = [], blockStates = [], pendingTime = [], pendingBlocks = [], receivedBlocks = [], lastRequest = time_zero,
          pendingRecvHeight = currHeight + 1, maxPendingBlocks = bc_blockPoolSize conf, BatchesizeInEachReq = bc_batchSizeFromOneNode conf,
          peerReqTimeout = bc_timeOut conf, reqTimeThreshold = bc_reqTimeThreshold conf, startTime = se_now env,
          thresholdTime = bc_minLagThresholdTime conf, thresholdBlocks = bc_minLagThreshold conf, stopSyncBlock = False,
          preferenceNodes = (if length (bc_preferenceNodes conf) > 0 then Some (bc_preferenceNodes conf) else None)\<rparr>)"

subsection \<open>The states of the peers\<close>

definition isPreferenceNode :: "scheduler \<Rightarrow> string \<Rightarrow> bool" where
  "isPreferenceNode sch nodeId = (case preferenceNodes sch of None \<Rightarrow> True | Some ns \<Rightarrow> nodeId \<in> set ns)"

definition isPeerArchivedTooHeight :: "u64 \<Rightarrow> u64 \<Rightarrow> bool" where
  "isPeerArchivedTooHeight localHeight peerArchivedHeight \<longleftrightarrow> peerArchivedHeight \<noteq> 0 \<and> localHeight \<le> peerArchivedHeight"

definition maxHeight :: "scheduler \<Rightarrow> u64" where
  "maxHeight sch = fold (\<lambda>(_, height) m. if m < height then height else m) (peers sch) 0"

definition receiveMajorityBlocks :: "syncEnv \<Rightarrow> LedgerCache \<Rightarrow> scheduler \<Rightarrow> syncOut list" where
  "receiveMajorityBlocks env lc sch =
     (if Since (se_now env) (startTime sch) < thresholdTime sch then []
      else if stopSyncBlock sch then []
      else if maxHeight sch - fst (CurrentHeight lc) > thresholdBlocks sch then []
      else if se_listening env then [MinLagReached] else [])"

lemma unat_next:
  assumes "i < (bound :: u64)"
  shows "unat (i + 1) = Suc (unat i) \<and> Suc (unat i) \<le> unat bound"
proof -
  have "unat i < unat bound" "unat bound < 2 ^ 64" using assms unsigned_less [of bound] by (simp_all add: word_less_nat_alt)
  then show ?thesis by (simp add: unat_word_ariths(1))
qed

text \<open>The loop over the heights from the next one; its bound is computed once, and may wrap around.\<close>

function pending_loop :: "u64 \<Rightarrow> u64 \<Rightarrow> u64 \<Rightarrow> u64 \<Rightarrow> (u64 \<times> blockState) list \<Rightarrow> (u64 \<times> blockState) list" where
  "pending_loop i peerHeight bound maxPending states =
     (if i \<le> peerHeight \<and> i < bound then
        if map_of states i = None then
          if int (length states) > sint maxPending then states
          else pending_loop (i + 1) peerHeight bound maxPending (AList.update i newBlock states)
        else pending_loop (i + 1) peerHeight bound maxPending states
      else states)"
  by pat_completeness auto

termination
  by (relation "measure (\<lambda>(i, peerHeight, bound, maxPending, states). unat bound - unat i)") (auto dest!: unat_next)

declare pending_loop.simps [simp del]

definition addPendingBlocksAndUpdatePendingHeight :: "LedgerCache \<Rightarrow> u64 \<Rightarrow> scheduler \<Rightarrow> scheduler go" where
  "addPendingBlocksAndUpdatePendingHeight lc peerHeight sch =
     (if word_of_nat (length (blockStates sch)) \<ge> maxPendingBlocks sch then Inr sch
      else
        go_bind (deref (GetLastCommittedBlock lc)) (\<lambda>blk.
          if blockHeight blk \<ge> peerHeight then Inr sch
          else Inr (sch\<lparr>blockStates := pending_loop (pendingRecvHeight sch) peerHeight (pendingRecvHeight sch + maxPendingBlocks sch)
                       (maxPendingBlocks sch) (blockStates sch)\<rparr>)))"

definition handleNodeStatus :: "syncEnv \<Rightarrow> LedgerCache \<Rightarrow> BlockHeightBCM \<Rightarrow> string \<Rightarrow> scheduler \<Rightarrow> (scheduler \<times> syncOut list) go" where
  "handleNodeStatus env lc msg from sch =
     (let localCurrBlk = deref (GetLastCommittedBlock lc);
          tooHigh = go_bind localCurrBlk (\<lambda>b. Inr (isPeerArchivedTooHeight (blockHeight b) (bcm_ArchivedHeight msg)))
      in if \<not> isPreferenceNode sch from then Inr (sch, [])
         else
           go_bind (case map_of (peers sch) from of None \<Rightarrow> Inr False
                    | Some old \<Rightarrow> if old > bcm_BlockHeight msg then Inr True else tooHigh) (\<lambda>outdated.
             if outdated then Inr (sch\<lparr>peers := AList.delete from (peers sch)\<rparr>, [])
             else
               (let outs = receiveMajorityBlocks env lc sch
                in go_bind tooHigh (\<lambda>ignored.
                     if ignored then Inr (sch, outs)
                     else
                       go_bind (addPendingBlocksAndUpdatePendingHeight lc (bcm_BlockHeight msg)
                           (sch\<lparr>peers := AList.update from (bcm_BlockHeight msg) (peers sch)\<rparr>)) (\<lambda>sch1. Inr (sch1, outs))))))"

subsection \<open>Checks of the records\<close>

definition clearLaggingRequest :: "u64 \<Rightarrow> scheduler \<Rightarrow> scheduler" where
  "clearLaggingRequest curHeight sch =
     (let gone = {height \<in> fst ` set (blockStates sch). height < curHeight};
          states = filter (\<lambda>(h, _). h \<notin> gone) (blockStates sch)
      in sch\<lparr>blockStates := (if map_of states (curHeight + 1) = None then AList.update (curHeight + 1) newBlock states else states),
           pendingBlocks := filter (\<lambda>(h, _). h \<notin> gone) (pendingBlocks sch),
           receivedBlocks := filter (\<lambda>(h, _). h \<notin> gone) (receivedBlocks sch),
           pendingTime := filter (\<lambda>(h, _). h \<notin> gone) (pendingTime sch),
           pendingRecvHeight := curHeight + 1\<rparr>)"

definition sch_handleDataDetection :: "LedgerCache \<Rightarrow> scheduler \<Rightarrow> scheduler go" where
  "sch_handleDataDetection lc sch =
     go_bind (deref (GetLastCommittedBlock lc)) (\<lambda>blk. Inr (clearLaggingRequest (blockHeight blk) sch))"

definition handleLivinessMsg :: "syncEnv \<Rightarrow> LedgerCache \<Rightarrow> scheduler \<Rightarrow> scheduler" where
  "handleLivinessMsg env lc sch =
     (let h = pendingRecvHeight sch
      in case map_of (pendingTime sch) h of None \<Rightarrow> sch
         | Some reqTime \<Rightarrow>
           if Since (se_now env) reqTime > peerReqTimeout sch then
             (let nodeId = (case map_of (pendingBlocks sch) h of None \<Rightarrow> '''' | Some p \<Rightarrow> p);
                  states = (case GetLastCommittedBlock lc of None \<Rightarrow> blockStates sch
                            | Some currBlk \<Rightarrow> if blockHeight currBlk < h then AList.update h newBlock (blockStates sch) else blockStates sch)
              in sch\<lparr>blockStates := states, peers := AList.delete nodeId (peers sch),
                   pendingTime := AList.delete h (pendingTime sch), pendingBlocks := AList.delete h (pendingBlocks sch)\<rparr>)
           else sch)"

definition sch_handleStopSyncMsg :: "scheduler \<Rightarrow> scheduler" where
  "sch_handleStopSyncMsg sch = sch\<lparr>stopSyncBlock := True, blockStates := [], pendingTime := [], pendingBlocks := [], receivedBlocks := []\<rparr>"

text \<open>No sender ever waits on the channel of the signal, so the receive in \<open>handleStartSyncMsg\<close> has no effect.\<close>

definition handleStartSyncMsg :: "scheduler \<Rightarrow> scheduler" where
  "handleStartSyncMsg sch = sch\<lparr>stopSyncBlock := False\<rparr>"

subsection \<open>Requests\<close>

definition nextHeightToReq :: "scheduler \<Rightarrow> u64 \<times> scheduler" where
  "nextHeightToReq sch =
     (let least = fold (\<lambda>(height, status) m. if m > height \<and> status = newBlock then height else m) (blockStates sch) (- 1)
      in if least = - 1 \<or> least < pendingRecvHeight sch
         then (- 1, sch\<lparr>blockStates := AList.delete least (blockStates sch)\<rparr>) else (least, sch))"

definition isNeedSync :: "syncEnv \<Rightarrow> LedgerCache \<Rightarrow> scheduler \<Rightarrow> (bool \<times> scheduler) go" where
  "isNeedSync env lc sch =
     (if stopSyncBlock sch then Inr (False, sch)
      else
        (case CurrentHeight lc of (_, Some err) \<Rightarrow> Inl ShouldNotHappen
         | (currHeight, None) \<Rightarrow>
           (let sch1 = (if currHeight \<ge> pendingRecvHeight sch then clearLaggingRequest currHeight sch else sch);
                highest = maxHeight sch1
            in Inr (currHeight + 1 < highest \<or>
                 currHeight + 1 = highest \<and> Since (se_now env) (lastRequest sch1) > reqTimeThreshold sch1, sch1))))"

definition getHeight :: "scheduler \<Rightarrow> u64 \<Rightarrow> string list" where
  "getHeight sch pendingHeight = map fst (filter (\<lambda>(_, height). height \<ge> pendingHeight) (peers sch))"

definition getPendingReqInPeer :: "scheduler \<Rightarrow> string \<Rightarrow> nat" where
  "getPendingReqInPeer sch peer = count_if (\<lambda>(_, nodeId). nodeId = peer) (pendingBlocks sch)"

definition randIntN :: "syncEnv \<Rightarrow> nat \<Rightarrow> nat" where
  "randIntN env n = (case se_rand env n of None \<Rightarrow> 0 | Some k \<Rightarrow> k)"

text \<open>The peers by the number of their open requests.\<close>

definition pendingReqInPeers :: "scheduler \<Rightarrow> string list \<Rightarrow> (nat \<times> string list) list" where
  "pendingReqInPeers sch ps =
     fold (\<lambda>p m. (let n = getPendingReqInPeer sch p
                  in AList.update n ((case map_of m n of None \<Rightarrow> [] | Some qs \<Rightarrow> qs) @ [p]) m)) ps []"

definition selectPeer :: "syncEnv \<Rightarrow> scheduler \<Rightarrow> u64 \<Rightarrow> string go" where
  "selectPeer env sch pendingHeight =
     (let ps = getHeight sch pendingHeight
      in if length ps = 0 then Inr ''''
         else
           (let groups = pendingReqInPeers sch ps;
                least = fold (\<lambda>(num, _) m. if m > num then num else m) groups (2 ^ 63 - 1);
                best = (case map_of groups least of None \<Rightarrow> [] | Some qs \<Rightarrow> qs)
            in if length best = 1 then index_at best 0 else index_at best (randIntN env (length best))))"

text \<open>The records of the requested heights.\<close>

function request_loop :: "u64 \<Rightarrow> u64 \<Rightarrow> u64 \<Rightarrow> string \<Rightarrow> int \<Rightarrow> scheduler \<Rightarrow> scheduler" where
  "request_loop i peerHeight bound peer now sch =
     (if i \<le> peerHeight \<and> i < bound then
        request_loop (i + 1) peerHeight bound peer now
          (sch\<lparr>blockStates := AList.update i pendingBlock (blockStates sch), pendingTime := AList.update i now (pendingTime sch),
             pendingBlocks := AList.update i peer (pendingBlocks sch)\<rparr>)
      else sch)"
  by pat_completeness auto

termination
  by (relation "measure (\<lambda>(i, peerHeight, bound, peer, now, sch). unat bound - unat i)") (auto dest!: unat_next)

declare request_loop.simps [simp del]

text \<open>The network gets the message when it can be encoded.\<close>

definition sendMsg :: "syncEnv \<Rightarrow> SyncMsg_MsgType \<Rightarrow> gobytes \<Rightarrow> string \<Rightarrow> syncError option \<times> syncOut list" where
  "sendMsg env msgType msg dest =
     (case se_MarshalMsg env \<lparr>sm_Type = msgType, sm_Payload = msg\<rparr> of None \<Rightarrow> (Some ErrMarshal, [])
      | Some bs \<Rightarrow> (if se_SendMsg env bs dest then None else Some ErrNetSend, [NetSend bs dest]))"

definition handleScheduleMsg :: "syncEnv \<Rightarrow> LedgerCache \<Rightarrow> scheduler \<Rightarrow> (syncError option \<times> scheduler \<times> syncOut list) go" where
  "handleScheduleMsg env lc sch =
     go_bind (isNeedSync env lc sch) (\<lambda>(need, sch1).
       if \<not> need then Inr (None, sch1, [])
       else
         (let (pendingHeight, sch2) = nextHeightToReq sch1
          in if pendingHeight = - 1 then Inr (None, sch2, [])
             else
               go_bind (selectPeer env sch2 pendingHeight) (\<lambda>peer.
                 if length peer = 0 then Inr (None, sch2, [])
                 else
                   (case se_MarshalReq env \<lparr>rq_BlockHeight = pendingHeight, rq_BatchSize = BatchesizeInEachReq sch2, rq_WithRwset = se_FastSync env\<rparr> of
                      None \<Rightarrow> Inr (Some ErrMarshal, sch2, [])
                    | Some bz \<Rightarrow>
                      (let sch3 = request_loop pendingHeight (map_get0 (map_of (peers sch2)) peer) (BatchesizeInEachReq sch2 + pendingHeight)
                             peer (se_now env) (sch2\<lparr>lastRequest := se_now env\<rparr>)
                       in Inr (None, sch3, snd (sendMsg env SyncMsg_BLOCK_SYNC_REQ bz peer)))))))"

subsection \<open>Responses\<close>

definition receive_block :: "string \<Rightarrow> Block_core \<Rightarrow> bool \<times> scheduler \<Rightarrow> bool \<times> scheduler" where
  "receive_block msgFrom blk acc =
     (let (needToProcess, sch) = acc; height = blockHeight blk;
          sch1 = sch\<lparr>pendingBlocks := AList.delete height (pendingBlocks sch), pendingTime := AList.delete height (pendingTime sch)\<rparr>
      in case map_of (blockStates sch) height of None \<Rightarrow> (needToProcess, sch1)
         | Some state \<Rightarrow>
           if state \<noteq> receivedBlock then
             (True, sch1\<lparr>blockStates := AList.update height receivedBlock (blockStates sch1),
                receivedBlocks := AList.update height msgFrom (receivedBlocks sch1)\<rparr>)
           else (needToProcess, sch1))"

fun updateSchedulerBySyncBlockBatch :: "string \<Rightarrow> netBlock list \<Rightarrow> bool \<times> scheduler \<Rightarrow> (bool \<times> scheduler) go" where
  "updateSchedulerBySyncBlockBatch msgFrom [] acc = Inr acc"
| "updateSchedulerBySyncBlockBatch msgFrom (b # bs) acc =
     go_bind (net_block b) (\<lambda>blk. updateSchedulerBySyncBlockBatch msgFrom bs (receive_block msgFrom blk acc))"

definition handleSyncedBlockMsg ::
    "syncEnv \<Rightarrow> gobytes \<Rightarrow> string \<Rightarrow> scheduler \<Rightarrow> (syncEvent option \<times> syncError option \<times> scheduler) go" where
  "handleSyncedBlockMsg env msg from sch =
     (if int (length (receivedBlocks sch)) > sint (maxPendingBlocks sch) then Inr (None, None, sch)
      else if stopSyncBlock sch then Inr (None, None, sch)
      else
        (case se_UnmarshalBatch env msg of None \<Rightarrow> Inr (None, Some ErrUnmarshal, sch)
         | Some blkBatch \<Rightarrow>
           go_bind (case sb_Data blkBatch of NoData \<Rightarrow> Inr (False, sch)
                    | BlockBatch bs \<Rightarrow> updateSchedulerBySyncBlockBatch from bs (False, sch)
                    | BlockinfoBatch infos \<Rightarrow> updateSchedulerBySyncBlockBatch from (map bi_Block infos) (False, sch)) (\<lambda>(needToProcess, sch1).
             Inr (if needToProcess then Some (ReceivedBlockInfos blkBatch from) else None, None, sch1))))"

definition handleProcessedBlockResp ::
    "u64 \<Rightarrow> processedBlockStatus \<Rightarrow> string \<Rightarrow> scheduler \<Rightarrow> syncError option \<times> scheduler" where
  "handleProcessedBlockResp height status from sch =
     (let sch1 = sch\<lparr>receivedBlocks := AList.delete height (receivedBlocks sch)\<rparr>;
          sch2 = (if status = status_ok \<or> status = hasProcessed then
                    sch1\<lparr>blockStates := AList.delete height (blockStates sch1),
                       pendingRecvHeight := (if height \<ge> pendingRecvHeight sch1 then height + 1 else pendingRecvHeight sch1)\<rparr>
                  else sch1);
          failed = sch2\<lparr>blockStates := AList.update height newBlock (blockStates sch2), peers := AList.delete from (peers sch2)\<rparr>
      in if status = validateFailed then (None, failed)
         else if status = dbErr then (Some ErrDb, sch2)
         else if status = addErr then (Some ErrAddBlock, failed)
         else (None, sch2))"

fun sch_handler :: "syncEnv \<Rightarrow> LedgerCache \<Rightarrow> syncEvent \<Rightarrow> scheduler \<Rightarrow> (syncEvent option \<times> syncError option \<times> scheduler \<times> syncOut list) go" where
  "sch_handler env lc (NodeStatusMsg msg from) sch =
     go_bind (handleNodeStatus env lc msg from sch) (\<lambda>(sch1, outs). Inr (None, None, sch1, outs))"
| "sch_handler env lc LivenessMsg sch = Inr (None, None, handleLivinessMsg env lc sch, [])"
| "sch_handler env lc SchedulerMsg sch =
     go_bind (handleScheduleMsg env lc sch) (\<lambda>(err, sch1, outs). Inr (None, err, sch1, outs))"
| "sch_handler env lc (SyncedBlockMsg msg from) sch =
     go_bind (handleSyncedBlockMsg env msg from sch) (\<lambda>(ret, err, sch1). Inr (ret, err, sch1, []))"
| "sch_handler env lc (ProcessedBlockResp height status from) sch =
     (let (err, sch1) = handleProcessedBlockResp height status from sch in Inr (None, err, sch1, []))"
| "sch_handler env lc DataDetection sch = go_bind (sch_handleDataDetection lc sch) (\<lambda>sch1. Inr (None, None, sch1, []))"
| "sch_handler env lc StopSyncMsg sch = Inr (None, None, sch_handleStopSyncMsg sch, [])"
| "sch_handler env lc StartSyncMsg sch = Inr (None, None, handleStartSyncMsg sch, [])"
| "sch_handler env lc _ sch = Inr (None, None, sch, [])"

end
