(* ===== verification/Sync_Processor.thy ===== *)
theory Sync_Processor
  imports Sync_Scheduler
begin

section \<open>The processor of block synchronisation (module/sync/processor.go)\<close>

text \<open>
  The processor keeps the received blocks by height and hands the next one to the verifier and the
  committer. These are an argument \<open>verifyAndAddBlock\<close>, over a state that has the ledger; the locale
  \<open>block_adder\<close> states what the processor relies on.
\<close>

record 'c verifyAndAddBlock =
  va_ledger :: "'c \<Rightarrow> LedgerCache"
  va_commit :: "Block_core \<Rightarrow> 'c \<Rightarrow> (processedBlockStatus \<times> 'c) go"
  va_commitRw :: "Block_core \<Rightarrow> TxRWSet option list \<Rightarrow> 'c \<Rightarrow> (processedBlockStatus \<times> 'c) go"

record blockWithPeerInfo =
  bw_id :: string
  bw_blk :: Block_core
  bw_withRWSets :: bool
  bw_rwsets :: "TxRWSet option list"

record processor =
  pr_queue :: "(u64 \<times> blockWithPeerInfo) list"
  hasCommitBlock :: u64
  maxHeightInQueue :: u64

definition newProcessor :: processor where
  "newProcessor = \<lparr>pr_queue = [], hasCommitBlock = 0, maxHeightInQueue = 0\<rparr>"

definition lastCommitBlockHeight :: "LedgerCache \<Rightarrow> u64 go" where
  "lastCommitBlockHeight lc = go_bind (deref (GetLastCommittedBlock lc)) (\<lambda>b. Inr (blockHeight b))"

definition enqueue_block :: "string \<Rightarrow> bool \<Rightarrow> u64 \<Rightarrow> Block_core \<Rightarrow> TxRWSet option list \<Rightarrow> processor \<Rightarrow> processor" where
  "enqueue_block from withRwset lastHeight blk rwsets pro =
     (let h = blockHeight blk
      in if h \<le> lastHeight then pro
         else if map_of (pr_queue pro) h = None then
           pro\<lparr>pr_queue := AList.update h \<lparr>bw_id = from, bw_blk = blk, bw_withRWSets = withRwset, bw_rwsets = rwsets\<rparr> (pr_queue pro),
             maxHeightInQueue := (if h > maxHeightInQueue pro then h else maxHeightInQueue pro)\<rparr>
         else pro)"

fun enqueue_blocks :: "string \<Rightarrow> bool \<Rightarrow> u64 \<Rightarrow> BlockInfo list \<Rightarrow> processor \<Rightarrow> processor go" where
  "enqueue_blocks from withRwset lastHeight [] pro = Inr pro"
| "enqueue_blocks from withRwset lastHeight (info # infos) pro =
     go_bind (net_block (bi_Block info)) (\<lambda>blk.
       enqueue_blocks from withRwset lastHeight infos (enqueue_block from withRwset lastHeight blk (bi_RwsetList info) pro))"

text \<open>Blocks of version 2.1 come without read and write sets.\<close>

definition batch_infos :: "SyncData \<Rightarrow> BlockInfo list" where
  "batch_infos d = (case d of NoData \<Rightarrow> [] | BlockBatch bs \<Rightarrow> map (\<lambda>b. \<lparr>bi_Block = b, bi_RwsetList = []\<rparr>) bs | BlockinfoBatch infos \<Rightarrow> infos)"

definition handleReceivedBlockInfos :: "LedgerCache \<Rightarrow> SyncBlockBatch \<Rightarrow> string \<Rightarrow> processor \<Rightarrow> processor go" where
  "handleReceivedBlockInfos lc batch from pro =
     go_bind (lastCommitBlockHeight lc) (\<lambda>lastHeight. enqueue_blocks from (sb_WithRwset batch) lastHeight (batch_infos (sb_Data batch)) pro)"

definition pro_handleStopSyncMsg :: "processor \<Rightarrow> processor" where
  "pro_handleStopSyncMsg pro = pro\<lparr>pr_queue := []\<rparr>"

definition handleProcessBlockMsg ::
    "syncEnv \<Rightarrow> 'c verifyAndAddBlock \<Rightarrow> processor \<Rightarrow> 'c \<Rightarrow> (syncEvent option \<times> processor \<times> 'c) go" where
  "handleProcessBlockMsg env v pro c =
     go_bind (lastCommitBlockHeight (va_ledger v c)) (\<lambda>lastHeight.
       (let pendingBlockHeight = lastHeight + 1
        in case map_of (pr_queue pro) pendingBlockHeight of None \<Rightarrow> Inr (None, pro, c)
           | Some info \<Rightarrow>
             go_bind (if bw_withRWSets info \<and> se_FastSync env then va_commitRw v (bw_blk info) (bw_rwsets info) c
                      else va_commit v (bw_blk info) c) (\<lambda>(status, c1).
               Inr (Some (ProcessedBlockResp (blockHeight (bw_blk info)) status (bw_id info)),
                 pro\<lparr>pr_queue := AList.delete pendingBlockHeight (pr_queue pro),
                   hasCommitBlock := (if status = status_ok \<or> status = hasProcessed then hasCommitBlock pro + 1 else hasCommitBlock pro)\<rparr>, c1))))"

definition pro_handleDataDetection :: "LedgerCache \<Rightarrow> processor \<Rightarrow> processor go" where
  "pro_handleDataDetection lc pro =
     go_bind (lastCommitBlockHeight lc) (\<lambda>lastHeight. Inr (pro\<lparr>pr_queue := filter (\<lambda>(h, _). \<not> h < lastHeight + 1) (pr_queue pro)\<rparr>))"

fun pro_handler :: "syncEnv \<Rightarrow> 'c verifyAndAddBlock \<Rightarrow> syncEvent \<Rightarrow> processor \<Rightarrow> 'c \<Rightarrow> (syncEvent option \<times> processor \<times> 'c) go" where
  "pro_handler env v (ReceivedBlockInfos batch from) pro c =
     go_bind (handleReceivedBlockInfos (va_ledger v c) batch from pro) (\<lambda>pro1. Inr (None, pro1, c))"
| "pro_handler env v ProcessBlockMsg pro c = handleProcessBlockMsg env v pro c"
| "pro_handler env v DataDetection pro c = go_bind (pro_handleDataDetection (va_ledger v c) pro) (\<lambda>pro1. Inr (None, pro1, c))"
| "pro_handler env v StopSyncMsg pro c = Inr (None, pro_handleStopSyncMsg pro, c)"
| "pro_handler env v _ pro c = Inr (None, pro, c)"

subsection \<open>The queue\<close>

text \<open>Every block waits under its own height.\<close>

definition queue_ok :: "processor \<Rightarrow> bool" where
  "queue_ok pro \<longleftrightarrow> (\<forall>(h, info) \<in> set (pr_queue pro). blockHeight (bw_blk info) = h)"

definition batch_heights :: "SyncBlockBatch \<Rightarrow> u64 set" where
  "batch_heights batch = {blockHeight blk |blk. NetBlock blk \<in> bi_Block ` set (batch_infos (sb_Data batch))}"

abbreviation queued :: "processor \<Rightarrow> u64 set" where
  "queued pro \<equiv> fst ` set (pr_queue pro)"

lemma queue_ok_new: "queue_ok newProcessor"
  by (simp add: queue_ok_def newProcessor_def)

lemma queue_ok_sub: "queue_ok pro \<Longrightarrow> set (pr_queue pro1) \<subseteq> set (pr_queue pro) \<Longrightarrow> queue_ok pro1"
  unfolding queue_ok_def by blast

lemma enqueue_block_queue:
  "queued (enqueue_block from w l blk rw pro) = queued pro \<union> (if l < blockHeight blk then {blockHeight blk} else {})"
  "queue_ok pro \<Longrightarrow> queue_ok (enqueue_block from w l blk rw pro)"
proof -
  show "queued (enqueue_block from w l blk rw pro) = queued pro \<union> (if l < blockHeight blk then {blockHeight blk} else {})"
  proof (cases "map_of (pr_queue pro) (blockHeight blk)")
    case None
    then show ?thesis by (auto simp: enqueue_block_def Let_def update_new)
  next
    case (Some info)
    then have "blockHeight blk \<in> queued pro" using map_of_SomeD by force
    then show ?thesis using Some by (simp add: enqueue_block_def Let_def insert_absorb)
  qed
  show "queue_ok pro \<Longrightarrow> queue_ok (enqueue_block from w l blk rw pro)"
    by (simp add: enqueue_block_def Let_def queue_ok_def update_new)
qed

lemma enqueue_blocks_queue:
  assumes "enqueue_blocks from w l infos pro = Inr pro1"
  shows "queued pro1 = queued pro \<union> {h \<in> {blockHeight blk |blk. NetBlock blk \<in> bi_Block ` set infos}. l < h} \<and>
    (queue_ok pro \<longrightarrow> queue_ok pro1)"
  using assms
proof (induction infos arbitrary: pro)
  case (Cons info infos)
  then obtain blk where blk: "bi_Block info = NetBlock blk"
      "enqueue_blocks from w l infos (enqueue_block from w l blk (bi_RwsetList info) pro) = Inr pro1"
    by (auto elim!: go_bind_InrE)
  from Cons.IH [OF blk(2)] show ?case
    unfolding enqueue_block_queue(1) using blk(1) enqueue_block_queue(2) [of pro "from" w l blk "bi_RwsetList info"] by auto
qed simp

lemma handleReceivedBlockInfos_queue:
  assumes "handleReceivedBlockInfos lc batch from pro = Inr pro1" and "GetLastCommittedBlock lc = Some b"
  shows "queued pro1 = queued pro \<union> {h \<in> batch_heights batch. blockHeight b < h}"
    and "queue_ok pro \<Longrightarrow> queue_ok pro1"
  using assms enqueue_blocks_queue [of "from" "sb_WithRwset batch" "blockHeight b" "batch_infos (sb_Data batch)" pro pro1]
  by (simp_all add: handleReceivedBlockInfos_def lastCommitBlockHeight_def batch_heights_def)

subsection \<open>The interface to the verifier and the committer\<close>

text \<open>
  There is a last block. What is added has the height after it, and is what was asked for; when the
  addition succeeds, the last block has the height of the given one. There is no status \<open>dbErr\<close>.
\<close>

locale block_adder =
  fixes v :: "'c verifyAndAddBlock" and good :: "'c \<Rightarrow> bool" and last_block :: "'c \<Rightarrow> Block_core"
  assumes last_block: "good c \<Longrightarrow> GetLastCommittedBlock (va_ledger v c) = Some (last_block c)"
    and commit: "good c \<Longrightarrow> va_commit v b c = Inr (st, c') \<Longrightarrow> good c' \<and> st \<noteq> dbErr \<and>
      (st = status_ok \<longrightarrow> blockHeight (last_block c') = blockHeight b) \<and>
      (last_block c' = last_block c \<or> extends (last_block c) (last_block c') \<and> blockHeight (last_block c') = blockHeight b)"
    and commitRw: "good c \<Longrightarrow> va_commitRw v b rw c = Inr (st, c') \<Longrightarrow> good c' \<and> st \<noteq> dbErr \<and>
      (st = status_ok \<longrightarrow> blockHeight (last_block c') = blockHeight b) \<and>
      (last_block c' = last_block c \<or> extends (last_block c) (last_block c') \<and> blockHeight (last_block c') = blockHeight b)"
begin

abbreviation lastHeight :: "'c \<Rightarrow> u64" where
  "lastHeight c \<equiv> blockHeight (last_block c)"

lemma process_some:
  assumes "good c" and "handleProcessBlockMsg env v pro c = Inr (ret, pro1, c1)" and "map_of (pr_queue pro) (lastHeight c + 1) = Some info"
  shows "\<exists>st. ret = Some (ProcessedBlockResp (blockHeight (bw_blk info)) st (bw_id info)) \<and> st \<noteq> dbErr \<and> good c1 \<and>
    pr_queue pro1 = AList.delete (lastHeight c + 1) (pr_queue pro) \<and>
    (st = status_ok \<longrightarrow> lastHeight c1 = blockHeight (bw_blk info)) \<and>
    (last_block c1 = last_block c \<or> extends (last_block c) (last_block c1))"
proof -
  from assms obtain st where st: "ret = Some (ProcessedBlockResp (blockHeight (bw_blk info)) st (bw_id info))"
      "pr_queue pro1 = AList.delete (lastHeight c + 1) (pr_queue pro)"
      "va_commitRw v (bw_blk info) (bw_rwsets info) c = Inr (st, c1) \<or> va_commit v (bw_blk info) c = Inr (st, c1)"
    by (auto simp: handleProcessBlockMsg_def lastCommitBlockHeight_def last_block Let_def elim!: go_bind_InrE split: if_split_asm)
  then show ?thesis using commit [OF assms(1)] commitRw [OF assms(1)] by blast
qed

lemma process_none:
  assumes "good c" and "handleProcessBlockMsg env v pro c = Inr (ret, pro1, c1)" and "map_of (pr_queue pro) (lastHeight c + 1) = None"
  shows "ret = None \<and> pro1 = pro \<and> c1 = c"
  using assms by (auto simp: handleProcessBlockMsg_def lastCommitBlockHeight_def last_block Let_def)

lemma handler_last_block:
  assumes "good c" and "pro_handler env v ev pro c = Inr (ret, pro1, c1)"
  shows "good c1" and "last_block c1 = last_block c \<or> extends (last_block c) (last_block c1)"
proof -
  consider "ev = ProcessBlockMsg" | "c1 = c" using assms(2) by (cases ev) (auto elim!: go_bind_InrE)
  then have "good c1 \<and> (last_block c1 = last_block c \<or> extends (last_block c) (last_block c1))"
  proof cases
    case 1
    then have "handleProcessBlockMsg env v pro c = Inr (ret, pro1, c1)" using assms(2) by simp
    then show ?thesis using process_some [OF assms(1)] process_none [OF assms(1)] assms(1)
      by (cases "map_of (pr_queue pro) (lastHeight c + 1)") blast+
  qed (use assms(1) in simp)
  then show "good c1" "last_block c1 = last_block c \<or> extends (last_block c) (last_block c1)" by blast+
qed

lemma handler_mono:
  assumes "good c" and "pro_handler env v ev pro c = Inr (ret, pro1, c1)"
  shows "lastHeight c \<le> lastHeight c1"
  using handler_last_block(2) [OF assms] by (auto simp: extends_def)

end

end
