(* ===== verification/Sync_Server.thy ===== *)
theory Sync_Server
  imports Sync_Processor
begin

section \<open>The synchronisation service (module/sync/blockchain_sync_server.go)\<close>

text \<open>
  The service answers the requests of other nodes, feeds the scheduler and the processor from
  timers and from the network, and carries the results of one to the other. Its state holds the two
  routines with their queues, and the scheduler and the processor that they serve.
\<close>

record BlockChainSyncServer =
  sv_start :: bool
  sv_conf :: BlockSyncServerConf
  sv_scheduler :: Routine
  sv_processor :: Routine
  sv_sch :: scheduler
  sv_pro :: processor
  requestCache :: "(string \<times> int) list"
  nodeList :: NodeList
  broadcastCh :: "u64 list"
  sv_outs :: "syncOut list"

definition emit_sync :: "syncOut list \<Rightarrow> BlockChainSyncServer \<Rightarrow> BlockChainSyncServer" where
  "emit_sync outs sv = sv\<lparr>sv_outs := sv_outs sv @ outs\<rparr>"

definition add_scheduler :: "syncEvent \<Rightarrow> BlockChainSyncServer \<Rightarrow> BlockChainSyncServer" where
  "add_scheduler ev sv = sv\<lparr>sv_scheduler := addTask ev (sv_scheduler sv)\<rparr>"

definition add_processor :: "syncEvent \<Rightarrow> BlockChainSyncServer \<Rightarrow> BlockChainSyncServer" where
  "add_processor ev sv = sv\<lparr>sv_processor := addTask ev (sv_processor sv)\<rparr>"

definition broadcastMsg :: "syncEnv \<Rightarrow> SyncMsg_MsgType \<Rightarrow> gobytes \<Rightarrow> BlockChainSyncServer \<Rightarrow> BlockChainSyncServer" where
  "broadcastMsg env msgType msg sv =
     (case se_MarshalMsg env \<lparr>sm_Type = msgType, sm_Payload = msg\<rparr> of None \<Rightarrow> sv | Some bs \<Rightarrow> emit_sync [NetBroadcast bs] sv)"

text \<open>The service after \<open>Start\<close>; without a ledger there is no scheduler.\<close>

definition Start :: "syncEnv \<Rightarrow> LedgerCache \<Rightarrow> BlockSyncServerConf \<Rightarrow> BlockChainSyncServer option" where
  "Start env lc conf =
     (case newScheduler env lc conf of None \<Rightarrow> None
      | Some sch \<Rightarrow>
        Some (broadcastMsg env SyncMsg_NODE_STATUS_REQ None
          \<lparr>sv_start = True, sv_conf = conf, sv_scheduler = snd (routine_begin NewRoutine), sv_processor = snd (routine_begin NewRoutine),
           sv_sch = sch, sv_pro = newProcessor, requestCache = [], nodeList = NewNodeList, broadcastCh = [], sv_outs = []\<rparr>))"

subsection \<open>Messages of other nodes\<close>

definition handleNodeStatusReq :: "syncEnv \<Rightarrow> LedgerCache \<Rightarrow> string \<Rightarrow> syncError option \<times> syncOut list" where
  "handleNodeStatusReq env lc from =
     (case CurrentHeight lc of (_, Some err) \<Rightarrow> (Some ErrLedger, [])
      | (height, None) \<Rightarrow>
        (case se_MarshalBCM env \<lparr>bcm_BlockHeight = height, bcm_ArchivedHeight = se_ArchivedPivot env\<rparr> of None \<Rightarrow> (Some ErrMarshal, [])
         | Some bz \<Rightarrow> sendMsg env SyncMsg_NODE_STATUS_RESP bz from))"

definition handleNodeStatusResp :: "syncEnv \<Rightarrow> gobytes \<Rightarrow> string \<Rightarrow> BlockChainSyncServer \<Rightarrow> syncError option \<times> BlockChainSyncServer" where
  "handleNodeStatusResp env payload from sv =
     (case se_UnmarshalBCM env payload of None \<Rightarrow> (Some ErrUnmarshal, sv)
      | Some msg \<Rightarrow>
        (None, add_scheduler (NodeStatusMsg msg from)
          (sv\<lparr>nodeList := AddNode (se_now env) from (bcm_BlockHeight msg) (bcm_ArchivedHeight msg) (nodeList sv)\<rparr>)))"

text \<open>The loop over the heights from \<open>BlockHeight + i\<close>; a block that the store does not have is skipped.\<close>

fun send_infos :: "syncEnv \<Rightarrow> BlockSyncReq \<Rightarrow> string \<Rightarrow> u64 \<Rightarrow> nat \<Rightarrow> syncError option \<times> syncOut list" where
  "send_infos env req from i 0 = (None, [])"
| "send_infos env req from i (Suc n) =
     (let height = rq_BlockHeight req + i
      in case (if rq_WithRwset req then se_GetBlockWithRWSets env height
               else map_option (map_option (\<lambda>blk. (blk, []))) (se_GetBlock env height)) of
           None \<Rightarrow> (Some ErrStore, [])
         | Some None \<Rightarrow> send_infos env req from (i + 1) n
         | Some (Some (blk, rwsets)) \<Rightarrow>
           (case se_MarshalBatch env \<lparr>sb_Data = BlockinfoBatch [\<lparr>bi_Block = NetBlock blk, bi_RwsetList = rwsets\<rparr>], sb_WithRwset = rq_WithRwset req\<rparr> of
              None \<Rightarrow> (Some ErrMarshal, [])
            | Some bz \<Rightarrow>
              (case sendMsg env SyncMsg_BLOCK_SYNC_RESP bz from of
                 (Some err, outs) \<Rightarrow> (Some err, outs)
               | (None, outs) \<Rightarrow> (let (err, rest) = send_infos env req from (i + 1) n in (err, outs @ rest)))))"

definition sendInfos :: "syncEnv \<Rightarrow> BlockSyncReq \<Rightarrow> string \<Rightarrow> syncError option \<times> syncOut list" where
  "sendInfos env req from = send_infos env req from 0 (unat (rq_BatchSize req))"

definition processKey :: "string \<Rightarrow> u64 \<Rightarrow> string" where
  "processKey from height = from @ ''_'' @ show_nat (unat height)"

definition handleBlockReq :: "syncEnv \<Rightarrow> gobytes \<Rightarrow> string \<Rightarrow> BlockChainSyncServer \<Rightarrow> syncError option \<times> BlockChainSyncServer" where
  "handleBlockReq env payload from sv =
     (case se_UnmarshalReq env payload of None \<Rightarrow> (Some ErrUnmarshal, sv)
      | Some req \<Rightarrow>
        (let key = processKey from (rq_BlockHeight req)
         in if map_of (requestCache sv) key \<noteq> None then (None, sv)
            else
              (let (err, outs) = sendInfos env req from
               in (err, emit_sync outs (sv\<lparr>requestCache := AList.update key (se_now env) (requestCache sv)\<rparr>)))))"

definition blockSyncMsgHandler ::
    "syncEnv \<Rightarrow> LedgerCache \<Rightarrow> string \<Rightarrow> gobytes \<Rightarrow> bool \<Rightarrow> BlockChainSyncServer \<Rightarrow> syncError option \<times> BlockChainSyncServer" where
  "blockSyncMsgHandler env lc from msg isSyncMsg sv =
     (if \<not> sv_start sv then (Some ErrNotStarted, sv)
      else if \<not> isSyncMsg then (None, sv)
      else
        (case se_UnmarshalMsg env msg of None \<Rightarrow> (Some ErrUnmarshal, sv)
         | Some syncMsg \<Rightarrow>
           (case sm_Type syncMsg of
              SyncMsg_NODE_STATUS_REQ \<Rightarrow> (let (err, outs) = handleNodeStatusReq env lc from in (err, emit_sync outs sv))
            | SyncMsg_NODE_STATUS_RESP \<Rightarrow> handleNodeStatusResp env (sm_Payload syncMsg) from sv
            | SyncMsg_BLOCK_SYNC_REQ \<Rightarrow> handleBlockReq env (sm_Payload syncMsg) from sv
            | SyncMsg_BLOCK_SYNC_RESP \<Rightarrow> (None, add_scheduler (SyncedBlockMsg (sm_Payload syncMsg) from) sv)
            | SyncMsg_Other _ \<Rightarrow> (Some ErrMsgType, sv))))"

subsection \<open>Timers and other components\<close>

datatype syncTick = ProcessBlockTick | ScheduleTick | LivenessTick | NodeStatusTick | DataDetectTick

fun loop_tick :: "syncEnv \<Rightarrow> syncTick \<Rightarrow> BlockChainSyncServer \<Rightarrow> BlockChainSyncServer" where
  "loop_tick env ProcessBlockTick sv = add_processor ProcessBlockMsg sv"
| "loop_tick env ScheduleTick sv = add_scheduler SchedulerMsg sv"
| "loop_tick env LivenessTick sv = add_scheduler LivenessMsg sv"
| "loop_tick env NodeStatusTick sv = broadcastMsg env SyncMsg_NODE_STATUS_REQ None sv"
| "loop_tick env DataDetectTick sv = add_scheduler DataDetection (add_processor DataDetection sv)"

definition blockRequestEntrance :: "syncEnv \<Rightarrow> BlockChainSyncServer \<Rightarrow> BlockChainSyncServer" where
  "blockRequestEntrance env sv =
     sv\<lparr>requestCache := filter (\<lambda>(_, t). \<not> Since (se_now env) t > bc_blockRequestTime (sv_conf sv)) (requestCache sv)\<rparr>"

definition StopBlockSync :: "BlockChainSyncServer \<Rightarrow> BlockChainSyncServer" where
  "StopBlockSync sv = add_processor StopSyncMsg (add_scheduler StopSyncMsg sv)"

definition StartBlockSync :: "BlockChainSyncServer \<Rightarrow> BlockChainSyncServer" where
  "StartBlockSync sv = add_scheduler StartSyncMsg sv"

definition Stop :: "BlockChainSyncServer \<Rightarrow> BlockChainSyncServer" where
  "Stop sv =
     (if sv_start sv then sv\<lparr>sv_start := False, sv_scheduler := routine_end (sv_scheduler sv), sv_processor := routine_end (sv_processor sv)\<rparr>
      else sv)"

text \<open>The message about a committed block; the channel of heights to broadcast has 1024 places.\<close>

definition OnMessage :: "Block_core option option \<Rightarrow> BlockChainSyncServer \<Rightarrow> BlockChainSyncServer go" where
  "OnMessage payload sv =
     (case payload of None \<Rightarrow> Inr sv
      | Some None \<Rightarrow> Inr sv
      | Some (Some block) \<Rightarrow>
        (let height = blockHeight block; n = bc_broadcastStatusPerBlocksCommitted (sv_conf sv)
         in if n = 0 then Inl DivideByZero
            else if height mod n \<noteq> 0 then Inr sv
            else if length (broadcastCh sv) < 1024 then Inr (sv\<lparr>broadcastCh := broadcastCh sv @ [height]\<rparr>) else Inr sv))"

definition doBroadcastHeight :: "syncEnv \<Rightarrow> BlockChainSyncServer \<Rightarrow> BlockChainSyncServer" where
  "doBroadcastHeight env sv =
     (case broadcastCh sv of [] \<Rightarrow> sv
      | height # rest \<Rightarrow>
        (let sv1 = sv\<lparr>broadcastCh := rest\<rparr>
         in case se_MarshalBCM env \<lparr>bcm_BlockHeight = height, bcm_ArchivedHeight = 0\<rparr> of None \<Rightarrow> sv1
            | Some bz \<Rightarrow> broadcastMsg env SyncMsg_NODE_STATUS_RESP bz sv1))"

record SyncState =
  sy_Height :: u64
  sy_ArchivedHeight :: u64
  sy_BlocksHasSynced :: u64
  sy_BlocksInCache :: i32
  sy_Timestamp :: int
  sy_Others :: "NodeState list"

definition GetState :: "syncEnv \<Rightarrow> LedgerCache \<Rightarrow> bool \<Rightarrow> BlockChainSyncServer \<Rightarrow> syncError + SyncState" where
  "GetState env lc withPeers sv =
     (case CurrentHeight lc of (_, Some err) \<Rightarrow> Inl ErrLedger
      | (height, None) \<Rightarrow>
        Inr \<lparr>sy_Height = height, sy_ArchivedHeight = se_ArchivedPivot env, sy_BlocksHasSynced = maxHeightInQueue (sv_pro sv),
          sy_BlocksInCache = word_of_nat (length (pr_queue (sv_pro sv))), sy_Timestamp = se_now env div Second,
          sy_Others = (if withPeers then GetAll (nodeList sv) else [])\<rparr>)"

subsection \<open>Verifying and adding a block\<close>

definition add_verified :: "coreEnv \<Rightarrow> Block_core \<Rightarrow> coreError option \<times> coreState \<Rightarrow> (processedBlockStatus \<times> coreState) go" where
  "add_verified e block verified =
     (case verified of
        (Some err, c1) \<Rightarrow> Inr (if err = ErrBlockHadBeenCommited then hasProcessed else validateFailed, c1)
      | (None, c1) \<Rightarrow>
        go_bind (AddBlock e block c1) (\<lambda>(addErr1, c2).
          Inr (case addErr1 of Some err \<Rightarrow> (if err = ErrBlockHadBeenCommited then hasProcessed else addErr, c2) | None \<Rightarrow> (status_ok, c2))))"

definition alreadyCommitted :: "Block_core \<Rightarrow> coreState \<Rightarrow> bool" where
  "alreadyCommitted block c =
     (case GetLastCommittedBlock (cr_ledger c) of None \<Rightarrow> False | Some blk \<Rightarrow> blockHeight blk \<ge> blockHeight block)"

definition validateAndCommitBlock :: "coreEnv \<Rightarrow> Block_core \<Rightarrow> coreState \<Rightarrow> (processedBlockStatus \<times> coreState) go" where
  "validateAndCommitBlock e block c =
     (if alreadyCommitted block c then Inr (hasProcessed, c)
      else go_bind (VerifyBlock e block SYNC_VERIFY c) (add_verified e block))"

definition validateAndCommitBlockWithRwSets ::
    "coreEnv \<Rightarrow> Block_core \<Rightarrow> TxRWSet option list \<Rightarrow> coreState \<Rightarrow> (processedBlockStatus \<times> coreState) go" where
  "validateAndCommitBlockWithRwSets e block rwsets c =
     (if alreadyCommitted block c then Inr (hasProcessed, c)
      else go_bind (VerifyBlockWithRwSets e block rwsets SYNC_VERIFY c) (add_verified e block))"

definition core_adder :: "coreEnv \<Rightarrow> coreState verifyAndAddBlock" where
  "core_adder e = \<lparr>va_ledger = cr_ledger, va_commit = validateAndCommitBlock e, va_commitRw = validateAndCommitBlockWithRwSets e\<rparr>"

subsection \<open>Runs\<close>

text \<open>
  A routine takes an event when the result of the last one has been fetched. Other components, such
  as consensus, may add blocks in between. The flag says whether the service is asked to stop and
  start again.
\<close>

definition not_lower :: "LedgerCache \<Rightarrow> LedgerCache \<Rightarrow> bool" where
  "not_lower lc lc' =
     (case (GetLastCommittedBlock lc, GetLastCommittedBlock lc') of
        (Some b, Some b') \<Rightarrow> blockHeight b \<le> blockHeight b' | _ \<Rightarrow> False)"

inductive sync_reach :: "'c verifyAndAddBlock \<Rightarrow> ('c \<Rightarrow> bool) \<Rightarrow> bool \<Rightarrow> BlockSyncServerConf \<Rightarrow> 'c \<Rightarrow> BlockChainSyncServer \<Rightarrow> bool"
  for v good stops conf where
  sy_start: "good c \<Longrightarrow> Start env (va_ledger v c) conf = Some sv \<Longrightarrow> sync_reach v good stops conf c sv"
| sy_net: "sync_reach v good stops conf c sv \<Longrightarrow> blockSyncMsgHandler env (va_ledger v c) from msg t sv = (err, sv') \<Longrightarrow>
    sync_reach v good stops conf c sv'"
| sy_tick: "sync_reach v good stops conf c sv \<Longrightarrow> sync_reach v good stops conf c (loop_tick env t sv)"
| sy_requests: "sync_reach v good stops conf c sv \<Longrightarrow> sync_reach v good stops conf c (blockRequestEntrance env sv)"
| sy_message: "sync_reach v good stops conf c sv \<Longrightarrow> OnMessage b sv = Inr sv' \<Longrightarrow> sync_reach v good stops conf c sv'"
| sy_broadcast: "sync_reach v good stops conf c sv \<Longrightarrow> sync_reach v good stops conf c (doBroadcastHeight env sv)"
| sy_scheduler: "sync_reach v good stops conf c sv \<Longrightarrow> ro_out (sv_scheduler sv) = None \<Longrightarrow> takeable ev (ro_queue (sv_scheduler sv)) \<Longrightarrow>
    sch_handler env (va_ledger v c) ev (sv_sch sv) = Inr (ret, err, sch, outs) \<Longrightarrow>
    sync_reach v good stops conf c (emit_sync outs
      (sv\<lparr>sv_sch := sch, sv_scheduler := (sv_scheduler sv)\<lparr>ro_queue := remove1 ev (ro_queue (sv_scheduler sv)), ro_out := ret\<rparr>\<rparr>))"
| sy_processor: "sync_reach v good stops conf c sv \<Longrightarrow> ro_out (sv_processor sv) = None \<Longrightarrow> takeable ev (ro_queue (sv_processor sv)) \<Longrightarrow>
    pro_handler env v ev (sv_pro sv) c = Inr (ret, pro, c') \<Longrightarrow>
    sync_reach v good stops conf c'
      (sv\<lparr>sv_pro := pro, sv_processor := (sv_processor sv)\<lparr>ro_queue := remove1 ev (ro_queue (sv_processor sv)), ro_out := ret\<rparr>\<rparr>)"
| sy_received: "sync_reach v good stops conf c sv \<Longrightarrow> ro_out (sv_scheduler sv) = Some resp \<Longrightarrow>
    sync_reach v good stops conf c (add_processor resp (sv\<lparr>sv_scheduler := (sv_scheduler sv)\<lparr>ro_out := None\<rparr>\<rparr>))"
| sy_processed: "sync_reach v good stops conf c sv \<Longrightarrow> ro_out (sv_processor sv) = Some resp \<Longrightarrow>
    sync_reach v good stops conf c (add_scheduler resp (sv\<lparr>sv_processor := (sv_processor sv)\<lparr>ro_out := None\<rparr>\<rparr>))"
| sy_other: "sync_reach v good stops conf c sv \<Longrightarrow> good c' \<Longrightarrow> not_lower (va_ledger v c) (va_ledger v c') \<Longrightarrow> sync_reach v good stops conf c' sv"
| sy_stop: "sync_reach v good stops conf c sv \<Longrightarrow> stops \<Longrightarrow> sync_reach v good stops conf c (StopBlockSync sv)"
| sy_restart: "sync_reach v good stops conf c sv \<Longrightarrow> sync_reach v good stops conf c (StartBlockSync sv)"

end
