(* ===== verification/Sync_Laws.thy ===== *)
theory Sync_Laws
  imports Sync_Server
begin

section \<open>The synchronisation service keeps track of its blocks\<close>

text \<open>
  The core engine implements the interface of the processor. As long as the service is not asked to
  stop, a height that the scheduler holds as received is on its way: its block waits in the
  processor, or the message with the block or with the result is in a queue.
\<close>

subsection \<open>The core engine adds blocks\<close>

abbreviation (input) core_good :: "coreEnv \<Rightarrow> Block_core \<Rightarrow> coreState \<Rightarrow> bool" where
  "core_good e genesis c \<equiv> fp_ok (cu_fps e) \<and> core_inv (cu_fps e) genesis c"

lemma add_verified_laws:
  assumes "core_good e genesis c" and "same_ledger (cu_fps e) c c1" and "add_verified e b (err, c1) = Inr (st, c')"
  shows "core_good e genesis c' \<and> st \<noteq> dbErr \<and> (st = status_ok \<longrightarrow> blockHeight (last (cr_chain c')) = blockHeight b) \<and>
    (last (cr_chain c') = last (cr_chain c) \<or>
     extends (last (cr_chain c)) (last (cr_chain c')) \<and> blockHeight (last (cr_chain c')) = blockHeight b)"
proof (cases err)
  case (Some x)
  then show ?thesis using assms core_inv_same [of "cu_fps e" genesis c c1] by (auto simp: add_verified_def same_ledger_def split: if_split_asm)
next
  case None
  have inv: "core_inv (cu_fps e) genesis c1" "cr_chain c1 = cr_chain c"
    using assms(1,2) core_inv_same by (auto simp: same_ledger_def)
  obtain err2 where add: "AddBlock e b c1 = Inr (err2, c')" and st: "st \<noteq> dbErr" "st = status_ok \<longleftrightarrow> err2 = None"
    using assms(3) None by (auto simp: add_verified_def elim!: go_bind_InrE split: option.split_asm if_split_asm)
  from AddBlock_cases [OF add] assms(1) inv(1) consider
      "err2 \<noteq> None" "same_ledger (cu_fps e) c1 c'"
    | lb b1 where "GetLastCommittedBlock (cr_ledger c1) = Some lb" "extends lb b1" "blockHeight b1 = blockHeight b" "appended (cu_fps e) b1 c1 c'"
    by (auto simp: core_inv_def)
  then show ?thesis
  proof cases
    case 1
    then show ?thesis using assms(1) inv st core_inv_same by (auto simp: same_ledger_def)
  next
    case 2
    then have "last (cr_chain c1) = lb" using inv(1) by (simp add: core_inv_def)
    then show ?thesis using 2 assms(1) inv st core_inv_appended [OF inv(1) 2(4)] by (simp add: appended_def)
  qed
qed

interpretation core_blocks: block_adder "core_adder e" "core_good e genesis" "\<lambda>c. last (cr_chain c)" for e genesis
proof
  fix c b rw st c'
  assume good: "core_good e genesis c"
  then show "GetLastCommittedBlock (va_ledger (core_adder e) c) = Some (last (cr_chain c))"
    by (simp add: core_adder_def core_inv_def)
  have refl: "same_ledger (cu_fps e) c c" by simp
  note law = add_verified_laws [OF good]
  show "core_good e genesis c' \<and> st \<noteq> dbErr \<and> (st = status_ok \<longrightarrow> blockHeight (last (cr_chain c')) = blockHeight b) \<and>
      (last (cr_chain c') = last (cr_chain c) \<or>
       extends (last (cr_chain c)) (last (cr_chain c')) \<and> blockHeight (last (cr_chain c')) = blockHeight b)"
    if "va_commit (core_adder e) b c = Inr (st, c')"
    using that good
    by (auto simp: core_adder_def validateAndCommitBlock_def elim!: go_bind_InrE split: if_split_asm dest!: VerifyBlock_frame law)
  show "core_good e genesis c' \<and> st \<noteq> dbErr \<and> (st = status_ok \<longrightarrow> blockHeight (last (cr_chain c')) = blockHeight b) \<and>
      (last (cr_chain c') = last (cr_chain c) \<or>
       extends (last (cr_chain c)) (last (cr_chain c')) \<and> blockHeight (last (cr_chain c')) = blockHeight b)"
    if "va_commitRw (core_adder e) b rw c = Inr (st, c')"
    using that good
    by (auto simp: core_adder_def validateAndCommitBlockWithRwSets_def elim!: go_bind_InrE split: if_split_asm
        dest!: VerifyBlockWithRwSets_frame law)
qed

subsection \<open>The heights that the scheduler holds as received\<close>

definition received :: "scheduler \<Rightarrow> u64 set" where
  "received sch = {h. map_of (blockStates sch) h = Some receivedBlock}"

lemma pending_loop_received: "map_of (pending_loop i p b m states) h = Some receivedBlock \<Longrightarrow> map_of states h = Some receivedBlock"
proof (induction i p b m states rule: pending_loop.induct)
  case (1 i p b m states)
  then show ?case by (subst (asm) (2) pending_loop.simps) (auto split: if_split_asm)
qed

lemma request_loop_received: "received (request_loop i p b peer now sch) \<subseteq> received sch"
proof (induction i p b peer now sch rule: request_loop.induct)
  case (1 i p b peer now sch)
  then show ?case by (subst request_loop.simps) (auto simp: received_def split: if_split_asm)
qed

lemma received_clearLaggingRequest: "received (clearLaggingRequest cur sch) \<subseteq> received sch"
  by (auto simp: received_def clearLaggingRequest_def Let_def map_of_filter_key split: if_split_asm)

lemma received_nextHeightToReq: "received (snd (nextHeightToReq sch)) \<subseteq> received sch"
  by (auto simp: received_def nextHeightToReq_def Let_def delete_conv' split: if_split_asm)

lemma received_isNeedSync: "isNeedSync env lc sch = Inr (need, sch1) \<Longrightarrow> received sch1 \<subseteq> received sch"
  using received_clearLaggingRequest [of _ sch]
  by (auto simp: isNeedSync_def Let_def split: if_split_asm prod.split_asm option.split_asm)

lemma received_handleLivinessMsg: "received (handleLivinessMsg env lc sch) \<subseteq> received sch"
  by (auto simp: received_def handleLivinessMsg_def Let_def split: option.split_asm if_split_asm)

lemma received_handleNodeStatus: "handleNodeStatus env lc msg from sch = Inr (sch1, outs) \<Longrightarrow> received sch1 \<subseteq> received sch"
  by (auto simp: received_def handleNodeStatus_def addPendingBlocksAndUpdatePendingHeight_def Let_def elim!: go_bind_InrE
      dest!: pending_loop_received split: if_split_asm option.split_asm)

lemma received_handleScheduleMsg:
  assumes "handleScheduleMsg env lc sch = Inr (err, sch1, outs)"
  shows "received sch1 \<subseteq> received sch"
proof -
  obtain need sch2 where 1: "isNeedSync env lc sch = Inr (need, sch2)"
    using assms by (auto simp: handleScheduleMsg_def elim!: go_bind_InrE)
  have "received (sch3\<lparr>lastRequest := t\<rparr>) = received sch3" for sch3 t by (simp add: received_def)
  then have "received sch1 \<subseteq> received sch2"
    using assms 1 received_nextHeightToReq [of sch2] request_loop_received [of _ _ _ _ _ "snd (nextHeightToReq sch2)\<lparr>lastRequest := se_now env\<rparr>"]
    by (fastforce simp: handleScheduleMsg_def Let_def case_prod_unfold elim!: go_bind_InrE split: if_split_asm option.split_asm)
  then show ?thesis using received_isNeedSync [OF 1] by blast
qed

lemma receive_block_received:
  assumes "receive_block from blk (need, sch) = (need1, sch1)"
  shows "received sch1 = received sch \<or> need1 \<and> received sch1 = insert (blockHeight blk) (received sch)" and "need \<Longrightarrow> need1"
  using assms by (auto simp: receive_block_def received_def Let_def split: option.split_asm if_split_asm)

lemma update_received:
  assumes "updateSchedulerBySyncBlockBatch from bs (need, sch) = Inr (need1, sch1)"
  shows "need \<longrightarrow> need1" and "received sch1 \<subseteq> received sch \<union> {h. need1 \<and> (\<exists>blk. NetBlock blk \<in> set bs \<and> h = blockHeight blk)}"
proof -
  have "(need \<longrightarrow> need1) \<and> received sch1 \<subseteq> received sch \<union> {h. need1 \<and> (\<exists>blk. NetBlock blk \<in> set bs \<and> h = blockHeight blk)}"
    using assms
  proof (induction bs arbitrary: need sch)
    case (Cons b bs)
    then obtain blk where b: "b = NetBlock blk"
        "updateSchedulerBySyncBlockBatch from bs (receive_block from blk (need, sch)) = Inr (need1, sch1)"
      by (auto elim!: go_bind_InrE)
    obtain need2 sch2 where r: "receive_block from blk (need, sch) = (need2, sch2)" by force
    note IH = Cons.IH [OF b(2) [unfolded r]]
    from receive_block_received [OF r] IH b(1) show ?case by fastforce
  qed simp
  then show "need \<longrightarrow> need1" "received sch1 \<subseteq> received sch \<union> {h. need1 \<and> (\<exists>blk. NetBlock blk \<in> set bs \<and> h = blockHeight blk)}"
    by blast+
qed

lemma handleSyncedBlockMsg_received:
  assumes "handleSyncedBlockMsg env msg from sch = Inr (ret, err, sch1)"
  shows "received sch1 \<subseteq> received sch \<union> {h. \<exists>batch. ret = Some (ReceivedBlockInfos batch from) \<and> h \<in> batch_heights batch}"
    and "ret = None \<or> (\<exists>batch. ret = Some (ReceivedBlockInfos batch from))"
proof -
  have [simp]: "map bi_Block (batch_infos (BlockBatch bs)) = bs" for bs by (simp add: batch_infos_def comp_def)
  have heights: "(\<exists>blk. NetBlock blk \<in> set (map bi_Block (batch_infos (sb_Data batch))) \<and> h = blockHeight blk) \<longleftrightarrow> h \<in> batch_heights batch" for batch h
    by (auto simp: batch_heights_def)
  show "ret = None \<or> (\<exists>batch. ret = Some (ReceivedBlockInfos batch from))"
    using assms by (auto simp: handleSyncedBlockMsg_def elim!: go_bind_InrE split: if_split_asm option.split_asm prod.split_asm)
  show "received sch1 \<subseteq> received sch \<union> {h. \<exists>batch. ret = Some (ReceivedBlockInfos batch from) \<and> h \<in> batch_heights batch}"
  proof (cases "sch1 = sch")
    case False
    then obtain batch need where b: "se_UnmarshalBatch env msg = Some batch"
        "updateSchedulerBySyncBlockBatch from (map bi_Block (batch_infos (sb_Data batch))) (False, sch) = Inr (need, sch1)"
        "ret = (if need then Some (ReceivedBlockInfos batch from) else None)"
      using assms
      by (auto simp: handleSyncedBlockMsg_def batch_infos_def comp_def elim!: go_bind_InrE
          split: if_split_asm option.split_asm SyncData.split_asm)
    from update_received(2) [OF b(2)] b(3) heights show ?thesis by fastforce
  qed simp
qed

text \<open>What the scheduler makes of an event.\<close>

lemma sch_handler_received:
  assumes "sch_handler env lc ev sch = Inr (ret, err, sch1, outs)" and "h \<in> received sch1"
  shows "h \<in> received sch \<and> (\<forall>st from. ev = ProcessedBlockResp h st from \<longrightarrow> st = dbErr) \<or>
    (\<exists>batch from. ret = Some (ReceivedBlockInfos batch from) \<and> h \<in> batch_heights batch)"
proof (cases ev)
  case (SyncedBlockMsg msg "from")
  then have "handleSyncedBlockMsg env msg from sch = Inr (ret, err, sch1)" using assms(1) by (auto elim!: go_bind_InrE)
  from handleSyncedBlockMsg_received(1) [OF this] assms(2) SyncedBlockMsg show ?thesis by auto
next
  case (NodeStatusMsg msg "from")
  then show ?thesis using assms by (auto elim!: go_bind_InrE dest!: received_handleNodeStatus)
next
  case SchedulerMsg
  then show ?thesis using assms by (auto elim!: go_bind_InrE dest!: received_handleScheduleMsg)
next
  case LivenessMsg
  then show ?thesis using assms received_handleLivinessMsg by auto
next
  case DataDetection
  then show ?thesis using assms received_clearLaggingRequest by (auto simp: sch_handleDataDetection_def elim!: go_bind_InrE)
next
  case (ProcessedBlockResp height st "from")
  then show ?thesis
    using assms by (cases st) (auto simp: handleProcessedBlockResp_def Let_def received_def delete_conv' split: if_split_asm)
qed (use assms in \<open>auto simp: received_def sch_handleStopSyncMsg_def handleStartSyncMsg_def\<close>)

lemma sch_handler_ret:
  "sch_handler env lc ev sch = Inr (ret, err, sch1, outs) \<Longrightarrow> ret = None \<or> (\<exists>batch from. ret = Some (ReceivedBlockInfos batch from))"
  by (cases ev) (auto simp: case_prod_unfold Let_def elim!: go_bind_InrE dest!: handleSyncedBlockMsg_received(2))

subsection \<open>No block is lost\<close>

definition to_processor :: "BlockChainSyncServer \<Rightarrow> syncEvent set" where
  "to_processor sv = set (ro_queue (sv_processor sv)) \<union> set_option (ro_out (sv_scheduler sv))"

definition to_scheduler :: "BlockChainSyncServer \<Rightarrow> syncEvent set" where
  "to_scheduler sv = set (ro_queue (sv_scheduler sv)) \<union> set_option (ro_out (sv_processor sv))"

definition carried :: "BlockChainSyncServer \<Rightarrow> u64 \<Rightarrow> bool" where
  "carried sv h \<longleftrightarrow> h \<in> queued (sv_pro sv) \<or>
     (\<exists>batch from. ReceivedBlockInfos batch from \<in> to_processor sv \<and> h \<in> batch_heights batch) \<or>
     (\<exists>st from. ProcessedBlockResp h st from \<in> to_scheduler sv)"

lemma carriedI:
  "h \<in> queued (sv_pro sv) \<Longrightarrow> carried sv h"
  "ReceivedBlockInfos batch f \<in> to_processor sv \<Longrightarrow> h \<in> batch_heights batch \<Longrightarrow> carried sv h"
  "ProcessedBlockResp h st f \<in> to_scheduler sv \<Longrightarrow> carried sv h"
  by (auto simp: carried_def)

lemma carriedE:
  assumes "carried sv h"
  obtains "h \<in> queued (sv_pro sv)"
  | batch f where "ReceivedBlockInfos batch f \<in> to_processor sv" "h \<in> batch_heights batch"
  | st f where "ProcessedBlockResp h st f \<in> to_scheduler sv"
  using assms by (auto simp: carried_def)

definition sync_inv :: "u64 \<Rightarrow> BlockChainSyncServer \<Rightarrow> bool" where
  "sync_inv lastHeight sv \<longleftrightarrow> ro_start (sv_scheduler sv) \<and> ro_start (sv_processor sv) \<and> StopSyncMsg \<notin> to_processor sv \<and>
     (\<forall>h st from. ProcessedBlockResp h st from \<in> to_scheduler sv \<longrightarrow> st \<noteq> dbErr) \<and> queue_ok (sv_pro sv) \<and>
     (\<forall>h \<in> received (sv_sch sv). lastHeight < h \<longrightarrow> carried sv h)"

lemma sync_invI:
  assumes "ro_start (sv_scheduler sv)" "ro_start (sv_processor sv)" "StopSyncMsg \<notin> to_processor sv"
    and "\<And>h f. ProcessedBlockResp h dbErr f \<notin> to_scheduler sv" and "queue_ok (sv_pro sv)"
    and "\<And>h. h \<in> received (sv_sch sv) \<Longrightarrow> l < h \<Longrightarrow> carried sv h"
  shows "sync_inv l sv"
  using assms unfolding sync_inv_def by blast

lemma sync_invD:
  assumes "sync_inv l sv"
  shows "ro_start (sv_scheduler sv)" "ro_start (sv_processor sv)" "StopSyncMsg \<notin> to_processor sv"
    "ProcessedBlockResp h dbErr f \<notin> to_scheduler sv" "queue_ok (sv_pro sv)"
  using assms unfolding sync_inv_def by blast+

text \<open>Steps that only add harmless events.\<close>

lemma sync_inv_add:
  assumes "sync_inv l sv" and "sv_sch sv' = sv_sch sv" "sv_pro sv' = sv_pro sv"
    and "ro_start (sv_scheduler sv')" "ro_start (sv_processor sv')"
    and "to_processor sv \<subseteq> to_processor sv'" "to_scheduler sv \<subseteq> to_scheduler sv'" "StopSyncMsg \<notin> to_processor sv' - to_processor sv"
    and "\<And>h st from. ProcessedBlockResp h st from \<notin> to_scheduler sv' - to_scheduler sv"
  shows "sync_inv l sv'"
  using assms unfolding sync_inv_def carried_def by (auto; blast)

lemma sync_inv_same:
  assumes "sync_inv l sv" and "sv_sch sv' = sv_sch sv" "sv_pro sv' = sv_pro sv" "sv_scheduler sv' = sv_scheduler sv" "sv_processor sv' = sv_processor sv"
  shows "sync_inv l sv'"
  using assms by (simp add: sync_inv_def carried_def to_processor_def to_scheduler_def)

lemmas sync_frame = add_scheduler_def add_processor_def emit_sync_def to_processor_def to_scheduler_def

lemma broadcastMsg_frame:
  "sv_sch (broadcastMsg env t msg sv) = sv_sch sv" "sv_pro (broadcastMsg env t msg sv) = sv_pro sv"
  "sv_scheduler (broadcastMsg env t msg sv) = sv_scheduler sv" "sv_processor (broadcastMsg env t msg sv) = sv_processor sv"
  by (simp_all add: broadcastMsg_def emit_sync_def split: option.split)

lemma sync_inv_tick: "sync_inv l sv \<Longrightarrow> sync_inv l (loop_tick env t sv)"
  by (rule sync_inv_add, assumption) (cases t; force simp: sync_frame broadcastMsg_frame sync_inv_def)+

lemma blockSyncMsgHandler_frame:
  assumes "blockSyncMsgHandler env lc from msg t sv = (err, sv')"
  shows "sv_sch sv' = sv_sch sv \<and> sv_pro sv' = sv_pro sv \<and> sv_processor sv' = sv_processor sv \<and>
    (sv_scheduler sv' = sv_scheduler sv \<or>
     (\<exists>ev. sv_scheduler sv' = addTask ev (sv_scheduler sv) \<and> (\<forall>h st from1. ev \<noteq> ProcessedBlockResp h st from1)))"
  using assms
  by (auto simp: blockSyncMsgHandler_def handleNodeStatusResp_def handleBlockReq_def add_scheduler_def emit_sync_def Let_def
      split: if_split_asm option.split_asm SyncMsg_MsgType.split_asm prod.split_asm)

lemma sync_inv_net: "sync_inv l sv \<Longrightarrow> blockSyncMsgHandler env lc from msg t sv = (err, sv') \<Longrightarrow> sync_inv l sv'"
  by (rule sync_inv_add, assumption) (drule blockSyncMsgHandler_frame, force simp: sync_frame sync_inv_def)+

lemma sync_inv_Start:
  assumes "Start env lc conf = Some sv"
  shows "sync_inv l sv"
proof -
  have "sv_pro sv = newProcessor" "sv_scheduler sv = snd (routine_begin NewRoutine)" "sv_processor sv = snd (routine_begin NewRoutine)"
      "blockStates (sv_sch sv) = []"
    using assms by (auto simp: Start_def newScheduler_def broadcastMsg_def emit_sync_def split: option.split_asm prod.split_asm)
  then show ?thesis
    by (simp add: sync_inv_def to_processor_def to_scheduler_def routine_begin_def NewRoutine_def queue_ok_new received_def)
qed

lemma sync_inv_scheduler:
  assumes "sync_inv l sv" and "ro_out (sv_scheduler sv) = None" and "takeable ev (ro_queue (sv_scheduler sv))"
    and "sch_handler env lc ev (sv_sch sv) = Inr (ret, err, sch, outs)"
  shows "sync_inv l (emit_sync outs
    (sv\<lparr>sv_sch := sch, sv_scheduler := (sv_scheduler sv)\<lparr>ro_queue := remove1 ev (ro_queue (sv_scheduler sv)), ro_out := ret\<rparr>\<rparr>))"
    (is "sync_inv l ?sv")
proof -
  have proc: "to_processor ?sv = to_processor sv \<union> set_option ret" using assms(2) by (simp add: sync_frame)
  have sched: "to_scheduler sv - {ev} \<subseteq> to_scheduler ?sv" "to_scheduler ?sv \<subseteq> to_scheduler sv"
    by (auto simp: sync_frame dest: notin_set_remove1 in_set_remove1 [THEN iffD2])
  have ev: "ev \<in> to_scheduler sv" using assms(3) by (simp add: takeable_def to_scheduler_def)
  have "carried ?sv h" if "h \<in> received sch" "l < h" for h
    using sch_handler_received [OF assms(4) that(1)]
  proof
    assume h: "h \<in> received (sv_sch sv) \<and> (\<forall>st from. ev = ProcessedBlockResp h st from \<longrightarrow> st = dbErr)"
    then have "ProcessedBlockResp h st f \<noteq> ev" for st f using assms(1) ev unfolding sync_inv_def by blast
    then have resp: "ProcessedBlockResp h st f \<in> to_scheduler ?sv" if "ProcessedBlockResp h st f \<in> to_scheduler sv" for st f
      using that sched(1) by blast
    have "carried sv h" using h assms(1) that(2) by (simp add: sync_inv_def)
    then show ?thesis
    proof (cases rule: carriedE)
      case 1
      then show ?thesis by (intro carriedI(1)) (simp add: emit_sync_def)
    next
      case 2
      then show ?thesis using proc by (blast intro: carriedI(2))
    next
      case 3
      then show ?thesis using resp by (blast intro: carriedI(3))
    qed
  next
    assume "\<exists>batch from. ret = Some (ReceivedBlockInfos batch from) \<and> h \<in> batch_heights batch"
    then show ?thesis using proc by (auto intro: carriedI(2))
  qed
  moreover have "StopSyncMsg \<notin> to_processor ?sv" using sync_invD(3) [OF assms(1)] sch_handler_ret [OF assms(4)] unfolding proc by auto
  moreover have "ProcessedBlockResp h dbErr f \<notin> to_scheduler ?sv" for h f using sync_invD(4) [OF assms(1)] sched(2) by blast
  ultimately show ?thesis using sync_invD(1,2,5) [OF assms(1)] by (intro sync_invI) (simp_all add: emit_sync_def)
qed

text \<open>Carrying a result to the other routine keeps what is on its way.\<close>

lemma sync_inv_moved:
  assumes "sync_inv l sv" and "sv_sch sv' = sv_sch sv" "sv_pro sv' = sv_pro sv"
    and "ro_start (sv_scheduler sv')" "ro_start (sv_processor sv')" "to_processor sv' = to_processor sv" "to_scheduler sv' = to_scheduler sv"
  shows "sync_inv l sv'"
  using assms by (simp add: sync_inv_def carried_def)

lemma sync_inv_received:
  assumes "sync_inv l sv" and "ro_out (sv_scheduler sv) = Some resp"
  shows "sync_inv l (add_processor resp (sv\<lparr>sv_scheduler := (sv_scheduler sv)\<lparr>ro_out := None\<rparr>\<rparr>))"
  using assms by (intro sync_inv_moved [OF assms(1)]) (auto simp: sync_frame sync_inv_def)

lemma sync_inv_processed:
  assumes "sync_inv l sv" and "ro_out (sv_processor sv) = Some resp"
  shows "sync_inv l (add_scheduler resp (sv\<lparr>sv_processor := (sv_processor sv)\<lparr>ro_out := None\<rparr>\<rparr>))"
  using assms by (intro sync_inv_moved [OF assms(1)]) (auto simp: sync_frame sync_inv_def)

lemma sync_inv_restart:
  assumes "sync_inv l sv"
  shows "sync_inv l (StartBlockSync sv)"
proof -
  note d = sync_invD [OF assms]
  have "to_processor (StartBlockSync sv) = to_processor sv" "to_scheduler (StartBlockSync sv) = insert StartSyncMsg (to_scheduler sv)"
    using d(1) by (simp_all add: StartBlockSync_def sync_frame)
  then show ?thesis using d by (intro sync_inv_add [OF assms]) (simp_all add: StartBlockSync_def add_scheduler_def subset_insertI)
qed

context block_adder
begin

lemma sync_inv_processor:
  assumes "sync_inv (lastHeight c) sv" and "good c" and "ro_out (sv_processor sv) = None" and "takeable ev (ro_queue (sv_processor sv))"
    and "pro_handler env v ev (sv_pro sv) c = Inr (ret, pro, c')"
  shows "sync_inv (lastHeight c')
    (sv\<lparr>sv_pro := pro, sv_processor := (sv_processor sv)\<lparr>ro_queue := remove1 ev (ro_queue (sv_processor sv)), ro_out := ret\<rparr>\<rparr>)"
    (is "sync_inv _ ?sv")
proof -
  have sched: "to_scheduler ?sv = to_scheduler sv \<union> set_option ret" using assms(3) by (simp add: sync_frame)
  have proc: "to_processor sv - {ev} \<subseteq> to_processor ?sv" "to_processor ?sv \<subseteq> to_processor sv"
    by (auto simp: sync_frame dest: notin_set_remove1 in_set_remove1 [THEN iffD2])
  have "ev \<noteq> StopSyncMsg" using assms(1,4) by (auto simp: sync_inv_def to_processor_def takeable_def)
  note mono = handler_mono [OF assms(2,5)]
  have q: "queue_ok (sv_pro sv)" using assms(1) by (simp add: sync_inv_def)
  have step: "queue_ok pro \<and> (\<forall>h st from. ret = Some (ProcessedBlockResp h st from) \<longrightarrow> st \<noteq> dbErr) \<and>
    (\<forall>h. lastHeight c' < h \<longrightarrow> h \<in> queued (sv_pro sv) \<longrightarrow> h \<in> queued pro \<or> (\<exists>st from. ret = Some (ProcessedBlockResp h st from))) \<and>
    (\<forall>h batch from. lastHeight c' < h \<longrightarrow> ev = ReceivedBlockInfos batch from \<longrightarrow> h \<in> batch_heights batch \<longrightarrow> h \<in> queued pro)"
  proof (cases ev)
    case (ReceivedBlockInfos batch "from")
    then have "handleReceivedBlockInfos (va_ledger v c) batch from (sv_pro sv) = Inr pro" "ret = None" "c' = c"
      using assms(5) by (auto elim!: go_bind_InrE)
    then show ?thesis using handleReceivedBlockInfos_queue [OF _ last_block [OF assms(2)]] q ReceivedBlockInfos by auto
  next
    case ProcessBlockMsg
    then have p: "handleProcessBlockMsg env v (sv_pro sv) c = Inr (ret, pro, c')" using assms(5) by simp
    show ?thesis
    proof (cases "map_of (pr_queue (sv_pro sv)) (lastHeight c + 1)")
      case None
      then show ?thesis using process_none [OF assms(2) p] q ProcessBlockMsg by simp
    next
      case (Some info)
      have "blockHeight (bw_blk info) = lastHeight c + 1" using map_of_SomeD [OF Some] q by (auto simp: queue_ok_def)
      with process_some [OF assms(2) p Some] show ?thesis
        using q ProcessBlockMsg set_delete_sub [of "lastHeight c + 1" "pr_queue (sv_pro sv)"]
        by (auto simp: AList.delete_eq intro: queue_ok_sub)
    qed
  next
    case DataDetection
    then show ?thesis
      using assms(5) q last_block [OF assms(2)]
      by (force simp: pro_handleDataDetection_def lastCommitBlockHeight_def not_less inc_le queue_ok_def elim!: go_bind_InrE)
  qed (use assms(5) q \<open>ev \<noteq> StopSyncMsg\<close> in auto)
  then have new: "h \<in> queued pro" if "lastHeight c' < h" "ev = ReceivedBlockInfos batch f" "h \<in> batch_heights batch" for h batch f
    using that by blast
  have "carried ?sv h" if "h \<in> received (sv_sch sv)" "lastHeight c' < h" for h
  proof -
    have "carried sv h" using assms(1) that mono by (auto simp: sync_inv_def)
    then show ?thesis
    proof (cases rule: carriedE)
      case 1
      then have "h \<in> queued pro \<or> (\<exists>st from. ret = Some (ProcessedBlockResp h st from))" using step that(2) by blast
      then show ?thesis using sched carriedI(1) [of h ?sv] carriedI(3) [of h _ _ ?sv] by auto
    next
      case (2 batch f)
      have "h \<in> queued pro \<or> ReceivedBlockInfos batch f \<in> to_processor ?sv"
      proof (cases "ev = ReceivedBlockInfos batch f")
        case True
        then show ?thesis using new [OF that(2) True 2(2)] by simp
      next
        case False
        then show ?thesis using 2(1) proc(1) by blast
      qed
      then show ?thesis using 2 carriedI(1) [of h ?sv] carriedI(2) [of batch f ?sv h] by auto
    next
      case 3
      then show ?thesis using sched carriedI(3) [of h _ _ ?sv] by blast
    qed
  qed
  moreover have "StopSyncMsg \<notin> to_processor ?sv" using sync_invD(3) [OF assms(1)] proc(2) by blast
  moreover have "ProcessedBlockResp h dbErr f \<notin> to_scheduler ?sv" for h f using sync_invD(4) [OF assms(1)] step unfolding sched by auto
  ultimately show ?thesis using sync_invD(1,2) [OF assms(1)] step by (intro sync_invI) simp_all
qed

lemma sync_inv_reach:
  assumes "sync_reach v good False conf c sv"
  shows "good c \<and> sync_inv (lastHeight c) sv"
  using assms
proof (induction rule: sync_reach.induct)
  case (sy_start c env sv)
  then show ?case using sync_inv_Start by blast
next
  case (sy_net c sv env "from" msg t err sv')
  then show ?case using sync_inv_net by blast
next
  case (sy_tick c sv env t)
  then show ?case using sync_inv_tick by blast
next
  case (sy_requests c sv env)
  then show ?case by (auto intro: sync_inv_same [of _ sv] simp: blockRequestEntrance_def)
next
  case (sy_message c sv b sv')
  then show ?case
    by (auto intro: sync_inv_same [of _ sv] simp: OnMessage_def Let_def split: option.split_asm if_split_asm)
next
  case (sy_broadcast c sv env)
  have "sv_sch (doBroadcastHeight env sv) = sv_sch sv \<and> sv_pro (doBroadcastHeight env sv) = sv_pro sv \<and>
      sv_scheduler (doBroadcastHeight env sv) = sv_scheduler sv \<and> sv_processor (doBroadcastHeight env sv) = sv_processor sv"
    by (simp add: doBroadcastHeight_def broadcastMsg_frame Let_def split: list.split option.split)
  then show ?case using sy_broadcast.IH by (auto intro: sync_inv_same [of _ sv])
next
  case (sy_scheduler c sv ev env ret err sch outs)
  then show ?case using sync_inv_scheduler by blast
next
  case (sy_processor c sv ev env ret pro c')
  then show ?case using sync_inv_processor handler_last_block(1) by blast
next
  case (sy_received c sv resp)
  then show ?case using sync_inv_received by blast
next
  case (sy_processed c sv resp)
  then show ?case using sync_inv_processed by blast
next
  case (sy_other c sv c')
  then have "lastHeight c \<le> lastHeight c'" using last_block by (simp add: not_lower_def)
  then show ?case using sy_other by (auto simp: sync_inv_def)
next
  case (sy_restart c sv)
  then show ?case using sync_inv_restart by blast
qed simp

end

subsection \<open>A block that was lost stays lost\<close>

definition stuck :: "u64 \<Rightarrow> scheduler \<Rightarrow> bool" where
  "stuck h sch \<longleftrightarrow> wf_alist (blockStates sch) \<and> h \<in> received sch \<and> map_of (pendingTime sch) h = None \<and> h \<le> pendingRecvHeight sch"

lemma pending_loop_keeps:
  "wf_alist states \<Longrightarrow> map_of states h = Some s \<Longrightarrow>
     wf_alist (pending_loop i p b m states) \<and> map_of (pending_loop i p b m states) h = Some s"
proof (induction i p b m states rule: pending_loop.induct)
  case (1 i p b m states)
  show ?case
  proof (cases "map_of states i = None")
    case True
    then have "h \<noteq> i" using 1(4) by auto
    then show ?thesis using 1 True by (subst (1 2) pending_loop.simps) (simp del: map_of_eq_Some_iff)
  next
    case False
    then show ?thesis using 1 by (subst (1 2) pending_loop.simps) (auto simp del: map_of_eq_Some_iff)
  qed
qed

lemma request_loop_above:
  "h < i \<Longrightarrow> wf_alist (blockStates sch) \<Longrightarrow>
     map_of (blockStates (request_loop i p b peer now sch)) h = map_of (blockStates sch) h \<and>
     map_of (pendingTime (request_loop i p b peer now sch)) h = map_of (pendingTime sch) h \<and>
     pendingRecvHeight (request_loop i p b peer now sch) = pendingRecvHeight sch \<and>
     wf_alist (blockStates (request_loop i p b peer now sch))"
proof (induction i p b peer now sch rule: request_loop.induct)
  case (1 i p b peer now sch)
  show ?case
  proof (cases "i \<le> p \<and> i < b")
    case True
    then have "unat i < unat (i + 1)" using unat_next [of i b] by simp
    then have "h < i + 1" using 1(2) by (simp add: word_less_nat_alt)
    from 1(1) [OF True this] 1(2,3) True show ?thesis by (subst (1 2 3 4) request_loop.simps) auto
  next
    case False
    then show ?thesis using 1(3) by (subst (1 2 3 4) request_loop.simps) auto
  qed
qed

lemma least_new:
  assumes "fold (\<lambda>(height, status) m. if m > height \<and> status = newBlock then height else m) states k = least"
  shows "least = k \<or> (least, newBlock) \<in> set states"
  using assms
proof (induction states arbitrary: k)
  case (Cons x xs)
  obtain h s where "x = (h, s)" by (cases x)
  then show ?case using Cons.IH [of "if k > h \<and> s = newBlock then h else k"] Cons.prems by (auto split: if_split_asm)
qed simp

lemma nextHeightToReq_stuck:
  assumes "stuck h sch" and "nextHeightToReq sch = (p, sch1)" and "h \<noteq> - 1"
  shows "stuck h sch1" and "p \<noteq> - 1 \<Longrightarrow> h < p"
proof -
  let ?least = "fold (\<lambda>(height, status) m. if m > height \<and> status = newBlock then height else m) (blockStates sch) (- 1)"
  have st: "wf_alist (blockStates sch)" "map_of (blockStates sch) h = Some receivedBlock" using assms(1) by (auto simp: stuck_def received_def)
  have "?least \<noteq> h" using least_new [OF refl, of "blockStates sch" "- 1"] st assms(3) map_of_is_SomeI [OF st(1)] by fastforce
  then show "stuck h sch1" "p \<noteq> - 1 \<Longrightarrow> h < p"
    using assms(1,2) st
    by (auto simp: nextHeightToReq_def Let_def stuck_def received_def delete_conv' distinct_delete split: if_split_asm)
qed

lemma clearLaggingRequest_stuck:
  assumes "stuck h sch" and "cur + 1 = h" and "cur < h"
  shows "stuck h (clearLaggingRequest cur sch)"
  using assms by (auto simp: stuck_def received_def clearLaggingRequest_def Let_def map_of_filter_key wf_alist_filter)

lemma isNeedSync_stuck:
  assumes "stuck h sch" and "isNeedSync env lc sch = Inr (need, sch1)" and "GetLastCommittedBlock lc = Some b"
    and "blockHeight b + 1 = h" and "blockHeight b < h"
  shows "stuck h sch1"
  using assms clearLaggingRequest_stuck [OF assms(1,4,5)]
  by (auto simp: isNeedSync_def CurrentHeight_def GetLastCommittedBlock_def Let_def split: if_split_asm)

lemma handleScheduleMsg_stuck:
  assumes "stuck h sch" and "handleScheduleMsg env lc sch = Inr (err, sch1, outs)" and "GetLastCommittedBlock lc = Some b"
    and "blockHeight b + 1 = h" and "blockHeight b < h" and "h \<noteq> - 1"
  shows "stuck h sch1"
proof -
  obtain need sch2 where 1: "isNeedSync env lc sch = Inr (need, sch2)"
    using assms(2) by (auto simp: handleScheduleMsg_def elim!: go_bind_InrE)
  obtain p sch3 where 2: "nextHeightToReq sch2 = (p, sch3)" by force
  have s2: "stuck h sch2" by (rule isNeedSync_stuck [OF assms(1) 1 assms(3-5)])
  have s3: "stuck h sch3" "p \<noteq> - 1 \<Longrightarrow> h < p" using nextHeightToReq_stuck [OF s2 2 assms(6)] by simp_all
  have "stuck h (request_loop p ph bd peer now (sch3\<lparr>lastRequest := now\<rparr>))" if "p \<noteq> - 1" for ph bd peer now
    using request_loop_above [of h p "sch3\<lparr>lastRequest := now\<rparr>" ph bd peer now] s3(1) s3(2) [OF that]
    by (simp add: stuck_def received_def del: map_of_eq_Some_iff)
  then show ?thesis
    using assms(2) 1 2 s2 s3(1) by (auto simp: handleScheduleMsg_def Let_def elim!: go_bind_InrE split: if_split_asm option.split_asm)
qed

lemma receive_block_stuck: "stuck h sch \<Longrightarrow> receive_block from blk (need, sch) = (need1, sch1) \<Longrightarrow> stuck h sch1"
  by (auto simp: receive_block_def stuck_def received_def Let_def delete_conv' split: option.split_asm if_split_asm)

lemma update_stuck:
  "stuck h sch \<Longrightarrow> updateSchedulerBySyncBlockBatch from bs (need, sch) = Inr (need1, sch1) \<Longrightarrow> stuck h sch1"
proof (induction bs arbitrary: need sch)
  case (Cons b bs)
  then obtain blk where b: "updateSchedulerBySyncBlockBatch from bs (receive_block from blk (need, sch)) = Inr (need1, sch1)"
    by (auto elim!: go_bind_InrE)
  obtain need2 sch2 where r: "receive_block from blk (need, sch) = (need2, sch2)" by force
  show ?case by (rule Cons.IH [OF receive_block_stuck [OF Cons.prems(1) r] b [unfolded r]])
qed simp

lemma handleSyncedBlockMsg_stuck:
  assumes "handleSyncedBlockMsg env msg from sch = Inr (ret, err, sch1)" and "stuck h sch"
  shows "stuck h sch1"
proof (cases "sch1 = sch")
  case False
  then obtain bs need where "updateSchedulerBySyncBlockBatch from bs (False, sch) = Inr (need, sch1)"
    using assms(1) by (auto simp: handleSyncedBlockMsg_def elim!: go_bind_InrE split: if_split_asm option.split_asm SyncData.split_asm)
  then show ?thesis by (rule update_stuck [OF assms(2)])
qed (use assms(2) in simp)

lemma handleNodeStatus_stuck: "stuck h sch \<Longrightarrow> handleNodeStatus env lc msg from sch = Inr (sch1, outs) \<Longrightarrow> stuck h sch1"
  by (auto simp: handleNodeStatus_def addPendingBlocksAndUpdatePendingHeight_def stuck_def received_def Let_def pending_loop_keeps
      elim!: go_bind_InrE split: if_split_asm option.split_asm)

lemma sch_handler_stuck:
  assumes "sch_handler env lc ev sch = Inr (ret, err, sch1, outs)" and "stuck h sch" and "GetLastCommittedBlock lc = Some b"
    and "blockHeight b + 1 = h" and "blockHeight b < h" and "h \<noteq> - 1"
    and "ev \<noteq> StopSyncMsg" and "\<And>h st from. ev \<noteq> ProcessedBlockResp h st from"
  shows "stuck h sch1"
proof (cases ev)
  case (SyncedBlockMsg msg "from")
  then obtain ret1 err1 where "handleSyncedBlockMsg env msg from sch = Inr (ret1, err1, sch1)" using assms(1) by (auto elim!: go_bind_InrE)
  then show ?thesis using assms(2) by (rule handleSyncedBlockMsg_stuck)
next
  case (NodeStatusMsg msg "from")
  then obtain outs1 where "handleNodeStatus env lc msg from sch = Inr (sch1, outs1)" using assms(1) by (auto elim!: go_bind_InrE)
  then show ?thesis by (rule handleNodeStatus_stuck [OF assms(2)])
next
  case SchedulerMsg
  then obtain err1 outs1 where "handleScheduleMsg env lc sch = Inr (err1, sch1, outs1)" using assms(1) by (auto elim!: go_bind_InrE)
  then show ?thesis by (rule handleScheduleMsg_stuck [OF assms(2) _ assms(3-6)])
next
  case LivenessMsg
  then show ?thesis using assms(1,2) by (auto simp: handleLivinessMsg_def stuck_def received_def Let_def delete_conv' split: option.split_asm if_split_asm)
next
  case DataDetection
  then show ?thesis using assms(1,3) clearLaggingRequest_stuck [OF assms(2,4,5)] by (auto simp: sch_handleDataDetection_def)
qed (use assms in \<open>auto simp: stuck_def received_def handleStartSyncMsg_def\<close>)

text \<open>What the scheduler may do before it is stopped or hears of a result.\<close>

inductive sched_run :: "LedgerCache \<Rightarrow> scheduler \<Rightarrow> scheduler \<Rightarrow> bool" for lc sch where
  run_start: "sched_run lc sch sch"
| run_event: "sched_run lc sch sch1 \<Longrightarrow> sch_handler env lc ev sch1 = Inr (ret, err, sch2, outs) \<Longrightarrow> ev \<noteq> StopSyncMsg \<Longrightarrow>
    (\<And>h st from. ev \<noteq> ProcessedBlockResp h st from) \<Longrightarrow> sched_run lc sch sch2"

lemma sched_run_stuck:
  assumes "sched_run lc sch sch'" and "stuck h sch" and "GetLastCommittedBlock lc = Some b"
    and "blockHeight b + 1 = h" and "blockHeight b < h" and "h \<noteq> - 1"
  shows "stuck h sch'"
  using assms(1)
proof (induction rule: sched_run.induct)
  case (run_event sch1 env ev ret err sch2 outs)
  then show ?case using sch_handler_stuck [OF run_event(2) run_event.IH assms(3-6)] by blast
qed (rule assms(2))

end
