(* ===== verification/Sync_Example.thy ===== *)
theory Sync_Example
  imports Sync_Laws
begin

section \<open>A run of the synchronisation service\<close>

text \<open>
  A node with the first block only learns that the node B has three more, asks B for the block of
  height 1 and receives it.
\<close>

definition ex_batch :: SyncBlockBatch where
  "ex_batch = \<lparr>sb_Data = BlockinfoBatch [\<lparr>bi_Block = NetBlock ex_b1, bi_RwsetList = []\<rparr>], sb_WithRwset = False\<rparr>"

definition ex_senv :: syncEnv where
  "ex_senv = \<lparr>se_now = 1700000000 * Second, se_listening = False, se_rand = (\<lambda>_. Some 0), se_FastSync = False,
     se_MarshalMsg = (\<lambda>_. Some (Some ''m'')),
     se_UnmarshalMsg = (\<lambda>b. if b = Some ''s'' then Some \<lparr>sm_Type = SyncMsg_NODE_STATUS_RESP, sm_Payload = Some ''p''\<rparr>
       else Some \<lparr>sm_Type = SyncMsg_BLOCK_SYNC_RESP, sm_Payload = Some ''q''\<rparr>),
     se_MarshalReq = (\<lambda>_. Some (Some ''r'')), se_UnmarshalReq = (\<lambda>_. None), se_MarshalBCM = (\<lambda>_. Some (Some ''p'')),
     se_UnmarshalBCM = (\<lambda>_. Some \<lparr>bcm_BlockHeight = 3, bcm_ArchivedHeight = 0\<rparr>), se_MarshalBatch = (\<lambda>_. Some (Some ''q'')),
     se_UnmarshalBatch = (\<lambda>_. Some ex_batch), se_SendMsg = (\<lambda>_ _. True), se_GetBlock = (\<lambda>_. Some None),
     se_GetBlockWithRWSets = (\<lambda>_. Some None), se_ArchivedPivot = 0\<rparr>"

definition ex_c :: coreState where
  "ex_c = ex_start (NewSnapshotManager (\<lambda>_. undefined))"

definition ex_sch :: scheduler where
  "ex_sch = \<lparr>peers = [], blockStates = [], pendingTime = [], pendingBlocks = [], receivedBlocks = [], lastRequest = time_zero,
     pendingRecvHeight = 1, maxPendingBlocks = 128, BatchesizeInEachReq = 1, peerReqTimeout = 30 * Second, reqTimeThreshold = 1 * Second,
     startTime = 1700000000 * Second, thresholdTime = 3 * Second, thresholdBlocks = 5, stopSyncBlock = False, preferenceNodes = None\<rparr>"

definition ex_sch1 :: scheduler where
  "ex_sch1 = ex_sch\<lparr>peers := [(''B'', 3)], blockStates := [(1, newBlock), (2, newBlock), (3, newBlock)]\<rparr>"

definition ex_sch2 :: scheduler where
  "ex_sch2 = ex_sch1\<lparr>blockStates := [(1, pendingBlock), (2, newBlock), (3, newBlock)], lastRequest := 1700000000 * Second,
     pendingTime := [(1, 1700000000 * Second)], pendingBlocks := [(1, ''B'')]\<rparr>"

definition ex_sch3 :: scheduler where
  "ex_sch3 = ex_sch2\<lparr>blockStates := [(1, receivedBlock), (2, newBlock), (3, newBlock)], pendingTime := [], pendingBlocks := [],
     receivedBlocks := [(1, ''B'')]\<rparr>"

lemmas ex_sch_simps = ex_sch_def ex_sch1_def ex_sch2_def ex_sch3_def ex_senv_def ex_c_def ex_batch_def ex_core_simps

lemma ex_ledger: "GetLastCommittedBlock (cr_ledger ex_c) = Some ex_b0" "blockHeight ex_b0 = 0" "CurrentHeight (cr_ledger ex_c) = (0, None)"
  by (simp_all add: ex_c_def ex_core_simps)

lemma ex_status: "sch_handler ex_senv (cr_ledger ex_c) (NodeStatusMsg \<lparr>bcm_BlockHeight = 3, bcm_ArchivedHeight = 0\<rparr> ''B'') ex_sch =
    Inr (None, None, ex_sch1, [])"
  by (simp add: handleNodeStatus_def isPreferenceNode_def isPeerArchivedTooHeight_def receiveMajorityBlocks_def Since_def
      addPendingBlocksAndUpdatePendingHeight_def pending_loop.simps ex_ledger ex_sch_def ex_sch1_def ex_senv_def Second_def Let_def)

lemma ex_select: "selectPeer ex_senv ex_sch1 1 = Inr ''B''"
  by (simp add: selectPeer_def getHeight_def pendingReqInPeers_def getPendingReqInPeer_def index_at_def ex_sch1_def ex_sch_def)

lemma one_less_max: "(1 :: u64) < - 1"
  by (simp add: word_less_nat_alt unsigned_minus_1_eq_mask mask_eq_exp_minus_1)

lemma ex_request: "sch_handler ex_senv (cr_ledger ex_c) SchedulerMsg ex_sch1 = Inr (None, None, ex_sch2, [NetSend (Some ''m'') ''B''])"
proof -
  have "isNeedSync ex_senv (cr_ledger ex_c) ex_sch1 = Inr (True, ex_sch1)"
    by (simp add: isNeedSync_def maxHeight_def ex_ledger ex_sch1_def ex_sch_def)
  moreover have "nextHeightToReq ex_sch1 = (1, ex_sch1)"
    by (simp add: nextHeightToReq_def ex_sch1_def ex_sch_def one_less_max)
  moreover have "request_loop 1 3 2 ''B'' (1700000000 * Second) (ex_sch1\<lparr>lastRequest := 1700000000 * Second\<rparr>) = ex_sch2"
    by (simp add: request_loop.simps ex_sch2_def ex_sch1_def ex_sch_def)
  ultimately show ?thesis
    using ex_select by (simp add: handleScheduleMsg_def sendMsg_def map_get0_def ex_sch1_def ex_sch_def ex_senv_def)
qed

lemma ex_received: "sch_handler ex_senv (cr_ledger ex_c) (SyncedBlockMsg (Some ''q'') ''B'') ex_sch2 =
    Inr (Some (ReceivedBlockInfos ex_batch ''B''), None, ex_sch3, [])"
  by (simp add: handleSyncedBlockMsg_def receive_block_def net_block_def ex_sch3_def ex_sch2_def ex_sch1_def ex_sch_def ex_senv_def
      ex_batch_def ex_b1_def ex_block_def)

subsection \<open>States of the service\<close>

definition ex_sv ::
    "scheduler \<Rightarrow> syncEvent list \<Rightarrow> syncEvent option \<Rightarrow> processor \<Rightarrow> syncEvent list \<Rightarrow> NodeList \<Rightarrow> syncOut list \<Rightarrow> BlockChainSyncServer" where
  "ex_sv sch sq so pro pq nl outs = \<lparr>sv_start = True, sv_conf = NewBlockSyncServerConf,
     sv_scheduler = \<lparr>ro_start = True, ro_queue = sq, ro_out = so\<rparr>, sv_processor = \<lparr>ro_start = True, ro_queue = pq, ro_out = None\<rparr>,
     sv_sch = sch, sv_pro = pro, requestCache = [], nodeList = nl, broadcastCh = [], sv_outs = outs\<rparr>"

abbreviation (input) ex_reach :: "bool \<Rightarrow> BlockChainSyncServer \<Rightarrow> bool" where
  "ex_reach stops sv \<equiv> sync_reach (core_adder ex_env) (core_good ex_env ex_b0) stops NewBlockSyncServerConf ex_c sv"

lemma ex_good: "core_good ex_env ex_b0 ex_c"
proof -
  have "core_reach ex_core_fps ex_b0 ex_c" unfolding ex_c_def ex_start_def by (rule cr_start)
  then show ?thesis using core_reach_inv ex_core_fps_ok by (simp add: ex_env_def)
qed

lemma ex_va_ledger: "va_ledger (core_adder ex_env) = cr_ledger"
  by (simp add: core_adder_def)

lemma ex_started: "\<exists>nl outs. ex_reach stops (ex_sv ex_sch [] None newProcessor [] nl outs)"
proof -
  have "Start ex_senv (cr_ledger ex_c) NewBlockSyncServerConf = Some (ex_sv ex_sch [] None newProcessor [] [] [NetBroadcast (Some ''m'')])"
    by (simp add: Start_def newScheduler_def ex_ledger broadcastMsg_def emit_sync_def routine_begin_def NewRoutine_def NewNodeList_def
        ex_sv_def ex_sch_def ex_senv_def NewBlockSyncServerConf_def bufferSize_def)
  then show ?thesis using sy_start [of "core_good ex_env ex_b0" ex_c ex_senv "core_adder ex_env"] ex_good ex_va_ledger by metis
qed

text \<open>One event in the queue of the scheduler is handled.\<close>

lemma ex_schedule:
  assumes "ex_reach stops (ex_sv sch [ev] None pro pq nl outs)" and "sch_handler ex_senv (cr_ledger ex_c) ev sch = Inr (ret, err, sch1, outs1)"
  shows "ex_reach stops (ex_sv sch1 [] ret pro pq nl (outs @ outs1))"
  using sy_scheduler [OF assms(1), of ev ex_senv ret err sch1 outs1] assms(2)
  by (simp add: ex_sv_def ex_va_ledger takeable_def Compare_def emit_sync_def)

lemma ex_net:
  assumes "ex_reach stops (ex_sv sch [] None pro pq nl outs)"
  shows "\<exists>nl. ex_reach stops (ex_sv sch [NodeStatusMsg \<lparr>bcm_BlockHeight = 3, bcm_ArchivedHeight = 0\<rparr> ''B''] None pro pq nl outs)"
    and "ex_reach stops (ex_sv sch [SyncedBlockMsg (Some ''q'') ''B''] None pro pq nl outs)"
    and "ex_reach stops (ex_sv sch [SchedulerMsg] None pro pq nl outs)"
proof -
  have "snd (blockSyncMsgHandler ex_senv (cr_ledger ex_c) ''B'' (Some ''s'') True (ex_sv sch [] None pro pq nl outs)) =
      ex_sv sch [NodeStatusMsg \<lparr>bcm_BlockHeight = 3, bcm_ArchivedHeight = 0\<rparr> ''B''] None pro pq (AddNode (se_now ex_senv) ''B'' 3 0 nl) outs"
    by (simp add: blockSyncMsgHandler_def handleNodeStatusResp_def add_scheduler_def addTask_def ex_sv_def ex_senv_def)
  then show "\<exists>nl. ex_reach stops (ex_sv sch [NodeStatusMsg \<lparr>bcm_BlockHeight = 3, bcm_ArchivedHeight = 0\<rparr> ''B''] None pro pq nl outs)"
    using sy_net [OF assms, of ex_senv "''B''" "Some ''s''" True] ex_va_ledger by (metis prod.collapse)
  have "snd (blockSyncMsgHandler ex_senv (cr_ledger ex_c) ''B'' (Some ''b'') True (ex_sv sch [] None pro pq nl outs)) =
      ex_sv sch [SyncedBlockMsg (Some ''q'') ''B''] None pro pq nl outs"
    by (simp add: blockSyncMsgHandler_def add_scheduler_def addTask_def ex_sv_def ex_senv_def)
  then show "ex_reach stops (ex_sv sch [SyncedBlockMsg (Some ''q'') ''B''] None pro pq nl outs)"
    using sy_net [OF assms, of ex_senv "''B''" "Some ''b''" True] ex_va_ledger by (metis prod.collapse)
  show "ex_reach stops (ex_sv sch [SchedulerMsg] None pro pq nl outs)"
    using sy_tick [OF assms, of ex_senv ScheduleTick] by (simp add: add_scheduler_def addTask_def ex_sv_def)
qed

text \<open>The block is received and on its way to the processor, whatever waits there.\<close>

lemma ex_run:
  assumes "ex_reach stops (ex_sv ex_sch [] None pro pq nl outs)"
  shows "\<exists>nl outs. ex_reach stops (ex_sv ex_sch3 [] (Some (ReceivedBlockInfos ex_batch ''B'')) pro pq nl outs)"
proof -
  obtain nl1 where "ex_reach stops (ex_sv ex_sch [NodeStatusMsg \<lparr>bcm_BlockHeight = 3, bcm_ArchivedHeight = 0\<rparr> ''B''] None pro pq nl1 outs)"
    using ex_net(1) [OF assms] by blast
  from ex_schedule [OF this ex_status] have "ex_reach stops (ex_sv ex_sch1 [] None pro pq nl1 outs)" by simp
  from ex_schedule [OF ex_net(3) [OF this] ex_request]
  have "ex_reach stops (ex_sv ex_sch2 [] None pro pq nl1 (outs @ [NetSend (Some ''m'') ''B'']))" .
  from ex_schedule [OF ex_net(2) [OF this] ex_received] show ?thesis by auto
qed

subsection \<open>The service is asked to stop and to start again\<close>

lemma ex_restarted: "\<exists>nl outs. ex_reach True (ex_sv ex_sch [] None newProcessor [StopSyncMsg] nl outs)"
proof -
  obtain nl outs where "ex_reach True (ex_sv ex_sch [] None newProcessor [] nl outs)" using ex_started by blast
  from sy_stop [OF this] have "ex_reach True (ex_sv ex_sch [StopSyncMsg] None newProcessor [StopSyncMsg] nl outs)"
    by (simp add: StopBlockSync_def add_scheduler_def add_processor_def addTask_def ex_sv_def)
  from ex_schedule [OF this] have "ex_reach True (ex_sv (ex_sch\<lparr>stopSyncBlock := True\<rparr>) [] None newProcessor [StopSyncMsg] nl outs)"
    by (simp add: sch_handleStopSyncMsg_def ex_sch_def)
  from sy_restart [OF this]
  have "ex_reach True (ex_sv (ex_sch\<lparr>stopSyncBlock := True\<rparr>) [StartSyncMsg] None newProcessor [StopSyncMsg] nl outs)"
    by (simp add: StartBlockSync_def add_scheduler_def addTask_def ex_sv_def)
  from ex_schedule [OF this] have "ex_reach True (ex_sv ex_sch [] None newProcessor [StopSyncMsg] nl outs)"
    by (simp add: handleStartSyncMsg_def ex_sch_def)
  then show ?thesis by blast
qed

text \<open>The processor takes the block first, and then the message that empties its queue.\<close>

lemma ex_lost: "\<exists>pro nl outs. pr_queue pro = [] \<and> ex_reach True (ex_sv ex_sch3 [] None pro [] nl outs)"
proof -
  obtain nl outs where "ex_reach True (ex_sv ex_sch [] None newProcessor [StopSyncMsg] nl outs)" using ex_restarted by blast
  from ex_run [OF this] obtain nl outs
    where "ex_reach True (ex_sv ex_sch3 [] (Some (ReceivedBlockInfos ex_batch ''B'')) newProcessor [StopSyncMsg] nl outs)" by blast
  from sy_received [OF this]
  have r: "ex_reach True (ex_sv ex_sch3 [] None newProcessor [StopSyncMsg, ReceivedBlockInfos ex_batch ''B''] nl outs)"
    by (simp add: add_processor_def addTask_def ex_sv_def)
  obtain pro where h: "pro_handler ex_senv (core_adder ex_env) (ReceivedBlockInfos ex_batch ''B'') newProcessor ex_c = Inr (None, pro, ex_c)"
    by (simp add: handleReceivedBlockInfos_def lastCommitBlockHeight_def ex_va_ledger ex_ledger ex_batch_def batch_infos_def net_block_def)
  have "ex_reach True (ex_sv ex_sch3 [] None pro [StopSyncMsg] nl outs)"
    using sy_processor [OF r, of "ReceivedBlockInfos ex_batch ''B''" ex_senv None pro ex_c] h
    by (simp add: ex_sv_def takeable_def Compare_def priorityTop_def priorityLow_def)
  from sy_processor [OF this, of StopSyncMsg ex_senv None "pro\<lparr>pr_queue := []\<rparr>" ex_c]
  have "ex_reach True (ex_sv ex_sch3 [] None (pro\<lparr>pr_queue := []\<rparr>) [] nl outs)"
    by (simp add: ex_sv_def takeable_def Compare_def pro_handleStopSyncMsg_def)
  then show ?thesis by (intro exI [of _ "pro\<lparr>pr_queue := []\<rparr>"]) auto
qed

end
