(* ===== verification/Sync_Requests.thy ===== *)
theory Sync_Requests
  imports Sync_Server
begin

section \<open>Requests for blocks and their answers\<close>

text \<open>
  The choice of the peer for a request, and the way of a request through the peer back to the
  queue of the processor.
\<close>

subsection \<open>The choice of the peer\<close>

lemma pendingReqInPeers_group:
  "map_of (pendingReqInPeers sch ps) n =
     (let qs = filter (\<lambda>p. getPendingReqInPeer sch p = n) ps in if qs = [] then None else Some qs)"
proof (induction ps rule: rev_induct)
  case (snoc p ps)
  have "map_of (pendingReqInPeers sch (ps @ [p])) n =
      (if getPendingReqInPeer sch p = n
       then Some ((case map_of (pendingReqInPeers sch ps) n of None \<Rightarrow> [] | Some qs \<Rightarrow> qs) @ [p]) else map_of (pendingReqInPeers sch ps) n)"
    by (auto simp: pendingReqInPeers_def Let_def)
  then show ?case using snoc by (auto simp: Let_def)
qed (simp add: pendingReqInPeers_def)

lemma fold_least: "fold (\<lambda>(num, x) m. if m > num then num else m) groups k = fold min (map fst groups) (k :: nat)"
  by (induction groups arbitrary: k) (auto simp: min_def)

lemma least_key:
  fixes k :: nat
  assumes "groups \<noteq> []" and "\<forall>n \<in> fst ` set groups. n < k"
  shows "fold (\<lambda>(num, x) m. if m > num then num else m) groups k \<in> fst ` set groups"
    and "\<forall>n \<in> fst ` set groups. fold (\<lambda>(num, x) m. if m > num then num else m) groups k \<le> n"
proof -
  have eq: "fold (\<lambda>(num, x) m. if m > num then num else m) groups k = Min (insert k (fst ` set groups))"
    unfolding fold_least using Min.set_eq_fold [of k "map fst groups"] by simp
  then show "\<forall>n \<in> fst ` set groups. fold (\<lambda>(num, x) m. if m > num then num else m) groups k \<le> n" by simp
  have "Min (insert k (fst ` set groups)) \<in> insert k (fst ` set groups)" by (rule Min_in) simp_all
  moreover obtain n where "n \<in> fst ` set groups" using assms(1) by (cases groups) auto
  then have "Min (insert k (fst ` set groups)) \<noteq> k" using assms(2) Min_le [of "insert k (fst ` set groups)" n] by fastforce
  ultimately show "fold (\<lambda>(num, x) m. if m > num then num else m) groups k \<in> fst ` set groups" unfolding eq by blast
qed

definition least_loaded :: "scheduler \<Rightarrow> u64 \<Rightarrow> string \<Rightarrow> bool" where
  "least_loaded sch h p \<longleftrightarrow> p \<in> set (getHeight sch h) \<and>
     (\<forall>q \<in> set (getHeight sch h). getPendingReqInPeer sch p \<le> getPendingReqInPeer sch q)"

lemma selectPeer_least:
  assumes "getHeight sch h \<noteq> []" and "length (pendingBlocks sch) < 2 ^ 63 - 1" and "\<forall>n k. se_rand env n = Some k \<longrightarrow> k < n"
  shows "\<exists>p. selectPeer env sch h = Inr p \<and> least_loaded sch h p"
proof -
  let ?ps = "getHeight sch h" and ?count = "getPendingReqInPeer sch"
  let ?groups = "pendingReqInPeers sch ?ps"
  let ?least = "fold (\<lambda>(num, _) m. if m > num then num else m) ?groups (2 ^ 63 - 1)"
  have dom: "fst ` set ?groups = ?count ` set ?ps"
  proof -
    have "n \<in> fst ` set ?groups \<longleftrightarrow> map_of ?groups n \<noteq> None" for n by (metis map_of_eq_None_iff)
    then have "n \<in> fst ` set ?groups \<longleftrightarrow> n \<in> ?count ` set ?ps" for n
      unfolding pendingReqInPeers_group by (simp add: Let_def filter_empty_conv image_iff) metis
    then show ?thesis by blast
  qed
  have "?count p < 2 ^ 63 - 1" for p
    using assms(2) count_if_le [of "\<lambda>(_, nodeId). nodeId = p" "pendingBlocks sch"] by (simp add: getPendingReqInPeer_def)
  then have small: "\<forall>n \<in> fst ` set ?groups. n < 2 ^ 63 - 1" unfolding dom by blast
  have "?groups \<noteq> []" using dom assms(1) by force
  note least = least_key [OF this small]
  define best where "best = filter (\<lambda>p. ?count p = ?least) ?ps"
  have best: "map_of ?groups ?least = Some best" "best \<noteq> []"
    using least(1) unfolding dom best_def pendingReqInPeers_group Let_def by (auto simp: filter_empty_conv)
  have ok: "least_loaded sch h p" if "p \<in> set best" for p
    using that least(2) unfolding dom least_loaded_def best_def by auto
  have r: "randIntN env (length best) < length best"
    using assms(3) best(2) by (auto simp: randIntN_def split: option.split)
  show ?thesis
  proof (cases "length best = 1")
    case True
    then show ?thesis using assms(1) best ok [of "best ! 0"] by (simp add: selectPeer_def index_at_def)
  next
    case False
    then show ?thesis
      using assms(1) best r ok [of "best ! randIntN env (length best)"] by (simp add: selectPeer_def index_at_def)
  qed
qed

lemma selectPeer_has:
  assumes "selectPeer env sch h = Inr p" and "p \<noteq> []"
  shows "p \<in> set (getHeight sch h)"
proof -
  obtain best k where "map_of (pendingReqInPeers sch (getHeight sch h)) k = Some best" "p \<in> set best"
    using assms by (auto simp: selectPeer_def index_at_def Let_def split: if_split_asm option.split_asm)
  then show ?thesis unfolding pendingReqInPeers_group by (auto simp: Let_def split: if_split_asm)
qed

lemma getHeight_peers:
  assumes "p \<in> set (getHeight sch h)" and "wf_alist (peers sch)"
  shows "h \<le> map_get0 (map_of (peers sch)) p"
  using assms by (auto simp: getHeight_def map_get0_def split: option.split dest: map_of_is_SomeI eq_key_imp_eq_value)

subsection \<open>A request and its answer\<close>

lemma u64_less_next:
  assumes "h \<noteq> (- 1 :: u64)"
  shows "h < 1 + h"
proof -
  have "unat h \<noteq> unat (- 1 :: u64)" using assms by (simp add: word_unat_eq_iff)
  then have "unat h \<noteq> 2 ^ 64 - 1" by (simp add: unsigned_minus_1_eq_mask mask_eq_exp_minus_1)
  moreover have "unat h < 2 ^ 64" using unsigned_less [of h] by simp
  ultimately have "unat h + 1 < 2 ^ 64" by simp
  then show ?thesis by (simp add: word_less_nat_alt unat_word_ariths(1))
qed

lemma request_loop_one:
  assumes "h \<le> peerHeight" and "h \<noteq> - 1"
  shows "request_loop h peerHeight (1 + h) peer now sch =
    sch\<lparr>blockStates := AList.update h pendingBlock (blockStates sch), pendingTime := AList.update h now (pendingTime sch),
      pendingBlocks := AList.update h peer (pendingBlocks sch)\<rparr>"
  using assms u64_less_next [OF assms(2)] by (subst request_loop.simps, subst request_loop.simps) (simp add: add.commute)

lemma isNeedSync_frame:
  assumes "isNeedSync env lc sch = Inr (need, sch1)" and "GetLastCommittedBlock lc = Some b" and "blockHeight b \<noteq> - 1" and "need"
  shows "blockHeight b < pendingRecvHeight sch1" "peers sch1 = peers sch" "BatchesizeInEachReq sch1 = BatchesizeInEachReq sch" "\<not> stopSyncBlock sch1"
  using assms u64_less_next [OF assms(3)]
  by (auto simp: isNeedSync_def CurrentHeight_def GetLastCommittedBlock_def clearLaggingRequest_def Let_def add.commute not_le split: if_split_asm)

lemma nextHeightToReq_frame:
  assumes "nextHeightToReq sch = (h, sch1)" and "h \<noteq> - 1"
  shows "sch1 = sch" "pendingRecvHeight sch \<le> h"
  using assms by (auto simp: nextHeightToReq_def Let_def split: if_split_asm)

lemma handleScheduleMsg_request:
  assumes "handleScheduleMsg env lc sch = Inr (err, sch1, NetSend bs peer # outs)" and "wf_alist (peers sch)"
    and "GetLastCommittedBlock lc = Some b" and "blockHeight b \<noteq> - 1"
  shows "\<exists>h bz. se_MarshalReq env \<lparr>rq_BlockHeight = h, rq_BatchSize = BatchesizeInEachReq sch, rq_WithRwset = se_FastSync env\<rparr> = Some bz \<and>
    se_MarshalMsg env \<lparr>sm_Type = SyncMsg_BLOCK_SYNC_REQ, sm_Payload = bz\<rparr> = Some bs \<and> blockHeight b < h \<and>
    h \<le> map_get0 (map_of (peers sch)) peer \<and> outs = [] \<and>
    (BatchesizeInEachReq sch = 1 \<longrightarrow> map_of (blockStates sch1) h = Some pendingBlock \<and> \<not> stopSyncBlock sch1)"
proof -
  obtain need sch2 where n: "isNeedSync env lc sch = Inr (need, sch2)" using assms(1) by (auto simp: handleScheduleMsg_def elim!: go_bind_InrE)
  obtain h sch3 where x: "nextHeightToReq sch2 = (h, sch3)" by force
  have need: "need" "h \<noteq> - 1" using assms(1) n x by (auto simp: handleScheduleMsg_def split: if_split_asm)
  note nf = isNeedSync_frame [OF n assms(3,4) need(1)] and xf = nextHeightToReq_frame [OF x need(2)]
  obtain peer1 where p: "selectPeer env sch2 h = Inr peer1" "peer1 \<noteq> []"
    using assms(1) n x need xf by (auto simp: handleScheduleMsg_def elim!: go_bind_InrE split: if_split_asm)
  obtain bz where bz: "se_MarshalReq env \<lparr>rq_BlockHeight = h, rq_BatchSize = BatchesizeInEachReq sch, rq_WithRwset = se_FastSync env\<rparr> = Some bz"
    and out: "snd (sendMsg env SyncMsg_BLOCK_SYNC_REQ bz peer1) = NetSend bs peer # outs"
    and sch1: "sch1 = request_loop h (map_get0 (map_of (peers sch)) peer1) (BatchesizeInEachReq sch + h) peer1 (se_now env) (sch2\<lparr>lastRequest := se_now env\<rparr>)"
    using assms(1) n x need xf p nf by (auto simp: handleScheduleMsg_def Let_def split: option.split_asm)
  have m: "se_MarshalMsg env \<lparr>sm_Type = SyncMsg_BLOCK_SYNC_REQ, sm_Payload = bz\<rparr> = Some bs" "peer1 = peer" "outs = []"
    using out by (auto simp: sendMsg_def split: option.split_asm)
  have hp: "h \<le> map_get0 (map_of (peers sch)) peer"
    using getHeight_peers [OF selectPeer_has [OF p]] assms(2) nf(2) m(2) by simp
  have "map_of (blockStates sch1) h = Some pendingBlock \<and> \<not> stopSyncBlock sch1" if "BatchesizeInEachReq sch = 1"
    using request_loop_one [OF hp need(2)] sch1 that m(2) nf(4) by simp
  moreover have "blockHeight b < h" using nf(1) xf(2) by simp
  ultimately show ?thesis using bz m hp by blast
qed

end
