(* ===== verification/Sync_Claims.thy ===== *)
theory Sync_Claims
  imports Sync_Example Sync_Requests
begin

section \<open>Properties of block synchronisation\<close>

subsection \<open>What is committed\<close>

text \<open>A block that the verifier has accepted is in the proposal cache.\<close>

lemma accept_block_cached:
  assumes "accept_block e mode publish b batchIds rw events c = (None, c')"
  shows "GetProposedBlock (cu_fps e) b (cr_proposals c') = Some (b, rw, events)"
proof -
  obtain pc where "SetProposedBlock (cu_fps e) (cr_ledger c) b rw events False (cr_proposals c) = (None, pc)" "cr_proposals c' = pc"
    using assms by (auto simp: accept_block_def emit_core_def Let_def split: if_split_asm prod.split_asm option.split_asm)
  then show ?thesis using GetProposedBlock_after_Set by blast
qed

lemma VerifyBlock_new:
  assumes "VerifyBlock e block SYNC_VERIFY c = Inr (None, c')" and "GetProposedBlock (cu_fps e) block (cr_proposals c) = None"
  shows "\<exists>lastBlock. well_verified e SYNC_VERIFY lastBlock block"
    and "\<exists>rw events. GetProposedBlock (cu_fps e) block (cr_proposals c') = Some (block, rw, events)"
proof -
  let ?c = "c\<lparr>cr_locks := insert (bytes_content (hd_BlockHash (bk_Header block))) (cr_locks c)\<rparr>"
  obtain c1 where c1: "go_bind (verifyRepeat e block SYNC_VERIFY ?c) (\<lambda>(isRepeat, c2).
      if isRepeat then Inr (None, c2) else verify_new e SYNC_VERIFY block c2) = Inr (None, c1)" "cr_proposals c' = cr_proposals c1"
    using assms(1) by (auto simp: VerifyBlock_def with_lock_def Lock_def Let_def elim!: go_bind_InrE split: if_split_asm)
  then obtain isRepeat c2 where r: "verifyRepeat e block SYNC_VERIFY ?c = Inr (isRepeat, c2)"
      "(if isRepeat then Inr (None, c2) else verify_new e SYNC_VERIFY block c2) = Inr (None, c1)"
    by (auto simp: go_bind_Inr_iff)
  have "\<not> isRepeat" using verifyRepeat_frame(3) [OF r(1)] assms(2) by auto
  then have v: "verify_new e SYNC_VERIFY block ?c = Inr (None, c1)" using verifyRepeat_frame(2) [OF r(1)] r(2) by simp
  from verify_new_frame(2) [OF this] show "\<exists>lastBlock. well_verified e SYNC_VERIFY lastBlock block" by (auto dest!: RecoverBlock_sync)
  obtain b ids rw events c3 where "RecoverBlock e SYNC_VERIFY block = Inr (Inr (b, ids))" "accept_block e SYNC_VERIFY True b ids rw events c3 = (None, c1)"
    using v by (auto simp: verify_new_def Let_def elim!: go_bind_InrE split: sum.split_asm prod.split_asm option.split_asm if_split_asm)
  then show "\<exists>rw events. GetProposedBlock (cu_fps e) block (cr_proposals c') = Some (block, rw, events)"
    using RecoverBlock_sync accept_block_cached c1(2) by fastforce
qed

lemma AddBlock_cached:
  assumes "AddBlock e block c = Inr (None, c')" and "GetProposedBlock (cu_fps e) block (cr_proposals c) = Some (block, rw, events)"
  shows "\<exists>b. cr_chain c' = cr_chain c @ [b] \<and> bk_Header b = bk_Header block \<and> bk_Txs b = bk_Txs block"
proof -
  have "add_block e block c = Inr (None, c')"
    using assms(1) by (auto simp: AddBlock_def elim!: go_bind_InrE split: if_split_asm prod.split_asm bool.split_asm)
  then obtain b where b: "getCommittedBlock e block block = Inr b" "add_committed e block b rw events c = Inr (None, c')"
    using assms(2) by (auto simp: add_block_def elim!: go_bind_InrE split: option.split_asm)
  then show ?thesis
    using getCommittedBlock_header(1,2) [OF b(1)] add_committed_appended [OF b(2), of "cu_fps e"] by (auto simp: appended_def)
qed

text \<open>
  C6: when the synchronisation service reports a block that was not in the proposal cache as added,
  the store has exactly one more block, with the header and the transactions of the received one; it
  has the height after and the hash of the last block, its own hash, a valid signature of its
  proposer, and it passes the check of the votes of the consensus module.
\<close>

theorem synchronised_block_committed:
  assumes "core_reach (cu_fps e) genesis c" and "fp_ok (cu_fps e)" and "validateAndCommitBlock e block c = Inr (status_ok, c')"
    and "GetProposedBlock (cu_fps e) block (cr_proposals c) = None"
  shows "\<exists>b hash. cr_chain c' = cr_chain c @ [b] \<and> bk_Header b = bk_Header block \<and> bk_Txs b = bk_Txs block \<and>
    hd_BlockHeight (bk_Header block) = hd_BlockHeight (bk_Header (last (cr_chain c))) + 1 \<and>
    bytes_Equal (hd_PreBlockHash (bk_Header block)) (hd_BlockHash (bk_Header (last (cr_chain c)))) \<and>
    cu_CalcBlockHash e (cf_Hash e) block = Some hash \<and> bytes_Equal hash (hd_BlockHash (bk_Header block)) \<and>
    cu_VerifyBlockSig e (cf_Hash e) block = Some True \<and> cn_VerifyBlockSignatures e block"
proof -
  have inv: "core_inv (cu_fps e) genesis c" by (rule core_reach_inv [OF assms(1,2)])
  obtain c1 where v: "VerifyBlock e block SYNC_VERIFY c = Inr (None, c1)" and a: "AddBlock e block c1 = Inr (None, c')"
    using assms(3) by (auto simp: validateAndCommitBlock_def add_verified_def elim!: go_bind_InrE
        split: if_split_asm option.split_asm prod.split_asm)
  note new = VerifyBlock_new [OF v assms(4)]
  obtain lastBlock where w: "well_verified e SYNC_VERIFY lastBlock block" using new(1) by blast
  obtain rw events where "GetProposedBlock (cu_fps e) block (cr_proposals c1) = Some (block, rw, events)" using new(2) by blast
  from AddBlock_cached [OF a this] obtain b where b: "cr_chain c' = cr_chain c1 @ [b]" "bk_Header b = bk_Header block" "bk_Txs b = bk_Txs block"
    by blast
  have sl: "cr_chain c1 = cr_chain c" using VerifyBlock_frame [OF v] by (simp add: same_ledger_def)
  have "extends (last (cr_chain c)) b"
    using AddBlock_cases [OF a assms(2)] core_inv_same [OF inv VerifyBlock_frame [OF v]] b(1) sl
    by (auto simp: core_inv_def appended_def)
  then show ?thesis using b sl w by (auto simp: well_verified_def extends_def)
qed

theorem synchronised_block_committed_witness:
  "\<exists>c'. validateAndCommitBlock ex_env ex_b1 (ex_start (NewSnapshotManager (\<lambda>_. undefined))) = Inr (status_ok, c') \<and>
    length (cr_chain c') = 2 \<and> cn_VerifyBlockSignatures ex_env ex_b1"
proof -
  let ?c = "ex_start (NewSnapshotManager (\<lambda>_. undefined))"
  obtain c' where v: "validateAndCommitBlock ex_env ex_b1 ?c = Inr (status_ok, c')"
    by (simp add: validateAndCommitBlock_def alreadyCommitted_def add_verified_def VerifyBlock_def with_lock_def Lock_def verifyRepeat_def
        verify_new_def FetchLastBlock_def RecoverBlock_def validateBlock_def IsTxCountValid_def CheckPreBlock_def IsHeightValid_def
        IsPreHashValid_def ValidateBlock_def IsBlockHashValid_def CheckVacuumBlock_def CheckBlockDigests_def IsMerkleRootValid_def
        IsDagHashValid_def IsRWSetHashValid_def IsOptimizeChargeGasEnabled_def NewSnapshot_def new_snapshot_def makeSnapshotImpl_def
        storeAndLinkSnapshotImpl_def update_snapshot_def GetSnapshot_def NewSnapshotManager_def accept_block_def SetProposedBlock_def
        ex_add_simps ex_core_simps)
  have "core_reach (cu_fps ex_env) ex_b0 ?c" unfolding ex_start_def ex_env_def by (simp add: cr_start)
  moreover have "fp_ok (cu_fps ex_env)" using ex_core_fps_ok by (simp add: ex_env_def)
  moreover have "GetProposedBlock (cu_fps ex_env) ex_b1 (cr_proposals ?c) = None" by (simp add: ex_core_simps)
  ultimately show ?thesis using synchronised_block_committed [of ex_env ex_b0 ?c ex_b1 c'] v by (auto simp: ex_start_def)
qed

subsection \<open>What is on its way\<close>

text \<open>
  C7: in every run of the synchronisation service on the core engine in which it is not asked to
  stop, whatever messages the other nodes send and whatever blocks other components add, a height
  above the last block that the scheduler holds as received is not forgotten: its block is in the
  queue of the processor, or on the way there, or the result for it is on the way back. So the
  scheduler, which asks for no received height again, hears of it.
\<close>

theorem received_block_not_lost:
  assumes "sync_reach (core_adder e) (\<lambda>c. fp_ok (cu_fps e) \<and> core_inv (cu_fps e) genesis c) False conf c sv"
    and "map_of (blockStates (sv_sch sv)) h = Some receivedBlock" and "hd_BlockHeight (bk_Header (last (cr_chain c))) < h"
  shows "h \<in> fst ` set (pr_queue (sv_pro sv)) \<or>
    (\<exists>batch from. ReceivedBlockInfos batch from \<in> to_processor sv \<and> h \<in> batch_heights batch) \<or>
    (\<exists>st from. ProcessedBlockResp h st from \<in> to_scheduler sv)"
  using core_blocks.sync_inv_reach [OF assms(1)] assms(2,3) unfolding sync_inv_def carried_def received_def by blast

theorem received_block_not_lost_witness:
  "\<exists>sv. map_of (blockStates (sv_sch sv)) 1 = Some receivedBlock \<and> hd_BlockHeight (bk_Header (last (cr_chain ex_c))) < 1 \<and>
    (\<exists>batch from. ReceivedBlockInfos batch from \<in> to_processor sv \<and> 1 \<in> batch_heights batch)"
proof -
  obtain nl outs where "ex_reach False (ex_sv ex_sch [] None newProcessor [] nl outs)" using ex_started by blast
  from ex_run [OF this] obtain nl outs
    where r: "ex_reach False (ex_sv ex_sch3 [] (Some (ReceivedBlockInfos ex_batch ''B'')) newProcessor [] nl outs)" by blast
  let ?sv = "ex_sv ex_sch3 [] (Some (ReceivedBlockInfos ex_batch ''B'')) newProcessor [] nl outs"
  have h: "map_of (blockStates (sv_sch ?sv)) 1 = Some receivedBlock" "hd_BlockHeight (bk_Header (last (cr_chain ex_c))) < 1"
    by (simp_all add: ex_sv_def ex_sch3_def ex_c_def ex_start_def ex_b0_def ex_block_def)
  from received_block_not_lost [OF r h] h show ?thesis
    by (intro exI [of _ ?sv]) (auto simp: ex_sv_def newProcessor_def to_scheduler_def)
qed

text \<open>
  C31: a block is lost when the service is stopped and started again: the stop message has a low
  priority, so that the processor may take it after a block that was requested since, and then it
  empties its queue. In a run on the core engine the scheduler then holds the next height as
  received while no block and no message for it is left, and no event but another stop or a result
  makes it ask for that height again.
\<close>

theorem stopped_sync_loses_block:
  "\<exists>c sv h. sync_reach (core_adder ex_env) (\<lambda>c. fp_ok (cu_fps ex_env) \<and> core_inv (cu_fps ex_env) ex_b0 c) True NewBlockSyncServerConf c sv \<and>
     h = hd_BlockHeight (bk_Header (last (cr_chain c))) + 1 \<and> map_of (blockStates (sv_sch sv)) h = Some receivedBlock \<and>
     h \<notin> fst ` set (pr_queue (sv_pro sv)) \<and> to_processor sv = {} \<and> to_scheduler sv = {} \<and>
     {sch. sched_run (cr_ledger c) (sv_sch sv) sch} \<subseteq> {sch. map_of (blockStates sch) h = Some receivedBlock}"
proof -
  obtain pro nl outs where r: "pr_queue pro = []" "ex_reach True (ex_sv ex_sch3 [] None pro [] nl outs)" using ex_lost by blast
  let ?sv = "ex_sv ex_sch3 [] None pro [] nl outs"
  have "stuck 1 ex_sch3" by (simp add: stuck_def received_def ex_sch3_def ex_sch2_def ex_sch1_def ex_sch_def)
  then have "stuck 1 sch" if "sched_run (cr_ledger ex_c) ex_sch3 sch" for sch
    using sched_run_stuck [OF that _ ex_ledger(1)] ex_ledger(2) by simp
  then have "{sch. sched_run (cr_ledger ex_c) (sv_sch ?sv) sch} \<subseteq> {sch. map_of (blockStates sch) 1 = Some receivedBlock}"
    by (auto simp: stuck_def received_def ex_sv_def)
  moreover have "1 = hd_BlockHeight (bk_Header (last (cr_chain ex_c))) + 1" by (simp add: ex_c_def ex_start_def ex_b0_def ex_block_def)
  ultimately show ?thesis using r
    by (intro exI [of _ ex_c] exI [of _ ?sv] exI [of _ 1]) (simp add: ex_sv_def to_processor_def to_scheduler_def ex_sch3_def)
qed

subsection \<open>Requests\<close>

text \<open>
  C33: the peer for a request has announced the height, and has the fewest requests open among those
  that have; the choice fails for no random number below the number of the candidates.
\<close>

theorem least_loaded_peer_selected:
  assumes "\<exists>p height. (p, height) \<in> set (peers sch) \<and> h \<le> height" and "length (pendingBlocks sch) < 2 ^ 63 - 1"
    and "\<forall>n k. se_rand env n = Some k \<longrightarrow> k < n"
  shows "\<exists>p height. selectPeer env sch h = Inr p \<and> (p, height) \<in> set (peers sch) \<and> h \<le> height \<and>
    (\<forall>q height'. (q, height') \<in> set (peers sch) \<longrightarrow> h \<le> height' \<longrightarrow> getPendingReqInPeer sch p \<le> getPendingReqInPeer sch q)"
proof -
  have mem: "p \<in> set (getHeight sch h) \<longleftrightarrow> (\<exists>height. (p, height) \<in> set (peers sch) \<and> h \<le> height)" for p
    by (force simp: getHeight_def)
  then have "getHeight sch h \<noteq> []" using assms(1) by (metis list.set_cases empty_iff empty_set)
  from selectPeer_least [OF this assms(2,3)] show ?thesis unfolding least_loaded_def Ball_def mem by blast
qed

theorem least_loaded_peer_selected_witness:
  "\<exists>p height. selectPeer (ex_senv\<lparr>se_rand := \<lambda>_. None\<rparr>) (ex_sch2\<lparr>peers := [(''B'', 3), (''A'', 2), (''C'', 1)]\<rparr>) 2 = Inr p \<and>
    (p, height) \<in> {(''B'', 3), (''A'', 2), (''C'', 1 :: u64)} \<and> 2 \<le> height \<and> getPendingReqInPeer ex_sch2 p \<le> getPendingReqInPeer ex_sch2 ''A''"
  using least_loaded_peer_selected [of "ex_sch2\<lparr>peers := [(''B'', 3), (''A'', 2), (''C'', 1)]\<rparr>" 2 "ex_senv\<lparr>se_rand := \<lambda>_. None\<rparr>"]
  by (fastforce simp: ex_sch2_def ex_sch1_def ex_sch_def ex_senv_def getPendingReqInPeer_def)

text \<open>
  C34: the signal that the node has caught up, for which the consensus module waits before it starts,
  is never given while the node is ahead of all its peers by less than the range of heights minus
  the threshold: the difference of the heights wraps around.
\<close>

theorem leading_node_not_released:
  assumes "handleNodeStatus env lc msg from sch = Inr (sch', outs)" and "GetLastCommittedBlock lc = Some b"
    and "maxHeight sch < hd_BlockHeight (bk_Header b)"
    and "unat (hd_BlockHeight (bk_Header b)) - unat (maxHeight sch) + unat (thresholdBlocks sch) < 2 ^ 64"
  shows "MinLagReached \<notin> set outs"
proof -
  have "unat (maxHeight sch - hd_BlockHeight (bk_Header b)) = unat (maxHeight sch) + 2 ^ 64 - unat (hd_BlockHeight (bk_Header b))"
    using assms(3) by (simp add: unat_sub_if_size word_less_nat_alt word_size)
  then have "thresholdBlocks sch < maxHeight sch - hd_BlockHeight (bk_Header b)"
    using assms(3,4) unsigned_less [of "hd_BlockHeight (bk_Header b)"] by (simp add: word_less_nat_alt)
  then have "receiveMajorityBlocks env lc sch = []"
    using assms(2) by (simp add: receiveMajorityBlocks_def CurrentHeight_def GetLastCommittedBlock_def)
  then show ?thesis using assms(1) by (auto simp: handleNodeStatus_def Let_def elim!: go_bind_InrE split: if_split_asm)
qed

theorem leading_node_not_released_witness:
  "\<exists>sch'. handleNodeStatus (ex_senv\<lparr>se_now := 1800000000 * Second, se_listening := True\<rparr>)
      (SetLastCommittedBlock (Some ex_b1) (NewLedgerCache ''c'')) \<lparr>bcm_BlockHeight = 0, bcm_ArchivedHeight = 0\<rparr> ''B'' ex_sch = Inr (sch', [])"
proof -
  let ?env = "ex_senv\<lparr>se_now := 1800000000 * Second, se_listening := True\<rparr>" and ?lc = "SetLastCommittedBlock (Some ex_b1) (NewLedgerCache ''c'')"
  obtain sch' outs where h: "handleNodeStatus ?env ?lc \<lparr>bcm_BlockHeight = 0, bcm_ArchivedHeight = 0\<rparr> ''B'' ex_sch = Inr (sch', outs)"
      "set outs \<subseteq> {MinLagReached}"
    by (simp add: handleNodeStatus_def isPreferenceNode_def isPeerArchivedTooHeight_def addPendingBlocksAndUpdatePendingHeight_def
        receiveMajorityBlocks_def SetLastCommittedBlock_def GetLastCommittedBlock_def ex_sch_def ex_b1_def ex_block_def)
  have l: "GetLastCommittedBlock ?lc = Some ex_b1" by (simp add: SetLastCommittedBlock_def GetLastCommittedBlock_def)
  have "MinLagReached \<notin> set outs"
    by (rule leading_node_not_released [OF h(1) l]) (simp_all add: maxHeight_def ex_sch_def ex_b1_def ex_block_def)
  then have "outs = []" using h(2) by (cases outs) auto
  then show ?thesis using h(1) by blast
qed

text \<open>
  A response whose block has no header, which every node may send, stops the node: the scheduler
  dereferences the header in a goroutine that recovers from no panic. No request is needed, but that
  the service has not been stopped.
\<close>

theorem headerless_block_panics:
  assumes "se_UnmarshalBatch env msg = Some \<lparr>sb_Data = d, sb_WithRwset = w\<rparr>"
    and "d = BlockBatch (bs @ NoHeader # bs') \<or> d = BlockinfoBatch (infos @ \<lparr>bi_Block = NilBlock, bi_RwsetList = rw\<rparr> # infos')"
    and "\<not> stopSyncBlock sch" and "int (length (receivedBlocks sch)) \<le> sint (maxPendingBlocks sch)"
  shows "sch_handler env lc (SyncedBlockMsg msg from) sch = Inl NilDeref"
proof -
  have "updateSchedulerBySyncBlockBatch from (xs @ b # ys) acc = Inl NilDeref" if "b = NoHeader \<or> b = NilBlock" for xs b ys acc
    using that by (induction xs arbitrary: acc) (auto simp: net_block_def go_bind_def split: netBlock.split)
  then show ?thesis using assms by (auto simp: handleSyncedBlockMsg_def)
qed

theorem headerless_block_panics_witness:
  "sch_handler (ex_senv\<lparr>se_UnmarshalBatch := \<lambda>_. Some \<lparr>sb_Data = BlockBatch [NoHeader], sb_WithRwset = False\<rparr>\<rparr>) (cr_ledger ex_c)
    (SyncedBlockMsg (Some ''x'') ''B'') ex_sch = Inl NilDeref"
  by (rule headerless_block_panics [of _ _ "BlockBatch [NoHeader]" False "[]" "[]" "[]" "[]" "[]"]) (simp_all add: ex_sch_def)

text \<open>The answer to a request without read and write sets.\<close>

definition block_message :: "Block_core \<Rightarrow> SyncBlockBatch" where
  "block_message blk = \<lparr>sb_Data = BlockinfoBatch [\<lparr>bi_Block = NetBlock blk, bi_RwsetList = []\<rparr>], sb_WithRwset = False\<rparr>"

text \<open>
  C32: a request reaches its aim: when the scheduler of a node asks a peer for a block, and the peer
  has the blocks up to the height that it has announced and has not answered the same request just
  before, then the handler of the peer sends one message back, the scheduler of the node makes of
  it the event for the processor, and the block is in the queue of the processor. The encodings are
  assumed to be reversed by the decodings.
\<close>

theorem requested_block_arrives:
  assumes "handleScheduleMsg envA lcA schA = Inr (err, schA1, [NetSend bs peer])" and "wf_alist (peers schA)"
    and "BatchesizeInEachReq schA = 1" and "\<not> se_FastSync envA"
    and "GetLastCommittedBlock lcA = Some b" and "hd_BlockHeight (bk_Header b) \<noteq> - 1"
    and "int (length (receivedBlocks schA1)) \<le> sint (maxPendingBlocks schA1)"
    and "\<forall>m x. se_MarshalMsg envA m = Some x \<longrightarrow> se_UnmarshalMsg envB x = Some m"
    and "\<forall>r x. se_MarshalReq envA r = Some x \<longrightarrow> se_UnmarshalReq envB x = Some r"
    and "\<forall>p. \<exists>x. se_MarshalMsg envB \<lparr>sm_Type = SyncMsg_BLOCK_SYNC_RESP, sm_Payload = p\<rparr> = Some x \<and>
      se_UnmarshalMsg envA x = Some \<lparr>sm_Type = SyncMsg_BLOCK_SYNC_RESP, sm_Payload = p\<rparr>"
    and "\<forall>h blk. se_GetBlock envB h = Some (Some blk) \<longrightarrow> (\<exists>x. se_MarshalBatch envB (block_message blk) = Some x \<and>
      se_UnmarshalBatch envA x = Some (block_message blk))"
    and "sv_start svB" and "\<forall>h. map_of (requestCache svB) (processKey nodeA h) = None"
    and "\<forall>h. h \<le> map_get0 (map_of (peers schA)) peer \<longrightarrow> (\<exists>blk. se_GetBlock envB h = Some (Some blk) \<and> hd_BlockHeight (bk_Header blk) = h)"
  shows "\<exists>h bs' payload batch schA2 proA'.
    sv_outs (snd (blockSyncMsgHandler envB lcB nodeA bs True svB)) = sv_outs svB @ [NetSend bs' nodeA] \<and>
    se_UnmarshalMsg envA bs' = Some \<lparr>sm_Type = SyncMsg_BLOCK_SYNC_RESP, sm_Payload = payload\<rparr> \<and>
    handleSyncedBlockMsg envA payload peer schA1 = Inr (Some (ReceivedBlockInfos batch peer), None, schA2) \<and>
    handleReceivedBlockInfos lcA batch peer proA = Inr proA' \<and> h \<in> fst ` set (pr_queue proA') \<and>
    hd_BlockHeight (bk_Header b) < h \<and> map_of (blockStates schA2) h = Some receivedBlock"
proof -
  obtain h bz where r: "se_MarshalReq envA \<lparr>rq_BlockHeight = h, rq_BatchSize = 1, rq_WithRwset = False\<rparr> = Some bz"
      "se_MarshalMsg envA \<lparr>sm_Type = SyncMsg_BLOCK_SYNC_REQ, sm_Payload = bz\<rparr> = Some bs" "hd_BlockHeight (bk_Header b) < h"
      "h \<le> map_get0 (map_of (peers schA)) peer" "map_of (blockStates schA1) h = Some pendingBlock" "\<not> stopSyncBlock schA1"
    using handleScheduleMsg_request [OF assms(1,2,5,6)] assms(3,4) by auto
  obtain blk where blk: "se_GetBlock envB h = Some (Some blk)" "hd_BlockHeight (bk_Header blk) = h" using assms(14) r(4) by blast
  let ?batch = "\<lparr>sb_Data = BlockinfoBatch [\<lparr>bi_Block = NetBlock blk, bi_RwsetList = []\<rparr>], sb_WithRwset = False\<rparr>"
  obtain payload where payload: "se_MarshalBatch envB ?batch = Some payload" "se_UnmarshalBatch envA payload = Some ?batch"
    using assms(11) blk(1) unfolding block_message_def by blast
  obtain bs' where bs': "se_MarshalMsg envB \<lparr>sm_Type = SyncMsg_BLOCK_SYNC_RESP, sm_Payload = payload\<rparr> = Some bs'"
      "se_UnmarshalMsg envA bs' = Some \<lparr>sm_Type = SyncMsg_BLOCK_SYNC_RESP, sm_Payload = payload\<rparr>" using assms(10) by blast
  have "snd (sendInfos envB \<lparr>rq_BlockHeight = h, rq_BatchSize = 1, rq_WithRwset = False\<rparr> nodeA) = [NetSend bs' nodeA]"
    using blk(1) payload(1) bs'(1) by (simp add: sendInfos_def sendMsg_def)
  moreover have "se_UnmarshalMsg envB bs = Some \<lparr>sm_Type = SyncMsg_BLOCK_SYNC_REQ, sm_Payload = bz\<rparr>"
      "se_UnmarshalReq envB bz = Some \<lparr>rq_BlockHeight = h, rq_BatchSize = 1, rq_WithRwset = False\<rparr>" using assms(8,9) r(1,2) by blast+
  ultimately have out: "sv_outs (snd (blockSyncMsgHandler envB lcB nodeA bs True svB)) = sv_outs svB @ [NetSend bs' nodeA]"
    using assms(12,13) by (simp add: blockSyncMsgHandler_def handleBlockReq_def emit_sync_def case_prod_unfold Let_def)
  obtain schA2 where s2: "handleSyncedBlockMsg envA payload peer schA1 = Inr (Some (ReceivedBlockInfos ?batch peer), None, schA2)"
      "map_of (blockStates schA2) h = Some receivedBlock"
    using assms(7) payload(2) blk(2) r(5,6) by (simp add: handleSyncedBlockMsg_def receive_block_def net_block_def Let_def)
  obtain proA' where p: "handleReceivedBlockInfos lcA ?batch peer proA = Inr proA'"
    using assms(5) by (simp add: handleReceivedBlockInfos_def lastCommitBlockHeight_def batch_infos_def net_block_def)
  have "h \<in> batch_heights ?batch" using blk(2) by (auto simp: batch_heights_def batch_infos_def)
  then have "h \<in> fst ` set (pr_queue proA')" using handleReceivedBlockInfos_queue(1) [OF p assms(5)] r(3) by blast
  then show ?thesis using out bs'(2) s2 p r(3) by blast
qed

definition ex_envA :: syncEnv where
  "ex_envA = ex_senv\<lparr>se_MarshalReq := \<lambda>r. if r = \<lparr>rq_BlockHeight = 1, rq_BatchSize = 1, rq_WithRwset = False\<rparr> then Some (Some ''r'') else None,
     se_MarshalMsg := \<lambda>m. if m = \<lparr>sm_Type = SyncMsg_BLOCK_SYNC_REQ, sm_Payload = Some ''r''\<rparr> then Some (Some ''m'') else None,
     se_UnmarshalMsg := \<lambda>x. Some \<lparr>sm_Type = SyncMsg_BLOCK_SYNC_RESP, sm_Payload = x\<rparr>,
     se_UnmarshalBatch := \<lambda>x. Some (block_message (if x = Some ''q'' then ex_b1 else ex_b0))\<rparr>"

definition ex_envB :: syncEnv where
  "ex_envB = ex_senv\<lparr>se_UnmarshalMsg := \<lambda>_. Some \<lparr>sm_Type = SyncMsg_BLOCK_SYNC_REQ, sm_Payload = Some ''r''\<rparr>,
     se_UnmarshalReq := \<lambda>_. Some \<lparr>rq_BlockHeight = 1, rq_BatchSize = 1, rq_WithRwset = False\<rparr>,
     se_MarshalMsg := \<lambda>m. Some (sm_Payload m), se_GetBlock := \<lambda>h. Some (Some (if h = 0 then ex_b0 else ex_b1)),
     se_MarshalBatch := \<lambda>d. Some (Some (if d = block_message ex_b1 then ''q'' else ''z''))\<rparr>"

theorem requested_block_arrives_witness:
  "\<exists>bs' payload batch schA1 schA2 proA' h.
    sv_outs (snd (blockSyncMsgHandler ex_envB (cr_ledger ex_c) ''A'' (Some ''m'') True (ex_sv ex_sch [] None newProcessor [] [] []))) = [NetSend bs' ''A''] \<and>
    se_UnmarshalMsg ex_envA bs' = Some \<lparr>sm_Type = SyncMsg_BLOCK_SYNC_RESP, sm_Payload = payload\<rparr> \<and>
    handleSyncedBlockMsg ex_envA payload ''B'' schA1 = Inr (Some (ReceivedBlockInfos batch ''B''), None, schA2) \<and>
    handleReceivedBlockInfos (cr_ledger ex_c) batch ''B'' newProcessor = Inr proA' \<and> h \<in> fst ` set (pr_queue proA')"
proof -
  let ?schA = "ex_sch1\<lparr>peers := [(''B'', 1)]\<rparr>" and ?sv = "ex_sv ex_sch [] None newProcessor [] [] []"
  have "isNeedSync ex_envA (cr_ledger ex_c) ?schA = Inr (True, ?schA)"
    by (simp add: isNeedSync_def maxHeight_def ex_ledger ex_sch1_def ex_sch_def Since_def time_zero_def ex_envA_def ex_senv_def Second_def)
  moreover have "nextHeightToReq ?schA = (1, ?schA)"
    by (simp add: nextHeightToReq_def ex_sch1_def ex_sch_def one_less_max)
  moreover have "selectPeer ex_envA ?schA 1 = Inr ''B''"
    by (simp add: selectPeer_def getHeight_def pendingReqInPeers_def getPendingReqInPeer_def index_at_def ex_sch1_def ex_sch_def)
  moreover have "receivedBlocks (request_loop 1 1 2 ''B'' t (?schA\<lparr>lastRequest := t\<rparr>)) = []"
      "maxPendingBlocks (request_loop 1 1 2 ''B'' t (?schA\<lparr>lastRequest := t\<rparr>)) = 128" for t
    by (simp_all add: request_loop.simps ex_sch1_def ex_sch_def)
  ultimately obtain schA1 where r: "handleScheduleMsg ex_envA (cr_ledger ex_c) ?schA = Inr (None, schA1, [NetSend (Some ''m'') ''B''])"
      "receivedBlocks schA1 = []" "maxPendingBlocks schA1 = 128"
    by (simp add: handleScheduleMsg_def sendMsg_def map_get0_def ex_sch1_def ex_sch_def ex_envA_def ex_senv_def)
  have blocks: "ex_b0 \<noteq> ex_b1" by (simp add: ex_b0_def ex_b1_def ex_block_def)
  have "\<exists>h bs' payload batch schA2 proA'.
    sv_outs (snd (blockSyncMsgHandler ex_envB (cr_ledger ex_c) ''A'' (Some ''m'') True ?sv)) = sv_outs ?sv @ [NetSend bs' ''A''] \<and>
    se_UnmarshalMsg ex_envA bs' = Some \<lparr>sm_Type = SyncMsg_BLOCK_SYNC_RESP, sm_Payload = payload\<rparr> \<and>
    handleSyncedBlockMsg ex_envA payload ''B'' schA1 = Inr (Some (ReceivedBlockInfos batch ''B''), None, schA2) \<and>
    handleReceivedBlockInfos (cr_ledger ex_c) batch ''B'' newProcessor = Inr proA' \<and> h \<in> fst ` set (pr_queue proA') \<and>
    hd_BlockHeight (bk_Header ex_b0) < h \<and> map_of (blockStates schA2) h = Some receivedBlock"
  proof (rule requested_block_arrives [OF r(1)])
    show "\<forall>h. h \<le> map_get0 (map_of (peers ?schA)) ''B'' \<longrightarrow>
        (\<exists>blk. se_GetBlock ex_envB h = Some (Some blk) \<and> hd_BlockHeight (bk_Header blk) = h)"
    proof (intro allI impI)
      fix h :: u64 assume "h \<le> map_get0 (map_of (peers ?schA)) ''B''"
      then have "unat h \<le> 1" by (simp add: map_get0_def ex_sch1_def word_le_nat_alt)
      then have "h = 0 \<or> h = 1" by (auto simp: word_unat_eq_iff le_Suc_eq)
      then show "\<exists>blk. se_GetBlock ex_envB h = Some (Some blk) \<and> hd_BlockHeight (bk_Header blk) = h"
        by (auto simp: ex_envB_def ex_b0_def ex_b1_def ex_block_def)
    qed
  qed (use blocks in \<open>simp_all add: r(2,3) ex_ledger ex_sch1_def ex_sch_def ex_envA_def ex_envB_def ex_senv_def ex_sv_def block_message_def\<close>)
  moreover have "sv_outs ?sv = []" by (simp add: ex_sv_def)
  ultimately show ?thesis by (metis append_Nil)
qed

end
