(* ===== verification/AC_Types.thy ===== *)
theory AC_Types
  imports Tbft_Types Go_Strconv
begin

section \<open>Access control: data and parameters\<close>

text \<open>
  The data of \<^verbatim>\<open>module/accesscontrol\<close>: policies, principals, members, the transactions and
  the configuration as far as access control reads them, and the code outside the repository that
  it calls.

  The names of rules, roles, resources and authentication types are constants of the package
  \<^verbatim>\<open>protocol\<close>, which is not under src/; they are the fields of the record \<open>protocolNames\<close>, a
  parameter of the model. Keys, certificates, hashes, the store and the node's configuration file
  are the fields of \<open>acEnv\<close> that follow. \<open>names_ok\<close> collects what the theorems use of the names:
  the rules, roles and authentication types differ from each other and the rules are not numbers.
\<close>

subsection \<open>Strings\<close>

text \<open>
  \<^verbatim>\<open>strings.Split\<close> at a one-byte separator, \<^verbatim>\<open>strings.ToUpper\<close> and \<^verbatim>\<open>ToLower\<close> on the
  ASCII letters. Names of roles and authentication types are ASCII.
\<close>

fun split_at :: "char \<Rightarrow> string \<Rightarrow> string list" where
  "split_at d [] = [[]]"
| "split_at d (c # s) =
     (if c = d then [] # split_at d s
      else case split_at d s of [] \<Rightarrow> [[c]] | w # ws \<Rightarrow> (c # w) # ws)"

definition upper_char :: "char \<Rightarrow> char" where
  "upper_char c = (if CHR ''a'' \<le> c \<and> c \<le> CHR ''z'' then char_of (of_char c - 32 :: nat) else c)"

definition lower_char :: "char \<Rightarrow> char" where
  "lower_char c = (if CHR ''A'' \<le> c \<and> c \<le> CHR ''Z'' then char_of (of_char c + 32 :: nat) else c)"

definition ToUpper :: "string \<Rightarrow> string" where "ToUpper = map upper_char"
definition ToLower :: "string \<Rightarrow> string" where "ToLower = map lower_char"

lemma split_at_nonempty [simp]: "split_at d s \<noteq> []"
  by (induction s) (auto split: list.split)

lemma split_at_absent: "d \<notin> set s \<Longrightarrow> split_at d s = [s]"
  by (induction s) auto

lemma split_at_append:
  "d \<notin> set s \<Longrightarrow> split_at d (s @ d # t) = s # split_at d t"
  by (induction s) auto

text \<open>\<^verbatim>\<open>hex.EncodeToString\<close>.\<close>

definition hex_digit :: "nat \<Rightarrow> char" where
  "hex_digit n = (if n < 10 then char_of (48 + n) else char_of (87 + n))"

definition hex_EncodeToString :: "string \<Rightarrow> string" where
  "hex_EncodeToString s =
     concat (map (\<lambda>c. [hex_digit (of_char c div 16), hex_digit (of_char c mod 16)]) s)"

lemma hex_digit_inj: "m < 16 \<Longrightarrow> n < 16 \<Longrightarrow> hex_digit m = hex_digit n \<Longrightarrow> m = n"
  by (auto simp: hex_digit_def split: if_splits dest!: arg_cong [where f = "of_char :: char \<Rightarrow> nat"])

lemma hex_byte_inj:
  assumes "hex_digit (of_char c div 16) = hex_digit (of_char d div 16)"
    and "hex_digit (of_char c mod 16) = hex_digit (of_char d mod 16)"
  shows "c = d"
proof -
  have "of_char c < (256 :: nat)" "of_char d < (256 :: nat)" by simp_all
  then have "of_char c div 16 < (16 :: nat)" "of_char d div 16 < (16 :: nat)" by simp_all
  from hex_digit_inj [OF this assms(1)]
  have "of_char c div 16 = (of_char d div 16 :: nat)" .
  moreover have "of_char c mod 16 = (of_char d mod 16 :: nat)"
    by (rule hex_digit_inj [OF _ _ assms(2)]) simp_all
  ultimately have "of_char c = (of_char d :: nat)" by (metis div_mult_mod_eq)
  then show ?thesis by (simp only: of_char_eq_iff)
qed

lemma hex_EncodeToString_inj [simp]: "hex_EncodeToString s = hex_EncodeToString t \<longleftrightarrow> s = t"
proof
  show "hex_EncodeToString s = hex_EncodeToString t \<Longrightarrow> s = t"
  proof (induction s arbitrary: t)
    case Nil
    then show ?case by (cases t) (simp_all add: hex_EncodeToString_def)
  next
    case (Cons c s)
    then obtain d t' where t: "t = d # t'" by (cases t) (simp_all add: hex_EncodeToString_def)
    from Cons.prems t have "hex_EncodeToString s = hex_EncodeToString t'"
      by (simp add: hex_EncodeToString_def)
    then have "s = t'" by (rule Cons.IH)
    with Cons.prems t show ?case by (auto simp: hex_EncodeToString_def intro: hex_byte_inj)
  qed
qed simp

subsection \<open>Policies and principals\<close>

type_synonym Rule = string
type_synonym Role = string

record policy =
  pol_rule :: Rule
  pol_orgList :: "string list"
  pol_roleList :: "Role list"

record pbPolicy =
  pb_Rule :: string
  pb_OrgList :: "string list"
  pb_RoleList :: "string list"

record ResourcePolicy =
  ResourceName :: string
  Policy :: "pbPolicy option"

definition GetPbPolicy :: "policy \<Rightarrow> pbPolicy" where
  "GetPbPolicy p = \<lparr>pb_Rule = pol_rule p, pb_OrgList = pol_orgList p, pb_RoleList = pol_roleList p\<rparr>"

definition newPolicy :: "Rule \<Rightarrow> string list \<Rightarrow> Role list \<Rightarrow> policy" where
  "newPolicy r os rs = \<lparr>pol_rule = r, pol_orgList = os, pol_roleList = rs\<rparr>"

definition newPolicyFromPb :: "pbPolicy \<Rightarrow> policy" where
  "newPolicyFromPb i =
     \<lparr>pol_rule = pb_Rule i, pol_orgList = pb_OrgList i, pol_roleList = map ToUpper (pb_RoleList i)\<rparr>"

definition newPbPolicyFromPolicy :: "policy \<Rightarrow> pbPolicy" where
  "newPbPolicyFromPolicy i =
     \<lparr>pb_Rule = pol_rule i, pb_OrgList = pol_orgList i, pb_RoleList = map id (pol_roleList i)\<rparr>"

record principal =
  pr_resourceName :: string
  pr_endorsement :: "EndorsementEntry option list"
  pr_message :: gobytes
  pr_targetOrg :: string

text \<open>A map of the code (\<^verbatim>\<open>sync.Map\<close>) from names to policies, and a run of \<^verbatim>\<open>Store\<close> calls.\<close>

type_synonym policyMap = "string \<rightharpoonup> policy"

definition store_all :: "(string \<times> 'v) list \<Rightarrow> (string \<rightharpoonup> 'v) \<Rightarrow> (string \<rightharpoonup> 'v)" where
  "store_all kvs m = fold (\<lambda>(k, v) m. m(k \<mapsto> v)) kvs m"

lemma store_all_Nil [simp]: "store_all [] m = m"
  and store_all_Cons [simp]: "store_all ((k, v) # kvs) m = store_all kvs (m(k \<mapsto> v))"
  by (simp_all add: store_all_def)

lemma store_all_map_of: "store_all kvs m = m ++ map_of (rev kvs)"
  by (induction kvs arbitrary: m) (auto simp: map_add_def fun_eq_iff split: option.split)

lemma store_all_absent: "k \<notin> fst ` set kvs \<Longrightarrow> store_all kvs m k = m k"
  by (induction kvs arbitrary: m) auto

lemma store_all_range: "store_all kvs m k = Some v \<Longrightarrow> v \<in> snd ` set kvs \<or> m k = Some v"
  by (force simp: store_all_map_of map_add_Some_iff dest!: map_of_SomeD)

subsection \<open>Transactions and configuration\<close>

datatype TxType = INVOKE_CONTRACT | QUERY_CONTRACT | SUBSCRIBE | ARCHIVE

fun TxType_String :: "TxType \<Rightarrow> string" where
  "TxType_String INVOKE_CONTRACT = ''INVOKE_CONTRACT''"
| "TxType_String QUERY_CONTRACT = ''QUERY_CONTRACT''"
| "TxType_String SUBSCRIBE = ''SUBSCRIBE''"
| "TxType_String ARCHIVE = ''ARCHIVE''"

record acPayload =
  TxType :: TxType
  ContractName :: string
  Method :: string
  Parameters :: "(string \<times> string) list option"

record acTx =
  Payload :: acPayload
  Sender :: "EndorsementEntry option"
  Endorsers :: "EndorsementEntry option list option"
  Payer :: "EndorsementEntry option"

record TrustRootConfig =
  tr_OrgId :: string
  tr_Root :: "string list"

record OrgConfig =
  oc_OrgId :: string
  oc_NodeId :: "string list"

record acTrustMember =
  tm_MemberInfo :: string
  tm_OrgId :: string
  tm_Role :: string

datatype acConsensusType = SOLO | TBFT_type | MBFT | MAXBFT | RAFT | DPOS | PBFT_type | POW

datatype AddrType = AddrType_CHAINMAKER | AddrType_ZXL | AddrType_ETHEREUM

record acConfig =
  cc_AuthType :: string
  cc_Hash :: string
  cc_AddrType :: AddrType
  cc_ResourcePolicies :: "ResourcePolicy list"
  cc_TrustRoots :: "TrustRootConfig list"
  cc_TrustMembers :: "acTrustMember list"
  cc_ConsensusType :: acConsensusType
  cc_ConsensusNodes :: "OrgConfig list"

text \<open>The types of members: the values of \<^verbatim>\<open>pbac.MemberType\<close>.\<close>

definition MemberType_CERT :: i32 where "MemberType_CERT = 0"
definition MemberType_CERT_HASH :: i32 where "MemberType_CERT_HASH = 1"
definition MemberType_PUBLIC_KEY :: i32 where "MemberType_PUBLIC_KEY = 2"
definition MemberType_ALIAS :: i32 where "MemberType_ALIAS = 4"

lemmas MemberType_defs = MemberType_CERT_def MemberType_CERT_HASH_def MemberType_PUBLIC_KEY_def
  MemberType_ALIAS_def

subsection \<open>Block versions\<close>

definition blockVersion220 :: u32 where "blockVersion220 = 220"
definition blockVersion2320 :: u32 where "blockVersion2320 = 2030200"
definition blockVersion2330 :: u32 where "blockVersion2330 = 2030300"

lemmas blockVersion_defs = blockVersion220_def blockVersion2320_def blockVersion2330_def

subsection \<open>Errors\<close>

text \<open>The errors of the module, one constructor for each message.\<close>

datatype acError =
    ErrEmptyOrgList
  | ErrRefineFailed
  | ErrEmptyPrincipal
  | ErrNilEndorsement
  | ErrNoTargetOrgSupport
  | ErrPolicyNotFound string
  | ErrForbidden string
  | ErrNotEnough int
  | ErrNeedsTarget
  | ErrTargetOrg string
  | ErrNotMet
  | ErrNotAll
  | ErrUnrecognizedRule
  | ErrUnrecognizedType
  | ErrTxBytes
  | ErrNoOrgIdParameter
  | ErrInvalidPayer
  | ErrAuthFailed
  | ErrMultiSignRule string
  | ErrMultiSignStatus
  | ErrNoMultiSign string
  | ErrSelfMultiSign string
  | ErrBlockVersion u32
  | ErrMemberType
  | ErrParseKey
  | ErrKeyBytes
  | ErrNodeId
  | ErrStoreRead
  | ErrNotOnChain
  | ErrUnmarshal
  | ErrHashType
  | ErrSki
  | ErrNotNode
  | ErrOrgMismatch
  | ErrVerify
  | ErrNotCalled
  | ErrParseCert
  | ErrCryptoEngine
  | ErrCertOrg
  | ErrNoOrganization
  | ErrChain
  | ErrNoRoot
  | ErrNotRegistered
  | ErrRevoked
  | ErrFrozen
  | ErrEmptyChain
  | ErrAddress
  | ErrNotSupported
  | ErrNotFound
  | ErrNotCA
  | ErrConsensusType
  | ErrNodeConfig
  | ErrAuthType
  | ErrEmptyCrl
  | ErrInvalidCrl

text \<open>
  The results of the checks are pairs of a Go boolean and a Go error; a member is created or an
  error is returned.
\<close>

type_synonym verdict = "bool \<times> acError option"
type_synonym 'a result = "acError + 'a"

definition allowed :: verdict where "allowed = (True, None)"
definition denied :: "acError \<Rightarrow> verdict" where "denied e = (False, Some e)"

lemma verdict_simps [simp]:
  "allowed \<noteq> denied e" "denied e \<noteq> allowed" "fst allowed" "\<not> fst (denied e)"
  "snd allowed = None" "snd (denied e) = Some e"
  by (simp_all add: allowed_def denied_def)

subsection \<open>The code outside the repository\<close>

record protocolNames =
  RuleAny :: string
  RuleAll :: string
  RuleMajority :: string
  RuleSelf :: string
  RuleForbidden :: string
  RuleDelete :: string
  RoleAdmin :: string
  RoleClient :: string
  RoleLight :: string
  RoleConsensusNode :: string
  RoleCommonNode :: string
  ResourceNameAllTest :: string
  ResourceNameP2p :: string
  ResourceNameConsensusNode :: string
  ResourceNameReadData :: string
  ResourceNameWriteData :: string
  ResourceNameUpdateSelfConfig :: string
  ResourceNameUpdateConfig :: string
  ResourceNamePrivateCompute :: string
  ConfigNameOrgId :: string
  PermissionedWithCert :: string
  Identity :: string
  PermissionedWithKey :: string
  Public :: string

text \<open>Public keys and parsed certificates; their contents belong to the crypto packages.\<close>

type_synonym pubKey = string

record bcCertificate =
  Raw :: string
  SubjectKeyId :: string
  AuthorityKeyId :: string
  SerialNumber :: int
  IsCA :: bool
  Organization :: "string list"
  OrganizationalUnit :: "string list"
  CommonName :: string
  NodeIdExt :: "string option"
  cert_PublicKey :: pubKey
  cert_HashAlgo :: "string option"
  cert_Signature :: string

record CertificateList =
  crl_AKI :: "string option"
  crl_Version :: int
  crl_Revoked :: "int list"
  crl_Raw :: string

record acEnv = protocolNames +
  PublicKeyFromPEM :: "string \<Rightarrow> pubKey option"
  PublicKeyFromDER :: "string \<Rightarrow> pubKey option"
  pk_Bytes :: "pubKey \<Rightarrow> string option"
  pk_String :: "pubKey \<Rightarrow> string option"
  VerifyWithOpts :: "pubKey \<Rightarrow> string \<Rightarrow> gobytes \<Rightarrow> gobytes \<Rightarrow> bool option"
  HashAlgoMap :: "string \<Rightarrow> string option"
  ComputeSKI :: "string \<Rightarrow> pubKey \<Rightarrow> string option"
  CreateLibp2pPeerId :: "pubKey \<Rightarrow> string option"
  base58_sha256 :: "string \<Rightarrow> string"
  ReadObject :: "string \<Rightarrow> string \<Rightarrow> gobytes option"
  hasStore :: bool
  UnmarshalPKInfo :: "string \<Rightarrow> (string \<times> string) option"
  utils_ParseCert :: "string \<Rightarrow> bcCertificate option"
  PkToAddrStr :: "pubKey option \<Rightarrow> AddrType \<Rightarrow> string option \<Rightarrow> string option"
  CalcUnsignedTxBytes :: "acTx \<Rightarrow> gobytes option"
  GetTxResourceName :: "acTx \<Rightarrow> string"
  IsSkipAccessControl :: bool
  CertCacheSize :: int
  pem_Decode :: "string \<Rightarrow> string option \<times> string"
  ParseCertificate :: "string \<Rightarrow> bcCertificate option"
  BuildCertificateChain :: "bcCertificate list \<Rightarrow> bcCertificate list"
  VerifyCertificate ::
    "bcCertificate \<Rightarrow> bcCertificate list \<Rightarrow> bcCertificate list \<Rightarrow> bcCertificate list list option"
  ParseCRL :: "string \<Rightarrow> CertificateList option"
  CheckCRLSignature :: "bcCertificate \<Rightarrow> CertificateList \<Rightarrow> bool"
  UnmarshalStrings :: "string \<Rightarrow> string list option"
  UnmarshalEndorsement :: "gobytes \<Rightarrow> EndorsementEntry option"
  UnmarshalPayerParams :: "gobytes \<Rightarrow> string \<times> string"
  CertRevokeKey :: string
  CertFreezeKey :: string
  PrefixContractMethodPayer :: string
  Separator :: string
  hex_DecodeString :: "string \<Rightarrow> string \<times> bool"

text \<open>
  What the theorems use of the names: the rules are pairwise different (the switch statements of
  the code, whose cases are these constants, would not compile otherwise), none of them reads as a
  number or a fraction; the roles are pairwise different, not empty and in upper case; the
  authentication types are pairwise different.
\<close>

definition rule_names :: "acEnv \<Rightarrow> string list" where
  "rule_names E =
     [RuleAny E, RuleAll E, RuleMajority E, RuleSelf E, RuleForbidden E, RuleDelete E]"

definition role_names :: "acEnv \<Rightarrow> string list" where
  "role_names E = [RoleAdmin E, RoleClient E, RoleLight E, RoleConsensusNode E, RoleCommonNode E]"

definition names_ok :: "acEnv \<Rightarrow> bool" where
  "names_ok E \<longleftrightarrow>
     distinct (rule_names E) \<and>
     (\<forall>r \<in> set (rule_names E). CHR ''/'' \<notin> set r \<and> Atoi r = None) \<and>
     distinct (role_names E) \<and>
     (\<forall>r \<in> set (role_names E). r \<noteq> [] \<and> ToUpper r = r) \<and>
     distinct [PermissionedWithCert E, Identity E, PermissionedWithKey E, Public E]"

lemma names_ok_rules:
  assumes "names_ok E" and "r \<in> set (rule_names E)"
  shows "split_at CHR ''/'' r = [r]" and "Atoi r = None"
  using assms by (auto simp: names_ok_def intro: split_at_absent)

end
