(* ===== verification/AC_Policies.thy ===== *)
theory AC_Policies
  imports AC_Types
begin

section \<open>Access control: the default policies\<close>

text \<open>
  The predefined policies (\<^verbatim>\<open>ac_server.go\<close>, \<^verbatim>\<open>public_pk_ac.go\<close>) and the tables of default
  policies for the three authentication types (\<^verbatim>\<open>policies.go\<close>) with those of the versions before
  2.3.3 (\<^verbatim>\<open>policies220.go\<close>, \<^verbatim>\<open>policies2320.go\<close>). Each function of the source is one definition
  that stores the entries of its tables, in the order of the source. The name of a resource is the
  name of a system contract, a dash and the name of a method.
\<close>

definition res :: "string \<Rightarrow> string \<Rightarrow> string" where
  "res contract method = contract @ ''-'' @ method"

text \<open>The policy maps of a provider.\<close>

record acPolicies =
  txTypePolicyMap :: policyMap
  msgTypePolicyMap :: policyMap
  senderPolicyMap :: policyMap
  resourceNamePolicyMap :: policyMap
  latestPolicyMap :: policyMap
  resourceNamePolicyMap220 :: policyMap
  exceptionalPolicyMap220 :: policyMap
  resourceNamePolicyMap2320 :: policyMap
  exceptionalPolicyMap2320 :: policyMap

definition noPolicies :: acPolicies where
  "noPolicies =
     \<lparr>txTypePolicyMap = Map.empty, msgTypePolicyMap = Map.empty, senderPolicyMap = Map.empty,
      resourceNamePolicyMap = Map.empty, latestPolicyMap = Map.empty,
      resourceNamePolicyMap220 = Map.empty, exceptionalPolicyMap220 = Map.empty,
      resourceNamePolicyMap2320 = Map.empty, exceptionalPolicyMap2320 = Map.empty\<rparr>"

subsection \<open>Predefined policies\<close>

definition policyRead :: "acEnv \<Rightarrow> policy" where
  "policyRead E = newPolicy (RuleAny E) [] [RoleConsensusNode E, RoleCommonNode E, RoleClient E, RoleAdmin E]"

definition policySpecialRead :: "acEnv \<Rightarrow> policy" where
  "policySpecialRead E = newPolicy (RuleAny E) [] [RoleConsensusNode E, RoleCommonNode E, RoleClient E, RoleAdmin E, RoleLight E]"

definition policySpecialWrite :: "acEnv \<Rightarrow> policy" where
  "policySpecialWrite E = newPolicy (RuleAny E) [] [RoleClient E, RoleAdmin E, RoleLight E]"

definition policyWrite :: "acEnv \<Rightarrow> policy" where
  "policyWrite E = newPolicy (RuleAny E) [] [RoleClient E, RoleAdmin E, RoleConsensusNode E]"

definition policyConsensus :: "acEnv \<Rightarrow> policy" where
  "policyConsensus E = newPolicy (RuleAny E) [] [RoleConsensusNode E]"

definition policyP2P :: "acEnv \<Rightarrow> policy" where
  "policyP2P E = newPolicy (RuleAny E) [] [RoleConsensusNode E, RoleCommonNode E]"

definition policyAdmin :: "acEnv \<Rightarrow> policy" where
  "policyAdmin E = newPolicy (RuleAny E) [] [RoleAdmin E]"

definition policySubscribe :: "acEnv \<Rightarrow> policy" where
  "policySubscribe E = newPolicy (RuleAny E) [] [RoleLight E, RoleClient E, RoleAdmin E]"

definition policyArchive :: "acEnv \<Rightarrow> policy" where
  "policyArchive E = newPolicy (RuleAny E) [] [RoleAdmin E]"

definition policyConfig :: "acEnv \<Rightarrow> policy" where
  "policyConfig E = newPolicy (RuleMajority E) [] [RoleAdmin E]"

definition policySelfConfig :: "acEnv \<Rightarrow> policy" where
  "policySelfConfig E = newPolicy (RuleSelf E) [] [RoleAdmin E]"

definition policyForbidden :: "acEnv \<Rightarrow> policy" where
  "policyForbidden E = newPolicy (RuleForbidden E) [] []"

definition policyAllTest :: "acEnv \<Rightarrow> policy" where
  "policyAllTest E = newPolicy (RuleAll E) [] [RoleAdmin E]"

definition policyLimitTestAny :: "acEnv \<Rightarrow> policy" where
  "policyLimitTestAny E = newPolicy ''2'' [] []"

definition policyLimitTestAdmin :: "acEnv \<Rightarrow> policy" where
  "policyLimitTestAdmin E = newPolicy ''2'' [] [RoleAdmin E]"

definition policyPortionTestAny :: "acEnv \<Rightarrow> policy" where
  "policyPortionTestAny E = newPolicy ''3/4'' [] []"

definition policyPortionTestAnyAdmin :: "acEnv \<Rightarrow> policy" where
  "policyPortionTestAnyAdmin E = newPolicy ''3/4'' [] [RoleAdmin E]"

definition policyRelayCross :: "acEnv \<Rightarrow> policy" where
  "policyRelayCross E = newPolicy (RuleAny E) [] [RoleAdmin E]"

definition pubPolicyConsensus :: "acEnv \<Rightarrow> policy" where
  "pubPolicyConsensus E = newPolicy (RuleAny E) [] [RoleConsensusNode E]"

definition pubPolicyManage :: "acEnv \<Rightarrow> policy" where
  "pubPolicyManage E = newPolicy (RuleAny E) [] [RoleAdmin E]"

definition pubPolicyMajorityAdmin :: "acEnv \<Rightarrow> policy" where
  "pubPolicyMajorityAdmin E = newPolicy (RuleMajority E) [] [RoleAdmin E]"

definition pubPolicyTransaction :: "acEnv \<Rightarrow> policy" where
  "pubPolicyTransaction E = newPolicy (RuleAny E) [] []"

definition pubPolicyForbidden :: "acEnv \<Rightarrow> policy" where
  "pubPolicyForbidden E = newPolicy (RuleForbidden E) [] []"

subsection \<open>The tables up to version 2.2.0 (policies220.go)\<close>

definition Cert_220_resource1 :: "acEnv \<Rightarrow> (string \<times> policy) list" where
  "Cert_220_resource1 E =
    [(ResourceNameReadData E, policyRead E),
     (ResourceNameWriteData E, policyWrite E),
     (ResourceNameUpdateSelfConfig E, policySelfConfig E),
     (ResourceNameUpdateConfig E, policyConfig E),
     (ResourceNameConsensusNode E, policyConsensus E),
     (ResourceNameP2p E, policyP2P E),
     (ResourceNameAllTest E, policyAllTest E),
     (''test_2'', policyLimitTestAny E),
     (''test_2_admin'', policyLimitTestAdmin E),
     (''test_3/4'', policyPortionTestAny E),
     (''test_3/4_admin'', policyPortionTestAnyAdmin E),
     (''QUERY_CONTRACT'', policyRead E),
     (''INVOKE_CONTRACT'', policyWrite E),
     (''SUBSCRIBE'', policySubscribe E),
     (''ARCHIVE'', policyArchive E),
     (ResourceNamePrivateCompute E, policyWrite E),
     (res ''PRIVATE_COMPUTE'' ''SAVE_CA_CERT'', policyConfig E),
     (res ''PRIVATE_COMPUTE'' ''SAVE_ENCLAVE_REPORT'', policyConfig E),
     (res ''CHAIN_CONFIG'' ''CORE_UPDATE'', policyConfig E),
     (res ''CHAIN_CONFIG'' ''BLOCK_UPDATE'', policyConfig E),
     (res ''CHAIN_CONFIG'' ''TRUST_ROOT_ADD'', policyConfig E),
     (res ''CHAIN_CONFIG'' ''TRUST_ROOT_DELETE'', policyConfig E),
     (res ''CHAIN_CONFIG'' ''TRUST_ROOT_UPDATE'', policySelfConfig E),
     (res ''CHAIN_CONFIG'' ''TRUST_MEMBER_ADD'', policyConfig E),
     (res ''CHAIN_CONFIG'' ''TRUST_MEMBER_DELETE'', policyConfig E),
     (res ''CHAIN_CONFIG'' ''TRUST_MEMBER_UPDATE'', policyConfig E),
     (res ''CHAIN_CONFIG'' ''NODE_ID_ADD'', policyConfig E),
     (res ''CHAIN_CONFIG'' ''NODE_ID_DELETE'', policyConfig E),
     (res ''CHAIN_CONFIG'' ''NODE_ID_UPDATE'', policySelfConfig E),
     (res ''CHAIN_CONFIG'' ''NODE_ORG_ADD'', policyConfig E),
     (res ''CHAIN_CONFIG'' ''NODE_ORG_UPDATE'', policyConfig E),
     (res ''CHAIN_CONFIG'' ''NODE_ORG_DELETE'', policyConfig E),
     (res ''CHAIN_CONFIG'' ''CONSENSUS_EXT_ADD'', policyConfig E),
     (res ''CHAIN_CONFIG'' ''CONSENSUS_EXT_UPDATE'', policyConfig E),
     (res ''CHAIN_CONFIG'' ''CONSENSUS_EXT_DELETE'', policyConfig E),
     (res ''CHAIN_CONFIG'' ''PERMISSION_ADD'', policyConfig E),
     (res ''CHAIN_CONFIG'' ''PERMISSION_UPDATE'', policyConfig E),
     (res ''CHAIN_CONFIG'' ''PERMISSION_DELETE'', policyConfig E),
     (res ''CONTRACT_MANAGE'' ''INIT_CONTRACT'', policyConfig E),
     (res ''CONTRACT_MANAGE'' ''UPGRADE_CONTRACT'', policyConfig E),
     (res ''CONTRACT_MANAGE'' ''FREEZE_CONTRACT'', policyConfig E),
     (res ''CONTRACT_MANAGE'' ''UNFREEZE_CONTRACT'', policyConfig E),
     (res ''CONTRACT_MANAGE'' ''REVOKE_CONTRACT'', policyConfig E),
     (res ''CONTRACT_MANAGE'' ''GRANT_CONTRACT_ACCESS'', policyConfig E),
     (res ''CONTRACT_MANAGE'' ''REVOKE_CONTRACT_ACCESS'', policyConfig E),
     (res ''CONTRACT_MANAGE'' ''VERIFY_CONTRACT_ACCESS'', policyConfig E),
     (res ''CERT_MANAGE'' ''CERTS_FREEZE'', policyAdmin E)]"

definition Cert_220_resource2 :: "acEnv \<Rightarrow> (string \<times> policy) list" where
  "Cert_220_resource2 E =
    [(res ''CERT_MANAGE'' ''CERTS_UNFREEZE'', policyAdmin E),
     (res ''CERT_MANAGE'' ''CERTS_DELETE'', policyAdmin E),
     (res ''CERT_MANAGE'' ''CERTS_REVOKE'', policyAdmin E),
     (res ''CERT_MANAGE'' ''CERT_ALIAS_UPDATE'', policyAdmin E),
     (res ''CERT_MANAGE'' ''CERTS_ALIAS_DELETE'', policyAdmin E)]"

definition Cert_220_exceptional :: "acEnv \<Rightarrow> (string \<times> policy) list" where
  "Cert_220_exceptional E =
    [(res ''CHAIN_QUERY'' ''GET_BLOCK_BY_HEIGHT'', policySpecialRead E),
     (res ''CHAIN_QUERY'' ''GET_BLOCK_WITH_TXRWSETS_BY_HEIGHT'', policySpecialRead E),
     (res ''CHAIN_QUERY'' ''GET_BLOCK_BY_HASH'', policySpecialRead E),
     (res ''CHAIN_QUERY'' ''GET_BLOCK_WITH_TXRWSETS_BY_HASH'', policySpecialRead E),
     (res ''CHAIN_QUERY'' ''GET_BLOCK_BY_TX_ID'', policySpecialRead E),
     (res ''CHAIN_QUERY'' ''GET_TX_BY_TX_ID'', policySpecialRead E),
     (res ''CHAIN_QUERY'' ''GET_LAST_CONFIG_BLOCK'', policySpecialRead E),
     (res ''CHAIN_QUERY'' ''GET_LAST_BLOCK'', policySpecialRead E),
     (res ''CHAIN_QUERY'' ''GET_FULL_BLOCK_BY_HEIGHT'', policySpecialRead E),
     (res ''CHAIN_QUERY'' ''GET_BLOCK_HEIGHT_BY_TX_ID'', policySpecialRead E),
     (res ''CHAIN_QUERY'' ''GET_BLOCK_HEIGHT_BY_HASH'', policySpecialRead E),
     (res ''CHAIN_QUERY'' ''GET_BLOCK_HEADER_BY_HEIGHT'', policySpecialRead E),
     (res ''CHAIN_QUERY'' ''GET_ARCHIVED_BLOCK_HEIGHT'', policySpecialRead E),
     (res ''CHAIN_CONFIG'' ''GET_CHAIN_CONFIG'', policySpecialRead E),
     (res ''CERT_MANAGE'' ''CERTS_QUERY'', policySpecialRead E),
     (res ''CERT_MANAGE'' ''CERT_ADD'', policySpecialWrite E),
     (res ''CERT_MANAGE'' ''CERTS_ALIAS_QUERY'', policySpecialRead E),
     (res ''CERT_MANAGE'' ''CERT_ALIAS_ADD'', policySpecialWrite E),
     (res ''PUBKEY_MANAGE'' ''PUBKEY_ADD'', policyForbidden E),
     (res ''PUBKEY_MANAGE'' ''PUBKEY_DELETE'', policyForbidden E)]"

definition createDefaultResourcePolicyForCert_220 :: "acEnv \<Rightarrow> acPolicies \<Rightarrow> acPolicies" where
  "createDefaultResourcePolicyForCert_220 E m =
     m\<lparr>resourceNamePolicyMap220 := store_all (Cert_220_resource1 E @ Cert_220_resource2 E) (resourceNamePolicyMap220 m),
       exceptionalPolicyMap220 := store_all (Cert_220_exceptional E) (exceptionalPolicyMap220 m)\<rparr>"

definition PK_220_resource1 :: "acEnv \<Rightarrow> (string \<times> policy) list" where
  "PK_220_resource1 E =
    [(ResourceNameReadData E, policyRead E),
     (ResourceNameWriteData E, policyWrite E),
     (ResourceNameUpdateSelfConfig E, policySelfConfig E),
     (ResourceNameUpdateConfig E, policyConfig E),
     (ResourceNameConsensusNode E, policyConsensus E),
     (ResourceNameP2p E, policyP2P E),
     (ResourceNameAllTest E, policyAllTest E),
     (''test_2'', policyLimitTestAny E),
     (''test_2_admin'', policyLimitTestAdmin E),
     (''test_3/4'', policyPortionTestAny E),
     (''test_3/4_admin'', policyPortionTestAnyAdmin E),
     (''QUERY_CONTRACT'', policyRead E),
     (''INVOKE_CONTRACT'', policyWrite E),
     (''SUBSCRIBE'', policySubscribe E),
     (''ARCHIVE'', policyArchive E),
     (ResourceNamePrivateCompute E, policyWrite E),
     (res ''PRIVATE_COMPUTE'' ''SAVE_CA_CERT'', policyConfig E),
     (res ''PRIVATE_COMPUTE'' ''SAVE_ENCLAVE_REPORT'', policyConfig E),
     (res ''CHAIN_CONFIG'' ''CORE_UPDATE'', policyConfig E),
     (res ''CHAIN_CONFIG'' ''BLOCK_UPDATE'', policyConfig E),
     (res ''CHAIN_CONFIG'' ''TRUST_ROOT_ADD'', policyConfig E),
     (res ''CHAIN_CONFIG'' ''TRUST_ROOT_DELETE'', policyConfig E),
     (res ''CHAIN_CONFIG'' ''TRUST_ROOT_UPDATE'', policySelfConfig E),
     (res ''CHAIN_CONFIG'' ''NODE_ID_ADD'', policyConfig E),
     (res ''CHAIN_CONFIG'' ''NODE_ID_DELETE'', policyConfig E),
     (res ''CHAIN_CONFIG'' ''NODE_ID_UPDATE'', policySelfConfig E),
     (res ''CHAIN_CONFIG'' ''NODE_ORG_ADD'', policyConfig E),
     (res ''CHAIN_CONFIG'' ''NODE_ORG_UPDATE'', policyConfig E),
     (res ''CHAIN_CONFIG'' ''NODE_ORG_DELETE'', policyConfig E),
     (res ''CHAIN_CONFIG'' ''CONSENSUS_EXT_ADD'', policyConfig E),
     (res ''CHAIN_CONFIG'' ''CONSENSUS_EXT_UPDATE'', policyConfig E),
     (res ''CHAIN_CONFIG'' ''CONSENSUS_EXT_DELETE'', policyConfig E),
     (res ''CHAIN_CONFIG'' ''PERMISSION_ADD'', policyConfig E),
     (res ''CHAIN_CONFIG'' ''PERMISSION_UPDATE'', policyConfig E),
     (res ''CHAIN_CONFIG'' ''PERMISSION_DELETE'', policyConfig E),
     (res ''CONTRACT_MANAGE'' ''INIT_CONTRACT'', policyConfig E),
     (res ''CONTRACT_MANAGE'' ''UPGRADE_CONTRACT'', policyConfig E),
     (res ''CONTRACT_MANAGE'' ''FREEZE_CONTRACT'', policyConfig E),
     (res ''CONTRACT_MANAGE'' ''UNFREEZE_CONTRACT'', policyConfig E),
     (res ''CONTRACT_MANAGE'' ''REVOKE_CONTRACT'', policyConfig E)]"

definition PK_220_resource2 :: "acEnv \<Rightarrow> (string \<times> policy) list" where
  "PK_220_resource2 E =
    [(res ''CONTRACT_MANAGE'' ''GRANT_CONTRACT_ACCESS'', policyConfig E),
     (res ''CONTRACT_MANAGE'' ''REVOKE_CONTRACT_ACCESS'', policyConfig E),
     (res ''CONTRACT_MANAGE'' ''VERIFY_CONTRACT_ACCESS'', policyConfig E),
     (res ''PUBKEY_MANAGE'' ''PUBKEY_ADD'', policySelfConfig E),
     (res ''PUBKEY_MANAGE'' ''PUBKEY_DELETE'', policySelfConfig E)]"

definition PK_220_exceptional :: "acEnv \<Rightarrow> (string \<times> policy) list" where
  "PK_220_exceptional E =
    [(res ''CHAIN_QUERY'' ''GET_BLOCK_BY_HEIGHT'', policySpecialRead E),
     (res ''CHAIN_QUERY'' ''GET_BLOCK_WITH_TXRWSETS_BY_HEIGHT'', policySpecialRead E),
     (res ''CHAIN_QUERY'' ''GET_BLOCK_BY_HASH'', policySpecialRead E),
     (res ''CHAIN_QUERY'' ''GET_BLOCK_WITH_TXRWSETS_BY_HASH'', policySpecialRead E),
     (res ''CHAIN_QUERY'' ''GET_BLOCK_BY_TX_ID'', policySpecialRead E),
     (res ''CHAIN_QUERY'' ''GET_TX_BY_TX_ID'', policySpecialRead E),
     (res ''CHAIN_QUERY'' ''GET_LAST_CONFIG_BLOCK'', policySpecialRead E),
     (res ''CHAIN_QUERY'' ''GET_LAST_BLOCK'', policySpecialRead E),
     (res ''CHAIN_QUERY'' ''GET_FULL_BLOCK_BY_HEIGHT'', policySpecialRead E),
     (res ''CHAIN_QUERY'' ''GET_BLOCK_HEIGHT_BY_TX_ID'', policySpecialRead E),
     (res ''CHAIN_QUERY'' ''GET_BLOCK_HEIGHT_BY_HASH'', policySpecialRead E),
     (res ''CHAIN_QUERY'' ''GET_BLOCK_HEADER_BY_HEIGHT'', policySpecialRead E),
     (res ''CHAIN_QUERY'' ''GET_ARCHIVED_BLOCK_HEIGHT'', policySpecialRead E),
     (res ''CHAIN_CONFIG'' ''GET_CHAIN_CONFIG'', policySpecialRead E),
     (res ''CERT_MANAGE'' ''CERTS_QUERY'', policySpecialRead E),
     (res ''CERT_MANAGE'' ''CERT_ADD'', policySpecialWrite E),
     (res ''CERT_MANAGE'' ''CERT_ADD'', policyForbidden E),
     (res ''CERT_MANAGE'' ''CERTS_FREEZE'', policyForbidden E),
     (res ''CERT_MANAGE'' ''CERTS_UNFREEZE'', policyForbidden E),
     (res ''CERT_MANAGE'' ''CERTS_DELETE'', policyForbidden E),
     (res ''CERT_MANAGE'' ''CERTS_REVOKE'', policyForbidden E),
     (res ''CERT_MANAGE'' ''CERT_ALIAS_ADD'', policyForbidden E),
     (res ''CERT_MANAGE'' ''CERT_ALIAS_UPDATE'', policyForbidden E),
     (res ''CERT_MANAGE'' ''CERTS_ALIAS_DELETE'', policyForbidden E),
     (res ''CHAIN_CONFIG'' ''TRUST_MEMBER_ADD'', policyForbidden E),
     (res ''CHAIN_CONFIG'' ''TRUST_MEMBER_DELETE'', policyForbidden E),
     (res ''CHAIN_CONFIG'' ''TRUST_MEMBER_UPDATE'', policyForbidden E)]"

definition createDefaultResourcePolicyForPK_220 :: "acEnv \<Rightarrow> acPolicies \<Rightarrow> acPolicies" where
  "createDefaultResourcePolicyForPK_220 E m =
     m\<lparr>resourceNamePolicyMap220 := store_all (PK_220_resource1 E @ PK_220_resource2 E) (resourceNamePolicyMap220 m),
       exceptionalPolicyMap220 := store_all (PK_220_exceptional E) (exceptionalPolicyMap220 m)\<rparr>"

definition DPoS_220_resource :: "acEnv \<Rightarrow> (string \<times> policy) list" where
  "DPoS_220_resource E =
    [(ResourceNameConsensusNode E, pubPolicyConsensus E),
     (''QUERY_CONTRACT'', pubPolicyTransaction E),
     (''INVOKE_CONTRACT'', pubPolicyTransaction E),
     (''SUBSCRIBE'', pubPolicyTransaction E),
     (''ARCHIVE'', pubPolicyManage E),
     (res ''CHAIN_CONFIG'' ''TRUST_ROOT_UPDATE'', pubPolicyMajorityAdmin E)]"

definition DPoS_220_exceptional :: "acEnv \<Rightarrow> (string \<times> policy) list" where
  "DPoS_220_exceptional E =
    [(ResourceNamePrivateCompute E, pubPolicyForbidden E),
     (res ''PRIVATE_COMPUTE'' ''SAVE_CA_CERT'', pubPolicyForbidden E),
     (res ''PRIVATE_COMPUTE'' ''SAVE_ENCLAVE_REPORT'', pubPolicyForbidden E),
     (res ''CHAIN_CONFIG'' ''TRUST_MEMBER_ADD'', pubPolicyForbidden E),
     (res ''CHAIN_CONFIG'' ''TRUST_MEMBER_DELETE'', pubPolicyForbidden E),
     (res ''CHAIN_CONFIG'' ''TRUST_MEMBER_UPDATE'', pubPolicyForbidden E),
     (res ''CHAIN_CONFIG'' ''NODE_ID_ADD'', pubPolicyForbidden E),
     (res ''CHAIN_CONFIG'' ''NODE_ID_DELETE'', pubPolicyForbidden E),
     (res ''CHAIN_CONFIG'' ''NODE_ID_UPDATE'', pubPolicyForbidden E),
     (res ''CHAIN_CONFIG'' ''NODE_ORG_ADD'', pubPolicyForbidden E),
     (res ''CHAIN_CONFIG'' ''NODE_ORG_UPDATE'', pubPolicyForbidden E),
     (res ''CHAIN_CONFIG'' ''NODE_ORG_DELETE'', pubPolicyForbidden E),
     (res ''CHAIN_CONFIG'' ''CONSENSUS_EXT_ADD'', pubPolicyForbidden E),
     (res ''CHAIN_CONFIG'' ''CONSENSUS_EXT_UPDATE'', pubPolicyForbidden E),
     (res ''CHAIN_CONFIG'' ''CONSENSUS_EXT_DELETE'', pubPolicyForbidden E),
     (res ''CHAIN_CONFIG'' ''PERMISSION_ADD'', pubPolicyForbidden E),
     (res ''CHAIN_CONFIG'' ''PERMISSION_UPDATE'', pubPolicyForbidden E),
     (res ''CHAIN_CONFIG'' ''PERMISSION_DELETE'', pubPolicyForbidden E),
     (res ''CERT_MANAGE'' ''CERT_ADD'', pubPolicyForbidden E),
     (res ''CERT_MANAGE'' ''CERTS_FREEZE'', pubPolicyForbidden E),
     (res ''CERT_MANAGE'' ''CERTS_UNFREEZE'', pubPolicyForbidden E),
     (res ''CERT_MANAGE'' ''CERTS_DELETE'', pubPolicyForbidden E),
     (res ''CERT_MANAGE'' ''CERTS_REVOKE'', pubPolicyForbidden E),
     (res ''CERT_MANAGE'' ''CERT_ALIAS_ADD'', pubPolicyForbidden E),
     (res ''CERT_MANAGE'' ''CERT_ALIAS_UPDATE'', pubPolicyForbidden E),
     (res ''CERT_MANAGE'' ''CERTS_ALIAS_DELETE'', pubPolicyForbidden E),
     (res ''PUBKEY_MANAGE'' ''PUBKEY_ADD'', pubPolicyForbidden E),
     (res ''PUBKEY_MANAGE'' ''PUBKEY_DELETE'', pubPolicyForbidden E),
     (res ''CHAIN_CONFIG'' ''TRUST_ROOT_ADD'', pubPolicyForbidden E),
     (res ''CHAIN_CONFIG'' ''TRUST_ROOT_DELETE'', pubPolicyForbidden E),
     (res ''MULTI_SIGN'' ''REQ'', pubPolicyForbidden E),
     (res ''MULTI_SIGN'' ''VOTE'', pubPolicyForbidden E),
     (res ''MULTI_SIGN'' ''QUERY'', pubPolicyForbidden E),
     (res ''CHAIN_CONFIG'' ''CORE_UPDATE'', pubPolicyManage E),
     (res ''CHAIN_CONFIG'' ''BLOCK_UPDATE'', pubPolicyManage E),
     (res ''CONTRACT_MANAGE'' ''UPGRADE_CONTRACT'', pubPolicyManage E),
     (res ''CONTRACT_MANAGE'' ''FREEZE_CONTRACT'', pubPolicyManage E),
     (res ''CONTRACT_MANAGE'' ''UNFREEZE_CONTRACT'', pubPolicyManage E),
     (res ''CONTRACT_MANAGE'' ''REVOKE_CONTRACT'', pubPolicyManage E),
     (res ''CONTRACT_MANAGE'' ''GRANT_CONTRACT_ACCESS'', pubPolicyForbidden E),
     (res ''CONTRACT_MANAGE'' ''REVOKE_CONTRACT_ACCESS'', pubPolicyForbidden E),
     (res ''CONTRACT_MANAGE'' ''VERIFY_CONTRACT_ACCESS'', pubPolicyForbidden E),
     (res ''CONTRACT_MANAGE'' ''GET_DISABLED_CONTRACT_LIST'', pubPolicyForbidden E),
     (res ''ACCOUNT_MANAGER'' ''CHARGE_GAS'', pubPolicyForbidden E),
     (res ''ACCOUNT_MANAGER'' ''REFUND_GAS_VM'', pubPolicyForbidden E),
     (res ''ACCOUNT_MANAGER'' ''SET_ADMIN'', pubPolicyForbidden E),
     (res ''CHAIN_CONFIG'' ''ENABLE_OR_DISABLE_GAS'', pubPolicyForbidden E),
     (res ''CHAIN_CONFIG'' ''ALTER_ADDR_TYPE'', pubPolicyForbidden E)]"

definition createDefaultResourcePolicyForDPoS_220 :: "acEnv \<Rightarrow> acPolicies \<Rightarrow> acPolicies" where
  "createDefaultResourcePolicyForDPoS_220 E m =
     m\<lparr>resourceNamePolicyMap220 := store_all (DPoS_220_resource E) (resourceNamePolicyMap220 m),
       exceptionalPolicyMap220 := store_all (DPoS_220_exceptional E) (exceptionalPolicyMap220 m)\<rparr>"

definition Common_220_resource :: "acEnv \<Rightarrow> (string \<times> policy) list" where
  "Common_220_resource E =
    [(ResourceNameConsensusNode E, pubPolicyConsensus E),
     (''QUERY_CONTRACT'', pubPolicyTransaction E),
     (''INVOKE_CONTRACT'', pubPolicyTransaction E),
     (''SUBSCRIBE'', pubPolicyTransaction E),
     (''ARCHIVE'', pubPolicyManage E),
     (res ''CHAIN_CONFIG'' ''NODE_ID_ADD'', pubPolicyMajorityAdmin E),
     (res ''CHAIN_CONFIG'' ''NODE_ID_DELETE'', pubPolicyMajorityAdmin E),
     (res ''CHAIN_CONFIG'' ''NODE_ID_UPDATE'', pubPolicyMajorityAdmin E),
     (res ''CHAIN_CONFIG'' ''NODE_ORG_UPDATE'', pubPolicyMajorityAdmin E),
     (res ''CONTRACT_MANAGE'' ''INIT_CONTRACT'', pubPolicyManage E),
     (res ''CONTRACT_MANAGE'' ''UPGRADE_CONTRACT'', pubPolicyManage E),
     (res ''CONTRACT_MANAGE'' ''FREEZE_CONTRACT'', pubPolicyManage E),
     (res ''CONTRACT_MANAGE'' ''UNFREEZE_CONTRACT'', pubPolicyManage E),
     (res ''CONTRACT_MANAGE'' ''REVOKE_CONTRACT'', pubPolicyManage E),
     (res ''CHAIN_CONFIG'' ''CORE_UPDATE'', pubPolicyMajorityAdmin E),
     (res ''CHAIN_CONFIG'' ''BLOCK_UPDATE'', pubPolicyMajorityAdmin E),
     (res ''CHAIN_CONFIG'' ''ENABLE_OR_DISABLE_GAS'', pubPolicyMajorityAdmin E),
     (res ''CHAIN_CONFIG'' ''ALTER_ADDR_TYPE'', pubPolicyMajorityAdmin E),
     (res ''CHAIN_CONFIG'' ''TRUST_ROOT_UPDATE'', pubPolicyMajorityAdmin E),
     (res ''ACCOUNT_MANAGER'' ''SET_ADMIN'', pubPolicyMajorityAdmin E)]"

definition Common_220_exceptional :: "acEnv \<Rightarrow> (string \<times> policy) list" where
  "Common_220_exceptional E =
    [(ResourceNamePrivateCompute E, pubPolicyForbidden E),
     (res ''PRIVATE_COMPUTE'' ''SAVE_CA_CERT'', pubPolicyForbidden E),
     (res ''PRIVATE_COMPUTE'' ''SAVE_ENCLAVE_REPORT'', pubPolicyForbidden E),
     (res ''CHAIN_CONFIG'' ''TRUST_MEMBER_ADD'', pubPolicyForbidden E),
     (res ''CHAIN_CONFIG'' ''TRUST_MEMBER_DELETE'', pubPolicyForbidden E),
     (res ''CHAIN_CONFIG'' ''TRUST_MEMBER_UPDATE'', pubPolicyForbidden E),
     (res ''CHAIN_CONFIG'' ''NODE_ORG_ADD'', pubPolicyForbidden E),
     (res ''CHAIN_CONFIG'' ''NODE_ORG_DELETE'', pubPolicyForbidden E),
     (res ''CHAIN_CONFIG'' ''CONSENSUS_EXT_ADD'', pubPolicyForbidden E),
     (res ''CHAIN_CONFIG'' ''CONSENSUS_EXT_UPDATE'', pubPolicyForbidden E),
     (res ''CHAIN_CONFIG'' ''CONSENSUS_EXT_DELETE'', pubPolicyForbidden E),
     (res ''CHAIN_CONFIG'' ''PERMISSION_ADD'', pubPolicyForbidden E),
     (res ''CHAIN_CONFIG'' ''PERMISSION_UPDATE'', pubPolicyForbidden E),
     (res ''CHAIN_CONFIG'' ''PERMISSION_DELETE'', pubPolicyForbidden E),
     (res ''CERT_MANAGE'' ''CERT_ADD'', pubPolicyForbidden E),
     (res ''CERT_MANAGE'' ''CERTS_FREEZE'', pubPolicyForbidden E),
     (res ''CERT_MANAGE'' ''CERTS_UNFREEZE'', pubPolicyForbidden E),
     (res ''CERT_MANAGE'' ''CERTS_DELETE'', pubPolicyForbidden E),
     (res ''CERT_MANAGE'' ''CERTS_REVOKE'', pubPolicyForbidden E),
     (res ''CERT_MANAGE'' ''CERT_ALIAS_ADD'', pubPolicyForbidden E),
     (res ''CERT_MANAGE'' ''CERT_ALIAS_UPDATE'', pubPolicyForbidden E),
     (res ''CERT_MANAGE'' ''CERTS_ALIAS_DELETE'', pubPolicyForbidden E),
     (res ''PUBKEY_MANAGE'' ''PUBKEY_ADD'', pubPolicyForbidden E),
     (res ''PUBKEY_MANAGE'' ''PUBKEY_DELETE'', pubPolicyForbidden E),
     (res ''CHAIN_CONFIG'' ''TRUST_ROOT_ADD'', pubPolicyForbidden E),
     (res ''CHAIN_CONFIG'' ''TRUST_ROOT_DELETE'', pubPolicyForbidden E),
     (res ''CONTRACT_MANAGE'' ''GRANT_CONTRACT_ACCESS'', pubPolicyForbidden E),
     (res ''CONTRACT_MANAGE'' ''REVOKE_CONTRACT_ACCESS'', pubPolicyForbidden E),
     (res ''CONTRACT_MANAGE'' ''VERIFY_CONTRACT_ACCESS'', pubPolicyForbidden E),
     (res ''CONTRACT_MANAGE'' ''GET_DISABLED_CONTRACT_LIST'', pubPolicyForbidden E),
     (res ''ACCOUNT_MANAGER'' ''CHARGE_GAS'', pubPolicyForbidden E),
     (res ''ACCOUNT_MANAGER'' ''REFUND_GAS_VM'', pubPolicyForbidden E)]"

definition createDefaultResourcePolicyForCommon_220 :: "acEnv \<Rightarrow> acPolicies \<Rightarrow> acPolicies" where
  "createDefaultResourcePolicyForCommon_220 E m =
     m\<lparr>resourceNamePolicyMap220 := store_all (Common_220_resource E) (resourceNamePolicyMap220 m),
       exceptionalPolicyMap220 := store_all (Common_220_exceptional E) (exceptionalPolicyMap220 m)\<rparr>"

subsection \<open>The tables up to version 2.3.2 (policies2320.go)\<close>

definition Cert_2320_resource1 :: "acEnv \<Rightarrow> (string \<times> policy) list" where
  "Cert_2320_resource1 E =
    [(ResourceNameReadData E, policyRead E),
     (ResourceNameWriteData E, policyWrite E),
     (ResourceNameUpdateSelfConfig E, policySelfConfig E),
     (ResourceNameUpdateConfig E, policyConfig E),
     (ResourceNameConsensusNode E, policyConsensus E),
     (ResourceNameP2p E, policyP2P E),
     (''QUERY_CONTRACT'', policyRead E),
     (''INVOKE_CONTRACT'', policyWrite E),
     (''SUBSCRIBE'', policySubscribe E),
     (''ARCHIVE'', policyArchive E),
     (ResourceNamePrivateCompute E, policyWrite E),
     (res ''PRIVATE_COMPUTE'' ''SAVE_CA_CERT'', policyConfig E),
     (res ''PRIVATE_COMPUTE'' ''SAVE_ENCLAVE_REPORT'', policyConfig E),
     (res ''CHAIN_CONFIG'' ''CORE_UPDATE'', policyConfig E),
     (res ''CHAIN_CONFIG'' ''UPDATE_VERSION'', policyConfig E),
     (res ''CHAIN_CONFIG'' ''BLOCK_UPDATE'', policyConfig E),
     (res ''CHAIN_CONFIG'' ''UPDATE_VERSION'', policyConfig E),
     (res ''CHAIN_CONFIG'' ''TRUST_ROOT_ADD'', policyConfig E),
     (res ''CHAIN_CONFIG'' ''TRUST_ROOT_DELETE'', policyConfig E),
     (res ''CHAIN_CONFIG'' ''TRUST_ROOT_UPDATE'', policySelfConfig E),
     (res ''CHAIN_CONFIG'' ''TRUST_MEMBER_ADD'', policyConfig E),
     (res ''CHAIN_CONFIG'' ''TRUST_MEMBER_DELETE'', policyConfig E),
     (res ''CHAIN_CONFIG'' ''TRUST_MEMBER_UPDATE'', policyConfig E),
     (res ''CHAIN_CONFIG'' ''NODE_ID_ADD'', policyConfig E),
     (res ''CHAIN_CONFIG'' ''NODE_ID_DELETE'', policyConfig E),
     (res ''CHAIN_CONFIG'' ''NODE_ID_UPDATE'', policySelfConfig E),
     (res ''CHAIN_CONFIG'' ''NODE_ORG_ADD'', policyConfig E),
     (res ''CHAIN_CONFIG'' ''NODE_ORG_UPDATE'', policyConfig E),
     (res ''CHAIN_CONFIG'' ''NODE_ORG_DELETE'', policyConfig E),
     (res ''CHAIN_CONFIG'' ''CONSENSUS_EXT_ADD'', policyConfig E),
     (res ''CHAIN_CONFIG'' ''CONSENSUS_EXT_UPDATE'', policyConfig E),
     (res ''CHAIN_CONFIG'' ''CONSENSUS_EXT_DELETE'', policyConfig E),
     (res ''CHAIN_CONFIG'' ''PERMISSION_ADD'', policyConfig E),
     (res ''CHAIN_CONFIG'' ''PERMISSION_UPDATE'', policyConfig E),
     (res ''CHAIN_CONFIG'' ''PERMISSION_DELETE'', policyConfig E),
     (res ''CHAIN_CONFIG'' ''ALTER_ADDR_TYPE'', policyConfig E),
     (res ''CHAIN_CONFIG'' ''ENABLE_OR_DISABLE_GAS'', policyConfig E),
     (res ''ACCOUNT_MANAGER'' ''SET_ADMIN'', policyConfig E),
     (res ''CHAIN_CONFIG'' ''SET_ACCOUNT_MANAGER_ADMIN'', policyConfig E),
     (res ''CHAIN_CONFIG'' ''SET_INVOKE_BASE_GAS'', policyConfig E),
     (res ''CHAIN_CONFIG'' ''MULTI_SIGN_ENABLE_MANUAL_RUN'', policyConfig E),
     (res ''CONTRACT_MANAGE'' ''INIT_CONTRACT'', policyConfig E),
     (res ''CONTRACT_MANAGE'' ''UPGRADE_CONTRACT'', policyConfig E),
     (res ''CONTRACT_MANAGE'' ''FREEZE_CONTRACT'', policyConfig E),
     (res ''CONTRACT_MANAGE'' ''UNFREEZE_CONTRACT'', policyConfig E),
     (res ''CONTRACT_MANAGE'' ''REVOKE_CONTRACT'', policyConfig E),
     (res ''CONTRACT_MANAGE'' ''GRANT_CONTRACT_ACCESS'', policyConfig E)]"

definition Cert_2320_resource2 :: "acEnv \<Rightarrow> (string \<times> policy) list" where
  "Cert_2320_resource2 E =
    [(res ''CONTRACT_MANAGE'' ''REVOKE_CONTRACT_ACCESS'', policyConfig E),
     (res ''CONTRACT_MANAGE'' ''VERIFY_CONTRACT_ACCESS'', policyConfig E),
     (res ''CERT_MANAGE'' ''CERTS_FREEZE'', policyAdmin E),
     (res ''CERT_MANAGE'' ''CERTS_UNFREEZE'', policyAdmin E),
     (res ''CERT_MANAGE'' ''CERTS_DELETE'', policyAdmin E),
     (res ''CERT_MANAGE'' ''CERTS_REVOKE'', policyAdmin E),
     (res ''CERT_MANAGE'' ''CERT_ALIAS_UPDATE'', policyAdmin E),
     (res ''CERT_MANAGE'' ''CERTS_ALIAS_DELETE'', policyAdmin E),
     (res ''ACCOUNT_MANAGER'' ''CHARGE_GAS_FOR_MULTI_ACCOUNT'', policyConsensus E)]"

definition Cert_2320_exceptional :: "acEnv \<Rightarrow> (string \<times> policy) list" where
  "Cert_2320_exceptional E =
    [(res ''CHAIN_QUERY'' ''GET_BLOCK_BY_HEIGHT'', policySpecialRead E),
     (res ''CHAIN_QUERY'' ''GET_BLOCK_WITH_TXRWSETS_BY_HEIGHT'', policySpecialRead E),
     (res ''CHAIN_QUERY'' ''GET_BLOCK_BY_HASH'', policySpecialRead E),
     (res ''CHAIN_QUERY'' ''GET_BLOCK_WITH_TXRWSETS_BY_HASH'', policySpecialRead E),
     (res ''CHAIN_QUERY'' ''GET_BLOCK_BY_TX_ID'', policySpecialRead E),
     (res ''CHAIN_QUERY'' ''GET_TX_BY_TX_ID'', policySpecialRead E),
     (res ''CHAIN_QUERY'' ''GET_LAST_CONFIG_BLOCK'', policySpecialRead E),
     (res ''CHAIN_QUERY'' ''GET_LAST_BLOCK'', policySpecialRead E),
     (res ''CHAIN_QUERY'' ''GET_FULL_BLOCK_BY_HEIGHT'', policySpecialRead E),
     (res ''CHAIN_QUERY'' ''GET_BLOCK_HEIGHT_BY_TX_ID'', policySpecialRead E),
     (res ''CHAIN_QUERY'' ''GET_BLOCK_HEIGHT_BY_HASH'', policySpecialRead E),
     (res ''CHAIN_QUERY'' ''GET_BLOCK_HEADER_BY_HEIGHT'', policySpecialRead E),
     (res ''CHAIN_QUERY'' ''GET_ARCHIVED_BLOCK_HEIGHT'', policySpecialRead E),
     (res ''CHAIN_CONFIG'' ''GET_CHAIN_CONFIG'', policySpecialRead E),
     (res ''CERT_MANAGE'' ''CERTS_QUERY'', policySpecialRead E),
     (res ''CERT_MANAGE'' ''CERT_ADD'', policySpecialWrite E),
     (res ''CERT_MANAGE'' ''CERTS_ALIAS_QUERY'', policySpecialRead E),
     (res ''CERT_MANAGE'' ''CERT_ALIAS_ADD'', policySpecialWrite E),
     (res ''PUBKEY_MANAGE'' ''PUBKEY_ADD'', policyForbidden E),
     (res ''PUBKEY_MANAGE'' ''PUBKEY_DELETE'', policyForbidden E)]"

definition createDefaultResourcePolicyForCert_2320 :: "acEnv \<Rightarrow> acPolicies \<Rightarrow> acPolicies" where
  "createDefaultResourcePolicyForCert_2320 E m =
     m\<lparr>resourceNamePolicyMap2320 := store_all (Cert_2320_resource1 E @ Cert_2320_resource2 E) (resourceNamePolicyMap2320 m),
       exceptionalPolicyMap2320 := store_all (Cert_2320_exceptional E) (exceptionalPolicyMap2320 m)\<rparr>"

definition PK_2320_resource1 :: "acEnv \<Rightarrow> (string \<times> policy) list" where
  "PK_2320_resource1 E =
    [(ResourceNameReadData E, policyRead E),
     (ResourceNameWriteData E, policyWrite E),
     (ResourceNameUpdateSelfConfig E, policySelfConfig E),
     (ResourceNameUpdateConfig E, policyConfig E),
     (ResourceNameConsensusNode E, policyConsensus E),
     (ResourceNameP2p E, policyP2P E),
     (''QUERY_CONTRACT'', policyRead E),
     (''INVOKE_CONTRACT'', policyWrite E),
     (''SUBSCRIBE'', policySubscribe E),
     (''ARCHIVE'', policyArchive E),
     (ResourceNamePrivateCompute E, policyWrite E),
     (res ''PRIVATE_COMPUTE'' ''SAVE_CA_CERT'', policyConfig E),
     (res ''PRIVATE_COMPUTE'' ''SAVE_ENCLAVE_REPORT'', policyConfig E),
     (res ''CHAIN_CONFIG'' ''CORE_UPDATE'', policyConfig E),
     (res ''CHAIN_CONFIG'' ''UPDATE_VERSION'', policyConfig E),
     (res ''CHAIN_CONFIG'' ''BLOCK_UPDATE'', policyConfig E),
     (res ''CHAIN_CONFIG'' ''UPDATE_VERSION'', policyConfig E),
     (res ''CHAIN_CONFIG'' ''TRUST_ROOT_ADD'', policyConfig E),
     (res ''CHAIN_CONFIG'' ''TRUST_ROOT_DELETE'', policyConfig E),
     (res ''CHAIN_CONFIG'' ''TRUST_ROOT_UPDATE'', policySelfConfig E),
     (res ''CHAIN_CONFIG'' ''NODE_ID_ADD'', policyConfig E),
     (res ''CHAIN_CONFIG'' ''NODE_ID_DELETE'', policyConfig E),
     (res ''CHAIN_CONFIG'' ''NODE_ID_UPDATE'', policySelfConfig E),
     (res ''CHAIN_CONFIG'' ''NODE_ORG_ADD'', policyConfig E),
     (res ''CHAIN_CONFIG'' ''NODE_ORG_UPDATE'', policyConfig E),
     (res ''CHAIN_CONFIG'' ''NODE_ORG_DELETE'', policyConfig E),
     (res ''CHAIN_CONFIG'' ''CONSENSUS_EXT_ADD'', policyConfig E),
     (res ''CHAIN_CONFIG'' ''CONSENSUS_EXT_UPDATE'', policyConfig E),
     (res ''CHAIN_CONFIG'' ''CONSENSUS_EXT_DELETE'', policyConfig E),
     (res ''CHAIN_CONFIG'' ''PERMISSION_ADD'', policyConfig E),
     (res ''CHAIN_CONFIG'' ''PERMISSION_UPDATE'', policyConfig E),
     (res ''CHAIN_CONFIG'' ''PERMISSION_DELETE'', policyConfig E),
     (res ''CHAIN_CONFIG'' ''ALTER_ADDR_TYPE'', policyConfig E),
     (res ''CHAIN_CONFIG'' ''ENABLE_OR_DISABLE_GAS'', policyConfig E),
     (res ''ACCOUNT_MANAGER'' ''SET_ADMIN'', policyConfig E),
     (res ''CHAIN_CONFIG'' ''SET_ACCOUNT_MANAGER_ADMIN'', policyConfig E),
     (res ''CHAIN_CONFIG'' ''SET_INVOKE_BASE_GAS'', policyConfig E),
     (res ''CHAIN_CONFIG'' ''MULTI_SIGN_ENABLE_MANUAL_RUN'', policyConfig E),
     (res ''CONTRACT_MANAGE'' ''INIT_CONTRACT'', policyConfig E)]"

definition PK_2320_resource2 :: "acEnv \<Rightarrow> (string \<times> policy) list" where
  "PK_2320_resource2 E =
    [(res ''CONTRACT_MANAGE'' ''UPGRADE_CONTRACT'', policyConfig E),
     (res ''CONTRACT_MANAGE'' ''FREEZE_CONTRACT'', policyConfig E),
     (res ''CONTRACT_MANAGE'' ''UNFREEZE_CONTRACT'', policyConfig E),
     (res ''CONTRACT_MANAGE'' ''REVOKE_CONTRACT'', policyConfig E),
     (res ''CONTRACT_MANAGE'' ''GRANT_CONTRACT_ACCESS'', policyConfig E),
     (res ''CONTRACT_MANAGE'' ''REVOKE_CONTRACT_ACCESS'', policyConfig E),
     (res ''CONTRACT_MANAGE'' ''VERIFY_CONTRACT_ACCESS'', policyConfig E),
     (res ''PUBKEY_MANAGE'' ''PUBKEY_ADD'', policySelfConfig E),
     (res ''PUBKEY_MANAGE'' ''PUBKEY_DELETE'', policySelfConfig E),
     (res ''ACCOUNT_MANAGER'' ''CHARGE_GAS_FOR_MULTI_ACCOUNT'', policyConsensus E)]"

definition PK_2320_exceptional :: "acEnv \<Rightarrow> (string \<times> policy) list" where
  "PK_2320_exceptional E =
    [(res ''CHAIN_QUERY'' ''GET_BLOCK_BY_HEIGHT'', policySpecialRead E),
     (res ''CHAIN_QUERY'' ''GET_BLOCK_WITH_TXRWSETS_BY_HEIGHT'', policySpecialRead E),
     (res ''CHAIN_QUERY'' ''GET_BLOCK_BY_HASH'', policySpecialRead E),
     (res ''CHAIN_QUERY'' ''GET_BLOCK_WITH_TXRWSETS_BY_HASH'', policySpecialRead E),
     (res ''CHAIN_QUERY'' ''GET_BLOCK_BY_TX_ID'', policySpecialRead E),
     (res ''CHAIN_QUERY'' ''GET_TX_BY_TX_ID'', policySpecialRead E),
     (res ''CHAIN_QUERY'' ''GET_LAST_CONFIG_BLOCK'', policySpecialRead E),
     (res ''CHAIN_QUERY'' ''GET_LAST_BLOCK'', policySpecialRead E),
     (res ''CHAIN_QUERY'' ''GET_FULL_BLOCK_BY_HEIGHT'', policySpecialRead E),
     (res ''CHAIN_QUERY'' ''GET_BLOCK_HEIGHT_BY_TX_ID'', policySpecialRead E),
     (res ''CHAIN_QUERY'' ''GET_BLOCK_HEIGHT_BY_HASH'', policySpecialRead E),
     (res ''CHAIN_QUERY'' ''GET_BLOCK_HEADER_BY_HEIGHT'', policySpecialRead E),
     (res ''CHAIN_QUERY'' ''GET_ARCHIVED_BLOCK_HEIGHT'', policySpecialRead E),
     (res ''CHAIN_CONFIG'' ''GET_CHAIN_CONFIG'', policySpecialRead E),
     (res ''CERT_MANAGE'' ''CERTS_QUERY'', policySpecialRead E),
     (res ''CERT_MANAGE'' ''CERT_ADD'', policySpecialWrite E),
     (res ''CERT_MANAGE'' ''CERT_ADD'', policyForbidden E),
     (res ''CERT_MANAGE'' ''CERTS_FREEZE'', policyForbidden E),
     (res ''CERT_MANAGE'' ''CERTS_UNFREEZE'', policyForbidden E),
     (res ''CERT_MANAGE'' ''CERTS_DELETE'', policyForbidden E),
     (res ''CERT_MANAGE'' ''CERTS_REVOKE'', policyForbidden E),
     (res ''CERT_MANAGE'' ''CERT_ALIAS_ADD'', policyForbidden E),
     (res ''CERT_MANAGE'' ''CERT_ALIAS_UPDATE'', policyForbidden E),
     (res ''CERT_MANAGE'' ''CERTS_ALIAS_DELETE'', policyForbidden E),
     (res ''CHAIN_CONFIG'' ''TRUST_MEMBER_ADD'', policyForbidden E),
     (res ''CHAIN_CONFIG'' ''TRUST_MEMBER_DELETE'', policyForbidden E),
     (res ''CHAIN_CONFIG'' ''TRUST_MEMBER_UPDATE'', policyForbidden E)]"

definition createDefaultResourcePolicyForPK_2320 :: "acEnv \<Rightarrow> acPolicies \<Rightarrow> acPolicies" where
  "createDefaultResourcePolicyForPK_2320 E m =
     m\<lparr>resourceNamePolicyMap2320 := store_all (PK_2320_resource1 E @ PK_2320_resource2 E) (resourceNamePolicyMap2320 m),
       exceptionalPolicyMap2320 := store_all (PK_2320_exceptional E) (exceptionalPolicyMap2320 m)\<rparr>"

definition Common_2320_resource1 :: "acEnv \<Rightarrow> (string \<times> policy) list" where
  "Common_2320_resource1 E =
    [(ResourceNameReadData E, policyRead E),
     (ResourceNameWriteData E, policyWrite E),
     (ResourceNameUpdateSelfConfig E, policySelfConfig E),
     (ResourceNameUpdateConfig E, policyConfig E),
     (ResourceNameConsensusNode E, policyConsensus E),
     (ResourceNameP2p E, policyP2P E),
     (''QUERY_CONTRACT'', pubPolicyTransaction E),
     (''INVOKE_CONTRACT'', pubPolicyTransaction E),
     (''SUBSCRIBE'', pubPolicyTransaction E),
     (''ARCHIVE'', pubPolicyManage E),
     (res ''CHAIN_CONFIG'' ''NODE_ID_ADD'', pubPolicyMajorityAdmin E),
     (res ''CHAIN_CONFIG'' ''NODE_ID_DELETE'', pubPolicyMajorityAdmin E),
     (res ''CHAIN_CONFIG'' ''NODE_ID_UPDATE'', pubPolicyMajorityAdmin E),
     (res ''CHAIN_CONFIG'' ''NODE_ORG_UPDATE'', pubPolicyMajorityAdmin E),
     (res ''CONTRACT_MANAGE'' ''INIT_CONTRACT'', pubPolicyManage E),
     (res ''CONTRACT_MANAGE'' ''UPGRADE_CONTRACT'', pubPolicyManage E),
     (res ''CONTRACT_MANAGE'' ''FREEZE_CONTRACT'', pubPolicyManage E),
     (res ''CONTRACT_MANAGE'' ''UNFREEZE_CONTRACT'', pubPolicyManage E),
     (res ''CONTRACT_MANAGE'' ''REVOKE_CONTRACT'', pubPolicyManage E),
     (res ''CHAIN_CONFIG'' ''CORE_UPDATE'', pubPolicyMajorityAdmin E),
     (res ''CHAIN_CONFIG'' ''BLOCK_UPDATE'', pubPolicyMajorityAdmin E),
     (res ''CHAIN_CONFIG'' ''UPDATE_VERSION'', pubPolicyMajorityAdmin E),
     (res ''CHAIN_CONFIG'' ''ENABLE_OR_DISABLE_GAS'', pubPolicyMajorityAdmin E),
     (res ''CHAIN_CONFIG'' ''ALTER_ADDR_TYPE'', pubPolicyMajorityAdmin E),
     (res ''CHAIN_CONFIG'' ''TRUST_ROOT_UPDATE'', pubPolicyMajorityAdmin E),
     (res ''CHAIN_CONFIG'' ''TRUST_ROOT_ADD'', pubPolicyMajorityAdmin E),
     (res ''CHAIN_CONFIG'' ''TRUST_ROOT_DELETE'', pubPolicyMajorityAdmin E),
     (res ''CHAIN_CONFIG'' ''CONSENSUS_EXT_ADD'', policyConfig E),
     (res ''CHAIN_CONFIG'' ''CONSENSUS_EXT_UPDATE'', policyConfig E),
     (res ''CHAIN_CONFIG'' ''CONSENSUS_EXT_DELETE'', policyConfig E),
     (res ''ACCOUNT_MANAGER'' ''SET_ADMIN'', pubPolicyMajorityAdmin E),
     (res ''ACCOUNT_MANAGER'' ''CHARGE_GAS_FOR_MULTI_ACCOUNT'', policyConsensus E),
     (res ''CHAIN_CONFIG'' ''SET_INVOKE_BASE_GAS'', pubPolicyMajorityAdmin E),
     (res ''CHAIN_CONFIG'' ''SET_ACCOUNT_MANAGER_ADMIN'', pubPolicyMajorityAdmin E)]"

definition Common_2320_resource2 :: "acEnv \<Rightarrow> (string \<times> policy) list" where
  "Common_2320_resource2 E =
    [(res ''CHAIN_CONFIG'' ''MULTI_SIGN_ENABLE_MANUAL_RUN'', pubPolicyMajorityAdmin E)]"

definition Common_2320_exceptional :: "acEnv \<Rightarrow> (string \<times> policy) list" where
  "Common_2320_exceptional E =
    [(ResourceNamePrivateCompute E, pubPolicyForbidden E),
     (res ''PRIVATE_COMPUTE'' ''SAVE_CA_CERT'', pubPolicyForbidden E),
     (res ''PRIVATE_COMPUTE'' ''SAVE_ENCLAVE_REPORT'', pubPolicyForbidden E),
     (res ''CHAIN_CONFIG'' ''TRUST_MEMBER_ADD'', pubPolicyForbidden E),
     (res ''CHAIN_CONFIG'' ''TRUST_MEMBER_DELETE'', pubPolicyForbidden E),
     (res ''CHAIN_CONFIG'' ''TRUST_MEMBER_UPDATE'', pubPolicyForbidden E),
     (res ''CHAIN_CONFIG'' ''NODE_ORG_ADD'', pubPolicyForbidden E),
     (res ''CHAIN_CONFIG'' ''NODE_ORG_DELETE'', pubPolicyForbidden E),
     (res ''CHAIN_CONFIG'' ''PERMISSION_ADD'', pubPolicyForbidden E),
     (res ''CHAIN_CONFIG'' ''PERMISSION_UPDATE'', pubPolicyForbidden E),
     (res ''CHAIN_CONFIG'' ''PERMISSION_DELETE'', pubPolicyForbidden E),
     (res ''CERT_MANAGE'' ''CERT_ADD'', pubPolicyForbidden E),
     (res ''CERT_MANAGE'' ''CERTS_FREEZE'', pubPolicyForbidden E),
     (res ''CERT_MANAGE'' ''CERTS_UNFREEZE'', pubPolicyForbidden E),
     (res ''CERT_MANAGE'' ''CERTS_DELETE'', pubPolicyForbidden E),
     (res ''CERT_MANAGE'' ''CERTS_REVOKE'', pubPolicyForbidden E),
     (res ''CERT_MANAGE'' ''CERT_ALIAS_ADD'', pubPolicyForbidden E),
     (res ''CERT_MANAGE'' ''CERT_ALIAS_UPDATE'', pubPolicyForbidden E),
     (res ''CERT_MANAGE'' ''CERTS_ALIAS_DELETE'', pubPolicyForbidden E),
     (res ''PUBKEY_MANAGE'' ''PUBKEY_ADD'', pubPolicyForbidden E),
     (res ''PUBKEY_MANAGE'' ''PUBKEY_DELETE'', pubPolicyForbidden E),
     (res ''CONTRACT_MANAGE'' ''GRANT_CONTRACT_ACCESS'', pubPolicyForbidden E),
     (res ''CONTRACT_MANAGE'' ''REVOKE_CONTRACT_ACCESS'', pubPolicyForbidden E),
     (res ''CONTRACT_MANAGE'' ''VERIFY_CONTRACT_ACCESS'', pubPolicyForbidden E),
     (res ''CONTRACT_MANAGE'' ''GET_DISABLED_CONTRACT_LIST'', pubPolicyForbidden E),
     (res ''ACCOUNT_MANAGER'' ''REFUND_GAS_VM'', pubPolicyForbidden E)]"

definition createDefaultResourcePolicyForCommon_2320 :: "acEnv \<Rightarrow> acPolicies \<Rightarrow> acPolicies" where
  "createDefaultResourcePolicyForCommon_2320 E m =
     m\<lparr>resourceNamePolicyMap2320 := store_all (Common_2320_resource1 E @ Common_2320_resource2 E) (resourceNamePolicyMap2320 m),
       exceptionalPolicyMap2320 := store_all (Common_2320_exceptional E) (exceptionalPolicyMap2320 m)\<rparr>"

definition DPoS_2320_resource :: "acEnv \<Rightarrow> (string \<times> policy) list" where
  "DPoS_2320_resource E =
    [(ResourceNameReadData E, policyRead E),
     (ResourceNameWriteData E, policyWrite E),
     (ResourceNameUpdateSelfConfig E, policySelfConfig E),
     (ResourceNameUpdateConfig E, policyConfig E),
     (ResourceNameConsensusNode E, policyConsensus E),
     (ResourceNameP2p E, policyP2P E),
     (''QUERY_CONTRACT'', pubPolicyTransaction E),
     (''INVOKE_CONTRACT'', pubPolicyTransaction E),
     (''SUBSCRIBE'', pubPolicyTransaction E),
     (''ARCHIVE'', pubPolicyManage E),
     (res ''CHAIN_CONFIG'' ''NODE_ID_ADD'', pubPolicyForbidden E),
     (res ''CHAIN_CONFIG'' ''NODE_ID_DELETE'', pubPolicyForbidden E),
     (res ''CHAIN_CONFIG'' ''NODE_ID_UPDATE'', pubPolicyForbidden E),
     (res ''ACCOUNT_MANAGER'' ''CHARGE_GAS_FOR_MULTI_ACCOUNT'', policyConsensus E),
     (res ''CHAIN_CONFIG'' ''TRUST_ROOT_UPDATE'', pubPolicyMajorityAdmin E),
     (res ''CHAIN_CONFIG'' ''TRUST_ROOT_ADD'', pubPolicyMajorityAdmin E),
     (res ''CHAIN_CONFIG'' ''TRUST_ROOT_DELETE'', pubPolicyMajorityAdmin E),
     (res ''CHAIN_CONFIG'' ''CONSENSUS_EXT_ADD'', pubPolicyForbidden E),
     (res ''CHAIN_CONFIG'' ''CONSENSUS_EXT_UPDATE'', pubPolicyForbidden E),
     (res ''CHAIN_CONFIG'' ''CONSENSUS_EXT_DELETE'', pubPolicyForbidden E)]"

definition DPoS_2320_exceptional :: "acEnv \<Rightarrow> (string \<times> policy) list" where
  "DPoS_2320_exceptional E =
    [(ResourceNamePrivateCompute E, pubPolicyForbidden E),
     (res ''PRIVATE_COMPUTE'' ''SAVE_CA_CERT'', pubPolicyForbidden E),
     (res ''PRIVATE_COMPUTE'' ''SAVE_ENCLAVE_REPORT'', pubPolicyForbidden E),
     (res ''CHAIN_CONFIG'' ''TRUST_MEMBER_ADD'', pubPolicyForbidden E),
     (res ''CHAIN_CONFIG'' ''TRUST_MEMBER_DELETE'', pubPolicyForbidden E),
     (res ''CHAIN_CONFIG'' ''TRUST_MEMBER_UPDATE'', pubPolicyForbidden E),
     (res ''CHAIN_CONFIG'' ''NODE_ORG_ADD'', pubPolicyForbidden E),
     (res ''CHAIN_CONFIG'' ''NODE_ORG_UPDATE'', pubPolicyForbidden E),
     (res ''CHAIN_CONFIG'' ''NODE_ORG_DELETE'', pubPolicyForbidden E),
     (res ''CHAIN_CONFIG'' ''PERMISSION_ADD'', pubPolicyForbidden E),
     (res ''CHAIN_CONFIG'' ''PERMISSION_UPDATE'', pubPolicyForbidden E),
     (res ''CHAIN_CONFIG'' ''PERMISSION_DELETE'', pubPolicyForbidden E),
     (res ''CERT_MANAGE'' ''CERT_ADD'', pubPolicyForbidden E),
     (res ''CERT_MANAGE'' ''CERTS_FREEZE'', pubPolicyForbidden E),
     (res ''CERT_MANAGE'' ''CERTS_UNFREEZE'', pubPolicyForbidden E),
     (res ''CERT_MANAGE'' ''CERTS_DELETE'', pubPolicyForbidden E),
     (res ''CERT_MANAGE'' ''CERTS_REVOKE'', pubPolicyForbidden E),
     (res ''CERT_MANAGE'' ''CERT_ALIAS_ADD'', pubPolicyForbidden E),
     (res ''CERT_MANAGE'' ''CERT_ALIAS_UPDATE'', pubPolicyForbidden E),
     (res ''CERT_MANAGE'' ''CERTS_ALIAS_DELETE'', pubPolicyForbidden E),
     (res ''PUBKEY_MANAGE'' ''PUBKEY_ADD'', pubPolicyForbidden E),
     (res ''PUBKEY_MANAGE'' ''PUBKEY_DELETE'', pubPolicyForbidden E),
     (res ''CHAIN_CONFIG'' ''MULTI_SIGN_ENABLE_MANUAL_RUN'', pubPolicyForbidden E),
     (res ''MULTI_SIGN'' ''REQ'', pubPolicyForbidden E),
     (res ''MULTI_SIGN'' ''VOTE'', pubPolicyForbidden E),
     (res ''MULTI_SIGN'' ''QUERY'', pubPolicyForbidden E),
     (res ''CHAIN_CONFIG'' ''CORE_UPDATE'', pubPolicyManage E),
     (res ''CHAIN_CONFIG'' ''BLOCK_UPDATE'', pubPolicyManage E),
     (res ''CHAIN_CONFIG'' ''UPDATE_VERSION'', pubPolicyManage E),
     (res ''CONTRACT_MANAGE'' ''UPGRADE_CONTRACT'', pubPolicyManage E),
     (res ''CONTRACT_MANAGE'' ''FREEZE_CONTRACT'', pubPolicyManage E),
     (res ''CONTRACT_MANAGE'' ''UNFREEZE_CONTRACT'', pubPolicyManage E),
     (res ''CONTRACT_MANAGE'' ''REVOKE_CONTRACT'', pubPolicyManage E),
     (res ''CONTRACT_MANAGE'' ''GRANT_CONTRACT_ACCESS'', pubPolicyForbidden E),
     (res ''CONTRACT_MANAGE'' ''REVOKE_CONTRACT_ACCESS'', pubPolicyForbidden E),
     (res ''CONTRACT_MANAGE'' ''VERIFY_CONTRACT_ACCESS'', pubPolicyForbidden E),
     (res ''CONTRACT_MANAGE'' ''GET_DISABLED_CONTRACT_LIST'', pubPolicyForbidden E),
     (res ''ACCOUNT_MANAGER'' ''REFUND_GAS_VM'', pubPolicyForbidden E),
     (res ''ACCOUNT_MANAGER'' ''SET_ADMIN'', pubPolicyForbidden E),
     (res ''CHAIN_CONFIG'' ''ENABLE_OR_DISABLE_GAS'', pubPolicyForbidden E),
     (res ''CHAIN_CONFIG'' ''ALTER_ADDR_TYPE'', pubPolicyForbidden E)]"

definition createDefaultResourcePolicyForDPoS_2320 :: "acEnv \<Rightarrow> acPolicies \<Rightarrow> acPolicies" where
  "createDefaultResourcePolicyForDPoS_2320 E m =
     m\<lparr>resourceNamePolicyMap2320 := store_all (DPoS_2320_resource E) (resourceNamePolicyMap2320 m),
       exceptionalPolicyMap2320 := store_all (DPoS_2320_exceptional E) (exceptionalPolicyMap2320 m)\<rparr>"

subsection \<open>The tables from version 2.3.3 on (policies.go)\<close>

definition Cert_msgType :: "acEnv \<Rightarrow> (string \<times> policy) list" where
  "Cert_msgType E =
    [(ResourceNameConsensusNode E, policyConsensus E),
     (ResourceNameP2p E, policyP2P E)]"

definition Cert_txType :: "acEnv \<Rightarrow> (string \<times> policy) list" where
  "Cert_txType E =
    [(''QUERY_CONTRACT'', policySpecialRead E),
     (''INVOKE_CONTRACT'', policySpecialRead E),
     (''SUBSCRIBE'', policySubscribe E),
     (''ARCHIVE'', policyArchive E)]"

definition Cert_resource1 :: "acEnv \<Rightarrow> (string \<times> policy) list" where
  "Cert_resource1 E =
    [(res ''ACCOUNT_MANAGER'' ''SET_ADMIN'', policyConfig E),
     (res ''ACCOUNT_MANAGER'' ''CHARGE_GAS_FOR_MULTI_ACCOUNT'', policyConsensus E),
     (res ''ACCOUNT_MANAGER'' ''SET_CONTRACT_METHOD_PAYER'', policyWrite E),
     (res ''CERT_MANAGE'' ''CERT_ALIAS_ADD'', policySpecialWrite E),
     (res ''CERT_MANAGE'' ''CERT_ALIAS_UPDATE'', policyAdmin E),
     (res ''CERT_MANAGE'' ''CERTS_ALIAS_DELETE'', policyAdmin E),
     (res ''CERT_MANAGE'' ''CERT_ADD'', policySpecialWrite E),
     (res ''CERT_MANAGE'' ''CERTS_FREEZE'', policyAdmin E),
     (res ''CERT_MANAGE'' ''CERTS_UNFREEZE'', policyAdmin E),
     (res ''CERT_MANAGE'' ''CERTS_DELETE'', policyAdmin E),
     (res ''CERT_MANAGE'' ''CERTS_REVOKE'', policyAdmin E),
     (res ''CHAIN_CONFIG'' ''BLOCK_UPDATE'', policyConfig E),
     (res ''CHAIN_CONFIG'' ''CONSENSUS_EXT_ADD'', policyConfig E),
     (res ''CHAIN_CONFIG'' ''CONSENSUS_EXT_UPDATE'', policyConfig E),
     (res ''CHAIN_CONFIG'' ''CONSENSUS_EXT_DELETE'', policyConfig E),
     (res ''CHAIN_CONFIG'' ''CORE_UPDATE'', policyConfig E),
     (res ''CHAIN_CONFIG'' ''ENABLE_OR_DISABLE_GAS'', policyConfig E),
     (res ''CHAIN_CONFIG'' ''ENABLE_ONLY_CREATOR_UPGRADE'', policyConfig E),
     (res ''CHAIN_CONFIG'' ''DISABLE_ONLY_CREATOR_UPGRADE'', policyConfig E),
     (res ''CHAIN_CONFIG'' ''MULTI_SIGN_ENABLE_MANUAL_RUN'', policyConfig E),
     (res ''CHAIN_CONFIG'' ''NODE_ID_ADD'', policyConfig E),
     (res ''CHAIN_CONFIG'' ''NODE_ID_DELETE'', policyConfig E),
     (res ''CHAIN_CONFIG'' ''NODE_ID_UPDATE'', policySelfConfig E),
     (res ''CHAIN_CONFIG'' ''NODE_ORG_ADD'', policyConfig E),
     (res ''CHAIN_CONFIG'' ''NODE_ORG_UPDATE'', policyConfig E),
     (res ''CHAIN_CONFIG'' ''NODE_ORG_DELETE'', policyConfig E),
     (res ''CHAIN_CONFIG'' ''PERMISSION_ADD'', policyConfig E),
     (res ''CHAIN_CONFIG'' ''PERMISSION_UPDATE'', policyConfig E),
     (res ''CHAIN_CONFIG'' ''PERMISSION_DELETE'', policyConfig E),
     (res ''CHAIN_CONFIG'' ''SET_ACCOUNT_MANAGER_ADMIN'', policyConfig E),
     (res ''CHAIN_CONFIG'' ''SET_INSTALL_BASE_GAS'', pubPolicyMajorityAdmin E),
     (res ''CHAIN_CONFIG'' ''SET_INSTALL_GAS_PRICE'', pubPolicyMajorityAdmin E),
     (res ''CHAIN_CONFIG'' ''SET_INVOKE_BASE_GAS'', pubPolicyMajorityAdmin E),
     (res ''CHAIN_CONFIG'' ''SET_INVOKE_GAS_PRICE'', pubPolicyMajorityAdmin E),
     (res ''CHAIN_CONFIG'' ''TRUST_MEMBER_ADD'', policyConfig E),
     (res ''CHAIN_CONFIG'' ''TRUST_MEMBER_DELETE'', policyConfig E),
     (res ''CHAIN_CONFIG'' ''TRUST_MEMBER_UPDATE'', policyConfig E),
     (res ''CHAIN_CONFIG'' ''TRUST_ROOT_ADD'', policyConfig E),
     (res ''CHAIN_CONFIG'' ''TRUST_ROOT_DELETE'', policyConfig E),
     (res ''CHAIN_CONFIG'' ''TRUST_ROOT_UPDATE'', policySelfConfig E),
     (res ''CHAIN_CONFIG'' ''UPDATE_VERSION'', policyConfig E),
     (res ''ARCHIVE_MANAGE'' ''ARCHIVE_BLOCK'', policySelfConfig E),
     (res ''CONTRACT_MANAGE'' ''RESTORE_BLOCK'', policySelfConfig E),
     (res ''CONTRACT_MANAGE'' ''INIT_CONTRACT'', policyAdmin E),
     (res ''CONTRACT_MANAGE'' ''UPGRADE_CONTRACT'', policyConfig E),
     (res ''CONTRACT_MANAGE'' ''FREEZE_CONTRACT'', policyConfig E),
     (res ''CONTRACT_MANAGE'' ''UNFREEZE_CONTRACT'', policyConfig E),
     (res ''CONTRACT_MANAGE'' ''REVOKE_CONTRACT'', policyConfig E),
     (res ''CONTRACT_MANAGE'' ''GRANT_CONTRACT_ACCESS'', policyConfig E),
     (res ''CONTRACT_MANAGE'' ''REVOKE_CONTRACT_ACCESS'', policyConfig E),
     (res ''CONTRACT_MANAGE'' ''VERIFY_CONTRACT_ACCESS'', policyConfig E)]"

definition Cert_resource2 :: "acEnv \<Rightarrow> (string \<times> policy) list" where
  "Cert_resource2 E =
    [(res ''CHAIN_CONFIG'' ''VM_SUPPORT_LIST_ADD'', policyConfig E),
     (res ''CHAIN_CONFIG'' ''VM_SUPPORT_LIST_DEL'', policyConfig E),
     (ResourceNamePrivateCompute E, policyWrite E),
     (res ''PRIVATE_COMPUTE'' ''SAVE_CA_CERT'', policyConfig E),
     (res ''PRIVATE_COMPUTE'' ''SAVE_ENCLAVE_REPORT'', policyConfig E),
     (res ''RELAY_CROSS'' ''SET_CROSS_ADMIN'', policyRelayCross E),
     (res ''RELAY_CROSS'' ''DELETE_CROSS_ADEMIN'', policyRelayCross E)]"

definition Cert_sender :: "acEnv \<Rightarrow> (string \<times> policy) list" where
  "Cert_sender E =
    [(res ''CHAIN_CONFIG'' ''ALTER_ADDR_TYPE'', policyForbidden E),
     (res ''PUBKEY_MANAGE'' ''PUBKEY_ADD'', policyForbidden E),
     (res ''PUBKEY_MANAGE'' ''PUBKEY_DELETE'', policyForbidden E)]"

definition createDefaultResourcePolicyForCert :: "acEnv \<Rightarrow> acPolicies \<Rightarrow> acPolicies" where
  "createDefaultResourcePolicyForCert E m =
     m\<lparr>msgTypePolicyMap := store_all (Cert_msgType E) (msgTypePolicyMap m),
       txTypePolicyMap := store_all (Cert_txType E) (txTypePolicyMap m),
       resourceNamePolicyMap := store_all (Cert_resource1 E @ Cert_resource2 E) (resourceNamePolicyMap m),
       senderPolicyMap := store_all (Cert_sender E) (senderPolicyMap m)\<rparr>"

definition PWK_msgType :: "acEnv \<Rightarrow> (string \<times> policy) list" where
  "PWK_msgType E =
    [(ResourceNameConsensusNode E, policyConsensus E),
     (ResourceNameP2p E, policyP2P E)]"

definition PWK_txType :: "acEnv \<Rightarrow> (string \<times> policy) list" where
  "PWK_txType E =
    [(''QUERY_CONTRACT'', policySpecialRead E),
     (''INVOKE_CONTRACT'', policyWrite E),
     (''SUBSCRIBE'', policySubscribe E),
     (''ARCHIVE'', policyArchive E)]"

definition PWK_sender :: "acEnv \<Rightarrow> (string \<times> policy) list" where
  "PWK_sender E =
    [(res ''CERT_MANAGE'' ''CERT_ALIAS_ADD'', policyForbidden E),
     (res ''CERT_MANAGE'' ''CERT_ALIAS_UPDATE'', policyForbidden E),
     (res ''CERT_MANAGE'' ''CERTS_ALIAS_DELETE'', policyForbidden E),
     (res ''CERT_MANAGE'' ''CERTS_ALIAS_QUERY'', policyForbidden E),
     (res ''CERT_MANAGE'' ''CERTS_QUERY'', policyForbidden E),
     (res ''CERT_MANAGE'' ''CERT_ADD'', policyForbidden E),
     (res ''CERT_MANAGE'' ''CERTS_FREEZE'', policyForbidden E),
     (res ''CERT_MANAGE'' ''CERTS_UNFREEZE'', policyForbidden E),
     (res ''CERT_MANAGE'' ''CERTS_DELETE'', policyForbidden E),
     (res ''CERT_MANAGE'' ''CERTS_REVOKE'', policyForbidden E),
     (res ''CHAIN_CONFIG'' ''ALTER_ADDR_TYPE'', policyForbidden E),
     (res ''CHAIN_CONFIG'' ''TRUST_MEMBER_ADD'', policyForbidden E),
     (res ''CHAIN_CONFIG'' ''TRUST_MEMBER_DELETE'', policyForbidden E),
     (res ''CHAIN_CONFIG'' ''TRUST_MEMBER_UPDATE'', policyForbidden E)]"

definition PWK_resource1 :: "acEnv \<Rightarrow> (string \<times> policy) list" where
  "PWK_resource1 E =
    [(res ''ACCOUNT_MANAGER'' ''SET_ADMIN'', policyConfig E),
     (res ''ACCOUNT_MANAGER'' ''CHARGE_GAS_FOR_MULTI_ACCOUNT'', policyConsensus E),
     (res ''ACCOUNT_MANAGER'' ''SET_CONTRACT_METHOD_PAYER'', policyWrite E),
     (res ''CHAIN_CONFIG'' ''BLOCK_UPDATE'', policyConfig E),
     (res ''CHAIN_CONFIG'' ''CONSENSUS_EXT_ADD'', policyConfig E),
     (res ''CHAIN_CONFIG'' ''CONSENSUS_EXT_UPDATE'', policyConfig E),
     (res ''CHAIN_CONFIG'' ''CONSENSUS_EXT_DELETE'', policyConfig E),
     (res ''CHAIN_CONFIG'' ''CORE_UPDATE'', policyConfig E),
     (res ''CHAIN_CONFIG'' ''ENABLE_OR_DISABLE_GAS'', policyConfig E),
     (res ''CHAIN_CONFIG'' ''ENABLE_ONLY_CREATOR_UPGRADE'', policyConfig E),
     (res ''CHAIN_CONFIG'' ''DISABLE_ONLY_CREATOR_UPGRADE'', policyConfig E),
     (res ''CHAIN_CONFIG'' ''MULTI_SIGN_ENABLE_MANUAL_RUN'', policyConfig E),
     (res ''CHAIN_CONFIG'' ''NODE_ID_ADD'', policyConfig E),
     (res ''CHAIN_CONFIG'' ''NODE_ID_DELETE'', policyConfig E),
     (res ''CHAIN_CONFIG'' ''NODE_ID_UPDATE'', policySelfConfig E),
     (res ''CHAIN_CONFIG'' ''NODE_ORG_ADD'', policyConfig E),
     (res ''CHAIN_CONFIG'' ''NODE_ORG_UPDATE'', policyConfig E),
     (res ''CHAIN_CONFIG'' ''NODE_ORG_DELETE'', policyConfig E),
     (res ''CHAIN_CONFIG'' ''PERMISSION_ADD'', policyConfig E),
     (res ''CHAIN_CONFIG'' ''PERMISSION_UPDATE'', policyConfig E),
     (res ''CHAIN_CONFIG'' ''PERMISSION_DELETE'', policyConfig E),
     (res ''CHAIN_CONFIG'' ''SET_ACCOUNT_MANAGER_ADMIN'', policyConfig E),
     (res ''CHAIN_CONFIG'' ''SET_INSTALL_BASE_GAS'', pubPolicyMajorityAdmin E),
     (res ''CHAIN_CONFIG'' ''SET_INSTALL_GAS_PRICE'', pubPolicyMajorityAdmin E),
     (res ''CHAIN_CONFIG'' ''SET_INVOKE_BASE_GAS'', pubPolicyMajorityAdmin E),
     (res ''CHAIN_CONFIG'' ''SET_INVOKE_GAS_PRICE'', pubPolicyMajorityAdmin E),
     (res ''CHAIN_CONFIG'' ''TRUST_ROOT_ADD'', policyConfig E),
     (res ''CHAIN_CONFIG'' ''TRUST_ROOT_DELETE'', policyConfig E),
     (res ''CHAIN_CONFIG'' ''TRUST_ROOT_UPDATE'', policySelfConfig E),
     (res ''CHAIN_CONFIG'' ''UPDATE_VERSION'', policyConfig E),
     (res ''ARCHIVE_MANAGE'' ''ARCHIVE_BLOCK'', policySelfConfig E),
     (res ''CONTRACT_MANAGE'' ''RESTORE_BLOCK'', policySelfConfig E),
     (res ''CONTRACT_MANAGE'' ''INIT_CONTRACT'', policyAdmin E),
     (res ''CONTRACT_MANAGE'' ''UPGRADE_CONTRACT'', policyConfig E),
     (res ''CONTRACT_MANAGE'' ''FREEZE_CONTRACT'', policyConfig E),
     (res ''CONTRACT_MANAGE'' ''UNFREEZE_CONTRACT'', policyConfig E),
     (res ''CONTRACT_MANAGE'' ''REVOKE_CONTRACT'', policyConfig E),
     (res ''CONTRACT_MANAGE'' ''GRANT_CONTRACT_ACCESS'', policyConfig E),
     (res ''CONTRACT_MANAGE'' ''REVOKE_CONTRACT_ACCESS'', policyConfig E),
     (res ''CONTRACT_MANAGE'' ''VERIFY_CONTRACT_ACCESS'', policyConfig E),
     (res ''CHAIN_CONFIG'' ''VM_SUPPORT_LIST_ADD'', policyConfig E),
     (res ''CHAIN_CONFIG'' ''VM_SUPPORT_LIST_DEL'', policyConfig E),
     (ResourceNamePrivateCompute E, policyWrite E),
     (res ''PRIVATE_COMPUTE'' ''SAVE_CA_CERT'', policyConfig E),
     (res ''PRIVATE_COMPUTE'' ''SAVE_ENCLAVE_REPORT'', policyConfig E),
     (res ''PUBKEY_MANAGE'' ''PUBKEY_ADD'', policySelfConfig E),
     (res ''PUBKEY_MANAGE'' ''PUBKEY_DELETE'', policySelfConfig E),
     (res ''RELAY_CROSS'' ''SET_CROSS_ADMIN'', policyRelayCross E)]"

definition PWK_resource2 :: "acEnv \<Rightarrow> (string \<times> policy) list" where
  "PWK_resource2 E =
    [(res ''RELAY_CROSS'' ''DELETE_CROSS_ADEMIN'', policyRelayCross E)]"

definition createDefaultResourcePolicyForPWK :: "acEnv \<Rightarrow> acPolicies \<Rightarrow> acPolicies" where
  "createDefaultResourcePolicyForPWK E m =
     m\<lparr>msgTypePolicyMap := store_all (PWK_msgType E) (msgTypePolicyMap m),
       txTypePolicyMap := store_all (PWK_txType E) (txTypePolicyMap m),
       senderPolicyMap := store_all (PWK_sender E) (senderPolicyMap m),
       resourceNamePolicyMap := store_all (PWK_resource1 E @ PWK_resource2 E) (resourceNamePolicyMap m)\<rparr>"

definition PK_msgType :: "acEnv \<Rightarrow> (string \<times> policy) list" where
  "PK_msgType E =
    [(ResourceNameConsensusNode E, policyConsensus E),
     (ResourceNameP2p E, policyP2P E)]"

definition PK_txType :: "acEnv \<Rightarrow> (string \<times> policy) list" where
  "PK_txType E =
    [(''QUERY_CONTRACT'', pubPolicyTransaction E),
     (''INVOKE_CONTRACT'', pubPolicyTransaction E),
     (''SUBSCRIBE'', pubPolicyTransaction E),
     (''ARCHIVE'', pubPolicyManage E)]"

definition PK_resource1 :: "acEnv \<Rightarrow> (string \<times> policy) list" where
  "PK_resource1 E =
    [(res ''ACCOUNT_MANAGER'' ''SET_ADMIN'', pubPolicyMajorityAdmin E),
     (res ''ACCOUNT_MANAGER'' ''CHARGE_GAS_FOR_MULTI_ACCOUNT'', policyConsensus E),
     (res ''ACCOUNT_MANAGER'' ''SET_CONTRACT_METHOD_PAYER'', policyWrite E),
     (res ''CHAIN_CONFIG'' ''BLOCK_UPDATE'', pubPolicyMajorityAdmin E),
     (res ''CHAIN_CONFIG'' ''CONSENSUS_EXT_ADD'', policyConfig E),
     (res ''CHAIN_CONFIG'' ''CONSENSUS_EXT_UPDATE'', policyConfig E),
     (res ''CHAIN_CONFIG'' ''CONSENSUS_EXT_DELETE'', policyConfig E),
     (res ''CHAIN_CONFIG'' ''CORE_UPDATE'', pubPolicyMajorityAdmin E),
     (res ''CHAIN_CONFIG'' ''ENABLE_OR_DISABLE_GAS'', pubPolicyMajorityAdmin E),
     (res ''CHAIN_CONFIG'' ''ENABLE_ONLY_CREATOR_UPGRADE'', policyConfig E),
     (res ''CHAIN_CONFIG'' ''DISABLE_ONLY_CREATOR_UPGRADE'', policyConfig E),
     (res ''CHAIN_CONFIG'' ''MULTI_SIGN_ENABLE_MANUAL_RUN'', pubPolicyMajorityAdmin E),
     (res ''CHAIN_CONFIG'' ''NODE_ID_ADD'', pubPolicyMajorityAdmin E),
     (res ''CHAIN_CONFIG'' ''NODE_ID_DELETE'', pubPolicyMajorityAdmin E),
     (res ''CHAIN_CONFIG'' ''NODE_ID_UPDATE'', pubPolicyMajorityAdmin E),
     (res ''CHAIN_CONFIG'' ''NODE_ORG_UPDATE'', pubPolicyMajorityAdmin E),
     (res ''CHAIN_CONFIG'' ''PERMISSION_ADD'', pubPolicyMajorityAdmin E),
     (res ''CHAIN_CONFIG'' ''PERMISSION_UPDATE'', pubPolicyMajorityAdmin E),
     (res ''CHAIN_CONFIG'' ''PERMISSION_DELETE'', pubPolicyMajorityAdmin E),
     (res ''CHAIN_CONFIG'' ''SET_ACCOUNT_MANAGER_ADMIN'', pubPolicyMajorityAdmin E),
     (res ''CHAIN_CONFIG'' ''SET_INSTALL_BASE_GAS'', pubPolicyMajorityAdmin E),
     (res ''CHAIN_CONFIG'' ''SET_INSTALL_GAS_PRICE'', pubPolicyMajorityAdmin E),
     (res ''CHAIN_CONFIG'' ''SET_INVOKE_BASE_GAS'', pubPolicyMajorityAdmin E),
     (res ''CHAIN_CONFIG'' ''SET_INVOKE_GAS_PRICE'', pubPolicyMajorityAdmin E),
     (res ''CHAIN_CONFIG'' ''TRUST_ROOT_ADD'', pubPolicyMajorityAdmin E),
     (res ''CHAIN_CONFIG'' ''UPDATE_VERSION'', pubPolicyMajorityAdmin E),
     (res ''ARCHIVE_MANAGE'' ''ARCHIVE_BLOCK'', policyAdmin E),
     (res ''CONTRACT_MANAGE'' ''RESTORE_BLOCK'', policyAdmin E),
     (res ''CONTRACT_MANAGE'' ''INIT_CONTRACT'', pubPolicyManage E),
     (res ''CONTRACT_MANAGE'' ''UPGRADE_CONTRACT'', pubPolicyManage E),
     (res ''CONTRACT_MANAGE'' ''FREEZE_CONTRACT'', pubPolicyManage E),
     (res ''CONTRACT_MANAGE'' ''UNFREEZE_CONTRACT'', pubPolicyManage E),
     (res ''CONTRACT_MANAGE'' ''REVOKE_CONTRACT'', pubPolicyManage E)]"

definition PK_resource2 :: "acEnv \<Rightarrow> (string \<times> policy) list" where
  "PK_resource2 E =
    [(res ''CHAIN_CONFIG'' ''VM_SUPPORT_LIST_ADD'', pubPolicyMajorityAdmin E),
     (res ''CHAIN_CONFIG'' ''VM_SUPPORT_LIST_DEL'', pubPolicyMajorityAdmin E),
     (res ''RELAY_CROSS'' ''SET_CROSS_ADMIN'', policyRelayCross E),
     (res ''RELAY_CROSS'' ''DELETE_CROSS_ADEMIN'', policyRelayCross E)]"

definition PK_sender1 :: "acEnv \<Rightarrow> (string \<times> policy) list" where
  "PK_sender1 E =
    [(res ''CERT_MANAGE'' ''CERT_ALIAS_ADD'', pubPolicyForbidden E),
     (res ''CERT_MANAGE'' ''CERT_ALIAS_UPDATE'', pubPolicyForbidden E),
     (res ''CERT_MANAGE'' ''CERTS_ALIAS_DELETE'', pubPolicyForbidden E),
     (res ''CERT_MANAGE'' ''CERTS_ALIAS_QUERY'', pubPolicyForbidden E),
     (res ''CERT_MANAGE'' ''CERT_ADD'', pubPolicyForbidden E),
     (res ''CERT_MANAGE'' ''CERTS_FREEZE'', pubPolicyForbidden E),
     (res ''CERT_MANAGE'' ''CERTS_UNFREEZE'', pubPolicyForbidden E),
     (res ''CERT_MANAGE'' ''CERTS_DELETE'', pubPolicyForbidden E),
     (res ''CERT_MANAGE'' ''CERTS_REVOKE'', pubPolicyForbidden E),
     (res ''CERT_MANAGE'' ''CERTS_QUERY'', policyForbidden E),
     (res ''CHAIN_CONFIG'' ''ALTER_ADDR_TYPE'', policyForbidden E),
     (res ''CHAIN_CONFIG'' ''NODE_ORG_ADD'', pubPolicyForbidden E),
     (res ''CHAIN_CONFIG'' ''NODE_ORG_DELETE'', pubPolicyForbidden E),
     (res ''CHAIN_CONFIG'' ''TRUST_MEMBER_ADD'', pubPolicyForbidden E),
     (res ''CHAIN_CONFIG'' ''TRUST_MEMBER_DELETE'', pubPolicyForbidden E),
     (res ''CHAIN_CONFIG'' ''TRUST_MEMBER_UPDATE'', pubPolicyForbidden E),
     (res ''CHAIN_CONFIG'' ''TRUST_ROOT_ADD'', pubPolicyForbidden E),
     (res ''CHAIN_CONFIG'' ''TRUST_ROOT_DELETE'', pubPolicyForbidden E),
     (res ''CONTRACT_MANAGE'' ''GRANT_CONTRACT_ACCESS'', pubPolicyForbidden E),
     (res ''CONTRACT_MANAGE'' ''REVOKE_CONTRACT_ACCESS'', pubPolicyForbidden E),
     (res ''CONTRACT_MANAGE'' ''VERIFY_CONTRACT_ACCESS'', pubPolicyForbidden E)]"

definition PK_sender2 :: "acEnv \<Rightarrow> (string \<times> policy) list" where
  "PK_sender2 E =
    [(ResourceNamePrivateCompute E, pubPolicyForbidden E),
     (res ''PRIVATE_COMPUTE'' ''SAVE_CA_CERT'', pubPolicyForbidden E),
     (res ''PRIVATE_COMPUTE'' ''SAVE_ENCLAVE_REPORT'', pubPolicyForbidden E),
     (res ''PUBKEY_MANAGE'' ''PUBKEY_ADD'', pubPolicyForbidden E),
     (res ''PUBKEY_MANAGE'' ''PUBKEY_DELETE'', pubPolicyForbidden E)]"

definition createDefaultResourcePolicyForPK :: "acEnv \<Rightarrow> acPolicies \<Rightarrow> acPolicies" where
  "createDefaultResourcePolicyForPK E m =
     m\<lparr>msgTypePolicyMap := store_all (PK_msgType E) (msgTypePolicyMap m),
       txTypePolicyMap := store_all (PK_txType E) (txTypePolicyMap m),
       resourceNamePolicyMap := store_all (PK_resource1 E @ PK_resource2 E) (resourceNamePolicyMap m),
       senderPolicyMap := store_all (PK_sender1 E @ PK_sender2 E) (senderPolicyMap m)\<rparr>"

definition PKDPoS_msgType :: "acEnv \<Rightarrow> (string \<times> policy) list" where
  "PKDPoS_msgType E =
    [(ResourceNameConsensusNode E, policyConsensus E),
     (ResourceNameP2p E, policyP2P E)]"

definition PKDPoS_txType :: "acEnv \<Rightarrow> (string \<times> policy) list" where
  "PKDPoS_txType E =
    [(''QUERY_CONTRACT'', pubPolicyTransaction E),
     (''INVOKE_CONTRACT'', pubPolicyTransaction E),
     (''SUBSCRIBE'', pubPolicyTransaction E),
     (''ARCHIVE'', pubPolicyManage E)]"

definition PKDPoS_sender1 :: "acEnv \<Rightarrow> (string \<times> policy) list" where
  "PKDPoS_sender1 E =
    [(res ''ACCOUNT_MANAGER'' ''CHARGE_GAS'', pubPolicyForbidden E),
     (res ''ACCOUNT_MANAGER'' ''RECHARGE_GAS'', pubPolicyForbidden E),
     (res ''ACCOUNT_MANAGER'' ''REFUND_GAS_VM'', pubPolicyForbidden E),
     (res ''ACCOUNT_MANAGER'' ''REFUND_GAS'', pubPolicyForbidden E),
     (res ''ACCOUNT_MANAGER'' ''SET_ADMIN'', pubPolicyForbidden E),
     (res ''ACCOUNT_MANAGER'' ''CHARGE_GAS_FOR_MULTI_ACCOUNT'', pubPolicyForbidden E),
     (res ''ACCOUNT_MANAGER'' ''SET_CONTRACT_METHOD_PAYER'', pubPolicyForbidden E),
     (res ''CERT_MANAGE'' ''CERT_ALIAS_ADD'', pubPolicyForbidden E),
     (res ''CERT_MANAGE'' ''CERT_ALIAS_UPDATE'', pubPolicyForbidden E),
     (res ''CERT_MANAGE'' ''CERTS_ALIAS_DELETE'', pubPolicyForbidden E),
     (res ''CERT_MANAGE'' ''CERTS_ALIAS_QUERY'', pubPolicyForbidden E),
     (res ''CERT_MANAGE'' ''CERT_ADD'', pubPolicyForbidden E),
     (res ''CERT_MANAGE'' ''CERTS_FREEZE'', pubPolicyForbidden E),
     (res ''CERT_MANAGE'' ''CERTS_UNFREEZE'', pubPolicyForbidden E),
     (res ''CERT_MANAGE'' ''CERTS_DELETE'', pubPolicyForbidden E),
     (res ''CERT_MANAGE'' ''CERTS_REVOKE'', pubPolicyForbidden E),
     (res ''CERT_MANAGE'' ''CERTS_QUERY'', policyForbidden E),
     (res ''CHAIN_CONFIG'' ''ALTER_ADDR_TYPE'', pubPolicyForbidden E),
     (res ''CHAIN_CONFIG'' ''CONSENSUS_EXT_ADD'', pubPolicyForbidden E),
     (res ''CHAIN_CONFIG'' ''CONSENSUS_EXT_UPDATE'', pubPolicyForbidden E),
     (res ''CHAIN_CONFIG'' ''CONSENSUS_EXT_DELETE'', pubPolicyForbidden E),
     (res ''CHAIN_CONFIG'' ''ENABLE_OR_DISABLE_GAS'', pubPolicyForbidden E),
     (res ''CHAIN_CONFIG'' ''MULTI_SIGN_ENABLE_MANUAL_RUN'', pubPolicyForbidden E),
     (res ''CHAIN_CONFIG'' ''NODE_ID_ADD'', pubPolicyForbidden E),
     (res ''CHAIN_CONFIG'' ''NODE_ID_DELETE'', pubPolicyForbidden E),
     (res ''CHAIN_CONFIG'' ''NODE_ID_UPDATE'', pubPolicyForbidden E),
     (res ''CHAIN_CONFIG'' ''NODE_ORG_ADD'', pubPolicyForbidden E),
     (res ''CHAIN_CONFIG'' ''NODE_ORG_DELETE'', pubPolicyForbidden E),
     (res ''CHAIN_CONFIG'' ''NODE_ORG_UPDATE'', pubPolicyForbidden E),
     (res ''CHAIN_CONFIG'' ''SET_ACCOUNT_MANAGER_ADMIN'', pubPolicyForbidden E),
     (res ''CHAIN_CONFIG'' ''SET_INSTALL_BASE_GAS'', pubPolicyForbidden E),
     (res ''CHAIN_CONFIG'' ''SET_INSTALL_GAS_PRICE'', pubPolicyForbidden E),
     (res ''CHAIN_CONFIG'' ''SET_INVOKE_BASE_GAS'', pubPolicyForbidden E),
     (res ''CHAIN_CONFIG'' ''SET_INVOKE_GAS_PRICE'', pubPolicyForbidden E),
     (res ''CHAIN_CONFIG'' ''TRUST_MEMBER_ADD'', pubPolicyForbidden E),
     (res ''CHAIN_CONFIG'' ''TRUST_MEMBER_DELETE'', pubPolicyForbidden E),
     (res ''CHAIN_CONFIG'' ''TRUST_MEMBER_UPDATE'', pubPolicyForbidden E),
     (res ''CHAIN_CONFIG'' ''TRUST_ROOT_ADD'', pubPolicyForbidden E),
     (res ''CHAIN_CONFIG'' ''TRUST_ROOT_DELETE'', pubPolicyForbidden E)]"

definition PKDPoS_sender2 :: "acEnv \<Rightarrow> (string \<times> policy) list" where
  "PKDPoS_sender2 E =
    [(res ''CONTRACT_MANAGE'' ''GRANT_CONTRACT_ACCESS'', pubPolicyForbidden E),
     (res ''CONTRACT_MANAGE'' ''REVOKE_CONTRACT_ACCESS'', pubPolicyForbidden E),
     (res ''CONTRACT_MANAGE'' ''VERIFY_CONTRACT_ACCESS'', pubPolicyForbidden E),
     (res ''MULTI_SIGN'' ''REQ'', pubPolicyForbidden E),
     (res ''MULTI_SIGN'' ''VOTE'', pubPolicyForbidden E),
     (res ''MULTI_SIGN'' ''QUERY'', pubPolicyForbidden E),
     (res ''MULTI_SIGN'' ''TRIG'', pubPolicyForbidden E),
     (ResourceNamePrivateCompute E, pubPolicyForbidden E),
     (res ''PRIVATE_COMPUTE'' ''SAVE_CA_CERT'', pubPolicyForbidden E),
     (res ''PRIVATE_COMPUTE'' ''SAVE_ENCLAVE_REPORT'', pubPolicyForbidden E),
     (res ''PUBKEY_MANAGE'' ''PUBKEY_ADD'', pubPolicyForbidden E),
     (res ''PUBKEY_MANAGE'' ''PUBKEY_DELETE'', pubPolicyForbidden E)]"

definition PKDPoS_resource :: "acEnv \<Rightarrow> (string \<times> policy) list" where
  "PKDPoS_resource E =
    [(res ''CHAIN_CONFIG'' ''BLOCK_UPDATE'', pubPolicyManage E),
     (res ''CHAIN_CONFIG'' ''CORE_UPDATE'', pubPolicyManage E),
     (res ''CHAIN_CONFIG'' ''ENABLE_ONLY_CREATOR_UPGRADE'', policyConfig E),
     (res ''CHAIN_CONFIG'' ''DISABLE_ONLY_CREATOR_UPGRADE'', policyConfig E),
     (res ''CHAIN_CONFIG'' ''PERMISSION_ADD'', pubPolicyMajorityAdmin E),
     (res ''CHAIN_CONFIG'' ''PERMISSION_UPDATE'', pubPolicyMajorityAdmin E),
     (res ''CHAIN_CONFIG'' ''PERMISSION_DELETE'', pubPolicyMajorityAdmin E),
     (res ''CHAIN_CONFIG'' ''TRUST_ROOT_UPDATE'', pubPolicyMajorityAdmin E),
     (res ''CHAIN_CONFIG'' ''UPDATE_VERSION'', pubPolicyMajorityAdmin E),
     (res ''CONTRACT_MANAGE'' ''INIT_CONTRACT'', pubPolicyManage E),
     (res ''CONTRACT_MANAGE'' ''UPGRADE_CONTRACT'', pubPolicyManage E),
     (res ''CONTRACT_MANAGE'' ''FREEZE_CONTRACT'', pubPolicyManage E),
     (res ''CONTRACT_MANAGE'' ''UNFREEZE_CONTRACT'', pubPolicyManage E),
     (res ''CONTRACT_MANAGE'' ''REVOKE_CONTRACT'', pubPolicyManage E),
     (res ''CHAIN_CONFIG'' ''VM_SUPPORT_LIST_ADD'', pubPolicyMajorityAdmin E),
     (res ''CHAIN_CONFIG'' ''VM_SUPPORT_LIST_DEL'', pubPolicyMajorityAdmin E),
     (res ''RELAY_CROSS'' ''SET_CROSS_ADMIN'', policyRelayCross E),
     (res ''RELAY_CROSS'' ''DELETE_CROSS_ADEMIN'', policyRelayCross E)]"

definition createDefaultResourcePolicyForPKDPoS :: "acEnv \<Rightarrow> acPolicies \<Rightarrow> acPolicies" where
  "createDefaultResourcePolicyForPKDPoS E m =
     m\<lparr>msgTypePolicyMap := store_all (PKDPoS_msgType E) (msgTypePolicyMap m),
       txTypePolicyMap := store_all (PKDPoS_txType E) (txTypePolicyMap m),
       senderPolicyMap := store_all (PKDPoS_sender1 E @ PKDPoS_sender2 E) (senderPolicyMap m),
       resourceNamePolicyMap := store_all (PKDPoS_resource E) (resourceNamePolicyMap m)\<rparr>"

end
