(* ===== verification/AC_Cache.thy ===== *)
theory AC_Cache
  imports AC_Types
begin

section \<open>Access control: the sharded cache (shard_cap_map.go)\<close>

text \<open>
  Members, certificates and payers are cached in tables of 64 shards. A shard that has grown past
  its capacity is emptied when the next entry is put into it. The contract on which the clients
  rely is the locale \<open>lossy_cache\<close>: an entry may disappear, but what is found is what was stored
  last.
\<close>

unbundle bit_operations_syntax

record 'v acShard =
  sh_cap :: int
  sh_m :: "(string \<times> 'v) list"

record 'v ShardCache =
  shards :: "'v acShard list"

definition ac_Prime32 :: u32 where "ac_Prime32 = 16777619"
definition ac_ShardNum :: nat where "ac_ShardNum = 64"

primrec ac_fnv32_from :: "u32 \<Rightarrow> string \<Rightarrow> u32" where
  "ac_fnv32_from hash [] = hash"
| "ac_fnv32_from hash (c # key) = ac_fnv32_from ((hash * ac_Prime32) XOR of_char c) key"

definition ac_fnv32 :: "string \<Rightarrow> u32" where
  "ac_fnv32 key = ac_fnv32_from 2166136261 key"

definition ac_shardNum :: "string \<Rightarrow> nat \<Rightarrow> nat" where
  "ac_shardNum key shardedNum = unat (ac_fnv32 key mod word_of_nat shardedNum)"

definition ac_newShard :: "int \<Rightarrow> 'v acShard" where
  "ac_newShard c = \<lparr>sh_cap = c, sh_m = []\<rparr>"

definition Shard_Get :: "'v acShard \<Rightarrow> string \<Rightarrow> 'v option" where
  "Shard_Get s k = map_of (sh_m s) k"

definition Shard_Remove :: "string \<Rightarrow> 'v acShard \<Rightarrow> 'v acShard" where
  "Shard_Remove k s = s\<lparr>sh_m := AList.delete k (sh_m s)\<rparr>"

definition Shard_Put :: "string \<Rightarrow> 'v \<Rightarrow> 'v acShard \<Rightarrow> 'v acShard" where
  "Shard_Put k v s =
     (let s' = (if int (length (sh_m s)) > sh_cap s then s\<lparr>sh_m := []\<rparr> else s)
      in s'\<lparr>sh_m := AList.update k v (sh_m s')\<rparr>)"

definition Shard_Clear :: "'v acShard \<Rightarrow> 'v acShard" where
  "Shard_Clear s = s\<lparr>sh_m := []\<rparr>"

definition NewShardCache :: "int \<Rightarrow> 'v ShardCache" where
  "NewShardCache totalCap =
     (let capPerShard = totalCap sdiv int ac_ShardNum;
          capPerShard' = (if capPerShard < 64 then 64 else capPerShard)
      in \<lparr>shards = replicate ac_ShardNum (ac_newShard capPerShard')\<rparr>)"

definition Cache_Get :: "'v ShardCache \<Rightarrow> string \<Rightarrow> 'v option" where
  "Cache_Get s k = Shard_Get (shards s ! ac_shardNum k ac_ShardNum) k"

definition Cache_Add :: "string \<Rightarrow> 'v \<Rightarrow> 'v ShardCache \<Rightarrow> 'v ShardCache" where
  "Cache_Add k v s =
     (let i = ac_shardNum k ac_ShardNum in s\<lparr>shards := (shards s)[i := Shard_Put k v (shards s ! i)]\<rparr>)"

definition Cache_Clear :: "'v ShardCache \<Rightarrow> 'v ShardCache" where
  "Cache_Clear s = s\<lparr>shards := map Shard_Clear (shards s)\<rparr>"

definition Cache_Remove :: "string \<Rightarrow> 'v ShardCache \<Rightarrow> 'v ShardCache" where
  "Cache_Remove k s = s\<lparr>shards := map (Shard_Remove k) (shards s)\<rparr>"

definition GetCertCacheSize :: "acEnv \<Rightarrow> int" where
  "GetCertCacheSize E = (if CertCacheSize E > 0 then CertCacheSize E else 1024)"

subsection \<open>The contract\<close>

locale lossy_cache =
  fixes inv :: "'c \<Rightarrow> bool"
    and get :: "'c \<Rightarrow> string \<Rightarrow> 'v option"
    and add :: "string \<Rightarrow> 'v \<Rightarrow> 'c \<Rightarrow> 'c"
    and remove :: "string \<Rightarrow> 'c \<Rightarrow> 'c"
    and clear :: "'c \<Rightarrow> 'c"
  assumes inv_add: "inv c \<Longrightarrow> inv (add k v c)"
    and inv_remove: "inv c \<Longrightarrow> inv (remove k c)"
    and inv_clear: "inv c \<Longrightarrow> inv (clear c)"
    and get_add: "inv c \<Longrightarrow> get (add k v c) k = Some v"
    and get_add_other: "inv c \<Longrightarrow> k' \<noteq> k \<Longrightarrow> get (add k v c) k' = Some w \<Longrightarrow> get c k' = Some w"
    and get_remove: "inv c \<Longrightarrow> get (remove k c) k' = (if k' = k then None else get c k')"
    and get_clear: "inv c \<Longrightarrow> get (clear c) k = None"
begin

text \<open>A property of the entries is kept by every operation that adds only entries with it.\<close>

definition entries :: "(string \<Rightarrow> 'v \<Rightarrow> bool) \<Rightarrow> 'c \<Rightarrow> bool" where
  "entries P c \<longleftrightarrow> (\<forall>k v. get c k = Some v \<longrightarrow> P k v)"

lemma entries_add: "inv c \<Longrightarrow> entries P c \<Longrightarrow> P k v \<Longrightarrow> entries P (add k v c)"
  unfolding entries_def using get_add get_add_other by (metis option.inject)

lemma entries_remove: "inv c \<Longrightarrow> entries P c \<Longrightarrow> entries P (remove k c)"
  unfolding entries_def by (simp add: get_remove)

lemma entries_clear: "inv c \<Longrightarrow> entries P (clear c)"
  unfolding entries_def by (simp add: get_clear)

end

subsection \<open>The sharded cache implements the contract\<close>

definition shard_ok :: "'v acShard \<Rightarrow> bool" where
  "shard_ok s \<longleftrightarrow> distinct (map fst (sh_m s)) \<and> 0 \<le> sh_cap s \<and> int (length (sh_m s)) \<le> sh_cap s + 1"

definition cache_ok :: "'v ShardCache \<Rightarrow> bool" where
  "cache_ok c \<longleftrightarrow> length (shards c) = ac_ShardNum \<and> (\<forall>s \<in> set (shards c). shard_ok s)"

lemma ac_shardNum_less: "ac_shardNum k ac_ShardNum < ac_ShardNum"
proof -
  have "ac_fnv32 k mod 64 < (64 :: u32)" by (rule word_mod_less_divisor) simp
  then show ?thesis by (simp add: ac_shardNum_def ac_ShardNum_def word_less_nat_alt)
qed

lemma length_update_le: "length (AList.update k v xs) \<le> length xs + 1"
  by (induction xs) auto

lemma shard_ok_Put: "shard_ok s \<Longrightarrow> shard_ok (Shard_Put k v s)"
  using length_update_le [of k v "sh_m s"]
  by (auto simp: shard_ok_def Shard_Put_def distinct_update Let_def)

lemma shard_ok_Remove: "shard_ok s \<Longrightarrow> shard_ok (Shard_Remove k s)"
  using length_delete_le [of k "sh_m s"]
  by (auto simp: shard_ok_def Shard_Remove_def distinct_delete)

lemma shard_ok_Clear: "shard_ok s \<Longrightarrow> shard_ok (Shard_Clear s)"
  by (simp add: shard_ok_def Shard_Clear_def)

lemma cache_ok_New: "cache_ok (NewShardCache n)"
  by (auto simp: cache_ok_def NewShardCache_def ac_newShard_def shard_ok_def Let_def)

lemma cache_ok_Add: "cache_ok c \<Longrightarrow> cache_ok (Cache_Add k v c)"
  unfolding cache_ok_def Cache_Add_def Let_def
  using ac_shardNum_less [of k]
  by (auto dest!: set_update_subset_insert [THEN subsetD] intro!: shard_ok_Put)

lemma cache_ok_Remove: "cache_ok c \<Longrightarrow> cache_ok (Cache_Remove k c)"
  by (auto simp: cache_ok_def Cache_Remove_def intro: shard_ok_Remove)

lemma cache_ok_Clear: "cache_ok c \<Longrightarrow> cache_ok (Cache_Clear c)"
  by (auto simp: cache_ok_def Cache_Clear_def intro: shard_ok_Clear)

lemma Get_Add:
  "cache_ok c \<Longrightarrow> Cache_Get (Cache_Add k v c) k = Some v"
  using ac_shardNum_less [of k]
  by (simp add: Cache_Get_def Cache_Add_def Shard_Get_def Shard_Put_def cache_ok_def Let_def update_conv)

lemma Get_Add_other:
  assumes "cache_ok c" and "k' \<noteq> k" and "Cache_Get (Cache_Add k v c) k' = Some w"
  shows "Cache_Get c k' = Some w"
proof (cases "ac_shardNum k ac_ShardNum = ac_shardNum k' ac_ShardNum")
  case True
  then show ?thesis using assms ac_shardNum_less [of k]
    by (auto simp: Cache_Get_def Cache_Add_def Shard_Get_def Shard_Put_def cache_ok_def Let_def
        update_conv split: if_splits)
next
  case False
  then show ?thesis using assms by (simp add: Cache_Get_def Cache_Add_def Let_def)
qed

lemma Get_Remove:
  "cache_ok c \<Longrightarrow> Cache_Get (Cache_Remove k c) k' = (if k' = k then None else Cache_Get c k')"
  using ac_shardNum_less [of k']
  by (simp add: Cache_Get_def Cache_Remove_def Shard_Get_def Shard_Remove_def cache_ok_def
      delete_conv')

lemma Get_Clear: "cache_ok c \<Longrightarrow> Cache_Get (Cache_Clear c) k = None"
  using ac_shardNum_less [of k]
  by (simp add: Cache_Get_def Cache_Clear_def Shard_Get_def Shard_Clear_def cache_ok_def)

lemma Get_New [simp]: "Cache_Get (NewShardCache n) k = None"
  using ac_shardNum_less [of k]
  by (simp add: Cache_Get_def NewShardCache_def Shard_Get_def ac_newShard_def Let_def)

interpretation sc: lossy_cache cache_ok Cache_Get Cache_Add Cache_Remove Cache_Clear
  by unfold_locales
    (auto intro: cache_ok_Add cache_ok_Remove cache_ok_Clear Get_Add Get_Add_other
      simp: Get_Remove Get_Clear)

lemmas cache_ok_intros = cache_ok_New cache_ok_Add cache_ok_Remove cache_ok_Clear

end
