(* ===== verification/AC_Member.thy ===== *)
theory AC_Member
  imports AC_Types
begin

section \<open>Access control: members (pk_member.go, cert_member.go)\<close>

text \<open>
  A member is a public key or a certificate with an organisation and a role. In the modes with
  public keys the role comes from the chain configuration (administrators, consensus nodes) or from
  the public key contract; in the mode with certificates it is the organisational unit of the
  certificate.
\<close>

record pkMember =
  pm_id :: string
  pm_orgId :: string
  pm_uid :: string
  pm_pk :: pubKey
  pm_role :: Role
  pm_hashType :: string

record certificateMember =
  cm_id :: string
  cm_orgId :: string
  cm_cert :: bcCertificate
  cm_role :: Role
  cm_hashType :: string
  cm_isCompressed :: bool

datatype acMember = PkMember pkMember | CertMember certificateMember

fun GetPk :: "acMember \<Rightarrow> pubKey" where
  "GetPk (PkMember pm) = pm_pk pm"
| "GetPk (CertMember cm) = cert_PublicKey (cm_cert cm)"

fun GetMemberId :: "acMember \<Rightarrow> string" where
  "GetMemberId (PkMember pm) = pm_id pm"
| "GetMemberId (CertMember cm) = cm_id cm"

fun GetOrgId :: "acMember \<Rightarrow> string" where
  "GetOrgId (PkMember pm) = pm_orgId pm"
| "GetOrgId (CertMember cm) = cm_orgId cm"

fun GetRole :: "acMember \<Rightarrow> Role" where
  "GetRole (PkMember pm) = pm_role pm"
| "GetRole (CertMember cm) = cm_role cm"

fun GetUid :: "acMember \<Rightarrow> string" where
  "GetUid (PkMember pm) = pm_uid pm"
| "GetUid (CertMember cm) = hex_EncodeToString (SubjectKeyId (cm_cert cm))"

definition verified :: "bool option \<Rightarrow> acError option" where
  "verified r = (case r of None \<Rightarrow> Some ErrVerify | Some ok \<Rightarrow> if ok then None else Some ErrVerify)"

definition pk_Verify :: "acEnv \<Rightarrow> pkMember \<Rightarrow> string \<Rightarrow> gobytes \<Rightarrow> gobytes \<Rightarrow> acError option" where
  "pk_Verify E pm hashType msg sig =
     (case HashAlgoMap E hashType of None \<Rightarrow> Some ErrHashType
      | Some hash \<Rightarrow> verified (VerifyWithOpts E (pm_pk pm) hash msg sig))"

definition cert_Verify ::
  "acEnv \<Rightarrow> certificateMember \<Rightarrow> string \<Rightarrow> gobytes \<Rightarrow> gobytes \<Rightarrow> acError option" where
  "cert_Verify E cm hashType msg sig =
     (case cert_HashAlgo (cm_cert cm) of None \<Rightarrow> Some ErrHashType
      | Some hashAlgo \<Rightarrow> verified (VerifyWithOpts E (cert_PublicKey (cm_cert cm)) hashAlgo msg sig))"

fun member_Verify :: "acEnv \<Rightarrow> acMember \<Rightarrow> string \<Rightarrow> gobytes \<Rightarrow> gobytes \<Rightarrow> acError option" where
  "member_Verify E (PkMember pm) hashType msg sig = pk_Verify E pm hashType msg sig"
| "member_Verify E (CertMember cm) hashType msg sig = cert_Verify E cm hashType msg sig"

subsection \<open>Members by public key\<close>

record adminMemberModel =
  am_publicKey :: pubKey
  am_pkBytes :: string
  am_orgId :: string

record consensusMemberModel =
  cmm_nodeId :: string
  cmm_orgId :: string

record publicAdminMemberModel =
  pam_publicKey :: pubKey
  pam_pkBytes :: string

definition newPkMemberFromParam ::
  "acEnv \<Rightarrow> string \<Rightarrow> string \<Rightarrow> Role \<Rightarrow> string \<Rightarrow> pkMember result" where
  "newPkMemberFromParam E orgId pkBytes role hashType =
     (case HashAlgoMap E hashType of None \<Rightarrow> Inl ErrHashType
      | Some hash \<Rightarrow>
        case PublicKeyFromDER E pkBytes of None \<Rightarrow> Inl ErrParseKey
        | Some pk \<Rightarrow>
          case ComputeSKI E hash pk of None \<Rightarrow> Inl ErrSki
          | Some ski \<Rightarrow>
            case pk_String E pk of None \<Rightarrow> Inl ErrKeyBytes
            | Some pkPem \<Rightarrow>
              Inr \<lparr>pm_id = pkPem, pm_orgId = orgId, pm_uid = hex_EncodeToString ski, pm_pk = pk,
                   pm_role = role, pm_hashType = hashType\<rparr>)"

definition pubkeyHash :: "acEnv \<Rightarrow> string \<Rightarrow> string" where
  "pubkeyHash E pubkey = base58_sha256 E pubkey"

text \<open>The key of a member and its bytes: the steps with which the three constructors begin.\<close>

definition key_bytes :: "acEnv \<Rightarrow> Member \<Rightarrow> (pubKey \<times> string) result" where
  "key_bytes E member =
     (if MemberType member \<noteq> MemberType_PUBLIC_KEY then Inl ErrMemberType
      else case PublicKeyFromPEM E (MemberInfo member) of None \<Rightarrow> Inl ErrParseKey
        | Some pk \<Rightarrow>
          case pk_Bytes E pk of None \<Rightarrow> Inl ErrKeyBytes | Some pkBytes \<Rightarrow> Inr (pk, pkBytes))"

text \<open>The entry of the public key contract for a key.\<close>

definition key_info :: "acEnv \<Rightarrow> string \<Rightarrow> (string \<times> Role) result" where
  "key_info E pkBytes =
     (case ReadObject E ''PUBKEY_MANAGE'' (pubkeyHash E pkBytes) of None \<Rightarrow> Inl ErrStoreRead
      | Some None \<Rightarrow> Inl ErrNotOnChain
      | Some (Some publicKeyInfoBytes) \<Rightarrow>
        case UnmarshalPKInfo E publicKeyInfoBytes of None \<Rightarrow> Inl ErrUnmarshal
        | Some info \<Rightarrow> Inr info)"

definition newPkMemberFromAcs ::
  "acEnv \<Rightarrow> Member \<Rightarrow> (string \<rightharpoonup> adminMemberModel) \<Rightarrow> (string \<rightharpoonup> consensusMemberModel) \<Rightarrow> string \<Rightarrow>
   pkMember result" where
  "newPkMemberFromAcs E member adminList consensusList hashType =
     (case key_bytes E member of Inl e \<Rightarrow> Inl e
      | Inr (pk, pkBytes) \<Rightarrow>
        case adminList (hex_EncodeToString pkBytes) of
          Some admin \<Rightarrow>
            newPkMemberFromParam E (am_orgId admin) (am_pkBytes admin) (RoleAdmin E) hashType
        | None \<Rightarrow>
          case CreateLibp2pPeerId E pk of None \<Rightarrow> Inl ErrNodeId
          | Some nodeId \<Rightarrow>
            case consensusList nodeId of
              Some consensus \<Rightarrow>
                newPkMemberFromParam E (cmm_orgId consensus) pkBytes (RoleConsensusNode E) hashType
            | None \<Rightarrow>
              case key_info E pkBytes of Inl e \<Rightarrow> Inl e
              | Inr (orgId, role) \<Rightarrow> newPkMemberFromParam E orgId pkBytes role hashType)"

definition newPkNodeMemberFromAcs ::
  "acEnv \<Rightarrow> Member \<Rightarrow> (string \<rightharpoonup> consensusMemberModel) \<Rightarrow> string \<Rightarrow> pkMember result" where
  "newPkNodeMemberFromAcs E member consensusList hashType =
     (case key_bytes E member of Inl e \<Rightarrow> Inl e
      | Inr (pk, pkBytes) \<Rightarrow>
        case CreateLibp2pPeerId E pk of None \<Rightarrow> Inl ErrNodeId
        | Some nodeId \<Rightarrow>
          case consensusList nodeId of
            Some consensus \<Rightarrow>
              newPkMemberFromParam E (cmm_orgId consensus) pkBytes (RoleConsensusNode E) hashType
          | None \<Rightarrow>
            case key_info E pkBytes of Inl e \<Rightarrow> Inl e
            | Inr (orgId, role) \<Rightarrow>
              if role \<noteq> RoleCommonNode E then Inl ErrNotNode
              else newPkMemberFromParam E orgId pkBytes role hashType)"

definition publicNewPkMemberFromAcs ::
  "acEnv \<Rightarrow> Member \<Rightarrow> (string \<rightharpoonup> publicAdminMemberModel) \<Rightarrow> (string \<rightharpoonup> unit) \<Rightarrow> string \<Rightarrow>
   pkMember result" where
  "publicNewPkMemberFromAcs E member adminList consensusList hashType =
     (case key_bytes E member of Inl e \<Rightarrow> Inl e
      | Inr (pk, pkBytes) \<Rightarrow>
        case adminList (hex_EncodeToString pkBytes) of
          Some admin \<Rightarrow> newPkMemberFromParam E [] (pam_pkBytes admin) (RoleAdmin E) hashType
        | None \<Rightarrow>
          case CreateLibp2pPeerId E pk of None \<Rightarrow> Inl ErrNodeId
          | Some nodeId \<Rightarrow>
            case consensusList nodeId of
              Some _ \<Rightarrow> newPkMemberFromParam E [] pkBytes (RoleConsensusNode E) hashType
            | None \<Rightarrow> newPkMemberFromParam E [] pkBytes [] hashType)"

definition pk_GetMember :: "acEnv \<Rightarrow> pkMember \<Rightarrow> Member result" where
  "pk_GetMember E pm =
     (case pk_String E (pm_pk pm) of None \<Rightarrow> Inl ErrKeyBytes
      | Some memberInfo \<Rightarrow>
        Inr \<lparr>OrgId = pm_orgId pm, MemberType = MemberType_PUBLIC_KEY, MemberInfo = memberInfo\<rparr>)"

subsection \<open>Members by certificate\<close>

definition parse_cert_pem :: "acEnv \<Rightarrow> string \<Rightarrow> bcCertificate option" where
  "parse_cert_pem E certPEM =
     (case pem_Decode E certPEM of
        (None, rest) \<Rightarrow> ParseCertificate E rest
      | (Some certBlock, rest) \<Rightarrow> ParseCertificate E certBlock)"

definition cryptoEngineOption :: "acEnv \<Rightarrow> bcCertificate \<Rightarrow> bcCertificate result" where
  "cryptoEngineOption E cert =
     (case pk_String E (cert_PublicKey cert) of None \<Rightarrow> Inl ErrCryptoEngine
      | Some pkPem \<Rightarrow>
        case PublicKeyFromPEM E pkPem of None \<Rightarrow> Inl ErrCryptoEngine
        | Some pk \<Rightarrow> Inr (cert\<lparr>cert_PublicKey := pk\<rparr>))"

definition cert_id :: "bcCertificate \<Rightarrow> string" where
  "cert_id cert = (case NodeIdExt cert of Some i \<Rightarrow> i | None \<Rightarrow> CommonName cert)"

definition newCertMemberFromParam ::
  "acEnv \<Rightarrow> string \<Rightarrow> string \<Rightarrow> string \<Rightarrow> bool \<Rightarrow> string \<Rightarrow> certificateMember result" where
  "newCertMemberFromParam E orgId role hashType isCompressed certPEM =
     (case parse_cert_pem E certPEM of None \<Rightarrow> Inl ErrParseCert
      | Some cert \<Rightarrow>
        case cryptoEngineOption E cert of Inl e \<Rightarrow> Inl e
        | Inr cert \<Rightarrow>
          Inr \<lparr>cm_id = cert_id cert, cm_orgId = orgId, cm_cert = cert, cm_role = ToUpper role,
               cm_hashType = hashType, cm_isCompressed = isCompressed\<rparr>)"

definition first_or_empty :: "string list \<Rightarrow> string" where
  "first_or_empty xs = (case xs of [] \<Rightarrow> [] | x # _ \<Rightarrow> x)"

definition newMemberFromCertPem ::
  "acEnv \<Rightarrow> string \<Rightarrow> string \<Rightarrow> string \<Rightarrow> bool \<Rightarrow> certificateMember result" where
  "newMemberFromCertPem E orgId hashType certPEM isCompressed =
     (case parse_cert_pem E certPEM of None \<Rightarrow> Inl ErrParseCert
      | Some cert \<Rightarrow>
        case cryptoEngineOption E cert of Inl e \<Rightarrow> Inl e
        | Inr cert \<Rightarrow>
          (let orgIdFromCert = first_or_empty (Organization cert);
               memberOrg = (if orgId = [] then orgIdFromCert else orgId)
           in if orgIdFromCert \<noteq> memberOrg then Inl ErrCertOrg
              else Inr \<lparr>cm_id = cert_id cert, cm_orgId = memberOrg, cm_cert = cert,
                        cm_role = ToUpper (first_or_empty (OrganizationalUnit cert)),
                        cm_hashType = hashType, cm_isCompressed = isCompressed\<rparr>))"

definition newCertMemberFromPb :: "acEnv \<Rightarrow> Member \<Rightarrow> string \<Rightarrow> certificateMember result" where
  "newCertMemberFromPb E member hashType =
     (if MemberType member = MemberType_CERT then
        newMemberFromCertPem E (OrgId member) hashType (MemberInfo member) False
      else if MemberType member = MemberType_CERT_HASH then
        newMemberFromCertPem E (OrgId member) hashType (MemberInfo member) True
      else if MemberType member = MemberType_ALIAS then
        newMemberFromCertPem E (OrgId member) hashType (MemberInfo member) False
      else Inl ErrMemberType)"

subsection \<open>What a member is\<close>

text \<open>The organisation and the role of a member do not depend on the organisation it claims.\<close>

lemma key_bytes_cong:
  assumes "MemberInfo a = MemberInfo b" and "MemberType a = MemberType b"
  shows "key_bytes E a = key_bytes E b"
  using assms by (simp add: key_bytes_def)

lemma newPkMemberFromParam_fields:
  "newPkMemberFromParam E orgId b role h = Inr pm \<Longrightarrow>
     pm_orgId pm = orgId \<and> pm_role pm = role \<and> PublicKeyFromDER E b = Some (pm_pk pm)"
  by (auto simp: newPkMemberFromParam_def split: option.splits)

lemma newCertMember_org:
  "newMemberFromCertPem E orgId h pem c = Inr cm \<Longrightarrow> orgId \<noteq> [] \<Longrightarrow> cm_orgId cm = orgId"
  by (auto simp: newMemberFromCertPem_def Let_def split: option.splits sum.splits if_splits)

end
