(* ===== verification/AC_Service.thy ===== *)
theory AC_Service
  imports AC_Policies AC_Cache AC_Member
begin

section \<open>Access control: the service (ac_server.go)\<close>

text \<open>
  The state that the providers with certificates and with permissioned public keys share: the
  organisations, the policies and the cache of members; the validation of configured policies; the
  evaluation of a policy on a list of endorsements.

  The two functions that a provider installs in its service (\<^verbatim>\<open>pwkNewMember\<close> and
  \<^verbatim>\<open>getCertVerifyOptions\<close>) are closures over the provider; they are the record \<open>acCallbacks\<close>.
  A pointer that the code dereferences without a check is dereferenced here with a panic. Numbers
  of endorsements are compared exactly where the code converts them to floating point; the two
  agree while the products stay below \<open>2\<^sup>5\<^sup>3\<close>.
\<close>

record organization =
  org_id :: string
  trustedRootCerts :: "(string \<times> bcCertificate) list"
  trustedIntermediateCerts :: "(string \<times> bcCertificate) list"

record memberCached =
  mc_member :: "acMember option"
  mc_certChain :: "bcCertificate list"
  mc_address :: string
  mc_pk :: "pubKey option"

record acService =
  orgNum :: i32
  orgInfos :: "(string \<times> organization option) list"
  acPols :: acPolicies
  memberCache :: "memberCached ShardCache"
  acHashType :: string
  acAuthType :: string
  addressType :: AddrType

record acCallbacks =
  pwkNewMember :: "Member \<Rightarrow> acMember result"
  certVerify :: "bcCertificate \<Rightarrow> bcCertificate list list option"

definition restrainedResourceList :: "acEnv \<Rightarrow> string list" where
  "restrainedResourceList E =
     [ResourceNameAllTest E, ResourceNameP2p E, ResourceNameConsensusNode E,
      TxType_String QUERY_CONTRACT, TxType_String INVOKE_CONTRACT, TxType_String SUBSCRIBE,
      TxType_String ARCHIVE]"

definition initAccessControlService ::
  "acEnv \<Rightarrow> string \<Rightarrow> string \<Rightarrow> AddrType \<Rightarrow> acService" where
  "initAccessControlService E hashType authType addrType =
     \<lparr>orgNum = 0, orgInfos = [], acPols = noPolicies,
      memberCache = NewShardCache (GetCertCacheSize E), acHashType = hashType,
      acAuthType = authType, addressType = addrType\<rparr>"

subsection \<open>Configured policies\<close>

primrec check_orgs :: "acService \<Rightarrow> string list \<Rightarrow> string list \<Rightarrow> bool" where
  "check_orgs s seen [] = True"
| "check_orgs s seen (org # orgs) =
     (if map_of (orgInfos s) org = None then False
      else if org \<in> set seen then False
      else check_orgs s (org # seen) orgs)"

definition checkResourcePolicyOrgList :: "acService \<Rightarrow> pbPolicy \<Rightarrow> bool" where
  "checkResourcePolicyOrgList s p = check_orgs s [] (pb_OrgList p)"

definition checkResourcePolicyRuleSelfCase :: "acEnv \<Rightarrow> string \<Rightarrow> pbPolicy \<Rightarrow> bool" where
  "checkResourcePolicyRuleSelfCase E name p =
     (if name \<in> {res ''CHAIN_CONFIG'' ''TRUST_ROOT_UPDATE'', res ''CHAIN_CONFIG'' ''NODE_ID_UPDATE''}
      then pb_RoleList p = [RoleAdmin E]
      else False)"

definition checkResourcePolicyRuleMajorityCase :: "pbPolicy \<Rightarrow> bool" where
  "checkResourcePolicyRuleMajorityCase p =
     (case pb_RoleList p of [] \<Rightarrow> True | [_] \<Rightarrow> True | _ \<Rightarrow> True)"

definition checkResourcePolicyRuleDefaultCase :: "pbPolicy \<Rightarrow> bool" where
  "checkResourcePolicyRuleDefaultCase p =
     (case split_at CHR ''/'' (pb_Rule p) of
        [n] \<Rightarrow> Atoi n \<noteq> None
      | [n, d] \<Rightarrow>
        (case Atoi n of None \<Rightarrow> False
         | Some numerator \<Rightarrow>
           case Atoi d of None \<Rightarrow> False
           | Some denominator \<Rightarrow> \<not> (numerator \<le> 0 \<or> denominator \<le> 0))
      | _ \<Rightarrow> False)"

definition checkResourcePolicyRule :: "acEnv \<Rightarrow> string \<Rightarrow> pbPolicy \<Rightarrow> bool" where
  "checkResourcePolicyRule E name p =
     (let r = pb_Rule p
      in if r = RuleAny E \<or> r = RuleAll E \<or> r = RuleForbidden E then True
         else if r = RuleSelf E then checkResourcePolicyRuleSelfCase E name p
         else if r = RuleMajority E then checkResourcePolicyRuleMajorityCase p
         else if r = RuleDelete E then True
         else checkResourcePolicyRuleDefaultCase p)"

definition validateResourcePolicy :: "acEnv \<Rightarrow> acService \<Rightarrow> ResourcePolicy \<Rightarrow> bool" where
  "validateResourcePolicy E s rp =
     (if ResourceName rp \<in> set (restrainedResourceList E) then False
      else case Policy rp of None \<Rightarrow> False
        | Some p \<Rightarrow>
          if \<not> checkResourcePolicyOrgList s p then False
          else checkResourcePolicyRule E (ResourceName rp) p)"

definition configured :: "(ResourcePolicy \<Rightarrow> bool) \<Rightarrow> ResourcePolicy list \<Rightarrow> (string \<times> policy) list" where
  "configured valid rps =
     concat (map (\<lambda>rp. case Policy rp of None \<Rightarrow> []
                    | Some p \<Rightarrow> [(ResourceName rp, newPolicyFromPb p)]) (filter valid rps))"

definition loadResourcePolicy :: "acEnv \<Rightarrow> ResourcePolicy list \<Rightarrow> acService \<Rightarrow> acService" where
  "loadResourcePolicy E rps s =
     s\<lparr>acPols := (acPols s)\<lparr>latestPolicyMap :=
         store_all (configured (validateResourcePolicy E s) rps) Map.empty\<rparr>\<rparr>"

definition createDefaultResourcePolicy :: "acEnv \<Rightarrow> acService \<Rightarrow> acService" where
  "createDefaultResourcePolicy E s =
     (let authType = ToLower (acAuthType s)
      in if authType = PermissionedWithCert E \<or> authType = Identity E then
           s\<lparr>acPols := createDefaultResourcePolicyForCert E
               (createDefaultResourcePolicyForCert_2320 E
                 (createDefaultResourcePolicyForCert_220 E (acPols s)))\<rparr>
         else if authType = PermissionedWithKey E then
           s\<lparr>acPols := createDefaultResourcePolicyForPWK E
               (createDefaultResourcePolicyForPK_2320 E
                 (createDefaultResourcePolicyForPK_220 E (acPols s)))\<rparr>
         else s)"

definition initResourcePolicy :: "acEnv \<Rightarrow> ResourcePolicy list \<Rightarrow> acService \<Rightarrow> acService" where
  "initResourcePolicy E rps s = loadResourcePolicy E rps (createDefaultResourcePolicy E s)"

definition initResourcePolicy_220 :: "acEnv \<Rightarrow> ResourcePolicy list \<Rightarrow> acService \<Rightarrow> acService" where
  "initResourcePolicy_220 E rps s =
     (let authType = ToLower (acAuthType s);
          s = (if authType = PermissionedWithCert E \<or> authType = Identity E then
                 s\<lparr>acPols := createDefaultResourcePolicyForCert_220 E (acPols s)\<rparr>
               else if authType = PermissionedWithKey E then
                 s\<lparr>acPols := createDefaultResourcePolicyForPK_220 E (acPols s)\<rparr>
               else s)
      in s\<lparr>acPols := (acPols s)\<lparr>resourceNamePolicyMap220 :=
           store_all (configured (validateResourcePolicy E s) rps)
             (resourceNamePolicyMap220 (acPols s))\<rparr>\<rparr>)"

subsection \<open>Organisations\<close>

definition addOrg :: "string \<Rightarrow> organization option \<Rightarrow> acService \<Rightarrow> acService" where
  "addOrg orgId info s =
     (if map_of (orgInfos s) orgId \<noteq> None then s\<lparr>orgInfos := AList.update orgId info (orgInfos s)\<rparr>
      else s\<lparr>orgInfos := AList.update orgId info (orgInfos s), orgNum := orgNum s + 1\<rparr>)"

definition getOrgInfoByOrgId :: "acService \<Rightarrow> string \<Rightarrow> organization option option" where
  "getOrgInfoByOrgId s orgId = map_of (orgInfos s) orgId"

definition getAllOrgInfos :: "acService \<Rightarrow> organization option list" where
  "getAllOrgInfos s = map snd (orgInfos s)"

subsection \<open>The cache of members\<close>

definition lookUpMemberInCache :: "acService \<Rightarrow> string \<Rightarrow> memberCached option" where
  "lookUpMemberInCache s memberInfo = Cache_Get (memberCache s) memberInfo"

definition publicKeyFromCert :: "acEnv \<Rightarrow> string \<Rightarrow> string result" where
  "publicKeyFromCert E member =
     (case utils_ParseCert E member of None \<Rightarrow> Inl ErrParseCert
      | Some certificate \<Rightarrow>
        case pk_String E (cert_PublicKey certificate) of None \<Rightarrow> Inl ErrKeyBytes
        | Some pubKeyStr \<Rightarrow> Inr pubKeyStr)"

definition addr_string :: "acEnv \<Rightarrow> pubKey option \<Rightarrow> AddrType \<Rightarrow> string \<Rightarrow> string result" where
  "addr_string E publicKey addrType hashType =
     (case PkToAddrStr E publicKey addrType (HashAlgoMap E hashType) of None \<Rightarrow> Inl ErrAddress
      | Some publicKeyString \<Rightarrow>
        Inr (if addrType = AddrType_ZXL then ''ZX'' @ publicKeyString else publicKeyString))"

definition memberToAddress :: "acEnv \<Rightarrow> acService \<Rightarrow> Member \<Rightarrow> string result" where
  "memberToAddress E s member =
     (if MemberType member \<in> {MemberType_CERT, MemberType_CERT_HASH, MemberType_ALIAS} then
        (case publicKeyFromCert E (MemberInfo member) of Inl e \<Rightarrow> Inl e
         | Inr pk \<Rightarrow>
           case PublicKeyFromPEM E pk of None \<Rightarrow> Inl ErrParseKey
           | Some publicKey \<Rightarrow> addr_string E (Some publicKey) (addressType s) (acHashType s))
      else if MemberType member = MemberType_PUBLIC_KEY then
        (case PublicKeyFromPEM E (MemberInfo member) of None \<Rightarrow> Inl ErrParseKey
         | Some publicKey \<Rightarrow> addr_string E (Some publicKey) (addressType s) (acHashType s))
      else addr_string E None (addressType s) (acHashType s))"

definition cache_member :: "string \<Rightarrow> memberCached \<Rightarrow> acService \<Rightarrow> acService" where
  "cache_member info mc s = s\<lparr>memberCache := Cache_Add info mc (memberCache s)\<rparr>"

definition addMemberToCache :: "acEnv \<Rightarrow> Member \<Rightarrow> memberCached \<Rightarrow> acService \<Rightarrow> acService go" where
  "addMemberToCache E member mc s =
     (case memberToAddress E s member of
        Inl _ \<Rightarrow> Inr (cache_member (MemberInfo member) mc s)
      | Inr address \<Rightarrow>
        go_bind (deref (mc_member mc)) (\<lambda>mem.
          Inr (cache_member (MemberInfo member)
                 (mc\<lparr>mc_address := address, mc_pk := Some (GetPk mem)\<rparr>) s)))"

definition mkCached :: "acMember option \<Rightarrow> bcCertificate list \<Rightarrow> memberCached" where
  "mkCached mem chain = \<lparr>mc_member = mem, mc_certChain = chain, mc_address = [], mc_pk = None\<rparr>"

text \<open>
  In the branch for certificates \<^verbatim>\<open>newCertMember\<close> converts the nil pointer of a failed
  construction to an interface that is not nil: the type assertion succeeds and the field access
  that follows panics.
\<close>

definition getMemberFromCache ::
  "acEnv \<Rightarrow> acCallbacks \<Rightarrow> Member \<Rightarrow> acService \<Rightarrow> (acMember option \<times> acService) go" where
  "getMemberFromCache E cb member s =
     (case lookUpMemberInCache s (MemberInfo member) of
        Some cached \<Rightarrow>
          go_bind (deref (mc_member cached)) (\<lambda>mem.
            if GetOrgId mem \<noteq> OrgId member then Inr (None, s) else Inr (Some mem, s))
      | None \<Rightarrow>
        if acAuthType s = PermissionedWithCert E \<or> acAuthType s = Identity E then
          (case newCertMemberFromPb E member (acHashType s) of
             Inl _ \<Rightarrow> Inl NilDeref
           | Inr certMember \<Rightarrow>
             case certVerify cb (cm_cert certMember) of
               None \<Rightarrow> Inr (None, s)
             | Some [] \<Rightarrow> Inr (None, s)
             | Some (chain # _) \<Rightarrow>
               go_bind (addMemberToCache E member (mkCached (Some (CertMember certMember)) chain) s)
                 (\<lambda>s. Inr (Some (CertMember certMember), s)))
        else if acAuthType s = PermissionedWithKey E then
          (case pwkNewMember cb member of
             Inl _ \<Rightarrow> Inr (None, s)
           | Inr mem \<Rightarrow>
             go_bind (addMemberToCache E member (mkCached (Some mem) []) s) (\<lambda>s. Inr (Some mem, s)))
        else
          go_bind (addMemberToCache E member (mkCached None []) s) (\<lambda>s. Inr (None, s)))"

subsection \<open>Principals\<close>

definition createPrincipal ::
  "string \<Rightarrow> EndorsementEntry option list \<Rightarrow> gobytes \<Rightarrow> principal result" where
  "createPrincipal name es msg =
     (if es = [] \<or> msg = None then Inl ErrEmptyPrincipal
      else if hd es = None then Inl ErrNilEndorsement
      else Inr \<lparr>pr_resourceName = name, pr_endorsement = es, pr_message = msg, pr_targetOrg = []\<rparr>)"

definition createPrincipalForTargetOrg ::
  "string \<Rightarrow> EndorsementEntry option list \<Rightarrow> gobytes \<Rightarrow> string \<Rightarrow> principal result" where
  "createPrincipalForTargetOrg name es msg targetOrgId =
     (case createPrincipal name es msg of Inl e \<Rightarrow> Inl e
      | Inr p \<Rightarrow> Inr (p\<lparr>pr_targetOrg := targetOrgId\<rparr>))"

subsection \<open>Evaluation of a policy\<close>

definition signer :: "EndorsementEntry option \<Rightarrow> Member go" where
  "signer e = go_bind (deref e) (\<lambda>e. deref (Signer e))"

definition org_permitted :: "string list \<Rightarrow> EndorsementEntry option \<Rightarrow> bool go" where
  "org_permitted orgs e =
     (if orgs = [] then Inr True
      else go_bind (signer e) (\<lambda>m. Inr (OrgId m \<in> set orgs)))"

primrec valid_loop ::
  "acEnv \<Rightarrow> acCallbacks \<Rightarrow> string list \<Rightarrow> Role list \<Rightarrow> EndorsementEntry option list \<Rightarrow>
   EndorsementEntry option list \<Rightarrow> acService \<Rightarrow> (EndorsementEntry option list \<times> acService) go" where
  "valid_loop E cb orgs roles [] refined s = Inr (refined, s)"
| "valid_loop E cb orgs roles (e # es) refined s =
     go_bind (org_permitted orgs e) (\<lambda>ok.
       if \<not> ok then valid_loop E cb orgs roles es refined s
       else if roles = [] then valid_loop E cb orgs roles es (refined @ [e]) s
       else go_bind (deref e) (\<lambda>entry.
         case Signer entry of None \<Rightarrow> valid_loop E cb orgs roles es refined s
         | Some m \<Rightarrow>
           go_bind (getMemberFromCache E cb m s) (\<lambda>(member, s).
             case member of None \<Rightarrow> valid_loop E cb orgs roles es refined s
             | Some mem \<Rightarrow>
               if GetRole mem \<in> set roles then valid_loop E cb orgs roles es (refined @ [e]) s
               else valid_loop E cb orgs roles es refined s)))"

definition acs_getValidEndorsements ::
  "acEnv \<Rightarrow> acCallbacks \<Rightarrow> string list \<Rightarrow> Role list \<Rightarrow> EndorsementEntry option list \<Rightarrow>
   acService \<Rightarrow> (EndorsementEntry option list \<times> acService) go" where
  "acs_getValidEndorsements E cb orgs roles es s = valid_loop E cb orgs roles es [] s"

primrec count_orgs :: "EndorsementEntry option list \<Rightarrow> string list \<Rightarrow> string list go" where
  "count_orgs [] mapOrg = Inr mapOrg"
| "count_orgs (e # es) mapOrg =
     go_bind (signer e) (\<lambda>m. count_orgs es (List.insert (OrgId m) mapOrg))"

definition countOrgsFromEndorsements :: "EndorsementEntry option list \<Rightarrow> int go" where
  "countOrgsFromEndorsements es = go_bind (count_orgs es []) (\<lambda>mapOrg. Inr (int (length mapOrg)))"

definition countValidEndorsements ::
  "acEnv \<Rightarrow> acCallbacks \<Rightarrow> string list \<Rightarrow> Role list \<Rightarrow> EndorsementEntry option list \<Rightarrow>
   acService \<Rightarrow> (int \<times> acService) go" where
  "countValidEndorsements E cb orgs roles es s =
     go_bind (acs_getValidEndorsements E cb orgs roles es s) (\<lambda>(refined, s).
       go_bind (countOrgsFromEndorsements refined) (\<lambda>n. Inr (n, s)))"

definition buildOrgListRoleList :: "policy \<Rightarrow> string list \<times> Role list" where
  "buildOrgListRoleList p = (remdups (pol_orgList p), remdups (pol_roleList p))"

definition orgCount :: "acService \<Rightarrow> int" where
  "orgCount s = sint (orgNum s)"

definition verifyMajorityCase ::
  "acEnv \<Rightarrow> acCallbacks \<Rightarrow> EndorsementEntry option list \<Rightarrow> acService \<Rightarrow> (verdict \<times> acService) go" where
  "verifyMajorityCase E cb es s =
     go_bind (countValidEndorsements E cb [] [RoleAdmin E] es s) (\<lambda>(numOfValid, s).
       if 2 * numOfValid > orgCount s then Inr (allowed, s)
       else Inr (denied (ErrNotEnough numOfValid), s))"

primrec self_loop ::
  "acEnv \<Rightarrow> acCallbacks \<Rightarrow> string \<Rightarrow> EndorsementEntry option list \<Rightarrow> acService \<Rightarrow>
   (verdict \<times> acService) go" where
  "self_loop E cb target [] s = Inr (denied (ErrTargetOrg target), s)"
| "self_loop E cb target (e # es) s =
     go_bind (signer e) (\<lambda>m.
       if OrgId m \<noteq> target then self_loop E cb target es s
       else go_bind (getMemberFromCache E cb m s) (\<lambda>(member, s).
         case member of None \<Rightarrow> self_loop E cb target es s
         | Some mem \<Rightarrow>
           if GetRole mem = RoleAdmin E then Inr (allowed, s) else self_loop E cb target es s))"

definition verifySelfCase ::
  "acEnv \<Rightarrow> acCallbacks \<Rightarrow> string \<Rightarrow> EndorsementEntry option list \<Rightarrow> acService \<Rightarrow>
   (verdict \<times> acService) go" where
  "verifySelfCase E cb target es s =
     (if target = [] then Inr (denied ErrNeedsTarget, s) else self_loop E cb target es s)"

primrec any_loop ::
  "acEnv \<Rightarrow> acCallbacks \<Rightarrow> string list \<Rightarrow> Role list \<Rightarrow> EndorsementEntry option list \<Rightarrow>
   acService \<Rightarrow> (verdict \<times> acService) go" where
  "any_loop E cb orgs roles [] s = Inr (denied ErrNotMet, s)"
| "any_loop E cb orgs roles (e # es) s =
     go_bind (org_permitted orgs e) (\<lambda>ok.
       if \<not> ok then any_loop E cb orgs roles es s
       else if roles = [] then Inr (allowed, s)
       else go_bind (signer e) (\<lambda>m.
         go_bind (getMemberFromCache E cb m s) (\<lambda>(member, s).
           case member of None \<Rightarrow> any_loop E cb orgs roles es s
           | Some mem \<Rightarrow>
             if GetRole mem \<in> set roles then Inr (allowed, s)
             else any_loop E cb orgs roles es s)))"

definition verifyAnyCase ::
  "acEnv \<Rightarrow> acCallbacks \<Rightarrow> policy \<Rightarrow> EndorsementEntry option list \<Rightarrow> acService \<Rightarrow>
   (verdict \<times> acService) go" where
  "verifyAnyCase E cb p es s =
     (let (orgs, roles) = buildOrgListRoleList p in any_loop E cb orgs roles es s)"

definition verifyAllCase ::
  "acEnv \<Rightarrow> acCallbacks \<Rightarrow> policy \<Rightarrow> EndorsementEntry option list \<Rightarrow> acService \<Rightarrow>
   (verdict \<times> acService) go" where
  "verifyAllCase E cb p es s =
     (let (orgs, roles) = buildOrgListRoleList p
      in go_bind (countValidEndorsements E cb orgs roles es s) (\<lambda>(numOfValid, s).
           if orgs = [] \<and> numOfValid = orgCount s then Inr (allowed, s)
           else if orgs \<noteq> [] \<and> numOfValid = int (length orgs) then Inr (allowed, s)
           else Inr (denied ErrNotAll, s)))"

text \<open>
  The portion rule asks for \<open>voters * numerator / denominator\<close> endorsements. A denominator of zero
  makes the quotient infinite or undefined: then the comparison holds only below minus infinity.
\<close>

definition portion_met :: "int \<Rightarrow> int \<Rightarrow> int \<Rightarrow> int \<Rightarrow> bool" where
  "portion_met n voters numerator denominator =
     (if denominator = 0 then voters * numerator < 0
      else if denominator > 0 then voters * numerator \<le> n * denominator
      else n * denominator \<le> voters * numerator)"

definition verifyDefaultCase ::
  "acEnv \<Rightarrow> acCallbacks \<Rightarrow> policy \<Rightarrow> EndorsementEntry option list \<Rightarrow> acService \<Rightarrow>
   (verdict \<times> acService) go" where
  "verifyDefaultCase E cb p es s =
     (let (orgs, roles) = buildOrgListRoleList p
      in case split_at CHR ''/'' (pol_rule p) of
           [n] \<Rightarrow>
             (case Atoi n of None \<Rightarrow> Inr (denied ErrUnrecognizedRule, s)
              | Some threshold \<Rightarrow>
                go_bind (countValidEndorsements E cb orgs roles es s) (\<lambda>(numOfValid, s).
                  if numOfValid \<ge> threshold then Inr (allowed, s)
                  else Inr (denied (ErrNotEnough numOfValid), s)))
         | [n, d] \<Rightarrow>
             (case (Atoi n, Atoi d) of
                (Some numerator, Some denominator) \<Rightarrow>
                  (let denominator' = (if denominator \<le> 0 then orgCount s else denominator)
                   in go_bind (countValidEndorsements E cb orgs roles es s) (\<lambda>(numOfValid, s).
                        if portion_met numOfValid
                             (if orgs = [] then orgCount s else int (length orgs))
                             numerator denominator'
                        then Inr (allowed, s)
                        else Inr (denied (ErrNotEnough numOfValid), s)))
              | _ \<Rightarrow> Inr (denied ErrUnrecognizedRule, s))
         | _ \<Rightarrow> Inr (denied ErrUnrecognizedType, s))"

definition acs_verifyPrincipalPolicy ::
  "acEnv \<Rightarrow> acCallbacks \<Rightarrow> principal \<Rightarrow> principal \<Rightarrow> policy \<Rightarrow> acService \<Rightarrow>
   (verdict \<times> acService) go" where
  "acs_verifyPrincipalPolicy E cb prin refinedPrincipal p s =
     (let es = pr_endorsement refinedPrincipal; r = pol_rule p
      in if r = RuleForbidden E then
           Inr (denied (ErrForbidden (pr_resourceName refinedPrincipal)), s)
         else if r = RuleMajority E then verifyMajorityCase E cb es s
         else if r = RuleSelf E then verifySelfCase E cb (pr_targetOrg prin) es s
         else if r = RuleAny E then verifyAnyCase E cb p es s
         else if r = RuleAll E then verifyAllCase E cb p es s
         else verifyDefaultCase E cb p es s)"

subsection \<open>New members by public key\<close>

definition checked_org :: "Member \<Rightarrow> pkMember \<Rightarrow> acMember result" where
  "checked_org member pm =
     (if pm_orgId pm \<noteq> OrgId member \<and> OrgId member \<noteq> [] then Inl ErrOrgMismatch
      else Inr (PkMember pm))"

definition newPkMember ::
  "acEnv \<Rightarrow> acCallbacks \<Rightarrow> Member \<Rightarrow> (string \<rightharpoonup> adminMemberModel) \<Rightarrow>
   (string \<rightharpoonup> consensusMemberModel) \<Rightarrow> acService \<Rightarrow> (acMember result \<times> acService) go" where
  "newPkMember E cb member adminList consensusList s =
     go_bind (getMemberFromCache E cb member s) (\<lambda>(cached, s).
       case cached of Some mem \<Rightarrow> Inr (Inr mem, s)
       | None \<Rightarrow>
         case newPkMemberFromAcs E member adminList consensusList (acHashType s) of
           Inl e \<Rightarrow> Inr (Inl e, s)
         | Inr pm \<Rightarrow>
           case checked_org member pm of
             Inl e \<Rightarrow> Inr (Inl e, s)
           | Inr mem \<Rightarrow>
             go_bind (addMemberToCache E member (mkCached (Some mem) []) s) (\<lambda>s.
               Inr (Inr mem, s)))"

definition newNodePkMember ::
  "acEnv \<Rightarrow> acCallbacks \<Rightarrow> Member \<Rightarrow> (string \<rightharpoonup> consensusMemberModel) \<Rightarrow> acService \<Rightarrow>
   (acMember result \<times> acService) go" where
  "newNodePkMember E cb member consensusList s =
     go_bind (getMemberFromCache E cb member s) (\<lambda>(cached, s).
       case cached of
         Some mem \<Rightarrow>
           if GetRole mem \<noteq> RoleConsensusNode E \<and> GetRole mem \<noteq> RoleCommonNode E
           then Inr (Inl ErrNotNode, s) else Inr (Inr mem, s)
       | None \<Rightarrow>
         case newPkNodeMemberFromAcs E member consensusList (acHashType s) of
           Inl e \<Rightarrow> Inr (Inl e, s)
         | Inr pm \<Rightarrow>
           case checked_org member pm of
             Inl e \<Rightarrow> Inr (Inl e, s)
           | Inr mem \<Rightarrow>
             go_bind (addMemberToCache E member (mkCached (Some mem) []) s) (\<lambda>s.
               Inr (Inr mem, s)))"

subsection \<open>Look-ups for the versions before 2.3.3\<close>

definition lookUpPolicy220 :: "acPolicies \<Rightarrow> string \<Rightarrow> pbPolicy option" where
  "lookUpPolicy220 P name = map_option GetPbPolicy (resourceNamePolicyMap220 P name)"

definition lookUpExceptionalPolicy220 :: "acPolicies \<Rightarrow> string \<Rightarrow> pbPolicy option" where
  "lookUpExceptionalPolicy220 P name = map_option GetPbPolicy (exceptionalPolicyMap220 P name)"

definition lookUpPolicyByResourceName220 :: "acPolicies \<Rightarrow> string \<Rightarrow> policy option" where
  "lookUpPolicyByResourceName220 P name =
     (case resourceNamePolicyMap220 P name of Some p \<Rightarrow> Some p
      | None \<Rightarrow> exceptionalPolicyMap220 P name)"

definition lookUpPolicy2320 :: "acPolicies \<Rightarrow> string \<Rightarrow> pbPolicy option" where
  "lookUpPolicy2320 P name =
     (case latestPolicyMap P name of Some p \<Rightarrow> Some (GetPbPolicy p)
      | None \<Rightarrow> map_option GetPbPolicy (resourceNamePolicyMap2320 P name))"

definition lookUpExceptionalPolicy2320 :: "acPolicies \<Rightarrow> string \<Rightarrow> pbPolicy option" where
  "lookUpExceptionalPolicy2320 P name =
     (case latestPolicyMap P name of Some p \<Rightarrow> Some (GetPbPolicy p)
      | None \<Rightarrow> map_option GetPbPolicy (exceptionalPolicyMap2320 P name))"

definition lookUpPolicyByResourceName2320 :: "acPolicies \<Rightarrow> string \<Rightarrow> policy option" where
  "lookUpPolicyByResourceName2320 P name =
     (case latestPolicyMap P name of Some p \<Rightarrow> Some p
      | None \<Rightarrow>
        case resourceNamePolicyMap2320 P name of Some p \<Rightarrow> Some p
        | None \<Rightarrow> exceptionalPolicyMap2320 P name)"

end
