(* ===== verification/AC_Provider.thy ===== *)
theory AC_Provider
  imports AC_Service
begin

section \<open>Access control: checks over a provider (provider.go, provider220.go, provider2320.go)\<close>

text \<open>
  The checks of messages, transactions and multi-sign requests are written over the interface
  \<^verbatim>\<open>acProvider\<close>, which the three providers implement. The interface is the record \<open>acProvider\<close>
  over the state \<open>'s\<close> of the provider; the policy maps, which every look-up of the interface
  reads, are the field \<open>providerPols\<close>.
\<close>

record 's acProvider =
  getTotalVoterNum :: "'s \<Rightarrow> int"
  verifyPrincipalPolicy :: "principal \<Rightarrow> principal \<Rightarrow> policy \<Rightarrow> 's \<Rightarrow> (verdict \<times> 's) go"
  refinePrincipal :: "principal \<Rightarrow> 's \<Rightarrow> (principal result \<times> 's) go"
  refinePrincipalForCertOptimization :: "principal \<Rightarrow> 's \<Rightarrow> (principal result \<times> 's) go"
  CreatePrincipal :: "string \<Rightarrow> EndorsementEntry option list \<Rightarrow> gobytes \<Rightarrow> principal result"
  CreatePrincipalForTargetOrg ::
    "string \<Rightarrow> EndorsementEntry option list \<Rightarrow> gobytes \<Rightarrow> string \<Rightarrow> principal result"
  RefineEndorsements ::
    "EndorsementEntry option list \<Rightarrow> gobytes \<Rightarrow> 's \<Rightarrow> (EndorsementEntry option list \<times> 's) go"
  providerPols :: "'s \<Rightarrow> acPolicies"

subsection \<open>Look-ups from version 2.3.3 on (interface_inner.go)\<close>

text \<open>A call for an older block version panics.\<close>

definition since_2330 :: "u32 \<Rightarrow> 'a \<Rightarrow> 'a go" where
  "since_2330 blockVersion x = (if blockVersion < blockVersion2330 then Inl ShouldNotHappen else Inr x)"

definition lookUpPolicyByTxType :: "string \<Rightarrow> u32 \<Rightarrow> acPolicies \<Rightarrow> policy result go" where
  "lookUpPolicyByTxType txType blockVersion P =
     since_2330 blockVersion
       (case latestPolicyMap P txType of Some p \<Rightarrow> Inr p
        | None \<Rightarrow>
          case txTypePolicyMap P txType of None \<Rightarrow> Inl (ErrPolicyNotFound txType)
          | Some p \<Rightarrow> Inr p)"

definition lookUpPolicyByMsgType :: "string \<Rightarrow> u32 \<Rightarrow> acPolicies \<Rightarrow> policy result go" where
  "lookUpPolicyByMsgType msgType blockVersion P =
     since_2330 blockVersion
       (case latestPolicyMap P msgType of Some p \<Rightarrow> Inr p
        | None \<Rightarrow>
          case msgTypePolicyMap P msgType of None \<Rightarrow> Inl (ErrPolicyNotFound msgType)
          | Some p \<Rightarrow> Inr p)"

definition findFromSenderPolicies :: "string \<Rightarrow> u32 \<Rightarrow> acPolicies \<Rightarrow> policy option go" where
  "findFromSenderPolicies name blockVersion P = since_2330 blockVersion (senderPolicyMap P name)"

definition findFromEndorsementsPolicies :: "string \<Rightarrow> u32 \<Rightarrow> acPolicies \<Rightarrow> policy option go" where
  "findFromEndorsementsPolicies name blockVersion P =
     since_2330 blockVersion
       (case latestPolicyMap P name of Some p \<Rightarrow> Some p | None \<Rightarrow> resourceNamePolicyMap P name)"

subsection \<open>Messages\<close>

definition verifyMsgTypePrincipal ::
  "acEnv \<Rightarrow> 's acProvider \<Rightarrow> principal \<Rightarrow> u32 \<Rightarrow> 's \<Rightarrow> (verdict \<times> 's) go" where
  "verifyMsgTypePrincipal E p prin blockVersion s =
     (if getTotalVoterNum p s \<le> 0 then Inr (denied ErrEmptyOrgList, s)
      else go_bind (refinePrincipal p prin s) (\<lambda>(refined, s).
        case refined of Inl e \<Rightarrow> Inr (denied e, s)
        | Inr refinedPrincipal \<Rightarrow>
          if IsSkipAccessControl E then Inr (allowed, s)
          else go_bind (lookUpPolicyByMsgType (pr_resourceName prin) blockVersion (providerPols p s))
            (\<lambda>pol. case pol of Inl e \<Rightarrow> Inr (denied e, s)
              | Inr pol \<Rightarrow> verifyPrincipalPolicy p prin refinedPrincipal pol s)))"

subsection \<open>Transactions\<close>

text \<open>
  The step that the three checks of a transaction share: the endorsements are refined, that is
  their signatures are verified, unless the check is told to bypass it; then only compressed
  certificates are looked up.
\<close>

definition compressed_sender :: "acTx \<Rightarrow> bool go" where
  "compressed_sender tx =
     (case Sender tx of None \<Rightarrow> Inr False
      | Some e \<Rightarrow>
        go_bind (deref (Signer e)) (\<lambda>m.
          Inr (MemberType m = MemberType_CERT_HASH \<or> MemberType m = MemberType_ALIAS)))"

definition refine_unless ::
  "'s acProvider \<Rightarrow> bool \<Rightarrow> acTx \<Rightarrow> principal \<Rightarrow> 's \<Rightarrow> (principal result \<times> 's) go" where
  "refine_unless p bypass tx prin s =
     (if \<not> bypass then refinePrincipal p prin s
      else go_bind (compressed_sender tx) (\<lambda>compressed.
        if compressed then refinePrincipalForCertOptimization p prin s else Inr (Inr prin, s)))"

definition verifyTxTypePrincipal ::
  "acEnv \<Rightarrow> 's acProvider \<Rightarrow> acTx \<Rightarrow> gobytes \<Rightarrow> u32 \<Rightarrow> bool \<Rightarrow> 's \<Rightarrow> (verdict \<times> 's) go" where
  "verifyTxTypePrincipal E p tx txBytes blockVersion bypassSignVerify s =
     (if getTotalVoterNum p s \<le> 0 then Inr (denied ErrEmptyOrgList, s)
      else case CreatePrincipal p (TxType_String (TxType (Payload tx))) [Sender tx] txBytes of
        Inl e \<Rightarrow> Inr (denied e, s)
      | Inr prin \<Rightarrow>
        go_bind (refine_unless p bypassSignVerify tx prin s) (\<lambda>(refined, s).
          case refined of Inl e \<Rightarrow> Inr (denied e, s)
          | Inr refinedPrincipal \<Rightarrow>
            if IsSkipAccessControl E then Inr (allowed, s)
            else go_bind (lookUpPolicyByTxType (pr_resourceName prin) blockVersion (providerPols p s))
              (\<lambda>pol. case pol of Inl e \<Rightarrow> Inr (denied e, s)
                | Inr pol \<Rightarrow> verifyPrincipalPolicy p prin refinedPrincipal pol s)))"

definition checked_name :: "acEnv \<Rightarrow> bool \<Rightarrow> acTx \<Rightarrow> string \<Rightarrow> string" where
  "checked_name E bypass tx currentResourceName =
     (if bypass then currentResourceName else GetTxResourceName E tx)"

definition verifySenderPrincipal ::
  "acEnv \<Rightarrow> 's acProvider \<Rightarrow> acTx \<Rightarrow> gobytes \<Rightarrow> u32 \<Rightarrow> bool \<Rightarrow> string \<Rightarrow> 's \<Rightarrow> (verdict \<times> 's) go" where
  "verifySenderPrincipal E p tx txBytes blockVersion bypassVerifySign currentResourceName s =
     (if getTotalVoterNum p s \<le> 0 then Inr (denied ErrEmptyOrgList, s)
      else case CreatePrincipal p (checked_name E bypassVerifySign tx currentResourceName)
                  [Sender tx] txBytes of
        Inl e \<Rightarrow> Inr (denied e, s)
      | Inr prin \<Rightarrow>
        go_bind (refine_unless p bypassVerifySign tx prin s) (\<lambda>(refined, s).
          case refined of Inl e \<Rightarrow> Inr (denied e, s)
          | Inr refinedPrincipal \<Rightarrow>
            if IsSkipAccessControl E then Inr (allowed, s)
            else go_bind (findFromSenderPolicies (pr_resourceName prin) blockVersion (providerPols p s))
              (\<lambda>pol. case pol of None \<Rightarrow> Inr (allowed, s)
                | Some pol \<Rightarrow> verifyPrincipalPolicy p prin refinedPrincipal pol s)))"

definition all_endorsements :: "acTx \<Rightarrow> EndorsementEntry option list" where
  "all_endorsements tx =
     (case Endorsers tx of None \<Rightarrow> [Sender tx]
      | Some es \<Rightarrow> if Sender tx \<noteq> None then es @ [Sender tx] else es)"

definition param_value :: "string \<Rightarrow> (string \<times> string) list option \<Rightarrow> string" where
  "param_value key params =
     (case params of None \<Rightarrow> []
      | Some kvs \<Rightarrow> case map_of kvs key of None \<Rightarrow> [] | Some v \<Rightarrow> v)"

definition verifyEndorsementsPrincipalCommon ::
  "acEnv \<Rightarrow> 's acProvider \<Rightarrow> acTx \<Rightarrow> gobytes \<Rightarrow> string \<Rightarrow> u32 \<Rightarrow> bool \<Rightarrow> 's \<Rightarrow> (verdict \<times> 's) go" where
  "verifyEndorsementsPrincipalCommon E p tx txBytes name blockVersion bypassVerifySign s =
     (if getTotalVoterNum p s \<le> 0 then Inr (denied ErrEmptyOrgList, s)
      else go_bind (findFromEndorsementsPolicies name blockVersion (providerPols p s)) (\<lambda>pol.
        case pol of None \<Rightarrow> Inr (allowed, s)
        | Some pol \<Rightarrow>
          (let es = all_endorsements tx;
               target = param_value (ConfigNameOrgId E) (Parameters (Payload tx))
           in if pol_rule pol = RuleSelf E \<and> target = [] then Inr (denied ErrNoOrgIdParameter, s)
              else case (if pol_rule pol = RuleSelf E
                         then CreatePrincipalForTargetOrg p name es txBytes target
                         else CreatePrincipal p name es txBytes) of
                Inl e \<Rightarrow> Inr (denied e, s)
              | Inr prin \<Rightarrow>
                go_bind (refine_unless p bypassVerifySign tx prin s) (\<lambda>(refined, s).
                  case refined of Inl e \<Rightarrow> Inr (denied e, s)
                  | Inr refinedPrincipal \<Rightarrow>
                    if IsSkipAccessControl E then Inr (allowed, s)
                    else verifyPrincipalPolicy p prin refinedPrincipal pol s))))"

definition verifyEndorsementsPrincipal ::
  "acEnv \<Rightarrow> 's acProvider \<Rightarrow> acTx \<Rightarrow> gobytes \<Rightarrow> u32 \<Rightarrow> bool \<Rightarrow> string \<Rightarrow> 's \<Rightarrow> (verdict \<times> 's) go" where
  "verifyEndorsementsPrincipal E p tx txBytes blockVersion bypassVerifySign currentResourceName s =
     verifyEndorsementsPrincipalCommon E p tx txBytes
       (checked_name E bypassVerifySign tx currentResourceName) blockVersion bypassVerifySign s"

text \<open>The checks in sequence: an error or a refusal of one ends the sequence.\<close>

definition and_then :: "(verdict \<times> 's) go \<Rightarrow> ('s \<Rightarrow> (verdict \<times> 's) go) \<Rightarrow> (verdict \<times> 's) go" where
  "and_then c k =
     go_bind c (\<lambda>((allow, err), s).
       case err of Some e \<Rightarrow> Inr (denied e, s)
       | None \<Rightarrow> if \<not> allow then Inr (denied ErrAuthFailed, s) else k s)"

definition verifyTxPrincipal ::
  "acEnv \<Rightarrow> acTx \<Rightarrow> string \<Rightarrow> 's acProvider \<Rightarrow> u32 \<Rightarrow> 's \<Rightarrow> (verdict \<times> 's) go" where
  "verifyTxPrincipal E tx resourceId p blockVersion s =
     (let crossCall = GetTxResourceName E tx \<noteq> resourceId
      in case (if crossCall then Some (Some []) else CalcUnsignedTxBytes E tx) of
           None \<Rightarrow> Inr (denied ErrTxBytes, s)
         | Some txBytes \<Rightarrow>
           and_then (verifyTxTypePrincipal E p tx txBytes blockVersion crossCall s) (\<lambda>s.
             if TxType (Payload tx) \<noteq> INVOKE_CONTRACT then Inr (allowed, s)
             else and_then (verifySenderPrincipal E p tx txBytes blockVersion True resourceId s) (\<lambda>s.
               and_then (verifyEndorsementsPrincipal E p tx txBytes blockVersion crossCall resourceId s)
                 (\<lambda>s. Inr (allowed, s)))))"

subsection \<open>Multi-sign requests\<close>

datatype VoteStatus = AGREE | REJECT | VoteStatus_other i32
datatype MultiSignStatus = PROCESSING | ADOPTED | REFUSED | FAILED | PASSED

record MultiSignInfo =
  ms_Payload :: acPayload
  ms_ContractName :: string
  ms_Method :: string
  ms_Status :: MultiSignStatus
  ms_VoteInfos :: "(VoteStatus \<times> EndorsementEntry option) list"

definition verifyMultiSignEndorsementsPrincipal ::
  "acEnv \<Rightarrow> 's acProvider \<Rightarrow> acTx \<Rightarrow> string \<Rightarrow> u32 \<Rightarrow> bool \<Rightarrow> 's \<Rightarrow> (verdict \<times> 's) go" where
  "verifyMultiSignEndorsementsPrincipal E p tx name blockVersion bypassVerifySign s =
     (case CalcUnsignedTxBytes E tx of None \<Rightarrow> Inr (denied ErrTxBytes, s)
      | Some txBytes \<Rightarrow>
        verifyEndorsementsPrincipalCommon E p tx txBytes name blockVersion bypassVerifySign s)"

definition isRuleSupportedByMultiSign ::
  "acEnv \<Rightarrow> 's acProvider \<Rightarrow> string \<Rightarrow> u32 \<Rightarrow> 's \<Rightarrow> acError option go" where
  "isRuleSupportedByMultiSign E p name blockVersion s =
     go_bind (findFromEndorsementsPolicies name blockVersion (providerPols p s)) (\<lambda>pol.
       case pol of None \<Rightarrow> Inr (Some (ErrNoMultiSign name))
       | Some pol \<Rightarrow>
         if pol_rule pol = RuleSelf E then Inr (Some (ErrSelfMultiSign name)) else Inr None)"

definition isMultiSignPassed ::
  "acEnv \<Rightarrow> 's acProvider \<Rightarrow> acTx \<Rightarrow> string \<Rightarrow> policy \<Rightarrow> u32 \<Rightarrow> 's \<Rightarrow> (verdict \<times> 's) go" where
  "isMultiSignPassed E p tx name pol blockVersion s =
     verifyMultiSignEndorsementsPrincipal E p tx name blockVersion True s"

text \<open>
  The policy with which the votes against a request are counted is derived from that of the
  request (\<open>refusedPolicy\<close>); the code builds it and then does not use it: the votes are counted
  with the policy of the resource.
\<close>

definition refusedPolicy :: "acEnv \<Rightarrow> policy \<Rightarrow> policy" where
  "refusedPolicy E pol =
     \<lparr>pol_rule = (if pol_rule pol = RuleAny E then RuleAll E
                  else if pol_rule pol = RuleAll E then RuleAny E
                  else if pol_rule pol = RuleMajority E then RuleMajority E else []),
      pol_orgList = pol_orgList pol, pol_roleList = pol_roleList pol\<rparr>"

definition isMultiSignRefused ::
  "acEnv \<Rightarrow> 's acProvider \<Rightarrow> acTx \<Rightarrow> string \<Rightarrow> policy \<Rightarrow> u32 \<Rightarrow> 's \<Rightarrow> (verdict \<times> 's) go" where
  "isMultiSignRefused E p tx name pol blockVersion s =
     (if pol_rule pol = RuleForbidden E then Inr ((True, Some (ErrMultiSignRule (RuleForbidden E))), s)
      else if pol_rule pol = RuleSelf E then Inr ((True, Some (ErrMultiSignRule (RuleSelf E))), s)
      else go_bind (verifyMultiSignEndorsementsPrincipal E p tx name blockVersion True s)
        (\<lambda>((refused, err), s).
          if refused then Inr ((True, err), s)
          else if pol_rule pol = RuleMajority E \<and>
                  2 * int (length (case Endorsers tx of None \<Rightarrow> [] | Some es \<Rightarrow> es)) = getTotalVoterNum p s
          then Inr ((True, None), s)
          else Inr ((False, None), s)))"

definition votes_for :: "VoteStatus \<Rightarrow> MultiSignInfo \<Rightarrow> EndorsementEntry option list" where
  "votes_for v mInfo = map snd (filter (\<lambda>vi. fst vi = v) (ms_VoteInfos mInfo))"

definition votes_tx :: "MultiSignInfo \<Rightarrow> EndorsementEntry option list \<Rightarrow> acTx" where
  "votes_tx mInfo es =
     \<lparr>Payload = ms_Payload mInfo, Sender = None, Endorsers = Some es, Payer = None\<rparr>"

definition verifyMultiSignTxPrincipal ::
  "acEnv \<Rightarrow> 's acProvider \<Rightarrow> MultiSignInfo \<Rightarrow> u32 \<Rightarrow> 's \<Rightarrow>
   ((MultiSignStatus \<times> acError option) \<times> MultiSignInfo \<times> 's) go" where
  "verifyMultiSignTxPrincipal E p mInfo blockVersion s =
     (if ms_Status mInfo \<noteq> PROCESSING then
        Inr ((ms_Status mInfo, Some ErrMultiSignStatus), mInfo, s)
      else
        (let name = ms_ContractName mInfo @ ''-'' @ ms_Method mInfo;
             agree = votes_for AGREE mInfo; reject = votes_for REJECT mInfo
         in go_bind (findFromEndorsementsPolicies name blockVersion (providerPols p s)) (\<lambda>pol.
           case pol of None \<Rightarrow> Inr ((ms_Status mInfo, None), mInfo, s)
           | Some pol \<Rightarrow>
             go_bind (if agree = [] then Inr (False, s)
                      else go_bind (isMultiSignPassed E p (votes_tx mInfo agree) name pol blockVersion s)
                        (\<lambda>((ok, _), s). Inr (ok, s)))
               (\<lambda>(passed, s).
                 if passed then Inr ((PASSED, None), mInfo\<lparr>ms_Status := PASSED\<rparr>, s)
                 else go_bind (if reject = [] then Inr (False, s)
                        else go_bind (isMultiSignRefused E p (votes_tx mInfo reject) name pol blockVersion s)
                          (\<lambda>((refuse, _), s). Inr (refuse, s)))
                   (\<lambda>(refused, s).
                     if refused then Inr ((REFUSED, None), mInfo\<lparr>ms_Status := REFUSED\<rparr>, s)
                     else Inr ((ms_Status mInfo, None), mInfo, s))))))"

subsection \<open>The versions up to 2.2.0 and up to 2.3.2\<close>

definition verifyPrincipalOld ::
  "(acPolicies \<Rightarrow> string \<Rightarrow> policy option) \<Rightarrow> acEnv \<Rightarrow> 's acProvider \<Rightarrow> principal \<Rightarrow> 's \<Rightarrow>
   (verdict \<times> 's) go" where
  "verifyPrincipalOld lookUp E p prin s =
     go_bind (refinePrincipal p prin s) (\<lambda>(refined, s).
       case refined of Inl e \<Rightarrow> Inr (denied e, s)
       | Inr refinedPrincipal \<Rightarrow>
         if IsSkipAccessControl E then Inr (allowed, s)
         else case lookUp (providerPols p s) (pr_resourceName prin) of
           None \<Rightarrow> Inr (denied (ErrPolicyNotFound (pr_resourceName prin)), s)
         | Some pol \<Rightarrow> verifyPrincipalPolicy p prin refinedPrincipal pol s)"

definition verifyPrincipal220 :: "acEnv \<Rightarrow> 's acProvider \<Rightarrow> principal \<Rightarrow> 's \<Rightarrow> (verdict \<times> 's) go" where
  "verifyPrincipal220 = verifyPrincipalOld lookUpPolicyByResourceName220"

definition verifyPrincipal2320 :: "acEnv \<Rightarrow> 's acProvider \<Rightarrow> principal \<Rightarrow> 's \<Rightarrow> (verdict \<times> 's) go" where
  "verifyPrincipal2320 = verifyPrincipalOld lookUpPolicyByResourceName2320"

text \<open>
  The two functions \<^verbatim>\<open>verifyTxPrincipal220\<close> and \<^verbatim>\<open>verifyTxPrincipal2320\<close> differ only in their
  look-ups and in where the name of the resource comes from. When the rule of the resource is SELF
  and the transaction has no parameters, the principal of the sender is checked a second time.
\<close>

definition payer_ok ::
  "'s acProvider \<Rightarrow> acTx \<Rightarrow> gobytes \<Rightarrow> 's \<Rightarrow> (bool \<times> 's) go" where
  "payer_ok p t txBytes s =
     (case Payer t of None \<Rightarrow> Inr (True, s)
      | Some payer \<Rightarrow>
        go_bind (RefineEndorsements p [Some payer] txBytes s) (\<lambda>(es, s). Inr (es \<noteq> [], s)))"

definition old_principal ::
  "acEnv \<Rightarrow> 's acProvider \<Rightarrow> acTx \<Rightarrow> string \<Rightarrow> gobytes \<Rightarrow> pbPolicy \<Rightarrow> principal \<Rightarrow> principal result" where
  "old_principal E ac t resourceId txBytes pol senderPrincipal =
     (let es = (case Endorsers t of None \<Rightarrow> [Sender t] | Some es \<Rightarrow> es)
      in if pb_Rule pol = RuleSelf E then
           (case Parameters (Payload t) of None \<Rightarrow> Inr senderPrincipal
            | Some kvs \<Rightarrow>
              (let target = param_value (ConfigNameOrgId E) (Some kvs)
               in if target = [] then Inl ErrNoOrgIdParameter
                  else CreatePrincipalForTargetOrg ac resourceId es txBytes target))
         else CreatePrincipal ac resourceId es txBytes)"

definition verifyTxPrincipalOld ::
  "(acPolicies \<Rightarrow> string \<Rightarrow> pbPolicy option) \<Rightarrow> (acPolicies \<Rightarrow> string \<Rightarrow> pbPolicy option) \<Rightarrow>
   (acEnv \<Rightarrow> 's acProvider \<Rightarrow> principal \<Rightarrow> 's \<Rightarrow> (verdict \<times> 's) go) \<Rightarrow>
   acEnv \<Rightarrow> acTx \<Rightarrow> string \<Rightarrow> 's acProvider \<Rightarrow> 's \<Rightarrow> (verdict \<times> 's) go" where
  "verifyTxPrincipalOld exceptional lookUp verify E t resourceId ac s =
     (case CalcUnsignedTxBytes E t of None \<Rightarrow> Inr (denied ErrTxBytes, s)
      | Some txBytes \<Rightarrow>
        (let name = (if exceptional (providerPols ac s) resourceId \<noteq> None then resourceId
                     else TxType_String (TxType (Payload t)))
         in case CreatePrincipal ac name [Sender t] txBytes of
              Inl e \<Rightarrow> Inr (denied e, s)
            | Inr senderPrincipal \<Rightarrow>
              and_then (verify E ac senderPrincipal s) (\<lambda>s.
                if TxType (Payload t) \<noteq> INVOKE_CONTRACT then Inr (allowed, s)
                else go_bind (payer_ok ac t txBytes s) (\<lambda>(ok, s).
                  if \<not> ok then Inr (denied ErrInvalidPayer, s)
                  else case lookUp (providerPols ac s) resourceId of
                    None \<Rightarrow> Inr (allowed, s)
                  | Some pol \<Rightarrow>
                    case old_principal E ac t resourceId txBytes pol senderPrincipal of
                      Inl e \<Rightarrow> Inr (denied e, s)
                    | Inr prin \<Rightarrow>
                      and_then (verify E ac prin s) (\<lambda>s. Inr (allowed, s))))))"

definition verifyTxPrincipal220 :: "acEnv \<Rightarrow> acTx \<Rightarrow> 's acProvider \<Rightarrow> 's \<Rightarrow> (verdict \<times> 's) go" where
  "verifyTxPrincipal220 E t ac s =
     verifyTxPrincipalOld lookUpExceptionalPolicy220 lookUpPolicy220 verifyPrincipal220 E t
       (ContractName (Payload t) @ ''-'' @ Method (Payload t)) ac s"

definition verifyTxPrincipal2320 ::
  "acEnv \<Rightarrow> acTx \<Rightarrow> string \<Rightarrow> 's acProvider \<Rightarrow> 's \<Rightarrow> (verdict \<times> 's) go" where
  "verifyTxPrincipal2320 E t resourceId ac s =
     verifyTxPrincipalOld lookUpExceptionalPolicy2320 lookUpPolicy2320 verifyPrincipal2320 E t
       resourceId ac s"

definition isRuleSupportedOld ::
  "(acPolicies \<Rightarrow> string \<Rightarrow> pbPolicy option) \<Rightarrow> acEnv \<Rightarrow> 's acProvider \<Rightarrow> string \<Rightarrow> 's \<Rightarrow> acError option" where
  "isRuleSupportedOld lookUp E p name s =
     (case lookUp (providerPols p s) name of None \<Rightarrow> Some (ErrNoMultiSign name)
      | Some pol \<Rightarrow> if pb_Rule pol = RuleSelf E then Some (ErrSelfMultiSign name) else None)"

definition isRuleSupportedByMultiSign220 ::
  "acEnv \<Rightarrow> 's acProvider \<Rightarrow> string \<Rightarrow> 's \<Rightarrow> acError option" where
  "isRuleSupportedByMultiSign220 = isRuleSupportedOld lookUpPolicy220"

definition isRuleSupportedByMultiSign2320 ::
  "acEnv \<Rightarrow> 's acProvider \<Rightarrow> string \<Rightarrow> 's \<Rightarrow> acError option" where
  "isRuleSupportedByMultiSign2320 = isRuleSupportedOld lookUpPolicy2320"

subsection \<open>The public interface, by block version\<close>

definition VerifyPrincipalLT2330 ::
  "acEnv \<Rightarrow> 's acProvider \<Rightarrow> principal \<Rightarrow> u32 \<Rightarrow> 's \<Rightarrow> (verdict \<times> 's) go" where
  "VerifyPrincipalLT2330 E p prin blockVersion s =
     (if blockVersion \<le> blockVersion220 then verifyPrincipal220 E p prin s
      else if blockVersion < blockVersion2330 then verifyPrincipal2320 E p prin s
      else Inr (denied (ErrBlockVersion blockVersion), s))"

definition VerifyMsgPrincipal ::
  "acEnv \<Rightarrow> 's acProvider \<Rightarrow> principal \<Rightarrow> u32 \<Rightarrow> 's \<Rightarrow> (verdict \<times> 's) go" where
  "VerifyMsgPrincipal E p prin blockVersion s =
     (if blockVersion \<le> blockVersion220 then verifyPrincipal220 E p prin s
      else if blockVersion < blockVersion2330 then verifyPrincipal2320 E p prin s
      else verifyMsgTypePrincipal E p prin blockVersion s)"

definition VerifyTxPrincipal ::
  "acEnv \<Rightarrow> 's acProvider \<Rightarrow> acTx \<Rightarrow> string \<Rightarrow> u32 \<Rightarrow> 's \<Rightarrow> (verdict \<times> 's) go" where
  "VerifyTxPrincipal E p tx name blockVersion s =
     (if blockVersion \<le> blockVersion220 then verifyTxPrincipal220 E tx p s
      else if blockVersion < blockVersion2330 then verifyTxPrincipal2320 E tx name p s
      else verifyTxPrincipal E tx name p blockVersion s)"

definition VerifyMultiSignTxPrincipal ::
  "acEnv \<Rightarrow> 's acProvider \<Rightarrow> MultiSignInfo \<Rightarrow> u32 \<Rightarrow> 's \<Rightarrow>
   ((MultiSignStatus \<times> acError option) \<times> MultiSignInfo \<times> 's) go" where
  "VerifyMultiSignTxPrincipal E p mInfo blockVersion s =
     (if blockVersion < blockVersion2330 then
        Inr ((ms_Status mInfo, Some (ErrBlockVersion blockVersion)), mInfo, s)
      else verifyMultiSignTxPrincipal E p mInfo blockVersion s)"

definition IsRuleSupportedByMultiSign ::
  "acEnv \<Rightarrow> 's acProvider \<Rightarrow> string \<Rightarrow> u32 \<Rightarrow> 's \<Rightarrow> acError option go" where
  "IsRuleSupportedByMultiSign E p name blockVersion s =
     (if blockVersion < blockVersion220 then Inr (isRuleSupportedByMultiSign220 E p name s)
      else if blockVersion < blockVersion2330 then Inr (isRuleSupportedByMultiSign2320 E p name s)
      else isRuleSupportedByMultiSign E p name blockVersion s)"

definition GetAllPolicy :: "acPolicies \<Rightarrow> string \<rightharpoonup> pbPolicy" where
  "GetAllPolicy P =
     (map_option newPbPolicyFromPolicy \<circ> resourceNamePolicyMap P) ++
     (map_option newPbPolicyFromPolicy \<circ> senderPolicyMap P)"

end
