(* ===== verification/AC_Pwk.thy ===== *)
theory AC_Pwk
  imports AC_Provider
begin

section \<open>Access control: permissioned public keys (permissioned_pk_ac.go)\<close>

text \<open>
  The provider for the authentication type \<^verbatim>\<open>permissionedWithKey\<close>: administrators and consensus
  nodes come from the chain configuration, the other members from the public key contract. Included
  are the handlers of the message bus (\<^verbatim>\<open>permissioned_pk_ac_subscriber.go\<close>) and the watcher of
  older versions (\<^verbatim>\<open>provider220.go\<close>).
\<close>

record permissionedPk =
  pp_acs :: acService
  pp_localOrg :: string
  pp_adminMember :: "string \<rightharpoonup> adminMemberModel"
  pp_consensusMember :: "string \<rightharpoonup> consensusMemberModel"
  pp_payerList :: "string ShardCache"

definition pp_NewMemberFromAcs :: "acEnv \<Rightarrow> permissionedPk \<Rightarrow> Member \<Rightarrow> acMember result" where
  "pp_NewMemberFromAcs E pp member =
     (case newPkMemberFromAcs E member (pp_adminMember pp) (pp_consensusMember pp)
             (acHashType (pp_acs pp)) of
        Inl e \<Rightarrow> Inl e
      | Inr pm \<Rightarrow> checked_org member pm)"

definition pp_cb :: "acEnv \<Rightarrow> permissionedPk \<Rightarrow> acCallbacks" where
  "pp_cb E pp = \<lparr>pwkNewMember = pp_NewMemberFromAcs E pp, certVerify = \<lambda>_. None\<rparr>"

definition with_acs ::
  "(acService \<Rightarrow> ('a \<times> acService) go) \<Rightarrow> permissionedPk \<Rightarrow> ('a \<times> permissionedPk) go" where
  "with_acs f pp = go_bind (f (pp_acs pp)) (\<lambda>(x, s). Inr (x, pp\<lparr>pp_acs := s\<rparr>))"

subsection \<open>Configuration\<close>

primrec admin_roots ::
  "acEnv \<Rightarrow> string \<Rightarrow> string list \<Rightarrow> (string \<rightharpoonup> adminMemberModel) \<Rightarrow>
   (string \<rightharpoonup> adminMemberModel) result" where
  "admin_roots E orgId [] admins = Inr admins"
| "admin_roots E orgId (root # roots) admins =
     (case PublicKeyFromPEM E root of None \<Rightarrow> Inl ErrParseKey
      | Some pk \<Rightarrow>
        case pk_Bytes E pk of None \<Rightarrow> Inl ErrKeyBytes
        | Some pkBytes \<Rightarrow>
          admin_roots E orgId roots
            (admins(hex_EncodeToString pkBytes \<mapsto>
               \<lparr>am_publicKey = pk, am_pkBytes = pkBytes, am_orgId = orgId\<rparr>)))"

primrec admin_orgs ::
  "acEnv \<Rightarrow> TrustRootConfig list \<Rightarrow>
   (string \<rightharpoonup> adminMemberModel) \<times> (string \<times> organization option) list \<times> i32 \<Rightarrow>
   ((string \<rightharpoonup> adminMemberModel) \<times> (string \<times> organization option) list \<times> i32) result" where
  "admin_orgs E [] st = Inr st"
| "admin_orgs E (tr # trs) st =
     (case st of (admins, orgs, n) \<Rightarrow>
        case admin_roots E (tr_OrgId tr) (tr_Root tr) admins of Inl e \<Rightarrow> Inl e
        | Inr admins \<Rightarrow>
          if map_of orgs (tr_OrgId tr) = None
          then admin_orgs E trs (admins, orgs @ [(tr_OrgId tr, None)], n + 1)
          else admin_orgs E trs (admins, orgs, n))"

definition pp_initAdminMembers ::
  "acEnv \<Rightarrow> TrustRootConfig list \<Rightarrow> permissionedPk \<Rightarrow> acError option \<times> permissionedPk" where
  "pp_initAdminMembers E roots pp =
     (case admin_orgs E roots (Map.empty, [], 0) of
        Inl e \<Rightarrow> (Some e, pp)
      | Inr (admins, orgs, n) \<Rightarrow>
        (None, pp\<lparr>pp_acs := (pp_acs pp)\<lparr>orgNum := n, orgInfos := orgs\<rparr>, pp_adminMember := admins\<rparr>))"

definition consensus_members :: "OrgConfig list \<Rightarrow> string \<rightharpoonup> consensusMemberModel" where
  "consensus_members confs =
     store_all (concat (map (\<lambda>conf. map (\<lambda>node.
       (node, \<lparr>cmm_nodeId = node, cmm_orgId = oc_OrgId conf\<rparr>)) (oc_NodeId conf)) confs)) Map.empty"

definition pp_initConsensusMember :: "OrgConfig list \<Rightarrow> permissionedPk \<Rightarrow> permissionedPk" where
  "pp_initConsensusMember confs pp = pp\<lparr>pp_consensusMember := consensus_members confs\<rparr>"

definition pp_update_acs :: "(acService \<Rightarrow> acService) \<Rightarrow> permissionedPk \<Rightarrow> permissionedPk" where
  "pp_update_acs f pp = pp\<lparr>pp_acs := f (pp_acs pp)\<rparr>"

definition newPermissionedPkACProvider :: "acEnv \<Rightarrow> acConfig \<Rightarrow> string \<Rightarrow> permissionedPk result" where
  "newPermissionedPkACProvider E cfg localOrgId =
     (let pp = \<lparr>pp_acs = initAccessControlService E (cc_Hash cfg) (ToLower (cc_AuthType cfg))
                          (cc_AddrType cfg),
                pp_localOrg = localOrgId, pp_adminMember = Map.empty,
                pp_consensusMember = Map.empty, pp_payerList = NewShardCache (GetCertCacheSize E)\<rparr>
      in case pp_initAdminMembers E (cc_TrustRoots cfg) pp of
           (Some e, _) \<Rightarrow> Inl e
         | (None, pp) \<Rightarrow>
           Inr (pp_update_acs (initResourcePolicy E (cc_ResourcePolicies cfg))
             (pp_initConsensusMember (cc_ConsensusNodes cfg) pp)))"

subsection \<open>Members and endorsements\<close>

definition pp_NewMember ::
  "acEnv \<Rightarrow> Member \<Rightarrow> permissionedPk \<Rightarrow> (acMember result \<times> permissionedPk) go" where
  "pp_NewMember E member pp =
     with_acs (newPkMember E (pp_cb E pp) member (pp_adminMember pp) (pp_consensusMember pp)) pp"

definition pp_newNodeMember ::
  "acEnv \<Rightarrow> Member \<Rightarrow> permissionedPk \<Rightarrow> (acMember result \<times> permissionedPk) go" where
  "pp_newNodeMember E member pp =
     with_acs (newNodePkMember E (pp_cb E pp) member (pp_consensusMember pp)) pp"

datatype MemberStatus = Status_NORMAL | Status_INVALID | Status_REVOKED | Status_FROZEN

definition pp_GetMemberStatus ::
  "acEnv \<Rightarrow> Member \<Rightarrow> permissionedPk \<Rightarrow> ((MemberStatus \<times> acError option) \<times> permissionedPk) go" where
  "pp_GetMemberStatus E member pp =
     go_bind (pp_newNodeMember E member pp) (\<lambda>(r, pp).
       case r of Inl e \<Rightarrow> Inr ((Status_INVALID, Some e), pp)
       | Inr _ \<Rightarrow> Inr ((Status_NORMAL, None), pp))"

primrec pp_refine_loop ::
  "acEnv \<Rightarrow> gobytes \<Rightarrow> EndorsementEntry option list \<Rightarrow> string list \<Rightarrow> EndorsementEntry option list \<Rightarrow>
   permissionedPk \<Rightarrow> (EndorsementEntry option list \<times> permissionedPk) go" where
  "pp_refine_loop E msg [] seen refined pp = Inr (refined, pp)"
| "pp_refine_loop E msg (e # es) seen refined pp =
     (case e of None \<Rightarrow> pp_refine_loop E msg es seen refined pp
      | Some entry \<Rightarrow>
        case Signer entry of None \<Rightarrow> pp_refine_loop E msg es seen refined pp
        | Some m \<Rightarrow>
          go_bind (pp_NewMember E m pp) (\<lambda>(r, pp).
            case r of Inl _ \<Rightarrow> pp_refine_loop E msg es seen refined pp
            | Inr mem \<Rightarrow>
              if member_Verify E mem (acHashType (pp_acs pp)) msg (Signature entry) \<noteq> None
              then pp_refine_loop E msg es seen refined pp
              else if MemberInfo m \<in> set seen then pp_refine_loop E msg es seen refined pp
              else pp_refine_loop E msg es (MemberInfo m # seen) (refined @ [e]) pp))"

definition pp_RefineEndorsements ::
  "acEnv \<Rightarrow> EndorsementEntry option list \<Rightarrow> gobytes \<Rightarrow> permissionedPk \<Rightarrow>
   (EndorsementEntry option list \<times> permissionedPk) go" where
  "pp_RefineEndorsements E es msg pp = pp_refine_loop E msg es [] [] pp"

definition pp_refinePrincipal ::
  "acEnv \<Rightarrow> principal \<Rightarrow> permissionedPk \<Rightarrow> (principal result \<times> permissionedPk) go" where
  "pp_refinePrincipal E prin pp =
     go_bind (pp_RefineEndorsements E (pr_endorsement prin) (pr_message prin) pp) (\<lambda>(refined, pp).
       if refined = [] then Inr (Inl ErrRefineFailed, pp)
       else Inr (createPrincipal (pr_resourceName prin) refined (pr_message prin), pp))"

definition pp_verifyPrincipalPolicy ::
  "acEnv \<Rightarrow> principal \<Rightarrow> principal \<Rightarrow> policy \<Rightarrow> permissionedPk \<Rightarrow> (verdict \<times> permissionedPk) go" where
  "pp_verifyPrincipalPolicy E prin refined pol pp =
     with_acs (acs_verifyPrincipalPolicy E (pp_cb E pp) prin refined pol) pp"

definition pp_provider :: "acEnv \<Rightarrow> permissionedPk acProvider" where
  "pp_provider E =
     \<lparr>getTotalVoterNum = (\<lambda>pp. orgCount (pp_acs pp)),
      verifyPrincipalPolicy = pp_verifyPrincipalPolicy E,
      refinePrincipal = pp_refinePrincipal E,
      refinePrincipalForCertOptimization = (\<lambda>_ pp. Inr (Inl ErrNotCalled, pp)),
      CreatePrincipal = createPrincipal,
      CreatePrincipalForTargetOrg = createPrincipalForTargetOrg,
      RefineEndorsements = pp_RefineEndorsements E,
      providerPols = (\<lambda>pp. acPols (pp_acs pp))\<rparr>"

text \<open>The three variants of \<^verbatim>\<open>getValidEndorsements\<close>, by block version.\<close>

definition pp_getValidEndorsements ::
  "acEnv \<Rightarrow> principal \<Rightarrow> u32 \<Rightarrow> permissionedPk \<Rightarrow>
   (EndorsementEntry option list result \<times> permissionedPk) go" where
  "pp_getValidEndorsements E prin blockVersion pp =
     (if orgCount (pp_acs pp) \<le> 0 then Inr (Inl ErrEmptyOrgList, pp)
      else go_bind (pp_refinePrincipal E prin pp) (\<lambda>(refined, pp).
        case refined of Inl e \<Rightarrow> Inr (Inl e, pp)
        | Inr refinedPolicy \<Rightarrow>
          go_bind (if blockVersion \<le> blockVersion220
                   then Inr (lookUpPolicyByResourceName220 (acPols (pp_acs pp)) (pr_resourceName prin))
                   else if blockVersion < blockVersion2330
                   then Inr (lookUpPolicyByResourceName2320 (acPols (pp_acs pp)) (pr_resourceName prin))
                   else go_bind (findFromEndorsementsPolicies (pr_resourceName prin) blockVersion
                                   (acPols (pp_acs pp))) (\<lambda>pol. go_bind (deref pol) (\<lambda>p. Inr (Some p))))
            (\<lambda>pol. case pol of None \<Rightarrow> Inr (Inl (ErrPolicyNotFound (pr_resourceName prin)), pp)
              | Some p \<Rightarrow>
                (let (orgs, roles) = buildOrgListRoleList p
                 in go_bind (with_acs (acs_getValidEndorsements E (pp_cb E pp) orgs roles
                               (pr_endorsement refinedPolicy)) pp)
                      (\<lambda>(es, pp). Inr (Inr es, pp))))))"

subsection \<open>Addresses and payers\<close>

definition address_of ::
  "acEnv \<Rightarrow> AddrType \<Rightarrow> string \<Rightarrow> string \<Rightarrow> memberCached ShardCache \<Rightarrow>
   (string \<times> pubKey option) result \<times> memberCached ShardCache" where
  "address_of E addrType hashType pkPem cache =
     (case Cache_Get cache (''pk_'' @ pkPem) of
        Some cached \<Rightarrow> (Inr (mc_address cached, mc_pk cached), cache)
      | None \<Rightarrow>
        case PublicKeyFromPEM E pkPem of None \<Rightarrow> (Inl ErrParseKey, cache)
        | Some pk \<Rightarrow>
          case addr_string E (Some pk) addrType hashType of Inl e \<Rightarrow> (Inl e, cache)
          | Inr a \<Rightarrow>
            (Inr (a, Some pk),
             Cache_Add (''pk_'' @ pkPem)
               \<lparr>mc_member = None, mc_certChain = [], mc_address = a, mc_pk = Some pk\<rparr> cache))"

definition pp_GetAddressFromCache ::
  "acEnv \<Rightarrow> string \<Rightarrow> permissionedPk \<Rightarrow> (string \<times> pubKey option) result \<times> permissionedPk" where
  "pp_GetAddressFromCache E pkPem pp =
     (let s = pp_acs pp
      in case lookUpMemberInCache s pkPem of
           Some cached \<Rightarrow> (Inr (mc_address cached, mc_pk cached), pp)
         | None \<Rightarrow>
           (case address_of E (addressType s) (acHashType s) pkPem (memberCache s) of
              (r, c) \<Rightarrow> (r, pp\<lparr>pp_acs := s\<lparr>memberCache := c\<rparr>\<rparr>)))"

definition pp_GetPayerFromCache :: "permissionedPk \<Rightarrow> string \<Rightarrow> string result" where
  "pp_GetPayerFromCache pp key =
     (case Cache_Get (pp_payerList pp) key of None \<Rightarrow> Inl ErrNotFound | Some v \<Rightarrow> Inr v)"

definition pp_SetPayerToCache :: "string \<Rightarrow> string \<Rightarrow> permissionedPk \<Rightarrow> permissionedPk" where
  "pp_SetPayerToCache key v pp = pp\<lparr>pp_payerList := Cache_Add key v (pp_payerList pp)\<rparr>"

subsection \<open>Messages of the bus\<close>

text \<open>
  A block with a successful transaction that sets or unsets the payer of a contract updates the
  cache of payers. A transaction is given by its payload and whether its result is success. The
  last parameter with a key counts.
\<close>

type_synonym payerTx = "acPayload \<times> bool"

definition last_param :: "string \<Rightarrow> acPayload \<Rightarrow> gobytes" where
  "last_param key pl = (case Parameters pl of None \<Rightarrow> None | Some kvs \<Rightarrow> map_of (rev kvs) key)"

datatype payerChange = SetPayer acPayload | UnsetPayer acPayload | NoPayerChange

definition payer_change :: "payerTx list option \<Rightarrow> payerChange" where
  "payer_change block =
     (case block of None \<Rightarrow> NoPayerChange
      | Some txs \<Rightarrow>
        if length txs > 2 \<or> txs = [] then NoPayerChange
        else (let (pl, success) = hd txs
              in if ContractName pl = ''ACCOUNT_MANAGER'' \<and> Method pl = ''SET_CONTRACT_METHOD_PAYER'' \<and> success
                 then SetPayer pl
                 else if ContractName pl = ''ACCOUNT_MANAGER'' \<and> Method pl = ''UNSET_CONTRACT_METHOD_PAYER'' \<and> success
                 then UnsetPayer pl
                 else NoPayerChange))"

definition payer_key :: "acEnv \<Rightarrow> string \<Rightarrow> string \<Rightarrow> string" where
  "payer_key E contract method =
     (if method \<noteq> [] \<and> contract \<noteq> [] then PrefixContractMethodPayer E @ contract @ Separator E @ method
      else if contract \<noteq> [] then PrefixContractMethodPayer E @ contract
      else PrefixContractMethodPayer E)"

definition bytes_or_empty :: "gobytes \<Rightarrow> string" where
  "bytes_or_empty b = (case b of None \<Rightarrow> [] | Some x \<Rightarrow> x)"

definition unset_key :: "acEnv \<Rightarrow> acPayload \<Rightarrow> string" where
  "unset_key E pl =
     payer_key E (bytes_or_empty (last_param ''CONTRACT_NAME'' pl)) (bytes_or_empty (last_param ''METHOD'' pl))"

definition pp_getPK :: "acEnv \<Rightarrow> gobytes \<Rightarrow> permissionedPk \<Rightarrow> (string \<times> permissionedPk) go" where
  "pp_getPK E bytes pp =
     (case UnmarshalEndorsement E bytes of None \<Rightarrow> Inr ([], pp)
      | Some entry \<Rightarrow>
        go_bind (deref (Signer entry)) (\<lambda>m.
        go_bind (pp_NewMember E m pp) (\<lambda>(r, pp).
          case r of Inl _ \<Rightarrow> Inr ([], pp)
          | Inr mem \<Rightarrow> Inr (bytes_or_empty (pk_String E (GetPk mem)), pp))))"

definition pp_handleSetPayer :: "acEnv \<Rightarrow> acPayload \<Rightarrow> permissionedPk \<Rightarrow> permissionedPk go" where
  "pp_handleSetPayer E pl pp =
     go_bind (pp_getPK E (last_param ''ENDORSEMENT'' pl) pp) (\<lambda>(pkStr, pp).
       (let (contract, method) = UnmarshalPayerParams E (last_param ''PARAMS'' pl)
        in Inr (pp_SetPayerToCache (payer_key E contract method) pkStr pp)))"

definition pp_handleUnsetPayer :: "acEnv \<Rightarrow> acPayload \<Rightarrow> permissionedPk \<Rightarrow> permissionedPk" where
  "pp_handleUnsetPayer E pl pp = pp\<lparr>pp_payerList := Cache_Remove (unset_key E pl) (pp_payerList pp)\<rparr>"

definition pp_onMessageBlockInfo ::
  "acEnv \<Rightarrow> payerTx list option \<Rightarrow> permissionedPk \<Rightarrow> permissionedPk go" where
  "pp_onMessageBlockInfo E block pp =
     (case payer_change block of
        SetPayer pl \<Rightarrow> pp_handleSetPayer E pl pp
      | UnsetPayer pl \<Rightarrow> Inr (pp_handleUnsetPayer E pl pp)
      | NoPayerChange \<Rightarrow> Inr pp)"

definition clear_members :: "acService \<Rightarrow> acService" where
  "clear_members s = s\<lparr>memberCache := Cache_Clear (memberCache s)\<rparr>"

definition pp_onMessageChainConfig :: "acEnv \<Rightarrow> acConfig \<Rightarrow> permissionedPk \<Rightarrow> permissionedPk" where
  "pp_onMessageChainConfig E cfg pp =
     (let pp = pp_update_acs (\<lambda>s. s\<lparr>acHashType := cc_Hash cfg\<rparr>) pp;
          pp = snd (pp_initAdminMembers E (cc_TrustRoots cfg) pp);
          pp = pp_initConsensusMember (cc_ConsensusNodes cfg) pp;
          pp = pp_update_acs (initResourcePolicy E (cc_ResourcePolicies cfg)) pp
      in pp_update_acs clear_members pp)"

definition pp_Watch :: "acEnv \<Rightarrow> acConfig \<Rightarrow> permissionedPk \<Rightarrow> acError option \<times> permissionedPk" where
  "pp_Watch E cfg pp =
     (let pp = pp_update_acs (\<lambda>s. s\<lparr>acHashType := cc_Hash cfg\<rparr>) pp
      in case pp_initAdminMembers E (cc_TrustRoots cfg) pp of
           (Some e, pp) \<Rightarrow> (Some e, pp)
         | (None, pp) \<Rightarrow>
           (let pp = pp_initConsensusMember (cc_ConsensusNodes cfg) pp;
                pp = pp_update_acs (initResourcePolicy E (cc_ResourcePolicies cfg)) pp;
                pp = pp_update_acs (initResourcePolicy_220 E (cc_ResourcePolicies cfg)) pp
            in (None, pp_update_acs clear_members pp)))"

text \<open>
  The key of a deleted member is removed from the cache in its canonical form. A key that does not
  parse makes the handler of the bus dereference nil; the callback of older versions returns an
  error.
\<close>

definition pp_forget :: "string \<Rightarrow> permissionedPk \<Rightarrow> permissionedPk" where
  "pp_forget pkStr pp =
     pp_update_acs (\<lambda>s. s\<lparr>memberCache := Cache_Remove pkStr (memberCache s)\<rparr>) pp"

definition pp_onMessagePublishKeyManageDelete ::
  "acEnv \<Rightarrow> string \<Rightarrow> permissionedPk \<Rightarrow> permissionedPk go" where
  "pp_onMessagePublishKeyManageDelete E publishKey pp =
     go_bind (deref (PublicKeyFromPEM E publishKey)) (\<lambda>pk.
       Inr (pp_forget (bytes_or_empty (pk_String E pk)) pp))"

primrec pp_delete_params ::
  "acEnv \<Rightarrow> (string \<times> string) list \<Rightarrow> permissionedPk \<Rightarrow> acError option \<times> permissionedPk" where
  "pp_delete_params E [] pp = (None, pp)"
| "pp_delete_params E (kv # kvs) pp =
     (if fst kv = ''pubkey'' then
        (case PublicKeyFromPEM E (snd kv) of None \<Rightarrow> (Some ErrParseKey, pp)
         | Some pk \<Rightarrow>
           case pk_String E pk of None \<Rightarrow> (Some ErrKeyBytes, pp)
           | Some pkStr \<Rightarrow> pp_delete_params E kvs (pp_forget pkStr pp))
      else pp_delete_params E kvs pp)"

datatype pwkMessage =
    PwkChainConfig acConfig
  | PwkKeyDelete string
  | PwkBlockInfo "payerTx list option"

fun pp_OnMessage :: "acEnv \<Rightarrow> pwkMessage \<Rightarrow> permissionedPk \<Rightarrow> permissionedPk go" where
  "pp_OnMessage E (PwkChainConfig cfg) pp = Inr (pp_onMessageChainConfig E cfg pp)"
| "pp_OnMessage E (PwkKeyDelete key) pp = pp_onMessagePublishKeyManageDelete E key pp"
| "pp_OnMessage E (PwkBlockInfo block) pp = pp_onMessageBlockInfo E block pp"

end
