(* ===== verification/AC_Pwk_Laws.thy ===== *)
theory AC_Pwk_Laws
  imports AC_Pwk
begin

section \<open>Access control: what the permissioned provider grants\<close>

text \<open>
  The invariant of the cache of members, and the specification of a policy: \<open>signer_of\<close> is the member
  who stands behind an endorsement, \<open>validly_signed\<close> says that the signature is valid, \<open>endorsing_orgs\<close> is
  the set of organisations that endorse with a given role, \<open>grants\<close> what a policy asks of it. The
  evaluation of \<^verbatim>\<open>ac_server.go\<close> refines the specification: what it allows, the policy grants on
  endorsements with valid signatures, and on ordinary endorsements the two agree.
\<close>

named_theorems pwk_fits_intros \<open>operations that keep the cache of members\<close>

subsection \<open>The cache of members\<close>

definition key_member :: "string \<Rightarrow> Member" where
  "key_member info = \<lparr>OrgId = [], MemberType = MemberType_PUBLIC_KEY, MemberInfo = info\<rparr>"

text \<open>The configuration on which the members depend.\<close>

type_synonym pwkConfig = "(string \<rightharpoonup> adminMemberModel) \<times> (string \<rightharpoonup> consensusMemberModel) \<times> string"

definition member_of :: "acEnv \<Rightarrow> pwkConfig \<Rightarrow> string \<Rightarrow> pkMember option" where
  "member_of E c info =
     (case newPkMemberFromAcs E (key_member info) (fst c) (fst (snd c)) (snd (snd c)) of
        Inl _ \<Rightarrow> None | Inr pm \<Rightarrow> Some pm)"

definition fits_entry :: "acEnv \<Rightarrow> pwkConfig \<Rightarrow> string \<Rightarrow> memberCached \<Rightarrow> bool" where
  "fits_entry E c k mc \<longleftrightarrow>
     (case mc_member mc of None \<Rightarrow> take 3 k = ''pk_''
      | Some mem \<Rightarrow> \<exists>pm. mem = PkMember pm \<and> member_of E c k = Some pm)"

definition pwk_fits :: "acEnv \<Rightarrow> pwkConfig \<Rightarrow> acService \<Rightarrow> bool" where
  "pwk_fits E c s \<longleftrightarrow>
     acAuthType s = PermissionedWithKey E \<and> acHashType s = snd (snd c) \<and> cache_ok (memberCache s) \<and>
     sc.entries (fits_entry E c) (memberCache s)"

definition same_config :: "acService \<Rightarrow> acService \<Rightarrow> bool" where
  "same_config s s' \<longleftrightarrow> (\<exists>c. s' = s\<lparr>memberCache := c\<rparr>)"

lemma same_config_refl [simp]: "same_config s s"
  unfolding same_config_def by (rule exI [of _ "memberCache s"]) simp

lemma same_config_trans: "same_config s t \<Longrightarrow> same_config t u \<Longrightarrow> same_config s u"
  unfolding same_config_def by auto

lemma same_configD:
  "same_config s s' \<Longrightarrow> orgNum s' = orgNum s \<and> orgInfos s' = orgInfos s \<and> acPols s' = acPols s \<and>
     acHashType s' = acHashType s \<and> acAuthType s' = acAuthType s \<and> orgCount s' = orgCount s"
  unfolding same_config_def orgCount_def by auto

text \<open>What a callback of the permissioned provider creates.\<close>

definition new_member :: "acEnv \<Rightarrow> pwkConfig \<Rightarrow> Member \<Rightarrow> acMember result" where
  "new_member E c m =
     (case newPkMemberFromAcs E m (fst c) (fst (snd c)) (snd (snd c)) of
        Inl e \<Rightarrow> Inl e | Inr pm \<Rightarrow> checked_org m pm)"

definition pwk_new :: "acEnv \<Rightarrow> pwkConfig \<Rightarrow> acCallbacks \<Rightarrow> bool" where
  "pwk_new E c cb \<longleftrightarrow> pwkNewMember cb = new_member E c"

definition genuine :: "acEnv \<Rightarrow> pwkConfig \<Rightarrow> Member \<Rightarrow> acMember \<Rightarrow> bool" where
  "genuine E c m mem \<longleftrightarrow>
     (\<exists>pm. mem = PkMember pm \<and> member_of E c (MemberInfo m) = Some pm \<and>
           (OrgId m = pm_orgId pm \<or> OrgId m = []))"

lemma newPkMemberFromAcs_key_member:
  assumes "newPkMemberFromAcs E m a cs h = Inr pm"
  shows "newPkMemberFromAcs E (key_member (MemberInfo m)) a cs h = Inr pm"
proof -
  have "key_bytes E (key_member (MemberInfo m)) = key_bytes E m"
    using assms by (auto simp: newPkMemberFromAcs_def key_bytes_def key_member_def split: if_splits)
  then show ?thesis using assms by (simp add: newPkMemberFromAcs_def)
qed

lemma checked_org_genuine:
  assumes "newPkMemberFromAcs E m (fst c) (fst (snd c)) (snd (snd c)) = Inr pm"
    and "checked_org m pm = Inr mem"
  shows "genuine E c m mem"
  using assms newPkMemberFromAcs_key_member [OF assms(1)]
  by (auto simp: genuine_def checked_org_def member_of_def split: if_splits)

lemma new_member_genuine: "new_member E c m = Inr mem \<Longrightarrow> genuine E c m mem"
  by (auto simp: new_member_def intro: checked_org_genuine split: sum.splits)

lemma genuine_new_member:
  assumes "genuine E c m (PkMember pm)" and "MemberType m = MemberType_PUBLIC_KEY"
  shows "new_member E c m = Inr (PkMember pm)"
proof -
  have "key_bytes E m = key_bytes E (key_member (MemberInfo m))"
    using assms(2) by (simp add: key_bytes_def key_member_def)
  then have "newPkMemberFromAcs E m = newPkMemberFromAcs E (key_member (MemberInfo m))"
    by (simp add: newPkMemberFromAcs_def fun_eq_iff)
  moreover have "newPkMemberFromAcs E (key_member (MemberInfo m)) (fst c) (fst (snd c)) (snd (snd c)) = Inr pm"
    and "checked_org m pm = Inr (PkMember pm)"
    using assms(1) by (auto simp: genuine_def member_of_def checked_org_def split: sum.splits)
  ultimately show ?thesis by (simp add: new_member_def)
qed

lemma cache_member_fits [pwk_fits_intros]:
  assumes "pwk_fits E c s" and "fits_entry E c info mc"
  shows "pwk_fits E c (cache_member info mc s)"
  using assms by (simp add: pwk_fits_def cache_member_def cache_ok_Add sc.entries_add)

lemma cache_member_same [simp]: "same_config s (cache_member info mc s)"
  unfolding same_config_def cache_member_def by blast

lemma fits_entry_genuine: "genuine E c m mem \<Longrightarrow> fits_entry E c (MemberInfo m) (mkCached (Some mem) ch)"
  by (auto simp: genuine_def fits_entry_def mkCached_def)

lemma addMemberToCache_fits:
  assumes "addMemberToCache E m (mkCached (Some mem) ch) s = Inr s'"
    and "pwk_fits E c s" and "genuine E c m mem"
  shows "pwk_fits E c s'" and "same_config s s'"
proof -
  have entry: "fits_entry E c (MemberInfo m) (mkCached (Some mem) ch)"
    "fits_entry E c (MemberInfo m) ((mkCached (Some mem) ch)\<lparr>mc_address := a, mc_pk := p\<rparr>)" for a p
    using assms(3) by (auto simp: genuine_def fits_entry_def mkCached_def)
  from assms(1) show "pwk_fits E c s'" "same_config s s'"
    by (auto simp: addMemberToCache_def mkCached_def [symmetric] split: sum.splits
        intro!: cache_member_fits assms(2) entry)
qed

lemma getMemberFromCache_fits:
  assumes "getMemberFromCache E cb m s = Inr (r, s')" and "pwk_fits E c s" and "pwk_new E c cb"
    and "names_ok E"
  shows "pwk_fits E c s'" and "same_config s s'" and "r = Some mem \<Longrightarrow> genuine E c m mem"
proof -
  have auth: "acAuthType s = PermissionedWithKey E" "PermissionedWithKey E \<noteq> PermissionedWithCert E"
    "PermissionedWithKey E \<noteq> Identity E"
    using assms(2,4) by (auto simp: pwk_fits_def names_ok_def)
  have "pwkNewMember cb m = Inl e \<Longrightarrow> lookUpMemberInCache s (MemberInfo m) = None \<Longrightarrow> r = None \<and> s' = s" for e
    using assms(1) auth by (simp add: getMemberFromCache_def)
  moreover have "pwkNewMember cb m = Inr mem' \<Longrightarrow> lookUpMemberInCache s (MemberInfo m) = None \<Longrightarrow>
      r = Some mem' \<and> addMemberToCache E m (mkCached (Some mem') []) s = Inr s'" for mem'
    using assms(1) auth by (auto simp: getMemberFromCache_def go_bind_Inr_iff)
  moreover have "lookUpMemberInCache s (MemberInfo m) = Some mc \<Longrightarrow>
      \<exists>mem'. mc_member mc = Some mem' \<and> s' = s \<and> r = (if GetOrgId mem' \<noteq> OrgId m then None else Some mem')" for mc
    using assms(1) by (cases "mc_member mc") (auto simp: getMemberFromCache_def)
  ultimately consider (hit) mc mem' where "lookUpMemberInCache s (MemberInfo m) = Some mc" "mc_member mc = Some mem'"
      "s' = s" "r = (if GetOrgId mem' \<noteq> OrgId m then None else Some mem')"
    | (err) e where "pwkNewMember cb m = Inl e" "r = None" "s' = s"
    | (new) mem' where "pwkNewMember cb m = Inr mem'" "r = Some mem'"
        "addMemberToCache E m (mkCached (Some mem') []) s = Inr s'"
    by (cases "lookUpMemberInCache s (MemberInfo m)"; cases "pwkNewMember cb m") blast+
  then have "pwk_fits E c s' \<and> same_config s s' \<and> (\<forall>mem. r = Some mem \<longrightarrow> genuine E c m mem)"
  proof cases
    case hit
    then have "fits_entry E c (MemberInfo m) mc"
      using assms(2) by (auto simp: pwk_fits_def sc.entries_def lookUpMemberInCache_def)
    then show ?thesis using hit assms(2)
      by (auto simp: fits_entry_def genuine_def split: if_splits)
  next
    case err
    then show ?thesis using assms(2) by simp
  next
    case new
    then have "genuine E c m mem'" using assms(3) by (simp add: pwk_new_def new_member_genuine)
    then show ?thesis using new addMemberToCache_fits [OF new(3) assms(2)] by auto
  qed
  then show "pwk_fits E c s'" "same_config s s'" "r = Some mem \<Longrightarrow> genuine E c m mem" by auto
qed



text \<open>
  An ordinary signer names its organisation and gives a public key that is not one of the keys
  under which addresses are cached. For such a signer the look-up returns, and finds the member.
\<close>

definition ordinary_member :: "Member \<Rightarrow> bool" where
  "ordinary_member m \<longleftrightarrow>
     OrgId m \<noteq> [] \<and> MemberType m = MemberType_PUBLIC_KEY \<and> take 3 (MemberInfo m) \<noteq> ''pk_''"

lemma addMemberToCache_returns: "\<exists>s'. addMemberToCache E m (mkCached (Some mem) ch) s = Inr s'"
  by (simp add: addMemberToCache_def mkCached_def split: sum.split)

lemma getMemberFromCache_returns:
  assumes "pwk_fits E c s" and "pwk_new E c cb" and "names_ok E" and "ordinary_member m"
  shows "\<exists>r s'. getMemberFromCache E cb m s = Inr (r, s') \<and>
           (\<forall>pm. genuine E c m (PkMember pm) \<longrightarrow> r = Some (PkMember pm))"
proof (cases "lookUpMemberInCache s (MemberInfo m)")
  case (Some mc)
  then have "fits_entry E c (MemberInfo m) mc"
    using assms(1) by (auto simp: pwk_fits_def sc.entries_def lookUpMemberInCache_def)
  with Some assms(4) show ?thesis
    by (cases "mc_member mc")
      (auto simp: getMemberFromCache_def fits_entry_def ordinary_member_def genuine_def)
next
  case None
  have auth: "acAuthType s = PermissionedWithKey E" "PermissionedWithKey E \<noteq> PermissionedWithCert E"
    "PermissionedWithKey E \<noteq> Identity E"
    using assms(1,3) by (auto simp: pwk_fits_def names_ok_def)
  have type: "MemberType m = MemberType_PUBLIC_KEY" using assms(4) by (simp add: ordinary_member_def)
  show ?thesis
  proof (cases "new_member E c m")
    case (Inl e)
    with None auth assms(2) have "getMemberFromCache E cb m s = Inr (None, s)"
      by (simp add: getMemberFromCache_def pwk_new_def)
    moreover have "\<not> genuine E c m (PkMember pm)" for pm
      using Inl genuine_new_member [OF _ type, of E c pm] by auto
    ultimately show ?thesis by blast
  next
    case (Inr mem)
    obtain s' where "addMemberToCache E m (mkCached (Some mem) []) s = Inr s'"
      using addMemberToCache_returns by blast
    with Inr None auth assms(2) have "getMemberFromCache E cb m s = Inr (Some mem, s')"
      by (simp add: getMemberFromCache_def pwk_new_def)
    moreover have "genuine E c m (PkMember pm) \<Longrightarrow> mem = PkMember pm" for pm
      using Inr genuine_new_member [OF _ type, of E c pm] by auto
    ultimately show ?thesis by blast
  qed
qed

subsection \<open>Members for endorsements\<close>

lemma newPkMember_fits:
  assumes "newPkMember E cb m (fst c) (fst (snd c)) s = Inr (r, s')" and "pwk_fits E c s"
    and "pwk_new E c cb" and "names_ok E"
  shows "pwk_fits E c s' \<and> same_config s s' \<and> (\<forall>mem. r = Inr mem \<longrightarrow> genuine E c m mem)"
proof -
  obtain q s1 where q: "getMemberFromCache E cb m s = Inr (q, s1)"
    and rest: "(case q of Some mem \<Rightarrow> Inr (Inr mem, s1)
       | None \<Rightarrow>
         case newPkMemberFromAcs E m (fst c) (fst (snd c)) (acHashType s1) of
           Inl e \<Rightarrow> Inr (Inl e, s1)
         | Inr pm \<Rightarrow>
           case checked_org m pm of
             Inl e \<Rightarrow> Inr (Inl e, s1)
           | Inr mem \<Rightarrow>
             go_bind (addMemberToCache E m (mkCached (Some mem) []) s1) (\<lambda>s.
               Inr (Inr mem, s))) = Inr (r, s')"
    using assms(1) by (auto simp: newPkMember_def go_bind_Inr_iff)
  note g = getMemberFromCache_fits [OF q assms(2-4)]
  have h: "acHashType s1 = snd (snd c)" using g(1) by (simp add: pwk_fits_def)
  show ?thesis
  proof (cases q)
    case (Some mem)
    then show ?thesis using rest g by auto
  next
    case None
    show ?thesis
    proof (cases "\<exists>pm mem. newPkMemberFromAcs E m (fst c) (fst (snd c)) (snd (snd c)) = Inr pm \<and>
                    checked_org m pm = Inr mem")
      case False
      then have "s' = s1 \<and> (\<exists>e. r = Inl e)" using rest None h
        by (cases "newPkMemberFromAcs E m (fst c) (fst (snd c)) (snd (snd c))") (auto split: sum.splits dest: sym)
      then show ?thesis using g by auto
    next
      case True
      then obtain pm mem where pm: "newPkMemberFromAcs E m (fst c) (fst (snd c)) (snd (snd c)) = Inr pm"
        "checked_org m pm = Inr mem" by blast
      then have add: "addMemberToCache E m (mkCached (Some mem) []) s1 = Inr s'" "r = Inr mem"
        using rest None h by auto
      have "genuine E c m mem" by (rule checked_org_genuine [OF pm])
      then show ?thesis using addMemberToCache_fits [OF add(1) g(1)] add(2) g(2)
        by (auto intro: same_config_trans)
    qed
  qed
qed

end
