(* ===== verification/AC_Pwk_Grants.thy ===== *)
theory AC_Pwk_Grants
  imports AC_Pwk_Laws
begin

section \<open>Access control: the evaluation of a policy refines what the policy asks\<close>

text \<open>
  The specification of a policy over a list of endorsements, and the lemmas that the loops of
  \<^verbatim>\<open>ac_server.go\<close> and the refinement of endorsements compute it. Each loop has two lemmas: what it
  returns is sound for any endorsements, and it returns everything that counts when the
  endorsements are ordinary.
\<close>

subsection \<open>Specification\<close>

definition signer_of :: "acEnv \<Rightarrow> pwkConfig \<Rightarrow> EndorsementEntry option \<Rightarrow> pkMember option" where
  "signer_of E c e =
     (case e of None \<Rightarrow> None
      | Some entry \<Rightarrow>
        case Signer entry of None \<Rightarrow> None
        | Some m \<Rightarrow>
          case member_of E c (MemberInfo m) of None \<Rightarrow> None
          | Some pm \<Rightarrow> if OrgId m = pm_orgId pm \<or> OrgId m = [] then Some pm else None)"

definition validly_signed :: "acEnv \<Rightarrow> pwkConfig \<Rightarrow> gobytes \<Rightarrow> EndorsementEntry option \<Rightarrow> bool" where
  "validly_signed E c msg e =
     (case e of None \<Rightarrow> False
      | Some entry \<Rightarrow>
        case signer_of E c e of None \<Rightarrow> False
        | Some pm \<Rightarrow> pk_Verify E pm (snd (snd c)) msg (Signature entry) = None)"

definition claimed_org :: "EndorsementEntry option \<Rightarrow> string" where
  "claimed_org e =
     (case e of None \<Rightarrow> []
      | Some entry \<Rightarrow> case Signer entry of None \<Rightarrow> [] | Some m \<Rightarrow> OrgId m)"

definition counts :: "string list \<Rightarrow> Role list \<Rightarrow> pkMember \<Rightarrow> bool" where
  "counts orgs roles pm \<longleftrightarrow>
     (orgs = [] \<or> pm_orgId pm \<in> set orgs) \<and> (roles = [] \<or> pm_role pm \<in> set roles)"

definition endorsing_orgs ::
  "acEnv \<Rightarrow> pwkConfig \<Rightarrow> string list \<Rightarrow> Role list \<Rightarrow> EndorsementEntry option list \<Rightarrow> string set" where
  "endorsing_orgs E c orgs roles es =
     set (map pm_orgId (filter (counts orgs roles) (List.map_filter (signer_of E c) es)))"

text \<open>
  What a rule asks of the number of endorsing organisations, where the chain has \<open>n\<close>; the roles
  and organisations that are counted; and the whole rule.
\<close>

definition num_met :: "acEnv \<Rightarrow> int \<Rightarrow> policy \<Rightarrow> int \<Rightarrow> bool" where
  "num_met E n pol num =
     (let r = pol_rule pol; orgs = pol_orgList pol;
          voters = (if orgs = [] then n else int (card (set orgs)))
      in if r = RuleMajority E then n < 2 * num
         else if r = RuleAll E then num = voters
         else case split_at CHR ''/'' r of
             [k] \<Rightarrow> (case Atoi k of None \<Rightarrow> False | Some threshold \<Rightarrow> threshold \<le> num)
           | [k, d] \<Rightarrow>
             (case Atoi k of None \<Rightarrow> False
              | Some numerator \<Rightarrow>
                case Atoi d of None \<Rightarrow> False
                | Some denominator \<Rightarrow>
                  portion_met num voters numerator (if denominator \<le> 0 then n else denominator))
           | _ \<Rightarrow> False)"

definition counted_orgs :: "acEnv \<Rightarrow> policy \<Rightarrow> string list" where
  "counted_orgs E pol = (if pol_rule pol = RuleMajority E then [] else pol_orgList pol)"

definition counted_roles :: "acEnv \<Rightarrow> policy \<Rightarrow> Role list" where
  "counted_roles E pol = (if pol_rule pol = RuleMajority E then [RoleAdmin E] else pol_roleList pol)"

definition grants ::
  "acEnv \<Rightarrow> pwkConfig \<Rightarrow> int \<Rightarrow> string \<Rightarrow> policy \<Rightarrow> EndorsementEntry option list \<Rightarrow> bool" where
  "grants E c n target pol es =
     (let r = pol_rule pol; endorsing = endorsing_orgs E c (counted_orgs E pol) (counted_roles E pol) es
      in if r = RuleForbidden E then False
         else if r = RuleSelf E then target \<noteq> [] \<and> target \<in> endorsing_orgs E c [] [RoleAdmin E] es
         else if r = RuleAny E then endorsing \<noteq> {}
         else num_met E n pol (int (card endorsing)))"

definition claims_org :: "EndorsementEntry option \<Rightarrow> bool" where
  "claims_org e \<longleftrightarrow> (case e of None \<Rightarrow> True | Some entry \<Rightarrow>
     case Signer entry of None \<Rightarrow> True | Some m \<Rightarrow> OrgId m \<noteq> [])"

definition ordinary :: "EndorsementEntry option \<Rightarrow> bool" where
  "ordinary e \<longleftrightarrow> (case e of None \<Rightarrow> False | Some entry \<Rightarrow>
     case Signer entry of None \<Rightarrow> False | Some m \<Rightarrow> ordinary_member m)"

lemma ordinary_claims_org [simp]: "ordinary e \<Longrightarrow> claims_org e"
  by (auto simp: ordinary_def claims_org_def ordinary_member_def split: option.splits)

lemma signer_of_genuine:
  "Signer entry = Some m \<Longrightarrow> signer_of E c (Some entry) = Some pm \<longleftrightarrow> genuine E c m (PkMember pm)"
  by (auto simp: signer_of_def genuine_def split: option.splits)

lemma signer_of_org: "signer_of E c e = Some pm \<Longrightarrow> claims_org e \<Longrightarrow> claimed_org e = pm_orgId pm"
  by (auto simp: signer_of_def claims_org_def claimed_org_def split: option.splits if_splits)

lemma signed_signer: "validly_signed E c msg e \<Longrightarrow> \<exists>pm. signer_of E c e = Some pm"
  by (auto simp: validly_signed_def split: option.splits)

lemma genuine_PkMember: "genuine E c m mem \<Longrightarrow> \<exists>pm. mem = PkMember pm"
  by (auto simp: genuine_def)

lemma endorsing_orgs_iff:
  "o' \<in> endorsing_orgs E c orgs roles es \<longleftrightarrow>
     (\<exists>e \<in> set es. \<exists>pm. signer_of E c e = Some pm \<and> counts orgs roles pm \<and> pm_orgId pm = o')"
  by (force simp: endorsing_orgs_def List.map_filter_def)

lemma endorsing_orgs_remdups [simp]:
  "endorsing_orgs E c (remdups orgs) (remdups roles) es = endorsing_orgs E c orgs roles es"
  by (simp add: endorsing_orgs_def counts_def cong: filter_cong)

lemma finite_endorsing_orgs [simp]: "finite (endorsing_orgs E c orgs roles es)"
  by (simp add: endorsing_orgs_def)

subsection \<open>Counting organisations\<close>

lemma count_orgs_set:
  "count_orgs es acc = Inr ms \<Longrightarrow> distinct acc \<Longrightarrow>
     distinct ms \<and> set ms = set acc \<union> claimed_org ` set es"
proof (induction es arbitrary: acc)
  case (Cons e es)
  then obtain m where m: "signer e = Inr m" "count_orgs es (List.insert (OrgId m) acc) = Inr ms"
    by (auto simp: go_bind_Inr_iff)
  then have "claimed_org e = OrgId m"
    by (auto simp: signer_def claimed_org_def go_bind_Inr_iff)
  then show ?case using Cons.IH [OF m(2)] Cons.prems(2) by (auto simp: distinct_insert)
qed simp

lemma signer_returns: "ordinary e \<Longrightarrow> \<exists>m. signer e = Inr m \<and> ordinary_member m"
  by (auto simp: ordinary_def signer_def split: option.splits)

lemma signer_of_signer: "signer_of E c e = Some pm \<Longrightarrow> \<exists>m. signer e = Inr m"
  by (auto simp: signer_of_def signer_def split: option.splits)

lemma count_orgs_returns:
  "\<forall>e \<in> set es. \<exists>m. signer e = Inr m \<Longrightarrow> \<exists>ms. count_orgs es acc = Inr ms"
  by (induction es arbitrary: acc) auto

lemma countOrgs_card:
  assumes "\<forall>e \<in> set es. \<exists>pm. signer_of E c e = Some pm"
  shows "countOrgsFromEndorsements es = Inr (int (card (claimed_org ` set es)))"
proof -
  have "\<forall>e \<in> set es. \<exists>m. signer e = Inr m" using assms signer_of_signer by blast
  then obtain ms where ms: "count_orgs es [] = Inr ms" using count_orgs_returns by blast
  from count_orgs_set [OF this] have "distinct ms" "set ms = claimed_org ` set es" by auto
  then have "length ms = card (claimed_org ` set es)" by (metis distinct_card)
  with ms show ?thesis by (simp add: countOrgsFromEndorsements_def)
qed

subsection \<open>The loops over endorsements\<close>

definition has_signer :: "acEnv \<Rightarrow> pwkConfig \<Rightarrow> EndorsementEntry option \<Rightarrow> bool" where
  "has_signer E c e \<longleftrightarrow> claims_org e \<and> signer_of E c e \<noteq> None"

definition entitled ::
  "acEnv \<Rightarrow> pwkConfig \<Rightarrow> string list \<Rightarrow> Role list \<Rightarrow> EndorsementEntry option \<Rightarrow> bool" where
  "entitled E c orgs roles e \<longleftrightarrow> (\<exists>pm. signer_of E c e = Some pm \<and> counts orgs roles pm)"

lemma has_signerE:
  assumes "has_signer E c e"
  obtains entry m pm where "e = Some entry" "Signer entry = Some m" "signer_of E c e = Some pm"
    "genuine E c m (PkMember pm)" "OrgId m = pm_orgId pm" "signer e = Inr m"
    "claimed_org e = pm_orgId pm" "org_permitted orgs e = Inr (orgs = [] \<or> pm_orgId pm \<in> set orgs)"
proof -
  obtain pm where pm: "signer_of E c e = Some pm" and c: "claims_org e"
    using assms by (auto simp: has_signer_def)
  then obtain entry m where em: "e = Some entry" "Signer entry = Some m"
    by (auto simp: signer_of_def split: option.splits)
  have g: "genuine E c m (PkMember pm)" using pm em signer_of_genuine [OF em(2)] by blast
  have o: "OrgId m = pm_orgId pm" using g c em by (auto simp: genuine_def claims_org_def)
  show thesis
    by (rule that [OF em pm g o])
      (use em o in \<open>simp_all add: signer_def claimed_org_def org_permitted_def\<close>)
qed

text \<open>A look-up of the signer of an endorsement.\<close>

lemma getMember_of_signer:
  assumes "getMemberFromCache E cb m s = Inr (r, s')" and "pwk_fits E c s" and "pwk_new E c cb"
    and "names_ok E" and "genuine E c m (PkMember pm)"
  shows "pwk_fits E c s'" and "same_config s s'" and "r = None \<or> r = Some (PkMember pm)"
proof -
  note g = getMemberFromCache_fits [OF assms(1-4)]
  show "pwk_fits E c s'" "same_config s s'" by (fact g(1), fact g(2))
  show "r = None \<or> r = Some (PkMember pm)"
    using g(3) assms(5) by (cases r) (auto simp: genuine_def)
qed

lemma valid_loop_step:
  assumes "e = Some entry" and "Signer entry = Some m" and "org_permitted orgs e = Inr ok"
  shows "valid_loop E cb orgs roles (e # es) refined s =
    (if \<not> ok then valid_loop E cb orgs roles es refined s
     else if roles = [] then valid_loop E cb orgs roles es (refined @ [e]) s
     else go_bind (getMemberFromCache E cb m s) (\<lambda>(r, s).
       valid_loop E cb orgs roles es
         (if \<exists>mem. r = Some mem \<and> GetRole mem \<in> set roles then refined @ [e] else refined) s))"
  using assms by (auto intro!: arg_cong [where f = "go_bind _"] split: option.split)

lemma valid_loop_sound:
  assumes "valid_loop E cb orgs roles es refined s = Inr (R, s')"
    and "pwk_fits E c s" and "pwk_new E c cb" and "names_ok E" and "\<forall>e \<in> set es. has_signer E c e"
  shows "pwk_fits E c s' \<and> same_config s s' \<and>
         (\<forall>e \<in> set R. e \<in> set refined \<or> e \<in> set es \<and> entitled E c orgs roles e)"
  using assms(1,2,5)
proof (induction es arbitrary: refined s)
  case Nil
  then show ?case by simp
next
  case (Cons e es)
  from Cons.prems(3) have "has_signer E c e" and es: "\<forall>e \<in> set es. has_signer E c e" by simp_all
  from this(1) obtain entry m pm where e: "e = Some entry" "Signer entry = Some m"
    "signer_of E c e = Some pm" "genuine E c m (PkMember pm)"
    "org_permitted orgs e = Inr (orgs = [] \<or> pm_orgId pm \<in> set orgs)"
    by (rule has_signerE)
  note loop = Cons.prems(1) [unfolded valid_loop_step [OF e(1,2,5)]]
  show ?case
  proof (cases "(orgs = [] \<or> pm_orgId pm \<in> set orgs) \<and> roles \<noteq> []")
    case False
    then obtain refined' where "valid_loop E cb orgs roles es refined' s = Inr (R, s')"
      "refined' = refined \<or> refined' = refined @ [e] \<and> entitled E c orgs roles e"
      using loop e(3) by (fastforce simp: entitled_def counts_def split: if_splits)
    then show ?thesis using Cons.IH [OF _ Cons.prems(2) es, of refined'] by auto
  next
    case True
    with loop obtain r s1 where r: "getMemberFromCache E cb m s = Inr (r, s1)"
      "valid_loop E cb orgs roles es
         (if \<exists>mem. r = Some mem \<and> GetRole mem \<in> set roles then refined @ [e] else refined) s1 = Inr (R, s')"
      by (auto simp: go_bind_Inr_iff)
    note g = getMember_of_signer [OF r(1) Cons.prems(2) assms(3,4) e(4)]
    have "(\<exists>mem. r = Some mem \<and> GetRole mem \<in> set roles) \<Longrightarrow> entitled E c orgs roles e"
      using True g(3) e(3) by (auto simp: entitled_def counts_def)
    then show ?thesis using Cons.IH [OF r(2) g(1) es] same_config_trans [OF g(2)]
      by (auto split: if_splits)
  qed
qed

lemma ordinary_signer: "ordinary e \<Longrightarrow> e = Some entry \<Longrightarrow> Signer entry = Some m \<Longrightarrow> ordinary_member m"
  by (simp add: ordinary_def)

lemma valid_loop_complete:
  assumes "pwk_fits E c s" and "pwk_new E c cb" and "names_ok E"
    and "\<forall>e \<in> set es. has_signer E c e \<and> ordinary e"
  shows "\<exists>R s'. valid_loop E cb orgs roles es refined s = Inr (R, s') \<and> set refined \<subseteq> set R \<and>
           (\<forall>e \<in> set es. entitled E c orgs roles e \<longrightarrow> e \<in> set R)"
  using assms(1,4)
proof (induction es arbitrary: refined s)
  case Nil
  then show ?case by simp
next
  case (Cons e es)
  from Cons.prems(2) have "has_signer E c e" and es: "\<forall>e \<in> set es. has_signer E c e \<and> ordinary e" by simp_all
  from this(1) obtain entry m pm where e: "e = Some entry" "Signer entry = Some m"
    "signer_of E c e = Some pm" "genuine E c m (PkMember pm)"
    "org_permitted orgs e = Inr (orgs = [] \<or> pm_orgId pm \<in> set orgs)"
    by (rule has_signerE)
  have ord: "ordinary_member m" using Cons.prems(2) ordinary_signer [OF _ e(1,2)] by simp
  have "entitled E c orgs roles e \<longleftrightarrow> counts orgs roles pm" using e(3) by (simp add: entitled_def)
  moreover obtain refined' s1 where
    "valid_loop E cb orgs roles (e # es) refined s = valid_loop E cb orgs roles es refined' s1"
    "pwk_fits E c s1" "refined' = (if counts orgs roles pm then refined @ [e] else refined)"
  proof (cases "(orgs = [] \<or> pm_orgId pm \<in> set orgs) \<and> roles \<noteq> []")
    case False
    show thesis
      by (rule that [of "if counts orgs roles pm then refined @ [e] else refined" s])
        (use False Cons.prems(1) in
          \<open>auto simp: valid_loop_step [OF e(1,2,5)] counts_def simp del: valid_loop.simps\<close>)
  next
    case True
    obtain r s1 where r: "getMemberFromCache E cb m s = Inr (r, s1)" "r = Some (PkMember pm)"
      using getMemberFromCache_returns [OF Cons.prems(1) assms(2,3) ord] e(4) by blast
    note g = getMember_of_signer [OF r(1) Cons.prems(1) assms(2,3) e(4)]
    show thesis
      by (rule that [of "if counts orgs roles pm then refined @ [e] else refined" s1])
        (use True r g(1) in \<open>simp_all add: valid_loop_step [OF e(1,2,5)] counts_def del: valid_loop.simps\<close>)
  qed
  ultimately show ?case using Cons.IH [of s1 refined', OF _ es] by (auto simp del: valid_loop.simps)
qed

text \<open>The number of organisations with a valid endorsement.\<close>

lemma claimed_orgs_entitled:
  assumes "\<forall>e \<in> set R. has_signer E c e \<and> entitled E c orgs roles e"
  shows "claimed_org ` set R = endorsing_orgs E c orgs roles R"
  using assms by (force simp: endorsing_orgs_iff entitled_def has_signer_def dest: signer_of_org)

lemma countValidEndorsements_sound:
  assumes "countValidEndorsements E cb orgs roles es s = Inr (n, s')"
    and "pwk_fits E c s" and "pwk_new E c cb" and "names_ok E" and "\<forall>e \<in> set es. has_signer E c e"
  obtains R where "set R \<subseteq> set es" "n = int (card (endorsing_orgs E c orgs roles R))"
    "pwk_fits E c s'" "same_config s s'"
proof -
  obtain R where R: "valid_loop E cb orgs roles es [] s = Inr (R, s')"
    and n: "countOrgsFromEndorsements R = Inr n"
    using assms(1) by (auto simp: countValidEndorsements_def acs_getValidEndorsements_def go_bind_Inr_iff)
  note v = valid_loop_sound [OF R assms(2-5)]
  then have ok: "\<forall>e \<in> set R. has_signer E c e \<and> entitled E c orgs roles e" and "set R \<subseteq> set es"
    using assms(5) by auto
  have "n = int (card (claimed_org ` set R))"
    using countOrgs_card [of R E c] n ok by (auto simp: has_signer_def)
  then show thesis using that [of R] v claimed_orgs_entitled [OF ok] \<open>set R \<subseteq> set es\<close> by simp
qed

lemma countValidEndorsements_complete:
  assumes "pwk_fits E c s" and "pwk_new E c cb" and "names_ok E"
    and "\<forall>e \<in> set es. has_signer E c e \<and> ordinary e"
  shows "\<exists>s'. countValidEndorsements E cb orgs roles es s =
           Inr (int (card (endorsing_orgs E c orgs roles es)), s') \<and> same_config s s'"
proof -
  obtain R s' where R: "valid_loop E cb orgs roles es [] s = Inr (R, s')"
    and all: "\<forall>e \<in> set es. entitled E c orgs roles e \<longrightarrow> e \<in> set R"
    using valid_loop_complete [OF assms, of orgs roles "[]"] by auto
  have signers: "\<forall>e \<in> set es. has_signer E c e" using assms(4) by blast
  note v = valid_loop_sound [OF R assms(1-3) signers]
  then have ok: "\<forall>e \<in> set R. has_signer E c e \<and> entitled E c orgs roles e" and "set R \<subseteq> set es"
    using signers by auto
  then have "endorsing_orgs E c orgs roles R = endorsing_orgs E c orgs roles es"
    using all by (fastforce simp: endorsing_orgs_iff entitled_def set_eq_iff)
  moreover have "countOrgsFromEndorsements R = Inr (int (card (claimed_org ` set R)))"
    using countOrgs_card [of R E c] ok by (auto simp: has_signer_def)
  ultimately show ?thesis using R v claimed_orgs_entitled [OF ok]
    by (simp add: countValidEndorsements_def acs_getValidEndorsements_def)
qed

text \<open>The rule SELF is the rule ANY for the administrators of one organisation.\<close>

lemma self_loop_any_loop:
  "self_loop E cb target es s =
     go_bind (any_loop E cb [target] [RoleAdmin E] es s) (\<lambda>(v, s).
       Inr (if fst v then v else denied (ErrTargetOrg target), s))"
proof (induction es arbitrary: s)
  case (Cons e es)
  have "org_permitted [target] e = go_bind (signer e) (\<lambda>m. Inr (OrgId m = target))"
    by (simp add: org_permitted_def)
  then show ?case using Cons.IH
    by (cases "signer e") (auto simp: go_bind_assoc intro!: arg_cong [where f = "go_bind _"] split: option.split)
qed simp

lemma any_loop_step:
  assumes "e = Some entry" and "Signer entry = Some m" and "org_permitted orgs e = Inr ok"
  shows "any_loop E cb orgs roles (e # es) s =
    (if \<not> ok then any_loop E cb orgs roles es s
     else if roles = [] then Inr (allowed, s)
     else go_bind (getMemberFromCache E cb m s) (\<lambda>(r, s).
       if \<exists>mem. r = Some mem \<and> GetRole mem \<in> set roles then Inr (allowed, s)
       else any_loop E cb orgs roles es s))"
  using assms by (auto simp: signer_def intro!: arg_cong [where f = "go_bind _"] split: option.split)

lemma any_loop_sound:
  assumes "any_loop E cb orgs roles es s = Inr (v, s')"
    and "pwk_fits E c s" and "pwk_new E c cb" and "names_ok E" and "\<forall>e \<in> set es. has_signer E c e"
  shows "pwk_fits E c s' \<and> same_config s s' \<and> (fst v \<longrightarrow> (\<exists>e \<in> set es. entitled E c orgs roles e))"
  using assms(1,2,5)
proof (induction es arbitrary: s)
  case Nil
  then show ?case by auto
next
  case (Cons e es)
  from Cons.prems(3) have "has_signer E c e" and es: "\<forall>e \<in> set es. has_signer E c e" by simp_all
  from this(1) obtain entry m pm where e: "e = Some entry" "Signer entry = Some m"
    "signer_of E c e = Some pm" "genuine E c m (PkMember pm)"
    "org_permitted orgs e = Inr (orgs = [] \<or> pm_orgId pm \<in> set orgs)"
    by (rule has_signerE)
  note loop = Cons.prems(1) [unfolded any_loop_step [OF e(1,2,5)]]
  have ent: "entitled E c orgs roles e \<longleftrightarrow> counts orgs roles pm" using e(3) by (simp add: entitled_def)
  show ?case
  proof (cases "(orgs = [] \<or> pm_orgId pm \<in> set orgs) \<and> roles \<noteq> []")
    case False
    then consider "any_loop E cb orgs roles es s = Inr (v, s')" | "s' = s" "entitled E c orgs roles e"
      using loop ent by (auto simp: counts_def split: if_splits)
    then show ?thesis using Cons.IH [OF _ Cons.prems(2) es] Cons.prems(2) by cases auto
  next
    case True
    with loop obtain r s1 where r: "getMemberFromCache E cb m s = Inr (r, s1)"
      "(if \<exists>mem. r = Some mem \<and> GetRole mem \<in> set roles then Inr (allowed, s1)
        else any_loop E cb orgs roles es s1) = Inr (v, s')"
      by (auto simp: go_bind_Inr_iff)
    note g = getMember_of_signer [OF r(1) Cons.prems(2) assms(3,4) e(4)]
    have "(\<exists>mem. r = Some mem \<and> GetRole mem \<in> set roles) \<Longrightarrow> entitled E c orgs roles e"
      using True g(3) ent by (auto simp: counts_def)
    then show ?thesis using r(2) Cons.IH [OF _ g(1) es] g(1,2) same_config_trans [OF g(2)]
      by (auto split: if_splits)
  qed
qed

lemma any_loop_complete:
  assumes "pwk_fits E c s" and "pwk_new E c cb" and "names_ok E"
    and "\<forall>e \<in> set es. has_signer E c e \<and> ordinary e"
  shows "\<exists>v s'. any_loop E cb orgs roles es s = Inr (v, s') \<and>
           ((\<exists>e \<in> set es. entitled E c orgs roles e) \<longrightarrow> fst v)"
  using assms(1,4)
proof (induction es arbitrary: s)
  case Nil
  then show ?case by auto
next
  case (Cons e es)
  from Cons.prems(2) have "has_signer E c e" and es: "\<forall>e \<in> set es. has_signer E c e \<and> ordinary e" by simp_all
  from this(1) obtain entry m pm where e: "e = Some entry" "Signer entry = Some m"
    "signer_of E c e = Some pm" "genuine E c m (PkMember pm)"
    "org_permitted orgs e = Inr (orgs = [] \<or> pm_orgId pm \<in> set orgs)"
    by (rule has_signerE)
  have ord: "ordinary_member m" using Cons.prems(2) ordinary_signer [OF _ e(1,2)] by simp
  have ent: "entitled E c orgs roles e \<longleftrightarrow> counts orgs roles pm" using e(3) by (simp add: entitled_def)
  show ?case
  proof (cases "(orgs = [] \<or> pm_orgId pm \<in> set orgs) \<and> roles \<noteq> []")
    case False
    then show ?thesis using Cons.IH [OF Cons.prems(1) es] ent
      by (auto simp: any_loop_step [OF e(1,2,5)] counts_def allowed_def simp del: any_loop.simps)
  next
    case True
    obtain r s1 where r: "getMemberFromCache E cb m s = Inr (r, s1)" "r = Some (PkMember pm)"
      using getMemberFromCache_returns [OF Cons.prems(1) assms(2,3) ord] e(4) by blast
    note g = getMember_of_signer [OF r(1) Cons.prems(1) assms(2,3) e(4)]
    show ?thesis using Cons.IH [OF g(1) es] True r ent
      by (auto simp: any_loop_step [OF e(1,2,5)] counts_def allowed_def simp del: any_loop.simps)
  qed
qed

lemma ex_entitled: "(\<exists>e \<in> set es. entitled E c orgs roles e) \<longleftrightarrow> endorsing_orgs E c orgs roles es \<noteq> {}"
  by (auto simp: entitled_def endorsing_orgs_iff set_eq_iff)

lemma ex_entitled_target:
  "target \<noteq> [] \<Longrightarrow> (\<exists>e \<in> set es. entitled E c [target] roles e) \<longleftrightarrow> target \<in> endorsing_orgs E c [] roles es"
  by (auto simp: entitled_def endorsing_orgs_iff counts_def)

subsection \<open>The evaluation of a policy\<close>

definition by_number :: "acEnv \<Rightarrow> policy \<Rightarrow> bool" where
  "by_number E pol \<longleftrightarrow> pol_rule pol \<notin> {RuleForbidden E, RuleSelf E, RuleAny E}"

text \<open>
  A policy by number either counts and compares, or its rule is no number and it is refused.
\<close>

definition refused_unmet :: "acEnv \<Rightarrow> policy \<Rightarrow> acService \<Rightarrow> (verdict \<times> acService) go \<Rightarrow> bool" where
  "refused_unmet E pol s out \<longleftrightarrow>
     (\<exists>e. out = Inr (denied e, s)) \<and> (\<forall>num. \<not> num_met E (orgCount s) pol num)"

definition compares ::
  "acEnv \<Rightarrow> policy \<Rightarrow> acService \<Rightarrow> (int \<times> acService) go \<Rightarrow> (verdict \<times> acService) go \<Rightarrow> bool" where
  "compares E pol s counting out \<longleftrightarrow>
     (\<exists>b e. out = go_bind counting (\<lambda>(num, s'). if b num (orgCount s') then Inr (allowed, s') else Inr (denied (e num), s')) \<and>
        (\<forall>num. b num (orgCount s) = num_met E (orgCount s) pol num))"

lemma length_remdups: "length (remdups xs) = card (set xs)"
  by (simp add: length_remdups_card_conv)

lemma verifyMajorityCase_compares:
  "pol_rule pol = RuleMajority E \<Longrightarrow>
     compares E pol s (countValidEndorsements E cb [] [RoleAdmin E] es s) (verifyMajorityCase E cb es s)"
  unfolding compares_def verifyMajorityCase_def
  by (rule exI [of _ "\<lambda>num n. n < 2 * num"], rule exI [of _ ErrNotEnough]) (simp add: num_met_def)

lemma verifyAllCase_compares:
  assumes "pol_rule pol = RuleAll E" and "RuleAll E \<noteq> RuleMajority E"
  shows "compares E pol s (countValidEndorsements E cb (remdups (pol_orgList pol)) (remdups (pol_roleList pol)) es s)
           (verifyAllCase E cb pol es s)"
  unfolding compares_def verifyAllCase_def buildOrgListRoleList_def
  by (rule exI [of _ "\<lambda>num n. num = (if pol_orgList pol = [] then n else int (card (set (pol_orgList pol))))"],
      rule exI [of _ "\<lambda>_. ErrNotAll"])
    (use assms in \<open>auto simp: num_met_def length_remdups Let_def intro!: arg_cong [where f = "go_bind _"]\<close>)

lemma verifyDefaultCase_compares:
  assumes "pol_rule pol \<noteq> RuleMajority E" and "pol_rule pol \<noteq> RuleAll E"
  shows "refused_unmet E pol s (verifyDefaultCase E cb pol es s) \<or>
    compares E pol s (countValidEndorsements E cb (remdups (pol_orgList pol)) (remdups (pol_roleList pol)) es s)
      (verifyDefaultCase E cb pol es s)"
proof -
  let ?voters = "\<lambda>n. if pol_orgList pol = [] then n else int (card (set (pol_orgList pol)))"
  consider (num) k a where "split_at CHR ''/'' (pol_rule pol) = [k]" "Atoi k = Some a"
    | (portion) k d a b where "split_at CHR ''/'' (pol_rule pol) = [k, d]" "Atoi k = Some a" "Atoi d = Some b"
    | (no_num) k where "split_at CHR ''/'' (pol_rule pol) = [k]" "Atoi k = None"
    | (no_portion) k d where "split_at CHR ''/'' (pol_rule pol) = [k, d]" "Atoi k = None \<or> Atoi d = None"
    | (other) a b c ds where "split_at CHR ''/'' (pol_rule pol) = a # b # c # ds"
    by (metis neq_Nil_conv not_None_eq split_at_nonempty)
  then show ?thesis
  proof cases
    case num
    then show ?thesis unfolding compares_def
      by (intro disjI2 exI [of _ "\<lambda>num n. a \<le> num"] exI [of _ ErrNotEnough])
        (simp add: verifyDefaultCase_def buildOrgListRoleList_def num_met_def assms)
  next
    case portion
    then show ?thesis unfolding compares_def
      by (intro disjI2 exI [of _ "\<lambda>num n. portion_met num (?voters n) a (if b \<le> 0 then orgCount s else b)"]
          exI [of _ ErrNotEnough])
        (simp add: verifyDefaultCase_def buildOrgListRoleList_def num_met_def assms length_remdups Let_def
          cong: if_cong)
  next
    case no_num
    then show ?thesis
      by (auto simp: refused_unmet_def verifyDefaultCase_def buildOrgListRoleList_def num_met_def assms)
  next
    case no_portion
    then show ?thesis
      by (auto simp: refused_unmet_def verifyDefaultCase_def buildOrgListRoleList_def num_met_def assms
          split: option.split)
  next
    case other
    then show ?thesis
      by (auto simp: refused_unmet_def verifyDefaultCase_def buildOrgListRoleList_def num_met_def assms)
  qed
qed

lemma verify_compares:
  assumes "by_number E pol" and "names_ok E"
  shows "refused_unmet E pol s (acs_verifyPrincipalPolicy E cb prin ref pol s) \<or>
    compares E pol s (countValidEndorsements E cb (remdups (counted_orgs E pol)) (remdups (counted_roles E pol))
       (pr_endorsement ref) s) (acs_verifyPrincipalPolicy E cb prin ref pol s)"
proof -
  have names: "RuleAll E \<noteq> RuleMajority E" using assms(2) by (auto simp: names_ok_def rule_names_def)
  consider "pol_rule pol = RuleMajority E" | "pol_rule pol = RuleAll E" "pol_rule pol \<noteq> RuleMajority E"
    | "pol_rule pol \<noteq> RuleMajority E" "pol_rule pol \<noteq> RuleAll E" by blast
  then show ?thesis
  proof cases
    case 1
    then show ?thesis using assms(1) verifyMajorityCase_compares [OF 1]
      by (simp add: acs_verifyPrincipalPolicy_def by_number_def counted_orgs_def counted_roles_def)
  next
    case 2
    then show ?thesis using assms(1) verifyAllCase_compares [OF 2(1) names]
      by (simp add: acs_verifyPrincipalPolicy_def by_number_def counted_orgs_def counted_roles_def)
  next
    case 3
    then show ?thesis using assms(1) verifyDefaultCase_compares [OF 3]
      by (simp add: acs_verifyPrincipalPolicy_def by_number_def counted_orgs_def counted_roles_def)
  qed
qed

lemma grants_cases:
  assumes "names_ok E"
  shows "pol_rule pol = RuleSelf E \<Longrightarrow>
      grants E c n target pol es = (target \<noteq> [] \<and> (\<exists>e \<in> set es. entitled E c [target] [RoleAdmin E] e))"
    and "pol_rule pol = RuleAny E \<Longrightarrow>
      grants E c n target pol es =
        (\<exists>e \<in> set es. entitled E c (remdups (pol_orgList pol)) (remdups (pol_roleList pol)) e)"
    and "by_number E pol \<Longrightarrow>
      grants E c n target pol es =
        num_met E n pol (int (card (endorsing_orgs E c (counted_orgs E pol) (counted_roles E pol) es)))"
    and "pol_rule pol = RuleForbidden E \<Longrightarrow> \<not> grants E c n target pol es"
proof -
  have names: "RuleSelf E \<noteq> RuleForbidden E" "RuleAny E \<noteq> RuleForbidden E" "RuleAny E \<noteq> RuleSelf E"
    "RuleAny E \<noteq> RuleMajority E"
    using assms by (auto simp: names_ok_def rule_names_def)
  show "pol_rule pol = RuleSelf E \<Longrightarrow>
      grants E c n target pol es = (target \<noteq> [] \<and> (\<exists>e \<in> set es. entitled E c [target] [RoleAdmin E] e))"
    using names by (cases "target = []") (simp_all add: grants_def ex_entitled_target)
  show "pol_rule pol = RuleAny E \<Longrightarrow>
      grants E c n target pol es =
        (\<exists>e \<in> set es. entitled E c (remdups (pol_orgList pol)) (remdups (pol_roleList pol)) e)"
    using names by (simp add: grants_def ex_entitled counted_orgs_def counted_roles_def)
  show "by_number E pol \<Longrightarrow>
      grants E c n target pol es =
        num_met E n pol (int (card (endorsing_orgs E c (counted_orgs E pol) (counted_roles E pol) es)))"
    by (simp add: grants_def by_number_def)
  show "pol_rule pol = RuleForbidden E \<Longrightarrow> \<not> grants E c n target pol es"
    by (simp add: grants_def)
qed

text \<open>Soundness: what is allowed is granted by some of the endorsements.\<close>

lemma acs_verify_number_sound:
  assumes run: "acs_verifyPrincipalPolicy E cb prin ref pol s = Inr (v, s')"
    and fits: "pwk_fits E c s" and new: "pwk_new E c cb" and names: "names_ok E"
    and signers: "\<forall>e \<in> set (pr_endorsement ref). has_signer E c e" and number: "by_number E pol"
  shows "pwk_fits E c s' \<and> same_config s s' \<and>
    (fst v \<longrightarrow> (\<exists>es. set es \<subseteq> set (pr_endorsement ref) \<and> grants E c (orgCount s) (pr_targetOrg prin) pol es))"
proof -
  let ?es = "pr_endorsement ref"
  let ?c = "countValidEndorsements E cb (remdups (counted_orgs E pol)) (remdups (counted_roles E pol)) ?es s"
  show ?thesis
  proof (cases "refused_unmet E pol s (acs_verifyPrincipalPolicy E cb prin ref pol s)")
    case True
    then show ?thesis using run fits by (auto simp: refused_unmet_def)
  next
    case False
    then have "compares E pol s ?c (Inr (v, s'))" using verify_compares [OF number names] run by metis
    then obtain b e num where b: "?c = Inr (num, s')" "\<forall>num. b num (orgCount s) = num_met E (orgCount s) pol num"
      "v = (if b num (orgCount s') then allowed else denied (e num))"
      unfolding compares_def by (auto simp: go_bind_Inr_iff split: if_splits dest!: sym [of "Inr _"])
    obtain R where R: "set R \<subseteq> set ?es"
      "num = int (card (endorsing_orgs E c (counted_orgs E pol) (counted_roles E pol) R))"
      "pwk_fits E c s'" "same_config s s'"
      using countValidEndorsements_sound [OF b(1) fits new names signers] by (metis endorsing_orgs_remdups)
    have "fst v \<longleftrightarrow> grants E c (orgCount s) (pr_targetOrg prin) pol R"
      using b(2,3) same_configD [OF R(4)] R(2) by (auto simp: grants_cases(3) [OF names number])
    then show ?thesis using R by blast
  qed
qed

lemma acs_verify_sound:
  assumes run: "acs_verifyPrincipalPolicy E cb prin ref pol s = Inr (v, s')"
    and fits: "pwk_fits E c s" and new: "pwk_new E c cb" and names: "names_ok E"
    and signers: "\<forall>e \<in> set (pr_endorsement ref). has_signer E c e"
  shows "pwk_fits E c s' \<and> same_config s s' \<and>
    (fst v \<longrightarrow> (\<exists>es. set es \<subseteq> set (pr_endorsement ref) \<and> grants E c (orgCount s) (pr_targetOrg prin) pol es))"
proof -
  let ?es = "pr_endorsement ref"
  have ne: "RuleSelf E \<noteq> RuleForbidden E" "RuleAny E \<noteq> RuleForbidden E" "RuleAny E \<noteq> RuleSelf E"
    "RuleAny E \<noteq> RuleMajority E" "RuleSelf E \<noteq> RuleMajority E"
    using names by (auto simp: names_ok_def rule_names_def)
  consider (forbidden) "pol_rule pol = RuleForbidden E" | (self) "pol_rule pol = RuleSelf E"
    | (any) "pol_rule pol = RuleAny E" | (number) "by_number E pol" by (auto simp: by_number_def)
  then show ?thesis
  proof cases
    case forbidden
    then show ?thesis using run fits by (auto simp: acs_verifyPrincipalPolicy_def)
  next
    case self
    show ?thesis
    proof (cases "pr_targetOrg prin = []")
      case True
      then show ?thesis using run self ne fits by (auto simp: acs_verifyPrincipalPolicy_def verifySelfCase_def)
    next
      case False
      then obtain w where w: "any_loop E cb [pr_targetOrg prin] [RoleAdmin E] ?es s = Inr (w, s')" "fst v = fst w"
        using run self ne
        by (auto simp: acs_verifyPrincipalPolicy_def verifySelfCase_def self_loop_any_loop go_bind_Inr_iff)
      note a = any_loop_sound [OF w(1) fits new names signers]
      then show ?thesis using w(2) False by (auto simp: grants_cases(1) [OF names self])
    qed
  next
    case any
    then have "any_loop E cb (remdups (pol_orgList pol)) (remdups (pol_roleList pol)) ?es s = Inr (v, s')"
      using run ne by (simp add: acs_verifyPrincipalPolicy_def verifyAnyCase_def buildOrgListRoleList_def)
    note a = any_loop_sound [OF this fits new names signers]
    then show ?thesis by (auto simp: grants_cases(2) [OF names any])
  next
    case number
    then show ?thesis by (rule acs_verify_number_sound [OF run fits new names signers])
  qed
qed

text \<open>On ordinary endorsements the evaluation returns, and allows exactly what is granted.\<close>

lemma acs_verify_complete:
  assumes fits: "pwk_fits E c s" and new: "pwk_new E c cb" and names: "names_ok E"
    and signers: "\<forall>e \<in> set (pr_endorsement ref). has_signer E c e \<and> ordinary e"
  shows "\<exists>v s'. acs_verifyPrincipalPolicy E cb prin ref pol s = Inr (v, s') \<and>
           fst v = grants E c (orgCount s) (pr_targetOrg prin) pol (pr_endorsement ref)"
proof -
  let ?es = "pr_endorsement ref"
  have ne: "RuleSelf E \<noteq> RuleForbidden E" "RuleAny E \<noteq> RuleForbidden E" "RuleAny E \<noteq> RuleSelf E"
    "RuleAny E \<noteq> RuleMajority E" "RuleSelf E \<noteq> RuleMajority E"
    using names by (auto simp: names_ok_def rule_names_def)
  have signers': "\<forall>e \<in> set ?es. has_signer E c e" using signers by blast
  have any_exact: "\<exists>v s'. any_loop E cb orgs roles ?es s = Inr (v, s') \<and>
      fst v = (\<exists>e \<in> set ?es. entitled E c orgs roles e)" for orgs roles
    using any_loop_complete [OF fits new names signers, of orgs roles]
      any_loop_sound [OF _ fits new names signers', of orgs roles] by blast
  consider (forbidden) "pol_rule pol = RuleForbidden E" | (self) "pol_rule pol = RuleSelf E"
    | (any) "pol_rule pol = RuleAny E" | (number) "by_number E pol" by (auto simp: by_number_def)
  then show ?thesis
  proof cases
    case forbidden
    then show ?thesis by (simp add: acs_verifyPrincipalPolicy_def grants_def)
  next
    case self
    obtain v s' where "any_loop E cb [pr_targetOrg prin] [RoleAdmin E] ?es s = Inr (v, s')"
      "fst v = (\<exists>e \<in> set ?es. entitled E c [pr_targetOrg prin] [RoleAdmin E] e)"
      using any_exact by blast
    then show ?thesis using self ne
      by (cases v) (auto simp: acs_verifyPrincipalPolicy_def verifySelfCase_def self_loop_any_loop denied_def
          grants_cases(1) [OF names self])
  next
    case any
    then show ?thesis using any_exact [of "remdups (pol_orgList pol)" "remdups (pol_roleList pol)"] ne
      by (simp add: acs_verifyPrincipalPolicy_def verifyAnyCase_def buildOrgListRoleList_def grants_cases(2) [OF names any])
  next
    case number
    let ?num = "int (card (endorsing_orgs E c (counted_orgs E pol) (counted_roles E pol) ?es))"
    let ?c = "countValidEndorsements E cb (remdups (counted_orgs E pol)) (remdups (counted_roles E pol)) ?es s"
    obtain s' where c: "?c = Inr (?num, s')" "same_config s s'"
      using countValidEndorsements_complete [OF fits new names signers] by (metis endorsing_orgs_remdups)
    from verify_compares [OF number names, of s cb prin ref] show ?thesis
    proof
      assume "refused_unmet E pol s (acs_verifyPrincipalPolicy E cb prin ref pol s)"
      then show ?thesis by (auto simp: refused_unmet_def denied_def grants_cases(3) [OF names number])
    next
      assume "compares E pol s ?c (acs_verifyPrincipalPolicy E cb prin ref pol s)"
      then show ?thesis using c same_configD [OF c(2)]
        by (fastforce simp: compares_def allowed_def denied_def grants_cases(3) [OF names number])
    qed
  qed
qed

end
