(* ===== verification/AC_Pwk_Refine.thy ===== *)
theory AC_Pwk_Refine
  imports AC_Pwk_Grants
begin

section \<open>Access control: the permissioned provider\<close>

text \<open>
  The invariant of the provider with permissioned public keys, that every operation and every
  message of the bus keeps it, and the refinement of the endorsements of a principal: what is left
  after it is signed by a member, and nothing that counts is lost.
\<close>

subsection \<open>The invariant\<close>

definition pwk_config :: "permissionedPk \<Rightarrow> pwkConfig" where
  "pwk_config pp = (pp_adminMember pp, pp_consensusMember pp, acHashType (pp_acs pp))"

definition pp_inv :: "acEnv \<Rightarrow> permissionedPk \<Rightarrow> bool" where
  "pp_inv E pp \<longleftrightarrow> pwk_fits E (pwk_config pp) (pp_acs pp)"

definition pp_same :: "permissionedPk \<Rightarrow> permissionedPk \<Rightarrow> bool" where
  "pp_same pp pp' \<longleftrightarrow> (\<exists>s. pp' = pp\<lparr>pp_acs := s\<rparr> \<and> same_config (pp_acs pp) s)"

lemma pp_same_refl [simp]: "pp_same pp pp"
  unfolding pp_same_def by (rule exI [of _ "pp_acs pp"]) simp

lemma pp_same_trans: "pp_same a b \<Longrightarrow> pp_same b c \<Longrightarrow> pp_same a c"
  unfolding pp_same_def by (clarsimp, rule exI, rule conjI, rule refl, erule same_config_trans) simp

lemma pp_sameD:
  assumes "pp_same pp pp'"
  shows "pwk_config pp' = pwk_config pp" and "orgCount (pp_acs pp') = orgCount (pp_acs pp)"
    and "acPols (pp_acs pp') = acPols (pp_acs pp)"
  using assms by (auto simp: pp_same_def pwk_config_def dest: same_configD)

lemma pp_cb_new: "pwk_new E (pwk_config pp) (pp_cb E pp)"
  by (simp add: pwk_new_def pp_cb_def pp_NewMemberFromAcs_def new_member_def pwk_config_def fun_eq_iff)

lemma pp_inv_update:
  "pwk_fits E (pwk_config pp) s \<Longrightarrow> same_config (pp_acs pp) s \<Longrightarrow>
     pp_inv E (pp\<lparr>pp_acs := s\<rparr>) \<and> pp_same pp (pp\<lparr>pp_acs := s\<rparr>)"
  by (auto simp: pp_inv_def pwk_config_def pp_same_def dest: same_configD)

lemma pp_NewMember_inv:
  assumes "pp_NewMember E m pp = Inr (r, pp')" and "pp_inv E pp" and "names_ok E"
  shows "pp_inv E pp'" and "pp_same pp pp'" and "r = Inr mem \<Longrightarrow> genuine E (pwk_config pp) m mem"
proof -
  obtain s where s: "newPkMember E (pp_cb E pp) m (pp_adminMember pp) (pp_consensusMember pp) (pp_acs pp) = Inr (r, s)"
    and pp': "pp' = pp\<lparr>pp_acs := s\<rparr>"
    using assms(1) by (auto simp: pp_NewMember_def with_acs_def go_bind_Inr_iff)
  note n = newPkMember_fits [where c = "pwk_config pp", simplified pwk_config_def fst_conv snd_conv,
      folded pwk_config_def, OF s _ pp_cb_new assms(3)]
  from n have n': "pwk_fits E (pwk_config pp) s" "same_config (pp_acs pp) s"
    "r = Inr mem \<Longrightarrow> genuine E (pwk_config pp) m mem"
    using assms(2) by (auto simp: pp_inv_def)
  then show "pp_inv E pp'" "pp_same pp pp'" "r = Inr mem \<Longrightarrow> genuine E (pwk_config pp) m mem"
    using pp_inv_update [OF n'(1,2)] pp' by auto
qed

lemma newPkMember_returns:
  assumes "pwk_fits E c s" and "pwk_new E c cb" and "names_ok E" and "ordinary_member m"
  shows "\<exists>r s'. newPkMember E cb m a cs s = Inr (r, s') \<and>
           (\<forall>pm. genuine E c m (PkMember pm) \<longrightarrow> r = Inr (PkMember pm))"
proof -
  obtain q s1 where q: "getMemberFromCache E cb m s = Inr (q, s1)"
    "\<forall>pm. genuine E c m (PkMember pm) \<longrightarrow> q = Some (PkMember pm)"
    using getMemberFromCache_returns [OF assms] by blast
  show ?thesis
  proof (cases q)
    case (Some mem)
    then show ?thesis using q by (auto simp: newPkMember_def)
  next
    case None
    have "\<exists>s'. addMemberToCache E m (mkCached (Some mem) []) s1 = Inr s'" for mem
      by (rule addMemberToCache_returns)
    then have "\<exists>r s'. newPkMember E cb m a cs s = Inr (r, s')"
      using q(1) None by (auto simp: newPkMember_def go_bind_Inr_iff split: sum.split)
    then show ?thesis using q(2) None by auto
  qed
qed

lemma pp_NewMember_returns:
  assumes "pp_inv E pp" and "names_ok E" and "ordinary_member m"
  shows "\<exists>r pp'. pp_NewMember E m pp = Inr (r, pp') \<and>
           (\<forall>pm. genuine E (pwk_config pp) m (PkMember pm) \<longrightarrow> r = Inr (PkMember pm))"
  using newPkMember_returns [OF assms(1) [unfolded pp_inv_def] pp_cb_new assms(2,3),
      of "pp_adminMember pp" "pp_consensusMember pp"]
  by (force simp: pp_NewMember_def with_acs_def)

subsection \<open>The refinement of endorsements\<close>

lemma refine_step:
  assumes "e = Some entry" and "Signer entry = Some m"
  shows "pp_refine_loop E msg (e # es) seen refined pp =
    go_bind (pp_NewMember E m pp) (\<lambda>(r, pp).
      if \<exists>mem. r = Inr mem \<and> member_Verify E mem (acHashType (pp_acs pp)) msg (Signature entry) = None \<and>
               MemberInfo m \<notin> set seen
      then pp_refine_loop E msg es (MemberInfo m # seen) (refined @ [e]) pp
      else pp_refine_loop E msg es seen refined pp)"
  using assms by (auto intro!: arg_cong [where f = "go_bind _"] split: sum.split)

lemma signed_iff:
  assumes "Signer entry = Some m" and "genuine E c m (PkMember pm)"
  shows "validly_signed E c msg (Some entry) \<longleftrightarrow> pk_Verify E pm (snd (snd c)) msg (Signature entry) = None"
  using signer_of_genuine [OF assms(1), of E c pm] assms(2) by (simp add: validly_signed_def)

lemma verify_signed:
  assumes "Signer entry = Some m" and "genuine E c m mem"
  shows "member_Verify E mem (snd (snd c)) msg (Signature entry) = None \<longleftrightarrow> validly_signed E c msg (Some entry)"
proof -
  obtain pm where "mem = PkMember pm" using assms(2) genuine_PkMember by blast
  then show ?thesis using signed_iff [OF assms(1), of E c pm] assms(2) by simp
qed

lemma refine_loop_sound:
  assumes "pp_refine_loop E msg es seen refined pp = Inr (R, pp')" and "pp_inv E pp" and "names_ok E"
  shows "pp_inv E pp' \<and> pp_same pp pp' \<and>
         (\<forall>e \<in> set R. e \<in> set refined \<or> e \<in> set es \<and> validly_signed E (pwk_config pp) msg e)"
  using assms(1,2)
proof (induction es arbitrary: seen refined pp)
  case Nil
  then show ?case by simp
next
  case (Cons e es)
  show ?case
  proof (cases "\<exists>entry m. e = Some entry \<and> Signer entry = Some m")
    case False
    then have "pp_refine_loop E msg es seen refined pp = Inr (R, pp')"
      using Cons.prems(1) by (auto split: option.splits)
    then show ?thesis using Cons.IH Cons.prems(2) by fastforce
  next
    case True
    then obtain entry m where e: "e = Some entry" "Signer entry = Some m" by blast
    then obtain r pp1 seen' refined' where r: "pp_NewMember E m pp = Inr (r, pp1)"
      and loop: "pp_refine_loop E msg es seen' refined' pp1 = Inr (R, pp')"
      and ref: "refined' = refined \<or> refined' = refined @ [e] \<and>
        (\<exists>mem. r = Inr mem \<and> member_Verify E mem (acHashType (pp_acs pp1)) msg (Signature entry) = None)"
      using Cons.prems(1) unfolding refine_step [OF e] by (auto simp: go_bind_Inr_iff split: if_splits)
    note n = pp_NewMember_inv [OF r Cons.prems(2) assms(3)]
    have h: "acHashType (pp_acs pp1) = snd (snd (pwk_config pp))"
      using pp_sameD(1) [OF n(2)] by (simp add: pwk_config_def)
    have "refined' = refined \<or> refined' = refined @ [e] \<and> validly_signed E (pwk_config pp) msg e"
      using ref n(3) h verify_signed [OF e(2), of E "pwk_config pp"] by (auto simp: e(1))
    then show ?thesis using Cons.IH [OF loop n(1)] pp_same_trans [OF n(2)] pp_sameD(1) [OF n(2)] by auto
  qed
qed

definition found :: "acEnv \<Rightarrow> pwkConfig \<Rightarrow> gobytes \<Rightarrow> EndorsementEntry option list \<Rightarrow> string \<Rightarrow> bool" where
  "found E c msg refined info \<longleftrightarrow>
     (\<forall>pm. member_of E c info = Some pm \<longrightarrow>
        (\<exists>e \<in> set refined. validly_signed E c msg e \<and> signer_of E c e = Some pm))"

lemma refine_loop_complete:
  assumes "pp_inv E pp" and "names_ok E" and "\<forall>e \<in> set es. ordinary e"
    and "\<forall>info \<in> set seen. found E (pwk_config pp) msg refined info"
  shows "\<exists>R pp'. pp_refine_loop E msg es seen refined pp = Inr (R, pp') \<and> set refined \<subseteq> set R \<and>
    (\<forall>e \<in> set es. \<forall>pm. validly_signed E (pwk_config pp) msg e \<longrightarrow> signer_of E (pwk_config pp) e = Some pm \<longrightarrow>
       (\<exists>e' \<in> set R. signer_of E (pwk_config pp) e' = Some pm))"
  using assms(1,3,4)
proof (induction es arbitrary: seen refined pp)
  case Nil
  then show ?case by simp
next
  case (Cons e es)
  from Cons.prems(2) have ord: "ordinary e" and es: "\<forall>e \<in> set es. ordinary e" by simp_all
  then obtain entry m where e: "e = Some entry" "Signer entry = Some m" "ordinary_member m"
    by (auto simp: ordinary_def split: option.splits)
  obtain r pp1 where r: "pp_NewMember E m pp = Inr (r, pp1)"
    "\<forall>pm. genuine E (pwk_config pp) m (PkMember pm) \<longrightarrow> r = Inr (PkMember pm)"
    using pp_NewMember_returns [OF Cons.prems(1) assms(2) e(3)] by blast
  note n = pp_NewMember_inv [OF r(1) Cons.prems(1) assms(2)]
  note c = pp_sameD(1) [OF n(2)]
  have h: "acHashType (pp_acs pp1) = snd (snd (pwk_config pp))" using c by (simp add: pwk_config_def)
  let ?ok = "\<exists>mem. r = Inr mem \<and> member_Verify E mem (acHashType (pp_acs pp1)) msg (Signature entry) = None"
  have ok: "?ok \<longleftrightarrow> validly_signed E (pwk_config pp) msg e"
  proof
    assume ?ok
    then show "validly_signed E (pwk_config pp) msg e" using n(3) h verify_signed [OF e(2), of E "pwk_config pp"] by (auto simp: e(1))
  next
    assume s: "validly_signed E (pwk_config pp) msg e"
    then obtain pm where "genuine E (pwk_config pp) m (PkMember pm)"
      using signed_signer signer_of_genuine [OF e(2)] e(1) by blast
    then show ?ok using s r(2) h verify_signed [OF e(2), of E "pwk_config pp"] by (metis e(1))
  qed
  have member: "signer_of E (pwk_config pp) e = Some pm \<Longrightarrow> member_of E (pwk_config pp) (MemberInfo m) = Some pm" for pm
    using e by (auto simp: signer_of_def split: option.splits if_splits)
  define new where "new \<longleftrightarrow> ?ok \<and> MemberInfo m \<notin> set seen"
  define refined' where "refined' = (if new then refined @ [e] else refined)"
  define seen' where "seen' = (if new then MemberInfo m # seen else seen)"
  have step: "pp_refine_loop E msg (e # es) seen refined pp = pp_refine_loop E msg es seen' refined' pp1"
    unfolding refine_step [OF e(1,2)] using r(1) by (auto simp: new_def refined'_def seen'_def)
  have "new \<Longrightarrow> found E (pwk_config pp) msg refined' (MemberInfo m)"
  proof -
    assume new
    then have s: "validly_signed E (pwk_config pp) msg e" using ok by (simp add: new_def)
    then obtain pm where "signer_of E (pwk_config pp) e = Some pm" using signed_signer by blast
    with s member \<open>new\<close> show ?thesis by (auto simp: found_def refined'_def)
  qed
  then have seen': "\<forall>info \<in> set seen'. found E (pwk_config pp1) msg refined' info"
    using Cons.prems(3) by (fastforce simp: found_def c seen'_def refined'_def)
  obtain R pp' where R: "pp_refine_loop E msg es seen' refined' pp1 = Inr (R, pp')" "set refined' \<subseteq> set R"
    "\<forall>e \<in> set es. \<forall>pm. validly_signed E (pwk_config pp) msg e \<longrightarrow> signer_of E (pwk_config pp) e = Some pm \<longrightarrow>
       (\<exists>e' \<in> set R. signer_of E (pwk_config pp) e' = Some pm)"
    using Cons.IH [OF n(1) es seen'] c by auto
  have "\<exists>e' \<in> set R. signer_of E (pwk_config pp) e' = Some pm"
    if "validly_signed E (pwk_config pp) msg e" "signer_of E (pwk_config pp) e = Some pm" for pm
  proof (cases new)
    case True
    then show ?thesis using that R(2) by (auto simp: refined'_def)
  next
    case False
    then have "MemberInfo m \<in> set seen" using ok that(1) by (simp add: new_def)
    then show ?thesis using Cons.prems(3) member [OF that(2)] R(2) False
      by (fastforce simp: found_def refined'_def)
  qed
  then show ?case using step R by (auto simp: refined'_def split: if_splits simp del: pp_refine_loop.simps)
qed

subsection \<open>The evaluation of a policy by the provider\<close>

lemma has_signer_signed: "claims_org e \<Longrightarrow> validly_signed E c msg e \<Longrightarrow> has_signer E c e"
  using signed_signer by (fastforce simp: has_signer_def)

lemma pp_verify_sound:
  assumes "pp_verifyPrincipalPolicy E prin ref pol pp = Inr (v, pp')" and "pp_inv E pp" and "names_ok E"
    and "\<forall>e \<in> set (pr_endorsement ref). has_signer E (pwk_config pp) e"
  shows "pp_inv E pp'" and "pp_same pp pp'"
    and "fst v \<Longrightarrow> \<exists>es. set es \<subseteq> set (pr_endorsement ref) \<and>
           grants E (pwk_config pp) (orgCount (pp_acs pp)) (pr_targetOrg prin) pol es"
proof -
  obtain s where s: "acs_verifyPrincipalPolicy E (pp_cb E pp) prin ref pol (pp_acs pp) = Inr (v, s)"
    and pp': "pp' = pp\<lparr>pp_acs := s\<rparr>"
    using assms(1) by (auto simp: pp_verifyPrincipalPolicy_def with_acs_def go_bind_Inr_iff)
  note a = acs_verify_sound [OF s assms(2) [unfolded pp_inv_def] pp_cb_new assms(3,4)]
  show "pp_inv E pp'" "pp_same pp pp'" using a pp_inv_update [of E pp s] pp' by auto
  show "fst v \<Longrightarrow> \<exists>es. set es \<subseteq> set (pr_endorsement ref) \<and>
           grants E (pwk_config pp) (orgCount (pp_acs pp)) (pr_targetOrg prin) pol es"
    using a by blast
qed

lemma pp_refinePrincipal_sound:
  assumes "pp_refinePrincipal E prin pp = Inr (r, pp')" and "pp_inv E pp" and "names_ok E"
  shows "pp_inv E pp'" and "pp_same pp pp'"
    and "r = Inr ref \<Longrightarrow> \<forall>e \<in> set (pr_endorsement ref). e \<in> set (pr_endorsement prin) \<and>
           validly_signed E (pwk_config pp) (pr_message prin) e"
proof -
  obtain R where R: "pp_refine_loop E (pr_message prin) (pr_endorsement prin) [] [] pp = Inr (R, pp')"
    "r = (if R = [] then Inl ErrRefineFailed else createPrincipal (pr_resourceName prin) R (pr_message prin))"
    using assms(1) by (auto simp: pp_refinePrincipal_def pp_RefineEndorsements_def go_bind_Inr_iff split: if_splits)
  note l = refine_loop_sound [OF R(1) assms(2,3)]
  then show "pp_inv E pp'" "pp_same pp pp'" by simp_all
  show "r = Inr ref \<Longrightarrow> \<forall>e \<in> set (pr_endorsement ref). e \<in> set (pr_endorsement prin) \<and>
           validly_signed E (pwk_config pp) (pr_message prin) e"
    using l R(2) by (auto simp: createPrincipal_def split: if_splits)
qed

text \<open>On ordinary endorsements nothing that counts is lost.\<close>

lemma endorsing_orgs_cong:
  assumes "\<And>pm. (\<exists>e \<in> set es. signer_of E c e = Some pm) \<longleftrightarrow> (\<exists>e \<in> set es'. signer_of E c e = Some pm)"
  shows "endorsing_orgs E c orgs roles es = endorsing_orgs E c orgs roles es'"
  unfolding set_eq_iff endorsing_orgs_iff using assms by blast

lemma grants_cong:
  assumes "\<And>pm. (\<exists>e \<in> set es. signer_of E c e = Some pm) \<longleftrightarrow> (\<exists>e \<in> set es'. signer_of E c e = Some pm)"
  shows "grants E c n target pol es = grants E c n target pol es'"
  using endorsing_orgs_cong [OF assms] by (simp add: grants_def)

lemma refine_complete:
  assumes "pp_inv E pp" and "names_ok E" and "\<forall>e \<in> set es. ordinary e"
  obtains R pp' where "pp_RefineEndorsements E es msg pp = Inr (R, pp')" "pp_inv E pp'" "pp_same pp pp'"
    "set R \<subseteq> set (filter (validly_signed E (pwk_config pp) msg) es)"
    "\<forall>pm. (\<exists>e \<in> set R. signer_of E (pwk_config pp) e = Some pm) \<longleftrightarrow>
       (\<exists>e \<in> set (filter (validly_signed E (pwk_config pp) msg) es). signer_of E (pwk_config pp) e = Some pm)"
proof -
  obtain R pp' where R: "pp_refine_loop E msg es [] [] pp = Inr (R, pp')"
    "\<forall>e \<in> set es. \<forall>pm. validly_signed E (pwk_config pp) msg e \<longrightarrow> signer_of E (pwk_config pp) e = Some pm \<longrightarrow>
       (\<exists>e' \<in> set R. signer_of E (pwk_config pp) e' = Some pm)"
    using refine_loop_complete [OF assms, of "[]" msg "[]"] by auto
  note l = refine_loop_sound [OF R(1) assms(1,2)]
  show thesis
    by (rule that [of R pp']) (use R l in \<open>auto simp: pp_RefineEndorsements_def\<close>)
qed

end
