(* ===== verification/AC_Keeps.thy ===== *)
theory AC_Keeps
  imports AC_Provider
begin

section \<open>Access control: what the checks keep\<close>

text \<open>
  A computation keeps a property of the state when every state it returns has it. The locale
  \<open>provider_keeps\<close> is the contract of a provider whose four operations with effects keep a
  property; then every check of messages, transactions and multi-sign requests keeps it, for every
  block version.
\<close>

named_theorems keeps_intros \<open>rules for computations that keep a property of the state\<close>

definition keeps :: "('s \<Rightarrow> bool) \<Rightarrow> ('a \<times> 's) go \<Rightarrow> bool" where
  "keeps I out \<longleftrightarrow> (\<forall>x s. out = Inr (x, s) \<longrightarrow> I s)"

lemma keeps_Inr [keeps_intros]: "I s \<Longrightarrow> keeps I (Inr (x, s))"
  by (simp add: keeps_def)

lemma keeps_Inl [keeps_intros]: "keeps I (Inl e)"
  by (simp add: keeps_def)

lemma keeps_bind [keeps_intros]:
  "keeps I c \<Longrightarrow> (\<And>x s. I s \<Longrightarrow> keeps I (k x s)) \<Longrightarrow> keeps I (go_bind c (\<lambda>(x, s). k x s))"
  by (auto simp: keeps_def go_bind_def split: sum.splits)

lemma keeps_bind_pure [keeps_intros]:
  "(\<And>x. m = Inr x \<Longrightarrow> keeps I (k x)) \<Longrightarrow> keeps I (go_bind m k)"
  by (auto simp: keeps_def go_bind_def split: sum.splits)

lemma keeps_if [keeps_intros]:
  "(b \<Longrightarrow> keeps I x) \<Longrightarrow> (\<not> b \<Longrightarrow> keeps I y) \<Longrightarrow> keeps I (if b then x else y)"
  by simp

lemma keeps_option [keeps_intros]:
  "(x = None \<Longrightarrow> keeps I f) \<Longrightarrow> (\<And>y. x = Some y \<Longrightarrow> keeps I (g y)) \<Longrightarrow>
     keeps I (case x of None \<Rightarrow> f | Some y \<Rightarrow> g y)"
  by (cases x) simp_all

lemma keeps_sum [keeps_intros]:
  "(\<And>y. x = Inl y \<Longrightarrow> keeps I (f y)) \<Longrightarrow> (\<And>y. x = Inr y \<Longrightarrow> keeps I (g y)) \<Longrightarrow>
     keeps I (case x of Inl y \<Rightarrow> f y | Inr y \<Rightarrow> g y)"
  by (cases x) simp_all

lemma keeps_case_prod [keeps_intros]:
  "(\<And>a b. x = (a, b) \<Longrightarrow> keeps I (f a b)) \<Longrightarrow> keeps I (case x of (a, b) \<Rightarrow> f a b)"
  by (cases x) simp

lemma keeps_case_prod_app [keeps_intros]:
  "(\<And>a b. x = (a, b) \<Longrightarrow> keeps I (f a b s)) \<Longrightarrow> keeps I ((case x of (a, b) \<Rightarrow> f a b) s)"
  by (cases x) simp

lemma keeps_let [keeps_intros]: "(\<And>y. y = x \<Longrightarrow> keeps I (f y)) \<Longrightarrow> keeps I (let y = x in f y)"
  by simp

lemma keepsD: "keeps I out \<Longrightarrow> out = Inr (x, s) \<Longrightarrow> I s"
  by (simp add: keeps_def)

lemma keeps_bind_to:
  "keeps I c \<Longrightarrow> (\<And>x s. I s \<Longrightarrow> keeps J (k x s)) \<Longrightarrow> keeps J (go_bind c (\<lambda>(x, s). k x s))"
  by (auto simp: keeps_def go_bind_def split: sum.splits)

lemma keeps_and_then [keeps_intros]:
  "keeps I c \<Longrightarrow> (\<And>s. I s \<Longrightarrow> keeps I (k s)) \<Longrightarrow> keeps I (and_then c k)"
  unfolding and_then_def by (intro keeps_intros)

locale provider_keeps =
  fixes p :: "'s acProvider"
    and I :: "'s \<Rightarrow> bool"
  assumes keeps_verify: "I s \<Longrightarrow> keeps I (verifyPrincipalPolicy p prin ref pol s)"
    and keeps_refine: "I s \<Longrightarrow> keeps I (refinePrincipal p prin s)"
    and keeps_refine_cert: "I s \<Longrightarrow> keeps I (refinePrincipalForCertOptimization p prin s)"
    and keeps_endorsements: "I s \<Longrightarrow> keeps I (RefineEndorsements p es msg s)"
begin

lemmas provider_intros = keeps_verify keeps_refine keeps_refine_cert keeps_endorsements

lemma refine_unless_keeps: "I s \<Longrightarrow> keeps I (refine_unless p bypass tx prin s)"
  unfolding refine_unless_def by (intro keeps_intros provider_intros)

lemma verifyMsgTypePrincipal_keeps: "I s \<Longrightarrow> keeps I (verifyMsgTypePrincipal E p prin v s)"
  unfolding verifyMsgTypePrincipal_def by (intro keeps_intros provider_intros)

lemma verifyTxTypePrincipal_keeps: "I s \<Longrightarrow> keeps I (verifyTxTypePrincipal E p tx b v bypass s)"
  unfolding verifyTxTypePrincipal_def by (intro keeps_intros provider_intros refine_unless_keeps)

lemma verifySenderPrincipal_keeps: "I s \<Longrightarrow> keeps I (verifySenderPrincipal E p tx b v bypass name s)"
  unfolding verifySenderPrincipal_def by (intro keeps_intros provider_intros refine_unless_keeps)

lemma verifyEndorsementsPrincipalCommon_keeps:
  "I s \<Longrightarrow> keeps I (verifyEndorsementsPrincipalCommon E p tx b name v bypass s)"
  unfolding verifyEndorsementsPrincipalCommon_def
  by (intro keeps_intros provider_intros refine_unless_keeps)

lemma verifyTxPrincipal_keeps: "I s \<Longrightarrow> keeps I (verifyTxPrincipal E tx name p v s)"
  unfolding verifyTxPrincipal_def verifyEndorsementsPrincipal_def
  by (intro keeps_intros verifyTxTypePrincipal_keeps verifySenderPrincipal_keeps
      verifyEndorsementsPrincipalCommon_keeps)

lemma verifyPrincipalOld_keeps: "I s \<Longrightarrow> keeps I (verifyPrincipalOld lookUp E p prin s)"
  unfolding verifyPrincipalOld_def by (intro keeps_intros provider_intros)

lemma verifyTxPrincipalOld_keeps:
  assumes "\<And>prin s. I s \<Longrightarrow> keeps I (verify E p prin s)" and "I s"
  shows "keeps I (verifyTxPrincipalOld ex lk verify E tx name p s)"
  unfolding verifyTxPrincipalOld_def payer_ok_def
  by (intro keeps_intros provider_intros assms)

lemma VerifyMsgPrincipal_keeps: "I s \<Longrightarrow> keeps I (VerifyMsgPrincipal E p prin v s)"
  unfolding VerifyMsgPrincipal_def verifyPrincipal220_def verifyPrincipal2320_def
  by (intro keeps_intros verifyMsgTypePrincipal_keeps verifyPrincipalOld_keeps)

lemma VerifyTxPrincipal_keeps: "I s \<Longrightarrow> keeps I (VerifyTxPrincipal E p tx name v s)"
  unfolding VerifyTxPrincipal_def verifyTxPrincipal220_def verifyTxPrincipal2320_def
    verifyPrincipal220_def verifyPrincipal2320_def
  by (intro keeps_intros verifyTxPrincipal_keeps verifyTxPrincipalOld_keeps verifyPrincipalOld_keeps)

lemma multi_sign_keeps:
  assumes "I s"
  shows "keeps I (isMultiSignPassed E p tx name pol v s)" and "keeps I (isMultiSignRefused E p tx name pol v s)"
  unfolding isMultiSignPassed_def isMultiSignRefused_def verifyMultiSignEndorsementsPrincipal_def
  by (intro keeps_intros verifyEndorsementsPrincipalCommon_keeps assms)+

lemma VerifyMultiSignTxPrincipal_keeps:
  assumes "I s"
  shows "keeps (\<lambda>(mInfo, s). I s) (VerifyMultiSignTxPrincipal E p mInfo v s)"
  unfolding VerifyMultiSignTxPrincipal_def verifyMultiSignTxPrincipal_def
  by (intro keeps_if keeps_let keeps_bind_pure keeps_option keeps_Inr keeps_bind_to [where I = I])
    (auto intro!: keeps_intros multi_sign_keeps assms)

end

end
