(* ===== verification/AC_Pwk_Inv.thy ===== *)
theory AC_Pwk_Inv
  imports AC_Pwk_Refine AC_Keeps
begin

section \<open>Access control: the invariant of the permissioned provider\<close>

text \<open>
  Every check and every message of the bus keeps the invariant that the cached members are those of
  the configuration; the checks change nothing but the cache. The provider is an instance of the
  contract \<open>provider_keeps\<close>.
\<close>

subsection \<open>The loops of the service\<close>

definition svc_kept :: "acEnv \<Rightarrow> pwkConfig \<Rightarrow> acCallbacks \<Rightarrow> acService \<Rightarrow> acService \<Rightarrow> bool" where
  "svc_kept E c cb s0 s \<longleftrightarrow> names_ok E \<and> pwk_new E c cb \<and> pwk_fits E c s \<and> same_config s0 s"

lemma getMember_keeps: "svc_kept E c cb s0 s \<Longrightarrow> keeps (svc_kept E c cb s0) (getMemberFromCache E cb m s)"
  unfolding keeps_def svc_kept_def
  by (blast intro: getMemberFromCache_fits(1) getMemberFromCache_fits(2) same_config_trans)

lemma valid_loop_keeps:
  "svc_kept E c cb s0 s \<Longrightarrow> keeps (svc_kept E c cb s0) (valid_loop E cb orgs roles es refined s)"
proof (induction es arbitrary: refined s)
  case (Cons e es)
  then show ?case unfolding valid_loop.simps by (intro keeps_intros getMember_keeps)
qed (simp add: keeps_Inr)

lemma any_loop_keeps:
  "svc_kept E c cb s0 s \<Longrightarrow> keeps (svc_kept E c cb s0) (any_loop E cb orgs roles es s)"
proof (induction es arbitrary: s)
  case (Cons e es)
  then show ?case unfolding any_loop.simps by (intro keeps_intros getMember_keeps)
qed (simp add: keeps_Inr)

lemma countValid_keeps:
  "svc_kept E c cb s0 s \<Longrightarrow> keeps (svc_kept E c cb s0) (countValidEndorsements E cb orgs roles es s)"
  unfolding countValidEndorsements_def acs_getValidEndorsements_def
  by (intro keeps_intros valid_loop_keeps)

lemma keeps_list_case [keeps_intros]:
  "(xs = [] \<Longrightarrow> keeps I a) \<Longrightarrow> (\<And>y ys. xs = y # ys \<Longrightarrow> keeps I (b y ys)) \<Longrightarrow>
     keeps I (case xs of [] \<Rightarrow> a | y # ys \<Rightarrow> b y ys)"
  by (cases xs) simp_all

lemma acs_verify_keeps:
  "svc_kept E c cb s0 s \<Longrightarrow> keeps (svc_kept E c cb s0) (acs_verifyPrincipalPolicy E cb prin ref pol s)"
  unfolding acs_verifyPrincipalPolicy_def verifyMajorityCase_def verifySelfCase_def verifyAnyCase_def
    verifyAllCase_def verifyDefaultCase_def self_loop_any_loop
  by (intro keeps_intros countValid_keeps any_loop_keeps)

subsection \<open>The provider\<close>

definition pwk_kept :: "acEnv \<Rightarrow> permissionedPk \<Rightarrow> permissionedPk \<Rightarrow> bool" where
  "pwk_kept E pp0 pp \<longleftrightarrow> names_ok E \<and> pp_inv E pp \<and> pp_same pp0 pp"

lemma with_acs_keeps:
  assumes "\<And>s. svc_kept E (pwk_config pp) (pp_cb E pp) (pp_acs pp) s \<Longrightarrow>
             keeps (svc_kept E (pwk_config pp) (pp_cb E pp) (pp_acs pp)) (f s)"
    and "pwk_kept E pp0 pp"
  shows "keeps (pwk_kept E pp0) (with_acs f pp)"
proof -
  have "svc_kept E (pwk_config pp) (pp_cb E pp) (pp_acs pp) (pp_acs pp)"
    using assms(2) pp_cb_new by (simp add: svc_kept_def pwk_kept_def pp_inv_def)
  from assms(1) [OF this] show ?thesis
    using assms(2) pp_inv_update [of E pp] pp_same_trans [of pp0 pp]
    by (auto simp: keeps_def with_acs_def go_bind_Inr_iff svc_kept_def pwk_kept_def)
qed

lemma pp_NewMember_keeps: "pwk_kept E pp0 pp \<Longrightarrow> keeps (pwk_kept E pp0) (pp_NewMember E m pp)"
  using pp_NewMember_inv pp_same_trans by (fastforce simp: keeps_def pwk_kept_def)

lemma pp_RefineEndorsements_keeps:
  "pwk_kept E pp0 pp \<Longrightarrow> keeps (pwk_kept E pp0) (pp_RefineEndorsements E es msg pp)"
  using refine_loop_sound pp_same_trans
  by (fastforce simp: keeps_def pwk_kept_def pp_RefineEndorsements_def)

lemma pp_refinePrincipal_keeps:
  "pwk_kept E pp0 pp \<Longrightarrow> keeps (pwk_kept E pp0) (pp_refinePrincipal E prin pp)"
  unfolding pp_refinePrincipal_def by (intro keeps_intros pp_RefineEndorsements_keeps)

interpretation pwk: provider_keeps "pp_provider E" "pwk_kept E pp0" for E pp0
  by unfold_locales
    (auto simp: pp_provider_def pp_verifyPrincipalPolicy_def keeps_Inr
      intro: with_acs_keeps acs_verify_keeps pp_refinePrincipal_keeps pp_RefineEndorsements_keeps)

subsection \<open>Reachable states\<close>

text \<open>
  The member of a node is created from the consensus nodes and the public key contract only. For a
  key that is not an administrator's it is the member of the configuration. (For an administrator's
  key it is not, and the status check then replaces the administrator in the cache.)
\<close>

definition not_admin :: "acEnv \<Rightarrow> permissionedPk \<Rightarrow> Member \<Rightarrow> bool" where
  "not_admin E pp m =
     (case key_bytes E m of Inl _ \<Rightarrow> True | Inr (_, b) \<Rightarrow> pp_adminMember pp (hex_EncodeToString b) = None)"

lemma newPkNodeMember_same:
  assumes "newPkNodeMemberFromAcs E m (pp_consensusMember pp) h = Inr pm" and "not_admin E pp m"
  shows "newPkMemberFromAcs E m (pp_adminMember pp) (pp_consensusMember pp) h = Inr pm"
  using assms
  by (auto simp: newPkNodeMemberFromAcs_def newPkMemberFromAcs_def not_admin_def
      split: sum.splits option.splits if_splits)

lemma pp_inv_acs:
  assumes "pp_inv E pp" and "cache_ok c" and "sc.entries (fits_entry E (pwk_config pp)) c"
  shows "pp_inv E (pp\<lparr>pp_acs := (pp_acs pp)\<lparr>memberCache := c\<rparr>\<rparr>)"
  using assms by (simp add: pp_inv_def pwk_fits_def pwk_config_def)

text \<open>The parts of the service that a new configuration leaves alone.\<close>

lemma acs_frame [simp]:
  "memberCache (initResourcePolicy E rps s) = memberCache s"
  "acAuthType (initResourcePolicy E rps s) = acAuthType s"
  "acHashType (initResourcePolicy E rps s) = acHashType s"
  "memberCache (initResourcePolicy_220 E rps s) = memberCache s"
  "acAuthType (initResourcePolicy_220 E rps s) = acAuthType s"
  by (simp_all add: initResourcePolicy_def loadResourcePolicy_def createDefaultResourcePolicy_def
      initResourcePolicy_220_def Let_def)

lemma pp_initAdmin_frame [simp]:
  "memberCache (pp_acs (snd (pp_initAdminMembers E roots pp))) = memberCache (pp_acs pp)"
  "acAuthType (pp_acs (snd (pp_initAdminMembers E roots pp))) = acAuthType (pp_acs pp)"
  by (auto simp: pp_initAdminMembers_def split: sum.splits prod.splits)

lemma pp_inv_cleared:
  assumes "pp_inv E pp" and "memberCache (pp_acs pp') = memberCache (pp_acs pp)"
    and "acAuthType (pp_acs pp') = acAuthType (pp_acs pp)"
  shows "pp_inv E (pp_update_acs clear_members pp')"
  using assms sc.entries_clear [of "memberCache (pp_acs pp)"]
  by (simp add: pp_inv_def pwk_fits_def pp_update_acs_def clear_members_def pwk_config_def cache_ok_Clear)

lemma pp_onMessageChainConfig_inv: "pp_inv E pp \<Longrightarrow> pp_inv E (pp_onMessageChainConfig E cfg pp)"
  unfolding pp_onMessageChainConfig_def Let_def
  by (erule pp_inv_cleared) (simp_all add: pp_update_acs_def pp_initConsensusMember_def)

lemma pp_Watch_inv:
  assumes "pp_inv E pp" and "pp_Watch E cfg pp = (None, pp')"
  shows "pp_inv E pp'"
proof -
  let ?r = "pp_initAdminMembers E (cc_TrustRoots cfg) (pp_update_acs (\<lambda>s. s\<lparr>acHashType := cc_Hash cfg\<rparr>) pp)"
  obtain pp1 where r: "?r = (None, pp1)" using assms(2) by (auto simp: pp_Watch_def split: prod.splits option.splits)
  have "memberCache (pp_acs pp1) = memberCache (pp_acs pp)" "acAuthType (pp_acs pp1) = acAuthType (pp_acs pp)"
    using arg_cong [OF r, of "\<lambda>x. memberCache (pp_acs (snd x))"] arg_cong [OF r, of "\<lambda>x. acAuthType (pp_acs (snd x))"]
    by (simp_all add: pp_update_acs_def)
  then show ?thesis using assms r
    by (auto simp: pp_Watch_def Let_def pp_update_acs_def [of "initResourcePolicy E _"] pp_initConsensusMember_def
        pp_update_acs_def [of "initResourcePolicy_220 E _"] intro!: pp_inv_cleared)
qed

lemma pp_inv_forget: "pp_inv E pp \<Longrightarrow> pp_inv E (pp_forget k pp)"
  using sc.entries_remove [of "memberCache (pp_acs pp)"]
  by (simp add: pp_inv_def pwk_fits_def pp_forget_def pp_update_acs_def pwk_config_def cache_ok_Remove)

lemma pp_getPK_inv:
  assumes "pp_getPK E b pp = Inr (x, pp')" and "pp_inv E pp" and "names_ok E"
  shows "pp_inv E pp'"
proof -
  have "keeps (pwk_kept E pp) (pp_getPK E b pp)"
    unfolding pp_getPK_def by (intro keeps_intros pp_NewMember_keeps) (simp_all add: pwk_kept_def assms)
  then show ?thesis using assms(1) by (auto simp: keeps_def pwk_kept_def)
qed

lemma pp_inv_payers [simp]: "pp_inv E (pp\<lparr>pp_payerList := l\<rparr>) = pp_inv E pp"
  by (simp add: pp_inv_def pwk_config_def)

lemma pp_OnMessage_inv:
  assumes "pp_OnMessage E msg pp = Inr pp'" and "pp_inv E pp" and "names_ok E"
  shows "pp_inv E pp'"
proof (cases msg)
  case (PwkChainConfig cfg)
  then show ?thesis using assms pp_onMessageChainConfig_inv by auto
next
  case (PwkKeyDelete key)
  then show ?thesis using assms pp_inv_forget by (auto simp: pp_onMessagePublishKeyManageDelete_def go_bind_Inr_iff)
next
  case (PwkBlockInfo block)
  then have run: "pp_onMessageBlockInfo E block pp = Inr pp'" using assms(1) by simp
  show ?thesis
  proof (cases "payer_change block")
    case (SetPayer pl)
    with run obtain x pp1 where "pp_getPK E (last_param ''ENDORSEMENT'' pl) pp = Inr (x, pp1)"
      and pp': "\<exists>k v. pp' = pp_SetPayerToCache k v pp1"
      by (cases "UnmarshalPayerParams E (last_param ''PARAMS'' pl)")
        (auto simp: pp_onMessageBlockInfo_def pp_handleSetPayer_def go_bind_Inr_iff)
    from pp_getPK_inv [OF this(1) assms(2,3)] pp' show ?thesis by (auto simp: pp_SetPayerToCache_def)
  qed (use run assms(2) in \<open>auto simp: pp_onMessageBlockInfo_def pp_handleUnsetPayer_def\<close>)
qed

lemma pp_GetAddress_inv:
  assumes "pp_inv E pp"
  shows "pp_inv E (snd (pp_GetAddressFromCache E pem pp))"
proof -
  have c: "cache_ok (memberCache (pp_acs pp))" "sc.entries (fits_entry E (pwk_config pp)) (memberCache (pp_acs pp))"
    using assms by (simp_all add: pp_inv_def pwk_fits_def)
  then have "pp_inv E (pp\<lparr>pp_acs := (pp_acs pp)\<lparr>memberCache :=
      Cache_Add (''pk_'' @ pem) \<lparr>mc_member = None, mc_certChain = [], mc_address = a, mc_pk = k\<rparr>
        (memberCache (pp_acs pp))\<rparr>\<rparr>)" for a k
    by (intro pp_inv_acs assms cache_ok_Add sc.entries_add) (simp_all add: fits_entry_def)
  then show ?thesis using assms
    by (auto simp: pp_GetAddressFromCache_def address_of_def Let_def split: option.split sum.split)
qed

lemma newNodePkMember_keeps:
  assumes s: "svc_kept E (pwk_config pp) (pp_cb E pp) (pp_acs pp) s" and "not_admin E pp m"
  shows "keeps (svc_kept E (pwk_config pp) (pp_cb E pp) (pp_acs pp))
           (newNodePkMember E (pp_cb E pp) m (pp_consensusMember pp) s)"
  unfolding newNodePkMember_def
proof (intro keeps_intros getMember_keeps s, simp_all)
  fix s1 pm mem s2
  assume s1: "svc_kept E (pwk_config pp) (pp_cb E pp) (pp_acs pp) s1"
    and pm: "newPkNodeMemberFromAcs E m (pp_consensusMember pp) (acHashType s1) = Inr pm"
      "checked_org m pm = Inr mem"
    and add: "addMemberToCache E m (mkCached (Some mem) []) s1 = Inr s2"
  have fits: "pwk_fits E (pwk_config pp) s1" using s1 by (simp add: svc_kept_def)
  then have "acHashType s1 = snd (snd (pwk_config pp))" by (simp add: pwk_fits_def)
  then have "genuine E (pwk_config pp) m mem"
    using checked_org_genuine [OF _ pm(2), of E "pwk_config pp"] newPkNodeMember_same [OF pm(1) assms(2)]
    by (simp add: pwk_config_def)
  then show "svc_kept E (pwk_config pp) (pp_cb E pp) (pp_acs pp) s2"
    using addMemberToCache_fits [OF add fits] s1 same_config_trans by (auto simp: svc_kept_def)
qed

lemma pp_GetMemberStatus_inv:
  assumes "pp_GetMemberStatus E m pp = Inr (x, pp')" and "pp_inv E pp" and "names_ok E" and "not_admin E pp m"
  shows "pp_inv E pp'"
proof -
  have kept: "pwk_kept E pp pp" using assms(2,3) by (simp add: pwk_kept_def)
  have "keeps (pwk_kept E pp) (pp_GetMemberStatus E m pp)"
    unfolding pp_GetMemberStatus_def pp_newNodeMember_def
    by (intro keeps_intros with_acs_keeps newNodePkMember_keeps assms(4) kept) auto
  then show ?thesis using assms(1) by (auto simp: keeps_def pwk_kept_def)
qed

text \<open>
  The states a provider goes through while the public key contract does not change: it starts from
  a configuration, then checks messages, transactions and multi-sign requests, creates members,
  looks up addresses and receives the messages of the bus, in any order. The status of an
  administrator is not asked for (the answer would replace the administrator in the cache), and
  a configuration that the watcher of older versions rejects is not followed further.
\<close>

inductive pwk_reach :: "acEnv \<Rightarrow> permissionedPk \<Rightarrow> bool" for E where
  start: "newPermissionedPkACProvider E cfg org = Inr pp \<Longrightarrow>
     ToLower (cc_AuthType cfg) = PermissionedWithKey E \<Longrightarrow> pwk_reach E pp"
| check_msg: "pwk_reach E pp \<Longrightarrow> VerifyMsgPrincipal E (pp_provider E) prin v pp = Inr (x, pp') \<Longrightarrow> pwk_reach E pp'"
| check_tx: "pwk_reach E pp \<Longrightarrow> VerifyTxPrincipal E (pp_provider E) tx name v pp = Inr (x, pp') \<Longrightarrow> pwk_reach E pp'"
| check_multi_sign: "pwk_reach E pp \<Longrightarrow>
     VerifyMultiSignTxPrincipal E (pp_provider E) mInfo v pp = Inr (x, mInfo', pp') \<Longrightarrow> pwk_reach E pp'"
| new_member: "pwk_reach E pp \<Longrightarrow> pp_NewMember E m pp = Inr (r, pp') \<Longrightarrow> pwk_reach E pp'"
| status: "pwk_reach E pp \<Longrightarrow> not_admin E pp m \<Longrightarrow> pp_GetMemberStatus E m pp = Inr (x, pp') \<Longrightarrow> pwk_reach E pp'"
| address: "pwk_reach E pp \<Longrightarrow> pp_GetAddressFromCache E pem pp = (x, pp') \<Longrightarrow> pwk_reach E pp'"
| bus: "pwk_reach E pp \<Longrightarrow> pp_OnMessage E msg pp = Inr pp' \<Longrightarrow> pwk_reach E pp'"
| watch: "pwk_reach E pp \<Longrightarrow> pp_Watch E cfg pp = (None, pp') \<Longrightarrow> pwk_reach E pp'"

lemma start_inv:
  assumes "newPermissionedPkACProvider E cfg org = Inr pp" and "ToLower (cc_AuthType cfg) = PermissionedWithKey E"
  shows "pp_inv E pp"
proof -
  let ?pp = "\<lparr>pp_acs = initAccessControlService E (cc_Hash cfg) (ToLower (cc_AuthType cfg)) (cc_AddrType cfg),
                pp_localOrg = org, pp_adminMember = Map.empty,
                pp_consensusMember = Map.empty, pp_payerList = NewShardCache (GetCertCacheSize E)\<rparr>"
  obtain pp1 where pp1: "pp_initAdminMembers E (cc_TrustRoots cfg) ?pp = (None, pp1)"
    and pp: "pp = pp_update_acs (initResourcePolicy E (cc_ResourcePolicies cfg))
               (pp_initConsensusMember (cc_ConsensusNodes cfg) pp1)"
    using assms(1) by (auto simp: newPermissionedPkACProvider_def Let_def split: prod.splits option.splits)
  have "memberCache (pp_acs pp1) = NewShardCache (GetCertCacheSize E)" "acAuthType (pp_acs pp1) = PermissionedWithKey E"
    using pp_initAdmin_frame [of E "cc_TrustRoots cfg" ?pp] assms(2)
    unfolding pp1 by (simp_all add: initAccessControlService_def)
  then show ?thesis
    by (simp add: pp pp_inv_def pwk_fits_def pp_update_acs_def pp_initConsensusMember_def pwk_config_def
        sc.entries_def cache_ok_New)
qed

lemma kept_step:
  "keeps (pwk_kept E pp) out \<Longrightarrow> out = Inr (x, pp') \<Longrightarrow> pp_inv E pp'"
  by (auto simp: keeps_def pwk_kept_def)

lemma pwk_reach_inv:
  assumes "pwk_reach E pp" and "names_ok E"
  shows "pp_inv E pp"
  using assms(1)
proof induction
  case (start cfg org pp)
  then show ?case by (rule start_inv)
next
  case (check_msg pp prin v x pp')
  then have "pwk_kept E pp pp" using assms(2) by (simp add: pwk_kept_def)
  from kept_step [OF pwk.VerifyMsgPrincipal_keeps [OF this] check_msg.hyps(2)] show ?case .
next
  case (check_tx pp tx name v x pp')
  then have "pwk_kept E pp pp" using assms(2) by (simp add: pwk_kept_def)
  from kept_step [OF pwk.VerifyTxPrincipal_keeps [OF this] check_tx.hyps(2)] show ?case .
next
  case (check_multi_sign pp mInfo v x mInfo' pp')
  then have "pwk_kept E pp pp" using assms(2) by (simp add: pwk_kept_def)
  from keepsD [OF pwk.VerifyMultiSignTxPrincipal_keeps [OF this] check_multi_sign.hyps(2)] show ?case
    by (simp add: pwk_kept_def)
next
  case (new_member pp m r pp')
  then show ?case using pp_NewMember_inv(1) assms(2) by blast
next
  case (status pp m x pp')
  then show ?case using pp_GetMemberStatus_inv assms(2) by blast
next
  case (address pp pem x pp')
  then show ?case using pp_GetAddress_inv [of E pp pem] by simp
next
  case (bus pp msg pp')
  then show ?case using pp_OnMessage_inv assms(2) by blast
next
  case (watch pp cfg pp')
  then show ?case using pp_Watch_inv by blast
qed

end
