(* ===== verification/AC_Pk.thy ===== *)
theory AC_Pk
  imports AC_Pwk
begin

section \<open>Access control: public keys (public_pk_ac.go)\<close>

text \<open>
  The provider for the authentication type \<^verbatim>\<open>public\<close>: there are no organisations, the voters are
  the administrators of the chain configuration, and every key is a member. Included are the
  handlers of the message bus (\<^verbatim>\<open>public_pk_ac_subscriber.go\<close>) and the watcher of older versions.
\<close>

record pkAC =
  pk_authType :: string
  pk_hashType :: string
  pk_addressType :: AddrType
  pk_adminNum :: i32
  pk_adminMember :: "string \<rightharpoonup> publicAdminMemberModel"
  pk_consensusMember :: "string \<rightharpoonup> unit"
  pk_payerList :: "string ShardCache"
  pk_memberCache :: "memberCached ShardCache"
  pk_pols :: acPolicies

definition AdminPublicKey :: string where "AdminPublicKey = ''public''"
definition DposOrgId :: string where "DposOrgId = ''dpos_org_id''"
definition PermissionConsensusOrgId :: string where "PermissionConsensusOrgId = ''public''"

definition restrainedResourceListPK :: "acEnv \<Rightarrow> string list" where
  "restrainedResourceListPK E =
     [ResourceNameAllTest E, ResourceNameP2p E, ResourceNameConsensusNode E,
      TxType_String QUERY_CONTRACT, TxType_String INVOKE_CONTRACT, TxType_String SUBSCRIBE,
      TxType_String ARCHIVE,
      res ''CERT_MANAGE'' ''CERT_ALIAS_ADD'', res ''CERT_MANAGE'' ''CERT_ALIAS_UPDATE'',
      res ''CERT_MANAGE'' ''CERTS_ALIAS_DELETE'', res ''CERT_MANAGE'' ''CERTS_ALIAS_QUERY'',
      res ''CERT_MANAGE'' ''CERTS_QUERY'', res ''CERT_MANAGE'' ''CERT_ADD'',
      res ''CERT_MANAGE'' ''CERTS_FREEZE'', res ''CERT_MANAGE'' ''CERTS_UNFREEZE'',
      res ''CERT_MANAGE'' ''CERTS_DELETE'', res ''CERT_MANAGE'' ''CERTS_REVOKE'',
      res ''CHAIN_CONFIG'' ''ALTER_ADDR_TYPE'']"

subsection \<open>Configured policies\<close>

definition pk_checkResourcePolicyOrgList :: "pbPolicy \<Rightarrow> bool" where
  "pk_checkResourcePolicyOrgList p =
     (case pb_OrgList p of [] \<Rightarrow> True | [org] \<Rightarrow> org \<noteq> ''public'' | _ \<Rightarrow> False)"

definition pk_checkResourcePolicyRuleMajorityCase :: "acEnv \<Rightarrow> pbPolicy \<Rightarrow> bool" where
  "pk_checkResourcePolicyRuleMajorityCase E p =
     (case pb_RoleList p of [] \<Rightarrow> True | [role] \<Rightarrow> role = RoleAdmin E | _ \<Rightarrow> False)"

definition pk_checkResourcePolicyRuleDefaultCase :: "pbPolicy \<Rightarrow> bool" where
  "pk_checkResourcePolicyRuleDefaultCase p =
     (case split_at CHR ''/'' (pb_Rule p) of
        [n] \<Rightarrow> Atoi n \<noteq> None
      | [n, d] \<Rightarrow>
        (case Atoi n of None \<Rightarrow> False
         | Some numerator \<Rightarrow>
           case Atoi d of None \<Rightarrow> False
           | Some denominator \<Rightarrow> \<not> (numerator \<le> 0 \<or> denominator \<le> 0))
      | _ \<Rightarrow> False)"

definition pk_checkResourcePolicyRule :: "acEnv \<Rightarrow> pbPolicy \<Rightarrow> bool" where
  "pk_checkResourcePolicyRule E p =
     (let r = pb_Rule p
      in if r = RuleAny E \<or> r = RuleAll E \<or> r = RuleForbidden E then True
         else if r = RuleMajority E then pk_checkResourcePolicyRuleMajorityCase E p
         else if r = RuleDelete E then True
         else if r = RuleSelf E then True
         else pk_checkResourcePolicyRuleDefaultCase p)"

definition pk_ValidateResourcePolicy :: "acEnv \<Rightarrow> ResourcePolicy \<Rightarrow> bool" where
  "pk_ValidateResourcePolicy E rp =
     (if ResourceName rp \<in> set (restrainedResourceListPK E) then False
      else case Policy rp of None \<Rightarrow> False
        | Some p \<Rightarrow>
          if \<not> pk_checkResourcePolicyOrgList p then False else pk_checkResourcePolicyRule E p)"

definition pk_initResourcePolicy :: "acEnv \<Rightarrow> ResourcePolicy list \<Rightarrow> pkAC \<Rightarrow> pkAC" where
  "pk_initResourcePolicy E rps p =
     p\<lparr>pk_pols := (pk_pols p)\<lparr>latestPolicyMap :=
         store_all (configured (pk_ValidateResourcePolicy E) rps) Map.empty\<rparr>\<rparr>"

subsection \<open>Administrators and consensus nodes\<close>

primrec pub_admin_roots ::
  "acEnv \<Rightarrow> string list \<Rightarrow> (string \<rightharpoonup> publicAdminMemberModel) \<times> i32 \<Rightarrow>
   ((string \<rightharpoonup> publicAdminMemberModel) \<times> i32) result" where
  "pub_admin_roots E [] st = Inr st"
| "pub_admin_roots E (root # roots) st =
     (case PublicKeyFromPEM E root of None \<Rightarrow> Inl ErrParseKey
      | Some pk \<Rightarrow>
        case pk_Bytes E pk of None \<Rightarrow> Inl ErrKeyBytes
        | Some pkBytes \<Rightarrow>
          pub_admin_roots E roots
            ((fst st)(hex_EncodeToString pkBytes \<mapsto>
               \<lparr>pam_publicKey = pk, pam_pkBytes = pkBytes\<rparr>), snd st + 1))"

primrec pub_admins ::
  "acEnv \<Rightarrow> TrustRootConfig list \<Rightarrow> (string \<rightharpoonup> publicAdminMemberModel) \<times> i32 \<Rightarrow>
   ((string \<rightharpoonup> publicAdminMemberModel) \<times> i32) result" where
  "pub_admins E [] st = Inr st"
| "pub_admins E (tr # trs) st =
     (if ToLower (tr_OrgId tr) = AdminPublicKey then
        (case pub_admin_roots E (tr_Root tr) st of Inl e \<Rightarrow> Inl e | Inr st \<Rightarrow> pub_admins E trs st)
      else pub_admins E trs st)"

definition pk_initAdminMembers :: "acEnv \<Rightarrow> TrustRootConfig list \<Rightarrow> pkAC \<Rightarrow> acError option \<times> pkAC" where
  "pk_initAdminMembers E trs p =
     (if trs = [] then (None, p)
      else case pub_admins E trs (Map.empty, 0) of
        Inl e \<Rightarrow> (Some e, p)
      | Inr (admins, n) \<Rightarrow> (None, p\<lparr>pk_adminMember := admins, pk_adminNum := n\<rparr>))"

definition node_set :: "string list \<Rightarrow> string \<rightharpoonup> unit" where
  "node_set nodes = store_all (map (\<lambda>n. (n, ())) nodes) Map.empty"

definition initNodes :: "string \<Rightarrow> OrgConfig list \<Rightarrow> pkAC \<Rightarrow> acError option \<times> pkAC" where
  "initNodes orgId confs p =
     (case confs of [] \<Rightarrow> (Some ErrNodeConfig, p)
      | conf # _ \<Rightarrow>
        if oc_OrgId conf \<noteq> orgId then (Some ErrNodeConfig, p)
        else (None, p\<lparr>pk_consensusMember := node_set (oc_NodeId conf)\<rparr>))"

definition initDPoSMember :: "OrgConfig list \<Rightarrow> pkAC \<Rightarrow> acError option \<times> pkAC" where
  "initDPoSMember = initNodes DposOrgId"

definition initPermissionMember :: "OrgConfig list \<Rightarrow> pkAC \<Rightarrow> acError option \<times> pkAC" where
  "initPermissionMember = initNodes PermissionConsensusOrgId"

definition pk_initConsensusMember :: "acConfig \<Rightarrow> pkAC \<Rightarrow> acError option \<times> pkAC" where
  "pk_initConsensusMember cfg p =
     (case cc_ConsensusType cfg of
        DPOS \<Rightarrow> initDPoSMember (cc_ConsensusNodes cfg) p
      | TBFT_type \<Rightarrow> initPermissionMember (cc_ConsensusNodes cfg) p
      | _ \<Rightarrow> (Some ErrConsensusType, p))"

definition default_pk_policies :: "acEnv \<Rightarrow> acConfig \<Rightarrow> acPolicies" where
  "default_pk_policies E cfg =
     (if cc_ConsensusType cfg = DPOS then
        createDefaultResourcePolicyForPKDPoS E (createDefaultResourcePolicyForDPoS_2320 E
          (createDefaultResourcePolicyForDPoS_220 E noPolicies))
      else
        createDefaultResourcePolicyForPK E (createDefaultResourcePolicyForCommon_2320 E
          (createDefaultResourcePolicyForCommon_220 E noPolicies)))"

definition newPkACProvider :: "acEnv \<Rightarrow> acConfig \<Rightarrow> pkAC result" where
  "newPkACProvider E cfg =
     (let p = \<lparr>pk_authType = cc_AuthType cfg, pk_hashType = cc_Hash cfg,
               pk_addressType = cc_AddrType cfg, pk_adminNum = 0, pk_adminMember = Map.empty,
               pk_consensusMember = Map.empty, pk_payerList = NewShardCache (GetCertCacheSize E),
               pk_memberCache = NewShardCache (GetCertCacheSize E),
               pk_pols = default_pk_policies E cfg\<rparr>
      in case pk_initAdminMembers E (cc_TrustRoots cfg)
                (pk_initResourcePolicy E (cc_ResourcePolicies cfg) p) of
           (Some e, _) \<Rightarrow> Inl e
         | (None, p) \<Rightarrow>
           (case pk_initConsensusMember cfg p of (Some e, _) \<Rightarrow> Inl e | (None, p) \<Rightarrow> Inr p))"

subsection \<open>Members\<close>

definition pk_NewMemberFromAcs :: "acEnv \<Rightarrow> pkAC \<Rightarrow> Member \<Rightarrow> acMember result" where
  "pk_NewMemberFromAcs E p m =
     (case publicNewPkMemberFromAcs E m (pk_adminMember p) (pk_consensusMember p) (pk_hashType p) of
        Inl e \<Rightarrow> Inl e | Inr pm \<Rightarrow> Inr (PkMember pm))"

definition pk_memberToAddress :: "acEnv \<Rightarrow> pkAC \<Rightarrow> Member \<Rightarrow> string result" where
  "pk_memberToAddress E p m =
     (if MemberType m = MemberType_PUBLIC_KEY then
        (case PublicKeyFromPEM E (MemberInfo m) of None \<Rightarrow> Inl ErrParseKey
         | Some publicKey \<Rightarrow> addr_string E (Some publicKey) (pk_addressType p) (pk_hashType p))
      else Inl ErrMemberType)"

definition pk_addMemberToCache :: "acEnv \<Rightarrow> Member \<Rightarrow> acMember \<Rightarrow> pkAC \<Rightarrow> pkAC" where
  "pk_addMemberToCache E m mem p =
     (case pk_memberToAddress E p m of Inl _ \<Rightarrow> p
      | Inr address \<Rightarrow>
        p\<lparr>pk_memberCache := Cache_Add (MemberInfo m)
            \<lparr>mc_member = Some mem, mc_certChain = [], mc_address = address, mc_pk = Some (GetPk mem)\<rparr>
            (pk_memberCache p)\<rparr>)"

text \<open>A cached entry without a member (of \<^verbatim>\<open>GetAddressFromCache\<close>) is the nil member.\<close>

definition pk_getMemberFromCache :: "acEnv \<Rightarrow> Member \<Rightarrow> pkAC \<Rightarrow> acMember option \<times> pkAC" where
  "pk_getMemberFromCache E m p =
     (case Cache_Get (pk_memberCache p) (MemberInfo m) of
        Some cached \<Rightarrow> (mc_member cached, p)
      | None \<Rightarrow>
        if pk_authType p = Public E then
          (case pk_NewMemberFromAcs E p m of Inl _ \<Rightarrow> (None, p)
           | Inr mem \<Rightarrow> (Some mem, pk_addMemberToCache E m mem p))
        else (None, p))"

definition pk_NewMember :: "acEnv \<Rightarrow> Member \<Rightarrow> pkAC \<Rightarrow> acMember result \<times> pkAC" where
  "pk_NewMember E m p =
     (case pk_getMemberFromCache E m p of
        (Some mem, p) \<Rightarrow> (Inr mem, p)
      | (None, p) \<Rightarrow>
        (case pk_NewMemberFromAcs E p m of Inl e \<Rightarrow> (Inl e, p)
         | Inr mem \<Rightarrow> (Inr mem, pk_addMemberToCache E m mem p)))"

subsection \<open>Evaluation of a policy\<close>

primrec pk_valid_loop ::
  "acEnv \<Rightarrow> Role list \<Rightarrow> EndorsementEntry option list \<Rightarrow> EndorsementEntry option list \<Rightarrow> pkAC \<Rightarrow>
   (EndorsementEntry option list \<times> pkAC) go" where
  "pk_valid_loop E roles [] refined p = Inr (refined, p)"
| "pk_valid_loop E roles (e # es) refined p =
     (if roles = [] then pk_valid_loop E roles es (refined @ [e]) p
      else go_bind (signer e) (\<lambda>m.
        case pk_getMemberFromCache E m p of
          (None, p) \<Rightarrow> pk_valid_loop E roles es refined p
        | (Some mem, p) \<Rightarrow>
          pk_valid_loop E roles es (if GetRole mem \<in> set roles then refined @ [e] else refined) p))"

definition getValidEndorsementsInner ::
  "acEnv \<Rightarrow> Role list \<Rightarrow> EndorsementEntry option list \<Rightarrow> pkAC \<Rightarrow>
   (EndorsementEntry option list \<times> pkAC) go" where
  "getValidEndorsementsInner E roles es p = pk_valid_loop E roles es [] p"

primrec pk_any_loop ::
  "acEnv \<Rightarrow> Role list \<Rightarrow> EndorsementEntry option list \<Rightarrow> pkAC \<Rightarrow> (verdict \<times> pkAC) go" where
  "pk_any_loop E roles [] p = Inr (denied ErrNotMet, p)"
| "pk_any_loop E roles (e # es) p =
     (if roles = [] then Inr (allowed, p)
      else go_bind (signer e) (\<lambda>m.
        case pk_getMemberFromCache E m p of
          (None, p) \<Rightarrow> pk_any_loop E roles es p
        | (Some mem, p) \<Rightarrow>
          if (if GetRole mem = [] then RoleClient E else GetRole mem) \<in> set roles
          then Inr (allowed, p) else pk_any_loop E roles es p))"

definition verifyRuleAnyCase ::
  "acEnv \<Rightarrow> policy \<Rightarrow> EndorsementEntry option list \<Rightarrow> pkAC \<Rightarrow> (verdict \<times> pkAC) go" where
  "verifyRuleAnyCase E pol es p = pk_any_loop E (remdups (pol_roleList pol)) es p"

definition adminCount :: "pkAC \<Rightarrow> int" where
  "adminCount p = sint (pk_adminNum p)"

definition count_admins ::
  "acEnv \<Rightarrow> EndorsementEntry option list \<Rightarrow> pkAC \<Rightarrow> (int \<times> pkAC) go" where
  "count_admins E es p =
     go_bind (getValidEndorsementsInner E [RoleAdmin E] es p) (\<lambda>(refined, p).
       Inr (int (length refined), p))"

definition verifyRuleAllCase ::
  "acEnv \<Rightarrow> policy \<Rightarrow> EndorsementEntry option list \<Rightarrow> pkAC \<Rightarrow> (verdict \<times> pkAC) go" where
  "verifyRuleAllCase E pol es p =
     go_bind (count_admins E es p) (\<lambda>(numOfValid, p).
       if numOfValid \<ge> adminCount p then Inr (allowed, p)
       else Inr (denied (ErrNotEnough numOfValid), p))"

definition verifyRuleMajorityCase ::
  "acEnv \<Rightarrow> policy \<Rightarrow> EndorsementEntry option list \<Rightarrow> pkAC \<Rightarrow> (verdict \<times> pkAC) go" where
  "verifyRuleMajorityCase E pol es p =
     go_bind (count_admins E es p) (\<lambda>(numOfValid, p).
       if 2 * numOfValid > adminCount p then Inr (allowed, p)
       else Inr (denied (ErrNotEnough numOfValid), p))"

definition verifyRuleDefaultCase ::
  "acEnv \<Rightarrow> policy \<Rightarrow> EndorsementEntry option list \<Rightarrow> pkAC \<Rightarrow> (verdict \<times> pkAC) go" where
  "verifyRuleDefaultCase E pol es p =
     go_bind (count_admins E es p) (\<lambda>(numOfValid, p).
       case split_at CHR ''/'' (pol_rule pol) of
         [n] \<Rightarrow>
           (case Atoi n of None \<Rightarrow> Inr (denied ErrUnrecognizedRule, p)
            | Some threshold \<Rightarrow>
              if numOfValid \<ge> threshold then Inr (allowed, p)
              else Inr (denied (ErrNotEnough numOfValid), p))
       | [n, d] \<Rightarrow>
           (case (Atoi n, Atoi d) of
              (Some numerator, Some denominator) \<Rightarrow>
                if portion_met numOfValid (adminCount p) numerator
                     (if denominator \<le> 0 then adminCount p else denominator)
                then Inr (allowed, p)
                else Inr (denied (ErrNotEnough numOfValid), p)
            | _ \<Rightarrow> Inr (denied ErrUnrecognizedRule, p))
       | _ \<Rightarrow> Inr (denied ErrUnrecognizedType, p))"

definition pk_verifyPrincipalPolicy ::
  "acEnv \<Rightarrow> principal \<Rightarrow> principal \<Rightarrow> policy \<Rightarrow> pkAC \<Rightarrow> (verdict \<times> pkAC) go" where
  "pk_verifyPrincipalPolicy E prin refined pol p =
     (let es = pr_endorsement refined; r = pol_rule pol
      in if r = RuleForbidden E then Inr (denied (ErrForbidden (pr_resourceName refined)), p)
         else if r = RuleAny E then verifyRuleAnyCase E pol es p
         else if r = RuleAll E then verifyRuleAllCase E pol es p
         else if r = RuleMajority E then verifyRuleMajorityCase E pol es p
         else verifyRuleDefaultCase E pol es p)"

subsection \<open>Refinement of endorsements\<close>

primrec pk_refine_loop ::
  "acEnv \<Rightarrow> gobytes \<Rightarrow> EndorsementEntry option list \<Rightarrow> string list \<Rightarrow> EndorsementEntry option list \<Rightarrow>
   pkAC \<Rightarrow> (EndorsementEntry option list \<times> pkAC) go" where
  "pk_refine_loop E msg [] seen refined p = Inr (refined, p)"
| "pk_refine_loop E msg (e # es) seen refined p =
     go_bind (deref e) (\<lambda>entry. go_bind (deref (Signer entry)) (\<lambda>m.
       case pk_NewMember E m p of
         (Inl _, p) \<Rightarrow> pk_refine_loop E msg es seen refined p
       | (Inr mem, p) \<Rightarrow>
         if member_Verify E mem (pk_hashType p) msg (Signature entry) \<noteq> None
         then pk_refine_loop E msg es seen refined p
         else if MemberInfo m \<in> set seen then pk_refine_loop E msg es seen refined p
         else pk_refine_loop E msg es (MemberInfo m # seen) (refined @ [e]) p))"

definition pk_RefineEndorsements ::
  "acEnv \<Rightarrow> EndorsementEntry option list \<Rightarrow> gobytes \<Rightarrow> pkAC \<Rightarrow>
   (EndorsementEntry option list \<times> pkAC) go" where
  "pk_RefineEndorsements E es msg p = pk_refine_loop E msg es [] [] p"

definition pk_CreatePrincipal ::
  "string \<Rightarrow> EndorsementEntry option list \<Rightarrow> gobytes \<Rightarrow> principal result" where
  "pk_CreatePrincipal name es msg =
     (if es = [] \<or> msg = None then Inl ErrEmptyPrincipal
      else if hd es = None then Inl ErrNilEndorsement
      else Inr \<lparr>pr_resourceName = name, pr_endorsement = es, pr_message = msg, pr_targetOrg = []\<rparr>)"

definition pk_refinePrincipal :: "acEnv \<Rightarrow> principal \<Rightarrow> pkAC \<Rightarrow> (principal result \<times> pkAC) go" where
  "pk_refinePrincipal E prin p =
     go_bind (pk_RefineEndorsements E (pr_endorsement prin) (pr_message prin) p) (\<lambda>(refined, p).
       if refined = [] then Inr (Inl ErrRefineFailed, p)
       else Inr (pk_CreatePrincipal (pr_resourceName prin) refined (pr_message prin), p))"

definition pk_provider :: "acEnv \<Rightarrow> pkAC acProvider" where
  "pk_provider E =
     \<lparr>getTotalVoterNum = adminCount,
      verifyPrincipalPolicy = pk_verifyPrincipalPolicy E,
      refinePrincipal = pk_refinePrincipal E,
      refinePrincipalForCertOptimization = (\<lambda>_ p. Inr (Inl ErrNotCalled, p)),
      CreatePrincipal = pk_CreatePrincipal,
      CreatePrincipalForTargetOrg = (\<lambda>_ _ _ _. Inl ErrNoTargetOrgSupport),
      RefineEndorsements = pk_RefineEndorsements E,
      providerPols = pk_pols\<rparr>"

definition pk_getValidEndorsements ::
  "acEnv \<Rightarrow> principal \<Rightarrow> u32 \<Rightarrow> pkAC \<Rightarrow> (EndorsementEntry option list result \<times> pkAC) go" where
  "pk_getValidEndorsements E prin blockVersion p =
     go_bind (pk_refinePrincipal E prin p) (\<lambda>(refined, p).
       case refined of Inl e \<Rightarrow> Inr (Inl e, p)
       | Inr refinedPolicy \<Rightarrow>
         go_bind (if blockVersion \<le> blockVersion220
                  then Inr (lookUpPolicyByResourceName220 (pk_pols p) (pr_resourceName prin))
                  else if blockVersion < blockVersion2330
                  then Inr (lookUpPolicyByResourceName2320 (pk_pols p) (pr_resourceName prin))
                  else go_bind (findFromEndorsementsPolicies (pr_resourceName prin) blockVersion (pk_pols p))
                         (\<lambda>pol. go_bind (deref pol) (\<lambda>q. Inr (Some q))))
           (\<lambda>pol. case pol of None \<Rightarrow> Inr (Inl (ErrPolicyNotFound (pr_resourceName prin)), p)
             | Some q \<Rightarrow>
               go_bind (getValidEndorsementsInner E (remdups (pol_roleList q)) (pr_endorsement refinedPolicy) p)
                 (\<lambda>(es, p). Inr (Inr es, p))))"

definition getBlockVersionAndResourceName :: "string \<Rightarrow> u32 \<times> string" where
  "getBlockVersionAndResourceName name =
     (case split_at CHR '':'' name of
        [v, r] \<Rightarrow> (case ParseUint10 32 v of None \<Rightarrow> (0, r) | Some w \<Rightarrow> (ucast w, r))
      | [r] \<Rightarrow> (0, r)
      | _ \<Rightarrow> (0, []))"

definition LookUpPolicy :: "pkAC \<Rightarrow> string \<Rightarrow> pbPolicy option" where
  "LookUpPolicy p name =
     (let (blockVersion, policyName) = getBlockVersionAndResourceName name
      in if 0 < blockVersion \<and> blockVersion \<le> blockVersion220 then lookUpPolicy220 (pk_pols p) policyName
         else case latestPolicyMap (pk_pols p) policyName of Some q \<Rightarrow> Some (GetPbPolicy q)
           | None \<Rightarrow> map_option GetPbPolicy (resourceNamePolicyMap (pk_pols p) policyName))"

subsection \<open>Addresses, payers and messages of the bus\<close>

text \<open>
  When the address of a key cannot be computed the code returns the key of the entry that it has
  just not found: it dereferences nil.
\<close>

definition pk_GetAddressFromCache ::
  "acEnv \<Rightarrow> string \<Rightarrow> pkAC \<Rightarrow> ((string \<times> pubKey option) result \<times> pkAC) go" where
  "pk_GetAddressFromCache E pkPem p =
     (case Cache_Get (pk_memberCache p) pkPem of
        Some cached \<Rightarrow> Inr (Inr (mc_address cached, mc_pk cached), p)
      | None \<Rightarrow>
        case address_of E (pk_addressType p) (pk_hashType p) pkPem (pk_memberCache p) of
          (Inl ErrAddress, _) \<Rightarrow> Inl NilDeref
        | (r, c) \<Rightarrow> Inr (r, p\<lparr>pk_memberCache := c\<rparr>))"

definition pk_GetPayerFromCache :: "pkAC \<Rightarrow> string \<Rightarrow> string result" where
  "pk_GetPayerFromCache p key =
     (case Cache_Get (pk_payerList p) key of None \<Rightarrow> Inl ErrNotFound | Some v \<Rightarrow> Inr v)"

definition pk_SetPayerToCache :: "string \<Rightarrow> string \<Rightarrow> pkAC \<Rightarrow> pkAC" where
  "pk_SetPayerToCache key v p = p\<lparr>pk_payerList := Cache_Add key v (pk_payerList p)\<rparr>"

definition pk_getPK :: "acEnv \<Rightarrow> gobytes \<Rightarrow> pkAC \<Rightarrow> (string \<times> pkAC) go" where
  "pk_getPK E bytes p =
     (case UnmarshalEndorsement E bytes of None \<Rightarrow> Inr ([], p)
      | Some entry \<Rightarrow>
        go_bind (deref (Signer entry)) (\<lambda>m.
          case pk_NewMember E m p of
            (Inl _, p) \<Rightarrow> Inr ([], p)
          | (Inr mem, p) \<Rightarrow> Inr (bytes_or_empty (pk_String E (GetPk mem)), p)))"

definition pk_handleSetPayer :: "acEnv \<Rightarrow> acPayload \<Rightarrow> pkAC \<Rightarrow> pkAC go" where
  "pk_handleSetPayer E pl p =
     go_bind (pk_getPK E (last_param ''ENDORSEMENT'' pl) p) (\<lambda>(pkStr, p).
       (let (contract, method) = UnmarshalPayerParams E (last_param ''PARAMS'' pl)
        in if contract = [] then Inr p
           else Inr (pk_SetPayerToCache (payer_key E contract method) pkStr p)))"

definition pk_handleUnsetPayer :: "acEnv \<Rightarrow> acPayload \<Rightarrow> pkAC \<Rightarrow> pkAC" where
  "pk_handleUnsetPayer E pl p = p\<lparr>pk_payerList := Cache_Remove (unset_key E pl) (pk_payerList p)\<rparr>"

definition pk_onMessageBlockInfo :: "acEnv \<Rightarrow> payerTx list option \<Rightarrow> pkAC \<Rightarrow> pkAC go" where
  "pk_onMessageBlockInfo E block p =
     (case payer_change block of
        SetPayer pl \<Rightarrow> pk_handleSetPayer E pl p
      | UnsetPayer pl \<Rightarrow> Inr (pk_handleUnsetPayer E pl p)
      | NoPayerChange \<Rightarrow> Inr p)"

definition pk_clear :: "pkAC \<Rightarrow> pkAC" where
  "pk_clear p = p\<lparr>pk_memberCache := Cache_Clear (pk_memberCache p)\<rparr>"

definition pk_onMessageChainConfig :: "acEnv \<Rightarrow> acConfig \<Rightarrow> pkAC \<Rightarrow> pkAC" where
  "pk_onMessageChainConfig E cfg p =
     (let p = pk_initResourcePolicy E (cc_ResourcePolicies cfg) p;
          p = p\<lparr>pk_hashType := cc_Hash cfg, pk_addressType := cc_AddrType cfg\<rparr>;
          p = snd (pk_initAdminMembers E (cc_TrustRoots cfg) p);
          p = snd (pk_initConsensusMember cfg p)
      in pk_clear p)"

definition pk_Watch :: "acEnv \<Rightarrow> acConfig \<Rightarrow> pkAC \<Rightarrow> acError option \<times> pkAC" where
  "pk_Watch E cfg p =
     (case pk_initAdminMembers E (cc_TrustRoots cfg) (p\<lparr>pk_hashType := cc_Hash cfg\<rparr>) of
        (Some e, p) \<Rightarrow> (Some e, p)
      | (None, p) \<Rightarrow>
        (case pk_initConsensusMember cfg p of
           (Some e, p) \<Rightarrow> (Some e, p)
         | (None, p) \<Rightarrow> (None, pk_clear p)))"

end
