(* ===== verification/AC_Cert.thy ===== *)
theory AC_Cert
  imports AC_Pwk
begin

section \<open>Access control: certificates (cert_ac.go)\<close>

text \<open>
  The provider for the authentication types \<^verbatim>\<open>permissionedWithCert\<close> and \<^verbatim>\<open>identity\<close>: members are
  certificates issued under the roots of their organisations, or third-party trusted members;
  certificates may be revoked, frozen and referred to by their hash or an alias.

  The loops over the blocks of a PEM text run until \<^verbatim>\<open>pem.Decode\<close> finds no further block; what it
  leaves is shorter than what it was given, which \<open>pem_blocks\<close> uses to end.
\<close>

record certAC =
  cp_acs :: acService
  cp_certCache :: "string ShardCache"
  cp_crl :: "string \<rightharpoonup> CertificateList"
  cp_frozenList :: "string \<rightharpoonup> bool"
  cp_Roots :: "bcCertificate list"
  cp_Intermediates :: "bcCertificate list"
  cp_localOrg :: organization
  cp_trustMembers :: "string \<rightharpoonup> acTrustMember \<times> bcCertificate"
  cp_payerList :: "string ShardCache"
  cp_consensusType :: acConsensusType

definition cp_cb :: "acEnv \<Rightarrow> certAC \<Rightarrow> acCallbacks" where
  "cp_cb E cp =
     \<lparr>pwkNewMember = (\<lambda>_. Inl ErrNotSupported),
      certVerify = (\<lambda>cert. VerifyCertificate E cert (cp_Roots cp) (cp_Intermediates cp))\<rparr>"

definition cp_with_acs :: "(acService \<Rightarrow> ('a \<times> acService) go) \<Rightarrow> certAC \<Rightarrow> ('a \<times> certAC) go" where
  "cp_with_acs f cp = go_bind (f (cp_acs cp)) (\<lambda>(x, s). Inr (x, cp\<lparr>cp_acs := s\<rparr>))"

definition cp_update_acs :: "(acService \<Rightarrow> acService) \<Rightarrow> certAC \<Rightarrow> certAC" where
  "cp_update_acs f cp = cp\<lparr>cp_acs := f (cp_acs cp)\<rparr>"

function pem_blocks :: "acEnv \<Rightarrow> string \<Rightarrow> string list" where
  "pem_blocks E data =
     (case pem_Decode E data of
        (None, _) \<Rightarrow> []
      | (Some b, rest) \<Rightarrow> b # (if length rest < length data then pem_blocks E rest else []))"
  by pat_completeness auto
termination
  by (relation "measure (\<lambda>(E, data). length data)") auto

declare pem_blocks.simps [simp del]

subsection \<open>Trusted roots and members\<close>

primrec parse_certs :: "acEnv \<Rightarrow> string list \<Rightarrow> bcCertificate list result" where
  "parse_certs E [] = Inr []"
| "parse_certs E (b # bs) =
     (case ParseCertificate E b of None \<Rightarrow> Inl ErrParseCert
      | Some cert \<Rightarrow>
        if cert_Signature cert = [] then Inl ErrParseCert
        else case parse_certs E bs of Inl e \<Rightarrow> Inl e | Inr certs \<Rightarrow> Inr (cert # certs))"

definition buildCertificateChain :: "acEnv \<Rightarrow> string \<Rightarrow> bcCertificate list result" where
  "buildCertificateChain E root =
     (case parse_certs E (pem_blocks E root) of Inl e \<Rightarrow> Inl e
      | Inr certs \<Rightarrow> Inr (BuildCertificateChain E certs))"

definition new_org :: "string \<Rightarrow> organization" where
  "new_org i = \<lparr>org_id = i, trustedRootCerts = [], trustedIntermediateCerts = []\<rparr>"

primrec org_roots ::
  "acEnv \<Rightarrow> string list \<Rightarrow> organization \<times> bcCertificate list \<times> bcCertificate list \<Rightarrow>
   (organization \<times> bcCertificate list \<times> bcCertificate list) result" where
  "org_roots E [] st = Inr st"
| "org_roots E (root # roots) st =
     (case st of (org, rs, is) \<Rightarrow>
        case buildCertificateChain E root of Inl e \<Rightarrow> Inl e
        | Inr chain \<Rightarrow>
          if chain = [] \<or> \<not> IsCA (last chain) then Inl ErrNotCA
          else org_roots E roots
            (org\<lparr>trustedRootCerts := AList.update (Raw (last chain)) (last chain) (trustedRootCerts org),
                 trustedIntermediateCerts :=
                   fold (\<lambda>c. AList.update (Raw c) c) chain (trustedIntermediateCerts org)\<rparr>,
             rs @ [last chain], is @ chain))"

primrec init_orgs :: "acEnv \<Rightarrow> TrustRootConfig list \<Rightarrow> certAC \<Rightarrow> certAC result" where
  "init_orgs E [] cp = Inr cp"
| "init_orgs E (tr # trs) cp =
     (case org_roots E (tr_Root tr) (new_org (tr_OrgId tr), cp_Roots cp, cp_Intermediates cp) of
        Inl e \<Rightarrow> Inl e
      | Inr (org, rs, is) \<Rightarrow>
        init_orgs E trs (cp\<lparr>cp_acs := addOrg (tr_OrgId tr) (Some org) (cp_acs cp),
                            cp_Roots := rs, cp_Intermediates := is\<rparr>))"

definition local_org :: "acService \<Rightarrow> string \<Rightarrow> organization" where
  "local_org s i = (case getOrgInfoByOrgId s i of Some (Some org) \<Rightarrow> org | _ \<Rightarrow> new_org i)"

definition initTrustRoots :: "acEnv \<Rightarrow> TrustRootConfig list \<Rightarrow> string \<Rightarrow> certAC \<Rightarrow> certAC result" where
  "initTrustRoots E trs localOrgId cp =
     (case init_orgs E trs cp of Inl e \<Rightarrow> Inl e
      | Inr cp \<Rightarrow> Inr (cp\<lparr>cp_localOrg := local_org (cp_acs cp) localOrgId\<rparr>))"

definition classify ::
  "bcCertificate \<Rightarrow> organization \<times> bcCertificate list \<times> bcCertificate list \<Rightarrow>
   organization \<times> bcCertificate list \<times> bcCertificate list" where
  "classify c st =
     (case st of (org, rs, is) \<Rightarrow>
        if IsCA c then
          (org\<lparr>trustedRootCerts := AList.update (Raw c) c (trustedRootCerts org)\<rparr>, rs @ [c], is)
        else
          (org\<lparr>trustedIntermediateCerts := AList.update (Raw c) c (trustedIntermediateCerts org)\<rparr>,
           rs, is @ [c]))"

primrec update_roots ::
  "acEnv \<Rightarrow> string list \<Rightarrow> organization \<times> bcCertificate list \<times> bcCertificate list \<Rightarrow>
   (organization \<times> bcCertificate list \<times> bcCertificate list) result" where
  "update_roots E [] st = Inr st"
| "update_roots E (root # roots) st =
     (case buildCertificateChain E root of Inl e \<Rightarrow> Inl e
      | Inr chain \<Rightarrow>
        (let st = fold classify chain st
         in if trustedRootCerts (fst st) = [] then Inl ErrNoRoot else update_roots E roots st))"

primrec update_orgs ::
  "acEnv \<Rightarrow> TrustRootConfig list \<Rightarrow>
   (string \<times> organization option) list \<times> i32 \<times> bcCertificate list \<times> bcCertificate list \<Rightarrow>
   ((string \<times> organization option) list \<times> i32 \<times> bcCertificate list \<times> bcCertificate list) result" where
  "update_orgs E [] st = Inr st"
| "update_orgs E (tr # trs) st =
     (case st of (orgs, n, rs, is) \<Rightarrow>
        case update_roots E (tr_Root tr) (new_org (tr_OrgId tr), rs, is) of Inl e \<Rightarrow> Inl e
        | Inr (org, rs, is) \<Rightarrow>
          update_orgs E trs (AList.update (tr_OrgId tr) (Some org) orgs, n + 1, rs, is))"

definition initTrustRootsForUpdatingChainConfig ::
  "acEnv \<Rightarrow> acConfig \<Rightarrow> string \<Rightarrow> certAC \<Rightarrow> acError option \<times> certAC" where
  "initTrustRootsForUpdatingChainConfig E cfg localOrgId cp =
     (case update_orgs E (cc_TrustRoots cfg) ([], 0, [], []) of Inl e \<Rightarrow> (Some e, cp)
      | Inr (orgs, n, rs, is) \<Rightarrow>
        (let s = (cp_acs cp)\<lparr>orgNum := n, orgInfos := orgs\<rparr>
         in (None, cp\<lparr>cp_acs := s, cp_Roots := rs, cp_Intermediates := is,
                      cp_localOrg := local_org s localOrgId\<rparr>)))"

primrec trust_members ::
  "acEnv \<Rightarrow> acTrustMember list \<Rightarrow> (string \<rightharpoonup> acTrustMember \<times> bcCertificate) \<Rightarrow>
   (string \<rightharpoonup> acTrustMember \<times> bcCertificate) result" where
  "trust_members E [] ms = Inr ms"
| "trust_members E (tm # tms) ms =
     (case fst (pem_Decode E (tm_MemberInfo tm)) of None \<Rightarrow> Inl ErrParseCert
      | Some block \<Rightarrow>
        case ParseCertificate E block of None \<Rightarrow> Inl ErrParseCert
        | Some cert \<Rightarrow> trust_members E tms (ms(tm_MemberInfo tm \<mapsto> (tm, cert))))"

definition initTrustMembers ::
  "acEnv \<Rightarrow> acTrustMember list \<Rightarrow> certAC \<Rightarrow> acError option \<times> certAC" where
  "initTrustMembers E tms cp =
     (case trust_members E tms Map.empty of Inl e \<Rightarrow> (Some e, cp)
      | Inr ms \<Rightarrow> (None, cp\<lparr>cp_trustMembers := ms\<rparr>))"

subsection \<open>Revoked and frozen certificates\<close>

primrec check_crl :: "(string \<rightharpoonup> CertificateList) \<Rightarrow> bcCertificate list \<Rightarrow> acError option" where
  "check_crl crls [] = None"
| "check_crl crls (cert # certs) =
     (case crls (AuthorityKeyId cert) of
        Some crl \<Rightarrow>
          if SerialNumber cert \<in> set (crl_Revoked crl) then Some ErrRevoked else check_crl crls certs
      | None \<Rightarrow> check_crl crls certs)"

definition checkCRL :: "certAC \<Rightarrow> bcCertificate list \<Rightarrow> acError option" where
  "checkCRL cp certChain = (if certChain = [] then Some ErrEmptyChain else check_crl (cp_crl cp) certChain)"

definition checkCertFrozenList :: "certAC \<Rightarrow> bcCertificate list \<Rightarrow> acError option" where
  "checkCertFrozenList cp certChain =
     (case certChain of [] \<Rightarrow> Some ErrEmptyChain
      | c # _ \<Rightarrow> if cp_frozenList cp (Raw c) \<noteq> None then Some ErrFrozen else None)"

definition target_certs :: "bool \<Rightarrow> organization \<Rightarrow> bcCertificate list" where
  "target_certs isIntermediate org =
     map snd (if isIntermediate then trustedIntermediateCerts org else trustedRootCerts org)"

definition checkCRLAgainstTrustedCerts ::
  "acEnv \<Rightarrow> CertificateList \<Rightarrow> organization list \<Rightarrow> bool \<Rightarrow> acError option" where
  "checkCRLAgainstTrustedCerts E crl orgs isIntermediate =
     (case crl_AKI crl of None \<Rightarrow> Some ErrInvalidCrl
      | Some aki \<Rightarrow>
        case find (\<lambda>c. SubjectKeyId c = aki) (concat (map (target_certs isIntermediate) orgs)) of
          None \<Rightarrow> Some ErrInvalidCrl
        | Some cert \<Rightarrow> if CheckCRLSignature E cert crl then None else Some ErrInvalidCrl)"

text \<open>An old list whose text has no PEM block is dereferenced as nil.\<close>

definition validateCrlVersion :: "acEnv \<Rightarrow> CertificateList \<Rightarrow> acError option go" where
  "validateCrlVersion E crl =
     (if \<not> hasStore E then Inr None
      else case crl_AKI crl of None \<Rightarrow> Inr (Some ErrInvalidCrl)
        | Some aki \<Rightarrow>
          case ReadObject E ''CERT_MANAGE'' aki of
            None \<Rightarrow> Inr (Some ErrStoreRead)
          | Some None \<Rightarrow> Inr None
          | Some (Some old) \<Rightarrow>
            go_bind (deref (fst (pem_Decode E old))) (\<lambda>block.
              case ParseCRL E block of None \<Rightarrow> Inr (Some ErrInvalidCrl)
              | Some crlOld \<Rightarrow>
                Inr (if crl_Version crlOld > crl_Version crl then Some ErrInvalidCrl else None)))"

definition all_orgs :: "acService \<Rightarrow> organization list" where
  "all_orgs s = concat (map (\<lambda>i. case i of None \<Rightarrow> [] | Some org \<Rightarrow> [org]) (getAllOrgInfos s))"

primrec validate_crls ::
  "acEnv \<Rightarrow> organization list \<Rightarrow> string list \<Rightarrow> CertificateList list result go" where
  "validate_crls E orgs [] = Inr (Inr [])"
| "validate_crls E orgs (b # bs) =
     (case ParseCRL E b of None \<Rightarrow> Inr (Inl ErrInvalidCrl)
      | Some crl \<Rightarrow>
        go_bind (validateCrlVersion E crl) (\<lambda>err.
          case err of Some e \<Rightarrow> Inr (Inl e)
          | None \<Rightarrow>
            if checkCRLAgainstTrustedCerts E crl orgs False \<noteq> None \<and>
               checkCRLAgainstTrustedCerts E crl orgs True \<noteq> None
            then Inr (Inl ErrInvalidCrl)
            else go_bind (validate_crls E orgs bs) (\<lambda>r.
              Inr (case r of Inl e \<Rightarrow> Inl e | Inr crls \<Rightarrow> Inr (crl # crls)))))"

definition ValidateCRL :: "acEnv \<Rightarrow> certAC \<Rightarrow> string \<Rightarrow> CertificateList list result go" where
  "ValidateCRL E cp crlBytes =
     (if pem_blocks E crlBytes = [] then Inr (Inl ErrEmptyCrl)
      else validate_crls E (all_orgs (cp_acs cp)) (pem_blocks E crlBytes))"

definition VerifyRelatedMaterial :: "acEnv \<Rightarrow> certAC \<Rightarrow> bool \<Rightarrow> string \<Rightarrow> verdict go" where
  "VerifyRelatedMaterial E cp isCrl data =
     (if \<not> isCrl then Inr (denied ErrNotSupported)
      else go_bind (ValidateCRL E cp data) (\<lambda>r.
        Inr (case r of Inl e \<Rightarrow> denied e | Inr _ \<Rightarrow> allowed)))"

definition store_crls :: "CertificateList list \<Rightarrow> certAC \<Rightarrow> certAC" where
  "store_crls crls cp =
     cp\<lparr>cp_crl := store_all (concat (map (\<lambda>crl. case crl_AKI crl of None \<Rightarrow> []
          | Some aki \<Rightarrow> [(aki, crl)]) crls)) (cp_crl cp)\<rparr>"

primrec storeEffectiveCrls :: "acEnv \<Rightarrow> string list \<Rightarrow> certAC \<Rightarrow> (acError option \<times> certAC) go" where
  "storeEffectiveCrls E [] cp = Inr (None, cp)"
| "storeEffectiveCrls E (crlAKI # akis) cp =
     (case ReadObject E ''CERT_MANAGE'' crlAKI of
        None \<Rightarrow> Inr (Some ErrStoreRead, cp)
      | Some None \<Rightarrow> Inr (Some ErrEmptyCrl, cp)
      | Some (Some crlbytes) \<Rightarrow>
        go_bind (ValidateCRL E cp crlbytes) (\<lambda>r.
          case r of Inl _ \<Rightarrow> storeEffectiveCrls E akis cp
          | Inr crls \<Rightarrow> storeEffectiveCrls E akis (store_crls crls cp)))"

primrec storeCrls :: "acEnv \<Rightarrow> string list \<Rightarrow> certAC \<Rightarrow> (acError option \<times> certAC) go" where
  "storeCrls E [] cp = Inr (None, cp)"
| "storeCrls E (crlAKI # akis) cp =
     (case ReadObject E ''CERT_MANAGE'' crlAKI of
        None \<Rightarrow> Inr (Some ErrStoreRead, cp)
      | Some None \<Rightarrow> Inr (Some ErrEmptyCrl, cp)
      | Some (Some crlbytes) \<Rightarrow>
        go_bind (ValidateCRL E cp crlbytes) (\<lambda>r.
          case r of Inl e \<Rightarrow> Inr (Some e, cp)
          | Inr crls \<Rightarrow>
            if crls = [] then Inr (Some ErrEmptyCrl, cp)
            else (let ok = takeWhile (\<lambda>crl. crl_AKI crl \<noteq> None) crls
                  in if length ok < length crls then Inr (Some ErrInvalidCrl, store_crls ok cp)
                     else storeCrls E akis (store_crls crls cp))))"

definition loadCRL :: "acEnv \<Rightarrow> certAC \<Rightarrow> (acError option \<times> certAC) go" where
  "loadCRL E cp =
     (if \<not> hasStore E then Inr (None, cp)
      else case ReadObject E ''CERT_MANAGE'' (CertRevokeKey E) of
        None \<Rightarrow> Inr (Some ErrStoreRead, cp)
      | Some None \<Rightarrow> Inr (None, cp)
      | Some (Some crlAKIList) \<Rightarrow>
        case UnmarshalStrings E crlAKIList of None \<Rightarrow> Inr (Some ErrUnmarshal, cp)
        | Some akis \<Rightarrow> storeEffectiveCrls E akis cp)"

primrec load_frozen :: "acEnv \<Rightarrow> string list \<Rightarrow> certAC \<Rightarrow> (acError option \<times> certAC) go" where
  "load_frozen E [] cp = Inr (None, cp)"
| "load_frozen E (certID # ids) cp =
     (case ReadObject E ''CERT_MANAGE'' certID of
        None \<Rightarrow> Inr (Some ErrStoreRead, cp)
      | Some None \<Rightarrow> Inr (Some ErrNotFound, cp)
      | Some (Some certBytes) \<Rightarrow>
        go_bind (deref (fst (pem_Decode E certBytes))) (\<lambda>b.
          load_frozen E ids (cp\<lparr>cp_frozenList := (cp_frozenList cp)(b \<mapsto> True)\<rparr>)))"

definition loadCertFrozenList :: "acEnv \<Rightarrow> certAC \<Rightarrow> (acError option \<times> certAC) go" where
  "loadCertFrozenList E cp =
     (if \<not> hasStore E then Inr (None, cp)
      else case ReadObject E ''CERT_MANAGE'' (CertFreezeKey E) of
        None \<Rightarrow> Inr (Some ErrStoreRead, cp)
      | Some None \<Rightarrow> Inr (None, cp)
      | Some (Some certList) \<Rightarrow>
        case UnmarshalStrings E certList of None \<Rightarrow> Inr (Some ErrUnmarshal, cp)
        | Some ids \<Rightarrow> load_frozen E ids cp)"

subsection \<open>Members\<close>

text \<open>The certificates behind hashes and aliases.\<close>

definition lookUpCertCache :: "acEnv \<Rightarrow> string \<Rightarrow> certAC \<Rightarrow> string option \<times> certAC" where
  "lookUpCertCache E certId cp =
     (case Cache_Get (cp_certCache cp) certId of
        Some cert \<Rightarrow> (Some cert, cp)
      | None \<Rightarrow>
        if \<not> hasStore E then (None, cp)
        else case ReadObject E ''CERT_MANAGE'' (hex_EncodeToString certId) of
          None \<Rightarrow> (None, cp)
        | Some None \<Rightarrow> (None, cp)
        | Some (Some cert) \<Rightarrow> (Some cert, cp\<lparr>cp_certCache := Cache_Add certId cert (cp_certCache cp)\<rparr>))"

definition cp_GetCertFromCache :: "acEnv \<Rightarrow> string \<Rightarrow> certAC \<Rightarrow> string result \<times> certAC" where
  "cp_GetCertFromCache E certId cp =
     (case lookUpCertCache E certId cp of
        (None, cp) \<Rightarrow> (Inl ErrNotFound, cp) | (Some cert, cp) \<Rightarrow> (Inr cert, cp))"

primrec find_chain ::
  "certAC \<Rightarrow> organization \<Rightarrow> bcCertificate list list \<Rightarrow> bcCertificate list option go" where
  "find_chain cp org [] = Inr None"
| "find_chain cp org (chain # cs) =
     (if chain = [] then Inl IndexOutOfRange
      else if map_of (trustedRootCerts org) (Raw (last chain)) = None then find_chain cp org cs
      else if checkCRL cp chain \<noteq> None then find_chain cp org cs
      else if checkCertFrozenList cp chain \<noteq> None then find_chain cp org cs
      else Inr (Some chain))"

definition findCertChain ::
  "certAC \<Rightarrow> organization \<Rightarrow> bcCertificate list list \<Rightarrow> bcCertificate list option go" where
  "findCertChain = find_chain"

definition verifyMember ::
  "acEnv \<Rightarrow> certAC \<Rightarrow> certificateMember \<Rightarrow> bcCertificate list result go" where
  "verifyMember E cp mem =
     (case Organization (cm_cert mem) of
        [] \<Rightarrow> Inr (Inl ErrNoOrganization)
      | orgIdFromCert # _ \<Rightarrow>
        if orgIdFromCert = [] then Inr (Inl ErrNoOrganization)
        else if cm_orgId mem \<noteq> orgIdFromCert then Inr (Inl ErrCertOrg)
        else case getOrgInfoByOrgId (cp_acs cp) orgIdFromCert of
          None \<Rightarrow> Inr (Inl ErrNoOrganization)
        | Some info \<Rightarrow>
          case VerifyCertificate E (cm_cert mem) (cp_Roots cp) (cp_Intermediates cp) of
            None \<Rightarrow> Inr (Inl ErrChain)
          | Some certChains \<Rightarrow>
            go_bind (deref info) (\<lambda>org.
              if trustedRootCerts org = [] then Inr (Inl ErrNoRoot)
              else go_bind (findCertChain cp org certChains) (\<lambda>chain.
                Inr (case chain of None \<Rightarrow> Inl ErrChain | Some c \<Rightarrow> Inr c))))"

definition newNoCacheMember ::
  "acEnv \<Rightarrow> Member \<Rightarrow> certAC \<Rightarrow> (certificateMember \<times> bool) result" where
  "newNoCacheMember E m cp =
     (case cp_trustMembers cp (MemberInfo m) of
        Some (tm, _) \<Rightarrow>
          (case newCertMemberFromParam E (tm_OrgId tm) (tm_Role tm) (acHashType (cp_acs cp)) False
                  (tm_MemberInfo tm) of
             Inl e \<Rightarrow> Inl e | Inr cm \<Rightarrow> Inr (cm, True))
      | None \<Rightarrow>
        (case newCertMemberFromPb E m (acHashType (cp_acs cp)) of
           Inl e \<Rightarrow> Inl e | Inr cm \<Rightarrow> Inr (cm, False)))"

text \<open>A new member with its chain; a trusted member has none.\<close>

definition verified_member ::
  "acEnv \<Rightarrow> Member \<Rightarrow> certAC \<Rightarrow> (certificateMember \<times> bcCertificate list) result go" where
  "verified_member E m cp =
     (case newNoCacheMember E m cp of Inl e \<Rightarrow> Inr (Inl e)
      | Inr (cm, isTrustMember) \<Rightarrow>
        if isTrustMember then Inr (Inr (cm, []))
        else go_bind (verifyMember E cp cm) (\<lambda>r.
          Inr (case r of Inl e \<Rightarrow> Inl e | Inr chain \<Rightarrow> Inr (cm, chain))))"

text \<open>
  An entry of the cache without a member, stored with an address, makes \<^verbatim>\<open>NewMember\<close> return the
  nil member, which its callers dereference at once.
\<close>

definition cp_NewMember :: "acEnv \<Rightarrow> Member \<Rightarrow> certAC \<Rightarrow> (acMember result \<times> certAC) go" where
  "cp_NewMember E m cp =
     (if MemberType m \<notin> {MemberType_CERT, MemberType_ALIAS, MemberType_CERT_HASH}
      then Inr (Inl ErrMemberType, cp)
      else
        (case (if MemberType m = MemberType_CERT then (Some (MemberInfo m), cp)
               else lookUpCertCache E (MemberInfo m) cp) of
           (None, cp) \<Rightarrow> Inr (Inl ErrNotRegistered, cp)
         | (Some info, cp) \<Rightarrow>
           (case lookUpMemberInCache (cp_acs cp) info of
              Some cached \<Rightarrow> go_bind (deref (mc_member cached)) (\<lambda>mem. Inr (Inr mem, cp))
            | None \<Rightarrow>
              go_bind (verified_member E (m\<lparr>MemberInfo := info\<rparr>) cp) (\<lambda>r.
                case r of Inl e \<Rightarrow> Inr (Inl e, cp)
                | Inr (cm, chain) \<Rightarrow>
                  Inr (Inr (CertMember cm),
                    cp_update_acs (cache_member info (mkCached (Some (CertMember cm)) chain)) cp)))))"

definition cp_GetMemberStatus ::
  "acEnv \<Rightarrow> Member \<Rightarrow> certAC \<Rightarrow> ((MemberStatus \<times> acError option) \<times> certAC) go" where
  "cp_GetMemberStatus E m cp =
     go_bind (cp_NewMember E m cp) (\<lambda>(r, cp).
       case r of Inl e \<Rightarrow> Inr ((Status_INVALID, Some e), cp)
       | Inr (PkMember _) \<Rightarrow> Inl ShouldNotHappen
       | Inr (CertMember cm) \<Rightarrow>
         if checkCRL cp [cm_cert cm] = Some ErrRevoked then Inr ((Status_REVOKED, Some ErrRevoked), cp)
         else if checkCertFrozenList cp [cm_cert cm] = Some ErrFrozen
         then Inr ((Status_FROZEN, Some ErrFrozen), cp)
         else Inr ((Status_NORMAL, None), cp))"

subsection \<open>Refinement of endorsements\<close>

text \<open>
  The variable \<^verbatim>\<open>memInfo\<close> of the loop is declared outside of it: an endorsement whose signer is
  neither a certificate nor a hash or an alias of one leaves it at the value of the endorsement
  before.
\<close>

definition signer_info ::
  "acEnv \<Rightarrow> Member \<Rightarrow> string \<Rightarrow> certAC \<Rightarrow> (string \<times> Member) option \<times> certAC" where
  "signer_info E m memInfo cp =
     (if MemberType m = MemberType_CERT then (Some (MemberInfo m, m), cp)
      else if MemberType m = MemberType_CERT_HASH \<or> MemberType m = MemberType_ALIAS then
        (case lookUpCertCache E (MemberInfo m) cp of
           (None, cp) \<Rightarrow> (None, cp)
         | (Some info, cp) \<Rightarrow> (Some (info, m\<lparr>MemberInfo := info\<rparr>), cp))
      else (Some (memInfo, m), cp))"

definition verifyPrincipalSignerNotInCache ::
  "acEnv \<Rightarrow> Member \<Rightarrow> gobytes \<Rightarrow> gobytes \<Rightarrow> certAC \<Rightarrow> memberCached option go" where
  "verifyPrincipalSignerNotInCache E m sig msg cp =
     go_bind (verified_member E m cp) (\<lambda>r.
       case r of Inl _ \<Rightarrow> Inr None
       | Inr (cm, chain) \<Rightarrow>
         if cert_Verify E cm (acHashType (cp_acs cp)) msg sig \<noteq> None then Inr None
         else Inr (Some (mkCached (Some (CertMember cm)) chain)))"

definition verifyPrincipalSignerInCache ::
  "acEnv \<Rightarrow> memberCached \<Rightarrow> Member \<Rightarrow> gobytes \<Rightarrow> gobytes \<Rightarrow> string \<Rightarrow> certAC \<Rightarrow> verdict go" where
  "verifyPrincipalSignerInCache E signerInfo m sig msg memInfo cp =
     go_bind (if cp_trustMembers cp memInfo \<noteq> None then Inr None
              else case checkCRL cp (mc_certChain signerInfo) of Some e \<Rightarrow> Inr (Some e)
                | None \<Rightarrow>
                  case checkCertFrozenList cp (mc_certChain signerInfo) of Some e \<Rightarrow> Inr (Some e)
                  | None \<Rightarrow>
                    go_bind (deref (mc_member signerInfo)) (\<lambda>mem.
                      Inr (if OrgId m \<noteq> GetOrgId mem then Some ErrOrgMismatch else None)))
       (\<lambda>err. case err of Some e \<Rightarrow> Inr (denied e)
         | None \<Rightarrow>
           go_bind (deref (mc_member signerInfo)) (\<lambda>mem.
             Inr (case member_Verify E mem (acHashType (cp_acs cp)) msg sig of
                    Some e \<Rightarrow> denied e | None \<Rightarrow> allowed)))"

definition authenticate ::
  "acEnv \<Rightarrow> Member \<Rightarrow> gobytes \<Rightarrow> gobytes \<Rightarrow> string \<Rightarrow> certAC \<Rightarrow> (bool \<times> certAC) go" where
  "authenticate E m sig msg memInfo cp =
     (case lookUpMemberInCache (cp_acs cp) memInfo of
        None \<Rightarrow>
          go_bind (verifyPrincipalSignerNotInCache E m sig msg cp) (\<lambda>r.
            case r of None \<Rightarrow> Inr (False, cp)
            | Some signerInfo \<Rightarrow>
              go_bind (addMemberToCache E m signerInfo (cp_acs cp)) (\<lambda>s.
                Inr (True, cp\<lparr>cp_acs := s\<rparr>)))
      | Some signerInfo \<Rightarrow>
          go_bind (verifyPrincipalSignerInCache E signerInfo m sig msg memInfo cp) (\<lambda>(ok, _).
            Inr (ok, cp)))"

primrec cp_refine_loop ::
  "acEnv \<Rightarrow> gobytes \<Rightarrow> EndorsementEntry option list \<Rightarrow> string \<Rightarrow> string list \<Rightarrow>
   EndorsementEntry option list \<Rightarrow> certAC \<Rightarrow> (EndorsementEntry option list \<times> certAC) go" where
  "cp_refine_loop E msg [] memInfo seen refined cp = Inr (refined, cp)"
| "cp_refine_loop E msg (e # es) memInfo seen refined cp =
     go_bind (deref e) (\<lambda>entry. go_bind (deref (Signer entry)) (\<lambda>m.
       case signer_info E m memInfo cp of
         (None, cp) \<Rightarrow> cp_refine_loop E msg es memInfo seen refined cp
       | (Some (memInfo, m), cp) \<Rightarrow>
         go_bind (authenticate E m (Signature entry) msg memInfo cp) (\<lambda>(ok, cp).
           if \<not> ok \<or> memInfo \<in> set seen then cp_refine_loop E msg es memInfo seen refined cp
           else cp_refine_loop E msg es memInfo (memInfo # seen)
                  (refined @ [Some (entry\<lparr>Signer := Some m\<rparr>)]) cp)))"

definition cp_RefineEndorsements ::
  "acEnv \<Rightarrow> EndorsementEntry option list \<Rightarrow> gobytes \<Rightarrow> certAC \<Rightarrow>
   (EndorsementEntry option list \<times> certAC) go" where
  "cp_RefineEndorsements E es msg cp = cp_refine_loop E msg es [] [] [] cp"

primrec cp_optimized_loop ::
  "acEnv \<Rightarrow> EndorsementEntry option list \<Rightarrow> string \<Rightarrow> string list \<Rightarrow>
   EndorsementEntry option list \<Rightarrow> certAC \<Rightarrow> (EndorsementEntry option list \<times> certAC) go" where
  "cp_optimized_loop E [] memInfo seen refined cp = Inr (refined, cp)"
| "cp_optimized_loop E (e # es) memInfo seen refined cp =
     go_bind (deref e) (\<lambda>entry. go_bind (deref (Signer entry)) (\<lambda>m.
       case signer_info E m memInfo cp of
         (None, cp) \<Rightarrow> cp_optimized_loop E es memInfo seen refined cp
       | (Some (memInfo, m), cp) \<Rightarrow>
         if memInfo \<in> set seen then cp_optimized_loop E es memInfo seen refined cp
         else cp_optimized_loop E es memInfo (memInfo # seen)
                (refined @ [Some (entry\<lparr>Signer := Some m\<rparr>)]) cp))"

definition RefineEndorsementsForCertOptimization ::
  "acEnv \<Rightarrow> EndorsementEntry option list \<Rightarrow> certAC \<Rightarrow> (EndorsementEntry option list \<times> certAC) go" where
  "RefineEndorsementsForCertOptimization E es cp = cp_optimized_loop E es [] [] [] cp"

definition refined_principal ::
  "principal \<Rightarrow> (EndorsementEntry option list \<times> certAC) go \<Rightarrow> (principal result \<times> certAC) go" where
  "refined_principal prin r =
     go_bind r (\<lambda>(refined, cp).
       if refined = [] then Inr (Inl ErrRefineFailed, cp)
       else Inr (createPrincipal (pr_resourceName prin) refined (pr_message prin), cp))"

definition cp_refinePrincipal :: "acEnv \<Rightarrow> principal \<Rightarrow> certAC \<Rightarrow> (principal result \<times> certAC) go" where
  "cp_refinePrincipal E prin cp =
     refined_principal prin (cp_RefineEndorsements E (pr_endorsement prin) (pr_message prin) cp)"

definition cp_refinePrincipalForCertOptimization ::
  "acEnv \<Rightarrow> principal \<Rightarrow> certAC \<Rightarrow> (principal result \<times> certAC) go" where
  "cp_refinePrincipalForCertOptimization E prin cp =
     refined_principal prin (RefineEndorsementsForCertOptimization E (pr_endorsement prin) cp)"

definition cp_verifyPrincipalPolicy ::
  "acEnv \<Rightarrow> principal \<Rightarrow> principal \<Rightarrow> policy \<Rightarrow> certAC \<Rightarrow> (verdict \<times> certAC) go" where
  "cp_verifyPrincipalPolicy E prin refined pol cp =
     cp_with_acs (acs_verifyPrincipalPolicy E (cp_cb E cp) prin refined pol) cp"

definition cp_provider :: "acEnv \<Rightarrow> certAC acProvider" where
  "cp_provider E =
     \<lparr>getTotalVoterNum = (\<lambda>cp. orgCount (cp_acs cp)),
      verifyPrincipalPolicy = cp_verifyPrincipalPolicy E,
      refinePrincipal = cp_refinePrincipal E,
      refinePrincipalForCertOptimization = cp_refinePrincipalForCertOptimization E,
      CreatePrincipal = createPrincipal,
      CreatePrincipalForTargetOrg = createPrincipalForTargetOrg,
      RefineEndorsements = cp_RefineEndorsements E,
      providerPols = (\<lambda>cp. acPols (cp_acs cp))\<rparr>"

definition cp_getValidEndorsements ::
  "acEnv \<Rightarrow> principal \<Rightarrow> u32 \<Rightarrow> certAC \<Rightarrow> (EndorsementEntry option list result \<times> certAC) go" where
  "cp_getValidEndorsements E prin blockVersion cp =
     (if orgCount (cp_acs cp) \<le> 0 then Inr (Inl ErrEmptyOrgList, cp)
      else go_bind (cp_refinePrincipal E prin cp) (\<lambda>(refined, cp).
        case refined of Inl e \<Rightarrow> Inr (Inl e, cp)
        | Inr refinedPolicy \<Rightarrow>
          go_bind (if blockVersion \<le> blockVersion220
                   then Inr (lookUpPolicyByResourceName220 (acPols (cp_acs cp)) (pr_resourceName prin))
                   else if blockVersion < blockVersion2330
                   then Inr (lookUpPolicyByResourceName2320 (acPols (cp_acs cp)) (pr_resourceName prin))
                   else go_bind (findFromEndorsementsPolicies (pr_resourceName prin) blockVersion
                                   (acPols (cp_acs cp))) (\<lambda>pol. go_bind (deref pol) (\<lambda>p. Inr (Some p))))
            (\<lambda>pol. case pol of None \<Rightarrow> Inr (Inl (ErrPolicyNotFound (pr_resourceName prin)), cp)
              | Some p \<Rightarrow>
                (let (orgs, roles) = buildOrgListRoleList p
                 in go_bind (cp_with_acs (acs_getValidEndorsements E (cp_cb E cp) orgs roles
                               (pr_endorsement refinedPolicy)) cp)
                      (\<lambda>(es, cp). Inr (Inr es, cp))))))"

definition cp_GetAddressFromCache ::
  "acEnv \<Rightarrow> string \<Rightarrow> certAC \<Rightarrow> (string \<times> pubKey option) result \<times> certAC" where
  "cp_GetAddressFromCache E pkPem cp =
     (let s = cp_acs cp
      in case address_of E (addressType s) (acHashType s) pkPem (memberCache s) of
           (r, c) \<Rightarrow> (r, cp\<lparr>cp_acs := s\<lparr>memberCache := c\<rparr>\<rparr>))"

end
