(* ===== verification/AC_Cert_Events.thy ===== *)
theory AC_Cert_Events
  imports AC_Cert
begin

section \<open>Access control: certificates, configuration and events\<close>

text \<open>
  The construction of the certificate provider, its reactions to messages of the bus
  (\<^verbatim>\<open>cert_ac_subscriber.go\<close>, \<^verbatim>\<open>cert_ac_subscriber_utils.go\<close>) and the watcher and callbacks of older
  versions (\<^verbatim>\<open>provider220.go\<close>).

  With MaxBFT, freezing a consensus certificate is meant to be delayed: the loop that does so
  continues without reading the next block. It is a \<open>partial_function\<close>; \<^term>\<open>None\<close> is a loop that
  never ends.
\<close>

subsection \<open>Strings\<close>

definition commas_to_lines :: "string \<Rightarrow> string" where
  "commas_to_lines = map (\<lambda>c. if c = CHR '','' then char_of (10 :: nat) else c)"

definition is_space :: "char \<Rightarrow> bool" where
  "is_space c \<longleftrightarrow> c = CHR '' '' \<or> (9 \<le> (of_char c :: nat) \<and> (of_char c :: nat) \<le> 13)"

definition TrimSpace :: "string \<Rightarrow> string" where
  "TrimSpace s = rev (dropWhile is_space (rev (dropWhile is_space s)))"

subsection \<open>Frozen certificates\<close>

definition isConsensusCert :: "acEnv \<Rightarrow> string \<Rightarrow> bool" where
  "isConsensusCert E raw =
     (case ParseCertificate E raw of None \<Rightarrow> False
      | Some cert \<Rightarrow>
        OrganizationalUnit cert \<noteq> [] \<and> hd (OrganizationalUnit cert) = ''consensus'')"

partial_function (option) freeze_loop ::
  "acEnv \<Rightarrow> bool \<Rightarrow> string option \<Rightarrow> string \<Rightarrow> (string \<rightharpoonup> bool) \<Rightarrow> (string \<rightharpoonup> bool) option" where
  "freeze_loop E maxbft block rest frozen =
     (case block of None \<Rightarrow> Some frozen
      | Some b \<Rightarrow>
        if maxbft \<and> isConsensusCert E b then freeze_loop E maxbft block rest frozen
        else freeze_loop E maxbft (fst (pem_Decode E rest)) (snd (pem_Decode E rest))
               (frozen(b \<mapsto> True)))"

partial_function (option) unfreeze_loop ::
  "acEnv \<Rightarrow> bool \<Rightarrow> string option \<Rightarrow> string \<Rightarrow> (string \<rightharpoonup> bool) \<Rightarrow> (string \<rightharpoonup> bool) option" where
  "unfreeze_loop E maxbft block rest frozen =
     (case block of None \<Rightarrow> Some frozen
      | Some b \<Rightarrow>
        if maxbft \<and> isConsensusCert E b then unfreeze_loop E maxbft block rest frozen
        else unfreeze_loop E maxbft (fst (pem_Decode E rest)) (snd (pem_Decode E rest))
               (frozen(b := None)))"

definition onMessageCertFreeze :: "acEnv \<Rightarrow> string \<Rightarrow> certAC \<Rightarrow> certAC option" where
  "onMessageCertFreeze E certs cp =
     (let (block, rest) = pem_Decode E (commas_to_lines certs)
      in map_option (\<lambda>f. cp\<lparr>cp_frozenList := f\<rparr>)
           (freeze_loop E (cp_consensusType cp = MAXBFT) block rest (cp_frozenList cp)))"

primrec unfreeze_hashes :: "acEnv \<Rightarrow> string list \<Rightarrow> (string \<rightharpoonup> bool) \<Rightarrow> (string \<rightharpoonup> bool)" where
  "unfreeze_hashes E [] frozen = frozen"
| "unfreeze_hashes E (h # hs) frozen =
     (case ReadObject E ''CERT_MANAGE'' h of
        Some (Some cert) \<Rightarrow> unfreeze_hashes E hs (frozen(cert := None))
      | _ \<Rightarrow> unfreeze_hashes E hs frozen)"

definition onMessageCertUnFreeze :: "acEnv \<Rightarrow> string \<Rightarrow> string \<Rightarrow> certAC \<Rightarrow> certAC option" where
  "onMessageCertUnFreeze E certs hashes cp =
     (let (block, rest) = pem_Decode E (commas_to_lines certs)
      in map_option (\<lambda>f. cp\<lparr>cp_frozenList :=
             (if hashes \<noteq> [] then unfreeze_hashes E (split_at CHR '','' hashes) f else f)\<rparr>)
           (unfreeze_loop E (cp_consensusType cp = MAXBFT) block rest (cp_frozenList cp)))"

subsection \<open>Revocation, hashes and aliases\<close>

text \<open>A list without an authority key identifier is stored under the empty name.\<close>

definition onMessageCertRevoke :: "acEnv \<Rightarrow> string \<Rightarrow> certAC \<Rightarrow> certAC go" where
  "onMessageCertRevoke E crl cp =
     go_bind (ValidateCRL E cp (commas_to_lines crl)) (\<lambda>r.
       Inr (case r of Inl _ \<Rightarrow> cp
            | Inr crls \<Rightarrow>
              cp\<lparr>cp_crl := store_all (map (\<lambda>c. (bytes_or_empty (crl_AKI c), c)) crls) (cp_crl cp)\<rparr>))"

definition forget_cert :: "string \<Rightarrow> certAC \<Rightarrow> certAC" where
  "forget_cert k cp =
     (if Cache_Get (cp_certCache cp) k \<noteq> None
      then cp\<lparr>cp_certCache := Cache_Remove k (cp_certCache cp)\<rparr> else cp)"

definition onMessageCertDelete :: "acEnv \<Rightarrow> string \<Rightarrow> certAC \<Rightarrow> certAC" where
  "onMessageCertDelete E hashes cp =
     fold (\<lambda>h. forget_cert (fst (hex_DecodeString E h))) (split_at CHR '','' (TrimSpace hashes)) cp"

definition onMessageCertAliasDelete :: "string \<Rightarrow> certAC \<Rightarrow> certAC" where
  "onMessageCertAliasDelete aliases cp = fold forget_cert (split_at CHR '','' (TrimSpace aliases)) cp"

definition onMessageCertAliasUpdate :: "string \<Rightarrow> certAC \<Rightarrow> certAC" where
  "onMessageCertAliasUpdate alias cp = forget_cert (TrimSpace alias) cp"

subsection \<open>Configuration\<close>

definition updateTrustRootAndMember :: "acEnv \<Rightarrow> acConfig \<Rightarrow> certAC \<Rightarrow> certAC" where
  "updateTrustRootAndMember E cfg cp =
     (case initTrustRootsForUpdatingChainConfig E cfg (org_id (cp_localOrg cp)) cp of
        (Some _, cp) \<Rightarrow> cp
      | (None, cp) \<Rightarrow>
        snd (initTrustMembers E (cc_TrustMembers cfg)
          (cp_update_acs clear_members (cp\<lparr>cp_certCache := Cache_Clear (cp_certCache cp)\<rparr>))))"

definition messageChainConfig :: "acEnv \<Rightarrow> acConfig \<Rightarrow> bool \<Rightarrow> certAC \<Rightarrow> certAC" where
  "messageChainConfig E cfg fromMaxBFT cp =
     (let cp = cp_update_acs (\<lambda>s. initResourcePolicy E (cc_ResourcePolicies cfg)
                 (s\<lparr>acHashType := cc_Hash cfg\<rparr>)) cp
      in if cp_consensusType cp \<noteq> MAXBFT \<or> fromMaxBFT then updateTrustRootAndMember E cfg cp else cp)"

text \<open>The governance contract of MaxBFT: its configuration and the lists of an epoch.\<close>

record GovernanceContract =
  gc_ChainConfig :: "acConfig option"
  gc_CertFrozenList :: string
  gc_CRL :: string

definition updateFrozenAndCRL :: "acEnv \<Rightarrow> GovernanceContract \<Rightarrow> certAC \<Rightarrow> (acError option \<times> certAC) go" where
  "updateFrozenAndCRL E g cp =
     go_bind (if gc_CertFrozenList g = [] then Inr (None, cp)
              else case UnmarshalStrings E (gc_CertFrozenList g) of None \<Rightarrow> Inr (Some ErrUnmarshal, cp)
                | Some ids \<Rightarrow> load_frozen E ids cp)
       (\<lambda>(err, cp). case err of Some e \<Rightarrow> Inr (Some e, cp)
         | None \<Rightarrow>
           if gc_CRL g = [] then Inr (None, cp)
           else case UnmarshalStrings E (gc_CRL g) of None \<Rightarrow> Inr (Some ErrUnmarshal, cp)
             | Some akis \<Rightarrow> storeCrls E akis cp)"

definition onMessageMaxbftChainconfigInEpoch ::
  "acEnv \<Rightarrow> GovernanceContract \<Rightarrow> certAC \<Rightarrow> certAC go" where
  "onMessageMaxbftChainconfigInEpoch E g cp =
     go_bind (deref (gc_ChainConfig g)) (\<lambda>cfg.
     go_bind (updateFrozenAndCRL E g (messageChainConfig E cfg True cp)) (\<lambda>(_, cp). Inr cp))"

text \<open>
  \<open>governance\<close> is what the governance contract holds at the start of a node with MaxBFT: an error
  of the read, no contract yet, or the contract.
\<close>

definition newCertACProvider ::
  "acEnv \<Rightarrow> acConfig \<Rightarrow> string \<Rightarrow> GovernanceContract option result \<Rightarrow> certAC result go" where
  "newCertACProvider E cfg localOrgId governance =
     (case (if cc_ConsensusType cfg = MAXBFT then governance else Inr None) of
        Inl e \<Rightarrow> Inr (Inl e)
      | Inr g \<Rightarrow>
        (let cfg' = (case g of Some gc \<Rightarrow> (case gc_ChainConfig gc of Some c \<Rightarrow> c | None \<Rightarrow> cfg) | None \<Rightarrow> cfg);
             cp = \<lparr>cp_acs = initAccessControlService E (cc_Hash cfg') (cc_AuthType cfg') (cc_AddrType cfg'),
                   cp_certCache = NewShardCache (GetCertCacheSize E), cp_crl = Map.empty,
                   cp_frozenList = Map.empty, cp_Roots = [], cp_Intermediates = [],
                   cp_localOrg = new_org localOrgId, cp_trustMembers = Map.empty,
                   cp_payerList = NewShardCache (GetCertCacheSize E),
                   cp_consensusType = cc_ConsensusType cfg\<rparr>
         in case initTrustMembers E (cc_TrustMembers cfg') cp of
              (Some e, _) \<Rightarrow> Inr (Inl e)
            | (None, cp) \<Rightarrow>
              (case initTrustRoots E (cc_TrustRoots cfg') localOrgId cp of
                 Inl e \<Rightarrow> Inr (Inl e)
               | Inr cp \<Rightarrow>
                 (let cp = cp_update_acs (initResourcePolicy E (cc_ResourcePolicies cfg')) cp;
                      finish = (\<lambda>(err, cp). Inr (case err of Some e \<Rightarrow> Inl e | None \<Rightarrow> Inr cp))
                  in case g of
                       Some gc \<Rightarrow> go_bind (updateFrozenAndCRL E gc cp) finish
                     | None \<Rightarrow>
                       go_bind (loadCRL E cp) (\<lambda>(err, cp).
                         case err of Some e \<Rightarrow> Inr (Inl e)
                         | None \<Rightarrow> go_bind (loadCertFrozenList E cp) finish)))))"

definition cp_Watch :: "acEnv \<Rightarrow> acConfig \<Rightarrow> certAC \<Rightarrow> acError option \<times> certAC" where
  "cp_Watch E cfg cp =
     (let cp = cp_update_acs (\<lambda>s. s\<lparr>acHashType := cc_Hash cfg\<rparr>) cp
      in case initTrustRootsForUpdatingChainConfig E cfg (org_id (cp_localOrg cp)) cp of
           (Some e, cp) \<Rightarrow> (Some e, cp)
         | (None, cp) \<Rightarrow>
           (let cp = cp_update_acs (initResourcePolicy E (cc_ResourcePolicies cfg)) cp;
                cp = cp_update_acs (initResourcePolicy_220 E (cc_ResourcePolicies cfg)) cp;
                cp = cp_update_acs clear_members cp
            in initTrustMembers E (cc_TrustMembers cfg)
                 (cp\<lparr>cp_certCache := Cache_Clear (cp_certCache cp)\<rparr>)))"

subsection \<open>Callbacks of older versions\<close>

definition first_param :: "string \<Rightarrow> acPayload \<Rightarrow> string option" where
  "first_param key pl = (case Parameters pl of None \<Rightarrow> None | Some kvs \<Rightarrow> map_of kvs key)"

definition callbackFreeze :: "acEnv \<Rightarrow> acPayload \<Rightarrow> certAC \<Rightarrow> certAC" where
  "callbackFreeze E pl cp =
     (case first_param ''certs'' pl of None \<Rightarrow> cp
      | Some v \<Rightarrow>
        cp\<lparr>cp_frozenList := store_all (map (\<lambda>b. (b, True)) (pem_blocks E (commas_to_lines v)))
             (cp_frozenList cp)\<rparr>)"

definition callbackUnfreeze :: "acEnv \<Rightarrow> acPayload \<Rightarrow> certAC \<Rightarrow> certAC" where
  "callbackUnfreeze E pl cp =
     (case first_param ''certs'' pl of None \<Rightarrow> cp
      | Some v \<Rightarrow>
        cp\<lparr>cp_frozenList := fold (\<lambda>b f. f(b := None)) (pem_blocks E (commas_to_lines v))
             (cp_frozenList cp)\<rparr>)"

definition callbackRevoke :: "acEnv \<Rightarrow> acPayload \<Rightarrow> certAC \<Rightarrow> (acError option \<times> certAC) go" where
  "callbackRevoke E pl cp =
     (case first_param ''cert_crl'' pl of None \<Rightarrow> Inr (None, cp)
      | Some v \<Rightarrow>
        go_bind (ValidateCRL E cp (commas_to_lines v)) (\<lambda>r.
          case r of Inl e \<Rightarrow> Inr (Some e, cp)
          | Inr crls \<Rightarrow>
            (let ok = takeWhile (\<lambda>crl. crl_AKI crl \<noteq> None) crls
             in Inr (if length ok < length crls then Some ErrInvalidCrl else None, store_crls ok cp))))"

primrec delete_hashes :: "acEnv \<Rightarrow> string list \<Rightarrow> certAC \<Rightarrow> certAC" where
  "delete_hashes E [] cp = cp"
| "delete_hashes E (h # hs) cp =
     (if snd (hex_DecodeString E h) then delete_hashes E hs (forget_cert (fst (hex_DecodeString E h)) cp)
      else cp)"

definition callbackCertsDelete :: "acEnv \<Rightarrow> acPayload \<Rightarrow> certAC \<Rightarrow> certAC" where
  "callbackCertsDelete E pl cp =
     (case first_param ''cert_hashes'' pl of None \<Rightarrow> cp
      | Some v \<Rightarrow> delete_hashes E (split_at CHR '','' (TrimSpace v)) cp)"

definition callbackAliasDelete :: "acPayload \<Rightarrow> certAC \<Rightarrow> certAC" where
  "callbackAliasDelete pl cp =
     (case first_param ''aliases'' pl of None \<Rightarrow> cp | Some v \<Rightarrow> onMessageCertAliasDelete v cp)"

definition callbackAliasUpdate :: "acPayload \<Rightarrow> certAC \<Rightarrow> certAC" where
  "callbackAliasUpdate pl cp =
     (case first_param ''alias'' pl of None \<Rightarrow> cp | Some v \<Rightarrow> onMessageCertAliasUpdate v cp)"

definition certManagementCallback ::
  "acEnv \<Rightarrow> acPayload \<Rightarrow> certAC \<Rightarrow> (acError option \<times> certAC) go" where
  "certManagementCallback E pl cp =
     (if Method pl = ''CERTS_FREEZE'' then Inr (None, callbackFreeze E pl cp)
      else if Method pl = ''CERTS_UNFREEZE'' then Inr (None, callbackUnfreeze E pl cp)
      else if Method pl = ''CERTS_REVOKE'' then callbackRevoke E pl cp
      else if Method pl = ''CERTS_DELETE'' then Inr (None, callbackCertsDelete E pl cp)
      else if Method pl = ''CERTS_ALIAS_DELETE'' then Inr (None, callbackAliasDelete pl cp)
      else if Method pl = ''CERT_ALIAS_UPDATE'' then Inr (None, callbackAliasUpdate pl cp)
      else Inr (None, cp))"

subsection \<open>Payers\<close>

definition cp_GetPayerFromCache :: "certAC \<Rightarrow> string \<Rightarrow> string result" where
  "cp_GetPayerFromCache cp key =
     (case Cache_Get (cp_payerList cp) key of None \<Rightarrow> Inl ErrNotFound | Some v \<Rightarrow> Inr v)"

definition cp_SetPayerToCache :: "string \<Rightarrow> string \<Rightarrow> certAC \<Rightarrow> certAC" where
  "cp_SetPayerToCache key v cp = cp\<lparr>cp_payerList := Cache_Add key v (cp_payerList cp)\<rparr>"

definition cp_getPK :: "acEnv \<Rightarrow> gobytes \<Rightarrow> certAC \<Rightarrow> (string \<times> certAC) go" where
  "cp_getPK E bytes cp =
     (case UnmarshalEndorsement E bytes of None \<Rightarrow> Inr ([], cp)
      | Some entry \<Rightarrow>
        go_bind (deref (Signer entry)) (\<lambda>m.
        go_bind (cp_NewMember E m cp) (\<lambda>(r, cp).
          case r of Inl _ \<Rightarrow> Inr ([], cp)
          | Inr mem \<Rightarrow> Inr (bytes_or_empty (pk_String E (GetPk mem)), cp))))"

definition cp_handleSetPayer :: "acEnv \<Rightarrow> acPayload \<Rightarrow> certAC \<Rightarrow> certAC go" where
  "cp_handleSetPayer E pl cp =
     go_bind (cp_getPK E (last_param ''ENDORSEMENT'' pl) cp) (\<lambda>(pkStr, cp).
       (let (contract, method) = UnmarshalPayerParams E (last_param ''PARAMS'' pl)
        in Inr (cp_SetPayerToCache (payer_key E contract method) pkStr cp)))"

definition cp_handleUnsetPayer :: "acEnv \<Rightarrow> acPayload \<Rightarrow> certAC \<Rightarrow> certAC" where
  "cp_handleUnsetPayer E pl cp = cp\<lparr>cp_payerList := Cache_Remove (unset_key E pl) (cp_payerList cp)\<rparr>"

definition cp_onMessageBlockInfo :: "acEnv \<Rightarrow> payerTx list option \<Rightarrow> certAC \<Rightarrow> certAC go" where
  "cp_onMessageBlockInfo E block cp =
     (case payer_change block of
        SetPayer pl \<Rightarrow> cp_handleSetPayer E pl cp
      | UnsetPayer pl \<Rightarrow> Inr (cp_handleUnsetPayer E pl cp)
      | NoPayerChange \<Rightarrow> Inr cp)"

end
