(* ===== verification/AC_Example.thy ===== *)
theory AC_Example
  imports AC_Pwk AC_Pk AC_Cert_Events
begin

section \<open>Access control: an environment for the witnesses\<close>

text \<open>
  A concrete instance of the code outside the repository: a key is a letter, its PEM encodings are
  the texts that begin with \<^verbatim>\<open>K\<close> and the letter, a signature by a key is the letter followed by
  the message. The names are those of the package \<^verbatim>\<open>protocol\<close>.
\<close>

definition ex_key :: "string \<Rightarrow> pubKey option" where
  "ex_key s = (case s of k # c # _ \<Rightarrow> if k = CHR ''K'' then Some [c] else None | _ \<Rightarrow> None)"

definition ex_verify :: "pubKey \<Rightarrow> string \<Rightarrow> gobytes \<Rightarrow> gobytes \<Rightarrow> bool option" where
  "ex_verify pk h msg sig =
     Some (case (msg, sig) of (Some m, Some s) \<Rightarrow> s = pk @ m | _ \<Rightarrow> False)"

text \<open>A certificate is written as its organisation, its unit and its key, each one letter.\<close>

definition ex_cert :: "string \<Rightarrow> bcCertificate option" where
  "ex_cert s =
     (case s of [t, org, unit, k] \<Rightarrow>
        if t = CHR ''C'' then
          Some \<lparr>Raw = s, SubjectKeyId = [k], AuthorityKeyId = [], SerialNumber = 1, IsCA = False,
                Organization = [[org]],
                OrganizationalUnit = [if unit = CHR ''a'' then ''admin'' else ''client''],
                CommonName = s, NodeIdExt = None, cert_PublicKey = [k], cert_HashAlgo = Some ''SHA256'',
                cert_Signature = []\<rparr>
        else None
      | _ \<Rightarrow> None)"

definition exE :: acEnv where
  "exE =
    \<lparr>RuleAny = ''ANY'', RuleAll = ''ALL'', RuleMajority = ''MAJORITY'', RuleSelf = ''SELF'',
     RuleForbidden = ''FORBIDDEN'', RuleDelete = ''DELETE'',
     RoleAdmin = ''ADMIN'', RoleClient = ''CLIENT'', RoleLight = ''LIGHT'',
     RoleConsensusNode = ''CONSENSUS'', RoleCommonNode = ''COMMON'',
     ResourceNameAllTest = ''ALL_TEST'', ResourceNameP2p = ''P2P'', ResourceNameConsensusNode = ''CONSENSUS'',
     ResourceNameReadData = ''READ'', ResourceNameWriteData = ''WRITE'',
     ResourceNameUpdateSelfConfig = ''SELF_CONFIG'', ResourceNameUpdateConfig = ''CONFIG'',
     ResourceNamePrivateCompute = ''PRIVATE_COMPUTE'', ConfigNameOrgId = ''org_id'',
     PermissionedWithCert = ''permissionedwithcert'', Identity = ''identity'',
     PermissionedWithKey = ''permissionedwithkey'', Public = ''public'',
     PublicKeyFromPEM = ex_key, PublicKeyFromDER = Some, pk_Bytes = Some,
     pk_String = (\<lambda>pk. Some (CHR ''K'' # pk)), VerifyWithOpts = ex_verify, HashAlgoMap = Some,
     ComputeSKI = (\<lambda>_ pk. Some pk), CreateLibp2pPeerId = (\<lambda>pk. Some (CHR ''Q'' # pk)),
     base58_sha256 = id, ReadObject = (\<lambda>_ _. Some None), hasStore = True,
     UnmarshalPKInfo = (\<lambda>_. None), utils_ParseCert = ex_cert, PkToAddrStr = (\<lambda>_ _ _. None),
     CalcUnsignedTxBytes = (\<lambda>_. Some (Some ''tx'')),
     GetTxResourceName = (\<lambda>tx. ContractName (Payload tx) @ ''-'' @ Method (Payload tx)),
     IsSkipAccessControl = False, CertCacheSize = 1024,
     pem_Decode = (\<lambda>s. (if s = [] then None else Some s, [])), ParseCertificate = ex_cert,
     BuildCertificateChain = (\<lambda>cs. cs), VerifyCertificate = (\<lambda>c _ _. Some [[c]]),
     ParseCRL = (\<lambda>_. None), CheckCRLSignature = (\<lambda>_ _. False), UnmarshalStrings = (\<lambda>_. None),
     UnmarshalEndorsement = (\<lambda>_. None), UnmarshalPayerParams = (\<lambda>_. ([], [])),
     CertRevokeKey = ''revoke'', CertFreezeKey = ''freeze'', PrefixContractMethodPayer = ''p'',
     Separator = '':'', hex_DecodeString = (\<lambda>s. (s, True))\<rparr>"

lemma exE_names_ok: "names_ok exE"
  by code_simp

definition ex_tx :: "string \<Rightarrow> string \<Rightarrow> EndorsementEntry option list \<Rightarrow> EndorsementEntry option \<Rightarrow> acTx" where
  "ex_tx contract method es sender =
     \<lparr>Payload = \<lparr>TxType = INVOKE_CONTRACT, ContractName = contract, Method = method, Parameters = Some []\<rparr>,
      Sender = sender, Endorsers = Some es, Payer = None\<rparr>"

definition ex_endorse :: "string \<Rightarrow> string \<Rightarrow> string \<Rightarrow> EndorsementEntry option" where
  "ex_endorse org pem msg =
     Some \<lparr>Signer = Some \<lparr>OrgId = org, MemberType = MemberType_PUBLIC_KEY, MemberInfo = pem\<rparr>,
           Signature = map_option (\<lambda>pk. pk @ msg) (ex_key pem)\<rparr>"

text \<open>Three organisations, each with one administrator.\<close>

definition ex_cfg :: acConfig where
  "ex_cfg =
    \<lparr>cc_AuthType = ''permissionedWithKey'', cc_Hash = ''SHA256'', cc_AddrType = AddrType_CHAINMAKER,
     cc_ResourcePolicies = [], cc_TrustRoots =
       [\<lparr>tr_OrgId = ''o1'', tr_Root = [''Ka'']\<rparr>, \<lparr>tr_OrgId = ''o2'', tr_Root = [''Kb'']\<rparr>,
        \<lparr>tr_OrgId = ''o3'', tr_Root = [''Kc'']\<rparr>],
     cc_TrustMembers = [], cc_ConsensusType = TBFT_type, cc_ConsensusNodes = []\<rparr>"

definition ex_pp :: permissionedPk where
  "ex_pp = projr (newPermissionedPkACProvider exE ex_cfg ''o1'')"

definition ex_majority_tx :: acTx where
  "ex_majority_tx =
     ex_tx ''CHAIN_CONFIG'' ''TRUST_ROOT_ADD'' [ex_endorse ''o1'' ''Ka'' ''tx'', ex_endorse ''o2'' ''Kb'' ''tx'']
       (ex_endorse ''o1'' ''Ka'' ''tx'')"

definition out_verdict :: "(verdict \<times> 's) go \<Rightarrow> verdict option" where
  "out_verdict out = (case out of Inl _ \<Rightarrow> None | Inr (v, _) \<Rightarrow> Some v)"

lemma ex_pp_start: "\<not> isl (newPermissionedPkACProvider exE ex_cfg ''o1'')"
  by code_simp

lemma ex_majority_run:
  "out_verdict (VerifyTxPrincipal exE (pp_provider exE) ex_majority_tx ''CHAIN_CONFIG-TRUST_ROOT_ADD'' 2030300 ex_pp)
     = Some allowed"
  by code_simp

end
