(* ===== verification/AC_Pwk_Claims.thy ===== *)
theory AC_Pwk_Claims
  imports AC_Pwk_Inv AC_Example
begin

section \<open>Access control: theorems on the permissioned provider\<close>

text \<open>
  What a transaction needs to pass: an allowed transaction has endorsements, validly signed by
  members of the configuration, on which the policy of its resource grants it. On ordinary
  endorsements the check returns and is exactly this.
\<close>

definition endorsement_policy :: "acPolicies \<Rightarrow> string \<Rightarrow> policy option" where
  "endorsement_policy P name =
     (case latestPolicyMap P name of Some p \<Rightarrow> Some p | None \<Rightarrow> resourceNamePolicyMap P name)"

definition tx_target :: "acEnv \<Rightarrow> acTx \<Rightarrow> string" where
  "tx_target E tx = param_value (ConfigNameOrgId E) (Parameters (Payload tx))"

lemma find_endorsement_policy:
  "\<not> v < blockVersion2330 \<Longrightarrow> findFromEndorsementsPolicies name v P = Inr (endorsement_policy P name)"
  by (simp add: findFromEndorsementsPolicies_def since_2330_def endorsement_policy_def)

lemma grants_target_irrelevant:
  "pol_rule pol \<noteq> RuleSelf E \<Longrightarrow> grants E c n t pol es = grants E c n t' pol es"
  by (simp add: grants_def)

lemma createPrincipal_fields:
  "createPrincipal name es msg = Inr prin \<Longrightarrow>
     pr_endorsement prin = es \<and> pr_message prin = msg \<and> pr_targetOrg prin = []"
  by (auto simp: createPrincipal_def split: if_splits)

lemma createPrincipalForTargetOrg_fields:
  "createPrincipalForTargetOrg name es msg t = Inr prin \<Longrightarrow>
     pr_endorsement prin = es \<and> pr_message prin = msg \<and> pr_targetOrg prin = t"
  by (auto simp: createPrincipalForTargetOrg_def createPrincipal_def split: if_splits)

text \<open>The check of the endorsements of a transaction, with its signatures verified.\<close>

definition tx_principal :: "acEnv \<Rightarrow> policy \<Rightarrow> acTx \<Rightarrow> string \<Rightarrow> gobytes \<Rightarrow> principal result" where
  "tx_principal E pol tx name b =
     (if pol_rule pol = RuleSelf E
      then createPrincipalForTargetOrg name (all_endorsements tx) b (tx_target E tx)
      else createPrincipal name (all_endorsements tx) b)"

lemma tx_principal_fields:
  "tx_principal E pol tx name b = Inr prin \<Longrightarrow>
     pr_endorsement prin = all_endorsements tx \<and> pr_message prin = b \<and>
     (pol_rule pol = RuleSelf E \<longrightarrow> pr_targetOrg prin = tx_target E tx)"
  using createPrincipal_fields createPrincipalForTargetOrg_fields
  by (auto simp: tx_principal_def split: if_splits)

lemma endorsements_eq:
  assumes "\<not> v < blockVersion2330" and "\<not> IsSkipAccessControl E"
    and "endorsement_policy (acPols (pp_acs pp)) name = Some pol"
  shows "verifyEndorsementsPrincipalCommon E (pp_provider E) tx b name v False pp =
    (if orgCount (pp_acs pp) \<le> 0 then Inr (denied ErrEmptyOrgList, pp)
     else if pol_rule pol = RuleSelf E \<and> tx_target E tx = [] then Inr (denied ErrNoOrgIdParameter, pp)
     else case tx_principal E pol tx name b of Inl e \<Rightarrow> Inr (denied e, pp)
       | Inr prin \<Rightarrow>
         go_bind (pp_refinePrincipal E prin pp) (\<lambda>(r, pp1).
           case r of Inl e \<Rightarrow> Inr (denied e, pp1)
           | Inr ref \<Rightarrow> pp_verifyPrincipalPolicy E prin ref pol pp1))"
  using assms find_endorsement_policy [OF assms(1)]
  by (simp add: verifyEndorsementsPrincipalCommon_def pp_provider_def refine_unless_def tx_principal_def
      tx_target_def Let_def cong: if_cong sum.case_cong)

lemma endorsements_run:
  assumes "verifyEndorsementsPrincipalCommon E (pp_provider E) tx b name v False pp = Inr (x, pp')" and "fst x"
    and "\<not> v < blockVersion2330" and "\<not> IsSkipAccessControl E"
    and "endorsement_policy (acPols (pp_acs pp)) name = Some pol"
  obtains prin ref pp1 where "pr_endorsement prin = all_endorsements tx" "pr_message prin = b"
    "pol_rule pol = RuleSelf E \<longrightarrow> pr_targetOrg prin = tx_target E tx"
    "pp_refinePrincipal E prin pp = Inr (Inr ref, pp1)"
    "pp_verifyPrincipalPolicy E prin ref pol pp1 = Inr (x, pp')"
proof -
  note run = assms(1) [unfolded endorsements_eq [OF assms(3-5)]]
  obtain prin where prin: "tx_principal E pol tx name b = Inr prin"
    using run assms(2) by (cases "tx_principal E pol tx name b") (auto split: if_splits)
  with run assms(2) obtain r pp1 where r: "pp_refinePrincipal E prin pp = Inr (r, pp1)"
    and rest: "(case r of Inl e \<Rightarrow> Inr (denied e, pp1)
       | Inr ref \<Rightarrow> pp_verifyPrincipalPolicy E prin ref pol pp1) = Inr (x, pp')"
    by (cases "pp_refinePrincipal E prin pp") (auto split: if_splits)
  obtain ref where "r = Inr ref" using rest assms(2) by (cases r) auto
  then show thesis using that [of prin ref pp1] r rest tx_principal_fields [OF prin] by simp
qed

lemma endorsements_sound:
  assumes "verifyEndorsementsPrincipalCommon E (pp_provider E) tx b name v False pp = Inr (x, pp')" and "fst x"
    and "\<not> v < blockVersion2330" and "\<not> IsSkipAccessControl E"
    and "endorsement_policy (acPols (pp_acs pp)) name = Some pol"
    and inv: "pp_inv E pp" and names: "names_ok E" and claims: "\<forall>e \<in> set (all_endorsements tx). claims_org e"
  shows "\<exists>es. set es \<subseteq> set (filter (validly_signed E (pwk_config pp) b) (all_endorsements tx)) \<and>
    grants E (pwk_config pp) (orgCount (pp_acs pp)) (tx_target E tx) pol es"
proof -
  obtain prin ref pp1 where prin: "pr_endorsement prin = all_endorsements tx" "pr_message prin = b"
    "pol_rule pol = RuleSelf E \<longrightarrow> pr_targetOrg prin = tx_target E tx"
    and ref: "pp_refinePrincipal E prin pp = Inr (Inr ref, pp1)"
    and ver: "pp_verifyPrincipalPolicy E prin ref pol pp1 = Inr (x, pp')"
    by (rule endorsements_run [OF assms(1-5)])
  note r = pp_refinePrincipal_sound [OF ref inv names]
  note c = pp_sameD [OF r(2)]
  have refined: "set (pr_endorsement ref) \<subseteq> set (filter (validly_signed E (pwk_config pp) b) (all_endorsements tx))"
    using r(3) prin by auto
  then have "\<forall>e \<in> set (pr_endorsement ref). has_signer E (pwk_config pp1) e"
    using claims has_signer_signed c(1) by fastforce
  from pp_verify_sound(3) [OF ver r(1) names this assms(2)]
  obtain es where es: "set es \<subseteq> set (pr_endorsement ref)"
    "grants E (pwk_config pp) (orgCount (pp_acs pp)) (pr_targetOrg prin) pol es"
    unfolding c by blast
  from es(2) prin(3) grants_target_irrelevant [of pol E]
  have "grants E (pwk_config pp) (orgCount (pp_acs pp)) (tx_target E tx) pol es" by metis
  with es(1) refined show ?thesis by blast
qed

lemma and_then_allowed:
  assumes "and_then c k = Inr (x, s')" and "fst x"
  obtains y s where "c = Inr (y, s)" "fst y" "k s = Inr (x, s')"
  using assms by (auto simp: and_then_def go_bind_Inr_iff split: option.splits if_splits)

text \<open>The third check of a transaction runs on a state with the same configuration.\<close>

lemma verifyTx_endorsements:
  assumes "VerifyTxPrincipal E (pp_provider E) tx (GetTxResourceName E tx) v pp = Inr (x, pp')" and "fst x"
    and "\<not> v < blockVersion2330" and "TxType (Payload tx) = INVOKE_CONTRACT"
    and inv: "pp_inv E pp" and names: "names_ok E"
  obtains b pp1 pp2 y where "CalcUnsignedTxBytes E tx = Some b" "pp_inv E pp1" "pp_same pp pp1"
    "verifyEndorsementsPrincipalCommon E (pp_provider E) tx b (GetTxResourceName E tx) v False pp1 = Inr (y, pp2)"
    "fst y"
proof -
  have "\<not> v \<le> blockVersion220" using assms(3) by (auto simp: blockVersion_defs word_le_nat_alt word_less_nat_alt)
  with assms(1,3) have run: "verifyTxPrincipal E tx (GetTxResourceName E tx) (pp_provider E) v pp = Inr (x, pp')"
    by (simp add: VerifyTxPrincipal_def)
  obtain b where b: "CalcUnsignedTxBytes E tx = Some b"
    using run assms(2) by (cases "CalcUnsignedTxBytes E tx") (auto simp: verifyTxPrincipal_def Let_def)
  note run' = run [unfolded verifyTxPrincipal_def Let_def b, simplified, unfolded assms(4), simplified]
  obtain y1 s1 where 1: "verifyTxTypePrincipal E (pp_provider E) tx b v False pp = Inr (y1, s1)"
    and r1: "and_then (verifySenderPrincipal E (pp_provider E) tx b v True (GetTxResourceName E tx) s1) (\<lambda>s.
               and_then (verifyEndorsementsPrincipal E (pp_provider E) tx b v False (GetTxResourceName E tx) s)
                 (\<lambda>s. Inr (allowed, s))) = Inr (x, pp')"
    by (rule and_then_allowed [OF run' assms(2)])
  obtain y2 s2 where 2: "verifySenderPrincipal E (pp_provider E) tx b v True (GetTxResourceName E tx) s1 = Inr (y2, s2)"
    and r2: "and_then (verifyEndorsementsPrincipal E (pp_provider E) tx b v False (GetTxResourceName E tx) s2)
               (\<lambda>s. Inr (allowed, s)) = Inr (x, pp')"
    by (rule and_then_allowed [OF r1 assms(2)])
  obtain y3 s3 where 3: "verifyEndorsementsPrincipal E (pp_provider E) tx b v False (GetTxResourceName E tx) s2 = Inr (y3, s3)"
    "fst y3"
    by (rule and_then_allowed [OF r2 assms(2)])
  have "pwk_kept E pp pp" using inv names by (simp add: pwk_kept_def)
  from keepsD [OF pwk.verifyTxTypePrincipal_keeps [OF this] 1]
  have "pwk_kept E pp s1" .
  from keepsD [OF pwk.verifySenderPrincipal_keeps [OF this] 2]
  have "pwk_kept E pp s2" .
  then show thesis using that [OF b, of s2 y3 s3] 3
    by (simp add: verifyEndorsementsPrincipal_def checked_name_def pwk_kept_def)
qed

text \<open>
  C8: A transaction that passes is endorsed (permissioned public keys, block version 2.3.3 and
  later). In every state of \<open>pwk_reach\<close>, when the check of an invocation under its own resource name
  succeeds and the resource has an endorsement policy, then among the endorsers and the sender
  there are endorsements with valid signatures over the bytes of the transaction, by members of
  the current configuration, on which the policy grants the request: for MAJORITY the
  administrators of more than half of the organisations, for SELF an administrator of the target
  organisation, and so on. Access control is not switched off, and the endorsements name an
  organisation.
\<close>

theorem pwk_tx_sound:
  assumes "names_ok E" and "pwk_reach E pp" and "\<not> IsSkipAccessControl E"
    and "\<not> v < blockVersion2330" and "TxType (Payload tx) = INVOKE_CONTRACT"
    and "VerifyTxPrincipal E (pp_provider E) tx (GetTxResourceName E tx) v pp = Inr (x, pp')" and "fst x"
    and "endorsement_policy (acPols (pp_acs pp)) (GetTxResourceName E tx) = Some pol"
    and "\<forall>e \<in> set (all_endorsements tx). claims_org e"
  shows "\<exists>b es. CalcUnsignedTxBytes E tx = Some b \<and>
           set es \<subseteq> set (filter (validly_signed E (pwk_config pp) b) (all_endorsements tx)) \<and>
           grants E (pwk_config pp) (orgCount (pp_acs pp)) (tx_target E tx) pol es"
proof -
  have inv: "pp_inv E pp" by (rule pwk_reach_inv [OF assms(2,1)])
  obtain b pp1 pp2 y where t: "CalcUnsignedTxBytes E tx = Some b" "pp_inv E pp1" "pp_same pp pp1"
    "verifyEndorsementsPrincipalCommon E (pp_provider E) tx b (GetTxResourceName E tx) v False pp1 = Inr (y, pp2)"
    "fst y"
    by (rule verifyTx_endorsements [OF assms(6,7,4,5) inv assms(1)])
  note c = pp_sameD [OF t(3)]
  have "endorsement_policy (acPols (pp_acs pp1)) (GetTxResourceName E tx) = Some pol" using assms(8) c(3) by simp
  from endorsements_sound [OF t(4,5) assms(4,3) this t(2) assms(1,9)] t(1)
  show ?thesis unfolding c by blast
qed

lemma ex_pp_reach: "pwk_reach exE ex_pp"
proof (rule pwk_reach.start)
  show "newPermissionedPkACProvider exE ex_cfg ''o1'' = Inr ex_pp"
    using ex_pp_start unfolding ex_pp_def by (cases "newPermissionedPkACProvider exE ex_cfg ''o1''") simp_all
  show "ToLower (cc_AuthType ex_cfg) = PermissionedWithKey exE" by code_simp
qed

lemma ex_policy:
  "map_option pol_rule (endorsement_policy (acPols (pp_acs ex_pp)) ''CHAIN_CONFIG-TRUST_ROOT_ADD'') = Some ''MAJORITY''"
  by code_simp

lemma ex_conditions:
  "\<not> IsSkipAccessControl exE" "\<not> (2030300 :: u32) < blockVersion2330" "TxType (Payload ex_majority_tx) = INVOKE_CONTRACT"
  "GetTxResourceName exE ex_majority_tx = ''CHAIN_CONFIG-TRUST_ROOT_ADD''"
  "\<forall>e \<in> set (all_endorsements ex_majority_tx). claims_org e"
  "\<forall>e \<in> set (all_endorsements ex_majority_tx). ordinary e"
  "orgCount (pp_acs ex_pp) = 3"
  by code_simp+

lemma out_verdict_Some: "out_verdict out = Some v \<Longrightarrow> \<exists>s. out = Inr (v, s)"
  by (auto simp: out_verdict_def split: sum.splits prod.splits)

theorem pwk_tx_sound_witness:
  "\<exists>pol b es. endorsement_policy (acPols (pp_acs ex_pp)) ''CHAIN_CONFIG-TRUST_ROOT_ADD'' = Some pol \<and>
     CalcUnsignedTxBytes exE ex_majority_tx = Some b \<and>
     set es \<subseteq> set (filter (validly_signed exE (pwk_config ex_pp) b) (all_endorsements ex_majority_tx)) \<and>
     grants exE (pwk_config ex_pp) 3 (tx_target exE ex_majority_tx) pol es"
proof -
  obtain pol where pol: "endorsement_policy (acPols (pp_acs ex_pp)) ''CHAIN_CONFIG-TRUST_ROOT_ADD'' = Some pol"
    using ex_policy by (cases "endorsement_policy (acPols (pp_acs ex_pp)) ''CHAIN_CONFIG-TRUST_ROOT_ADD''") simp_all
  obtain pp' where run: "VerifyTxPrincipal exE (pp_provider exE) ex_majority_tx
      (GetTxResourceName exE ex_majority_tx) 2030300 ex_pp = Inr (allowed, pp')"
    using out_verdict_Some [OF ex_majority_run] unfolding ex_conditions(4) by blast
  have "fst allowed" by simp
  from pwk_tx_sound [OF exE_names_ok ex_pp_reach ex_conditions(1-3) run this _ ex_conditions(5), unfolded ex_conditions(4,7), OF pol]
  show ?thesis using pol by blast
qed

subsection \<open>Ordinary endorsements\<close>






text \<open>
  C35: The cache of members is never stale with respect to the configuration (permissioned public
  keys). In every state of \<open>pwk_reach\<close>, through any sequence of checks, look-ups and messages of
  the bus while the public key contract does not change, status requests are only about keys that
  are not administrators', and new configurations are accepted, a cached member under a text is the
  member that the current configuration of administrators and consensus nodes gives for that key; the only other entries are those of
  addresses, under texts that begin with \<^verbatim>\<open>pk_\<close>.
\<close>

theorem pwk_cache_current:
  assumes "names_ok E" and "pwk_reach E pp" and "lookUpMemberInCache (pp_acs pp) info = Some mc"
  shows "case mc_member mc of None \<Rightarrow> take 3 info = ''pk_''
    | Some mem \<Rightarrow> \<exists>pm. mem = PkMember pm \<and>
        newPkMemberFromAcs E (key_member info) (pp_adminMember pp) (pp_consensusMember pp) (acHashType (pp_acs pp)) = Inr pm"
proof -
  have "fits_entry E (pwk_config pp) info mc"
    using pwk_reach_inv [OF assms(2,1)] assms(3)
    by (auto simp: pp_inv_def pwk_fits_def sc.entries_def lookUpMemberInCache_def)
  then show ?thesis
    by (auto simp: fits_entry_def member_of_def pwk_config_def split: option.splits sum.splits)
qed

definition ex_pp' :: permissionedPk where
  "ex_pp' = snd (projr (VerifyTxPrincipal exE (pp_provider exE) ex_majority_tx ''CHAIN_CONFIG-TRUST_ROOT_ADD'' 2030300 ex_pp))"

lemma ex_pp'_cached: "map_option (\<lambda>mc. map_option GetOrgId (mc_member mc)) (lookUpMemberInCache (pp_acs ex_pp') ''Ka'') = Some (Some ''o1'')"
  by code_simp

theorem pwk_cache_current_witness:
  "\<exists>mc. lookUpMemberInCache (pp_acs ex_pp') ''Ka'' = Some mc \<and>
     (\<exists>pm. mc_member mc = Some (PkMember pm) \<and>
        newPkMemberFromAcs exE (key_member ''Ka'') (pp_adminMember ex_pp') (pp_consensusMember ex_pp')
          (acHashType (pp_acs ex_pp')) = Inr pm)"
proof -
  obtain mc where mc: "lookUpMemberInCache (pp_acs ex_pp') ''Ka'' = Some mc" "mc_member mc \<noteq> None"
    using ex_pp'_cached by (cases "lookUpMemberInCache (pp_acs ex_pp') ''Ka''") auto
  have "pwk_reach exE ex_pp'"
    using out_verdict_Some [OF ex_majority_run] pwk_reach.check_tx [OF ex_pp_reach] unfolding ex_pp'_def by fastforce
  from pwk_cache_current [OF exE_names_ok this mc(1)] mc show ?thesis by (auto split: option.splits)
qed

end
