(* ===== verification/AC_Pk_Laws.thy ===== *)
theory AC_Pk_Laws
  imports AC_Pk AC_Example
begin

section \<open>Access control: what the public provider counts\<close>

text \<open>
  The rule MAJORITY of the provider for public keys, computed exactly: the number it compares with
  the number of administrators is the number of different texts under which administrators' keys
  have signed, not the number of administrators.
\<close>

definition plain_key :: "string \<Rightarrow> Member" where
  "plain_key info = \<lparr>OrgId = [], MemberType = MemberType_PUBLIC_KEY, MemberInfo = info\<rparr>"

definition pub_member :: "acEnv \<Rightarrow> pkAC \<Rightarrow> string \<Rightarrow> pkMember option" where
  "pub_member E p info =
     (case publicNewPkMemberFromAcs E (plain_key info) (pk_adminMember p) (pk_consensusMember p) (pk_hashType p) of
        Inl _ \<Rightarrow> None | Inr pm \<Rightarrow> Some pm)"

definition pk_entry :: "acEnv \<Rightarrow> pkAC \<Rightarrow> string \<Rightarrow> memberCached \<Rightarrow> bool" where
  "pk_entry E p k mc =
     (case mc_member mc of None \<Rightarrow> take 3 k = ''pk_''
      | Some mem \<Rightarrow> \<exists>pm. mem = PkMember pm \<and> pub_member E p k = Some pm)"

definition pk_fits :: "acEnv \<Rightarrow> pkAC \<Rightarrow> bool" where
  "pk_fits E p \<longleftrightarrow>
     pk_authType p = Public E \<and> cache_ok (pk_memberCache p) \<and> sc.entries (pk_entry E p) (pk_memberCache p)"

definition pk_same :: "pkAC \<Rightarrow> pkAC \<Rightarrow> bool" where
  "pk_same p p' \<longleftrightarrow> (\<exists>c. p' = p\<lparr>pk_memberCache := c\<rparr>)"

lemma pk_same_refl [simp]: "pk_same p p"
  unfolding pk_same_def by (rule exI [of _ "pk_memberCache p"]) simp

lemma pk_same_trans: "pk_same p q \<Longrightarrow> pk_same q r \<Longrightarrow> pk_same p r"
  unfolding pk_same_def by auto

lemma pk_sameD: "pk_same p p' \<Longrightarrow> pub_member E p' = pub_member E p \<and> pk_hashType p' = pk_hashType p \<and>
    adminCount p' = adminCount p"
  by (auto simp: pk_same_def pub_member_def adminCount_def fun_eq_iff)

text \<open>An endorsement with a public key whose text is not one of the cache's keys for addresses.\<close>

definition keyed :: "EndorsementEntry option \<Rightarrow> bool" where
  "keyed e = (case e of None \<Rightarrow> False | Some entry \<Rightarrow> (case Signer entry of None \<Rightarrow> False
     | Some m \<Rightarrow> MemberType m = MemberType_PUBLIC_KEY \<and> take 3 (MemberInfo m) \<noteq> ''pk_''))"

definition text_of :: "EndorsementEntry option \<Rightarrow> string" where
  "text_of e = (case e of None \<Rightarrow> [] | Some entry \<Rightarrow> (case Signer entry of None \<Rightarrow> [] | Some m \<Rightarrow> MemberInfo m))"

definition key_signed :: "acEnv \<Rightarrow> pkAC \<Rightarrow> gobytes \<Rightarrow> EndorsementEntry option \<Rightarrow> bool" where
  "key_signed E p msg e =
     (case e of None \<Rightarrow> False
      | Some entry \<Rightarrow>
        case pub_member E p (text_of e) of None \<Rightarrow> False
        | Some pm \<Rightarrow> pk_Verify E pm (pk_hashType p) msg (Signature entry) = None)"

definition admin_text :: "acEnv \<Rightarrow> pkAC \<Rightarrow> string \<Rightarrow> bool" where
  "admin_text E p info = (case pub_member E p info of None \<Rightarrow> False | Some pm \<Rightarrow> pm_role pm = RoleAdmin E)"

definition admin_texts ::
  "acEnv \<Rightarrow> pkAC \<Rightarrow> gobytes \<Rightarrow> EndorsementEntry option list \<Rightarrow> string set" where
  "admin_texts E p msg es =
     set (filter (admin_text E p) (map text_of (filter (key_signed E p msg) es)))"

lemma new_is_pub_member:
  assumes "MemberType m = MemberType_PUBLIC_KEY"
  shows "pk_NewMemberFromAcs E p m =
    (case pub_member E p (MemberInfo m) of None \<Rightarrow> pk_NewMemberFromAcs E p m | Some pm \<Rightarrow> Inr (PkMember pm))"
    and "pub_member E p (MemberInfo m) = None \<Longrightarrow> \<exists>e. pk_NewMemberFromAcs E p m = Inl e"
proof -
  have "key_bytes E m = key_bytes E (plain_key (MemberInfo m))"
    using assms by (simp add: key_bytes_def plain_key_def)
  then have same: "publicNewPkMemberFromAcs E m = publicNewPkMemberFromAcs E (plain_key (MemberInfo m))"
    by (simp add: publicNewPkMemberFromAcs_def fun_eq_iff)
  show "pk_NewMemberFromAcs E p m =
    (case pub_member E p (MemberInfo m) of None \<Rightarrow> pk_NewMemberFromAcs E p m | Some pm \<Rightarrow> Inr (PkMember pm))"
    by (simp add: pk_NewMemberFromAcs_def pub_member_def same split: sum.split)
  show "pub_member E p (MemberInfo m) = None \<Longrightarrow> \<exists>e. pk_NewMemberFromAcs E p m = Inl e"
    by (simp add: pk_NewMemberFromAcs_def pub_member_def same split: sum.splits)
qed

lemma pk_fits_same:
  assumes "pk_same p p'"
  shows "pk_fits E p' \<longleftrightarrow>
    pk_authType p = Public E \<and> cache_ok (pk_memberCache p') \<and> sc.entries (pk_entry E p) (pk_memberCache p')"
proof -
  have "pk_entry E p' = pk_entry E p" using pk_sameD [OF assms, of E] by (simp add: pk_entry_def fun_eq_iff split: option.split)
  then show ?thesis using assms by (auto simp: pk_fits_def pk_same_def)
qed

lemma pk_add_fits:
  assumes "pk_fits E p" and "pub_member E p (MemberInfo m) = Some pm"
  shows "pk_fits E (pk_addMemberToCache E m (PkMember pm) p) \<and> pk_same p (pk_addMemberToCache E m (PkMember pm) p)"
proof (cases "pk_memberToAddress E p m")
  case (Inl e)
  then show ?thesis using assms(1) by (simp add: pk_addMemberToCache_def)
next
  case (Inr a)
  let ?p = "p\<lparr>pk_memberCache := Cache_Add (MemberInfo m) \<lparr>mc_member = Some (PkMember pm), mc_certChain = [],
      mc_address = a, mc_pk = Some (GetPk (PkMember pm))\<rparr> (pk_memberCache p)\<rparr>"
  have same: "pk_same p ?p" unfolding pk_same_def by blast
  have "pk_fits E ?p" unfolding pk_fits_same [OF same]
    using assms by (auto simp: pk_fits_def pk_entry_def cache_ok_Add intro!: sc.entries_add)
  then show ?thesis using Inr same by (simp add: pk_addMemberToCache_def)
qed

text \<open>A look-up finds the member of the text, and changes nothing but the cache.\<close>

lemma pk_getMember_exact:
  assumes "pk_fits E p" and "MemberType m = MemberType_PUBLIC_KEY" and "take 3 (MemberInfo m) \<noteq> ''pk_''"
  shows "\<exists>p'. pk_getMemberFromCache E m p = (map_option PkMember (pub_member E p (MemberInfo m)), p') \<and>
           pk_fits E p' \<and> pk_same p p'"
proof (cases "Cache_Get (pk_memberCache p) (MemberInfo m)")
  case (Some mc)
  then have "pk_entry E p (MemberInfo m) mc"
    using assms(1) by (auto simp: pk_fits_def sc.entries_def)
  then show ?thesis using Some assms by (auto simp: pk_getMemberFromCache_def pk_entry_def split: option.splits)
next
  case None
  have auth: "pk_authType p = Public E" using assms(1) by (simp add: pk_fits_def)
  show ?thesis
  proof (cases "pub_member E p (MemberInfo m)")
    case n: None
    then obtain e where "pk_NewMemberFromAcs E p m = Inl e" using new_is_pub_member(2) [OF assms(2)] by blast
    then show ?thesis using None auth n assms(1) by (simp add: pk_getMemberFromCache_def)
  next
    case (Some pm)
    then have "pk_NewMemberFromAcs E p m = Inr (PkMember pm)" using new_is_pub_member(1) [OF assms(2), of E p] by simp
    then show ?thesis using None auth Some pk_add_fits [OF assms(1) Some] by (simp add: pk_getMemberFromCache_def)
  qed
qed

lemma pk_NewMember_exact:
  assumes "pk_fits E p" and "MemberType m = MemberType_PUBLIC_KEY" and "take 3 (MemberInfo m) \<noteq> ''pk_''"
  shows "\<exists>r p'. pk_NewMember E m p = (r, p') \<and> pk_fits E p' \<and> pk_same p p' \<and>
    (case pub_member E p (MemberInfo m) of None \<Rightarrow> \<exists>e. r = Inl e | Some pm \<Rightarrow> r = Inr (PkMember pm))"
proof -
  obtain p' where g: "pk_getMemberFromCache E m p = (map_option PkMember (pub_member E p (MemberInfo m)), p')"
    "pk_fits E p'" "pk_same p p'"
    using pk_getMember_exact [OF assms] by blast
  show ?thesis
  proof (cases "pub_member E p (MemberInfo m)")
    case None
    then have "pub_member E p' (MemberInfo m) = None" using pk_sameD [OF g(3)] by simp
    then obtain e where "pk_NewMemberFromAcs E p' m = Inl e" using new_is_pub_member(2) [OF assms(2)] by blast
    then show ?thesis using None g by (simp add: pk_NewMember_def)
  next
    case (Some pm)
    then show ?thesis using g by (simp add: pk_NewMember_def)
  qed
qed

subsection \<open>The loops\<close>

lemma keyedE:
  assumes "keyed e"
  obtains entry m where "e = Some entry" "Signer entry = Some m" "MemberType m = MemberType_PUBLIC_KEY"
    "take 3 (MemberInfo m) \<noteq> ''pk_''" "text_of e = MemberInfo m" "signer e = Inr m"
  using assms by (auto simp: keyed_def text_of_def signer_def split: option.splits)

lemma pk_refine_exact:
  assumes "pk_fits E p" and "\<forall>e \<in> set es. keyed e" and "distinct (map text_of refined)"
    and "set seen = text_of ` set refined" and "\<forall>e \<in> set refined. keyed e"
  shows "\<exists>R p'. pk_refine_loop E msg es seen refined p = Inr (R, p') \<and> pk_fits E p' \<and> pk_same p p' \<and>
    distinct (map text_of R) \<and> (\<forall>e \<in> set R. keyed e) \<and>
    text_of ` set R = text_of ` (set refined \<union> {e \<in> set es. key_signed E p msg e})"
  using assms
proof (induction es arbitrary: seen refined p)
  case Nil
  then show ?case by simp
next
  case (Cons e es)
  from Cons.prems(2) have "keyed e" and es: "\<forall>e \<in> set es. keyed e" by simp_all
  from this(1) obtain entry m where e: "e = Some entry" "Signer entry = Some m" "MemberType m = MemberType_PUBLIC_KEY"
    "take 3 (MemberInfo m) \<noteq> ''pk_''" "text_of e = MemberInfo m"
    by (rule keyedE)
  obtain r p1 where r: "pk_NewMember E m p = (r, p1)" "pk_fits E p1" "pk_same p p1"
    "case pub_member E p (MemberInfo m) of None \<Rightarrow> \<exists>e. r = Inl e | Some pm \<Rightarrow> r = Inr (PkMember pm)"
    using pk_NewMember_exact [OF Cons.prems(1) e(3,4)] by blast
  note same = pk_sameD [OF r(3), of E]
  have signed: "key_signed E p1 msg = key_signed E p msg"
    using same by (simp add: key_signed_def fun_eq_iff split: option.split)
  let ?ok = "key_signed E p msg e"
  define refined' where "refined' = (if ?ok \<and> MemberInfo m \<notin> set seen then refined @ [e] else refined)"
  define seen' where "seen' = (if ?ok \<and> MemberInfo m \<notin> set seen then MemberInfo m # seen else seen)"
  have step: "pk_refine_loop E msg (e # es) seen refined p = pk_refine_loop E msg es seen' refined' p1"
    using r(1,4) e same
    by (auto simp: refined'_def seen'_def key_signed_def split: option.splits sum.splits)
  have inv: "distinct (map text_of refined')" "set seen' = text_of ` set refined'" "\<forall>e \<in> set refined'. keyed e"
    using Cons.prems(3-5) e(5) \<open>keyed e\<close> by (auto simp: refined'_def seen'_def)
  from Cons.IH [OF r(2) es inv] obtain R p' where R: "pk_refine_loop E msg es seen' refined' p1 = Inr (R, p')"
    "pk_fits E p'" "pk_same p1 p'" "distinct (map text_of R)" "\<forall>e \<in> set R. keyed e"
    "text_of ` set R = text_of ` (set refined' \<union> {e \<in> set es. key_signed E p msg e})"
    unfolding signed by blast
  have "text_of ` (set refined' \<union> {e \<in> set es. key_signed E p msg e}) =
      text_of ` (set refined \<union> {a \<in> set (e # es). key_signed E p msg a})"
  proof -
    have "{a \<in> set (e # es). key_signed E p msg a} = (if ?ok then {e} else {}) \<union> {e \<in> set es. key_signed E p msg e}"
      by auto
    then show ?thesis using Cons.prems(4) e(5) by (auto simp: refined'_def image_Un)
  qed
  then show ?case using step R pk_same_trans [OF r(3) R(3)] by (auto simp del: pk_refine_loop.simps)
qed

lemma pk_valid_exact:
  assumes "pk_fits E p" and "\<forall>e \<in> set es. keyed e"
  shows "\<exists>p'. pk_valid_loop E [RoleAdmin E] es refined p = Inr (refined @ filter (admin_text E p \<circ> text_of) es, p') \<and>
           pk_same p p'"
  using assms
proof (induction es arbitrary: refined p)
  case Nil
  then show ?case by simp
next
  case (Cons e es)
  from Cons.prems(2) have "keyed e" and es: "\<forall>e \<in> set es. keyed e" by simp_all
  from this(1) obtain entry m where e: "MemberType m = MemberType_PUBLIC_KEY"
    "take 3 (MemberInfo m) \<noteq> ''pk_''" "text_of e = MemberInfo m" "signer e = Inr m"
    by (rule keyedE)
  obtain p1 where g: "pk_getMemberFromCache E m p = (map_option PkMember (pub_member E p (MemberInfo m)), p1)"
    "pk_fits E p1" "pk_same p p1"
    using pk_getMember_exact [OF Cons.prems(1) e(1,2)] by blast
  have "admin_text E p1 = admin_text E p" using pk_sameD [OF g(3), of E] by (simp add: admin_text_def fun_eq_iff)
  with Cons.IH [OF g(2) es] obtain p2 where p2: "pk_same p1 p2"
    "pk_valid_loop E [RoleAdmin E] es (if admin_text E p (text_of e) then refined @ [e] else refined) p1 =
       Inr ((if admin_text E p (text_of e) then refined @ [e] else refined) @ filter (admin_text E p \<circ> text_of) es, p2)"
    by metis
  have "pk_valid_loop E [RoleAdmin E] (e # es) refined p =
      pk_valid_loop E [RoleAdmin E] es (if admin_text E p (text_of e) then refined @ [e] else refined) p1"
    using g(1) e(3,4) by (auto simp: admin_text_def split: option.split)
  then show ?case using p2 pk_same_trans [OF g(3) p2(1)] by (auto simp: comp_def simp del: pk_valid_loop.simps)
qed

lemma admin_texts_card:
  assumes "distinct (map text_of R)" and "text_of ` set R = text_of ` {e \<in> set es. key_signed E p msg e}"
  shows "length (filter (admin_text E p \<circ> text_of) R) = card (admin_texts E p msg es)"
proof -
  have "distinct (map text_of (filter (admin_text E p \<circ> text_of) R))"
    using assms(1) by (rule distinct_map_filter)
  then have "length (filter (admin_text E p \<circ> text_of) R) = card (text_of ` set (filter (admin_text E p \<circ> text_of) R))"
    by (metis distinct_card length_map set_map)
  moreover have "text_of ` set (filter (admin_text E p \<circ> text_of) R) = {t \<in> text_of ` set R. admin_text E p t}" by auto
  moreover have "admin_texts E p msg es = {t \<in> text_of ` {e \<in> set es. key_signed E p msg e}. admin_text E p t}"
    by (auto simp: admin_texts_def)
  ultimately show ?thesis using assms(2) by simp
qed

lemma pk_majority_eq:
  assumes "names_ok E" and "pol_rule pol = RuleMajority E"
  shows "pk_verifyPrincipalPolicy E prin ref pol p = verifyRuleMajorityCase E pol (pr_endorsement ref) p"
proof -
  have "RuleMajority E \<noteq> RuleForbidden E" "RuleMajority E \<noteq> RuleAny E" "RuleMajority E \<noteq> RuleAll E"
    using assms(1) by (auto simp: names_ok_def rule_names_def)
  then show ?thesis using assms(2) by (simp add: pk_verifyPrincipalPolicy_def)
qed

lemma pk_majority_exact:
  assumes names: "names_ok E" and fits: "pk_fits E p" and keyed: "\<forall>e \<in> set es. keyed e"
    and rule: "pol_rule pol = RuleMajority E"
  shows "\<exists>R p1 x p2. pk_RefineEndorsements E es msg p = Inr (R, p1) \<and>
    pk_verifyPrincipalPolicy E prin \<lparr>pr_resourceName = name, pr_endorsement = R, pr_message = msg, pr_targetOrg = []\<rparr>
      pol p1 = Inr (x, p2) \<and>
    fst x = (adminCount p < 2 * int (card (admin_texts E p msg es)))"
proof -
  obtain R p1 where R: "pk_RefineEndorsements E es msg p = Inr (R, p1)" "pk_fits E p1" "pk_same p p1"
    "distinct (map text_of R)" "\<forall>e \<in> set R. keyed e" "text_of ` set R = text_of ` {e \<in> set es. key_signed E p msg e}"
    using pk_refine_exact [OF fits keyed, of "[]" "[]" msg] by (auto simp: pk_RefineEndorsements_def)
  obtain p2 where v: "pk_valid_loop E [RoleAdmin E] R [] p1 = Inr (filter (admin_text E p1 \<circ> text_of) R, p2)" "pk_same p1 p2"
    using pk_valid_exact [OF R(2,5), of "[]"] by auto
  have "admin_text E p1 = admin_text E p" using pk_sameD [OF R(3), of E] by (simp add: admin_text_def fun_eq_iff)
  then have count: "count_admins E R p1 = Inr (int (card (admin_texts E p msg es)), p2)"
    using v(1) admin_texts_card [OF R(4,6)] by (simp add: count_admins_def getValidEndorsementsInner_def)
  have "adminCount p2 = adminCount p" using pk_sameD [OF R(3), of E] pk_sameD [OF v(2), of E] by simp
  then show ?thesis using R(1) count
    by (auto simp: pk_majority_eq [OF names rule] verifyRuleMajorityCase_def allowed_def denied_def)
qed

subsection \<open>Theorems\<close>

text \<open>
  The example: three administrators; the administrator with key \<^verbatim>\<open>a\<close> endorses under two texts of
  the same key.
\<close>

definition ex_pub_cfg :: acConfig where
  "ex_pub_cfg =
    \<lparr>cc_AuthType = ''public'', cc_Hash = ''SHA256'', cc_AddrType = AddrType_CHAINMAKER,
     cc_ResourcePolicies = [], cc_TrustRoots = [\<lparr>tr_OrgId = ''public'', tr_Root = [''Ka'', ''Kb'', ''Kc'']\<rparr>],
     cc_TrustMembers = [], cc_ConsensusType = TBFT_type,
     cc_ConsensusNodes = [\<lparr>oc_OrgId = ''public'', oc_NodeId = [''Qz'']\<rparr>]\<rparr>"

definition ex_pub :: pkAC where
  "ex_pub = projr (newPkACProvider exE ex_pub_cfg)"

definition ex_two_texts :: "EndorsementEntry option list" where
  "ex_two_texts = [ex_endorse [] ''Ka'' ''tx'', ex_endorse [] ''Ka '' ''tx'']"

definition ex_majority :: policy where
  "ex_majority = newPolicy ''MAJORITY'' [] [''ADMIN'']"

definition ex_prin :: principal where
  "ex_prin = \<lparr>pr_resourceName = ''r'', pr_endorsement = ex_two_texts, pr_message = Some ''tx'', pr_targetOrg = []\<rparr>"

lemma ex_pub_fits: "pk_fits exE ex_pub"
proof -
  have "pk_authType ex_pub = Public exE" "pk_memberCache ex_pub = NewShardCache (GetCertCacheSize exE)" by code_simp+
  then show ?thesis by (simp add: pk_fits_def cache_ok_New sc.entries_def)
qed

lemma ex_two_texts_facts:
  "\<forall>e \<in> set ex_two_texts. keyed e" "adminCount ex_pub = 3" "pol_rule ex_majority = RuleMajority exE"
  "admin_texts exE ex_pub (Some ''tx'') ex_two_texts = {''Ka'', ''Ka ''}"
  by code_simp+

text \<open>
  C36: Public keys: the rule MAJORITY counts texts. For endorsements with public keys, in a state
  whose cache holds members of the configuration, the refinement of the endorsements and the
  evaluation of a MAJORITY policy return, and the request is allowed if and only if the number of
  different texts of keys of administrators with a valid signature is more than half the number
  of administrators. Repeated endorsements with the same text are counted once.
\<close>

theorem pk_majority_counts_texts:
  assumes names: "names_ok E" and fits: "pk_fits E p" and keyed: "\<forall>e \<in> set es. keyed e"
    and rule: "pol_rule pol = RuleMajority E"
  shows "\<exists>R p1 x p2. pk_RefineEndorsements E es msg p = Inr (R, p1) \<and>
    pk_verifyPrincipalPolicy E prin \<lparr>pr_resourceName = name, pr_endorsement = R, pr_message = msg, pr_targetOrg = []\<rparr>
      pol p1 = Inr (x, p2) \<and>
    fst x = (adminCount p < 2 * int (card (admin_texts E p msg es)))"
  by (rule pk_majority_exact [OF assms])

theorem pk_majority_counts_texts_witness:
  "\<exists>R p1 x p2. pk_RefineEndorsements exE ex_two_texts (Some ''tx'') ex_pub = Inr (R, p1) \<and>
    pk_verifyPrincipalPolicy exE ex_prin
      \<lparr>pr_resourceName = ''r'', pr_endorsement = R, pr_message = Some ''tx'', pr_targetOrg = []\<rparr>
      ex_majority p1 = Inr (x, p2) \<and> fst x"
  using pk_majority_counts_texts [OF exE_names_ok ex_pub_fits ex_two_texts_facts(1,3), of "Some ''tx''" ex_prin "''r''"]
  by (simp add: ex_two_texts_facts)

text \<open>
  C37: Public keys: one administrator can reach the majority. When an administrator's key is
  accepted under several texts (a PEM block with other white space or headers around it is another
  text of the same key), then endorsements by this one key under enough of them are allowed by a
  MAJORITY policy, because endorsements are told apart by their text and each is counted.
\<close>

theorem pk_one_key_majority:
  assumes names: "names_ok E" and fits: "pk_fits E p" and rule: "pol_rule pol = RuleMajority E"
    and texts: "distinct texts" "adminCount p < 2 * int (length texts)"
    and one_key: "\<forall>t \<in> set texts. take 3 t \<noteq> ''pk_'' \<and>
      (\<exists>pm. pub_member E p t = Some pm \<and> pm_pk pm = pk \<and> pm_role pm = RoleAdmin E \<and>
            pk_Verify E pm (pk_hashType p) msg sig = None)"
  shows "\<exists>R p1 x p2.
    pk_RefineEndorsements E (map (\<lambda>t. Some \<lparr>Signer = Some (plain_key t), Signature = sig\<rparr>) texts) msg p = Inr (R, p1) \<and>
    pk_verifyPrincipalPolicy E prin \<lparr>pr_resourceName = name, pr_endorsement = R, pr_message = msg, pr_targetOrg = []\<rparr>
      pol p1 = Inr (x, p2) \<and> fst x"
proof -
  let ?es = "map (\<lambda>t. Some \<lparr>Signer = Some (plain_key t), Signature = sig\<rparr>) texts"
  have keyed: "\<forall>e \<in> set ?es. keyed e" using one_key by (auto simp: keyed_def plain_key_def)
  have "admin_texts E p msg ?es = set texts"
    using one_key by (force simp: admin_texts_def admin_text_def key_signed_def text_of_def plain_key_def image_iff)
  then have "card (admin_texts E p msg ?es) = length texts" using texts(1) by (simp add: distinct_card)
  then show ?thesis using pk_majority_exact [OF names fits keyed rule, of msg prin name] texts(2) by auto
qed

lemma ex_one_key:
  "adminCount ex_pub < 2 * int (length [''Ka'', ''Ka ''])"
  "\<forall>t \<in> set [''Ka'', ''Ka '']. take 3 t \<noteq> ''pk_'' \<and>
      (case pub_member exE ex_pub t of None \<Rightarrow> False | Some pm \<Rightarrow>
         pm_pk pm = ''a'' \<and> pm_role pm = RoleAdmin exE \<and>
         pk_Verify exE pm (pk_hashType ex_pub) (Some ''tx'') (Some ''atx'') = None)"
  by code_simp+

theorem pk_one_key_majority_witness:
  "\<exists>R p1 x p2.
    pk_RefineEndorsements exE
      (map (\<lambda>t. Some \<lparr>Signer = Some (plain_key t), Signature = Some ''atx''\<rparr>) [''Ka'', ''Ka '']) (Some ''tx'') ex_pub = Inr (R, p1) \<and>
    pk_verifyPrincipalPolicy exE ex_prin
      \<lparr>pr_resourceName = ''r'', pr_endorsement = R, pr_message = Some ''tx'', pr_targetOrg = []\<rparr>
      ex_majority p1 = Inr (x, p2) \<and> fst x"
proof (rule pk_one_key_majority [OF exE_names_ok ex_pub_fits ex_two_texts_facts(3) _ ex_one_key(1), where pk = "''a''"])
  show "distinct [''Ka'', ''Ka '']" by simp
  show "\<forall>t \<in> set [''Ka'', ''Ka '']. take 3 t \<noteq> ''pk_'' \<and>
      (\<exists>pm. pub_member exE ex_pub t = Some pm \<and> pm_pk pm = ''a'' \<and> pm_role pm = RoleAdmin exE \<and>
            pk_Verify exE pm (pk_hashType ex_pub) (Some ''tx'') (Some ''atx'') = None)"
    using ex_one_key(2) by (auto split: option.splits)
qed

end
