(* ===== verification/AC_Cert_Laws.thy ===== *)
theory AC_Cert_Laws
  imports AC_Cert_Events AC_Example
begin

section \<open>Access control: what the certificate provider accepts\<close>

text \<open>
  The invariant of the cache of members, and what a refined endorsement shows: its signature is
  valid under the certificate that it names, and this certificate is a trusted member's or neither
  revoked nor frozen. The theorems include a case that the code does not catch: the loop keeps the
  certificate of the endorsement before for a signer of an unknown type.
\<close>

subsection \<open>The cache\<close>

definition revoked :: "certAC \<Rightarrow> bcCertificate \<Rightarrow> bool" where
  "revoked cp c =
     (case cp_crl cp (AuthorityKeyId c) of None \<Rightarrow> False | Some crl \<Rightarrow> SerialNumber c \<in> set (crl_Revoked crl))"

definition in_force :: "certAC \<Rightarrow> bcCertificate \<Rightarrow> bool" where
  "in_force cp c \<longleftrightarrow> \<not> revoked cp c \<and> cp_frozenList cp (Raw c) = None"

text \<open>The documented behaviour of the verification of certificates: a chain begins with its leaf.\<close>

definition chains_start :: "acEnv \<Rightarrow> bool" where
  "chains_start E \<longleftrightarrow>
     (\<forall>c rs is chs ch. VerifyCertificate E c rs is = Some chs \<longrightarrow> ch \<in> set chs \<longrightarrow> ch \<noteq> [] \<longrightarrow> hd ch = c)"

definition cert_entry :: "acEnv \<Rightarrow> certAC \<Rightarrow> string \<Rightarrow> memberCached \<Rightarrow> bool" where
  "cert_entry E cp k mc \<longleftrightarrow>
     (\<forall>mem. mc_member mc = Some mem \<longrightarrow>
        (\<exists>cm m tr. mem = CertMember cm \<and> MemberInfo m = k \<and> newNoCacheMember E m cp = Inr (cm, tr) \<and>
           (mc_certChain mc \<noteq> [] \<longrightarrow> hd (mc_certChain mc) = cm_cert cm)))"

definition cert_inv :: "acEnv \<Rightarrow> certAC \<Rightarrow> bool" where
  "cert_inv E cp \<longleftrightarrow>
     cache_ok (memberCache (cp_acs cp)) \<and> sc.entries (cert_entry E cp) (memberCache (cp_acs cp))"

definition cp_same :: "certAC \<Rightarrow> certAC \<Rightarrow> bool" where
  "cp_same cp cp' \<longleftrightarrow>
     (\<exists>c d. cp' = cp\<lparr>cp_acs := (cp_acs cp)\<lparr>memberCache := c\<rparr>, cp_certCache := d\<rparr>)"

lemma cp_same_refl [simp]: "cp_same cp cp"
  unfolding cp_same_def by (rule exI [of _ "memberCache (cp_acs cp)"], rule exI [of _ "cp_certCache cp"]) simp

lemma cp_same_trans: "cp_same a b \<Longrightarrow> cp_same b c \<Longrightarrow> cp_same a c"
  unfolding cp_same_def by (elim exE) (simp, intro exI, rule refl)

lemma cp_sameD:
  assumes "cp_same cp cp'"
  shows "newNoCacheMember E m cp' = newNoCacheMember E m cp" and "cp_trustMembers cp' = cp_trustMembers cp"
    and "in_force cp' = in_force cp" and "acHashType (cp_acs cp') = acHashType (cp_acs cp)"
    and "cert_entry E cp' = cert_entry E cp"
  using assms by (auto simp: cp_same_def newNoCacheMember_def in_force_def revoked_def cert_entry_def fun_eq_iff
      split: option.splits)

lemma cert_inv_same: "cp_same cp cp' \<Longrightarrow> cert_inv E cp' \<longleftrightarrow>
    cache_ok (memberCache (cp_acs cp')) \<and> sc.entries (cert_entry E cp) (memberCache (cp_acs cp'))"
  by (simp add: cert_inv_def cp_sameD(5))

subsection \<open>Chains in force\<close>

lemma check_crl_ok: "check_crl (cp_crl cp) cs = None \<Longrightarrow> c \<in> set cs \<Longrightarrow> \<not> revoked cp c"
  by (induction cs) (auto simp: revoked_def split: option.splits if_splits)

lemma chain_in_force:
  assumes "checkCRL cp chain = None" and "checkCertFrozenList cp chain = None"
  shows "chain \<noteq> []" and "in_force cp (hd chain)"
proof -
  show ne: "chain \<noteq> []" using assms(1) by (auto simp: checkCRL_def)
  have "\<not> revoked cp (hd chain)" using assms(1) ne check_crl_ok [of cp chain] by (simp add: checkCRL_def)
  moreover have "cp_frozenList cp (Raw (hd chain)) = None"
    using assms(2) by (cases chain) (auto simp: checkCertFrozenList_def split: if_splits)
  ultimately show "in_force cp (hd chain)" by (simp add: in_force_def)
qed

lemma find_chain_in_force:
  "find_chain cp org cs = Inr (Some chain) \<Longrightarrow>
     chain \<in> set cs \<and> checkCRL cp chain = None \<and> checkCertFrozenList cp chain = None"
  by (induction cs) (auto split: if_splits)

lemma verifyMember_chain:
  assumes "verifyMember E cp cm = Inr (Inr chain)" and "chains_start E"
  shows "chain \<noteq> []" and "hd chain = cm_cert cm" and "in_force cp (cm_cert cm)"
proof -
  obtain chs org where "VerifyCertificate E (cm_cert cm) (cp_Roots cp) (cp_Intermediates cp) = Some chs"
    "findCertChain cp org chs = Inr (Some chain)"
    using assms(1)
    by (auto simp: verifyMember_def go_bind_Inr_iff split: list.splits option.splits if_splits)
  then have f: "chain \<in> set chs" "checkCRL cp chain = None" "checkCertFrozenList cp chain = None"
    using find_chain_in_force by (auto simp: findCertChain_def)
  show ne: "chain \<noteq> []" by (rule chain_in_force(1) [OF f(2,3)])
  show hd: "hd chain = cm_cert cm"
    using assms(2) f(1) ne \<open>VerifyCertificate E _ _ _ = _\<close> by (auto simp: chains_start_def)
  show "in_force cp (cm_cert cm)" using chain_in_force(2) [OF f(2,3)] hd by simp
qed

lemma verified_member_facts:
  assumes "verified_member E m cp = Inr (Inr (cm, chain))" and "chains_start E"
  shows "\<exists>tr. newNoCacheMember E m cp = Inr (cm, tr)" and "chain \<noteq> [] \<longrightarrow> hd chain = cm_cert cm"
    and "cp_trustMembers cp (MemberInfo m) \<noteq> None \<or> in_force cp (cm_cert cm)"
proof -
  obtain cm0 tr where n: "newNoCacheMember E m cp = Inr (cm0, tr)"
    using assms(1) by (cases "newNoCacheMember E m cp") (auto simp: verified_member_def)
  have tr: "newNoCacheMember E m cp = Inr (cm, tr)"
    and rest: "tr \<and> chain = [] \<or> \<not> tr \<and> verifyMember E cp cm = Inr (Inr chain)"
    using assms(1) n by (cases tr; cases "verifyMember E cp cm0"; auto simp: verified_member_def split: sum.splits)+
  show "\<exists>tr. newNoCacheMember E m cp = Inr (cm, tr)" using tr by blast
  have trust: "tr \<Longrightarrow> cp_trustMembers cp (MemberInfo m) \<noteq> None"
    using tr by (auto simp: newNoCacheMember_def split: option.splits sum.splits)
  show "chain \<noteq> [] \<longrightarrow> hd chain = cm_cert cm" using rest verifyMember_chain(2) [OF _ assms(2)] by blast
  show "cp_trustMembers cp (MemberInfo m) \<noteq> None \<or> in_force cp (cm_cert cm)"
    using rest trust verifyMember_chain(3) [OF _ assms(2)] by blast
qed

subsection \<open>Endorsements\<close>

text \<open>
  An endorsement is attested: the signature is valid under the certificate it names, and that is
  the certificate of a trusted member or in force.
\<close>

definition attested :: "acEnv \<Rightarrow> certAC \<Rightarrow> gobytes \<Rightarrow> Member \<Rightarrow> gobytes \<Rightarrow> bool" where
  "attested E cp msg m sig \<longleftrightarrow>
     (\<exists>cm m' tr. MemberInfo m' = MemberInfo m \<and> newNoCacheMember E m' cp = Inr (cm, tr) \<and>
        cert_Verify E cm (acHashType (cp_acs cp)) msg sig = None \<and>
        (cp_trustMembers cp (MemberInfo m) \<noteq> None \<or> in_force cp (cm_cert cm)))"

lemma attested_same: "cp_same cp cp' \<Longrightarrow> attested E cp' msg m sig \<longleftrightarrow> attested E cp msg m sig"
  by (simp add: attested_def cp_sameD)

lemma addMemberToCache_shape:
  assumes "addMemberToCache E m mc s = Inr s'"
  shows "\<exists>mc'. s' = cache_member (MemberInfo m) mc' s \<and> mc_member mc' = mc_member mc \<and> mc_certChain mc' = mc_certChain mc"
  using assms by (auto simp: addMemberToCache_def go_bind_Inr_iff split: sum.splits intro: exI [of _ mc])

lemma authenticate_new:
  assumes "lookUpMemberInCache (cp_acs cp) (MemberInfo m) = None"
    and run: "authenticate E m sig msg (MemberInfo m) cp = Inr (ok, cp')"
    and inv: "cert_inv E cp" and chains: "chains_start E"
  shows "cert_inv E cp' \<and> cp_same cp cp' \<and> (ok \<longrightarrow> attested E cp msg m sig)"
proof -
  obtain r where r: "verified_member E m cp = Inr r"
    using run assms(1) by (auto simp: authenticate_def verifyPrincipalSignerNotInCache_def go_bind_Inr_iff)
  show ?thesis
  proof (cases "\<exists>cm chain. r = Inr (cm, chain) \<and> cert_Verify E cm (acHashType (cp_acs cp)) msg sig = None")
    case False
    then have "ok = False \<and> cp' = cp"
      using run assms(1) r by (auto simp: authenticate_def verifyPrincipalSignerNotInCache_def split: sum.splits prod.splits if_splits)
    then show ?thesis using inv by simp
  next
    case True
    then obtain cm chain where c: "r = Inr (cm, chain)" "cert_Verify E cm (acHashType (cp_acs cp)) msg sig = None" by blast
    then obtain s where s: "addMemberToCache E m (mkCached (Some (CertMember cm)) chain) (cp_acs cp) = Inr s"
      and cp': "cp' = cp\<lparr>cp_acs := s\<rparr>"
      using run assms(1) r by (auto simp: authenticate_def verifyPrincipalSignerNotInCache_def go_bind_Inr_iff)
    note f = verified_member_facts [OF r [unfolded c(1)] chains]
    obtain mc where mc: "s = cache_member (MemberInfo m) mc (cp_acs cp)" "mc_member mc = Some (CertMember cm)"
      "mc_certChain mc = chain"
      using addMemberToCache_shape [OF s] by (auto simp: mkCached_def)
    have same: "cp_same cp cp'"
      unfolding cp_same_def cp' mc(1) cache_member_def by (rule exI, rule exI [of _ "cp_certCache cp"]) simp
    have "cert_entry E cp (MemberInfo m) mc" using mc(2,3) f(1,2) by (auto simp: cert_entry_def)
    then have "cert_inv E cp'" unfolding cert_inv_same [OF same]
      using inv by (simp add: cp' mc(1) cache_member_def cert_inv_def cache_ok_Add sc.entries_add)
    then show ?thesis using same f(1,3) c(2) by (auto simp: attested_def)
  qed
qed

lemma verifyPrincipalSignerInCache_ok:
  assumes "verifyPrincipalSignerInCache E mc m sig msg info cp = Inr v" and "fst v"
  shows "\<exists>mem. mc_member mc = Some mem \<and> member_Verify E mem (acHashType (cp_acs cp)) msg sig = None \<and>
    (cp_trustMembers cp info \<noteq> None \<or>
     checkCRL cp (mc_certChain mc) = None \<and> checkCertFrozenList cp (mc_certChain mc) = None)"
proof (cases "mc_member mc")
  case None
  then show ?thesis using assms
    by (auto simp: verifyPrincipalSignerInCache_def split: if_splits option.splits)
next
  case (Some mem)
  then show ?thesis using assms
    by (cases "cp_trustMembers cp info"; cases "checkCRL cp (mc_certChain mc)"; cases "checkCertFrozenList cp (mc_certChain mc)";
        cases "member_Verify E mem (acHashType (cp_acs cp)) msg sig")
      (auto simp: verifyPrincipalSignerInCache_def split: if_splits)
qed

lemma authenticate_cached:
  assumes mc: "lookUpMemberInCache (cp_acs cp) (MemberInfo m) = Some mc"
    and run: "authenticate E m sig msg (MemberInfo m) cp = Inr (ok, cp')"
    and inv: "cert_inv E cp"
  shows "cp' = cp \<and> (ok \<longrightarrow> attested E cp msg m sig)"
proof -
  have entry: "cert_entry E cp (MemberInfo m) mc"
    using inv mc by (auto simp: cert_inv_def sc.entries_def lookUpMemberInCache_def)
  obtain v where v: "verifyPrincipalSignerInCache E mc m sig msg (MemberInfo m) cp = Inr v" "ok = fst v" "cp' = cp"
    using run mc
    by (cases "verifyPrincipalSignerInCache E mc m sig msg (MemberInfo m) cp") (simp_all add: authenticate_def split_beta)
  have "attested E cp msg m sig" if granted: ok
  proof -
    obtain mem where mem: "mc_member mc = Some mem" "member_Verify E mem (acHashType (cp_acs cp)) msg sig = None"
      and chain: "cp_trustMembers cp (MemberInfo m) \<noteq> None \<or>
        checkCRL cp (mc_certChain mc) = None \<and> checkCertFrozenList cp (mc_certChain mc) = None"
      using verifyPrincipalSignerInCache_ok [OF v(1)] granted v(2) by blast
    from entry mem(1) obtain cm m' tr where cm: "mem = CertMember cm" "MemberInfo m' = MemberInfo m"
      "newNoCacheMember E m' cp = Inr (cm, tr)" "mc_certChain mc \<noteq> [] \<longrightarrow> hd (mc_certChain mc) = cm_cert cm"
      by (auto simp: cert_entry_def)
    then have "cp_trustMembers cp (MemberInfo m) \<noteq> None \<or> in_force cp (cm_cert cm)"
      using chain chain_in_force [of cp "mc_certChain mc"] by (metis (no_types))
    moreover have "cert_Verify E cm (acHashType (cp_acs cp)) msg sig = None" using mem(2) cm(1) by simp
    ultimately show ?thesis using cm(2,3) unfolding attested_def by blast
  qed
  then show ?thesis using v(3) by simp
qed

lemma authenticate_sound:
  assumes "authenticate E m sig msg (MemberInfo m) cp = Inr (ok, cp')" and "cert_inv E cp" and "chains_start E"
  shows "cert_inv E cp' \<and> cp_same cp cp' \<and> (ok \<longrightarrow> attested E cp msg m sig)"
proof (cases "lookUpMemberInCache (cp_acs cp) (MemberInfo m)")
  case None
  then show ?thesis by (rule authenticate_new [OF _ assms])
next
  case (Some mc)
  then show ?thesis using authenticate_cached [OF Some assms(1,2)] assms(2) by auto
qed

definition by_certificate :: "EndorsementEntry option \<Rightarrow> bool" where
  "by_certificate e = (case e of None \<Rightarrow> False | Some entry \<Rightarrow> (case Signer entry of None \<Rightarrow> False
     | Some m \<Rightarrow> MemberType m \<in> {MemberType_CERT, MemberType_CERT_HASH, MemberType_ALIAS}))"

definition attested_endorsement :: "acEnv \<Rightarrow> certAC \<Rightarrow> gobytes \<Rightarrow> EndorsementEntry option \<Rightarrow> bool" where
  "attested_endorsement E cp msg e \<longleftrightarrow>
     (\<exists>entry m. e = Some entry \<and> Signer entry = Some m \<and> attested E cp msg m (Signature entry))"

lemma signer_info_cases:
  assumes "MemberType m \<in> {MemberType_CERT, MemberType_CERT_HASH, MemberType_ALIAS}"
    and "signer_info E m memInfo cp = (r, cp1)"
  shows "cp_same cp cp1 \<and> memberCache (cp_acs cp1) = memberCache (cp_acs cp) \<and>
    (\<forall>info m'. r = Some (info, m') \<longrightarrow> MemberInfo m' = info)"
proof -
  have "cp_same cp (cp\<lparr>cp_certCache := d\<rparr>)" for d
    unfolding cp_same_def by (rule exI [of _ "memberCache (cp_acs cp)"], rule exI [of _ d]) simp
  then show ?thesis using assms
    by (auto simp: signer_info_def lookUpCertCache_def split: if_splits option.splits)
qed

lemma cp_refine_step:
  assumes "signer_info E m memInfo cp = (Some (info, m'), cp1)" and "Signer entry = Some m"
    and "cp_refine_loop E msg (Some entry # es) memInfo seen refined cp = Inr (R, cp')"
  obtains ok cp2 seen' refined' where "authenticate E m' (Signature entry) msg info cp1 = Inr (ok, cp2)"
    "cp_refine_loop E msg es info seen' refined' cp2 = Inr (R, cp')"
    "refined' = refined \<or> ok \<and> refined' = refined @ [Some (entry\<lparr>Signer := Some m'\<rparr>)]"
proof (cases "authenticate E m' (Signature entry) msg info cp1")
  case (Inl e)
  then show thesis using assms by simp
next
  case (Inr p)
  obtain ok cp2 where p: "p = (ok, cp2)" by (cases p)
  show thesis
  proof (cases "\<not> ok \<or> info \<in> set seen")
    case True
    then show thesis using assms Inr p that [of ok cp2 seen refined] by simp
  next
    case False
    then show thesis
      using assms Inr p that [of ok cp2 "info # seen" "refined @ [Some (entry\<lparr>Signer := Some m'\<rparr>)]"] by simp
  qed
qed

lemma cp_refine_sound:
  assumes "cp_refine_loop E msg es memInfo seen refined cp = Inr (R, cp')" and "cert_inv E cp" and "chains_start E"
    and "\<forall>e \<in> set es. by_certificate e"
  shows "cert_inv E cp' \<and> cp_same cp cp' \<and>
    (\<forall>e \<in> set R. e \<in> set refined \<or> attested_endorsement E cp msg e)"
  using assms(1,2,4)
proof (induction es arbitrary: memInfo seen refined cp)
  case Nil
  then show ?case by simp
next
  case (Cons e es)
  from Cons.prems(3) have es: "\<forall>e \<in> set es. by_certificate e" and "by_certificate e" by simp_all
  from this(2) obtain entry m where e: "e = Some entry" "Signer entry = Some m"
    "MemberType m \<in> {MemberType_CERT, MemberType_CERT_HASH, MemberType_ALIAS}"
    by (auto simp: by_certificate_def split: option.splits)
  obtain r cp1 where si: "signer_info E m memInfo cp = (r, cp1)" by fastforce
  note s = signer_info_cases [OF e(3) si]
  have same1: "cp_same cp cp1" using s by simp
  have inv1: "cert_inv E cp1"
    unfolding cert_inv_same [OF same1] using s Cons.prems(2) by (simp add: cert_inv_def)
  have att: "attested_endorsement E cp' msg = attested_endorsement E cp msg" if "cp_same cp cp'" for cp'
    using attested_same [OF that] by (simp add: attested_endorsement_def fun_eq_iff)
  show ?case
  proof (cases r)
    case None
    then have "cp_refine_loop E msg es memInfo seen refined cp1 = Inr (R, cp')" using Cons.prems(1) e si by simp
    note ih = Cons.IH [OF this inv1 es, unfolded att [OF same1]]
    have "cp_same cp cp'" using ih cp_same_trans [OF same1, of cp'] by blast
    then show ?thesis using ih by blast
  next
    case (Some p)
    then obtain m' where m': "r = Some (MemberInfo m', m')" using s by (cases p) auto
    obtain ok cp2 seen' refined' where a: "authenticate E m' (Signature entry) msg (MemberInfo m') cp1 = Inr (ok, cp2)"
      and loop: "cp_refine_loop E msg es (MemberInfo m') seen' refined' cp2 = Inr (R, cp')"
      and ref: "refined' = refined \<or> ok \<and> refined' = refined @ [Some (entry\<lparr>Signer := Some m'\<rparr>)]"
      by (rule cp_refine_step [OF si [unfolded m'] e(2) Cons.prems(1) [unfolded e(1)]])
    note au = authenticate_sound [OF a inv1 assms(3)]
    have same2: "cp_same cp cp2" using s au cp_same_trans by blast
    have "refined' = refined \<or> refined' = refined @ [Some (entry\<lparr>Signer := Some m'\<rparr>)] \<and>
        attested_endorsement E cp msg (Some (entry\<lparr>Signer := Some m'\<rparr>))"
      using ref au s by (auto simp: attested_endorsement_def attested_same)
    moreover from Cons.IH [OF loop _ es] au
    have "cert_inv E cp' \<and> cp_same cp2 cp' \<and> (\<forall>e \<in> set R. e \<in> set refined' \<or> attested_endorsement E cp msg e)"
      using att [OF same2] by simp
    ultimately show ?thesis using cp_same_trans [OF same2] by auto
  qed
qed

end
