(* ===== verification/AC_Cert_Claims.thy ===== *)
theory AC_Cert_Claims
  imports AC_Cert_Laws
begin

section \<open>Access control: theorems on the certificate provider\<close>

text \<open>
  What a refined endorsement shows, how an ordinary certificate passes for an administrator's, and
  when the handler of the message that freezes certificates returns.
\<close>

subsection \<open>An example\<close>

definition ex_cert_of :: "string \<Rightarrow> bcCertificate" where
  "ex_cert_of s = the (ex_cert s)"

text \<open>The organisation \<^verbatim>\<open>o\<close> with the certificates of an administrator and of a client.\<close>

definition ex_cp :: certAC where
  "ex_cp =
    \<lparr>cp_acs = (initAccessControlService exE ''SHA256'' ''permissionedwithcert'' AddrType_CHAINMAKER)
       \<lparr>orgNum := 1,
        orgInfos := [(''o'', Some \<lparr>org_id = ''o'',
           trustedRootCerts = [(''Coak'', ex_cert_of ''Coak''), (''Cocl'', ex_cert_of ''Cocl'')],
           trustedIntermediateCerts = []\<rparr>)]\<rparr>,
     cp_certCache = NewShardCache 10, cp_crl = Map.empty, cp_frozenList = Map.empty, cp_Roots = [],
     cp_Intermediates = [],
     cp_localOrg = \<lparr>org_id = ''o'', trustedRootCerts = [], trustedIntermediateCerts = []\<rparr>,
     cp_trustMembers = Map.empty, cp_payerList = NewShardCache 10, cp_consensusType = TBFT_type\<rparr>"

definition ex_by_cert :: "i32 \<Rightarrow> string \<Rightarrow> gobytes \<Rightarrow> EndorsementEntry option" where
  "ex_by_cert t info sig =
     Some \<lparr>Signer = Some \<lparr>OrgId = ''o'', MemberType = t, MemberInfo = info\<rparr>, Signature = sig\<rparr>"

lemma ex_cp_inv: "cert_inv exE ex_cp"
proof -
  have "memberCache (cp_acs ex_cp) = NewShardCache (GetCertCacheSize exE)"
    by (simp add: ex_cp_def initAccessControlService_def)
  then show ?thesis by (simp add: cert_inv_def cache_ok_New sc.entries_def)
qed

lemma exE_chains: "chains_start exE"
  by (auto simp: chains_start_def exE_def)

subsection \<open>Refined endorsements\<close>

text \<open>
  C38: Certificates: what is counted is attested. In a state whose cache holds members created from
  the certificates under which they are cached, refining endorsements whose signers are
  certificates, hashes or aliases keeps the cache in that condition, and every endorsement that is
  left carries a signature over the message that is valid under the certificate it names, and this
  certificate belongs to a trusted member or is neither revoked nor frozen now, even when the
  member comes from the cache.
\<close>

theorem cert_endorsements_attested:
  assumes "chains_start E" and "cert_inv E cp" and "\<forall>e \<in> set es. by_certificate e"
    and "cp_RefineEndorsements E es msg cp = Inr (R, cp')"
  shows "cert_inv E cp' \<and> (\<forall>e \<in> set R. attested_endorsement E cp msg e)"
  using cp_refine_sound [OF assms(4) [unfolded cp_RefineEndorsements_def] assms(2,1,3)] by simp

definition ex_admin_signs :: "EndorsementEntry option list" where
  "ex_admin_signs = [ex_by_cert MemberType_CERT ''Coak'' (Some ''ktx'')]"

lemma ex_admin_signs_run:
  "map_option fst (case cp_RefineEndorsements exE ex_admin_signs (Some ''tx'') ex_cp of Inl _ \<Rightarrow> None | Inr p \<Rightarrow> Some p)
     = Some ex_admin_signs"
  by code_simp

theorem cert_endorsements_attested_witness:
  "attested_endorsement exE ex_cp (Some ''tx'') (ex_by_cert MemberType_CERT ''Coak'' (Some ''ktx''))"
proof -
  obtain cp' where run: "cp_RefineEndorsements exE ex_admin_signs (Some ''tx'') ex_cp = Inr (ex_admin_signs, cp')"
    using ex_admin_signs_run by (auto split: sum.splits)
  have "\<forall>e \<in> set ex_admin_signs. by_certificate e" by code_simp
  from cert_endorsements_attested [OF exE_chains ex_cp_inv this run]
  show ?thesis by (simp add: ex_admin_signs_def)
qed

subsection \<open>A signer of an unknown type\<close>

text \<open>
  C39: Certificates: an ordinary certificate can endorse as an administrator. Let two members of
  the same organisation be cached, an ordinary one under its certificate \<open>C\<close>, in force, and an
  administrator under \<open>A\<close>. Two endorsements, the first by \<open>C\<close> with a signature that is not valid, the
  second with a signer of a type that is not a certificate, the member info \<open>A\<close> and a signature
  by the key of \<open>C\<close>, are refined to the second alone, and a SELF policy for the organisation
  allows the request: the administrator's key has signed nothing.
\<close>

theorem cert_forged_admin:
  assumes names: "names_ok E"
    and c: "lookUpMemberInCache (cp_acs cp) C = Some mcC" "mc_member mcC = Some (CertMember cmC)" "cm_orgId cmC = org"
    and force: "cp_trustMembers cp C = None" "checkCRL cp (mc_certChain mcC) = None"
      "checkCertFrozenList cp (mc_certChain mcC) = None"
    and a: "lookUpMemberInCache (cp_acs cp) A = Some mcA" "mc_member mcA = Some (CertMember cmA)"
      "cm_orgId cmA = org" "cm_role cmA = RoleAdmin E"
    and type: "t \<notin> {MemberType_CERT, MemberType_CERT_HASH, MemberType_ALIAS}"
    and bad: "cert_Verify E cmC (acHashType (cp_acs cp)) msg sig1 \<noteq> None"
    and good: "cert_Verify E cmC (acHashType (cp_acs cp)) msg sig2 = None"
    and rule: "pol_rule pol = RuleSelf E" "org \<noteq> []"
  shows "\<exists>R. cp_RefineEndorsements E
       [Some \<lparr>Signer = Some \<lparr>OrgId = org, MemberType = MemberType_CERT, MemberInfo = C\<rparr>, Signature = sig1\<rparr>,
        Some \<lparr>Signer = Some \<lparr>OrgId = org, MemberType = t, MemberInfo = A\<rparr>, Signature = sig2\<rparr>] msg cp = Inr (R, cp) \<and>
     cp_verifyPrincipalPolicy E
       \<lparr>pr_resourceName = name, pr_endorsement = es, pr_message = msg, pr_targetOrg = org\<rparr>
       \<lparr>pr_resourceName = name, pr_endorsement = R, pr_message = msg, pr_targetOrg = []\<rparr> pol cp = Inr (allowed, cp)"
proof -
  have ne: "RuleSelf E \<noteq> RuleForbidden E" "RuleSelf E \<noteq> RuleMajority E"
    using names by (auto simp: names_ok_def rule_names_def)
  let ?m = "\<lambda>t x. \<lparr>OrgId = org, MemberType = t, MemberInfo = x\<rparr>"
  have auth: "authenticate E (?m t' x) sig msg C cp = Inr (cert_Verify E cmC (acHashType (cp_acs cp)) msg sig = None, cp)"
    for t' x sig
    using c force
    by (simp add: authenticate_def verifyPrincipalSignerInCache_def allowed_def denied_def split: option.split)
  have "cp_RefineEndorsements E [Some \<lparr>Signer = Some (?m MemberType_CERT C), Signature = sig1\<rparr>,
      Some \<lparr>Signer = Some (?m t A), Signature = sig2\<rparr>] msg cp =
      Inr ([Some \<lparr>Signer = Some (?m t A), Signature = sig2\<rparr>], cp)"
    using type bad good by (simp add: cp_RefineEndorsements_def signer_info_def auth)
  moreover have "cp_verifyPrincipalPolicy E
       \<lparr>pr_resourceName = name, pr_endorsement = es, pr_message = msg, pr_targetOrg = org\<rparr>
       \<lparr>pr_resourceName = name, pr_endorsement = [Some \<lparr>Signer = Some (?m t A), Signature = sig2\<rparr>],
        pr_message = msg, pr_targetOrg = []\<rparr> pol cp = Inr (allowed, cp)"
    using rule ne a
    by (simp add: cp_verifyPrincipalPolicy_def cp_with_acs_def acs_verifyPrincipalPolicy_def verifySelfCase_def
        signer_def getMemberFromCache_def)
  ultimately show ?thesis by blast
qed

text \<open>The example: the members have been cached by two ordinary endorsements.\<close>

definition ex_cp_cached :: certAC where
  "ex_cp_cached = snd (projr (cp_RefineEndorsements exE
     [ex_by_cert MemberType_CERT ''Coak'' (Some ''kt0''), ex_by_cert MemberType_CERT ''Cocl'' (Some ''lt0'')]
     (Some ''t0'') ex_cp))"

definition ex_forgeable :: "certAC \<Rightarrow> bool" where
  "ex_forgeable cp =
     (case lookUpMemberInCache (cp_acs cp) ''Cocl'' of None \<Rightarrow> False
      | Some mcC \<Rightarrow>
        case lookUpMemberInCache (cp_acs cp) ''Coak'' of None \<Rightarrow> False
        | Some mcA \<Rightarrow>
          case mc_member mcC of None \<Rightarrow> False
          | Some memC \<Rightarrow>
            case mc_member mcA of None \<Rightarrow> False
            | Some memA \<Rightarrow>
              case memC of PkMember _ \<Rightarrow> False
              | CertMember c \<Rightarrow>
                case memA of PkMember _ \<Rightarrow> False
                | CertMember a \<Rightarrow>
                  cm_orgId c = ''o'' \<and> cm_role c = RoleClient exE \<and> cp_trustMembers cp ''Cocl'' = None \<and>
                  checkCRL cp (mc_certChain mcC) = None \<and> checkCertFrozenList cp (mc_certChain mcC) = None \<and>
                  cm_orgId a = ''o'' \<and> cm_role a = RoleAdmin exE \<and>
                  cert_Verify exE c (acHashType (cp_acs cp)) (Some ''tx'') (Some []) \<noteq> None \<and>
                  cert_Verify exE c (acHashType (cp_acs cp)) (Some ''tx'') (Some ''ltx'') = None)"

lemma ex_forgeable: "ex_forgeable ex_cp_cached"
  by code_simp

theorem cert_forged_admin_witness:
  "\<exists>R. cp_RefineEndorsements exE
       [ex_by_cert MemberType_CERT ''Cocl'' (Some []), ex_by_cert MemberType_PUBLIC_KEY ''Coak'' (Some ''ltx'')]
       (Some ''tx'') ex_cp_cached = Inr (R, ex_cp_cached) \<and>
     cp_verifyPrincipalPolicy exE
       \<lparr>pr_resourceName = ''r'', pr_endorsement = [], pr_message = Some ''tx'', pr_targetOrg = ''o''\<rparr>
       \<lparr>pr_resourceName = ''r'', pr_endorsement = R, pr_message = Some ''tx'', pr_targetOrg = []\<rparr>
       (newPolicy ''SELF'' [] [''ADMIN'']) ex_cp_cached = Inr (allowed, ex_cp_cached)"
proof -
  obtain mcC mcA c a where
    "lookUpMemberInCache (cp_acs ex_cp_cached) ''Cocl'' = Some mcC" "mc_member mcC = Some (CertMember c)" "cm_orgId c = ''o''"
    "cp_trustMembers ex_cp_cached ''Cocl'' = None" "checkCRL ex_cp_cached (mc_certChain mcC) = None"
    "checkCertFrozenList ex_cp_cached (mc_certChain mcC) = None"
    "lookUpMemberInCache (cp_acs ex_cp_cached) ''Coak'' = Some mcA" "mc_member mcA = Some (CertMember a)"
    "cm_orgId a = ''o''" "cm_role a = RoleAdmin exE"
    "cert_Verify exE c (acHashType (cp_acs ex_cp_cached)) (Some ''tx'') (Some []) \<noteq> None"
    "cert_Verify exE c (acHashType (cp_acs ex_cp_cached)) (Some ''tx'') (Some ''ltx'') = None"
    using ex_forgeable unfolding ex_forgeable_def
    by (simp split: option.split_asm acMember.split_asm)
  note facts = this
  have type: "MemberType_PUBLIC_KEY \<notin> {MemberType_CERT, MemberType_CERT_HASH, MemberType_ALIAS}" by (simp add: MemberType_defs)
  have rule: "pol_rule (newPolicy ''SELF'' [] [''ADMIN'']) = RuleSelf exE" "''o'' \<noteq> []" by (simp_all add: newPolicy_def exE_def)
  show ?thesis unfolding ex_by_cert_def
    by (rule cert_forged_admin [OF exE_names_ok facts(1-10) type facts(11,12) rule])
qed

subsection \<open>Freezing\<close>

definition pem_shrinks :: "acEnv \<Rightarrow> bool" where
  "pem_shrinks E \<longleftrightarrow> (\<forall>d b r. pem_Decode E d = (Some b, r) \<longrightarrow> length r < length d)"

lemma freeze_loop_returns:
  assumes "freeze_loop E mx (Some b) rest f = Some y"
  shows "\<not> (mx \<and> isConsensusCert E b)"
proof -
  have "\<forall>b. Some b' = Some b \<longrightarrow> \<not> (mx \<and> isConsensusCert E b)" if "freeze_loop E mx (Some b') rest f = Some y" for b'
    by (rule freeze_loop.raw_induct
        [where P = "\<lambda>E mx block rest f y. \<forall>b. block = Some b \<longrightarrow> \<not> (mx \<and> isConsensusCert E b)", OF _ that])
      (auto split: option.splits if_splits)
  then show ?thesis using assms by blast
qed

lemma freeze_loop_blocks:
  assumes "pem_shrinks E"
  shows "freeze_loop E mx (fst (pem_Decode E d)) (snd (pem_Decode E d)) f =
    (if mx \<and> (\<exists>b \<in> set (pem_blocks E d). isConsensusCert E b) then None
     else Some (store_all (map (\<lambda>b. (b, True)) (pem_blocks E d)) f))"
proof (induction d arbitrary: f rule: length_induct)
  case (1 d)
  show ?case
  proof (cases "fst (pem_Decode E d)")
    case None
    then have "pem_blocks E d = []" by (subst pem_blocks.simps) (auto split: prod.splits)
    then show ?thesis using None by (simp add: freeze_loop.simps)
  next
    case (Some b)
    then obtain rest where d: "pem_Decode E d = (Some b, rest)" by (cases "pem_Decode E d") simp
    then have shrinks: "length rest < length d" using assms unfolding pem_shrinks_def by blast
    then have blocks: "pem_blocks E d = b # pem_blocks E rest" by (subst pem_blocks.simps) (simp add: d)
    show ?thesis
    proof (cases "mx \<and> isConsensusCert E b")
      case True
      then have "freeze_loop E mx (Some b) rest f = None"
        using freeze_loop_returns [of E mx b rest f] by (cases "freeze_loop E mx (Some b) rest f") auto
      then show ?thesis using True blocks d by simp
    next
      case False
      then have "freeze_loop E mx (Some b) rest f =
          freeze_loop E mx (fst (pem_Decode E rest)) (snd (pem_Decode E rest)) (f(b \<mapsto> True))"
        by (subst freeze_loop.simps) auto
      then show ?thesis using 1 [rule_format, OF shrinks, of "f(b \<mapsto> True)"] blocks d False by auto
    qed
  qed
qed

text \<open>
  C40: Freezing certificates returns, except for consensus certificates under MaxBFT. When the PEM
  decoder consumes its input, the handler of the message that freezes certificates returns exactly
  when the consensus is not MaxBFT or no certificate of the list belongs to a consensus node, and
  then every certificate of the list is frozen. Otherwise the handler never returns: it continues
  with the certificate it wants to skip.
\<close>

theorem cert_freeze_returns:
  assumes "pem_shrinks E"
  shows "onMessageCertFreeze E certs cp =
    (if cp_consensusType cp = MAXBFT \<and> (\<exists>b \<in> set (pem_blocks E (commas_to_lines certs)). isConsensusCert E b) then None
     else Some (cp\<lparr>cp_frozenList :=
       store_all (map (\<lambda>b. (b, True)) (pem_blocks E (commas_to_lines certs))) (cp_frozenList cp)\<rparr>))"
  using freeze_loop_blocks [OF assms, of "cp_consensusType cp = MAXBFT" "commas_to_lines certs" "cp_frozenList cp"]
  by (auto simp: onMessageCertFreeze_def Let_def split: prod.splits)

lemma exE_shrinks: "pem_shrinks exE"
  by (auto simp: pem_shrinks_def exE_def split: if_splits)

theorem cert_freeze_returns_witness:
  "\<exists>cp'. onMessageCertFreeze exE ''Cocl'' ex_cp = Some cp' \<and> cp_frozenList cp' ''Cocl'' = Some True"
proof -
  have "cp_consensusType ex_cp \<noteq> MAXBFT" "pem_blocks exE (commas_to_lines ''Cocl'') = [''Cocl'']" by code_simp+
  then show ?thesis using cert_freeze_returns [OF exE_shrinks, of "''Cocl''" ex_cp] by simp
qed

end
