(* ===== verification/AC_Policy_Claims.thy ===== *)
theory AC_Policy_Claims
  imports AC_Pwk_Grants AC_Example
begin

section \<open>Access control: theorems on policies and multi-sign requests\<close>

text \<open>
  The rules that the validation of the configuration accepts are those that the evaluation knows,
  with one exception; the votes against a multi-sign request are counted with the policy of the
  request; a resource whose default policy is stored under another name.
\<close>

subsection \<open>Validated rules\<close>

definition unrecognized :: "verdict \<Rightarrow> bool" where
  "unrecognized v \<longleftrightarrow> snd v = Some ErrUnrecognizedRule \<or> snd v = Some ErrUnrecognizedType"

lemma any_loop_errors: "any_loop E cb orgs roles es s = Inr (v, s') \<Longrightarrow> v = allowed \<or> v = denied ErrNotMet"
proof (induction es arbitrary: s)
  case (Cons e es)
  then obtain ok where ok: "org_permitted orgs e = Inr ok" by (auto simp: go_bind_Inr_iff)
  show ?case
  proof (cases "ok \<and> roles \<noteq> []")
    case False
    then show ?thesis using Cons ok by (auto split: if_splits)
  next
    case True
    with Cons.prems ok obtain m r s1 where r: "signer e = Inr m" "getMemberFromCache E cb m s = Inr (r, s1)"
      "(case r of None \<Rightarrow> any_loop E cb orgs roles es s1
        | Some mem \<Rightarrow> if GetRole mem \<in> set roles then Inr (allowed, s1) else any_loop E cb orgs roles es s1) = Inr (v, s')"
      by (auto simp: go_bind_Inr_iff)
    then show ?thesis using Cons.IH by (cases r) (auto split: if_splits)
  qed
qed auto

text \<open>The rule of a policy as the default case reads it.\<close>

definition numeric_rule :: "string \<Rightarrow> bool" where
  "numeric_rule r =
     (case split_at CHR ''/'' r of
        [n] \<Rightarrow> Atoi n \<noteq> None | [n, d] \<Rightarrow> Atoi n \<noteq> None \<and> Atoi d \<noteq> None | _ \<Rightarrow> False)"

lemma verifyDefaultCase_unrecognized:
  assumes "verifyDefaultCase E cb pol es s = Inr (v, s')"
  shows "unrecognized v \<longleftrightarrow> \<not> numeric_rule (pol_rule pol)"
proof -
  have count: "go_bind c (\<lambda>(num, s). if b num s then Inr (allowed, s) else Inr (denied (ErrNotEnough num), s)) = Inr (v, s') \<Longrightarrow>
      \<not> unrecognized v" for c :: "(int \<times> acService) go" and b
    by (auto simp: go_bind_def unrecognized_def split: sum.splits if_splits)
  consider (one) k where "split_at CHR ''/'' (pol_rule pol) = [k]"
    | (two) k d where "split_at CHR ''/'' (pol_rule pol) = [k, d]"
    | (more) a b c ds where "split_at CHR ''/'' (pol_rule pol) = a # b # c # ds"
    by (metis neq_Nil_conv split_at_nonempty)
  then show ?thesis
  proof cases
    case one
    then show ?thesis using assms count
      by (cases "Atoi k") (auto simp: verifyDefaultCase_def buildOrgListRoleList_def numeric_rule_def unrecognized_def)
  next
    case two
    then show ?thesis using assms count
      by (cases "Atoi k"; cases "Atoi d")
        (auto simp: verifyDefaultCase_def buildOrgListRoleList_def numeric_rule_def unrecognized_def Let_def)
  next
    case more
    then show ?thesis using assms
      by (auto simp: verifyDefaultCase_def buildOrgListRoleList_def numeric_rule_def unrecognized_def)
  qed
qed

lemma named_rule_recognized:
  assumes "acs_verifyPrincipalPolicy E cb prin ref pol s = Inr (v, s')"
    and "pol_rule pol \<in> {RuleForbidden E, RuleMajority E, RuleSelf E, RuleAny E, RuleAll E}" and "names_ok E"
  shows "\<not> unrecognized v"
proof -
  have ne: "distinct [RuleAny E, RuleAll E, RuleMajority E, RuleSelf E, RuleForbidden E]"
    using assms(3) by (auto simp: names_ok_def rule_names_def)
  have count: "go_bind c (\<lambda>(num, s). if b num s then Inr (allowed, s) else Inr (denied (e num), s)) = Inr (v, s') \<Longrightarrow>
      (\<And>num. e num \<noteq> ErrUnrecognizedRule \<and> e num \<noteq> ErrUnrecognizedType) \<Longrightarrow> \<not> unrecognized v"
    for c :: "(int \<times> acService) go" and b e
    by (auto simp: go_bind_def unrecognized_def split: sum.splits if_splits)
  show ?thesis
  proof (cases "by_number E pol")
    case True
    then have "pol_rule pol = RuleMajority E \<or> pol_rule pol = RuleAll E" using assms(2) by (auto simp: by_number_def)
    then show ?thesis
    proof
      assume "pol_rule pol = RuleMajority E"
      then show ?thesis using assms(1) ne count [of _ "\<lambda>num s. orgCount s < 2 * num" ErrNotEnough]
        by (auto simp: acs_verifyPrincipalPolicy_def verifyMajorityCase_def)
    next
      assume "pol_rule pol = RuleAll E"
      then show ?thesis using assms(1) ne
        by (auto simp: acs_verifyPrincipalPolicy_def verifyAllCase_def buildOrgListRoleList_def go_bind_Inr_iff
            unrecognized_def split: if_splits)
    qed
  next
    case False
    then consider "pol_rule pol = RuleForbidden E" | "pol_rule pol = RuleSelf E" | "pol_rule pol = RuleAny E"
      by (auto simp: by_number_def)
    then show ?thesis
    proof cases
      case 1
      then show ?thesis using assms(1) by (auto simp: acs_verifyPrincipalPolicy_def unrecognized_def)
    next
      case 2
      then have run: "verifySelfCase E cb (pr_targetOrg prin) (pr_endorsement ref) s = Inr (v, s')"
        using assms(1) ne by (auto simp: acs_verifyPrincipalPolicy_def Let_def)
      show ?thesis
      proof (cases "pr_targetOrg prin = []")
        case True
        then show ?thesis using run by (auto simp: verifySelfCase_def unrecognized_def)
      next
        case False
        with run obtain w where w: "any_loop E cb [pr_targetOrg prin] [RoleAdmin E] (pr_endorsement ref) s = Inr (w, s')"
          "v = (if fst w then w else denied (ErrTargetOrg (pr_targetOrg prin)))"
          by (auto simp: verifySelfCase_def self_loop_any_loop go_bind_Inr_iff)
        then show ?thesis using any_loop_errors [OF w(1)] by (auto simp: unrecognized_def)
      qed
    next
      case 3
      then have "any_loop E cb (remdups (pol_orgList pol)) (remdups (pol_roleList pol)) (pr_endorsement ref) s = Inr (v, s')"
        using assms(1) ne by (auto simp: acs_verifyPrincipalPolicy_def verifyAnyCase_def buildOrgListRoleList_def Let_def)
      from any_loop_errors [OF this] show ?thesis by (auto simp: unrecognized_def)
    qed
  qed
qed

text \<open>
  A validated policy is evaluated, unless its rule is DELETE. When the validation of the
  configuration accepts the policy of a resource (certificates and permissioned keys), the
  evaluation refuses a request because it does not know the rule exactly when the rule is DELETE:
  the validation lets DELETE pass, the policy is stored like any other, and from then on no
  endorsements satisfy it.
\<close>

theorem validated_rules_recognized:
  assumes names: "names_ok E" and valid: "validateResourcePolicy E s0 rp" and p: "Policy rp = Some p"
    and run: "acs_verifyPrincipalPolicy E cb prin ref (newPolicyFromPb p) s = Inr (v, s')"
  shows "unrecognized v \<longleftrightarrow> pb_Rule p = RuleDelete E"
proof -
  let ?r = "pb_Rule p"
  have rule: "pol_rule (newPolicyFromPb p) = ?r" by (simp add: newPolicyFromPb_def)
  have ne: "distinct [RuleAny E, RuleAll E, RuleMajority E, RuleSelf E, RuleForbidden E, RuleDelete E]"
    using names by (simp add: names_ok_def rule_names_def)
  have check: "checkResourcePolicyRule E (ResourceName rp) p"
    using valid p by (auto simp: validateResourcePolicy_def split: if_splits)
  show ?thesis
  proof (cases "?r \<in> {RuleForbidden E, RuleMajority E, RuleSelf E, RuleAny E, RuleAll E}")
    case True
    then show ?thesis using named_rule_recognized [OF run _ names] rule ne by auto
  next
    case False
    then have d: "verifyDefaultCase E cb (newPolicyFromPb p) (pr_endorsement ref) s = Inr (v, s')"
      using run by (simp add: acs_verifyPrincipalPolicy_def rule)
    have "?r = RuleDelete E \<Longrightarrow> \<not> numeric_rule ?r"
      using names_ok_rules [OF names, of "RuleDelete E"] by (simp add: numeric_rule_def rule_names_def)
    moreover have "?r \<noteq> RuleDelete E \<Longrightarrow> numeric_rule ?r"
      using check False
      by (auto simp: checkResourcePolicyRule_def checkResourcePolicyRuleDefaultCase_def numeric_rule_def Let_def
          split: list.splits option.splits)
    ultimately show ?thesis using verifyDefaultCase_unrecognized [OF d] rule by auto
  qed
qed

definition ex_rp :: ResourcePolicy where
  "ex_rp = \<lparr>ResourceName = ''CONTRACT_MANAGE-INIT_CONTRACT'',
            Policy = Some \<lparr>pb_Rule = ''DELETE'', pb_OrgList = [], pb_RoleList = []\<rparr>\<rparr>"

theorem validated_rules_recognized_witness:
  "\<exists>v s'. acs_verifyPrincipalPolicy exE \<lparr>pwkNewMember = \<lambda>_. Inl ErrNotSupported, certVerify = \<lambda>_. None\<rparr>
      \<lparr>pr_resourceName = ''r'', pr_endorsement = [], pr_message = None, pr_targetOrg = []\<rparr>
      \<lparr>pr_resourceName = ''r'', pr_endorsement = [], pr_message = None, pr_targetOrg = []\<rparr>
      (newPolicyFromPb (the (Policy ex_rp))) (pp_acs ex_pp) = Inr (v, s') \<and> unrecognized v"
proof -
  have valid: "validateResourcePolicy exE (pp_acs ex_pp) ex_rp" by code_simp
  have rule: "pb_Rule (the (Policy ex_rp)) = RuleDelete exE" "Policy ex_rp = Some (the (Policy ex_rp))"
    by (simp_all add: ex_rp_def exE_def)
  let ?run = "acs_verifyPrincipalPolicy exE \<lparr>pwkNewMember = \<lambda>_. Inl ErrNotSupported, certVerify = \<lambda>_. None\<rparr>
      \<lparr>pr_resourceName = ''r'', pr_endorsement = [], pr_message = None, pr_targetOrg = []\<rparr>
      \<lparr>pr_resourceName = ''r'', pr_endorsement = [], pr_message = None, pr_targetOrg = []\<rparr>
      (newPolicyFromPb (the (Policy ex_rp))) (pp_acs ex_pp)"
  have "pol_rule (newPolicyFromPb (the (Policy ex_rp))) = ''DELETE''" by (simp add: ex_rp_def newPolicyFromPb_def)
  moreover have "split_at CHR ''/'' ''DELETE'' = [''DELETE'']" "Atoi ''DELETE'' = None" by code_simp+
  ultimately obtain v s' where "?run = Inr (v, s')"
    by (simp add: acs_verifyPrincipalPolicy_def verifyDefaultCase_def exE_def buildOrgListRoleList_def)
  then show ?thesis using validated_rules_recognized [OF exE_names_ok valid rule(2)] rule(1) by blast
qed

subsection \<open>Votes against a multi-sign request\<close>

text \<open>
  Votes against a multi-sign request count like votes for it. For every provider, when the rule
  of the policy is not FORBIDDEN, SELF or MAJORITY, whether the votes against a request refuse it
  is the same check, with the same policy, as whether those votes would pass it. So one vote
  against refuses a request that one vote could pass (ANY), and only unanimous rejection refuses a
  request that needs all (ALL). The policy that the code derives for refusals, with ANY and ALL
  exchanged, has no effect.
\<close>

lemma multi_sign_refusal_same_policy:
  assumes "pol_rule pol \<notin> {RuleForbidden E, RuleSelf E, RuleMajority E}"
  shows "map_sum id (\<lambda>(v, s). (fst v, s)) (isMultiSignRefused E p tx name pol v s) =
         map_sum id (\<lambda>(v, s). (fst v, s)) (isMultiSignPassed E p tx name pol v s)"
  using assms
  by (cases "verifyMultiSignEndorsementsPrincipal E p tx name v True s")
    (auto simp: isMultiSignRefused_def isMultiSignPassed_def)

end
