(* ===== verification/Spec2Isabelle.thy ===== *)
theory Spec2Isabelle
  imports Status_Claims Snapshot_Claims Pbft_Claims Sync_Claims AC_Pwk_Claims AC_Pk_Laws AC_Cert_Claims AC_Policy_Claims
begin

text \<open>
  \<^bold>\<open>ChainMaker: a verification library\<close>

  The repository holds a blockchain node (\<open>chainmaker-go-master\<close>), its consensus modules
  (\<open>consensus-tbft-master\<close>, \<open>consensus-pbft-master\<close>) and its protocol buffer messages
  (\<open>pb-go-master\<close>). This library models the two consensus modules, which decide which block is
  committed, and of the node the snapshots and the part of the scheduler in which transactions are
  executed in parallel and replayed along a dependency graph, the core engine that verifies and
  commits blocks, the synchronisation of blocks with other nodes, and the access control that
  decides whether the endorsements of a transaction or a message allow it.

  \<^bold>\<open>How the parts interact.\<close> The core engine hands a block to the consensus instance over the
  message bus; the instance signs a proposal and sends it, receives proposals and votes of its
  peers, counts the votes in vote sets, locks on a block with a majority of prevotes and commits
  it with a majority of precommits, which travel with the block as its certificate. A time
  scheduler delivers timeouts that end a step without a majority. Blocks that come by other ways
  are checked with \<open>VerifyBlockSignatures\<close>. The PBFT module has the same place, with pre-prepares,
  prepares, commits and view changes. The proposer executes the transactions of a block in parallel
  on a snapshot, which applies a result only if the keys it read have not been written since, and
  builds a graph of the conflicts; the verifier executes the block along that graph. A verified
  block waits in the proposal cache, by height and fingerprint, until consensus decides; then the
  committer puts it into the store. A node that lags behind asks its peers for blocks, which pass
  the same verifier, with a check of the votes that they carry, and the same committer. Access
  control answers the consensus modules, which ask it to verify the signatures of votes, and the
  verifier and the pool, which ask it about transactions: it looks up the policy of the resource,
  refines the endorsements to those with valid signatures of members, whom it caches, and evaluates
  the rule of the policy on them. The consensus and core theories take its answers as a parameter;
  the theories \<open>AC_\<close> model how it finds them.

  \<^bold>\<open>The theories\<close>, in the order of their imports:

  \<^item> \<open>Go_Prelude\<close>: the parts of Go the code uses: fixed-width integers with Go's truncating
    division, nil and non-nil byte slices, maps as association lists or functions, and panics as
    the left values of \<^typ>\<open>'a go\<close>. \<open>Base64\<close>, \<open>Go_Strconv\<close>: the standard library functions
    \<open>base64.StdEncoding.EncodeToString\<close>, \<open>strconv.ParseUint\<close>, \<open>Atoi\<close> and \<open>ParseBool\<close>.
  \<^item> \<open>Validator_Set\<close>: \<open>validator.go\<close>, the validators and the choice of the proposer.
  \<^item> \<open>Tbft_Types\<close>, \<open>Vote_Set\<close>: the messages and \<open>vote.go\<close>. \<open>Vote_Laws\<close>, \<open>Vote_Tally\<close>,
    \<open>Height_Votes\<close>: the invariant of the vote sets, quorums (locale \<open>quorum_system\<close>), the vote
    store contract (locale \<open>vote_store\<close>, interpreted by vote sets, by the vote sets of the
    consistency layer and by the vote sets of a height), the round trip over the message, and the
    tally of invalid transactions.
  \<^item> \<open>Consensus_State\<close>: \<open>state.go\<close>, with the contract of caches by height (locale
    \<open>height_cache\<close>). \<open>Timesched\<close>: \<open>timesched.go\<close> as a step relation. \<open>Chain_Config\<close>: the
    consensus part of the configuration. \<open>Qc_Verify\<close>: \<open>utils.go\<close>, certificates.
  \<^item> \<open>Tbft_Core\<close>, \<open>Tbft_Steps\<close>, \<open>Tbft_Handlers\<close>, \<open>Tbft_Entry\<close>:
    \<open>consensus_tbft_impl.go\<close>, with \<open>tbft_msg.go\<close> and \<open>consensus_msg.go\<close>. The state of the
    instance is the record \<open>TBFT\<close>; a method is a function on it, a panic is a left value; calls to
    other components are appended to \<open>outs\<close>, and the answers of other components are the
    argument \<open>env\<close>. \<open>handle_once\<close> is one iteration of the loop \<open>handle\<close>.
  \<^item> \<open>Tbft_Inv\<close>, \<open>Tbft_Trans\<close>, \<open>Tbft_Handler_Trans\<close>, \<open>Tbft_Machine\<close>: the invariant of an
    instance and that every method, every handler, the start and the message bus keep it; the
    states of a running node are the inductive predicate \<open>running\<close>.
  \<^item> \<open>Tbft_Example\<close>: a run from construction to a committed block, evaluated by the simplifier.
    \<open>Tbft_Claims\<close>: the properties with their witnesses.

  \<^item> \<open>Quorums\<close>: the arithmetic of two thirds in 32 bits and the locale \<open>quorum_system\<close>.
    \<open>Tbft_Status\<close>, \<open>Status_Claims\<close>: \<open>tbft_status.go\<close> and \<open>tbft_status_broadcaster.go\<close>, the
    round certificates sent to peers that lag behind.
  \<^item> \<open>Shard_Map\<close>, \<open>Snapshot\<close>, \<open>Snapshot_Dag\<close>, \<open>Snapshot_Manager\<close>: \<open>module/snapshot\<close>, the
    sharded tables, reading and applying transactions, the dependency graph, and the chain of
    snapshots of the proposed blocks. \<open>Dag_Scheduler\<close>: the graph functions and
    \<open>SimulateWithDag\<close> of \<open>scheduler.go\<close>. \<open>Snapshot_Serial\<close>, \<open>Dag_Replay\<close>: parallel execution
    against serial execution. \<open>Snapshot_Claims\<close>: the properties.
  \<^item> \<open>Pbft_Types\<close>, \<open>Pbft_Core\<close>, \<open>Pbft_Handlers\<close>, \<open>Pbft_Timesched\<close>: the PBFT module
    (\<open>validator.go\<close>, \<open>vote.go\<close>, \<open>state.go\<close>, \<open>pbft_msg.go\<close>, \<open>consensus_pbft_impl.go\<close>,
    \<open>utils.go\<close>, \<open>timesched.go\<close>), in the style of the TBFT theories; the contract of its two
    kinds of vote sets is the locale \<open>ballot_box\<close>. \<open>Pbft_Inv\<close>, \<open>Pbft_Machine\<close>: the invariant
    of a running node (\<open>pbft_running\<close>). \<open>Pbft_Example\<close>: a run over two views.
    \<open>Pbft_Claims\<close>: the properties.
  \<^item> \<open>Core_Cache\<close>: \<open>module/core/cache\<close> and \<open>lock_helper.go\<close>. \<open>Block_Checks\<close>, \<open>Block_Verifier\<close>,
    \<open>Block_Committer\<close>: the checks, the recovery, the verification and the addition of blocks
    (\<open>block_helper.go\<close>, \<open>committer.go\<close>, \<open>coinbase_mgr.go\<close>, \<open>v220_compat.go\<close> of
    \<open>module/core/common\<close>, and \<open>module/core/syncmode/verifier\<close>). The state of the engine is the
    record \<open>coreState\<close>, with the blocks in the store and what was sent to other components; the
    record \<open>coreEnv\<close> holds the configuration, the hash and signature functions and the answers of
    the pool, the virtual machine and the store. \<open>Core_Laws\<close>: what each operation leaves alone,
    and what an added block extends. \<open>Core_Claims\<close>: the runs of the engine and their properties.
  \<^item> \<open>Sync_Types\<close>, \<open>Sync_Scheduler\<close>, \<open>Sync_Processor\<close>, \<open>Sync_Server\<close>: \<open>module/sync\<close>, the events with
    their priorities, the scheduler of requests, the processor of received blocks and the service
    around both, whose goroutines interleave in the step relation \<open>sync_reach\<close>. What the processor
    expects of the verifier and the committer is the locale \<open>block_adder\<close>, interpreted by the core
    engine (\<open>core_blocks\<close>). \<open>Sync_Laws\<close>: no received block is forgotten. \<open>Sync_Requests\<close>: the
    choice of peers and the way of a request. \<open>Sync_Example\<close>: a run. \<open>Sync_Claims\<close>: the properties.
  \<^item> \<open>AC_Types\<close>, \<open>AC_Cache\<close>, \<open>AC_Policies\<close>, \<open>AC_Member\<close>, \<open>AC_Service\<close>, \<open>AC_Provider\<close>:
    \<open>module/accesscontrol\<close>, the data, the sharded caches (contract: locale \<open>lossy_cache\<close>, an entry may
    vanish but is never wrong), the tables of default policies of all versions, members, the
    service that evaluates policies (\<open>ac_server.go\<close>) and the checks over the interface of a provider
    (\<open>provider.go\<close>, \<open>provider220.go\<close>, \<open>provider2320.go\<close>). \<open>AC_Pwk\<close>, \<open>AC_Pk\<close>, \<open>AC_Cert\<close>,
    \<open>AC_Cert_Events\<close>: the three providers with their subscribers: permissioned keys, public keys,
    certificates. The state of a provider is a record (\<open>permissionedPk\<close>, \<open>pkAC\<close>, \<open>certAC\<close>); the record
    \<open>acEnv\<close> holds the constants of the package \<open>protocol\<close>, keys, certificates, hashes and the store.
  \<^item> \<open>AC_Keeps\<close>: the locale \<open>provider_keeps\<close>: what the operations of a provider keep, all its checks
    keep. \<open>AC_Pwk_Laws\<close>, \<open>AC_Pwk_Grants\<close>, \<open>AC_Pwk_Refine\<close>, \<open>AC_Pwk_Inv\<close>: the specification of a
    policy (\<open>grants\<close>), that the loops compute it, and the states of a provider (\<open>pwk_reach\<close>).
    \<open>AC_Pk_Laws\<close>, \<open>AC_Cert_Laws\<close>: the same for the other two providers, as far as it holds.
    \<open>AC_Example\<close>: a concrete environment. \<open>AC_Pwk_Claims\<close>, \<open>AC_Cert_Claims\<close>, \<open>AC_Policy_Claims\<close>:
    the properties (those of public keys are in \<open>AC_Pk_Laws\<close>).

  \<^bold>\<open>What is shown.\<close> Of a running node: committed blocks carry certificates of more than two
  thirds of the validators; no double signing; precommits are backed by prevotes; the position
  never decreases; prevotes follow the lock; a majority makes the node commit. Of votes: the
  majority is recorded exactly when there is one, conflicting majorities convict more than a third
  of the validators, votes are never replaced, vote sets survive their encoding. Of certificates:
  accepted ones have a majority of valid votes, up to the race in the verification of the votes
  (\<open>late\<close>), and own ones are accepted if all their votes are valid. Of validators, configuration,
  caches and timeouts: rotation is fair from block version 2.3.1 on, windows and order. Of PBFT: committed blocks
  carry certificates, commits are backed by prepares, no double signing within a view; but agreement
  across views fails even at one node, and the check of a certificate does not count its votes. Of
  snapshots: what parallel execution applies is serialisable if the final keys in use do not collide;
  for transactions that write no key twice the graph orders the conflicts, and a completed execution along it
  refines the serial execution. Of the core
  engine: the store is a chain by height and hash, whatever is offered, if fingerprints tell blocks
  with different predecessors apart (\<open>fp_ok\<close>); synchronised blocks are verified with their votes,
  except those that are cached proposals. Of
  synchronisation: a received block is kept track of in every interleaving, unless the service is
  stopped and started again; requests go to the peer with the fewest open ones and lead to the
  block; but a node ahead of its peers is never told that it has caught up, and a block without
  header stops the node. Of access control: with permissioned keys a transaction passes only with
  the endorsements that its policy asks for, and for ordinary endorsements exactly with these, and
  the cache follows the configuration; with public keys a majority is counted by texts of keys, so that
  one administrator can reach it; with certificates what is counted carries a valid signature, but a signer of an
  unknown type can pass for an administrator, and freezing a consensus certificate hangs under MaxBFT.

  \<^bold>\<open>Bounds.\<close> The results about vote counts are for fewer than \<open>2\<^sup>3\<^sup>0\<close> validators, so that
  the 32-bit arithmetic on their number does not overflow; all other integers keep their width.
  A PBFT node is followed while its view counter is below its maximum. The graph results are for
  blocks whose numbers of transactions fit into 32 bits. There is no fuel: loops are structural
  recursions over finite lists, or partial functions (\<open>findRoundQC\<close>, \<open>findKey\<close>, \<open>findKeys\<close>)
  that are proved to return, \<open>findRoundQC\<close> for every round but the least 32-bit integer; the loop
  that freezes certificates (\<open>freeze_loop\<close>) is a partial function for which it is shown exactly when it returns.
  Loops over PEM texts end because the decoder consumes its input.

  \<^bold>\<open>Idealisations.\<close> \<open>VerifyBlock\<close>, \<open>AddBlock\<close> and the handlers of the consensus loops are atomic
  steps; cached proposals are values, although consensus later adds to the header that it shares
  with the cache. A PBFT node is followed with one access control and codec (\<open>env_ok\<close>), and with a
  log whose votes are valid (\<open>log_ok\<close>). In \<open>sim_step\<close> the first batch is queued at once and a
  failed submission to the pool does not occur.

  \<^bold>\<open>Not modelled.\<close> Metrics, logging and gauges; the encoders of protocol buffers, signatures,
  and X.509 certificates, which are arguments of the model with named hypotheses; the
  consistency engine's network loop. Of the scheduler the pools of goroutines, the gas accounting and
  the sender groups; of the core engine the building of blocks, the checks of single transactions
  and the variant for maxbft, whose results are arguments of the model; of synchronisation the
  conversion of the configured periods, which are floating-point numbers. The transaction filters (bloom and cuckoo filters of another
  repository behind a thin layer), the wiring of a blockchain, the RPC server, the network and the
  command line tools consist mostly of calls of code outside the repository.
\<close>

end
